(* ===== verification/JS_Prelude.thy ===== *)
theory JS_Prelude
  imports Main "HOL-Library.Sublist" "HOL-Library.Multiset"
begin

text \<open>
  What the components share: the parts of the JavaScript language and its standard library
  that the sources use, as executable functions, with the laws the component proofs rest on.

  A JavaScript string is a \<^typ>\<open>string\<close> whose characters are its code units below 256;
  a \<^verbatim>\<open>Map\<close> is an association list in insertion order; a thrown
  \<^verbatim>\<open>Error\<close> is the left summand of \<open>string + 'a\<close>, carrying its message;
  \<^verbatim>\<open>undefined\<close> in an optional field is \<^term>\<open>None\<close>;
  \<^verbatim>\<open>unknown\<close> data is a \<open>jsval\<close>. The clock
  (\<^verbatim>\<open>new Date().toISOString()\<close>) is a function from the number of readings made so
  far to the timestamp read.
\<close>

named_theorems js_simps \<open>equations that evaluate the library operations\<close>

type_synonym clock = "nat \<Rightarrow> string"
type_synonym 'a outcome = "string + 'a"

section \<open>Optional values and thrown errors\<close>

text \<open>\<open>x ?? d\<close> on an optional value.\<close>

definition nullish :: "'a option \<Rightarrow> 'a \<Rightarrow> 'a" where
  "nullish x d = (case x of None \<Rightarrow> d | Some v \<Rightarrow> v)"

lemma nullish_simps [simp, js_simps]: "nullish None d = d" "nullish (Some v) d = v"
  by (simp_all add: nullish_def)

text \<open>\<open>x || d\<close> on a string: the empty string is falsy.\<close>

definition str_or :: "string \<Rightarrow> string \<Rightarrow> string" where
  "str_or x d = (if x = [] then d else x)"

text \<open>\<open>x?.trim() || d\<close> on an optional string is built from the two and \<open>js_trim\<close> below.\<close>

definition outcome_bind :: "'a outcome \<Rightarrow> ('a \<Rightarrow> 'b outcome) \<Rightarrow> 'b outcome" where
  "outcome_bind r f = (case r of Inl e \<Rightarrow> Inl e | Inr x \<Rightarrow> f x)"

lemma outcome_bind_simps [simp, js_simps]:
  "outcome_bind (Inl e) f = Inl e" "outcome_bind (Inr x) f = f x"
  by (simp_all add: outcome_bind_def)

lemma outcome_bind_eq_Inr:
  "outcome_bind r f = Inr y \<longleftrightarrow> (\<exists>x. r = Inr x \<and> f x = Inr y)"
  by (cases r) simp_all

section \<open>Strings\<close>

definition js_starts_with :: "string \<Rightarrow> string \<Rightarrow> bool" where
  "js_starts_with s p = prefix p s"

fun js_includes :: "string \<Rightarrow> string \<Rightarrow> bool" where
  "js_includes [] p = (p = [])"
| "js_includes (c # s) p = (prefix p (c # s) \<or> js_includes s p)"

lemma js_includes_sublist: "js_includes s p \<longleftrightarrow> sublist p s"
  by (induction s) (auto simp: sublist_Cons_right)

lemma js_includes_prefix: "prefix p s \<Longrightarrow> js_includes s p"
  by (simp add: js_includes_sublist prefix_imp_sublist)

text \<open>The white space and line terminators of \<^verbatim>\<open>String.prototype.trim\<close> below 256.\<close>

definition js_space :: "char \<Rightarrow> bool" where
  "js_space c = (of_char c \<in> {9, 10, 11, 12, 13, 32, 160 :: nat})"

definition js_trim :: "string \<Rightarrow> string" where
  "js_trim s = rev (dropWhile js_space (rev (dropWhile js_space s)))"

lemma js_trim_Nil [simp]: "js_trim [] = []"
  by (simp add: js_trim_def)

lemma js_trim_idem [simp]: "js_trim (js_trim s) = js_trim s"
proof -
  have "dropWhile js_space (js_trim s) = js_trim s"
  proof (cases "js_trim s")
    case (Cons c t)
    let ?d = "dropWhile js_space s"
    have "prefix (js_trim s) ?d"
      unfolding js_trim_def using suffix_dropWhile [of js_space "rev ?d"] by (simp add: suffix_to_prefix)
    then obtain u where "?d = c # t @ u" using Cons by (auto simp: prefix_def)
    then have "\<not> js_space c" by (metis dropWhile_eq_Cons_conv)
    with Cons show ?thesis by simp
  qed simp
  then show ?thesis by (simp add: js_trim_def [of "js_trim s"]) (simp add: js_trim_def dropWhile_idem)
qed

lemma js_trim_empty_iff: "js_trim s = [] \<longleftrightarrow> (\<forall>c \<in> set s. js_space c)"
proof -
  have "js_trim s = [] \<longleftrightarrow> (\<forall>c \<in> set (dropWhile js_space s). js_space c)"
    by (simp add: js_trim_def)
  also have "\<dots> \<longleftrightarrow> (\<forall>c \<in> set s. js_space c)"
    by (induction s) auto
  finally show ?thesis .
qed

lemma js_trim_no_space: "\<forall>c \<in> set s. \<not> js_space c \<Longrightarrow> js_trim s = s"
proof -
  assume n: "\<forall>c \<in> set s. \<not> js_space c"
  then have "dropWhile js_space s = s" by (cases s) simp_all
  moreover have "dropWhile js_space (rev s) = rev s" using n by (cases s rule: rev_cases) simp_all
  ultimately show ?thesis by (simp add: js_trim_def)
qed

text \<open>\<^verbatim>\<open>toLowerCase\<close> on the code units below 256.\<close>

definition js_lower_char :: "char \<Rightarrow> char" where
  "js_lower_char c =
     (let n = of_char c :: nat in
      if (65 \<le> n \<and> n \<le> 90) \<or> (192 \<le> n \<and> n \<le> 222 \<and> n \<noteq> 215) then char_of (n + 32) else c)"

definition js_lower :: "string \<Rightarrow> string" where
  "js_lower s = map js_lower_char s"

fun js_join :: "string \<Rightarrow> string list \<Rightarrow> string" where
  "js_join sep [] = []"
| "js_join sep [x] = x"
| "js_join sep (x # y # ys) = x @ sep @ js_join sep (y # ys)"

text \<open>\<^verbatim>\<open>split\<close> at a one-character separator; never the empty list.\<close>

fun js_split :: "char \<Rightarrow> string \<Rightarrow> string list" where
  "js_split c [] = [[]]"
| "js_split c (d # s) =
     (if d = c then [] # js_split c s
      else (case js_split c s of [] \<Rightarrow> [[d]] | w # ws \<Rightarrow> (d # w) # ws))"

lemma js_split_ne [simp]: "js_split c s \<noteq> []"
  by (induction s) (auto split: list.splits)

lemma js_split_no_sep: "w \<in> set (js_split c s) \<Longrightarrow> c \<notin> set w"
  by (induction s arbitrary: w) (auto split: if_splits list.splits)

lemma js_join_split: "js_join [c] (js_split c s) = s"
proof (induction s)
  case (Cons d s)
  obtain w ws where w: "js_split c s = w # ws"
    by (cases "js_split c s") auto
  with Cons show ?case
    by (cases ws) auto
qed simp

text \<open>The items of a list in a text, one line each.\<close>

definition bullets :: "string list \<Rightarrow> string list" where
  "bullets items = map (\<lambda>x. ''- '' @ x) items"

section \<open>Decimal numerals\<close>

definition digit_char :: "nat \<Rightarrow> char" where
  "digit_char n = char_of (48 + n)"

definition digit_val :: "char \<Rightarrow> nat option" where
  "digit_val c = (let n = of_char c in if 48 \<le> n \<and> n \<le> 57 then Some (n - 48) else None)"

lemma of_char_digit: "n < 10 \<Longrightarrow> (of_char (digit_char n) :: nat) = 48 + n"
  by (simp add: digit_char_def)

lemma digit_val_char [simp]: "n < 10 \<Longrightarrow> digit_val (digit_char n) = Some n"
  by (simp add: digit_val_def of_char_digit)

text \<open>\<^verbatim>\<open>String(n)\<close> for a natural number.\<close>

fun nat_str :: "nat \<Rightarrow> string" where
  "nat_str n = (if n < 10 then [digit_char n] else nat_str (n div 10) @ [digit_char (n mod 10)])"

declare nat_str.simps [simp del]

lemma nat_str_code [js_simps]:
  "nat_str n = (if n < 10 then [digit_char n] else nat_str (n div 10) @ [digit_char (n mod 10)])"
  by (rule nat_str.simps)

definition int_str :: "int \<Rightarrow> string" where
  "int_str i = (if i < 0 then ''-'' @ nat_str (nat (- i)) else nat_str (nat i))"

fun digits_val :: "nat \<Rightarrow> string \<Rightarrow> nat option" where
  "digits_val acc [] = Some acc"
| "digits_val acc (c # s) =
     (case digit_val c of None \<Rightarrow> None | Some d \<Rightarrow> digits_val (acc * 10 + d) s)"

lemma digits_val_append:
  "digits_val acc (s @ t) = Option.bind (digits_val acc s) (\<lambda>a. digits_val a t)"
  by (induction s arbitrary: acc) (auto split: option.splits)

lemma digits_val_nat_str: "digits_val 0 (nat_str n) = Some n"
proof (induction n rule: nat_str.induct)
  case (1 n)
  show ?case
  proof (cases "n < 10")
    case True
    then show ?thesis by (simp add: nat_str.simps [of n])
  next
    case False
    with 1 have "digits_val 0 (nat_str (n div 10)) = Some (n div 10)" by simp
    with False show ?thesis
      by (simp add: nat_str.simps [of n] digits_val_append)
  qed
qed

lemma nat_str_inj [simp]: "nat_str m = nat_str n \<longleftrightarrow> m = n"
  by (metis digits_val_nat_str option.inject)

lemma nat_str_ne [simp]: "nat_str n \<noteq> []"
  by (subst nat_str.simps) simp

text \<open>Fixed-width decimals, as \<^verbatim>\<open>padStart\<close> with zeros writes them.\<close>

fun pad :: "nat \<Rightarrow> nat \<Rightarrow> string" where
  "pad 0 n = []"
| "pad (Suc w) n = digit_char (n div 10 ^ w mod 10) # pad w n"

lemma length_pad [simp]: "length (pad w n) = w"
  by (induction w) auto

lemma digits_val_pad: "digits_val acc (pad w n) = Some (acc * 10 ^ w + n mod 10 ^ w)"
proof (induction w arbitrary: acc)
  case (Suc w)
  have "n mod 10 ^ Suc w = n mod 10 ^ w + 10 ^ w * (n div 10 ^ w mod 10)"
    using mod_mult2_eq [of n "10 ^ w" 10] by (simp add: mult.commute)
  then show ?case
    by (simp add: Suc algebra_simps)
qed (simp add: digit_val_char)

section \<open>String comparison\<close>

text \<open>The relational operators on strings compare code unit by code unit.\<close>

fun str_le :: "string \<Rightarrow> string \<Rightarrow> bool" where
  "str_le [] t = True"
| "str_le (c # s) [] = False"
| "str_le (c # s) (d # t) =
     ((of_char c :: nat) < of_char d \<or> c = d \<and> str_le s t)"

lemma str_le_refl [simp]: "str_le s s"
  by (induction s) auto

lemma str_le_total: "str_le s t \<or> str_le t s"
  by (induction s t rule: str_le.induct) (auto simp: not_less le_less)

lemma str_le_antisym: "str_le s t \<Longrightarrow> str_le t s \<Longrightarrow> s = t"
proof (induction s t rule: str_le.induct)
  case (1 t)
  then show ?case by (cases t) auto
qed auto

lemma str_le_trans: "str_le s t \<Longrightarrow> str_le t u \<Longrightarrow> str_le s u"
proof (induction s t arbitrary: u rule: str_le.induct)
  case (3 c s d t)
  then show ?case by (cases u) auto
qed auto

lemma str_le_append_same [simp]: "str_le (p @ s) (p @ t) = str_le s t"
  by (induction p) auto

text \<open>Equal-length prefixes decide a comparison unless they are equal.\<close>

lemma str_le_append:
  "length p = length q \<Longrightarrow>
   str_le (p @ s) (q @ t) = (if p = q then str_le s t else str_le p q)"
  by (induction p q rule: list_induct2) auto

text \<open>Fixed-width decimals compare as the numbers they write.\<close>

lemma str_le_pad_mod: "str_le (pad w m) (pad w n) \<longleftrightarrow> m mod 10 ^ w \<le> n mod 10 ^ w"
proof (induction w)
  case (Suc w)
  let ?a = "m div 10 ^ w mod 10" and ?b = "n div 10 ^ w mod 10"
  let ?r = "m mod 10 ^ w" and ?s = "n mod 10 ^ w"
  have m: "m mod 10 ^ Suc w = 10 ^ w * ?a + ?r" and n: "n mod 10 ^ Suc w = 10 ^ w * ?b + ?s"
    using mod_mult2_eq [of m "10 ^ w" 10] mod_mult2_eq [of n "10 ^ w" 10]
    by (simp_all add: mult.commute)
  have rs: "?r < 10 ^ w" "?s < 10 ^ w" by simp_all
  have step: "10 ^ w * x + u < 10 ^ w * y + v" if "x < y" "u < 10 ^ w" for x y u v :: nat
  proof -
    have "10 ^ w * x + u < 10 ^ w * Suc x" using that by simp
    also have "\<dots> \<le> 10 ^ w * y" using that by (intro mult_le_mono2) simp
    finally show ?thesis by simp
  qed
  have lt: "(of_char (digit_char ?a) :: nat) = 48 + ?a" "(of_char (digit_char ?b) :: nat) = 48 + ?b"
    by (simp_all add: of_char_digit)
  then have dc: "digit_char ?a = digit_char ?b \<longleftrightarrow> ?a = ?b"
    by (metis add_left_imp_eq)
  consider "?a < ?b" | "?b < ?a" | "?a = ?b" by linarith
  then show ?case
  proof cases
    case 1
    with step [OF 1 rs(1), of ?s] show ?thesis unfolding m n by (simp add: lt)
  next
    case 2
    with step [OF 2 rs(2), of ?r] dc show ?thesis unfolding m n by (simp add: lt)
  next
    case 3
    with Suc show ?thesis unfolding m n by simp
  qed
qed simp

lemma str_le_pad: "m < 10 ^ w \<Longrightarrow> n < 10 ^ w \<Longrightarrow> str_le (pad w m) (pad w n) \<longleftrightarrow> m \<le> n"
  by (simp add: str_le_pad_mod)

lemma pad_eq_iff: "m < 10 ^ w \<Longrightarrow> n < 10 ^ w \<Longrightarrow> pad w m = pad w n \<longleftrightarrow> m = n"
  by (metis str_le_pad str_le_refl le_antisym)

section \<open>Slugs\<close>

definition slug_char :: "char \<Rightarrow> bool" where
  "slug_char c =
     (let n = of_char c :: nat in (97 \<le> n \<and> n \<le> 122) \<or> (48 \<le> n \<and> n \<le> 57))"

text \<open>\<^verbatim>\<open>replace(/[^a-z0-9]+/g, '-')\<close>: every maximal run of other characters becomes one hyphen.\<close>

fun hyphenate :: "bool \<Rightarrow> string \<Rightarrow> string" where
  "hyphenate in_run [] = []"
| "hyphenate in_run (c # s) =
     (if slug_char c then c # hyphenate False s
      else if in_run then hyphenate True s else CHR ''-'' # hyphenate True s)"

text \<open>\<^verbatim>\<open>replace(/^-+|-+$/g, '')\<close>.\<close>

definition strip_hyphens :: "string \<Rightarrow> string" where
  "strip_hyphens s = rev (dropWhile (\<lambda>c. c = CHR ''-'') (rev (dropWhile (\<lambda>c. c = CHR ''-'') s)))"

lemma hyphenate_chars: "c \<in> set (hyphenate r s) \<Longrightarrow> slug_char c \<or> c = CHR ''-''"
  by (induction r s rule: hyphenate.induct) (auto split: if_splits)

lemma set_strip: "set (strip_hyphens s) \<subseteq> set s"
  by (auto simp: strip_hyphens_def dest!: set_dropWhileD)

end
