(* ===== verification/JS_Collections.thy ===== *)
theory JS_Collections
  imports JS_Prelude
begin

text \<open>
  The containers of the sources. A JavaScript \<^verbatim>\<open>Map\<close> iterates in insertion order, and
  \<^verbatim>\<open>set\<close> on a present key keeps the key's place: an association list with distinct keys.
  \<^verbatim>\<open>Array.prototype.sort\<close> is stable; its comparison is a parameter. Two interfaces are
  stated as locales: \<open>keyed_store\<close>, what the registries and the queue rely on of a
  \<^verbatim>\<open>Map\<close>, and \<open>collation\<close>, what a comparison must satisfy for a sort to sort.
\<close>

section \<open>Insertion-ordered maps\<close>

type_synonym ('k, 'v) js_map = "('k \<times> 'v) list"

definition jm_get :: "('k, 'v) js_map \<Rightarrow> 'k \<Rightarrow> 'v option" where
  "jm_get m k = map_of m k"

definition jm_has :: "('k, 'v) js_map \<Rightarrow> 'k \<Rightarrow> bool" where
  "jm_has m k = (jm_get m k \<noteq> None)"

fun jm_set :: "('k, 'v) js_map \<Rightarrow> 'k \<Rightarrow> 'v \<Rightarrow> ('k, 'v) js_map" where
  "jm_set [] k v = [(k, v)]"
| "jm_set ((k', v') # m) k v = (if k' = k then (k', v) # m else (k', v') # jm_set m k v)"

definition jm_keys :: "('k, 'v) js_map \<Rightarrow> 'k list" where
  "jm_keys m = map fst m"

definition jm_values :: "('k, 'v) js_map \<Rightarrow> 'v list" where
  "jm_values m = map snd m"

lemma jm_get_Nil [simp]: "jm_get [] k = None"
  by (simp add: jm_get_def)

lemma jm_get_set [simp]: "jm_get (jm_set m k v) k' = (if k' = k then Some v else jm_get m k')"
  by (induction m k v rule: jm_set.induct) (auto simp: jm_get_def)

lemma jm_keys_set [simp]:
  "jm_keys (jm_set m k v) = (if k \<in> set (jm_keys m) then jm_keys m else jm_keys m @ [k])"
  by (induction m k v rule: jm_set.induct) (auto simp: jm_keys_def)

lemma jm_get_None_iff: "jm_get m k = None \<longleftrightarrow> k \<notin> set (jm_keys m)"
  by (auto simp: jm_get_def jm_keys_def map_of_eq_None_iff)

lemma jm_get_key: "jm_get m k = Some v \<Longrightarrow> k \<in> set (jm_keys m)"
  using jm_get_None_iff [of m k] by auto

lemma jm_has_iff: "jm_has m k \<longleftrightarrow> k \<in> set (jm_keys m)"
  by (simp add: jm_has_def jm_get_None_iff)

lemma distinct_jm_keys_set [simp]: "distinct (jm_keys (jm_set m k v)) \<longleftrightarrow> distinct (jm_keys m)"
  by simp

lemma jm_values_in: "jm_get m k = Some v \<Longrightarrow> v \<in> set (jm_values m)"
  by (force simp: jm_get_def jm_values_def dest: map_of_SomeD)

lemma in_jm_values:
  "distinct (jm_keys m) \<Longrightarrow> v \<in> set (jm_values m) \<Longrightarrow> \<exists>k. jm_get m k = Some v"
  by (force simp: jm_get_def jm_keys_def jm_values_def)

lemma jm_values_set_subset: "set (jm_values (jm_set m k v)) \<subseteq> insert v (set (jm_values m))"
  by (induction m k v rule: jm_set.induct) (auto simp: jm_values_def)

text \<open>Writing a fresh key appends its value.\<close>

lemma jm_set_fresh: "jm_get m k = None \<Longrightarrow> jm_set m k v = m @ [(k, v)]"
  by (induction m k v rule: jm_set.induct) (auto simp: jm_get_def split: if_splits)

lemma jm_values_set_fresh: "jm_get m k = None \<Longrightarrow> jm_values (jm_set m k v) = jm_values m @ [v]"
  by (simp add: jm_set_fresh jm_values_def)

text \<open>A write changes one value and keeps the others where they are.\<close>

lemma length_jm_values_set:
  "length (jm_values (jm_set m k v)) = length (jm_values m) + (if jm_has m k then 0 else 1)"
  by (induction m k v rule: jm_set.induct) (auto simp: jm_values_def jm_has_def jm_get_def)

lemma jm_set_same: "jm_get m k = Some v \<Longrightarrow> jm_set m k v = m"
  by (induction m k v rule: jm_set.induct) (auto simp: jm_get_def)

lemma jm_set_set [simp]: "jm_set (jm_set m k v) k v' = jm_set m k v'"
  by (induction m k v rule: jm_set.induct) auto

text \<open>A map whose values carry their own key.\<close>

definition keyed_by :: "('v \<Rightarrow> 'k) \<Rightarrow> ('k, 'v) js_map \<Rightarrow> bool" where
  "keyed_by f m \<longleftrightarrow> distinct (jm_keys m) \<and> (\<forall>(k, v) \<in> set m. f v = k)"

lemma keyed_by_Nil [simp]: "keyed_by f []"
  by (simp add: keyed_by_def jm_keys_def)

lemma keyed_by_set: "keyed_by f m \<Longrightarrow> f v = k \<Longrightarrow> keyed_by f (jm_set m k v)"
proof -
  have "set (jm_set m k v) \<subseteq> insert (k, v) (set m)"
    by (induction m k v rule: jm_set.induct) auto
  then show "keyed_by f m \<Longrightarrow> f v = k \<Longrightarrow> keyed_by f (jm_set m k v)"
    by (auto simp: keyed_by_def)
qed

lemma keyed_by_get: "keyed_by f m \<Longrightarrow> jm_get m k = Some v \<Longrightarrow> f v = k"
  by (auto simp: keyed_by_def jm_get_def dest: map_of_SomeD)

lemma keyed_by_value: "keyed_by f m \<Longrightarrow> v \<in> set (jm_values m) \<Longrightarrow> jm_get m (f v) = Some v"
  by (auto simp: keyed_by_def jm_get_def jm_values_def jm_keys_def)

lemma keyed_keys: "keyed_by f m \<Longrightarrow> map f (jm_values m) = jm_keys m"
  by (auto simp: keyed_by_def jm_values_def jm_keys_def)

lemma distinct_keyed_values: "keyed_by f m \<Longrightarrow> distinct (map f (jm_values m))"
  by (simp add: keyed_keys) (simp add: keyed_by_def)

section \<open>The interface of a keyed store\<close>

text \<open>
  What a client of a \<^verbatim>\<open>Map\<close> relies on: lookup after a write, and an iteration order that
  appends new keys. The lemmas are about writing a batch of values under their own keys.
\<close>

locale keyed_store =
  fixes get :: "'m \<Rightarrow> 'k \<Rightarrow> 'v option"
    and put :: "'m \<Rightarrow> 'k \<Rightarrow> 'v \<Rightarrow> 'm"
    and keys :: "'m \<Rightarrow> 'k list"
  assumes get_put: "get (put m k v) k' = (if k' = k then Some v else get m k')"
    and keys_get: "k \<in> set (keys m) \<longleftrightarrow> get m k \<noteq> None"
    and keys_put: "keys (put m k v) = (if k \<in> set (keys m) then keys m else keys m @ [k])"
begin

lemma get_put_all_other:
  "k \<notin> f ` set vs \<Longrightarrow> get (foldl (\<lambda>m v. put m (f v) v) m vs) k = get m k"
  by (induction vs arbitrary: m) (auto simp: get_put)

lemma get_put_all:
  "distinct (map f vs) \<Longrightarrow> v \<in> set vs \<Longrightarrow>
   get (foldl (\<lambda>m v. put m (f v) v) m vs) (f v) = Some v"
  by (induction vs arbitrary: m) (auto simp: get_put get_put_all_other)

lemma keys_put_all:
  "distinct (map f vs) \<Longrightarrow> f ` set vs \<inter> set (keys m) = {} \<Longrightarrow>
   keys (foldl (\<lambda>m v. put m (f v) v) m vs) = keys m @ map f vs"
proof (induction vs arbitrary: m)
  case (Cons v vs)
  from Cons.prems have "f v \<notin> set (keys m)" by auto
  then have "keys (put m (f v) v) = keys m @ [f v]" by (simp add: keys_put)
  with Cons.prems Cons.IH [of "put m (f v) v"] show ?case by auto
qed simp

lemma keys_put_prefix: "prefix (keys m) (keys (put m k v))"
  by (simp add: keys_put)

end

interpretation jm: keyed_store jm_get jm_set jm_keys
  by unfold_locales (auto simp: jm_get_None_iff)

section \<open>Stable sorting\<close>

text \<open>\<open>le x y\<close> stands for \<open>compare(x, y) <= 0\<close>; equal elements keep their order.\<close>

fun ins_by :: "('a \<Rightarrow> 'a \<Rightarrow> bool) \<Rightarrow> 'a \<Rightarrow> 'a list \<Rightarrow> 'a list" where
  "ins_by le x [] = [x]"
| "ins_by le x (y # ys) = (if le x y then x # y # ys else y # ins_by le x ys)"

definition js_sort :: "('a \<Rightarrow> 'a \<Rightarrow> bool) \<Rightarrow> 'a list \<Rightarrow> 'a list" where
  "js_sort le xs = foldr (ins_by le) xs []"

lemma js_sort_simps [simp, js_simps]:
  "js_sort le [] = []" "js_sort le (x # xs) = ins_by le x (js_sort le xs)"
  by (simp_all add: js_sort_def)

lemma mset_ins_by [simp]: "mset (ins_by le x xs) = add_mset x (mset xs)"
  by (induction xs) auto

lemma mset_js_sort [simp]: "mset (js_sort le xs) = mset xs"
  by (induction xs) auto

lemma set_js_sort [simp]: "set (js_sort le xs) = set xs"
  by (metis mset_js_sort set_mset_mset)

lemma length_js_sort [simp]: "length (js_sort le xs) = length xs"
  by (metis mset_js_sort size_mset)

lemma js_sort_Nil_iff [simp]: "js_sort le xs = [] \<longleftrightarrow> xs = []"
  by (metis length_js_sort length_0_conv)

lemma distinct_js_sort [simp]: "distinct (map f (js_sort le xs)) = distinct (map f xs)"
  by (metis mset_js_sort mset_map mset_eq_imp_distinct_iff)

text \<open>A comparison that sorts: a total preorder on what is compared.\<close>

locale collation =
  fixes le :: "'a \<Rightarrow> 'a \<Rightarrow> bool"
  assumes total: "le x y \<or> le y x"
    and trans: "le x y \<Longrightarrow> le y z \<Longrightarrow> le x z"
begin

lemma refl: "le x x"
  using total [of x x] by simp

lemma ins_by_sorted:
  "sorted_wrt (\<lambda>a b. le (f a) (f b)) xs \<Longrightarrow>
   sorted_wrt (\<lambda>a b. le (f a) (f b)) (ins_by (\<lambda>a b. le (f a) (f b)) x xs)"
proof (induction xs)
  case (Cons y ys)
  have "set (ins_by (\<lambda>a b. le (f a) (f b)) x ys) = insert x (set ys)"
    by (metis mset_ins_by set_mset_mset set_mset_add_mset_insert)
  with Cons show ?case
    using total [of "f x" "f y"] by (auto intro: trans)
qed simp

lemma sort_sorted: "sorted_wrt (\<lambda>a b. le (f a) (f b)) (js_sort (\<lambda>a b. le (f a) (f b)) xs)"
  by (induction xs) (auto intro: ins_by_sorted)

lemma sort_hd_least:
  assumes "js_sort (\<lambda>a b. le (f a) (f b)) xs = y # ys" and "x \<in> set xs"
  shows "le (f y) (f x)"
proof -
  have "x \<in> set (y # ys)" using assms set_js_sort [of _ xs] by metis
  moreover have "sorted_wrt (\<lambda>a b. le (f a) (f b)) (y # ys)"
    using sort_sorted [of f xs] assms(1) by simp
  ultimately show ?thesis using refl by auto
qed

text \<open>An input in order is left as it is.\<close>

lemma sort_id:
  "sorted_wrt (\<lambda>a b. le (f a) (f b)) xs \<Longrightarrow> js_sort (\<lambda>a b. le (f a) (f b)) xs = xs"
proof (induction xs)
  case (Cons x xs)
  then show ?case by (cases xs) auto
qed simp

end

text \<open>The code-unit order of the relational operators is a collation.\<close>

interpretation code_units: collation str_le
  by unfold_locales (fact str_le_total, erule (1) str_le_trans)

text \<open>So is the order of the natural numbers.\<close>

interpretation numbers: collation "(\<le>) :: nat \<Rightarrow> nat \<Rightarrow> bool"
  by unfold_locales auto

section \<open>Sets\<close>

text \<open>A \<^verbatim>\<open>Set\<close> iterates in the order of first insertion.\<close>

definition set_add :: "'a list \<Rightarrow> 'a \<Rightarrow> 'a list" where
  "set_add xs x = (if x \<in> set xs then xs else xs @ [x])"

definition js_set :: "'a list \<Rightarrow> 'a list" where
  "js_set xs = foldl set_add [] xs"

lemma set_foldl_set_add: "set (foldl set_add acc xs) = set acc \<union> set xs"
  by (induction xs arbitrary: acc) (auto simp: set_add_def)

lemma distinct_foldl_set_add: "distinct acc \<Longrightarrow> distinct (foldl set_add acc xs)"
  by (induction xs arbitrary: acc) (auto simp: set_add_def)

lemma set_js_set [simp]: "set (js_set xs) = set xs"
  by (simp add: js_set_def set_foldl_set_add)

lemma distinct_js_set [simp]: "distinct (js_set xs)"
  by (simp add: js_set_def distinct_foldl_set_add)

lemma js_set_distinct: "distinct xs \<Longrightarrow> js_set xs = xs"
proof -
  have "distinct (acc @ xs) \<Longrightarrow> foldl set_add acc xs = acc @ xs" for acc
    by (induction xs arbitrary: acc) (auto simp: set_add_def)
  then show "distinct xs \<Longrightarrow> js_set xs = xs" by (simp add: js_set_def)
qed

section \<open>Objects as dictionaries\<close>

text \<open>
  An object lists its array indices first, in ascending order, then its other keys in the
  order of their creation.
\<close>

definition array_index :: "string \<Rightarrow> nat option" where
  "array_index s =
     (case digits_val 0 s of
        Some n \<Rightarrow> if nat_str n = s \<and> n < 4294967295 then Some n else None
      | None \<Rightarrow> None)"

definition object_entries :: "(string, 'v) js_map \<Rightarrow> (string \<times> 'v) list" where
  "object_entries m =
     js_sort (\<lambda>a b. nullish (array_index (fst a)) 0 \<le> nullish (array_index (fst b)) 0)
       (filter (\<lambda>(k, v). array_index k \<noteq> None) m) @
     filter (\<lambda>(k, v). array_index k = None) m"

lemma mset_object_entries [simp]: "mset (object_entries m) = mset m"
proof -
  have "filter (\<lambda>(k, v). array_index k = None) m = filter (\<lambda>x. \<not> (case x of (k, v) \<Rightarrow> array_index k \<noteq> None)) m"
    by (rule filter_cong) auto
  then show ?thesis
    unfolding object_entries_def mset_append mset_js_sort by (simp only: mset_filter multiset_partition [symmetric])
qed

lemma object_entries_idem [simp]: "object_entries (object_entries m) = object_entries m"
proof -
  let ?le = "\<lambda>a b. nullish (array_index (fst a)) 0 \<le> nullish (array_index (fst b)) 0"
  let ?i = "\<lambda>(k :: string, v). array_index k \<noteq> None" and ?o = "\<lambda>(k :: string, v). array_index k = None"
  let ?a = "js_sort ?le (filter ?i m)"
  have "\<forall>x \<in> set ?a. ?i x" by simp
  then have a: "filter ?i ?a = ?a" "filter ?o ?a = []" by (auto intro: filter_True filter_False)
  have "js_sort ?le ?a = ?a" by (rule numbers.sort_id) (rule numbers.sort_sorted)
  moreover have "filter ?i (filter ?o m) = []" "filter ?o (filter ?o m) = filter ?o m"
    by (auto simp: filter_empty_conv)
  ultimately show ?thesis using a unfolding object_entries_def by (simp only: filter_append append_Nil append_Nil2)
qed

lemma jm_get_perm:
  assumes "mset m = mset m'" "distinct (jm_keys m)"
  shows "jm_get m' k = jm_get m k"
proof -
  have "mset (map fst m') = mset (map fst m)" using assms(1) by (metis mset_map)
  then have "distinct (map fst m')" using assms(2) unfolding jm_keys_def by (metis mset_eq_imp_distinct_iff)
  then have "map_of m' = map_of m"
    using assms mset_eq_setD [OF assms(1)] unfolding jm_keys_def by (metis map_of_inject_set)
  then show ?thesis by (simp add: jm_get_def)
qed

section \<open>Rebuilding maps\<close>

lemma jm_set_snoc: "k \<notin> set (jm_keys m) \<Longrightarrow> jm_set (m @ [(k, v)]) k w = m @ [(k, w)]"
  by (induction m) (auto simp: jm_keys_def)

lemma jm_set_append_new: "k \<notin> set (jm_keys m) \<Longrightarrow> jm_set m k v = m @ [(k, v)]"
  by (induction m) (auto simp: jm_keys_def)

lemma jm_get_snoc: "k \<notin> set (jm_keys m) \<Longrightarrow> jm_get (m @ [(k, v)]) k = Some v"
  by (induction m) (auto simp: jm_keys_def jm_get_def)

text \<open>Setting the entries of a map with distinct keys, one after the other.\<close>

lemma fold_jm_set:
  "distinct (map f vs) \<Longrightarrow> set (map f vs) \<inter> set (jm_keys m) = {} \<Longrightarrow>
   fold (\<lambda>v m. jm_set m (f v) v) vs m = m @ map (\<lambda>v. (f v, v)) vs"
proof (induction vs arbitrary: m)
  case (Cons v vs)
  then have "set (map f vs) \<inter> set (jm_keys (m @ [(f v, v)])) = {}" by (auto simp: jm_keys_def)
  with Cons show ?case by (simp add: jm_set_append_new)
qed simp

lemma keyed_rebuild: "keyed_by f m \<Longrightarrow> fold (\<lambda>v m. jm_set m (f v) v) (jm_values m) [] = m"
proof -
  assume k: "keyed_by f m"
  then have "map (\<lambda>v. (f v, v)) (jm_values m) = m"
    by (auto simp: keyed_by_def jm_values_def intro!: map_idI)
  with k show ?thesis by (subst fold_jm_set) (simp_all add: distinct_keyed_values jm_keys_def)
qed

text \<open>Maps from a key to its versions, oldest first.\<close>

definition add_version :: "('v \<Rightarrow> 'k) \<Rightarrow> 'v \<Rightarrow> ('k, 'v list) js_map \<Rightarrow> ('k, 'v list) js_map" where
  "add_version f v m = jm_set m (f v) (nullish (jm_get m (f v)) [] @ [v])"

definition versions_ok :: "('v \<Rightarrow> 'k) \<Rightarrow> ('k, 'v list) js_map \<Rightarrow> bool" where
  "versions_ok f m \<longleftrightarrow> distinct (jm_keys m) \<and> (\<forall>(k, vs) \<in> set m. vs \<noteq> [] \<and> (\<forall>v \<in> set vs. f v = k))"

lemma versions_ok_Nil [simp]: "versions_ok f []"
  by (simp add: versions_ok_def jm_keys_def)

lemma set_jm_set: "(k', v') \<in> set (jm_set m k v) \<Longrightarrow> (k', v') = (k, v) \<or> (k', v') \<in> set m"
  by (induction m k v rule: jm_set.induct) (auto split: if_splits)

lemma versions_ok_add: "versions_ok f m \<Longrightarrow> versions_ok f (add_version f v m)"
proof -
  assume ok: "versions_ok f m"
  have "\<forall>x \<in> set (nullish (jm_get m (f v)) []). f x = f v"
  proof (cases "jm_get m (f v)")
    case (Some vs)
    then have "(f v, vs) \<in> set m" by (simp add: jm_get_def map_of_SomeD)
    with ok Some show ?thesis by (auto simp: versions_ok_def)
  qed simp
  with ok show ?thesis
    by (auto simp: versions_ok_def add_version_def distinct_jm_keys_set dest!: set_jm_set)
qed

lemma fold_versions:
  "k \<notin> set (jm_keys m) \<Longrightarrow> \<forall>v \<in> set vs. f v = k \<Longrightarrow> vs \<noteq> [] \<Longrightarrow>
   fold (add_version f) vs m = m @ [(k, vs)]"
proof (induction vs rule: rev_induct)
  case (snoc v vs)
  then show ?case
    by (cases "vs = []")
      (simp_all add: add_version_def jm_set_append_new jm_get_snoc jm_set_snoc jm_get_None_iff [THEN iffD2])
qed simp

lemma versions_rebuild: "versions_ok f m \<Longrightarrow> fold (add_version f) (concat (jm_values m)) [] = m"
proof -
  have "versions_ok f (a @ m) \<Longrightarrow> fold (add_version f) (concat (jm_values m)) a = a @ m" for a
  proof (induction m arbitrary: a)
    case (Cons kv m)
    obtain k vs where kv: "kv = (k, vs)" by (cases kv)
    with Cons.prems have "k \<notin> set (jm_keys a)" "\<forall>v \<in> set vs. f v = k" "vs \<noteq> []"
      by (auto simp: versions_ok_def jm_keys_def)
    then have "fold (add_version f) vs a = a @ [(k, vs)]" by (rule fold_versions)
    then show ?case using Cons.IH [of "a @ [(k, vs)]"] Cons.prems kv by (simp add: jm_values_def)
  qed (simp add: jm_values_def)
  then show "versions_ok f m \<Longrightarrow> fold (add_version f) (concat (jm_values m)) [] = m" by (metis append_Nil)
qed

end
