(* ===== verification/JS_Date.thy ===== *)
theory JS_Date
  imports JS_Collections "HOL-Library.Monad_Syntax"
begin

text \<open>
  \<^verbatim>\<open>Date.parse\<close> and \<^verbatim>\<open>Date.prototype.toISOString\<close>, on time values in
  milliseconds since the epoch. \<^verbatim>\<open>NaN\<close> is \<^term>\<open>None\<close>. The parser reads the
  ECMAScript date time string format: the date forms \<^verbatim>\<open>YYYY\<close>, \<^verbatim>\<open>YYYY-MM\<close>,
  \<^verbatim>\<open>YYYY-MM-DD\<close>, each alone or followed by \<^verbatim>\<open>THH:mm\<close>,
  \<^verbatim>\<open>THH:mm:ss\<close> or \<^verbatim>\<open>THH:mm:ss.sss\<close> and then by nothing (read as UTC),
  \<^verbatim>\<open>Z\<close> or an offset; years have four digits, or a sign and six. Other strings, whose
  meaning the language leaves to the implementation, parse to \<^verbatim>\<open>NaN\<close>.

  The two facts the components use: printing and parsing are inverse, and the printed
  timestamps of the years 0 to 9999 compare as strings in the order of their times.
\<close>

section \<open>The calendar\<close>

definition day_from_year :: "int \<Rightarrow> int" where
  "day_from_year y = 365 * (y - 1970) + (y - 1969) div 4 - (y - 1901) div 100 + (y - 1601) div 400"

definition leap_year :: "int \<Rightarrow> bool" where
  "leap_year y = (y mod 4 = 0 \<and> (y mod 100 \<noteq> 0 \<or> y mod 400 = 0))"

definition days_in_year :: "int \<Rightarrow> int" where
  "days_in_year y = (if leap_year y then 366 else 365)"

lemma div_step:
  assumes k: "0 < (k::int)"
  shows "(x + 1) div k = x div k + (if (x + 1) mod k = 0 then 1 else 0)"
proof (cases "x mod k + 1 = k")
  case True
  moreover have "x = k * (x div k) + x mod k" by simp
  ultimately have "x + 1 = k * (x div k) + k" by linarith
  then have "x + 1 = k * (x div k + 1) + 0" by (simp only: distrib_left mult_1_right add_0_right)
  moreover from this have "(x + 1) mod k = 0" by (metis add_0_right mod_mult_self1_is_0)
  ultimately show ?thesis using k by (simp add: int_div_pos_eq)
next
  case False
  moreover have "0 \<le> x mod k" "x mod k < k" using k by simp_all
  ultimately have r: "0 \<le> x mod k + 1" "x mod k + 1 < k" by linarith+
  have x: "x + 1 = k * (x div k) + (x mod k + 1)" by simp
  have "(x + 1) div k = x div k" "(x + 1) mod k = x mod k + 1"
    using int_div_pos_eq [OF x r] int_mod_pos_eq [OF x r] by simp_all
  then show ?thesis using k by (simp add: add_nonneg_eq_0_iff)
qed

lemma day_from_year_Suc: "day_from_year (y + 1) = day_from_year y + days_in_year y"
proof -
  have e4: "(y + 1 - 1969) div 4 = (y - 1969) div 4 + (if y mod 4 = 0 then 1 else 0)"
  proof -
    have "y - 1969 + 1 = y + (-492) * 4" by simp
    then have "(y - 1969 + 1) mod 4 = 0 \<longleftrightarrow> y mod 4 = 0" by (simp only: mod_mult_self1)
    then show ?thesis using div_step [of 4 "y - 1969"] by (simp add: algebra_simps)
  qed
  have e100: "(y + 1 - 1901) div 100 = (y - 1901) div 100 + (if y mod 100 = 0 then 1 else 0)"
  proof -
    have "y - 1901 + 1 = y + (-19) * 100" by simp
    then have "(y - 1901 + 1) mod 100 = 0 \<longleftrightarrow> y mod 100 = 0" by (simp only: mod_mult_self1)
    then show ?thesis using div_step [of 100 "y - 1901"] by (simp add: algebra_simps)
  qed
  have e400: "(y + 1 - 1601) div 400 = (y - 1601) div 400 + (if y mod 400 = 0 then 1 else 0)"
  proof -
    have "y - 1601 + 1 = y + (-4) * 400" by simp
    then have "(y - 1601 + 1) mod 400 = 0 \<longleftrightarrow> y mod 400 = 0" by (simp only: mod_mult_self1)
    then show ?thesis using div_step [of 400 "y - 1601"] by (simp add: algebra_simps)
  qed
  define a b c where abc: "a = (y - 1969) div 4" "b = (y - 1901) div 100" "c = (y - 1601) div 400"
  have y: "day_from_year y = 365 * (y - 1970) + a - b + c"
    by (simp only: day_from_year_def abc)
  have y1: "day_from_year (y + 1) = 365 * (y + 1 - 1970) + (a + (if y mod 4 = 0 then 1 else 0))
      - (b + (if y mod 100 = 0 then 1 else 0)) + (c + (if y mod 400 = 0 then 1 else 0))"
    by (simp only: day_from_year_def abc e4 e100 e400)
  have "y mod 400 = 0 \<Longrightarrow> y mod 100 = 0" "y mod 100 = 0 \<Longrightarrow> y mod 4 = 0"
    by (auto simp: mod_eq_0_iff_dvd intro: dvd_trans [of 100 400 y] dvd_trans [of 4 100 y])
  then show ?thesis
    unfolding y y1 days_in_year_def leap_year_def
    by (cases "y mod 4 = 0"; cases "y mod 100 = 0"; cases "y mod 400 = 0"; simp)
qed

lemma days_in_year_pos: "0 < days_in_year y" "days_in_year y \<le> 366"
  by (simp_all add: days_in_year_def)

lemma day_from_year_less: "y < z \<Longrightarrow> day_from_year y < day_from_year z"
proof (induction z rule: int_gr_induct [where k = y, consumes 1])
  case base
  then show ?case using days_in_year_pos by (simp add: day_from_year_Suc)
next
  case (step z)
  then show ?case using days_in_year_pos(1) [of z] by (simp add: day_from_year_Suc)
qed

lemma day_from_year_mono: "y \<le> z \<Longrightarrow> day_from_year y \<le> day_from_year z"
  using day_from_year_less [of y z] by (cases "y = z") auto

text \<open>The year of a day: the largest year that starts no later, searched from a guess.\<close>

definition search_dist :: "int \<Rightarrow> int \<Rightarrow> nat" where
  "search_dist d y =
     (if d < day_from_year y then Suc (nat (day_from_year y - d))
      else if day_from_year (y + 1) \<le> d then Suc (nat (d - day_from_year y))
      else 0)"

function year_search :: "int \<Rightarrow> int \<Rightarrow> int" where
  "year_search d y =
     (if d < day_from_year y then year_search d (y - 1)
      else if day_from_year (y + 1) \<le> d then year_search d (y + 1)
      else y)"
  by pat_completeness auto

termination
proof (relation "measure (\<lambda>(d, y). search_dist d y)")
  fix d y
  assume "d < day_from_year y"
  then show "((d, y - 1), (d, y)) \<in> measure (\<lambda>(d, y). search_dist d y)"
    using day_from_year_less [of "y - 1" y] by (simp add: search_dist_def)
next
  fix d y
  assume "\<not> d < day_from_year y" "day_from_year (y + 1) \<le> d"
  then show "((d, y + 1), (d, y)) \<in> measure (\<lambda>(d, y). search_dist d y)"
    using day_from_year_less [of y "y + 1"] by (simp add: search_dist_def)
qed simp

declare year_search.simps [simp del]

lemma year_search_spec:
  "day_from_year (year_search d y) \<le> d \<and> d < day_from_year (year_search d y + 1)"
proof (induction d y rule: year_search.induct)
  case (1 d y)
  then show ?case by (subst (1 2) year_search.simps) (simp add: not_less not_le)
qed

definition year_from_day :: "int \<Rightarrow> int" where
  "year_from_day d = year_search d (1970 + d div 365)"

lemma year_from_day_unique:
  assumes "day_from_year y \<le> d" "d < day_from_year (y + 1)"
  shows "year_from_day d = y"
proof -
  let ?z = "year_from_day d"
  have z: "day_from_year ?z \<le> d" "d < day_from_year (?z + 1)"
    using year_search_spec by (simp_all add: year_from_day_def)
  have "\<not> ?z < y" using day_from_year_mono [of "?z + 1" y] z(2) assms(1) by auto
  moreover have "\<not> y < ?z" using day_from_year_mono [of "y + 1" ?z] z(1) assms(2) by auto
  ultimately show ?thesis by simp
qed

text \<open>Months: the day of the year is counted down through the lengths of the months.\<close>

definition month_lengths :: "bool \<Rightarrow> nat list" where
  "month_lengths leap = [31, if leap then 29 else 28, 31, 30, 31, 30, 31, 31, 30, 31, 30, 31]"

fun split_days :: "nat list \<Rightarrow> nat \<Rightarrow> nat \<times> nat" where
  "split_days [] n = (0, n)"
| "split_days (l # ls) n =
     (if n < l then (0, n) else (let (i, r) = split_days ls (n - l) in (Suc i, r)))"

fun join_days :: "nat list \<Rightarrow> nat \<Rightarrow> nat \<Rightarrow> nat" where
  "join_days [] i r = r"
| "join_days (l # ls) 0 r = r"
| "join_days (l # ls) (Suc i) r = l + join_days ls i r"

lemma join_split_days: "(case split_days ls n of (i, r) \<Rightarrow> join_days ls i r) = n"
  by (induction ls n rule: split_days.induct) (auto simp: Let_def split: prod.splits)

lemma split_days_bound:
  "n < sum_list ls \<Longrightarrow> split_days ls n = (i, r) \<Longrightarrow> i < length ls \<and> r < ls ! i"
  by (induction ls n arbitrary: i r rule: split_days.induct)
    (fastforce split: if_splits prod.splits)+

lemma sum_month_lengths: "sum_list (month_lengths (leap_year y)) = nat (days_in_year y)"
  by (simp add: month_lengths_def days_in_year_def)


definition civil_from_day :: "int \<Rightarrow> int \<times> nat \<times> nat" where
  "civil_from_day d =
     (let y = year_from_day d;
          (m, r) = split_days (month_lengths (leap_year y)) (nat (d - day_from_year y))
      in (y, Suc m, Suc r))"

definition day_from_civil :: "int \<Rightarrow> nat \<Rightarrow> nat \<Rightarrow> int" where
  "day_from_civil y m d =
     day_from_year y + int (join_days (month_lengths (leap_year y)) (m - 1) (d - 1))"

definition valid_civil :: "int \<Rightarrow> nat \<Rightarrow> nat \<Rightarrow> bool" where
  "valid_civil y m d \<longleftrightarrow>
     1 \<le> m \<and> m \<le> 12 \<and> 1 \<le> d \<and> d \<le> month_lengths (leap_year y) ! (m - 1)"

lemma length_month_lengths [simp]: "length (month_lengths l) = 12"
  by (simp add: month_lengths_def)

lemma civil_from_day_parts:
  obtains n i r where
    "civil_from_day d = (year_from_day d, Suc i, Suc r)"
    "n = nat (d - day_from_year (year_from_day d))"
    "split_days (month_lengths (leap_year (year_from_day d))) n = (i, r)"
    "n < sum_list (month_lengths (leap_year (year_from_day d)))"
    "int n = d - day_from_year (year_from_day d)"
proof -
  define y where "y = year_from_day d"
  have y: "day_from_year y \<le> d" "d < day_from_year (y + 1)"
    using year_search_spec by (simp_all add: y_def year_from_day_def)
  obtain i r where ir: "split_days (month_lengths (leap_year y)) (nat (d - day_from_year y)) = (i, r)"
    by fastforce
  then have "civil_from_day d = (y, Suc i, Suc r)"
    by (simp add: civil_from_day_def y_def)
  moreover have "nat (d - day_from_year y) < sum_list (month_lengths (leap_year y))"
    using y by (simp add: sum_month_lengths day_from_year_Suc)
  ultimately show thesis using that ir y(1) by (simp add: y_def)
qed

lemma civil_from_day_spec:
  assumes "civil_from_day d = (y, m, dd)"
  shows "day_from_civil y m dd = d \<and> valid_civil y m dd \<and>
    day_from_year y \<le> d \<and> d < day_from_year (y + 1)"
proof -
  obtain n i r where p: "civil_from_day d = (year_from_day d, Suc i, Suc r)"
    "n = nat (d - day_from_year (year_from_day d))"
    "split_days (month_lengths (leap_year (year_from_day d))) n = (i, r)"
    "n < sum_list (month_lengths (leap_year (year_from_day d)))"
    "int n = d - day_from_year (year_from_day d)"
    by (rule civil_from_day_parts)
  with assms have y: "y = year_from_day d" "m = Suc i" "dd = Suc r" by simp_all
  have "join_days (month_lengths (leap_year y)) i r = n"
    using join_split_days [of "month_lengths (leap_year y)" n] p(3) y by simp
  moreover have "i < 12 \<and> r < month_lengths (leap_year y) ! i"
    using split_days_bound [OF p(4) p(3)] y by simp
  moreover have "day_from_year y \<le> d" "d < day_from_year (y + 1)"
    using year_search_spec by (simp_all add: y year_from_day_def)
  ultimately show ?thesis
    using y p(5) by (simp add: day_from_civil_def valid_civil_def)
qed

section \<open>Printing\<close>

abbreviation ms_per_day :: int where "ms_per_day \<equiv> 86400000"
abbreviation max_time :: int where "max_time \<equiv> 8640000000000000"

definition iso_year :: "int \<Rightarrow> string" where
  "iso_year y =
     (if 0 \<le> y \<and> y \<le> 9999 then pad 4 (nat y)
      else if y < 0 then ''-'' @ pad 6 (nat (- y)) else ''+'' @ pad 6 (nat y))"

definition iso_clock :: "nat \<Rightarrow> string" where
  "iso_clock r =
     pad 2 (r div 3600000) @ '':'' @ pad 2 (r div 60000 mod 60) @ '':'' @
     pad 2 (r div 1000 mod 60) @ ''.'' @ pad 3 (r mod 1000) @ ''Z''"

definition iso_string :: "int \<Rightarrow> string" where
  "iso_string t =
     (case civil_from_day (t div ms_per_day) of (y, m, d) \<Rightarrow>
        iso_year y @ ''-'' @ pad 2 m @ ''-'' @ pad 2 d @ ''T'' @ iso_clock (nat (t mod ms_per_day)))"

text \<open>\<^verbatim>\<open>new Date(t).toISOString()\<close>: a RangeError for an invalid date.\<close>

definition to_iso_string :: "int option \<Rightarrow> string outcome" where
  "to_iso_string t =
     (case t of None \<Rightarrow> Inl ''Invalid Date''
      | Some t \<Rightarrow> if \<bar>t\<bar> \<le> max_time then Inr (iso_string t) else Inl ''Invalid Date'')"

section \<open>Parsing\<close>

definition p_dec :: "nat \<Rightarrow> string \<Rightarrow> (nat \<times> string) option" where
  "p_dec w s =
     (if length s < w then None
      else map_option (\<lambda>n. (n, drop w s)) (digits_val 0 (take w s)))"

fun p_char :: "char \<Rightarrow> string \<Rightarrow> string option" where
  "p_char c [] = None"
| "p_char c (d # s) = (if c = d then Some s else None)"

definition p_year :: "string \<Rightarrow> (int \<times> string) option" where
  "p_year s =
     (case s of
        [] \<Rightarrow> None
      | c # s' \<Rightarrow>
          if c = CHR ''+'' then map_option (\<lambda>(n, t). (int n, t)) (p_dec 6 s')
          else if c = CHR ''-'' then
            Option.bind (p_dec 6 s') (\<lambda>(n, t). if n = 0 then None else Some (- int n, t))
          else map_option (\<lambda>(n, t). (int n, t)) (p_dec 4 s))"

text \<open>An optional part: a separator and a two-digit number, or the default.\<close>

definition p_part :: "char \<Rightarrow> nat \<Rightarrow> string \<Rightarrow> (nat \<times> string) option" where
  "p_part c d s =
     (case p_char c s of None \<Rightarrow> Some (d, s) | Some s' \<Rightarrow> p_dec 2 s')"

definition p_frac :: "string \<Rightarrow> (nat \<times> string) option" where
  "p_frac s = (case p_char CHR ''.'' s of None \<Rightarrow> Some (0, s) | Some s' \<Rightarrow> p_dec 3 s')"

definition p_zone :: "string \<Rightarrow> int option" where
  "p_zone s =
     (case s of
        [] \<Rightarrow> Some 0
      | c # s' \<Rightarrow>
          if c = CHR ''Z'' then (if s' = [] then Some 0 else None)
          else if c = CHR ''+'' \<or> c = CHR ''-'' then
            do { (h, s1) \<leftarrow> p_dec 2 s'; s2 \<leftarrow> p_char CHR '':'' s1; (m, s3) \<leftarrow> p_dec 2 s2;
                 if s3 = [] \<and> h < 24 \<and> m < 60
                 then Some ((if c = CHR ''-'' then -1 else 1) * (int h * 60 + int m))
                 else None }
          else None)"

definition p_clock :: "string \<Rightarrow> int option" where
  "p_clock s =
     do { (h, s1) \<leftarrow> p_dec 2 s; s2 \<leftarrow> p_char CHR '':'' s1; (m, s3) \<leftarrow> p_dec 2 s2;
          (sec, s4) \<leftarrow> p_part CHR '':'' 0 s3;
          (ms, s5) \<leftarrow> (if s4 = s3 then Some (0, s4) else p_frac s4);
          z \<leftarrow> p_zone s5;
          if m < 60 \<and> sec < 60 \<and> (h < 24 \<or> h = 24 \<and> m = 0 \<and> sec = 0 \<and> ms = 0)
          then Some (int h * 3600000 + int m * 60000 + int sec * 1000 + int ms - z * 60000)
          else None }"

definition date_parse :: "string \<Rightarrow> int option" where
  "date_parse s =
     do { (y, s1) \<leftarrow> p_year s;
          (m, s2) \<leftarrow> p_part CHR ''-'' 1 s1;
          (d, s3) \<leftarrow> (if s2 = s1 then Some (1, s2) else p_part CHR ''-'' 1 s2);
          r \<leftarrow> (if s3 = [] then Some 0
               else Option.bind (p_char CHR ''T'' s3) p_clock);
          if valid_civil y m d \<and> \<bar>day_from_civil y m d * ms_per_day + r\<bar> \<le> max_time
          then Some (day_from_civil y m d * ms_per_day + r)
          else None }"

section \<open>Printing and parsing are inverse\<close>

lemma p_dec_pad [simp]: "n < 10 ^ w \<Longrightarrow> p_dec w (pad w n @ s) = Some (n, s)"
  by (simp add: p_dec_def digits_val_pad)

lemma p_part_pad [simp]: "n < 10 ^ 2 \<Longrightarrow> p_part c k (c # pad 2 n @ s) = Some (n, s)"
  using p_dec_pad [of n 2 s] by (simp add: p_part_def del: p_dec_pad)

lemma p_frac_pad [simp]: "n < 10 ^ 3 \<Longrightarrow> p_frac (CHR ''.'' # pad 3 n @ s) = Some (n, s)"
  using p_dec_pad [of n 3 s] by (simp add: p_frac_def del: p_dec_pad)

lemma pad_hd: "pad w n = c # s \<Longrightarrow> (48::nat) \<le> of_char c \<and> (of_char c :: nat) \<le> 57"
proof (cases w)
  case (Suc v)
  assume "pad w n = c # s"
  with Suc have "c = digit_char (n div 10 ^ v mod 10)" by simp
  then show ?thesis by (simp add: of_char_digit)
qed simp

lemma p_year_iso [simp]:
  assumes "- 999999 \<le> y" "y \<le> 999999"
  shows "p_year (iso_year y @ s) = Some (y, s)"
proof -
  consider "0 \<le> y" "y \<le> 9999" | "y < 0" | "9999 < y" by linarith
  then show ?thesis
  proof cases
    case 1
    obtain c t where ct: "pad 4 (nat y) = c # t"
      by (metis length_pad length_Suc_conv eval_nat_numeral(2) numeral_3_eq_3 eval_nat_numeral(3))
    have "c \<noteq> CHR ''+''" "c \<noteq> CHR ''-''" using pad_hd [OF ct] by auto
    moreover have "p_dec 4 (pad 4 (nat y) @ s) = Some (nat y, s)" using 1 by (intro p_dec_pad) simp
    ultimately show ?thesis using 1 ct by (simp add: iso_year_def p_year_def)
  next
    case 2
    then have "p_dec 6 (pad 6 (nat (- y)) @ s) = Some (nat (- y), s)"
      using assms by (intro p_dec_pad) simp
    with 2 show ?thesis by (simp add: iso_year_def p_year_def)
  next
    case 3
    then have "p_dec 6 (pad 6 (nat y) @ s) = Some (nat y, s)"
      using assms by (intro p_dec_pad) simp
    with 3 show ?thesis by (simp add: iso_year_def p_year_def)
  qed
qed

lemma clock_digits:
  "(r::nat) div 60000 = 60 * (r div 3600000) + r div 60000 mod 60"
  "r div 1000 = 60 * (r div 60000) + r div 1000 mod 60"
  "r = 1000 * (r div 1000) + r mod 1000"
  using div_mult2_eq [of r 60000 60] div_mult2_eq [of r 1000 60] by simp_all

lemma p_clock_iso:
  assumes "r < 86400000"
  shows "p_clock (iso_clock r) = Some (int r)"
proof -
  have h: "r div 3600000 < 24" using assms by simp
  have eq: "r = r div 3600000 * 3600000 + r div 60000 mod 60 * 60000 + r div 1000 mod 60 * 1000 + r mod 1000"
    using clock_digits [of r] by linarith
  have "int r = int (r div 3600000) * 3600000 + int (r div 60000 mod 60) * 60000
      + int (r div 1000 mod 60) * 1000 + int (r mod 1000)"
    by (subst eq) (simp only: of_nat_add of_nat_mult of_nat_numeral)
  moreover have "p_zone ''Z'' = Some 0" by (simp add: p_zone_def)
  ultimately show ?thesis
    using h by (simp add: p_clock_def iso_clock_def)
qed


lemma year_bound:
  assumes "\<bar>t\<bar> \<le> max_time" "civil_from_day (t div ms_per_day) = (y, m, d)"
  shows "- 999999 \<le> y" "y \<le> 999999"
proof -
  have day: "day_from_year y \<le> t div ms_per_day" "t div ms_per_day < day_from_year (y + 1)"
    using civil_from_day_spec [OF assms(2)] by simp_all
  have "t div ms_per_day \<le> max_time div ms_per_day" "- max_time div ms_per_day \<le> t div ms_per_day"
    using assms(1) by (auto intro: zdiv_mono1)
  then have t: "t div ms_per_day \<le> 100000000" "- 100000000 \<le> t div ms_per_day" by simp_all
  show "y \<le> 999999"
  proof (rule ccontr)
    assume "\<not> y \<le> 999999"
    then have "day_from_year 1000000 \<le> day_from_year y" by (intro day_from_year_mono) simp
    with day(1) t(1) show False by (simp add: day_from_year_def [of 1000000])
  qed
  show "- 999999 \<le> y"
  proof (rule ccontr)
    assume "\<not> - 999999 \<le> y"
    then have "day_from_year (y + 1) \<le> day_from_year (-999999)" by (intro day_from_year_mono) simp
    with day(2) t(2) show False by (simp add: day_from_year_def [of "-999999"])
  qed
qed

lemma valid_civil_bound:
  assumes "valid_civil y m d" shows "m < 10 ^ 2" "d < 10 ^ 2"
proof -
  have "\<forall>i < 12. month_lengths l ! i \<le> 31" for l
    by (simp add: month_lengths_def numeral_eq_Suc All_less_Suc)
  moreover have "m - 1 < 12" using assms by (auto simp: valid_civil_def)
  ultimately have "month_lengths (leap_year y) ! (m - 1) \<le> 31" by blast
  then show "m < 10 ^ 2" "d < 10 ^ 2" using assms by (simp_all add: valid_civil_def)
qed

theorem date_parse_iso_string:
  assumes "\<bar>t\<bar> \<le> max_time"
  shows "date_parse (iso_string t) = Some t"
proof -
  obtain y m d where c: "civil_from_day (t div ms_per_day) = (y, m, d)" by (cases "civil_from_day (t div ms_per_day)")
  note spec = civil_from_day_spec [OF c]
  then have v: "valid_civil y m d" "day_from_civil y m d = t div ms_per_day" by simp_all
  have r: "nat (t mod ms_per_day) < 86400000" by (simp add: nat_less_iff)
  have y: "p_year (iso_year y @ s) = Some (y, s)" for s
    using p_year_iso year_bound [OF assms c] by blast
  have m: "p_part CHR ''-'' 1 (CHR ''-'' # pad 2 m @ s) = Some (m, s)" for s
    using valid_civil_bound [OF v(1)] by simp
  have d: "p_part CHR ''-'' 1 (CHR ''-'' # pad 2 d @ s) = Some (d, s)" for s
    using valid_civil_bound [OF v(1)] by simp
  have ne: "CHR ''-'' # pad 2 m @ s \<noteq> s" for s
    by (metis append_Cons append_self_conv2 list.discI)
  have "t div ms_per_day * ms_per_day + int (nat (t mod ms_per_day)) = t" by simp
  then show ?thesis
    using assms v m d y ne [of "CHR ''-'' # pad 2 d @ CHR ''T'' # iso_clock (nat (t mod ms_per_day))"]
      p_clock_iso [OF r]
    by (simp add: date_parse_def iso_string_def c)
qed

lemma to_iso_string_parse: "to_iso_string t = Inr s \<Longrightarrow> date_parse s = t"
  by (auto simp: to_iso_string_def date_parse_iso_string split: option.splits if_splits)

section \<open>Timestamps compare as strings in time order\<close>

text \<open>The first time value of the year 10000.\<close>

abbreviation four_digit_limit :: int where "four_digit_limit \<equiv> 253402300800000"

lemma str_le_pad_lex:
  assumes "a < 10 ^ w" "b < 10 ^ w" "a < b \<or> a = b \<and> str_le s t"
  shows "str_le (pad w a @ s) (pad w b @ t)"
  using assms by (auto simp: str_le_append str_le_pad pad_eq_iff)

lemma split_days_mono:
  "m \<le> n \<Longrightarrow> split_days ls m = (i, r) \<Longrightarrow> split_days ls n = (j, q) \<Longrightarrow>
   i < j \<or> i = j \<and> r \<le> q"
proof (induction ls n arbitrary: m i r j q rule: split_days.induct)
  case (2 l ls n)
  then show ?case
    by (fastforce split: if_splits prod.splits dest: diff_le_mono [of m n l])
qed simp

lemma iso_clock_mono:
  assumes "r \<le> q" "q < 86400000"
  shows "str_le (iso_clock r) (iso_clock q)"
proof -
  have b: "r div 3600000 < 10 ^ 2" "q div 3600000 < 10 ^ 2" using assms by simp_all
  have le: "r div 3600000 \<le> q div 3600000" "r div 60000 \<le> q div 60000" "r div 1000 \<le> q div 1000"
    using assms(1) by (simp_all add: div_le_mono)
  have "r div 3600000 = q div 3600000 \<Longrightarrow> r div 60000 mod 60 \<le> q div 60000 mod 60"
    using clock_digits(1) [of r] clock_digits(1) [of q] le(2) by linarith
  with le(1) have h: "r div 3600000 < q div 3600000 \<or> r div 3600000 = q div 3600000
      \<and> r div 60000 mod 60 \<le> q div 60000 mod 60"
    by (auto simp: le_less)
  have m: "r div 60000 = q div 60000 \<Longrightarrow> r div 1000 mod 60 \<le> q div 1000 mod 60"
    using clock_digits(2) [of r] clock_digits(2) [of q] le by linarith
  have s: "r div 1000 = q div 1000 \<Longrightarrow> r mod 1000 \<le> q mod 1000"
    using clock_digits(3) [of r] clock_digits(3) [of q] assms(1) by linarith
  have min_eq: "r div 3600000 = q div 3600000 \<Longrightarrow> r div 60000 mod 60 = q div 60000 mod 60 \<Longrightarrow>
      r div 60000 = q div 60000"
    using clock_digits(1) [of r] clock_digits(1) [of q] by linarith
  have sec_eq: "r div 60000 = q div 60000 \<Longrightarrow> r div 1000 mod 60 = q div 1000 mod 60 \<Longrightarrow>
      r div 1000 = q div 1000"
    using clock_digits(2) [of r] clock_digits(2) [of q] by linarith
  have S: "str_le (pad 3 (r mod 1000) @ ''Z'') (pad 3 (q mod 1000) @ ''Z'')"
    if "r div 1000 = q div 1000"
    using s [OF that] by (intro str_le_pad_lex) auto
  have M: "str_le (pad 2 (r div 1000 mod 60) @ ''.'' @ pad 3 (r mod 1000) @ ''Z'')
      (pad 2 (q div 1000 mod 60) @ ''.'' @ pad 3 (q mod 1000) @ ''Z'')"
    if "r div 60000 = q div 60000"
    using m [OF that] S [OF sec_eq [OF that]]
    by (intro str_le_pad_lex) (auto simp: le_less less_trans [OF mod_less_divisor])
  have H: "str_le (pad 2 (r div 60000 mod 60) @ '':'' @ pad 2 (r div 1000 mod 60) @ ''.'' @ pad 3 (r mod 1000) @ ''Z'')
      (pad 2 (q div 60000 mod 60) @ '':'' @ pad 2 (q div 1000 mod 60) @ ''.'' @ pad 3 (q mod 1000) @ ''Z'')"
    if "r div 3600000 = q div 3600000"
    using h that M [OF min_eq [OF that]]
    by (intro str_le_pad_lex) (auto simp: le_less less_trans [OF mod_less_divisor])
  show ?thesis
    unfolding iso_clock_def
    using b h H by (intro str_le_pad_lex) auto
qed


lemma civil_from_day_mono:
  assumes "d \<le> e" "civil_from_day d = (y, m, a)" "civil_from_day e = (z, n, b)"
  shows "y < z \<or> y = z \<and> (m < n \<or> m = n \<and> a \<le> b)"
proof -
  obtain k i r where p: "civil_from_day d = (year_from_day d, Suc i, Suc r)"
    "split_days (month_lengths (leap_year (year_from_day d))) k = (i, r)"
    "int k = d - day_from_year (year_from_day d)"
    by (rule civil_from_day_parts) blast
  obtain l j q where u: "civil_from_day e = (year_from_day e, Suc j, Suc q)"
    "split_days (month_lengths (leap_year (year_from_day e))) l = (j, q)"
    "int l = e - day_from_year (year_from_day e)"
    by (rule civil_from_day_parts) blast
  have yz: "y = year_from_day d" "z = year_from_day e" "m = Suc i" "a = Suc r" "n = Suc j" "b = Suc q"
    using assms p(1) u(1) by simp_all
  have "day_from_year y \<le> e" "e < day_from_year (z + 1)"
    using civil_from_day_spec [OF assms(2)] civil_from_day_spec [OF assms(3)] assms(1) by auto
  then have "\<not> z < y" using day_from_year_mono [of "z + 1" y] by auto
  moreover have "i < j \<or> i = j \<and> r \<le> q" if "y = z"
  proof -
    have "k \<le> l" using p(3) u(3) assms(1) that yz by simp
    then show ?thesis using split_days_mono [OF _ p(2)] u(2) that yz by simp
  qed
  ultimately show ?thesis using yz by auto
qed

lemma year_in_range:
  assumes "0 \<le> t" "t < four_digit_limit" "civil_from_day (t div ms_per_day) = (y, m, d)"
  shows "0 \<le> y" "y \<le> 9999"
proof -
  have day: "day_from_year y \<le> t div ms_per_day" "t div ms_per_day < day_from_year (y + 1)"
    using civil_from_day_spec [OF assms(3)] by simp_all
  have t: "0 \<le> t div ms_per_day" "t div ms_per_day < 2932897"
    using assms(1,2) by (simp_all add: pos_imp_zdiv_nonneg_iff div_less_iff_less_mult)
  show "y \<le> 9999"
  proof (rule ccontr)
    assume "\<not> y \<le> 9999"
    then have "day_from_year 10000 \<le> day_from_year y" by (intro day_from_year_mono) simp
    with day(1) t(2) show False by (simp add: day_from_year_def [of 10000])
  qed
  show "0 \<le> y"
  proof (rule ccontr)
    assume "\<not> 0 \<le> y"
    then have "day_from_year (y + 1) \<le> day_from_year 0" by (intro day_from_year_mono) simp
    with day(2) t(1) show False by (simp add: day_from_year_def [of 0])
  qed
qed

lemma iso_string_mono:
  assumes "0 \<le> t" "t \<le> u" "u < four_digit_limit"
  shows "str_le (iso_string t) (iso_string u)"
proof -
  let ?d = "t div ms_per_day" and ?e = "u div ms_per_day"
  obtain y m a where c: "civil_from_day ?d = (y, m, a)" by (cases "civil_from_day ?d")
  obtain z n b where c': "civil_from_day ?e = (z, n, b)" by (cases "civil_from_day ?e")
  have de: "?d \<le> ?e" using assms(2) by (intro zdiv_mono1) simp_all
  note lex = civil_from_day_mono [OF de c c']
  have y: "0 \<le> y" "y \<le> 9999" "0 \<le> z" "z \<le> 9999"
    using year_in_range [OF _ _ c] year_in_range [OF _ _ c'] assms by auto
  have v: "m < 10 ^ 2" "a < 10 ^ 2" "n < 10 ^ 2" "b < 10 ^ 2"
    using valid_civil_bound civil_from_day_spec [OF c] civil_from_day_spec [OF c'] by blast+
  have clock: "str_le (iso_clock (nat (t mod ms_per_day))) (iso_clock (nat (u mod ms_per_day)))"
    if "y = z" "m = n" "a = b"
  proof (rule iso_clock_mono)
    have "?d = ?e"
      using civil_from_day_spec [OF c] civil_from_day_spec [OF c'] that by simp
    then have "t mod ms_per_day \<le> u mod ms_per_day"
      using assms(2) mult_div_mod_eq [of ms_per_day t] mult_div_mod_eq [of ms_per_day u] by linarith
    then show "nat (t mod ms_per_day) \<le> nat (u mod ms_per_day)" by simp
    show "nat (u mod ms_per_day) < 86400000" by (simp add: nat_less_iff)
  qed
  have D: "str_le (pad 2 a @ ''T'' @ iso_clock (nat (t mod ms_per_day)))
      (pad 2 b @ ''T'' @ iso_clock (nat (u mod ms_per_day)))" if "y = z" "m = n"
    using that v lex clock by (intro str_le_pad_lex) auto
  have M: "str_le (pad 2 m @ ''-'' @ pad 2 a @ ''T'' @ iso_clock (nat (t mod ms_per_day)))
      (pad 2 n @ ''-'' @ pad 2 b @ ''T'' @ iso_clock (nat (u mod ms_per_day)))" if "y = z"
    using that v lex D by (intro str_le_pad_lex) auto
  have "nat y < nat z \<or> nat y = nat z \<and> y = z" using lex y by auto
  then show ?thesis
    using y M by (auto simp: iso_string_def c c' iso_year_def intro!: str_le_pad_lex)
qed

theorem iso_string_le_iff:
  assumes "0 \<le> t" "t < four_digit_limit" "0 \<le> u" "u < four_digit_limit"
  shows "str_le (iso_string t) (iso_string u) \<longleftrightarrow> t \<le> u"
proof
  assume le: "str_le (iso_string t) (iso_string u)"
  show "t \<le> u"
  proof (rule ccontr)
    assume "\<not> t \<le> u"
    then have "str_le (iso_string u) (iso_string t)" using assms by (intro iso_string_mono) auto
    with le have "iso_string t = iso_string u" by (rule str_le_antisym)
    moreover have "date_parse (iso_string t) = Some t" "date_parse (iso_string u) = Some u"
      using assms by (auto intro!: date_parse_iso_string)
    ultimately show False using \<open>\<not> t \<le> u\<close> by simp
  qed
qed (use assms in \<open>auto intro: iso_string_mono\<close>)

section \<open>Elapsed time\<close>

text \<open>Whether no more than a number of hours lie between two times.\<close>

definition within_hours :: "string \<Rightarrow> string \<Rightarrow> int \<Rightarrow> bool" where
  "within_hours since now hours =
     (case (date_parse now, date_parse since) of
        (Some n, Some s) \<Rightarrow> n - s \<le> hours * 3600000
      | _ \<Rightarrow> False)"

end
