(* ===== verification/JS_Values.thy ===== *)
theory JS_Values
  imports JS_Prelude
begin

text \<open>
  Untyped JavaScript data, as it reaches the validators: what \<^verbatim>\<open>unknown\<close> holds. An object
  is the list of its own properties in creation order. Numbers are integers: no source
  modelled here computes with a number read from such data.
\<close>

datatype jsval =
    JUndefined
  | JNull
  | JBool bool
  | JNum int
  | JStr string
  | JArr "jsval list"
  | JObj "(string \<times> jsval) list"

text \<open>\<open>typeof v === 'object' \<and> v !== null\<close>: arrays are objects.\<close>

fun is_object :: "jsval \<Rightarrow> bool" where
  "is_object (JArr _) = True"
| "is_object (JObj _) = True"
| "is_object _ = False"

fun is_string :: "jsval \<Rightarrow> bool" where
  "is_string (JStr _) = True"
| "is_string _ = False"

fun str_of :: "jsval \<Rightarrow> string" where
  "str_of (JStr s) = s"
| "str_of _ = []"

text \<open>
  \<open>v[k]\<close> and \<open>k in v\<close> for a property name that is neither an array index,
  \<^verbatim>\<open>length\<close> nor a member of the built-in prototypes (the sources use no other).
\<close>

fun get_prop :: "jsval \<Rightarrow> string \<Rightarrow> jsval" where
  "get_prop (JObj ps) k = (case map_of ps k of None \<Rightarrow> JUndefined | Some v \<Rightarrow> v)"
| "get_prop _ k = JUndefined"

fun has_prop :: "jsval \<Rightarrow> string \<Rightarrow> bool" where
  "has_prop (JObj ps) k = (map_of ps k \<noteq> None)"
| "has_prop _ k = False"

lemma has_prop_if_prop: "get_prop v k \<noteq> JUndefined \<Longrightarrow> has_prop v k"
  by (cases v) (auto split: option.splits)

lemma is_string_iff: "is_string v \<longleftrightarrow> (\<exists>s. v = JStr s)"
  by (cases v) auto

text \<open>
  \<^verbatim>\<open>JSON.stringify\<close> of a string: quotes, backslashes and control characters are
  escaped.
\<close>

definition hex_char :: "nat \<Rightarrow> char" where
  "hex_char n = (if n < 10 then char_of (48 + n) else char_of (87 + n))"

definition json_escape :: "char \<Rightarrow> string" where
  "json_escape c =
     (let n = of_char c :: nat in
      if n = 34 then [char_of (92::nat), char_of (34::nat)]
      else if n = 92 then [char_of (92::nat), char_of (92::nat)]
      else if n = 8 then char_of (92::nat) # ''b''
      else if n = 9 then char_of (92::nat) # ''t''
      else if n = 10 then char_of (92::nat) # ''n''
      else if n = 12 then char_of (92::nat) # ''f''
      else if n = 13 then char_of (92::nat) # ''r''
      else if n < 32 then char_of (92::nat) # ''u00'' @ [hex_char (n div 16), hex_char (n mod 16)]
      else [c])"

definition json_string :: "string \<Rightarrow> string" where
  "json_string s = char_of (34::nat) # concat (map json_escape s) @ [char_of (34::nat)]"

definition json_array :: "string list \<Rightarrow> string" where
  "json_array xs = ''['' @ js_join '','' xs @ '']''"

text \<open>An object of already rendered members.\<close>

definition json_object :: "(string \<times> string) list \<Rightarrow> string" where
  "json_object ms = ''{'' @ js_join '','' (map (\<lambda>(k, v). json_string k @ '':'' @ v) ms) @ ''}''"

end
