(* ===== verification/Domain_Types.thy ===== *)
theory Domain_Types
  imports JS_Date JS_Values
begin

text \<open>
  The cross-agent domain model, \<^verbatim>\<open>src/domain/types.ts\<close>: lifecycle states and the
  transition table, agent types, approvals, project namespaces, and the agent message
  contract with its validator. The lemmas show what the table allows, that namespaces are
  parsed back and keep projects apart, and what the validator accepts.
\<close>

section \<open>Agent types and lifecycle\<close>

datatype agent_type =
    Ceo_agent | Sales_agent | Marketing_agent | Product_agent
  | Engineering_agent | Project_manager_agent | Support_agent

fun agent_type_str :: "agent_type \<Rightarrow> string" where
  "agent_type_str Ceo_agent = ''ceo_agent''"
| "agent_type_str Sales_agent = ''sales_agent''"
| "agent_type_str Marketing_agent = ''marketing_agent''"
| "agent_type_str Product_agent = ''product_agent''"
| "agent_type_str Engineering_agent = ''engineering_agent''"
| "agent_type_str Project_manager_agent = ''project_manager_agent''"
| "agent_type_str Support_agent = ''support_agent''"

lemma agent_type_str_inj [simp]: "agent_type_str a = agent_type_str b \<longleftrightarrow> a = b"
  by (cases a; cases b) simp_all

datatype lifecycle_state =
    LS_lead | LS_qualified | LS_proposal | LS_won | LS_discovery
  | LS_implementation | LS_qa | LS_delivered | LS_support | LS_closed

definition LIFECYCLE_STATES :: "lifecycle_state list" where
  "LIFECYCLE_STATES = [LS_lead, LS_qualified, LS_proposal, LS_won, LS_discovery,
     LS_implementation, LS_qa, LS_delivered, LS_support, LS_closed]"

fun lifecycle_str :: "lifecycle_state \<Rightarrow> string" where
  "lifecycle_str LS_lead = ''lead''"
| "lifecycle_str LS_qualified = ''qualified''"
| "lifecycle_str LS_proposal = ''proposal''"
| "lifecycle_str LS_won = ''won''"
| "lifecycle_str LS_discovery = ''discovery''"
| "lifecycle_str LS_implementation = ''implementation''"
| "lifecycle_str LS_qa = ''qa''"
| "lifecycle_str LS_delivered = ''delivered''"
| "lifecycle_str LS_support = ''support''"
| "lifecycle_str LS_closed = ''closed''"

text \<open>The states are ordered as the source lists them.\<close>

fun lifecycle_rank :: "lifecycle_state \<Rightarrow> nat" where
  "lifecycle_rank LS_lead = 0"
| "lifecycle_rank LS_qualified = 1"
| "lifecycle_rank LS_proposal = 2"
| "lifecycle_rank LS_won = 3"
| "lifecycle_rank LS_discovery = 4"
| "lifecycle_rank LS_implementation = 5"
| "lifecycle_rank LS_qa = 6"
| "lifecycle_rank LS_delivered = 7"
| "lifecycle_rank LS_support = 8"
| "lifecycle_rank LS_closed = 9"

lemma lifecycle_rank_inj [simp]: "lifecycle_rank a = lifecycle_rank b \<longleftrightarrow> a = b"
  by (cases a; cases b) simp_all

lemma lifecycle_states_ranked: "map lifecycle_rank LIFECYCLE_STATES = [0..<10]"
  by (simp add: LIFECYCLE_STATES_def upt_rec)

instantiation lifecycle_state :: linorder
begin

definition less_eq_lifecycle_state :: "lifecycle_state \<Rightarrow> lifecycle_state \<Rightarrow> bool" where
  "a \<le> b \<longleftrightarrow> lifecycle_rank a \<le> lifecycle_rank b"

definition less_lifecycle_state :: "lifecycle_state \<Rightarrow> lifecycle_state \<Rightarrow> bool" where
  "a < b \<longleftrightarrow> lifecycle_rank a < lifecycle_rank b"

instance
  by standard (auto simp: less_eq_lifecycle_state_def less_lifecycle_state_def)

end

datatype lifecycle_event =
    Lead_created | Lead_qualified | Proposal_sent_event | Deal_won | Discovery_started
  | Build_started | Final_validation_started | Delivery_approved
  | Post_delivery_issue | Support_closed

fun lifecycle_event_str :: "lifecycle_event \<Rightarrow> string" where
  "lifecycle_event_str Lead_created = ''lead_created''"
| "lifecycle_event_str Lead_qualified = ''lead_qualified''"
| "lifecycle_event_str Proposal_sent_event = ''proposal_sent''"
| "lifecycle_event_str Deal_won = ''deal_won''"
| "lifecycle_event_str Discovery_started = ''discovery_started''"
| "lifecycle_event_str Build_started = ''build_started''"
| "lifecycle_event_str Final_validation_started = ''final_validation_started''"
| "lifecycle_event_str Delivery_approved = ''delivery_approved''"
| "lifecycle_event_str Post_delivery_issue = ''post_delivery_issue''"
| "lifecycle_event_str Support_closed = ''support_closed''"

record lifecycle_transition =
  lt_event :: lifecycle_event
  lt_from :: lifecycle_state
  lt_to :: lifecycle_state
  lt_owner :: agent_type

definition LIFECYCLE_TRANSITIONS :: "lifecycle_transition list" where
  "LIFECYCLE_TRANSITIONS =
    [\<lparr>lt_event = Lead_created, lt_from = LS_lead, lt_to = LS_lead, lt_owner = Sales_agent\<rparr>,
     \<lparr>lt_event = Lead_qualified, lt_from = LS_lead, lt_to = LS_qualified, lt_owner = Sales_agent\<rparr>,
     \<lparr>lt_event = Proposal_sent_event, lt_from = LS_qualified, lt_to = LS_proposal, lt_owner = Sales_agent\<rparr>,
     \<lparr>lt_event = Deal_won, lt_from = LS_proposal, lt_to = LS_won, lt_owner = Sales_agent\<rparr>,
     \<lparr>lt_event = Discovery_started, lt_from = LS_won, lt_to = LS_discovery, lt_owner = Product_agent\<rparr>,
     \<lparr>lt_event = Build_started, lt_from = LS_discovery, lt_to = LS_implementation, lt_owner = Engineering_agent\<rparr>,
     \<lparr>lt_event = Final_validation_started, lt_from = LS_implementation, lt_to = LS_qa, lt_owner = Engineering_agent\<rparr>,
     \<lparr>lt_event = Delivery_approved, lt_from = LS_qa, lt_to = LS_delivered, lt_owner = Engineering_agent\<rparr>,
     \<lparr>lt_event = Post_delivery_issue, lt_from = LS_delivered, lt_to = LS_support, lt_owner = Support_agent\<rparr>,
     \<lparr>lt_event = Support_closed, lt_from = LS_support, lt_to = LS_closed, lt_owner = Support_agent\<rparr>,
     \<lparr>lt_event = Support_closed, lt_from = LS_delivered, lt_to = LS_closed, lt_owner = Support_agent\<rparr>]"

definition isValidTransition :: "lifecycle_state \<Rightarrow> lifecycle_state \<Rightarrow> bool" where
  "isValidTransition from to \<longleftrightarrow>
     list_ex (\<lambda>t. lt_from t = from \<and> lt_to t = to) LIFECYCLE_TRANSITIONS"

definition getValidNextStates :: "lifecycle_state \<Rightarrow> lifecycle_state list" where
  "getValidNextStates from = map lt_to (filter (\<lambda>t. lt_from t = from) LIFECYCLE_TRANSITIONS)"

text \<open>The reason text of a rejected transition; the optional parts only when given.\<close>

definition illegal_transition_reason ::
  "lifecycle_state \<Rightarrow> lifecycle_state \<Rightarrow> lifecycle_event option \<Rightarrow> agent_type option \<Rightarrow> string" where
  "illegal_transition_reason from to event owner =
     ''Illegal lifecycle transition '' @ lifecycle_str from @ '' -> '' @ lifecycle_str to @
     (case event of None \<Rightarrow> [] | Some e \<Rightarrow> '' for event '' @ lifecycle_event_str e) @
     (case owner of None \<Rightarrow> [] | Some a \<Rightarrow> '' by '' @ agent_type_str a)"

definition transition_matches ::
  "lifecycle_state \<Rightarrow> lifecycle_state \<Rightarrow> lifecycle_event option \<Rightarrow> agent_type option \<Rightarrow>
   lifecycle_transition \<Rightarrow> bool" where
  "transition_matches from to event owner item \<longleftrightarrow>
     \<not> (lt_from item \<noteq> from \<or> lt_to item \<noteq> to) \<and>
     \<not> (event \<noteq> None \<and> Some (lt_event item) \<noteq> event) \<and>
     \<not> (owner \<noteq> None \<and> Some (lt_owner item) \<noteq> owner)"

text \<open>\<^term>\<open>None\<close> is \<open>{ valid: true }\<close>; \<open>Some r\<close> is \<open>{ valid: false, reason: r }\<close>.\<close>

definition validateLifecycleTransition ::
  "lifecycle_state \<Rightarrow> lifecycle_state \<Rightarrow> lifecycle_event option \<Rightarrow> agent_type option \<Rightarrow> string option" where
  "validateLifecycleTransition from to event owner =
     (case find (transition_matches from to event owner) LIFECYCLE_TRANSITIONS of
        None \<Rightarrow> Some (illegal_transition_reason from to event owner)
      | Some _ \<Rightarrow> None)"

lemma isValidTransition_iff:
  "isValidTransition from to \<longleftrightarrow> (\<exists>t \<in> set LIFECYCLE_TRANSITIONS. lt_from t = from \<and> lt_to t = to)"
  by (auto simp: isValidTransition_def list_ex_iff)

lemma getValidNextStates_iff: "to \<in> set (getValidNextStates from) \<longleftrightarrow> isValidTransition from to"
  by (auto simp: getValidNextStates_def isValidTransition_iff)

lemma validateLifecycleTransition_ok_iff:
  "validateLifecycleTransition from to event owner = None \<longleftrightarrow>
   (\<exists>t \<in> set LIFECYCLE_TRANSITIONS. lt_from t = from \<and> lt_to t = to \<and>
      (event = None \<or> event = Some (lt_event t)) \<and> (owner = None \<or> owner = Some (lt_owner t)))"
proof -
  have "validateLifecycleTransition from to event owner = None \<longleftrightarrow>
      (\<exists>t \<in> set LIFECYCLE_TRANSITIONS. transition_matches from to event owner t)"
    by (auto simp: validateLifecycleTransition_def find_None_iff split: option.splits)
       (metis find_None_iff option.distinct(1))
  then show ?thesis by (auto simp: transition_matches_def)
qed

text \<open>What one entry of the table does to the state: forward, except the entry point's own event.\<close>

lemma transition_table_forward:
  "t \<in> set LIFECYCLE_TRANSITIONS \<Longrightarrow> lt_from t < lt_to t \<or> lt_from t = LS_lead \<and> lt_to t = LS_lead"
  by (auto simp: LIFECYCLE_TRANSITIONS_def less_lifecycle_state_def)

text \<open>State and event determine the entry.\<close>

lemma transition_table_deterministic:
  "t \<in> set LIFECYCLE_TRANSITIONS \<Longrightarrow> u \<in> set LIFECYCLE_TRANSITIONS \<Longrightarrow>
   lt_from t = lt_from u \<Longrightarrow> lt_event t = lt_event u \<Longrightarrow> t = u"
  by (auto simp: LIFECYCLE_TRANSITIONS_def)

section \<open>Approvals\<close>

datatype approval_gate = Proposal_final | Spec_final | Delivery_final | Strategic_decision

fun approval_gate_str :: "approval_gate \<Rightarrow> string" where
  "approval_gate_str Proposal_final = ''proposal_final''"
| "approval_gate_str Spec_final = ''spec_final''"
| "approval_gate_str Delivery_final = ''delivery_final''"
| "approval_gate_str Strategic_decision = ''strategic_decision''"

datatype approval_decision = Approve | Reject | Revise

fun approval_decision_str :: "approval_decision \<Rightarrow> string" where
  "approval_decision_str Approve = ''approve''"
| "approval_decision_str Reject = ''reject''"
| "approval_decision_str Revise = ''revise''"

record approval_request =
  ar_request_id :: string
  ar_gate :: approval_gate
  ar_from_agent :: agent_type
  ar_timestamp :: string
  ar_project_id :: "string option"
  ar_summary :: string
  ar_recommendation :: string
  ar_risks :: "string list"
  ar_options :: "approval_decision list"
  ar_artifact_ref :: string

record approval_response =
  ap_request_id :: string
  ap_gate :: approval_gate
  ap_timestamp :: string
  ap_decision :: approval_decision
  ap_notes :: "string option"


section \<open>Project namespaces\<close>

definition buildProjectNamespace :: "string \<Rightarrow> string \<Rightarrow> string" where
  "buildProjectNamespace clientId projectId = ''projects/'' @ clientId @ ''/'' @ projectId @ ''/''"

text \<open>
  The pattern \<^verbatim>\<open>^projects/([^/]+)/([^/]+)/?$\<close>: the segments between slashes are
  \<^verbatim>\<open>projects\<close> and two non-empty ones, with at most an empty one behind them.
\<close>

definition parseProjectNamespace :: "string \<Rightarrow> (string \<times> string) option" where
  "parseProjectNamespace namespacePath =
     (case js_split CHR ''/'' namespacePath of
        [a, c, p] \<Rightarrow>
          if a = ''projects'' \<and> c \<noteq> [] \<and> p \<noteq> [] then Some (c, p) else None
      | [a, c, p, e] \<Rightarrow>
          if a = ''projects'' \<and> c \<noteq> [] \<and> p \<noteq> [] \<and> e = [] then Some (c, p) else None
      | _ \<Rightarrow> None)"

definition isWithinProjectContext :: "string \<Rightarrow> string \<Rightarrow> string \<Rightarrow> bool" where
  "isWithinProjectContext artifactPath clientId projectId =
     js_starts_with artifactPath (buildProjectNamespace clientId projectId)"

lemma js_split_seg: "c \<notin> set w \<Longrightarrow> js_split c (w @ c # s) = w # js_split c s"
  by (induction w) auto

lemma js_split_last: "c \<notin> set w \<Longrightarrow> js_split c w = [w]"
  by (induction w) auto

lemma parse_build_namespace:
  "CHR ''/'' \<notin> set c \<Longrightarrow> CHR ''/'' \<notin> set p \<Longrightarrow> c \<noteq> [] \<Longrightarrow> p \<noteq> [] \<Longrightarrow>
   parseProjectNamespace (buildProjectNamespace c p) = Some (c, p)"
  by (simp add: parseProjectNamespace_def buildProjectNamespace_def js_split_seg js_split_last)

lemma parse_namespace_sound:
  assumes "parseProjectNamespace s = Some (c, p)"
  shows "c \<noteq> [] \<and> p \<noteq> [] \<and> CHR ''/'' \<notin> set c \<and> CHR ''/'' \<notin> set p \<and>
    (s = buildProjectNamespace c p \<or> s @ ''/'' = buildProjectNamespace c p)"
proof -
  from assms have e: "js_split CHR ''/'' s = [''projects'', c, p] \<or>
      js_split CHR ''/'' s = [''projects'', c, p, []]" and ne: "c \<noteq> []" "p \<noteq> []"
    by (auto simp: parseProjectNamespace_def split: list.splits if_splits)
  then have "c \<in> set (js_split CHR ''/'' s)" "p \<in> set (js_split CHR ''/'' s)" by auto
  then have "CHR ''/'' \<notin> set c" "CHR ''/'' \<notin> set p" by (blast dest: js_split_no_sep)+
  moreover have "s = buildProjectNamespace c p \<or> s @ ''/'' = buildProjectNamespace c p"
    using e js_join_split [of "CHR ''/''" s] by (auto simp: buildProjectNamespace_def)
  ultimately show ?thesis using ne by simp
qed

lemma first_segment_eq:
  "c \<notin> set u \<Longrightarrow> c \<notin> set v \<Longrightarrow> prefix (u @ [c] @ s) x \<Longrightarrow> prefix (v @ [c] @ t) x \<Longrightarrow>
   u = v \<and> (\<exists>y. x = u @ [c] @ y \<and> prefix s y \<and> prefix t y)"
proof (induction u arbitrary: v x)
  case Nil
  then show ?case by (cases v) (auto simp: prefix_def)
next
  case (Cons a u)
  from Cons.prems obtain x' where x: "x = a # x'" "prefix (u @ [c] @ s) x'"
    by (cases x) auto
  from Cons.prems x obtain v' where v: "v = a # v'" "prefix (v' @ [c] @ t) x'" "c \<notin> set v'"
    by (cases v) auto
  with Cons.IH [OF _ v(3) x(2) v(2)] Cons.prems x show ?case by auto
qed

lemma within_context_unique:
  assumes "CHR ''/'' \<notin> set c" "CHR ''/'' \<notin> set p" "CHR ''/'' \<notin> set c'" "CHR ''/'' \<notin> set p'"
    and "isWithinProjectContext path c p" "isWithinProjectContext path c' p'"
  shows "c = c' \<and> p = p'"
proof -
  from assms(5,6) obtain x where x: "prefix (c @ [CHR ''/''] @ p @ [CHR ''/''] @ []) x"
      "prefix (c' @ [CHR ''/''] @ p' @ [CHR ''/''] @ []) x"
    by (auto simp: isWithinProjectContext_def js_starts_with_def buildProjectNamespace_def prefix_def)
  from first_segment_eq [OF assms(1,3) x] obtain y where
    "c = c'" "prefix (p @ [CHR ''/''] @ []) y" "prefix (p' @ [CHR ''/''] @ []) y" by blast
  with first_segment_eq [OF assms(2,4)] show ?thesis by blast
qed

section \<open>Registry records\<close>

datatype agent_status = AS_idle | AS_busy | AS_offline | AS_error | AS_stale

fun agent_status_str :: "agent_status \<Rightarrow> string" where
  "agent_status_str AS_idle = ''idle''"
| "agent_status_str AS_busy = ''busy''"
| "agent_status_str AS_offline = ''offline''"
| "agent_status_str AS_error = ''error''"
| "agent_status_str AS_stale = ''stale''"

record agent_entry =
  ae_agent_id :: string
  ae_agent_type :: agent_type
  ae_status :: agent_status
  ae_current_project_id :: "string option"
  ae_last_activity :: string

record project_entry =
  pe_project_id :: string
  pe_client_id :: string
  pe_lifecycle_state :: lifecycle_state
  pe_active_agent_ids :: "string list"
  pe_current_milestone :: string
  pe_updated_at :: string

section \<open>Agent messages\<close>

datatype message_type =
    Lead_handoff | Discovery_handoff | Implementation_handoff | Status_update
  | Clarification_request | Clarification_response | Approval_request_msg
  | Approval_response_msg | Ticket_escalation | Risk_alert

fun message_type_str :: "message_type \<Rightarrow> string" where
  "message_type_str Lead_handoff = ''lead_handoff''"
| "message_type_str Discovery_handoff = ''discovery_handoff''"
| "message_type_str Implementation_handoff = ''implementation_handoff''"
| "message_type_str Status_update = ''status_update''"
| "message_type_str Clarification_request = ''clarification_request''"
| "message_type_str Clarification_response = ''clarification_response''"
| "message_type_str Approval_request_msg = ''approval_request''"
| "message_type_str Approval_response_msg = ''approval_response''"
| "message_type_str Ticket_escalation = ''ticket_escalation''"
| "message_type_str Risk_alert = ''risk_alert''"

definition MESSAGE_TYPES :: "message_type list" where
  "MESSAGE_TYPES = [Lead_handoff, Discovery_handoff, Implementation_handoff, Status_update,
     Clarification_request, Clarification_response, Approval_request_msg,
     Approval_response_msg, Ticket_escalation, Risk_alert]"

definition HANDOFF_MESSAGE_TYPES :: "message_type list" where
  "HANDOFF_MESSAGE_TYPES = [Lead_handoff, Discovery_handoff, Implementation_handoff]"

text \<open>\<open>MESSAGE_TYPES.includes(s)\<close>, with the member found.\<close>

definition message_type_of :: "string \<Rightarrow> message_type option" where
  "message_type_of s = find (\<lambda>t. message_type_str t = s) MESSAGE_TYPES"

definition isHandoffMessageType :: "string \<Rightarrow> bool" where
  "isHandoffMessageType s = (s \<in> set (map message_type_str HANDOFF_MESSAGE_TYPES))"

lemma message_type_of_str [simp]: "message_type_of (message_type_str t) = Some t"
  by (cases t) (simp_all add: message_type_of_def MESSAGE_TYPES_def)

lemma message_type_of_Some: "message_type_of s = Some t \<longleftrightarrow> s = message_type_str t"
proof
  assume "message_type_of s = Some t"
  then show "s = message_type_str t" by (auto simp: message_type_of_def find_Some_iff)
qed simp

text \<open>
  A message as it travels: the validator only asks that sender and receiver are strings, so
  they are strings here, compared with \<^const>\<open>agent_type_str\<close> where the code compares.
\<close>

record agent_message =
  msg_from :: string
  msg_to :: string
  msg_type :: string
  msg_project_id :: string
  msg_timestamp :: string
  msg_payload :: jsval

fun required_payload_fields :: "message_type \<Rightarrow> string list" where
  "required_payload_fields Lead_handoff =
     [''handoff_id'', ''lead_id'', ''client_name'', ''stakeholder_contacts'',
      ''proposal_artifact_ref'', ''initial_scope'', ''commercial_assumptions'', ''initial_risks'']"
| "required_payload_fields Discovery_handoff =
     [''handoff_id'', ''spec_artifact_ref'', ''mvp_scope'', ''tool_stack'',
      ''acceptance_criteria'', ''technical_constraints'', ''implementation_risks'']"
| "required_payload_fields Implementation_handoff =
     [''handoff_id'', ''deliverable_artifact_ref'', ''qa_summary'', ''deployment_notes'',
      ''known_risks'', ''support_watchouts'']"
| "required_payload_fields Status_update = [''status'', ''summary'']"
| "required_payload_fields Clarification_request = [''request_id'', ''question'']"
| "required_payload_fields Clarification_response = [''request_id'', ''response'']"
| "required_payload_fields Approval_request_msg = [''approval'']"
| "required_payload_fields Approval_response_msg = [''response'']"
| "required_payload_fields Ticket_escalation =
     [''ticket_id'', ''severity'', ''summary'', ''requested_action'']"
| "required_payload_fields Risk_alert = [''risk_id'', ''severity'', ''summary'']"

text \<open>The message type of untyped data, when it is a string among the valid ones.\<close>

definition js_message_type :: "jsval \<Rightarrow> message_type option" where
  "js_message_type v = (case v of JStr s \<Rightarrow> message_type_of s | _ \<Rightarrow> None)"

definition getAgentMessageValidationErrors :: "jsval \<Rightarrow> string list" where
  "getAgentMessageValidationErrors msg =
     (if \<not> is_object msg then [''message must be an object'']
      else
        let errors =
          (if is_string (get_prop msg ''from'') then [] else [''from is required'']) @
          (if is_string (get_prop msg ''to'') then [] else [''to is required'']) @
          (if js_message_type (get_prop msg ''message_type'') = None
           then [''message_type is invalid''] else []) @
          (if is_string (get_prop msg ''project_id'') then [] else [''project_id is required'']) @
          (if is_string (get_prop msg ''timestamp'') then [] else [''timestamp is required''])
        in
        if \<not> has_prop msg ''payload'' then errors @ [''payload is required'']
        else if \<not> is_object (get_prop msg ''payload'') then errors @ [''payload must be an object'']
        else errors @
          (case js_message_type (get_prop msg ''message_type'') of
             None \<Rightarrow> []
           | Some t \<Rightarrow>
               map (\<lambda>f. ''payload.'' @ f @ '' is required'')
                 (filter (\<lambda>f. \<not> has_prop (get_prop msg ''payload'') f) (required_payload_fields t))))"

definition isValidAgentMessage :: "jsval \<Rightarrow> bool" where
  "isValidAgentMessage msg \<longleftrightarrow> getAgentMessageValidationErrors msg = []"

text \<open>The validated object, read as a message (\<open>msg as Agent_Message\<close>).\<close>

definition as_message :: "jsval \<Rightarrow> agent_message" where
  "as_message v =
     \<lparr>msg_from = str_of (get_prop v ''from''), msg_to = str_of (get_prop v ''to''),
      msg_type = str_of (get_prop v ''message_type''),
      msg_project_id = str_of (get_prop v ''project_id''),
      msg_timestamp = str_of (get_prop v ''timestamp''), msg_payload = get_prop v ''payload''\<rparr>"

text \<open>What the validator accepts, in one predicate.\<close>

lemma isValidAgentMessage_iff:
  "isValidAgentMessage v \<longleftrightarrow>
     (\<exists>ps t. v = JObj ps \<and>
        (\<forall>k \<in> {''from'', ''to'', ''project_id'', ''timestamp''}. is_string (get_prop v k)) \<and>
        get_prop v ''message_type'' = JStr (message_type_str t) \<and>
        has_prop v ''payload'' \<and> is_object (get_prop v ''payload'') \<and>
        (\<forall>f \<in> set (required_payload_fields t). has_prop (get_prop v ''payload'') f))"
    (is "_ \<longleftrightarrow> ?r")
proof
  assume "isValidAgentMessage v"
  then have e: "getAgentMessageValidationErrors v = []" by (simp add: isValidAgentMessage_def)
  then have obj: "is_object v" by (auto simp: getAgentMessageValidationErrors_def split: if_splits)
  have pay: "has_prop v ''payload'' \<and> is_object (get_prop v ''payload'')"
    using e obj by (auto simp: getAgentMessageValidationErrors_def Let_def split: if_splits)
  from pay obtain ps where ps: "v = JObj ps" by (cases v) auto
  obtain t where t: "js_message_type (get_prop v ''message_type'') = Some t"
    using e obj pay by (auto simp: getAgentMessageValidationErrors_def Let_def split: if_splits)
  have strs: "is_string (get_prop v ''from'')" "is_string (get_prop v ''to'')"
      "is_string (get_prop v ''project_id'')" "is_string (get_prop v ''timestamp'')"
    using e obj pay by (auto simp: getAgentMessageValidationErrors_def Let_def split: if_splits)
  have "filter (\<lambda>f. \<not> has_prop (get_prop v ''payload'') f) (required_payload_fields t) = []"
    using e obj pay t strs by (simp add: getAgentMessageValidationErrors_def)
  then have "\<forall>f \<in> set (required_payload_fields t). has_prop (get_prop v ''payload'') f"
    by (simp add: filter_empty_conv)
  moreover have "get_prop v ''message_type'' = JStr (message_type_str t)"
    using t by (auto simp: js_message_type_def message_type_of_Some split: jsval.splits)
  ultimately show ?r using ps strs pay by auto
next
  assume ?r
  then obtain ps t where v: "v = JObj ps"
    and s: "\<forall>k \<in> {''from'', ''to'', ''project_id'', ''timestamp''}. is_string (get_prop v k)"
    and t: "get_prop v ''message_type'' = JStr (message_type_str t)"
    and p: "has_prop v ''payload''" "is_object (get_prop v ''payload'')"
    and f: "\<forall>f \<in> set (required_payload_fields t). has_prop (get_prop v ''payload'') f" by auto
  have "is_object v" using v by simp
  moreover have "js_message_type (get_prop v ''message_type'') = Some t"
    using t by (simp add: js_message_type_def)
  moreover have "filter (\<lambda>f. \<not> has_prop (get_prop v ''payload'') f) (required_payload_fields t) = []"
    using f by (simp add: filter_empty_conv)
  ultimately show "isValidAgentMessage v"
    using s p by (simp add: isValidAgentMessage_def getAgentMessageValidationErrors_def)
qed

lemma valid_message_type:
  "isValidAgentMessage v \<Longrightarrow> \<exists>t. msg_type (as_message v) = message_type_str t"
  by (auto simp: isValidAgentMessage_iff as_message_def)

section \<open>Acknowledgment within the agreed time\<close>

definition HANDOFF_ACKNOWLEDGMENT_SLA_SECONDS :: int where
  "HANDOFF_ACKNOWLEDGMENT_SLA_SECONDS = 30"

definition isHandoffAcknowledgedWithinSla :: "string \<Rightarrow> string \<Rightarrow> int \<Rightarrow> bool" where
  "isHandoffAcknowledgedWithinSla messageTimestamp acknowledgedAt slaSeconds =
     (case (date_parse messageTimestamp, date_parse acknowledgedAt) of
        (Some startedAt, Some endedAt) \<Rightarrow> endedAt - startedAt \<le> slaSeconds * 1000
      | _ \<Rightarrow> False)"

text \<open>On printed timestamps it is the comparison of the times; an earlier acknowledgment passes.\<close>

lemma within_sla_iso:
  "\<bar>t\<bar> \<le> max_time \<Longrightarrow> \<bar>u\<bar> \<le> max_time \<Longrightarrow>
   isHandoffAcknowledgedWithinSla (iso_string t) (iso_string u) s \<longleftrightarrow> u - t \<le> s * 1000"
  by (simp add: isHandoffAcknowledgedWithinSla_def date_parse_iso_string)

section \<open>Properties of the component\<close>

lemma LS_closed_final: "x \<in> set LIFECYCLE_TRANSITIONS \<Longrightarrow> lt_from x \<noteq> LS_closed"
  by (auto simp: LIFECYCLE_TRANSITIONS_def)

lemma no_slash_projects: "CHR ''/'' \<notin> set ''projects''"
  by simp

text \<open>
  Through any number of valid transitions a project never moves to an earlier lifecycle
  state, and nothing leads out of closed.
\<close>

theorem lifecycle_forward:
  assumes "isValidTransition\<^sup>*\<^sup>* s t"
  shows "s \<le> t \<and> (s = LS_closed \<longrightarrow> t = LS_closed)"
proof -
  have step: "s \<le> t \<and> s \<noteq> LS_closed" if "isValidTransition s t" for s t
    using that transition_table_forward LS_closed_final by (fastforce simp: isValidTransition_iff)
  from assms show ?thesis
  proof (induction rule: rtranclp_induct)
    case (step t u)
    then show ?case using \<open>\<And>s t. isValidTransition s t \<Longrightarrow> s \<le> t \<and> s \<noteq> LS_closed\<close> by (blast intro: order_trans)
  qed simp
qed

theorem lifecycle_forward_witness: "LS_lead \<le> LS_proposal"
proof -
  have "isValidTransition LS_lead LS_qualified" "isValidTransition LS_qualified LS_proposal"
    by (simp_all add: isValidTransition_def LIFECYCLE_TRANSITIONS_def)
  then have "isValidTransition\<^sup>*\<^sup>* LS_lead LS_proposal" by (blast intro: rtranclp.intros)
  from lifecycle_forward [OF this] show ?thesis by simp
qed

text \<open>
  Parsing the namespace built for a client and a project gives both back, and parsing
  succeeds on nothing but such a namespace, with or without its final slash.
\<close>

theorem namespace_roundtrip:
  assumes "CHR ''/'' \<notin> set c" "CHR ''/'' \<notin> set p" "c \<noteq> []" "p \<noteq> []"
  shows "parseProjectNamespace s = Some (c, p) \<longleftrightarrow>
    s = buildProjectNamespace c p \<or> s @ ''/'' = buildProjectNamespace c p"
proof
  assume "parseProjectNamespace s = Some (c, p)"
  then show "s = buildProjectNamespace c p \<or> s @ ''/'' = buildProjectNamespace c p"
    using parse_namespace_sound by blast
next
  assume "s = buildProjectNamespace c p \<or> s @ ''/'' = buildProjectNamespace c p"
  then show "parseProjectNamespace s = Some (c, p)"
  proof
    assume "s @ ''/'' = buildProjectNamespace c p"
    then have "s = ''projects'' @ CHR ''/'' # c @ CHR ''/'' # p" by (simp add: buildProjectNamespace_def)
    then show ?thesis
      using assms by (simp only: parseProjectNamespace_def js_split_seg [OF no_slash_projects]
          js_split_seg [OF assms(1)] js_split_last [OF assms(2)]) simp
  qed (simp add: parse_build_namespace [OF assms])
qed

theorem namespace_roundtrip_witness: "parseProjectNamespace ''projects/acme/web'' = Some (''acme'', ''web'')"
  using namespace_roundtrip [of "''acme''" "''web''" "''projects/acme/web''"]
  by (simp add: buildProjectNamespace_def)

text \<open>
  No artifact path lies within the contexts of two different projects, as long as ids have
  no slash.
\<close>

theorem project_isolation:
  assumes "isWithinProjectContext path c p" and "(c, p) \<noteq> (c', p')"
    and "CHR ''/'' \<notin> set c" "CHR ''/'' \<notin> set p" "CHR ''/'' \<notin> set c'" "CHR ''/'' \<notin> set p'"
  shows "\<not> isWithinProjectContext path c' p'"
  using within_context_unique [OF assms(3-6) assms(1)] assms(2) by blast

theorem project_isolation_witness: "\<not> isWithinProjectContext ''projects/acme/web/spec.md'' ''acme'' ''webshop''"
  using project_isolation [of "''projects/acme/web/spec.md''" "''acme''" "''web''" "''acme''" "''webshop''"]
  by (simp add: isWithinProjectContext_def js_starts_with_def buildProjectNamespace_def)

text \<open>
  The message validator reports nothing exactly for objects with the four string fields, a
  known message type, and a payload object that has every field required of that type.
\<close>

theorem validator_exact:
  "getAgentMessageValidationErrors v = [] \<longleftrightarrow>
     (\<exists>ps t. v = JObj ps \<and>
        (\<forall>k \<in> {''from'', ''to'', ''project_id'', ''timestamp''}. is_string (get_prop v k)) \<and>
        get_prop v ''message_type'' = JStr (message_type_str t) \<and>
        has_prop v ''payload'' \<and> is_object (get_prop v ''payload'') \<and>
        (\<forall>f \<in> set (required_payload_fields t). has_prop (get_prop v ''payload'') f))"
  using isValidAgentMessage_iff [of v] by (simp only: isValidAgentMessage_def)

theorem validator_exact_witness:
  "getAgentMessageValidationErrors (JObj [(''from'', JStr ''sales_agent''), (''to'', JStr ''ceo_agent''),
     (''message_type'', JStr ''status_update''), (''project_id'', JStr ''p1''), (''timestamp'', JStr ''t''),
     (''payload'', JObj [(''status'', JStr ''ok''), (''summary'', JStr ''done'')])]) = []"
  unfolding validator_exact by (simp, rule exI [of _ Status_update], simp)

end
