(* ===== verification/Agent_Registry.thy ===== *)
theory Agent_Registry
  imports Domain_Types
begin

text \<open>
  The agent registry, \<^verbatim>\<open>src/registry/AgentRegistry.ts\<close>: live agents and projects,
  their snapshot histories, the audit log and the communication log, with one definition per
  method. The clock is a parameter read through a tick counter in the state, so that each
  \<^verbatim>\<open>new Date()\<close> of a method is its own reading. Objects are copied where the
  code copies them, so values model them; the entry that \<open>routeMessage\<close> returns is the logged
  object itself, which matters only to a caller that writes to it.
\<close>

section \<open>State\<close>

record agent_snapshot =
  as_entry :: agent_entry
  as_recorded_at :: string

record project_snapshot =
  ps_entry :: project_entry
  ps_recorded_at :: string

datatype audit_event =
    Access_denied | Agent_registered | Project_registered | State_updated
  | Message_routed | Message_rejected | Handoff_acknowledged | Approval_recorded
  | Lifecycle_transition_event | Lifecycle_transition_rejected

record audit_entry =
  au_timestamp :: string
  au_event :: audit_event
  au_agent_id :: "string option"
  au_project_id :: "string option"
  au_detail :: string

datatype comm_status = Routed | Rejected

record comm_entry =
  cl_log_id :: string
  cl_recorded_at :: string
  cl_message :: agent_message
  cl_status :: comm_status
  cl_rejection_reason :: "string option"
  cl_requires_ack :: bool
  cl_acknowledged_at :: "string option"
  cl_within_sla :: "bool option"

record registry =
  reg_agents :: "(string, agent_entry) js_map"
  reg_projects :: "(string, project_entry) js_map"
  reg_agent_history :: "(string, agent_snapshot list) js_map"
  reg_project_history :: "(string, project_snapshot list) js_map"
  reg_audit_log :: "audit_entry list"
  reg_comm_log :: "comm_entry list"
  reg_ticks :: nat

definition empty_registry :: registry where
  "empty_registry = \<lparr>reg_agents = [], reg_projects = [], reg_agent_history = [],
     reg_project_history = [], reg_audit_log = [], reg_comm_log = [], reg_ticks = 0\<rparr>"

datatype access_result = Allowed | Denied string

text \<open>Partial updates: the own properties of the update object, in creation order.\<close>

datatype agent_update =
    Upd_agent_type agent_type
  | Upd_status agent_status
  | Upd_current_project_id "string option"
  | Upd_last_activity string

datatype project_update =
    Upd_client_id string
  | Upd_lifecycle_state lifecycle_state
  | Upd_active_agent_ids "string list"
  | Upd_current_milestone string
  | Upd_updated_at string

section \<open>Private helpers\<close>

definition read_clock :: "clock \<Rightarrow> registry \<Rightarrow> string \<times> registry" where
  "read_clock clk r = (clk (reg_ticks r), r\<lparr>reg_ticks := Suc (reg_ticks r)\<rparr>)"

definition audit ::
  "clock \<Rightarrow> audit_event \<Rightarrow> string option \<Rightarrow> string option \<Rightarrow> string \<Rightarrow> registry \<Rightarrow> registry" where
  "audit clk ev agent proj detail r =
     (let (now, r) = read_clock clk r in
      r\<lparr>reg_audit_log := reg_audit_log r @
          [\<lparr>au_timestamp = now, au_event = ev, au_agent_id = agent, au_project_id = proj,
            au_detail = detail\<rparr>]\<rparr>)"

definition auditDenied :: "clock \<Rightarrow> string \<Rightarrow> string \<Rightarrow> string \<Rightarrow> registry \<Rightarrow> registry" where
  "auditDenied clk agentIdOrType projectId reason r =
     audit clk Access_denied (Some agentIdOrType) (Some projectId) reason r"

definition appendAgentSnapshot :: "clock \<Rightarrow> agent_entry \<Rightarrow> registry \<Rightarrow> registry" where
  "appendAgentSnapshot clk entry r =
     (let (now, r) = read_clock clk r;
          history = nullish (jm_get (reg_agent_history r) (ae_agent_id entry)) []
      in r\<lparr>reg_agent_history := jm_set (reg_agent_history r) (ae_agent_id entry)
             (history @ [\<lparr>as_entry = entry, as_recorded_at = now\<rparr>])\<rparr>)"

definition appendProjectSnapshot :: "clock \<Rightarrow> project_entry \<Rightarrow> registry \<Rightarrow> registry" where
  "appendProjectSnapshot clk entry r =
     (let (now, r) = read_clock clk r;
          history = nullish (jm_get (reg_project_history r) (pe_project_id entry)) []
      in r\<lparr>reg_project_history := jm_set (reg_project_history r) (pe_project_id entry)
             (history @ [\<lparr>ps_entry = entry, ps_recorded_at = now\<rparr>])\<rparr>)"

definition findAgentByType :: "string \<Rightarrow> registry \<Rightarrow> agent_entry option" where
  "findAgentByType agentType r =
     find (\<lambda>entry. agent_type_str (ae_agent_type entry) = agentType) (jm_values (reg_agents r))"

definition recordCommunication ::
  "clock \<Rightarrow> agent_message \<Rightarrow> comm_status \<Rightarrow> string option \<Rightarrow> registry \<Rightarrow> comm_entry \<times> registry" where
  "recordCommunication clk message status rejectionReason r =
     (let (recordedAt, r) = read_clock clk r;
          entry = \<lparr>cl_log_id = ''comm-'' @ nat_str (length (reg_comm_log r) + 1),
            cl_recorded_at = recordedAt, cl_message = message, cl_status = status,
            cl_rejection_reason = rejectionReason,
            cl_requires_ack = isHandoffMessageType (msg_type message),
            cl_acknowledged_at = None, cl_within_sla = None\<rparr>
      in (entry, r\<lparr>reg_comm_log := reg_comm_log r @ [entry]\<rparr>))"

definition matchesHandoff :: "string \<Rightarrow> comm_entry \<Rightarrow> bool" where
  "matchesHandoff handoffId entry \<longleftrightarrow>
     isHandoffMessageType (msg_type (cl_message entry)) \<and>
     get_prop (msg_payload (cl_message entry)) ''handoff_id'' = JStr handoffId"

section \<open>Agents\<close>

definition registerAgent :: "clock \<Rightarrow> agent_entry \<Rightarrow> registry \<Rightarrow> registry" where
  "registerAgent clk entry r =
     (let r = r\<lparr>reg_agents := jm_set (reg_agents r) (ae_agent_id entry) entry\<rparr>;
          r = appendAgentSnapshot clk entry r
      in audit clk Agent_registered (Some (ae_agent_id entry)) None
           (''Agent '' @ ae_agent_id entry @ '' ('' @ agent_type_str (ae_agent_type entry) @
            '') registered with status \"'' @ agent_status_str (ae_status entry) @ ''\"'') r)"

fun apply_agent_update :: "agent_entry \<Rightarrow> agent_update \<Rightarrow> agent_entry" where
  "apply_agent_update e (Upd_agent_type t) = e\<lparr>ae_agent_type := t\<rparr>"
| "apply_agent_update e (Upd_status s) = e\<lparr>ae_status := s\<rparr>"
| "apply_agent_update e (Upd_current_project_id p) = e\<lparr>ae_current_project_id := p\<rparr>"
| "apply_agent_update e (Upd_last_activity t) = e\<lparr>ae_last_activity := t\<rparr>"

text \<open>The member an update contributes to \<^verbatim>\<open>JSON.stringify(updates)\<close>; undefined ones are left out.\<close>

fun agent_update_json :: "agent_update \<Rightarrow> (string \<times> string) list" where
  "agent_update_json (Upd_agent_type t) = [(''agent_type'', json_string (agent_type_str t))]"
| "agent_update_json (Upd_status s) = [(''status'', json_string (agent_status_str s))]"
| "agent_update_json (Upd_current_project_id None) = []"
| "agent_update_json (Upd_current_project_id (Some p)) = [(''current_project_id'', json_string p)]"
| "agent_update_json (Upd_last_activity t) = [(''last_activity_timestamp'', json_string t)]"

definition updateAgent ::
  "clock \<Rightarrow> string \<Rightarrow> agent_update list \<Rightarrow> registry \<Rightarrow> registry outcome" where
  "updateAgent clk agentId updates r =
     (case jm_get (reg_agents r) agentId of
        None \<Rightarrow> Inl (''Agent not found: '' @ agentId)
      | Some existing \<Rightarrow>
          let updated = (foldl apply_agent_update existing updates)\<lparr>ae_agent_id := agentId\<rparr>;
              r = r\<lparr>reg_agents := jm_set (reg_agents r) agentId updated\<rparr>;
              r = appendAgentSnapshot clk updated r
          in Inr (audit clk State_updated (Some agentId) None
               (''Agent '' @ agentId @ '' state updated: '' @
                json_object (concat (map agent_update_json updates))) r))"

definition getAgent :: "registry \<Rightarrow> string \<Rightarrow> agent_entry option" where
  "getAgent r agentId = jm_get (reg_agents r) agentId"

definition listAgents :: "registry \<Rightarrow> agent_entry list" where
  "listAgents r = jm_values (reg_agents r)"

section \<open>Projects\<close>

definition registerProject :: "clock \<Rightarrow> project_entry \<Rightarrow> registry \<Rightarrow> registry" where
  "registerProject clk entry r =
     (let r = r\<lparr>reg_projects := jm_set (reg_projects r) (pe_project_id entry) entry\<rparr>;
          r = appendProjectSnapshot clk entry r
      in audit clk Project_registered None (Some (pe_project_id entry))
           (''Project '' @ pe_project_id entry @ '' (client: '' @ pe_client_id entry @
            '') registered at state \"'' @ lifecycle_str (pe_lifecycle_state entry) @ ''\"'') r)"

fun apply_project_update :: "project_entry \<Rightarrow> project_update \<Rightarrow> project_entry" where
  "apply_project_update e (Upd_client_id c) = e\<lparr>pe_client_id := c\<rparr>"
| "apply_project_update e (Upd_lifecycle_state s) = e\<lparr>pe_lifecycle_state := s\<rparr>"
| "apply_project_update e (Upd_active_agent_ids ids) = e\<lparr>pe_active_agent_ids := ids\<rparr>"
| "apply_project_update e (Upd_current_milestone m) = e\<lparr>pe_current_milestone := m\<rparr>"
| "apply_project_update e (Upd_updated_at t) = e\<lparr>pe_updated_at := t\<rparr>"

fun project_update_json :: "project_update \<Rightarrow> string \<times> string" where
  "project_update_json (Upd_client_id c) = (''client_id'', json_string c)"
| "project_update_json (Upd_lifecycle_state s) = (''lifecycle_state'', json_string (lifecycle_str s))"
| "project_update_json (Upd_active_agent_ids ids) = (''active_agent_ids'', json_array (map json_string ids))"
| "project_update_json (Upd_current_milestone m) = (''current_milestone'', json_string m)"
| "project_update_json (Upd_updated_at t) = (''updated_at'', json_string t)"

definition updateProject ::
  "clock \<Rightarrow> string \<Rightarrow> project_update list \<Rightarrow> registry \<Rightarrow> registry outcome" where
  "updateProject clk projectId updates r =
     (case jm_get (reg_projects r) projectId of
        None \<Rightarrow> Inl (''Project not found: '' @ projectId)
      | Some existing \<Rightarrow>
          let updated = (foldl apply_project_update existing updates)\<lparr>pe_project_id := projectId\<rparr>;
              r = r\<lparr>reg_projects := jm_set (reg_projects r) projectId updated\<rparr>;
              r = appendProjectSnapshot clk updated r
          in Inr (audit clk State_updated None (Some projectId)
               (''Project '' @ projectId @ '' state updated: '' @
                json_object (map project_update_json updates)) r))"

definition getProject :: "registry \<Rightarrow> string \<Rightarrow> project_entry option" where
  "getProject r projectId = jm_get (reg_projects r) projectId"

definition listProjects :: "registry \<Rightarrow> project_entry list" where
  "listProjects r = jm_values (reg_projects r)"

section \<open>Access validation\<close>

definition validateAgentProjectAccess ::
  "clock \<Rightarrow> string \<Rightarrow> string \<Rightarrow> registry \<Rightarrow> access_result \<times> registry" where
  "validateAgentProjectAccess clk agentId projectId r =
     (case jm_get (reg_agents r) agentId of
        None \<Rightarrow>
          let reason = ''Agent not found: '' @ agentId
          in (Denied reason, auditDenied clk agentId projectId reason r)
      | Some agent \<Rightarrow>
          if ae_current_project_id agent \<noteq> Some projectId then
            let reason = ''Agent '' @ agentId @ '' is not authorised for project '' @ projectId @
                  ''. Current project: '' @ nullish (ae_current_project_id agent) ''(none)''
            in (Denied reason, auditDenied clk agentId projectId reason r)
          else (Allowed, r))"

definition validateMessageAccess ::
  "clock \<Rightarrow> agent_message \<Rightarrow> registry \<Rightarrow> access_result \<times> registry" where
  "validateMessageAccess clk message r =
     (case findAgentByType (msg_from message) r of
        None \<Rightarrow>
          let reason = ''Sender agent type not registered: '' @ msg_from message
          in (Denied reason, auditDenied clk (msg_from message) (msg_project_id message) reason r)
      | Some sender \<Rightarrow>
          (case findAgentByType (msg_to message) r of
             None \<Rightarrow>
               let reason = ''Receiver agent type not registered: '' @ msg_to message
               in (Denied reason, auditDenied clk (msg_to message) (msg_project_id message) reason r)
           | Some receiver \<Rightarrow>
               (case validateAgentProjectAccess clk (ae_agent_id sender) (msg_project_id message) r of
                  (Denied reason, r) \<Rightarrow> (Denied reason, r)
                | (Allowed, r) \<Rightarrow>
                    validateAgentProjectAccess clk (ae_agent_id receiver) (msg_project_id message) r)))"

section \<open>Messages\<close>

definition routeMessage ::
  "clock \<Rightarrow> jsval \<Rightarrow> registry \<Rightarrow> (string + comm_entry) \<times> registry" where
  "routeMessage clk message r =
     (let errors = getAgentMessageValidationErrors message in
      if errors \<noteq> [] then
        let reason = js_join ''; '' errors
        in (Inl reason, audit clk Message_rejected None None reason r)
      else
        let typedMessage = as_message message in
        (case validateMessageAccess clk typedMessage r of
           (Denied reason, r) \<Rightarrow>
             let (entry, r) = recordCommunication clk typedMessage Rejected (Some reason) r
             in (Inl (nullish (cl_rejection_reason entry) reason),
                 audit clk Message_rejected None (Some (msg_project_id typedMessage)) reason r)
         | (Allowed, r) \<Rightarrow>
             let (entry, r) = recordCommunication clk typedMessage Routed None r
             in (Inr entry,
                 audit clk Message_routed None (Some (msg_project_id typedMessage))
                   (msg_type typedMessage @ '' routed from '' @ msg_from typedMessage @
                    '' to '' @ msg_to typedMessage) r)))"

text \<open>The newest matching entry is found from the end of the log and written in place.\<close>

fun update_first :: "('a \<Rightarrow> bool) \<Rightarrow> ('a \<Rightarrow> 'a) \<Rightarrow> 'a list \<Rightarrow> ('a \<times> 'a list) option" where
  "update_first P f [] = None"
| "update_first P f (x # xs) =
     (if P x then Some (f x, f x # xs)
      else map_option (\<lambda>(y, ys). (y, x # ys)) (update_first P f xs))"

definition acknowledge_entry :: "string \<Rightarrow> comm_entry \<Rightarrow> comm_entry" where
  "acknowledge_entry acknowledgedAt target =
     target\<lparr>cl_acknowledged_at := Some acknowledgedAt,
       cl_within_sla := Some (isHandoffAcknowledgedWithinSla
         (msg_timestamp (cl_message target)) acknowledgedAt HANDOFF_ACKNOWLEDGMENT_SLA_SECONDS)\<rparr>"

definition acknowledgeHandoff ::
  "clock \<Rightarrow> string \<Rightarrow> string option \<Rightarrow> registry \<Rightarrow> access_result \<times> registry" where
  "acknowledgeHandoff clk handoffId ackAt r =
     (let (acknowledgedAt, r) = (case ackAt of Some t \<Rightarrow> (t, r) | None \<Rightarrow> read_clock clk r) in
      case update_first (matchesHandoff handoffId) (acknowledge_entry acknowledgedAt)
             (rev (reg_comm_log r)) of
        None \<Rightarrow> (Denied (''Handoff not found: '' @ handoffId), r)
      | Some (target, newestFirst) \<Rightarrow>
          (Allowed,
           audit clk Handoff_acknowledged None (Some (msg_project_id (cl_message target)))
             (''Handoff '' @ handoffId @ '' acknowledged by '' @ msg_to (cl_message target) @
              '' within SLA: '' @ (if cl_within_sla target = Some True then ''yes'' else ''no''))
             (r\<lparr>reg_comm_log := rev newestFirst\<rparr>)))"

section \<open>Lifecycle and approvals\<close>

record transition_args =
  tr_project_id :: string
  tr_to :: lifecycle_state
  tr_event :: lifecycle_event
  tr_actor :: agent_type
  tr_updated_at :: "string option"
  tr_milestone :: "string option"

definition transitionProjectLifecycle ::
  "clock \<Rightarrow> transition_args \<Rightarrow> registry \<Rightarrow> (access_result \<times> registry) outcome" where
  "transitionProjectLifecycle clk args r =
     (case jm_get (reg_projects r) (tr_project_id args) of
        None \<Rightarrow> Inr (Denied (''Project not found: '' @ tr_project_id args), r)
      | Some project \<Rightarrow>
          (case validateLifecycleTransition (pe_lifecycle_state project) (tr_to args)
                  (Some (tr_event args)) (Some (tr_actor args)) of
             Some reason \<Rightarrow>
               Inr (Denied reason,
                 audit clk Lifecycle_transition_rejected None (Some (tr_project_id args)) reason r)
           | None \<Rightarrow>
               let milestone = nullish (tr_milestone args) (lifecycle_event_str (tr_event args));
                   (updatedAt, r) =
                     (case tr_updated_at args of Some t \<Rightarrow> (t, r) | None \<Rightarrow> read_clock clk r)
               in outcome_bind
                    (updateProject clk (tr_project_id args)
                      [Upd_lifecycle_state (tr_to args), Upd_current_milestone milestone,
                       Upd_updated_at updatedAt] r)
                    (\<lambda>r. Inr (Allowed,
                       audit clk Lifecycle_transition_event None (Some (tr_project_id args))
                         (lifecycle_str (pe_lifecycle_state project) @ '' -> '' @
                          lifecycle_str (tr_to args) @ '' via '' @ lifecycle_event_str (tr_event args) @
                          '' by '' @ agent_type_str (tr_actor args)) r))))"

definition recordApprovalResponse :: "clock \<Rightarrow> approval_response \<Rightarrow> registry \<Rightarrow> registry" where
  "recordApprovalResponse clk response r =
     audit clk Approval_recorded None None
       (''Approval '' @ ap_request_id response @ '' recorded with decision '' @
        approval_decision_str (ap_decision response)) r"

section \<open>Reads\<close>

definition getAgentHistory :: "registry \<Rightarrow> string \<Rightarrow> agent_snapshot list" where
  "getAgentHistory r agentId = nullish (jm_get (reg_agent_history r) agentId) []"

definition getProjectHistory :: "registry \<Rightarrow> string \<Rightarrow> project_snapshot list" where
  "getProjectHistory r projectId = nullish (jm_get (reg_project_history r) projectId) []"

definition getAuditLog :: "registry \<Rightarrow> audit_entry list" where
  "getAuditLog r = reg_audit_log r"

definition getCommunicationLog :: "registry \<Rightarrow> comm_entry list" where
  "getCommunicationLog r = reg_comm_log r"

definition getState ::
  "registry \<Rightarrow> (string, agent_entry) js_map \<times> (string, project_entry) js_map" where
  "getState r =
     (foldl (\<lambda>m (id, entry). jm_set m id entry) [] (reg_agents r),
      foldl (\<lambda>m (id, entry). jm_set m id entry) [] (reg_projects r))"

end
