(* ===== verification/Registry_Correct.thy ===== *)
theory Registry_Correct
  imports Agent_Registry
begin

text \<open>
  Correctness of the agent registry. The operations are the steps of a machine
  (\<open>reg_step\<close>); every step keeps the invariant \<open>reg_inv\<close> that ties the live maps, the histories
  and the communication log together, and only ever appends to the histories and logs
  (\<open>reg_extends\<close>). Access is characterised exactly, and so are routing and the lifecycle
  transition on each branch.
\<close>

section \<open>What the helpers touch\<close>

lemma read_clock_frame [simp]:
  "read_clock clk r = (t, r') \<Longrightarrow> r' = r\<lparr>reg_ticks := Suc (reg_ticks r)\<rparr> \<and> t = clk (reg_ticks r)"
  by (auto simp: read_clock_def)

lemma audit_frame [simp]:
  "reg_agents (audit clk ev a p d r) = reg_agents r"
  "reg_projects (audit clk ev a p d r) = reg_projects r"
  "reg_agent_history (audit clk ev a p d r) = reg_agent_history r"
  "reg_project_history (audit clk ev a p d r) = reg_project_history r"
  "reg_comm_log (audit clk ev a p d r) = reg_comm_log r"
  "reg_ticks (audit clk ev a p d r) = Suc (reg_ticks r)"
  "reg_audit_log (audit clk ev a p d r) = reg_audit_log r @
     [\<lparr>au_timestamp = clk (reg_ticks r), au_event = ev, au_agent_id = a, au_project_id = p,
       au_detail = d\<rparr>]"
  by (simp_all add: audit_def read_clock_def Let_def)

lemma appendAgentSnapshot_frame [simp]:
  "reg_agents (appendAgentSnapshot clk e r) = reg_agents r"
  "reg_projects (appendAgentSnapshot clk e r) = reg_projects r"
  "reg_agent_history (appendAgentSnapshot clk e r) = jm_set (reg_agent_history r) (ae_agent_id e)
     (nullish (jm_get (reg_agent_history r) (ae_agent_id e)) [] @
      [\<lparr>as_entry = e, as_recorded_at = clk (reg_ticks r)\<rparr>])"
  "reg_project_history (appendAgentSnapshot clk e r) = reg_project_history r"
  "reg_comm_log (appendAgentSnapshot clk e r) = reg_comm_log r"
  "reg_audit_log (appendAgentSnapshot clk e r) = reg_audit_log r"
  by (simp_all add: appendAgentSnapshot_def read_clock_def Let_def)

lemma appendProjectSnapshot_frame [simp]:
  "reg_agents (appendProjectSnapshot clk e r) = reg_agents r"
  "reg_projects (appendProjectSnapshot clk e r) = reg_projects r"
  "reg_project_history (appendProjectSnapshot clk e r) = jm_set (reg_project_history r) (pe_project_id e)
     (nullish (jm_get (reg_project_history r) (pe_project_id e)) [] @
      [\<lparr>ps_entry = e, ps_recorded_at = clk (reg_ticks r)\<rparr>])"
  "reg_agent_history (appendProjectSnapshot clk e r) = reg_agent_history r"
  "reg_comm_log (appendProjectSnapshot clk e r) = reg_comm_log r"
  "reg_audit_log (appendProjectSnapshot clk e r) = reg_audit_log r"
  by (simp_all add: appendProjectSnapshot_def read_clock_def Let_def)

section \<open>Invariant\<close>

text \<open>A live map shows the last snapshot of each history, and no history is empty.\<close>

definition tracked :: "('s \<Rightarrow> 'e) \<Rightarrow> ('k, 'e) js_map \<Rightarrow> ('k, 's list) js_map \<Rightarrow> bool" where
  "tracked snap live hist \<longleftrightarrow>
     (\<forall>k. jm_get live k = map_option (\<lambda>h. snap (last h)) (jm_get hist k) \<and>
          jm_get hist k \<noteq> Some [])"

lemma tracked_Nil [simp]: "tracked snap [] []"
  by (simp add: tracked_def)

lemma tracked_put:
  "tracked snap live hist \<Longrightarrow> snap s = e \<Longrightarrow> tracked snap (jm_set live k e) (jm_set hist k (xs @ [s]))"
  by (simp add: tracked_def)

definition agents_recorded :: "registry \<Rightarrow> bool" where
  "agents_recorded r \<longleftrightarrow>
     keyed_by ae_agent_id (reg_agents r) \<and> tracked as_entry (reg_agents r) (reg_agent_history r)"

definition projects_recorded :: "registry \<Rightarrow> bool" where
  "projects_recorded r \<longleftrightarrow>
     keyed_by pe_project_id (reg_projects r) \<and> tracked ps_entry (reg_projects r) (reg_project_history r)"

definition comm_entry_ok :: "comm_entry \<Rightarrow> bool" where
  "comm_entry_ok e \<longleftrightarrow>
     (cl_status e = Rejected \<longleftrightarrow> cl_rejection_reason e \<noteq> None) \<and>
     cl_requires_ack e = isHandoffMessageType (msg_type (cl_message e)) \<and>
     (cl_acknowledged_at e \<noteq> None \<longrightarrow> cl_requires_ack e) \<and>
     (cl_acknowledged_at e = None \<longleftrightarrow> cl_within_sla e = None)"

definition comm_log_ok :: "comm_entry list \<Rightarrow> bool" where
  "comm_log_ok log \<longleftrightarrow>
     map cl_log_id log = map (\<lambda>i. ''comm-'' @ nat_str (i + 1)) [0..<length log] \<and>
     (\<forall>e \<in> set log. comm_entry_ok e)"

definition reg_inv :: "registry \<Rightarrow> bool" where
  "reg_inv r \<longleftrightarrow> agents_recorded r \<and> projects_recorded r \<and> comm_log_ok (reg_comm_log r)"

lemma reg_inv_empty: "reg_inv empty_registry"
  by (simp add: reg_inv_def empty_registry_def agents_recorded_def projects_recorded_def comm_log_ok_def)

lemma reg_inv_cong:
  "reg_agents r' = reg_agents r \<Longrightarrow> reg_projects r' = reg_projects r \<Longrightarrow>
   reg_agent_history r' = reg_agent_history r \<Longrightarrow> reg_project_history r' = reg_project_history r \<Longrightarrow>
   reg_comm_log r' = reg_comm_log r \<Longrightarrow> reg_inv r' = reg_inv r"
  by (simp add: reg_inv_def agents_recorded_def projects_recorded_def)

lemma reg_inv_audit [simp]: "reg_inv (audit clk ev a p d r) = reg_inv r"
  by (rule reg_inv_cong) simp_all

lemma reg_inv_ticks [simp]: "reg_inv (r\<lparr>reg_ticks := n\<rparr>) = reg_inv r"
  by (rule reg_inv_cong) simp_all

lemma reg_inv_put_agent:
  "reg_inv r \<Longrightarrow> ae_agent_id e = k \<Longrightarrow>
   reg_inv (appendAgentSnapshot clk e (r\<lparr>reg_agents := jm_set (reg_agents r) k e\<rparr>))"
  by (auto simp: reg_inv_def agents_recorded_def projects_recorded_def keyed_by_set tracked_put)

lemma reg_inv_put_project:
  "reg_inv r \<Longrightarrow> pe_project_id e = k \<Longrightarrow>
   reg_inv (appendProjectSnapshot clk e (r\<lparr>reg_projects := jm_set (reg_projects r) k e\<rparr>))"
  by (auto simp: reg_inv_def agents_recorded_def projects_recorded_def keyed_by_set tracked_put)

lemma updateAgent_cases:
  assumes "updateAgent clk agentId updates r = Inr r'"
  obtains e u where "jm_get (reg_agents r) agentId = Some e" "ae_agent_id u = agentId"
    "u = (foldl apply_agent_update e updates)\<lparr>ae_agent_id := agentId\<rparr>"
    "r' = audit clk State_updated (Some agentId) None
            (''Agent '' @ agentId @ '' state updated: '' @ json_object (concat (map agent_update_json updates)))
            (appendAgentSnapshot clk u (r\<lparr>reg_agents := jm_set (reg_agents r) (ae_agent_id u) u\<rparr>))"
  using assms by (auto simp: updateAgent_def Let_def split: option.splits)

lemma updateProject_cases:
  assumes "updateProject clk projectId updates r = Inr r'"
  obtains e u where "jm_get (reg_projects r) projectId = Some e" "pe_project_id u = projectId"
    "u = (foldl apply_project_update e updates)\<lparr>pe_project_id := projectId\<rparr>"
    "r' = audit clk State_updated None (Some projectId)
            (''Project '' @ projectId @ '' state updated: '' @ json_object (map project_update_json updates))
            (appendProjectSnapshot clk u (r\<lparr>reg_projects := jm_set (reg_projects r) (pe_project_id u) u\<rparr>))"
  using assms by (auto simp: updateProject_def Let_def split: option.splits)

lemma registerAgent_inv: "reg_inv r \<Longrightarrow> reg_inv (registerAgent clk e r)"
  by (simp add: registerAgent_def Let_def reg_inv_put_agent)

lemma registerProject_inv: "reg_inv r \<Longrightarrow> reg_inv (registerProject clk e r)"
  by (simp add: registerProject_def Let_def reg_inv_put_project)

lemma updateAgent_inv: "reg_inv r \<Longrightarrow> updateAgent clk i us r = Inr r' \<Longrightarrow> reg_inv r'"
  by (erule updateAgent_cases) (simp add: reg_inv_put_agent)

lemma updateProject_inv: "reg_inv r \<Longrightarrow> updateProject clk i us r = Inr r' \<Longrightarrow> reg_inv r'"
  by (erule updateProject_cases) (simp add: reg_inv_put_project)

section \<open>Access decisions\<close>

text \<open>Access checks change nothing but the audit log, and that only when they deny.\<close>

definition may_access :: "registry \<Rightarrow> string \<Rightarrow> string \<Rightarrow> bool" where
  "may_access r agentId projectId \<longleftrightarrow>
     (\<exists>e. jm_get (reg_agents r) agentId = Some e \<and> ae_current_project_id e = Some projectId)"

lemma validateAgentProjectAccess_allowed:
  "may_access r a p \<Longrightarrow> validateAgentProjectAccess clk a p r = (Allowed, r)"
  by (auto simp: may_access_def validateAgentProjectAccess_def)

lemma validateAgentProjectAccess_denied:
  "\<not> may_access r a p \<Longrightarrow>
   \<exists>reason. validateAgentProjectAccess clk a p r =
     (Denied reason, audit clk Access_denied (Some a) (Some p) reason r)"
  by (auto simp: may_access_def validateAgentProjectAccess_def auditDenied_def Let_def
      split: option.splits)

definition message_allowed :: "registry \<Rightarrow> agent_message \<Rightarrow> bool" where
  "message_allowed r m \<longleftrightarrow>
     (\<exists>s t. findAgentByType (msg_from m) r = Some s \<and> findAgentByType (msg_to m) r = Some t \<and>
        may_access r (ae_agent_id s) (msg_project_id m) \<and>
        may_access r (ae_agent_id t) (msg_project_id m))"

lemma validateMessageAccess_allowed:
  "message_allowed r m \<Longrightarrow> validateMessageAccess clk m r = (Allowed, r)"
  by (auto simp: message_allowed_def validateMessageAccess_def validateAgentProjectAccess_allowed)

lemma validateMessageAccess_denied:
  assumes "\<not> message_allowed r m"
  shows "\<exists>who reason. validateMessageAccess clk m r =
    (Denied reason, audit clk Access_denied (Some who) (Some (msg_project_id m)) reason r)"
proof (cases "findAgentByType (msg_from m) r")
  case None
  then show ?thesis by (auto simp: validateMessageAccess_def auditDenied_def Let_def)
next
  case s: (Some s)
  show ?thesis
  proof (cases "findAgentByType (msg_to m) r")
    case None
    with s show ?thesis by (auto simp: validateMessageAccess_def auditDenied_def Let_def)
  next
    case t: (Some t)
    show ?thesis
    proof (cases "may_access r (ae_agent_id s) (msg_project_id m)")
      case True
      with assms s t have "\<not> may_access r (ae_agent_id t) (msg_project_id m)"
        by (auto simp: message_allowed_def)
      from validateAgentProjectAccess_denied [OF this, of clk] True s t show ?thesis
        by (auto simp: validateMessageAccess_def validateAgentProjectAccess_allowed)
    next
      case False
      from validateAgentProjectAccess_denied [OF this, of clk] s t show ?thesis
        by (fastforce simp: validateMessageAccess_def)
    qed
  qed
qed

section \<open>Routing\<close>

definition new_comm_entry ::
  "clock \<Rightarrow> registry \<Rightarrow> agent_message \<Rightarrow> comm_status \<Rightarrow> string option \<Rightarrow> comm_entry" where
  "new_comm_entry clk r m st reason =
     \<lparr>cl_log_id = ''comm-'' @ nat_str (length (reg_comm_log r) + 1),
      cl_recorded_at = clk (reg_ticks r), cl_message = m, cl_status = st,
      cl_rejection_reason = reason, cl_requires_ack = isHandoffMessageType (msg_type m),
      cl_acknowledged_at = None, cl_within_sla = None\<rparr>"

lemma recordCommunication_eq:
  "recordCommunication clk m st reason r =
     (new_comm_entry clk r m st reason,
      r\<lparr>reg_ticks := Suc (reg_ticks r), reg_comm_log := reg_comm_log r @ [new_comm_entry clk r m st reason]\<rparr>)"
  by (simp add: recordCommunication_def new_comm_entry_def read_clock_def Let_def)

lemma routeMessage_malformed:
  "\<not> isValidAgentMessage v \<Longrightarrow>
   routeMessage clk v r =
     (Inl (js_join ''; '' (getAgentMessageValidationErrors v)),
      audit clk Message_rejected None None (js_join ''; '' (getAgentMessageValidationErrors v)) r)"
  by (simp add: routeMessage_def isValidAgentMessage_def Let_def)

lemma routeMessage_allowed:
  assumes "isValidAgentMessage v" "message_allowed r (as_message v)"
  shows "\<exists>d. routeMessage clk v r =
    (let e = new_comm_entry clk r (as_message v) Routed None in
     (Inr e, audit clk Message_routed None (Some (msg_project_id (as_message v))) d
        (r\<lparr>reg_ticks := Suc (reg_ticks r), reg_comm_log := reg_comm_log r @ [e]\<rparr>)))"
  using assms
  by (auto simp: routeMessage_def isValidAgentMessage_def Let_def validateMessageAccess_allowed
      recordCommunication_eq)

lemma routeMessage_denied:
  assumes "isValidAgentMessage v" "\<not> message_allowed r (as_message v)"
  shows "\<exists>who reason r1 e. r1 = audit clk Access_denied (Some who) (Some (msg_project_id (as_message v))) reason r \<and>
    e = new_comm_entry clk r1 (as_message v) Rejected (Some reason) \<and>
    routeMessage clk v r =
     (Inl reason, audit clk Message_rejected None (Some (msg_project_id (as_message v))) reason
        (r1\<lparr>reg_ticks := Suc (reg_ticks r1), reg_comm_log := reg_comm_log r1 @ [e]\<rparr>))"
proof -
  obtain who reason where d: "validateMessageAccess clk (as_message v) r =
      (Denied reason, audit clk Access_denied (Some who) (Some (msg_project_id (as_message v))) reason r)"
    using validateMessageAccess_denied [OF assms(2)] by blast
  have "cl_rejection_reason (new_comm_entry clk r1 m st (Some reason)) = Some reason" for r1 m st
    by (simp add: new_comm_entry_def)
  with assms(1) d show ?thesis
    by (auto simp: routeMessage_def isValidAgentMessage_def Let_def recordCommunication_eq)
qed

lemma comm_log_ok_append:
  "comm_log_ok log \<Longrightarrow> cl_log_id e = ''comm-'' @ nat_str (length log + 1) \<Longrightarrow> comm_entry_ok e \<Longrightarrow>
   comm_log_ok (log @ [e])"
  by (auto simp: comm_log_ok_def)

lemma new_comm_entry_ok:
  "(st = Rejected \<longleftrightarrow> reason \<noteq> None) \<Longrightarrow> comm_entry_ok (new_comm_entry clk r m st reason)"
  by (simp add: comm_entry_ok_def new_comm_entry_def)

lemma new_comm_entry_id:
  "cl_log_id (new_comm_entry clk r m st reason) = ''comm-'' @ nat_str (length (reg_comm_log r) + 1)"
  by (simp add: new_comm_entry_def)

lemma reg_inv_log:
  assumes "reg_inv r" "st = Rejected \<longleftrightarrow> reason \<noteq> None"
  shows "reg_inv (r\<lparr>reg_ticks := n, reg_comm_log := reg_comm_log r @ [new_comm_entry clk r m st reason]\<rparr>)"
proof -
  have "comm_log_ok (reg_comm_log r @ [new_comm_entry clk r m st reason])"
    using assms by (intro comm_log_ok_append new_comm_entry_id new_comm_entry_ok) (auto simp: reg_inv_def)
  with assms(1) show ?thesis
    by (simp add: reg_inv_def agents_recorded_def projects_recorded_def)
qed

lemma routeMessage_inv:
  assumes "reg_inv r" shows "reg_inv (snd (routeMessage clk v r))"
proof (cases "isValidAgentMessage v")
  case True
  show ?thesis
  proof (cases "message_allowed r (as_message v)")
    case al: True
    from routeMessage_allowed [OF True al, of clk] reg_inv_log [OF assms, of Routed None]
    show ?thesis by (auto simp: Let_def)
  next
    case False
    from routeMessage_denied [OF True False, of clk] obtain who reason r1 e where
      d: "r1 = audit clk Access_denied (Some who) (Some (msg_project_id (as_message v))) reason r"
         "e = new_comm_entry clk r1 (as_message v) Rejected (Some reason)"
         "routeMessage clk v r =
           (Inl reason, audit clk Message_rejected None (Some (msg_project_id (as_message v))) reason
             (r1\<lparr>reg_ticks := Suc (reg_ticks r1), reg_comm_log := reg_comm_log r1 @ [e]\<rparr>))"
      by blast
    have "reg_inv r1" using assms d(1) by simp
    from reg_inv_log [OF this, of Rejected "Some reason"] show ?thesis by (simp add: d(2,3))
  qed
next
  case False
  with assms show ?thesis by (simp add: routeMessage_malformed)
qed

section \<open>Acknowledgment\<close>

lemma update_first_None: "update_first P f xs = None \<longleftrightarrow> (\<forall>x \<in> set xs. \<not> P x)"
  by (induction xs) auto

lemma update_first_Some:
  "update_first P f xs = Some (y, ys) \<Longrightarrow>
   \<exists>us x vs. xs = us @ x # vs \<and> (\<forall>u \<in> set us. \<not> P u) \<and> P x \<and> y = f x \<and> ys = us @ f x # vs"
proof (induction xs arbitrary: ys)
  case (Cons a xs)
  show ?case
  proof (cases "P a")
    case True
    with Cons.prems have "a # xs = [] @ a # xs \<and> P a \<and> y = f a \<and> ys = [] @ f a # xs" by auto
    then show ?thesis by (metis empty_iff empty_set)
  next
    case False
    with Cons.prems obtain zs where z: "update_first P f xs = Some (y, zs)" "ys = a # zs" by auto
    from Cons.IH [OF z(1)] obtain us x vs where
      "xs = us @ x # vs" "\<forall>u \<in> set us. \<not> P u" "P x" "y = f x" "zs = us @ f x # vs" by blast
    with False z(2) have "a # xs = (a # us) @ x # vs \<and> (\<forall>u \<in> set (a # us). \<not> P u) \<and> P x \<and> y = f x \<and>
      ys = (a # us) @ f x # vs" by simp
    then show ?thesis by blast
  qed
qed simp

text \<open>On success the newest matching entry, and no other, carries the acknowledgment.\<close>

lemma acknowledgeHandoff_cases:
  obtains
    (missing) reason n where "\<forall>e \<in> set (reg_comm_log r). \<not> matchesHandoff h e"
      "acknowledgeHandoff clk h at r = (Denied reason, r\<lparr>reg_ticks := n\<rparr>)"
  | (found) us e vs t d n where "reg_comm_log r = us @ e # vs" "matchesHandoff h e"
      "\<forall>x \<in> set vs. \<not> matchesHandoff h x" "t = (case at of Some t \<Rightarrow> t | None \<Rightarrow> clk (reg_ticks r))"
      "acknowledgeHandoff clk h at r =
        (Allowed, audit clk Handoff_acknowledged None (Some (msg_project_id (cl_message e))) d
          (r\<lparr>reg_ticks := n, reg_comm_log := us @ acknowledge_entry t e # vs\<rparr>))"
proof -
  obtain t n where tn: "(case at of Some t \<Rightarrow> (t, r) | None \<Rightarrow> read_clock clk r) = (t, r\<lparr>reg_ticks := n\<rparr>)"
      "t = (case at of Some t \<Rightarrow> t | None \<Rightarrow> clk (reg_ticks r))"
    by (cases "at") (auto simp: read_clock_def, metis registry.surjective registry.update_convs(7))
  show thesis
  proof (cases "update_first (matchesHandoff h) (acknowledge_entry t) (rev (reg_comm_log r))")
    case None
    then have "\<forall>e \<in> set (reg_comm_log r). \<not> matchesHandoff h e" by (simp add: update_first_None)
    moreover have "acknowledgeHandoff clk h at r = (Denied (''Handoff not found: '' @ h), r\<lparr>reg_ticks := n\<rparr>)"
      using None tn by (simp add: acknowledgeHandoff_def Let_def)
    ultimately show ?thesis by (rule missing)
  next
    case (Some p)
    obtain y ys where p: "p = (y, ys)" by (cases p)
    with Some update_first_Some obtain us x vs where
      u: "rev (reg_comm_log r) = us @ x # vs" "\<forall>u \<in> set us. \<not> matchesHandoff h u"
         "matchesHandoff h x" "y = acknowledge_entry t x" "ys = us @ acknowledge_entry t x # vs"
      by metis
    have log: "reg_comm_log r = rev vs @ x # rev us"
      using u(1) by (metis append.assoc append_Cons append_Nil rev_append rev_rev_ident rev.simps(2))
    have m: "cl_message (acknowledge_entry t x) = cl_message x"
      by (simp add: acknowledge_entry_def)
    show ?thesis
      by (rule found [of "rev vs" x "rev us" t _ n])
         (use log u tn Some p m in \<open>auto simp: acknowledgeHandoff_def Let_def\<close>)
  qed
qed

lemma acknowledge_entry_ok: "comm_entry_ok e \<Longrightarrow> matchesHandoff h e \<Longrightarrow> comm_entry_ok (acknowledge_entry t e)"
  by (auto simp: comm_entry_ok_def acknowledge_entry_def matchesHandoff_def)

lemma acknowledgeHandoff_inv:
  assumes "reg_inv r" shows "reg_inv (snd (acknowledgeHandoff clk h at r))"
proof (cases rule: acknowledgeHandoff_cases [of r h clk "at"])
  case missing
  with assms show ?thesis by simp
next
  case (found us e vs t d n)
  have "comm_log_ok (us @ acknowledge_entry t e # vs)"
    using assms found(1,2) acknowledge_entry_ok
    by (auto simp: reg_inv_def comm_log_ok_def) (simp add: acknowledge_entry_def)
  with assms found(5) show ?thesis
    by (simp add: reg_inv_def agents_recorded_def projects_recorded_def)
qed


section \<open>Lifecycle transitions\<close>

text \<open>The transition never throws, and each branch is one equation.\<close>

definition transition_clock :: "clock \<Rightarrow> transition_args \<Rightarrow> registry \<Rightarrow> string \<times> registry" where
  "transition_clock clk args r =
     (case tr_updated_at args of Some t \<Rightarrow> (t, r) | None \<Rightarrow> read_clock clk r)"

lemma transition_clock_frame:
  "transition_clock clk args r = (t, r1) \<Longrightarrow>
     (\<exists>n. r1 = r\<lparr>reg_ticks := n\<rparr> \<and> reg_ticks r \<le> n) \<and> (tr_updated_at args = Some t \<or> t = clk (reg_ticks r))"
  by (auto simp: transition_clock_def read_clock_def split: option.splits
      intro: exI [of _ "reg_ticks r"])

lemma transition_unknown:
  "jm_get (reg_projects r) (tr_project_id args) = None \<Longrightarrow>
   transitionProjectLifecycle clk args r = Inr (Denied (''Project not found: '' @ tr_project_id args), r)"
  by (simp add: transitionProjectLifecycle_def)

lemma transition_rejected:
  assumes "jm_get (reg_projects r) (tr_project_id args) = Some p"
    and "validateLifecycleTransition (pe_lifecycle_state p) (tr_to args) (Some (tr_event args))
           (Some (tr_actor args)) = Some reason"
  shows "transitionProjectLifecycle clk args r =
    Inr (Denied reason, audit clk Lifecycle_transition_rejected None (Some (tr_project_id args)) reason r)"
  using assms by (simp add: transitionProjectLifecycle_def)

definition transition_updates :: "transition_args \<Rightarrow> string \<Rightarrow> project_update list" where
  "transition_updates args t =
     [Upd_lifecycle_state (tr_to args),
      Upd_current_milestone (nullish (tr_milestone args) (lifecycle_event_str (tr_event args))),
      Upd_updated_at t]"

definition transitioned :: "transition_args \<Rightarrow> string \<Rightarrow> project_entry \<Rightarrow> project_entry" where
  "transitioned args t p =
     p\<lparr>pe_project_id := tr_project_id args, pe_lifecycle_state := tr_to args,
       pe_current_milestone := nullish (tr_milestone args) (lifecycle_event_str (tr_event args)),
       pe_updated_at := t\<rparr>"

lemma transitioned_fold:
  "(foldl apply_project_update p
      [Upd_lifecycle_state (tr_to args),
       Upd_current_milestone (nullish (tr_milestone args) (lifecycle_event_str (tr_event args))),
       Upd_updated_at t])\<lparr>pe_project_id := tr_project_id args\<rparr> = transitioned args t p"
  by (cases p) (simp add: transitioned_def)

lemma transition_allowed:
  assumes p: "jm_get (reg_projects r) (tr_project_id args) = Some p"
    and v: "validateLifecycleTransition (pe_lifecycle_state p) (tr_to args) (Some (tr_event args))
           (Some (tr_actor args)) = None"
    and c: "transition_clock clk args r = (t, r1)"
  shows "\<exists>d d'. transitionProjectLifecycle clk args r =
    Inr (Allowed,
      audit clk Lifecycle_transition_event None (Some (tr_project_id args)) d
       (audit clk State_updated None (Some (tr_project_id args)) d'
         (appendProjectSnapshot clk (transitioned args t p)
           (r1\<lparr>reg_projects := jm_set (reg_projects r) (tr_project_id args) (transitioned args t p)\<rparr>))))"
proof -
  have eq: "reg_projects r1 = reg_projects r" using transition_clock_frame [OF c] by auto
  have "\<exists>d'. updateProject clk (tr_project_id args)
      [Upd_lifecycle_state (tr_to args),
       Upd_current_milestone (nullish (tr_milestone args) (lifecycle_event_str (tr_event args))),
       Upd_updated_at t] r1 =
     Inr (audit clk State_updated None (Some (tr_project_id args)) d'
         (appendProjectSnapshot clk (transitioned args t p)
           (r1\<lparr>reg_projects := jm_set (reg_projects r) (tr_project_id args) (transitioned args t p)\<rparr>)))"
    unfolding updateProject_def eq p option.case Let_def transitioned_fold by blast
  then obtain d' where u: "updateProject clk (tr_project_id args)
      [Upd_lifecycle_state (tr_to args),
       Upd_current_milestone (nullish (tr_milestone args) (lifecycle_event_str (tr_event args))),
       Upd_updated_at t] r1 =
     Inr (audit clk State_updated None (Some (tr_project_id args)) d'
         (appendProjectSnapshot clk (transitioned args t p)
           (r1\<lparr>reg_projects := jm_set (reg_projects r) (tr_project_id args) (transitioned args t p)\<rparr>)))" ..
  show ?thesis
    unfolding transitionProjectLifecycle_def p option.case v Let_def
      c [unfolded transition_clock_def] prod.case u outcome_bind_simps by blast
qed

lemma transition_total:
  "\<exists>res r'. transitionProjectLifecycle clk args r = Inr (res, r')"
proof (cases "jm_get (reg_projects r) (tr_project_id args)")
  case (Some p)
  obtain t r1 where c: "transition_clock clk args r = (t, r1)" by (cases "transition_clock clk args r")
  show ?thesis
    using transition_rejected [OF Some] transition_allowed [OF Some _ c]
    by (cases "validateLifecycleTransition (pe_lifecycle_state p) (tr_to args) (Some (tr_event args))
         (Some (tr_actor args))") blast+
qed (simp add: transition_unknown)

text \<open>What an allowed move writes, and what a refused one leaves.\<close>

lemma transition_moves:
  assumes "transitionProjectLifecycle clk args r = Inr (Allowed, r')" "jm_get (reg_projects r) (tr_project_id args) = Some p"
  shows "validateLifecycleTransition (pe_lifecycle_state p) (tr_to args) (Some (tr_event args)) (Some (tr_actor args)) = None \<and>
    (\<exists>s a b. let q = transitioned args (nullish (tr_updated_at args) (clk (reg_ticks r))) p in
       reg_projects r' = jm_set (reg_projects r) (tr_project_id args) q \<and>
       reg_project_history r' = jm_set (reg_project_history r) (tr_project_id args)
         (getProjectHistory r (tr_project_id args) @ [s]) \<and> ps_entry s = q \<and>
       reg_agents r' = reg_agents r \<and> reg_agent_history r' = reg_agent_history r \<and> reg_comm_log r' = reg_comm_log r \<and>
       reg_audit_log r' = reg_audit_log r @ [a, b] \<and> au_event a = State_updated \<and> au_event b = Lifecycle_transition_event)"
proof -
  let ?v = "validateLifecycleTransition (pe_lifecycle_state p) (tr_to args) (Some (tr_event args)) (Some (tr_actor args))"
  obtain t r1 where c: "transition_clock clk args r = (t, r1)" by (cases "transition_clock clk args r")
  then obtain n where n: "r1 = r\<lparr>reg_ticks := n\<rparr>" using transition_clock_frame by blast
  have v: "?v = None" using assms transition_rejected [OF assms(2), of _ clk] by (cases ?v) auto
  obtain d d' where r': "r' = audit clk Lifecycle_transition_event None (Some (tr_project_id args)) d
       (audit clk State_updated None (Some (tr_project_id args)) d'
         (appendProjectSnapshot clk (transitioned args t p)
           (r1\<lparr>reg_projects := jm_set (reg_projects r) (tr_project_id args) (transitioned args t p)\<rparr>)))"
    using transition_allowed [OF assms(2) v c] assms(1) by auto
  have "pe_project_id (transitioned args u p) = tr_project_id args" for u by (simp add: transitioned_def)
  moreover have "t = nullish (tr_updated_at args) (clk (reg_ticks r))"
    using c by (auto simp: transition_clock_def read_clock_def split: option.splits)
  ultimately show ?thesis
    using v n by (simp add: r' getProjectHistory_def appendProjectSnapshot_def read_clock_def Let_def)
      (rule exI [of _ "\<lparr>ps_entry = transitioned args (nullish (tr_updated_at args) (clk (reg_ticks r))) p,
         ps_recorded_at = clk n\<rparr>"], simp)
qed

lemma transition_refused:
  assumes "transitionProjectLifecycle clk args r = Inr (Denied reason, r')"
  shows "(case getProject r (tr_project_id args) of None \<Rightarrow> True
      | Some p \<Rightarrow> validateLifecycleTransition (pe_lifecycle_state p) (tr_to args) (Some (tr_event args)) (Some (tr_actor args)) \<noteq> None) \<and>
    (\<exists>n as. r' = r\<lparr>reg_audit_log := reg_audit_log r @ as, reg_ticks := n\<rparr> \<and>
      (\<forall>a \<in> set as. au_event a = Lifecycle_transition_rejected))"
proof (cases "jm_get (reg_projects r) (tr_project_id args)")
  case None
  then have "r' = r\<lparr>reg_audit_log := reg_audit_log r @ [], reg_ticks := reg_ticks r\<rparr>"
    using assms by (simp add: transition_unknown)
  then have "\<exists>n as. r' = r\<lparr>reg_audit_log := reg_audit_log r @ as, reg_ticks := n\<rparr> \<and>
      (\<forall>a \<in> set as. au_event a = Lifecycle_transition_rejected)"
    by (metis empty_iff list.set(1))
  then show ?thesis using None by (simp add: getProject_def)
next
  case (Some p)
  let ?v = "validateLifecycleTransition (pe_lifecycle_state p) (tr_to args) (Some (tr_event args)) (Some (tr_actor args))"
  obtain t r1 where c: "transition_clock clk args r = (t, r1)" by (cases "transition_clock clk args r")
  show ?thesis
  proof (cases ?v)
    case None
    with transition_allowed [OF Some None c] assms show ?thesis by auto
  next
    case (Some e)
    let ?a = "\<lparr>au_timestamp = clk (reg_ticks r), au_event = Lifecycle_transition_rejected, au_agent_id = None,
      au_project_id = Some (tr_project_id args), au_detail = e\<rparr>"
    have "r' = r\<lparr>reg_audit_log := reg_audit_log r @ [?a], reg_ticks := Suc (reg_ticks r)\<rparr>"
      using transition_rejected [OF \<open>jm_get _ _ = Some p\<close> Some] assms
      by (auto simp: audit_def read_clock_def Let_def)
    moreover have "\<forall>a \<in> set [?a]. au_event a = Lifecycle_transition_rejected" by simp
    ultimately have "\<exists>n as. r' = r\<lparr>reg_audit_log := reg_audit_log r @ as, reg_ticks := n\<rparr> \<and>
        (\<forall>a \<in> set as. au_event a = Lifecycle_transition_rejected)"
      by blast
    then show ?thesis using Some \<open>jm_get _ _ = Some p\<close> by (simp add: getProject_def)
  qed
qed

lemma transition_inv:
  assumes "reg_inv r" "transitionProjectLifecycle clk args r = Inr (res, r')"
  shows "reg_inv r'"
proof (cases "jm_get (reg_projects r) (tr_project_id args)")
  case None
  with assms transition_unknown show ?thesis by fastforce
next
  case (Some p)
  obtain t r1 where c: "transition_clock clk args r = (t, r1)" by (cases "transition_clock clk args r")
  then obtain n where n: "r1 = r\<lparr>reg_ticks := n\<rparr>" using transition_clock_frame by blast
  show ?thesis
  proof (cases "validateLifecycleTransition (pe_lifecycle_state p) (tr_to args) (Some (tr_event args))
         (Some (tr_actor args))")
    case None
    have "reg_inv (appendProjectSnapshot clk (transitioned args t p)
           (r1\<lparr>reg_projects := jm_set (reg_projects r1) (tr_project_id args) (transitioned args t p)\<rparr>))"
      using assms(1) n by (intro reg_inv_put_project) (simp_all add: transitioned_def)
    with transition_allowed [OF Some None c] assms(2) n show ?thesis by fastforce
  next
    case (Some reason)
    with transition_rejected [OF \<open>jm_get _ _ = Some p\<close> Some] assms show ?thesis by fastforce
  qed
qed

section \<open>Steps, invariance and growth\<close>

inductive reg_step :: "clock \<Rightarrow> registry \<Rightarrow> registry \<Rightarrow> bool" for clk where
  register_agent: "reg_step clk r (registerAgent clk e r)"
| update_agent: "updateAgent clk i us r = Inr r' \<Longrightarrow> reg_step clk r r'"
| register_project: "reg_step clk r (registerProject clk p r)"
| update_project: "updateProject clk i us r = Inr r' \<Longrightarrow> reg_step clk r r'"
| agent_access: "reg_step clk r (snd (validateAgentProjectAccess clk a p r))"
| message_access: "reg_step clk r (snd (validateMessageAccess clk m r))"
| route: "reg_step clk r (snd (routeMessage clk v r))"
| acknowledge: "reg_step clk r (snd (acknowledgeHandoff clk h at r))"
| transition: "transitionProjectLifecycle clk args r = Inr (res, r') \<Longrightarrow> reg_step clk r r'"
| approval: "reg_step clk r (recordApprovalResponse clk resp r)"

inductive reg_reachable :: "clock \<Rightarrow> registry \<Rightarrow> bool" for clk where
  initial: "reg_reachable clk empty_registry"
| step: "reg_reachable clk r \<Longrightarrow> reg_step clk r r' \<Longrightarrow> reg_reachable clk r'"

lemma agent_access_inv: "reg_inv r \<Longrightarrow> reg_inv (snd (validateAgentProjectAccess clk a p r))"
  using validateAgentProjectAccess_allowed [of r a p clk] validateAgentProjectAccess_denied [of r a p clk]
  by (cases "may_access r a p") auto

lemma message_access_inv: "reg_inv r \<Longrightarrow> reg_inv (snd (validateMessageAccess clk m r))"
  using validateMessageAccess_allowed [of r m clk] validateMessageAccess_denied [of r m clk]
  by (cases "message_allowed r m") auto

lemma approval_inv: "reg_inv r \<Longrightarrow> reg_inv (recordApprovalResponse clk resp r)"
  unfolding recordApprovalResponse_def by simp

lemmas operation_invs =
  registerAgent_inv registerProject_inv updateAgent_inv updateProject_inv agent_access_inv
  message_access_inv routeMessage_inv acknowledgeHandoff_inv transition_inv approval_inv

lemma reg_step_inv: "reg_step clk r r' \<Longrightarrow> reg_inv r \<Longrightarrow> reg_inv r'"
  by (induction rule: reg_step.induct) (blast intro: operation_invs)+

lemma reg_reachable_inv: "reg_reachable clk r \<Longrightarrow> reg_inv r"
  by (induction rule: reg_reachable.induct) (auto simp: reg_inv_empty reg_step_inv)

text \<open>A log entry without what an acknowledgment writes.\<close>

definition unacknowledged :: "comm_entry \<Rightarrow> comm_entry" where
  "unacknowledged e = e\<lparr>cl_acknowledged_at := None, cl_within_sla := None\<rparr>"

definition reg_extends :: "registry \<Rightarrow> registry \<Rightarrow> bool" where
  "reg_extends r r' \<longleftrightarrow>
     prefix (reg_audit_log r) (reg_audit_log r') \<and>
     prefix (map unacknowledged (reg_comm_log r)) (map unacknowledged (reg_comm_log r')) \<and>
     (\<forall>k. prefix (getAgentHistory r k) (getAgentHistory r' k)) \<and>
     (\<forall>k. prefix (getProjectHistory r k) (getProjectHistory r' k)) \<and>
     prefix (jm_keys (reg_agents r)) (jm_keys (reg_agents r')) \<and>
     prefix (jm_keys (reg_projects r)) (jm_keys (reg_projects r'))"

lemma reg_extends_refl [simp]: "reg_extends r r"
  by (simp add: reg_extends_def)

lemma reg_extends_trans: "reg_extends r s \<Longrightarrow> reg_extends s t \<Longrightarrow> reg_extends r t"
  by (auto simp: reg_extends_def intro: prefix_order.trans)

lemma reg_extends_audit [simp]: "reg_extends r s \<Longrightarrow> reg_extends r (audit clk ev a p d s)"
  by (auto simp: reg_extends_def getAgentHistory_def getProjectHistory_def)

lemma reg_extends_ticks [simp]: "reg_extends r (s\<lparr>reg_ticks := n\<rparr>) = reg_extends r s"
  by (auto simp: reg_extends_def getAgentHistory_def getProjectHistory_def)

lemma reg_extends_log: "reg_extends r (r\<lparr>reg_ticks := n, reg_comm_log := reg_comm_log r @ [e]\<rparr>)"
  by (auto simp: reg_extends_def getAgentHistory_def getProjectHistory_def)

lemma reg_extends_put_agent:
  "reg_extends r (appendAgentSnapshot clk e (r\<lparr>reg_agents := jm_set (reg_agents r) k e\<rparr>))"
  by (auto simp: reg_extends_def getAgentHistory_def getProjectHistory_def)

lemma reg_extends_put_project:
  "reg_extends r (appendProjectSnapshot clk e (r\<lparr>reg_projects := jm_set (reg_projects r) k e\<rparr>))"
  by (auto simp: reg_extends_def getAgentHistory_def getProjectHistory_def)

lemma acknowledge_extends: "reg_extends r (snd (acknowledgeHandoff clk h at r))"
proof (cases rule: acknowledgeHandoff_cases [of r h clk "at"])
  case (found us e vs t d n)
  have "unacknowledged (acknowledge_entry t e) = unacknowledged e"
    by (simp add: unacknowledged_def acknowledge_entry_def)
  then have "reg_extends r (r\<lparr>reg_ticks := n, reg_comm_log := us @ acknowledge_entry t e # vs\<rparr>)"
    using found(1) by (simp add: reg_extends_def getAgentHistory_def getProjectHistory_def)
  then show ?thesis using found(5) by simp
qed simp

lemma route_extends: "reg_extends r (snd (routeMessage clk v r))"
proof (cases "isValidAgentMessage v")
  case True
  show ?thesis
  proof (cases "message_allowed r (as_message v)")
    case al: True
    from routeMessage_allowed [OF True al, of clk] show ?thesis by (auto simp: Let_def reg_extends_log)
  next
    case False
    from routeMessage_denied [OF True False, of clk] obtain who reason r1 e where
      d: "r1 = audit clk Access_denied (Some who) (Some (msg_project_id (as_message v))) reason r"
         "routeMessage clk v r =
           (Inl reason, audit clk Message_rejected None (Some (msg_project_id (as_message v))) reason
             (r1\<lparr>reg_ticks := Suc (reg_ticks r1), reg_comm_log := reg_comm_log r1 @ [e]\<rparr>))"
      by blast
    have "reg_extends r r1" using d(1) by simp
    then have "reg_extends r (r1\<lparr>reg_ticks := Suc (reg_ticks r1), reg_comm_log := reg_comm_log r1 @ [e]\<rparr>)"
      using reg_extends_log reg_extends_trans by blast
    then show ?thesis by (simp add: d(2))
  qed
qed (simp add: routeMessage_malformed)

lemma transition_extends:
  assumes "transitionProjectLifecycle clk args r = Inr (res, r')"
  shows "reg_extends r r'"
proof (cases "jm_get (reg_projects r) (tr_project_id args)")
  case None
  with assms transition_unknown show ?thesis by fastforce
next
  case (Some p)
  obtain t r1 where c: "transition_clock clk args r = (t, r1)" by (cases "transition_clock clk args r")
  then obtain n where n: "r1 = r\<lparr>reg_ticks := n\<rparr>" using transition_clock_frame by blast
  show ?thesis
  proof (cases "validateLifecycleTransition (pe_lifecycle_state p) (tr_to args) (Some (tr_event args))
         (Some (tr_actor args))")
    case None
    have "reg_extends r r1" using n by simp
    then have "reg_extends r (appendProjectSnapshot clk (transitioned args t p)
           (r1\<lparr>reg_projects := jm_set (reg_projects r1) (tr_project_id args) (transitioned args t p)\<rparr>))"
      using reg_extends_put_project reg_extends_trans by blast
    with transition_allowed [OF Some None c] assms n show ?thesis by fastforce
  next
    case (Some reason)
    with transition_rejected [OF \<open>jm_get _ _ = Some p\<close> Some] assms show ?thesis by fastforce
  qed
qed

lemma agent_access_extends: "reg_extends r (snd (validateAgentProjectAccess clk a p r))"
  using validateAgentProjectAccess_allowed [of r a p clk] validateAgentProjectAccess_denied [of r a p clk]
  by (cases "may_access r a p") auto

lemma message_access_extends: "reg_extends r (snd (validateMessageAccess clk m r))"
  using validateMessageAccess_allowed [of r m clk] validateMessageAccess_denied [of r m clk]
  by (cases "message_allowed r m") auto

lemma registerAgent_extends: "reg_extends r (registerAgent clk e r)"
  unfolding registerAgent_def Let_def by (intro reg_extends_audit reg_extends_put_agent)

lemma registerProject_extends: "reg_extends r (registerProject clk e r)"
  unfolding registerProject_def Let_def by (intro reg_extends_audit reg_extends_put_project)

lemma updateAgent_extends: "updateAgent clk i us r = Inr r' \<Longrightarrow> reg_extends r r'"
  by (erule updateAgent_cases) (metis reg_extends_audit reg_extends_put_agent)

lemma updateProject_extends: "updateProject clk i us r = Inr r' \<Longrightarrow> reg_extends r r'"
  by (erule updateProject_cases) (metis reg_extends_audit reg_extends_put_project)

lemma approval_extends: "reg_extends r (recordApprovalResponse clk resp r)"
  unfolding recordApprovalResponse_def by simp

lemmas operation_extends =
  registerAgent_extends registerProject_extends updateAgent_extends updateProject_extends
  agent_access_extends message_access_extends route_extends acknowledge_extends
  transition_extends approval_extends

lemma reg_step_extends: "reg_step clk r r' \<Longrightarrow> reg_extends r r'"
  by (induction rule: reg_step.induct) (blast intro: operation_extends)+

text \<open>Runs: any number of steps.\<close>

abbreviation reg_run :: "clock \<Rightarrow> registry \<Rightarrow> registry \<Rightarrow> bool" where
  "reg_run clk \<equiv> (reg_step clk)\<^sup>*\<^sup>*"

lemma reg_run_extends: "reg_run clk r r' \<Longrightarrow> reg_extends r r'"
  by (induction rule: rtranclp_induct) (auto intro: reg_extends_trans reg_step_extends)

lemma reg_run_inv: "reg_run clk r r' \<Longrightarrow> reg_inv r \<Longrightarrow> reg_inv r'"
  by (induction rule: rtranclp_induct) (auto intro: reg_step_inv)

section \<open>Properties of the component\<close>

lemma comm_ids_distinct: "comm_log_ok log \<Longrightarrow> distinct (map cl_log_id log)"
  by (simp add: comm_log_ok_def distinct_map inj_on_def)

text \<open>A small registry for the concrete instances: two agents on one project.\<close>

definition demo_clock :: clock where
  "demo_clock n = ''2026-01-01T00:00:00.000Z''"

definition demo_agent :: "string \<Rightarrow> agent_type \<Rightarrow> agent_entry" where
  "demo_agent i t = \<lparr>ae_agent_id = i, ae_agent_type = t, ae_status = AS_idle,
     ae_current_project_id = Some ''p1'', ae_last_activity = ''2026-01-01T00:00:00.000Z''\<rparr>"

definition demo_project :: project_entry where
  "demo_project = \<lparr>pe_project_id = ''p1'', pe_client_id = ''c1'', pe_lifecycle_state = LS_lead,
     pe_active_agent_ids = [], pe_current_milestone = ''intake'',
     pe_updated_at = ''2026-01-01T00:00:00.000Z''\<rparr>"

definition demo_registry :: registry where
  "demo_registry = registerAgent demo_clock (demo_agent ''product-1'' Product_agent)
     (registerAgent demo_clock (demo_agent ''sales-1'' Sales_agent)
       (registerProject demo_clock demo_project empty_registry))"

definition demo_handoff_log :: registry where
  "demo_handoff_log = empty_registry\<lparr>reg_comm_log :=
     [\<lparr>cl_log_id = ''comm-1'', cl_recorded_at = ''t0'',
       cl_message = \<lparr>msg_from = ''sales_agent'', msg_to = ''product_agent'', msg_type = ''lead_handoff'',
         msg_project_id = ''p1'', msg_timestamp = ''t0'',
         msg_payload = JObj [(''handoff_id'', JStr ''h1'')]\<rparr>,
       cl_status = Routed, cl_rejection_reason = None, cl_requires_ack = True,
       cl_acknowledged_at = None, cl_within_sla = None\<rparr>]\<rparr>"

lemma demo_reachable: "reg_reachable demo_clock demo_registry"
  unfolding demo_registry_def by (meson reg_reachable.intros reg_step.intros)

lemma demo_projects: "jm_get (reg_projects demo_registry) ''p1'' = Some demo_project"
  by (simp add: demo_registry_def registerAgent_def registerProject_def Let_def demo_project_def)

text \<open>
  C1: In every registry its operations can reach, each live agent and project is stored
  under its own id and equals the last snapshot of its non-empty history, every
  communication entry is well formed, and log ids are the positions and so distinct.
\<close>

theorem registry_invariant:
  assumes "reg_reachable clk r"
  shows "reg_inv r \<and> distinct (map cl_log_id (reg_comm_log r))"
  using reg_reachable_inv [OF assms] comm_ids_distinct by (auto simp: reg_inv_def)

theorem registry_invariant_witness:
  "reg_inv demo_registry \<and> distinct (map cl_log_id (reg_comm_log demo_registry))"
  by (rule registry_invariant [OF demo_reachable])

text \<open>
  C2: A request to move a project never throws. It is allowed exactly when the project
  exists and the transition table has an entry from its state to the target for the event
  and the actor; then state, milestone and time of that project are written, one snapshot of
  it and two audit entries are added, and nothing else changes. A refused request leaves
  everything but the audit log as it was.
\<close>

theorem transition_exact:
  "case transitionProjectLifecycle clk args r of
     Inl _ \<Rightarrow> False
   | Inr (Allowed, r') \<Rightarrow>
       (\<exists>p q x s a b. getProject r (tr_project_id args) = Some p \<and> x \<in> set LIFECYCLE_TRANSITIONS \<and>
          lt_from x = pe_lifecycle_state p \<and> lt_to x = tr_to args \<and>
          lt_event x = tr_event args \<and> lt_owner x = tr_actor args \<and>
          q = p\<lparr>pe_project_id := tr_project_id args, pe_lifecycle_state := tr_to args,
            pe_current_milestone := nullish (tr_milestone args) (lifecycle_event_str (tr_event args)),
            pe_updated_at := nullish (tr_updated_at args) (clk (reg_ticks r))\<rparr> \<and>
          reg_projects r' = jm_set (reg_projects r) (tr_project_id args) q \<and>
          reg_project_history r' = jm_set (reg_project_history r) (tr_project_id args)
            (getProjectHistory r (tr_project_id args) @ [s]) \<and> ps_entry s = q \<and>
          reg_agents r' = reg_agents r \<and> reg_agent_history r' = reg_agent_history r \<and> reg_comm_log r' = reg_comm_log r \<and>
          reg_audit_log r' = reg_audit_log r @ [a, b] \<and>
          au_event a = State_updated \<and> au_event b = Lifecycle_transition_event)
   | Inr (Denied _, r') \<Rightarrow>
       \<not> (\<exists>p x. getProject r (tr_project_id args) = Some p \<and> x \<in> set LIFECYCLE_TRANSITIONS \<and>
          lt_from x = pe_lifecycle_state p \<and> lt_to x = tr_to args \<and>
          lt_event x = tr_event args \<and> lt_owner x = tr_actor args) \<and>
       (\<exists>n as. r' = r\<lparr>reg_audit_log := reg_audit_log r @ as, reg_ticks := n\<rparr>)"
proof -
  obtain res r' where e: "transitionProjectLifecycle clk args r = Inr (res, r')" using transition_total by metis
  show ?thesis
  proof (cases res)
    case Allowed
    then have a: "transitionProjectLifecycle clk args r = Inr (Allowed, r')" using e by simp
    obtain p where p: "jm_get (reg_projects r) (tr_project_id args) = Some p"
      using a transition_unknown [of r args clk] by (cases "jm_get (reg_projects r) (tr_project_id args)") auto
    from transition_moves [OF a p] obtain x where "x \<in> set LIFECYCLE_TRANSITIONS" "lt_from x = pe_lifecycle_state p"
        "lt_to x = tr_to args" "lt_event x = tr_event args" "lt_owner x = tr_actor args"
      by (auto simp: validateLifecycleTransition_ok_iff)
    then show ?thesis
      using transition_moves [OF a p]
      unfolding a sum.case prod.case access_result.case Let_def getProject_def p transitioned_def by blast
  next
    case (Denied reason)
    then have d: "transitionProjectLifecycle clk args r = Inr (Denied reason, r')" using e by simp
    have "\<not> (\<exists>p x. getProject r (tr_project_id args) = Some p \<and> x \<in> set LIFECYCLE_TRANSITIONS \<and>
        lt_from x = pe_lifecycle_state p \<and> lt_to x = tr_to args \<and>
        lt_event x = tr_event args \<and> lt_owner x = tr_actor args)"
    proof clarify
      fix p x
      assume "getProject r (tr_project_id args) = Some p" "x \<in> set LIFECYCLE_TRANSITIONS"
        "lt_from x = pe_lifecycle_state p" "lt_to x = tr_to args" "lt_event x = tr_event args" "lt_owner x = tr_actor args"
      then show False using transition_refused [OF d] validateLifecycleTransition_ok_iff
          [of "pe_lifecycle_state p" "tr_to args" "Some (tr_event args)" "Some (tr_actor args)"] by auto
    qed
    with transition_refused [OF d] show ?thesis
      unfolding d sum.case prod.case access_result.case by blast
  qed
qed

text \<open>
  C5: A message is routed exactly when it is well formed and sender and receiver, looked up
  by type, are both assigned to its project; the entry returned is the fresh log entry of
  that message.
\<close>

theorem routing_exact:
  "fst (routeMessage clk v r) = Inr e \<longleftrightarrow>
     isValidAgentMessage v \<and> message_allowed r (as_message v) \<and>
     e = new_comm_entry clk r (as_message v) Routed None"
proof (cases "isValidAgentMessage v")
  case True
  show ?thesis
  proof (cases "message_allowed r (as_message v)")
    case al: True
    from routeMessage_allowed [OF True al, of clk] True al show ?thesis by (auto simp: Let_def)
  next
    case False
    from routeMessage_denied [OF True False, of clk] False show ?thesis by auto
  qed
qed (simp add: routeMessage_malformed)

text \<open>
  A well-formed message between agents that may not talk about the project changes no agent
  and no project: the log gains one rejected entry with the reason, the audit log the denial
  and the rejection, in this order.
\<close>

theorem denied_message_recorded:
  assumes "isValidAgentMessage v" and "\<not> message_allowed r (as_message v)"
  shows "\<exists>reason e a b r'. routeMessage clk v r = (Inl reason, r') \<and>
    reg_agents r' = reg_agents r \<and> reg_projects r' = reg_projects r \<and>
    reg_comm_log r' = reg_comm_log r @ [e] \<and> cl_status e = Rejected \<and>
    cl_rejection_reason e = Some reason \<and> cl_message e = as_message v \<and>
    reg_audit_log r' = reg_audit_log r @ [a, b] \<and>
    au_event a = Access_denied \<and> au_event b = Message_rejected \<and>
    au_project_id a = Some (msg_project_id (as_message v)) \<and> au_detail a = reason \<and> au_detail b = reason"
proof -
  from routeMessage_denied [OF assms, of clk] obtain who reason r1 e where
    d: "r1 = audit clk Access_denied (Some who) (Some (msg_project_id (as_message v))) reason r"
       "e = new_comm_entry clk r1 (as_message v) Rejected (Some reason)"
       "routeMessage clk v r =
         (Inl reason, audit clk Message_rejected None (Some (msg_project_id (as_message v))) reason
           (r1\<lparr>reg_ticks := Suc (reg_ticks r1), reg_comm_log := reg_comm_log r1 @ [e]\<rparr>))"
    by blast
  have "cl_status e = Rejected" "cl_rejection_reason e = Some reason" "cl_message e = as_message v"
    by (simp_all add: d(2) new_comm_entry_def)
  then show ?thesis unfolding d(3) by (simp add: d(1))
qed

theorem denied_message_recorded_witness:
  "\<exists>reason e a b r'. routeMessage demo_clock
      (JObj [(''from'', JStr ''sales_agent''), (''to'', JStr ''ceo_agent''),
        (''message_type'', JStr ''status_update''), (''project_id'', JStr ''p1''),
        (''timestamp'', JStr ''t''), (''payload'', JObj [(''status'', JStr ''s''), (''summary'', JStr ''x'')])])
      empty_registry = (Inl reason, r') \<and>
    reg_agents r' = [] \<and> reg_comm_log r' = [e] \<and> cl_status e = Rejected \<and> reg_audit_log r' = [a, b]"
proof -
  let ?v = "JObj [(''from'', JStr ''sales_agent''), (''to'', JStr ''ceo_agent''),
        (''message_type'', JStr ''status_update''), (''project_id'', JStr ''p1''),
        (''timestamp'', JStr ''t''), (''payload'', JObj [(''status'', JStr ''s''), (''summary'', JStr ''x'')])]"
  have "isValidAgentMessage ?v"
    unfolding isValidAgentMessage_iff by (simp, rule exI [of _ Status_update], simp)
  moreover have "\<not> message_allowed empty_registry (as_message ?v)"
    by (simp add: message_allowed_def findAgentByType_def empty_registry_def jm_values_def)
  ultimately show ?thesis
    using denied_message_recorded [of ?v empty_registry demo_clock] by (auto simp: empty_registry_def)
qed

text \<open>
  No run of registry operations ever changes or drops an audit entry, a history snapshot or
  a communication entry, apart from the two acknowledgment fields; agents and projects are
  never unregistered or reordered.
\<close>

theorem registry_append_only:
  assumes "reg_run clk r r'"
  shows "prefix (reg_audit_log r) (reg_audit_log r') \<and>
    prefix (map unacknowledged (reg_comm_log r)) (map unacknowledged (reg_comm_log r')) \<and>
    (\<forall>k. prefix (getAgentHistory r k) (getAgentHistory r' k)) \<and>
    (\<forall>k. prefix (getProjectHistory r k) (getProjectHistory r' k)) \<and>
    prefix (jm_keys (reg_agents r)) (jm_keys (reg_agents r')) \<and>
    prefix (jm_keys (reg_projects r)) (jm_keys (reg_projects r'))"
  using reg_run_extends [OF assms] by (simp add: reg_extends_def)

theorem registry_append_only_witness:
  "prefix (reg_audit_log demo_registry)
     (reg_audit_log (registerAgent demo_clock (demo_agent ''ceo-1'' Ceo_agent) demo_registry))"
  using registry_append_only [of demo_clock demo_registry
      "registerAgent demo_clock (demo_agent ''ceo-1'' Ceo_agent) demo_registry"]
  by (blast intro: reg_step.register_agent r_into_rtranclp)

text \<open>
  An allowed move writes state, milestone and time of the one project and adds one snapshot
  of it and two audit entries; every other project, all agents and the communication log
  stay as they are.
\<close>

theorem transition_effect:
  assumes "transitionProjectLifecycle clk args r = Inr (Allowed, r')"
  shows "\<exists>p q t s a b. getProject r (tr_project_id args) = Some p \<and>
    getProject r' (tr_project_id args) = Some q \<and> q = transitioned args t p \<and>
    t = nullish (tr_updated_at args) (clk (reg_ticks r)) \<and>
    (\<forall>k. k \<noteq> tr_project_id args \<longrightarrow> getProject r' k = getProject r k) \<and>
    getProjectHistory r' (tr_project_id args) = getProjectHistory r (tr_project_id args) @ [s] \<and> ps_entry s = q \<and>
    reg_agents r' = reg_agents r \<and> reg_comm_log r' = reg_comm_log r \<and>
    reg_audit_log r' = reg_audit_log r @ [a, b] \<and>
    au_event a = State_updated \<and> au_event b = Lifecycle_transition_event"
proof (cases "jm_get (reg_projects r) (tr_project_id args)")
  case None
  with assms show ?thesis by (simp add: transition_unknown)
next
  case (Some p)
  obtain t r1 where c: "transition_clock clk args r = (t, r1)" by (cases "transition_clock clk args r")
  then obtain n where n: "r1 = r\<lparr>reg_ticks := n\<rparr>" using transition_clock_frame by blast
  have v: "validateLifecycleTransition (pe_lifecycle_state p) (tr_to args) (Some (tr_event args))
      (Some (tr_actor args)) = None"
    using assms transition_rejected [OF Some, of _ clk] by (cases "validateLifecycleTransition
      (pe_lifecycle_state p) (tr_to args) (Some (tr_event args)) (Some (tr_actor args))") auto
  obtain d d' where r': "r' = audit clk Lifecycle_transition_event None (Some (tr_project_id args)) d
       (audit clk State_updated None (Some (tr_project_id args)) d'
         (appendProjectSnapshot clk (transitioned args t p)
           (r1\<lparr>reg_projects := jm_set (reg_projects r) (tr_project_id args) (transitioned args t p)\<rparr>)))"
    using transition_allowed [OF Some v c] assms by auto
  have id: "pe_project_id (transitioned args u p) = tr_project_id args" for u by (simp add: transitioned_def)
  have t: "t = nullish (tr_updated_at args) (clk (reg_ticks r))"
    using c by (auto simp: transition_clock_def read_clock_def split: option.splits)
  show ?thesis
    by (rule exI [of _ p], rule exI [of _ "transitioned args t p"], rule exI [of _ t])
      (use Some n t in \<open>simp add: r' id getProject_def getProjectHistory_def\<close>)
qed

theorem transition_effect_witness:
  "\<exists>r' q. transitionProjectLifecycle demo_clock \<lparr>tr_project_id = ''p1'', tr_to = LS_qualified,
       tr_event = Lead_qualified, tr_actor = Sales_agent, tr_updated_at = None, tr_milestone = None\<rparr>
       demo_registry = Inr (Allowed, r') \<and>
     getProject r' ''p1'' = Some q \<and> pe_lifecycle_state q = LS_qualified"
proof -
  let ?a = "\<lparr>tr_project_id = ''p1'', tr_to = LS_qualified, tr_event = Lead_qualified,
    tr_actor = Sales_agent, tr_updated_at = None, tr_milestone = None\<rparr>"
  have p: "jm_get (reg_projects demo_registry) (tr_project_id ?a) = Some demo_project"
    using demo_projects by simp
  have v: "validateLifecycleTransition (pe_lifecycle_state demo_project) (tr_to ?a) (Some (tr_event ?a))
      (Some (tr_actor ?a)) = None"
    by (simp add: validateLifecycleTransition_ok_iff demo_project_def LIFECYCLE_TRANSITIONS_def)
  obtain t r1 where c: "transition_clock demo_clock ?a demo_registry = (t, r1)"
    by (cases "transition_clock demo_clock ?a demo_registry")
  from transition_allowed [OF p v c] obtain r' where
    r': "transitionProjectLifecycle demo_clock ?a demo_registry = Inr (Allowed, r')" by blast
  from transition_effect [OF r'] obtain p' q t' where
    "getProject r' (tr_project_id ?a) = Some q" "q = transitioned ?a t' p'" by blast
  then have "getProject r' ''p1'' = Some q \<and> pe_lifecycle_state q = LS_qualified"
    by (simp add: transitioned_def)
  with r' show ?thesis by blast
qed

text \<open>
  Acknowledging a handoff succeeds exactly when the log has an entry for it, and then
  rewrites the newest such entry alone: acknowledgment time and whether it came within the
  agreed time.
\<close>

theorem acknowledge_newest:
  "(fst (acknowledgeHandoff clk h at r) = Allowed \<longleftrightarrow> list_ex (matchesHandoff h) (reg_comm_log r)) \<and>
   (fst (acknowledgeHandoff clk h at r) = Allowed \<longrightarrow>
     (\<exists>us e vs t. reg_comm_log r = us @ e # vs \<and> matchesHandoff h e \<and> \<not> list_ex (matchesHandoff h) vs \<and>
        t = nullish at (clk (reg_ticks r)) \<and>
        reg_comm_log (snd (acknowledgeHandoff clk h at r)) = us @ acknowledge_entry t e # vs))"
proof (cases rule: acknowledgeHandoff_cases [of r h clk "at"])
  case (missing reason n)
  then show ?thesis by (auto simp: list_ex_iff)
next
  case (found us e vs t d n)
  have t: "t = nullish at (clk (reg_ticks r))" using found(4) by (simp add: nullish_def split: option.splits)
  have ex: "list_ex (matchesHandoff h) (reg_comm_log r)" "\<not> list_ex (matchesHandoff h) vs"
    using found(1-3) by (auto simp: list_ex_iff)
  have "fst (acknowledgeHandoff clk h at r) = Allowed"
    "reg_comm_log (snd (acknowledgeHandoff clk h at r)) = us @ acknowledge_entry t e # vs"
    by (simp_all add: found(5))
  with found(1,2) t ex show ?thesis by blast
qed

theorem acknowledge_newest_witness:
  "\<exists>us e vs. reg_comm_log demo_handoff_log = us @ e # vs \<and> matchesHandoff ''h1'' e \<and>
     reg_comm_log (snd (acknowledgeHandoff demo_clock ''h1'' (Some ''t'') demo_handoff_log)) =
       us @ acknowledge_entry ''t'' e # vs"
proof -
  have "list_ex (matchesHandoff ''h1'') (reg_comm_log demo_handoff_log)"
    by (simp add: demo_handoff_log_def matchesHandoff_def isHandoffMessageType_def HANDOFF_MESSAGE_TYPES_def)
  with acknowledge_newest [of demo_clock "''h1''" "Some ''t''" demo_handoff_log] show ?thesis by auto
qed

end
