(* ===== verification/Lifecycle_Update.thy ===== *)
theory Lifecycle_Update
  imports Registry_Correct
begin

text \<open>
  The second way to move a project, \<^verbatim>\<open>src/domain/lifecycle.ts\<close>: the target state
  is resolved from state and event, and errors are thrown. It is shown to agree with
  \<^verbatim>\<open>AgentRegistry.transitionProjectLifecycle\<close> on what is allowed and on the entry
  written; they differ in the audit trail.
\<close>

record lifecycle_update_input =
  lu_project_id :: string
  lu_event :: lifecycle_event
  lu_actor :: agent_type
  lu_timestamp :: string
  lu_milestone :: string

record lifecycle_update_result =
  lr_project_id :: string
  lr_previous_state :: lifecycle_state
  lr_next_state :: lifecycle_state
  lr_current_milestone :: string
  lr_updated_at :: string

definition resolveLifecycleTransition ::
  "lifecycle_state \<Rightarrow> lifecycle_event \<Rightarrow> agent_type \<Rightarrow> (lifecycle_state \<times> lifecycle_state) outcome" where
  "resolveLifecycleTransition currentState event actor =
     (case find (\<lambda>candidate. lt_from candidate = currentState \<and> lt_event candidate = event)
             LIFECYCLE_TRANSITIONS of
        None \<Rightarrow> Inl (''No lifecycle transition found for state \"'' @ lifecycle_str currentState @
                  ''\" and event \"'' @ lifecycle_event_str event @ ''\"'')
      | Some transition \<Rightarrow>
          if lt_owner transition \<noteq> actor then
            Inl (''Lifecycle event \"'' @ lifecycle_event_str event @ ''\" must be triggered by '' @
                 agent_type_str (lt_owner transition) @ '', received '' @ agent_type_str actor)
          else if \<not> isValidTransition (lt_from transition) (lt_to transition) then
            Inl (''Illegal lifecycle transition '' @ lifecycle_str (lt_from transition) @ '' -> '' @
                 lifecycle_str (lt_to transition))
          else Inr (lt_from transition, lt_to transition))"

definition applyLifecycleUpdate ::
  "clock \<Rightarrow> lifecycle_update_input \<Rightarrow> registry \<Rightarrow> (lifecycle_update_result \<times> registry) outcome" where
  "applyLifecycleUpdate clk input r =
     (case getProject r (lu_project_id input) of
        None \<Rightarrow> Inl (''Project not found: '' @ lu_project_id input)
      | Some project \<Rightarrow>
          outcome_bind
            (resolveLifecycleTransition (pe_lifecycle_state project) (lu_event input) (lu_actor input))
            (\<lambda>(from, to).
               outcome_bind
                 (updateProject clk (lu_project_id input)
                    [Upd_lifecycle_state to, Upd_current_milestone (lu_milestone input),
                     Upd_updated_at (lu_timestamp input)] r)
                 (\<lambda>r. Inr (\<lparr>lr_project_id = lu_project_id input, lr_previous_state = from,
                             lr_next_state = to, lr_current_milestone = lu_milestone input,
                             lr_updated_at = lu_timestamp input\<rparr>, r))))"

lemma resolve_ok_iff:
  "resolveLifecycleTransition s e a = Inr (s', t) \<longleftrightarrow>
   s' = s \<and> (\<exists>x \<in> set LIFECYCLE_TRANSITIONS. lt_from x = s \<and> lt_to x = t \<and> lt_event x = e \<and> lt_owner x = a)"
    (is "?l \<longleftrightarrow> ?r")
proof
  assume ?l
  then obtain x where "find (\<lambda>c. lt_from c = s \<and> lt_event c = e) LIFECYCLE_TRANSITIONS = Some x"
      "lt_owner x = a" "s' = lt_from x" "t = lt_to x"
    by (auto simp: resolveLifecycleTransition_def split: option.splits if_splits)
  then show ?r by (auto simp: find_Some_iff)
next
  assume ?r
  then obtain x where x: "x \<in> set LIFECYCLE_TRANSITIONS" "lt_from x = s" "lt_to x = t"
      "lt_event x = e" "lt_owner x = a" "s' = s" by blast
  then obtain y where y: "find (\<lambda>c. lt_from c = s \<and> lt_event c = e) LIFECYCLE_TRANSITIONS = Some y"
    by (cases "find (\<lambda>c. lt_from c = s \<and> lt_event c = e) LIFECYCLE_TRANSITIONS") (auto simp: find_None_iff)
  then have "y \<in> set LIFECYCLE_TRANSITIONS" "lt_from y = s" "lt_event y = e"
    by (auto simp: find_Some_iff)
  with x have "y = x" using transition_table_deterministic by metis
  with x y show ?l by (auto simp: resolveLifecycleTransition_def isValidTransition_iff)
qed

text \<open>The first check, on the entry's own states, can never fail: its error is unreachable.\<close>

lemma resolve_never_illegal:
  "find (\<lambda>c. lt_from c = s \<and> lt_event c = e) LIFECYCLE_TRANSITIONS = Some x \<Longrightarrow>
   isValidTransition (lt_from x) (lt_to x)"
  by (auto simp: isValidTransition_iff find_Some_iff)

text \<open>What resolves is exactly what the registry's own validation accepts for that event and actor.\<close>

lemma resolve_iff_validate:
  "(\<exists>s'. resolveLifecycleTransition s e a = Inr (s', t)) \<longleftrightarrow>
   validateLifecycleTransition s t (Some e) (Some a) = None"
  by (auto simp: resolve_ok_iff validateLifecycleTransition_ok_iff)

definition update_as_transition :: "lifecycle_update_input \<Rightarrow> lifecycle_state \<Rightarrow> transition_args" where
  "update_as_transition i t =
     \<lparr>tr_project_id = lu_project_id i, tr_to = t, tr_event = lu_event i, tr_actor = lu_actor i,
      tr_updated_at = Some (lu_timestamp i), tr_milestone = Some (lu_milestone i)\<rparr>"

lemma apply_ok:
  assumes "getProject r (lu_project_id i) = Some p"
    and "validateLifecycleTransition (pe_lifecycle_state p) t (Some (lu_event i)) (Some (lu_actor i)) = None"
  shows "\<exists>res d. applyLifecycleUpdate clk i r = Inr (res,
      audit clk State_updated None (Some (lu_project_id i)) d
       (appendProjectSnapshot clk (transitioned (update_as_transition i t) (lu_timestamp i) p)
         (r\<lparr>reg_projects := jm_set (reg_projects r) (lu_project_id i)
              (transitioned (update_as_transition i t) (lu_timestamp i) p)\<rparr>))) \<and>
     lr_previous_state res = pe_lifecycle_state p \<and> lr_next_state res = t"
proof -
  have r: "resolveLifecycleTransition (pe_lifecycle_state p) (lu_event i) (lu_actor i) =
      Inr (pe_lifecycle_state p, t)"
    using assms(2) resolve_ok_iff by (auto simp: validateLifecycleTransition_ok_iff)
  have f: "(foldl apply_project_update p
      [Upd_lifecycle_state t, Upd_current_milestone (lu_milestone i), Upd_updated_at (lu_timestamp i)])
        \<lparr>pe_project_id := lu_project_id i\<rparr> = transitioned (update_as_transition i t) (lu_timestamp i) p"
    using transitioned_fold [where p = p and args = "update_as_transition i t" and t = "lu_timestamp i"]
    by (simp add: update_as_transition_def)
  have g: "jm_get (reg_projects r) (lu_project_id i) = Some p"
    using assms(1) by (simp add: getProject_def)
  show ?thesis
    unfolding applyLifecycleUpdate_def assms(1) option.case r outcome_bind_simps prod.case
      updateProject_def g Let_def f by (intro exI conjI) (rule refl, simp_all)
qed

lemma apply_error_iff:
  "(\<exists>e. applyLifecycleUpdate clk i r = Inl e) \<longleftrightarrow>
   (case getProject r (lu_project_id i) of
      None \<Rightarrow> True
    | Some p \<Rightarrow> \<forall>t. validateLifecycleTransition (pe_lifecycle_state p) t (Some (lu_event i)) (Some (lu_actor i)) \<noteq> None)"
proof (cases "getProject r (lu_project_id i)")
  case None
  then show ?thesis by (simp add: applyLifecycleUpdate_def)
next
  case (Some p)
  show ?thesis
  proof (cases "resolveLifecycleTransition (pe_lifecycle_state p) (lu_event i) (lu_actor i)")
    case (Inl e)
    then have "validateLifecycleTransition (pe_lifecycle_state p) t (Some (lu_event i)) (Some (lu_actor i)) \<noteq> None" for t
      using resolve_iff_validate [of "pe_lifecycle_state p" "lu_event i" "lu_actor i" t] by auto
    with Some Inl show ?thesis by (simp add: applyLifecycleUpdate_def)
  next
    case (Inr st)
    obtain s t where st: "st = (s, t)" by (cases st)
    have v: "validateLifecycleTransition (pe_lifecycle_state p) t (Some (lu_event i)) (Some (lu_actor i)) = None"
      using Inr st resolve_iff_validate by blast
    from apply_ok [OF Some v, of clk] have "\<not> (\<exists>e. applyLifecycleUpdate clk i r = Inl e)" by fastforce
    with Some v show ?thesis by auto
  qed
qed

lemma applyLifecycleUpdate_inv:
  assumes "reg_inv r" "applyLifecycleUpdate clk i r = Inr (res, r')"
  shows "reg_inv r'"
proof -
  from assms(2) obtain from_to where "updateProject clk (lu_project_id i)
      [Upd_lifecycle_state (snd from_to), Upd_current_milestone (lu_milestone i),
       Upd_updated_at (lu_timestamp i)] r = Inr r'"
    by (auto simp: applyLifecycleUpdate_def outcome_bind_eq_Inr split: option.splits)
  with assms(1) show ?thesis by (rule updateProject_inv)
qed

section \<open>Properties of the component\<close>

text \<open>
  The throwing update of a project and the registry transition to some target allow the same
  moves, and when both do, they leave the same projects, histories and agents.
\<close>

theorem update_paths_agree:
  "case applyLifecycleUpdate clk i r of
     Inl e \<Rightarrow> \<forall>t r'. transitionProjectLifecycle clk (update_as_transition i t) r \<noteq> Inr (Allowed, r')
   | Inr (res, r1) \<Rightarrow>
       \<exists>r2. transitionProjectLifecycle clk (update_as_transition i (lr_next_state res)) r = Inr (Allowed, r2) \<and>
         reg_projects r1 = reg_projects r2 \<and> reg_project_history r1 = reg_project_history r2 \<and>
         reg_agents r1 = reg_agents r2 \<and> reg_comm_log r1 = reg_comm_log r2"
proof (cases "\<exists>p t. getProject r (lu_project_id i) = Some p \<and>
    validateLifecycleTransition (pe_lifecycle_state p) t (Some (lu_event i)) (Some (lu_actor i)) = None")
  case True
  then obtain p t where p: "getProject r (lu_project_id i) = Some p"
    and v: "validateLifecycleTransition (pe_lifecycle_state p) t (Some (lu_event i)) (Some (lu_actor i)) = None"
    by blast
  from apply_ok [OF p v, of clk] obtain res d where a: "applyLifecycleUpdate clk i r = Inr (res,
      audit clk State_updated None (Some (lu_project_id i)) d
       (appendProjectSnapshot clk (transitioned (update_as_transition i t) (lu_timestamp i) p)
         (r\<lparr>reg_projects := jm_set (reg_projects r) (lu_project_id i)
              (transitioned (update_as_transition i t) (lu_timestamp i) p)\<rparr>)))" "lr_next_state res = t"
    by blast
  have g: "jm_get (reg_projects r) (tr_project_id (update_as_transition i t)) = Some p"
    using p by (simp add: getProject_def update_as_transition_def)
  have v': "validateLifecycleTransition (pe_lifecycle_state p) (tr_to (update_as_transition i t))
      (Some (tr_event (update_as_transition i t))) (Some (tr_actor (update_as_transition i t))) = None"
    using v by (simp add: update_as_transition_def)
  have c: "transition_clock clk (update_as_transition i t) r = (lu_timestamp i, r)"
    by (simp add: transition_clock_def update_as_transition_def)
  have id: "tr_project_id (update_as_transition i t) = lu_project_id i" by (simp add: update_as_transition_def)
  from transition_allowed [OF g v' c] show ?thesis
    by (auto simp: a id)
next
  case False
  then have "\<exists>e. applyLifecycleUpdate clk i r = Inl e"
    unfolding apply_error_iff by (auto split: option.split)
  moreover have "transitionProjectLifecycle clk (update_as_transition i t) r \<noteq> Inr (Allowed, r')" for t r'
  proof (cases "getProject r (lu_project_id i)")
    case None
    then show ?thesis by (simp add: getProject_def transition_unknown update_as_transition_def)
  next
    case (Some p)
    have "validateLifecycleTransition (pe_lifecycle_state p) t
        (Some (lu_event i)) (Some (lu_actor i)) \<noteq> None"
    proof
      assume "validateLifecycleTransition (pe_lifecycle_state p) t (Some (lu_event i)) (Some (lu_actor i)) = None"
      with Some have "\<exists>p t. getProject r (lu_project_id i) = Some p \<and>
          validateLifecycleTransition (pe_lifecycle_state p) t (Some (lu_event i)) (Some (lu_actor i)) = None"
        by (intro exI conjI)
      with False show False by (rule notE)
    qed
    then obtain reason where "validateLifecycleTransition (pe_lifecycle_state p) t
        (Some (lu_event i)) (Some (lu_actor i)) = Some reason" by auto
    with Some transition_rejected [of r "update_as_transition i t" p reason clk] show ?thesis
      by (simp add: getProject_def update_as_transition_def)
  qed
  ultimately show ?thesis by auto
qed

end
