(* ===== verification/Hierarchy.thy ===== *)
theory Hierarchy
  imports JS_Collections JS_Values
begin

text \<open>
  The agent hierarchy's data, \<^verbatim>\<open>src/domain/hierarchy.ts\<close> and
  \<^verbatim>\<open>src/domain/mcpToolsMapping.ts\<close>: hierarchy configurations, the tool and server
  catalogs, the tools each agent is designed to have, the agent profiles, and the check of a
  configuration's tools against them. The configuration schema is run by a schema library
  that is not part of the repository: what its \<^verbatim>\<open>safeParse\<close> returns is a parameter.
\<close>

section \<open>Tools, servers and configurations\<close>

datatype mcp_tool =
    MT_anthropic_api | MT_notion | MT_google_sheets | MT_google_drive | MT_gmail | MT_slack | MT_google_calendar | MT_github | MT_web_search | MT_bash_tool | MT_figma_mcp | MT_canva_mcp | MT_whatsapp_api

fun mcp_tool_str :: "mcp_tool \<Rightarrow> string" where
  "mcp_tool_str MT_anthropic_api = ''anthropic_api''"
| "mcp_tool_str MT_notion = ''notion''"
| "mcp_tool_str MT_google_sheets = ''google_sheets''"
| "mcp_tool_str MT_google_drive = ''google_drive''"
| "mcp_tool_str MT_gmail = ''gmail''"
| "mcp_tool_str MT_slack = ''slack''"
| "mcp_tool_str MT_google_calendar = ''google_calendar''"
| "mcp_tool_str MT_github = ''github''"
| "mcp_tool_str MT_web_search = ''web_search''"
| "mcp_tool_str MT_bash_tool = ''bash_tool''"
| "mcp_tool_str MT_figma_mcp = ''figma_mcp''"
| "mcp_tool_str MT_canva_mcp = ''canva_mcp''"
| "mcp_tool_str MT_whatsapp_api = ''whatsapp_api''"

definition MCP_TOOL_IDS :: "mcp_tool list" where
  "MCP_TOOL_IDS = [MT_anthropic_api, MT_notion, MT_google_sheets, MT_google_drive, MT_gmail, MT_slack, MT_google_calendar, MT_github, MT_web_search, MT_bash_tool, MT_figma_mcp, MT_canva_mcp, MT_whatsapp_api]"

datatype mcp_server =
    MS_brave_search | MS_notion | MS_slack | MS_postgres | MS_memory | MS_github | MS_git | MS_fetch | MS_filesystem | MS_puppeteer | MS_sqlite | MS_google_analytics_mcp

fun mcp_server_str :: "mcp_server \<Rightarrow> string" where
  "mcp_server_str MS_brave_search = ''brave-search''"
| "mcp_server_str MS_notion = ''notion''"
| "mcp_server_str MS_slack = ''slack''"
| "mcp_server_str MS_postgres = ''postgres''"
| "mcp_server_str MS_memory = ''memory''"
| "mcp_server_str MS_github = ''github''"
| "mcp_server_str MS_git = ''git''"
| "mcp_server_str MS_fetch = ''fetch''"
| "mcp_server_str MS_filesystem = ''filesystem''"
| "mcp_server_str MS_puppeteer = ''puppeteer''"
| "mcp_server_str MS_sqlite = ''sqlite''"
| "mcp_server_str MS_google_analytics_mcp = ''google-analytics-mcp''"

definition MCP_SERVER_IDS :: "mcp_server list" where
  "MCP_SERVER_IDS = [MS_brave_search, MS_notion, MS_slack, MS_postgres, MS_memory, MS_github, MS_git, MS_fetch, MS_filesystem, MS_puppeteer, MS_sqlite, MS_google_analytics_mcp]"

record mcp_server_descriptor =
  sd_id :: mcp_server
  sd_upstream_path :: "string option"
  sd_description :: string

fun mcp_server_descriptor_of :: "mcp_server \<Rightarrow> mcp_server_descriptor" where
  "mcp_server_descriptor_of MS_brave_search =
     \<lparr>sd_id = MS_brave_search, sd_upstream_path = Some ''src/brave-search'',
      sd_description = ''Pencarian web berkinerja tinggi (market intel, riset kompetitor).''\<rparr>"
| "mcp_server_descriptor_of MS_notion =
     \<lparr>sd_id = MS_notion, sd_upstream_path = Some ''src/notion'',
      sd_description = ''Dokumen strategi, OKR, basis pengetahuan, PRD.''\<rparr>"
| "mcp_server_descriptor_of MS_slack =
     \<lparr>sd_id = MS_slack, sd_upstream_path = Some ''src/slack'',
      sd_description = ''Broadcast eksekutif, eskalasi, koordinasi tim.''\<rparr>"
| "mcp_server_descriptor_of MS_postgres =
     \<lparr>sd_id = MS_postgres, sd_upstream_path = Some ''src/postgres'',
      sd_description = ''Analitik finansial, burn rate, konsumsi token, migrasi skema.''\<rparr>"
| "mcp_server_descriptor_of MS_memory =
     \<lparr>sd_id = MS_memory, sd_upstream_path = Some ''src/memory'',
      sd_description = ''Memori jangka panjang: visi, keputusan, sprint, negosiasi.''\<rparr>"
| "mcp_server_descriptor_of MS_github =
     \<lparr>sd_id = MS_github, sd_upstream_path = Some ''src/github'',
      sd_description = ''Issues, PR, CI/CD, Dependabot, GitHub Projects.''\<rparr>"
| "mcp_server_descriptor_of MS_git =
     \<lparr>sd_id = MS_git, sd_upstream_path = Some ''src/git'',
      sd_description = ''Operasi Git otonom untuk diff, branch, commit, dan inspeksi repo.''\<rparr>"
| "mcp_server_descriptor_of MS_fetch =
     \<lparr>sd_id = MS_fetch, sd_upstream_path = Some ''src/fetch'',
      sd_description = ''Ekstraksi halaman web untuk verifikasi entitas bisnis.''\<rparr>"
| "mcp_server_descriptor_of MS_filesystem =
     \<lparr>sd_id = MS_filesystem, sd_upstream_path = Some ''src/filesystem'',
      sd_description = ''Navigasi codebase, templat proposal, basis pengetahuan markdown.''\<rparr>"
| "mcp_server_descriptor_of MS_puppeteer =
     \<lparr>sd_id = MS_puppeteer, sd_upstream_path = Some ''src/puppeteer'',
      sd_description = ''Inspeksi visual UI, E2E, tangkapan layar.''\<rparr>"
| "mcp_server_descriptor_of MS_sqlite =
     \<lparr>sd_id = MS_sqlite, sd_upstream_path = Some ''src/sqlite'',
      sd_description = ''Tiket lokal, log transaksi, status insiden.''\<rparr>"
| "mcp_server_descriptor_of MS_google_analytics_mcp =
     \<lparr>sd_id = MS_google_analytics_mcp, sd_upstream_path = None,
      sd_description = ''Metrik lalu lintas, drop-off, anomali error/traffic.''\<rparr>"

fun tool_mcp_servers :: "mcp_tool \<Rightarrow> mcp_server list" where
  "tool_mcp_servers MT_anthropic_api = [MS_memory]"
| "tool_mcp_servers MT_notion = [MS_notion, MS_memory]"
| "tool_mcp_servers MT_google_sheets = [MS_postgres, MS_google_analytics_mcp]"
| "tool_mcp_servers MT_google_drive = [MS_filesystem, MS_notion]"
| "tool_mcp_servers MT_gmail = [MS_fetch]"
| "tool_mcp_servers MT_slack = [MS_slack]"
| "tool_mcp_servers MT_google_calendar = [MS_notion]"
| "tool_mcp_servers MT_github = [MS_github]"
| "tool_mcp_servers MT_web_search = [MS_brave_search, MS_fetch]"
| "tool_mcp_servers MT_bash_tool = [MS_filesystem, MS_git, MS_github]"
| "tool_mcp_servers MT_figma_mcp = [MS_puppeteer]"
| "tool_mcp_servers MT_canva_mcp = [MS_filesystem]"
| "tool_mcp_servers MT_whatsapp_api = [MS_slack]"

datatype role_type = Role_ceo | Role_head | Role_specialist

fun role_type_str :: "role_type \<Rightarrow> string" where
  "role_type_str Role_ceo = ''ceo''"
| "role_type_str Role_head = ''head''"
| "role_type_str Role_specialist = ''specialist''"

record hierarchy_config =
  hc_agent_id :: string
  hc_role_type :: role_type
  hc_parent_agent_id :: "string option"
  hc_sub_agent_ids :: "string list"
  hc_department_name :: string
  hc_allowed_mcp_tools :: "mcp_tool list"
  hc_role_description :: "string option"

text \<open>What the schema asks of a configuration of this shape.\<close>

definition schema_accepts :: "hierarchy_config \<Rightarrow> bool" where
  "schema_accepts c \<longleftrightarrow> hc_agent_id c \<noteq> [] \<and> hc_parent_agent_id c \<noteq> Some [] \<and>
     [] \<notin> set (hc_sub_agent_ids c) \<and> hc_department_name c \<noteq> []"

text \<open>An issue of the schema library: the path it is about and its message.\<close>

type_synonym schema_issue = "string list \<times> string"

definition validateHierarchyConfig ::
  "('raw \<Rightarrow> schema_issue list + hierarchy_config) \<Rightarrow> 'raw \<Rightarrow> string list + hierarchy_config" where
  "validateHierarchyConfig safeParse raw =
     (case safeParse raw of
        Inl issues \<Rightarrow> Inl (map (\<lambda>(path, message). js_join ''.'' path @ '': '' @ message) issues)
      | Inr config \<Rightarrow> Inr config)"

definition makeSpecialistConfig ::
  "string \<Rightarrow> string \<Rightarrow> string \<Rightarrow> mcp_tool list \<Rightarrow> string option \<Rightarrow> hierarchy_config" where
  "makeSpecialistConfig agentId parentAgentId departmentName allowedMcpTools roleDescription =
     \<lparr>hc_agent_id = agentId, hc_role_type = Role_specialist,
      hc_parent_agent_id = Some parentAgentId, hc_sub_agent_ids = [],
      hc_department_name = departmentName, hc_allowed_mcp_tools = allowedMcpTools,
      hc_role_description = roleDescription\<rparr>"

section \<open>Default sorting\<close>

text \<open>\<^verbatim>\<open>sort()\<close> without a comparison orders strings by code units.\<close>

definition sort_strings_by :: "('a \<Rightarrow> string) \<Rightarrow> 'a list \<Rightarrow> 'a list" where
  "sort_strings_by key xs = js_sort (\<lambda>a b. str_le (key a) (key b)) xs"

text \<open>A collation in which equivalent elements are equal sorts to one list only.\<close>

locale linear_collation = collation +
  assumes antisym: "le x y \<Longrightarrow> le y x \<Longrightarrow> x = y"
begin

lemma sorted_unique:
  "sorted_wrt (\<lambda>a b. le (f a) (f b)) xs \<Longrightarrow> sorted_wrt (\<lambda>a b. le (f a) (f b)) ys \<Longrightarrow>
   inj f \<Longrightarrow> mset xs = mset ys \<Longrightarrow> xs = ys"
proof (induction xs arbitrary: ys)
  case (Cons x xs)
  then obtain y zs where ys: "ys = y # zs" by (cases ys) auto
  have "x \<in> set ys" "y \<in> set (x # xs)"
    using Cons.prems(4) ys by (metis list.set_intros(1) set_mset_mset)+
  then have "le (f x) (f y)" "le (f y) (f x)"
    using Cons.prems(1,2) ys refl by auto
  then have "x = y" using antisym Cons.prems(3) by (meson injD)
  with Cons ys show ?case by simp
qed simp

lemma sort_eq_iff:
  "inj f \<Longrightarrow>
   js_sort (\<lambda>a b. le (f a) (f b)) xs = js_sort (\<lambda>a b. le (f a) (f b)) ys \<longleftrightarrow> mset xs = mset ys"
  by (metis mset_js_sort sort_sorted sorted_unique)

end

interpretation code_unit_order: linear_collation str_le
  by unfold_locales (erule (1) str_le_antisym)

lemma inj_mcp_tool_str: "inj mcp_tool_str"
proof (rule injI)
  fix a b
  show "mcp_tool_str a = mcp_tool_str b \<Longrightarrow> a = b" by (cases a; cases b; simp)
qed

lemma inj_mcp_server_str: "inj mcp_server_str"
proof (rule injI)
  fix a b
  show "mcp_server_str a = mcp_server_str b \<Longrightarrow> a = b" by (cases a; cases b; simp)
qed

section \<open>Servers of a list of tools\<close>

definition resolveMcpServersForTools :: "mcp_tool list \<Rightarrow> mcp_server list" where
  "resolveMcpServersForTools toolIds =
     sort_strings_by mcp_server_str
       (foldl (\<lambda>acc toolId. foldl set_add acc (tool_mcp_servers toolId)) [] toolIds)"

lemma resolve_servers_spec:
  "set (resolveMcpServersForTools ts) = (\<Union>t \<in> set ts. set (tool_mcp_servers t))"
  "distinct (resolveMcpServersForTools ts)"
proof -
  have 1: "set (foldl (\<lambda>acc t. foldl set_add acc (tool_mcp_servers t)) acc ts) =
      set acc \<union> (\<Union>t \<in> set ts. set (tool_mcp_servers t))" for acc
    by (induction ts arbitrary: acc) (auto simp: set_foldl_set_add)
  have 2: "distinct acc \<Longrightarrow> distinct (foldl (\<lambda>acc t. foldl set_add acc (tool_mcp_servers t)) acc ts)" for acc
    by (induction ts arbitrary: acc) (auto simp: distinct_foldl_set_add)
  show "set (resolveMcpServersForTools ts) = (\<Union>t \<in> set ts. set (tool_mcp_servers t))"
    by (simp add: resolveMcpServersForTools_def sort_strings_by_def 1)
  show "distinct (resolveMcpServersForTools ts)"
    using 2 [of "[]"] by (simp add: resolveMcpServersForTools_def sort_strings_by_def
        flip: distinct_map [of id, simplified]) (metis distinct_js_sort list.map_id0 id_apply)
qed

section \<open>Designed tools, repositories and profiles\<close>

definition DESIGN_CANONICAL_TOOLS :: "(string \<times> mcp_tool list) list" where
  "DESIGN_CANONICAL_TOOLS =
    [(''ceo-agent'', [MT_notion, MT_slack, MT_google_sheets, MT_gmail, MT_google_calendar, MT_anthropic_api]),
     (''ceo-strategy-analyst'', [MT_web_search, MT_notion, MT_google_sheets]),
     (''ceo-report-summarizer'', [MT_notion, MT_slack, MT_anthropic_api]),
     (''ceo-decision-logger'', [MT_notion, MT_google_drive]),
     (''ceo-okr-tracker'', [MT_notion, MT_google_sheets, MT_slack]),
     (''marketing-head'', [MT_notion, MT_slack, MT_google_sheets]),
     (''marketing-content-creator'', [MT_canva_mcp, MT_notion, MT_google_drive]),
     (''marketing-seo-specialist'', [MT_web_search, MT_google_sheets]),
     (''marketing-campaign-manager'', [MT_whatsapp_api, MT_google_sheets, MT_gmail]),
     (''marketing-analytics-reader'', [MT_google_sheets, MT_web_search]),
     (''marketing-social-scheduler'', [MT_notion, MT_google_calendar, MT_slack]),
     (''marketing-trend-watcher'', [MT_web_search, MT_slack]),
     (''sales-head'', [MT_notion, MT_slack, MT_google_sheets, MT_gmail]),
     (''sales-lead-qualifier'', [MT_web_search, MT_google_sheets, MT_gmail]),
     (''sales-proposal-generator'', [MT_google_sheets, MT_google_drive, MT_notion]),
     (''sales-followup-drafter'', [MT_gmail, MT_slack, MT_anthropic_api]),
     (''sales-pipeline-tracker'', [MT_notion, MT_google_sheets]),
     (''sales-competitor-watcher'', [MT_web_search, MT_notion]),
     (''product-head'', [MT_notion, MT_slack, MT_google_sheets, MT_figma_mcp]),
     (''product-user-researcher'', [MT_web_search, MT_google_sheets, MT_notion]),
     (''product-feature-prioritizer'', [MT_notion, MT_google_sheets]),
     (''product-prd-writer'', [MT_notion, MT_google_drive, MT_figma_mcp]),
     (''product-roadmap-builder'', [MT_notion, MT_google_sheets, MT_slack]),
     (''product-feedback-analyzer'', [MT_anthropic_api, MT_google_sheets]),
     (''engineering-head'', [MT_github, MT_slack, MT_notion, MT_bash_tool]),
     (''eng-code-reviewer'', [MT_github, MT_bash_tool]),
     (''eng-bug-hunter'', [MT_github, MT_bash_tool, MT_web_search]),
     (''eng-docs-writer'', [MT_notion, MT_github, MT_google_drive]),
     (''eng-infra-monitor'', [MT_slack, MT_github, MT_bash_tool]),
     (''eng-test-generator'', [MT_github, MT_bash_tool, MT_anthropic_api]),
     (''eng-pr-summarizer'', [MT_github, MT_notion, MT_slack]),
     (''pm-head'', [MT_notion, MT_slack, MT_google_calendar, MT_github, MT_google_sheets]),
     (''pm-task-coordinator'', [MT_notion, MT_slack, MT_github]),
     (''pm-risk-analyzer'', [MT_github, MT_notion, MT_slack]),
     (''pm-sprint-planner'', [MT_notion, MT_google_calendar, MT_google_sheets]),
     (''pm-progress-reporter'', [MT_notion, MT_slack, MT_gmail]),
     (''pm-deadline-watcher'', [MT_slack, MT_google_calendar, MT_notion]),
     (''support-head'', [MT_notion, MT_slack, MT_gmail, MT_whatsapp_api, MT_google_sheets]),
     (''support-ticket-classifier'', [MT_notion, MT_google_sheets, MT_gmail]),
     (''support-faq-responder'', [MT_notion, MT_whatsapp_api, MT_gmail]),
     (''support-escalation-router'', [MT_slack, MT_github, MT_gmail]),
     (''support-csat-analyzer'', [MT_google_sheets, MT_notion, MT_anthropic_api]),
     (''support-knowledge-builder'', [MT_notion, MT_google_drive]),
     (''support-wa-bot-handler'', [MT_whatsapp_api, MT_notion])]"

record external_repository =
  er_id :: string
  er_url :: string
  er_purpose :: string

definition REPOSITORY_CATALOG :: "(string \<times> external_repository) list" where
  "REPOSITORY_CATALOG =
    [(''antigravity-awesome-skills'', \<lparr>er_id = ''antigravity-awesome-skills'', er_url = ''https://github.com/sickn33/antigravity-awesome-skills'',
       er_purpose = ''Skills eksekutif, konten, PRD, TDD, proposal bisnis.''\<rparr>),
     (''open-outreach'', \<lparr>er_id = ''open-outreach'', er_url = ''https://github.com/eracle/OpenOutreach'',
       er_purpose = ''Prospek, cold outreach, kualifikasi, objection handling.''\<rparr>),
     (''agentic-seo-skill'', \<lparr>er_id = ''agentic-seo-skill'', er_url = ''https://github.com/Bhanunamikaze/Agentic-SEO-Skill'',
       er_purpose = ''Audit SEO, riset kata kunci, analisis pasar organik.''\<rparr>),
     (''youtube-content-creation-agent'', \<lparr>er_id = ''youtube-content-creation-agent'', er_url = ''https://github.com/Salimzaks/Youtube-content-creation-agent'',
       er_purpose = ''Riset ide dan naskah konten YouTube.''\<rparr>),
     (''smart-marketing-assistant-crew-ai'', \<lparr>er_id = ''smart-marketing-assistant-crew-ai'', er_url = ''https://github.com/praj2408/Smart-Marketing-Assistant-Crew-AI'',
       er_purpose = ''Strategi konten dan copywriting multi-agen.''\<rparr>),
     (''facebook-python-business-sdk'', \<lparr>er_id = ''facebook-python-business-sdk'', er_url = ''https://github.com/facebook/facebook-python-business-sdk'',
       er_purpose = ''Kampanye iklan Meta (Facebook & Instagram).''\<rparr>),
     (''instapy'', \<lparr>er_id = ''instapy'', er_url = ''https://github.com/InstaPy/InstaPy'',
       er_purpose = ''Otomatisasi interaksi Instagram.''\<rparr>),
     (''facebook-posts-automation'', \<lparr>er_id = ''facebook-posts-automation'', er_url = ''https://github.com/adar2/Facebook-Posts-Automation'',
       er_purpose = ''Publikasi otomatis ke grup/halaman Facebook.''\<rparr>),
     (''tiktok-automation'', \<lparr>er_id = ''tiktok-automation'', er_url = ''https://github.com/DreamingWater/TiktokAutomation'',
       er_purpose = ''Scraping tren TikTok.''\<rparr>),
     (''tiktok-uploader'', \<lparr>er_id = ''tiktok-uploader'', er_url = ''https://github.com/wkaisertexas/tiktok-uploader'',
       er_purpose = ''Upload video TikTok via Playwright.''\<rparr>)]"

record profile_seed_data =
  sd_agent_id :: string
  sd_spec_role_name :: string
  sd_focus :: string
  sd_repositories :: "external_repository option list"

text \<open>The seeds name repositories by looking them up in the catalog.\<close>

definition profile_seed :: "string \<Rightarrow> string \<Rightarrow> string \<Rightarrow> string list \<Rightarrow> profile_seed_data" where
  "profile_seed agentId specRoleName focus repositoryIds =
     \<lparr>sd_agent_id = agentId, sd_spec_role_name = specRoleName, sd_focus = focus,
      sd_repositories = map (map_of REPOSITORY_CATALOG) repositoryIds\<rparr>"

definition PROFILE_SEEDS :: "profile_seed_data list" where
  "PROFILE_SEEDS =
    [profile_seed ''ceo-agent'' ''CEO Orchestrator & Strategist''
       ''Strategi perusahaan, OKR, alokasi anggaran, komando ke Department Heads.''
       [''antigravity-awesome-skills''],
     profile_seed ''ceo-strategy-analyst'' ''Strategy Analyst''
       ''Analisis strategi makro dan pergerakan kompetitor.''
       [''antigravity-awesome-skills''],
     profile_seed ''ceo-report-summarizer'' ''Report Summarizer''
       ''Ringkasan eksekutif laporan departemen.''
       [''antigravity-awesome-skills''],
     profile_seed ''ceo-decision-logger'' ''Decision Logger''
       ''Rekam jejak keputusan strategis.''
       [],
     profile_seed ''ceo-okr-tracker'' ''OKR Tracker''
       ''Pemantauan OKR lintas departemen.''
       [],
     profile_seed ''marketing-head'' ''Marketing Department Head''
       ''Orkestrasi kampanye dan sintesis laporan marketing.''
       [],
     profile_seed ''marketing-trend-watcher'' ''Lead Hunter Agent''
       ''Pencarian prospek, ekstraksi kontak, pemindaian direktori bisnis.''
       [''open-outreach'', ''agentic-seo-skill''],
     profile_seed ''marketing-analytics-reader'' ''Content Analyst Agent''
       ''Analisis lalu lintas, tren SEO, metrik konversi.''
       [''agentic-seo-skill''],
     profile_seed ''marketing-content-creator'' ''Content Creator Agent''
       ''Copywriting kampanye dan aset visual/video.''
       [''youtube-content-creation-agent'', ''smart-marketing-assistant-crew-ai'', ''antigravity-awesome-skills''],
     profile_seed ''marketing-campaign-manager'' ''Promotion & Outreach Agent''
       ''Distribusi pesan, publikasi sosial, manajemen iklan.''
       [''facebook-python-business-sdk'', ''instapy'', ''facebook-posts-automation'', ''tiktok-automation'', ''tiktok-uploader'', ''open-outreach''],
     profile_seed ''marketing-seo-specialist'' ''SEO Specialist''
       ''Riset kata kunci dan audit organik.''
       [''agentic-seo-skill''],
     profile_seed ''marketing-social-scheduler'' ''Social Scheduler''
       ''Penjadwalan konten ke kalender publikasi.''
       [''instapy'', ''facebook-posts-automation''],
     profile_seed ''sales-head'' ''Sales Department Head''
       ''Orkestrasi pipeline dan sintesis laporan sales.''
       [],
     profile_seed ''sales-lead-qualifier'' ''Lead Qualification Agent''
       ''Verifikasi BANT dan validasi entitas bisnis.''
       [''open-outreach''],
     profile_seed ''sales-proposal-generator'' ''Proposal Architect Agent''
       ''Penawaran komersial, kalkulasi harga, ROI.''
       [''antigravity-awesome-skills''],
     profile_seed ''sales-followup-drafter'' ''Objection Handler Agent''
       ''Negosiasi, keberatan klien, tindak lanjut.''
       [''open-outreach''],
     profile_seed ''sales-pipeline-tracker'' ''Pipeline Tracker''
       ''Pelacakan tahapan sales pipeline.''
       [],
     profile_seed ''sales-competitor-watcher'' ''Competitor Watcher''
       ''Analisis penawaran dan harga kompetitor.''
       [],
     profile_seed ''product-head'' ''Product Department Head''
       ''Orkestrasi riset produk dan roadmap.''
       [],
     profile_seed ''product-user-researcher'' ''User Research Agent''
       ''Pain points, persona, riset kompetitor.''
       [''agentic-seo-skill''],
     profile_seed ''product-feature-prioritizer'' ''Feature Prioritizer''
       ''Prioritisasi backlog RICE/ICE.''
       [''antigravity-awesome-skills''],
     profile_seed ''product-prd-writer'' ''PRD Scaffolder Agent''
       ''Penulisan PRD dan arsitektur fitur.''
       [''antigravity-awesome-skills''],
     profile_seed ''product-roadmap-builder'' ''Roadmap Builder''
       ''Peta jalan jangka pendek-panjang.''
       [],
     profile_seed ''product-feedback-analyzer'' ''Feedback Analyzer''
       ''Pengelompokan masukan dan tiket komplain.''
       [],
     profile_seed ''engineering-head'' ''Engineering Department Head''
       ''Orkestrasi delivery teknis departemen.''
       [],
     profile_seed ''eng-code-reviewer'' ''Implementation / Coder Agent''
       ''Penulisan kode, refaktoring, review PR.''
       [],
     profile_seed ''eng-bug-hunter'' ''Implementation / Coder Agent''
       ''Analisis bug, stack trace, log.''
       [],
     profile_seed ''eng-docs-writer'' ''Implementation / Coder Agent''
       ''Dokumentasi teknis dan API.''
       [],
     profile_seed ''eng-test-generator'' ''QA & Fuzzing Agent''
       ''Unit test, E2E, skenario pengujian.''
       [''antigravity-awesome-skills''],
     profile_seed ''eng-infra-monitor'' ''Deployment Cloud Agent''
       ''CI/CD, metrik server, migrasi basis data.''
       [],
     profile_seed ''eng-pr-summarizer'' ''DevSecOps Agent''
       ''Ringkasan PR, Dependabot, release notes.''
       [],
     profile_seed ''pm-head'' ''Project Manager Department Head''
       ''Orkestrasi sprint dan laporan lintas tim.''
       [],
     profile_seed ''pm-sprint-planner'' ''Sprint Tracker Agent''
       ''Burndown, tenggat, status tiket.''
       [],
     profile_seed ''pm-risk-analyzer'' ''Risk & Blocker Analyst Agent''
       ''Keterlambatan, PR stale, hambatan teknis.''
       [],
     profile_seed ''pm-task-coordinator'' ''Resource Allocator Agent''
       ''Alokasi beban kerja sub-agen teknis.''
       [],
     profile_seed ''pm-progress-reporter'' ''Progress Reporter''
       ''Laporan kemajuan mingguan untuk CEO.''
       [],
     profile_seed ''pm-deadline-watcher'' ''Deadline Watcher''
       ''Pengingat tenggat otomatis.''
       [],
     profile_seed ''support-head'' ''Support Department Head''
       ''Orkestrasi tiket dan CSAT.''
       [],
     profile_seed ''support-ticket-classifier'' ''Ticket Triage Agent''
       ''Klasifikasi tiket dan prioritas.''
       [],
     profile_seed ''support-faq-responder'' ''Knowledge Base Navigator Agent''
       ''Jawaban FAQ dari basis pengetahuan.''
       [],
     profile_seed ''support-knowledge-builder'' ''Knowledge Base Navigator Agent''
       ''Pembaruan artikel basis pengetahuan.''
       [],
     profile_seed ''support-csat-analyzer'' ''Troubleshooting Agent''
       ''Analisis log, metrik, anomali traffic.''
       [''agentic-seo-skill''],
     profile_seed ''support-escalation-router'' ''Escalation Agent''
       ''Eskalasi ke Engineering/PM, broadcast insiden.''
       [''open-outreach''],
     profile_seed ''support-wa-bot-handler'' ''WA Bot Handler''
       ''Otomasi chatbot WhatsApp pelanggan.''
       []]"

record agent_profile =
  pf_seed :: profile_seed_data
  pf_canonical_tools :: "mcp_tool list"
  pf_mcp_servers :: "mcp_server list"

text \<open>No seed carries tools of its own, so the designed ones are taken.\<close>

definition buildProfile :: "profile_seed_data \<Rightarrow> agent_profile" where
  "buildProfile seed =
     (let canonicalTools = nullish (map_of DESIGN_CANONICAL_TOOLS (sd_agent_id seed)) []
      in \<lparr>pf_seed = seed, pf_canonical_tools = canonicalTools,
          pf_mcp_servers = resolveMcpServersForTools canonicalTools\<rparr>)"

definition AGENT_MCP_TOOL_PROFILES :: "(string, agent_profile) js_map" where
  "AGENT_MCP_TOOL_PROFILES =
     foldl (\<lambda>m seed. jm_set m (sd_agent_id seed) (buildProfile seed)) [] PROFILE_SEEDS"

definition ALL_MAPPED_AGENT_IDS :: "string list" where
  "ALL_MAPPED_AGENT_IDS = sort_strings_by id (jm_keys AGENT_MCP_TOOL_PROFILES)"

definition getAgentMcpToolProfile :: "string \<Rightarrow> agent_profile option" where
  "getAgentMcpToolProfile agentId = jm_get AGENT_MCP_TOOL_PROFILES agentId"

text \<open>The ids a profile exists for are those of the seeds.\<close>

lemma jm_get_foldl_set:
  "jm_get (foldl (\<lambda>m s. jm_set m (k s) (v s)) m ss) i \<noteq> None \<longleftrightarrow> jm_get m i \<noteq> None \<or> i \<in> k ` set ss"
  by (induction ss arbitrary: m) auto

lemma profile_exists_iff:
  "getAgentMcpToolProfile i \<noteq> None \<longleftrightarrow> i \<in> set (map sd_agent_id PROFILE_SEEDS)"
  unfolding getAgentMcpToolProfile_def AGENT_MCP_TOOL_PROFILES_def jm_get_foldl_set by simp

section \<open>Checking a configuration's tools\<close>

definition sortedToolIds :: "mcp_tool list \<Rightarrow> mcp_tool list" where
  "sortedToolIds tools = sort_strings_by mcp_tool_str tools"

definition toolsEqual :: "mcp_tool list \<Rightarrow> mcp_tool list \<Rightarrow> bool" where
  "toolsEqual a b \<longleftrightarrow>
     (let sa = sortedToolIds a; sb = sortedToolIds b
      in length sa = length sb \<and> list_all (\<lambda>(t, u). t = u) (zip sa sb))"

definition tools_mismatch_error :: "hierarchy_config \<Rightarrow> mcp_tool list \<Rightarrow> string" where
  "tools_mismatch_error config canonical =
     ''Agent \"'' @ hc_agent_id config @ ''\" allowedMcpTools mismatch: expected ['' @
     js_join '', '' (map mcp_tool_str (sortedToolIds canonical)) @ ''], got ['' @
     js_join '', '' (map mcp_tool_str (sortedToolIds (hc_allowed_mcp_tools config))) @ '']''"

text \<open>
  Every tool has a server mapping (\<^const>\<open>tool_mcp_servers\<close> is total), so the check for a
  missing one adds nothing.
\<close>

definition validateAgentMcpToolBinding :: "hierarchy_config \<Rightarrow> string list" where
  "validateAgentMcpToolBinding config =
     (case getAgentMcpToolProfile (hc_agent_id config) of
        None \<Rightarrow> [''No MCP tool profile for agent \"'' @ hc_agent_id config @ ''\"'']
      | Some profile \<Rightarrow>
          (case map_of DESIGN_CANONICAL_TOOLS (hc_agent_id config) of
             None \<Rightarrow> []
           | Some canonical \<Rightarrow>
               if \<not> toolsEqual (hc_allowed_mcp_tools config) canonical
               then [tools_mismatch_error config canonical] else []) @
          concat (map (\<lambda>toolId.
            if toolId \<in> set MCP_TOOL_IDS then []
            else [''Agent \"'' @ hc_agent_id config @ ''\" uses unknown tool \"'' @
                  mcp_tool_str toolId @ ''\"'']) (hc_allowed_mcp_tools config)))"

definition validateRegistryMcpToolBindings ::
  "hierarchy_config list \<Rightarrow> bool \<Rightarrow> string list" where
  "validateRegistryMcpToolBindings configs requireFullCoverage =
     (let registered = map hc_agent_id configs in
      concat (map validateAgentMcpToolBinding configs) @
      (if requireFullCoverage then
         concat (map (\<lambda>agentId.
           if agentId \<in> set registered then []
           else [''MCP profile exists for \"'' @ agentId @ ''\" but agent is not registered''])
           ALL_MAPPED_AGENT_IDS)
       else []))"

lemma toolsEqual_iff: "toolsEqual a b \<longleftrightarrow> mset a = mset b"
proof -
  have "length xs = length ys \<and> list_all (\<lambda>(t, u). t = u) (zip xs ys) \<longleftrightarrow> xs = ys" for xs ys :: "mcp_tool list"
    by (induction xs ys rule: list_induct2') auto
  then have "toolsEqual a b \<longleftrightarrow> sortedToolIds a = sortedToolIds b"
    by (simp add: toolsEqual_def Let_def)
  then show ?thesis
    by (simp add: sortedToolIds_def sort_strings_by_def code_unit_order.sort_eq_iff inj_mcp_tool_str)
qed

lemma mcp_tool_ids_all [simp]: "t \<in> set MCP_TOOL_IDS"
  by (cases t) (simp_all add: MCP_TOOL_IDS_def)

lemma binding_ok_iff:
  "validateAgentMcpToolBinding c = [] \<longleftrightarrow>
     hc_agent_id c \<in> set (map sd_agent_id PROFILE_SEEDS) \<and>
     (\<forall>ts. map_of DESIGN_CANONICAL_TOOLS (hc_agent_id c) = Some ts \<longrightarrow> mset (hc_allowed_mcp_tools c) = mset ts)"
proof (cases "getAgentMcpToolProfile (hc_agent_id c)")
  case None
  then have "hc_agent_id c \<notin> set (map sd_agent_id PROFILE_SEEDS)"
    by (metis profile_exists_iff)
  with None show ?thesis by (simp add: validateAgentMcpToolBinding_def)
next
  case (Some p)
  then have "hc_agent_id c \<in> set (map sd_agent_id PROFILE_SEEDS)"
    by (metis option.distinct(1) profile_exists_iff)
  with Some show ?thesis
    by (auto simp: validateAgentMcpToolBinding_def toolsEqual_iff concat_eq_Nil_conv split: option.splits)
qed

section \<open>Properties of the component\<close>

text \<open>
  A configuration passes the tool check exactly when its agent has a profile and, if the
  design lists tools for it, its allowed tools are those, in any order and as often.
\<close>

theorem tool_binding_exact:
  "validateAgentMcpToolBinding c = [] \<longleftrightarrow>
     hc_agent_id c \<in> set (map sd_agent_id PROFILE_SEEDS) \<and>
     (case map_of DESIGN_CANONICAL_TOOLS (hc_agent_id c) of
        None \<Rightarrow> True
      | Some ts \<Rightarrow> mset (hc_allowed_mcp_tools c) = mset ts)"
  unfolding binding_ok_iff by (cases "map_of DESIGN_CANONICAL_TOOLS (hc_agent_id c)") auto

end
