(* ===== verification/Sub_Agent_Registry.thy ===== *)
theory Sub_Agent_Registry
  imports Hierarchy
begin

text \<open>
  The sub-agent registry, \<^verbatim>\<open>src/registry/subAgentRegistry.ts\<close>: registration of
  one configuration and of a batch, the lookups, and the integrity check. The state is the
  \<^verbatim>\<open>Map\<close> of configurations. Two things from outside are parameters: the schema
  library's \<open>safeParse\<close>, and \<open>lc\<close>, where \<open>lc a b\<close> stands for
  \<open>a.localeCompare(b) <= 0\<close>, the host's collation.
\<close>

datatype sub_error_code =
    DUPLICATE_ID | NOT_FOUND | INVALID_CONFIG | PARENT_NOT_FOUND | CIRCULAR_DEPENDENCY

type_synonym sub_error = "sub_error_code \<times> string"
type_synonym sub_registry = "(string, hierarchy_config) js_map"

section \<open>Registration\<close>

definition register ::
  "('raw \<Rightarrow> schema_issue list + hierarchy_config) \<Rightarrow> 'raw \<Rightarrow> sub_registry \<Rightarrow> sub_error + sub_registry" where
  "register safeParse raw reg =
     (case validateHierarchyConfig safeParse raw of
        Inl errors \<Rightarrow> Inl (INVALID_CONFIG, ''Invalid config: '' @ js_join ''; '' errors)
      | Inr config \<Rightarrow>
          if jm_has reg (hc_agent_id config) then
            Inl (DUPLICATE_ID, ''Duplicate agent ID: '' @ hc_agent_id config)
          else Inr (jm_set reg (hc_agent_id config) config))"

text \<open>The three loops of \<open>registerBatch\<close>: validate all, check all ids, commit all.\<close>

fun validate_batch ::
  "('raw \<Rightarrow> schema_issue list + hierarchy_config) \<Rightarrow> 'raw list \<Rightarrow> sub_error + hierarchy_config list" where
  "validate_batch safeParse [] = Inr []"
| "validate_batch safeParse (raw # raws) =
     (case validateHierarchyConfig safeParse raw of
        Inl errors \<Rightarrow> Inl (INVALID_CONFIG, ''Invalid config in batch: '' @ js_join ''; '' errors)
      | Inr config \<Rightarrow>
          (case validate_batch safeParse raws of
             Inl e \<Rightarrow> Inl e
           | Inr configs \<Rightarrow> Inr (config # configs)))"

fun check_batch :: "sub_registry \<Rightarrow> string list \<Rightarrow> hierarchy_config list \<Rightarrow> sub_error option" where
  "check_batch reg batchIds [] = None"
| "check_batch reg batchIds (config # configs) =
     (if hc_agent_id config \<in> set batchIds then
        Some (DUPLICATE_ID, ''Duplicate agent ID within batch: '' @ hc_agent_id config)
      else if jm_has reg (hc_agent_id config) then
        Some (DUPLICATE_ID, ''Duplicate agent ID: '' @ hc_agent_id config)
      else check_batch reg (hc_agent_id config # batchIds) configs)"

definition registerBatch ::
  "('raw \<Rightarrow> schema_issue list + hierarchy_config) \<Rightarrow> 'raw list \<Rightarrow> sub_registry \<Rightarrow> sub_error + sub_registry" where
  "registerBatch safeParse raws reg =
     (case validate_batch safeParse raws of
        Inl e \<Rightarrow> Inl e
      | Inr validated \<Rightarrow>
          (case check_batch reg [] validated of
             Some e \<Rightarrow> Inl e
           | None \<Rightarrow> Inr (foldl (\<lambda>reg config. jm_set reg (hc_agent_id config) config) reg validated)))"

section \<open>Lookup\<close>

definition sub_get :: "sub_registry \<Rightarrow> string \<Rightarrow> hierarchy_config option" where
  "sub_get reg agentId = jm_get reg agentId"

definition getOrThrow :: "sub_registry \<Rightarrow> string \<Rightarrow> sub_error + hierarchy_config" where
  "getOrThrow reg agentId =
     (case jm_get reg agentId of
        None \<Rightarrow> Inl (NOT_FOUND, ''Agent not found: '' @ agentId)
      | Some config \<Rightarrow> Inr config)"

definition sort_by_agent_id ::
  "(string \<Rightarrow> string \<Rightarrow> bool) \<Rightarrow> hierarchy_config list \<Rightarrow> hierarchy_config list" where
  "sort_by_agent_id lc cs = js_sort (\<lambda>a b. lc (hc_agent_id a) (hc_agent_id b)) cs"

definition getChildrenOf ::
  "(string \<Rightarrow> string \<Rightarrow> bool) \<Rightarrow> sub_registry \<Rightarrow> string \<Rightarrow> hierarchy_config list" where
  "getChildrenOf lc reg parentAgentId =
     sort_by_agent_id lc (filter (\<lambda>c. hc_parent_agent_id c = Some parentAgentId) (jm_values reg))"

fun role_order :: "role_type \<Rightarrow> nat" where
  "role_order Role_ceo = 0"
| "role_order Role_head = 1"
| "role_order Role_specialist = 2"

text \<open>\<open>(roleOrder a - roleOrder b) || a.agentId.localeCompare(b.agentId)\<close>, compared with 0.\<close>

definition by_role_and_id ::
  "(string \<Rightarrow> string \<Rightarrow> bool) \<Rightarrow> role_type \<times> string \<Rightarrow> role_type \<times> string \<Rightarrow> bool" where
  "by_role_and_id lc a b =
     (if role_order (fst a) \<noteq> role_order (fst b) then role_order (fst a) < role_order (fst b)
      else lc (snd a) (snd b))"

definition getByDepartment ::
  "(string \<Rightarrow> string \<Rightarrow> bool) \<Rightarrow> sub_registry \<Rightarrow> string \<Rightarrow> hierarchy_config list" where
  "getByDepartment lc reg departmentName =
     js_sort (\<lambda>a b. by_role_and_id lc (hc_role_type a, hc_agent_id a) (hc_role_type b, hc_agent_id b))
       (filter (\<lambda>c. hc_department_name c = departmentName) (jm_values reg))"

definition getByRole ::
  "(string \<Rightarrow> string \<Rightarrow> bool) \<Rightarrow> sub_registry \<Rightarrow> role_type \<Rightarrow> hierarchy_config list" where
  "getByRole lc reg roleType =
     sort_by_agent_id lc (filter (\<lambda>c. hc_role_type c = roleType) (jm_values reg))"

definition getByMcpTool ::
  "(string \<Rightarrow> string \<Rightarrow> bool) \<Rightarrow> sub_registry \<Rightarrow> mcp_tool \<Rightarrow> hierarchy_config list" where
  "getByMcpTool lc reg toolId =
     sort_by_agent_id lc (filter (\<lambda>c. toolId \<in> set (hc_allowed_mcp_tools c)) (jm_values reg))"

definition listAll ::
  "(string \<Rightarrow> string \<Rightarrow> bool) \<Rightarrow> sub_registry \<Rightarrow> hierarchy_config list" where
  "listAll lc reg = sort_by_agent_id lc (jm_values reg)"

definition sub_size :: "sub_registry \<Rightarrow> nat" where
  "sub_size reg = length reg"

definition sub_clear :: "sub_registry \<Rightarrow> sub_registry" where
  "sub_clear reg = []"

definition sub_has :: "sub_registry \<Rightarrow> string \<Rightarrow> bool" where
  "sub_has reg agentId = jm_has reg agentId"

section \<open>Integrity\<close>

definition config_errors :: "sub_registry \<Rightarrow> hierarchy_config \<Rightarrow> string list" where
  "config_errors reg config =
     (if hc_role_type config = Role_ceo \<and> hc_parent_agent_id config \<noteq> None
      then [''CEO agent \"'' @ hc_agent_id config @ ''\" must not have a parentAgentId''] else []) @
     (if hc_role_type config \<noteq> Role_ceo \<and> hc_parent_agent_id config = None
      then [''Agent \"'' @ hc_agent_id config @ ''\" ('' @ role_type_str (hc_role_type config) @
            '') must have a parentAgentId''] else []) @
     (case hc_parent_agent_id config of
        Some p \<Rightarrow>
          if jm_has reg p then []
          else [''Agent \"'' @ hc_agent_id config @ ''\" references unknown parent \"'' @ p @ ''\"'']
      | None \<Rightarrow> []) @
     concat (map (\<lambda>subId.
       if jm_has reg subId then []
       else [''Agent \"'' @ hc_agent_id config @ ''\" references unknown sub-agent \"'' @ subId @ ''\"''])
       (hc_sub_agent_ids config))"

definition validateIntegrity :: "(string \<Rightarrow> string \<Rightarrow> bool) \<Rightarrow> sub_registry \<Rightarrow> string list" where
  "validateIntegrity lc reg =
     concat (map (config_errors reg) (jm_values reg)) @
     validateRegistryMcpToolBindings (listAll lc reg) False"

section \<open>Registration: one by one and in a batch\<close>

text \<open>Registering one after the other, stopping at the first error.\<close>

fun register_all ::
  "('raw \<Rightarrow> schema_issue list + hierarchy_config) \<Rightarrow> 'raw list \<Rightarrow> sub_registry \<Rightarrow> sub_error + sub_registry" where
  "register_all safeParse [] reg = Inr reg"
| "register_all safeParse (raw # raws) reg =
     (case register safeParse raw reg of
        Inl e \<Rightarrow> Inl e
      | Inr reg' \<Rightarrow> register_all safeParse raws reg')"

lemma validate_one: "validateHierarchyConfig sp raw = Inr c \<longleftrightarrow> sp raw = Inr c"
  by (auto simp: validateHierarchyConfig_def split: sum.splits)

lemma validate_batch_ok: "validate_batch sp raws = Inr cs \<longleftrightarrow> map sp raws = map Inr cs"
proof (induction raws arbitrary: cs)
  case (Cons raw raws)
  show ?case
  proof (cases "sp raw")
    case (Inl e)
    then show ?thesis by (cases cs) (auto simp: validateHierarchyConfig_def)
  next
    case (Inr c)
    with Cons show ?thesis
      by (cases cs; cases "validate_batch sp raws") (auto simp: validateHierarchyConfig_def)
  qed
qed auto

lemma check_batch_ok:
  "check_batch reg ids cs = None \<longleftrightarrow>
   distinct (map hc_agent_id cs) \<and>
   (\<forall>c \<in> set cs. hc_agent_id c \<notin> set ids \<and> \<not> jm_has reg (hc_agent_id c))"
  by (induction cs arbitrary: ids) (auto intro: rev_image_eqI)

lemma register_ok:
  "register sp raw reg = Inr reg' \<longleftrightarrow>
   (\<exists>c. sp raw = Inr c \<and> \<not> jm_has reg (hc_agent_id c) \<and> reg' = jm_set reg (hc_agent_id c) c)"
  by (auto simp: register_def simp flip: validate_one split: sum.splits if_splits)

text \<open>What both ways of registering amount to.\<close>

definition commit :: "sub_registry \<Rightarrow> hierarchy_config list \<Rightarrow> sub_registry" where
  "commit reg cs = foldl (\<lambda>reg c. jm_set reg (hc_agent_id c) c) reg cs"

definition admissible :: "sub_registry \<Rightarrow> hierarchy_config list \<Rightarrow> bool" where
  "admissible reg cs \<longleftrightarrow>
     distinct (map hc_agent_id cs) \<and> (\<forall>c \<in> set cs. \<not> jm_has reg (hc_agent_id c))"

lemma admissible_Cons:
  "admissible reg (c # cs) \<longleftrightarrow>
   \<not> jm_has reg (hc_agent_id c) \<and> admissible (jm_set reg (hc_agent_id c) c) cs"
  by (auto simp: admissible_def jm_has_def intro: rev_image_eqI)

lemma registerBatch_ok:
  "registerBatch sp raws reg = Inr reg' \<longleftrightarrow>
   (\<exists>cs. map sp raws = map Inr cs \<and> admissible reg cs \<and> reg' = commit reg cs)"
proof (cases "validate_batch sp raws")
  case (Inl e)
  then have "\<not> map sp raws = map Inr cs" for cs using validate_batch_ok [of sp raws cs] by simp
  with Inl show ?thesis by (simp add: registerBatch_def)
next
  case (Inr cs)
  then have cs: "map sp raws = map Inr cs" by (simp add: validate_batch_ok)
  then have "map sp raws = map Inr cs' \<longleftrightarrow> cs' = cs" for cs' :: "hierarchy_config list"
    using inj_map_eq_map [of Inr cs cs'] by auto
  with Inr check_batch_ok [of reg "[]" cs] show ?thesis
    by (auto simp: registerBatch_def admissible_def commit_def split: option.splits)
qed

lemma register_all_ok:
  "register_all sp raws reg = Inr reg' \<longleftrightarrow>
   (\<exists>cs. map sp raws = map Inr cs \<and> admissible reg cs \<and> reg' = commit reg cs)"
proof (induction raws arbitrary: reg)
  case Nil
  show ?case by (auto simp: admissible_def commit_def)
next
  case (Cons raw raws)
  show ?case
  proof (cases "sp raw")
    case (Inl e)
    then have "map sp (raw # raws) \<noteq> map Inr cs" for cs by (cases cs) auto
    with Inl show ?thesis
      using register_ok [of sp raw reg] by (cases "register sp raw reg") auto
  next
    case (Inr c)
    then have split: "map sp (raw # raws) = map Inr cs \<longleftrightarrow>
        (\<exists>cs'. cs = c # cs' \<and> map sp raws = map Inr cs')" for cs
      by (cases cs) auto
    have reg: "register sp raw reg =
        (if jm_has reg (hc_agent_id c)
         then Inl (DUPLICATE_ID, ''Duplicate agent ID: '' @ hc_agent_id c)
         else Inr (jm_set reg (hc_agent_id c) c))"
      using Inr by (simp add: register_def validateHierarchyConfig_def)
    show ?thesis
    proof (cases "jm_has reg (hc_agent_id c)")
      case True
      then show ?thesis unfolding split by (auto simp: reg admissible_Cons)
    next
      case False
      then have "register_all sp (raw # raws) reg =
          register_all sp raws (jm_set reg (hc_agent_id c) c)" by (simp add: reg)
      then have "register_all sp (raw # raws) reg = Inr reg' \<longleftrightarrow>
          (\<exists>cs. map sp raws = map Inr cs \<and> admissible reg (c # cs) \<and> reg' = commit reg (c # cs))"
        by (simp add: Cons.IH admissible_Cons commit_def False)
      then show ?thesis unfolding split by metis
    qed
  qed
qed

text \<open>Configurations are kept under their own ids, in order of registration.\<close>

lemma commit_keyed: "keyed_by hc_agent_id reg \<Longrightarrow> keyed_by hc_agent_id (commit reg cs)"
  unfolding commit_def by (induction cs arbitrary: reg) (auto simp: keyed_by_set)

lemma commit_values: "admissible reg cs \<Longrightarrow> jm_values (commit reg cs) = jm_values reg @ cs"
proof (induction cs arbitrary: reg)
  case (Cons c cs)
  then have "\<not> jm_has reg (hc_agent_id c)" "admissible (jm_set reg (hc_agent_id c) c) cs"
    by (simp_all add: admissible_Cons)
  with Cons.IH [of "jm_set reg (hc_agent_id c) c"] show ?case
    by (simp add: jm_values_set_fresh jm_has_def commit_def)
qed (simp add: commit_def)

text \<open>The lookups of a committed batch, from the interface of the store.\<close>

lemma commit_get:
  "admissible reg cs \<Longrightarrow> c \<in> set cs \<Longrightarrow> jm_get (commit reg cs) (hc_agent_id c) = Some c"
  unfolding commit_def admissible_def by (rule jm.get_put_all) auto

lemma commit_get_other:
  "i \<notin> hc_agent_id ` set cs \<Longrightarrow> jm_get (commit reg cs) i = jm_get reg i"
  unfolding commit_def by (rule jm.get_put_all_other)

section \<open>Sorted lookups\<close>

text \<open>Role first, then the id: a collation when the ids' comparison is one.\<close>

lemma by_role_collation:
  assumes "collation lc" shows "collation (by_role_and_id lc)"
proof
  fix x y z
  show "by_role_and_id lc x y \<or> by_role_and_id lc y x"
    using collation.total [OF assms] by (auto simp: by_role_and_id_def)
  show "by_role_and_id lc x y \<Longrightarrow> by_role_and_id lc y z \<Longrightarrow> by_role_and_id lc x z"
    using collation.trans [OF assms] by (auto simp: by_role_and_id_def split: if_splits)
qed


section \<open>What an empty error list means\<close>

definition config_ok :: "sub_registry \<Rightarrow> hierarchy_config \<Rightarrow> bool" where
  "config_ok reg c \<longleftrightarrow>
     (hc_role_type c = Role_ceo \<longleftrightarrow> hc_parent_agent_id c = None) \<and>
     (\<forall>p. hc_parent_agent_id c = Some p \<longrightarrow> jm_has reg p) \<and>
     (\<forall>i \<in> set (hc_sub_agent_ids c). jm_has reg i)"

lemma config_errors_iff: "config_errors reg c = [] \<longleftrightarrow> config_ok reg c"
  by (auto simp: config_errors_def config_ok_def concat_eq_Nil_conv split: option.splits)

lemma validateIntegrity_iff:
  "validateIntegrity lc reg = [] \<longleftrightarrow>
     (\<forall>c \<in> set (jm_values reg). config_ok reg c \<and> validateAgentMcpToolBinding c = [])"
  by (auto simp: validateIntegrity_def validateRegistryMcpToolBindings_def Let_def listAll_def
      sort_by_agent_id_def concat_eq_Nil_conv config_errors_iff)

section \<open>The chain of parents\<close>

text \<open>Following parents for at most \<open>n\<close> steps reaches an agent without one.\<close>

fun reaches_root :: "sub_registry \<Rightarrow> nat \<Rightarrow> string \<Rightarrow> bool" where
  "reaches_root reg 0 i =
     (case jm_get reg i of None \<Rightarrow> False | Some c \<Rightarrow> hc_parent_agent_id c = None)"
| "reaches_root reg (Suc n) i =
     (case jm_get reg i of
        None \<Rightarrow> False
      | Some c \<Rightarrow> (case hc_parent_agent_id c of None \<Rightarrow> True | Some p \<Rightarrow> reaches_root reg n p))"

section \<open>Properties of the component\<close>

definition two_children :: sub_registry where
  "two_children =
     [(''b'', makeSpecialistConfig ''b'' ''head'' ''d'' [] None),
      (''a'', makeSpecialistConfig ''a'' ''head'' ''d'' [] None)]"

text \<open>
  C34: A batch registers exactly when registering its configurations one after the other
  would, and leaves the same registry.
\<close>

theorem batch_is_sequence:
  "registerBatch sp raws reg = Inr reg' \<longleftrightarrow> register_all sp raws reg = Inr reg'"
  unfolding registerBatch_ok register_all_ok ..

text \<open>
  The children of an agent are exactly the registered configurations naming it as parent,
  each once, in the order of the collation of their ids.
\<close>

theorem children_complete_sorted:
  assumes "collation lc" and "keyed_by hc_agent_id reg"
  shows "set (getChildrenOf lc reg p) = {c. jm_get reg (hc_agent_id c) = Some c \<and> hc_parent_agent_id c = Some p} \<and>
    distinct (map hc_agent_id (getChildrenOf lc reg p)) \<and>
    sorted_wrt (\<lambda>a b. lc (hc_agent_id a) (hc_agent_id b)) (getChildrenOf lc reg p)"
proof (intro conjI)
  have "c \<in> set (jm_values reg) \<longleftrightarrow> jm_get reg (hc_agent_id c) = Some c" for c
    using keyed_by_value [OF assms(2)] jm_values_in by metis
  then show "set (getChildrenOf lc reg p) =
      {c. jm_get reg (hc_agent_id c) = Some c \<and> hc_parent_agent_id c = Some p}"
    by (auto simp: getChildrenOf_def sort_by_agent_id_def)
  show "distinct (map hc_agent_id (getChildrenOf lc reg p))"
    using distinct_keyed_values [OF assms(2)]
    by (simp add: getChildrenOf_def sort_by_agent_id_def distinct_map_filter)
  show "sorted_wrt (\<lambda>a b. lc (hc_agent_id a) (hc_agent_id b)) (getChildrenOf lc reg p)"
    unfolding getChildrenOf_def sort_by_agent_id_def by (rule collation.sort_sorted [OF assms(1)])
qed

theorem children_complete_sorted_witness:
  "sorted_wrt (\<lambda>a b. str_le (hc_agent_id a) (hc_agent_id b)) (getChildrenOf str_le two_children ''head'') \<and>
   makeSpecialistConfig ''a'' ''head'' ''d'' [] None \<in> set (getChildrenOf str_le two_children ''head'')"
proof -
  have k: "keyed_by hc_agent_id two_children"
    by (simp add: two_children_def keyed_by_def jm_keys_def makeSpecialistConfig_def)
  show ?thesis
    using children_complete_sorted [OF code_units.collation_axioms k, of "''head''"]
    by (simp add: two_children_def jm_get_def makeSpecialistConfig_def)
qed

end
