(* ===== verification/Company_Hierarchy.thy ===== *)
theory Company_Hierarchy
  imports Sub_Agent_Registry
begin

text \<open>
  The company as the repository configures it, \<^verbatim>\<open>src/agents/subagents/\<close>: one
  configuration per agent, one list per department, and the registration of all of them. The
  lemmas are about the registry this leaves.
\<close>

section \<open>The configured agents\<close>

definition CEO_AGENT_CONFIG :: hierarchy_config where
  "CEO_AGENT_CONFIG =
     \<lparr>hc_agent_id = ''ceo-agent'', hc_role_type = Role_ceo,
      hc_parent_agent_id = None,
      hc_sub_agent_ids = [''ceo-strategy-analyst'', ''ceo-report-summarizer'', ''ceo-decision-logger'', ''ceo-okr-tracker''],
      hc_department_name = ''executive'',
      hc_allowed_mcp_tools = [MT_notion, MT_slack, MT_google_sheets, MT_gmail, MT_google_calendar, MT_anthropic_api],
      hc_role_description = Some (''Orchestrator strategis perusahaan. Menerima arahan dari Owner (Human), memutuskan strategi, mendelegasikan ke Department Heads, memastikan OKR dikejar. CEO tidak mengeksekusi langsung '' @ [CHR 0xE2, CHR 0x80, CHR 0x94] @ '' hanya memutuskan dan mendelegasikan.'')\<rparr>"

definition STRATEGY_ANALYST_CONFIG :: hierarchy_config where
  "STRATEGY_ANALYST_CONFIG = makeSpecialistConfig
     ''ceo-strategy-analyst'' ''ceo-agent'' ''executive''
     [MT_web_search, MT_notion, MT_google_sheets]
     (Some (''Menganalisis data dari semua departemen menjadi insight strategis. Membandingkan performa aktual vs OKR, mengidentifikasi bottleneck, dan menyiapkan rekomendasi untuk CEO.''))"

definition REPORT_SUMMARIZER_CONFIG :: hierarchy_config where
  "REPORT_SUMMARIZER_CONFIG = makeSpecialistConfig
     ''ceo-report-summarizer'' ''ceo-agent'' ''executive''
     [MT_notion, MT_slack, MT_anthropic_api]
     (Some (''Meringkas laporan panjang dari semua departemen menjadi executive summary 2 menit. Output: digest ke CEO inbox dan Gmail weekly digest ke founder.''))"

definition DECISION_LOGGER_CONFIG :: hierarchy_config where
  "DECISION_LOGGER_CONFIG = makeSpecialistConfig
     ''ceo-decision-logger'' ''ceo-agent'' ''executive''
     [MT_notion, MT_google_drive]
     (Some (''Mencatat setiap keputusan strategis CEO ke Notion: konteks, alternatif yang dipertimbangkan, dan outcome yang diharapkan. Berguna sebagai audit trail dan bahan retrospective.''))"

definition OKR_TRACKER_CONFIG :: hierarchy_config where
  "OKR_TRACKER_CONFIG = makeSpecialistConfig
     ''ceo-okr-tracker'' ''ceo-agent'' ''executive''
     [MT_notion, MT_google_sheets, MT_slack]
     (Some (''Monitor progress OKR perusahaan. Menghitung persentase pencapaian tiap Key Result, mengidentifikasi yang at-risk, dan mengirim alert ke department terkait.''))"

definition CEO_DEPARTMENT_CONFIGS :: "hierarchy_config list" where
  "CEO_DEPARTMENT_CONFIGS = [CEO_AGENT_CONFIG, STRATEGY_ANALYST_CONFIG, REPORT_SUMMARIZER_CONFIG, DECISION_LOGGER_CONFIG, OKR_TRACKER_CONFIG]"

definition MARKETING_HEAD_CONFIG :: hierarchy_config where
  "MARKETING_HEAD_CONFIG =
     \<lparr>hc_agent_id = ''marketing-head'', hc_role_type = Role_head,
      hc_parent_agent_id = Some ''ceo-agent'',
      hc_sub_agent_ids = [''marketing-content-creator'', ''marketing-seo-specialist'', ''marketing-campaign-manager'', ''marketing-analytics-reader'', ''marketing-social-scheduler'', ''marketing-trend-watcher''],
      hc_department_name = ''marketing'',
      hc_allowed_mcp_tools = [MT_notion, MT_slack, MT_google_sheets],
      hc_role_description = Some (''Orkestrasi seluruh alur kerja departemen marketing. Menerima target dari CEO Agent, memecah menjadi sub-tasks, dan mendelegasikan ke sub-agen.'')\<rparr>"

definition CONTENT_CREATOR_CONFIG :: hierarchy_config where
  "CONTENT_CREATOR_CONFIG = makeSpecialistConfig
     ''marketing-content-creator'' ''marketing-head'' ''marketing''
     [MT_canva_mcp, MT_notion, MT_google_drive]
     (Some (''Menulis caption media sosial, artikel blog, dan naskah kampanye pemasaran. Input: brief kampanye dari Marketing Head. Output: draf konten yang siap direview SEO Specialist.''))"

definition SEO_SPECIALIST_CONFIG :: hierarchy_config where
  "SEO_SPECIALIST_CONFIG = makeSpecialistConfig
     ''marketing-seo-specialist'' ''marketing-head'' ''marketing''
     [MT_web_search, MT_google_sheets]
     (Some (''Riset kata kunci, audit SEO artikel, dan merumuskan strategi konten organik. Input: draf konten dari Content Creator. Output: konten yang dioptimasi dengan rekomendasi kata kunci.''))"

definition CAMPAIGN_MANAGER_CONFIG :: hierarchy_config where
  "CAMPAIGN_MANAGER_CONFIG = makeSpecialistConfig
     ''marketing-campaign-manager'' ''marketing-head'' ''marketing''
     [MT_whatsapp_api, MT_google_sheets, MT_gmail]
     (Some (''Merancang jadwal kampanye, mengirim WA blast, dan mengelola iklan berbayar. Input: konten final dari SEO Specialist. Output: laporan eksekusi kampanye dan metrik awal.''))"

definition ANALYTICS_READER_CONFIG :: hierarchy_config where
  "ANALYTICS_READER_CONFIG = makeSpecialistConfig
     ''marketing-analytics-reader'' ''marketing-head'' ''marketing''
     [MT_google_sheets, MT_web_search]
     (Some (''Menganalisis performa kampanye mingguan: CTR, konversi, ROI, dan engagement. Output: ringkasan metrik dengan rekomendasi optimasi.''))"

definition SOCIAL_SCHEDULER_CONFIG :: hierarchy_config where
  "SOCIAL_SCHEDULER_CONFIG = makeSpecialistConfig
     ''marketing-social-scheduler'' ''marketing-head'' ''marketing''
     [MT_notion, MT_google_calendar, MT_slack]
     (Some (''Menjadwalkan konten ke kalender editorial dan mengantrekan posting media sosial. Output: jadwal konten terpublikasi di Notion dan Google Calendar.''))"

definition TREND_WATCHER_CONFIG :: hierarchy_config where
  "TREND_WATCHER_CONFIG = makeSpecialistConfig
     ''marketing-trend-watcher'' ''marketing-head'' ''marketing''
     [MT_web_search, MT_slack]
     (Some (''Memantau tren harian di industri, media sosial, dan kompetitor. Output: laporan tren dengan rekomendasi peluang konten viral.''))"

definition MARKETING_DEPARTMENT_CONFIGS :: "hierarchy_config list" where
  "MARKETING_DEPARTMENT_CONFIGS = [MARKETING_HEAD_CONFIG, CONTENT_CREATOR_CONFIG, SEO_SPECIALIST_CONFIG, CAMPAIGN_MANAGER_CONFIG, ANALYTICS_READER_CONFIG, SOCIAL_SCHEDULER_CONFIG, TREND_WATCHER_CONFIG]"

definition SALES_HEAD_CONFIG :: hierarchy_config where
  "SALES_HEAD_CONFIG =
     \<lparr>hc_agent_id = ''sales-head'', hc_role_type = Role_head,
      hc_parent_agent_id = Some ''ceo-agent'',
      hc_sub_agent_ids = [''sales-lead-qualifier'', ''sales-proposal-generator'', ''sales-followup-drafter'', ''sales-pipeline-tracker'', ''sales-competitor-watcher''],
      hc_department_name = ''sales'',
      hc_allowed_mcp_tools = [MT_notion, MT_slack, MT_google_sheets, MT_gmail],
      hc_role_description = Some (''Orkestrasi pipeline penjualan dari lead ke closing.'')\<rparr>"

definition LEAD_QUALIFIER_CONFIG :: hierarchy_config where
  "LEAD_QUALIFIER_CONFIG = makeSpecialistConfig
     ''sales-lead-qualifier'' ''sales-head'' ''sales''
     [MT_web_search, MT_google_sheets, MT_gmail]
     (Some (''Verifikasi kecocokan lead: anggaran (BANT), kebutuhan, authority, timeline. Output: lead score dan rekomendasi tindak lanjut.''))"

definition PROPOSAL_GENERATOR_CONFIG :: hierarchy_config where
  "PROPOSAL_GENERATOR_CONFIG = makeSpecialistConfig
     ''sales-proposal-generator'' ''sales-head'' ''sales''
     [MT_google_sheets, MT_google_drive, MT_notion]
     (Some (''Menyusun draf penawaran komersial dengan kalkulasi harga, scope, dan timeline. Output: proposal siap presentasi.''))"

definition FOLLOWUP_DRAFTER_CONFIG :: hierarchy_config where
  "FOLLOWUP_DRAFTER_CONFIG = makeSpecialistConfig
     ''sales-followup-drafter'' ''sales-head'' ''sales''
     [MT_gmail, MT_slack, MT_anthropic_api]
     (Some (''Membuat draf pesan tindak lanjut, email negosiasi, dan reminder klien. Output: draf email siap kirim.''))"

definition PIPELINE_TRACKER_CONFIG :: hierarchy_config where
  "PIPELINE_TRACKER_CONFIG = makeSpecialistConfig
     ''sales-pipeline-tracker'' ''sales-head'' ''sales''
     [MT_notion, MT_google_sheets]
     (Some (''Memantau pergerakan prospek di setiap tahap sales pipeline. Output: status pipeline dan flag yang stagnan.''))"

definition COMPETITOR_WATCHER_CONFIG :: hierarchy_config where
  "COMPETITOR_WATCHER_CONFIG = makeSpecialistConfig
     ''sales-competitor-watcher'' ''sales-head'' ''sales''
     [MT_web_search, MT_notion]
     (Some (''Menganalisis penawaran, harga, dan kelemahan kompetitor. Output: briefing kompetitif untuk Sales Head.''))"

definition SALES_DEPARTMENT_CONFIGS :: "hierarchy_config list" where
  "SALES_DEPARTMENT_CONFIGS = [SALES_HEAD_CONFIG, LEAD_QUALIFIER_CONFIG, PROPOSAL_GENERATOR_CONFIG, FOLLOWUP_DRAFTER_CONFIG, PIPELINE_TRACKER_CONFIG, COMPETITOR_WATCHER_CONFIG]"

definition PRODUCT_HEAD_CONFIG :: hierarchy_config where
  "PRODUCT_HEAD_CONFIG =
     \<lparr>hc_agent_id = ''product-head'', hc_role_type = Role_head,
      hc_parent_agent_id = Some ''ceo-agent'',
      hc_sub_agent_ids = [''product-user-researcher'', ''product-feature-prioritizer'', ''product-prd-writer'', ''product-roadmap-builder'', ''product-feedback-analyzer''],
      hc_department_name = ''product'',
      hc_allowed_mcp_tools = [MT_notion, MT_slack, MT_google_sheets, MT_figma_mcp],
      hc_role_description = Some (''Sumber kebenaran untuk roadmap produk. Mengorkestrasi riset user, prioritisasi fitur, dan penulisan PRD.'')\<rparr>"

definition USER_RESEARCHER_CONFIG :: hierarchy_config where
  "USER_RESEARCHER_CONFIG = makeSpecialistConfig
     ''product-user-researcher'' ''product-head'' ''product''
     [MT_web_search, MT_google_sheets, MT_notion]
     (Some (''Menganalisis masukan pengguna, pain points, dan ulasan produk. Output: user insight report dengan top pain points.''))"

definition FEATURE_PRIORITIZER_CONFIG :: hierarchy_config where
  "FEATURE_PRIORITIZER_CONFIG = makeSpecialistConfig
     ''product-feature-prioritizer'' ''product-head'' ''product''
     [MT_notion, MT_google_sheets]
     (Some (''Mengevaluasi backlog fitur menggunakan kerangka RICE/ICE. Output: backlog yang diprioritaskan dengan skor.''))"

definition PRD_WRITER_CONFIG :: hierarchy_config where
  "PRD_WRITER_CONFIG = makeSpecialistConfig
     ''product-prd-writer'' ''product-head'' ''product''
     [MT_notion, MT_google_drive, MT_figma_mcp]
     (Some (''Menulis dokumen PRD lengkap: problem statement, user stories, acceptance criteria, referensi desain. Output: PRD siap review Engineering.''))"

definition ROADMAP_BUILDER_CONFIG :: hierarchy_config where
  "ROADMAP_BUILDER_CONFIG = makeSpecialistConfig
     ''product-roadmap-builder'' ''product-head'' ''product''
     [MT_notion, MT_google_sheets, MT_slack]
     (Some (''Menyusun dan memperbarui roadmap produk jangka pendek (sprint) dan panjang (kuartal). Output: roadmap terbarui di Notion.''))"

definition FEEDBACK_ANALYZER_CONFIG :: hierarchy_config where
  "FEEDBACK_ANALYZER_CONFIG = makeSpecialistConfig
     ''product-feedback-analyzer'' ''product-head'' ''product''
     [MT_anthropic_api, MT_google_sheets]
     (Some (''Mengelompokkan tiket komplain dan masukan menjadi tema dan insight produk. Output: cluster feedback dengan frekuensi dan dampak.''))"

definition PRODUCT_DEPARTMENT_CONFIGS :: "hierarchy_config list" where
  "PRODUCT_DEPARTMENT_CONFIGS = [PRODUCT_HEAD_CONFIG, USER_RESEARCHER_CONFIG, FEATURE_PRIORITIZER_CONFIG, PRD_WRITER_CONFIG, ROADMAP_BUILDER_CONFIG, FEEDBACK_ANALYZER_CONFIG]"

definition ENGINEERING_HEAD_CONFIG :: hierarchy_config where
  "ENGINEERING_HEAD_CONFIG =
     \<lparr>hc_agent_id = ''engineering-head'', hc_role_type = Role_head,
      hc_parent_agent_id = Some ''ceo-agent'',
      hc_sub_agent_ids = [''eng-code-reviewer'', ''eng-bug-hunter'', ''eng-docs-writer'', ''eng-infra-monitor'', ''eng-test-generator'', ''eng-pr-summarizer''],
      hc_department_name = ''engineering'',
      hc_allowed_mcp_tools = [MT_github, MT_slack, MT_notion, MT_bash_tool],
      hc_role_description = Some (''Memimpin seluruh alur kerja engineering: review kode, bug tracking, dokumentasi, dan infra monitoring.'')\<rparr>"

definition CODE_REVIEWER_CONFIG :: hierarchy_config where
  "CODE_REVIEWER_CONFIG = makeSpecialistConfig
     ''eng-code-reviewer'' ''engineering-head'' ''engineering''
     [MT_github, MT_bash_tool]
     (Some (''Meninjau pull request: kualitas kode, keamanan, performa, dan kepatuhan standar. Output: review report dengan skor dan rekomendasi.''))"

definition BUG_HUNTER_CONFIG :: hierarchy_config where
  "BUG_HUNTER_CONFIG = makeSpecialistConfig
     ''eng-bug-hunter'' ''engineering-head'' ''engineering''
     [MT_github, MT_bash_tool, MT_web_search]
     (Some (''Menganalisis laporan bug, stack trace, dan log sistem untuk mengidentifikasi root cause. Output: bug report terstruktur dengan reproduction steps dan fix recommendation.''))"

definition DOCS_WRITER_CONFIG :: hierarchy_config where
  "DOCS_WRITER_CONFIG = makeSpecialistConfig
     ''eng-docs-writer'' ''engineering-head'' ''engineering''
     [MT_notion, MT_github, MT_google_drive]
     (Some (''Menyusun dokumentasi teknis: API docs, arsitektur, setup guide, dan changelog. Output: dokumentasi di Notion dan GitHub.''))"

definition INFRA_MONITOR_CONFIG :: hierarchy_config where
  "INFRA_MONITOR_CONFIG = makeSpecialistConfig
     ''eng-infra-monitor'' ''engineering-head'' ''engineering''
     [MT_slack, MT_github, MT_bash_tool]
     (Some (''Memantau metrik server, uptime, penggunaan cloud, dan alert. Output: status report dan alert ke channel Slack.''))"

definition TEST_GENERATOR_CONFIG :: hierarchy_config where
  "TEST_GENERATOR_CONFIG = makeSpecialistConfig
     ''eng-test-generator'' ''engineering-head'' ''engineering''
     [MT_github, MT_bash_tool, MT_anthropic_api]
     (Some (''Membuat unit test, integration test, dan skenario pengujian otomatis. Output: file test siap di-merge ke repositori.''))"

definition PR_SUMMARIZER_CONFIG :: hierarchy_config where
  "PR_SUMMARIZER_CONFIG = makeSpecialistConfig
     ''eng-pr-summarizer'' ''engineering-head'' ''engineering''
     [MT_github, MT_notion, MT_slack]
     (Some (''Membuat ringkasan perubahan kode untuk release notes dan komunikasi tim. Output: changelog dan summary PR di Notion.''))"

definition ENGINEERING_DEPARTMENT_CONFIGS :: "hierarchy_config list" where
  "ENGINEERING_DEPARTMENT_CONFIGS = [ENGINEERING_HEAD_CONFIG, CODE_REVIEWER_CONFIG, BUG_HUNTER_CONFIG, DOCS_WRITER_CONFIG, INFRA_MONITOR_CONFIG, TEST_GENERATOR_CONFIG, PR_SUMMARIZER_CONFIG]"

definition PM_HEAD_CONFIG :: hierarchy_config where
  "PM_HEAD_CONFIG =
     \<lparr>hc_agent_id = ''pm-head'', hc_role_type = Role_head,
      hc_parent_agent_id = Some ''ceo-agent'',
      hc_sub_agent_ids = [''pm-task-coordinator'', ''pm-risk-analyzer'', ''pm-sprint-planner'', ''pm-progress-reporter'', ''pm-deadline-watcher''],
      hc_department_name = ''project-manager'',
      hc_allowed_mcp_tools = [MT_notion, MT_slack, MT_google_calendar, MT_github, MT_google_sheets],
      hc_role_description = Some (''Pusat koordinasi seluruh task perusahaan. Semua task harus tercatat di sini.'')\<rparr>"

definition TASK_COORDINATOR_CONFIG :: hierarchy_config where
  "TASK_COORDINATOR_CONFIG = makeSpecialistConfig
     ''pm-task-coordinator'' ''pm-head'' ''project-manager''
     [MT_notion, MT_slack, MT_github]
     (Some (''Mengalokasikan task ke departemen dan melacak tiket. Output: task assignment terdokumentasi di Notion.''))"

definition RISK_ANALYZER_CONFIG :: hierarchy_config where
  "RISK_ANALYZER_CONFIG = makeSpecialistConfig
     ''pm-risk-analyzer'' ''pm-head'' ''project-manager''
     [MT_github, MT_notion, MT_slack]
     (Some (''Mengidentifikasi potensi blocker dan risiko sprint. Output: risk register dengan mitigasi plan.''))"

definition SPRINT_PLANNER_CONFIG :: hierarchy_config where
  "SPRINT_PLANNER_CONFIG = makeSpecialistConfig
     ''pm-sprint-planner'' ''pm-head'' ''project-manager''
     [MT_notion, MT_google_calendar, MT_google_sheets]
     (Some (''Menyusun cakupan sprint dan alokasi kapasitas tim. Output: sprint plan di Notion dengan estimasi kapasitas.''))"

definition PROGRESS_REPORTER_CONFIG :: hierarchy_config where
  "PROGRESS_REPORTER_CONFIG = makeSpecialistConfig
     ''pm-progress-reporter'' ''pm-head'' ''project-manager''
     [MT_notion, MT_slack, MT_gmail]
     (Some (''Menyusun laporan kemajuan proyek mingguan untuk CEO. Output: laporan progress di Notion + digest ke CEO via Slack.''))"

definition DEADLINE_WATCHER_CONFIG :: hierarchy_config where
  "DEADLINE_WATCHER_CONFIG = makeSpecialistConfig
     ''pm-deadline-watcher'' ''pm-head'' ''project-manager''
     [MT_slack, MT_google_calendar, MT_notion]
     (Some (''Memantau tenggat waktu dan mengirim reminder otomatis ke department terkait. Output: alert Slack + update Google Calendar.''))"

definition PM_DEPARTMENT_CONFIGS :: "hierarchy_config list" where
  "PM_DEPARTMENT_CONFIGS = [PM_HEAD_CONFIG, TASK_COORDINATOR_CONFIG, RISK_ANALYZER_CONFIG, SPRINT_PLANNER_CONFIG, PROGRESS_REPORTER_CONFIG, DEADLINE_WATCHER_CONFIG]"

definition SUPPORT_HEAD_CONFIG :: hierarchy_config where
  "SUPPORT_HEAD_CONFIG =
     \<lparr>hc_agent_id = ''support-head'', hc_role_type = Role_head,
      hc_parent_agent_id = Some ''ceo-agent'',
      hc_sub_agent_ids = [''support-ticket-classifier'', ''support-faq-responder'', ''support-escalation-router'', ''support-csat-analyzer'', ''support-knowledge-builder'', ''support-wa-bot-handler''],
      hc_department_name = ''support'',
      hc_allowed_mcp_tools = [MT_notion, MT_slack, MT_gmail, MT_whatsapp_api, MT_google_sheets],
      hc_role_description = Some (''Satu-satunya departemen yang berkomunikasi langsung dengan user akhir. Mengelola tiket, FAQ, eskalasi, dan CSAT.'')\<rparr>"

definition TICKET_CLASSIFIER_CONFIG :: hierarchy_config where
  "TICKET_CLASSIFIER_CONFIG = makeSpecialistConfig
     ''support-ticket-classifier'' ''support-head'' ''support''
     [MT_notion, MT_google_sheets, MT_gmail]
     (Some (''Mengklasifikasikan tiket masuk: kategori (bug/pertanyaan/feature request), prioritas (low/medium/high/critical), dan departemen tujuan.''))"

definition FAQ_RESPONDER_CONFIG :: hierarchy_config where
  "FAQ_RESPONDER_CONFIG = makeSpecialistConfig
     ''support-faq-responder'' ''support-head'' ''support''
     [MT_notion, MT_whatsapp_api, MT_gmail]
     (Some (''Menjawab pertanyaan umum berdasarkan knowledge base. Output: respons template dan link ke dokumentasi.''))"

definition ESCALATION_ROUTER_CONFIG :: hierarchy_config where
  "ESCALATION_ROUTER_CONFIG = makeSpecialistConfig
     ''support-escalation-router'' ''support-head'' ''support''
     [MT_slack, MT_github, MT_gmail]
     (Some (''Meneruskan masalah kritis ke Engineering (bug) atau PM (blocker project). Output: eskalasi tercatat dengan severity dan assigned agent.''))"

definition CSAT_ANALYZER_CONFIG :: hierarchy_config where
  "CSAT_ANALYZER_CONFIG = makeSpecialistConfig
     ''support-csat-analyzer'' ''support-head'' ''support''
     [MT_google_sheets, MT_notion, MT_anthropic_api]
     (Some (''Menganalisis kepuasan pelanggan dari survey dan feedback. Output: CSAT score, trend, dan rekomendasi perbaikan.''))"

definition KNOWLEDGE_BUILDER_CONFIG :: hierarchy_config where
  "KNOWLEDGE_BUILDER_CONFIG = makeSpecialistConfig
     ''support-knowledge-builder'' ''support-head'' ''support''
     [MT_notion, MT_google_drive]
     (Some (''Memperbarui artikel knowledge base dari tiket yang sudah diselesaikan. Output: artikel FAQ baru atau update di Notion.''))"

definition WA_BOT_HANDLER_CONFIG :: hierarchy_config where
  "WA_BOT_HANDLER_CONFIG = makeSpecialistConfig
     ''support-wa-bot-handler'' ''support-head'' ''support''
     [MT_whatsapp_api, MT_notion]
     (Some (''Mengelola alur otomatisasi chatbot WhatsApp: greeting, triage, dan handoff ke agen manusia. Output: alur bot tereksekusi dan riwayat percakapan tersimpan.''))"

definition SUPPORT_DEPARTMENT_CONFIGS :: "hierarchy_config list" where
  "SUPPORT_DEPARTMENT_CONFIGS = [SUPPORT_HEAD_CONFIG, TICKET_CLASSIFIER_CONFIG, FAQ_RESPONDER_CONFIG, ESCALATION_ROUTER_CONFIG, CSAT_ANALYZER_CONFIG, KNOWLEDGE_BUILDER_CONFIG, WA_BOT_HANDLER_CONFIG]"

section \<open>Registering the departments\<close>

definition registerCEODepartment ::
  "(hierarchy_config \<Rightarrow> schema_issue list + hierarchy_config) \<Rightarrow> sub_registry \<Rightarrow> sub_error + sub_registry" where
  "registerCEODepartment sp reg = registerBatch sp CEO_DEPARTMENT_CONFIGS reg"

definition registerMarketingDepartment ::
  "(hierarchy_config \<Rightarrow> schema_issue list + hierarchy_config) \<Rightarrow> sub_registry \<Rightarrow> sub_error + sub_registry" where
  "registerMarketingDepartment sp reg = registerBatch sp MARKETING_DEPARTMENT_CONFIGS reg"

definition registerSalesDepartment ::
  "(hierarchy_config \<Rightarrow> schema_issue list + hierarchy_config) \<Rightarrow> sub_registry \<Rightarrow> sub_error + sub_registry" where
  "registerSalesDepartment sp reg = registerBatch sp SALES_DEPARTMENT_CONFIGS reg"

definition registerProductDepartment ::
  "(hierarchy_config \<Rightarrow> schema_issue list + hierarchy_config) \<Rightarrow> sub_registry \<Rightarrow> sub_error + sub_registry" where
  "registerProductDepartment sp reg = registerBatch sp PRODUCT_DEPARTMENT_CONFIGS reg"

definition registerEngineeringDepartment ::
  "(hierarchy_config \<Rightarrow> schema_issue list + hierarchy_config) \<Rightarrow> sub_registry \<Rightarrow> sub_error + sub_registry" where
  "registerEngineeringDepartment sp reg = registerBatch sp ENGINEERING_DEPARTMENT_CONFIGS reg"

definition registerPMDepartment ::
  "(hierarchy_config \<Rightarrow> schema_issue list + hierarchy_config) \<Rightarrow> sub_registry \<Rightarrow> sub_error + sub_registry" where
  "registerPMDepartment sp reg = registerBatch sp PM_DEPARTMENT_CONFIGS reg"

definition registerSupportDepartment ::
  "(hierarchy_config \<Rightarrow> schema_issue list + hierarchy_config) \<Rightarrow> sub_registry \<Rightarrow> sub_error + sub_registry" where
  "registerSupportDepartment sp reg = registerBatch sp SUPPORT_DEPARTMENT_CONFIGS reg"

text \<open>Calls in a row on the same registry; the first one that throws ends the sequence.\<close>

fun call_in_turn :: "('s \<Rightarrow> 'e + 's) list \<Rightarrow> 's \<Rightarrow> 'e + 's" where
  "call_in_turn [] s = Inr s"
| "call_in_turn (f # fs) s = (case f s of Inl e \<Rightarrow> Inl e | Inr s' \<Rightarrow> call_in_turn fs s')"

definition registerAllSubAgentDepartments ::
  "(hierarchy_config \<Rightarrow> schema_issue list + hierarchy_config) \<Rightarrow> sub_registry \<Rightarrow> sub_error + sub_registry" where
  "registerAllSubAgentDepartments sp registry =
     call_in_turn
       [registerCEODepartment sp,
        registerMarketingDepartment sp,
        registerSalesDepartment sp,
        registerProductDepartment sp,
        registerEngineeringDepartment sp,
        registerPMDepartment sp,
        registerSupportDepartment sp]
       registry"

section \<open>What the registration leaves\<close>

lemmas department_lists =
  CEO_DEPARTMENT_CONFIGS_def MARKETING_DEPARTMENT_CONFIGS_def SALES_DEPARTMENT_CONFIGS_def
  PRODUCT_DEPARTMENT_CONFIGS_def ENGINEERING_DEPARTMENT_CONFIGS_def PM_DEPARTMENT_CONFIGS_def
  SUPPORT_DEPARTMENT_CONFIGS_def

definition company_departments :: "hierarchy_config list list" where
  "company_departments =
     [CEO_DEPARTMENT_CONFIGS, MARKETING_DEPARTMENT_CONFIGS, SALES_DEPARTMENT_CONFIGS,
      PRODUCT_DEPARTMENT_CONFIGS, ENGINEERING_DEPARTMENT_CONFIGS, PM_DEPARTMENT_CONFIGS,
      SUPPORT_DEPARTMENT_CONFIGS]"

definition company :: "hierarchy_config list" where
  "company = concat company_departments"

text \<open>A parser that returns the configurations the schema accepts as they are.\<close>

definition parse_typed :: "hierarchy_config \<Rightarrow> schema_issue list + hierarchy_config" where
  "parse_typed c = (if schema_accepts c then Inr c else Inl [([], ''invalid'')])"

lemma registerBatch_typed:
  assumes "\<And>c. c \<in> set cs \<Longrightarrow> sp c = Inr c" and "admissible reg cs"
  shows "registerBatch sp cs reg = Inr (commit reg cs)"
proof -
  have "map sp cs = map Inr cs" using assms(1) by simp
  with assms(2) show ?thesis unfolding registerBatch_ok by blast
qed

lemma commit_append: "commit reg (cs @ ds) = commit (commit reg cs) ds"
  by (simp add: commit_def)

lemma commit_Cons: "commit reg (c # cs) = commit (jm_set reg (hc_agent_id c) c) cs"
  by (simp add: commit_def)

lemma admissible_append:
  "admissible reg (cs @ ds) \<longleftrightarrow> admissible reg cs \<and> admissible (commit reg cs) ds"
proof (induction cs arbitrary: reg)
  case Nil
  show ?case by (simp add: admissible_def commit_def)
next
  case (Cons c cs)
  show ?case by (simp add: admissible_Cons commit_Cons Cons.IH)
qed

lemma register_departments_ok:
  "(\<And>c. c \<in> set (concat css) \<Longrightarrow> sp c = Inr c) \<Longrightarrow> admissible reg (concat css) \<Longrightarrow>
   call_in_turn (map (registerBatch sp) css) reg = Inr (commit reg (concat css))"
proof (induction css arbitrary: reg)
  case Nil
  show ?case by (simp add: commit_def)
next
  case (Cons cs css)
  have "registerBatch sp cs reg = Inr (commit reg cs)"
    using Cons.prems by (intro registerBatch_typed) (auto simp: admissible_append)
  with Cons show ?case by (simp add: admissible_append commit_append)
qed

lemma register_company:
  "registerAllSubAgentDepartments sp reg = call_in_turn (map (registerBatch sp) company_departments) reg"
  by (simp add: registerAllSubAgentDepartments_def company_departments_def
      registerCEODepartment_def [abs_def] registerMarketingDepartment_def [abs_def]
      registerSalesDepartment_def [abs_def] registerProductDepartment_def [abs_def]
      registerEngineeringDepartment_def [abs_def] registerPMDepartment_def [abs_def]
      registerSupportDepartment_def [abs_def])

lemma company_ids_distinct: "distinct (map hc_agent_id company)"
  by code_simp

lemma company_schema: "list_all schema_accepts company"
  by code_simp

lemma company_profiles: "list_all (\<lambda>c. hc_agent_id c \<in> set (map sd_agent_id PROFILE_SEEDS)) company"
  by code_simp

lemma company_tools:
  "list_all (\<lambda>c. case map_of DESIGN_CANONICAL_TOOLS (hc_agent_id c) of
      None \<Rightarrow> True | Some ts \<Rightarrow> hc_allowed_mcp_tools c = ts) company"
  by code_simp

definition links_ok :: "string list \<Rightarrow> hierarchy_config \<Rightarrow> bool" where
  "links_ok ids c \<longleftrightarrow>
     (hc_role_type c = Role_ceo \<longleftrightarrow> hc_parent_agent_id c = None) \<and>
     (case hc_parent_agent_id c of None \<Rightarrow> True | Some p \<Rightarrow> p \<in> set ids) \<and>
     list_all (\<lambda>i. i \<in> set ids) (hc_sub_agent_ids c)"

lemma company_links: "list_all (links_ok (map hc_agent_id company)) company"
  by code_simp

text \<open>Following the parents in the list itself.\<close>

fun climbs :: "hierarchy_config list \<Rightarrow> nat \<Rightarrow> hierarchy_config \<Rightarrow> bool" where
  "climbs cs 0 c = (case hc_parent_agent_id c of None \<Rightarrow> True | Some p \<Rightarrow> False)"
| "climbs cs (Suc n) c =
     (case hc_parent_agent_id c of None \<Rightarrow> True
      | Some p \<Rightarrow> (case find (\<lambda>d. hc_agent_id d = p) cs of None \<Rightarrow> False | Some d \<Rightarrow> climbs cs n d))"

lemma company_climbs: "list_all (climbs company 2) company"
  by code_simp

lemma climbs_reaches:
  "admissible [] cs \<Longrightarrow> c \<in> set cs \<Longrightarrow> climbs cs n c \<Longrightarrow> reaches_root (commit [] cs) n (hc_agent_id c)"
  by (induction n arbitrary: c) (auto simp: commit_get find_Some_iff split: option.splits)

lemma company_covers: "list_all (\<lambda>i. i \<in> set (map hc_agent_id company)) (map sd_agent_id PROFILE_SEEDS)"
  by code_simp

text \<open>Every head and the chief executive list exactly the specialists below them.\<close>

lemma company_children:
  "list_all (\<lambda>c. hc_role_type c = Role_specialist \<or>
     set (hc_sub_agent_ids c) =
     set (map hc_agent_id (filter (\<lambda>d. hc_role_type d = Role_specialist \<and>
       hc_parent_agent_id d = Some (hc_agent_id c)) company))) company"
  by code_simp

lemma company_admissible: "admissible [] company"
  using company_ids_distinct by (simp add: admissible_def jm_has_def)

lemma company_keys: "jm_keys (commit [] company) = map hc_agent_id company"
  unfolding commit_def using company_ids_distinct
  by (subst jm.keys_put_all) (simp_all add: jm_keys_def)

lemma company_has: "jm_has (commit [] company) i \<longleftrightarrow> i \<in> set (map hc_agent_id company)"
  by (simp add: jm_has_iff company_keys)

lemma company_values: "jm_values (commit [] company) = company"
  using commit_values [OF company_admissible] by (simp add: jm_values_def)

lemma company_binding: "c \<in> set company \<Longrightarrow> validateAgentMcpToolBinding c = []"
  using company_profiles company_tools
  by (fastforce simp: binding_ok_iff list_all_iff split: option.splits)

lemma links_config_ok:
  "links_ok (map hc_agent_id company) c \<Longrightarrow> config_ok (commit [] company) c"
  by (auto simp: links_ok_def config_ok_def company_has list_all_iff split: option.splits)

lemma company_integrity: "validateIntegrity lc (commit [] company) = []"
  unfolding validateIntegrity_iff company_values
  using company_links by (auto simp: list_all_iff company_binding intro: links_config_ok)

lemma company_registered:
  "(\<And>c. schema_accepts c \<Longrightarrow> sp c = Inr c) \<Longrightarrow>
   registerAllSubAgentDepartments sp [] = Inr (commit [] company)"
  unfolding register_company company_def
  using company_schema company_admissible
  by (intro register_departments_ok) (auto simp: company_def list_all_iff)

lemma company_reaches: "c \<in> set company \<Longrightarrow> reaches_root (commit [] company) 2 (hc_agent_id c)"
  using company_climbs company_admissible by (auto simp: list_all_iff intro: climbs_reaches)

section \<open>Properties of the component\<close>

text \<open>Two specialists of the company, each made the other's parent.\<close>

definition cyclic_pair :: "hierarchy_config list" where
  "cyclic_pair =
     [STRATEGY_ANALYST_CONFIG\<lparr>hc_parent_agent_id := Some ''ceo-report-summarizer''\<rparr>,
      REPORT_SUMMARIZER_CONFIG\<lparr>hc_parent_agent_id := Some ''ceo-strategy-analyst''\<rparr>]"

lemma cyclic_ids: "map hc_agent_id cyclic_pair = [''ceo-strategy-analyst'', ''ceo-report-summarizer'']"
  by (simp add: cyclic_pair_def STRATEGY_ANALYST_CONFIG_def REPORT_SUMMARIZER_CONFIG_def makeSpecialistConfig_def)

lemma cyclic_schema: "list_all schema_accepts cyclic_pair"
  by code_simp

lemma cyclic_links: "list_all (links_ok (map hc_agent_id cyclic_pair)) cyclic_pair"
  by code_simp

lemma cyclic_admissible: "admissible [] cyclic_pair"
  by (simp add: admissible_def cyclic_ids jm_has_def)

lemma cyclic_registered: "registerBatch parse_typed cyclic_pair [] = Inr (commit [] cyclic_pair)"
  using cyclic_schema cyclic_admissible by (intro registerBatch_typed) (auto simp: parse_typed_def list_all_iff)

lemma cyclic_has: "jm_has (commit [] cyclic_pair) i \<longleftrightarrow> i \<in> set (map hc_agent_id cyclic_pair)"
proof -
  have "jm_keys (commit [] cyclic_pair) = map hc_agent_id cyclic_pair"
    unfolding commit_def using cyclic_admissible
    by (subst jm.keys_put_all) (simp_all add: jm_keys_def admissible_def)
  then show ?thesis by (simp add: jm_has_iff)
qed

text \<open>The tool check reads the id and the tools only, which are those of the company's agents.\<close>

lemma cyclic_binding: "c \<in> set cyclic_pair \<Longrightarrow> validateAgentMcpToolBinding c = []"
proof -
  have "STRATEGY_ANALYST_CONFIG \<in> set company" "REPORT_SUMMARIZER_CONFIG \<in> set company"
    by (simp_all add: company_def company_departments_def CEO_DEPARTMENT_CONFIGS_def)
  then have "validateAgentMcpToolBinding STRATEGY_ANALYST_CONFIG = []"
    "validateAgentMcpToolBinding REPORT_SUMMARIZER_CONFIG = []" by (simp_all only: company_binding)
  then show "c \<in> set cyclic_pair \<Longrightarrow> validateAgentMcpToolBinding c = []"
    by (auto simp: cyclic_pair_def binding_ok_iff)
qed

lemma cyclic_integrity: "validateIntegrity lc (commit [] cyclic_pair) = []"
proof -
  have "config_ok (commit [] cyclic_pair) c" if "c \<in> set cyclic_pair" for c
    using cyclic_links that
    by (auto simp: links_ok_def config_ok_def cyclic_has list_all_iff split: option.splits)
  then show ?thesis
    using commit_values [OF cyclic_admissible] cyclic_binding
    by (simp add: validateIntegrity_iff jm_values_def)
qed

lemma cyclic_parents:
  "jm_get (commit [] cyclic_pair) ''ceo-strategy-analyst'' =
     Some (STRATEGY_ANALYST_CONFIG\<lparr>hc_parent_agent_id := Some ''ceo-report-summarizer''\<rparr>)"
  "jm_get (commit [] cyclic_pair) ''ceo-report-summarizer'' =
     Some (REPORT_SUMMARIZER_CONFIG\<lparr>hc_parent_agent_id := Some ''ceo-strategy-analyst''\<rparr>)"
  by (simp_all add: commit_def jm_get_def cyclic_pair_def STRATEGY_ANALYST_CONFIG_def REPORT_SUMMARIZER_CONFIG_def
      makeSpecialistConfig_def)

lemma cyclic_never_root:
  "\<not> reaches_root (commit [] cyclic_pair) n ''ceo-strategy-analyst'' \<and>
   \<not> reaches_root (commit [] cyclic_pair) n ''ceo-report-summarizer''"
  by (induction n) (simp_all add: cyclic_parents)

text \<open>
  With a schema library that passes what the schema accepts, the seven departments register
  without error; the registry then holds every configuration in order, the integrity check
  finds nothing, every design profile belongs to a registered agent, and every agent reaches
  an agent without parent in two steps.
\<close>

theorem company_valid:
  assumes "\<And>c. schema_accepts c \<Longrightarrow> sp c = Inr c"
  shows "\<exists>reg. registerAllSubAgentDepartments sp [] = Inr reg \<and>
    jm_values reg = concat [CEO_DEPARTMENT_CONFIGS, MARKETING_DEPARTMENT_CONFIGS, SALES_DEPARTMENT_CONFIGS,
      PRODUCT_DEPARTMENT_CONFIGS, ENGINEERING_DEPARTMENT_CONFIGS, PM_DEPARTMENT_CONFIGS, SUPPORT_DEPARTMENT_CONFIGS] \<and>
    validateIntegrity lc reg = [] \<and>
    list_all (\<lambda>i. sub_has reg i) (map sd_agent_id PROFILE_SEEDS) \<and>
    list_all (\<lambda>c. reaches_root reg 2 (hc_agent_id c)) (jm_values reg)"
proof (intro exI conjI)
  show "registerAllSubAgentDepartments sp [] = Inr (commit [] company)" using assms by (rule company_registered)
  show "jm_values (commit [] company) = concat [CEO_DEPARTMENT_CONFIGS, MARKETING_DEPARTMENT_CONFIGS,
      SALES_DEPARTMENT_CONFIGS, PRODUCT_DEPARTMENT_CONFIGS, ENGINEERING_DEPARTMENT_CONFIGS,
      PM_DEPARTMENT_CONFIGS, SUPPORT_DEPARTMENT_CONFIGS]"
    by (rule trans [OF company_values]) (simp only: company_def company_departments_def)
  show "validateIntegrity lc (commit [] company) = []" by (rule company_integrity)
  show "list_all (\<lambda>i. sub_has (commit [] company) i) (map sd_agent_id PROFILE_SEEDS)"
    using company_covers by (simp only: sub_has_def company_has)
  show "list_all (\<lambda>c. reaches_root (commit [] company) 2 (hc_agent_id c)) (jm_values (commit [] company))"
    by (auto simp: list_all_iff company_values company_reaches)
qed

theorem company_valid_witness:
  "\<exists>reg. registerAllSubAgentDepartments parse_typed [] = Inr reg \<and> validateIntegrity str_le reg = []"
proof -
  have "\<And>c. schema_accepts c \<Longrightarrow> parse_typed c = Inr c" by (simp add: parse_typed_def)
  from company_valid [of parse_typed str_le, OF this] show ?thesis by blast
qed

text \<open>
  The integrity check does not look along chains of parents: two specialists that are each
  other's parent register, pass it, and reach no root in any number of steps.
\<close>

theorem integrity_accepts_cycle:
  "\<exists>reg. registerBatch parse_typed cyclic_pair [] = Inr reg \<and> validateIntegrity lc reg = [] \<and>
     (\<forall>n. \<not> reaches_root reg n ''ceo-strategy-analyst'' \<and> \<not> reaches_root reg n ''ceo-report-summarizer'')"
  using cyclic_registered cyclic_integrity cyclic_never_root by blast

end
