(* ===== verification/Queue_Model.thy ===== *)
theory Queue_Model
  imports Domain_Types JS_Collections JS_Date
begin

text \<open>
  The data of the runtime job queue, \<^verbatim>\<open>src/runtime-app/queue/models.ts\<close>, and its
  storage, \<^verbatim>\<open>src/runtime-app/queue/repository.ts\<close>: the repository interface as a
  record of operations on a state of its own type, the in-memory repository, and the laws the
  queue relies on as a locale, interpreted on the in-memory repository. The host's collation
  (\<^verbatim>\<open>localeCompare\<close>) is the parameter \<open>lc\<close>.
\<close>

section \<open>Jobs\<close>

datatype job_kind =
    Message_dispatch | Handoff_retry | Approval_followup | Sla_scan | Heartbeat_scan | Report_generate

fun job_kind_str :: "job_kind \<Rightarrow> string" where
  "job_kind_str Message_dispatch = ''message_dispatch''"
| "job_kind_str Handoff_retry = ''handoff_retry''"
| "job_kind_str Approval_followup = ''approval_followup''"
| "job_kind_str Sla_scan = ''sla_scan''"
| "job_kind_str Heartbeat_scan = ''heartbeat_scan''"
| "job_kind_str Report_generate = ''report_generate''"

definition RUNTIME_JOB_KINDS :: "job_kind list" where
  "RUNTIME_JOB_KINDS =
     [Message_dispatch, Handoff_retry, Approval_followup, Sla_scan, Heartbeat_scan, Report_generate]"

datatype job_status = Queued | Running | Completed | Failed | Retrying | Dead_lettered

datatype retry_strategy = Fixed | Exponential

record retry_policy =
  rp_max_attempts :: int
  rp_base_delay_ms :: int
  rp_max_delay_ms :: int
  rp_strategy :: retry_strategy

datatype attempt_reason = Timeout | Manual_retry | Recovery

datatype sla_scope = Global_scope | Project_scope

datatype report_type = Daily | Weekly | Project_report | Agent_report | Kpi

datatype job_payload =
    P_message_dispatch agent_message "string option"
  | P_handoff_retry string string attempt_reason
  | P_approval_followup string "string option" string "int option"
  | P_sla_scan sla_scope "string option"
  | P_heartbeat_scan int
  | P_report_generate report_type "string option" "string option" "string option"

record job_metadata =
  md_correlation_id :: "string option"
  md_created_by :: "string option"
  md_project_id :: "string option"
  md_worker_notes :: "string list option"

record runtime_job =
  job_id :: string
  job_kind :: job_kind
  job_status :: job_status
  job_payload :: job_payload
  job_metadata :: job_metadata
  job_attempts :: int
  job_max_attempts :: int
  job_created_at :: string
  job_updated_at :: string
  job_available_at :: string
  job_started_at :: "string option"
  job_completed_at :: "string option"
  job_failed_at :: "string option"
  job_last_error :: "string option"
  job_claimed_by :: "string option"
  job_heartbeat_at :: "string option"
  job_retry_at :: "string option"

record queue_metrics =
  qm_total :: nat
  qm_queued :: nat
  qm_running :: nat
  qm_retrying :: nat
  qm_completed :: nat
  qm_failed :: nat
  qm_dead_lettered :: nat
  qm_depth :: "job_kind \<Rightarrow> nat"

datatype worker_status = WS_idle | WS_busy | WS_offline | WS_error | WS_recovering

record worker_snapshot =
  wk_id :: string
  wk_status :: worker_status
  wk_last_heartbeat_at :: string
  wk_current_job_id :: "string option"
  wk_processed :: nat
  wk_failed :: nat
  wk_last_error :: "string option"

record observability_snapshot =
  ob_generated_at :: string
  ob_metrics :: queue_metrics
  ob_workers :: "worker_snapshot list"
  ob_stale_workers :: "string list"
  ob_failed_job_ids :: "string list"

record job_input =
  ji_job_id :: string
  ji_kind :: job_kind
  ji_payload :: job_payload
  ji_metadata :: "job_metadata option"
  ji_available_at :: "string option"
  ji_max_attempts :: "int option"

definition DEFAULT_RETRY_POLICY :: retry_policy where
  "DEFAULT_RETRY_POLICY =
     \<lparr>rp_max_attempts = 3, rp_base_delay_ms = 30000, rp_max_delay_ms = 15 * 60000,
      rp_strategy = Exponential\<rparr>"

definition empty_metadata :: job_metadata where
  "empty_metadata =
     \<lparr>md_correlation_id = None, md_created_by = None, md_project_id = None, md_worker_notes = None\<rparr>"

definition createRuntimeJob :: "job_input \<Rightarrow> string \<Rightarrow> retry_policy \<Rightarrow> runtime_job" where
  "createRuntimeJob input now retryPolicy =
     \<lparr>job_id = ji_job_id input, job_kind = ji_kind input, job_status = Queued,
      job_payload = ji_payload input, job_metadata = nullish (ji_metadata input) empty_metadata,
      job_attempts = 0,
      job_max_attempts = nullish (ji_max_attempts input) (rp_max_attempts retryPolicy),
      job_created_at = now, job_updated_at = now,
      job_available_at = nullish (ji_available_at input) now,
      job_started_at = None, job_completed_at = None, job_failed_at = None,
      job_last_error = None, job_claimed_by = None, job_heartbeat_at = None, job_retry_at = None\<rparr>"

definition createEmptyQueueMetrics :: queue_metrics where
  "createEmptyQueueMetrics =
     \<lparr>qm_total = 0, qm_queued = 0, qm_running = 0, qm_retrying = 0, qm_completed = 0,
      qm_failed = 0, qm_dead_lettered = 0, qm_depth = (\<lambda>_. 0)\<rparr>"

section \<open>The repository interface\<close>

record job_query =
  q_statuses :: "job_status list option"
  q_available_before :: "string option"
  q_claimed_by :: "string option"
  q_limit :: "nat option"

definition any_job :: job_query where
  "any_job = \<lparr>q_statuses = None, q_available_before = None, q_claimed_by = None, q_limit = None\<rparr>"

record 's queue_repository =
  saveJob :: "runtime_job \<Rightarrow> 's \<Rightarrow> 's"
  getJob :: "string \<Rightarrow> 's \<Rightarrow> runtime_job option"
  listJobs :: "job_query \<Rightarrow> 's \<Rightarrow> runtime_job list"
  saveWorker :: "worker_snapshot \<Rightarrow> 's \<Rightarrow> 's"
  listWorkers :: "'s \<Rightarrow> worker_snapshot list"

text \<open>A copy: an absent list of notes becomes an empty one.\<close>

definition cloneJob :: "runtime_job \<Rightarrow> runtime_job" where
  "cloneJob job =
     job\<lparr>job_metadata := (job_metadata job)
       \<lparr>md_worker_notes := Some (nullish (md_worker_notes (job_metadata job)) [])\<rparr>\<rparr>"

text \<open>The filter of \<open>listJobs\<close>; an empty string in the query is falsy and filters nothing.\<close>

definition job_matches :: "job_query \<Rightarrow> runtime_job \<Rightarrow> bool" where
  "job_matches query job =
     (if (case q_statuses query of None \<Rightarrow> False | Some ss \<Rightarrow> job_status job \<notin> set ss) then False
      else if (case q_available_before query of None \<Rightarrow> False
               | Some t \<Rightarrow> t \<noteq> [] \<and> \<not> str_le (job_available_at job) t) then False
      else if (case q_claimed_by query of None \<Rightarrow> False
               | Some w \<Rightarrow> w \<noteq> [] \<and> job_claimed_by job \<noteq> Some w) then False
      else True)"

text \<open>\<open>slice(0, limit)\<close>.\<close>

definition slice_limit :: "nat option \<Rightarrow> 'a list \<Rightarrow> 'a list" where
  "slice_limit l xs = (case l of None \<Rightarrow> xs | Some n \<Rightarrow> take n xs)"

section \<open>The in-memory repository\<close>

record memory_repo =
  mr_jobs :: "(string, runtime_job) js_map"
  mr_workers :: "(string, worker_snapshot) js_map"

definition empty_memory :: memory_repo where
  "empty_memory = \<lparr>mr_jobs = [], mr_workers = []\<rparr>"

definition mem_saveJob :: "runtime_job \<Rightarrow> memory_repo \<Rightarrow> memory_repo" where
  "mem_saveJob job s = s\<lparr>mr_jobs := jm_set (mr_jobs s) (job_id job) (cloneJob job)\<rparr>"

definition mem_getJob :: "string \<Rightarrow> memory_repo \<Rightarrow> runtime_job option" where
  "mem_getJob jobId s =
     (case jm_get (mr_jobs s) jobId of None \<Rightarrow> None | Some job \<Rightarrow> Some (cloneJob job))"

definition mem_listJobs ::
  "(string \<Rightarrow> string \<Rightarrow> bool) \<Rightarrow> job_query \<Rightarrow> memory_repo \<Rightarrow> runtime_job list" where
  "mem_listJobs lc query s =
     map cloneJob (slice_limit (q_limit query)
       (js_sort (\<lambda>left right. lc (job_available_at left) (job_available_at right))
         (filter (job_matches query) (jm_values (mr_jobs s)))))"

definition mem_saveWorker :: "worker_snapshot \<Rightarrow> memory_repo \<Rightarrow> memory_repo" where
  "mem_saveWorker worker s = s\<lparr>mr_workers := jm_set (mr_workers s) (wk_id worker) worker\<rparr>"

definition mem_listWorkers :: "memory_repo \<Rightarrow> worker_snapshot list" where
  "mem_listWorkers s = jm_values (mr_workers s)"

definition memory_repository :: "(string \<Rightarrow> string \<Rightarrow> bool) \<Rightarrow> memory_repo queue_repository" where
  "memory_repository lc =
     \<lparr>saveJob = mem_saveJob, getJob = mem_getJob, listJobs = mem_listJobs lc,
      saveWorker = mem_saveWorker, listWorkers = mem_listWorkers\<rparr>"

text \<open>What the in-memory repository keeps: jobs under their own ids, as copies.\<close>

definition memory_ok :: "memory_repo \<Rightarrow> bool" where
  "memory_ok s \<longleftrightarrow> keyed_by job_id (mr_jobs s) \<and> (\<forall>j \<in> set (jm_values (mr_jobs s)). cloneJob j = j)"

section \<open>What the queue relies on\<close>

text \<open>
  Lookup after a save, listing exactly the stored jobs a query without limit matches, each
  once, and independence of jobs and workers.
\<close>

locale job_store =
  fixes R :: "'s queue_repository" and ok :: "'s \<Rightarrow> bool"
  assumes ok_save: "ok s \<Longrightarrow> ok (saveJob R j s)"
    and ok_save_worker: "ok s \<Longrightarrow> ok (saveWorker R w s)"
    and get_save: "ok s \<Longrightarrow> getJob R i (saveJob R j s) = (if i = job_id j then Some (cloneJob j) else getJob R i s)"
    and get_save_worker: "getJob R i (saveWorker R w s) = getJob R i s"
    and get_id: "ok s \<Longrightarrow> getJob R i s = Some j \<Longrightarrow> job_id j = i \<and> cloneJob j = j"
    and in_list: "ok s \<Longrightarrow> q_limit q = None \<Longrightarrow>
      j \<in> set (listJobs R q s) \<longleftrightarrow> getJob R (job_id j) s = Some j \<and> job_matches q j"
    and list_distinct: "ok s \<Longrightarrow> distinct (map job_id (listJobs R q s))"

text \<open>A repository that also lists in the order of a collation of the times of availability.\<close>

locale ordered_job_store = job_store R ok + order: collation lc
  for R :: "'s queue_repository" and ok :: "'s \<Rightarrow> bool" and lc :: "string \<Rightarrow> string \<Rightarrow> bool" +
  assumes list_sorted: "ok s \<Longrightarrow>
    sorted_wrt (\<lambda>a b. lc (job_available_at a) (job_available_at b)) (listJobs R q s)"

lemma cloneJob_simps [simp]:
  "job_id (cloneJob j) = job_id j" "job_kind (cloneJob j) = job_kind j"
  "job_status (cloneJob j) = job_status j" "job_payload (cloneJob j) = job_payload j"
  "job_attempts (cloneJob j) = job_attempts j" "job_max_attempts (cloneJob j) = job_max_attempts j"
  "job_created_at (cloneJob j) = job_created_at j" "job_updated_at (cloneJob j) = job_updated_at j"
  "job_available_at (cloneJob j) = job_available_at j" "job_started_at (cloneJob j) = job_started_at j"
  "job_completed_at (cloneJob j) = job_completed_at j" "job_failed_at (cloneJob j) = job_failed_at j"
  "job_last_error (cloneJob j) = job_last_error j" "job_claimed_by (cloneJob j) = job_claimed_by j"
  "job_heartbeat_at (cloneJob j) = job_heartbeat_at j" "job_retry_at (cloneJob j) = job_retry_at j"
  by (simp_all add: cloneJob_def)

lemma cloneJob_idem [simp]: "cloneJob (cloneJob j) = cloneJob j"
  by (simp add: cloneJob_def)

lemma job_matches_clone [simp]: "job_matches q (cloneJob j) = job_matches q j"
  unfolding job_matches_def cloneJob_simps by (rule refl)

lemma memory_ok_empty: "memory_ok empty_memory"
  by (simp add: memory_ok_def empty_memory_def jm_values_def)

lemma memory_ok_save: "memory_ok s \<Longrightarrow> memory_ok (mem_saveJob j s)"
  using jm_values_set_subset [of "mr_jobs s" "job_id j" "cloneJob j"]
  by (auto simp: memory_ok_def mem_saveJob_def keyed_by_set)

lemma memory_get:
  "memory_ok s \<Longrightarrow> mem_getJob i s = Some j \<longleftrightarrow> i = job_id j \<and> j \<in> set (jm_values (mr_jobs s))"
  by (auto simp: memory_ok_def mem_getJob_def keyed_by_value dest: keyed_by_get jm_values_in
      split: option.splits)

lemma memory_list:
  assumes "memory_ok s" and "q_limit q = None"
  shows "j \<in> set (mem_listJobs lc q s) \<longleftrightarrow> mem_getJob (job_id j) s = Some j \<and> job_matches q j"
proof -
  have "cloneJob j = j" if "j \<in> set (jm_values (mr_jobs s))" for j
    using assms(1) that by (auto simp: memory_ok_def)
  then have "j \<in> set (mem_listJobs lc q s) \<longleftrightarrow> j \<in> set (jm_values (mr_jobs s)) \<and> job_matches q j"
    using assms(2) by (force simp: mem_listJobs_def slice_limit_def)
  then show ?thesis using memory_get [OF assms(1)] by auto
qed

lemma memory_list_distinct: "memory_ok s \<Longrightarrow> distinct (map job_id (mem_listJobs lc q s))"
proof -
  assume "memory_ok s"
  then have "distinct (map job_id (filter (job_matches q) (jm_values (mr_jobs s))))"
    by (simp add: memory_ok_def distinct_keyed_values distinct_map_filter)
  then have "distinct (map job_id (js_sort (\<lambda>l r. lc (job_available_at l) (job_available_at r))
      (filter (job_matches q) (jm_values (mr_jobs s)))))" by simp
  then show ?thesis
    by (auto simp: mem_listJobs_def slice_limit_def o_def take_map [symmetric] split: option.split)
qed

lemma memory_repository_simps [simp]:
  "saveJob (memory_repository lc) = mem_saveJob" "getJob (memory_repository lc) = mem_getJob"
  "listJobs (memory_repository lc) = mem_listJobs lc"
  "saveWorker (memory_repository lc) = mem_saveWorker"
  "listWorkers (memory_repository lc) = mem_listWorkers"
  by (simp_all add: memory_repository_def)

lemma memory_get_save:
  "mem_getJob i (mem_saveJob j s) = (if i = job_id j then Some (cloneJob j) else mem_getJob i s)"
  by (simp add: mem_getJob_def mem_saveJob_def)

lemma memory_get_empty [simp]: "mem_getJob i empty_memory = None"
  by (simp add: mem_getJob_def empty_memory_def)

lemma memory_get_save_worker: "mem_getJob i (mem_saveWorker w s) = mem_getJob i s"
  by (simp add: mem_getJob_def mem_saveWorker_def)

lemma memory_get_id: "memory_ok s \<Longrightarrow> mem_getJob i s = Some j \<Longrightarrow> job_id j = i \<and> cloneJob j = j"
  by (simp add: memory_get) (simp add: memory_ok_def)

interpretation memory: job_store "memory_repository lc" memory_ok for lc
proof (unfold_locales, unfold memory_repository_simps)
  show "memory_ok s \<Longrightarrow> memory_ok (mem_saveWorker w s)" for s w
    by (simp add: memory_ok_def mem_saveWorker_def)
qed (erule memory_ok_save memory_list_distinct | rule memory_get_save memory_get_save_worker |
    erule (1) memory_get_id memory_list)+

lemma memory_sorted:
  assumes "collation lc"
  shows "sorted_wrt (\<lambda>a b. lc (job_available_at a) (job_available_at b)) (mem_listJobs lc q s)"
  unfolding mem_listJobs_def slice_limit_def
  using collation.sort_sorted [OF assms, of job_available_at "filter (job_matches q) (jm_values (mr_jobs s))"]
  by (auto simp: sorted_wrt_map sorted_wrt_take split: option.split)

lemma memory_ordered: "collation lc \<Longrightarrow> ordered_job_store (memory_repository lc) memory_ok lc"
  by (intro ordered_job_store.intro memory.job_store_axioms ordered_job_store_axioms.intro)
    (simp_all add: memory_sorted)

interpretation memory_iso: ordered_job_store "memory_repository str_le" memory_ok str_le
  by (rule memory_ordered) (rule code_units.collation_axioms)

end
