(* ===== verification/Queue_Backend.thy ===== *)
theory Queue_Backend
  imports Queue_Model
begin

text \<open>
  The queue itself, \<^verbatim>\<open>src/runtime-app/queue/backend.ts\<close>: one definition per method, on any
  repository. Its lemmas are proved in the context of the repository's laws and hold for the
  in-memory repository through the interpretation. A thrown error leaves the state as it is,
  since every method that throws does so before it saves.
\<close>

section \<open>Helpers\<close>

definition mergeWorkerNotes :: "runtime_job \<Rightarrow> string list option \<Rightarrow> job_metadata" where
  "mergeWorkerNotes job notes =
     (if nullish notes [] = [] then
        (job_metadata job)\<lparr>md_worker_notes := Some (nullish (md_worker_notes (job_metadata job)) [])\<rparr>
      else
        (job_metadata job)\<lparr>md_worker_notes :=
          Some (nullish (md_worker_notes (job_metadata job)) [] @ nullish notes [])\<rparr>)"

text \<open>
  The delay is computed in doubles; for a whole number of milliseconds the product is exact
  until it exceeds every cap, so the integers give the same minimum.
\<close>

definition retry_delay :: "runtime_job \<Rightarrow> retry_policy \<Rightarrow> int" where
  "retry_delay job policy =
     (let exponent = nat (max (job_attempts job - 1) 0);
          rawDelay = (if rp_strategy policy = Fixed then rp_base_delay_ms policy
                      else rp_base_delay_ms policy * 2 ^ exponent)
      in min rawDelay (rp_max_delay_ms policy))"

definition computeRetryAt :: "runtime_job \<Rightarrow> retry_policy \<Rightarrow> string \<Rightarrow> string outcome" where
  "computeRetryAt job policy now =
     to_iso_string (map_option (\<lambda>t. t + retry_delay job policy) (date_parse now))"

definition createDefaultJobId :: "job_kind \<Rightarrow> string \<Rightarrow> string" where
  "createDefaultJobId kind suffix' = job_kind_str kind @ '':'' @ suffix'"

definition createQueueDepthTemplate :: "(job_kind \<times> nat) list" where
  "createQueueDepthTemplate = map (\<lambda>kind. (kind, 0)) RUNTIME_JOB_KINDS"

text \<open>\<open>Date.parse(now) - Date.parse(t) < ms\<close> and \<open>> ms\<close>: false when either is NaN.\<close>

definition elapsed_less :: "string \<Rightarrow> string \<Rightarrow> int \<Rightarrow> bool" where
  "elapsed_less now t ms =
     (case (date_parse now, date_parse t) of (Some a, Some b) \<Rightarrow> a - b < ms | _ \<Rightarrow> False)"

definition elapsed_more :: "string \<Rightarrow> string \<Rightarrow> int \<Rightarrow> bool" where
  "elapsed_more now t ms =
     (case (date_parse now, date_parse t) of (Some a, Some b) \<Rightarrow> a - b > ms | _ \<Rightarrow> False)"

section \<open>Methods\<close>

definition mustGetJob :: "'s queue_repository \<Rightarrow> string \<Rightarrow> 's \<Rightarrow> runtime_job outcome" where
  "mustGetJob R jobId s =
     (case getJob R jobId s of
        None \<Rightarrow> Inl (''Job '' @ jobId @ '' not found'')
      | Some job \<Rightarrow> Inr job)"

definition enqueue ::
  "'s queue_repository \<Rightarrow> retry_policy \<Rightarrow> job_input \<Rightarrow> string \<Rightarrow> 's \<Rightarrow> (runtime_job \<times> 's) outcome" where
  "enqueue R retryPolicy input now s =
     (case getJob R (ji_job_id input) s of
        Some _ \<Rightarrow> Inl (''Job '' @ ji_job_id input @ '' already exists'')
      | None \<Rightarrow>
          let job = createRuntimeJob input now retryPolicy
          in Inr (job, saveJob R job s))"

definition list_by_status ::
  "'s queue_repository \<Rightarrow> job_status list option \<Rightarrow> 's \<Rightarrow> runtime_job list" where
  "list_by_status R statuses s = listJobs R (any_job\<lparr>q_statuses := statuses\<rparr>) s"

definition due_query :: "string \<Rightarrow> job_query" where
  "due_query now = any_job\<lparr>q_statuses := Some [Queued, Retrying], q_available_before := Some now\<rparr>"

definition claim_job :: "string \<Rightarrow> string \<Rightarrow> runtime_job \<Rightarrow> runtime_job" where
  "claim_job workerId now job =
     job\<lparr>job_status := Running, job_attempts := job_attempts job + 1,
         job_claimed_by := Some workerId, job_started_at := Some now,
         job_heartbeat_at := Some now, job_updated_at := now\<rparr>"

definition claimNext ::
  "'s queue_repository \<Rightarrow> string \<Rightarrow> string \<Rightarrow> 's \<Rightarrow> runtime_job option \<times> 's" where
  "claimNext R workerId now s =
     (case listJobs R (due_query now) s of
        [] \<Rightarrow> (None, s)
      | nextJob # _ \<Rightarrow>
          let claimed = claim_job workerId now nextJob
          in (Some claimed, saveJob R claimed s))"

definition heartbeat :: "'s queue_repository \<Rightarrow> string \<Rightarrow> string \<Rightarrow> 's \<Rightarrow> 's outcome" where
  "heartbeat R jobId timestamp s =
     outcome_bind (mustGetJob R jobId s) (\<lambda>job.
       Inr (saveJob R (job\<lparr>job_heartbeat_at := Some timestamp, job_updated_at := timestamp\<rparr>) s))"

definition complete ::
  "'s queue_repository \<Rightarrow> string \<Rightarrow> string \<Rightarrow> string list option \<Rightarrow> 's \<Rightarrow> (runtime_job \<times> 's) outcome" where
  "complete R jobId now notes s =
     outcome_bind (mustGetJob R jobId s) (\<lambda>job.
       let completed = job\<lparr>job_status := Completed, job_completed_at := Some now,
                           job_updated_at := now, job_metadata := mergeWorkerNotes job notes\<rparr>
       in Inr (completed, saveJob R completed s))"

definition fail_job :: "string \<Rightarrow> string \<Rightarrow> string option \<Rightarrow> runtime_job \<Rightarrow> runtime_job" where
  "fail_job error now retryAt job =
     (let shouldRetry = job_attempts job < job_max_attempts job in
      job\<lparr>job_status := (if shouldRetry then Retrying else Dead_lettered),
          job_failed_at := (if shouldRetry then job_failed_at job else Some now),
          job_retry_at := retryAt,
          job_available_at := nullish retryAt (job_available_at job),
          job_updated_at := now,
          job_last_error := Some error,
          job_metadata := mergeWorkerNotes job (Some [''error:'' @ error])\<rparr>)"

definition fail ::
  "'s queue_repository \<Rightarrow> retry_policy \<Rightarrow> string \<Rightarrow> string \<Rightarrow> string \<Rightarrow> 's \<Rightarrow> (runtime_job \<times> 's) outcome" where
  "fail R retryPolicy jobId error now s =
     outcome_bind (mustGetJob R jobId s) (\<lambda>job.
       outcome_bind
         (if job_attempts job < job_max_attempts job
          then outcome_bind (computeRetryAt job retryPolicy now) (\<lambda>t. Inr (Some t))
          else Inr None)
         (\<lambda>retryAt.
           let failed = fail_job error now retryAt job
           in Inr (failed, saveJob R failed s)))"

definition retryFailedJob ::
  "'s queue_repository \<Rightarrow> string \<Rightarrow> string \<Rightarrow> 's \<Rightarrow> (runtime_job \<times> 's) outcome" where
  "retryFailedJob R jobId now s =
     outcome_bind (mustGetJob R jobId s) (\<lambda>job.
       let retried = job\<lparr>job_status := Retrying, job_claimed_by := None, job_started_at := None,
                         job_heartbeat_at := None, job_completed_at := None, job_failed_at := None,
                         job_retry_at := Some now, job_available_at := now, job_updated_at := now,
                         job_last_error := None\<rparr>
       in Inr (retried, saveJob R retried s))"

text \<open>The recovery loop over the running jobs listed before it starts.\<close>

definition last_sign_of_life :: "runtime_job \<Rightarrow> string" where
  "last_sign_of_life job =
     nullish (job_heartbeat_at job) (nullish (job_started_at job) (job_updated_at job))"

definition recover_job :: "string \<Rightarrow> runtime_job \<Rightarrow> runtime_job" where
  "recover_job now job =
     (let shouldRetry = job_attempts job < job_max_attempts job in
      job\<lparr>job_status := (if shouldRetry then Retrying else Dead_lettered),
          job_claimed_by := None,
          job_updated_at := now,
          job_retry_at := (if shouldRetry then Some now else None),
          job_available_at := (if shouldRetry then now else job_available_at job),
          job_last_error := Some ''Recovered interrupted job after stale heartbeat''\<rparr>)"

fun recover_loop ::
  "'s queue_repository \<Rightarrow> int \<Rightarrow> string \<Rightarrow> runtime_job list \<Rightarrow> 's \<Rightarrow> (string list \<times> string list) \<times> 's" where
  "recover_loop R staleAfterMs now [] s = (([], []), s)"
| "recover_loop R staleAfterMs now (job # jobs) s =
     (if elapsed_less now (last_sign_of_life job) staleAfterMs
      then recover_loop R staleAfterMs now jobs s
      else
        (case recover_loop R staleAfterMs now jobs (saveJob R (recover_job now job) s) of
           ((recoveredToRetrying, markedFailed), s') \<Rightarrow>
             (if job_attempts job < job_max_attempts job
              then (job_id job # recoveredToRetrying, markedFailed)
              else (recoveredToRetrying, job_id job # markedFailed), s')))"

definition recoverInterruptedJobs ::
  "'s queue_repository \<Rightarrow> int \<Rightarrow> string \<Rightarrow> 's \<Rightarrow> (string list \<times> string list) \<times> 's" where
  "recoverInterruptedJobs R staleAfterMs now s =
     recover_loop R staleAfterMs now (list_by_status R (Some [Running]) s) s"

definition count_job :: "queue_metrics \<Rightarrow> runtime_job \<Rightarrow> queue_metrics" where
  "count_job m job =
     (let st = job_status job; one = (\<lambda>b. if b then 1 else 0 :: nat) in
      m\<lparr>qm_depth := (qm_depth m)(job_kind job :=
          qm_depth m (job_kind job) + one (st = Queued \<or> st = Retrying)),
        qm_queued := qm_queued m + one (st = Queued),
        qm_running := qm_running m + one (st = Running),
        qm_retrying := qm_retrying m + one (st = Retrying),
        qm_completed := qm_completed m + one (st = Completed),
        qm_failed := qm_failed m + one (st = Failed),
        qm_dead_lettered := qm_dead_lettered m + one (st = Dead_lettered)\<rparr>)"

definition getMetrics :: "'s queue_repository \<Rightarrow> 's \<Rightarrow> queue_metrics" where
  "getMetrics R s =
     (let jobs = listJobs R any_job s
      in foldl count_job (createEmptyQueueMetrics\<lparr>qm_total := length jobs\<rparr>) jobs)"

definition summarizeFailedJobIds :: "'s queue_repository \<Rightarrow> 's \<Rightarrow> string list" where
  "summarizeFailedJobIds R s = map job_id (list_by_status R (Some [Failed, Dead_lettered]) s)"

section \<open>Delays\<close>

lemma retry_delay_cap: "retry_delay job policy \<le> rp_max_delay_ms policy"
  by (simp add: retry_delay_def Let_def)

lemma retry_delay_nonneg:
  "0 \<le> rp_base_delay_ms policy \<Longrightarrow> 0 \<le> rp_max_delay_ms policy \<Longrightarrow> 0 \<le> retry_delay job policy"
  by (simp add: retry_delay_def Let_def)

lemma computeRetryAt_time:
  "computeRetryAt job policy now = Inr r \<Longrightarrow>
   \<exists>t. date_parse now = Some t \<and> date_parse r = Some (t + retry_delay job policy)"
  unfolding computeRetryAt_def
  by (cases "date_parse now") (simp add: to_iso_string_def, drule to_iso_string_parse, simp)

lemma clone_eq_iff: "cloneJob j = j \<longleftrightarrow> md_worker_notes (job_metadata j) \<noteq> None"
proof
  assume "cloneJob j = j"
  then have "md_worker_notes (job_metadata (cloneJob j)) = md_worker_notes (job_metadata j)" by simp
  then show "md_worker_notes (job_metadata j) \<noteq> None"
    by (cases "md_worker_notes (job_metadata j)") (auto simp: cloneJob_def)
qed (auto simp: cloneJob_def)

lemma mergeWorkerNotes_some [simp]: "md_worker_notes (mergeWorkerNotes j notes) \<noteq> None"
  by (simp add: mergeWorkerNotes_def)

section \<open>Which jobs are due\<close>

definition job_due :: "string \<Rightarrow> runtime_job \<Rightarrow> bool" where
  "job_due now j \<longleftrightarrow> (job_status j = Queued \<or> job_status j = Retrying) \<and>
     (now = [] \<or> str_le (job_available_at j) now)"

lemma due_query_simps [simp]:
  "q_limit (due_query now) = None" "job_matches (due_query now) j = job_due now j"
  by (auto simp: due_query_def any_job_def job_matches_def job_due_def)

lemma any_job_simps [simp]:
  "q_limit any_job = None" "job_matches any_job j"
  "q_limit (any_job\<lparr>q_statuses := ss\<rparr>) = None"
  "job_matches (any_job\<lparr>q_statuses := Some st\<rparr>) j \<longleftrightarrow> job_status j \<in> set st"
  by (auto simp: any_job_def job_matches_def)

section \<open>Runs of queue operations\<close>

text \<open>One call on the queue, and the state it leaves; an error leaves the state as it was.\<close>

datatype queue_op =
    Op_enqueue job_input string
  | Op_claim string string
  | Op_heartbeat string string
  | Op_complete string string "string list option"
  | Op_fail string string string
  | Op_retry string string
  | Op_recover int string

definition after_call :: "('a \<times> 's) outcome \<Rightarrow> 's \<Rightarrow> 's" where
  "after_call r s = (case r of Inl _ \<Rightarrow> s | Inr (_, s') \<Rightarrow> s')"

fun apply_op :: "'s queue_repository \<Rightarrow> retry_policy \<Rightarrow> queue_op \<Rightarrow> 's \<Rightarrow> 's" where
  "apply_op R pol (Op_enqueue input now) s = after_call (enqueue R pol input now s) s"
| "apply_op R pol (Op_claim workerId now) s = snd (claimNext R workerId now s)"
| "apply_op R pol (Op_heartbeat i t) s = (case heartbeat R i t s of Inl _ \<Rightarrow> s | Inr s' \<Rightarrow> s')"
| "apply_op R pol (Op_complete i now notes) s = after_call (complete R i now notes s) s"
| "apply_op R pol (Op_fail i err now) s = after_call (fail R pol i err now s) s"
| "apply_op R pol (Op_retry i now) s = after_call (retryFailedJob R i now s) s"
| "apply_op R pol (Op_recover ms now) s = snd (recoverInterruptedJobs R ms now s)"

fun claimed_id :: "'s queue_repository \<Rightarrow> queue_op \<Rightarrow> 's \<Rightarrow> string option" where
  "claimed_id R (Op_claim workerId now) s = map_option job_id (fst (claimNext R workerId now s))"
| "claimed_id R _ s = None"

fun run_ops :: "'s queue_repository \<Rightarrow> retry_policy \<Rightarrow> queue_op list \<Rightarrow> 's \<Rightarrow> 's" where
  "run_ops R pol [] s = s"
| "run_ops R pol (op # ops) s = run_ops R pol ops (apply_op R pol op s)"

text \<open>How often a run hands out a job.\<close>

fun claims :: "'s queue_repository \<Rightarrow> retry_policy \<Rightarrow> string \<Rightarrow> queue_op list \<Rightarrow> 's \<Rightarrow> int" where
  "claims R pol i [] s = 0"
| "claims R pol i (op # ops) s =
     (if claimed_id R op s = Some i then 1 else 0) + claims R pol i ops (apply_op R pol op s)"

text \<open>
  A job's attempts stay within its bound, or within one when its bound is nought, strictly while
  it may still be claimed. The operator's \<open>retryFailedJob\<close> does not keep this.
\<close>

definition job_bounded :: "runtime_job \<Rightarrow> bool" where
  "job_bounded j \<longleftrightarrow> job_attempts j \<le> max 1 (job_max_attempts j) \<and>
     (job_status j = Queued \<or> job_status j = Retrying \<longrightarrow> job_attempts j < max 1 (job_max_attempts j))"

definition automatic :: "queue_op \<Rightarrow> bool" where
  "automatic op = (case op of Op_retry _ _ \<Rightarrow> False | _ \<Rightarrow> True)"

text \<open>What no operation changes of a job.\<close>

definition same_job :: "runtime_job \<Rightarrow> runtime_job \<Rightarrow> bool" where
  "same_job j j' \<longleftrightarrow> job_id j' = job_id j \<and> job_kind j' = job_kind j \<and> job_payload j' = job_payload j \<and>
     job_max_attempts j' = job_max_attempts j \<and> job_created_at j' = job_created_at j"

lemma fail_job_simps:
  "job_id (fail_job e now r j) = job_id j" "job_kind (fail_job e now r j) = job_kind j"
  "job_payload (fail_job e now r j) = job_payload j"
  "job_attempts (fail_job e now r j) = job_attempts j"
  "job_max_attempts (fail_job e now r j) = job_max_attempts j"
  "job_created_at (fail_job e now r j) = job_created_at j"
  "job_status (fail_job e now r j) = (if job_attempts j < job_max_attempts j then Retrying else Dead_lettered)"
  "job_available_at (fail_job e now r j) = nullish r (job_available_at j)"
  "cloneJob (fail_job e now r j) = fail_job e now r j"
  by (simp_all add: fail_job_def Let_def clone_eq_iff)

lemma recover_job_simps:
  "job_id (recover_job now j) = job_id j" "job_kind (recover_job now j) = job_kind j"
  "job_payload (recover_job now j) = job_payload j"
  "job_attempts (recover_job now j) = job_attempts j"
  "job_max_attempts (recover_job now j) = job_max_attempts j"
  "job_created_at (recover_job now j) = job_created_at j"
  "job_status (recover_job now j) = (if job_attempts j < job_max_attempts j then Retrying else Dead_lettered)"
  "job_metadata (recover_job now j) = job_metadata j"
  by (simp_all add: recover_job_def Let_def)

lemma claim_job_simps:
  "job_id (claim_job w now j) = job_id j" "job_kind (claim_job w now j) = job_kind j"
  "job_payload (claim_job w now j) = job_payload j"
  "job_attempts (claim_job w now j) = job_attempts j + 1"
  "job_max_attempts (claim_job w now j) = job_max_attempts j"
  "job_created_at (claim_job w now j) = job_created_at j"
  "job_status (claim_job w now j) = Running"
  "job_metadata (claim_job w now j) = job_metadata j"
  by (simp_all add: claim_job_def)

text \<open>
  Held by a worker or finished: not to be handed out. Only a failure, an operator's retry of
  the job and the recovery of stale jobs release it.
\<close>

definition held :: "runtime_job \<Rightarrow> bool" where
  "held j \<longleftrightarrow> job_status j \<noteq> Queued \<and> job_status j \<noteq> Retrying"

definition releases :: "string \<Rightarrow> queue_op \<Rightarrow> bool" where
  "releases i op =
     (case op of Op_fail l _ _ \<Rightarrow> l = i | Op_retry l _ \<Rightarrow> l = i | Op_recover _ _ \<Rightarrow> True | _ \<Rightarrow> False)"

text \<open>How one call may change a job that is stored.\<close>

definition job_step :: "queue_op \<Rightarrow> bool \<Rightarrow> runtime_job \<Rightarrow> runtime_job \<Rightarrow> bool" where
  "job_step op claimed j j' \<longleftrightarrow> same_job j j' \<and>
     job_attempts j' = job_attempts j + (if claimed then 1 else 0) \<and>
     ((\<forall>i now. op \<noteq> Op_retry i now) \<longrightarrow> job_bounded j \<longrightarrow> job_bounded j') \<and>
     (held j \<longrightarrow> \<not> releases (job_id j) op \<longrightarrow> held j' \<and> \<not> claimed)"

lemma job_step_refl: "job_step op False j j"
  by (simp add: job_step_def same_job_def)

definition all_bounded :: "'s queue_repository \<Rightarrow> 's \<Rightarrow> bool" where
  "all_bounded R s \<longleftrightarrow> (\<forall>i j. getJob R i s = Some j \<longrightarrow> job_bounded j)"

context job_store begin

lemma must_get: "mustGetJob R i s = Inr j \<longleftrightarrow> getJob R i s = Some j"
  by (simp add: mustGetJob_def split: option.split)

lemma claim_some:
  assumes "ok s" and "claimNext R w now s = (Some j', s')"
  shows "\<exists>j. getJob R (job_id j) s = Some j \<and> job_due now j \<and>
    j' = claim_job w now j \<and> s' = saveJob R j' s \<and> cloneJob j' = j'"
proof -
  from assms(2) obtain j js where l: "listJobs R (due_query now) s = j # js"
    and j: "j' = claim_job w now j" "s' = saveJob R j' s"
    by (auto simp: claimNext_def Let_def split: list.splits)
  from l have "j \<in> set (listJobs R (due_query now) s)" by simp
  with in_list [OF assms(1)] have g: "getJob R (job_id j) s = Some j" "job_due now j"
    by simp_all
  moreover from get_id [OF assms(1) g(1)] have "cloneJob j' = j'"
    by (simp add: j clone_eq_iff claim_job_simps)
  ultimately show ?thesis using j by blast
qed

lemma claim_none:
  assumes "ok s" and "fst (claimNext R w now s) = None"
  shows "getJob R i s = Some j \<Longrightarrow> \<not> job_due now j" and "snd (claimNext R w now s) = s"
proof -
  from assms(2) have l: "listJobs R (due_query now) s = []"
    by (auto simp: claimNext_def Let_def split: list.splits)
  then show "snd (claimNext R w now s) = s" by (simp add: claimNext_def)
  assume g: "getJob R i s = Some j"
  with get_id [OF assms(1)] have "getJob R (job_id j) s = Some j" by blast
  with l in_list [OF assms(1), of "due_query now" j] show "\<not> job_due now j" by simp
qed

lemma recover_loop_get:
  assumes "ok s" and "distinct (map job_id jobs)"
    and "\<And>j. j \<in> set jobs \<Longrightarrow> getJob R (job_id j) s = Some j"
  shows "ok (snd (recover_loop R ms now jobs s)) \<and>
    getJob R i (snd (recover_loop R ms now jobs s)) =
      (case getJob R i s of None \<Rightarrow> None
       | Some j \<Rightarrow> Some (if j \<in> set jobs \<and> \<not> elapsed_less now (last_sign_of_life j) ms
                       then recover_job now j else j))"
  using assms
proof (induction jobs arbitrary: s)
  case Nil
  then show ?case by (auto split: option.split)
next
  case (Cons j jobs)
  have dj: "distinct (map job_id jobs)" "job_id j \<notin> job_id ` set jobs" using Cons.prems(2) by auto
  have gj: "getJob R (job_id j) s = Some j" using Cons.prems(3) by simp
  show ?case
  proof (cases "elapsed_less now (last_sign_of_life j) ms")
    case True
    with Cons.IH [OF Cons.prems(1) dj(1)] Cons.prems(3) show ?thesis
      by (auto split: option.splits)
  next
    case False
    let ?s = "saveJob R (recover_job now j) s"
    have c: "cloneJob (recover_job now j) = recover_job now j"
      using get_id [OF Cons.prems(1) gj] by (simp add: clone_eq_iff recover_job_simps)
    have g: "getJob R k ?s = (if k = job_id j then Some (recover_job now j) else getJob R k s)" for k
      using get_save [OF Cons.prems(1)] by (simp add: recover_job_simps c)
    have "getJob R (job_id k) ?s = Some k" if "k \<in> set jobs" for k
    proof -
      from that dj(2) have "job_id k \<noteq> job_id j" by (metis image_eqI)
      with that Cons.prems(3) [of k] show ?thesis by (simp add: g)
    qed
    note IH = Cons.IH [OF ok_save [OF Cons.prems(1)] dj(1) this]
    have s: "snd (recover_loop R ms now (j # jobs) s) = snd (recover_loop R ms now jobs ?s)"
      using False by (simp add: split_def Let_def)
    have "recover_job now j \<notin> set jobs"
      using dj(2) recover_job_simps(1) [of now j] by (metis image_eqI)
    moreover have "k = j" if "getJob R (job_id j) s = Some k" for k using that gj by simp
    moreover have "k \<noteq> j" if "getJob R i s = Some k" "i \<noteq> job_id j" for k
      using get_id [OF Cons.prems(1) that(1)] that(2) by auto
    ultimately show ?thesis
      unfolding s using IH gj False by (auto simp: g split: option.split)
  qed
qed

lemma recover_get:
  assumes "ok s"
  shows "ok (snd (recoverInterruptedJobs R ms now s))"
    and "getJob R i (snd (recoverInterruptedJobs R ms now s)) =
      (case getJob R i s of None \<Rightarrow> None
       | Some j \<Rightarrow> Some (if job_status j = Running \<and> \<not> elapsed_less now (last_sign_of_life j) ms
                       then recover_job now j else j))"
proof -
  let ?js = "list_by_status R (Some [Running]) s"
  have mem: "j \<in> set ?js \<longleftrightarrow> getJob R (job_id j) s = Some j \<and> job_status j = Running" for j
    using in_list [OF assms] by (simp add: list_by_status_def)
  have "distinct (map job_id ?js)" using list_distinct [OF assms] by (simp add: list_by_status_def)
  note loop = recover_loop_get [OF assms this, of ms now i]
  then show "ok (snd (recoverInterruptedJobs R ms now s))"
    by (simp add: recoverInterruptedJobs_def mem)
  have "getJob R (job_id j) s = Some j" if "getJob R i s = Some j" for j
    using that get_id [OF assms that] by simp
  with loop show "getJob R i (snd (recoverInterruptedJobs R ms now s)) =
      (case getJob R i s of None \<Rightarrow> None
       | Some j \<Rightarrow> Some (if job_status j = Running \<and> \<not> elapsed_less now (last_sign_of_life j) ms
                       then recover_job now j else j))"
    by (auto simp: recoverInterruptedJobs_def mem split: option.splits)
qed

lemma mutate_get:
  assumes "ok s" and "getJob R i s = Some j" and "job_id j' = job_id j"
    and "md_worker_notes (job_metadata j') \<noteq> None"
  shows "getJob R k (saveJob R j' s) = (if k = i then Some j' else getJob R k s)"
  using assms get_save get_id [OF assms(1,2)] by (simp add: clone_eq_iff [THEN iffD2])

lemma step_get:
  assumes "ok s" and g: "getJob R i s = Some j"
  shows "\<exists>j'. getJob R i (apply_op R pol op s) = Some j' \<and>
    job_step op (claimed_id R op s = Some i) j j'"
proof -
  have noted: "md_worker_notes (job_metadata k) \<noteq> None" "job_id k = l" if "getJob R l s = Some k" for k l
    using get_id [OF assms(1) that] by (simp_all add: clone_eq_iff)
  note [simp] = job_step_refl
  show ?thesis
  proof (cases op)
    case (Op_enqueue input now)
    have "i \<noteq> ji_job_id input" if "getJob R (ji_job_id input) s = None" using g that by auto
    then show ?thesis
      using g by (auto simp: Op_enqueue enqueue_def after_call_def Let_def get_save [OF assms(1)]
          createRuntimeJob_def split: option.splits)
  next
    case (Op_claim w now)
    show ?thesis
    proof (cases "claimNext R w now s")
      case (Pair r s')
      show ?thesis
      proof (cases r)
        case None
        with Pair claim_none [OF assms(1), of w now] g show ?thesis by (simp add: Op_claim)
      next
        case (Some k')
        from claim_some [OF assms(1)] Pair Some obtain k where
          k: "getJob R (job_id k) s = Some k" "job_due now k" "k' = claim_job w now k"
            "s' = saveJob R k' s" by blast
        have "getJob R i s' = (if i = job_id k then Some k' else getJob R i s)"
          unfolding k(4) using mutate_get [OF assms(1) k(1)] noted [OF k(1)] k(3)
          by (simp add: claim_job_simps)
        then show ?thesis
          using g k Pair Some by (auto simp: Op_claim claim_job_simps job_step_def same_job_def
              job_bounded_def held_def releases_def job_due_def)
      qed
    qed
  next
    case (Op_heartbeat l t)
    show ?thesis
    proof (cases "getJob R l s")
      case None
      with g show ?thesis by (simp add: Op_heartbeat heartbeat_def mustGetJob_def)
    next
      case (Some k)
      then show ?thesis
        using g noted [OF Some] by (auto simp: Op_heartbeat heartbeat_def mustGetJob_def
            mutate_get [OF assms(1) Some] job_step_def same_job_def job_bounded_def held_def releases_def)
    qed
  next
    case (Op_complete l now ns)
    show ?thesis
    proof (cases "getJob R l s")
      case None
      with g show ?thesis by (simp add: Op_complete complete_def mustGetJob_def after_call_def)
    next
      case (Some k)
      then show ?thesis
        using g noted [OF Some] by (auto simp: Op_complete complete_def mustGetJob_def after_call_def
            Let_def mutate_get [OF assms(1) Some] job_step_def same_job_def job_bounded_def held_def releases_def)
    qed
  next
    case (Op_fail l e now)
    show ?thesis
    proof (cases "getJob R l s")
      case None
      with g show ?thesis by (simp add: Op_fail fail_def mustGetJob_def after_call_def)
    next
      case (Some k)
      have upd: "getJob R i (saveJob R (fail_job e now r k) s) =
          (if i = l then Some (fail_job e now r k) else getJob R i s)" for r
        using mutate_get [OF assms(1) Some] clone_eq_iff [of "fail_job e now r k"]
        by (simp add: fail_job_simps)
      have "(\<exists>m. fail R pol l e now s = Inl m) \<or>
          (\<exists>r. fail R pol l e now s = Inr (fail_job e now r k, saveJob R (fail_job e now r k) s))"
        using Some by (auto simp: fail_def mustGetJob_def Let_def outcome_bind_def split: sum.splits)
      then consider m where "fail R pol l e now s = Inl m"
        | r where "fail R pol l e now s = Inr (fail_job e now r k, saveJob R (fail_job e now r k) s)"
        by blast
      then show ?thesis
      proof cases
        case 1
        then show ?thesis using g by (simp add: Op_fail after_call_def)
      next
        case 2
        then show ?thesis
          using g Some noted(2) [OF g] by (auto simp: Op_fail after_call_def upd fail_job_simps job_step_def
              same_job_def job_bounded_def held_def releases_def)
      qed
    qed
  next
    case (Op_retry l now)
    show ?thesis
    proof (cases "getJob R l s")
      case None
      with g show ?thesis by (simp add: Op_retry retryFailedJob_def mustGetJob_def after_call_def)
    next
      case (Some k)
      then show ?thesis
        using g noted [OF Some] by (auto simp: Op_retry retryFailedJob_def mustGetJob_def
            after_call_def Let_def mutate_get [OF assms(1) Some] job_step_def same_job_def
            held_def releases_def)
    qed
  next
    case (Op_recover ms now)
    then show ?thesis
      using g recover_get(2) [OF assms(1), of i ms now]
      by (auto simp: job_step_def same_job_def job_bounded_def held_def releases_def recover_job_simps)
  qed
qed

lemma ok_apply: "ok s \<Longrightarrow> ok (apply_op R pol op s)"
  by (cases op)
    (auto simp: enqueue_def claimNext_def heartbeat_def complete_def fail_def retryFailedJob_def
      mustGetJob_def after_call_def Let_def outcome_bind_def recover_get(1) ok_save
      split: option.splits sum.splits list.splits)

lemma step_new:
  assumes "ok s" and g: "getJob R i s = None"
  shows "claimed_id R op s \<noteq> Some i"
    and "getJob R i (apply_op R pol op s) = None \<or>
      (\<exists>input now. op = Op_enqueue input now \<and> i = ji_job_id input \<and>
         getJob R i (apply_op R pol op s) = Some (cloneJob (createRuntimeJob input now pol)))"
proof -
  have other: "getJob R i (saveJob R k s) = None" if "getJob R l s = Some k'" "job_id k = job_id k'" for k k' l
    using that g get_id [OF assms(1) that(1)] get_save [OF assms(1)] by auto
  show "claimed_id R op s \<noteq> Some i"
  proof (cases op)
    case (Op_claim w now)
    then show ?thesis
      using claim_some [OF assms(1), of w now] g
      by (cases "claimNext R w now s") (auto simp: claim_job_simps)
  qed simp_all
  show "getJob R i (apply_op R pol op s) = None \<or>
      (\<exists>input now. op = Op_enqueue input now \<and> i = ji_job_id input \<and>
         getJob R i (apply_op R pol op s) = Some (cloneJob (createRuntimeJob input now pol)))"
  proof (cases op)
    case (Op_enqueue input now)
    then show ?thesis
      using g by (auto simp: enqueue_def after_call_def Let_def get_save [OF assms(1)]
          createRuntimeJob_def split: option.splits)
  next
    case (Op_claim w now)
    show ?thesis
    proof (cases "claimNext R w now s")
      case (Pair r s')
      show ?thesis
      proof (cases r)
        case None
        with Pair claim_none [OF assms(1), of w now] g show ?thesis by (simp add: Op_claim)
      next
        case (Some k')
        from claim_some [OF assms(1)] Pair Some obtain k where
          "getJob R (job_id k) s = Some k" "k' = claim_job w now k" "s' = saveJob R k' s" by blast
        with Pair show ?thesis by (simp add: Op_claim other claim_job_simps)
      qed
    qed
  next
    case (Op_heartbeat l t)
    then show ?thesis
      using g by (auto simp: heartbeat_def mustGetJob_def intro!: other split: option.splits)
  next
    case (Op_complete l now ns)
    then show ?thesis
      using g by (auto simp: complete_def mustGetJob_def after_call_def Let_def intro!: other
          split: option.splits)
  next
    case (Op_fail l e now)
    then show ?thesis
      using g by (auto simp: fail_def mustGetJob_def after_call_def Let_def outcome_bind_def
          fail_job_simps intro!: other split: option.splits sum.splits)
  next
    case (Op_retry l now)
    then show ?thesis
      using g by (auto simp: retryFailedJob_def mustGetJob_def after_call_def Let_def intro!: other
          split: option.splits)
  next
    case (Op_recover ms now)
    then show ?thesis using g recover_get(2) [OF assms(1), of i ms now] by simp
  qed
qed

lemma bounded_step:
  assumes "ok s" "all_bounded R s" "automatic op"
  shows "all_bounded R (apply_op R pol op s)"
  unfolding all_bounded_def
proof (intro allI impI)
  fix i j assume j: "getJob R i (apply_op R pol op s) = Some j"
  show "job_bounded j"
  proof (cases "getJob R i s")
    case None
    from step_new(2) [OF assms(1) None, of pol op] j assms(3) show ?thesis
      by (auto simp: automatic_def createRuntimeJob_def job_bounded_def)
  next
    case (Some k)
    from step_get [OF assms(1) Some, of pol op] j assms(2,3) Some show ?thesis
      by (auto simp: job_step_def all_bounded_def automatic_def)
  qed
qed

lemma ok_run: "ok s \<Longrightarrow> ok (run_ops R pol ops s)"
  by (induction ops arbitrary: s) (auto simp: ok_apply)

lemma run_bounded:
  "ok s \<Longrightarrow> all_bounded R s \<Longrightarrow> list_all automatic ops \<Longrightarrow> all_bounded R (run_ops R pol ops s)"
  by (induction ops arbitrary: s) (auto simp: ok_apply bounded_step)

lemma run_get:
  "ok s \<Longrightarrow> getJob R i s = Some j \<Longrightarrow>
   \<exists>j'. getJob R i (run_ops R pol ops s) = Some j' \<and> same_job j j' \<and>
     job_attempts j' = job_attempts j + claims R pol i ops s"
proof (induction ops arbitrary: s j)
  case Nil
  then show ?case by (simp add: same_job_def)
next
  case (Cons op ops)
  from step_get [OF Cons.prems, of pol op] obtain k where
    k: "getJob R i (apply_op R pol op s) = Some k" "job_step op (claimed_id R op s = Some i) j k" by blast
  from Cons.IH [OF ok_apply [OF Cons.prems(1)] k(1)] k(2) show ?case
    by (auto simp: job_step_def same_job_def)
qed

text \<open>For a job enqueued during the run, \<open>attempts\<close> counts how often it was handed out.\<close>

lemma run_get_new:
  "ok s \<Longrightarrow> getJob R i s = None \<Longrightarrow> getJob R i (run_ops R pol ops s) = Some j' \<Longrightarrow>
   job_attempts j' = claims R pol i ops s"
proof (induction ops arbitrary: s)
  case (Cons op ops)
  have new: "claimed_id R op s \<noteq> Some i" by (rule step_new(1) [OF Cons.prems(1,2)])
  show ?case
  proof (cases "getJob R i (apply_op R pol op s)")
    case None
    with Cons new show ?thesis by (simp add: ok_apply)
  next
    case (Some k)
    with step_new(2) [OF Cons.prems(1,2), of pol op] have "job_attempts k = 0"
      by (auto simp: createRuntimeJob_def)
    with run_get [OF ok_apply [OF Cons.prems(1)] Some, of pol ops] Cons.prems(3) new
    show ?thesis by simp
  qed
qed simp

text \<open>A job that is held is not handed out until something releases it.\<close>

lemma held_not_claimed:
  "ok s \<Longrightarrow> getJob R i s = Some j \<Longrightarrow> held j \<Longrightarrow> list_all (\<lambda>op. \<not> releases i op) ops \<Longrightarrow>
   claims R pol i ops s = 0"
proof (induction ops arbitrary: s j)
  case (Cons op ops)
  from step_get [OF Cons.prems(1,2), of pol op] obtain k where
    k: "getJob R i (apply_op R pol op s) = Some k" "job_step op (claimed_id R op s = Some i) j k" by blast
  moreover have "job_id j = i" using get_id Cons.prems(1,2) by blast
  ultimately have "held k" "claimed_id R op s \<noteq> Some i"
    using Cons.prems(3,4) by (auto simp: job_step_def)
  with Cons.IH [OF ok_apply [OF Cons.prems(1)] k(1)] Cons.prems(4) show ?case by simp
qed simp

lemma claimed_held:
  assumes "ok s" and "claimNext R w now s = (Some j', s')"
  shows "getJob R (job_id j') s' = Some j'" and "held j'" and "ok s'"
proof -
  from claim_some [OF assms] obtain j where
    j: "getJob R (job_id j) s = Some j" "j' = claim_job w now j" "s' = saveJob R j' s" "cloneJob j' = j'"
    by blast
  then show "getJob R (job_id j') s' = Some j'" "ok s'"
    using get_save [OF assms(1)] ok_save [OF assms(1)] by auto
  from j(2) show "held j'" by (simp add: held_def claim_job_simps)
qed

end

section \<open>Failing a job\<close>

text \<open>Below the bound the job waits for its delay; at the bound it is dead.\<close>

context job_store begin

lemma fail_dead:
  assumes "ok s" "getJob R i s = Some j" "\<not> job_attempts j < job_max_attempts j"
  shows "\<exists>j' s'. fail R pol i e now s = Inr (j', s') \<and> getJob R i s' = Some j' \<and>
    j' = fail_job e now None j \<and> (\<forall>k. k \<noteq> i \<longrightarrow> getJob R k s' = getJob R k s)"
  using assms mutate_get [OF assms(1,2), of "fail_job e now None j"]
    clone_eq_iff [of "fail_job e now None j"]
  by (simp add: fail_def mustGetJob_def Let_def fail_job_simps)

lemma fail_retry:
  assumes "ok s" "getJob R i s = Some j" "job_attempts j < job_max_attempts j"
    and "date_parse now = Some t" "\<bar>t + retry_delay j pol\<bar> \<le> max_time"
  shows "\<exists>j' s'. fail R pol i e now s = Inr (j', s') \<and> getJob R i s' = Some j' \<and>
    j' = fail_job e now (Some (iso_string (t + retry_delay j pol))) j \<and>
    (\<forall>k. k \<noteq> i \<longrightarrow> getJob R k s' = getJob R k s)"
  using assms mutate_get [OF assms(1,2), of "fail_job e now (Some (iso_string (t + retry_delay j pol))) j"]
    clone_eq_iff [of "fail_job e now (Some (iso_string (t + retry_delay j pol))) j"]
  by (simp add: fail_def mustGetJob_def Let_def fail_job_simps computeRetryAt_def to_iso_string_def)

lemma fail_unknown:
  "getJob R i s = None \<Longrightarrow> fail R pol i e now s = Inl (''Job '' @ i @ '' not found'')"
  by (simp add: fail_def mustGetJob_def)

end

text \<open>A retried job is due exactly from its delay on.\<close>

lemma fail_job_due:
  assumes "job_attempts j < job_max_attempts j"
    and "0 \<le> t" "t < four_digit_limit" "0 \<le> u" "u < four_digit_limit"
  shows "job_due (iso_string u) (fail_job e now (Some (iso_string t)) j) \<longleftrightarrow> t \<le> u"
proof -
  have "date_parse (iso_string u) = Some u" using assms by (intro date_parse_iso_string) auto
  then have "iso_string u \<noteq> []" by (auto simp: date_parse_def p_year_def)
  with assms show ?thesis by (simp add: job_due_def fail_job_simps iso_string_le_iff)
qed

section \<open>Recovery\<close>

context job_store begin

lemma recover_loop_ids:
  "fst (recover_loop R ms now jobs s) =
   (map job_id (filter (\<lambda>j. job_attempts j < job_max_attempts j)
      (filter (\<lambda>j. \<not> elapsed_less now (last_sign_of_life j) ms) jobs)),
    map job_id (filter (\<lambda>j. \<not> job_attempts j < job_max_attempts j)
      (filter (\<lambda>j. \<not> elapsed_less now (last_sign_of_life j) ms) jobs)))"
  by (induction jobs arbitrary: s) (auto split: prod.split dest: arg_cong [of _ _ fst])

lemma recover_ids:
  assumes "ok s"
  shows "i \<in> set (fst (fst (recoverInterruptedJobs R ms now s))) \<longleftrightarrow>
      (\<exists>j. getJob R i s = Some j \<and> job_status j = Running \<and>
         \<not> elapsed_less now (last_sign_of_life j) ms \<and> job_attempts j < job_max_attempts j)"
    and "i \<in> set (snd (fst (recoverInterruptedJobs R ms now s))) \<longleftrightarrow>
      (\<exists>j. getJob R i s = Some j \<and> job_status j = Running \<and>
         \<not> elapsed_less now (last_sign_of_life j) ms \<and> \<not> job_attempts j < job_max_attempts j)"
proof -
  have mem: "j \<in> set (list_by_status R (Some [Running]) s) \<longleftrightarrow>
      getJob R (job_id j) s = Some j \<and> job_status j = Running" for j
    using in_list [OF assms] by (simp add: list_by_status_def)
  have id: "job_id j = i" if "getJob R i s = Some j" for i j
    using get_id [OF assms that] by simp
  show "i \<in> set (fst (fst (recoverInterruptedJobs R ms now s))) \<longleftrightarrow>
      (\<exists>j. getJob R i s = Some j \<and> job_status j = Running \<and>
         \<not> elapsed_less now (last_sign_of_life j) ms \<and> job_attempts j < job_max_attempts j)"
    unfolding recoverInterruptedJobs_def recover_loop_ids
    by (auto simp: mem dest: id intro: rev_image_eqI)
  show "i \<in> set (snd (fst (recoverInterruptedJobs R ms now s))) \<longleftrightarrow>
      (\<exists>j. getJob R i s = Some j \<and> job_status j = Running \<and>
         \<not> elapsed_less now (last_sign_of_life j) ms \<and> \<not> job_attempts j < job_max_attempts j)"
    unfolding recoverInterruptedJobs_def recover_loop_ids
    by (auto simp: mem dest: id intro: rev_image_eqI)
qed

end

section \<open>Metrics\<close>

definition count_status :: "job_status \<Rightarrow> runtime_job list \<Rightarrow> nat" where
  "count_status st jobs = length (filter (\<lambda>j. job_status j = st) jobs)"

lemma count_job_simps:
  "qm_total (count_job m j) = qm_total m"
  "qm_queued (count_job m j) = qm_queued m + (if job_status j = Queued then 1 else 0)"
  "qm_running (count_job m j) = qm_running m + (if job_status j = Running then 1 else 0)"
  "qm_retrying (count_job m j) = qm_retrying m + (if job_status j = Retrying then 1 else 0)"
  "qm_completed (count_job m j) = qm_completed m + (if job_status j = Completed then 1 else 0)"
  "qm_failed (count_job m j) = qm_failed m + (if job_status j = Failed then 1 else 0)"
  "qm_dead_lettered (count_job m j) = qm_dead_lettered m + (if job_status j = Dead_lettered then 1 else 0)"
  "qm_depth (count_job m j) k = qm_depth m k +
     (if job_kind j = k \<and> (job_status j = Queued \<or> job_status j = Retrying) then 1 else 0)"
  by (simp_all add: count_job_def Let_def)

lemma fold_count:
  "qm_total (foldl count_job m jobs) = qm_total m"
  "qm_queued (foldl count_job m jobs) = qm_queued m + count_status Queued jobs"
  "qm_running (foldl count_job m jobs) = qm_running m + count_status Running jobs"
  "qm_retrying (foldl count_job m jobs) = qm_retrying m + count_status Retrying jobs"
  "qm_completed (foldl count_job m jobs) = qm_completed m + count_status Completed jobs"
  "qm_failed (foldl count_job m jobs) = qm_failed m + count_status Failed jobs"
  "qm_dead_lettered (foldl count_job m jobs) = qm_dead_lettered m + count_status Dead_lettered jobs"
  "qm_depth (foldl count_job m jobs) k = qm_depth m k +
     length (filter (\<lambda>j. job_kind j = k \<and> (job_status j = Queued \<or> job_status j = Retrying)) jobs)"
  by (induction jobs arbitrary: m) (auto simp: count_job_simps count_status_def)

lemma status_partition:
  "count_status Queued jobs + count_status Running jobs + count_status Retrying jobs +
   count_status Completed jobs + count_status Failed jobs + count_status Dead_lettered jobs = length jobs"
proof (induction jobs)
  case (Cons j jobs)
  then show ?case by (cases "job_status j") (auto simp: count_status_def)
qed (simp add: count_status_def)

lemma kinds_partition:
  "(\<Sum>k \<leftarrow> RUNTIME_JOB_KINDS. length (filter (\<lambda>j. job_kind j = k \<and> Q j) jobs)) = length (filter Q jobs)"
proof (induction jobs)
  case (Cons j jobs)
  then show ?case by (cases "job_kind j") (auto simp: RUNTIME_JOB_KINDS_def)
qed (simp add: RUNTIME_JOB_KINDS_def)

context ordered_job_store begin

lemma claim_earliest:
  assumes "ok s" and "claimNext R w now s = (Some j', s')"
    and "getJob R i s = Some k" and "job_due now k"
  shows "lc (job_available_at j') (job_available_at k)"
proof -
  from assms(2) obtain j js where l: "listJobs R (due_query now) s = j # js" "j' = claim_job w now j"
    by (auto simp: claimNext_def Let_def split: list.splits)
  from assms get_id have "getJob R (job_id k) s = Some k" by blast
  with assms(4) in_list [OF assms(1), of "due_query now" k] have "k \<in> set (j # js)"
    using l(1) by simp
  with list_sorted [OF assms(1), of "due_query now"] order.refl show ?thesis
    by (auto simp: l claim_job_def)
qed

end

section \<open>Properties of the component\<close>

text \<open>A job and a run for the concrete instances.\<close>

definition demo_input :: job_input where
  "demo_input = \<lparr>ji_job_id = ''j1'', ji_kind = Heartbeat_scan, ji_payload = P_heartbeat_scan 90,
     ji_metadata = None, ji_available_at = None, ji_max_attempts = None\<rparr>"

definition demo_time :: "nat \<Rightarrow> string" where
  "demo_time n = iso_string (int n * 60000)"

definition demo_ops :: "queue_op list" where
  "demo_ops = [Op_enqueue demo_input (demo_time 0), Op_claim ''w1'' (demo_time 1),
     Op_heartbeat ''j1'' (demo_time 2)]"

lemma demo_automatic: "list_all automatic demo_ops"
  by (simp add: demo_ops_def automatic_def)

lemma demo_runs: "\<exists>j. getJob (memory_repository str_le) ''j1''
    (run_ops (memory_repository str_le) DEFAULT_RETRY_POLICY demo_ops empty_memory) = Some j"
proof -
  let ?R = "memory_repository str_le"
  let ?s = "apply_op ?R DEFAULT_RETRY_POLICY (Op_enqueue demo_input (demo_time 0)) empty_memory"
  have "mem_getJob ''j1'' ?s \<noteq> None"
    by (simp add: enqueue_def after_call_def Let_def demo_input_def createRuntimeJob_def memory_get_save)
  then obtain j where j: "getJob ?R ''j1'' ?s = Some j" by auto
  have ok: "memory_ok ?s" by (rule memory.ok_apply) (rule memory_ok_empty)
  from memory.run_get [OF ok j, of DEFAULT_RETRY_POLICY "tl demo_ops"] show ?thesis
    by (auto simp: demo_ops_def)
qed

lemma all_bounded_empty: "all_bounded (memory_repository lc) empty_memory"
  by (simp add: all_bounded_def)

text \<open>
  C3: A job handed to a worker is handed to nobody else, through any operations, until that
  job fails, is retried by an operator, or stale jobs are recovered.
\<close>

theorem claimed_job_exclusive:
  assumes "memory_ok s" and "claimNext (memory_repository lc) w now s = (Some j, s')"
    and "list_all (\<lambda>op. \<not> releases (job_id j) op) ops"
  shows "claims (memory_repository lc) pol (job_id j) ops s' = 0"
  using memory.claimed_held [OF assms(1,2)] assms(3) by (blast intro: memory.held_not_claimed)

theorem claimed_job_exclusive_witness:
  "\<exists>j s'. claimNext (memory_repository str_le) ''w'' (demo_time 1)
      (mem_saveJob (createRuntimeJob demo_input (demo_time 0) DEFAULT_RETRY_POLICY) empty_memory) = (Some j, s') \<and>
    claims (memory_repository str_le) DEFAULT_RETRY_POLICY (job_id j)
      [Op_claim ''w2'' (demo_time 2), Op_heartbeat (job_id j) (demo_time 3), Op_claim ''w3'' (demo_time 4)] s' = 0"
proof -
  let ?s = "mem_saveJob (createRuntimeJob demo_input (demo_time 0) DEFAULT_RETRY_POLICY) empty_memory"
  have ok: "memory_ok ?s" by (intro memory_ok_save memory_ok_empty)
  have le: "str_le (demo_time 0) (demo_time 1)"
    unfolding demo_time_def by (subst iso_string_le_iff) simp_all
  have g: "getJob (memory_repository str_le) ''j1'' ?s =
      Some (cloneJob (createRuntimeJob demo_input (demo_time 0) DEFAULT_RETRY_POLICY))"
    by (simp add: memory_get_save createRuntimeJob_def demo_input_def)
  have "job_due (demo_time 1) (cloneJob (createRuntimeJob demo_input (demo_time 0) DEFAULT_RETRY_POLICY))"
    using le by (simp add: job_due_def createRuntimeJob_def demo_input_def)
  with memory.claim_none(1) [OF ok _ g, of "''w''" "demo_time 1"] obtain j where
    "fst (claimNext (memory_repository str_le) ''w'' (demo_time 1) ?s) = Some j" by auto
  then obtain s' where c: "claimNext (memory_repository str_le) ''w'' (demo_time 1) ?s = (Some j, s')"
    by (metis prod.collapse)
  have "claims (memory_repository str_le) DEFAULT_RETRY_POLICY (job_id j)
      [Op_claim ''w2'' (demo_time 2), Op_heartbeat (job_id j) (demo_time 3), Op_claim ''w3'' (demo_time 4)] s' = 0"
    by (rule claimed_job_exclusive [OF ok c]) (simp add: releases_def)
  with c show ?thesis by blast
qed

text \<open>
  C4: Failing a stored job with attempts left puts it back, due exactly from its delay on:
  the base delay, doubled per earlier attempt under the exponential strategy and never above
  the cap; without attempts left it is dead and keeps its time of availability. No other job
  changes.
\<close>

theorem failed_job_outcome:
  assumes "memory_ok s" and "getJob (memory_repository lc) i s = Some j"
    and "date_parse now = Some t" and "0 \<le> t + d" and "t + d < four_digit_limit"
    and "d = min (if rp_strategy pol = Fixed then rp_base_delay_ms pol
                  else rp_base_delay_ms pol * 2 ^ nat (job_attempts j - 1)) (rp_max_delay_ms pol)"
  shows "\<exists>j' s'. fail (memory_repository lc) pol i e now s = Inr (j', s') \<and>
    getJob (memory_repository lc) i s' = Some j' \<and>
    (\<forall>k. k \<noteq> i \<longrightarrow> getJob (memory_repository lc) k s' = getJob (memory_repository lc) k s) \<and>
    (if job_attempts j < job_max_attempts j
     then job_status j' = Retrying \<and>
       (\<forall>u. 0 \<le> u \<and> u < four_digit_limit \<longrightarrow> (job_due (iso_string u) j' \<longleftrightarrow> t + d \<le> u))
     else job_status j' = Dead_lettered \<and> job_available_at j' = job_available_at j)"
proof (cases "job_attempts j < job_max_attempts j")
  case True
  have "nat (max (job_attempts j - 1) 0) = nat (job_attempts j - 1)" by (simp add: max_def)
  then have d: "retry_delay j pol = d" by (simp add: retry_delay_def assms(6) Let_def)
  have "\<bar>t + retry_delay j pol\<bar> \<le> max_time" using assms(4,5) d by simp
  from memory.fail_retry [OF assms(1,2) True assms(3) this, of e] obtain j' s' where
    f: "fail (memory_repository lc) pol i e now s = Inr (j', s')" "getJob (memory_repository lc) i s' = Some j'"
      "j' = fail_job e now (Some (iso_string (t + d))) j"
      "\<forall>k. k \<noteq> i \<longrightarrow> getJob (memory_repository lc) k s' = getJob (memory_repository lc) k s"
    unfolding d by blast
  with True show ?thesis using fail_job_due [OF True assms(4,5), of _ e now] by (auto simp: fail_job_simps)
next
  case False
  with memory.fail_dead [OF assms(1,2) False, of pol e now] show ?thesis by (auto simp: fail_job_simps)
qed

theorem failed_job_outcome_witness:
  "\<exists>j' s'. fail (memory_repository str_le) DEFAULT_RETRY_POLICY ''j1'' ''boom'' (demo_time 1)
      (mem_saveJob (createRuntimeJob demo_input (demo_time 0) DEFAULT_RETRY_POLICY) empty_memory) = Inr (j', s') \<and>
    job_status j' = Retrying \<and> \<not> job_due (iso_string 89999) j' \<and> job_due (iso_string 90000) j'"
proof -
  let ?j = "createRuntimeJob demo_input (demo_time 0) DEFAULT_RETRY_POLICY"
  have ok: "memory_ok (mem_saveJob ?j empty_memory)" by (intro memory_ok_save memory_ok_empty)
  have g: "getJob (memory_repository str_le) ''j1'' (mem_saveJob ?j empty_memory) = Some (cloneJob ?j)"
    by (simp add: memory_get_save createRuntimeJob_def demo_input_def)
  have t: "date_parse (demo_time 1) = Some 60000"
    unfolding demo_time_def by (subst date_parse_iso_string) simp_all
  have a: "job_attempts (cloneJob ?j) = 0" "job_max_attempts (cloneJob ?j) = 3"
    by (simp_all add: createRuntimeJob_def demo_input_def DEFAULT_RETRY_POLICY_def)
  have d: "(30000 :: int) = min (if rp_strategy DEFAULT_RETRY_POLICY = Fixed then rp_base_delay_ms DEFAULT_RETRY_POLICY
      else rp_base_delay_ms DEFAULT_RETRY_POLICY * 2 ^ nat (job_attempts (cloneJob ?j) - 1))
      (rp_max_delay_ms DEFAULT_RETRY_POLICY)"
    unfolding a by (simp add: DEFAULT_RETRY_POLICY_def)
  obtain j' s' where f: "fail (memory_repository str_le) DEFAULT_RETRY_POLICY ''j1'' ''boom'' (demo_time 1)
      (mem_saveJob ?j empty_memory) = Inr (j', s')" "job_status j' = Retrying"
      "\<forall>u. 0 \<le> u \<and> u < four_digit_limit \<longrightarrow> (job_due (iso_string u) j' \<longleftrightarrow> 60000 + 30000 \<le> u)"
    using failed_job_outcome [OF ok g t _ _ d, of "''boom''"] a by auto
  from f(3) have "\<not> job_due (iso_string 89999) j'" "job_due (iso_string 90000) j'" by simp_all
  with f(1,2) show ?thesis by blast
qed

text \<open>
  C26: Starting from the empty in-memory repository, no run of the queue, an operator's
  retry apart, attempts a job more often than its bound, or more often than once when it was
  enqueued with the bound nought, which the queue runs all the same; a job that can still be
  claimed has an attempt left.
\<close>

theorem attempts_bounded:
  assumes "list_all automatic ops"
    and "getJob (memory_repository lc) i (run_ops (memory_repository lc) pol ops empty_memory) = Some j"
  shows "job_attempts j \<le> max 1 (job_max_attempts j) \<and>
    (job_status j = Queued \<or> job_status j = Retrying \<longrightarrow> job_attempts j < max 1 (job_max_attempts j))"
proof -
  have "all_bounded (memory_repository lc) (run_ops (memory_repository lc) pol ops empty_memory)"
    using assms(1) by (intro memory.run_bounded memory_ok_empty all_bounded_empty)
  with assms(2) show ?thesis unfolding all_bounded_def job_bounded_def by blast
qed

theorem attempts_bounded_witness:
  "\<exists>j. getJob (memory_repository str_le) ''j1''
      (run_ops (memory_repository str_le) DEFAULT_RETRY_POLICY demo_ops empty_memory) = Some j \<and>
    job_attempts j \<le> max 1 (job_max_attempts j)"
  using demo_runs attempts_bounded [OF demo_automatic] by blast

text \<open>
  C27: With the in-memory repository, whose jobs are stored under their own ids, a claim
  taken as one step hands out nothing only when no job is due, and then changes nothing;
  otherwise it hands out a due job whose time of availability no due job precedes, in the
  order the repository sorts by (any collation), marked as running for the worker with one
  more attempt, and changes no other job.
\<close>

theorem claim_earliest_due:
  assumes "collation lc" and "memory_ok s"
  shows "case claimNext (memory_repository lc) w now s of
      (None, s') \<Rightarrow> s' = s \<and> (\<forall>i. case getJob (memory_repository lc) i s of None \<Rightarrow> True | Some k \<Rightarrow> \<not> job_due now k)
    | (Some j', s') \<Rightarrow> \<exists>j. getJob (memory_repository lc) (job_id j) s = Some j \<and> job_due now j \<and>
        (\<forall>i k. getJob (memory_repository lc) i s = Some k \<and> job_due now k \<longrightarrow>
           lc (job_available_at j) (job_available_at k)) \<and>
        j' = j\<lparr>job_status := Running, job_attempts := job_attempts j + 1, job_claimed_by := Some w,
          job_started_at := Some now, job_heartbeat_at := Some now, job_updated_at := now\<rparr> \<and>
        (\<forall>k. getJob (memory_repository lc) k s' =
           (if k = job_id j then Some j' else getJob (memory_repository lc) k s))"
proof (cases "claimNext (memory_repository lc) w now s")
  case (Pair r s')
  show ?thesis
  proof (cases r)
    case None
    with Pair memory.claim_none [OF assms(2), of lc w now] show ?thesis by (auto split: option.split)
  next
    case (Some j')
    with Pair have c: "claimNext (memory_repository lc) w now s = (Some j', s')" by simp
    from memory.claim_some [OF assms(2) c] obtain j where
      j: "getJob (memory_repository lc) (job_id j) s = Some j" "job_due now j" "j' = claim_job w now j"
        "s' = saveJob (memory_repository lc) j' s" "cloneJob j' = j'" by blast
    have "lc (job_available_at j) (job_available_at k)"
      if "getJob (memory_repository lc) i s = Some k" "job_due now k" for i k
      using ordered_job_store.claim_earliest [OF memory_ordered [OF assms(1)] assms(2) c that] j(3)
      by (simp add: claim_job_def)
    moreover have "getJob (memory_repository lc) k s' =
        (if k = job_id j then Some j' else getJob (memory_repository lc) k s)" for k
      using memory.get_save [OF assms(2), of lc k j'] j by (simp add: claim_job_simps)
    ultimately have "\<exists>j. getJob (memory_repository lc) (job_id j) s = Some j \<and> job_due now j \<and>
        (\<forall>i k. getJob (memory_repository lc) i s = Some k \<and> job_due now k \<longrightarrow>
           lc (job_available_at j) (job_available_at k)) \<and> j' = claim_job w now j \<and>
        (\<forall>k. getJob (memory_repository lc) k s' =
           (if k = job_id j then Some j' else getJob (memory_repository lc) k s))"
      using j(1-3) by blast
    then show ?thesis unfolding Pair Some prod.case option.case claim_job_def .
  qed
qed

theorem claim_earliest_due_witness:
  "\<exists>j s'. claimNext (memory_repository str_le) ''w'' (demo_time 1)
      (mem_saveJob (createRuntimeJob demo_input (demo_time 0) DEFAULT_RETRY_POLICY) empty_memory) = (Some j, s') \<and>
    job_status j = Running"
proof -
  let ?s = "mem_saveJob (createRuntimeJob demo_input (demo_time 0) DEFAULT_RETRY_POLICY) empty_memory"
  have ok: "memory_ok ?s" by (intro memory_ok_save memory_ok_empty)
  have g: "getJob (memory_repository str_le) ''j1'' ?s =
      Some (cloneJob (createRuntimeJob demo_input (demo_time 0) DEFAULT_RETRY_POLICY))"
    by (simp add: memory_get_save createRuntimeJob_def demo_input_def)
  have "str_le (demo_time 0) (demo_time 1)"
    unfolding demo_time_def by (subst iso_string_le_iff) simp_all
  then have due: "job_due (demo_time 1) (cloneJob (createRuntimeJob demo_input (demo_time 0) DEFAULT_RETRY_POLICY))"
    by (simp add: job_due_def createRuntimeJob_def demo_input_def)
  obtain r s' where c: "claimNext (memory_repository str_le) ''w'' (demo_time 1) ?s = (r, s')"
    by (cases "claimNext (memory_repository str_le) ''w'' (demo_time 1) ?s")
  note claim = claim_earliest_due [OF code_units.collation_axioms ok, where w = "''w''" and now = "demo_time 1",
      unfolded c prod.case]
  show ?thesis
  proof (cases r)
    case None
    with claim have "case getJob (memory_repository str_le) ''j1'' ?s of None \<Rightarrow> True | Some k \<Rightarrow> \<not> job_due (demo_time 1) k"
      unfolding None option.case by blast
    with g due show ?thesis by simp
  next
    case (Some j)
    with claim have "job_status j = Running" by auto
    with c Some show ?thesis by blast
  qed
qed

text \<open>
  The attempts recorded with a job are exactly the number of times the run handed it out,
  whatever operations the run mixes.
\<close>

theorem attempts_count_claims:
  assumes "getJob (memory_repository lc) i (run_ops (memory_repository lc) pol ops empty_memory) = Some j"
  shows "job_attempts j = claims (memory_repository lc) pol i ops empty_memory"
proof (rule memory.run_get_new [OF memory_ok_empty _ assms])
  show "getJob (memory_repository lc) i empty_memory = None" by simp
qed

theorem attempts_count_claims_witness:
  "\<exists>j. getJob (memory_repository str_le) ''j1''
      (run_ops (memory_repository str_le) DEFAULT_RETRY_POLICY demo_ops empty_memory) = Some j \<and>
    job_attempts j = claims (memory_repository str_le) DEFAULT_RETRY_POLICY ''j1'' demo_ops empty_memory"
proof -
  from demo_runs obtain j where j: "getJob (memory_repository str_le) ''j1''
      (run_ops (memory_repository str_le) DEFAULT_RETRY_POLICY demo_ops empty_memory) = Some j" ..
  from attempts_count_claims [OF j] j show ?thesis by (intro exI conjI)
qed

text \<open>
  Recovery changes exactly the running jobs whose last sign of life is not more recent than
  the limit: those with attempts left are retried at once, the others are dead; the two
  lists name them.
\<close>

theorem recovery_exact:
  assumes "memory_ok s" and "getJob (memory_repository lc) i s = Some j"
    and "recoverInterruptedJobs (memory_repository lc) ms now s = ((retried, dead), s')"
    and "interrupted = (job_status j = Running \<and> \<not> elapsed_less now (last_sign_of_life j) ms)"
  shows "getJob (memory_repository lc) i s' = Some (if interrupted then recover_job now j else j) \<and>
    (i \<in> set retried \<longleftrightarrow> interrupted \<and> job_attempts j < job_max_attempts j) \<and>
    (i \<in> set dead \<longleftrightarrow> interrupted \<and> \<not> job_attempts j < job_max_attempts j) \<and>
    (interrupted \<longrightarrow> job_status (recover_job now j) =
       (if job_attempts j < job_max_attempts j then Retrying else Dead_lettered))"
  using memory.recover_get(2) [OF assms(1), of lc i ms now] memory.recover_ids [OF assms(1), of i lc ms now]
    assms(2,3,4) by (simp add: recover_job_simps)

theorem recovery_exact_witness:
  "\<exists>s j. getJob (memory_repository str_le) ''j1'' s = Some j \<and> job_status j = Running \<and>
    ''j1'' \<in> set (fst (fst (recoverInterruptedJobs (memory_repository str_le) 60000 (demo_time 5) s)))"
proof -
  let ?j = "(cloneJob (createRuntimeJob demo_input (demo_time 0) DEFAULT_RETRY_POLICY))\<lparr>job_status := Running,
     job_heartbeat_at := Some (demo_time 1)\<rparr>"
  let ?s = "mem_saveJob ?j empty_memory"
  have ok: "memory_ok ?s" by (intro memory_ok_save memory_ok_empty)
  have g: "getJob (memory_repository str_le) ''j1'' ?s = Some ?j"
    by (simp add: memory_get_save createRuntimeJob_def demo_input_def cloneJob_def empty_metadata_def)
  obtain retried dead s' where r: "recoverInterruptedJobs (memory_repository str_le) 60000 (demo_time 5) ?s = ((retried, dead), s')"
    by (metis prod.collapse)
  have "date_parse (demo_time n) = Some (int n * 60000)" if "n \<le> 5" for n
    unfolding demo_time_def using that by (intro date_parse_iso_string) simp
  then have "\<not> elapsed_less (demo_time 5) (last_sign_of_life ?j) 60000"
    by (simp add: elapsed_less_def last_sign_of_life_def)
  then have i: "True = (job_status ?j = Running \<and> \<not> elapsed_less (demo_time 5) (last_sign_of_life ?j) 60000)"
    by simp
  have "job_attempts ?j < job_max_attempts ?j"
    by (simp add: createRuntimeJob_def demo_input_def DEFAULT_RETRY_POLICY_def)
  then have "''j1'' \<in> set retried" using recovery_exact [OF ok g r i] by simp
  then show ?thesis by (intro exI [of _ ?s] exI [of _ ?j] conjI) (use g r in simp_all)
qed

text \<open>
  The metrics count every listed job once by status, and the queue depths by kind add up to
  the queued and the retrying jobs.
\<close>

theorem metrics_partition:
  "(let m = getMetrics R s in
     qm_total m = length (listJobs R any_job s) \<and>
     qm_queued m + qm_running m + qm_retrying m + qm_completed m + qm_failed m + qm_dead_lettered m = qm_total m \<and>
     (\<Sum>k \<leftarrow> RUNTIME_JOB_KINDS. qm_depth m k) = qm_queued m + qm_retrying m)"
proof -
  have split: "length (filter (\<lambda>j. job_status j = Queued \<or> job_status j = Retrying) jobs) =
      count_status Queued jobs + count_status Retrying jobs" for jobs
    by (induction jobs) (auto simp: count_status_def)
  have depth: "qm_depth (foldl count_job m jobs) = (\<lambda>k. qm_depth m k +
      length (filter (\<lambda>j. job_kind j = k \<and> (job_status j = Queued \<or> job_status j = Retrying)) jobs))" for m jobs
    by (rule ext) (rule fold_count(8))
  show ?thesis
    using status_partition [of "listJobs R any_job s"]
      kinds_partition [of "\<lambda>j. job_status j = Queued \<or> job_status j = Retrying" "listJobs R any_job s"]
    by (simp add: getMetrics_def Let_def fold_count(1-7) depth createEmptyQueueMetrics_def split)
qed

text \<open>
  An operator's retry puts a dead job back without resetting its attempts, so the next claim
  takes it past its bound.
\<close>

theorem retry_exceeds_bound:
  assumes "memory_ok s" and "getJob (memory_repository lc) i s = Some j"
    and "job_attempts j = job_max_attempts j" and "collation lc"
    and "\<forall>k. k \<noteq> i \<longrightarrow> getJob (memory_repository lc) k s = None"
    and "retryFailedJob (memory_repository lc) i now s = Inr (j', s')"
  shows "\<exists>k s''. claimNext (memory_repository lc) w now s' = (Some k, s'') \<and> job_id k = i \<and>
    job_attempts k = job_max_attempts k + 1"
proof -
  have id: "job_id j = i" and c: "cloneJob j = j" using memory.get_id [OF assms(1,2)] by simp_all
  have j': "s' = mem_saveJob j' s" "job_status j' = Retrying" "job_available_at j' = now"
      "job_attempts j' = job_attempts j" "job_max_attempts j' = job_max_attempts j" "job_id j' = i"
      "md_worker_notes (job_metadata j') \<noteq> None"
    using assms(2,6) c id by (auto simp: retryFailedJob_def mustGetJob_def Let_def clone_eq_iff)
  then have "cloneJob j' = j'" by (simp add: clone_eq_iff)
  have ok: "memory_ok s'" unfolding j'(1) by (rule memory_ok_save [OF assms(1)])
  have get: "getJob (memory_repository lc) k s' = (if k = i then Some j' else None)" for k
    using assms(5) j'(6) \<open>cloneJob j' = j'\<close> by (simp add: j'(1) memory_get_save)
  have due: "job_due now j'" using j'(2,3) by (simp add: job_due_def)
  obtain r s'' where cl: "claimNext (memory_repository lc) w now s' = (r, s'')"
    by (cases "claimNext (memory_repository lc) w now s'")
  from memory.claim_none(1) [OF ok, of lc w now i j'] get due cl obtain k where k: "r = Some k" by auto
  from memory.claim_some [OF ok cl [unfolded k]] obtain m where
    "getJob (memory_repository lc) (job_id m) s' = Some m" "k = claim_job w now m" by blast
  then have "k = claim_job w now j'" using get [of "job_id m"] by (simp split: if_splits)
  with cl k j' assms(3) show ?thesis by (simp add: claim_job_simps)
qed

theorem retry_exceeds_bound_witness:
  "\<exists>s k s''. claimNext (memory_repository str_le) ''w'' (demo_time 1) s = (Some k, s'') \<and>
    job_attempts k = job_max_attempts k + 1"
proof -
  let ?j = "(cloneJob (createRuntimeJob demo_input (demo_time 0) DEFAULT_RETRY_POLICY))\<lparr>job_status := Dead_lettered,
     job_attempts := 3\<rparr>"
  let ?s = "mem_saveJob ?j empty_memory"
  have ok: "memory_ok ?s" by (intro memory_ok_save memory_ok_empty)
  have g: "getJob (memory_repository str_le) ''j1'' ?s = Some ?j"
    by (simp add: memory_get_save createRuntimeJob_def demo_input_def cloneJob_def empty_metadata_def)
  have n: "\<forall>k. k \<noteq> ''j1'' \<longrightarrow> getJob (memory_repository str_le) k ?s = None"
    by (simp add: memory_get_save createRuntimeJob_def demo_input_def)
  have a: "job_attempts ?j = job_max_attempts ?j"
    by (simp add: createRuntimeJob_def demo_input_def DEFAULT_RETRY_POLICY_def)
  obtain j' s' where r: "retryFailedJob (memory_repository str_le) ''j1'' (demo_time 1) ?s = Inr (j', s')"
    using g by (simp add: retryFailedJob_def mustGetJob_def Let_def)
  from retry_exceeds_bound [OF ok g a code_units.collation_axioms n r, of "''w''"] show ?thesis by blast
qed

end
