(* ===== verification/Worker_Pool.thy ===== *)
theory Worker_Pool
  imports Queue_Backend
begin

text \<open>
  The worker pool over the queue, \<^verbatim>\<open>src/runtime-app/workers/pool.ts\<close>. A handler is a
  parameter: it reads a job and the repository's state and returns the notes of its result or
  the message it throws, and the state it leaves. A method that may throw returns the message
  beside the state reached, since the code keeps what it wrote before throwing.
\<close>

section \<open>State\<close>

type_synonym 's job_handler = "runtime_job \<Rightarrow> 's \<Rightarrow> (string + string list option) \<times> 's"

record 's worker_pool =
  wp_workers :: "(string, worker_snapshot) js_map"
  wp_handlers :: "(job_kind, 's job_handler) js_map"
  wp_stale_after_ms :: int
  wp_store :: 's

type_synonym 's pool_result = "string option \<times> 's worker_pool"

definition initial_worker :: "string \<Rightarrow> worker_snapshot" where
  "initial_worker workerId =
     \<lparr>wk_id = workerId, wk_status = WS_idle, wk_last_heartbeat_at = iso_string 0,
      wk_current_job_id = None, wk_processed = 0, wk_failed = 0, wk_last_error = None\<rparr>"

definition new_pool :: "string list \<Rightarrow> int option \<Rightarrow> 's \<Rightarrow> 's worker_pool" where
  "new_pool worker_ids stale_after_ms s =
     \<lparr>wp_workers = foldl (\<lambda>m i. jm_set m i (initial_worker i)) [] worker_ids,
      wp_handlers = [], wp_stale_after_ms = nullish stale_after_ms 90000, wp_store = s\<rparr>"

definition registerHandler :: "job_kind \<Rightarrow> 's job_handler \<Rightarrow> 's worker_pool \<Rightarrow> 's worker_pool" where
  "registerHandler kind handler p = p\<lparr>wp_handlers := jm_set (wp_handlers p) kind handler\<rparr>"

text \<open>The pool's map entry and the repository's copy are written together.\<close>

definition put_worker ::
  "'s queue_repository \<Rightarrow> string \<Rightarrow> worker_snapshot \<Rightarrow> 's worker_pool \<Rightarrow> 's worker_pool" where
  "put_worker R workerId w p =
     p\<lparr>wp_workers := jm_set (wp_workers p) workerId w, wp_store := saveWorker R w (wp_store p)\<rparr>"

definition mustGetWorker :: "string \<Rightarrow> 's worker_pool \<Rightarrow> worker_snapshot outcome" where
  "mustGetWorker workerId p =
     (case jm_get (wp_workers p) workerId of
        None \<Rightarrow> Inl (''Unknown worker '' @ workerId)
      | Some w \<Rightarrow> Inr w)"

section \<open>Heartbeats\<close>

definition recordHeartbeat ::
  "'s queue_repository \<Rightarrow> string \<Rightarrow> string \<Rightarrow> 's worker_pool \<Rightarrow> 's pool_result" where
  "recordHeartbeat R workerId now p =
     (case mustGetWorker workerId p of
        Inl e \<Rightarrow> (Some e, p)
      | Inr snapshot \<Rightarrow> (None, put_worker R workerId (snapshot\<lparr>wk_last_heartbeat_at := now\<rparr>) p))"

fun monitor_loop ::
  "'s queue_repository \<Rightarrow> string \<Rightarrow> (string \<times> worker_snapshot) list \<Rightarrow> 's worker_pool \<Rightarrow> string list \<times> 's worker_pool" where
  "monitor_loop R now [] p = ([], p)"
| "monitor_loop R now ((workerId, worker) # rest) p =
     (let isStale = elapsed_more now (wk_last_heartbeat_at worker) (wp_stale_after_ms p);
          status = (if isStale \<and> wk_status worker \<noteq> WS_busy then WS_offline else wk_status worker);
          nxt = (if status = wk_status worker then worker else worker\<lparr>wk_status := status\<rparr>)
      in case monitor_loop R now rest (put_worker R workerId nxt p) of
           (staleWorkers, p') \<Rightarrow> (if isStale then workerId # staleWorkers else staleWorkers, p'))"

definition monitorHeartbeats ::
  "'s queue_repository \<Rightarrow> string \<Rightarrow> 's worker_pool \<Rightarrow> string list \<times> 's worker_pool" where
  "monitorHeartbeats R now p = monitor_loop R now (wp_workers p) p"

definition buildObservabilitySnapshot ::
  "'s queue_repository \<Rightarrow> string \<Rightarrow> 's worker_pool \<Rightarrow> observability_snapshot" where
  "buildObservabilitySnapshot R generatedAt p =
     (let workers = listWorkers R (wp_store p) in
      \<lparr>ob_generated_at = generatedAt, ob_metrics = getMetrics R (wp_store p), ob_workers = workers,
       ob_stale_workers = map wk_id (filter (\<lambda>w.
         elapsed_more generatedAt (wk_last_heartbeat_at w) (wp_stale_after_ms p)) workers),
       ob_failed_job_ids = summarizeFailedJobIds R (wp_store p)\<rparr>)"

section \<open>A worker's cycle\<close>

definition failWorkerJob ::
  "'s queue_repository \<Rightarrow> retry_policy \<Rightarrow> string \<Rightarrow> string \<Rightarrow> string \<Rightarrow> string \<Rightarrow> 's worker_pool \<Rightarrow> 's pool_result" where
  "failWorkerJob R pol workerId jobId error now p =
     (case fail R pol jobId error now (wp_store p) of
        Inl e \<Rightarrow> (Some e, p)
      | Inr (_, s) \<Rightarrow>
          let p' = p\<lparr>wp_store := s\<rparr> in
          (case mustGetWorker workerId p' of
             Inl e \<Rightarrow> (Some e, p')
           | Inr worker \<Rightarrow>
               (None, put_worker R workerId
                  (worker\<lparr>wk_status := WS_error, wk_current_job_id := None,
                          wk_failed := wk_failed worker + 1, wk_last_error := Some error,
                          wk_last_heartbeat_at := now\<rparr>) p')))"

text \<open>The \<^verbatim>\<open>try\<close> block: the handler's error, or one thrown by completing, is caught.\<close>

definition run_handler ::
  "'s queue_repository \<Rightarrow> retry_policy \<Rightarrow> 's job_handler \<Rightarrow> runtime_job \<Rightarrow> string \<Rightarrow> worker_snapshot \<Rightarrow>
   string \<Rightarrow> 's worker_pool \<Rightarrow> 's pool_result" where
  "run_handler R pol handler job workerId busy now p =
     (case handler job (wp_store p) of
        (Inl message, s) \<Rightarrow>
          failWorkerJob R pol workerId (job_id job) message now (p\<lparr>wp_store := s\<rparr>)
      | (Inr notes, s) \<Rightarrow>
          (case complete R (job_id job) now notes s of
             Inl message \<Rightarrow>
               failWorkerJob R pol workerId (job_id job) message now (p\<lparr>wp_store := s\<rparr>)
           | Inr (_, s') \<Rightarrow>
               (None, put_worker R workerId
                  (busy\<lparr>wk_status := WS_idle, wk_current_job_id := None,
                        wk_processed := wk_processed busy + 1, wk_last_heartbeat_at := now,
                        wk_last_error := None\<rparr>) (p\<lparr>wp_store := s'\<rparr>))))"

definition runWorkerCycle ::
  "'s queue_repository \<Rightarrow> retry_policy \<Rightarrow> string \<Rightarrow> string \<Rightarrow> 's worker_pool \<Rightarrow> 's pool_result" where
  "runWorkerCycle R pol workerId now p =
     (case mustGetWorker workerId p of
        Inl e \<Rightarrow> (Some e, p)
      | Inr current \<Rightarrow>
          let ready = current\<lparr>wk_status := WS_idle, wk_current_job_id := None,
                              wk_last_heartbeat_at := now\<rparr>;
              p1 = put_worker R workerId ready p
          in (case claimNext R workerId now (wp_store p1) of
                (None, s) \<Rightarrow> (None, p1\<lparr>wp_store := s\<rparr>)
              | (Some job, s) \<Rightarrow>
                  let p2 = p1\<lparr>wp_store := s\<rparr> in
                  (case jm_get (wp_handlers p2) (job_kind job) of
                     None \<Rightarrow>
                       failWorkerJob R pol workerId (job_id job)
                         (''No handler registered for '' @ job_kind_str (job_kind job)) now p2
                   | Some handler \<Rightarrow>
                       let busy = ready\<lparr>wk_status := WS_busy, wk_current_job_id := Some (job_id job),
                                        wk_last_heartbeat_at := now\<rparr>
                       in run_handler R pol handler job workerId busy now
                            (put_worker R workerId busy p2))))"

fun cycle_loop ::
  "'s queue_repository \<Rightarrow> retry_policy \<Rightarrow> string list \<Rightarrow> string \<Rightarrow> 's worker_pool \<Rightarrow> 's pool_result" where
  "cycle_loop R pol [] now p = (None, p)"
| "cycle_loop R pol (workerId # ids) now p =
     (case runWorkerCycle R pol workerId now p of
        (Some e, p') \<Rightarrow> (Some e, p')
      | (None, p') \<Rightarrow> cycle_loop R pol ids now p')"

definition runCycle ::
  "'s queue_repository \<Rightarrow> retry_policy \<Rightarrow> string \<Rightarrow> 's worker_pool \<Rightarrow> 's pool_result" where
  "runCycle R pol now p = cycle_loop R pol (jm_keys (wp_workers p)) now p"

section \<open>What a cycle does\<close>

text \<open>A time from which every retry of the policy is still a date.\<close>

definition retry_time_ok :: "retry_policy \<Rightarrow> string \<Rightarrow> bool" where
  "retry_time_ok pol now \<longleftrightarrow>
     0 \<le> rp_base_delay_ms pol \<and> 0 \<le> rp_max_delay_ms pol \<and>
     (case date_parse now of None \<Rightarrow> False | Some t \<Rightarrow> 0 \<le> t \<and> t + rp_max_delay_ms pol \<le> max_time)"

lemma retry_time_ok:
  "retry_time_ok pol now \<Longrightarrow> \<exists>t. date_parse now = Some t \<and> \<bar>t + retry_delay j pol\<bar> \<le> max_time"
  using retry_delay_cap [of j pol] retry_delay_nonneg [of pol j]
  by (auto simp: retry_time_ok_def split: option.splits)

text \<open>A handler that leaves its own job's record to the pool.\<close>

definition handler_keeps :: "'s queue_repository \<Rightarrow> ('s \<Rightarrow> bool) \<Rightarrow> 's job_handler \<Rightarrow> bool" where
  "handler_keeps R ok h \<longleftrightarrow> (\<forall>job s. ok s \<longrightarrow>
     ok (snd (h job s)) \<and> getJob R (job_id job) (snd (h job s)) = getJob R (job_id job) s)"

definition worker_at_rest :: "string \<Rightarrow> worker_snapshot \<Rightarrow> bool" where
  "worker_at_rest now w \<longleftrightarrow> (wk_status w = WS_idle \<or> wk_status w = WS_error) \<and>
     wk_current_job_id w = None \<and> wk_last_heartbeat_at w = now"

definition job_settled :: "runtime_job \<Rightarrow> bool" where
  "job_settled j \<longleftrightarrow> job_status j = Completed \<or> job_status j = Retrying \<or> job_status j = Dead_lettered"

definition work_done :: "worker_snapshot \<Rightarrow> nat" where
  "work_done w = wk_processed w + wk_failed w"

lemma put_worker_simps [simp]:
  "wp_workers (put_worker R i w p) = jm_set (wp_workers p) i w"
  "wp_handlers (put_worker R i w p) = wp_handlers p"
  "wp_stale_after_ms (put_worker R i w p) = wp_stale_after_ms p"
  "wp_store (put_worker R i w p) = saveWorker R w (wp_store p)"
  by (simp_all add: put_worker_def)

text \<open>What one worker's turn on a claimed job leaves.\<close>

definition turn_done ::
  "'s queue_repository \<Rightarrow> ('s \<Rightarrow> bool) \<Rightarrow> string \<Rightarrow> string \<Rightarrow> string \<Rightarrow> nat \<Rightarrow> 's worker_pool \<Rightarrow> 's pool_result \<Rightarrow> bool" where
  "turn_done R ok workerId jobId now n p r \<longleftrightarrow>
     fst r = None \<and> ok (wp_store (snd r)) \<and> wp_handlers (snd r) = wp_handlers p \<and>
     (\<exists>w. wp_workers (snd r) = jm_set (wp_workers p) workerId w \<and> worker_at_rest now w \<and> work_done w = n) \<and>
     (\<exists>j. getJob R jobId (wp_store (snd r)) = Some j \<and> job_settled j)"

text \<open>
  A turn: the worker is at rest with a fresh heartbeat; either nothing was due and no job
  changed, or the claimed job is settled and counted.
\<close>

definition turn_ok ::
  "'s queue_repository \<Rightarrow> ('s \<Rightarrow> bool) \<Rightarrow> string \<Rightarrow> string \<Rightarrow> worker_snapshot \<Rightarrow> 's worker_pool \<Rightarrow> 's pool_result \<Rightarrow> bool" where
  "turn_ok R ok workerId now cur p r \<longleftrightarrow>
     fst r = None \<and> ok (wp_store (snd r)) \<and> wp_handlers (snd r) = wp_handlers p \<and>
     (\<exists>w. wp_workers (snd r) = jm_set (wp_workers p) workerId w \<and> worker_at_rest now w \<and>
        (if \<exists>i j. getJob R i (wp_store p) = Some j \<and> job_due now j
         then work_done w = Suc (work_done cur) \<and>
           (\<exists>i j j'. getJob R i (wp_store p) = Some j \<and> job_due now j \<and>
              getJob R i (wp_store (snd r)) = Some j' \<and> job_settled j')
         else work_done w = work_done cur \<and>
           (\<forall>i. getJob R i (wp_store (snd r)) = getJob R i (wp_store p))))"

context job_store begin

lemma fail_total:
  assumes "ok s" "getJob R i s = Some j" "retry_time_ok pol now"
  shows "\<exists>j' s'. fail R pol i e now s = Inr (j', s') \<and> getJob R i s' = Some j' \<and> job_settled j' \<and> ok s'"
proof -
  have ok: "ok s'" if "fail R pol i e now s = Inr (j', s')" for j' s'
    using ok_apply [OF assms(1), of pol "Op_fail i e now"] that by (simp add: after_call_def)
  obtain t where "date_parse now = Some t" "\<bar>t + retry_delay j pol\<bar> \<le> max_time"
    using retry_time_ok [OF assms(3)] by blast
  with fail_dead [OF assms(1,2), of pol e now] fail_retry [OF assms(1,2), of now t pol e] ok show ?thesis
    by (cases "job_attempts j < job_max_attempts j")
      (fastforce simp: job_settled_def fail_job_simps)+
qed

lemma complete_total:
  assumes "ok s" "getJob R i s = Some j"
  shows "\<exists>j' s'. complete R i now notes s = Inr (j', s') \<and> getJob R i s' = Some j' \<and>
    job_status j' = Completed \<and> ok s'"
  using assms mutate_get [OF assms, of "j\<lparr>job_status := Completed, job_completed_at := Some now,
      job_updated_at := now, job_metadata := mergeWorkerNotes j notes\<rparr>"] ok_save [OF assms(1)]
  by (simp add: complete_def mustGetJob_def Let_def)

lemma failWorkerJob_done:
  assumes "ok (wp_store p)" "getJob R jobId (wp_store p) = Some j" "retry_time_ok pol now"
    and "jm_get (wp_workers p) workerId = Some w"
  shows "turn_done R ok workerId jobId now (Suc (work_done w)) p (failWorkerJob R pol workerId jobId e now p)"
proof -
  obtain j' s' where "fail R pol jobId e now (wp_store p) = Inr (j', s')" "getJob R jobId s' = Some j'"
      "job_settled j'" "ok s'"
    using fail_total [OF assms(1-3)] by blast
  with assms(4) show ?thesis
    by (simp add: turn_done_def failWorkerJob_def mustGetWorker_def Let_def ok_save_worker
        get_save_worker worker_at_rest_def work_done_def exI [of _ w] put_worker_def)
      (rule exI, rule conjI [OF refl], simp)
qed

lemma run_handler_done:
  assumes "ok (wp_store p)" "getJob R (job_id job) (wp_store p) = Some j" "retry_time_ok pol now"
    and "jm_get (wp_workers p) workerId = Some busy" "handler_keeps R ok h"
  shows "turn_done R ok workerId (job_id job) now (Suc (work_done busy)) p
    (run_handler R pol h job workerId busy now p)"
proof -
  obtain r s where r: "h job (wp_store p) = (r, s)" by (cases "h job (wp_store p)")
  with assms(1,2,5) have s: "ok s" "getJob R (job_id job) s = Some j"
    unfolding handler_keeps_def by (metis snd_conv)+
  show ?thesis
  proof (cases r)
    case (Inl m)
    from failWorkerJob_done [of "p\<lparr>wp_store := s\<rparr>", OF _ _ assms(3)] s assms(4) r Inl show ?thesis
      by (simp add: run_handler_def turn_done_def)
  next
    case (Inr ns)
    from complete_total [OF s, of now ns] obtain j' s' where
      c: "complete R (job_id job) now ns s = Inr (j', s')" "getJob R (job_id job) s' = Some j'"
        "job_status j' = Completed" "ok s'" by blast
    with r Inr show ?thesis
      by (auto simp: run_handler_def turn_done_def worker_at_rest_def work_done_def
          ok_save_worker get_save_worker job_settled_def intro!: exI [of _ "busy\<lparr>wk_status := WS_idle,
            wk_current_job_id := None, wk_processed := wk_processed busy + 1,
            wk_last_heartbeat_at := now, wk_last_error := None\<rparr>"])
  qed
qed

lemma runWorkerCycle_ok:
  assumes "ok (wp_store p)" "retry_time_ok pol now" "jm_get (wp_workers p) workerId = Some cur"
    and "\<forall>k h. jm_get (wp_handlers p) k = Some h \<longrightarrow> handler_keeps R ok h"
  shows "turn_ok R ok workerId now cur p (runWorkerCycle R pol workerId now p)"
proof -
  let ?ready = "cur\<lparr>wk_status := WS_idle, wk_current_job_id := None, wk_last_heartbeat_at := now\<rparr>"
  let ?p1 = "put_worker R workerId ?ready p"
  have ok1: "ok (wp_store ?p1)" using assms(1) by (simp add: ok_save_worker)
  have get1: "getJob R i (wp_store ?p1) = getJob R i (wp_store p)" for i by (simp add: get_save_worker)
  obtain c s where cl: "claimNext R workerId now (wp_store ?p1) = (c, s)"
    by (cases "claimNext R workerId now (wp_store ?p1)")
  show ?thesis
  proof (cases c)
    case None
    with claim_none [OF ok1, of workerId now] cl have n:
      "s = wp_store ?p1" "\<not> (\<exists>i j. getJob R i (wp_store p) = Some j \<and> job_due now j)"
      unfolding get1 by auto
    have "runWorkerCycle R pol workerId now p = (None, ?p1)"
      using cl None n(1) assms(3) by (simp add: runWorkerCycle_def mustGetWorker_def Let_def put_worker_def)
    then show ?thesis
      using ok1 get1 n(2) by (auto simp: turn_ok_def worker_at_rest_def work_done_def intro!: exI [of _ ?ready])
  next
    case (Some job)
    with cl have cs: "claimNext R workerId now (wp_store ?p1) = (Some job, s)" by simp
    from claim_some [OF ok1 cs] obtain j where
      j: "getJob R (job_id job) (wp_store p) = Some j" "job_due now j"
      unfolding get1 by (auto simp: claim_job_simps)
    let ?p2 = "?p1\<lparr>wp_store := s\<rparr>"
    note held = claimed_held [OF ok1 cs]
    have "turn_done R ok workerId (job_id job) now (Suc (work_done cur)) p (runWorkerCycle R pol workerId now p)"
    proof (cases "jm_get (wp_handlers p) (job_kind job)")
      case None
      from failWorkerJob_done [of ?p2 "job_id job" job pol now workerId ?ready] held None cs assms(2,3)
      show ?thesis
        by (simp add: runWorkerCycle_def mustGetWorker_def Let_def turn_done_def work_done_def)
    next
      case (Some h)
      let ?busy = "?ready\<lparr>wk_status := WS_busy, wk_current_job_id := Some (job_id job),
        wk_last_heartbeat_at := now\<rparr>"
      from run_handler_done [of "put_worker R workerId ?busy ?p2" job job pol now workerId ?busy h]
        held Some cs assms show ?thesis
        by (simp add: runWorkerCycle_def mustGetWorker_def Let_def turn_done_def work_done_def
            ok_save_worker get_save_worker)
    qed
    with j show ?thesis unfolding turn_done_def turn_ok_def by auto
  qed
qed

lemma cycle_loop_ok:
  "ok (wp_store p) \<Longrightarrow> retry_time_ok pol now \<Longrightarrow>
   \<forall>k h. jm_get (wp_handlers p) k = Some h \<longrightarrow> handler_keeps R ok h \<Longrightarrow>
   set ids \<subseteq> set (jm_keys (wp_workers p)) \<Longrightarrow>
   fst (cycle_loop R pol ids now p) = None \<and> ok (wp_store (snd (cycle_loop R pol ids now p))) \<and>
   jm_keys (wp_workers (snd (cycle_loop R pol ids now p))) = jm_keys (wp_workers p) \<and>
   (\<forall>i. case jm_get (wp_workers (snd (cycle_loop R pol ids now p))) i of
      None \<Rightarrow> True
    | Some w \<Rightarrow> if i \<in> set ids then worker_at_rest now w else jm_get (wp_workers p) i = Some w)"
proof (induction ids arbitrary: p)
  case Nil
  then show ?case by (auto split: option.split)
next
  case (Cons i ids)
  then obtain cur where cur: "jm_get (wp_workers p) i = Some cur"
    by (metis jm_get_None_iff list.set_intros(1) option.exhaust subsetD)
  obtain e p' where r: "runWorkerCycle R pol i now p = (e, p')" by (cases "runWorkerCycle R pol i now p")
  from runWorkerCycle_ok [OF Cons.prems(1,2) cur Cons.prems(3)] r obtain w where
    w: "e = None" "ok (wp_store p')" "wp_handlers p' = wp_handlers p"
      "wp_workers p' = jm_set (wp_workers p) i w" "worker_at_rest now w"
    unfolding turn_ok_def by auto
  have keys: "jm_keys (wp_workers p') = jm_keys (wp_workers p)"
    using Cons.prems(4) by (simp add: w(4))
  have "fst (cycle_loop R pol ids now p') = None \<and> ok (wp_store (snd (cycle_loop R pol ids now p'))) \<and>
     jm_keys (wp_workers (snd (cycle_loop R pol ids now p'))) = jm_keys (wp_workers p') \<and>
     (\<forall>k. case jm_get (wp_workers (snd (cycle_loop R pol ids now p'))) k of
        None \<Rightarrow> True
      | Some w \<Rightarrow> if k \<in> set ids then worker_at_rest now w else jm_get (wp_workers p') k = Some w)"
    using Cons.IH [OF w(2) Cons.prems(2)] Cons.prems(3,4) keys w(3) by simp
  then show ?case
    using r w keys by (auto split: option.splits if_splits)
qed

lemma runCycle_ok:
  assumes "ok (wp_store p)" "retry_time_ok pol now"
    and "\<forall>k h. jm_get (wp_handlers p) k = Some h \<longrightarrow> handler_keeps R ok h"
  shows "fst (runCycle R pol now p) = None"
    and "\<And>i w. jm_get (wp_workers (snd (runCycle R pol now p))) i = Some w \<Longrightarrow> worker_at_rest now w"
    and "jm_keys (wp_workers (snd (runCycle R pol now p))) = jm_keys (wp_workers p)"
proof -
  let ?p' = "snd (runCycle R pol now p)"
  note loop = cycle_loop_ok [OF assms subset_refl, folded runCycle_def]
  from loop show "fst (runCycle R pol now p) = None" by (elim conjE)
  from loop show keys: "jm_keys (wp_workers ?p') = jm_keys (wp_workers p)" by (elim conjE)
  fix i w assume w: "jm_get (wp_workers ?p') i = Some w"
  then have "i \<in> set (jm_keys (wp_workers p))"
    using jm_get_None_iff [of "wp_workers ?p'" i] keys by simp
  moreover from loop have "case jm_get (wp_workers ?p') i of None \<Rightarrow> True
    | Some w \<Rightarrow> if i \<in> set (jm_keys (wp_workers p)) then worker_at_rest now w else jm_get (wp_workers p) i = Some w"
    by (elim conjE) (erule spec)
  ultimately show "worker_at_rest now w" using w by simp
qed

end

section \<open>Properties of the component\<close>

text \<open>A pool with two workers, one due job and a handler for it.\<close>

definition demo_job :: runtime_job where
  "demo_job = createRuntimeJob \<lparr>ji_job_id = ''j1'', ji_kind = Heartbeat_scan,
     ji_payload = P_heartbeat_scan 90, ji_metadata = None, ji_available_at = Some (iso_string 0),
     ji_max_attempts = None\<rparr> (iso_string 0) DEFAULT_RETRY_POLICY"

definition demo_handler :: "memory_repo job_handler" where
  "demo_handler job s = (Inr (Some [''scanned'']), s)"

definition demo_pool :: "memory_repo worker_pool" where
  "demo_pool = registerHandler Heartbeat_scan demo_handler
     (new_pool [''w1'', ''w2''] None (mem_saveJob demo_job empty_memory))"

lemma demo_pool_store: "wp_store demo_pool = mem_saveJob demo_job empty_memory"
  by (simp add: demo_pool_def registerHandler_def new_pool_def)

lemma demo_pool_ok: "memory_ok (wp_store demo_pool)"
  unfolding demo_pool_store by (intro memory_ok_save memory_ok_empty)

lemma demo_pool_handlers:
  "\<forall>k h. jm_get (wp_handlers demo_pool) k = Some h \<longrightarrow> handler_keeps (memory_repository lc) memory_ok h"
  by (auto simp: demo_pool_def registerHandler_def new_pool_def handler_keeps_def demo_handler_def
      jm_get_def split: if_splits)

lemma demo_pool_time: "retry_time_ok DEFAULT_RETRY_POLICY (iso_string 60000)"
  by (simp add: retry_time_ok_def DEFAULT_RETRY_POLICY_def date_parse_iso_string)

lemma demo_pool_due: "\<exists>j. getJob (memory_repository lc) ''j1'' (wp_store demo_pool) = Some j \<and> job_due (iso_string 60000) j"
  using iso_string_le_iff [of 0 60000]
  by (auto simp: demo_pool_store memory_get_save demo_job_def createRuntimeJob_def job_due_def)

text \<open>
  A cycle of the pool over the in-memory repository returns without error and leaves every
  worker idle or in error, with no current job and a fresh heartbeat, whatever the handlers
  return or throw.
\<close>

theorem cycle_leaves_workers_at_rest:
  assumes "memory_ok (wp_store p)" and "retry_time_ok pol now"
    and "\<forall>k h. jm_get (wp_handlers p) k = Some h \<longrightarrow> handler_keeps (memory_repository lc) memory_ok h"
  shows "\<exists>p'. runCycle (memory_repository lc) pol now p = (None, p') \<and>
    jm_keys (wp_workers p') = jm_keys (wp_workers p) \<and>
    list_all (\<lambda>i. case jm_get (wp_workers p') i of None \<Rightarrow> False | Some w \<Rightarrow> worker_at_rest now w)
      (jm_keys (wp_workers p'))"
proof -
  obtain e p' where r: "runCycle (memory_repository lc) pol now p = (e, p')"
    by (cases "runCycle (memory_repository lc) pol now p")
  note ok = memory.runCycle_ok [OF assms, unfolded r, simplified]
  have "case jm_get (wp_workers p') i of None \<Rightarrow> False | Some w \<Rightarrow> worker_at_rest now w"
    if "i \<in> set (jm_keys (wp_workers p'))" for i
    using that ok(2) [of i] jm_get_None_iff [of "wp_workers p'" i] by (auto split: option.split)
  with r ok(1,3) show ?thesis by (auto simp: list_all_iff)
qed

theorem cycle_leaves_workers_at_rest_witness:
  "\<exists>p'. runCycle (memory_repository str_le) DEFAULT_RETRY_POLICY (iso_string 60000) demo_pool = (None, p')"
  using cycle_leaves_workers_at_rest [OF demo_pool_ok demo_pool_time demo_pool_handlers] by blast

text \<open>
  A worker's turn claims a job exactly when one is due; the claimed job ends completed,
  waiting for a retry or dead, and the worker's count of processed and failed jobs grows by
  one. Otherwise no job changes.
\<close>

theorem worker_turn:
  assumes "memory_ok (wp_store p)" and "retry_time_ok pol now" and "jm_get (wp_workers p) workerId = Some cur"
    and "\<forall>k h. jm_get (wp_handlers p) k = Some h \<longrightarrow> handler_keeps (memory_repository lc) memory_ok h"
  shows "\<exists>p' w. runWorkerCycle (memory_repository lc) pol workerId now p = (None, p') \<and>
    wp_workers p' = jm_set (wp_workers p) workerId w \<and> worker_at_rest now w \<and>
    (if \<exists>i j. getJob (memory_repository lc) i (wp_store p) = Some j \<and> job_due now j
     then wk_processed w + wk_failed w = wk_processed cur + wk_failed cur + 1 \<and>
       (\<exists>i j j'. getJob (memory_repository lc) i (wp_store p) = Some j \<and> job_due now j \<and>
          getJob (memory_repository lc) i (wp_store p') = Some j' \<and>
          (job_status j' = Completed \<or> job_status j' = Retrying \<or> job_status j' = Dead_lettered))
     else wk_processed w + wk_failed w = wk_processed cur + wk_failed cur \<and>
       (\<forall>i. getJob (memory_repository lc) i (wp_store p') = getJob (memory_repository lc) i (wp_store p)))"
proof -
  obtain e p' where r: "runWorkerCycle (memory_repository lc) pol workerId now p = (e, p')"
    by (cases "runWorkerCycle (memory_repository lc) pol workerId now p")
  note t = memory.runWorkerCycle_ok [OF assms, unfolded r turn_ok_def work_done_def job_settled_def
      Suc_eq_plus1 fst_conv snd_conv]
  from r have "runWorkerCycle (memory_repository lc) pol workerId now p = (None, p')"
    using t [THEN conjunct1] by (simp only:)
  with t [THEN conjunct2, THEN conjunct2, THEN conjunct2] show ?thesis
    by (elim exE) (rule exI, rule exI, rule conjI, assumption+)
qed

theorem worker_turn_witness:
  "\<exists>p' i j'. runWorkerCycle (memory_repository str_le) DEFAULT_RETRY_POLICY ''w1'' (iso_string 60000) demo_pool = (None, p') \<and>
    getJob (memory_repository str_le) i (wp_store p') = Some j' \<and>
    (job_status j' = Completed \<or> job_status j' = Retrying \<or> job_status j' = Dead_lettered)"
proof -
  have w: "jm_get (wp_workers demo_pool) ''w1'' = Some (initial_worker ''w1'')"
    by (simp add: demo_pool_def registerHandler_def new_pool_def jm_get_def)
  have d: "\<exists>i j. getJob (memory_repository str_le) i (wp_store demo_pool) = Some j \<and> job_due (iso_string 60000) j"
    using demo_pool_due by blast
  from worker_turn [OF demo_pool_ok demo_pool_time w demo_pool_handlers, of str_le, unfolded if_P [OF d]]
  show ?thesis by blast
qed

end
