(* ===== verification/Message_Bus.thy ===== *)
theory Message_Bus
  imports Agent_Registry
begin

text \<open>
  The runtime message bus, \<^verbatim>\<open>src/runtime-app/orchestration/messageBus.ts\<close>: the
  normalisation of a message and its dispatch with retries. The application behind the bus and
  the agents' adapters are parameters: an adapter that sends messages which are answered by
  messages may keep the bus busy forever, so a dispatch has fuel, and running out is
  \<^term>\<open>None\<close>.
\<close>

section \<open>Normalisation\<close>

text \<open>\<open>{ ...payload }\<close> for an object, with an array's elements under their indices.\<close>

fun spread :: "jsval \<Rightarrow> (string \<times> jsval) list" where
  "spread (JObj ps) = ps"
| "spread (JArr vs) = map (\<lambda>(i, v). (nat_str i, v)) (enumerate 0 vs)"
| "spread _ = []"

definition field :: "(string \<times> jsval) list \<Rightarrow> string \<Rightarrow> jsval" where
  "field ps k = get_prop (JObj ps) k"

text \<open>\<open>typeof v === 'string' && v.trim().length > 0\<close>.\<close>

definition non_blank :: "jsval \<Rightarrow> bool" where
  "non_blank v = (case v of JStr s \<Rightarrow> js_trim s \<noteq> [] | _ \<Rightarrow> False)"

text \<open>\<open>payload[k] = non-blank payload[k] ? payload[k] : d\<close>.\<close>

definition default_field :: "string \<Rightarrow> string \<Rightarrow> (string \<times> jsval) list \<Rightarrow> (string \<times> jsval) list" where
  "default_field k d ps = jm_set ps k (if non_blank (field ps k) then field ps k else JStr d)"

definition string_items :: "jsval \<Rightarrow> string list" where
  "string_items v = (case v of JArr vs \<Rightarrow> map str_of (filter is_string vs) | _ \<Rightarrow> [])"

definition normalizeMessageForRuntime :: "agent_message \<Rightarrow> agent_message" where
  "normalizeMessageForRuntime message =
     (let payload = (if is_object (msg_payload message) then spread (msg_payload message) else []);
          p1 = (if msg_type message = ''status_update'' then
                  let ps = default_field ''status'' ''runtime_update'' payload
                  in default_field ''summary'' (str_of (field ps ''status'')) ps
                else payload);
          p2 = (if msg_type message = ''clarification_request'' then
                  let questions = string_items (field p1 ''questions'');
                      ps = default_field ''request_id''
                        (msg_project_id message @ '':'' @ msg_to message @ '':clarification'') p1
                  in default_field ''question''
                       (case questions of
                          [] \<Rightarrow> ''Please provide clarification for the current handoff.''
                        | q # _ \<Rightarrow> q) ps
                else p1);
          p3 = (if msg_type message = ''risk_alert'' then
                  let ps = default_field ''risk_id''
                        (msg_project_id message @ '':'' @ msg_to message @ '':risk'') p2
                  in default_field ''summary'' ''Runtime risk detected.'' ps
                else p2)
      in message\<lparr>msg_payload := JObj p3\<rparr>)"

section \<open>Dispatch\<close>

datatype runtime_event =
    Ev_boot string string
  | Ev_dispatch string string string string string nat
  | Ev_retry string string string nat string
  | Ev_escalation string string string string
  | Ev_department_run string string string bool bool

text \<open>
  What the bus asks of the application, on a state of its own: binding agents to a project and
  routing may refuse with a message; an adapter, if the receiver has one that executes messages,
  returns the messages to send or the message of the error it throws.
\<close>

record 'a app_port =
  bindAgentsToProject :: "string list \<Rightarrow> string \<Rightarrow> string \<Rightarrow> 'a \<Rightarrow> string option \<times> 'a"
  shell_routeMessage :: "agent_message \<Rightarrow> 'a \<Rightarrow> string option \<times> 'a"
  executeMessage :: "string \<Rightarrow> (agent_message \<Rightarrow> string \<Rightarrow> 'a \<Rightarrow> (string + agent_message list) \<times> 'a) option"
  raiseRepeatedFailureEscalation :: "agent_message \<Rightarrow> string \<Rightarrow> string \<Rightarrow> 'a \<Rightarrow> string option \<times> 'a"

type_synonym 'a bus = "runtime_event list \<times> 'a"

text \<open>
  One call of \<open>dispatch\<close>. The outgoing messages are sent one after the other; the first that
  fails ends the sequence inside the \<^verbatim>\<open>try\<close> block of the call that sends them. The
  result is the thrown message, if any, and the bus.
\<close>

fun dispatch ::
    "nat \<Rightarrow> 'a app_port \<Rightarrow> nat \<Rightarrow> agent_message \<Rightarrow> string \<Rightarrow> nat \<Rightarrow> 'a bus \<Rightarrow> (string option \<times> 'a bus) option"
  and dispatch_all ::
    "nat \<Rightarrow> 'a app_port \<Rightarrow> nat \<Rightarrow> agent_message list \<Rightarrow> 'a bus \<Rightarrow> (string option \<times> 'a bus) option"
where
  "dispatch 0 app maxAttempts message now attempt b = None"
| "dispatch (Suc fuel) app maxAttempts message now attempt (events, a) =
     (let m = normalizeMessageForRuntime message in
      case bindAgentsToProject app [msg_from m, msg_to m] (msg_project_id m) now a of
        (Some e, a) \<Rightarrow> Some (Some e, events, a)
      | (None, a) \<Rightarrow>
          (case shell_routeMessage app m a of
             (Some reason, a) \<Rightarrow>
               Some (Some reason,
                 events @ [Ev_escalation now (msg_project_id m) (msg_to m) reason], a)
           | (None, a) \<Rightarrow>
               let events = events @
                 [Ev_dispatch now (msg_type m) (msg_from m) (msg_to m) (msg_project_id m) attempt] in
               (case executeMessage app (msg_to m) of
                  None \<Rightarrow> Some (None, events, a)
                | Some execute \<Rightarrow>
                    (case (case execute m now a of
                             (Inl e, a) \<Rightarrow> Some (Some e, events, a)
                           | (Inr outgoing, a) \<Rightarrow> dispatch_all fuel app maxAttempts outgoing (events, a)) of
                       None \<Rightarrow> None
                     | Some (None, b) \<Rightarrow> Some (None, b)
                     | Some (Some reason, events, a) \<Rightarrow>
                         if attempt < maxAttempts then
                           dispatch fuel app maxAttempts m now (attempt + 1)
                             (events @ [Ev_retry now (msg_project_id m) (msg_to m) (attempt + 1) reason], a)
                         else
                           (case raiseRepeatedFailureEscalation app m reason now a of
                              (e, a) \<Rightarrow> Some (Some (nullish e reason),
                                events @ [Ev_escalation now (msg_project_id m) (msg_to m) reason], a))))))"
| "dispatch_all 0 app maxAttempts msgs b = None"
| "dispatch_all (Suc fuel) app maxAttempts [] b = Some (None, b)"
| "dispatch_all (Suc fuel) app maxAttempts (m # msgs) b =
     (case dispatch fuel app maxAttempts m (msg_timestamp m) 1 b of
        None \<Rightarrow> None
      | Some (Some e, b) \<Rightarrow> Some (Some e, b)
      | Some (None, b) \<Rightarrow> dispatch_all fuel app maxAttempts msgs b)"

section \<open>Normalised messages\<close>

lemma field_set [simp]: "field (jm_set ps k v) k' = (if k' = k then v else field ps k')"
  using jm_get_set [of ps k v k'] by (simp add: field_def jm_get_def)

lemma has_field_set [simp]: "has_prop (JObj (jm_set ps k v)) k' \<longleftrightarrow> k' = k \<or> has_prop (JObj ps) k'"
  using jm_get_set [of ps k v k'] by (simp add: jm_get_def)

lemma default_field_same: "non_blank (field ps k) \<Longrightarrow> default_field k d ps = ps"
proof -
  assume n: "non_blank (field ps k)"
  then have "jm_get ps k = Some (field ps k)"
    by (auto simp: field_def jm_get_def non_blank_def split: option.splits)
  with n show ?thesis by (simp add: default_field_def jm_set_same)
qed

lemma field_default:
  "js_trim d \<noteq> [] \<Longrightarrow> non_blank (field (default_field k d ps) k)"
  "k' \<noteq> k \<Longrightarrow> field (default_field k d ps) k' = field ps k'"
  "has_prop (JObj (default_field k d ps)) k' \<longleftrightarrow> k' = k \<or> has_prop (JObj ps) k'"
  by (simp_all add: default_field_def non_blank_def del: has_prop.simps)

text \<open>The message as the validator of the registry sees it.\<close>

definition message_value :: "agent_message \<Rightarrow> jsval" where
  "message_value m =
     JObj [(''from'', JStr (msg_from m)), (''to'', JStr (msg_to m)),
           (''message_type'', JStr (msg_type m)), (''project_id'', JStr (msg_project_id m)),
           (''timestamp'', JStr (msg_timestamp m)), (''payload'', msg_payload m)]"

lemma as_message_value [simp]: "as_message (message_value m) = m"
  by (simp add: as_message_def message_value_def)

lemma valid_message_value:
  "isValidAgentMessage (message_value m) \<longleftrightarrow>
     (\<exists>t. msg_type m = message_type_str t \<and> is_object (msg_payload m) \<and>
        (\<forall>f \<in> set (required_payload_fields t). has_prop (msg_payload m) f))"
  unfolding isValidAgentMessage_iff by (simp add: message_value_def)

lemma payload_missing:
  "msg_type m = message_type_str t \<Longrightarrow> f \<in> set (required_payload_fields t) \<Longrightarrow>
   \<not> has_prop (msg_payload m) f \<Longrightarrow> \<not> isValidAgentMessage (message_value m)"
proof -
  assume t: "msg_type m = message_type_str t" "f \<in> set (required_payload_fields t)" "\<not> has_prop (msg_payload m) f"
  have "u = t" if "message_type_str t = message_type_str u" for u
    using that message_type_of_str by (metis option.inject)
  with t show ?thesis unfolding valid_message_value by auto
qed

text \<open>A second default adds nothing to the first, whatever the default is.\<close>

lemma default_field_idem: "default_field k d (default_field k d ps) = default_field k d ps"
  by (simp add: default_field_def)

lemma default_field_other:
  "js_trim d \<noteq> [] \<Longrightarrow> k' \<noteq> k \<Longrightarrow>
   default_field k d (default_field k' d' (default_field k d ps)) = default_field k' d' (default_field k d ps)"
  by (rule default_field_same) (simp add: field_default)

lemma js_trim_solid: "c \<in> set s \<Longrightarrow> \<not> js_space c \<Longrightarrow> js_trim s \<noteq> []"
  by (auto simp: js_trim_empty_iff)

lemma not_space: "\<not> js_space CHR '':''" "\<not> js_space CHR ''r''" "\<not> js_space CHR ''R''"
  by (simp_all add: js_space_def)

lemma default_texts:
  "js_trim ''runtime_update'' \<noteq> []" "js_trim ''Runtime risk detected.'' \<noteq> []"
  "js_trim (p @ CHR '':'' # t) \<noteq> []"
  by (rule js_trim_solid [OF _ not_space(2)], simp, rule js_trim_solid [OF _ not_space(3)], simp,
      rule js_trim_solid [OF _ not_space(1)], simp)

lemma status_text: "js_trim (str_of (field (default_field ''status'' ''runtime_update'' ps) ''status'')) \<noteq> []"
  using field_default(1) [OF default_texts(1), of "''status''" ps]
  by (auto simp: non_blank_def split: jsval.splits)

lemma normalize_simps [simp]:
  "msg_from (normalizeMessageForRuntime m) = msg_from m"
  "msg_to (normalizeMessageForRuntime m) = msg_to m"
  "msg_type (normalizeMessageForRuntime m) = msg_type m"
  "msg_project_id (normalizeMessageForRuntime m) = msg_project_id m"
  "msg_timestamp (normalizeMessageForRuntime m) = msg_timestamp m"
  by (simp_all add: normalizeMessageForRuntime_def Let_def)

lemma normalize_idem: "normalizeMessageForRuntime (normalizeMessageForRuntime m) = normalizeMessageForRuntime m"
proof -
  let ?ps = "if is_object (msg_payload m) then spread (msg_payload m) else []"
  consider (status) "msg_type m = ''status_update''"
    | (clar) "msg_type m = ''clarification_request''"
    | (risk) "msg_type m = ''risk_alert''"
    | (other) "msg_type m \<noteq> ''status_update''" "msg_type m \<noteq> ''clarification_request''"
        "msg_type m \<noteq> ''risk_alert''"
    by blast
  then show ?thesis
  proof cases
    case status
    show ?thesis
      unfolding normalizeMessageForRuntime_def
      by (simp add: status Let_def default_field_other default_texts field_default default_field_idem)
  next
    case clar
    show ?thesis
      unfolding normalizeMessageForRuntime_def
      by (simp add: clar Let_def default_field_other default_texts field_default default_field_idem)
  next
    case risk
    show ?thesis
      unfolding normalizeMessageForRuntime_def
      by (simp add: risk Let_def default_field_other default_texts default_field_idem)
  next
    case other
    then show ?thesis by (simp add: normalizeMessageForRuntime_def)
  qed
qed

lemma normalize_valid_status:
  "msg_type m = message_type_str Status_update \<Longrightarrow> isValidAgentMessage (message_value (normalizeMessageForRuntime m))"
  unfolding valid_message_value
  by (rule exI [of _ Status_update])
    (simp add: normalizeMessageForRuntime_def Let_def field_default del: has_prop.simps)

lemma normalize_valid_clarification:
  "msg_type m = message_type_str Clarification_request \<Longrightarrow>
   isValidAgentMessage (message_value (normalizeMessageForRuntime m))"
  unfolding valid_message_value
  by (rule exI [of _ Clarification_request])
    (simp add: normalizeMessageForRuntime_def Let_def field_default del: has_prop.simps)

section \<open>Enough fuel\<close>

text \<open>
  When every adapter answers a message by at most \<open>L\<close> messages of a smaller rank, a dispatch
  ends: the fuel grows with the rank, the attempts left and the length of an answer.
\<close>

definition dispatch_fuel :: "nat \<Rightarrow> nat \<Rightarrow> nat \<Rightarrow> nat \<Rightarrow> nat" where
  "dispatch_fuel maxAttempts L r k = r * (maxAttempts + L + 2) + (maxAttempts - k) + L + 2"

lemma dispatch_fuel_answer:
  assumes "q < r" "n \<le> L"
  shows "dispatch_fuel maxA L q 1 + n < dispatch_fuel maxA L r k"
proof -
  from assms(1) have "Suc q \<le> r" by simp
  then have "Suc q * (maxA + L + 2) \<le> r * (maxA + L + 2)" by (rule mult_le_mono1)
  with assms(2) show ?thesis by (simp add: dispatch_fuel_def algebra_simps)
qed

definition answers_below :: "'a app_port \<Rightarrow> (agent_message \<Rightarrow> nat) \<Rightarrow> nat \<Rightarrow> bool" where
  "answers_below app rank L \<longleftrightarrow>
     (\<forall>to ex m now a out a'. executeMessage app to = Some ex \<longrightarrow> ex m now a = (Inr out, a') \<longrightarrow>
        length out \<le> L \<and> (\<forall>o' \<in> set out. rank (normalizeMessageForRuntime o') < rank m))"

lemma answers_belowD:
  "answers_below app rank L \<Longrightarrow> executeMessage app to = Some ex \<Longrightarrow> ex m now a = (Inr out, a') \<Longrightarrow>
   length out \<le> L" 
  "answers_below app rank L \<Longrightarrow> executeMessage app to = Some ex \<Longrightarrow> ex m now a = (Inr out, a') \<Longrightarrow>
   o' \<in> set out \<Longrightarrow> rank (normalizeMessageForRuntime o') < rank m"
  unfolding answers_below_def by blast+

lemma dispatch_ends:
  assumes "answers_below app rank L"
  shows "(\<forall>message now k b. dispatch_fuel maxA L (rank (normalizeMessageForRuntime message)) k \<le> fuel \<longrightarrow>
            dispatch fuel app maxA message now k b \<noteq> None) \<and>
         (\<forall>msgs b. (\<forall>m \<in> set msgs. dispatch_fuel maxA L (rank (normalizeMessageForRuntime m)) 1 + length msgs \<le> fuel) \<longrightarrow>
            0 < fuel \<longrightarrow> dispatch_all fuel app maxA msgs b \<noteq> None)"
proof (induction fuel)
  case 0
  show ?case by (simp add: dispatch_fuel_def)
next
  case (Suc fuel)
  have one: "dispatch (Suc fuel) app maxA message now k b \<noteq> None"
    if f: "dispatch_fuel maxA L (rank (normalizeMessageForRuntime message)) k \<le> Suc fuel" for message now k b
  proof -
    obtain events a where b: "b = (events, a)" by (cases b)
    let ?m = "normalizeMessageForRuntime message"
    have all: "dispatch_all fuel app maxA out b' \<noteq> None"
      if "executeMessage app to = Some ex" "ex ?m now a0 = (Inr out, a1)" for to ex out b' a0 a1
    proof -
      have "dispatch_fuel maxA L (rank (normalizeMessageForRuntime o')) 1 + length out \<le> fuel"
        if "o' \<in> set out" for o'
        using dispatch_fuel_answer [OF answers_belowD(2) [OF assms \<open>executeMessage app to = Some ex\<close>
            \<open>ex ?m now a0 = (Inr out, a1)\<close> that] answers_belowD(1) [OF assms
            \<open>executeMessage app to = Some ex\<close> \<open>ex ?m now a0 = (Inr out, a1)\<close>], of maxA k] f by simp
      moreover have "0 < fuel" using f by (auto simp: dispatch_fuel_def)
      ultimately show ?thesis using Suc.IH by blast
    qed
    have again: "dispatch fuel app maxA ?m now (k + 1) b' \<noteq> None" if "k < maxA" for b'
    proof -
      have "dispatch_fuel maxA L (rank (normalizeMessageForRuntime ?m)) (k + 1) \<le> fuel"
        using f that by (simp add: normalize_idem dispatch_fuel_def)
      with Suc.IH show ?thesis by blast
    qed
    show ?thesis
      unfolding b dispatch.simps Let_def normalize_simps
      using all again by (auto split: option.split sum.split prod.split simp del: not_None_eq)
  qed
  have many: "dispatch_all (Suc fuel) app maxA msgs b \<noteq> None"
    if f: "\<forall>m \<in> set msgs. dispatch_fuel maxA L (rank (normalizeMessageForRuntime m)) 1 + length msgs \<le> Suc fuel"
    for msgs b
  proof (cases msgs)
    case Nil
    then show ?thesis by simp
  next
    case (Cons m ms)
    with f have m: "dispatch_fuel maxA L (rank (normalizeMessageForRuntime m)) 1 \<le> fuel"
      and ms: "\<forall>m \<in> set ms. dispatch_fuel maxA L (rank (normalizeMessageForRuntime m)) 1 + length ms \<le> fuel"
      by auto
    from m have pos: "0 < fuel" by (simp add: dispatch_fuel_def)
    from Suc.IH m have "dispatch fuel app maxA m (msg_timestamp m) 1 b \<noteq> None" by blast
    moreover from Suc.IH ms pos have "dispatch_all fuel app maxA ms b' \<noteq> None" for b' by blast
    ultimately show ?thesis unfolding Cons dispatch_all.simps by (auto split: option.split prod.split)
  qed
  from one many show ?case by blast
qed

section \<open>Retries of a message whose adapter fails\<close>

fun failing_events :: "agent_message \<Rightarrow> string \<Rightarrow> string \<Rightarrow> nat \<Rightarrow> nat \<Rightarrow> runtime_event list" where
  "failing_events m now reason k 0 =
     [Ev_dispatch now (msg_type m) (msg_from m) (msg_to m) (msg_project_id m) k,
      Ev_escalation now (msg_project_id m) (msg_to m) reason]"
| "failing_events m now reason k (Suc n) =
     Ev_dispatch now (msg_type m) (msg_from m) (msg_to m) (msg_project_id m) k #
     Ev_retry now (msg_project_id m) (msg_to m) (k + 1) reason # failing_events m now reason (k + 1) n"

definition is_dispatch :: "runtime_event \<Rightarrow> bool" where
  "is_dispatch e = (case e of Ev_dispatch _ _ _ _ _ _ \<Rightarrow> True | _ \<Rightarrow> False)"

lemma failing_dispatches: "length (filter is_dispatch (failing_events m now reason k n)) = n + 1"
  by (induction n arbitrary: k) (simp_all add: is_dispatch_def)

text \<open>The application accepts the message and the receiver's adapter throws on it every time.\<close>

definition adapter_fails :: "'a app_port \<Rightarrow> agent_message \<Rightarrow> string \<Rightarrow> string \<Rightarrow> bool" where
  "adapter_fails app m now reason \<longleftrightarrow>
     (\<forall>a. fst (bindAgentsToProject app [msg_from m, msg_to m] (msg_project_id m) now a) = None) \<and>
     (\<forall>a. fst (shell_routeMessage app m a) = None) \<and>
     (\<forall>a. fst (raiseRepeatedFailureEscalation app m reason now a) = None) \<and>
     (\<exists>ex. executeMessage app (msg_to m) = Some ex \<and> (\<forall>a. fst (ex m now a) = Inl reason))"

text \<open>One call in this situation, up to the \<^verbatim>\<open>catch\<close> block.\<close>

lemma dispatch_failing_once:
  assumes "adapter_fails app (normalizeMessageForRuntime m) now reason"
  shows "\<exists>a'. dispatch (Suc fuel) app maxA m now k (events, a) =
    (let es = events @ [Ev_dispatch now (msg_type m) (msg_from m) (msg_to m) (msg_project_id m) k] in
     if k < maxA then
       dispatch fuel app maxA (normalizeMessageForRuntime m) now (k + 1)
         (es @ [Ev_retry now (msg_project_id m) (msg_to m) (k + 1) reason], a')
     else Some (Some reason, es @ [Ev_escalation now (msg_project_id m) (msg_to m) reason], a'))"
proof -
  let ?m = "normalizeMessageForRuntime m"
  note fails = assms [unfolded adapter_fails_def normalize_simps]
  obtain a1 where b: "bindAgentsToProject app [msg_from m, msg_to m] (msg_project_id m) now a = (None, a1)"
    using fails by (metis prod.collapse)
  obtain a2 where r: "shell_routeMessage app ?m a1 = (None, a2)"
    using fails by (metis prod.collapse)
  obtain ex a3 where x: "executeMessage app (msg_to m) = Some ex" "ex ?m now a2 = (Inl reason, a3)"
    using fails by (metis prod.collapse)
  obtain a4 where e: "raiseRepeatedFailureEscalation app ?m reason now a3 = (None, a4)"
    using fails by (metis prod.collapse)
  show ?thesis
  proof (cases "k < maxA")
    case True
    then show ?thesis by (intro exI [of _ a3]) (simp add: b r x Let_def)
  next
    case False
    then show ?thesis by (intro exI [of _ a4]) (simp add: b r x e Let_def)
  qed
qed

lemma failing_events_normalize:
  "failing_events (normalizeMessageForRuntime m) now reason k n = failing_events m now reason k n"
  by (induction n arbitrary: k) simp_all

lemma dispatch_failing:
  "adapter_fails app (normalizeMessageForRuntime m) now reason \<Longrightarrow> n < fuel \<Longrightarrow> maxA = k + n \<Longrightarrow>
    \<exists>a'. dispatch fuel app maxA m now k (events, a) =
      Some (Some reason, events @ failing_events m now reason k n, a')"
proof (induction n arbitrary: fuel k events a m)
  case 0
  then obtain f where f: "fuel = Suc f" by (cases fuel) auto
  from dispatch_failing_once [OF 0(1), of f maxA k events a] 0(3) show ?case
    by (auto simp: f Let_def simp del: dispatch.simps)
next
  case (Suc n)
  then obtain f where f: "fuel = Suc f" by (cases fuel) auto
  from dispatch_failing_once [OF Suc(2), of f maxA k events a] obtain a' where
    "dispatch fuel app maxA m now k (events, a) =
      dispatch f app maxA (normalizeMessageForRuntime m) now (k + 1)
        (events @ [Ev_dispatch now (msg_type m) (msg_from m) (msg_to m) (msg_project_id m) k,
           Ev_retry now (msg_project_id m) (msg_to m) (k + 1) reason], a')"
    using Suc(4) by (auto simp: f Let_def simp del: dispatch.simps)
  moreover from Suc(2) have "adapter_fails app (normalizeMessageForRuntime (normalizeMessageForRuntime m)) now reason"
    by (simp add: normalize_idem)
  ultimately show ?case
    using Suc.IH [of "normalizeMessageForRuntime m" f "k + 1"
        "events @ [Ev_dispatch now (msg_type m) (msg_from m) (msg_to m) (msg_project_id m) k,
           Ev_retry now (msg_project_id m) (msg_to m) (k + 1) reason]" a'] Suc(3,4)
    by (simp add: f failing_events_normalize del: dispatch.simps)
qed

section \<open>Properties of the component\<close>

text \<open>Applications for the concrete instances: everything is accepted. In the first the engineering
  agent always throws.\<close>

definition demo_message :: "string \<Rightarrow> agent_message" where
  "demo_message to = \<lparr>msg_from = ''sales_agent'', msg_to = to, msg_type = ''status_update'',
     msg_project_id = ''p1'', msg_timestamp = ''t'', msg_payload = JObj []\<rparr>"

definition demo_port :: "nat app_port" where
  "demo_port = \<lparr>bindAgentsToProject = (\<lambda>_ _ _ a. (None, a)), shell_routeMessage = (\<lambda>_ a. (None, a)),
     executeMessage = (\<lambda>to. if to = ''engineering_agent'' then Some (\<lambda>m now a. (Inl ''boom'', a)) else None),
     raiseRepeatedFailureEscalation = (\<lambda>_ _ _ a. (None, a))\<rparr>"

text \<open>In the second every agent answers a status update by one risk alert, and nobody answers those.\<close>

definition quiet_port :: "nat app_port" where
  "quiet_port = demo_port\<lparr>executeMessage := (\<lambda>to. Some (\<lambda>m now a.
     (if msg_type m = ''status_update''
      then (Inr [(demo_message ''ceo_agent'')\<lparr>msg_type := ''risk_alert''\<rparr>], Suc a) else (Inr [], a))))\<rparr>"

text \<open>
  Whatever its payload, a status update or clarification request passes the registry's
  validator once the bus has normalised it, and normalising again, as every retry does,
  changes nothing.
\<close>

theorem normalised_messages_valid:
  assumes "msg_type m = ''status_update'' \<or> msg_type m = ''clarification_request''"
  shows "getAgentMessageValidationErrors (message_value (normalizeMessageForRuntime m)) = [] \<and>
    normalizeMessageForRuntime (normalizeMessageForRuntime m) = normalizeMessageForRuntime m"
  using assms normalize_valid_status [of m] normalize_valid_clarification [of m] normalize_idem [of m]
  unfolding isValidAgentMessage_def message_type_str.simps by blast

theorem normalised_messages_valid_witness:
  "getAgentMessageValidationErrors (message_value (normalizeMessageForRuntime (demo_message ''ceo_agent''))) = []"
  using normalised_messages_valid [of "demo_message ''ceo_agent''"] by (simp add: demo_message_def)

text \<open>
  If every adapter answers a message with at most L messages of smaller rank, a dispatch
  returns within a fuel linear in the rank, the attempts and L, whatever fails on the way.
\<close>

theorem dispatch_terminates:
  assumes "answers_below app rank L"
    and "rank (normalizeMessageForRuntime m) * (maxAttempts + L + 2) + (maxAttempts - k) + L + 2 \<le> fuel"
  shows "\<exists>thrown b'. dispatch fuel app maxAttempts m now k b = Some (thrown, b')"
  using dispatch_ends [OF assms(1), of maxAttempts fuel] assms(2)
  unfolding dispatch_fuel_def by (metis not_Some_eq surj_pair)

theorem dispatch_terminates_witness:
  "\<exists>thrown b'. dispatch 13 quiet_port 3 (demo_message ''product_agent'') ''t'' 1 ([], 0) = Some (thrown, b')"
proof -
  have below: "answers_below quiet_port (\<lambda>m. if msg_type m = ''status_update'' then 1 else 0) 1"
    by (simp add: answers_below_def quiet_port_def demo_port_def)
  show ?thesis
    by (rule dispatch_terminates [OF below]) (simp add: demo_message_def)
qed

text \<open>
  When the receiver's adapter throws on a message every time, the bus tries exactly the
  configured number of attempts, recording a dispatch for each and a retry between them,
  ends with one escalation and throws the adapter's error.
\<close>

theorem failing_adapter_retried:
  assumes "adapter_fails app (normalizeMessageForRuntime m) now reason" and "0 < maxAttempts"
    and "maxAttempts \<le> fuel"
  shows "\<exists>es a'. dispatch fuel app maxAttempts m now 1 (events, a) = Some (Some reason, events @ es, a') \<and>
    length (filter is_dispatch es) = maxAttempts \<and> length es = 2 * maxAttempts \<and>
    last es = Ev_escalation now (msg_project_id m) (msg_to m) reason"
proof -
  have len: "length (failing_events m now reason k n) = 2 * Suc n" for k n
    by (induction n arbitrary: k) simp_all
  have last: "last (failing_events m now reason k n) = Ev_escalation now (msg_project_id m) (msg_to m) reason" for k n
  proof (induction n arbitrary: k)
    case (Suc n)
    have "failing_events m now reason (k + 1) n \<noteq> []" using len [of "k + 1" n] by auto
    with Suc [of "k + 1"] show ?case by simp
  qed simp
  have "maxAttempts - 1 < fuel" and "maxAttempts = 1 + (maxAttempts - 1)" using assms(2,3) by simp_all
  from dispatch_failing [OF assms(1) this, of events a]
  obtain a' where "dispatch fuel app maxAttempts m now 1 (events, a) =
      Some (Some reason, events @ failing_events m now reason 1 (maxAttempts - 1), a')" by blast
  with failing_dispatches [of m now reason 1 "maxAttempts - 1"] len [of 1 "maxAttempts - 1"] last assms(2) show ?thesis
    by (intro exI conjI) (assumption | simp)+
qed

theorem failing_adapter_retried_witness:
  "\<exists>es a'. dispatch 3 demo_port 3 (demo_message ''engineering_agent'') ''t'' 1 ([], 0) = Some (Some ''boom'', es, a') \<and>
    length (filter is_dispatch es) = 3"
proof -
  have "adapter_fails demo_port (normalizeMessageForRuntime (demo_message ''engineering_agent'')) ''t'' ''boom''"
    by (simp add: adapter_fails_def demo_port_def demo_message_def)
  from failing_adapter_retried [OF this, of 3 3 "[]" 0] show ?thesis by auto
qed

end
