(* ===== verification/Sales_Flow.thy ===== *)
theory Sales_Flow
  imports Message_Bus JS_Date
begin

text \<open>
  The sales agent's flow, \<^verbatim>\<open>src/agents/sales/flow.ts\<close> on the data of
  \<^verbatim>\<open>src/agents/sales/models.ts\<close>: leads, qualification, proposals and their approval,
  outreach and the handoff messages. Scores, totals and versions are whole numbers. The copies
  a snapshot makes are the values themselves and have no definition of their own.
\<close>

section \<open>Data\<close>

datatype pipeline_stage =
    PS_new | PS_contacted | PS_qualified | PS_proposal_sent | PS_negotiation | PS_won | PS_lost

fun pipeline_stage_str :: "pipeline_stage \<Rightarrow> string" where
  "pipeline_stage_str PS_new = ''new''"
| "pipeline_stage_str PS_contacted = ''contacted''"
| "pipeline_stage_str PS_qualified = ''qualified''"
| "pipeline_stage_str PS_proposal_sent = ''proposal_sent''"
| "pipeline_stage_str PS_negotiation = ''negotiation''"
| "pipeline_stage_str PS_won = ''won''"
| "pipeline_stage_str PS_lost = ''lost''"

record qualification_scores =
  qs_urgency :: int
  qs_budget_fit :: int
  qs_authority :: int
  qs_use_case_relevance :: int

datatype lead_event =
    LE_created | LE_marketing_handoff_received | LE_qualification_scored
  | LE_clarification_requested | LE_stage_changed | LE_outreach_drafted
  | LE_follow_up_task_created | LE_proposal_created | LE_proposal_sent | LE_approval_requested
  | LE_approval_approved | LE_approval_rejected | LE_approval_revision_requested
  | LE_handoff_completed | LE_handoff_failed

record lead_timeline_entry =
  le_timestamp :: string
  le_type :: lead_event
  le_summary :: string
  le_detail :: "string option"

record lead_qualification =
  ql_scores :: qualification_scores
  ql_total :: int
  ql_threshold :: int
  ql_is_low_priority :: bool
  ql_reasons :: "string list"

record source_context =
  sc_campaign_id :: "string option"
  sc_segment_id :: "string option"
  sc_source_channel :: "string option"
  sc_handoff_source :: "string option"

record lead =
  ld_lead_id :: string
  ld_company_name :: string
  ld_primary_contact :: string
  ld_industry :: string
  ld_source :: string
  ld_initial_need :: string
  ld_pipeline_stage :: pipeline_stage
  ld_lifecycle_state :: lifecycle_state
  ld_qualification :: lead_qualification
  ld_pain_points :: "string list"
  ld_stakeholders :: "string list"
  ld_conversation_notes :: "string list"
  ld_proposal_refs :: "string list"
  ld_handoff_completed :: bool
  ld_source_context :: "source_context option"
  ld_timeline :: "lead_timeline_entry list"

record proposal =
  pr_lead_id :: string
  pr_version :: int
  pr_artifact_ref :: string
  pr_summary_of_need :: string
  pr_business_outcomes :: "string list"
  pr_scope_outline :: "string list"
  pr_estimated_timeline :: string
  pr_price_range :: string
  pr_assumptions :: "string list"
  pr_needs_scoping :: "string list"
  pr_commercial_risks :: "string list"
  pr_created_at :: string
  pr_sent_at :: "string option"

datatype approval_status = AP_pending | AP_approved | AP_rejected | AP_revise_requested

fun approval_status_str :: "approval_status \<Rightarrow> string" where
  "approval_status_str AP_pending = ''pending''"
| "approval_status_str AP_approved = ''approved''"
| "approval_status_str AP_rejected = ''rejected''"
| "approval_status_str AP_revise_requested = ''revise_requested''"

record approval_cycle =
  ac_request :: approval_request
  ac_status :: approval_status
  ac_last_response :: "approval_response option"
  ac_history :: "approval_response list"

record approval_input =
  ai_request_id :: string
  ai_timestamp :: string
  ai_proposal :: proposal
  ai_project_id :: "string option"
  ai_change_summary :: string
  ai_recommendation :: "string option"
  ai_options :: "approval_decision list option"

datatype outreach_step = Initial_contact | Value_add_follow_up | Close_loop

fun outreach_step_str :: "outreach_step \<Rightarrow> string" where
  "outreach_step_str Initial_contact = ''initial_contact''"
| "outreach_step_str Value_add_follow_up = ''value_add_follow_up''"
| "outreach_step_str Close_loop = ''close_loop''"

record outreach_draft =
  od_lead_id :: string
  od_step :: outreach_step
  od_recommended_send_at :: string
  od_subject :: string
  od_body :: string
  od_tone :: string

datatype follow_up_status = FU_queued | FU_running | FU_completed | FU_failed

record follow_up_task =
  fu_task_id :: string
  fu_lead_id :: string
  fu_status :: follow_up_status
  fu_recommended_send_at :: string
  fu_created_at :: string
  fu_sequence_step :: outreach_step

record marketing_packet =
  mp_lead_id :: string
  mp_company_name :: string
  mp_contact_name :: "string option"
  mp_contact_email :: "string option"
  mp_source_channel :: string
  mp_campaign_id :: string
  mp_segment_id :: string
  mp_initial_need_summary :: "string option"
  mp_captured_at :: string
  mp_tags :: "string list"
  mp_handoff_source :: string

record create_lead_input =
  cl_in_lead_id :: string
  cl_in_company_name :: string
  cl_in_primary_contact :: string
  cl_in_industry :: string
  cl_in_source :: string
  cl_in_initial_need :: string
  cl_in_timestamp :: string
  cl_in_pain_points :: "string list option"
  cl_in_stakeholders :: "string list option"

record build_proposal_input =
  bp_lead :: lead
  bp_version :: int
  bp_created_at :: string
  bp_business_outcomes :: "string list"
  bp_scope_outline :: "string list"
  bp_estimated_timeline :: string
  bp_price_range :: string
  bp_assumptions :: "string list"
  bp_needs_scoping :: "string list option"
  bp_commercial_risks :: "string list option"

section \<open>Model helpers\<close>

definition makeEmptyScores :: qualification_scores where
  "makeEmptyScores = \<lparr>qs_urgency = 0, qs_budget_fit = 0, qs_authority = 0, qs_use_case_relevance = 0\<rparr>"

definition sumQualificationScores :: "qualification_scores \<Rightarrow> int" where
  "sumQualificationScores s = qs_urgency s + qs_budget_fit s + qs_authority s + qs_use_case_relevance s"

definition createProposalApprovalRequest :: "approval_input \<Rightarrow> approval_request" where
  "createProposalApprovalRequest input =
     (let proposal = ai_proposal input;
          risks = pr_commercial_risks proposal @
            map (\<lambda>item. ''[NEEDS_SCOPING] '' @ item) (pr_needs_scoping proposal)
      in \<lparr>ar_request_id = ai_request_id input, ar_gate = Proposal_final, ar_from_agent = Sales_agent,
          ar_timestamp = ai_timestamp input, ar_project_id = ai_project_id input,
          ar_summary = ''Proposal v'' @ int_str (pr_version proposal) @ '' for '' @
            pr_lead_id proposal @ ''. '' @ ai_change_summary input,
          ar_recommendation = nullish (ai_recommendation input)
            (''Approve sending proposal '' @ pr_artifact_ref proposal @ '' to the client.''),
          ar_risks = risks,
          ar_options = nullish (ai_options input) [Approve, Reject, Revise],
          ar_artifact_ref = pr_artifact_ref proposal\<rparr>)"

section \<open>Leads\<close>

fun PIPELINE_TO_LIFECYCLE :: "pipeline_stage \<Rightarrow> lifecycle_state" where
  "PIPELINE_TO_LIFECYCLE PS_new = LS_lead"
| "PIPELINE_TO_LIFECYCLE PS_contacted = LS_lead"
| "PIPELINE_TO_LIFECYCLE PS_qualified = LS_qualified"
| "PIPELINE_TO_LIFECYCLE PS_proposal_sent = LS_proposal"
| "PIPELINE_TO_LIFECYCLE PS_negotiation = LS_proposal"
| "PIPELINE_TO_LIFECYCLE PS_won = LS_won"
| "PIPELINE_TO_LIFECYCLE PS_lost = LS_lead"

definition mapPipelineStageToLifecycle :: "pipeline_stage \<Rightarrow> lifecycle_state" where
  "mapPipelineStageToLifecycle stage = PIPELINE_TO_LIFECYCLE stage"

definition createLead :: "create_lead_input \<Rightarrow> lead" where
  "createLead input =
     \<lparr>ld_lead_id = cl_in_lead_id input, ld_company_name = cl_in_company_name input,
      ld_primary_contact = cl_in_primary_contact input, ld_industry = cl_in_industry input,
      ld_source = cl_in_source input, ld_initial_need = cl_in_initial_need input,
      ld_pipeline_stage = PS_new, ld_lifecycle_state = LS_lead,
      ld_qualification = \<lparr>ql_scores = makeEmptyScores, ql_total = 0, ql_threshold = 12,
        ql_is_low_priority = False, ql_reasons = []\<rparr>,
      ld_pain_points = nullish (cl_in_pain_points input) [],
      ld_stakeholders = nullish (cl_in_stakeholders input) [],
      ld_conversation_notes = [], ld_proposal_refs = [], ld_handoff_completed = False,
      ld_source_context = None,
      ld_timeline = [\<lparr>le_timestamp = cl_in_timestamp input, le_type = LE_created,
        le_summary = ''Lead created for '' @ cl_in_company_name input, le_detail = None\<rparr>]\<rparr>"

text \<open>\<open>x?.trim()\<close> is falsy when absent or blank.\<close>

definition trimmed :: "string option \<Rightarrow> string" where
  "trimmed x = js_trim (nullish x [])"

definition createLeadFromMarketingHandoff :: "string \<Rightarrow> marketing_packet \<Rightarrow> lead" where
  "createLeadFromMarketingHandoff message_timestamp packet =
     (let primaryContact = str_or (trimmed (mp_contact_name packet))
            (str_or (trimmed (mp_contact_email packet)) ''Unknown contact'');
          initialNeed = str_or (trimmed (mp_initial_need_summary packet))
            (''Inbound lead from '' @ mp_source_channel packet);
          lead = createLead
            \<lparr>cl_in_lead_id = mp_lead_id packet, cl_in_company_name = mp_company_name packet,
             cl_in_primary_contact = primaryContact, cl_in_industry = mp_segment_id packet,
             cl_in_source = ''marketing:'' @ mp_source_channel packet,
             cl_in_initial_need = initialNeed, cl_in_timestamp = mp_captured_at packet,
             cl_in_pain_points = Some (mp_tags packet), cl_in_stakeholders = Some []\<rparr>
      in lead\<lparr>ld_source_context := Some
              \<lparr>sc_campaign_id = Some (mp_campaign_id packet), sc_segment_id = Some (mp_segment_id packet),
               sc_source_channel = Some (mp_source_channel packet),
               sc_handoff_source = Some (mp_handoff_source packet)\<rparr>,
            ld_timeline := ld_timeline lead @
              [\<lparr>le_timestamp = message_timestamp, le_type = LE_marketing_handoff_received,
                le_summary = ''Marketing handoff received from '' @ mp_campaign_id packet,
                le_detail = Some (''Segment '' @ mp_segment_id packet @ '' via '' @
                  mp_source_channel packet)\<rparr>]\<rparr>)"

text \<open>The parameter \<open>threshold\<close> defaults to the lead's own.\<close>

definition scoreLead :: "lead \<Rightarrow> qualification_scores \<Rightarrow> string \<Rightarrow> int option \<Rightarrow> lead" where
  "scoreLead lead scores timestamp threshold_arg =
     (let threshold = nullish threshold_arg (ql_threshold (ld_qualification lead));
          total = sumQualificationScores scores;
          reasons =
            (if qs_budget_fit scores < 2 then [''Budget fit is still weak''] else []) @
            (if qs_authority scores < 2 then [''Buyer authority is unclear''] else []) @
            (if qs_use_case_relevance scores < 2 then [''Use case relevance needs validation''] else []) @
            (if qs_urgency scores < 2 then [''Urgency is not yet established''] else [])
      in lead\<lparr>ld_qualification := \<lparr>ql_scores = scores, ql_total = total, ql_threshold = threshold,
              ql_is_low_priority = (total < threshold), ql_reasons = reasons\<rparr>,
            ld_timeline := ld_timeline lead @
              [\<lparr>le_timestamp = timestamp, le_type = LE_qualification_scored,
                le_summary = ''Qualification scored at '' @ int_str total @ ''/'' @ int_str threshold,
                le_detail = Some (str_or (js_join ''; '' reasons) ''Lead is above threshold'')\<rparr>]\<rparr>)"

definition generateClarificationQuestions :: "lead \<Rightarrow> string list" where
  "generateClarificationQuestions lead =
     (if js_trim (ld_initial_need lead) = [] \<or> length (ld_initial_need lead) < 24
      then [''Masalah bisnis apa yang paling mendesak untuk diselesaikan dalam 90 hari ke depan?''] else []) @
     (if qs_budget_fit (ql_scores (ld_qualification lead)) < 2
      then [''Apakah sudah ada kisaran budget atau sponsor untuk inisiatif ini?''] else []) @
     (if qs_authority (ql_scores (ld_qualification lead)) < 2
      then [''Siapa pengambil keputusan utama dan siapa champion internal untuk proyek ini?''] else []) @
     (if ld_pain_points lead = []
      then [''Proses mana yang saat ini paling lambat, mahal, atau sering bottleneck?''] else []) @
     (if ld_stakeholders lead = []
      then [''Tim atau stakeholder mana saja yang akan terdampak jika solusi ini diterapkan?''] else [])"

text \<open>Every recording operation appends entries to the timeline.\<close>

definition log_entries :: "lead_timeline_entry list \<Rightarrow> lead \<Rightarrow> lead" where
  "log_entries es lead = lead\<lparr>ld_timeline := ld_timeline lead @ es\<rparr>"

definition updatePipelineStage :: "lead \<Rightarrow> pipeline_stage \<Rightarrow> string \<Rightarrow> lead" where
  "updatePipelineStage lead nextStage timestamp =
     log_entries [\<lparr>le_timestamp = timestamp, le_type = LE_stage_changed,
         le_summary = ''Pipeline moved to '' @ pipeline_stage_str nextStage, le_detail = None\<rparr>]
       (lead\<lparr>ld_pipeline_stage := nextStage,
             ld_lifecycle_state := mapPipelineStageToLifecycle nextStage\<rparr>)"

definition requestClarification :: "lead \<Rightarrow> string \<Rightarrow> string list option \<Rightarrow> lead" where
  "requestClarification lead timestamp questions_arg =
     (let questions = nullish questions_arg (generateClarificationQuestions lead)
      in log_entries [\<lparr>le_timestamp = timestamp, le_type = LE_clarification_requested,
           le_summary = ''Requested '' @ nat_str (length questions) @ '' clarification questions'',
           le_detail = Some (js_join '' | '' questions)\<rparr>] lead)"

section \<open>Outreach\<close>

definition shiftIsoTimestamp :: "string \<Rightarrow> int \<Rightarrow> string outcome" where
  "shiftIsoTimestamp timestamp days =
     to_iso_string (map_option (\<lambda>t. t + days * ms_per_day) (date_parse timestamp))"

definition buildOutreachSequence ::
  "lead \<Rightarrow> string \<Rightarrow> string option \<Rightarrow> string option \<Rightarrow> string option \<Rightarrow> outreach_draft list outcome" where
  "buildOutreachSequence lead baseTimestamp industryPointOfView valueProposition ownerTone =
     (let tone = str_or (trimmed ownerTone) ''consultative'';
          pointOfView = str_or (trimmed industryPointOfView) (''teams in '' @ ld_industry lead);
          valueProp = str_or (trimmed valueProposition)
            ''deliver AI agent workflows with measurable business outcomes'';
          painPoint = (case ld_pain_points lead of [] \<Rightarrow> ld_initial_need lead | p # _ \<Rightarrow> p)
      in outcome_bind (shiftIsoTimestamp baseTimestamp 2) (\<lambda>second.
         outcome_bind (shiftIsoTimestamp baseTimestamp 5) (\<lambda>third.
           Inr
            [\<lparr>od_lead_id = ld_lead_id lead, od_step = Initial_contact,
              od_recommended_send_at = baseTimestamp,
              od_subject = ''Idea for '' @ ld_company_name lead @ [CHR 0x27] @ ''s '' @ painPoint,
              od_body = ''Hi '' @ ld_primary_contact lead @ '', we help '' @ pointOfView @ '' '' @ valueProp @
                ''. I noticed '' @ painPoint @ '' may be slowing execution. Open to a short discovery call?'',
              od_tone = tone\<rparr>,
             \<lparr>od_lead_id = ld_lead_id lead, od_step = Value_add_follow_up,
              od_recommended_send_at = second,
              od_subject = ''Worth sharing one practical angle for '' @ ld_company_name lead,
              od_body = ''Following up with a concrete angle: teams like yours often start by fixing '' @
                painPoint @ '', then expand into measurable ROI. Happy to share a scoped pilot outline if useful.'',
              od_tone = tone\<rparr>,
             \<lparr>od_lead_id = ld_lead_id lead, od_step = Close_loop,
              od_recommended_send_at = third,
              od_subject = ''Should I close the loop for now?'',
              od_body = ''I will close the loop for now if timing is not right. If '' @ painPoint @
                '' becomes a priority, I can send a tailored AI agent proposal and next-step recommendation.'',
              od_tone = tone\<rparr>])))"

definition recordOutreachDrafts :: "lead \<Rightarrow> outreach_draft list \<Rightarrow> string \<Rightarrow> lead" where
  "recordOutreachDrafts lead drafts timestamp =
     log_entries (map (\<lambda>draft.
       \<lparr>le_timestamp = timestamp, le_type = LE_outreach_drafted,
        le_summary = ''Outreach drafted for '' @ outreach_step_str (od_step draft),
        le_detail = Some (od_subject draft @ '' | '' @ od_tone draft)\<rparr>) drafts) lead"

section \<open>Proposals and their approval\<close>

definition buildProposal :: "build_proposal_input \<Rightarrow> proposal" where
  "buildProposal input =
     \<lparr>pr_lead_id = ld_lead_id (bp_lead input), pr_version = bp_version input,
      pr_artifact_ref = ld_lead_id (bp_lead input) @ ''/proposal-v'' @ int_str (bp_version input) @ ''.md'',
      pr_summary_of_need = ld_initial_need (bp_lead input),
      pr_business_outcomes = bp_business_outcomes input, pr_scope_outline = bp_scope_outline input,
      pr_estimated_timeline = bp_estimated_timeline input, pr_price_range = bp_price_range input,
      pr_assumptions = bp_assumptions input, pr_needs_scoping = nullish (bp_needs_scoping input) [],
      pr_commercial_risks = nullish (bp_commercial_risks input) [],
      pr_created_at = bp_created_at input, pr_sent_at = None\<rparr>"

definition attachProposalToLead :: "lead \<Rightarrow> proposal \<Rightarrow> string \<Rightarrow> lead" where
  "attachProposalToLead lead proposal timestamp =
     log_entries [\<lparr>le_timestamp = timestamp, le_type = LE_proposal_created,
         le_summary = ''Proposal v'' @ int_str (pr_version proposal) @ '' created'',
         le_detail = Some (pr_artifact_ref proposal)\<rparr>]
       (lead\<lparr>ld_proposal_refs := ld_proposal_refs lead @ [pr_artifact_ref proposal]\<rparr>)"

definition sendProposal :: "lead \<Rightarrow> proposal \<Rightarrow> string \<Rightarrow> lead \<times> proposal" where
  "sendProposal lead proposal timestamp =
     (let sentProposal = proposal\<lparr>pr_sent_at := Some timestamp\<rparr>;
          stagedLead = updatePipelineStage lead PS_proposal_sent timestamp
      in (log_entries [\<lparr>le_timestamp = timestamp, le_type = LE_proposal_sent,
            le_summary = ''Proposal v'' @ int_str (pr_version proposal) @ '' sent to client'',
            le_detail = None\<rparr>] stagedLead,
          sentProposal))"

definition buildProposalApprovalRequest :: "approval_input \<Rightarrow> approval_request" where
  "buildProposalApprovalRequest input = createProposalApprovalRequest input"

definition createProposalApprovalCycle :: "approval_input \<Rightarrow> approval_cycle" where
  "createProposalApprovalCycle input =
     \<lparr>ac_request = buildProposalApprovalRequest input, ac_status = AP_pending,
      ac_last_response = None, ac_history = []\<rparr>"

fun mapDecisionToApprovalStatus :: "approval_decision \<Rightarrow> approval_status" where
  "mapDecisionToApprovalStatus Approve = AP_approved"
| "mapDecisionToApprovalStatus Reject = AP_rejected"
| "mapDecisionToApprovalStatus Revise = AP_revise_requested"

definition applyProposalApprovalResponse ::
  "approval_cycle \<Rightarrow> approval_response \<Rightarrow> approval_cycle" where
  "applyProposalApprovalResponse cycle response =
     cycle\<lparr>ac_status := mapDecisionToApprovalStatus (ap_decision response),
           ac_last_response := Some response, ac_history := ac_history cycle @ [response]\<rparr>"

definition recordApprovalCycleOnLead :: "lead \<Rightarrow> approval_cycle \<Rightarrow> string \<Rightarrow> lead" where
  "recordApprovalCycleOnLead lead cycle timestamp =
     (let type = (case ac_status cycle of
            AP_approved \<Rightarrow> LE_approval_approved
          | AP_rejected \<Rightarrow> LE_approval_rejected
          | AP_revise_requested \<Rightarrow> LE_approval_revision_requested
          | AP_pending \<Rightarrow> LE_approval_requested);
          detail = nullish (Option.bind (ac_last_response cycle) ap_notes)
            (ar_recommendation (ac_request cycle))
      in log_entries [\<lparr>le_timestamp = timestamp, le_type = type,
           le_summary = ''Proposal approval '' @ approval_status_str (ac_status cycle),
           le_detail = Some detail\<rparr>] lead)"

section \<open>Handoff messages\<close>

definition js_strings :: "string list \<Rightarrow> jsval" where
  "js_strings xs = JArr (map JStr xs)"

definition js_opt_string :: "string option \<Rightarrow> jsval" where
  "js_opt_string x = (case x of None \<Rightarrow> JUndefined | Some s \<Rightarrow> JStr s)"

definition buildLeadHandoffBundle ::
  "lead \<Rightarrow> proposal \<Rightarrow> string \<Rightarrow> string \<Rightarrow> agent_message \<times> agent_message" where
  "buildLeadHandoffBundle lead proposal project_id timestamp =
     (\<lparr>msg_from = ''sales_agent'', msg_to = ''product_agent'', msg_type = ''lead_handoff'',
       msg_project_id = project_id, msg_timestamp = timestamp,
       msg_payload = JObj
         [(''lead_id'', JStr (ld_lead_id lead)), (''company_name'', JStr (ld_company_name lead)),
          (''business_summary'', JStr (ld_initial_need lead)),
          (''pain_points'', js_strings (ld_pain_points lead)),
          (''stakeholders'', js_strings (ld_stakeholders lead)),
          (''conversation_notes'', js_strings (ld_conversation_notes lead)),
          (''last_proposal_ref'', JStr (pr_artifact_ref proposal)),
          (''commercial_risks'', js_strings (pr_commercial_risks proposal)),
          (''delivery_readiness'', JObj
            [(''qualified'', JBool (ql_total (ld_qualification lead) \<ge> ql_threshold (ld_qualification lead))),
             (''won'', JBool (ld_pipeline_stage lead = PS_won)),
             (''outstanding_scoping'', js_strings (pr_needs_scoping proposal))])]\<rparr>,
      \<lparr>msg_from = ''sales_agent'', msg_to = ''project_manager_agent'', msg_type = ''status_update'',
       msg_project_id = project_id, msg_timestamp = timestamp,
       msg_payload = JObj
         [(''lead_id'', JStr (ld_lead_id lead)), (''status'', JStr ''project_created''),
          (''handoff_ref'', JStr (pr_artifact_ref proposal))]\<rparr>)"

definition markHandoffCompleted :: "lead \<Rightarrow> string \<Rightarrow> lead" where
  "markHandoffCompleted lead timestamp =
     log_entries [\<lparr>le_timestamp = timestamp, le_type = LE_handoff_completed,
         le_summary = ''Lead handoff acknowledged by Product Agent'', le_detail = None\<rparr>]
       (lead\<lparr>ld_handoff_completed := True\<rparr>)"

definition markHandoffFailed :: "lead \<Rightarrow> string \<Rightarrow> string \<Rightarrow> lead" where
  "markHandoffFailed lead timestamp error =
     log_entries [\<lparr>le_timestamp = timestamp, le_type = LE_handoff_failed,
         le_summary = ''Lead handoff failed'', le_detail = Some error\<rparr>]
       (lead\<lparr>ld_handoff_completed := False\<rparr>)"

text \<open>\<open>proposal_refs.at(-1)\<close>: the last one, undefined when there is none.\<close>

definition last_ref :: "string list \<Rightarrow> string option" where
  "last_ref xs = (if xs = [] then None else Some (last xs))"

definition buildHandoffFailureEscalation :: "lead \<Rightarrow> string \<Rightarrow> string \<Rightarrow> string \<Rightarrow> agent_message" where
  "buildHandoffFailureEscalation lead project_id timestamp error =
     \<lparr>msg_from = ''sales_agent'', msg_to = ''ceo_agent'', msg_type = ''risk_alert'',
      msg_project_id = project_id, msg_timestamp = timestamp,
      msg_payload = JObj
        [(''lead_id'', JStr (ld_lead_id lead)), (''project_id'', JStr project_id),
         (''error'', JStr error), (''failed_at'', JStr timestamp),
         (''last_proposal_ref'', js_opt_string (last_ref (ld_proposal_refs lead)))]\<rparr>"

section \<open>Follow-up tasks\<close>

definition createFollowUpTask ::
  "string \<Rightarrow> string \<Rightarrow> outreach_step \<Rightarrow> string \<Rightarrow> string \<Rightarrow> follow_up_task" where
  "createFollowUpTask task_id lead_id sequence_step created_at recommended_send_at =
     \<lparr>fu_task_id = task_id, fu_lead_id = lead_id, fu_status = FU_queued,
      fu_recommended_send_at = recommended_send_at, fu_created_at = created_at,
      fu_sequence_step = sequence_step\<rparr>"

definition recordFollowUpTask :: "lead \<Rightarrow> follow_up_task \<Rightarrow> string \<Rightarrow> lead" where
  "recordFollowUpTask lead task timestamp =
     log_entries [\<lparr>le_timestamp = timestamp, le_type = LE_follow_up_task_created,
       le_summary = ''Follow-up task created for '' @ outreach_step_str (fu_sequence_step task),
       le_detail = Some (fu_task_id task @ '' scheduled '' @ fu_recommended_send_at task)\<rparr>] lead"

section \<open>The life of a lead\<close>

datatype lead_op =
    L_score qualification_scores string "int option"
  | L_stage pipeline_stage string
  | L_clarify string "string list option"
  | L_outreach "outreach_draft list" string
  | L_attach proposal string
  | L_send proposal string
  | L_approval approval_cycle string
  | L_completed string
  | L_failed string string
  | L_follow_up follow_up_task string

fun apply_lead_op :: "lead_op \<Rightarrow> lead \<Rightarrow> lead" where
  "apply_lead_op (L_score scores t th) l = scoreLead l scores t th"
| "apply_lead_op (L_stage stage t) l = updatePipelineStage l stage t"
| "apply_lead_op (L_clarify t qs) l = requestClarification l t qs"
| "apply_lead_op (L_outreach ds t) l = recordOutreachDrafts l ds t"
| "apply_lead_op (L_attach p t) l = attachProposalToLead l p t"
| "apply_lead_op (L_send p t) l = fst (sendProposal l p t)"
| "apply_lead_op (L_approval c t) l = recordApprovalCycleOnLead l c t"
| "apply_lead_op (L_completed t) l = markHandoffCompleted l t"
| "apply_lead_op (L_failed t e) l = markHandoffFailed l t e"
| "apply_lead_op (L_follow_up task t) l = recordFollowUpTask l task t"

inductive lead_reachable :: "lead \<Rightarrow> bool" where
  created: "lead_reachable (createLead input)"
| from_marketing: "lead_reachable (createLeadFromMarketingHandoff t packet)"
| step: "lead_reachable l \<Longrightarrow> lead_reachable (apply_lead_op op l)"

lemmas lead_op_defs =
  scoreLead_def updatePipelineStage_def requestClarification_def recordOutreachDrafts_def
  attachProposalToLead_def sendProposal_def recordApprovalCycleOnLead_def markHandoffCompleted_def
  markHandoffFailed_def recordFollowUpTask_def log_entries_def

text \<open>The last report on the handoff in the timeline.\<close>

definition handoff_reports :: "lead \<Rightarrow> lead_event list" where
  "handoff_reports l =
     filter (\<lambda>e. e = LE_handoff_completed \<or> e = LE_handoff_failed) (map le_type (ld_timeline l))"

definition lead_inv :: "lead \<Rightarrow> bool" where
  "lead_inv l \<longleftrightarrow>
     ld_lifecycle_state l = PIPELINE_TO_LIFECYCLE (ld_pipeline_stage l) \<and>
     ql_total (ld_qualification l) = sumQualificationScores (ql_scores (ld_qualification l)) \<and>
     (ql_is_low_priority (ld_qualification l) \<longrightarrow>
        ql_total (ld_qualification l) < ql_threshold (ld_qualification l)) \<and>
     (ld_handoff_completed l \<longleftrightarrow>
        handoff_reports l \<noteq> [] \<and> last (handoff_reports l) = LE_handoff_completed) \<and>
     (\<exists>es. map le_type (ld_timeline l) = LE_created # es \<and> LE_created \<notin> set es)"

lemma lead_inv_created: "lead_inv (createLead input)"
  by (simp add: lead_inv_def createLead_def handoff_reports_def sumQualificationScores_def makeEmptyScores_def)

lemma lead_inv_marketing: "lead_inv (createLeadFromMarketingHandoff t packet)"
  by (simp add: lead_inv_def createLeadFromMarketingHandoff_def Let_def createLead_def
      handoff_reports_def sumQualificationScores_def makeEmptyScores_def)

text \<open>What an operation appends: entries of its own kind.\<close>

lemma timeline_op:
  "\<exists>es. ld_timeline (apply_lead_op op l) = ld_timeline l @ es \<and> (\<forall>e \<in> set es. le_type e \<noteq> LE_created)"
  by (cases op) (auto simp: lead_op_defs Let_def split: approval_status.split)

lemma lead_inv_step: "lead_inv l \<Longrightarrow> lead_inv (apply_lead_op op l)"
  by (cases op)
    (auto simp: lead_inv_def lead_op_defs Let_def handoff_reports_def mapPipelineStageToLifecycle_def
      filter_map o_def split: approval_status.split)

lemma lead_reachable_inv: "lead_reachable l \<Longrightarrow> lead_inv l"
  by (induction rule: lead_reachable.induct) (simp_all add: lead_inv_created lead_inv_marketing lead_inv_step)

lemma timeline_run: "prefix (ld_timeline l) (ld_timeline (foldl (\<lambda>l op. apply_lead_op op l) l ops))"
proof (induction ops arbitrary: l)
  case (Cons op ops)
  have "prefix (ld_timeline l) (ld_timeline (apply_lead_op op l))"
    using timeline_op [of op l] by (auto simp: prefix_def)
  from prefix_order.trans [OF this Cons] show ?case by simp
qed simp

section \<open>The approval cycle\<close>

lemma approval_run:
  "ac_history (foldl applyProposalApprovalResponse c rs) = ac_history c @ rs \<and>
   ac_request (foldl applyProposalApprovalResponse c rs) = ac_request c \<and>
   (rs \<noteq> [] \<longrightarrow>
      ac_last_response (foldl applyProposalApprovalResponse c rs) = Some (last rs) \<and>
      ac_status (foldl applyProposalApprovalResponse c rs) = mapDecisionToApprovalStatus (ap_decision (last rs)))"
  by (induction rs arbitrary: c) (auto simp: applyProposalApprovalResponse_def)

section \<open>The handoff messages and the message validator\<close>

text \<open>
  The message about a won lead lacks fields the validator requires of a lead handoff; the
  update for the project manager becomes valid on the bus; the escalation of a failed handoff
  does not, since it has no severity.
\<close>

lemma handoff_rejected: "\<not> isValidAgentMessage (message_value (fst (buildLeadHandoffBundle l p i t)))"
  by (rule payload_missing [of _ Lead_handoff "''handoff_id''"]) (simp_all add: buildLeadHandoffBundle_def)

lemma update_accepted:
  "isValidAgentMessage (message_value (normalizeMessageForRuntime (snd (buildLeadHandoffBundle l p i t))))"
  by (rule normalize_valid_status) (simp add: buildLeadHandoffBundle_def)

lemma escalation_rejected:
  "\<not> isValidAgentMessage (message_value (normalizeMessageForRuntime (buildHandoffFailureEscalation l i t e)))"
proof (rule payload_missing [of _ Risk_alert "''severity''"])
  show "\<not> has_prop (msg_payload (normalizeMessageForRuntime (buildHandoffFailureEscalation l i t e))) ''severity''"
    by (simp add: buildHandoffFailureEscalation_def normalizeMessageForRuntime_def Let_def field_default
        del: has_prop.simps) simp
qed (simp_all add: buildHandoffFailureEscalation_def)

section \<open>Outreach times\<close>

lemma shift_time:
  "date_parse s = Some t \<Longrightarrow> \<bar>t + d * ms_per_day\<bar> \<le> max_time \<Longrightarrow>
   shiftIsoTimestamp s d = Inr (iso_string (t + d * ms_per_day))"
  by (simp add: shiftIsoTimestamp_def to_iso_string_def)

lemma outreach_ok:
  assumes "date_parse s = Some t" "\<bar>t\<bar> \<le> max_time" "t + 5 * ms_per_day \<le> max_time"
  shows "\<exists>ds. buildOutreachSequence l s a b c = Inr ds \<and>
    map od_step ds = [Initial_contact, Value_add_follow_up, Close_loop] \<and>
    map (date_parse \<circ> od_recommended_send_at) ds = [Some t, Some (t + 2 * ms_per_day), Some (t + 5 * ms_per_day)]"
proof -
  have two: "\<bar>t + 2 * ms_per_day\<bar> \<le> max_time" and five: "\<bar>t + 5 * ms_per_day\<bar> \<le> max_time"
    using assms(2,3) by simp_all
  show ?thesis
    using assms(1) shift_time [OF assms(1) two] shift_time [OF assms(1) five]
      date_parse_iso_string [OF two] date_parse_iso_string [OF five]
    by (simp add: buildOutreachSequence_def Let_def)
qed

section \<open>Properties of the component\<close>

definition demo_lead :: lead where
  "demo_lead = apply_lead_op (L_completed ''t2'') (apply_lead_op (L_stage PS_won ''t1'')
     (createLead \<lparr>cl_in_lead_id = ''l1'', cl_in_company_name = ''Acme'', cl_in_primary_contact = ''Ann'',
        cl_in_industry = ''retail'', cl_in_source = ''web'', cl_in_initial_need = ''automation'',
        cl_in_timestamp = ''t0'', cl_in_pain_points = None, cl_in_stakeholders = None\<rparr>))"

lemma demo_lead_reachable: "lead_reachable demo_lead"
  unfolding demo_lead_def by (intro lead_reachable.intros)

text \<open>
  C29: Every lead the sales operations can produce has the lifecycle state of its pipeline
  stage and the total of its scores, is low priority only below its threshold, counts as
  handed over exactly when the last report on its handoff says so, and has one creation
  entry, the first.
\<close>

theorem lead_invariant:
  assumes "lead_reachable l"
  shows "ld_lifecycle_state l = mapPipelineStageToLifecycle (ld_pipeline_stage l) \<and>
    ql_total (ld_qualification l) = sumQualificationScores (ql_scores (ld_qualification l)) \<and>
    (ql_is_low_priority (ld_qualification l) \<longrightarrow>
       ql_total (ld_qualification l) < ql_threshold (ld_qualification l)) \<and>
    (ld_handoff_completed l \<longleftrightarrow>
       handoff_reports l \<noteq> [] \<and> last (handoff_reports l) = LE_handoff_completed) \<and>
    (\<exists>es. map le_type (ld_timeline l) = LE_created # es \<and> LE_created \<notin> set es)"
  using lead_reachable_inv [OF assms] unfolding lead_inv_def mapPipelineStageToLifecycle_def .

theorem lead_invariant_witness: "ld_lifecycle_state demo_lead = mapPipelineStageToLifecycle (ld_pipeline_stage demo_lead)"
  using lead_invariant [OF demo_lead_reachable] by blast

text \<open>
  Each step up the pipeline keeps the lifecycle state or makes a move of the transition
  table; losing a lead does so only while its state is still lead.
\<close>

theorem pipeline_and_lifecycle:
  "list_all (\<lambda>(s, t). mapPipelineStageToLifecycle t = mapPipelineStageToLifecycle s \<or>
      isValidTransition (mapPipelineStageToLifecycle s) (mapPipelineStageToLifecycle t))
     [(PS_new, PS_contacted), (PS_contacted, PS_qualified), (PS_qualified, PS_proposal_sent),
      (PS_proposal_sent, PS_negotiation), (PS_negotiation, PS_won), (PS_proposal_sent, PS_won)] \<and>
   (isValidTransition (mapPipelineStageToLifecycle s) (mapPipelineStageToLifecycle PS_lost) \<longleftrightarrow>
      mapPipelineStageToLifecycle s = LS_lead)"
proof
  show "list_all (\<lambda>(s, t). mapPipelineStageToLifecycle t = mapPipelineStageToLifecycle s \<or>
      isValidTransition (mapPipelineStageToLifecycle s) (mapPipelineStageToLifecycle t))
     [(PS_new, PS_contacted), (PS_contacted, PS_qualified), (PS_qualified, PS_proposal_sent),
      (PS_proposal_sent, PS_negotiation), (PS_negotiation, PS_won), (PS_proposal_sent, PS_won)]"
    by (simp add: mapPipelineStageToLifecycle_def isValidTransition_def LIFECYCLE_TRANSITIONS_def)
  show "isValidTransition (mapPipelineStageToLifecycle s) (mapPipelineStageToLifecycle PS_lost) \<longleftrightarrow>
      mapPipelineStageToLifecycle s = LS_lead"
    by (cases s) (simp_all add: mapPipelineStageToLifecycle_def isValidTransition_def LIFECYCLE_TRANSITIONS_def)
qed

text \<open>
  The registry's validator never accepts the handoff message the sales flow builds, nor,
  even after the bus normalised it, its escalation of a failed handoff; it always accepts
  the normalised update to the project manager.
\<close>

theorem sales_messages_validity:
  "\<not> isValidAgentMessage (message_value (fst (buildLeadHandoffBundle l p i t))) \<and>
   \<not> isValidAgentMessage (message_value (normalizeMessageForRuntime (buildHandoffFailureEscalation l i t e))) \<and>
   isValidAgentMessage (message_value (normalizeMessageForRuntime (snd (buildLeadHandoffBundle l p i t))))"
  by (intro conjI handoff_rejected escalation_rejected update_accepted)

end
