(* ===== verification/Support_Flow.thy ===== *)
theory Support_Flow
  imports Message_Bus JS_Date JS_Collections
begin

text \<open>
  The support agent's flow, \<^verbatim>\<open>src/agents/support/flow.ts\<close> on the data of
  \<^verbatim>\<open>src/agents/support/models.ts\<close>: tickets, their triage and escalation, the knowledge
  base, risk alerts, tasks and metrics. Hours are compared as milliseconds: the quotient of two
  whole numbers of milliseconds exceeds a whole number of hours in doubles exactly when it does.
  The report with its rounded averages is left out.
\<close>

section \<open>Data\<close>

datatype ticket_category = Question | Bug | Incident | Change_request

fun ticket_category_str :: "ticket_category \<Rightarrow> string" where
  "ticket_category_str Question = ''question''"
| "ticket_category_str Bug = ''bug''"
| "ticket_category_str Incident = ''incident''"
| "ticket_category_str Change_request = ''change_request''"

datatype priority = Low | Medium | High | Critical

fun priority_str :: "priority \<Rightarrow> string" where
  "priority_str Low = ''low''"
| "priority_str Medium = ''medium''"
| "priority_str High = ''high''"
| "priority_str Critical = ''critical''"

datatype ticket_status =
    TS_open | TS_triaged | TS_waiting_clarification | TS_needs_escalation | TS_resolved | TS_closed

datatype support_actor = Actor_support | Actor_client | Actor_engineering | Actor_project_manager

datatype note_type = Diagnosis | Workaround | Resolution | Client_update

record ticket_input =
  ti_project_id :: string
  ti_client_contact :: string
  ti_summary :: string
  ti_urgency :: priority
  ti_business_impact :: "priority option"
  ti_occurred_at :: "string option"
  ti_requested_outcome :: "string option"
  ti_reproduction_steps :: "string list option"

record support_ticket =
  tk_ticket_id :: string
  tk_project_id :: string
  tk_client_contact :: string
  tk_summary :: string
  tk_category :: ticket_category
  tk_priority :: priority
  tk_status :: ticket_status
  tk_occurred_at :: "string option"
  tk_created_at :: string
  tk_updated_at :: string
  tk_requested_outcome :: "string option"
  tk_lifecycle_context :: lifecycle_state

record ticket_history_entry =
  th_ticket_id :: string
  th_from_status :: "ticket_status option"
  th_to_status :: ticket_status
  th_actor :: support_actor
  th_note :: string
  th_created_at :: string

record resolution_note =
  rn_ticket_id :: string
  rn_actor :: support_actor
  rn_note :: string
  rn_note_type :: note_type
  rn_created_at :: string

record escalation_payload =
  ep_ticket_id :: string
  ep_project_id :: string
  ep_summary :: string
  ep_category :: ticket_category
  ep_business_impact :: string
  ep_reproduction_steps :: "string list option"
  ep_attempted_actions :: "string list"
  ep_conversation_history :: "string list"
  ep_requested_outcome :: string

datatype escalation_status = ES_pending | ES_acknowledged | ES_resolved | ES_timed_out

record escalation_record =
  er_escalation_id :: string
  er_ticket_id :: string
  er_project_id :: string
  er_target :: agent_type
  er_created_at :: string
  er_acknowledged_at :: "string option"
  er_status :: escalation_status

datatype risk_trigger = Repeat_incident | Cross_project_pattern | Sla_breach | Unresolved_escalation

fun risk_trigger_str :: "risk_trigger \<Rightarrow> string" where
  "risk_trigger_str Repeat_incident = ''repeat_incident''"
| "risk_trigger_str Cross_project_pattern = ''cross_project_pattern''"
| "risk_trigger_str Sla_breach = ''sla_breach''"
| "risk_trigger_str Unresolved_escalation = ''unresolved_escalation''"

record risk_alert =
  ra_alert_id :: string
  ra_project_id :: string
  ra_severity :: priority
  ra_trigger :: risk_trigger
  ra_summary :: string
  ra_recommended_action :: string
  ra_created_at :: string

datatype document_type = Delivery_note | Runbook | Faq | Support_history

record knowledge_document =
  kd_document_id :: string
  kd_project_id :: string
  kd_type :: document_type
  kd_title :: string
  kd_content :: string
  kd_tags :: "string list"
  kd_updated_at :: string

record known_issue_match =
  ki_document :: knowledge_document
  ki_matched_terms :: "string list"
  ki_workaround :: "string option"

record client_update =
  cu_ticket_id :: string
  cu_summary :: string
  cu_detail :: string
  cu_next_step :: "string option"
  cu_created_at :: string

datatype task_type =
    Ticket_triage | Knowledge_resolution | Ticket_escalation_task | Risk_review | Support_report

fun task_type_str :: "task_type \<Rightarrow> string" where
  "task_type_str Ticket_triage = ''ticket_triage''"
| "task_type_str Knowledge_resolution = ''knowledge_resolution''"
| "task_type_str Ticket_escalation_task = ''ticket_escalation''"
| "task_type_str Risk_review = ''risk_review''"
| "task_type_str Support_report = ''support_report''"

datatype task_status =
    TK_queued | TK_running | TK_waiting_external_agent | TK_waiting_client | TK_completed | TK_failed

record support_task =
  st_task_id :: string
  st_ticket_id :: string
  st_project_id :: string
  st_task_type :: task_type
  st_status :: task_status
  st_created_at :: string
  st_updated_at :: string
  st_notes :: "string option"

record support_metrics =
  sm_open_tickets :: nat
  sm_unresolved_high_priority :: nat
  sm_escalations :: nat
  sm_risk_alerts :: nat
  sm_sla_breaches :: nat

section \<open>Triage\<close>

definition slugifySummary :: "string \<Rightarrow> string" where
  "slugifySummary summary = take 32 (strip_hyphens (hyphenate False (js_lower summary)))"

definition classifyTicketCategory :: "string \<Rightarrow> ticket_category" where
  "classifyTicketCategory summary =
     (let normalized = js_lower summary in
      if js_includes normalized ''incident'' \<or> js_includes normalized ''down'' \<or>
         js_includes normalized ''outage'' then Incident
      else if js_includes normalized ''bug'' \<or> js_includes normalized ''error'' \<or>
         js_includes normalized ''fail'' then Bug
      else if js_includes normalized ''change request'' \<or> js_includes normalized ''scope'' \<or>
         js_includes normalized ''enhancement'' then Change_request
      else Question)"

definition deriveTicketPriority :: "priority \<Rightarrow> priority option \<Rightarrow> priority" where
  "deriveTicketPriority urgency impact =
     (let businessImpact = nullish impact Medium in
      if urgency = Critical \<or> businessImpact = Critical then Critical
      else if urgency = High \<or> businessImpact = High then High
      else if urgency = Medium \<or> businessImpact = Medium then Medium
      else Low)"

record new_ticket =
  nt_ticket :: support_ticket
  nt_history :: "ticket_history_entry list"
  nt_lifecycle_transition :: "(lifecycle_state \<times> lifecycle_state) option"

definition createSupportTicket :: "ticket_input \<Rightarrow> project_entry \<Rightarrow> string \<Rightarrow> new_ticket outcome" where
  "createSupportTicket input project createdAt =
     (if js_trim (ti_project_id input) = [] then Inl ''Support tickets require a project_id''
      else if pe_project_id project \<noteq> ti_project_id input then
        Inl (''Ticket project_id '' @ ti_project_id input @ '' does not match project '' @ pe_project_id project)
      else if pe_lifecycle_state project \<noteq> LS_delivered \<and> pe_lifecycle_state project \<noteq> LS_support \<and>
              pe_lifecycle_state project \<noteq> LS_closed then
        Inl (''Support ticket requires delivered/support context, received '' @
             lifecycle_str (pe_lifecycle_state project))
      else
        let ticketId = ti_project_id input @ ''-'' @ str_or (slugifySummary (ti_summary input)) ''ticket'' in
        Inr \<lparr>nt_ticket =
          \<lparr>tk_ticket_id = ticketId, tk_project_id = ti_project_id input,
           tk_client_contact = ti_client_contact input, tk_summary = ti_summary input,
           tk_category = classifyTicketCategory (ti_summary input),
           tk_priority = deriveTicketPriority (ti_urgency input) (ti_business_impact input),
           tk_status = TS_open, tk_occurred_at = ti_occurred_at input, tk_created_at = createdAt,
           tk_updated_at = createdAt, tk_requested_outcome = ti_requested_outcome input,
           tk_lifecycle_context =
             (if pe_lifecycle_state project = LS_delivered then LS_support else pe_lifecycle_state project)\<rparr>,
         nt_history =
          [\<lparr>th_ticket_id = ticketId, th_from_status = None, th_to_status = TS_open,
            th_actor = Actor_support, th_note = ''Ticket created'', th_created_at = createdAt\<rparr>],
         nt_lifecycle_transition =
          (if pe_lifecycle_state project = LS_delivered then Some (LS_delivered, LS_support) else None)\<rparr>)"

definition requestClarificationIfNeeded :: "support_ticket \<Rightarrow> ticket_input \<Rightarrow> string list" where
  "requestClarificationIfNeeded ticket input =
     (if js_trim (ti_summary input) = [] \<or> length (js_trim (ti_summary input)) < 12
      then [''Mohon jelaskan gejala atau pertanyaan dengan lebih spesifik.''] else []) @
     (if js_trim (nullish (ti_requested_outcome input) []) = []
      then [''Hasil seperti apa yang Anda harapkan dari support ini?''] else []) @
     (if (tk_category ticket = Bug \<or> tk_category ticket = Incident) \<and>
         nullish (ti_reproduction_steps input) [] = []
      then [''Bisa kirim langkah reproduksi atau kondisi saat masalah muncul?''] else [])"

section \<open>Status and notes\<close>

definition updateTicketStatus ::
  "support_ticket \<Rightarrow> ticket_status \<Rightarrow> string \<Rightarrow> support_actor \<Rightarrow> string \<Rightarrow> resolution_note list \<Rightarrow>
   (support_ticket \<times> ticket_history_entry) outcome" where
  "updateTicketStatus ticket nextStatus createdAt actor note notes' =
     (if nextStatus = TS_resolved \<and> \<not> list_ex (\<lambda>r. rn_note_type r = Client_update) notes' then
        Inl ''Ticket cannot be resolved before a client update is recorded''
      else
        Inr (ticket\<lparr>tk_status := nextStatus, tk_updated_at := createdAt\<rparr>,
             \<lparr>th_ticket_id = tk_ticket_id ticket, th_from_status = Some (tk_status ticket),
              th_to_status = nextStatus, th_actor = actor, th_note = note, th_created_at = createdAt\<rparr>))"

definition appendResolutionNote ::
  "string \<Rightarrow> support_actor \<Rightarrow> note_type \<Rightarrow> string \<Rightarrow> string \<Rightarrow> resolution_note" where
  "appendResolutionNote ticketId actor noteType note createdAt =
     \<lparr>rn_ticket_id = ticketId, rn_actor = actor, rn_note = note, rn_note_type = noteType,
      rn_created_at = createdAt\<rparr>"

section \<open>Escalation\<close>

definition routeEscalationTarget :: "ticket_category \<Rightarrow> priority \<Rightarrow> string \<Rightarrow> agent_type" where
  "routeEscalationTarget category prio summary =
     (if category = Bug \<or> category = Incident then Engineering_agent
      else if category = Change_request then Project_manager_agent
      else
        let normalized = js_lower summary in
        if js_includes normalized ''timeline'' \<or> js_includes normalized ''deadline'' \<or>
           js_includes normalized ''dependency'' \<or> js_includes normalized ''owner approval''
        then Project_manager_agent
        else if prio = Critical then Engineering_agent else Project_manager_agent)"

definition buildEscalationPayload ::
  "support_ticket \<Rightarrow> string \<Rightarrow> string list \<Rightarrow> string list \<Rightarrow> string \<Rightarrow> string list option \<Rightarrow> escalation_payload" where
  "buildEscalationPayload ticket business_impact attempted_actions conversation_history
     requested_outcome reproduction_steps =
     \<lparr>ep_ticket_id = tk_ticket_id ticket, ep_project_id = tk_project_id ticket,
      ep_summary = tk_summary ticket, ep_category = tk_category ticket,
      ep_business_impact = business_impact, ep_reproduction_steps = reproduction_steps,
      ep_attempted_actions = attempted_actions, ep_conversation_history = conversation_history,
      ep_requested_outcome = requested_outcome\<rparr>"

definition createEscalationRecord :: "support_ticket \<Rightarrow> agent_type \<Rightarrow> string \<Rightarrow> escalation_record" where
  "createEscalationRecord ticket target createdAt =
     \<lparr>er_escalation_id = tk_ticket_id ticket @ '':'' @ agent_type_str target @ '':'' @ createdAt,
      er_ticket_id = tk_ticket_id ticket, er_project_id = tk_project_id ticket, er_target = target,
      er_created_at = createdAt, er_acknowledged_at = None, er_status = ES_pending\<rparr>"

definition acknowledgeEscalation :: "escalation_record \<Rightarrow> string \<Rightarrow> escalation_record" where
  "acknowledgeEscalation escalation acknowledgedAt =
     escalation\<lparr>er_status := ES_acknowledged, er_acknowledged_at := Some acknowledgedAt\<rparr>"

definition timeoutEscalation :: "escalation_record \<Rightarrow> string \<Rightarrow> escalation_record" where
  "timeoutEscalation escalation timedOutAt =
     escalation\<lparr>er_status := ES_timed_out, er_acknowledged_at := er_acknowledged_at escalation\<rparr>"

definition js_opt :: "('a \<Rightarrow> jsval) \<Rightarrow> 'a option \<Rightarrow> jsval" where
  "js_opt f x = (case x of None \<Rightarrow> JUndefined | Some v \<Rightarrow> f v)"

definition js_string_list :: "string list \<Rightarrow> jsval" where
  "js_string_list xs = JArr (map JStr xs)"

definition escalation_value :: "escalation_payload \<Rightarrow> jsval" where
  "escalation_value p = JObj
     [(''ticket_id'', JStr (ep_ticket_id p)), (''project_id'', JStr (ep_project_id p)),
      (''summary'', JStr (ep_summary p)), (''category'', JStr (ticket_category_str (ep_category p))),
      (''business_impact'', JStr (ep_business_impact p)),
      (''reproduction_steps'', js_opt js_string_list (ep_reproduction_steps p)),
      (''attempted_actions'', js_string_list (ep_attempted_actions p)),
      (''conversation_history'', js_string_list (ep_conversation_history p)),
      (''requested_outcome'', JStr (ep_requested_outcome p))]"

definition buildEscalationMessage ::
  "agent_type \<Rightarrow> string \<Rightarrow> string \<Rightarrow> escalation_payload \<Rightarrow> agent_message" where
  "buildEscalationMessage target projectId timestamp payload =
     \<lparr>msg_from = ''support_agent'', msg_to = agent_type_str target, msg_type = ''ticket_escalation'',
      msg_project_id = projectId, msg_timestamp = timestamp, msg_payload = escalation_value payload\<rparr>"

section \<open>The knowledge base\<close>

definition document_terms :: "string list \<Rightarrow> knowledge_document \<Rightarrow> string list" where
  "document_terms terms doc =
     filter (\<lambda>term. term \<in> set (kd_tags doc) \<or> js_includes (js_lower (kd_content doc)) term \<or>
       js_includes (js_lower (kd_title doc)) term) terms"

text \<open>The first line that names a workaround, from behind its first colon on.\<close>

definition workaround_of :: "string \<Rightarrow> string option" where
  "workaround_of content =
     map_option (\<lambda>line. js_trim (js_join '':'' (drop 1 (js_split CHR '':'' line))))
       (find (\<lambda>line. js_includes (js_lower line) ''workaround:'') (js_split (CHR 0x0A) content))"

fun search_known ::
  "string \<Rightarrow> string list \<Rightarrow> knowledge_document list \<Rightarrow> known_issue_match option \<Rightarrow> known_issue_match option" where
  "search_known projectId terms [] bestMatch = bestMatch"
| "search_known projectId terms (doc # docs) bestMatch =
     (if kd_project_id doc \<noteq> projectId then search_known projectId terms docs bestMatch
      else
        let matchedTerms = document_terms terms doc in
        if matchedTerms = [] then search_known projectId terms docs bestMatch
        else if (case bestMatch of None \<Rightarrow> True
                 | Some b \<Rightarrow> length matchedTerms > length (ki_matched_terms b))
        then search_known projectId terms docs
          (Some \<lparr>ki_document = doc, ki_matched_terms = matchedTerms,
                 ki_workaround = workaround_of (kd_content doc)\<rparr>)
        else search_known projectId terms docs bestMatch)"

definition summary_terms :: "string \<Rightarrow> string list" where
  "summary_terms summary = filter (\<lambda>w. w \<noteq> []) (js_split CHR ''-'' (slugifySummary summary))"

definition findKnownIssue :: "string \<Rightarrow> string \<Rightarrow> knowledge_document list \<Rightarrow> known_issue_match option" where
  "findKnownIssue projectId summary knowledge =
     search_known projectId (summary_terms summary) knowledge None"

record knowledge_result =
  kr_match :: "known_issue_match option"
  kr_next_status :: ticket_status
  kr_notes :: "resolution_note list"

definition resolveWithKnowledge ::
  "support_ticket \<Rightarrow> knowledge_document list \<Rightarrow> string \<Rightarrow> knowledge_result" where
  "resolveWithKnowledge ticket knowledge createdAt =
     (case findKnownIssue (tk_project_id ticket) (tk_summary ticket) knowledge of
        None \<Rightarrow>
          \<lparr>kr_match = None, kr_next_status = TS_needs_escalation,
           kr_notes = [appendResolutionNote (tk_ticket_id ticket) Actor_support Diagnosis
             ''No known issue or workaround found in the support knowledge base.'' createdAt]\<rparr>
      | Some match \<Rightarrow>
          let noteText = (if str_or (nullish (ki_workaround match) []) [] \<noteq> []
            then ''Known issue matched in '' @ kd_title (ki_document match) @ ''. Workaround: '' @
                 nullish (ki_workaround match) []
            else ''Known issue matched in '' @ kd_title (ki_document match) @ ''.'')
          in \<lparr>kr_match = Some match, kr_next_status = TS_triaged,
              kr_notes = [appendResolutionNote (tk_ticket_id ticket) Actor_support Workaround
                noteText createdAt]\<rparr>)"

section \<open>Risk\<close>

definition createRiskAlert ::
  "string \<Rightarrow> priority \<Rightarrow> risk_trigger \<Rightarrow> string \<Rightarrow> string \<Rightarrow> string \<Rightarrow> risk_alert" where
  "createRiskAlert projectId severity trigger summary recommendedAction createdAt =
     \<lparr>ra_alert_id = projectId @ '':'' @ risk_trigger_str trigger @ '':'' @ createdAt,
      ra_project_id = projectId, ra_severity = severity, ra_trigger = trigger,
      ra_summary = summary, ra_recommended_action = recommendedAction, ra_created_at = createdAt\<rparr>"

text \<open>Older than the agreed hours; an invalid date is never older.\<close>

definition older_than :: "string \<Rightarrow> string \<Rightarrow> int \<Rightarrow> bool" where
  "older_than now created hours =
     (case (date_parse now, date_parse created) of
        (Some a, Some b) \<Rightarrow> a - b > hours * 3600000
      | _ \<Rightarrow> False)"

definition evaluateSupportRisk ::
  "support_ticket \<Rightarrow> support_ticket list \<Rightarrow> escalation_record list option \<Rightarrow> string \<Rightarrow> int option \<Rightarrow> risk_alert option" where
  "evaluateSupportRisk ticket allTickets escalations_arg now slaHours_arg =
     (let escalations = nullish escalations_arg [];
          slaHours = nullish slaHours_arg 24;
          sameProjectIncidents = filter (\<lambda>t. tk_project_id t = tk_project_id ticket \<and>
            tk_category t = Incident) allTickets;
          sameSignatureAcrossProjects = remdups (map tk_project_id
            (filter (\<lambda>t. slugifySummary (tk_summary t) = slugifySummary (tk_summary ticket)) allTickets));
          unresolvedEscalations = filter (\<lambda>e. er_ticket_id e = tk_ticket_id ticket \<and>
            er_status e \<noteq> ES_resolved) escalations
      in
      if tk_category ticket = Incident \<and> length sameProjectIncidents \<ge> 2 then
        Some (createRiskAlert (tk_project_id ticket) High Repeat_incident
          ''Multiple incidents detected on the same project.''
          ''Coordinate a permanent fix and review delivery stability.'' now)
      else if length sameSignatureAcrossProjects > 1 then
        Some (createRiskAlert (tk_project_id ticket) High Cross_project_pattern
          ''A similar support pattern is appearing across multiple projects.''
          ''Escalate to PM or CEO for cross-project mitigation.'' now)
      else if length unresolvedEscalations \<ge> 2 then
        Some (createRiskAlert (tk_project_id ticket) Medium Unresolved_escalation
          ''Repeated escalations are still unresolved.''
          ''Review escalation ownership and define a final resolution path.'' now)
      else if tk_priority ticket = Critical \<and> tk_status ticket \<noteq> TS_resolved \<and>
              tk_status ticket \<noteq> TS_closed \<and> older_than now (tk_created_at ticket) slaHours then
        Some (createRiskAlert (tk_project_id ticket) Critical Sla_breach
          ''Critical ticket exceeded the configured SLA window.''
          ''Raise an immediate action-required escalation.'' now)
      else None)"

definition alert_value :: "risk_alert \<Rightarrow> jsval" where
  "alert_value a = JObj
     [(''alert_id'', JStr (ra_alert_id a)), (''project_id'', JStr (ra_project_id a)),
      (''severity'', JStr (priority_str (ra_severity a))),
      (''trigger'', JStr (risk_trigger_str (ra_trigger a))), (''summary'', JStr (ra_summary a)),
      (''recommended_action'', JStr (ra_recommended_action a)), (''created_at'', JStr (ra_created_at a))]"

definition buildRiskAlertMessage :: "string \<Rightarrow> string \<Rightarrow> risk_alert \<Rightarrow> agent_type \<Rightarrow> agent_message" where
  "buildRiskAlertMessage projectId timestamp payload target =
     \<lparr>msg_from = ''support_agent'', msg_to = agent_type_str target, msg_type = ''risk_alert'',
      msg_project_id = projectId, msg_timestamp = timestamp, msg_payload = alert_value payload\<rparr>"

section \<open>Updates for the client\<close>

definition word_char :: "char \<Rightarrow> bool" where
  "word_char c =
     (let n = of_char c :: nat in
      (97 \<le> n \<and> n \<le> 122) \<or> (65 \<le> n \<and> n \<le> 90) \<or> (48 \<le> n \<and> n \<le> 57) \<or> n = 95)"

definition internal_terms :: "string list" where
  "internal_terms = [''root cause'', ''stack trace'', ''internal'']"

text \<open>
  A term at the start of the text, in any case, with a word boundary behind it: the text
  behind it. The pattern \<^verbatim>\<open>\b(root cause|stack trace|internal)\b\<close> also asks for
  a boundary before it, which \<open>redact\<close> tracks in its first argument.
\<close>

definition match_term :: "string \<Rightarrow> string \<Rightarrow> bool" where
  "match_term s t \<longleftrightarrow> length t \<le> length s \<and> js_lower (take (length t) s) = t \<and>
     (case drop (length t) s of [] \<Rightarrow> True | c # _ \<Rightarrow> \<not> word_char c)"

function redact :: "bool \<Rightarrow> string \<Rightarrow> string" where
  "redact after_word [] = []"
| "redact after_word (c # s) =
     (case (if after_word then None else find (match_term (c # s)) internal_terms) of
        Some t \<Rightarrow> ''technical detail'' @ redact True (drop (length t - 1) s)
      | None \<Rightarrow> c # redact (word_char c) s)"
  by pat_completeness auto
termination by (relation "measure (\<lambda>(_, s). length s)") auto

definition createClientFacingUpdate ::
  "support_ticket \<Rightarrow> string \<Rightarrow> string \<Rightarrow> string option \<Rightarrow> client_update" where
  "createClientFacingUpdate ticket internalSummary createdAt nextStep =
     \<lparr>cu_ticket_id = tk_ticket_id ticket, cu_summary = ''Update for '' @ tk_ticket_id ticket,
      cu_detail = redact False internalSummary, cu_next_step = nextStep, cu_created_at = createdAt\<rparr>"

section \<open>Tasks and metrics\<close>

definition createSupportTask ::
  "string \<Rightarrow> string \<Rightarrow> task_type \<Rightarrow> string \<Rightarrow> string option \<Rightarrow> support_task" where
  "createSupportTask ticket_id project_id task_type created_at notes' =
     \<lparr>st_task_id = ticket_id @ '':'' @ task_type_str task_type @ '':'' @ created_at,
      st_ticket_id = ticket_id, st_project_id = project_id, st_task_type = task_type,
      st_status = TK_queued, st_created_at = created_at, st_updated_at = created_at,
      st_notes = notes'\<rparr>"

definition updateSupportTask ::
  "support_task \<Rightarrow> task_status \<Rightarrow> string \<Rightarrow> string option \<Rightarrow> support_task" where
  "updateSupportTask task status updatedAt notes' =
     task\<lparr>st_status := status, st_updated_at := updatedAt,
          st_notes := (case notes' of None \<Rightarrow> st_notes task | Some n \<Rightarrow> Some n)\<rparr>"

definition recoverSupportTasks :: "support_task list \<Rightarrow> string \<Rightarrow> support_task list" where
  "recoverSupportTasks tasks now =
     map (\<lambda>task. if st_status task = TK_running
       then task\<lparr>st_status := TK_queued, st_updated_at := now,
                 st_notes := Some (nullish (st_notes task) ''Recovered after restart.'')\<rparr>
       else task) tasks"

definition buildSupportMetrics ::
  "support_ticket list \<Rightarrow> escalation_record list \<Rightarrow> risk_alert list \<Rightarrow> string \<Rightarrow> int option \<Rightarrow> support_metrics" where
  "buildSupportMetrics tickets escalations alerts now slaHours_arg =
     (let slaHours = nullish slaHours_arg 24;
          openTickets = filter (\<lambda>t. tk_status t \<noteq> TS_resolved \<and> tk_status t \<noteq> TS_closed) tickets
      in \<lparr>sm_open_tickets = length openTickets,
          sm_unresolved_high_priority =
            length (filter (\<lambda>t. tk_priority t = High \<or> tk_priority t = Critical) openTickets),
          sm_escalations = length escalations, sm_risk_alerts = length alerts,
          sm_sla_breaches = length (filter (\<lambda>t. older_than now (tk_created_at t) slaHours) openTickets)\<rparr>)"

section \<open>Priorities are ordered\<close>

fun priority_rank :: "priority \<Rightarrow> nat" where
  "priority_rank Low = 0" | "priority_rank Medium = 1" | "priority_rank High = 2" | "priority_rank Critical = 3"

lemma priority_rank_inj [simp]: "priority_rank p = priority_rank q \<longleftrightarrow> p = q"
  by (cases p; cases q) simp_all

instantiation priority :: linorder
begin

definition less_eq_priority :: "priority \<Rightarrow> priority \<Rightarrow> bool" where
  "less_eq_priority p q \<longleftrightarrow> priority_rank p \<le> priority_rank q"

definition less_priority :: "priority \<Rightarrow> priority \<Rightarrow> bool" where
  "less_priority p q \<longleftrightarrow> priority_rank p < priority_rank q"

instance
  by standard (auto simp: less_eq_priority_def less_priority_def)

end

lemma derive_max: "deriveTicketPriority u b = max u (nullish b Medium)"
  by (cases u; cases "nullish b Medium") (simp_all add: deriveTicketPriority_def max_def less_eq_priority_def)

section \<open>Slugs\<close>

lemma slug_chars: "c \<in> set (slugifySummary s) \<Longrightarrow> slug_char c \<or> c = CHR ''-''"
  unfolding slugifySummary_def using set_take_subset set_strip hyphenate_chars by (metis subsetD)

lemma slug_length: "length (slugifySummary s) \<le> 32"
  by (simp add: slugifySummary_def)

section \<open>Redaction\<close>

text \<open>A term of the list occurs as a word, in any case.\<close>

fun leaks :: "bool \<Rightarrow> string \<Rightarrow> bool" where
  "leaks after_word [] = False"
| "leaks after_word (c # s) =
     ((\<not> after_word \<and> (\<exists>t \<in> set internal_terms. match_term (c # s) t)) \<or> leaks (word_char c) s)"

text \<open>Up to its first replacement the redacted text is the text.\<close>

lemma redact_split:
  "redact aw s = s \<or> (\<exists>k r. k < length s \<and> redact aw s = take k s @ ''technical detail'' @ r)"
proof (induction aw s rule: redact.induct)
  case (2 aw c s)
  show ?case
  proof (cases "if aw then None else find (match_term (c # s)) internal_terms")
    case None
    with 2(1) [OF None] show ?thesis
    proof (elim disjE)
      assume "\<exists>k r. k < length s \<and> redact (word_char c) s = take k s @ ''technical detail'' @ r"
      then obtain k r where "k < length s" "redact (word_char c) s = take k s @ ''technical detail'' @ r" by blast
      with None have "Suc k < length (c # s)" "redact aw (c # s) = take (Suc k) (c # s) @ ''technical detail'' @ r"
        by simp_all
      then show ?thesis by blast
    qed simp
  next
    case (Some t)
    then have "redact aw (c # s) = take 0 (c # s) @ ''technical detail'' @ redact True (drop (length t - 1) s)"
      by simp
    then show ?thesis by blast
  qed
qed simp

text \<open>No end of a term runs into the replacement.\<close>

lemma terms_clear:
  "list_all (\<lambda>t. list_all (\<lambda>i. \<not> (t ! i = CHR ''t'' \<and> Suc (Suc i) < length t \<and>
     t ! Suc i = CHR ''e'' \<and> t ! Suc (Suc i) = CHR ''c'') \<and>
     \<not> (t ! i = CHR ''t'' \<and> Suc (Suc i) \<ge> length t)) [0..<length t]) internal_terms"
  by code_simp

lemma match_term_nth: "match_term u t \<Longrightarrow> j < length t \<Longrightarrow> t ! j = js_lower_char (u ! j)"
proof -
  assume m: "match_term u t" and j: "j < length t"
  from m have l: "length t \<le> length u" and t: "js_lower (take (length t) u) = t"
    by (simp_all add: match_term_def)
  have "js_lower (take (length t) u) ! j = js_lower_char (u ! j)"
    using l j by (simp add: js_lower_def)
  with t show "t ! j = js_lower_char (u ! j)" by simp
qed

lemma match_term_before_replacement:
  assumes t: "t \<in> set internal_terms"
    and m: "match_term (c # take k s @ ''technical detail'' @ r) t" and k: "k < length s"
  shows "match_term (c # s) t"
proof -
  let ?u = "c # take k s @ ''technical detail'' @ r"
  have ne: "0 < length t" using t by (auto simp: internal_terms_def)
  have clear: "\<not> (t ! i = CHR ''t'' \<and> Suc (Suc i) < length t \<and> t ! Suc i = CHR ''e'' \<and>
      t ! Suc (Suc i) = CHR ''c'')" "\<not> (t ! i = CHR ''t'' \<and> Suc (Suc i) \<ge> length t)"
    if "i < length t" for i
    using terms_clear t that by (auto simp: list_all_iff)
  note at = match_term_nth [OF m]
  have u: "?u ! Suc k = CHR ''t''" "?u ! Suc (Suc k) = CHR ''e''" "?u ! Suc (Suc (Suc k)) = CHR ''c''"
    using k by (simp_all add: nth_append)
  have low: "js_lower_char CHR ''t'' = CHR ''t''" "js_lower_char CHR ''e'' = CHR ''e''"
      "js_lower_char CHR ''c'' = CHR ''c''"
    by (simp_all add: js_lower_char_def)
  have "\<not> Suc k < length t"
  proof
    assume i: "Suc k < length t"
    then have "t ! Suc k = CHR ''t''" using at u(1) low by simp
    with clear [OF i] have "Suc (Suc (Suc k)) < length t" by auto
    then have "t ! Suc (Suc k) = CHR ''e''" "t ! Suc (Suc (Suc k)) = CHR ''c''"
      using at [of "Suc (Suc k)"] at [of "Suc (Suc (Suc k))"] u(2,3) low by simp_all
    with clear(1) [OF i] \<open>t ! Suc k = CHR ''t''\<close> \<open>Suc (Suc (Suc k)) < length t\<close> show False by simp
  qed
  moreover have "length t \<noteq> Suc k"
  proof
    assume l: "length t = Suc k"
    have "drop (Suc k) ?u = ''technical detail'' @ r" using k by simp
    with m l show False by (simp add: match_term_def word_char_def)
  qed
  ultimately have l: "length t \<le> k" by simp
  then obtain n where n: "length t = Suc n" "n < k" using ne by (cases "length t") auto
  have "take (length t) ?u = take (length t) (c # s)" using n k by simp
  moreover have "drop (length t) ?u = s ! n # drop (Suc n) (take k s) @ ''technical detail'' @ r"
    using n k Cons_nth_drop_Suc [of n "take k s"] by simp
  moreover have "drop (length t) (c # s) = s ! n # drop (Suc n) s"
    using n k Cons_nth_drop_Suc [of n s] by simp
  ultimately show ?thesis
    using m n k by (simp add: match_term_def)
qed

lemma match_term_redact:
  "t \<in> set internal_terms \<Longrightarrow> match_term (c # redact aw s) t \<Longrightarrow> match_term (c # s) t"
  using redact_split [of aw s] match_term_before_replacement by (metis)

lemma no_term_starts: "t \<in> set internal_terms \<Longrightarrow> \<not> match_term (CHR ''t'' # s) t"
  "t \<in> set internal_terms \<Longrightarrow> \<not> match_term (CHR ''d'' # s) t"
  by (auto simp: internal_terms_def match_term_def js_lower_def js_lower_char_def)

lemma leaks_replacement: "leaks aw (''technical detail'' @ s) \<longleftrightarrow> leaks True s"
  by (simp add: word_char_def no_term_starts)

lemma redact_clean: "\<not> leaks aw (redact aw s)"
proof (induction aw s rule: redact.induct)
  case (2 aw c s)
  show ?case
  proof (cases "if aw then None else find (match_term (c # s)) internal_terms")
    case None
    then have "aw \<or> (\<forall>t \<in> set internal_terms. \<not> match_term (c # s) t)"
      by (auto simp: find_None_iff split: if_splits)
    then have "\<not> (\<not> aw \<and> (\<exists>t \<in> set internal_terms. match_term (c # redact (word_char c) s) t))"
      using match_term_redact by blast
    moreover have "redact aw (c # s) = c # redact (word_char c) s" using None by simp
    ultimately show ?thesis using 2(1) [OF None] by simp
  next
    case (Some t)
    then have "redact aw (c # s) = ''technical detail'' @ redact True (drop (length t - 1) s)" by simp
    then show ?thesis using 2(2) [OF Some] leaks_replacement by simp
  qed
qed simp

text \<open>A text in which no term occurs is left as it is.\<close>

lemma redact_id: "\<not> leaks aw s \<Longrightarrow> redact aw s = s"
  by (induction aw s rule: leaks.induct)
    (auto simp: find_None_iff split: option.splits dest!: iffD1 [OF find_Some_iff])

section \<open>The life of a ticket\<close>

text \<open>A status update of a run: the arguments of one call.\<close>

record status_call =
  sc_status :: ticket_status
  sc_at :: string
  sc_actor :: support_actor
  sc_note :: string
  sc_notes :: "resolution_note list"

text \<open>Calls in a row, keeping the history entries; a refused call changes nothing.\<close>

fun run_updates ::
  "status_call list \<Rightarrow> support_ticket \<Rightarrow> ticket_history_entry list \<Rightarrow> support_ticket \<times> ticket_history_entry list" where
  "run_updates [] t h = (t, h)"
| "run_updates (c # cs) t h =
     (case updateTicketStatus t (sc_status c) (sc_at c) (sc_actor c) (sc_note c) (sc_notes c) of
        Inl _ \<Rightarrow> run_updates cs t h
      | Inr (t', e) \<Rightarrow> run_updates cs t' (h @ [e]))"

text \<open>A history is a chain that begins with the opening and ends in the ticket's status.\<close>

fun linked :: "ticket_history_entry list \<Rightarrow> bool" where
  "linked [] = False"
| "linked [e] = True"
| "linked (e # f # es) = (th_from_status f = Some (th_to_status e) \<and> linked (f # es))"

definition history_ok :: "support_ticket \<Rightarrow> ticket_history_entry list \<Rightarrow> bool" where
  "history_ok t h \<longleftrightarrow> linked h \<and> th_from_status (hd h) = None \<and> th_to_status (hd h) = TS_open \<and>
     th_to_status (last h) = tk_status t \<and> (\<forall>e \<in> set h. th_ticket_id e = tk_ticket_id t)"

lemma linked_snoc: "linked h \<Longrightarrow> linked (h @ [e]) \<longleftrightarrow> th_from_status e = Some (th_to_status (last h))"
  by (induction h rule: linked.induct) auto

lemma linked_ne: "linked h \<Longrightarrow> h \<noteq> []"
  by auto

lemma update_history:
  "history_ok t h \<Longrightarrow> updateTicketStatus t st at a n ns = Inr (t', e) \<Longrightarrow> history_ok t' (h @ [e])"
  by (auto simp: history_ok_def updateTicketStatus_def linked_snoc dest: linked_ne split: if_splits)

lemma run_history: "history_ok t h \<Longrightarrow> run_updates cs t h = (t', h') \<Longrightarrow> history_ok t' h' \<and> prefix h h'"
proof (induction cs arbitrary: t h)
  case (Cons c cs)
  show ?case
  proof (cases "updateTicketStatus t (sc_status c) (sc_at c) (sc_actor c) (sc_note c) (sc_notes c)")
    case (Inl e)
    with Cons show ?thesis by simp
  next
    case (Inr r)
    obtain t1 e where r: "r = (t1, e)" by (cases r)
    with Inr Cons.prems have "history_ok t1 (h @ [e])" "run_updates cs t1 (h @ [e]) = (t', h')"
      by (auto intro: update_history)
    with Cons.IH have "history_ok t' h'" "prefix (h @ [e]) h'" by blast+
    then show ?thesis by (auto simp: prefix_def)
  qed
qed simp

lemma created_history: "createSupportTicket i p t = Inr n \<Longrightarrow> history_ok (nt_ticket n) (nt_history n)"
  by (auto simp: createSupportTicket_def history_ok_def Let_def split: if_splits)

text \<open>Resolved only by a call that carries a note to the client.\<close>

lemma update_resolved:
  "updateTicketStatus t st at a n ns = Inr (t', e) \<Longrightarrow> tk_status t' = TS_resolved \<Longrightarrow>
   \<exists>r \<in> set ns. rn_note_type r = Client_update"
  by (auto simp: updateTicketStatus_def list_ex_iff split: if_splits)

lemma created_ticket_fields:
  assumes "createSupportTicket i p t = Inr n"
  shows "pe_project_id p = ti_project_id i" "tk_project_id (nt_ticket n) = ti_project_id i"
    and "tk_lifecycle_context (nt_ticket n) =
      (if pe_lifecycle_state p = LS_delivered then LS_support else pe_lifecycle_state p)"
    and "nt_lifecycle_transition n =
      (if pe_lifecycle_state p = LS_delivered then Some (LS_delivered, LS_support) else None)"
    and "pe_lifecycle_state p \<in> {LS_delivered, LS_support, LS_closed}"
proof -
  have g: "\<not> js_trim (ti_project_id i) = []" "\<not> pe_project_id p \<noteq> ti_project_id i"
      "\<not> (pe_lifecycle_state p \<noteq> LS_delivered \<and> pe_lifecycle_state p \<noteq> LS_support \<and>
         pe_lifecycle_state p \<noteq> LS_closed)"
    using assms unfolding createSupportTicket_def by (fastforce split: if_splits)+
  then show "pe_project_id p = ti_project_id i" "pe_lifecycle_state p \<in> {LS_delivered, LS_support, LS_closed}"
    by blast+
  show "tk_project_id (nt_ticket n) = ti_project_id i"
    "tk_lifecycle_context (nt_ticket n) =
      (if pe_lifecycle_state p = LS_delivered then LS_support else pe_lifecycle_state p)"
    "nt_lifecycle_transition n =
      (if pe_lifecycle_state p = LS_delivered then Some (LS_delivered, LS_support) else None)"
    using assms unfolding createSupportTicket_def Let_def if_not_P [OF g(1)] if_not_P [OF g(2)] if_not_P [OF g(3)]
    by (simp_all only: sum.inject) (erule subst, simp)+
qed

lemma support_transition: "isValidTransition LS_delivered LS_support"
  by (simp add: isValidTransition_def LIFECYCLE_TRANSITIONS_def)

lemma create_error_iff:
  "(\<exists>e. createSupportTicket i p t = Inl e) \<longleftrightarrow>
     js_trim (ti_project_id i) = [] \<or> pe_project_id p \<noteq> ti_project_id i \<or>
     pe_lifecycle_state p \<notin> {LS_delivered, LS_support, LS_closed}"
  by (auto simp: createSupportTicket_def Let_def)

section \<open>The knowledge search\<close>

definition candidates :: "string \<Rightarrow> string list \<Rightarrow> knowledge_document list \<Rightarrow> knowledge_document list" where
  "candidates projectId terms docs =
     filter (\<lambda>d. kd_project_id d = projectId \<and> document_terms terms d \<noteq> []) docs"

definition match_of :: "string list \<Rightarrow> knowledge_document \<Rightarrow> known_issue_match" where
  "match_of terms d = \<lparr>ki_document = d, ki_matched_terms = document_terms terms d,
     ki_workaround = workaround_of (kd_content d)\<rparr>"

lemma search_known_Cons:
  "search_known p terms (d # docs) best =
     (if kd_project_id d = p \<and> document_terms terms d \<noteq> [] \<and>
         (\<forall>b. best = Some b \<longrightarrow> length (ki_matched_terms b) < length (document_terms terms d))
      then search_known p terms docs (Some (match_of terms d))
      else search_known p terms docs best)"
  by (cases best) (simp_all add: Let_def match_of_def)

lemma candidates_Cons:
  "candidates p terms (d # docs) =
     (if kd_project_id d = p \<and> document_terms terms d \<noteq> [] then d # candidates p terms docs
      else candidates p terms docs)"
  by (simp add: candidates_def)

lemma search_known_best:
  "search_known p terms docs best = Some m \<Longrightarrow>
   (best = Some m \<or> (\<exists>d \<in> set (candidates p terms docs). m = match_of terms d)) \<and>
   (\<forall>b. best = Some b \<longrightarrow> length (ki_matched_terms b) \<le> length (ki_matched_terms m)) \<and>
   (\<forall>d \<in> set (candidates p terms docs). length (document_terms terms d) \<le> length (ki_matched_terms m))"
proof (induction docs arbitrary: best)
  case Nil
  then show ?case by (simp add: candidates_def)
next
  case (Cons d docs)
  have len: "length (ki_matched_terms (match_of terms d)) = length (document_terms terms d)"
    by (simp add: match_of_def)
  show ?case
  proof (cases "kd_project_id d = p \<and> document_terms terms d \<noteq> [] \<and>
      (\<forall>b. best = Some b \<longrightarrow> length (ki_matched_terms b) < length (document_terms terms d))")
    case True
    from Cons.prems have "search_known p terms docs (Some (match_of terms d)) = Some m"
      unfolding search_known_Cons if_P [OF True] .
    from Cons.IH [OF this] True len show ?thesis
      unfolding candidates_Cons by (auto intro: less_imp_le less_le_trans)
  next
    case False
    from Cons.prems have "search_known p terms docs best = Some m"
      unfolding search_known_Cons if_not_P [OF False] .
    from Cons.IH [OF this] False show ?thesis
      unfolding candidates_Cons by (auto simp: not_less intro: order_trans)
  qed
qed

lemma search_known_none:
  "search_known p terms docs best = None \<longleftrightarrow> best = None \<and> candidates p terms docs = []"
proof (induction docs arbitrary: best)
  case Nil
  show ?case by (simp add: candidates_def)
next
  case (Cons d docs)
  have "\<exists>m. search_known p terms docs (Some b) = Some m" for b
    using Cons [of "Some b"] by simp
  with Cons [of None] show ?case unfolding search_known_Cons candidates_Cons
    by (cases best) auto
qed

section \<open>Risk alerts and the message validator\<close>

lemma risk_none_iff:
  "evaluateSupportRisk t all esc now hours = None \<longleftrightarrow>
     \<not> (tk_category t = Incident \<and>
        2 \<le> length (filter (\<lambda>u. tk_project_id u = tk_project_id t \<and> tk_category u = Incident) all)) \<and>
     \<not> 1 < length (remdups (map tk_project_id
        (filter (\<lambda>u. slugifySummary (tk_summary u) = slugifySummary (tk_summary t)) all))) \<and>
     \<not> 2 \<le> length (filter (\<lambda>e. er_ticket_id e = tk_ticket_id t \<and> er_status e \<noteq> ES_resolved) (nullish esc [])) \<and>
     \<not> (tk_priority t = Critical \<and> tk_status t \<notin> {TS_resolved, TS_closed} \<and>
        older_than now (tk_created_at t) (nullish hours 24))"
  by (auto simp: evaluateSupportRisk_def Let_def)

lemma risk_alert_shape:
  "evaluateSupportRisk t all esc now hours = Some a \<Longrightarrow>
   ra_project_id a = tk_project_id t \<and> ra_severity a \<in> {Medium, High, Critical} \<and>
   (ra_severity a = Critical \<longrightarrow> tk_priority t = Critical \<and> older_than now (tk_created_at t) (nullish hours 24))"
  by (auto simp: evaluateSupportRisk_def createRiskAlert_def Let_def split: if_splits)

text \<open>
  The escalation lacks two fields the validator requires and the bus does not supply; the alert
  lacks only the one the bus supplies.
\<close>

lemma support_escalation_rejected:
  "\<not> isValidAgentMessage (message_value (normalizeMessageForRuntime (buildEscalationMessage a p t e)))"
proof (rule payload_missing [of _ Ticket_escalation "''severity''"])
  show "\<not> has_prop (msg_payload (normalizeMessageForRuntime (buildEscalationMessage a p t e))) ''severity''"
    by (simp add: buildEscalationMessage_def escalation_value_def normalizeMessageForRuntime_def Let_def)
qed (simp_all add: buildEscalationMessage_def)

lemma risk_message_valid:
  "isValidAgentMessage (message_value (normalizeMessageForRuntime (buildRiskAlertMessage p t a target)))"
  unfolding valid_message_value
proof (rule exI [of _ Risk_alert], intro conjI)
  show "\<forall>f \<in> set (required_payload_fields Risk_alert).
      has_prop (msg_payload (normalizeMessageForRuntime (buildRiskAlertMessage p t a target))) f"
    by (simp add: buildRiskAlertMessage_def alert_value_def normalizeMessageForRuntime_def Let_def
        field_default del: has_prop.simps) simp
qed (simp_all add: buildRiskAlertMessage_def normalizeMessageForRuntime_def Let_def)

lemma risk_message_raw: "\<not> isValidAgentMessage (message_value (buildRiskAlertMessage p t a target))"
  by (rule payload_missing [of _ Risk_alert "''risk_id''"])
    (simp_all add: buildRiskAlertMessage_def alert_value_def)

section \<open>Recovery of tasks\<close>

lemma recover_tasks:
  "map st_task_id (recoverSupportTasks ts now) = map st_task_id ts"
  "t \<in> set (recoverSupportTasks ts now) \<Longrightarrow> st_status t \<noteq> TK_running"
  "recoverSupportTasks (recoverSupportTasks ts now) now' = recoverSupportTasks ts now"
  by (auto simp: recoverSupportTasks_def o_def)

lemma metrics_bounds:
  "sm_unresolved_high_priority (buildSupportMetrics ts es as now h) \<le> sm_open_tickets (buildSupportMetrics ts es as now h)"
  "sm_sla_breaches (buildSupportMetrics ts es as now h) \<le> sm_open_tickets (buildSupportMetrics ts es as now h)"
  "sm_open_tickets (buildSupportMetrics ts es as now h) \<le> length ts"
  by (simp_all add: buildSupportMetrics_def Let_def del: filter_filter)

section \<open>Properties of the component\<close>

definition demo_ticket_input :: ticket_input where
  "demo_ticket_input = \<lparr>ti_project_id = ''p1'', ti_client_contact = ''ann'', ti_summary = ''Login error'',
     ti_urgency = High, ti_business_impact = None, ti_occurred_at = None, ti_requested_outcome = None,
     ti_reproduction_steps = None\<rparr>"

definition demo_delivered :: project_entry where
  "demo_delivered = \<lparr>pe_project_id = ''p1'', pe_client_id = ''c1'', pe_lifecycle_state = LS_delivered,
     pe_active_agent_ids = [], pe_current_milestone = ''m'', pe_updated_at = ''t''\<rparr>"

definition demo_document :: knowledge_document where
  "demo_document = \<lparr>kd_document_id = ''d1'', kd_project_id = ''p1'', kd_type = Faq, kd_title = ''Login'',
     kd_content = ''see below'', kd_tags = [], kd_updated_at = ''t''\<rparr>"

text \<open>
  A ticket is refused exactly for a blank project id, another project, or a project that is
  not delivered, in support or closed. A created one has the higher of urgency and impact as
  its priority, and moves its project from delivered to support, a move of the transition
  table, exactly when it was delivered.
\<close>

theorem ticket_creation_exact:
  "case createSupportTicket i p t of
     Inl e \<Rightarrow> js_trim (ti_project_id i) = [] \<or> pe_project_id p \<noteq> ti_project_id i \<or>
       pe_lifecycle_state p \<notin> {LS_delivered, LS_support, LS_closed}
   | Inr n \<Rightarrow> js_trim (ti_project_id i) \<noteq> [] \<and> pe_project_id p = ti_project_id i \<and>
       pe_lifecycle_state p \<in> {LS_delivered, LS_support, LS_closed} \<and>
       tk_priority (nt_ticket n) = max (ti_urgency i) (nullish (ti_business_impact i) Medium) \<and>
       (if pe_lifecycle_state p = LS_delivered
        then nt_lifecycle_transition n = Some (LS_delivered, LS_support) \<and> isValidTransition LS_delivered LS_support \<and>
          tk_lifecycle_context (nt_ticket n) = LS_support
        else nt_lifecycle_transition n = None \<and> tk_lifecycle_context (nt_ticket n) = pe_lifecycle_state p)"
proof (cases "createSupportTicket i p t")
  case (Inl e)
  then have "\<exists>e. createSupportTicket i p t = Inl e" by blast
  then have "js_trim (ti_project_id i) = [] \<or> pe_project_id p \<noteq> ti_project_id i \<or>
      pe_lifecycle_state p \<notin> {LS_delivered, LS_support, LS_closed}" unfolding create_error_iff .
  with Inl show ?thesis by simp
next
  case (Inr n)
  note f = created_ticket_fields [OF Inr]
  have "js_trim (ti_project_id i) \<noteq> []" using Inr by (auto simp: createSupportTicket_def)
  moreover have "tk_priority (nt_ticket n) = max (ti_urgency i) (nullish (ti_business_impact i) Medium)"
    using Inr by (auto simp: createSupportTicket_def Let_def derive_max split: if_splits)
  ultimately show ?thesis using Inr f support_transition by simp
qed

theorem ticket_creation_exact_witness:
  "\<exists>n. createSupportTicket demo_ticket_input demo_delivered ''t0'' = Inr n \<and>
    tk_priority (nt_ticket n) = High \<and> nt_lifecycle_transition n = Some (LS_delivered, LS_support)"
proof -
  have "js_trim ''p1'' \<noteq> []" by (simp add: js_trim_empty_iff js_space_def)
  then obtain n where n: "createSupportTicket demo_ticket_input demo_delivered ''t0'' = Inr n"
    by (simp add: createSupportTicket_def demo_ticket_input_def demo_delivered_def Let_def)
  with ticket_creation_exact [of demo_ticket_input demo_delivered "''t0''"]
  have "nt_lifecycle_transition n = Some (LS_delivered, LS_support)" "tk_priority (nt_ticket n) = max High Medium"
    by (simp_all add: demo_ticket_input_def demo_delivered_def)
  moreover have "max High Medium = High" by (simp add: max_def less_eq_priority_def)
  ultimately show ?thesis using n by simp
qed

text \<open>
  However its status is updated, accepted or refused, a ticket's history starts with its
  opening, each entry starts where the previous one ended, the last ends in the ticket's
  status, and no entry is ever changed.
\<close>

theorem ticket_history_chain:
  assumes "createSupportTicket i p t = Inr n" and "run_updates calls (nt_ticket n) (nt_history n) = (ticket, history)"
  shows "linked history \<and> th_from_status (hd history) = None \<and> th_to_status (hd history) = TS_open \<and>
    th_to_status (last history) = tk_status ticket \<and> prefix (nt_history n) history"
  using run_history [OF created_history [OF assms(1)] assms(2)] by (simp add: history_ok_def)

theorem ticket_history_chain_witness:
  "\<exists>n ticket history. createSupportTicket demo_ticket_input demo_delivered ''t0'' = Inr n \<and>
    run_updates [\<lparr>sc_status = TS_resolved, sc_at = ''t1'', sc_actor = Actor_support, sc_note = [], sc_notes = []\<rparr>,
      \<lparr>sc_status = TS_triaged, sc_at = ''t2'', sc_actor = Actor_support, sc_note = [], sc_notes = []\<rparr>]
      (nt_ticket n) (nt_history n) = (ticket, history) \<and> linked history"
proof -
  have "js_trim ''p1'' \<noteq> []" by (simp add: js_trim_empty_iff js_space_def)
  then obtain n where n: "createSupportTicket demo_ticket_input demo_delivered ''t0'' = Inr n"
    by (simp add: createSupportTicket_def demo_ticket_input_def demo_delivered_def Let_def)
  obtain ticket history where r: "run_updates
      [\<lparr>sc_status = TS_resolved, sc_at = ''t1'', sc_actor = Actor_support, sc_note = [], sc_notes = []\<rparr>,
       \<lparr>sc_status = TS_triaged, sc_at = ''t2'', sc_actor = Actor_support, sc_note = [], sc_notes = []\<rparr>]
      (nt_ticket n) (nt_history n) = (ticket, history)" by (metis prod.collapse)
  from ticket_history_chain [OF n r] n r show ?thesis by blast
qed

text \<open>
  The knowledge search finds nothing exactly when no document of the project shares a term
  with the summary; otherwise it returns such a document with as many matched terms as any
  other.
\<close>

theorem known_issue_best:
  "case findKnownIssue projectId summary docs of
     None \<Rightarrow> candidates projectId (summary_terms summary) docs = []
   | Some m \<Rightarrow> ki_document m \<in> set (candidates projectId (summary_terms summary) docs) \<and>
       ki_matched_terms m = document_terms (summary_terms summary) (ki_document m) \<and>
       list_all (\<lambda>d. length (document_terms (summary_terms summary) d) \<le> length (ki_matched_terms m))
         (candidates projectId (summary_terms summary) docs)"
proof (cases "findKnownIssue projectId summary docs")
  case None
  then show ?thesis
    using search_known_none [of projectId "summary_terms summary" docs None] by (simp add: findKnownIssue_def)
next
  case (Some m)
  from search_known_best [of projectId "summary_terms summary" docs None m] Some
  have "(\<exists>d \<in> set (candidates projectId (summary_terms summary) docs). m = match_of (summary_terms summary) d) \<and>
      (\<forall>d \<in> set (candidates projectId (summary_terms summary) docs).
         length (document_terms (summary_terms summary) d) \<le> length (ki_matched_terms m))"
    by (simp add: findKnownIssue_def)
  with Some show ?thesis by (auto simp: match_of_def list_all_iff)
qed

text \<open>
  No update to a client contains one of the internal terms as a word, in any case, and a
  summary without them is passed on as it is.
\<close>

theorem client_update_redacted:
  "\<not> leaks False (cu_detail (createClientFacingUpdate ticket summary at nextStep)) \<and>
   (\<not> leaks False summary \<longrightarrow> cu_detail (createClientFacingUpdate ticket summary at nextStep) = summary)"
  by (simp add: createClientFacingUpdate_def redact_clean redact_id)

theorem client_update_redacted_witness:
  "\<exists>ticket. cu_detail (createClientFacingUpdate ticket ''All good'' ''t'' None) = ''All good''"
proof -
  have "\<not> leaks False ''All good''"
    by (simp add: internal_terms_def match_term_def js_lower_def js_lower_char_def word_char_def)
  then show ?thesis using client_update_redacted [of _ "''All good''" "''t''" None] by blast
qed

text \<open>
  The registry's validator never accepts the escalation the support flow builds, with or
  without the bus; a risk alert it refuses as built and accepts once normalised.
\<close>

theorem support_messages_validity:
  "\<not> isValidAgentMessage (message_value (normalizeMessageForRuntime (buildEscalationMessage target i t payload))) \<and>
   \<not> isValidAgentMessage (message_value (buildRiskAlertMessage i t alert target)) \<and>
   isValidAgentMessage (message_value (normalizeMessageForRuntime (buildRiskAlertMessage i t alert target)))"
  by (intro conjI support_escalation_rejected risk_message_raw risk_message_valid)

end
