(* ===== verification/Task_Graph.thy ===== *)
theory Task_Graph
  imports JS_Collections JS_Values
begin

text \<open>
  Tasks and their dependencies: the data and the transition table of
  \<^verbatim>\<open>src/tasks/types.ts\<close> and \<^verbatim>\<open>src/tasks/transitions.ts\<close>, and the two searches of
  \<^verbatim>\<open>src/tasks/graph.ts\<close>. Both searches are recursive functions that end for every input,
  since a path visits a registered task at most once. The cycle check is proved equal to
  reachability; the sort succeeds exactly on acyclic tasks and puts dependencies first.
\<close>

section \<open>Data\<close>

datatype task_state =
    Task_pending | Task_ready | Task_running | Task_succeeded | Task_failed | Task_blocked | Task_cancelled

fun task_state_str :: "task_state \<Rightarrow> string" where
  "task_state_str Task_pending = ''pending''"
| "task_state_str Task_ready = ''ready''"
| "task_state_str Task_running = ''running''"
| "task_state_str Task_succeeded = ''succeeded''"
| "task_state_str Task_failed = ''failed''"
| "task_state_str Task_blocked = ''blocked''"
| "task_state_str Task_cancelled = ''cancelled''"

record task_definition =
  td_id :: string
  td_title :: string
  td_input :: "jsval option"
  td_depends_on :: "string list option"
  td_tags :: "string list option"

record registered_task =
  rt_id :: string
  rt_title :: string
  rt_input :: "jsval option"
  rt_depends_on :: "string list option"
  rt_tags :: "string list option"
  rt_state :: task_state
  rt_created_at :: string
  rt_updated_at :: string

datatype task_result_status = Res_succeeded | Res_failed | Res_cancelled

record task_result =
  re_task_id :: string
  re_status :: task_result_status
  re_output :: "jsval option"
  re_error :: "string option"
  re_finished_at :: string

text \<open>\<open>task.depends_on ?? []\<close>.\<close>

definition task_deps :: "registered_task \<Rightarrow> string list" where
  "task_deps t = nullish (rt_depends_on t) []"

section \<open>Transitions\<close>

fun allowed_next :: "task_state \<Rightarrow> task_state list" where
  "allowed_next Task_pending = [Task_ready, Task_blocked, Task_cancelled]"
| "allowed_next Task_ready = [Task_running, Task_blocked, Task_cancelled]"
| "allowed_next Task_running = [Task_succeeded, Task_failed, Task_cancelled]"
| "allowed_next Task_succeeded = []"
| "allowed_next Task_failed = [Task_ready]"
| "allowed_next Task_blocked = [Task_ready, Task_cancelled]"
| "allowed_next Task_cancelled = []"

definition canTransition :: "task_state \<Rightarrow> task_state \<Rightarrow> bool" where
  "canTransition current next' \<longleftrightarrow> next' \<in> set (allowed_next current)"

section \<open>The cycle check\<close>

text \<open>
  \<open>visit\<close> of \<open>wouldCreateCycle\<close>; the lookup it is given is that of the registry's map
  \<open>m\<close>, and \<open>seen\<close> holds the tasks on the path from the start.
\<close>

function cycle_visit :: "(string, registered_task) js_map \<Rightarrow> string \<Rightarrow> string list \<Rightarrow> string \<Rightarrow> bool" where
  "cycle_visit m taskId seen current =
     (if current = taskId then True
      else (case jm_get m current of
         None \<Rightarrow> False
       | Some task \<Rightarrow>
           if current \<in> set seen then False
           else list_ex (cycle_visit m taskId (current # seen)) (task_deps task)))"
  by pat_completeness auto

termination
proof (relation "measure (\<lambda>(m, taskId, seen, current). card (set (jm_keys m) - set seen))", goal_cases)
  case (2 m taskId seen current task)
  then have "current \<in> set (jm_keys m) - set seen" by (metis DiffI jm_get_None_iff option.distinct(1))
  then have "set (jm_keys m) - set (current # seen) \<subset> set (jm_keys m) - set seen" by auto
  then show ?case by (simp add: psubset_card_mono)
qed simp

declare cycle_visit.simps [simp del]

definition wouldCreateCycle :: "string \<Rightarrow> string list \<Rightarrow> (string, registered_task) js_map \<Rightarrow> bool" where
  "wouldCreateCycle taskId dependencies m = list_ex (cycle_visit m taskId []) dependencies"

section \<open>The topological sort\<close>

text \<open>
  \<open>visit\<close> of \<open>sortTasksTopologically\<close>. The state is the visited ids and the sorted tasks; the
  set \<open>visiting\<close> is the path from the start, since every call that returns removes what it
  added and a call that throws ends the sort.
\<close>

function topo_visit ::
    "(string, registered_task) js_map \<Rightarrow> string list \<Rightarrow> string \<Rightarrow>
     string list \<times> registered_task list \<Rightarrow> (string list \<times> registered_task list) outcome"
  and topo_visits ::
    "(string, registered_task) js_map \<Rightarrow> string list \<Rightarrow> string list \<Rightarrow>
     string list \<times> registered_task list \<Rightarrow> (string list \<times> registered_task list) outcome"
where
  "topo_visit m visiting taskId (visited, order) =
     (if taskId \<in> set visited then Inr (visited, order)
      else if taskId \<in> set visiting then Inl (''Cycle detected at '' @ taskId)
      else (case jm_get m taskId of
         None \<Rightarrow> Inr (taskId # visited, order)
       | Some task \<Rightarrow>
           (case topo_visits m (taskId # visiting) (task_deps task) (visited, order) of
              Inl e \<Rightarrow> Inl e
            | Inr (visited, order) \<Rightarrow> Inr (taskId # visited, order @ [task]))))"
| "topo_visits m visiting [] s = Inr s"
| "topo_visits m visiting (depId # rest) s =
     (case topo_visit m visiting depId s of
        Inl e \<Rightarrow> Inl e
      | Inr s \<Rightarrow> topo_visits m visiting rest s)"
  by pat_completeness auto

termination
proof (relation "inv_image (less_than <*lex*> less_than)
    (\<lambda>x. case x of Inl (m, visiting, taskId, s) \<Rightarrow> (card (set (jm_keys m) - set visiting), 0)
       | Inr (m, visiting, deps, s) \<Rightarrow> (card (set (jm_keys m) - set visiting), Suc (length deps)))",
    goal_cases)
  case (2 m visiting taskId visited sorted task)
  then have "taskId \<in> set (jm_keys m) - set visiting" by (metis DiffI jm_get_None_iff option.distinct(1))
  then have "set (jm_keys m) - set (taskId # visiting) \<subset> set (jm_keys m) - set visiting" by auto
  then show ?case by (simp add: psubset_card_mono)
qed auto

declare topo_visit.simps [simp del]

text \<open>\<open>new Map(tasks.map(t => [t.id, t]))\<close>: of tasks with the same id the last one counts.\<close>

definition task_map :: "registered_task list \<Rightarrow> (string, registered_task) js_map" where
  "task_map tasks = foldl (\<lambda>m t. jm_set m (rt_id t) t) [] tasks"

definition sortTasksTopologically :: "registered_task list \<Rightarrow> registered_task list outcome" where
  "sortTasksTopologically tasks =
     (case topo_visits (task_map tasks) [] (map rt_id tasks) ([], []) of
        Inl e \<Rightarrow> Inl e
      | Inr (visited, order) \<Rightarrow> Inr order)"

section \<open>The graph of a map of tasks\<close>

definition dep_edges :: "(string, registered_task) js_map \<Rightarrow> (string \<times> string) set" where
  "dep_edges m = {(a, b). \<exists>t. jm_get m a = Some t \<and> b \<in> set (task_deps t)}"

lemma dep_edges_iff: "(a, b) \<in> dep_edges m \<longleftrightarrow> (\<exists>t. jm_get m a = Some t \<and> b \<in> set (task_deps t))"
  by (simp add: dep_edges_def)


section \<open>Correctness of the cycle check\<close>

lemma cycle_visit_sound: "cycle_visit m taskId seen current \<Longrightarrow> (current, taskId) \<in> (dep_edges m)\<^sup>*"
proof (induction m taskId seen current rule: cycle_visit.induct)
  case (1 m taskId seen current)
  show ?case
  proof (cases "current = taskId")
    case False
    with 1(2) obtain t d where t: "jm_get m current = Some t" "current \<notin> set seen" "d \<in> set (task_deps t)"
        "cycle_visit m taskId (current # seen) d"
      by (subst (asm) cycle_visit.simps) (auto split: option.splits if_splits simp: list_ex_iff)
    with 1(1) [OF False t(1,2,3)] show ?thesis
      by (metis converse_rtrancl_into_rtrancl dep_edges_iff)
  qed simp
qed

text \<open>A path between two nodes can be made to leave its first node for good.\<close>

lemma rtrancl_leave:
  "(a, c) \<in> Q\<^sup>* \<Longrightarrow> a \<noteq> c \<Longrightarrow>
   \<exists>b. (a, b) \<in> Q \<and> b \<noteq> a \<and> (b, c) \<in> (Q \<inter> (- {a}) \<times> (- {a}))\<^sup>*"
proof (induction rule: rtrancl_induct)
  case (step c d)
  show ?case
  proof (cases "a = c")
    case True
    with step show ?thesis by blast
  next
    case False
    with step obtain b where b: "(a, b) \<in> Q" "b \<noteq> a" "(b, c) \<in> (Q \<inter> (- {a}) \<times> (- {a}))\<^sup>*" by blast
    moreover have "(c, d) \<in> Q \<inter> (- {a}) \<times> (- {a})" using step False by auto
    ultimately show ?thesis by (meson rtrancl_into_rtrancl)
  qed
qed simp

lemma cycle_visit_complete:
  "(current, taskId) \<in> (dep_edges m \<inter> (- set seen) \<times> (- set seen))\<^sup>* \<Longrightarrow> current \<notin> set seen \<Longrightarrow>
   cycle_visit m taskId seen current"
proof (induction m taskId seen current rule: cycle_visit.induct)
  case (1 m taskId seen current)
  let ?Q = "\<lambda>S. dep_edges m \<inter> (- S) \<times> (- S)"
  show ?case
  proof (cases "current = taskId")
    case True
    then show ?thesis by (subst cycle_visit.simps) simp
  next
    case False
    from rtrancl_leave [OF 1(2) False] obtain b where b: "(current, b) \<in> ?Q (set seen)" "b \<noteq> current"
        "(b, taskId) \<in> (?Q (set seen) \<inter> (- {current}) \<times> (- {current}))\<^sup>*" by blast
    from b(1) obtain t where t: "jm_get m current = Some t" "b \<in> set (task_deps t)"
      by (auto simp: dep_edges_iff)
    have "?Q (set seen) \<inter> (- {current}) \<times> (- {current}) = ?Q (set (current # seen))" by auto
    with b(3) have p: "(b, taskId) \<in> (?Q (set (current # seen)))\<^sup>*" by simp
    have "b \<notin> set (current # seen)" using b(1,2) by auto
    with 1(1) [OF False t(1) 1(3) t(2) p] t 1(3) show ?thesis
      by (subst cycle_visit.simps) (auto simp: list_ex_iff)
  qed
qed

lemma cycle_check_reaches:
  "wouldCreateCycle taskId deps m \<longleftrightarrow> (\<exists>d \<in> set deps. (d, taskId) \<in> (dep_edges m)\<^sup>*)"
  using cycle_visit_sound [of m taskId "[]"] cycle_visit_complete [of _ taskId m "[]"]
  by (auto simp: wouldCreateCycle_def list_ex_iff)

section \<open>Correctness of the sort\<close>

lemma task_map_snoc: "task_map (tasks @ [t]) = jm_set (task_map tasks) (rt_id t) t"
  by (simp add: task_map_def)

lemma task_map_keyed: "keyed_by rt_id (task_map tasks)"
  by (induction tasks rule: rev_induct) (auto simp: task_map_snoc keyed_by_set task_map_def)

lemma task_map_keys: "set (jm_keys (task_map tasks)) = rt_id ` set tasks"
  by (induction tasks rule: rev_induct) (auto simp: task_map_snoc task_map_def [of "[]"] jm_keys_def [of "[]"])

text \<open>Every task stands behind all tasks of the map it depends on.\<close>

definition deps_first :: "(string, registered_task) js_map \<Rightarrow> registered_task list \<Rightarrow> bool" where
  "deps_first m order \<longleftrightarrow> (\<forall>ys t zs. order = ys @ t # zs \<longrightarrow>
     (\<forall>d \<in> set (task_deps t). d \<in> set (jm_keys m) \<longrightarrow> d \<in> rt_id ` set ys))"

definition topo_inv :: "(string, registered_task) js_map \<Rightarrow> string list \<times> registered_task list \<Rightarrow> bool" where
  "topo_inv m s \<longleftrightarrow>
     (\<forall>t \<in> set (snd s). jm_get m (rt_id t) = Some t) \<and> distinct (map rt_id (snd s)) \<and>
     rt_id ` set (snd s) = set (fst s) \<inter> set (jm_keys m) \<and> deps_first m (snd s)"

lemma deps_first_Nil [simp]: "deps_first m []"
  by (simp add: deps_first_def)

lemma deps_first_snoc:
  "deps_first m order \<Longrightarrow> \<forall>d \<in> set (task_deps t). d \<in> set (jm_keys m) \<longrightarrow> d \<in> rt_id ` set order \<Longrightarrow>
   deps_first m (order @ [t])"
  by (auto simp: deps_first_def append_eq_append_conv2 append_eq_Cons_conv Cons_eq_append_conv)

lemma topo_inv_skip: "topo_inv m (visited, order) \<Longrightarrow> jm_get m i = None \<Longrightarrow> topo_inv m (i # visited, order)"
  by (auto simp: topo_inv_def jm_get_None_iff)

lemma topo_inv_push:
  assumes "topo_inv m (visited, order)" "jm_get m i = Some t" "rt_id t = i" "i \<notin> set visited"
    and "set (task_deps t) \<subseteq> set visited"
  shows "topo_inv m (i # visited, order @ [t])"
proof -
  have "i \<in> set (jm_keys m)" using assms(2) by (rule jm_get_key)
  moreover have "\<forall>d \<in> set (task_deps t). d \<in> set (jm_keys m) \<longrightarrow> d \<in> rt_id ` set order"
    using assms(1,5) by (auto simp: topo_inv_def)
  ultimately show ?thesis
    using assms by (auto simp: topo_inv_def intro!: deps_first_snoc)
qed

lemma topo_visit_inv:
  "topo_inv m s \<Longrightarrow> keyed_by rt_id m \<Longrightarrow> set visiting \<inter> set (fst s) = {} \<Longrightarrow>
   topo_visit m visiting taskId s = Inr s' \<Longrightarrow>
   topo_inv m s' \<and> insert taskId (set (fst s)) \<subseteq> set (fst s') \<and> set visiting \<inter> set (fst s') = {}"
  "topo_inv m s \<Longrightarrow> keyed_by rt_id m \<Longrightarrow> set visiting \<inter> set (fst s) = {} \<Longrightarrow>
   topo_visits m visiting deps s = Inr s' \<Longrightarrow>
   topo_inv m s' \<and> set deps \<union> set (fst s) \<subseteq> set (fst s') \<and> set visiting \<inter> set (fst s') = {}"
proof (induction m visiting taskId s and m visiting deps s arbitrary: s' and s' rule: topo_visit_topo_visits.induct)
  case (1 m visiting taskId visited order)
  show ?case
  proof (cases "taskId \<in> set visited \<or> jm_get m taskId = None")
    case True
    with 1(2,4,5) show ?thesis
      by (subst (asm) topo_visit.simps) (auto split: if_splits intro: topo_inv_skip)
  next
    case False
    with 1(5) obtain t where t: "taskId \<notin> set visited" "taskId \<notin> set visiting" "jm_get m taskId = Some t"
      by (subst (asm) topo_visit.simps) (auto split: if_splits)
    with 1(5) obtain v o' where r: "topo_visits m (taskId # visiting) (task_deps t) (visited, order) = Inr (v, o')"
        and s': "s' = (taskId # v, o' @ [t])"
      by (subst (asm) topo_visit.simps) (auto split: sum.splits)
    have "set (taskId # visiting) \<inter> set (fst (visited, order)) = {}" using 1(4) t(1) by auto
    from 1(1) [OF t 1(2,3) this r] have
      "topo_inv m (v, o')" "set (task_deps t) \<union> set visited \<subseteq> set v" "set (taskId # visiting) \<inter> set v = {}"
      by simp_all
    moreover have "rt_id t = taskId" using keyed_by_get [OF 1(3) t(3)] .
    ultimately show ?thesis using t s' by (auto intro: topo_inv_push)
  qed
next
  case (3 m visiting d ds s)
  then obtain s1 where s1: "topo_visit m visiting d s = Inr s1" "topo_visits m visiting ds s1 = Inr s'"
    by (auto split: sum.splits)
  from 3(1) [OF 3(3,4,5) s1(1)] have i: "topo_inv m s1" "insert d (set (fst s)) \<subseteq> set (fst s1)"
    "set visiting \<inter> set (fst s1) = {}" by simp_all
  from 3(2) [OF s1(1) i(1) 3(4) i(3) s1(2)] i(2) show ?case by auto
qed auto

lemma topo_visit_cycle:
  "topo_visit m visiting taskId s = Inl e \<Longrightarrow> \<forall>v \<in> set visiting. (v, taskId) \<in> (dep_edges m)\<^sup>+ \<Longrightarrow>
   \<exists>x. (x, x) \<in> (dep_edges m)\<^sup>+"
  "topo_visits m visiting deps s = Inl e \<Longrightarrow> \<forall>v \<in> set visiting. \<forall>d \<in> set deps. (v, d) \<in> (dep_edges m)\<^sup>+ \<Longrightarrow>
   \<exists>x. (x, x) \<in> (dep_edges m)\<^sup>+"
proof (induction m visiting taskId s and m visiting deps s rule: topo_visit_topo_visits.induct)
  case (1 m visiting taskId visited order)
  show ?case
  proof (cases "taskId \<in> set visiting")
    case True
    with 1(3) show ?thesis by blast
  next
    case False
    with 1(2) obtain t where t: "taskId \<notin> set visited" "jm_get m taskId = Some t"
      "topo_visits m (taskId # visiting) (task_deps t) (visited, order) = Inl e"
      by (subst (asm) topo_visit.simps) (auto split: if_splits option.splits sum.splits)
    then have "\<forall>d \<in> set (task_deps t). (taskId, d) \<in> dep_edges m" by (simp add: dep_edges_iff)
    with 1(3) have "\<forall>v \<in> set (taskId # visiting). \<forall>d \<in> set (task_deps t). (v, d) \<in> (dep_edges m)\<^sup>+"
      by (auto intro: trancl_into_trancl)
    with 1(1) [OF t(1) False t(2,3)] show ?thesis by blast
  qed
next
  case (3 m visiting d ds s)
  then show ?case by (auto split: sum.splits)
qed auto

lemma ordered_before:
  assumes "deps_first m order" and "\<forall>t \<in> set order. jm_get m (rt_id t) = Some t"
    and "order = ys @ t # zs" and "(rt_id t, b) \<in> (dep_edges m \<inter> UNIV \<times> set (jm_keys m))\<^sup>+"
  shows "b \<in> rt_id ` set ys"
  using assms(4)
proof (induction rule: trancl_induct)
  case (base b)
  then show ?case using assms(1,2,3) by (fastforce simp: dep_edges_iff deps_first_def)
next
  case (step c d)
  from step(3) obtain u us vs where u: "ys = us @ u # vs" "c = rt_id u" by (metis imageE split_list)
  then have "order = us @ u # (vs @ t # zs)" using assms(3) by simp
  moreover have "d \<in> set (task_deps u)" "d \<in> set (jm_keys m)"
    using step(2) assms(2,3) u by (auto simp: dep_edges_iff)
  ultimately have "d \<in> rt_id ` set us" using assms(1) unfolding deps_first_def by blast
  then show ?case using u(1) by auto
qed

lemma trancl_inside:
  "(a, b) \<in> (dep_edges m)\<^sup>+ \<Longrightarrow> b \<in> set (jm_keys m) \<Longrightarrow> (a, b) \<in> (dep_edges m \<inter> UNIV \<times> set (jm_keys m))\<^sup>+"
proof (induction rule: trancl_induct)
  case (step c d)
  then have "c \<in> set (jm_keys m)" by (auto simp: dep_edges_iff jm_get_key)
  with step(3) have "(a, c) \<in> (dep_edges m \<inter> UNIV \<times> set (jm_keys m))\<^sup>+" by simp
  moreover have "(c, d) \<in> dep_edges m \<inter> UNIV \<times> set (jm_keys m)" using step(2,4) by simp
  ultimately show ?case by (rule trancl_into_trancl)
qed auto

lemma order_acyclic:
  assumes "deps_first m order" and "\<forall>t \<in> set order. jm_get m (rt_id t) = Some t"
    and "distinct (map rt_id order)" and "rt_id ` set order = set (jm_keys m)"
  shows "acyclic (dep_edges m)"
proof (rule acyclicI, intro allI notI)
  fix x
  assume x: "(x, x) \<in> (dep_edges m)\<^sup>+"
  then have k: "x \<in> set (jm_keys m)"
    using jm_get_None_iff by (metis converse_tranclE dep_edges_iff option.distinct(1))
  then obtain t ys zs where t: "order = ys @ t # zs" "rt_id t = x"
    using assms(4) by (metis imageE split_list)
  with ordered_before [OF assms(1,2), of ys t zs x] trancl_inside [OF x k] have "x \<in> rt_id ` set ys" by simp
  with t assms(3) show False by auto
qed

lemma sort_spec:
  "case sortTasksTopologically tasks of
     Inl e \<Rightarrow> \<not> acyclic (dep_edges (task_map tasks))
   | Inr order \<Rightarrow> acyclic (dep_edges (task_map tasks)) \<and>
       mset order = mset (jm_values (task_map tasks)) \<and> deps_first (task_map tasks) order"
proof -
  let ?m = "task_map tasks"
  have inv0: "topo_inv ?m ([], [])" by (simp add: topo_inv_def)
  show ?thesis
  proof (cases "topo_visits ?m [] (map rt_id tasks) ([], [])")
    case (Inl e)
    with topo_visit_cycle(2) [OF Inl] show ?thesis by (auto simp: sortTasksTopologically_def acyclic_def)
  next
    case (Inr s)
    obtain visited order where s: "s = (visited, order)" by (cases s)
    from topo_visit_inv(2) [OF inv0 task_map_keyed _ Inr] s
    have i: "topo_inv ?m (visited, order)" "rt_id ` set tasks \<subseteq> set visited" by auto
    then have ids: "rt_id ` set order = set (jm_keys ?m)" by (auto simp: topo_inv_def task_map_keys)
    have "set order = set (jm_values ?m)"
    proof
      show "set order \<subseteq> set (jm_values ?m)" using i(1) by (auto simp: topo_inv_def intro: jm_values_in)
      show "set (jm_values ?m) \<subseteq> set order"
      proof
        fix t assume "t \<in> set (jm_values ?m)"
        then have g: "jm_get ?m (rt_id t) = Some t" using keyed_by_value [OF task_map_keyed] by blast
        then have "rt_id t \<in> rt_id ` set order" unfolding ids by (rule jm_get_key)
        then obtain u where u: "rt_id t = rt_id u" "u \<in> set order" by (rule imageE)
        then have "jm_get ?m (rt_id t) = Some u" using i(1) by (simp add: topo_inv_def)
        with g u(2) show "t \<in> set order" by simp
      qed
    qed
    moreover have "distinct order" using i(1) unfolding topo_inv_def by (metis distinct_map snd_conv)
    moreover have "distinct (jm_values ?m)"
      using distinct_keyed_values [OF task_map_keyed [of tasks]] by (simp add: distinct_map)
    ultimately have "mset order = mset (jm_values ?m)" by (simp add: set_eq_iff_mset_eq_distinct)
    moreover have "acyclic (dep_edges ?m)"
      by (rule order_acyclic [of _ order]) (use i(1) ids in \<open>simp_all add: topo_inv_def\<close>)
    moreover have "deps_first ?m order" using i(1) by (simp add: topo_inv_def)
    ultimately show ?thesis using Inr s by (simp add: sortTasksTopologically_def)
  qed
qed

section \<open>Properties of the component\<close>

text \<open>Adding edges out of a node that had none.\<close>

lemma rtrancl_no_out:
  "(a, i) \<in> (Q \<union> {i} \<times> D)\<^sup>* \<Longrightarrow> (a, i) \<in> Q\<^sup>*"
proof (induction rule: converse_rtrancl_induct)
  case (step y z)
  show ?case
  proof (cases "y = i")
    case False
    with step(1) have "(y, z) \<in> Q" by blast
    then show ?thesis using step(3) by (rule converse_rtrancl_into_rtrancl)
  qed simp
qed simp

lemma acyclic_add_out:
  "finite D \<Longrightarrow> acyclic (Q \<union> {i} \<times> D) \<longleftrightarrow> acyclic Q \<and> (\<forall>d \<in> D. (d, i) \<notin> Q\<^sup>*)"
proof (induction rule: finite_induct)
  case (insert x D)
  have e: "Q \<union> {i} \<times> insert x D = insert (i, x) (Q \<union> {i} \<times> D)" by blast
  have "(x, i) \<in> (Q \<union> {i} \<times> D)\<^sup>* \<longleftrightarrow> (x, i) \<in> Q\<^sup>*"
    using rtrancl_no_out [of x i Q D] rtrancl_mono [of Q "Q \<union> {i} \<times> D"] by blast
  then have "acyclic (Q \<union> {i} \<times> insert x D) \<longleftrightarrow> acyclic (Q \<union> {i} \<times> D) \<and> (x, i) \<notin> Q\<^sup>*"
    unfolding e acyclic_insert by simp
  with insert.IH show ?case by blast
qed simp

lemma dep_edges_add:
  "jm_get m i = None \<Longrightarrow> dep_edges (jm_set m i t) = dep_edges m \<union> {i} \<times> set (task_deps t)"
  by (auto simp: dep_edges_iff split: if_splits)

definition demo_task :: "string \<Rightarrow> string list \<Rightarrow> registered_task" where
  "demo_task i deps = \<lparr>rt_id = i, rt_title = i, rt_input = None, rt_depends_on = Some deps, rt_tags = None,
     rt_state = Task_pending, rt_created_at = [], rt_updated_at = []\<rparr>"

text \<open>
  C36: The search for a cycle, run before a new task is added, answers yes exactly when the
  graph of dependencies would no longer be acyclic with the task in it.
\<close>

theorem cycle_check_exact:
  assumes "acyclic (dep_edges m)" and "jm_get m i = None"
  shows "wouldCreateCycle i (task_deps t) m \<longleftrightarrow> \<not> acyclic (dep_edges (jm_set m i t))"
  using assms by (simp add: dep_edges_add acyclic_add_out cycle_check_reaches)

theorem cycle_check_exact_witness:
  "\<not> acyclic (dep_edges (jm_set [(''b'', demo_task ''b'' [''a''])] ''a'' (demo_task ''a'' [''b''])))"
proof -
  let ?m = "[(''b'', demo_task ''b'' [''a''])]"
  have e: "dep_edges ?m = {(''b'', ''a'')}"
    by (auto simp: dep_edges_def jm_get_def demo_task_def task_deps_def nullish_def split: if_splits)
  have "wouldCreateCycle ''a'' (task_deps (demo_task ''a'' [''b''])) ?m"
    by code_simp
  moreover have "acyclic (dep_edges ?m)" unfolding e by (simp add: acyclic_def trancl_insert)
  ultimately show ?thesis
    using cycle_check_exact [of ?m "''a''" "demo_task ''a'' [''b'']"] by (simp add: jm_get_def)
qed

text \<open>
  C37: The sort throws exactly when the tasks depend on each other in a cycle; otherwise it
  returns every task of the map once, each behind all the tasks it depends on.
\<close>

theorem topological_sort_exact:
  "case sortTasksTopologically tasks of
     Inl e \<Rightarrow> \<not> acyclic (dep_edges (task_map tasks))
   | Inr order \<Rightarrow> acyclic (dep_edges (task_map tasks)) \<and>
       mset order = mset (jm_values (task_map tasks)) \<and> deps_first (task_map tasks) order"
  by (rule sort_spec)

end
