(* ===== verification/Task_Registry.thy ===== *)
theory Task_Registry
  imports Task_Graph
begin

text \<open>
  The task registry, \<^verbatim>\<open>src/tasks/registry.ts\<close>: registration behind the three checks,
  readiness, transitions and results, one definition per method on a record of the private
  fields. The clock is a function from the number of its readings. The lemmas show that the
  order of registration is a topological order of the tasks, whatever operations follow.
\<close>

section \<open>State\<close>

datatype task_error_code = Err_cycle | Err_duplicate | Err_invalid_transition | Err_missing_dependency | Err_not_found

record task_error =
  te_code :: task_error_code
  te_message :: string
  te_task_id :: "string option"

record task_registry =
  tr_tasks :: "(string, registered_task) js_map"
  tr_results :: "(string, task_result) js_map"
  tr_ticks :: nat

definition empty_tasks :: task_registry where
  "empty_tasks = \<lparr>tr_tasks = [], tr_results = [], tr_ticks = 0\<rparr>"

text \<open>An empty task id is falsy and is left out of the error.\<close>

definition task_error_of :: "task_error_code \<Rightarrow> string \<Rightarrow> string \<Rightarrow> task_error" where
  "task_error_of code message taskId =
     \<lparr>te_code = code, te_message = message, te_task_id = (if taskId \<noteq> [] then Some taskId else None)\<rparr>"

definition task_timestamp :: "clock \<Rightarrow> task_registry \<Rightarrow> string \<times> task_registry" where
  "task_timestamp clk r = (clk (tr_ticks r), r\<lparr>tr_ticks := Suc (tr_ticks r)\<rparr>)"

definition deps_ready :: "(string, registered_task) js_map \<Rightarrow> string list \<Rightarrow> bool" where
  "deps_ready m dependencies =
     list_all (\<lambda>taskId. map_option rt_state (jm_get m taskId) = Some Task_succeeded) dependencies"

section \<open>Methods\<close>

definition registerTask ::
  "clock \<Rightarrow> task_definition \<Rightarrow> task_registry \<Rightarrow> task_error + registered_task \<times> task_registry" where
  "registerTask clk definition' r =
     (let taskId = td_id definition'; deps = nullish (td_depends_on definition') [] in
      if jm_has (tr_tasks r) taskId then
        Inl (task_error_of Err_duplicate (''Task \"'' @ taskId @ ''\" is already registered.'') taskId)
      else case find (\<lambda>dependency. \<not> jm_has (tr_tasks r) dependency) deps of
        Some dependency \<Rightarrow>
          Inl (task_error_of Err_missing_dependency
            (''Task \"'' @ taskId @ ''\" depends on missing task \"'' @ dependency @ ''\".'') taskId)
      | None \<Rightarrow>
          if wouldCreateCycle taskId deps (tr_tasks r) then
            Inl (task_error_of Err_cycle
              (''Task \"'' @ taskId @ ''\" would create a dependency cycle.'') taskId)
          else
            let (timestamp, r) = task_timestamp clk r;
                task = \<lparr>rt_id = taskId, rt_title = td_title definition', rt_input = td_input definition',
                  rt_depends_on = td_depends_on definition', rt_tags = td_tags definition',
                  rt_state = (if deps_ready (tr_tasks r) deps then Task_ready else Task_pending),
                  rt_created_at = timestamp, rt_updated_at = timestamp\<rparr>
            in Inr (task, r\<lparr>tr_tasks := jm_set (tr_tasks r) (rt_id task) task\<rparr>))"

definition not_registered :: "string \<Rightarrow> task_error" where
  "not_registered taskId = task_error_of Err_not_found (''Task \"'' @ taskId @ ''\" is not registered.'') taskId"

definition getTask :: "task_registry \<Rightarrow> string \<Rightarrow> task_error + registered_task" where
  "getTask r taskId =
     (case jm_get (tr_tasks r) taskId of None \<Rightarrow> Inl (not_registered taskId) | Some task \<Rightarrow> Inr task)"

text \<open>The loop of the refresh runs over the live map, whose keys it does not change.\<close>

definition refresh_task :: "clock \<Rightarrow> string \<Rightarrow> task_registry \<Rightarrow> task_registry" where
  "refresh_task clk taskId r =
     (case jm_get (tr_tasks r) taskId of
        None \<Rightarrow> r
      | Some task \<Rightarrow>
          if rt_state task = Task_pending \<and> deps_ready (tr_tasks r) (task_deps task) then
            let (timestamp, r) = task_timestamp clk r
            in r\<lparr>tr_tasks := jm_set (tr_tasks r) (rt_id task)
                   (task\<lparr>rt_state := Task_ready, rt_updated_at := timestamp\<rparr>)\<rparr>
          else r)"

definition refreshPendingTasks :: "clock \<Rightarrow> task_registry \<Rightarrow> task_registry" where
  "refreshPendingTasks clk r = fold (refresh_task clk) (jm_keys (tr_tasks r)) r"

definition listReady :: "clock \<Rightarrow> task_registry \<Rightarrow> registered_task list \<times> task_registry" where
  "listReady clk r =
     (let r = refreshPendingTasks clk r
      in (filter (\<lambda>task. rt_state task = Task_ready) (jm_values (tr_tasks r)), r))"

definition transitionTask ::
  "clock \<Rightarrow> string \<Rightarrow> task_state \<Rightarrow> task_registry \<Rightarrow> task_error + registered_task \<times> task_registry" where
  "transitionTask clk taskId nextState r =
     (case jm_get (tr_tasks r) taskId of
        None \<Rightarrow> Inl (not_registered taskId)
      | Some task \<Rightarrow>
          if \<not> canTransition (rt_state task) nextState then
            Inl (task_error_of Err_invalid_transition
              (''Cannot transition task \"'' @ taskId @ ''\" from '' @ task_state_str (rt_state task) @
               '' to '' @ task_state_str nextState @ ''.'') taskId)
          else
            let (timestamp, r) = task_timestamp clk r;
                updated = task\<lparr>rt_state := nextState, rt_updated_at := timestamp\<rparr>
            in Inr (updated, r\<lparr>tr_tasks := jm_set (tr_tasks r) taskId updated\<rparr>))"

record result_input =
  ri_task_id :: string
  ri_status :: task_result_status
  ri_output :: "jsval option"
  ri_error :: "string option"
  ri_finished_at :: "string option"

fun result_state :: "task_result_status \<Rightarrow> task_state" where
  "result_state Res_succeeded = Task_succeeded"
| "result_state Res_failed = Task_failed"
| "result_state Res_cancelled = Task_cancelled"

definition storeResult ::
  "clock \<Rightarrow> result_input \<Rightarrow> task_registry \<Rightarrow> task_error + task_result \<times> task_registry" where
  "storeResult clk result r =
     (case jm_get (tr_tasks r) (ri_task_id result) of
        None \<Rightarrow> Inl (not_registered (ri_task_id result))
      | Some task \<Rightarrow>
          let (finished, r) =
                (case ri_finished_at result of Some t \<Rightarrow> (t, r) | None \<Rightarrow> task_timestamp clk r);
              stored = \<lparr>re_task_id = ri_task_id result, re_status = ri_status result,
                re_output = ri_output result, re_error = ri_error result, re_finished_at = finished\<rparr>;
              r = r\<lparr>tr_results := jm_set (tr_results r) (ri_task_id result) stored\<rparr>;
              r = r\<lparr>tr_tasks := jm_set (tr_tasks r) (rt_id task)
                     (task\<lparr>rt_state := result_state (ri_status result), rt_updated_at := finished\<rparr>)\<rparr>
          in Inr (stored, refreshPendingTasks clk r))"

definition getResult :: "task_registry \<Rightarrow> string \<Rightarrow> task_error + task_result" where
  "getResult r taskId =
     (case jm_get (tr_results r) taskId of
        None \<Rightarrow> Inl (task_error_of Err_not_found (''Result for task \"'' @ taskId @ ''\" is not stored.'') taskId)
      | Some result \<Rightarrow> Inr result)"

definition task_snapshot :: "task_registry \<Rightarrow> registered_task list \<times> task_result list" where
  "task_snapshot r = (jm_values (tr_tasks r), jm_values (tr_results r))"

section \<open>Reachable registries\<close>

inductive task_step :: "clock \<Rightarrow> task_registry \<Rightarrow> task_registry \<Rightarrow> bool" for clk where
  step_register: "registerTask clk d r = Inr (t, r') \<Longrightarrow> task_step clk r r'"
| step_ready: "listReady clk r = (ts, r') \<Longrightarrow> task_step clk r r'"
| step_transition: "transitionTask clk i s r = Inr (t, r') \<Longrightarrow> task_step clk r r'"
| step_result: "storeResult clk x r = Inr (y, r') \<Longrightarrow> task_step clk r r'"

inductive tasks_reachable :: "clock \<Rightarrow> task_registry \<Rightarrow> bool" for clk where
  "tasks_reachable clk empty_tasks"
| "tasks_reachable clk r \<Longrightarrow> task_step clk r r' \<Longrightarrow> tasks_reachable clk r'"

text \<open>Tasks stand under their own ids, behind the tasks they depend on.\<close>

definition in_order :: "registered_task list \<Rightarrow> bool" where
  "in_order ts \<longleftrightarrow> (\<forall>ys t zs. ts = ys @ t # zs \<longrightarrow> set (task_deps t) \<subseteq> rt_id ` set ys)"

definition tasks_map_ok :: "(string, registered_task) js_map \<Rightarrow> bool" where
  "tasks_map_ok m \<longleftrightarrow> keyed_by rt_id m \<and> in_order (jm_values m)"

definition tasks_ok :: "task_registry \<Rightarrow> bool" where
  "tasks_ok r \<longleftrightarrow> tasks_map_ok (tr_tasks r)"

text \<open>What the operations leave in place: the ids and dependencies, in order.\<close>

definition task_shape :: "(string, registered_task) js_map \<Rightarrow> (string \<times> string list) list" where
  "task_shape m = map (\<lambda>t. (rt_id t, task_deps t)) (jm_values m)"

lemma task_deps_update [simp]:
  "task_deps (t\<lparr>rt_state := s\<rparr>) = task_deps t" "task_deps (t\<lparr>rt_updated_at := u\<rparr>) = task_deps t"
  by (simp_all add: task_deps_def)

lemma task_shape_set:
  "jm_get m k = Some t \<Longrightarrow> rt_id v = rt_id t \<Longrightarrow> task_deps v = task_deps t \<Longrightarrow>
   task_shape (jm_set m k v) = task_shape m"
  by (induction m k v rule: jm_set.induct) (auto simp: task_shape_def jm_values_def jm_get_def split: if_splits)

lemma in_order_shape: "map (\<lambda>t. (rt_id t, task_deps t)) ts = map (\<lambda>t. (rt_id t, task_deps t)) us \<Longrightarrow>
  in_order ts \<Longrightarrow> in_order us"
proof -
  assume eq: "map (\<lambda>t. (rt_id t, task_deps t)) ts = map (\<lambda>t. (rt_id t, task_deps t)) us" and o: "in_order ts"
  show "in_order us"
    unfolding in_order_def
  proof (intro allI impI)
    fix ys t zs assume "us = ys @ t # zs"
    with eq obtain ys' t' zs' where ts: "ts = ys' @ t' # zs'" "task_deps t' = task_deps t"
        "map (\<lambda>t. (rt_id t, task_deps t)) ys' = map (\<lambda>t. (rt_id t, task_deps t)) ys"
      by (auto simp: map_eq_append_conv map_eq_Cons_conv)
    from ts(3) have "map rt_id ys' = map rt_id ys" by (metis (mono_tags, lifting) fst_conv map_map comp_apply map_cong)
    then have "rt_id ` set ys' = rt_id ` set ys" by (metis set_map)
    with o ts show "set (task_deps t) \<subseteq> rt_id ` set ys" unfolding in_order_def by metis
  qed
qed

lemma tasks_map_set:
  assumes "tasks_map_ok m" "jm_get m k = Some t" "rt_id v = rt_id t" "task_deps v = task_deps t"
  shows "tasks_map_ok (jm_set m k v)"
proof -
  have "rt_id v = k" using assms keyed_by_get by (metis tasks_map_ok_def)
  then have "keyed_by rt_id (jm_set m k v)"
    using assms(1) by (intro keyed_by_set) (auto simp: tasks_map_ok_def)
  moreover have "in_order (jm_values (jm_set m k v))"
    using in_order_shape [of "jm_values m" "jm_values (jm_set m k v)"] task_shape_set [OF assms(2-4)] assms(1)
    by (simp add: task_shape_def tasks_map_ok_def)
  ultimately show ?thesis by (simp add: tasks_map_ok_def)
qed

lemma tasks_ok_key: "tasks_map_ok m \<Longrightarrow> jm_get m k = Some t \<Longrightarrow> rt_id t = k"
  by (rule keyed_by_get [where f = rt_id]) (simp_all add: tasks_map_ok_def)

lemma refresh_task_ok: "tasks_ok r \<Longrightarrow> tasks_ok (refresh_task clk k r)"
proof (cases "jm_get (tr_tasks r) k")
  case (Some t)
  assume ok: "tasks_ok r"
  then have "rt_id t = k" using tasks_ok_key Some by (simp add: tasks_ok_def)
  with ok Some show ?thesis
    using tasks_map_set [OF _ Some] by (simp add: refresh_task_def task_timestamp_def tasks_ok_def)
qed (simp add: refresh_task_def)

lemma fold_refresh_ok: "tasks_ok r \<Longrightarrow> tasks_ok (fold (refresh_task clk) ks r)"
  by (induction ks arbitrary: r) (auto simp: refresh_task_ok)

lemma refresh_ok: "tasks_ok r \<Longrightarrow> tasks_ok (refreshPendingTasks clk r)"
  by (simp add: refreshPendingTasks_def fold_refresh_ok)

lemma in_order_snoc: "in_order ts \<Longrightarrow> set (task_deps t) \<subseteq> rt_id ` set ts \<Longrightarrow> in_order (ts @ [t])"
  by (auto simp: in_order_def append_eq_append_conv2 append_eq_Cons_conv Cons_eq_append_conv)

lemma tasks_ok_ids: "tasks_map_ok m \<Longrightarrow> rt_id ` set (jm_values m) = set (jm_keys m)"
  using arg_cong [OF keyed_keys, of rt_id m set] by (simp add: tasks_map_ok_def)

lemma registerTask_ok:
  assumes "tasks_ok r" "registerTask clk d r = Inr (t, r')"
  shows "tasks_ok r'"
proof -
  let ?deps = "nullish (td_depends_on d) []"
  from assms(2) have f: "jm_get (tr_tasks r) (td_id d) = None" "\<forall>x \<in> set ?deps. jm_has (tr_tasks r) x"
      "rt_id t = td_id d" "task_deps t = ?deps" "tr_tasks r' = jm_set (tr_tasks r) (td_id d) t"
    by (auto simp: registerTask_def Let_def jm_has_def task_timestamp_def find_None_iff task_deps_def
        split: if_splits option.splits)
  have ok: "tasks_map_ok (tr_tasks r)" using assms(1) by (simp add: tasks_ok_def)
  then have "in_order (jm_values (tr_tasks r) @ [t])"
    using f(2,4) by (intro in_order_snoc) (auto simp: tasks_ok_ids jm_has_iff tasks_map_ok_def)
  with ok f show ?thesis
    by (simp add: tasks_ok_def tasks_map_ok_def keyed_by_set jm_values_set_fresh)
qed

lemma task_step_ok: "task_step clk r r' \<Longrightarrow> tasks_ok r \<Longrightarrow> tasks_ok r'"
proof (induction rule: task_step.induct)
  case (step_register d r t r')
  then show ?case by (blast intro: registerTask_ok)
next
  case (step_ready r ts r')
  then show ?case by (auto simp: listReady_def Let_def refresh_ok)
next
  case (step_transition i s r t r')
  then obtain u where u: "jm_get (tr_tasks r) i = Some u" by (auto simp: transitionTask_def split: option.splits)
  from step_transition show ?case
    using tasks_map_set [OF _ u] u
    by (auto simp: transitionTask_def task_timestamp_def Let_def tasks_ok_def split: if_splits)
next
  case (step_result x r y r')
  then obtain t where t: "jm_get (tr_tasks r) (ri_task_id x) = Some t" by (auto simp: storeResult_def split: option.splits)
  have ok: "tasks_map_ok (tr_tasks r)" using step_result(2) by (simp add: tasks_ok_def)
  note key = tasks_ok_key [OF ok t]
  have "tasks_map_ok (jm_set (tr_tasks r) (ri_task_id x)
      (t\<lparr>rt_state := result_state (ri_status x), rt_updated_at := u\<rparr>))" for u
    using tasks_map_set [OF ok t] by simp
  with step_result(1) t key show ?case
    by (auto simp: storeResult_def Let_def task_timestamp_def tasks_ok_def [of "tr_tasks_update _ _"]
        split: option.splits intro!: refresh_ok)
qed

lemma tasks_reachable_ok: "tasks_reachable clk r \<Longrightarrow> tasks_ok r"
proof (induction rule: tasks_reachable.induct)
  case 1
  show ?case by (simp add: tasks_ok_def tasks_map_ok_def empty_tasks_def in_order_def jm_values_def)
qed (rule task_step_ok)

section \<open>Dependencies\<close>

lemma in_order_first: "in_order (jm_values m) \<Longrightarrow> deps_first m (jm_values m)"
  by (auto simp: in_order_def deps_first_def)

lemma tasks_ok_get: "tasks_map_ok m \<Longrightarrow> t \<in> set (jm_values m) \<Longrightarrow> jm_get m (rt_id t) = Some t"
  by (simp add: tasks_map_ok_def keyed_by_value)

lemma tasks_ok_acyclic: "tasks_map_ok m \<Longrightarrow> acyclic (dep_edges m)"
  by (rule order_acyclic [of _ "jm_values m"])
    (simp_all add: tasks_ok_get tasks_ok_ids in_order_first distinct_keyed_values tasks_map_ok_def [of m])

lemma tasks_ok_dep: "tasks_map_ok m \<Longrightarrow> (a, b) \<in> dep_edges m \<Longrightarrow> b \<in> set (jm_keys m)"
proof -
  assume ok: "tasks_map_ok m" and "(a, b) \<in> dep_edges m"
  then obtain t where t: "jm_get m a = Some t" "b \<in> set (task_deps t)" by (auto simp: dep_edges_iff)
  then obtain ys zs where "jm_values m = ys @ t # zs" by (meson jm_values_in split_list)
  with ok t(2) have "b \<in> rt_id ` set (jm_values m)" by (auto simp: tasks_map_ok_def in_order_def)
  with ok show ?thesis by (simp add: tasks_ok_ids)
qed

text \<open>The check for cycles comes after the checks that make it superfluous.\<close>

lemma register_no_cycle:
  assumes "tasks_map_ok (tr_tasks r)" and "registerTask clk d r = Inl e"
  shows "te_code e \<noteq> Err_cycle"
proof
  assume "te_code e = Err_cycle"
  with assms(2) have c: "\<not> jm_has (tr_tasks r) (td_id d)"
      "\<forall>x \<in> set (nullish (td_depends_on d) []). jm_has (tr_tasks r) x"
      "wouldCreateCycle (td_id d) (nullish (td_depends_on d) []) (tr_tasks r)"
    by (auto simp: registerTask_def Let_def task_error_of_def task_timestamp_def find_None_iff split: if_splits option.splits)
  from c(3) obtain x where x: "x \<in> set (nullish (td_depends_on d) [])" "(x, td_id d) \<in> (dep_edges (tr_tasks r))\<^sup>*"
    by (auto simp: cycle_check_reaches)
  from x(2) have "td_id d = x \<or> td_id d \<in> set (jm_keys (tr_tasks r))"
    by (metis rtrancl.cases tasks_ok_dep [OF assms(1)])
  with c(1,2) x(1) show False by (auto simp: jm_has_iff)
qed

section \<open>Readiness\<close>

definition task_view :: "(string, registered_task) js_map \<Rightarrow> string \<Rightarrow> (task_state \<times> string list) option" where
  "task_view m i = map_option (\<lambda>t. (rt_state t, task_deps t)) (jm_get m i)"

definition ready_view ::
  "(string, registered_task) js_map \<Rightarrow> task_state \<times> string list \<Rightarrow> task_state \<times> string list" where
  "ready_view m = (\<lambda>(s, deps). (if s = Task_pending \<and> deps_ready m deps then Task_ready else s, deps))"

lemma deps_ready_cong:
  "(\<And>i. (\<exists>d. task_view m i = Some (Task_succeeded, d)) \<longleftrightarrow> (\<exists>d. task_view m' i = Some (Task_succeeded, d))) \<Longrightarrow>
   deps_ready m = deps_ready m'"
  by (rule ext) (auto simp: deps_ready_def list_all_iff task_view_def)

lemma refresh_task_view:
  "tasks_ok r \<Longrightarrow> task_view (tr_tasks (refresh_task clk k r)) i =
     (if i = k then map_option (ready_view (tr_tasks r)) (task_view (tr_tasks r) i) else task_view (tr_tasks r) i)"
  using tasks_ok_key [of "tr_tasks r" k]
  by (auto simp: refresh_task_def task_view_def ready_view_def task_timestamp_def tasks_ok_def Let_def
      split: option.split)

lemma refresh_task_ready: "tasks_ok r \<Longrightarrow> deps_ready (tr_tasks (refresh_task clk k r)) = deps_ready (tr_tasks r)"
  by (rule deps_ready_cong) (auto simp: refresh_task_view ready_view_def split: if_splits)

lemma fold_refresh_view:
  "tasks_ok r \<Longrightarrow> task_view (tr_tasks (fold (refresh_task clk) ks r)) i =
     (if i \<in> set ks then map_option (ready_view (tr_tasks r)) (task_view (tr_tasks r) i) else task_view (tr_tasks r) i)"
proof (induction ks arbitrary: r)
  case (Cons k ks)
  have same: "ready_view (tr_tasks (refresh_task clk k r)) = ready_view (tr_tasks r)"
    using refresh_task_ready [OF Cons.prems] by (simp add: ready_view_def)
  have twice: "ready_view (tr_tasks r) (ready_view (tr_tasks r) v) = ready_view (tr_tasks r) v" for v
    by (auto simp: ready_view_def split: prod.splits)
  show ?case
    using Cons.IH [OF refresh_task_ok [OF Cons.prems]] refresh_task_view [OF Cons.prems]
    by (auto simp: same option.map_comp comp_def twice)
qed simp

lemma refresh_view:
  assumes "tasks_ok r"
  shows "task_view (tr_tasks (refreshPendingTasks clk r)) i =
     map_option (ready_view (tr_tasks r)) (task_view (tr_tasks r) i)"
proof (cases "i \<in> set (jm_keys (tr_tasks r))")
  case False
  then have "jm_get (tr_tasks r) i = None" by (simp add: jm_get_None_iff)
  with False fold_refresh_view [OF assms] show ?thesis by (simp add: refreshPendingTasks_def task_view_def)
qed (simp add: refreshPendingTasks_def fold_refresh_view assms)

lemma view_Some: "task_view m i = Some (s, d) \<longleftrightarrow> (\<exists>t. jm_get m i = Some t \<and> rt_state t = s \<and> task_deps t = d)"
  by (auto simp: task_view_def)

text \<open>When only waiting, ready and succeeded tasks are left, the first that did not succeed is ready.\<close>

lemma some_task_ready:
  assumes ok: "tasks_ok r" and t: "t \<in> set (jm_values (tr_tasks r))" "rt_state t \<noteq> Task_succeeded"
    and calm: "\<forall>t \<in> set (jm_values (tr_tasks r)). rt_state t = Task_pending \<or> rt_state t = Task_ready \<or> rt_state t = Task_succeeded"
  shows "fst (listReady clk r) \<noteq> []"
proof -
  have m: "tasks_map_ok (tr_tasks r)" using ok by (simp add: tasks_ok_def)
  obtain ys u zs where s: "jm_values (tr_tasks r) = ys @ u # zs" "rt_state u \<noteq> Task_succeeded"
      "\<forall>y \<in> set ys. rt_state y = Task_succeeded"
    using split_list_first_prop [of "jm_values (tr_tasks r)" "\<lambda>t. rt_state t \<noteq> Task_succeeded"] t by auto
  have u: "u \<in> set (jm_values (tr_tasks r))" using s(1) by simp
  have "deps_ready (tr_tasks r) (task_deps u)"
    unfolding deps_ready_def list_all_iff
  proof
    fix d assume "d \<in> set (task_deps u)"
    then have "d \<in> rt_id ` set ys" using m s(1) unfolding tasks_map_ok_def in_order_def by blast
    then obtain y where "y \<in> set ys" "rt_id y = d" by auto
    then show "map_option rt_state (jm_get (tr_tasks r) d) = Some Task_succeeded"
      using tasks_ok_get [OF m, of y] s(1,3) by auto
  qed
  moreover have "rt_state u = Task_pending \<or> rt_state u = Task_ready" using calm u s(2) by auto
  ultimately have "task_view (tr_tasks (refreshPendingTasks clk r)) (rt_id u) = Some (Task_ready, task_deps u)"
    using refresh_view [OF ok, of clk "rt_id u"] tasks_ok_get [OF m u] by (auto simp: task_view_def ready_view_def)
  then obtain v where "jm_get (tr_tasks (refreshPendingTasks clk r)) (rt_id u) = Some v" "rt_state v = Task_ready"
    by (auto simp: view_Some)
  then show ?thesis using jm_values_in by (fastforce simp: listReady_def Let_def filter_empty_conv)
qed

section \<open>Sorting what is in order\<close>

lemma task_map_get: "distinct (map rt_id ts) \<Longrightarrow> t \<in> set ts \<Longrightarrow> jm_get (task_map ts) (rt_id t) = Some t"
  by (induction ts rule: rev_induct) (auto simp: task_map_snoc task_map_def [of "[]"] dest: image_eqI [of _ rt_id, OF sym])

lemma topo_visits_known:
  "set ds \<subseteq> set visited \<Longrightarrow> topo_visits m visiting ds (visited, order) = Inr (visited, order)"
  by (induction ds) (simp_all add: topo_visit.simps)

lemma topo_visits_append:
  "topo_visits m visiting (xs @ ys) s =
   (case topo_visits m visiting xs s of Inl e \<Rightarrow> Inl e | Inr s \<Rightarrow> topo_visits m visiting ys s)"
  by (induction xs arbitrary: s) (auto split: sum.split)

lemma topo_visits_in_order:
  assumes "in_order ts" "\<forall>t \<in> set ts. jm_get m (rt_id t) = Some t" "distinct (map rt_id ts)"
  shows "topo_visits m [] (map rt_id ts) ([], []) = Inr (rev (map rt_id ts), ts)"
  using assms
proof (induction ts rule: rev_induct)
  case (snoc t ts)
  have "in_order ts" using snoc.prems(1) by (auto simp: in_order_def)
  moreover have "set (task_deps t) \<subseteq> rt_id ` set ts" using snoc.prems(1) by (auto simp: in_order_def)
  ultimately show ?case
    using snoc by (auto simp: topo_visits_append topo_visit.simps topo_visits_known)
qed simp

lemma sort_in_order: "in_order ts \<Longrightarrow> distinct (map rt_id ts) \<Longrightarrow> sortTasksTopologically ts = Inr ts"
  by (simp add: sortTasksTopologically_def topo_visits_in_order task_map_get)

section \<open>Properties of the component\<close>

text \<open>A registry with a task and a task that waits for it.\<close>

definition demo_definition :: "string \<Rightarrow> string list \<Rightarrow> task_definition" where
  "demo_definition i deps =
     \<lparr>td_id = i, td_title = i, td_input = None, td_depends_on = Some deps, td_tags = None\<rparr>"

definition demo_add :: "task_definition \<Rightarrow> task_registry \<Rightarrow> task_registry" where
  "demo_add d r = (case registerTask (\<lambda>_. ''t'') d r of Inl e \<Rightarrow> r | Inr (t, r) \<Rightarrow> r)"

definition demo_tasks :: task_registry where
  "demo_tasks = demo_add (demo_definition ''b'' [''a'']) (demo_add (demo_definition ''a'' []) empty_tasks)"

lemma demo_add_reachable: "tasks_reachable (\<lambda>_. ''t'') r \<Longrightarrow> tasks_reachable (\<lambda>_. ''t'') (demo_add d r)"
  by (auto simp: demo_add_def intro: tasks_reachable.intros step_register split: sum.split)

lemma demo_tasks_view:
  "task_view (tr_tasks demo_tasks) i =
     (if i = ''a'' then Some (Task_ready, []) else if i = ''b'' then Some (Task_pending, [''a'']) else None)"
  by (simp add: demo_tasks_def demo_add_def demo_definition_def registerTask_def empty_tasks_def Let_def
      task_timestamp_def deps_ready_def wouldCreateCycle_def cycle_visit.simps task_view_def task_deps_def
      jm_has_def jm_get_def nullish_def)

lemma deps_ready_view:
  "deps_ready m deps \<longleftrightarrow> (\<forall>d \<in> set deps. map_option fst (task_view m d) = Some Task_succeeded)"
  by (auto simp: deps_ready_def task_view_def list_all_iff option.map_comp comp_def)

lemma demo_tasks_reachable: "tasks_reachable (\<lambda>_. ''t'') demo_tasks"
  unfolding demo_tasks_def by (intro demo_add_reachable tasks_reachable.intros)

text \<open>
  C32: In every registry its methods can reach, the dependencies are acyclic and within the
  registry, the order of registration is the order the sort returns, and a registration is
  never refused for a cycle: the checks before that one catch it.
\<close>

theorem task_order_invariant:
  assumes "tasks_reachable clk r"
  shows "acyclic (dep_edges (tr_tasks r)) \<and> Range (dep_edges (tr_tasks r)) \<subseteq> set (jm_keys (tr_tasks r)) \<and>
    sortTasksTopologically (fst (task_snapshot r)) = Inr (fst (task_snapshot r)) \<and>
    \<not> (\<exists>d e. registerTask clk d r = Inl e \<and> te_code e = Err_cycle)"
proof -
  have ok: "tasks_map_ok (tr_tasks r)" using tasks_reachable_ok [OF assms] by (simp add: tasks_ok_def)
  then have "sortTasksTopologically (fst (task_snapshot r)) = Inr (fst (task_snapshot r))"
    by (simp add: task_snapshot_def sort_in_order distinct_keyed_values tasks_map_ok_def)
  with ok show ?thesis
    by (auto simp: tasks_ok_acyclic dest: tasks_ok_dep register_no_cycle)
qed

theorem task_order_invariant_witness:
  "acyclic (dep_edges (tr_tasks demo_tasks)) \<and> sortTasksTopologically (fst (task_snapshot demo_tasks)) = Inr (fst (task_snapshot demo_tasks))"
  using task_order_invariant [OF demo_tasks_reachable] by simp

text \<open>
  C38: As long as some task has not succeeded and all the others wait or have succeeded, the
  registry offers at least one ready task: dependencies never deadlock.
\<close>

theorem task_progress:
  assumes "tasks_reachable clk r"
    and "list_all (\<lambda>t. rt_state t = Task_pending \<or> rt_state t = Task_ready \<or> rt_state t = Task_succeeded)
           (fst (task_snapshot r))"
    and "list_ex (\<lambda>t. rt_state t \<noteq> Task_succeeded) (fst (task_snapshot r))"
  shows "fst (listReady clk r) \<noteq> []"
  using some_task_ready [OF tasks_reachable_ok [OF assms(1)]] assms(2,3)
  by (auto simp: task_snapshot_def list_all_iff list_ex_iff)

theorem task_progress_witness: "fst (listReady (\<lambda>_. ''t'') demo_tasks) \<noteq> []"
  by (rule task_progress [OF demo_tasks_reachable]; code_simp)

text \<open>
  C39: Seen through states and dependencies, a refresh of the registry is one simultaneous
  update: the waiting tasks whose dependencies had all succeeded become ready, nothing else
  changes. The list of ready tasks holds exactly the tasks that are ready then.
\<close>

theorem list_ready_exact:
  assumes "tasks_reachable clk r"
  shows "task_view (tr_tasks (snd (listReady clk r))) =
      map_option (ready_view (tr_tasks r)) \<circ> task_view (tr_tasks r) \<and>
    rt_id ` set (fst (listReady clk r)) =
      {i. \<exists>s deps. task_view (tr_tasks r) i = Some (s, deps) \<and>
         (s = Task_ready \<or> s = Task_pending \<and> deps_ready (tr_tasks r) deps)}"
    (is "?view \<and> ?ready")
proof
  have ok: "tasks_ok r" using tasks_reachable_ok [OF assms] .
  let ?r = "refreshPendingTasks clk r"
  have v: "task_view (tr_tasks ?r) i = map_option (ready_view (tr_tasks r)) (task_view (tr_tasks r) i)" for i
    using refresh_view [OF ok] .
  then show ?view by (auto simp: listReady_def Let_def)
  have m: "tasks_map_ok (tr_tasks ?r)" using refresh_ok [OF ok] by (simp add: tasks_ok_def)
  have "rt_id ` set (fst (listReady clk r)) = {i. \<exists>deps. task_view (tr_tasks ?r) i = Some (Task_ready, deps)}"
    using tasks_ok_get [OF m] tasks_ok_key [OF m]
    by (auto simp: listReady_def Let_def view_Some image_iff intro!: jm_values_in)
  also have "\<dots> = {i. \<exists>s deps. task_view (tr_tasks r) i = Some (s, deps) \<and>
         (s = Task_ready \<or> s = Task_pending \<and> deps_ready (tr_tasks r) deps)}"
    by (auto simp: v ready_view_def split: prod.splits if_splits)
  finally show ?ready .
qed

theorem list_ready_exact_witness: "rt_id ` set (fst (listReady (\<lambda>_. ''t'') demo_tasks)) = {''a''}"
proof -
  have "{i. \<exists>s deps. task_view (tr_tasks demo_tasks) i = Some (s, deps) \<and>
      (s = Task_ready \<or> s = Task_pending \<and> deps_ready (tr_tasks demo_tasks) deps)} = {''a''}"
    by (auto simp: demo_tasks_view deps_ready_view split: if_splits)
  with list_ready_exact [OF demo_tasks_reachable] show ?thesis by simp
qed

end
