(* ===== verification/Flow_Engine.thy ===== *)
theory Flow_Engine
  imports JS_Collections
begin

text \<open>
  Resumable flows, \<^verbatim>\<open>src/flows/\<close>: definitions and their check (\<^verbatim>\<open>types.ts\<close>,
  \<^verbatim>\<open>validate.ts\<close>), the store of run states (\<^verbatim>\<open>store.ts\<close>), and the engine that runs the
  steps of a definition one after the other, saving after every change (\<^verbatim>\<open>engine.ts\<close>).

  Steps are parameters: functions of the flow's state and a world, with a value or a thrown
  message. The store is an interface, its laws a locale with the in-memory store as its
  instance; a step does not write to the store.
\<close>

section \<open>Data\<close>

datatype flow_step_status = FS_pending | FS_running | FS_succeeded | FS_failed | FS_skipped

datatype flow_status = Flow_pending | Flow_running | Flow_succeeded | Flow_failed | Flow_recovering

datatype flow_error_code = Step_failed | Definition_invalid

record flow_error =
  fe_code :: flow_error_code
  fe_message :: string
  fe_step_id :: "string option"

type_synonym ('a, 'w) effect = "'w \<Rightarrow> (string + 'a) \<times> 'w"

record ('a, 'w) flow_step =
  fs_id :: string
  fs_title :: string
  fs_run :: "'a \<Rightarrow> ('a, 'w) effect"
  fs_recover :: "('a \<Rightarrow> flow_error \<Rightarrow> ('a, 'w) effect) option"

record ('a, 'w) flow_definition =
  fd_id :: string
  fd_initial_state :: 'a
  fd_steps :: "('a, 'w) flow_step list"

record flow_step_record =
  sr_step_id :: string
  sr_status :: flow_step_status
  sr_error :: "string option"

record 'a flow_run_state =
  fr_flow_id :: string
  fr_status :: flow_status
  fr_state :: 'a
  fr_steps :: "flow_step_record list"

section \<open>The check of a definition\<close>

fun check_step_ids :: "string list \<Rightarrow> ('a, 'w) flow_step list \<Rightarrow> flow_error option" where
  "check_step_ids stepIds [] = None"
| "check_step_ids stepIds (step # steps) =
     (if js_trim (fs_id step) = [] then
        Some \<lparr>fe_code = Definition_invalid, fe_message = ''Flow step id is required.'', fe_step_id = None\<rparr>
      else if fs_id step \<in> set stepIds then
        Some \<lparr>fe_code = Definition_invalid, fe_message = ''Duplicate flow step \"'' @ fs_id step @ ''\".'',
          fe_step_id = Some (fs_id step)\<rparr>
      else check_step_ids (fs_id step # stepIds) steps)"

definition validateFlowDefinition :: "('a, 'w) flow_definition \<Rightarrow> flow_error option" where
  "validateFlowDefinition definition' =
     (if js_trim (fd_id definition') = [] then
        Some \<lparr>fe_code = Definition_invalid, fe_message = ''Flow id is required.'', fe_step_id = None\<rparr>
      else check_step_ids [] (fd_steps definition'))"

section \<open>The store\<close>

record ('a, 'm) flow_store =
  st_load :: "string \<Rightarrow> 'm \<Rightarrow> 'a flow_run_state option"
  st_save :: "'a flow_run_state \<Rightarrow> 'm \<Rightarrow> 'm"

type_synonym 'a flow_memory = "(string, 'a flow_run_state) js_map"

definition memory_flow_store :: "('a, 'a flow_memory) flow_store" where
  "memory_flow_store =
     \<lparr>st_load = (\<lambda>flowId m. jm_get m flowId), st_save = (\<lambda>state m. jm_set m (fr_flow_id state) state)\<rparr>"

section \<open>The engine\<close>

definition updateStep ::
  "'a flow_run_state \<Rightarrow> string \<Rightarrow> flow_step_status \<Rightarrow> string option \<Rightarrow> 'a flow_run_state" where
  "updateStep state stepId status errorMessage =
     state\<lparr>fr_steps := map (\<lambda>rec.
       if sr_step_id rec = stepId
       then \<lparr>sr_step_id = stepId, sr_status = status, sr_error = errorMessage\<rparr> else rec) (fr_steps state)\<rparr>"

definition normalizeFlowError :: "string \<Rightarrow> string \<Rightarrow> flow_error" where
  "normalizeFlowError message stepId =
     \<lparr>fe_code = Step_failed, fe_message = message, fe_step_id = Some stepId\<rparr>"

definition step_succeeded :: "'a flow_run_state \<Rightarrow> string \<Rightarrow> bool" where
  "step_succeeded runState stepId \<longleftrightarrow>
     map_option sr_status (find (\<lambda>entry. sr_step_id entry = stepId) (fr_steps runState)) = Some FS_succeeded"

text \<open>One step that has not succeeded yet: the run state saved last, and the error it ends with.\<close>

definition run_step ::
  "('a, 'm) flow_store \<Rightarrow> ('a, 'w) flow_step \<Rightarrow> 'a flow_run_state \<Rightarrow> 'm \<Rightarrow> 'w \<Rightarrow>
   flow_error option \<times> 'a flow_run_state \<times> 'm \<times> 'w" where
  "run_step store step runState m w =
     (let runState = updateStep runState (fs_id step) FS_running None;
          m = st_save store runState m
      in case fs_run step (fr_state runState) w of
        (Inr nextState, w) \<Rightarrow>
          let runState = updateStep (runState\<lparr>fr_state := nextState\<rparr>) (fs_id step) FS_succeeded None
          in (None, runState, st_save store runState m, w)
      | (Inl caught, w) \<Rightarrow>
          let flowError = normalizeFlowError caught (fs_id step) in
          (case fs_recover step of
             None \<Rightarrow>
               let runState = updateStep (runState\<lparr>fr_status := Flow_failed\<rparr>) (fs_id step) FS_failed
                     (Some (fe_message flowError))
               in (Some flowError, runState, st_save store runState m, w)
           | Some recover \<Rightarrow>
               let runState = runState\<lparr>fr_status := Flow_recovering\<rparr>;
                   m = st_save store runState m
               in (case recover (fr_state runState) flowError w of
                  (Inr recoveredState, w) \<Rightarrow>
                    let runState = updateStep (runState\<lparr>fr_state := recoveredState, fr_status := Flow_running\<rparr>)
                          (fs_id step) FS_succeeded None
                    in (None, runState, st_save store runState m, w)
                | (Inl recoverError, w) \<Rightarrow>
                    let finalError = normalizeFlowError recoverError (fs_id step);
                        runState = updateStep (runState\<lparr>fr_status := Flow_failed\<rparr>) (fs_id step) FS_failed
                          (Some (fe_message finalError))
                    in (Some finalError, runState, st_save store runState m, w))))"

fun run_steps ::
  "('a, 'm) flow_store \<Rightarrow> ('a, 'w) flow_step list \<Rightarrow> 'a flow_run_state \<Rightarrow> 'm \<Rightarrow> 'w \<Rightarrow>
   flow_error option \<times> 'a flow_run_state \<times> 'm \<times> 'w" where
  "run_steps store [] runState m w = (None, runState, m, w)"
| "run_steps store (step # steps) runState m w =
     (if step_succeeded runState (fs_id step) then run_steps store steps runState m w
      else case run_step store step runState m w of
        (Some e, runState, m, w) \<Rightarrow> (Some e, runState, m, w)
      | (None, runState, m, w) \<Rightarrow> run_steps store steps runState m w)"

definition fresh_run :: "('a, 'w) flow_definition \<Rightarrow> 'a flow_run_state" where
  "fresh_run definition' =
     \<lparr>fr_flow_id = fd_id definition', fr_status = Flow_pending, fr_state = fd_initial_state definition',
      fr_steps = map (\<lambda>step. \<lparr>sr_step_id = fs_id step, sr_status = FS_pending, sr_error = None\<rparr>)
        (fd_steps definition')\<rparr>"

definition executeFlow ::
  "('a, 'm) flow_store \<Rightarrow> ('a, 'w) flow_definition \<Rightarrow> 'm \<Rightarrow> 'w \<Rightarrow>
   (flow_error + 'a flow_run_state) \<times> 'm \<times> 'w" where
  "executeFlow store definition' m w =
     (case validateFlowDefinition definition' of
        Some e \<Rightarrow> (Inl e, m, w)
      | None \<Rightarrow>
          let runState = nullish (st_load store (fd_id definition') m) (fresh_run definition');
              runState = runState\<lparr>fr_status := Flow_running\<rparr>;
              m = st_save store runState m
          in (case run_steps store (fd_steps definition') runState m w of
                (Some e, runState, m, w) \<Rightarrow> (Inl e, m, w)
              | (None, runState, m, w) \<Rightarrow>
                  let runState = runState\<lparr>fr_status := Flow_succeeded\<rparr>
                  in (Inr runState, st_save store runState m, w)))"

section \<open>What the engine relies on\<close>

locale flow_storage =
  fixes store :: "('a, 'm) flow_store"
  assumes load_save: "st_load store i (st_save store x m) = (if fr_flow_id x = i then Some x else st_load store i m)"

interpretation flow_memory: flow_storage memory_flow_store
  by unfold_locales (simp add: memory_flow_store_def)

section \<open>Records of a run\<close>

definition record_of :: "'a flow_run_state \<Rightarrow> string \<Rightarrow> flow_step_record option" where
  "record_of rs i = find (\<lambda>entry. sr_step_id entry = i) (fr_steps rs)"

definition record_ids :: "'a flow_run_state \<Rightarrow> string list" where
  "record_ids rs = map sr_step_id (fr_steps rs)"

lemma step_succeeded_record: "step_succeeded rs i \<longleftrightarrow> map_option sr_status (record_of rs i) = Some FS_succeeded"
  by (simp add: step_succeeded_def record_of_def)

lemma record_of_update_status [simp]:
  "record_of (rs\<lparr>fr_status := x\<rparr>) i = record_of rs i" "record_of (rs\<lparr>fr_state := y\<rparr>) i = record_of rs i"
  "record_ids (rs\<lparr>fr_status := x\<rparr>) = record_ids rs" "record_ids (rs\<lparr>fr_state := y\<rparr>) = record_ids rs"
  by (simp_all add: record_of_def record_ids_def)

lemma find_update:
  "find (\<lambda>entry. sr_step_id entry = i) (map (\<lambda>rec. if sr_step_id rec = j
       then \<lparr>sr_step_id = j, sr_status = x, sr_error = e\<rparr> else rec) rs) =
   (if i = j \<and> i \<in> sr_step_id ` set rs then Some \<lparr>sr_step_id = j, sr_status = x, sr_error = e\<rparr>
    else find (\<lambda>entry. sr_step_id entry = i) rs)"
  by (induction rs) auto

lemma record_of_updateStep [simp]:
  "record_of (updateStep rs j x e) i =
   (if i = j \<and> i \<in> set (record_ids rs) then Some \<lparr>sr_step_id = j, sr_status = x, sr_error = e\<rparr> else record_of rs i)"
  by (cases "i = j"; cases "i \<in> set (record_ids rs)")
    (simp_all add: record_of_def updateStep_def record_ids_def find_update)

lemma updateStep_simps [simp]:
  "record_ids (updateStep rs j x e) = record_ids rs" "fr_flow_id (updateStep rs j x e) = fr_flow_id rs"
  "fr_status (updateStep rs j x e) = fr_status rs" "fr_state (updateStep rs j x e) = fr_state rs"
  by (auto simp: updateStep_def record_ids_def)

lemma check_step_ids_distinct:
  "check_step_ids seen steps = None \<Longrightarrow> distinct (map fs_id steps) \<and> set seen \<inter> fs_id ` set steps = {}"
  by (induction seen steps rule: check_step_ids.induct) (auto split: if_splits)

section \<open>Runs\<close>

text \<open>Where a run stopped: what came before succeeded, what comes after was not touched.\<close>

definition stopped_at ::
  "('a, 'w) flow_step list \<Rightarrow> 'a flow_run_state \<Rightarrow> flow_error \<Rightarrow> 'a flow_run_state \<Rightarrow> bool" where
  "stopped_at steps rs x rs' \<longleftrightarrow>
     (\<exists>pre s post. steps = pre @ s # post \<and> fe_code x = Step_failed \<and> fe_step_id x = Some (fs_id s) \<and>
       (\<forall>p \<in> set pre. fs_id p \<in> set (record_ids rs) \<longrightarrow> step_succeeded rs' (fs_id p)) \<and>
       (fs_id s \<in> set (record_ids rs) \<longrightarrow> record_of rs' (fs_id s) =
          Some \<lparr>sr_step_id = fs_id s, sr_status = FS_failed, sr_error = Some (fe_message x)\<rparr>) \<and>
       (\<forall>p \<in> set post. record_of rs' (fs_id p) = record_of rs (fs_id p)))"

lemma stopped_at_hd:
  assumes "fe_code x = Step_failed" "fe_step_id x = Some (fs_id step)"
    and "fs_id step \<in> set (record_ids rs) \<Longrightarrow> record_of rs' (fs_id step) =
          Some \<lparr>sr_step_id = fs_id step, sr_status = FS_failed, sr_error = Some (fe_message x)\<rparr>"
    and "\<forall>p \<in> set steps. record_of rs' (fs_id p) = record_of rs (fs_id p)"
  shows "stopped_at (step # steps) rs x rs'"
  unfolding stopped_at_def using assms by (intro exI [of _ "[]"] exI [of _ step] exI [of _ steps]) simp

lemma stopped_at_Cons:
  assumes "stopped_at steps rs1 x rs'" "record_ids rs1 = record_ids rs"
    and "fs_id step \<in> set (record_ids rs) \<Longrightarrow> step_succeeded rs' (fs_id step)"
    and "\<forall>p \<in> set steps. record_of rs1 (fs_id p) = record_of rs (fs_id p)"
  shows "stopped_at (step # steps) rs x rs'"
proof -
  from assms(1) obtain pre s post where "steps = pre @ s # post" "fe_code x = Step_failed" "fe_step_id x = Some (fs_id s)"
      "\<forall>p \<in> set pre. fs_id p \<in> set (record_ids rs1) \<longrightarrow> step_succeeded rs' (fs_id p)"
      "fs_id s \<in> set (record_ids rs1) \<longrightarrow> record_of rs' (fs_id s) =
          Some \<lparr>sr_step_id = fs_id s, sr_status = FS_failed, sr_error = Some (fe_message x)\<rparr>"
      "\<forall>p \<in> set post. record_of rs' (fs_id p) = record_of rs1 (fs_id p)"
    unfolding stopped_at_def by blast
  with assms(2-4) show ?thesis
    unfolding stopped_at_def by (intro exI [of _ "step # pre"] exI [of _ s] exI [of _ post]) auto
qed

context flow_storage begin

lemma run_step_spec:
  assumes "run_step store step rs m w = (e, rs', m', w')" "fr_status rs = Flow_running"
  shows "fr_flow_id rs' = fr_flow_id rs \<and> record_ids rs' = record_ids rs \<and>
    st_load store (fr_flow_id rs) m' = Some rs' \<and>
    (\<forall>i. i \<noteq> fr_flow_id rs \<longrightarrow> st_load store i m' = st_load store i m) \<and>
    fr_status rs' = (if e = None then Flow_running else Flow_failed) \<and>
    (\<forall>i. record_of rs' i =
       (if i = fs_id step \<and> i \<in> set (record_ids rs)
        then Some \<lparr>sr_step_id = i, sr_status = (if e = None then FS_succeeded else FS_failed),
          sr_error = map_option fe_message e\<rparr>
        else record_of rs i)) \<and>
    (\<forall>x. e = Some x \<longrightarrow> fe_code x = Step_failed \<and> fe_step_id x = Some (fs_id step))"
  using assms
  by (auto simp: run_step_def Let_def load_save normalizeFlowError_def
      split: prod.splits sum.splits option.splits)

definition run_ok ::
  "('a, 'w) flow_step list \<Rightarrow> 'a flow_run_state \<Rightarrow> 'm \<Rightarrow> flow_error option \<Rightarrow> 'a flow_run_state \<Rightarrow> 'm \<Rightarrow> bool" where
  "run_ok steps rs m e rs' m' \<longleftrightarrow>
     fr_flow_id rs' = fr_flow_id rs \<and> record_ids rs' = record_ids rs \<and>
     st_load store (fr_flow_id rs) m' = Some rs' \<and>
     (\<forall>i. i \<noteq> fr_flow_id rs \<longrightarrow> st_load store i m' = st_load store i m) \<and>
     fr_status rs' = (if e = None then Flow_running else Flow_failed) \<and>
     (case e of
        None \<Rightarrow> \<forall>s \<in> set steps. fs_id s \<in> set (record_ids rs) \<longrightarrow> step_succeeded rs' (fs_id s)
      | Some x \<Rightarrow> stopped_at steps rs x rs')"

lemma run_steps_ok:
  "run_steps store steps rs m w = (e, rs', m', w') \<Longrightarrow> fr_status rs = Flow_running \<Longrightarrow>
   distinct (map fs_id steps) \<Longrightarrow> st_load store (fr_flow_id rs) m = Some rs \<Longrightarrow>
   run_ok steps rs m e rs' m' \<and> (\<forall>i. i \<notin> fs_id ` set steps \<longrightarrow> record_of rs' i = record_of rs i)"
proof (induction steps arbitrary: rs m w)
  case Nil
  then show ?case by (simp add: run_ok_def)
next
  case (Cons step steps)
  have new: "fs_id step \<notin> fs_id ` set steps" "distinct (map fs_id steps)"
      "\<And>p. p \<in> set steps \<Longrightarrow> fs_id p \<noteq> fs_id step" using Cons.prems(3) by (auto dest: image_eqI [OF sym])
  show ?case
  proof (cases "step_succeeded rs (fs_id step)")
    case True
    with Cons.prems have r: "run_steps store steps rs m w = (e, rs', m', w')" by simp
    note ih = Cons.IH [OF r Cons.prems(2) new(2) Cons.prems(4)]
    with True new(1) have "step_succeeded rs' (fs_id step)" by (simp add: step_succeeded_record)
    with ih show ?thesis
      by (cases e) (auto simp: run_ok_def intro: stopped_at_Cons)
  next
    case False
    obtain e1 rs1 m1 w1 where s: "run_step store step rs m w = (e1, rs1, m1, w1)"
      by (cases "run_step store step rs m w") auto
    note spec = run_step_spec [OF s Cons.prems(2)]
    show ?thesis
    proof (cases e1)
      case (Some x)
      with Cons.prems(1) False s have "e = Some x" "rs' = rs1" "m' = m1" by auto
      with spec Some new show ?thesis
        by (auto simp: run_ok_def intro!: stopped_at_hd)
    next
      case None
      with Cons.prems(1) False s have r: "run_steps store steps rs1 m1 w1 = (e, rs', m', w')" by simp
      have "fr_status rs1 = Flow_running" "st_load store (fr_flow_id rs1) m1 = Some rs1"
        using spec None by simp_all
      note ih = Cons.IH [OF r this(1) new(2) this(2)]
      have d: "fs_id step \<in> set (record_ids rs) \<Longrightarrow> step_succeeded rs' (fs_id step)"
        using ih new(1) spec None by (simp add: step_succeeded_record)
      show ?thesis
      proof (cases e)
        case N: None
        with ih spec None d show ?thesis by (auto simp: run_ok_def)
      next
        case (Some x)
        have "stopped_at (step # steps) rs x rs'"
          using ih Some d spec None new(1,3) by (intro stopped_at_Cons [of _ rs1]) (auto simp: run_ok_def)
        with ih spec None Some show ?thesis by (auto simp: run_ok_def)
      qed
    qed
  qed
qed

lemma run_steps_skip:
  "\<forall>s \<in> set steps. step_succeeded rs (fs_id s) \<Longrightarrow> run_steps store steps rs m w = (None, rs, m, w)"
  by (induction steps) auto

text \<open>
  A flow that succeeded is stored with every step succeeded, and running it again runs no step,
  whatever the world has become.
\<close>

lemma execute_success:
  assumes "executeFlow store d m w = (Inr rs, m', w')"
    and "\<forall>x. st_load store (fd_id d) m = Some x \<longrightarrow> fr_flow_id x = fd_id d \<and> fs_id ` set (fd_steps d) \<subseteq> set (record_ids x)"
  shows "st_load store (fd_id d) m' = Some rs" "fr_status rs = Flow_succeeded"
    "\<forall>s \<in> set (fd_steps d). step_succeeded rs (fs_id s)"
    "fst (executeFlow store d m' w2) = Inr rs" "snd (snd (executeFlow store d m' w2)) = w2"
proof -
  let ?s = "(nullish (st_load store (fd_id d) m) (fresh_run d))\<lparr>fr_status := Flow_running\<rparr>"
  let ?m = "st_save store ?s m"
  from assms(1) have v: "validateFlowDefinition d = None" by (auto simp: executeFlow_def split: option.splits)
  from assms(1) v obtain rs1 m1 where r: "run_steps store (fd_steps d) ?s ?m w = (None, rs1, m1, w')"
      and e: "rs = rs1\<lparr>fr_status := Flow_succeeded\<rparr>" "m' = st_save store rs m1"
    by (auto simp: executeFlow_def Let_def split: option.splits prod.splits)
  have id: "fr_flow_id ?s = fd_id d" and ids: "fs_id ` set (fd_steps d) \<subseteq> set (record_ids ?s)"
    using assms(2) by (cases "st_load store (fd_id d) m"; force simp: fresh_run_def record_ids_def)+
  have "distinct (map fs_id (fd_steps d))"
    using v check_step_ids_distinct by (auto simp: validateFlowDefinition_def split: if_splits)
  with run_steps_ok [OF r _ this] id have o: "run_ok (fd_steps d) ?s ?m None rs1 m1"
    by (simp add: load_save)
  then have id1: "fr_flow_id rs1 = fd_id d" and done1: "\<forall>s \<in> set (fd_steps d). step_succeeded rs1 (fs_id s)"
    using ids id by (auto simp: run_ok_def)
  show l: "st_load store (fd_id d) m' = Some rs" using e id1 by (simp add: load_save)
  show st: "fr_status rs = Flow_succeeded" using e by simp
  show d: "\<forall>s \<in> set (fd_steps d). step_succeeded rs (fs_id s)"
    using done1 e by (simp add: step_succeeded_record)
  have "\<forall>s \<in> set (fd_steps d). step_succeeded (rs\<lparr>fr_status := Flow_running\<rparr>) (fs_id s)"
    using d by (simp add: step_succeeded_record)
  moreover have "rs\<lparr>fr_status := Flow_running, fr_status := Flow_succeeded\<rparr> = rs" using st by simp
  ultimately show "fst (executeFlow store d m' w2) = Inr rs" "snd (snd (executeFlow store d m' w2)) = w2"
    using v l by (auto simp: executeFlow_def run_steps_skip Let_def)
qed

lemma execute_failure:
  assumes "executeFlow store d m w = (Inl x, m', w')" and "validateFlowDefinition d = None"
    and "\<forall>y. st_load store (fd_id d) m = Some y \<longrightarrow> fr_flow_id y = fd_id d"
  shows "\<exists>rs. st_load store (fd_id d) m' = Some rs \<and> fr_status rs = Flow_failed \<and>
    stopped_at (fd_steps d) (nullish (st_load store (fd_id d) m) (fresh_run d)) x rs"
    "\<forall>i. i \<noteq> fd_id d \<longrightarrow> st_load store i m' = st_load store i m"
proof -
  let ?l = "nullish (st_load store (fd_id d) m) (fresh_run d)"
  let ?s = "?l\<lparr>fr_status := Flow_running\<rparr>"
  let ?m = "st_save store ?s m"
  from assms(1,2) obtain rs where r: "run_steps store (fd_steps d) ?s ?m w = (Some x, rs, m', w')"
    by (auto simp: executeFlow_def Let_def split: option.splits prod.splits)
  have id: "fr_flow_id ?s = fd_id d"
    using assms(3) by (cases "st_load store (fd_id d) m"; force simp: fresh_run_def)
  have "distinct (map fs_id (fd_steps d))"
    using assms(2) check_step_ids_distinct by (auto simp: validateFlowDefinition_def split: if_splits)
  with run_steps_ok [OF r _ this] id have o: "run_ok (fd_steps d) ?s ?m (Some x) rs m'"
    by (simp add: load_save)
  moreover have "stopped_at (fd_steps d) ?s x rs = stopped_at (fd_steps d) ?l x rs"
    by (simp add: stopped_at_def)
  ultimately show "\<exists>rs. st_load store (fd_id d) m' = Some rs \<and> fr_status rs = Flow_failed \<and>
      stopped_at (fd_steps d) ?l x rs" "\<forall>i. i \<noteq> fd_id d \<longrightarrow> st_load store i m' = st_load store i m"
    using id by (auto simp: run_ok_def load_save)
qed

text \<open>A run leaves the other flows alone, and its own with the records it had or those of its steps.\<close>

lemma execute_records:
  assumes "executeFlow store d m w = (r, m', w')"
    and "\<forall>y. st_load store (fd_id d) m = Some y \<longrightarrow> fr_flow_id y = fd_id d"
  shows "m' = m \<or> (\<exists>rs. st_load store (fd_id d) m' = Some rs \<and> fr_flow_id rs = fd_id d \<and>
      record_ids rs = record_ids (nullish (st_load store (fd_id d) m) (fresh_run d)) \<and>
      (\<forall>i. i \<noteq> fd_id d \<longrightarrow> st_load store i m' = st_load store i m))"
proof (cases "validateFlowDefinition d")
  case v: None
  let ?s = "(nullish (st_load store (fd_id d) m) (fresh_run d))\<lparr>fr_status := Flow_running\<rparr>"
  let ?m = "st_save store ?s m"
  obtain e rs m1 w1 where run: "run_steps store (fd_steps d) ?s ?m w = (e, rs, m1, w1)"
    by (cases "run_steps store (fd_steps d) ?s ?m w") auto
  have id: "fr_flow_id ?s = fd_id d"
    using assms(2) by (cases "st_load store (fd_id d) m"; force simp: fresh_run_def)
  have "distinct (map fs_id (fd_steps d))"
    using v check_step_ids_distinct by (auto simp: validateFlowDefinition_def split: if_splits)
  with run_steps_ok [OF run _ this] id have o: "run_ok (fd_steps d) ?s ?m e rs m1"
    by (simp add: load_save)
  have others: "st_load store i m1 = st_load store i m" if "i \<noteq> fd_id d" for i
    using o id that by (simp add: run_ok_def load_save)
  have rs: "fr_flow_id rs = fd_id d" "st_load store (fd_id d) m1 = Some rs"
      "record_ids rs = record_ids (nullish (st_load store (fd_id d) m) (fresh_run d))"
    using o id by (simp_all add: run_ok_def)
  show ?thesis
  proof (cases e)
    case None
    then have "m' = st_save store (rs\<lparr>fr_status := Flow_succeeded\<rparr>) m1"
      using assms(1) v run by (simp add: executeFlow_def Let_def)
    then show ?thesis
      using rs others by (intro disjI2 exI [of _ "rs\<lparr>fr_status := Flow_succeeded\<rparr>"]) (simp add: load_save)
  next
    case (Some x)
    then have "m' = m1" using assms(1) v run by (simp add: executeFlow_def Let_def)
    then show ?thesis using rs others by (intro disjI2 exI [of _ rs]) simp
  qed
qed (use assms(1) in \<open>simp add: executeFlow_def\<close>)

end

section \<open>Stores the engine filled\<close>

text \<open>Runs of any flows, where those under the id of \<open>d\<close> have its steps.\<close>

inductive flow_history :: "('a, 'w) flow_definition \<Rightarrow> 'a flow_memory \<Rightarrow> bool" for d where
  empty: "flow_history d []"
| run: "flow_history d m \<Longrightarrow> executeFlow memory_flow_store (d' :: ('a, 'w) flow_definition) m w = (r, m', w') \<Longrightarrow>
    (fd_id d' = fd_id d \<Longrightarrow> map fs_id (fd_steps d') = map fs_id (fd_steps d)) \<Longrightarrow> flow_history d m'"

lemma flow_history_records:
  "flow_history d m \<Longrightarrow>
   (\<forall>i x. jm_get m i = Some x \<longrightarrow> fr_flow_id x = i) \<and>
   (\<forall>x. jm_get m (fd_id d) = Some x \<longrightarrow> record_ids x = map fs_id (fd_steps d))"
proof (induction rule: flow_history.induct)
  case (run m d' w r m' w')
  have "\<forall>y. st_load memory_flow_store (fd_id d') m = Some y \<longrightarrow> fr_flow_id y = fd_id d'"
    using run.IH by (simp add: memory_flow_store_def)
  from flow_memory.execute_records [OF run.hyps(2) this] show ?case
  proof (elim disjE exE conjE)
    fix rs
    assume rs: "st_load memory_flow_store (fd_id d') m' = Some rs" "fr_flow_id rs = fd_id d'"
      "record_ids rs = record_ids (nullish (st_load memory_flow_store (fd_id d') m) (fresh_run d'))"
      "\<forall>i. i \<noteq> fd_id d' \<longrightarrow> st_load memory_flow_store i m' = st_load memory_flow_store i m"
    have fresh: "record_ids (fresh_run d') = map fs_id (fd_steps d')" by (simp add: record_ids_def fresh_run_def)
    show ?case
    proof (intro conjI allI impI)
      fix i x assume "jm_get m' i = Some x"
      then show "fr_flow_id x = i" using rs run.IH by (cases "i = fd_id d'") (auto simp: memory_flow_store_def)
    next
      fix x assume x: "jm_get m' (fd_id d) = Some x"
      show "record_ids x = map fs_id (fd_steps d)"
      proof (cases "fd_id d' = fd_id d")
        case True
        then show ?thesis
          using x rs run.IH run.hyps(3) fresh by (cases "jm_get m (fd_id d)") (auto simp: memory_flow_store_def)
      next
        case False
        then show ?thesis using x rs run.IH by (auto simp: memory_flow_store_def)
      qed
    qed
  qed (use run.IH in simp)
qed simp

section \<open>Properties of the component\<close>

text \<open>A flow of two steps whose second throws while its world, a counter, is zero.\<close>

definition demo_flow :: "(nat, nat) flow_definition" where
  "demo_flow = \<lparr>fd_id = ''f'', fd_initial_state = 0, fd_steps =
     [\<lparr>fs_id = ''one'', fs_title = [], fs_run = \<lambda>s w. (Inr (s + 1), w), fs_recover = None\<rparr>,
      \<lparr>fs_id = ''two'', fs_title = [], fs_run = \<lambda>s w. (case w of 0 \<Rightarrow> (Inl ''not yet'', 1) | Suc n \<Rightarrow> (Inr (s + 1), w)),
       fs_recover = None\<rparr>]\<rparr>"

lemmas flow_eval = executeFlow_def demo_flow_def validateFlowDefinition_def check_step_ids.simps fresh_run_def
  memory_flow_store_def run_steps.simps run_step_def step_succeeded_def updateStep_def normalizeFlowError_def
  js_trim_def js_space_def Let_def jm_get_def nullish_def jm_set.simps

text \<open>
  A flow extended after it had run: the new step has no record in the stored run, so the flow returns
  without one, and runs the step again the next time.
\<close>

lemma extended_step_repeated:
  "\<exists>rs m rs1 m1 rs2 m2.
     executeFlow memory_flow_store (demo_flow\<lparr>fd_steps := take 1 (fd_steps demo_flow)\<rparr>) [] 1 = (Inr rs, m, 1) \<and>
     executeFlow memory_flow_store demo_flow m 1 = (Inr rs1, m1, 1) \<and>
     fr_status rs1 = Flow_succeeded \<and> \<not> step_succeeded rs1 ''two'' \<and> fr_state rs1 = 2 \<and>
     executeFlow memory_flow_store demo_flow m1 1 = (Inr rs2, m2, 1) \<and> fr_state rs2 = 3"
  by (simp add: flow_eval)

text \<open>
  C31: Provided the run stored under its id, if there is one, is a run of that flow with a
  record for each of its steps, as in every store the engine filled with runs whose
  definitions under that id have the same steps (flow_history_records): when a flow returns,
  the store holds it as succeeded with every step succeeded, and running it again returns
  the same state and runs no step, so a step that succeeded is not repeated. Where the
  definition was extended in between, it is not so (extended_step_repeated).
\<close>

theorem flow_exactly_once:
  assumes "executeFlow memory_flow_store d m w = (Inr rs, m', w')"
    and "case jm_get m (fd_id d) of None \<Rightarrow> True
      | Some x \<Rightarrow> fr_flow_id x = fd_id d \<and> list_all (\<lambda>s. fs_id s \<in> set (record_ids x)) (fd_steps d)"
  shows "jm_get m' (fd_id d) = Some rs \<and> fr_status rs = Flow_succeeded \<and>
    list_all (\<lambda>s. step_succeeded rs (fs_id s)) (fd_steps d) \<and>
    (\<exists>m''. executeFlow memory_flow_store d m' later = (Inr rs, m'', later))"
proof -
  have "\<forall>x. st_load memory_flow_store (fd_id d) m = Some x \<longrightarrow>
      fr_flow_id x = fd_id d \<and> fs_id ` set (fd_steps d) \<subseteq> set (record_ids x)"
    using assms(2) by (auto simp: memory_flow_store_def list_all_iff split: option.splits)
  note fin = flow_memory.execute_success [OF assms(1) this]
  obtain m'' where "executeFlow memory_flow_store d m' later = (Inr rs, m'', later)"
    using fin(4,5) by (metis surjective_pairing)
  moreover have "jm_get m' (fd_id d) = Some rs" using fin(1) by (simp add: memory_flow_store_def)
  ultimately show ?thesis using fin(2,3) by (simp add: list_all_iff)
qed

theorem flow_exactly_once_witness:
  "\<exists>m' rs. executeFlow memory_flow_store demo_flow [] 1 = (Inr rs, m', 1) \<and> fr_state rs = 2 \<and>
     (\<exists>m''. executeFlow memory_flow_store demo_flow m' 0 = (Inr rs, m'', 0))"
proof -
  obtain rs m' where e: "executeFlow memory_flow_store demo_flow [] 1 = (Inr rs, m', 1)" "fr_state rs = 2"
    by (simp add: flow_eval)
  from flow_exactly_once [OF e(1), of 0] e show ?thesis by simp
qed

text \<open>
  When a step of a checked flow fails for good, the store holds the run as failed: every
  step before it succeeded, it carries the message of the error, the steps behind it are
  untouched, and so are all other flows in the store.
\<close>

theorem flow_failure_resumable:
  assumes "executeFlow memory_flow_store d m w = (Inl x, m', w')" and "validateFlowDefinition d = None"
    and "case jm_get m (fd_id d) of None \<Rightarrow> True | Some y \<Rightarrow> fr_flow_id y = fd_id d"
  shows "(\<exists>rs. jm_get m' (fd_id d) = Some rs \<and> fr_status rs = Flow_failed \<and>
      stopped_at (fd_steps d) (nullish (jm_get m (fd_id d)) (fresh_run d)) x rs) \<and>
    (\<lambda>i. if i = fd_id d then None else jm_get m' i) = (\<lambda>i. if i = fd_id d then None else jm_get m i)"
proof -
  have "\<forall>y. st_load memory_flow_store (fd_id d) m = Some y \<longrightarrow> fr_flow_id y = fd_id d"
    using assms(3) by (auto simp: memory_flow_store_def split: option.splits)
  from flow_memory.execute_failure [OF assms(1,2) this] show ?thesis
    by (auto simp: memory_flow_store_def)
qed

theorem flow_failure_resumable_witness:
  "\<exists>x m' rs. executeFlow memory_flow_store demo_flow [] 0 = (Inl x, m', 1) \<and> jm_get m' ''f'' = Some rs \<and>
     fr_status rs = Flow_failed \<and> stopped_at (fd_steps demo_flow) (fresh_run demo_flow) x rs"
proof -
  obtain x m' where e: "executeFlow memory_flow_store demo_flow [] 0 = (Inl x, m', 1)"
    by (simp add: flow_eval)
  have "validateFlowDefinition demo_flow = None" "fd_id demo_flow = ''f''"
    by (simp_all add: flow_eval)
  with flow_failure_resumable [OF e] e show ?thesis by (simp add: nullish_def)
qed

end
