(* ===== verification/Provider_Runtime.thy ===== *)
theory Provider_Runtime
  imports JS_Date
begin

text \<open>
  Calls to model providers, \<^verbatim>\<open>src/provider-runtime/\<close>: the circuit breaker
  (\<^verbatim>\<open>circuit-breaker.ts\<close>), the delays between retries (\<^verbatim>\<open>retry.ts\<close>), the limit on an
  operation's time (\<^verbatim>\<open>timeout.ts\<close>), the retry loop with the classification of errors
  (\<^verbatim>\<open>execute.ts\<close>) and the health check (\<^verbatim>\<open>health.ts\<close>).

  Times are whole milliseconds; \<^verbatim>\<open>Date.now()\<close> is a function from the number of readings.
  The operation is a parameter on a world of its own: it settles with a value or an error before
  its timer fires, or it does not. \<^verbatim>\<open>sleep\<close> is what it is by default, a pause without effect,
  whose length is recorded. A call whose operation never settles and has no timer never returns.
\<close>

section \<open>The circuit breaker\<close>

record breaker_policy =
  cb_failure_threshold :: int
  cb_reset_after_ms :: int

datatype breaker_status = Closed | Open | Half_open

record breaker =
  cb_failures :: nat
  cb_opened_at :: "int option"

definition createCircuitBreaker :: breaker where
  "createCircuitBreaker = \<lparr>cb_failures = 0, cb_opened_at = None\<rparr>"

definition readStatus :: "breaker_policy \<Rightarrow> int \<Rightarrow> breaker \<Rightarrow> breaker_status" where
  "readStatus policy nowMs b =
     (case cb_opened_at b of
        None \<Rightarrow> Closed
      | Some openedAtMs \<Rightarrow> if nowMs - openedAtMs \<ge> cb_reset_after_ms policy then Half_open else Open)"

definition canAttempt :: "breaker_policy \<Rightarrow> int \<Rightarrow> breaker \<Rightarrow> bool" where
  "canAttempt policy nowMs b \<longleftrightarrow> readStatus policy nowMs b \<noteq> Open"

definition recordSuccess :: "breaker \<Rightarrow> breaker" where
  "recordSuccess b = b\<lparr>cb_failures := 0, cb_opened_at := None\<rparr>"

definition recordFailure :: "breaker_policy \<Rightarrow> int \<Rightarrow> breaker \<Rightarrow> breaker" where
  "recordFailure policy nowMs b =
     (let b = b\<lparr>cb_failures := cb_failures b + 1\<rparr> in
      if int (cb_failures b) \<ge> cb_failure_threshold policy then b\<lparr>cb_opened_at := Some nowMs\<rparr> else b)"

section \<open>Delays\<close>

record provider_retry =
  pv_max_attempts :: int
  pv_base_delay_ms :: int
  pv_max_delay_ms :: "int option"
  pv_jitter_ms :: "int option"

definition DEFAULT_RETRY :: provider_retry where
  "DEFAULT_RETRY = \<lparr>pv_max_attempts = 1, pv_base_delay_ms = 0, pv_max_delay_ms = None, pv_jitter_ms = None\<rparr>"

definition normalizeRetry :: "provider_retry option \<Rightarrow> provider_retry" where
  "normalizeRetry strategy =
     (let retry = nullish strategy DEFAULT_RETRY in
      retry\<lparr>pv_max_attempts := max 1 (pv_max_attempts retry),
            pv_base_delay_ms := max 0 (pv_base_delay_ms retry)\<rparr>)"

definition calculateRetryDelayMs :: "provider_retry \<Rightarrow> int \<Rightarrow> int" where
  "calculateRetryDelayMs strategy attempt =
     (let exponentialDelay = pv_base_delay_ms strategy * 2 ^ nat (max 0 (attempt - 1));
          cappedDelay = min exponentialDelay (nullish (pv_max_delay_ms strategy) exponentialDelay)
      in cappedDelay + max 0 (nullish (pv_jitter_ms strategy) 0))"

section \<open>Errors\<close>

text \<open>
  A thrown value: an \<^verbatim>\<open>Error\<close> with the optional properties the code reads, or another value,
  of which only its text is read.
\<close>

record provider_error =
  pe_is_error :: bool
  pe_name :: string
  pe_message :: string
  pe_code :: "string option"
  pe_status :: "int option"
  pe_retryable :: "bool option"

definition circuit_open_error :: "string \<Rightarrow> provider_error" where
  "circuit_open_error providerId =
     \<lparr>pe_is_error = True, pe_name = ''CircuitOpenError'',
      pe_message = ''Provider circuit is open for '' @ providerId @ ''.'',
      pe_code = Some ''circuit_open'', pe_status = None, pe_retryable = Some False\<rparr>"

definition timeout_error :: "int \<Rightarrow> provider_error" where
  "timeout_error timeoutMs =
     \<lparr>pe_is_error = True, pe_name = ''ProviderTimeoutError'',
      pe_message = ''Provider operation timed out after '' @ int_str timeoutMs @ ''ms.'',
      pe_code = Some ''timeout'', pe_status = None, pe_retryable = Some True\<rparr>"

definition classifyProviderError :: "provider_error \<Rightarrow> string" where
  "classifyProviderError e =
     (if pe_is_error e \<and> nullish (pe_code e) [] \<noteq> [] then nullish (pe_code e) []
      else if pe_is_error e \<and> pe_status e = Some 429 then ''rate_limited''
      else if pe_is_error e \<and> (case pe_status e of None \<Rightarrow> False | Some s \<Rightarrow> s \<ge> 500) then ''unavailable''
      else if pe_is_error e \<and> pe_name e = ''AbortError'' then ''timeout''
      else ''unknown'')"

definition isRateLimitError :: "provider_error \<Rightarrow> bool" where
  "isRateLimitError e \<longleftrightarrow> classifyProviderError e = ''rate_limited''"

definition isRetryableProviderError :: "string \<Rightarrow> provider_error \<Rightarrow> bool" where
  "isRetryableProviderError code e =
     (case (pe_is_error e, pe_retryable e) of
        (True, Some b) \<Rightarrow> b
      | _ \<Rightarrow> code = ''timeout'' \<or> code = ''rate_limited'' \<or> code = ''unavailable'')"

section \<open>The limit on an operation's time\<close>

type_synonym ('v, 'w) operation = "'w \<Rightarrow> (provider_error + 'v) option \<times> 'w"

definition withProviderTimeout ::
  "('v, 'w) operation \<Rightarrow> int option \<Rightarrow> 'w \<Rightarrow> ((provider_error + 'v) \<times> 'w) option" where
  "withProviderTimeout operation timeoutMs w =
     (case operation w of
        (Some r, w) \<Rightarrow> Some (r, w)
      | (None, w) \<Rightarrow>
          (case timeoutMs of
             None \<Rightarrow> None
           | Some ms \<Rightarrow> Some (Inl (timeout_error ms), w)))"

section \<open>The retry loop\<close>

record ('v, 'w) provider_options =
  po_provider_id :: string
  po_operation :: "('v, 'w) operation"
  po_retry :: "provider_retry option"
  po_timeout_ms :: "int option"
  po_breaker_policy :: "breaker_policy option"
  po_classify :: "(provider_error \<Rightarrow> string) option"

record 'w provider_state =
  ps_world :: 'w
  ps_breaker :: breaker
  ps_ticks :: nat
  ps_sleeps :: "int list"

record 'v provider_result =
  pr_provider_id :: string
  pr_value :: 'v
  pr_attempts :: int
  pr_latency_ms :: int

definition date_now :: "(nat \<Rightarrow> int) \<Rightarrow> 'w provider_state \<Rightarrow> int \<times> 'w provider_state" where
  "date_now clk s = (clk (ps_ticks s), s\<lparr>ps_ticks := Suc (ps_ticks s)\<rparr>)"

text \<open>\<open>options.circuitBreaker?.recordFailure()\<close>, which reads the clock.\<close>

definition breaker_failure ::
  "(nat \<Rightarrow> int) \<Rightarrow> ('v, 'w) provider_options \<Rightarrow> 'w provider_state \<Rightarrow> 'w provider_state" where
  "breaker_failure clk opts s =
     (case po_breaker_policy opts of
        None \<Rightarrow> s
      | Some policy \<Rightarrow>
          let (now, s) = date_now clk s in s\<lparr>ps_breaker := recordFailure policy now (ps_breaker s)\<rparr>)"

definition breaker_success :: "('v, 'w) provider_options \<Rightarrow> 'w provider_state \<Rightarrow> 'w provider_state" where
  "breaker_success opts s =
     (if po_breaker_policy opts = None then s else s\<lparr>ps_breaker := recordSuccess (ps_breaker s)\<rparr>)"

definition error_retryable :: "('v, 'w) provider_options \<Rightarrow> provider_error \<Rightarrow> bool" where
  "error_retryable opts e =
     isRetryableProviderError
       (case po_classify opts of None \<Rightarrow> classifyProviderError e | Some f \<Rightarrow> f e) e"

text \<open>
  The loop, by the number of attempts left. Falling out of it is the error after the loop, which
  no call reaches since the last attempt returns or throws.
\<close>

fun attempt_loop ::
  "(nat \<Rightarrow> int) \<Rightarrow> ('v, 'w) provider_options \<Rightarrow> provider_retry \<Rightarrow> int \<Rightarrow> nat \<Rightarrow> int \<Rightarrow>
   'w provider_state \<Rightarrow> ((provider_error + 'v provider_result) \<times> 'w provider_state) option" where
  "attempt_loop clk opts retry startedAt 0 attempt s =
     Some (Inl \<lparr>pe_is_error = True, pe_name = ''Error'',
       pe_message = ''Provider operation failed without an Error object.'',
       pe_code = None, pe_status = None, pe_retryable = None\<rparr>, s)"
| "attempt_loop clk opts retry startedAt (Suc left) attempt s =
     (case withProviderTimeout (po_operation opts) (po_timeout_ms opts) (ps_world s) of
        None \<Rightarrow> None
      | Some (Inr value', w) \<Rightarrow>
          let s = breaker_success opts (s\<lparr>ps_world := w\<rparr>);
              (now, s) = date_now clk s
          in Some (Inr \<lparr>pr_provider_id = po_provider_id opts, pr_value = value',
               pr_attempts = attempt, pr_latency_ms = now - startedAt\<rparr>, s)
      | Some (Inl e, w) \<Rightarrow>
          let s = s\<lparr>ps_world := w\<rparr> in
          if \<not> error_retryable opts e \<or> attempt \<ge> pv_max_attempts retry then
            Some (Inl e, breaker_failure clk opts s)
          else
            attempt_loop clk opts retry startedAt left (attempt + 1)
              (s\<lparr>ps_sleeps := ps_sleeps s @ [calculateRetryDelayMs retry attempt]\<rparr>))"

definition executeProviderOperation ::
  "(nat \<Rightarrow> int) \<Rightarrow> ('v, 'w) provider_options \<Rightarrow> 'w provider_state \<Rightarrow>
   ((provider_error + 'v provider_result) \<times> 'w provider_state) option" where
  "executeProviderOperation clk opts s =
     (let retry = normalizeRetry (po_retry opts);
          (startedAt, s) = date_now clk s;
          (allowed, s) =
            (case po_breaker_policy opts of
               None \<Rightarrow> (True, s)
             | Some policy \<Rightarrow> let (now, s) = date_now clk s in (canAttempt policy now (ps_breaker s), s))
      in if \<not> allowed then Some (Inl (circuit_open_error (po_provider_id opts)), s)
         else attempt_loop clk opts retry startedAt (nat (pv_max_attempts retry)) 1 s)"

section \<open>Health\<close>

datatype health_status = Healthy | Degraded | Unhealthy

record provider_health =
  ph_provider_id :: string
  ph_status :: health_status
  ph_checked_at :: string
  ph_latency_ms :: int
  ph_reason :: "string option"

definition checkProviderHealth ::
  "(nat \<Rightarrow> int) \<Rightarrow> string \<Rightarrow> ('v, 'w) operation \<Rightarrow> int option \<Rightarrow> 'w provider_state \<Rightarrow>
   (provider_health \<times> 'w provider_state) option" where
  "checkProviderHealth clk providerId check timeoutMs s =
     (let (startedAt, s) = date_now clk s;
          opts = \<lparr>po_provider_id = providerId, po_operation = check,
            po_retry = Some \<lparr>pv_max_attempts = 1, pv_base_delay_ms = 0, pv_max_delay_ms = None, pv_jitter_ms = None\<rparr>,
            po_timeout_ms = Some (nullish timeoutMs 5000), po_breaker_policy = None, po_classify = None\<rparr>
      in case executeProviderOperation clk opts s of
           None \<Rightarrow> None
         | Some (r, s) \<Rightarrow>
             let (checked, s) = date_now clk s; (now, s) = date_now clk s in
             Some (case r of
               Inr _ \<Rightarrow> \<lparr>ph_provider_id = providerId, ph_status = Healthy, ph_checked_at = iso_string checked,
                 ph_latency_ms = now - startedAt, ph_reason = None\<rparr>
             | Inl e \<Rightarrow> \<lparr>ph_provider_id = providerId,
                 ph_status = (if classifyProviderError e = ''rate_limited'' then Degraded else Unhealthy),
                 ph_checked_at = iso_string checked, ph_latency_ms = now - startedAt,
                 ph_reason = Some (pe_message e)\<rparr>, s))"

section \<open>What the breaker remembers\<close>

datatype breaker_event = Ev_success | Ev_failure int

fun apply_breaker_event :: "breaker_policy \<Rightarrow> breaker_event \<Rightarrow> breaker \<Rightarrow> breaker" where
  "apply_breaker_event policy Ev_success b = recordSuccess b"
| "apply_breaker_event policy (Ev_failure now) b = recordFailure policy now b"

definition breaker_run :: "breaker_policy \<Rightarrow> breaker_event list \<Rightarrow> breaker" where
  "breaker_run policy es = fold (apply_breaker_event policy) es createCircuitBreaker"

text \<open>The failures since the last success, newest first.\<close>

fun recent_failures :: "breaker_event list \<Rightarrow> int list" where
  "recent_failures [] = []"
| "recent_failures (Ev_success # es) = []"
| "recent_failures (Ev_failure now # es) = now # recent_failures es"

lemma breaker_run_spec:
  "breaker_run policy es =
   (let fs = recent_failures (rev es) in
    \<lparr>cb_failures = length fs,
     cb_opened_at = (if fs \<noteq> [] \<and> cb_failure_threshold policy \<le> int (length fs) then Some (hd fs) else None)\<rparr>)"
proof (induction es rule: rev_induct)
  case Nil
  show ?case by (simp add: breaker_run_def createCircuitBreaker_def)
next
  case (snoc e es)
  have "breaker_run policy (es @ [e]) = apply_breaker_event policy e (breaker_run policy es)"
    by (simp add: breaker_run_def)
  with snoc show ?case
    by (cases e) (auto simp: recordSuccess_def recordFailure_def Let_def)
qed

section \<open>What an execution does\<close>

text \<open>The world after a number of attempts that all failed with an error worth a retry.\<close>

fun failed_attempts :: "('v, 'w) provider_options \<Rightarrow> nat \<Rightarrow> 'w \<Rightarrow> 'w option" where
  "failed_attempts opts 0 w = Some w"
| "failed_attempts opts (Suc n) w =
     (case withProviderTimeout (po_operation opts) (po_timeout_ms opts) w of
        Some (Inl e, w) \<Rightarrow> if error_retryable opts e then failed_attempts opts n w else None
      | _ \<Rightarrow> None)"

text \<open>The last attempt, and what it leaves in the breaker.\<close>

definition last_attempt ::
  "('v, 'w) provider_options \<Rightarrow> bool \<Rightarrow> breaker \<Rightarrow> int \<Rightarrow> 'w \<Rightarrow> provider_error + 'v provider_result \<Rightarrow>
   'w provider_state \<Rightarrow> bool" where
  "last_attempt opts final b attempt w r s' \<longleftrightarrow>
     (case r of
        Inr v \<Rightarrow>
          withProviderTimeout (po_operation opts) (po_timeout_ms opts) w = Some (Inr (pr_value v), ps_world s') \<and>
          pr_attempts v = attempt \<and>
          ps_breaker s' = (if po_breaker_policy opts = None then b else recordSuccess b)
      | Inl e \<Rightarrow>
          withProviderTimeout (po_operation opts) (po_timeout_ms opts) w = Some (Inl e, ps_world s') \<and>
          (\<not> error_retryable opts e \<or> final) \<and>
          (case po_breaker_policy opts of
             None \<Rightarrow> ps_breaker s' = b
           | Some policy \<Rightarrow> \<exists>now. ps_breaker s' = recordFailure policy now b))"

lemma attempt_loop_trace:
  "attempt_loop clk opts retry st n a s = Some (r, s') \<Longrightarrow> 0 < n \<Longrightarrow> pv_max_attempts retry = a + int n - 1 \<Longrightarrow>
   \<exists>k w. k < n \<and> failed_attempts opts k (ps_world s) = Some w \<and>
     ps_sleeps s' = ps_sleeps s @ map (\<lambda>i. calculateRetryDelayMs retry (a + int i)) [0..<k] \<and>
     last_attempt opts (Suc k = n) (ps_breaker s) (a + int k) w r s'"
proof (induction n arbitrary: a s)
  case (Suc n)
  obtain o' w where o: "withProviderTimeout (po_operation opts) (po_timeout_ms opts) (ps_world s) = Some (o', w)"
    using Suc.prems(1) by (auto split: option.splits)
  show ?case
  proof (cases o')
    case (Inr v)
    with Suc.prems(1) o show ?thesis
      by (auto simp: last_attempt_def breaker_success_def date_now_def Let_def
          intro!: exI [of _ "0 :: nat"] split: if_splits)
  next
    case (Inl e)
    show ?thesis
    proof (cases "\<not> error_retryable opts e \<or> a \<ge> pv_max_attempts retry")
      case True
      with Inl o Suc.prems show ?thesis
        by (auto simp: last_attempt_def breaker_failure_def date_now_def Let_def
            intro!: exI [of _ "0 :: nat"] split: option.splits)
    next
      case False
      let ?s = "s\<lparr>ps_world := w, ps_sleeps := ps_sleeps s @ [calculateRetryDelayMs retry a]\<rparr>"
      have l: "attempt_loop clk opts retry st n (a + 1) ?s = Some (r, s')"
        using Suc.prems(1) o Inl False by simp
      have "0 < n" "pv_max_attempts retry = a + 1 + int n - 1" using Suc.prems(3) False by (cases n; simp)+
      from Suc.IH [OF l this] obtain k w' where k: "k < n" "failed_attempts opts k w = Some w'"
          "ps_sleeps s' = ps_sleeps s @ [calculateRetryDelayMs retry a] @
             map (\<lambda>i. calculateRetryDelayMs retry (a + 1 + int i)) [0..<k]"
          "last_attempt opts (Suc k = n) (ps_breaker s) (a + 1 + int k) w' r s'" by auto
      have "map (\<lambda>i. calculateRetryDelayMs retry (a + int i)) [0..<Suc k] =
          calculateRetryDelayMs retry a # map (\<lambda>i. calculateRetryDelayMs retry (a + 1 + int i)) [0..<k]"
        by (simp add: upt_conv_Cons map_Suc_upt [symmetric] comp_def add.assoc del: upt_Suc)
      with k o Inl False show ?thesis
        by (intro exI [of _ "Suc k"] exI [of _ w']) (simp add: ac_simps)
    qed
  qed
qed simp

definition refused :: "(nat \<Rightarrow> int) \<Rightarrow> ('v, 'w) provider_options \<Rightarrow> 'w provider_state \<Rightarrow> bool" where
  "refused clk opts s \<longleftrightarrow>
     (case po_breaker_policy opts of
        None \<Rightarrow> False
      | Some policy \<Rightarrow> \<not> canAttempt policy (clk (Suc (ps_ticks s))) (ps_breaker s))"

lemma execute_refused:
  "refused clk opts s \<Longrightarrow> executeProviderOperation clk opts s =
     Some (Inl (circuit_open_error (po_provider_id opts)), s\<lparr>ps_ticks := ps_ticks s + 2\<rparr>)"
  by (auto simp: refused_def executeProviderOperation_def date_now_def Let_def split: option.splits)

lemma execute_trace:
  assumes "\<not> refused clk opts s" "executeProviderOperation clk opts s = Some (r, s')"
  shows "\<exists>k w. k < nat (pv_max_attempts (normalizeRetry (po_retry opts))) \<and>
     failed_attempts opts k (ps_world s) = Some w \<and>
     ps_sleeps s' = ps_sleeps s @
       map (\<lambda>i. calculateRetryDelayMs (normalizeRetry (po_retry opts)) (1 + int i)) [0..<k] \<and>
     last_attempt opts (Suc k = nat (pv_max_attempts (normalizeRetry (po_retry opts))))
       (ps_breaker s) (1 + int k) w r s'"
proof -
  let ?retry = "normalizeRetry (po_retry opts)"
  have pos: "1 \<le> pv_max_attempts ?retry" by (simp add: normalizeRetry_def Let_def)
  obtain t s1 where s1: "attempt_loop clk opts ?retry t (nat (pv_max_attempts ?retry)) 1 s1 = Some (r, s')"
      "ps_world s1 = ps_world s" "ps_breaker s1 = ps_breaker s" "ps_sleeps s1 = ps_sleeps s"
    using assms
    by (auto simp: refused_def executeProviderOperation_def date_now_def Let_def split: option.splits)
  from attempt_loop_trace [OF s1(1)] pos show ?thesis by (simp add: s1(2-4))
qed

lemma delay_mono_cap:
  "0 \<le> pv_base_delay_ms retry \<Longrightarrow> pv_max_delay_ms retry = Some cap \<Longrightarrow>
   calculateRetryDelayMs retry a \<le> cap + max 0 (nullish (pv_jitter_ms retry) 0)"
  by (simp add: calculateRetryDelayMs_def Let_def)

section \<open>Properties of the component\<close>

text \<open>With a limit on its time every call of an operation returns, and so does the loop.\<close>

lemma timeout_returns: "\<exists>r. withProviderTimeout operation (Some ms) w = Some r"
  by (auto simp: withProviderTimeout_def split: prod.split option.split)

lemma attempt_loop_returns:
  "po_timeout_ms opts = Some ms \<Longrightarrow> \<exists>r. attempt_loop clk opts retry st n a s = Some r"
proof (induction n arbitrary: a s)
  case (Suc n)
  obtain o' w where "withProviderTimeout (po_operation opts) (Some ms) (ps_world s) = Some (o', w)"
    using timeout_returns by (metis surj_pair)
  with Suc show ?case by (cases o') (simp_all add: Let_def split: prod.split)
qed simp

text \<open>An operation that fails with a retryable error as often as its world says, then answers.\<close>

definition demo_operation :: "(string, nat) operation" where
  "demo_operation w = (case w of 0 \<Rightarrow> (Some (Inr ''answer''), 0) | Suc n \<Rightarrow> (None, n))"

definition demo_options :: "(string, nat) provider_options" where
  "demo_options = \<lparr>po_provider_id = ''p'', po_operation = demo_operation,
     po_retry = Some \<lparr>pv_max_attempts = 3, pv_base_delay_ms = 100, pv_max_delay_ms = None, pv_jitter_ms = None\<rparr>,
     po_timeout_ms = Some 1000, po_breaker_policy = Some \<lparr>cb_failure_threshold = 2, cb_reset_after_ms = 60\<rparr>,
     po_classify = None\<rparr>"

definition demo_state :: "nat \<Rightarrow> nat provider_state" where
  "demo_state n = \<lparr>ps_world = n, ps_breaker = createCircuitBreaker, ps_ticks = 0, ps_sleeps = []\<rparr>"

text \<open>
  C33: A call the open breaker refuses does not run the operation. Any other call runs it
  until it answers, fails for good or uses up its attempts: all attempts before the last
  failed with a retryable error, the pauses between them are those of the retry policy, and
  the outcome and the one record in the breaker are those of the last attempt.
\<close>

theorem provider_retries_exact:
  assumes "executeProviderOperation clk opts s = Some (r, s')"
  shows "if refused clk opts s
    then r = Inl (circuit_open_error (po_provider_id opts)) \<and> s' = s\<lparr>ps_ticks := ps_ticks s + 2\<rparr>
    else \<exists>k w. k < nat (pv_max_attempts (normalizeRetry (po_retry opts))) \<and>
      failed_attempts opts k (ps_world s) = Some w \<and>
      ps_sleeps s' = ps_sleeps s @
        map (\<lambda>i. calculateRetryDelayMs (normalizeRetry (po_retry opts)) (1 + int i)) [0..<k] \<and>
      last_attempt opts (Suc k = nat (pv_max_attempts (normalizeRetry (po_retry opts))))
        (ps_breaker s) (1 + int k) w r s'"
proof (cases "refused clk opts s")
  case True
  with assms execute_refused [OF True] show ?thesis by simp
next
  case False
  with execute_trace [OF False assms] show ?thesis by simp
qed

theorem provider_retries_exact_witness:
  "\<exists>r s'. executeProviderOperation int demo_options (demo_state 2) = Some (r, s') \<and> ps_sleeps s' = [100, 200] \<and>
     (\<exists>k w. failed_attempts demo_options k 2 = Some w \<and> last_attempt demo_options (Suc k = 3) createCircuitBreaker (1 + int k) w r s')"
proof -
  obtain r s' where e: "executeProviderOperation int demo_options (demo_state 2) = Some (r, s')" and
      s: "ps_sleeps s' = [100, 200]"
    by (simp add: executeProviderOperation_def demo_options_def demo_state_def demo_operation_def date_now_def
        normalizeRetry_def canAttempt_def readStatus_def createCircuitBreaker_def withProviderTimeout_def
        error_retryable_def isRetryableProviderError_def timeout_error_def calculateRetryDelayMs_def
        breaker_success_def nullish_def numeral_2_eq_2 numeral_3_eq_3 eval_nat_numeral)
  have "\<not> refused int demo_options (demo_state 2)"
    by (simp add: refused_def demo_options_def demo_state_def canAttempt_def readStatus_def createCircuitBreaker_def)
  moreover have "nat (pv_max_attempts (normalizeRetry (po_retry demo_options))) = 3"
    by (simp add: demo_options_def normalizeRetry_def nullish_def)
  moreover have "ps_world (demo_state 2) = 2" "ps_breaker (demo_state 2) = createCircuitBreaker"
    by (simp_all add: demo_state_def)
  ultimately show ?thesis using provider_retries_exact [OF e] e s by auto
qed

text \<open>
  After any sequence of successes and failures the circuit breaker is closed exactly when
  fewer failures than the threshold came since the last success, and otherwise half open
  exactly from the reset time after the newest failure on.
\<close>

theorem breaker_remembers:
  "readStatus policy now (breaker_run policy es) =
     (let fs = recent_failures (rev es) in
      if fs = [] \<or> int (length fs) < cb_failure_threshold policy then Closed
      else if cb_reset_after_ms policy \<le> now - hd fs then Half_open else Open)"
  by (auto simp: breaker_run_spec readStatus_def Let_def)

text \<open>
  With a time limit a call always returns, however its operation behaves; a health check,
  which always has one, always reports.
\<close>

theorem provider_returns:
  assumes "po_timeout_ms opts = Some ms"
  shows "(\<exists>r s'. executeProviderOperation clk opts s = Some (r, s')) \<and>
    (\<exists>h s'. checkProviderHealth clk providerId check timeoutMs s = Some (h, s'))"
proof -
  have e: "\<exists>r s'. executeProviderOperation clk opts s = Some (r, s')" if "po_timeout_ms opts = Some ms"
    for opts :: "('x, 'y) provider_options" and s ms
    using attempt_loop_returns [OF that]
    by (auto simp: executeProviderOperation_def date_now_def Let_def split: option.split)
  let ?o = "\<lparr>po_provider_id = providerId, po_operation = check,
    po_retry = Some \<lparr>pv_max_attempts = 1, pv_base_delay_ms = 0, pv_max_delay_ms = None, pv_jitter_ms = None\<rparr>,
    po_timeout_ms = Some (nullish timeoutMs 5000), po_breaker_policy = None, po_classify = None\<rparr>"
  obtain r s' where "executeProviderOperation clk ?o (s\<lparr>ps_ticks := Suc (ps_ticks s)\<rparr>) = Some (r, s')"
    using e [of ?o] by fastforce
  then have "\<exists>h s'. checkProviderHealth clk providerId check timeoutMs s = Some (h, s')"
    by (simp add: checkProviderHealth_def date_now_def Let_def)
  with e [OF assms] show ?thesis by blast
qed

theorem provider_returns_witness:
  "\<exists>r s'. executeProviderOperation int demo_options (demo_state 5) = Some (r, s')"
proof -
  have "po_timeout_ms demo_options = Some 1000" by (simp add: demo_options_def)
  from provider_returns [OF this, of int "demo_state 5"] show ?thesis by blast
qed

end
