(* ===== verification/Message_Routing.thy ===== *)
theory Message_Routing
  imports JS_Values
begin

text \<open>
  Routing of channel messages, \<^verbatim>\<open>src/routing/\<close>: the data (\<^verbatim>\<open>types.ts\<close>), the check of a
  message and the search of the table (\<^verbatim>\<open>resolve.ts\<close>), and the queue of messages that found
  no route (\<^verbatim>\<open>dead-letter.ts\<close>).
\<close>

datatype dead_letter_reason = Invalid_message | No_route

record routed_message =
  rm_id :: string
  rm_channel :: string
  rm_body :: string
  rm_agent_type :: "string option"
  rm_metadata :: "jsval option"

record route_target =
  rg_agent_id :: string
  rg_capability :: "string option"

record route_rule =
  rr_id :: string
  rr_agent_type :: string
  rr_target :: route_target

record dead_letter_message =
  dl_message :: routed_message
  dl_reason :: dead_letter_reason
  dl_detail :: string

definition deadLetter :: "routed_message \<Rightarrow> dead_letter_reason \<Rightarrow> string \<Rightarrow> dead_letter_message" where
  "deadLetter message reason detail = \<lparr>dl_message = message, dl_reason = reason, dl_detail = detail\<rparr>"

definition validateRoutedMessage :: "routed_message \<Rightarrow> dead_letter_message + routed_message" where
  "validateRoutedMessage message =
     (if js_trim (rm_id message) = [] then
        Inl (deadLetter message Invalid_message ''Message id is required.'')
      else if js_trim (rm_channel message) = [] then
        Inl (deadLetter message Invalid_message ''Message channel is required.'')
      else if js_trim (rm_body message) = [] then
        Inl (deadLetter message Invalid_message ''Message body is required.'')
      else Inr message)"

definition resolveRoute ::
  "routed_message \<Rightarrow> route_rule list \<Rightarrow> dead_letter_message + routed_message \<times> route_rule" where
  "resolveRoute message table =
     (case validateRoutedMessage message of
        Inl e \<Rightarrow> Inl e
      | Inr _ \<Rightarrow>
          (case find (\<lambda>entry. Some (rr_agent_type entry) = rm_agent_type message) table of
             None \<Rightarrow> Inl (deadLetter message No_route
               (''No route for agent type \"'' @ nullish (rm_agent_type message) ''unknown'' @ ''\".''))
           | Some route \<Rightarrow> Inr (message, route)))"

definition routeOrDeadLetter ::
  "routed_message \<Rightarrow> route_rule list \<Rightarrow> dead_letter_message list \<Rightarrow>
   (dead_letter_message + routed_message \<times> route_rule) \<times> dead_letter_message list" where
  "routeOrDeadLetter message table queue =
     (case resolveRoute message table of
        Inl e \<Rightarrow> (Inl e, queue @ [e])
      | Inr r \<Rightarrow> (Inr r, queue))"

section \<open>Routing a sequence\<close>

fun route_all ::
  "routed_message list \<Rightarrow> route_rule list \<Rightarrow> dead_letter_message list \<Rightarrow>
   (routed_message \<times> route_rule) list \<times> dead_letter_message list" where
  "route_all [] table queue = ([], queue)"
| "route_all (m # ms) table queue =
     (case routeOrDeadLetter m table queue of
        (Inl e, queue) \<Rightarrow> route_all ms table queue
      | (Inr r, queue) \<Rightarrow> (let (rs, queue) = route_all ms table queue in (r # rs, queue)))"

definition routable :: "route_rule list \<Rightarrow> routed_message \<Rightarrow> bool" where
  "routable table m \<longleftrightarrow>
     js_trim (rm_id m) \<noteq> [] \<and> js_trim (rm_channel m) \<noteq> [] \<and> js_trim (rm_body m) \<noteq> [] \<and>
     list_ex (\<lambda>entry. Some (rr_agent_type entry) = rm_agent_type m) table"

lemma list_ex_find: "list_ex P xs \<longleftrightarrow> find P xs \<noteq> None"
  by (auto simp: find_None_iff list_ex_iff)

lemma resolve_ok: "isl (resolveRoute m table) \<longleftrightarrow> \<not> routable table m"
  by (auto simp: resolveRoute_def validateRoutedMessage_def routable_def list_ex_find split: option.split)

lemma resolve_message:
  "case resolveRoute m table of Inl e \<Rightarrow> dl_message e = m | Inr (x, r) \<Rightarrow> x = m"
  by (auto simp: resolveRoute_def validateRoutedMessage_def deadLetter_def split: option.split)

lemma route_all_spec:
  "route_all ms table queue = (rs, queue') \<Longrightarrow>
   map fst rs = filter (routable table) ms \<and>
   (\<exists>ds. queue' = queue @ ds \<and> map dl_message ds = filter (\<lambda>m. \<not> routable table m) ms)"
proof (induction ms arbitrary: queue rs)
  case (Cons m ms)
  show ?case
  proof (cases "resolveRoute m table")
    case (Inl e)
    then have "\<not> routable table m" "dl_message e = m"
      using resolve_ok [of m table] resolve_message [of m table] by auto
    with Cons.IH [of "queue @ [e]" rs] Cons.prems Inl show ?thesis
      by (auto simp: routeOrDeadLetter_def)
  next
    case (Inr r)
    then have "routable table m" "fst r = m"
      using resolve_ok [of m table] resolve_message [of m table] by auto
    moreover obtain rs1 where "route_all ms table queue = (rs1, queue')" "rs = r # rs1"
      using Cons.prems Inr by (auto simp: routeOrDeadLetter_def split: prod.splits)
    ultimately show ?thesis using Cons.IH [of queue rs1] by auto
  qed
qed simp

section \<open>Properties of the component\<close>

text \<open>
  Routing a sequence of messages loses none and keeps their order: the routed ones are
  exactly the well-formed messages with an entry in the table, and the dead-letter queue
  grows by exactly the others.
\<close>

theorem routing_partition:
  assumes "route_all ms table queue = (rs, queue')"
  shows "map fst rs = filter (routable table) ms \<and>
    (\<exists>ds. queue' = queue @ ds \<and> map dl_message ds = filter (\<lambda>m. \<not> routable table m) ms)"
  by (rule route_all_spec [OF assms])

theorem routing_partition_witness:
  "\<exists>rs q. route_all [\<lparr>rm_id = ''1'', rm_channel = ''c'', rm_body = ''b'', rm_agent_type = Some ''ceo'', rm_metadata = None\<rparr>,
     \<lparr>rm_id = '' '', rm_channel = ''c'', rm_body = ''b'', rm_agent_type = Some ''ceo'', rm_metadata = None\<rparr>]
     [\<lparr>rr_id = ''r'', rr_agent_type = ''ceo'', rr_target = \<lparr>rg_agent_id = ''a'', rg_capability = None\<rparr>\<rparr>] [] = (rs, q) \<and>
     map (rm_id \<circ> fst) rs = [''1''] \<and> map (rm_id \<circ> dl_message) q = ['' '']"
proof -
  let ?a = "\<lparr>rm_id = ''1'', rm_channel = ''c'', rm_body = ''b'', rm_agent_type = Some ''ceo'', rm_metadata = None\<rparr>"
  let ?b = "\<lparr>rm_id = '' '', rm_channel = ''c'', rm_body = ''b'', rm_agent_type = Some ''ceo'', rm_metadata = None\<rparr>"
  let ?t = "[\<lparr>rr_id = ''r'', rr_agent_type = ''ceo'', rr_target = \<lparr>rg_agent_id = ''a'', rg_capability = None\<rparr>\<rparr>]"
  obtain rs q where e: "route_all [?a, ?b] ?t [] = (rs, q)" by (cases "route_all [?a, ?b] ?t []")
  have "routable ?t ?a" "\<not> routable ?t ?b" by code_simp+
  with routing_partition [OF e] e show ?thesis by (auto simp flip: map_map)
qed

end
