(* ===== verification/Context_Batch.thy ===== *)
theory Context_Batch
  imports JS_Date JS_Values
begin

text \<open>
  What an agent is told: the batch of context items that fits a budget of tokens,
  \<^verbatim>\<open>src/context-engine/\<close> (estimate, score and batch). The hook that compresses what does
  not fit is a parameter, which may throw. Estimates are whole numbers.

  A date that does not parse gives an item no score; a comparison with it counts as equal, and
  the order of a list with such an item is then the host's choice, of which the stable sort of
  the model is one. The properties hold for every order of the items.
\<close>

section \<open>Items\<close>

record context_owner =
  co_project_id :: "string option"
  co_agent_id :: "string option"
  co_session_id :: "string option"

datatype context_priority = Prio_critical | Prio_high | Prio_normal | Prio_low

record context_item =
  ci_id :: string
  ci_content :: string
  ci_owner :: context_owner
  ci_priority :: context_priority
  ci_created_at :: string
  ci_token_estimate :: "int option"
  ci_metadata :: "jsval option"

record context_budget =
  cg_max_tokens :: int
  cg_reserved_output_tokens :: int

record context_batch =
  cx_owner :: context_owner
  cx_budget :: context_budget
  cx_included :: "context_item list"
  cx_compressed :: "context_item list"
  cx_omitted :: "context_item list"
  cx_used_tokens :: int
  cx_remaining_tokens :: int

section \<open>Estimate and score\<close>

text \<open>\<open>Math.ceil(n / 4)\<close>.\<close>

definition estimateTokens :: "string \<Rightarrow> int" where
  "estimateTokens content = max 1 ((int (length (js_trim content)) + 3) div 4)"

fun priorityWeight :: "context_priority \<Rightarrow> int" where
  "priorityWeight Prio_critical = 100"
| "priorityWeight Prio_high = 60"
| "priorityWeight Prio_normal = 30"
| "priorityWeight Prio_low = 10"

definition scoreContextItem :: "context_item \<Rightarrow> int \<Rightarrow> int option" where
  "scoreContextItem item now =
     (case date_parse (ci_created_at item) of
        None \<Rightarrow> None
      | Some t \<Rightarrow>
          let ageMs = max 0 (now - t);
              recencyScore = max 0 (10 - ageMs div 86400000);
              attributionScore =
                (if nullish (co_project_id (ci_owner item)) [] \<noteq> [] \<or>
                    nullish (co_agent_id (ci_owner item)) [] \<noteq> [] \<or>
                    nullish (co_session_id (ci_owner item)) [] \<noteq> [] then 2 else 0)
          in Some (priorityWeight (ci_priority item) + recencyScore + attributionScore))"

definition itemTokens :: "context_item \<Rightarrow> int" where
  "itemTokens item = nullish (ci_token_estimate item) (estimateTokens (ci_content item))"

definition ownerMatches :: "context_owner \<Rightarrow> context_owner \<Rightarrow> bool" where
  "ownerMatches requested candidate \<longleftrightarrow>
     (co_project_id requested = None \<or> co_project_id requested = co_project_id candidate) \<and>
     (co_agent_id requested = None \<or> co_agent_id requested = co_agent_id candidate) \<and>
     (co_session_id requested = None \<or> co_session_id requested = co_session_id candidate)"

section \<open>The batch\<close>

definition ranks_before :: "int \<Rightarrow> context_item \<Rightarrow> context_item \<Rightarrow> bool" where
  "ranks_before now left right \<longleftrightarrow>
     (case (scoreContextItem right now, scoreContextItem left now) of
        (Some r, Some l) \<Rightarrow> r - l \<le> 0
      | _ \<Rightarrow> True)"

text \<open>The loop over the ranked items: included, overflow, tokens used.\<close>

fun pack_items ::
  "int \<Rightarrow> int \<Rightarrow> context_item list \<Rightarrow> context_item list \<times> context_item list \<times> int" where
  "pack_items available used [] = ([], [], used)"
| "pack_items available used (item # items) =
     (if used + itemTokens item \<le> available then
        let (included, overflow, used) = pack_items available (used + itemTokens item) items
        in (item # included, overflow, used)
      else
        let (included, overflow, used) = pack_items available used items
        in (included, item # overflow, used))"

definition buildContextBatch ::
  "context_owner \<Rightarrow> context_item list \<Rightarrow> context_budget \<Rightarrow>
   (context_item list \<Rightarrow> int \<Rightarrow> context_item outcome) option \<Rightarrow> int \<Rightarrow> context_batch outcome" where
  "buildContextBatch owner items budget compressionHook now =
     (let availableTokens = max 0 (cg_max_tokens budget - cg_reserved_output_tokens budget);
          ranked = js_sort (ranks_before now) (filter (\<lambda>item. ownerMatches owner (ci_owner item)) items);
          (included, overflow, usedTokens) = pack_items availableTokens 0 ranked
      in outcome_bind
           (case compressionHook of
              None \<Rightarrow> Inr ([], usedTokens)
            | Some hook \<Rightarrow>
                if overflow \<noteq> [] \<and> usedTokens < availableTokens then
                  outcome_bind (hook overflow (availableTokens - usedTokens)) (\<lambda>compressedItem.
                    let compressedTokens = itemTokens compressedItem in
                    if compressedTokens \<le> availableTokens - usedTokens
                    then Inr ([compressedItem], usedTokens + compressedTokens)
                    else Inr ([], usedTokens))
                else Inr ([], usedTokens))
           (\<lambda>(compressed, usedTokens).
              Inr \<lparr>cx_owner = owner, cx_budget = budget, cx_included = included, cx_compressed = compressed,
                cx_omitted = (if compressed \<noteq> [] then [] else overflow), cx_used_tokens = usedTokens,
                cx_remaining_tokens = availableTokens - usedTokens\<rparr>))"

section \<open>Packing\<close>

lemma pack_items_spec:
  "pack_items available used items = (included, overflow, final) \<Longrightarrow> used \<le> available \<Longrightarrow>
   \<forall>i \<in> set items. 0 \<le> itemTokens i \<Longrightarrow>
   mset included + mset overflow = mset items \<and> final = used + sum_list (map itemTokens included) \<and>
   used \<le> final \<and> final \<le> available \<and> (\<forall>i \<in> set overflow. available < final + itemTokens i)"
proof (induction items arbitrary: used included overflow final)
  case (Cons i items)
  show ?case
  proof (cases "used + itemTokens i \<le> available")
    case True
    with Cons.prems(1) obtain inc where p: "pack_items available (used + itemTokens i) items = (inc, overflow, final)"
      "included = i # inc" by (auto split: prod.splits)
    from Cons.IH [OF p(1)] True Cons.prems(3) p(2) show ?thesis by auto
  next
    case False
    with Cons.prems(1) obtain over where p: "pack_items available used items = (included, over, final)"
      "overflow = i # over" by (auto split: prod.splits)
    from Cons.IH [OF p(1) Cons.prems(2)] False Cons.prems(3) p(2) show ?thesis by auto
  qed
qed simp

lemma estimate_pos: "1 \<le> estimateTokens s"
  by (simp add: estimateTokens_def)

section \<open>Properties of the component\<close>

lemma buildContextBatch_packs:
  assumes "buildContextBatch owner items budget hook now = Inr b"
  shows "\<exists>overflow used. pack_items (max 0 (cg_max_tokens budget - cg_reserved_output_tokens budget)) 0
      (js_sort (ranks_before now) (filter (\<lambda>i. ownerMatches owner (ci_owner i)) items)) =
        (cx_included b, overflow, used) \<and>
    cx_used_tokens b + cx_remaining_tokens b = max 0 (cg_max_tokens budget - cg_reserved_output_tokens budget) \<and>
    (if cx_compressed b = [] then cx_omitted b = overflow \<and> cx_used_tokens b = used
     else \<exists>c. cx_compressed b = [c] \<and> cx_omitted b = [] \<and> cx_used_tokens b = used + itemTokens c \<and>
       cx_used_tokens b \<le> max 0 (cg_max_tokens budget - cg_reserved_output_tokens budget))"
  using assms
  by (auto simp: buildContextBatch_def Let_def outcome_bind_def split: prod.splits sum.splits option.splits if_splits)

lemma build_without_hook: "\<exists>b. buildContextBatch owner items budget None now = Inr b"
  by (simp add: buildContextBatch_def Let_def outcome_bind_def split: prod.split)

definition demo_item :: "string \<Rightarrow> string \<Rightarrow> int \<Rightarrow> context_item" where
  "demo_item i project n = \<lparr>ci_id = i, ci_content = i,
     ci_owner = \<lparr>co_project_id = Some project, co_agent_id = None, co_session_id = None\<rparr>, ci_priority = Prio_normal,
     ci_created_at = [], ci_token_estimate = Some n, ci_metadata = None\<rparr>"

text \<open>
  C40: With estimates that are not negative a context batch stays within its budget and
  belongs to its owner: the tokens used and left add up to what the budget leaves for input,
  the items included and left out are the owner's items and no others, and without
  compression no item that was left out would still have fitted.
\<close>

theorem context_within_budget:
  assumes "buildContextBatch owner items budget hook now = Inr b"
    and "list_all (\<lambda>i. 0 \<le> itemTokens i) items"
  shows "cx_used_tokens b + cx_remaining_tokens b = max 0 (cg_max_tokens budget - cg_reserved_output_tokens budget) \<and>
    0 \<le> cx_remaining_tokens b \<and> sum_list (map itemTokens (cx_included b @ cx_compressed b)) = cx_used_tokens b \<and>
    (\<exists>overflow. mset (cx_included b) + mset overflow = {#i \<in># mset items. ownerMatches owner (ci_owner i)#} \<and>
       (if cx_compressed b = []
        then cx_omitted b = overflow \<and> list_all (\<lambda>i. cx_remaining_tokens b < itemTokens i) overflow
        else cx_omitted b = []))"
proof -
  let ?available = "max 0 (cg_max_tokens budget - cg_reserved_output_tokens budget)"
  let ?items = "js_sort (ranks_before now) (filter (\<lambda>i. ownerMatches owner (ci_owner i)) items)"
  obtain overflow used where p: "pack_items ?available 0 ?items = (cx_included b, overflow, used)" and
      s: "cx_used_tokens b + cx_remaining_tokens b = ?available"
      "if cx_compressed b = [] then cx_omitted b = overflow \<and> cx_used_tokens b = used
       else \<exists>c. cx_compressed b = [c] \<and> cx_omitted b = [] \<and> cx_used_tokens b = used + itemTokens c \<and>
         cx_used_tokens b \<le> ?available"
    using buildContextBatch_packs [OF assms(1)] by auto
  have "\<forall>i \<in> set ?items. 0 \<le> itemTokens i" using assms(2) by (auto simp: list_all_iff)
  note packed = pack_items_spec [OF p max.cobounded1 this]
  have k:
    "mset (cx_included b) + mset overflow = {#i \<in># mset items. ownerMatches owner (ci_owner i)#}"
    "used = sum_list (map itemTokens (cx_included b))" "used \<le> ?available"
    "\<forall>i \<in> set overflow. ?available < used + itemTokens i" using packed by (simp, simp, blast, blast)
  show ?thesis
  proof (cases "cx_compressed b")
    case Nil
    with s(2) have o: "cx_omitted b = overflow" "cx_used_tokens b = used" by simp_all
    have "list_all (\<lambda>i. cx_remaining_tokens b < itemTokens i) overflow"
      unfolding list_all_iff using k(4) s(1) o(2) by (metis add_less_cancel_left)
    with Nil o s(1) k(1-3) show ?thesis by (intro conjI exI [of _ overflow]) simp_all
  next
    case (Cons c cs)
    with s(2) obtain c' where o: "cx_compressed b = [c']" "cx_omitted b = []"
      "cx_used_tokens b = used + itemTokens c'" "cx_used_tokens b \<le> ?available" by auto
    with s(1) k(1-3) show ?thesis by (intro conjI exI [of _ overflow]) simp_all
  qed
qed

theorem context_within_budget_witness:
  "\<exists>b. buildContextBatch \<lparr>co_project_id = Some ''p'', co_agent_id = None, co_session_id = None\<rparr>
     [demo_item ''a'' ''p'' 3, demo_item ''b'' ''q'' 1, demo_item ''c'' ''p'' 2]
     \<lparr>cg_max_tokens = 6, cg_reserved_output_tokens = 2\<rparr> None 0 = Inr b \<and>
     cx_used_tokens b + cx_remaining_tokens b = 4 \<and> 0 \<le> cx_remaining_tokens b"
proof -
  let ?o = "\<lparr>co_project_id = Some ''p'', co_agent_id = None, co_session_id = None\<rparr>"
  let ?is = "[demo_item ''a'' ''p'' 3, demo_item ''b'' ''q'' 1, demo_item ''c'' ''p'' 2]"
  let ?b = "\<lparr>cg_max_tokens = 6, cg_reserved_output_tokens = 2\<rparr>"
  obtain b where e: "buildContextBatch ?o ?is ?b None 0 = Inr b"
    using build_without_hook by blast
  have "list_all (\<lambda>i. 0 \<le> itemTokens i) ?is" by (simp add: itemTokens_def demo_item_def nullish_def)
  from context_within_budget [OF e this] have
    "cx_used_tokens b + cx_remaining_tokens b = 4 \<and> 0 \<le> cx_remaining_tokens b" by simp
  with e show ?thesis by blast
qed

end
