(* ===== verification/Commitments.thy ===== *)
theory Commitments
  imports JS_Date
begin

text \<open>
  Commitments of agents to operators, \<^verbatim>\<open>src/commitments/index.ts\<close>: creation, fulfilment and
  the scan for missed deadlines. The clock of the scan is a parameter in milliseconds.
\<close>

datatype commitment_status = Cm_open | Cm_fulfilled | Cm_breached | Cm_cancelled

record commitment =
  cm_id :: string
  cm_agent_id :: string
  cm_operator_id :: string
  cm_description :: string
  cm_due_at :: string
  cm_created_at :: string
  cm_status :: commitment_status
  cm_fulfilled_at :: "string option"
  cm_breached_at :: "string option"

datatype alert_severity = Alert_warning | Alert_breach

record commitment_alert =
  ca_commitment_id :: string
  ca_agent_id :: string
  ca_operator_id :: string
  ca_severity :: alert_severity
  ca_message :: string
  ca_emitted_at :: string

text \<open>The generated id, when none is given, is a parameter.\<close>

definition createCommitment ::
  "string \<Rightarrow> string \<Rightarrow> string \<Rightarrow> string \<Rightarrow> int \<Rightarrow> string option \<Rightarrow> string \<Rightarrow> commitment" where
  "createCommitment agentId operatorId description dueAt now givenId generated =
     \<lparr>cm_id = nullish givenId generated, cm_agent_id = js_trim agentId, cm_operator_id = js_trim operatorId,
      cm_description = js_trim description, cm_due_at = dueAt, cm_created_at = iso_string now,
      cm_status = Cm_open, cm_fulfilled_at = None, cm_breached_at = None\<rparr>"

definition fulfillCommitment :: "int \<Rightarrow> commitment \<Rightarrow> commitment" where
  "fulfillCommitment now commitment' =
     (if cm_status commitment' \<noteq> Cm_open then commitment'
      else commitment'\<lparr>cm_status := Cm_fulfilled, cm_fulfilled_at := Some (iso_string now)\<rparr>)"

text \<open>\<open>Date.parse(dueAt) > now\<close> is false for a date that does not parse.\<close>

definition still_due :: "int \<Rightarrow> commitment \<Rightarrow> bool" where
  "still_due now c = (case date_parse (cm_due_at c) of None \<Rightarrow> False | Some t \<Rightarrow> t > now)"

definition breach :: "int \<Rightarrow> commitment \<Rightarrow> commitment" where
  "breach now c = c\<lparr>cm_status := Cm_breached, cm_breached_at := Some (iso_string now)\<rparr>"

definition breach_alert :: "int \<Rightarrow> commitment \<Rightarrow> commitment_alert" where
  "breach_alert now c =
     \<lparr>ca_commitment_id = cm_id c, ca_agent_id = cm_agent_id c, ca_operator_id = cm_operator_id c,
      ca_severity = Alert_breach, ca_message = ''Commitment deadline breached: '' @ cm_description c,
      ca_emitted_at = iso_string now\<rparr>"

fun detectDeadlineBreaches :: "commitment list \<Rightarrow> int \<Rightarrow> commitment list \<times> commitment_alert list" where
  "detectDeadlineBreaches [] now = ([], [])"
| "detectDeadlineBreaches (c # cs) now =
     (let (updated, alerts) = detectDeadlineBreaches cs now in
      if cm_status c \<noteq> Cm_open \<or> still_due now c then (c # updated, alerts)
      else (breach now c # updated, breach_alert now c # alerts))"

section \<open>The store\<close>

definition cm_add :: "commitment \<Rightarrow> commitment list \<Rightarrow> commitment list" where
  "cm_add c values' = values' @ [c]"

definition cm_replaceAll :: "commitment list \<Rightarrow> commitment list \<Rightarrow> commitment list" where
  "cm_replaceAll cs values' = cs"

section \<open>The scan\<close>

definition overdue :: "int \<Rightarrow> commitment \<Rightarrow> bool" where
  "overdue now c \<longleftrightarrow> cm_status c = Cm_open \<and> \<not> still_due now c"

lemma detect_spec:
  "detectDeadlineBreaches cs now =
     (map (\<lambda>c. if overdue now c then breach now c else c) cs, map (breach_alert now) (filter (overdue now) cs))"
  by (induction cs) (auto simp: overdue_def)

lemma breach_not_overdue: "\<not> overdue later (if overdue now c then breach now c else c) \<or> \<not> overdue now c"
  by (simp add: overdue_def breach_def)

lemma still_due_mono: "now \<le> later \<Longrightarrow> still_due later c \<Longrightarrow> still_due now c"
  by (auto simp: still_due_def split: option.splits)

text \<open>A scan at a later time alerts exactly for what has become overdue since.\<close>

lemma detect_twice:
  assumes "now \<le> later"
  shows "snd (detectDeadlineBreaches (fst (detectDeadlineBreaches cs now)) later) =
     map (breach_alert later) (filter (\<lambda>c. overdue later c \<and> \<not> overdue now c) cs)"
proof -
  have "overdue later (if overdue now c then breach now c else c) \<longleftrightarrow> overdue later c \<and> \<not> overdue now c" for c
    by (auto simp: overdue_def breach_def)
  then show ?thesis
    by (simp add: detect_spec filter_map comp_def)
qed

section \<open>Properties of the component\<close>

definition demo_commitment :: commitment where
  "demo_commitment = createCommitment ''a'' ''o'' ''deliver'' (iso_string 1000) 0 (Some ''c1'') []"

lemma demo_overdue: "overdue 1500 demo_commitment"
  by (simp add: overdue_def still_due_def demo_commitment_def createCommitment_def date_parse_iso_string)

text \<open>
  A scan alerts exactly for the open commitments whose time has come, which it marks as
  breached, and changes nothing else; a second scan, at whatever later time, alerts only for
  those that have become overdue since.
\<close>

theorem breach_alerted_once:
  assumes "now \<le> later" and "detectDeadlineBreaches cs now = (cs', alerts)"
  shows "cs' = map (\<lambda>c. if overdue now c then breach now c else c) cs \<and>
    map ca_commitment_id alerts = map cm_id (filter (overdue now) cs) \<and>
    map ca_commitment_id (snd (detectDeadlineBreaches cs' later)) =
      map cm_id (filter (\<lambda>c. overdue later c \<and> \<not> overdue now c) cs)"
  using detect_twice [OF assms(1), of cs] assms(2)
  by (auto simp: detect_spec breach_alert_def comp_def)

theorem breach_alerted_once_witness:
  "map ca_commitment_id (snd (detectDeadlineBreaches [demo_commitment] 1500)) = [''c1''] \<and>
   snd (detectDeadlineBreaches (fst (detectDeadlineBreaches [demo_commitment] 1500)) 1600) = []"
proof -
  obtain cs' alerts where e: "detectDeadlineBreaches [demo_commitment] 1500 = (cs', alerts)"
    by (cases "detectDeadlineBreaches [demo_commitment] 1500")
  have id: "cm_id demo_commitment = ''c1''" by (simp add: demo_commitment_def createCommitment_def nullish_def)
  note b = breach_alerted_once [of 1500 1600, OF _ e, simplified, THEN conjunct2]
  have "map ca_commitment_id alerts = [''c1'']" using b [THEN conjunct1] demo_overdue id by simp
  moreover have "snd (detectDeadlineBreaches cs' 1600) = []" using b [THEN conjunct2] demo_overdue by simp
  ultimately show ?thesis unfolding e by simp
qed

end
