(* ===== verification/JS_Double.thy ===== *)
theory JS_Double
  imports Complex_Main
begin

text \<open>
  Quotients and products of counts as the language computes them: double-precision numbers,
  rounded to 53 bits, ties to even. A positive double is a pair of a significand and a scale,
  \<open>(q, e)\<close> for \<open>q / 2 ^ e\<close>. Counts are far from the ends of the exponent range, which
  is left out.
\<close>

section \<open>Rounding a fraction\<close>

definition round_half_even :: "nat \<Rightarrow> nat \<Rightarrow> nat" where
  "round_half_even n d =
     (let q = n div d; r = n mod d in if 2 * r < d \<or> 2 * r = d \<and> even q then q else q + 1)"

fun bit_count :: "nat \<Rightarrow> nat" where
  "bit_count n = (if n = 0 then 0 else Suc (bit_count (n div 2)))"

declare bit_count.simps [simp del]

text \<open>\<open>n / d\<close> scaled by \<open>2 ^ e\<close>, as a fraction.\<close>

definition scaled :: "nat \<Rightarrow> nat \<Rightarrow> int \<Rightarrow> nat \<times> nat" where
  "scaled n d e = (if e \<ge> 0 then (n * 2 ^ nat e, d) else (n, d * 2 ^ nat (- e)))"

definition to_double :: "nat \<Rightarrow> nat \<Rightarrow> nat \<times> int" where
  "to_double n d =
     (if n = 0 then (0, 0)
      else
        let e = 53 - int (bit_count n) + int (bit_count d);
            (a, b) = scaled n d e;
            e = (if a \<ge> 2 ^ 53 * b then e - 1 else e);
            (a, b) = scaled n d e
        in (round_half_even a b, e))"

text \<open>\<open>x * c\<close> for a double and a count; \<^verbatim>\<open>Math.round\<close>, which rounds ties up.\<close>

definition double_times :: "nat \<times> int \<Rightarrow> nat \<Rightarrow> nat \<times> int" where
  "double_times x c = (let (q, e) = x; (a, b) = scaled (q * c) 1 (- e) in to_double a b)"

definition math_round :: "nat \<times> int \<Rightarrow> nat" where
  "math_round x = (let (q, e) = x; (a, b) = scaled q 1 (- e) in (2 * a + b) div (2 * b))"

definition double_value :: "nat \<times> int \<Rightarrow> real" where
  "double_value x = real (fst x) / 2 powr real_of_int (snd x)"

section \<open>Rounding is monotone and keeps integers\<close>

lemma round_half_even_le: "n \<le> m * d \<Longrightarrow> 0 < d \<Longrightarrow> round_half_even n d \<le> m"
proof -
  assume le: "n \<le> m * d" and d: "0 < d"
  have q: "n div d \<le> m" using le d by (metis div_le_mono nonzero_mult_div_cancel_right not_gr_zero)
  show ?thesis
  proof (cases "n div d = m")
    case True
    then have "m * d + n mod d \<le> m * d" using le by (metis div_mult_mod_eq)
    then have "n mod d = 0" by simp
    with True d show ?thesis by (simp add: round_half_even_def Let_def)
  next
    case False
    with q show ?thesis by (auto simp: round_half_even_def Let_def)
  qed
qed

lemma round_half_even_ge: "m * d \<le> n \<Longrightarrow> 0 < d \<Longrightarrow> m \<le> round_half_even n d"
  by (auto simp: round_half_even_def Let_def less_eq_div_iff_mult_less_eq intro: le_SucI)

lemma round_half_even_exact: "0 < d \<Longrightarrow> round_half_even (m * d) d = m"
  using round_half_even_le [of "m * d" m d] round_half_even_ge [of m d "m * d"] by simp

lemma bit_count_bounds: "0 < n \<Longrightarrow> 2 ^ (bit_count n - 1) \<le> n \<and> n < 2 ^ bit_count n"
proof (induction n rule: bit_count.induct)
  case (1 n)
  show ?case
  proof (cases "n div 2 = 0")
    case True
    with 1(2) have "n = 1" by simp
    then show ?thesis by (simp add: bit_count.simps)
  next
    case False
    then have "2 ^ (bit_count (n div 2) - 1) \<le> n div 2" "n div 2 < 2 ^ bit_count (n div 2)"
      and p: "0 < bit_count (n div 2)"
      using 1 by (simp_all add: bit_count.simps [of "n div 2"])
    then have "2 * 2 ^ (bit_count (n div 2) - 1) \<le> n" "n < 2 * 2 ^ bit_count (n div 2)" by linarith+
    with p 1(2) show ?thesis
      by (subst (1 2) bit_count.simps) (simp add: power_Suc [symmetric] del: power_Suc)
  qed
qed

section \<open>Normalised significands\<close>

lemma scaled_real:
  "scaled n d e = (a, b) \<Longrightarrow> 0 < d \<Longrightarrow> 0 < b \<and> real a / real b = real n / real d * 2 powr real_of_int e"
  by (auto simp: scaled_def powr_realpow [symmetric] powr_minus field_simps split: if_splits)

lemma bit_count_powr:
  assumes "0 < n"
  shows "2 powr (real (bit_count n) - 1) \<le> real n" "real n < 2 powr real (bit_count n)"
proof -
  have b: "0 < bit_count n" using assms by (simp add: bit_count.simps)
  have "real (2 ^ (bit_count n - 1)) \<le> real n" "real n < real (2 ^ bit_count n)"
    using bit_count_bounds [OF assms] by (simp_all only: of_nat_le_iff of_nat_less_iff)
  with b show "2 powr (real (bit_count n) - 1) \<le> real n" "real n < 2 powr real (bit_count n)"
    by (simp_all add: powr_realpow [symmetric] of_nat_diff)
qed

lemma half_between: "(y::real) = x / 2 \<Longrightarrow> a \<le> x \<Longrightarrow> x < b \<Longrightarrow> b = 2 * a \<Longrightarrow> a = 2 * c \<Longrightarrow> c \<le> y \<and> y < a"
  by simp

lemma to_double_norm:
  assumes "0 < n" "0 < d" "to_double n d = (q, e)"
  shows "\<exists>a b. scaled n d e = (a, b) \<and> q = round_half_even a b \<and> 2 ^ 52 * b \<le> a \<and> a < 2 ^ 53 * b"
proof -
  let ?e = "53 - int (bit_count n) + int (bit_count d)"
  let ?x = "real n / real d"
  obtain a0 b0 where s0: "scaled n d ?e = (a0, b0)" by fastforce
  note r0 = scaled_real [OF s0 assms(2)]
  have lo: "2 powr 52 \<le> ?x * 2 powr real_of_int ?e"
  proof -
    have "2 powr (real (bit_count n) - 1) / 2 powr real (bit_count d) \<le> ?x"
      using bit_count_powr [OF assms(1)] bit_count_powr [OF assms(2)] assms(2) by (intro frac_le) simp_all
    then have "2 powr (real (bit_count n) - 1) / 2 powr real (bit_count d) * 2 powr real_of_int ?e \<le>
        ?x * 2 powr real_of_int ?e" by (intro mult_right_mono) simp_all
    then show ?thesis by (simp add: powr_diff [symmetric] powr_add [symmetric])
  qed
  have hi: "?x * 2 powr real_of_int ?e < 2 powr 54"
  proof -
    have "?x < 2 powr real (bit_count n) / 2 powr (real (bit_count d) - 1)"
      using bit_count_powr [OF assms(1)] bit_count_powr [OF assms(2)] by (intro frac_less) simp_all
    then have "?x * 2 powr real_of_int ?e <
        2 powr real (bit_count n) / 2 powr (real (bit_count d) - 1) * 2 powr real_of_int ?e"
      by (intro mult_strict_right_mono) simp_all
    then show ?thesis by (simp add: powr_diff [symmetric] powr_add [symmetric])
  qed
  have big: "2 ^ 53 * b0 \<le> a0 \<longleftrightarrow> 2 powr 53 \<le> ?x * 2 powr real_of_int ?e"
  proof -
    have "2 ^ 53 * b0 \<le> a0 \<longleftrightarrow> real (2 ^ 53 * b0) \<le> real a0" by (simp only: of_nat_le_iff)
    also have "\<dots> \<longleftrightarrow> 2 ^ 53 \<le> real a0 / real b0"
      using r0 [THEN conjunct1] by (simp add: pos_le_divide_eq)
    also have "\<dots> \<longleftrightarrow> 2 powr 53 \<le> ?x * 2 powr real_of_int ?e" unfolding r0 [THEN conjunct2] by simp
    finally show ?thesis .
  qed
  have e: "e = (if 2 ^ 53 * b0 \<le> a0 then ?e - 1 else ?e)" and
      q: "scaled n d e = (a, b) \<Longrightarrow> q = round_half_even a b" for a b
    using assms(1,3) s0 by (auto simp: to_double_def Let_def split: prod.splits)
  obtain a b where s: "scaled n d e = (a, b)" by fastforce
  note r = scaled_real [OF s assms(2)]
  have half: "x * 2 powr real_of_int (i - 1) = x * 2 powr real_of_int i / 2" for x :: real and i :: int
    by (simp add: powr_diff)
  have two: "(2::real) powr 54 = 2 * 2 powr 53" "(2::real) powr 53 = 2 * 2 powr 52" by simp_all
  have "2 powr 52 \<le> ?x * 2 powr real_of_int e \<and> ?x * 2 powr real_of_int e < 2 powr 53"
  proof (cases "2 ^ 53 * b0 \<le> a0")
    case True
    with e have "e = ?e - 1" by simp
    then have "?x * 2 powr real_of_int e = ?x * 2 powr real_of_int ?e / 2" by (simp only: half)
    moreover have "2 powr 53 \<le> ?x * 2 powr real_of_int ?e" using True big by blast
    ultimately show ?thesis by (rule half_between [OF _ _ hi two])
  next
    case False
    with e have "e = ?e" by simp
    moreover have "?x * 2 powr real_of_int ?e < 2 powr 53" using False big by linarith
    ultimately show ?thesis using lo by simp
  qed
  then have "2 ^ 52 \<le> real a / real b" "real a / real b < 2 ^ 53" using r by simp_all
  then have "real (2 ^ 52 * b) \<le> real a" "real a < real (2 ^ 53 * b)"
    using r [THEN conjunct1] by (simp_all add: pos_le_divide_eq pos_divide_less_eq)
  then show ?thesis using s q [OF s] by (simp only: of_nat_le_iff of_nat_less_iff) blast
qed

section \<open>Quotients of counts\<close>

lemma to_double_le:
  assumes "n \<le> m * d" "0 < n" "0 < d" "to_double n d = (q, e)" "0 \<le> e"
  shows "q \<le> m * 2 ^ nat e"
proof -
  obtain a b where s: "scaled n d e = (a, b)" "q = round_half_even a b"
    using to_double_norm [OF assms(2-4)] by blast
  then have "a = n * 2 ^ nat e" "b = d" using assms(5) by (simp_all add: scaled_def)
  moreover have "n * 2 ^ nat e \<le> m * 2 ^ nat e * d" using assms(1) by (simp add: mult.commute mult.left_commute)
  ultimately show ?thesis using s(2) assms(3) by (simp add: round_half_even_le)
qed

lemma to_double_ge:
  assumes "m * d \<le> n" "0 < n" "0 < d" "to_double n d = (q, e)" "0 \<le> e"
  shows "m * 2 ^ nat e \<le> q"
proof -
  obtain a b where s: "scaled n d e = (a, b)" "q = round_half_even a b"
    using to_double_norm [OF assms(2-4)] by blast
  then have "a = n * 2 ^ nat e" "b = d" using assms(5) by (simp_all add: scaled_def)
  moreover have "m * 2 ^ nat e * d \<le> n * 2 ^ nat e" using assms(1) by (simp add: mult.commute mult.left_commute)
  ultimately show ?thesis using s(2) assms(3) by (simp add: round_half_even_ge)
qed

lemma to_double_scale:
  assumes "n \<le> 2 ^ k * d" "0 < n" "0 < d" "to_double n d = (q, e)"
  shows "52 - int k \<le> e"
proof -
  obtain a b where s: "scaled n d e = (a, b)" and le: "2 ^ 52 * b \<le> a"
    using to_double_norm [OF assms(2-4)] by blast
  note r = scaled_real [OF s assms(3)]
  have "2 ^ 52 * real b \<le> real a" using of_nat_mono [OF le, where 'a = real] by simp
  then have "2 ^ 52 \<le> real a / real b" using r [THEN conjunct1] by (simp add: pos_le_divide_eq)
  moreover have "real n \<le> real (2 ^ k * d)" using assms(1) by (simp only: of_nat_le_iff)
  then have "real n / real d \<le> 2 ^ k" using assms(3) by (simp add: pos_divide_le_eq)
  then have "real n / real d * 2 powr real_of_int e \<le> 2 ^ k * 2 powr real_of_int e"
    by (intro mult_right_mono) simp_all
  ultimately have "2 powr 52 \<le> (2::real) powr (real k + real_of_int e)"
    using r by (simp add: powr_add powr_realpow)
  then have "52 \<le> real k + real_of_int e" by (subst (asm) powr_le_cancel_iff) simp_all
  then show ?thesis by linarith
qed

lemma round_half_even_error: "0 < d \<Longrightarrow> \<bar>real (round_half_even n d) - real n / real d\<bar> \<le> 1 / 2"
proof -
  assume d: "0 < d"
  have n: "real n / real d = real (n div d) + real (n mod d) / real d"
    using d arg_cong [OF div_mult_mod_eq [of n d], of real]
    by (simp only: of_nat_add of_nat_mult) (simp add: field_simps)
  have "n mod d < d" using d by simp
  then show ?thesis
    using d by (auto simp: n round_half_even_def Let_def field_simps abs_le_iff)
qed

text \<open>\<open>Math.round((k / n) * 100)\<close>.\<close>

definition percent :: "nat \<Rightarrow> nat \<Rightarrow> nat" where
  "percent k n = math_round (double_times (to_double k n) 100)"

lemma percent_0 [simp]: "percent 0 n = 0"
  by (simp add: percent_def to_double_def double_times_def scaled_def math_round_def)

text \<open>The two roundings, of the quotient and of the product.\<close>

lemma percent_parts:
  assumes "0 < k" "k \<le> n"
  obtains q e q2 e2 where "to_double k n = (q, e)" "52 \<le> e" "q \<le> 2 ^ nat e" "0 < q"
    "to_double (q * 100) (2 ^ nat e) = (q2, e2)" "45 \<le> e2" "q2 \<le> 100 * 2 ^ nat e2"
    "percent k n = (2 * q2 + 2 ^ nat e2) div (2 * 2 ^ nat e2)"
proof -
  obtain q e where q: "to_double k n = (q, e)" by fastforce
  have n: "0 < n" using assms by simp
  have e: "52 \<le> e" using to_double_scale [of k 0 n, OF _ assms(1) n q] assms(2) by simp
  then have qe: "q \<le> 2 ^ nat e" using to_double_le [of k 1 n, OF _ assms(1) n q] assms(2) by simp
  obtain a b where s: "q = round_half_even a b" "2 ^ 52 * b \<le> a" "scaled k n e = (a, b)"
    using to_double_norm [OF assms(1) n q] by blast
  then have "2 ^ 52 \<le> q" using scaled_real [OF s(3) n] by (simp add: round_half_even_ge)
  then have q0: "0 < q" by simp
  obtain q2 e2 where q2: "to_double (q * 100) (2 ^ nat e) = (q2, e2)" by fastforce
  have p: "0 < q * 100" "(0::nat) < 2 ^ nat e" using q0 by simp_all
  have "q * 100 \<le> 2 ^ 7 * 2 ^ nat e" using qe by simp
  then have e2: "45 \<le> e2" using to_double_scale [OF _ p q2] by fastforce
  moreover have "q2 \<le> 100 * 2 ^ nat e2" using to_double_le [of "q * 100" 100, OF _ p q2] e2 qe by simp
  moreover have "percent k n = (2 * q2 + 2 ^ nat e2) div (2 * 2 ^ nat e2)"
    using q q2 e e2 by (simp add: percent_def double_times_def math_round_def scaled_def)
  ultimately show thesis using that q e qe q0 q2 by blast
qed

lemma percent_le: "k \<le> n \<Longrightarrow> percent k n \<le> 100"
proof (cases "k = 0")
  case False
  assume "k \<le> n"
  with False obtain q2 e2 where q: "q2 \<le> 100 * 2 ^ nat e2" "percent k n = (2 * q2 + 2 ^ nat e2) div (2 * 2 ^ nat e2)"
    by (metis percent_parts neq0_conv)
  have "2 * q2 + 2 ^ nat e2 < 101 * (2 * 2 ^ nat e2)" using q(1) zero_less_power [of "2::nat" "nat e2"] by linarith
  then have "percent k n < 101" unfolding q(2) by (simp add: div_less_iff_less_mult)
  then show ?thesis by simp
qed simp

lemma percent_all: "0 < n \<Longrightarrow> percent n n = 100"
proof -
  assume n: "0 < n"
  then obtain q e q2 e2 where p: "to_double n n = (q, e)" "52 \<le> e" "0 < q" "q \<le> 2 ^ nat e"
      "to_double (q * 100) (2 ^ nat e) = (q2, e2)" "45 \<le> e2" "q2 \<le> 100 * 2 ^ nat e2"
      "percent n n = (2 * q2 + 2 ^ nat e2) div (2 * 2 ^ nat e2)"
    by (metis percent_parts le_refl)
  have "2 ^ nat e \<le> q" using to_double_ge [of 1 n n, OF _ n n p(1)] p(2) by simp
  with p(4) have "q = 2 ^ nat e" by simp
  then have "100 * 2 ^ nat e2 \<le> q2" using to_double_ge [of 100 "2 ^ nat e" "q * 100", OF _ _ _ p(5)] p(6) by simp
  with p(7) have "q2 = 100 * 2 ^ nat e2" by simp
  then have "2 * q2 + 2 ^ nat e2 = 2 ^ nat e2 + 100 * (2 * 2 ^ nat e2)" by simp
  moreover have "(2 ^ nat e2 + 100 * (2 * 2 ^ nat e2)) div (2 * 2 ^ nat e2) = (100::nat)"
    by (simp add: div_mult_self1)
  ultimately show ?thesis using p(8) by simp
qed

text \<open>The percentage is the true one but for rounding to a whole number and two last digits.\<close>

lemma abs_twice: "2 * (x - y) \<le> d \<Longrightarrow> 2 * (y - x) \<le> d \<Longrightarrow> 2 * \<bar>x - y\<bar> \<le> (d::real)"
  by (simp add: abs_if)

lemma abs_chain:
  "\<bar>y - z\<bar> \<le> a \<Longrightarrow> \<bar>x - 100 * y\<bar> \<le> b \<Longrightarrow> \<bar>p - x\<bar> \<le> c \<Longrightarrow> \<bar>p - 100 * z\<bar> \<le> c + b + 100 * (a::real)"
  by linarith

lemma abs_div_power: "\<bar>x - y * 2 ^ k\<bar> / 2 ^ k = \<bar>x / 2 ^ k - (y::real)\<bar>"
proof -
  have "x / 2 ^ k - y = (x - y * 2 ^ k) / 2 ^ k" by (simp add: field_simps)
  then show ?thesis by (simp add: abs_divide)
qed

lemma to_double_error:
  assumes "0 < n" "0 < d" "to_double n d = (q, e)" "int k \<le> e"
  shows "\<bar>real q / 2 ^ nat e - real n / real d\<bar> \<le> 1 / 2 ^ Suc k"
proof -
  obtain a b where s: "scaled n d e = (a, b)" "q = round_half_even a b"
    using to_double_norm [OF assms(1-3)] by blast
  have ab: "real a / real b = real n / real d * 2 ^ nat e" "0 < b"
    using scaled_real [OF s(1) assms(2)] assms(4) by (simp_all add: powr_real_of_int)
  have "\<bar>real q - real n / real d * 2 ^ nat e\<bar> \<le> 1 / 2"
    using round_half_even_error [OF ab(2), of a] ab(1) s(2) by simp
  then have "\<bar>real q - real n / real d * 2 ^ nat e\<bar> / 2 ^ nat e \<le> 1 / 2 / 2 ^ nat e"
    by (intro divide_right_mono) simp_all
  moreover have "\<bar>real q - real n / real d * 2 ^ nat e\<bar> / 2 ^ nat e = \<bar>real q / 2 ^ nat e - real n / real d\<bar>"
    by (rule abs_div_power)
  moreover have "k \<le> nat e" using assms(4) by linarith
  then have "(2::real) ^ k \<le> 2 ^ nat e" by (intro power_increasing) simp_all
  then have "1 / 2 / 2 ^ nat e \<le> (1::real) / 2 ^ Suc k" by (simp add: field_simps)
  ultimately show ?thesis by linarith
qed

lemma math_round_error:
  fixes q d :: nat
  assumes "0 < d"
  shows "\<bar>real ((2 * q + d) div (2 * d)) - real q / real d\<bar> \<le> 1 / 2"
proof -
  let ?r = "(2 * q + d) div (2 * d)"
  have "?r * (2 * d) \<le> 2 * q + d" "2 * q + d < Suc ?r * (2 * d)"
    using assms by (simp_all add: div_times_less_eq_dividend dividend_less_div_times)
  then have "real (?r * (2 * d)) \<le> real (2 * q + d)" "real (2 * q + d) < real (Suc ?r * (2 * d))"
    by (simp_all only: of_nat_le_iff of_nat_less_iff)
  then have "2 * (real d * real ?r - real q) \<le> real d" "2 * (real q - real d * real ?r) \<le> real d"
    by (simp_all add: algebra_simps)
  then have "2 * \<bar>real d * real ?r - real q\<bar> \<le> real d" by (rule abs_twice)
  moreover have "\<bar>real ?r - real q / real d\<bar> = \<bar>real d * real ?r - real q\<bar> / real d"
    using assms by (simp add: abs_divide [symmetric] field_simps)
  ultimately show ?thesis using assms by (simp add: pos_divide_le_eq)
qed

lemma percent_error:
  assumes "k \<le> n" "0 < n"
  shows "\<bar>real (percent k n) - 100 * real k / real n\<bar> \<le> 1 / 2 + 1 / 2 ^ 45"
proof (cases "k = 0")
  case False
  then obtain q e q2 e2 where p: "to_double k n = (q, e)" "52 \<le> e" "0 < q"
      "to_double (q * 100) (2 ^ nat e) = (q2, e2)" "45 \<le> e2"
      "percent k n = (2 * q2 + 2 ^ nat e2) div (2 * 2 ^ nat e2)"
    using assms(1) by (metis percent_parts neq0_conv)
  have 1: "\<bar>real q / 2 ^ nat e - real k / real n\<bar> \<le> 1 / 2 ^ Suc 52"
    using False by (intro to_double_error [OF _ assms(2) p(1)]) (use p(2) in simp_all)
  have "\<bar>real q2 / 2 ^ nat e2 - real (q * 100) / real (2 ^ nat e)\<bar> \<le> 1 / 2 ^ Suc 45"
    using p(3) by (intro to_double_error [OF _ _ p(4)]) (use p(5) in simp_all)
  then have 2: "\<bar>real q2 / 2 ^ nat e2 - 100 * (real q / 2 ^ nat e)\<bar> \<le> 1 / 2 ^ 46"
    by (simp add: mult.commute)
  have 3: "\<bar>real (percent k n) - real q2 / 2 ^ nat e2\<bar> \<le> 1 / 2"
    unfolding p(6) using math_round_error [of "2 ^ nat e2" q2] by simp
  have "\<bar>real (percent k n) - 100 * (real k / real n)\<bar> \<le> 1 / 2 + 1 / 2 ^ 46 + 100 * (1 / 2 ^ Suc 52)"
    by (rule abs_chain [OF 1 2 3])
  then show ?thesis by simp
qed simp

end
