(* ===== verification/Project_Manager.thy ===== *)
theory Project_Manager
  imports Domain_Types JS_Double
begin

text \<open>
  The project manager, \<^verbatim>\<open>src/agents/project-manager/\<close>: timelines of milestones, handoffs,
  approvals, blockers, risks, coordination tasks and reports (\<^verbatim>\<open>models.ts\<close>), and the updates
  of a timeline (\<^verbatim>\<open>lifecycle.ts\<close>). Hours of a limit are whole numbers, and ages are compared in
  milliseconds: below two thousand million hours the quotient of the source rounds to no other
  answer. An age from a date that does not parse is within no limit.
\<close>

section \<open>Data\<close>

datatype milestone_status =
    Ms_pending | Ms_in_progress | Ms_completed | Ms_at_risk | Ms_awaiting_ack | Ms_blocked

fun milestone_status_str :: "milestone_status \<Rightarrow> string" where
  "milestone_status_str Ms_pending = ''pending''"
| "milestone_status_str Ms_in_progress = ''in_progress''"
| "milestone_status_str Ms_completed = ''completed''"
| "milestone_status_str Ms_at_risk = ''at_risk''"
| "milestone_status_str Ms_awaiting_ack = ''awaiting_ack''"
| "milestone_status_str Ms_blocked = ''blocked''"

datatype project_risk_severity = Sev_low | Sev_medium | Sev_high | Sev_critical

datatype project_risk_trigger =
    Unrealistic_deadline | Overdue_milestone | Stalled_blocker | Stalled_approval | Handoff_sla_breach

datatype handoff_type = Lead_handoff_type | Discovery_handoff_type

fun handoff_type_str :: "handoff_type \<Rightarrow> string" where
  "handoff_type_str Lead_handoff_type = ''lead_handoff''"
| "handoff_type_str Discovery_handoff_type = ''discovery_handoff''"

datatype handoff_ack_status = Ack_pending | Ack_acknowledged | Ack_breached

record project_milestone =
  pm_milestone_id :: string
  pm_project_id :: string
  pm_owner_agent :: agent_type
  pm_title :: string
  pm_lifecycle_state :: lifecycle_state
  pm_status :: milestone_status
  pm_due_at :: string
  pm_depends_on :: "string list"
  pm_approval_gate :: "approval_gate option"
  pm_started_at :: "string option"
  pm_completed_at :: "string option"
  pm_notes :: "string option"

record project_timeline =
  pt_project_id :: string
  pt_baseline_version :: nat
  pt_created_at :: string
  pt_updated_at :: string
  pt_milestones :: "project_milestone list"

record handoff_record =
  hr_handoff_id :: string
  hr_project_id :: string
  hr_handoff_type :: handoff_type
  hr_from_agent :: agent_type
  hr_to_agent :: agent_type
  hr_sent_at :: string
  hr_ack_status :: handoff_ack_status
  hr_acked_at :: "string option"
  hr_ack_sla_hours :: int

datatype pending_status = Pa_pending | Pa_approved | Pa_rejected | Pa_revise_requested

record pending_approval =
  pa_gate :: approval_gate
  pa_project_id :: string
  pa_requested_by :: agent_type
  pa_requested_at :: string
  pa_status :: pending_status
  pa_last_response_at :: "string option"

record project_blocker =
  pb_blocker_id :: string
  pb_project_id :: string
  pb_severity :: project_risk_severity
  pb_affected_agents :: "agent_type list"
  pb_root_cause :: string
  pb_recommended_action :: string
  pb_opened_at :: string
  pb_resolved_at :: "string option"
  pb_resolution_notes :: "string option"

record project_risk =
  pk_risk_id :: string
  pk_project_id :: string
  pk_severity :: project_risk_severity
  pk_trigger :: project_risk_trigger
  pk_summary :: string
  pk_recommended_action :: string
  pk_created_at :: string
  pk_related_milestone_id :: "string option"
  pk_related_blocker_id :: "string option"

text \<open>\<open>MilestoneStatus | 'on_track'\<close>.\<close>

datatype timeline_status = Tl_milestone milestone_status | Tl_on_track

fun timeline_status_str :: "timeline_status \<Rightarrow> string" where
  "timeline_status_str (Tl_milestone s) = milestone_status_str s"
| "timeline_status_str Tl_on_track = ''on_track''"

record timeline_health =
  hl_active_milestone :: "project_milestone option"
  hl_completion_percentage :: nat
  hl_open_blockers :: nat
  hl_pending_approvals :: "approval_gate list"
  hl_milestone_status :: timeline_status
  hl_risks :: "project_risk list"

datatype project_event_type =
    Pe_timeline_created | Pe_status_update | Pe_lifecycle_transition | Pe_handoff_sent | Pe_handoff_acknowledged
  | Pe_handoff_reminder | Pe_approval_requested | Pe_approval_responded | Pe_blocker_opened | Pe_blocker_resolved
  | Pe_risk_alert | Pe_report_generated

fun project_event_str :: "project_event_type \<Rightarrow> string" where
  "project_event_str Pe_timeline_created = ''timeline_created''"
| "project_event_str Pe_status_update = ''status_update''"
| "project_event_str Pe_lifecycle_transition = ''lifecycle_transition''"
| "project_event_str Pe_handoff_sent = ''handoff_sent''"
| "project_event_str Pe_handoff_acknowledged = ''handoff_acknowledged''"
| "project_event_str Pe_handoff_reminder = ''handoff_reminder''"
| "project_event_str Pe_approval_requested = ''approval_requested''"
| "project_event_str Pe_approval_responded = ''approval_responded''"
| "project_event_str Pe_blocker_opened = ''blocker_opened''"
| "project_event_str Pe_blocker_resolved = ''blocker_resolved''"
| "project_event_str Pe_risk_alert = ''risk_alert''"
| "project_event_str Pe_report_generated = ''report_generated''"

datatype project_actor = Act_agent agent_type | Act_owner | Act_system

record project_event =
  pv_event_id :: string
  pv_project_id :: string
  pv_event_type :: project_event_type
  pv_actor :: project_actor
  pv_summary :: string
  pv_created_at :: string
  pv_metadata :: "(string \<times> string) list option"

datatype coordination_type =
    Ct_status_reminder | Ct_handoff_sla_check | Ct_approval_followup | Ct_blocker_escalation | Ct_periodic_report

fun coordination_type_str :: "coordination_type \<Rightarrow> string" where
  "coordination_type_str Ct_status_reminder = ''status_reminder''"
| "coordination_type_str Ct_handoff_sla_check = ''handoff_sla_check''"
| "coordination_type_str Ct_approval_followup = ''approval_followup''"
| "coordination_type_str Ct_blocker_escalation = ''blocker_escalation''"
| "coordination_type_str Ct_periodic_report = ''periodic_report''"

datatype coordination_status = Cs_queued | Cs_running | Cs_waiting_external | Cs_completed | Cs_failed

record coordination_task =
  ct_task_id :: string
  ct_project_id :: string
  ct_task_type :: coordination_type
  ct_status :: coordination_status
  ct_created_at :: string
  ct_updated_at :: string
  ct_run_after :: string
  ct_related_milestone_id :: "string option"
  ct_related_handoff_id :: "string option"
  ct_related_approval_gate :: "approval_gate option"
  ct_notes :: "string option"

record status_summary =
  ss_project_id :: string
  ss_lifecycle_state :: lifecycle_state
  ss_current_milestone :: string
  ss_milestone_status :: timeline_status
  ss_completion_percentage :: nat
  ss_blockers :: "project_blocker list"
  ss_pending_approvals :: "pending_approval list"
  ss_risks :: "project_risk list"
  ss_next_step :: string
  ss_requires_action :: bool
  ss_active_handoffs :: "handoff_record list"

record periodic_report =
  pr_project_id :: string
  pr_headline :: string
  pr_generated_at :: string
  pr_summary :: string
  pr_next_step :: string
  pr_lifecycle_state :: lifecycle_state
  pr_current_milestone :: string
  pr_blockers :: "string list"
  pr_pending_approvals :: "approval_gate list"
  pr_risks :: "string list"

section \<open>Baseline timelines\<close>

definition addDays :: "string \<Rightarrow> int \<Rightarrow> string outcome" where
  "addDays timestamp days = to_iso_string (map_option (\<lambda>t. t + days * ms_per_day) (date_parse timestamp))"

text \<open>A milestone literal with the fields every entry of the list has.\<close>

definition milestone ::
  "string \<Rightarrow> string \<Rightarrow> agent_type \<Rightarrow> string \<Rightarrow> lifecycle_state \<Rightarrow> milestone_status \<Rightarrow> string \<Rightarrow> string list \<Rightarrow>
   project_milestone" where
  "milestone projectId i owner title' state status due deps =
     \<lparr>pm_milestone_id = i, pm_project_id = projectId, pm_owner_agent = owner, pm_title = title',
      pm_lifecycle_state = state, pm_status = status, pm_due_at = due, pm_depends_on = deps,
      pm_approval_gate = None, pm_started_at = None, pm_completed_at = None, pm_notes = None\<rparr>"

record baseline_options =
  bo_delivery_target_at :: "string option"
  bo_discovery_days :: "int option"
  bo_implementation_days :: "int option"
  bo_qa_days :: "int option"

definition baseline_milestones :: "string \<Rightarrow> string \<Rightarrow> string \<Rightarrow> string \<Rightarrow> string \<Rightarrow> string \<Rightarrow> project_milestone list" where
  "baseline_milestones projectId createdAt discoveryDue implementationDue qaDue deliveryDue =
     [(milestone projectId ''project_created'' Project_manager_agent ''Project created'' LS_won Ms_completed createdAt [])
        \<lparr>pm_completed_at := Some createdAt\<rparr>,
      milestone projectId ''lead_handoff_sent'' Sales_agent ''Lead handoff sent'' LS_won Ms_awaiting_ack createdAt
        [''project_created''],
      milestone projectId ''discovery_started'' Product_agent ''Discovery started'' LS_discovery Ms_pending discoveryDue
        [''lead_handoff_sent''],
      (milestone projectId ''spec_approval_pending'' Product_agent ''Spec approval pending'' LS_discovery Ms_pending
        discoveryDue [''discovery_started''])\<lparr>pm_approval_gate := Some Spec_final\<rparr>,
      milestone projectId ''discovery_handoff_sent'' Product_agent ''Discovery handoff sent'' LS_discovery Ms_awaiting_ack
        discoveryDue [''spec_approval_pending''],
      milestone projectId ''implementation_started'' Engineering_agent ''Implementation started'' LS_implementation Ms_pending
        implementationDue [''discovery_handoff_sent''],
      milestone projectId ''qa_started'' Engineering_agent ''QA started'' LS_qa Ms_pending qaDue [''implementation_started''],
      (milestone projectId ''delivery_approval_pending'' Engineering_agent ''Delivery approval pending'' LS_qa Ms_pending
        deliveryDue [''qa_started''])\<lparr>pm_approval_gate := Some Delivery_final\<rparr>,
      milestone projectId ''delivered'' Engineering_agent ''Delivered'' LS_delivered Ms_pending deliveryDue
        [''delivery_approval_pending'']]"

definition createBaselineTimeline :: "string \<Rightarrow> string \<Rightarrow> baseline_options \<Rightarrow> project_timeline outcome" where
  "createBaselineTimeline projectId createdAt options =
     outcome_bind (addDays createdAt (nullish (bo_discovery_days options) 3)) (\<lambda>discoveryDue.
     outcome_bind (addDays discoveryDue (nullish (bo_implementation_days options) 7)) (\<lambda>implementationDue.
     outcome_bind (addDays implementationDue (nullish (bo_qa_days options) 2)) (\<lambda>qaDue.
     outcome_bind
       (case bo_delivery_target_at options of Some d \<Rightarrow> Inr d | None \<Rightarrow> addDays qaDue 1) (\<lambda>deliveryDue.
       Inr \<lparr>pt_project_id = projectId, pt_baseline_version = 1, pt_created_at = createdAt,
         pt_updated_at = createdAt,
         pt_milestones =
           baseline_milestones projectId createdAt discoveryDue implementationDue qaDue deliveryDue\<rparr>))))"

text \<open>\<open>deliveryMs - createdMs >= minimumWindowMs\<close> is false when a date does not parse.\<close>

definition detectInitialTimelineRisk :: "project_timeline \<Rightarrow> string \<Rightarrow> project_risk option" where
  "detectInitialTimelineRisk timeline createdAt =
     (case find (\<lambda>m. pm_milestone_id m = ''delivered'') (pt_milestones timeline) of
        None \<Rightarrow> None
      | Some deliveryMilestone \<Rightarrow>
          if (case (date_parse (pm_due_at deliveryMilestone), date_parse createdAt) of
                (Some delivery, Some created) \<Rightarrow> delivery - created \<ge> 13 * ms_per_day
              | _ \<Rightarrow> False)
          then None
          else Some \<lparr>pk_risk_id = pt_project_id timeline @ '':unrealistic_deadline:'' @ createdAt,
            pk_project_id = pt_project_id timeline, pk_severity = Sev_high, pk_trigger = Unrealistic_deadline,
            pk_summary = ''Requested delivery target is tighter than the baseline delivery window.'',
            pk_recommended_action = ''Rebaseline the plan or negotiate scope before execution starts.'',
            pk_created_at = createdAt, pk_related_milestone_id = Some (pm_milestone_id deliveryMilestone),
            pk_related_blocker_id = None\<rparr>)"

section \<open>Handoffs\<close>

definition createHandoffRecord :: "string \<Rightarrow> handoff_type \<Rightarrow> string \<Rightarrow> int option \<Rightarrow> handoff_record" where
  "createHandoffRecord projectId handoffType sentAt ackSlaHours =
     \<lparr>hr_handoff_id = projectId @ '':'' @ handoff_type_str handoffType @ '':'' @ sentAt,
      hr_project_id = projectId, hr_handoff_type = handoffType,
      hr_from_agent = (if handoffType = Lead_handoff_type then Sales_agent else Product_agent),
      hr_to_agent = (if handoffType = Lead_handoff_type then Product_agent else Engineering_agent),
      hr_sent_at = sentAt, hr_ack_status = Ack_pending, hr_acked_at = None,
      hr_ack_sla_hours = nullish ackSlaHours 24\<rparr>"

definition acknowledgeHandoffRecord :: "handoff_record \<Rightarrow> string \<Rightarrow> handoff_record" where
  "acknowledgeHandoffRecord rec ackedAt = rec\<lparr>hr_ack_status := Ack_acknowledged, hr_acked_at := Some ackedAt\<rparr>"

record handoff_alert =
  ha_handoff :: handoff_record
  ha_blocker :: "project_blocker option"
  ha_risk :: "project_risk option"
  ha_reminder_message :: "agent_message option"

definition evaluateHandoffAlert :: "handoff_record \<Rightarrow> string \<Rightarrow> handoff_alert" where
  "evaluateHandoffAlert rec now =
     (if hr_ack_status rec \<noteq> Ack_pending \<or> within_hours (hr_sent_at rec) now (hr_ack_sla_hours rec) then
        \<lparr>ha_handoff = rec, ha_blocker = None, ha_risk = None, ha_reminder_message = None\<rparr>
      else
        \<lparr>ha_handoff = rec\<lparr>hr_ack_status := Ack_breached\<rparr>,
         ha_blocker = Some
           \<lparr>pb_blocker_id = hr_handoff_id rec @ '':blocker'', pb_project_id = hr_project_id rec,
            pb_severity = Sev_high, pb_affected_agents = [hr_from_agent rec, hr_to_agent rec],
            pb_root_cause = handoff_type_str (hr_handoff_type rec) @ '' has not been acknowledged within SLA.'',
            pb_recommended_action = ''Send reminder and escalate if the dependency remains blocked.'',
            pb_opened_at = now, pb_resolved_at = None, pb_resolution_notes = None\<rparr>,
         ha_risk = Some
           \<lparr>pk_risk_id = hr_handoff_id rec @ '':risk'', pk_project_id = hr_project_id rec,
            pk_severity = Sev_high, pk_trigger = Handoff_sla_breach,
            pk_summary = handoff_type_str (hr_handoff_type rec) @ '' is at risk because acknowledgment missed SLA.'',
            pk_recommended_action =
              ''Follow up with the receiving agent and re-evaluate the dependent milestone.'',
            pk_created_at = now, pk_related_milestone_id = None, pk_related_blocker_id = None\<rparr>,
         ha_reminder_message = Some
           \<lparr>msg_from = ''project_manager_agent'', msg_to = agent_type_str (hr_to_agent rec),
            msg_type = ''status_update'', msg_project_id = hr_project_id rec, msg_timestamp = now,
            msg_payload = JObj [(''summary'', JStr (''Reminder: acknowledge '' @
              handoff_type_str (hr_handoff_type rec) @ '' for '' @ hr_project_id rec @ ''.''))]\<rparr>\<rparr>)"

section \<open>Approvals and blockers\<close>

definition createPendingApproval :: "approval_gate \<Rightarrow> string \<Rightarrow> agent_type \<Rightarrow> string \<Rightarrow> pending_approval" where
  "createPendingApproval gate projectId requestedBy requestedAt =
     \<lparr>pa_gate = gate, pa_project_id = projectId, pa_requested_by = requestedBy, pa_requested_at = requestedAt,
      pa_status = Pa_pending, pa_last_response_at = None\<rparr>"

fun decision_status :: "approval_decision \<Rightarrow> pending_status" where
  "decision_status Approve = Pa_approved"
| "decision_status Reject = Pa_rejected"
| "decision_status Revise = Pa_revise_requested"

definition applyApprovalResponse :: "pending_approval \<Rightarrow> approval_decision \<Rightarrow> string \<Rightarrow> pending_approval" where
  "applyApprovalResponse approval decision respondedAt =
     approval\<lparr>pa_status := decision_status decision, pa_last_response_at := Some respondedAt\<rparr>"

definition evaluateApprovalEscalation :: "pending_approval \<Rightarrow> string \<Rightarrow> int option \<Rightarrow> project_risk option" where
  "evaluateApprovalEscalation approval now thresholdHours =
     (if pa_status approval \<noteq> Pa_pending then None
      else if within_hours (pa_requested_at approval) now (nullish thresholdHours 24) then None
      else Some
        \<lparr>pk_risk_id = pa_project_id approval @ '':'' @ approval_gate_str (pa_gate approval) @ '':approval:'' @ now,
         pk_project_id = pa_project_id approval, pk_severity = Sev_high, pk_trigger = Stalled_approval,
         pk_summary = ''Approval gate '' @ approval_gate_str (pa_gate approval) @
           '' is still pending beyond the configured threshold.'',
         pk_recommended_action = ''Escalate to the owner or CEO for a decision.'', pk_created_at = now,
         pk_related_milestone_id = None, pk_related_blocker_id = None\<rparr>)"

definition openProjectBlocker ::
  "string \<Rightarrow> project_risk_severity \<Rightarrow> agent_type list \<Rightarrow> string \<Rightarrow> string \<Rightarrow> string \<Rightarrow> project_blocker" where
  "openProjectBlocker project_id severity affected_agents root_cause recommended_action opened_at =
     \<lparr>pb_blocker_id = project_id @ '':blocker:'' @ opened_at, pb_project_id = project_id,
      pb_severity = severity, pb_affected_agents = affected_agents, pb_root_cause = root_cause,
      pb_recommended_action = recommended_action, pb_opened_at = opened_at, pb_resolved_at = None,
      pb_resolution_notes = None\<rparr>"

definition resolveProjectBlocker :: "project_blocker \<Rightarrow> string \<Rightarrow> string \<Rightarrow> project_blocker" where
  "resolveProjectBlocker blocker resolvedAt resolutionNotes =
     blocker\<lparr>pb_resolved_at := Some resolvedAt, pb_resolution_notes := Some resolutionNotes\<rparr>"

text \<open>\<open>!blocker.resolved_at\<close>: an empty time counts as none.\<close>

definition blocker_open :: "project_blocker \<Rightarrow> bool" where
  "blocker_open blocker \<longleftrightarrow> nullish (pb_resolved_at blocker) [] = []"

definition evaluateBlockerEscalation :: "project_blocker \<Rightarrow> string \<Rightarrow> int option \<Rightarrow> project_risk option" where
  "evaluateBlockerEscalation blocker now thresholdHours =
     (if \<not> blocker_open blocker then None
      else if within_hours (pb_opened_at blocker) now (nullish thresholdHours 24) then None
      else Some
        \<lparr>pk_risk_id = pb_project_id blocker @ '':'' @ pb_blocker_id blocker @ '':stalled:'' @ now,
         pk_project_id = pb_project_id blocker, pk_severity = pb_severity blocker, pk_trigger = Stalled_blocker,
         pk_summary = ''Blocker '' @ pb_blocker_id blocker @ '' remains unresolved.'',
         pk_recommended_action = pb_recommended_action blocker, pk_created_at = now,
         pk_related_milestone_id = None, pk_related_blocker_id = Some (pb_blocker_id blocker)\<rparr>)"

section \<open>Coordination tasks\<close>

record coordination_input =
  ci_project_id :: string
  ci_task_type :: coordination_type
  ci_created_at :: string
  ci_run_after :: "string option"
  ci_related_milestone_id :: "string option"
  ci_related_handoff_id :: "string option"
  ci_related_approval_gate :: "approval_gate option"
  ci_notes :: "string option"

definition createCoordinationTask :: "coordination_input \<Rightarrow> coordination_task" where
  "createCoordinationTask input =
     \<lparr>ct_task_id = ci_project_id input @ '':'' @ coordination_type_str (ci_task_type input) @ '':'' @ ci_created_at input,
      ct_project_id = ci_project_id input, ct_task_type = ci_task_type input, ct_status = Cs_queued,
      ct_created_at = ci_created_at input, ct_updated_at = ci_created_at input,
      ct_run_after = nullish (ci_run_after input) (ci_created_at input),
      ct_related_milestone_id = ci_related_milestone_id input, ct_related_handoff_id = ci_related_handoff_id input,
      ct_related_approval_gate = ci_related_approval_gate input, ct_notes = ci_notes input\<rparr>"

definition updateCoordinationTask ::
  "coordination_task \<Rightarrow> coordination_status \<Rightarrow> string \<Rightarrow> string option \<Rightarrow> coordination_task" where
  "updateCoordinationTask task status updatedAt notes =
     task\<lparr>ct_status := status, ct_updated_at := updatedAt,
       ct_notes := (case notes of Some n \<Rightarrow> Some n | None \<Rightarrow> ct_notes task)\<rparr>"

definition recoverCoordinationTasks :: "coordination_task list \<Rightarrow> string \<Rightarrow> coordination_task list" where
  "recoverCoordinationTasks tasks now =
     map (\<lambda>task.
       if ct_status task = Cs_running
       then task\<lparr>ct_status := Cs_queued, ct_updated_at := now,
              ct_notes := Some (nullish (ct_notes task) ''Recovered after restart.'')\<rparr>
       else task) tasks"

definition createProjectHistoryEvent ::
  "string \<Rightarrow> project_event_type \<Rightarrow> project_actor \<Rightarrow> string \<Rightarrow> string \<Rightarrow> (string \<times> string) list option \<Rightarrow>
   project_event" where
  "createProjectHistoryEvent project_id event_type actor summary created_at metadata =
     \<lparr>pv_event_id = project_id @ '':'' @ project_event_str event_type @ '':'' @ created_at,
      pv_project_id = project_id, pv_event_type = event_type, pv_actor = actor, pv_summary = summary,
      pv_created_at = created_at, pv_metadata = metadata\<rparr>"

section \<open>Summaries and reports\<close>

record summary_input =
  si_project_id :: string
  si_lifecycle_state :: lifecycle_state
  si_current_milestone :: string
  si_snapshot :: timeline_health
  si_blockers :: "project_blocker list"
  si_approvals :: "pending_approval list"
  si_handoffs :: "handoff_record list option"

definition buildProjectStatusSummary :: "summary_input \<Rightarrow> status_summary" where
  "buildProjectStatusSummary input =
     (let pendingApprovals = filter (\<lambda>a. pa_status a = Pa_pending) (si_approvals input);
          openBlockers = filter blocker_open (si_blockers input);
          activeHandoffs = filter (\<lambda>h. hr_ack_status h = Ack_pending \<or> hr_ack_status h = Ack_breached)
            (nullish (si_handoffs input) []);
          nextStep =
            (case pendingApprovals of
               a # _ \<Rightarrow> ''Wait for owner approval on '' @ approval_gate_str (pa_gate a) @ ''.''
             | [] \<Rightarrow>
                 (case activeHandoffs of
                    h # _ \<Rightarrow> ''Chase '' @ handoff_type_str (hr_handoff_type h) @ '' acknowledgment from '' @
                      agent_type_str (hr_to_agent h) @ ''.''
                  | [] \<Rightarrow>
                      (case openBlockers of
                         b # _ \<Rightarrow> pb_recommended_action b
                       | [] \<Rightarrow>
                           (case hl_active_milestone (si_snapshot input) of
                              Some m \<Rightarrow> ''Advance milestone '' @ pm_milestone_id m @ ''.''
                            | None \<Rightarrow> ''Confirm the next lifecycle update from the delivery team.''))))
      in \<lparr>ss_project_id = si_project_id input, ss_lifecycle_state = si_lifecycle_state input,
          ss_current_milestone = si_current_milestone input,
          ss_milestone_status = hl_milestone_status (si_snapshot input),
          ss_completion_percentage = hl_completion_percentage (si_snapshot input),
          ss_blockers = openBlockers, ss_pending_approvals = pendingApprovals,
          ss_risks = hl_risks (si_snapshot input), ss_next_step = nextStep,
          ss_requires_action = (pendingApprovals \<noteq> [] \<or> openBlockers \<noteq> []),
          ss_active_handoffs = activeHandoffs\<rparr>)"

definition action_prefix :: "status_summary \<Rightarrow> string" where
  "action_prefix summary = (if ss_requires_action summary then ''[ACTION REQUIRED] '' else [])"

definition formatProjectStatusCommand :: "status_summary \<Rightarrow> string" where
  "formatProjectStatusCommand summary =
     (let blockerText = (if ss_blockers summary = [] then ''none''
            else js_join ''; '' (map pb_root_cause (ss_blockers summary)));
          riskText = (if ss_risks summary = [] then ''none''
            else js_join ''; '' (map pk_summary (ss_risks summary)));
          approvalText = (if ss_pending_approvals summary = [] then ''none''
            else js_join '', '' (map (approval_gate_str \<circ> pa_gate) (ss_pending_approvals summary)))
      in action_prefix summary @ ''phase='' @ lifecycle_str (ss_lifecycle_state summary) @
         ''; milestone='' @ ss_current_milestone summary @
         ''; status='' @ timeline_status_str (ss_milestone_status summary) @
         ''; blockers='' @ blockerText @ ''; risks='' @ riskText @ ''; approvals='' @ approvalText @
         ''; next='' @ ss_next_step summary)"

text \<open>The comparison of times is the host's collation.\<close>

definition formatProjectHistoryCommand ::
  "(string \<Rightarrow> string \<Rightarrow> bool) \<Rightarrow> string \<Rightarrow> project_event list \<Rightarrow> string list" where
  "formatProjectHistoryCommand lc projectId history =
     map (\<lambda>event. pv_created_at event @ '' ['' @ project_event_str (pv_event_type event) @ ''] '' @ pv_summary event)
       (js_sort (\<lambda>left right. lc (pv_created_at left) (pv_created_at right))
         (filter (\<lambda>event. pv_project_id event = projectId) history))"

definition generatePeriodicStatusReport :: "status_summary \<Rightarrow> string \<Rightarrow> periodic_report" where
  "generatePeriodicStatusReport summary generatedAt =
     \<lparr>pr_project_id = ss_project_id summary,
      pr_headline = action_prefix summary @ ''Project '' @ ss_project_id summary @ '' is '' @
        timeline_status_str (ss_milestone_status summary),
      pr_generated_at = generatedAt,
      pr_summary = ''Lifecycle '' @ lifecycle_str (ss_lifecycle_state summary) @ '' at milestone '' @
        ss_current_milestone summary @ '' with '' @ nat_str (ss_completion_percentage summary) @ ''% completion.'',
      pr_next_step = ss_next_step summary, pr_lifecycle_state = ss_lifecycle_state summary,
      pr_current_milestone = ss_current_milestone summary,
      pr_blockers = map pb_root_cause (ss_blockers summary),
      pr_pending_approvals = map pa_gate (ss_pending_approvals summary),
      pr_risks = map pk_summary (ss_risks summary)\<rparr>"

section \<open>Health of a timeline\<close>

text \<open>The two loops that collect risks; \<open>due < now\<close> is false when a date does not parse.\<close>

definition milestone_overdue :: "string \<Rightarrow> project_milestone \<Rightarrow> bool" where
  "milestone_overdue now m \<longleftrightarrow> pm_status m \<noteq> Ms_completed \<and>
     (case (date_parse (pm_due_at m), date_parse now) of (Some d, Some n) \<Rightarrow> d < n | _ \<Rightarrow> False)"

definition overdue_risk :: "string \<Rightarrow> string \<Rightarrow> project_milestone \<Rightarrow> project_risk" where
  "overdue_risk projectId now m =
     \<lparr>pk_risk_id = projectId @ '':'' @ pm_milestone_id m @ '':overdue'', pk_project_id = projectId,
      pk_severity = Sev_high, pk_trigger = Overdue_milestone,
      pk_summary = ''Milestone '' @ pm_milestone_id m @ '' is overdue'',
      pk_recommended_action = ''Review dependencies, owner status, and rebaseline the timeline.'',
      pk_created_at = now, pk_related_milestone_id = Some (pm_milestone_id m), pk_related_blocker_id = None\<rparr>"

definition blocked_risk :: "string \<Rightarrow> string \<Rightarrow> project_blocker \<Rightarrow> project_risk" where
  "blocked_risk projectId now b =
     \<lparr>pk_risk_id = projectId @ '':'' @ pb_blocker_id b @ '':blocked'', pk_project_id = projectId,
      pk_severity = pb_severity b, pk_trigger = Stalled_blocker,
      pk_summary = ''Open blocker '' @ pb_blocker_id b @ '' is impacting delivery'',
      pk_recommended_action = pb_recommended_action b, pk_created_at = now,
      pk_related_milestone_id = None, pk_related_blocker_id = Some (pb_blocker_id b)\<rparr>"

definition evaluateTimelineHealth ::
  "project_timeline \<Rightarrow> project_blocker list \<Rightarrow> pending_approval list \<Rightarrow> string \<Rightarrow> timeline_health" where
  "evaluateTimelineHealth timeline blockers approvals now =
     (let activeMilestone = find (\<lambda>m. pm_status m = Ms_in_progress \<or> pm_status m = Ms_awaiting_ack)
            (pt_milestones timeline);
          completedCount = length (filter (\<lambda>m. pm_status m = Ms_completed) (pt_milestones timeline));
          openBlockers = filter blocker_open blockers;
          risks =
            map (overdue_risk (pt_project_id timeline) now)
              (filter (milestone_overdue now) (pt_milestones timeline)) @
            map (blocked_risk (pt_project_id timeline) now)
              (filter (\<lambda>b. pb_severity b = Sev_high \<or> pb_severity b = Sev_critical) openBlockers)
      in \<lparr>hl_active_milestone = activeMilestone,
          hl_completion_percentage =
            (if pt_milestones timeline = [] then 0 else percent completedCount (length (pt_milestones timeline))),
          hl_open_blockers = length openBlockers,
          hl_pending_approvals = map pa_gate (filter (\<lambda>a. pa_status a = Pa_pending) approvals),
          hl_milestone_status =
            (if openBlockers \<noteq> [] then Tl_milestone Ms_blocked
             else if risks \<noteq> [] then Tl_milestone Ms_at_risk
             else case activeMilestone of None \<Rightarrow> Tl_on_track | Some m \<Rightarrow> Tl_milestone (pm_status m)),
          hl_risks = risks\<rparr>)"

section \<open>Updates of a timeline\<close>

record project_status_update =
  su_project_id :: string
  su_actor :: agent_type
  su_milestone_id :: string
  su_status :: milestone_status
  su_timestamp :: string
  su_notes :: "string option"

definition updateMilestone ::
  "project_milestone \<Rightarrow> milestone_status \<Rightarrow> string \<Rightarrow> string option \<Rightarrow> project_milestone" where
  "updateMilestone milestone' status timestamp notes =
     milestone'\<lparr>pm_status := status,
       pm_started_at := (if status = Ms_in_progress \<and> pm_started_at milestone' = None then Some timestamp
                         else pm_started_at milestone'),
       pm_completed_at := (if status = Ms_completed then Some timestamp else pm_completed_at milestone'),
       pm_notes := (case notes of Some n \<Rightarrow> Some n | None \<Rightarrow> pm_notes milestone')\<rparr>"

definition applyProjectStatusUpdate ::
  "project_timeline \<Rightarrow> project_status_update \<Rightarrow> (project_timeline \<times> string \<times> project_event) outcome" where
  "applyProjectStatusUpdate timeline update =
     (let matches = (\<lambda>m. pm_milestone_id m = su_milestone_id update);
          milestones = map (\<lambda>m. if matches m
            then updateMilestone m (su_status update) (su_timestamp update) (su_notes update) else m)
            (pt_milestones timeline)
      in if \<not> list_ex matches (pt_milestones timeline) then
           Inl (''Milestone not found: '' @ su_milestone_id update)
         else Inr
           (timeline\<lparr>pt_updated_at := su_timestamp update, pt_milestones := milestones\<rparr>,
            su_milestone_id update,
            createProjectHistoryEvent (su_project_id update) Pe_status_update (Act_agent (su_actor update))
              (agent_type_str (su_actor update) @ '' set '' @ su_milestone_id update @ '' to '' @
               milestone_status_str (su_status update) @ ''.'')
              (su_timestamp update)
              (Some [(''milestone_id'', su_milestone_id update),
                     (''status'', milestone_status_str (su_status update))])))"

definition handoff_milestone :: "handoff_record \<Rightarrow> string" where
  "handoff_milestone handoff =
     (if hr_handoff_type handoff = Lead_handoff_type then ''lead_handoff_sent'' else ''discovery_handoff_sent'')"

definition recordProjectHandoff ::
  "project_timeline \<Rightarrow> handoff_record \<Rightarrow> (project_timeline \<times> project_event) outcome" where
  "recordProjectHandoff timeline handoff =
     outcome_bind
       (applyProjectStatusUpdate timeline
          \<lparr>su_project_id = hr_project_id handoff, su_actor = Project_manager_agent,
           su_milestone_id = handoff_milestone handoff, su_status = Ms_awaiting_ack,
           su_timestamp = hr_sent_at handoff,
           su_notes = Some (handoff_type_str (hr_handoff_type handoff) @ '' sent to '' @
             agent_type_str (hr_to_agent handoff) @ ''.'')\<rparr>)
       (\<lambda>(updated, _).
          Inr (updated,
            createProjectHistoryEvent (hr_project_id handoff) Pe_handoff_sent (Act_agent (hr_from_agent handoff))
              (handoff_type_str (hr_handoff_type handoff) @ '' sent from '' @
               agent_type_str (hr_from_agent handoff) @ '' to '' @ agent_type_str (hr_to_agent handoff) @ ''.'')
              (hr_sent_at handoff)
              (Some [(''handoff_id'', hr_handoff_id handoff),
                     (''to_agent'', agent_type_str (hr_to_agent handoff))])))"

definition acknowledgeProjectHandoff ::
  "project_timeline \<Rightarrow> handoff_record \<Rightarrow> string \<Rightarrow>
   (handoff_record \<times> project_timeline \<times> project_event) outcome" where
  "acknowledgeProjectHandoff timeline handoff ackedAt =
     outcome_bind
       (applyProjectStatusUpdate timeline
          \<lparr>su_project_id = hr_project_id handoff, su_actor = Project_manager_agent,
           su_milestone_id = handoff_milestone handoff, su_status = Ms_completed, su_timestamp = ackedAt,
           su_notes = Some (handoff_type_str (hr_handoff_type handoff) @ '' acknowledged by '' @
             agent_type_str (hr_to_agent handoff) @ ''.'')\<rparr>)
       (\<lambda>(updated, _).
          Inr (acknowledgeHandoffRecord handoff ackedAt, updated,
            createProjectHistoryEvent (hr_project_id handoff) Pe_handoff_acknowledged
              (Act_agent (hr_to_agent handoff))
              (handoff_type_str (hr_handoff_type handoff) @ '' acknowledged by '' @
               agent_type_str (hr_to_agent handoff) @ ''.'')
              ackedAt (Some [(''handoff_id'', hr_handoff_id handoff)])))"

definition approval_milestone :: "approval_gate \<Rightarrow> string option" where
  "approval_milestone gate =
     (if gate = Spec_final then Some ''spec_approval_pending''
      else if gate = Delivery_final then Some ''delivery_approval_pending'' else None)"

definition applyApprovalResponseToTimeline ::
  "project_timeline \<Rightarrow> pending_approval \<Rightarrow> approval_decision \<Rightarrow> string \<Rightarrow>
   (pending_approval \<times> project_timeline \<times> project_event) outcome" where
  "applyApprovalResponseToTimeline timeline approval decision respondedAt =
     outcome_bind
       (case approval_milestone (pa_gate approval) of
          None \<Rightarrow> Inr timeline
        | Some milestoneId \<Rightarrow>
            outcome_bind
              (applyProjectStatusUpdate timeline
                 \<lparr>su_project_id = pa_project_id approval, su_actor = Project_manager_agent,
                  su_milestone_id = milestoneId,
                  su_status = (if decision = Approve then Ms_completed else Ms_at_risk),
                  su_timestamp = respondedAt,
                  su_notes = Some (''Approval '' @ approval_gate_str (pa_gate approval) @ '' responded with '' @
                    approval_decision_str decision @ ''.'')\<rparr>)
              (\<lambda>(updated, _). Inr updated))
       (\<lambda>timelineResult.
          Inr (applyApprovalResponse approval decision respondedAt, timelineResult,
            createProjectHistoryEvent (pa_project_id approval) Pe_approval_responded Act_owner
              (''Approval '' @ approval_gate_str (pa_gate approval) @ '' received decision '' @
               approval_decision_str decision @ ''.'')
              respondedAt
              (Some [(''approval_gate'', approval_gate_str (pa_gate approval)),
                     (''decision'', approval_decision_str decision)])))"

section \<open>Properties of the component\<close>

section \<open>Reachable timelines\<close>

inductive timeline_reachable :: "project_timeline \<Rightarrow> bool" where
  "createBaselineTimeline p c opts = Inr t \<Longrightarrow> timeline_reachable t"
| "timeline_reachable t \<Longrightarrow> applyProjectStatusUpdate t u = Inr (t', i, e) \<Longrightarrow> timeline_reachable t'"
| "timeline_reachable t \<Longrightarrow> recordProjectHandoff t h = Inr (t', e) \<Longrightarrow> timeline_reachable t'"
| "timeline_reachable t \<Longrightarrow> acknowledgeProjectHandoff t h tm = Inr (h', t', e) \<Longrightarrow> timeline_reachable t'"
| "timeline_reachable t \<Longrightarrow> applyApprovalResponseToTimeline t a d tm = Inr (a', t', e) \<Longrightarrow> timeline_reachable t'"

definition baseline_ids :: "string list" where
  "baseline_ids = [''project_created'', ''lead_handoff_sent'', ''discovery_started'', ''spec_approval_pending'',
     ''discovery_handoff_sent'', ''implementation_started'', ''qa_started'', ''delivery_approval_pending'', ''delivered'']"

definition milestone_times_ok :: "project_milestone \<Rightarrow> bool" where
  "milestone_times_ok m \<longleftrightarrow> (pm_status m = Ms_completed \<longrightarrow> pm_completed_at m \<noteq> None) \<and>
     (pm_status m = Ms_in_progress \<longrightarrow> pm_started_at m \<noteq> None)"

definition timeline_ok :: "project_timeline \<Rightarrow> bool" where
  "timeline_ok t \<longleftrightarrow> map pm_milestone_id (pt_milestones t) = baseline_ids \<and>
     map pm_depends_on (pt_milestones t) = [] # map (\<lambda>i. [i]) (butlast baseline_ids) \<and>
     list_all milestone_times_ok (pt_milestones t)"

lemma updateMilestone_simps [simp]:
  "pm_milestone_id (updateMilestone m s tm n) = pm_milestone_id m"
  "pm_depends_on (updateMilestone m s tm n) = pm_depends_on m"
  "pm_status (updateMilestone m s tm n) = s" "milestone_times_ok (updateMilestone m s tm n)"
  by (auto simp: updateMilestone_def milestone_times_ok_def)

lemma update_timeline_ok:
  assumes "applyProjectStatusUpdate t u = Inr (t', i, e)" "timeline_ok t"
  shows "timeline_ok t'"
proof -
  let ?f = "\<lambda>m. if pm_milestone_id m = su_milestone_id u
    then updateMilestone m (su_status u) (su_timestamp u) (su_notes u) else m"
  have m: "pt_milestones t' = map ?f (pt_milestones t)"
    using assms(1) by (auto simp: applyProjectStatusUpdate_def Let_def split: if_splits)
  have "pm_milestone_id \<circ> ?f = pm_milestone_id" "pm_depends_on \<circ> ?f = pm_depends_on" by auto
  then have "map pm_milestone_id (pt_milestones t') = map pm_milestone_id (pt_milestones t)"
      "map pm_depends_on (pt_milestones t') = map pm_depends_on (pt_milestones t)"
    unfolding m by (simp_all only: map_map)
  moreover have "list_all milestone_times_ok (pt_milestones t')"
    using assms(2) unfolding m by (auto simp: timeline_ok_def list_all_iff)
  ultimately show ?thesis using assms(2) by (simp add: timeline_ok_def)
qed

lemma baseline_ok: "createBaselineTimeline p c opts = Inr t \<Longrightarrow> timeline_ok t"
  by (auto simp: createBaselineTimeline_def outcome_bind_def timeline_ok_def baseline_milestones_def
      milestone_def baseline_ids_def milestone_times_ok_def split: sum.splits)

lemma timeline_reachable_ok: "timeline_reachable t \<Longrightarrow> timeline_ok t"
proof (induction rule: timeline_reachable.induct)
  case (1 p c opts t)
  then show ?case by (rule baseline_ok)
next
  case (2 t u t' i e)
  then show ?case by (blast intro: update_timeline_ok)
next
  case (3 t h t' e)
  then show ?case by (auto simp: recordProjectHandoff_def outcome_bind_def split: sum.splits intro: update_timeline_ok)
next
  case (4 t h tm h' t' e)
  then show ?case
    by (auto simp: acknowledgeProjectHandoff_def outcome_bind_def split: sum.splits intro: update_timeline_ok)
next
  case (5 t a d tm a' t' e)
  then show ?case
    by (auto simp: applyApprovalResponseToTimeline_def outcome_bind_def split: sum.splits option.splits prod.splits
        intro: update_timeline_ok)
qed

text \<open>An update of a milestone of the baseline succeeds and sets the status of that milestone only.\<close>

lemma update_succeeds:
  assumes "timeline_ok t" "i < length baseline_ids" "su_milestone_id u = baseline_ids ! i"
  shows "\<exists>t' e. applyProjectStatusUpdate t u = Inr (t', su_milestone_id u, e) \<and>
    map pm_status (pt_milestones t') = (map pm_status (pt_milestones t))[i := su_status u]"
proof -
  let ?ms = "pt_milestones t"
  let ?f = "\<lambda>m. if pm_milestone_id m = su_milestone_id u
    then updateMilestone m (su_status u) (su_timestamp u) (su_notes u) else m"
  have ids: "map pm_milestone_id ?ms = baseline_ids" using assms(1) by (simp add: timeline_ok_def)
  then have len: "length ?ms = length baseline_ids" by (metis length_map)
  have "distinct baseline_ids" by (simp add: baseline_ids_def)
  then have which: "pm_milestone_id (?ms ! j) = baseline_ids ! i \<longleftrightarrow> j = i" if "j < length ?ms" for j
    using ids len that assms(2) by (metis nth_eq_iff_index_eq nth_map)
  have "map pm_status (map ?f ?ms) = (map pm_status ?ms)[i := su_status u]"
    by (rule nth_equalityI) (auto simp: which assms(3) nth_list_update)
  moreover have "list_ex (\<lambda>m. pm_milestone_id m = su_milestone_id u) ?ms"
    using which [of i] len assms(2,3) by (auto simp: list_ex_length)
  ultimately show ?thesis by (simp add: applyProjectStatusUpdate_def Let_def)
qed

lemma handoff_milestone_nth:
  "handoff_milestone h = baseline_ids ! (if hr_handoff_type h = Lead_handoff_type then 1 else 4)"
  by (simp add: handoff_milestone_def baseline_ids_def)

lemma handoff_index: "(if hr_handoff_type h = Lead_handoff_type then 1 else 4) < length baseline_ids"
  by (simp add: baseline_ids_def)

lemma handoff_succeeds:
  assumes "timeline_ok t"
  shows "\<exists>t' e. recordProjectHandoff t h = Inr (t', e) \<and> map pm_status (pt_milestones t') =
    (map pm_status (pt_milestones t))[if hr_handoff_type h = Lead_handoff_type then 1 else 4 := Ms_awaiting_ack]"
  using update_succeeds [OF assms handoff_index [of h], of "\<lparr>su_project_id = hr_project_id h, su_actor = Project_manager_agent,
      su_milestone_id = handoff_milestone h, su_status = Ms_awaiting_ack, su_timestamp = hr_sent_at h,
      su_notes = Some (handoff_type_str (hr_handoff_type h) @ '' sent to '' @ agent_type_str (hr_to_agent h) @ ''.'')\<rparr>"]
  by (auto simp: recordProjectHandoff_def handoff_milestone_nth)

lemma acknowledge_succeeds:
  assumes "timeline_ok t"
  shows "\<exists>h' t' e. acknowledgeProjectHandoff t h tm = Inr (h', t', e) \<and> map pm_status (pt_milestones t') =
    (map pm_status (pt_milestones t))[if hr_handoff_type h = Lead_handoff_type then 1 else 4 := Ms_completed]"
  using update_succeeds [OF assms handoff_index [of h], of "\<lparr>su_project_id = hr_project_id h, su_actor = Project_manager_agent,
      su_milestone_id = handoff_milestone h, su_status = Ms_completed, su_timestamp = tm,
      su_notes = Some (handoff_type_str (hr_handoff_type h) @ '' acknowledged by '' @ agent_type_str (hr_to_agent h) @ ''.'')\<rparr>"]
  by (auto simp: acknowledgeProjectHandoff_def handoff_milestone_nth)

lemma approval_succeeds:
  assumes "timeline_ok t"
  shows "\<exists>a' t' e. applyApprovalResponseToTimeline t a d tm = Inr (a', t', e) \<and> map pm_status (pt_milestones t') =
    (let ss = map pm_status (pt_milestones t); new = (if d = Approve then Ms_completed else Ms_at_risk)
     in if pa_gate a = Spec_final then ss[3 := new] else if pa_gate a = Delivery_final then ss[7 := new] else ss)"
proof -
  let ?u = "\<lambda>i. \<lparr>su_project_id = pa_project_id a, su_actor = Project_manager_agent,
      su_milestone_id = i, su_status = if d = Approve then Ms_completed else Ms_at_risk, su_timestamp = tm,
      su_notes = Some (''Approval '' @ approval_gate_str (pa_gate a) @ '' responded with '' @
        approval_decision_str d @ ''.'')\<rparr>"
  have "3 < length baseline_ids" "7 < length baseline_ids" "baseline_ids ! 3 = ''spec_approval_pending''"
      "baseline_ids ! 7 = ''delivery_approval_pending''"
    by (simp_all add: baseline_ids_def)
  then show ?thesis
    using update_succeeds [OF assms, of 3 "?u (baseline_ids ! 3)"] update_succeeds [OF assms, of 7 "?u (baseline_ids ! 7)"]
    by (cases "pa_gate a") (auto simp: applyApprovalResponseToTimeline_def approval_milestone_def Let_def)
qed

definition no_options :: baseline_options where
  "no_options = \<lparr>bo_delivery_target_at = None, bo_discovery_days = None, bo_implementation_days = None,
     bo_qa_days = None\<rparr>"

lemma demo_baseline: "\<exists>t. createBaselineTimeline p (iso_string 0) no_options = Inr t"
  by (simp add: createBaselineTimeline_def no_options_def addDays_def date_parse_iso_string to_iso_string_def)

text \<open>
  A fresh timeline already shows both handoffs as sent: as soon as the first is acknowledged,
  the active milestone is the discovery handoff, before discovery has begun.
\<close>

lemma discovery_handoff_active_early:
  assumes "createBaselineTimeline p c opts = Inr t" "hr_handoff_type h = Lead_handoff_type"
    "acknowledgeProjectHandoff t h tm = Inr (h', t', e)"
  shows "map_option pm_milestone_id (hl_active_milestone (evaluateTimelineHealth t' bs as now)) =
      Some ''discovery_handoff_sent'' \<and>
    map pm_status (filter (\<lambda>m. pm_milestone_id m = ''discovery_started'') (pt_milestones t')) = [Ms_pending]"
  using assms
  by (auto simp: createBaselineTimeline_def outcome_bind_def baseline_milestones_def milestone_def
      acknowledgeProjectHandoff_def applyProjectStatusUpdate_def handoff_milestone_def evaluateTimelineHealth_def
      Let_def updateMilestone_def split: sum.splits if_splits)

text \<open>
  C30: However a timeline is updated, it keeps the nine milestones of its baseline in their
  order, each depending on the one before it; completed milestones carry a completion time
  and started ones a start. Recording a handoff, acknowledging it and answering an approval
  never fail for a missing milestone: a handoff of a lead awaits its acknowledgment at the
  second milestone and one of the discovery at the fifth, an acknowledgment completes that
  milestone, an answer for the spec completes or puts at risk the fourth and one for the
  delivery the eighth, and the status of every other milestone stays.
\<close>

theorem timeline_invariant:
  assumes "timeline_reachable t"
  shows "map pm_milestone_id (pt_milestones t) = baseline_ids \<and>
    map pm_depends_on (pt_milestones t) = [] # map (\<lambda>i. [i]) (butlast baseline_ids) \<and>
    list_all milestone_times_ok (pt_milestones t) \<and>
    (let ss = map pm_status (pt_milestones t);
         i = (if hr_handoff_type h = Lead_handoff_type then 1 else 4);
         new = (if d = Approve then Ms_completed else Ms_at_risk)
     in (\<exists>t' e. recordProjectHandoff t h = Inr (t', e) \<and>
           map pm_status (pt_milestones t') = ss[i := Ms_awaiting_ack]) \<and>
        (\<exists>h' t' e. acknowledgeProjectHandoff t h tm = Inr (h', t', e) \<and>
           map pm_status (pt_milestones t') = ss[i := Ms_completed]) \<and>
        (\<exists>a' t' e. applyApprovalResponseToTimeline t a d tm = Inr (a', t', e) \<and>
           map pm_status (pt_milestones t') =
             (if pa_gate a = Spec_final then ss[3 := new] else if pa_gate a = Delivery_final then ss[7 := new] else ss)))"
proof -
  note ok = timeline_reachable_ok [OF assms]
  show ?thesis
    unfolding Let_def
    using ok handoff_succeeds [OF ok] acknowledge_succeeds [OF ok] approval_succeeds [OF ok, unfolded Let_def]
    by (intro conjI) (simp_all add: timeline_ok_def)
qed

theorem timeline_invariant_witness:
  "\<exists>t. createBaselineTimeline ''p'' (iso_string 0) no_options = Inr t \<and>
     map pm_milestone_id (pt_milestones t) = baseline_ids"
proof -
  obtain t where t: "createBaselineTimeline ''p'' (iso_string 0) no_options = Inr t"
    using demo_baseline by blast
  then have "timeline_reachable t" by (rule timeline_reachable.intros)
  from timeline_invariant [OF this] t show ?thesis by blast
qed

text \<open>
  The health of a timeline reads blocked exactly with an open blocker; without one it is at
  risk exactly when a milestone is overdue; every risk belongs to an overdue milestone or a
  severe open blocker. The completion percentage, computed in double precision, is within
  half a point and a rounding of the true one, and never above a hundred.
\<close>

theorem timeline_health_exact:
  "let h = evaluateTimelineHealth t bs as now; n = length (pt_milestones t);
       k = length (filter (\<lambda>m. pm_status m = Ms_completed) (pt_milestones t)) in
   (hl_milestone_status h = Tl_milestone Ms_blocked \<and> 0 < hl_open_blockers h \<or>
    hl_open_blockers h = 0 \<and> list_ex (milestone_overdue now) (pt_milestones t) \<and>
      hl_milestone_status h = Tl_milestone Ms_at_risk \<or>
    hl_open_blockers h = 0 \<and> hl_risks h = [] \<and>
      hl_milestone_status h = (case hl_active_milestone h of None \<Rightarrow> Tl_on_track | Some m \<Rightarrow> Tl_milestone (pm_status m))) \<and>
   map pk_related_milestone_id (hl_risks h) @ map pk_related_blocker_id (hl_risks h) =
     map (Some \<circ> pm_milestone_id) (filter (milestone_overdue now) (pt_milestones t)) @
     replicate (length (filter (\<lambda>b. blocker_open b \<and> pb_severity b \<in> {Sev_high, Sev_critical}) bs)) None @
     replicate (length (filter (milestone_overdue now) (pt_milestones t))) None @
     map (Some \<circ> pb_blocker_id) (filter (\<lambda>b. blocker_open b \<and> pb_severity b \<in> {Sev_high, Sev_critical}) bs) \<and>
   hl_completion_percentage h \<le> 100 \<and>
   \<bar>real (hl_completion_percentage h) - 100 * real k / real n\<bar> \<le> 1 / 2 + 1 / 2 ^ 45"
proof -
  let ?ms = "pt_milestones t"
  let ?k = "length (filter (\<lambda>m. pm_status m = Ms_completed) ?ms)"
  have k: "?k \<le> length ?ms" by simp
  have sev: "filter (\<lambda>b. (pb_severity b = Sev_high \<or> pb_severity b = Sev_critical) \<and> blocker_open b) bs =
      filter (\<lambda>b. blocker_open b \<and> pb_severity b \<in> {Sev_high, Sev_critical}) bs"
    by (rule filter_cong) auto
  have "hl_completion_percentage (evaluateTimelineHealth t bs as now) = (if ?ms = [] then 0 else percent ?k (length ?ms))"
    by (simp add: evaluateTimelineHealth_def Let_def)
  moreover have "percent ?k (length ?ms) \<le> 100" by (rule percent_le [OF k])
  moreover have "?ms \<noteq> [] \<Longrightarrow> \<bar>real (percent ?k (length ?ms)) - 100 * real ?k / real (length ?ms)\<bar> \<le> 1 / 2 + 1 / 2 ^ 45"
    using percent_error [OF k] by simp
  ultimately have pc: "hl_completion_percentage (evaluateTimelineHealth t bs as now) \<le> 100"
    "\<bar>real (hl_completion_percentage (evaluateTimelineHealth t bs as now)) - 100 * real ?k / real (length ?ms)\<bar> \<le>
       1 / 2 + 1 / 2 ^ 45"
    by (cases "?ms = []"; simp)+
  have st: "hl_milestone_status (evaluateTimelineHealth t bs as now) = Tl_milestone Ms_blocked \<and>
        0 < hl_open_blockers (evaluateTimelineHealth t bs as now) \<or>
      hl_open_blockers (evaluateTimelineHealth t bs as now) = 0 \<and> list_ex (milestone_overdue now) ?ms \<and>
        hl_milestone_status (evaluateTimelineHealth t bs as now) = Tl_milestone Ms_at_risk \<or>
      hl_open_blockers (evaluateTimelineHealth t bs as now) = 0 \<and> hl_risks (evaluateTimelineHealth t bs as now) = [] \<and>
        hl_milestone_status (evaluateTimelineHealth t bs as now) =
          (case hl_active_milestone (evaluateTimelineHealth t bs as now) of None \<Rightarrow> Tl_on_track
           | Some m \<Rightarrow> Tl_milestone (pm_status m))"
    by (auto simp: evaluateTimelineHealth_def Let_def list_ex_iff filter_empty_conv split: if_splits option.splits)
  show ?thesis
    unfolding Let_def
    by (intro conjI st pc) (simp add: evaluateTimelineHealth_def Let_def overdue_risk_def blocked_risk_def comp_def
        map_replicate_const sev conj_commute)
qed

text \<open>
  A handoff raises an alert exactly when it is still pending and not within its limit; the
  record it hands back then never raises another, at any later time.
\<close>

theorem handoff_alert_once:
  "let a = evaluateHandoffAlert r now in
   (ha_risk a = None) = (\<not> (hr_ack_status r = Ack_pending \<and> \<not> within_hours (hr_sent_at r) now (hr_ack_sla_hours r))) \<and>
   (ha_risk a = None) = (ha_blocker a = None) \<and> (ha_risk a = None) = (ha_reminder_message a = None) \<and>
   (if ha_risk a = None then ha_handoff a = r
    else hr_ack_status (ha_handoff a) = Ack_breached \<and> ha_risk (evaluateHandoffAlert (ha_handoff a) later) = None)"
  by (simp add: evaluateHandoffAlert_def Let_def)

end
