(* ===== verification/Marketing_Flow.thy ===== *)
theory Marketing_Flow
  imports Message_Bus JS_Double
begin

text \<open>
  The marketing agent, \<^verbatim>\<open>src/agents/marketing/\<close>: campaign plans, insights, inbound leads,
  revisions and their validators (\<^verbatim>\<open>models.ts\<close>), assets, the handoff of a lead to sales with its
  retries, tasks, and the store with snapshot and restore (\<^verbatim>\<open>flow.ts\<close>). The default clock is
  the caller's: every time is given. Rates are double-precision quotients of counts.
\<close>

section \<open>Data\<close>

datatype marketing_channel = Website | Email | Social

fun marketing_channel_str :: "marketing_channel \<Rightarrow> string" where
  "marketing_channel_str Website = ''website''"
| "marketing_channel_str Email = ''email''"
| "marketing_channel_str Social = ''social''"

datatype campaign_status = Cp_draft | Cp_active | Cp_at_risk | Cp_archived

fun campaign_status_str :: "campaign_status \<Rightarrow> string" where
  "campaign_status_str Cp_draft = ''draft''"
| "campaign_status_str Cp_active = ''active''"
| "campaign_status_str Cp_at_risk = ''at_risk''"
| "campaign_status_str Cp_archived = ''archived''"

record campaign_timeline =
  cl_start_at :: string
  cl_end_at :: string

text \<open>The channels pass through a list of texts, trimmed and without duplicates, as the plan does.\<close>

record campaign_input =
  cn_objective :: string
  cn_target_segments :: "string list"
  cn_primary_channels :: "string list"
  cn_timeline :: campaign_timeline
  cn_key_message :: string
  cn_call_to_action :: string
  cn_success_metrics :: "string list"
  cn_dependencies :: "string list"

record campaign_plan =
  cp_campaign_id :: string
  cp_objective :: string
  cp_target_segments :: "string list"
  cp_primary_channels :: "string list"
  cp_timeline :: campaign_timeline
  cp_key_message :: string
  cp_call_to_action :: string
  cp_success_metrics :: "string list"
  cp_dependencies :: "string list"
  cp_version :: nat
  cp_status :: campaign_status
  cp_created_at :: string
  cp_updated_at :: string

record market_insight =
  mi_insight_id :: string
  mi_campaign_id :: string
  mi_segment_id :: string
  mi_pain_points :: "string list"
  mi_buying_triggers :: "string list"
  mi_competitor_pressure :: "string list"
  mi_objections :: "string list"
  mi_positioning_statement :: string
  mi_recommended_messaging :: "string list"
  mi_recommended_offer_angles :: "string list"
  mi_generated_at :: string
  mi_source_feedback_ids :: "string list"

datatype asset_type =
    Article | Landing_copy | Email_sequence | Social_post | One_pager | Case_study_summary | Objection_copy

fun asset_type_str :: "asset_type \<Rightarrow> string" where
  "asset_type_str Article = ''article''"
| "asset_type_str Landing_copy = ''landing_copy''"
| "asset_type_str Email_sequence = ''email_sequence''"
| "asset_type_str Social_post = ''social_post''"
| "asset_type_str One_pager = ''one_pager''"
| "asset_type_str Case_study_summary = ''case_study_summary''"
| "asset_type_str Objection_copy = ''objection_copy''"

datatype asset_status = As_draft | As_ready | As_revised | As_requires_validation

fun asset_status_str :: "asset_status \<Rightarrow> string" where
  "asset_status_str As_draft = ''draft''"
| "asset_status_str As_ready = ''ready''"
| "asset_status_str As_revised = ''revised''"
| "asset_status_str As_requires_validation = ''requires_validation''"

datatype claim_status = Claim_not_applicable | Claim_requires_validation | Claim_validated

fun claim_status_str :: "claim_status \<Rightarrow> string" where
  "claim_status_str Claim_not_applicable = ''not_applicable''"
| "claim_status_str Claim_requires_validation = ''requires_validation''"
| "claim_status_str Claim_validated = ''validated''"

record marketing_asset =
  ma_asset_id :: string
  ma_campaign_id :: string
  ma_asset_type :: asset_type
  ma_segment_id :: string
  ma_content :: string
  ma_cta :: string
  ma_version :: nat
  ma_status :: asset_status
  ma_technical_claim_status :: claim_status
  ma_created_at :: string
  ma_updated_at :: string

record asset_package =
  ak_campaign_id :: string
  ak_segment_id :: string
  ak_asset_ids :: "string list"
  ak_assets :: "marketing_asset list"
  ak_generated_at :: string

datatype lead_ack_status = La_pending_sales_ack | La_acknowledged | La_retrying | La_failed

fun lead_ack_str :: "lead_ack_status \<Rightarrow> string" where
  "lead_ack_str La_pending_sales_ack = ''pending_sales_ack''"
| "lead_ack_str La_acknowledged = ''acknowledged''"
| "lead_ack_str La_retrying = ''retrying''"
| "lead_ack_str La_failed = ''failed''"

record lead_packet =
  lp_lead_id :: string
  lp_company_name :: string
  lp_contact_name :: "string option"
  lp_contact_email :: "string option"
  lp_contact_channel :: string
  lp_source_channel :: string
  lp_campaign_id :: string
  lp_segment_id :: string
  lp_project_id :: "string option"
  lp_initial_need_summary :: "string option"
  lp_captured_at :: string
  lp_ack_status :: lead_ack_status
  lp_tags :: "string list"

datatype conversion_signal = Positive | Neutral | Negative

fun conversion_signal_str :: "conversion_signal \<Rightarrow> string" where
  "conversion_signal_str Positive = ''positive''"
| "conversion_signal_str Neutral = ''neutral''"
| "conversion_signal_str Negative = ''negative''"

record sales_feedback =
  sf_feedback_id :: string
  sf_campaign_id :: string
  sf_segment_id :: string
  sf_asset_id :: "string option"
  sf_project_id :: "string option"
  sf_objections :: "string list"
  sf_lost_reasons :: "string list"
  sf_response_patterns :: "string list"
  sf_conversion_signal :: conversion_signal
  sf_summary :: string
  sf_received_at :: string

record messaging_revision =
  mr_campaign_id :: string
  mr_segment_id :: string
  mr_revision_reason :: string
  mr_previous_message :: string
  mr_recommended_message :: string
  mr_at_risk :: bool
  mr_lifecycle_hint :: lifecycle_state
  mr_created_at :: string

datatype marketing_task_status = Mt_queued | Mt_running | Mt_waiting_feedback | Mt_completed | Mt_failed

datatype marketing_task_kind = Mk_campaign_planning | Mk_messaging_revision | Mk_lead_handoff_retry

record marketing_task =
  mt_task_id :: string
  mt_campaign_id :: string
  mt_segment_id :: "string option"
  mt_kind :: marketing_task_kind
  mt_status :: marketing_task_status
  mt_created_at :: string
  mt_updated_at :: string
  mt_context :: "(string \<times> string) list"

section \<open>Plans\<close>

text \<open>\<open>[...new Set(values.map(value => value.trim()).filter(Boolean))]\<close>.\<close>

definition dedupeStrings :: "string list \<Rightarrow> string list" where
  "dedupeStrings values' = js_set (filter (\<lambda>v. v \<noteq> []) (map js_trim values'))"

definition createCampaignPlan :: "string \<Rightarrow> campaign_input \<Rightarrow> string \<Rightarrow> campaign_plan" where
  "createCampaignPlan campaignId input now =
     \<lparr>cp_campaign_id = campaignId, cp_objective = js_trim (cn_objective input),
      cp_target_segments = dedupeStrings (cn_target_segments input),
      cp_primary_channels = dedupeStrings (cn_primary_channels input), cp_timeline = cn_timeline input,
      cp_key_message = js_trim (cn_key_message input), cp_call_to_action = js_trim (cn_call_to_action input),
      cp_success_metrics = dedupeStrings (cn_success_metrics input),
      cp_dependencies = dedupeStrings (cn_dependencies input), cp_version = 1, cp_status = Cp_draft,
      cp_created_at = now, cp_updated_at = now\<rparr>"

record campaign_updates =
  cu_objective :: "string option"
  cu_target_segments :: "string list option"
  cu_primary_channels :: "string list option"
  cu_start_at :: "string option"
  cu_end_at :: "string option"
  cu_key_message :: "string option"
  cu_call_to_action :: "string option"
  cu_success_metrics :: "string list option"
  cu_dependencies :: "string list option"
  cu_status :: "campaign_status option"

definition reviseCampaignPlan :: "campaign_plan \<Rightarrow> campaign_updates \<Rightarrow> string \<Rightarrow> campaign_plan" where
  "reviseCampaignPlan current updates now =
     current
      \<lparr>cp_objective := nullish (map_option js_trim (cu_objective updates)) (cp_objective current),
       cp_target_segments := nullish (map_option dedupeStrings (cu_target_segments updates)) (cp_target_segments current),
       cp_primary_channels := nullish (map_option dedupeStrings (cu_primary_channels updates)) (cp_primary_channels current),
       cp_timeline := \<lparr>cl_start_at = nullish (cu_start_at updates) (cl_start_at (cp_timeline current)),
         cl_end_at = nullish (cu_end_at updates) (cl_end_at (cp_timeline current))\<rparr>,
       cp_key_message := nullish (map_option js_trim (cu_key_message updates)) (cp_key_message current),
       cp_call_to_action := nullish (map_option js_trim (cu_call_to_action updates)) (cp_call_to_action current),
       cp_success_metrics := nullish (map_option dedupeStrings (cu_success_metrics updates)) (cp_success_metrics current),
       cp_dependencies := nullish (map_option dedupeStrings (cu_dependencies updates)) (cp_dependencies current),
       cp_version := cp_version current + 1,
       cp_status := nullish (cu_status updates) (cp_status current),
       cp_updated_at := now\<rparr>"

section \<open>Leads\<close>

definition normalizeInboundLeadPacket :: "lead_packet \<Rightarrow> lead_packet" where
  "normalizeInboundLeadPacket packet =
     packet
      \<lparr>lp_company_name := js_trim (lp_company_name packet),
       lp_contact_name := map_option js_trim (lp_contact_name packet),
       lp_contact_email := map_option js_trim (lp_contact_email packet),
       lp_contact_channel := js_trim (lp_contact_channel packet),
       lp_source_channel := js_trim (lp_source_channel packet),
       lp_campaign_id := js_trim (lp_campaign_id packet),
       lp_segment_id := js_trim (lp_segment_id packet),
       lp_initial_need_summary := map_option js_trim (lp_initial_need_summary packet),
       lp_tags := dedupeStrings (lp_tags packet)\<rparr>"

definition slugify :: "string \<Rightarrow> string" where
  "slugify value' = strip_hyphens (hyphenate False (js_lower (js_trim value')))"

definition resolveLeadHandoffProjectId :: "lead_packet \<Rightarrow> string option \<Rightarrow> string" where
  "resolveLeadHandoffProjectId packet routingProjectId =
     (if nullish (lp_project_id packet) [] \<noteq> [] then nullish (lp_project_id packet) []
      else if js_trim (nullish routingProjectId []) \<noteq> [] then js_trim (nullish routingProjectId [])
      else ''routing-'' @ slugify (lp_campaign_id packet))"

definition js_opt :: "string option \<Rightarrow> jsval" where
  "js_opt v = (case v of None \<Rightarrow> JUndefined | Some s \<Rightarrow> JStr s)"

text \<open>The payload of the handoff: the packet, and three fields more.\<close>

definition packet_fields :: "lead_packet \<Rightarrow> (string \<times> jsval) list" where
  "packet_fields p =
     [(''lead_id'', JStr (lp_lead_id p)), (''company_name'', JStr (lp_company_name p)),
      (''contact_name'', js_opt (lp_contact_name p)), (''contact_email'', js_opt (lp_contact_email p)),
      (''contact_channel'', JStr (lp_contact_channel p)), (''source_channel'', JStr (lp_source_channel p)),
      (''campaign_id'', JStr (lp_campaign_id p)), (''segment_id'', JStr (lp_segment_id p)),
      (''project_id'', (case lp_project_id p of None \<Rightarrow> JNull | Some i \<Rightarrow> JStr i)),
      (''initial_need_summary'', js_opt (lp_initial_need_summary p)),
      (''captured_at'', JStr (lp_captured_at p)), (''ack_status'', JStr (lead_ack_str (lp_ack_status p))),
      (''tags'', JArr (map JStr (lp_tags p)))]"

definition buildSalesLeadHandoffMessage :: "lead_packet \<Rightarrow> string option \<Rightarrow> string \<Rightarrow> agent_message" where
  "buildSalesLeadHandoffMessage packet routingProjectId timestamp =
     (let normalizedPacket = normalizeInboundLeadPacket packet in
      \<lparr>msg_from = ''marketing_agent'', msg_to = ''sales_agent'', msg_type = ''lead_handoff'',
       msg_project_id = resolveLeadHandoffProjectId normalizedPacket routingProjectId,
       msg_timestamp = timestamp,
       msg_payload = JObj (packet_fields normalizedPacket @
         [(''handoff_source'', JStr ''marketing_campaign''), (''lifecycle_state_hint'', JStr ''lead''),
          (''pending_project_creation'', JBool (lp_project_id normalizedPacket = None))])\<rparr>)"

section \<open>Feedback\<close>

definition first_of :: "string list \<Rightarrow> string option" where
  "first_of xs = (case xs of [] \<Rightarrow> None | x # _ \<Rightarrow> Some x)"

text \<open>\<open>a ?? b\<close> on two optional texts.\<close>

definition first_objection :: "sales_feedback \<Rightarrow> string option" where
  "first_objection feedback =
     (case first_of (sf_objections feedback) of Some x \<Rightarrow> Some x | None \<Rightarrow> first_of (sf_lost_reasons feedback))"

definition buildRecommendedMessage :: "sales_feedback \<Rightarrow> string \<Rightarrow> string" where
  "buildRecommendedMessage feedback fallback =
     (let trigger = nullish (first_of (sf_response_patterns feedback)) [];
          objection = nullish (first_objection feedback) []
      in if trigger \<noteq> [] \<and> objection \<noteq> [] then
           ''Lead with '' @ trigger @ '' but answer objection: '' @ objection
         else if trigger \<noteq> [] then ''Lean into '' @ trigger @ '' with a stronger CTA''
         else if objection \<noteq> [] then ''Clarify value proposition against objection: '' @ objection
         else fallback)"

definition generateMessagingRevision :: "sales_feedback \<Rightarrow> string \<Rightarrow> string \<Rightarrow> messaging_revision" where
  "generateMessagingRevision feedback currentMessage now =
     \<lparr>mr_campaign_id = sf_campaign_id feedback, mr_segment_id = sf_segment_id feedback,
      mr_revision_reason = nullish (first_objection feedback) ''market feedback mismatch'',
      mr_previous_message = currentMessage,
      mr_recommended_message = buildRecommendedMessage feedback currentMessage,
      mr_at_risk = (sf_conversion_signal feedback = Negative \<or> length (sf_objections feedback) \<ge> 3),
      mr_lifecycle_hint = LS_lead, mr_created_at = now\<rparr>"

definition feedbackToMarketInsight :: "sales_feedback \<Rightarrow> string \<Rightarrow> market_insight" where
  "feedbackToMarketInsight feedback now =
     \<lparr>mi_insight_id = sf_feedback_id feedback, mi_campaign_id = sf_campaign_id feedback,
      mi_segment_id = sf_segment_id feedback,
      mi_pain_points = dedupeStrings (sf_objections feedback @ sf_lost_reasons feedback),
      mi_buying_triggers = dedupeStrings (sf_response_patterns feedback),
      mi_competitor_pressure = dedupeStrings (sf_lost_reasons feedback),
      mi_objections = dedupeStrings (sf_objections feedback),
      mi_positioning_statement = sf_summary feedback,
      mi_recommended_messaging = [buildRecommendedMessage feedback (sf_summary feedback)],
      mi_recommended_offer_angles = dedupeStrings (sf_response_patterns feedback),
      mi_generated_at = now, mi_source_feedback_ids = [sf_feedback_id feedback]\<rparr>"

section \<open>Validators of untyped data\<close>

fun isStringArray :: "jsval \<Rightarrow> bool" where
  "isStringArray (JArr vs) = list_all is_string vs"
| "isStringArray _ = False"

fun is_number :: "jsval \<Rightarrow> bool" where
  "is_number (JNum _) = True"
| "is_number _ = False"

definition isCampaignPlan :: "jsval \<Rightarrow> bool" where
  "isCampaignPlan value' \<longleftrightarrow> is_object value' \<and>
     is_string (get_prop value' ''campaign_id'') \<and> is_string (get_prop value' ''objective'') \<and>
     isStringArray (get_prop value' ''target_segments'') \<and> isStringArray (get_prop value' ''primary_channels'') \<and>
     is_object (get_prop value' ''timeline'') \<and>
     is_string (get_prop (get_prop value' ''timeline'') ''start_at'') \<and>
     is_string (get_prop (get_prop value' ''timeline'') ''end_at'') \<and>
     is_string (get_prop value' ''key_message'') \<and> is_string (get_prop value' ''call_to_action'') \<and>
     isStringArray (get_prop value' ''success_metrics'') \<and> isStringArray (get_prop value' ''dependencies'') \<and>
     is_number (get_prop value' ''version'') \<and> is_string (get_prop value' ''status'') \<and>
     is_string (get_prop value' ''created_at'') \<and> is_string (get_prop value' ''updated_at'')"

definition isMarketInsight :: "jsval \<Rightarrow> bool" where
  "isMarketInsight value' \<longleftrightarrow> is_object value' \<and>
     is_string (get_prop value' ''insight_id'') \<and> is_string (get_prop value' ''campaign_id'') \<and>
     is_string (get_prop value' ''segment_id'') \<and> isStringArray (get_prop value' ''pain_points'') \<and>
     isStringArray (get_prop value' ''buying_triggers'') \<and> isStringArray (get_prop value' ''competitor_pressure'') \<and>
     isStringArray (get_prop value' ''objections'') \<and> is_string (get_prop value' ''positioning_statement'') \<and>
     isStringArray (get_prop value' ''recommended_messaging'') \<and>
     isStringArray (get_prop value' ''recommended_offer_angles'') \<and>
     is_string (get_prop value' ''generated_at'') \<and> isStringArray (get_prop value' ''source_feedback_ids'')"

definition isMarketingAsset :: "jsval \<Rightarrow> bool" where
  "isMarketingAsset value' \<longleftrightarrow> is_object value' \<and>
     is_string (get_prop value' ''asset_id'') \<and> is_string (get_prop value' ''campaign_id'') \<and>
     is_string (get_prop value' ''asset_type'') \<and> is_string (get_prop value' ''segment_id'') \<and>
     is_string (get_prop value' ''content'') \<and> is_string (get_prop value' ''cta'') \<and>
     is_number (get_prop value' ''version'') \<and> is_string (get_prop value' ''status'') \<and>
     is_string (get_prop value' ''technical_claim_status'') \<and> is_string (get_prop value' ''created_at'') \<and>
     is_string (get_prop value' ''updated_at'')"

definition isInboundLeadPacket :: "jsval \<Rightarrow> bool" where
  "isInboundLeadPacket value' \<longleftrightarrow> is_object value' \<and>
     is_string (get_prop value' ''lead_id'') \<and> is_string (get_prop value' ''company_name'') \<and>
     (is_string (get_prop value' ''contact_name'') \<or> get_prop value' ''contact_name'' = JUndefined) \<and>
     (is_string (get_prop value' ''contact_email'') \<or> get_prop value' ''contact_email'' = JUndefined) \<and>
     is_string (get_prop value' ''contact_channel'') \<and> is_string (get_prop value' ''source_channel'') \<and>
     is_string (get_prop value' ''campaign_id'') \<and> is_string (get_prop value' ''segment_id'') \<and>
     (is_string (get_prop value' ''project_id'') \<or> get_prop value' ''project_id'' = JNull) \<and>
     (is_string (get_prop value' ''initial_need_summary'') \<or>
      get_prop value' ''initial_need_summary'' = JUndefined) \<and>
     is_string (get_prop value' ''captured_at'') \<and> is_string (get_prop value' ''ack_status'') \<and>
     isStringArray (get_prop value' ''tags'')"

section \<open>Assets\<close>

record asset_draft =
  ad_asset_id :: string
  ad_campaign_id :: string
  ad_segment_id :: string
  ad_asset_type :: asset_type
  ad_content :: string
  ad_cta :: string
  ad_created_at :: string
  ad_technical_claim_status :: "claim_status option"

definition deriveInitialAssetStatus :: "claim_status option \<Rightarrow> asset_status" where
  "deriveInitialAssetStatus technicalClaimStatus =
     (if technicalClaimStatus = Some Claim_requires_validation then As_requires_validation else As_draft)"

definition createMarketingAsset :: "asset_draft \<Rightarrow> marketing_asset" where
  "createMarketingAsset input =
     \<lparr>ma_asset_id = ad_asset_id input, ma_campaign_id = ad_campaign_id input, ma_asset_type = ad_asset_type input,
      ma_segment_id = ad_segment_id input, ma_content = js_trim (ad_content input), ma_cta = js_trim (ad_cta input),
      ma_version = 1, ma_status = deriveInitialAssetStatus (ad_technical_claim_status input),
      ma_technical_claim_status = nullish (ad_technical_claim_status input) Claim_not_applicable,
      ma_created_at = ad_created_at input, ma_updated_at = ad_created_at input\<rparr>"

record asset_revision =
  av_content :: "string option"
  av_cta :: "string option"
  av_technical_claim_status :: "claim_status option"
  av_status :: "asset_status option"
  av_updated_at :: string

definition reviseMarketingAsset :: "marketing_asset \<Rightarrow> asset_revision \<Rightarrow> marketing_asset" where
  "reviseMarketingAsset asset updates =
     (let technicalClaimStatus = nullish (av_technical_claim_status updates) (ma_technical_claim_status asset);
          nextStatus = nullish (av_status updates)
            (if technicalClaimStatus = Claim_requires_validation then As_requires_validation else As_revised)
      in asset
          \<lparr>ma_content := nullish (map_option js_trim (av_content updates)) (ma_content asset),
           ma_cta := nullish (map_option js_trim (av_cta updates)) (ma_cta asset),
           ma_version := ma_version asset + 1, ma_status := nextStatus,
           ma_technical_claim_status := technicalClaimStatus, ma_updated_at := av_updated_at updates\<rparr>)"

definition needs_validation :: "marketing_asset \<Rightarrow> bool" where
  "needs_validation asset \<longleftrightarrow>
     ma_status asset = As_requires_validation \<or> ma_technical_claim_status asset = Claim_requires_validation"

definition buildAssetPackage :: "marketing_asset list \<Rightarrow> string \<Rightarrow> asset_package outcome" where
  "buildAssetPackage assets generatedAt =
     (case assets of
        [] \<Rightarrow> Inl ''Asset package requires at least one asset''
      | first # _ \<Rightarrow>
          (case find needs_validation assets of
             Some invalid \<Rightarrow> Inl (''Asset '' @ ma_asset_id invalid @ '' is not ready for Sales delivery'')
           | None \<Rightarrow> Inr \<lparr>ak_campaign_id = ma_campaign_id first, ak_segment_id = ma_segment_id first,
               ak_asset_ids = map ma_asset_id assets, ak_assets = assets, ak_generated_at = generatedAt\<rparr>))"

text \<open>An asset as untyped data, as it travels in a payload.\<close>

definition asset_value :: "marketing_asset \<Rightarrow> jsval" where
  "asset_value a = JObj
     [(''asset_id'', JStr (ma_asset_id a)), (''campaign_id'', JStr (ma_campaign_id a)),
      (''asset_type'', JStr (asset_type_str (ma_asset_type a))), (''segment_id'', JStr (ma_segment_id a)),
      (''content'', JStr (ma_content a)), (''cta'', JStr (ma_cta a)), (''version'', JNum (int (ma_version a))),
      (''status'', JStr (asset_status_str (ma_status a))),
      (''technical_claim_status'', JStr (claim_status_str (ma_technical_claim_status a))),
      (''created_at'', JStr (ma_created_at a)), (''updated_at'', JStr (ma_updated_at a))]"

definition buildAssetDeliveryMessage :: "asset_package \<Rightarrow> string \<Rightarrow> string option \<Rightarrow> agent_message" where
  "buildAssetDeliveryMessage assetPackage timestamp projectId =
     \<lparr>msg_from = ''marketing_agent'', msg_to = ''sales_agent'', msg_type = ''status_update'',
      msg_project_id = nullish projectId (''routing-'' @ ak_campaign_id assetPackage), msg_timestamp = timestamp,
      msg_payload = JObj
        [(''campaign_id'', JStr (ak_campaign_id assetPackage)), (''segment_id'', JStr (ak_segment_id assetPackage)),
         (''asset_ids'', JArr (map JStr (ak_asset_ids assetPackage))),
         (''assets'', JArr (map asset_value (ak_assets assetPackage))),
         (''generated_at'', JStr (ak_generated_at assetPackage))]\<rparr>"

section \<open>Handing a lead to sales\<close>

record lead_retry =
  lr_packet :: lead_packet
  lr_message :: agent_message
  lr_failure_count :: nat
  lr_last_error :: "string option"

definition registerInboundLead :: "lead_packet \<Rightarrow> string option \<Rightarrow> string \<Rightarrow> lead_retry" where
  "registerInboundLead packet routingProjectId timestamp =
     (let normalized = normalizeInboundLeadPacket packet in
      \<lparr>lr_packet = normalized, lr_message = buildSalesLeadHandoffMessage normalized routingProjectId timestamp,
       lr_failure_count = 0, lr_last_error = None\<rparr>)"

definition acknowledgeLeadHandoff :: "lead_retry \<Rightarrow> lead_retry" where
  "acknowledgeLeadHandoff state = state\<lparr>lr_packet := (lr_packet state)\<lparr>lp_ack_status := La_acknowledged\<rparr>\<rparr>"

definition retryLeadHandoff :: "lead_retry \<Rightarrow> string \<Rightarrow> lead_retry" where
  "retryLeadHandoff state timestamp =
     (let retryCount = lr_failure_count state + 1;
          packet = (lr_packet state)\<lparr>lp_ack_status := (if retryCount \<ge> 3 then La_failed else La_retrying)\<rparr>
      in \<lparr>lr_packet = packet,
          lr_message = buildSalesLeadHandoffMessage packet (Some (msg_project_id (lr_message state))) timestamp,
          lr_failure_count = retryCount, lr_last_error = lr_last_error state\<rparr>)"

definition buildLeadHandoffEscalation :: "lead_retry \<Rightarrow> string \<Rightarrow> string \<Rightarrow> agent_message" where
  "buildLeadHandoffEscalation state reason timestamp =
     \<lparr>msg_from = ''marketing_agent'', msg_to = ''ceo_agent'', msg_type = ''status_update'',
      msg_project_id = msg_project_id (lr_message state), msg_timestamp = timestamp,
      msg_payload = JObj
        [(''lead_id'', JStr (lp_lead_id (lr_packet state))), (''campaign_id'', JStr (lp_campaign_id (lr_packet state))),
         (''failure_count'', JNum (int (lr_failure_count state))), (''reason'', JStr reason)]\<rparr>"

section \<open>Tasks and feedback\<close>

definition createMarketingTask ::
  "string \<Rightarrow> string \<Rightarrow> marketing_task_kind \<Rightarrow> string \<Rightarrow> string option \<Rightarrow> (string \<times> string) list option \<Rightarrow>
   marketing_task" where
  "createMarketingTask task_id campaign_id kind created_at segment_id context' =
     \<lparr>mt_task_id = task_id, mt_campaign_id = campaign_id, mt_segment_id = segment_id, mt_kind = kind,
      mt_status = Mt_queued, mt_created_at = created_at, mt_updated_at = created_at,
      mt_context = nullish context' []\<rparr>"

definition updateMarketingTaskStatus :: "marketing_task \<Rightarrow> marketing_task_status \<Rightarrow> string \<Rightarrow> marketing_task" where
  "updateMarketingTaskStatus task status updatedAt = task\<lparr>mt_status := status, mt_updated_at := updatedAt\<rparr>"

definition ingestSalesFeedback ::
  "sales_feedback \<Rightarrow> string \<Rightarrow> string \<Rightarrow> market_insight \<times> messaging_revision \<times> marketing_task" where
  "ingestSalesFeedback feedback currentMessage now =
     (let insight = feedbackToMarketInsight feedback now;
          revision = generateMessagingRevision feedback currentMessage now;
          task = createMarketingTask (''msg-revision-'' @ sf_feedback_id feedback) (sf_campaign_id feedback)
            Mk_messaging_revision now (Some (sf_segment_id feedback))
            (Some [(''revision_reason'', mr_revision_reason revision),
                   (''conversion_signal'', conversion_signal_str (sf_conversion_signal feedback))])
      in (insight, revision, updateMarketingTaskStatus task Mt_waiting_feedback now))"

section \<open>The store\<close>

record sales_usage =
  us_asset_id :: string
  us_campaign_id :: string
  us_segment_id :: string
  us_used_at :: string

record marketing_store =
  ms_campaigns :: "(string, campaign_plan list) js_map"
  ms_assets :: "(string, marketing_asset list) js_map"
  ms_insights :: "(string, market_insight) js_map"
  ms_lead_retry_queue :: "(string, lead_retry) js_map"
  ms_tasks :: "(string, marketing_task) js_map"
  ms_sales_usage :: "(string, sales_usage) js_map"

definition empty_marketing :: marketing_store where
  "empty_marketing = \<lparr>ms_campaigns = [], ms_assets = [], ms_insights = [], ms_lead_retry_queue = [],
     ms_tasks = [], ms_sales_usage = []\<rparr>"

definition saveCampaign :: "campaign_plan \<Rightarrow> marketing_store \<Rightarrow> marketing_store" where
  "saveCampaign plan st =
     st\<lparr>ms_campaigns := jm_set (ms_campaigns st) (cp_campaign_id plan)
       (nullish (jm_get (ms_campaigns st) (cp_campaign_id plan)) [] @ [plan])\<rparr>"

definition saveAsset :: "marketing_asset \<Rightarrow> marketing_store \<Rightarrow> marketing_store" where
  "saveAsset asset st =
     st\<lparr>ms_assets := jm_set (ms_assets st) (ma_asset_id asset)
       (nullish (jm_get (ms_assets st) (ma_asset_id asset)) [] @ [asset])\<rparr>"

definition saveInsight :: "market_insight \<Rightarrow> marketing_store \<Rightarrow> marketing_store" where
  "saveInsight insight st = st\<lparr>ms_insights := jm_set (ms_insights st) (mi_insight_id insight) insight\<rparr>"

definition queueLeadRetry :: "lead_retry \<Rightarrow> marketing_store \<Rightarrow> marketing_store" where
  "queueLeadRetry state st =
     st\<lparr>ms_lead_retry_queue := jm_set (ms_lead_retry_queue st) (lp_lead_id (lr_packet state)) state\<rparr>"

definition saveTask :: "marketing_task \<Rightarrow> marketing_store \<Rightarrow> marketing_store" where
  "saveTask task st = st\<lparr>ms_tasks := jm_set (ms_tasks st) (mt_task_id task) task\<rparr>"

definition recordSalesUsage :: "sales_usage \<Rightarrow> marketing_store \<Rightarrow> marketing_store" where
  "recordSalesUsage input st = st\<lparr>ms_sales_usage := jm_set (ms_sales_usage st) (us_asset_id input) input\<rparr>"

text \<open>\<open>[...map.values()].map(versions => versions.at(-1)).filter(v => v !== undefined)\<close>.\<close>

definition latest_versions :: "(string, 'v list) js_map \<Rightarrow> 'v list" where
  "latest_versions m = map last (filter (\<lambda>vs. vs \<noteq> []) (jm_values m))"

definition listLatestAssetsBySegment :: "string \<Rightarrow> marketing_store \<Rightarrow> marketing_asset list" where
  "listLatestAssetsBySegment segmentId st =
     filter (\<lambda>asset. ma_segment_id asset = segmentId) (latest_versions (ms_assets st))"

record marketing_snapshot =
  mp_campaigns :: "campaign_plan list"
  mp_assets :: "marketing_asset list"
  mp_insights :: "market_insight list"
  mp_lead_retry_queue :: "lead_retry list"
  mp_tasks :: "marketing_task list"
  mp_sales_usage :: "(string \<times> sales_usage) list"

text \<open>The usages become an object, with the order of keys an object has.\<close>

definition createSnapshot :: "marketing_store \<Rightarrow> marketing_snapshot" where
  "createSnapshot st =
     \<lparr>mp_campaigns = concat (jm_values (ms_campaigns st)), mp_assets = concat (jm_values (ms_assets st)),
      mp_insights = jm_values (ms_insights st), mp_lead_retry_queue = jm_values (ms_lead_retry_queue st),
      mp_tasks = jm_values (ms_tasks st), mp_sales_usage = object_entries (ms_sales_usage st)\<rparr>"

text \<open>The usage spread over the key holds the key itself, since a usage is stored with its asset id.\<close>

definition restore :: "marketing_snapshot \<Rightarrow> marketing_store" where
  "restore snapshot =
     (let store = empty_marketing;
          store = fold saveCampaign (mp_campaigns snapshot) store;
          store = fold saveAsset (mp_assets snapshot) store;
          store = fold saveInsight (mp_insights snapshot) store;
          store = fold queueLeadRetry (mp_lead_retry_queue snapshot) store;
          store = fold saveTask (mp_tasks snapshot) store
      in fold (\<lambda>(assetId, usage) store. recordSalesUsage usage store) (mp_sales_usage snapshot) store)"

section \<open>Reports\<close>

text \<open>
  \<open>o[k] = (o[k] ?? 0) + d\<close> on a count object, for keys that are no members of the
  built-in prototype.
\<close>

definition add_count :: "int \<Rightarrow> string \<Rightarrow> (string, int) js_map \<Rightarrow> (string, int) js_map" where
  "add_count d k m = jm_set m k (nullish (jm_get m k) 0 + d)"

record marketing_report =
  rp_active_campaigns :: nat
  rp_assets_per_segment :: "(string, int) js_map"
  rp_inbound_leads_per_campaign :: "(string, int) js_map"
  rp_sales_ack_rate :: "nat \<times> int"
  rp_conversion_feedback_per_source :: "(string, int) js_map"
  rp_at_risk_campaigns :: "string list"

fun signal_score :: "conversion_signal \<Rightarrow> int" where
  "signal_score Positive = 1"
| "signal_score Neutral = 0"
| "signal_score Negative = -1"

definition buildReport :: "marketing_store \<Rightarrow> sales_feedback list \<Rightarrow> marketing_report" where
  "buildReport st feedbackPackets =
     (let leads = jm_values (ms_lead_retry_queue st);
          acknowledged = length (filter (\<lambda>l. lp_ack_status (lr_packet l) = La_acknowledged) leads);
          riskyLeads = map (lp_campaign_id \<circ> lr_packet) (filter (\<lambda>l. lr_failure_count l \<ge> 2) leads);
          riskyFeedback = map sf_campaign_id
            (filter (\<lambda>f. sf_conversion_signal f = Negative \<and> length (sf_objections f) \<ge> 2) feedbackPackets)
      in \<lparr>rp_active_campaigns = length (filter (\<lambda>p. cp_status p = Cp_active) (latest_versions (ms_campaigns st))),
          rp_assets_per_segment =
            fold (\<lambda>a. add_count 1 (ma_segment_id a)) (latest_versions (ms_assets st)) [],
          rp_inbound_leads_per_campaign = fold (\<lambda>l. add_count 1 (lp_campaign_id (lr_packet l))) leads [],
          rp_sales_ack_rate = (if leads = [] then to_double 1 1 else to_double acknowledged (length leads)),
          rp_conversion_feedback_per_source =
            fold (\<lambda>f. add_count (signal_score (sf_conversion_signal f)) (sf_campaign_id f)) feedbackPackets [],
          rp_at_risk_campaigns = js_set (riskyLeads @ riskyFeedback)\<rparr>)"

section \<open>Reachable stores\<close>

inductive marketing_reachable :: "marketing_store \<Rightarrow> bool" where
  "marketing_reachable empty_marketing"
| "marketing_reachable st \<Longrightarrow> marketing_reachable (saveCampaign plan st)"
| "marketing_reachable st \<Longrightarrow> marketing_reachable (saveAsset asset st)"
| "marketing_reachable st \<Longrightarrow> marketing_reachable (saveInsight insight st)"
| "marketing_reachable st \<Longrightarrow> marketing_reachable (queueLeadRetry lead st)"
| "marketing_reachable st \<Longrightarrow> marketing_reachable (saveTask task st)"
| "marketing_reachable st \<Longrightarrow> marketing_reachable (recordSalesUsage usage st)"

definition lead_key :: "lead_retry \<Rightarrow> string" where
  "lead_key state = lp_lead_id (lr_packet state)"

definition marketing_ok :: "marketing_store \<Rightarrow> bool" where
  "marketing_ok st \<longleftrightarrow>
     versions_ok cp_campaign_id (ms_campaigns st) \<and> versions_ok ma_asset_id (ms_assets st) \<and>
     keyed_by mi_insight_id (ms_insights st) \<and> keyed_by lead_key (ms_lead_retry_queue st) \<and>
     keyed_by mt_task_id (ms_tasks st) \<and> keyed_by us_asset_id (ms_sales_usage st)"

lemma saveCampaign_version: "saveCampaign p st = st\<lparr>ms_campaigns := add_version cp_campaign_id p (ms_campaigns st)\<rparr>"
  by (simp add: saveCampaign_def add_version_def)

lemma saveAsset_version: "saveAsset a st = st\<lparr>ms_assets := add_version ma_asset_id a (ms_assets st)\<rparr>"
  by (simp add: saveAsset_def add_version_def)

lemma marketing_reachable_ok: "marketing_reachable st \<Longrightarrow> marketing_ok st"
  by (induction rule: marketing_reachable.induct)
    (auto simp: marketing_ok_def empty_marketing_def saveCampaign_version saveAsset_version saveInsight_def
      queueLeadRetry_def lead_key_def saveTask_def recordSalesUsage_def versions_ok_add intro!: keyed_by_set)

lemma fold_saves:
  "fold saveCampaign ps st = st\<lparr>ms_campaigns := fold (add_version cp_campaign_id) ps (ms_campaigns st)\<rparr>"
  "fold saveAsset as st = st\<lparr>ms_assets := fold (add_version ma_asset_id) as (ms_assets st)\<rparr>"
  "fold saveInsight is st = st\<lparr>ms_insights := fold (\<lambda>v m. jm_set m (mi_insight_id v) v) is (ms_insights st)\<rparr>"
  "fold queueLeadRetry ls st =
     st\<lparr>ms_lead_retry_queue := fold (\<lambda>v m. jm_set m (lead_key v) v) ls (ms_lead_retry_queue st)\<rparr>"
  "fold saveTask ts st = st\<lparr>ms_tasks := fold (\<lambda>v m. jm_set m (mt_task_id v) v) ts (ms_tasks st)\<rparr>"
  "fold (\<lambda>(assetId, usage). recordSalesUsage usage) us st =
     st\<lparr>ms_sales_usage := fold (\<lambda>v m. jm_set m (us_asset_id v) v) (map snd us) (ms_sales_usage st)\<rparr>"
proof -
  show "fold saveCampaign ps st = st\<lparr>ms_campaigns := fold (add_version cp_campaign_id) ps (ms_campaigns st)\<rparr>"
    by (induction ps arbitrary: st) (simp_all add: saveCampaign_version)
  show "fold saveAsset as st = st\<lparr>ms_assets := fold (add_version ma_asset_id) as (ms_assets st)\<rparr>"
    by (induction as arbitrary: st) (simp_all add: saveAsset_version)
  show "fold saveInsight is st = st\<lparr>ms_insights := fold (\<lambda>v m. jm_set m (mi_insight_id v) v) is (ms_insights st)\<rparr>"
    by (induction "is" arbitrary: st) (simp_all add: saveInsight_def)
  show "fold queueLeadRetry ls st =
     st\<lparr>ms_lead_retry_queue := fold (\<lambda>v m. jm_set m (lead_key v) v) ls (ms_lead_retry_queue st)\<rparr>"
    by (induction ls arbitrary: st) (simp_all add: queueLeadRetry_def lead_key_def)
  show "fold saveTask ts st = st\<lparr>ms_tasks := fold (\<lambda>v m. jm_set m (mt_task_id v) v) ts (ms_tasks st)\<rparr>"
    by (induction ts arbitrary: st) (simp_all add: saveTask_def)
  show "fold (\<lambda>(assetId, usage). recordSalesUsage usage) us st =
     st\<lparr>ms_sales_usage := fold (\<lambda>v m. jm_set m (us_asset_id v) v) (map snd us) (ms_sales_usage st)\<rparr>"
    by (induction us arbitrary: st) (auto simp: recordSalesUsage_def)
qed

lemma usage_rebuild:
  assumes "keyed_by us_asset_id m"
  shows "fold (\<lambda>v m. jm_set m (us_asset_id v) v) (map snd (object_entries m)) [] = object_entries m"
proof -
  have s: "set (object_entries m) = set m" by (metis mset_object_entries mset_eq_setD)
  then have p: "\<forall>(k, v) \<in> set (object_entries m). us_asset_id v = k" using assms by (simp add: keyed_by_def)
  have "map (\<lambda>v. (us_asset_id v, v)) (map snd (object_entries m)) = object_entries m"
    using p by (auto intro!: map_idI)
  moreover have "distinct (map us_asset_id (map snd (object_entries m)))"
  proof -
    have "map us_asset_id (map snd (object_entries m)) = map fst (object_entries m)" using p by auto
    moreover have "mset (map fst (object_entries m)) = mset (map fst m)" by simp
    ultimately show ?thesis
      using assms by (metis keyed_by_def jm_keys_def mset_eq_imp_distinct_iff)
  qed
  ultimately show ?thesis by (subst fold_jm_set) (simp_all add: jm_keys_def)
qed

lemma restore_snapshot:
  assumes "marketing_ok st"
  shows "restore (createSnapshot st) = st\<lparr>ms_sales_usage := object_entries (ms_sales_usage st)\<rparr>"
  using assms
  by (simp add: restore_def createSnapshot_def Let_def fold_saves empty_marketing_def marketing_ok_def
      versions_rebuild keyed_rebuild usage_rebuild)

section \<open>Properties of the component\<close>

section \<open>Retries and messages\<close>

lemma slug_no_space: "c \<in> set (''routing-'' @ slugify s) \<Longrightarrow> \<not> js_space c"
proof -
  assume "c \<in> set (''routing-'' @ slugify s)"
  moreover have "c \<in> set (slugify s) \<Longrightarrow> slug_char c \<or> c = CHR ''-''"
    unfolding slugify_def using set_strip hyphenate_chars by (metis subsetD)
  moreover have "slug_char c \<Longrightarrow> \<not> js_space c" by (auto simp: slug_char_def js_space_def Let_def)
  moreover have "\<forall>c \<in> set ''routing-''. \<not> js_space c" "\<not> js_space (CHR ''-'')" by (simp_all add: js_space_def)
  ultimately show ?thesis by auto
qed

lemma dedupe_idem [simp]: "dedupeStrings (dedupeStrings xs) = dedupeStrings xs"
proof -
  let ?d = "dedupeStrings xs"
  have "\<forall>v \<in> set ?d. js_trim v = v \<and> v \<noteq> []" by (auto simp: dedupeStrings_def)
  then have "map js_trim ?d = ?d" "filter (\<lambda>v. v \<noteq> []) ?d = ?d" by (auto intro: map_idI filter_True)
  then show ?thesis
    unfolding dedupeStrings_def [of "dedupeStrings xs"] by (simp add: js_set_distinct dedupeStrings_def)
qed

lemma normalize_packet_idem [simp]:
  "normalizeInboundLeadPacket (normalizeInboundLeadPacket p) = normalizeInboundLeadPacket p"
  by (simp add: normalizeInboundLeadPacket_def option.map_comp comp_def)

lemma normalize_packet_ack [simp]:
  "normalizeInboundLeadPacket (p\<lparr>lp_ack_status := s\<rparr>) = (normalizeInboundLeadPacket p)\<lparr>lp_ack_status := s\<rparr>"
  "resolveLeadHandoffProjectId (p\<lparr>lp_ack_status := s\<rparr>) r = resolveLeadHandoffProjectId p r"
  by (simp_all add: normalizeInboundLeadPacket_def resolveLeadHandoffProjectId_def)

lemma resolve_project_idem:
  "resolveLeadHandoffProjectId p (Some (resolveLeadHandoffProjectId p r)) = resolveLeadHandoffProjectId p r"
proof -
  have "js_trim (''routing-'' @ slugify (lp_campaign_id p)) = ''routing-'' @ slugify (lp_campaign_id p)"
    by (rule js_trim_no_space) (use slug_no_space in blast)
  then show ?thesis by (auto simp: resolveLeadHandoffProjectId_def)
qed

text \<open>A lead after a number of retries.\<close>

lemma retries_spec:
  "foldl retryLeadHandoff (registerInboundLead p r t) ts =
     (let q = normalizeInboundLeadPacket p;
          q' = (if ts = [] then q else q\<lparr>lp_ack_status := (if length ts \<ge> 3 then La_failed else La_retrying)\<rparr>)
      in \<lparr>lr_packet = q', lr_message = buildSalesLeadHandoffMessage q' r (if ts = [] then t else last ts),
          lr_failure_count = length ts, lr_last_error = None\<rparr>)"
proof (induction ts rule: rev_induct)
  case Nil
  show ?case by (simp add: registerInboundLead_def Let_def)
next
  case (snoc x ts)
  then show ?case
    by (auto simp: retryLeadHandoff_def Let_def buildSalesLeadHandoffMessage_def resolve_project_idem)
qed

lemma lead_message_invalid: "\<not> isValidAgentMessage (message_value (buildSalesLeadHandoffMessage p r t))"
  by (rule payload_missing [of _ Lead_handoff "''handoff_id''"])
    (simp_all add: buildSalesLeadHandoffMessage_def packet_fields_def Let_def)

lemma values_valid: "isMarketingAsset (asset_value a)" "isInboundLeadPacket (JObj (packet_fields p))"
  by (auto simp: isMarketingAsset_def asset_value_def isInboundLeadPacket_def packet_fields_def js_opt_def
      list_all_iff split: option.split)

definition demo_packet :: lead_packet where
  "demo_packet = \<lparr>lp_lead_id = ''l1'', lp_company_name = ''Acme'', lp_contact_name = None, lp_contact_email = None,
     lp_contact_channel = ''mail'', lp_source_channel = ''web'', lp_campaign_id = ''c1'', lp_segment_id = ''s'',
     lp_project_id = None, lp_initial_need_summary = None, lp_captured_at = [],
     lp_ack_status = La_pending_sales_ack, lp_tags = []\<rparr>"

text \<open>
  However often the handoff of a lead is retried, the message stays addressed to the project
  it was first sent for and the packet changes in its status alone: pending at first,
  retrying after one or two failures, failed from the third on.
\<close>

theorem lead_retry_invariant:
  "let s0 = registerInboundLead p r t; s = foldl retryLeadHandoff s0 ts in
   msg_project_id (lr_message s) = msg_project_id (lr_message s0) \<and> lr_failure_count s = length ts \<and>
   lr_packet s = (lr_packet s0)\<lparr>lp_ack_status := (case ts of [] \<Rightarrow> lp_ack_status (lr_packet s0) | [_] \<Rightarrow> La_retrying
     | [_, _] \<Rightarrow> La_retrying | _ \<Rightarrow> La_failed)\<rparr> \<and>
   msg_payload (lr_message s) = msg_payload (buildSalesLeadHandoffMessage (lr_packet s) None t)"
  unfolding Let_def retries_spec
  by (simp add: registerInboundLead_def Let_def buildSalesLeadHandoffMessage_def split: list.split)

text \<open>
  Restoring a snapshot gives the store back: every version of every plan and asset in its
  order, every insight, lead and task, and the same usage for every asset, though an object
  may list the usages in another order.
\<close>

theorem marketing_store_roundtrip:
  assumes "marketing_reachable st"
  shows "let st' = restore (createSnapshot st) in
    st'\<lparr>ms_sales_usage := ms_sales_usage st\<rparr> = st \<and>
    jm_get (ms_sales_usage st') = jm_get (ms_sales_usage st) \<and> createSnapshot st' = createSnapshot st"
proof -
  note ok = marketing_reachable_ok [OF assms]
  have d: "distinct (jm_keys (ms_sales_usage st))" using ok by (simp add: marketing_ok_def keyed_by_def)
  have "jm_get (object_entries (ms_sales_usage st)) = jm_get (ms_sales_usage st)"
    by (rule ext) (rule jm_get_perm [OF _ d], simp)
  with restore_snapshot [OF ok] show ?thesis
    by (simp add: createSnapshot_def)
qed

theorem marketing_store_roundtrip_witness:
  "jm_get (ms_sales_usage (restore (createSnapshot (queueLeadRetry (registerInboundLead demo_packet None []) empty_marketing)))) = jm_get []"
proof -
  have "marketing_reachable (queueLeadRetry (registerInboundLead demo_packet None []) empty_marketing)"
    by (intro marketing_reachable.intros)
  from marketing_store_roundtrip [OF this] show ?thesis
    by (simp add: Let_def queueLeadRetry_def empty_marketing_def)
qed

text \<open>
  A package for sales is refused exactly when it is empty or one of its assets awaits
  validation, by its status or by its technical claim; what is delivered is what was given.
\<close>

theorem assets_validated_before_sales:
  "case buildAssetPackage assets t of
     Inl e \<Rightarrow> assets = [] \<or> list_ex (\<lambda>a. ma_technical_claim_status a = Claim_requires_validation \<or>
       ma_status a = As_requires_validation) assets
   | Inr p \<Rightarrow> assets = ak_assets p \<and> assets \<noteq> [] \<and> ak_asset_ids p = map ma_asset_id assets \<and>
       list_all (\<lambda>a. \<not> needs_validation a) (ak_assets p)"
  by (auto simp: buildAssetPackage_def needs_validation_def list_ex_iff list_all_iff find_None_iff find_Some_iff
      split: list.split option.split dest: nth_mem)

text \<open>
  The registry never accepts a lead handoff from marketing, which lacks the fields its type
  demands; asset deliveries and escalations it refuses as built and accepts once the bus has
  normalised them.
\<close>

theorem marketing_messages_validity:
  "\<not> isValidAgentMessage (message_value (buildSalesLeadHandoffMessage p r t)) \<and>
   \<not> isValidAgentMessage (message_value (normalizeMessageForRuntime (buildSalesLeadHandoffMessage p r t))) \<and>
   \<not> isValidAgentMessage (message_value (buildAssetDeliveryMessage k t i)) \<and>
   isValidAgentMessage (message_value (normalizeMessageForRuntime (buildAssetDeliveryMessage k t i))) \<and>
   \<not> isValidAgentMessage (message_value (buildLeadHandoffEscalation s reason t)) \<and>
   isValidAgentMessage (message_value (normalizeMessageForRuntime (buildLeadHandoffEscalation s reason t)))"
proof -
  have "normalizeMessageForRuntime (buildSalesLeadHandoffMessage p r t) = buildSalesLeadHandoffMessage p r t"
    by (simp add: normalizeMessageForRuntime_def buildSalesLeadHandoffMessage_def Let_def)
  moreover have "\<not> isValidAgentMessage (message_value (buildAssetDeliveryMessage k t i))"
    by (rule payload_missing [of _ Status_update "''status''"]) (simp_all add: buildAssetDeliveryMessage_def)
  moreover have "\<not> isValidAgentMessage (message_value (buildLeadHandoffEscalation s reason t))"
    by (rule payload_missing [of _ Status_update "''status''"]) (simp_all add: buildLeadHandoffEscalation_def)
  ultimately show ?thesis
    using lead_message_invalid
    by (simp add: normalize_valid_status buildAssetDeliveryMessage_def buildLeadHandoffEscalation_def)
qed

end
