(* ===== verification/JS_Path.thy ===== *)
theory JS_Path
  imports JS_Prelude
begin

text \<open>
  Paths of the POSIX kind, as \<^verbatim>\<open>node:path\<close> joins, normalises, resolves and relates them. The
  text is split at its slashes; empty and single-dot segments vanish, a double dot takes the
  segment before it away, or stays in front of a relative path.
\<close>

section \<open>Segments\<close>

fun norm_step :: "bool \<Rightarrow> string \<Rightarrow> string list \<Rightarrow> string list" where
  "norm_step allow s stack =
     (if s = [] \<or> s = ''.'' then stack
      else if s = ''..'' then
        (case stack of
           [] \<Rightarrow> if allow then [''..''] else []
         | t # ts \<Rightarrow> if t = ''..'' then s # stack else ts)
      else s # stack)"

declare norm_step.simps [simp del]

definition norm_segs :: "bool \<Rightarrow> string list \<Rightarrow> string list" where
  "norm_segs allow ss = rev (fold (norm_step allow) ss [])"

definition is_absolute :: "string \<Rightarrow> bool" where
  "is_absolute p \<longleftrightarrow> (case p of [] \<Rightarrow> False | c # _ \<Rightarrow> c = CHR ''/'')"

definition ends_with_slash :: "string \<Rightarrow> bool" where
  "ends_with_slash p \<longleftrightarrow> (case rev p of [] \<Rightarrow> False | c # _ \<Rightarrow> c = CHR ''/'')"

definition segments :: "string \<Rightarrow> string list" where
  "segments p = norm_segs (\<not> is_absolute p) (js_split (CHR ''/'') p)"

section \<open>The functions\<close>

definition path_normalize :: "string \<Rightarrow> string" where
  "path_normalize p =
     (if p = [] then ''.''
      else
        let body = js_join ''/'' (segments p) in
        if body = [] then (if is_absolute p then ''/'' else if ends_with_slash p then ''./'' else ''.'')
        else (if is_absolute p then ''/'' else []) @ body @ (if ends_with_slash p then ''/'' else []))"

definition path_join :: "string list \<Rightarrow> string" where
  "path_join ps =
     (case filter (\<lambda>p. p \<noteq> []) ps of
        [] \<Rightarrow> ''.''
      | qs \<Rightarrow> path_normalize (js_join ''/'' qs))"

text \<open>The loop of \<^verbatim>\<open>resolve\<close> from the last argument back, the working directory in front.\<close>

fun resolve_loop :: "string list \<Rightarrow> string \<Rightarrow> string" where
  "resolve_loop [] acc = acc"
| "resolve_loop (p # ps) acc =
     (if is_absolute acc \<or> p = [] then resolve_loop ps acc else resolve_loop ps (p @ ''/'' @ acc))"

definition path_resolve :: "string \<Rightarrow> string list \<Rightarrow> string" where
  "path_resolve cwd ps =
     (let p = resolve_loop (rev (cwd # ps)) [] in
      if is_absolute p then ''/'' @ js_join ''/'' (segments p)
      else if segments p = [] then ''.'' else js_join ''/'' (segments p))"

fun strip_common :: "string list \<Rightarrow> string list \<Rightarrow> string list \<times> string list" where
  "strip_common (x # xs) (y # ys) = (if x = y then strip_common xs ys else (x # xs, y # ys))"
| "strip_common xs ys = (xs, ys)"

definition path_relative :: "string \<Rightarrow> string \<Rightarrow> string \<Rightarrow> string" where
  "path_relative cwd from to =
     (let (up, down) = strip_common (segments (path_resolve cwd [from])) (segments (path_resolve cwd [to]))
      in js_join ''/'' (replicate (length up) ''..'' @ down))"

section \<open>Normal segments\<close>

text \<open>A segment a normal path may hold after its leading double dots.\<close>

definition plain :: "string \<Rightarrow> bool" where
  "plain s \<longleftrightarrow> s \<noteq> [] \<and> s \<noteq> ''.'' \<and> s \<noteq> ''..'' \<and> CHR ''/'' \<notin> set s"

lemma norm_step_plain: "plain s \<Longrightarrow> norm_step allow s stack = s # stack"
  by (simp add: plain_def norm_step.simps)

lemma norm_step_skip [simp]: "norm_step allow [] stack = stack" "norm_step allow ''.'' stack = stack"
  by (simp_all add: norm_step.simps)

text \<open>Below the root, the stack holds plain segments only.\<close>

lemma norm_step_below:
  "list_all plain stack \<Longrightarrow> CHR ''/'' \<notin> set s \<Longrightarrow> list_all plain (norm_step False s stack)"
  by (auto simp: norm_step.simps plain_def split: list.split)

lemma fold_norm_below:
  "list_all plain stack \<Longrightarrow> list_all (\<lambda>s. CHR ''/'' \<notin> set s) ss \<Longrightarrow> list_all plain (fold (norm_step False) ss stack)"
  by (induction ss arbitrary: stack) (auto intro: norm_step_below)

lemma split_no_slash: "list_all (\<lambda>s. CHR ''/'' \<notin> set s) (js_split (CHR ''/'') p)"
  by (auto simp: list_all_iff dest: js_split_no_sep)

lemma segments_plain: "is_absolute p \<Longrightarrow> list_all plain (segments p)"
  using fold_norm_below [of "[]" "js_split (CHR ''/'') p"] split_no_slash
  by (simp add: segments_def norm_segs_def)

lemma fold_norm_plain: "list_all plain ss \<Longrightarrow> fold (norm_step allow) ss stack = rev ss @ stack"
  by (induction ss arbitrary: stack) (simp_all add: norm_step_plain)

section \<open>Joining and splitting\<close>

lemma js_split_append: "js_split c (x @ c # y) = js_split c x @ js_split c y"
proof (induction x)
  case (Cons a x)
  then show ?case by (cases "js_split c x") (auto split: list.splits)
qed simp

lemma js_split_single: "c \<notin> set s \<Longrightarrow> js_split c s = [s]"
  by (induction s) auto

lemma js_split_join: "ss \<noteq> [] \<Longrightarrow> \<forall>s \<in> set ss. c \<notin> set s \<Longrightarrow> js_split c (js_join [c] ss) = ss"
proof (induction ss)
  case (Cons s ss)
  then show ?case by (cases ss) (simp_all add: js_split_single js_split_append)
qed simp

lemma js_join_append: "xs \<noteq> [] \<Longrightarrow> ys \<noteq> [] \<Longrightarrow> js_join sep (xs @ ys) = js_join sep xs @ sep @ js_join sep ys"
proof (induction xs)
  case (Cons x xs)
  then show ?case by (cases xs; cases ys) simp_all
qed simp

lemma js_join_plain_ne: "list_all plain ss \<Longrightarrow> ss \<noteq> [] \<Longrightarrow> js_join sep ss \<noteq> []"
  by (cases ss rule: list.exhaust [case_product list.exhaust [of "tl ss"]]) (auto simp: plain_def)

lemma split_join_plain: "list_all plain ss \<Longrightarrow> ss \<noteq> [] \<Longrightarrow> js_split (CHR ''/'') (js_join ''/'' ss) = ss"
  by (rule js_split_join) (auto simp: plain_def list_all_iff)

section \<open>Absolute paths\<close>

lemma is_absolute_slash [simp]: "is_absolute (CHR ''/'' # p)" "is_absolute (p @ q) \<longleftrightarrow> is_absolute p \<or> p = [] \<and> is_absolute q"
  by (auto simp: is_absolute_def split: list.split)

lemma absolute_ne: "is_absolute p \<Longrightarrow> p \<noteq> []"
  by (auto simp: is_absolute_def)

lemma segments_append:
  "is_absolute p \<Longrightarrow> segments (p @ CHR ''/'' # q) = rev (fold (norm_step False) (js_split (CHR ''/'') q) (rev (segments p)))"
  by (simp add: segments_def norm_segs_def js_split_append)

lemma segments_slash: "is_absolute p \<Longrightarrow> segments (p @ ''/'') = segments p"
  using segments_append [of p "[]"] by simp

lemma segments_below:
  "is_absolute p \<Longrightarrow> list_all plain ss \<Longrightarrow> ss \<noteq> [] \<Longrightarrow> segments (p @ CHR ''/'' # js_join ''/'' ss) = segments p @ ss"
  by (simp add: segments_append split_join_plain fold_norm_plain)

lemma segments_of_join [simp]: "list_all plain ss \<Longrightarrow> segments (CHR ''/'' # js_join ''/'' ss) = ss"
  by (cases "ss = []")
    (simp_all add: segments_def norm_segs_def split_join_plain fold_norm_plain)

lemma normalize_absolute:
  "is_absolute p \<Longrightarrow> path_normalize p = CHR ''/'' # js_join ''/'' (segments p) @
     (if segments p \<noteq> [] \<and> ends_with_slash p then ''/'' else [])"
  using js_join_plain_ne [OF segments_plain, of p "''/''"]
  by (auto simp: path_normalize_def Let_def dest: absolute_ne)

lemma normalize_is_absolute [simp]: "is_absolute p \<Longrightarrow> is_absolute (path_normalize p)"
  by (simp add: normalize_absolute)

lemma segments_normalize [simp]: "is_absolute p \<Longrightarrow> segments (path_normalize p) = segments p"
  using segments_plain [of p] segments_slash [of "CHR ''/'' # js_join ''/'' (segments p)"]
  by (simp add: normalize_absolute)

lemma path_normalize_idem: "is_absolute p \<Longrightarrow> path_normalize (path_normalize p) = path_normalize p"
proof -
  assume p: "is_absolute p"
  have "segments p \<noteq> [] \<Longrightarrow> ends_with_slash (path_normalize p) \<longleftrightarrow> ends_with_slash p"
  proof -
    assume s: "segments p \<noteq> []"
    then obtain ss x where e: "segments p = ss @ [x]" by (cases "segments p" rule: rev_cases) auto
    then have x: "plain x" using segments_plain [OF p] by simp
    then obtain u c where u: "x = u @ [c]" "c \<noteq> CHR ''/''" by (cases x rule: rev_cases) (auto simp: plain_def)
    have "\<exists>v. js_join ''/'' (segments p) = v @ [c]"
      unfolding e u(1) by (cases "ss = []") (simp_all add: js_join_append)
    with u(2) s show ?thesis unfolding normalize_absolute [OF p] by (auto simp: ends_with_slash_def)
  qed
  then have c: "segments p \<noteq> [] \<and> ends_with_slash (path_normalize p) \<longleftrightarrow> segments p \<noteq> [] \<and> ends_with_slash p"
    by blast
  have "path_normalize (path_normalize p) = CHR ''/'' # js_join ''/'' (segments p) @
      (if segments p \<noteq> [] \<and> ends_with_slash (path_normalize p) then ''/'' else [])"
    using normalize_absolute [of "path_normalize p"] p by simp
  then show ?thesis unfolding c by (simp only: normalize_absolute [OF p])
qed

section \<open>Joining below a root\<close>

lemma path_join_root:
  "is_absolute root \<Longrightarrow> path_join [root, rel] = path_normalize (if rel = [] then root else root @ CHR ''/'' # rel)"
  by (auto simp: path_join_def dest: absolute_ne)

lemma path_join_absolute:
  "is_absolute root \<Longrightarrow> is_absolute (path_join [root, rel]) \<and> path_normalize (path_join [root, rel]) = path_join [root, rel]"
  by (simp add: path_join_root path_normalize_idem)

lemma segments_join_below:
  "is_absolute root \<Longrightarrow> list_all plain ss \<Longrightarrow> segments (path_join [root, js_join ''/'' ss]) = segments root @ ss"
  using js_join_plain_ne [of ss "''/''"] by (cases "ss = []") (simp_all add: path_join_root segments_below)

text \<open>The test of a prefix on normal paths is the test of a prefix on their segments.\<close>

lemma starts_with_segments:
  assumes "is_absolute p" "is_absolute root" "js_starts_with (path_normalize p) (path_normalize (root @ ''/''))"
  shows "prefix (segments root) (segments p)"
proof (cases "segments root = []")
  case False
  let ?R = "segments root" and ?S = "segments p"
  have R: "list_all plain ?R" and S: "list_all plain ?S" using assms(1,2) by (simp_all add: segments_plain)
  have "path_normalize (root @ ''/'') = CHR ''/'' # js_join ''/'' ?R @ ''/''"
    using assms(2) False by (simp add: normalize_absolute segments_slash ends_with_slash_def)
  then obtain rest where rest: "path_normalize p = (CHR ''/'' # js_join ''/'' ?R) @ CHR ''/'' # rest"
    using assms(3) by (auto simp: js_starts_with_def prefix_def)
  have 1: "js_split (CHR ''/'') (path_normalize p) = [] # ?R @ js_split (CHR ''/'') rest"
    unfolding rest js_split_append using R False by (simp add: split_join_plain)
  have 2: "js_split (CHR ''/'') (path_normalize p) =
      [] # (if ?S = [] then [[]] else ?S @ (if ends_with_slash p then [[]] else []))"
    using S js_split_append [of "CHR ''/''" "CHR ''/'' # js_join ''/'' ?S" "[]"]
    by (auto simp: normalize_absolute [OF assms(1)] split_join_plain)
  obtain w ws where ws: "js_split (CHR ''/'') rest = ws @ [w]" using js_split_ne by (metis rev_exhaust)
  show ?thesis
  proof (cases "?S = []")
    case True
    with 1 2 ws False show ?thesis by (cases "segments root") auto
  next
    case False
    with 1 2 ws show ?thesis by (auto simp: prefix_def split: if_splits)
  qed
qed simp

lemma starts_with_below:
  assumes "is_absolute p" "is_absolute root" "segments p = segments root @ x # xs"
  shows "js_starts_with (path_normalize p) (path_normalize (root @ ''/''))"
proof -
  have "js_join ''/'' (segments p) = (if segments root = [] then [] else js_join ''/'' (segments root) @ ''/'') @
      js_join ''/'' (x # xs)"
    using assms(3) js_join_append [of "segments root" "x # xs"] by (cases "segments root = []") auto
  then show ?thesis
    using assms(1,2) by (auto simp: normalize_absolute segments_slash js_starts_with_def prefix_def ends_with_slash_def)
qed

section \<open>Resolving and relating\<close>

lemma resolve_one: "is_absolute cwd \<Longrightarrow> is_absolute p \<Longrightarrow> path_resolve cwd [p] = CHR ''/'' # js_join ''/'' (segments p)"
  using segments_slash [of p] by (auto simp: path_resolve_def Let_def dest: absolute_ne)

lemma resolve_two:
  assumes "is_absolute cwd" "is_absolute root"
  shows "path_resolve cwd [root, t] =
    CHR ''/'' # js_join ''/'' (segments (if is_absolute t then t else root @ CHR ''/'' # t))"
proof -
  have "segments (t @ ''/'') = segments t" if "is_absolute t" using that by (rule segments_slash)
  moreover have "segments (root @ CHR ''/'' # t @ ''/'') = segments (root @ CHR ''/'' # t)"
    using segments_slash [of "root @ CHR ''/'' # t"] assms by simp
  ultimately show ?thesis
    using assms segments_slash [of root]
    by (auto simp: path_resolve_def Let_def dest: absolute_ne)
qed

lemma resolve_two_absolute: "is_absolute cwd \<Longrightarrow> is_absolute root \<Longrightarrow> is_absolute (path_resolve cwd [root, t])"
  by (simp add: resolve_two)

lemma strip_common_prefix: "strip_common xs (xs @ ys) = ([], ys)"
  by (induction xs) (cases ys, simp_all)

lemma relative_below:
  assumes "is_absolute cwd" "is_absolute root" "is_absolute p" "segments p = segments root @ ss"
  shows "path_relative cwd root p = js_join ''/'' ss"
  using assms segments_plain [OF assms(2)] segments_plain [OF assms(3)]
  by (simp add: path_relative_def resolve_one strip_common_prefix)

end
