(* ===== verification/JS_Files.thy ===== *)
theory JS_Files
  imports JS_Path JS_Collections
begin

text \<open>
  The files of the host as the sources reach them through \<^verbatim>\<open>node:fs\<close>: a tree without links,
  a file or a directory under the segments of its absolute path. An operation is a function of the
  tree that gives a result or the message of the error it throws, and the tree it leaves. The host
  may refuse any operation for reasons of its own (permissions, space): a parameter.
\<close>

section \<open>Operations with errors on a state\<close>

type_synonym ('a, 's) io = "'s \<Rightarrow> 'a outcome \<times> 's"

definition io_return :: "'a \<Rightarrow> ('a, 's) io" where
  "io_return x = (\<lambda>s. (Inr x, s))"

definition io_throw :: "string \<Rightarrow> ('a, 's) io" where
  "io_throw e = (\<lambda>s. (Inl e, s))"

definition io_bind :: "('a, 's) io \<Rightarrow> ('a \<Rightarrow> ('b, 's) io) \<Rightarrow> ('b, 's) io" where
  "io_bind m f = (\<lambda>s. case m s of (Inl e, s) \<Rightarrow> (Inl e, s) | (Inr x, s) \<Rightarrow> f x s)"

text \<open>The body of a \<^verbatim>\<open>for\<close> loop that awaits each step, ended by the first error.\<close>

fun io_each :: "('a \<Rightarrow> (unit, 's) io) \<Rightarrow> 'a list \<Rightarrow> (unit, 's) io" where
  "io_each f [] = io_return ()"
| "io_each f (x # xs) = io_bind (f x) (\<lambda>_. io_each f xs)"

text \<open>\<^verbatim>\<open>try { ... } catch { return d }\<close>.\<close>

definition io_catch :: "('a, 's) io \<Rightarrow> 'a \<Rightarrow> ('a, 's) io" where
  "io_catch m d = (\<lambda>s. case m s of (Inl e, s) \<Rightarrow> (Inr d, s) | (Inr x, s) \<Rightarrow> (Inr x, s))"

text \<open>A relation every run of an operation keeps between the state before and after.\<close>

definition io_keeps :: "('s \<Rightarrow> 's \<Rightarrow> bool) \<Rightarrow> ('a, 's) io \<Rightarrow> bool" where
  "io_keeps R m \<longleftrightarrow> (\<forall>s. R s (snd (m s)))"

lemma io_bind_run [simp]: "m s = (Inr x, s') \<Longrightarrow> io_bind m f s = f x s'" "m s = (Inl e, s') \<Longrightarrow> io_bind m f s = (Inl e, s')"
  by (simp_all add: io_bind_def)

lemma io_keepsD: "io_keeps R m \<Longrightarrow> m s = (r, s') \<Longrightarrow> R s s'"
  by (metis io_keeps_def snd_conv)

named_theorems io_keeps "what keeps a relation between the states"

lemma io_keeps_return [io_keeps]: "reflp R \<Longrightarrow> io_keeps R (io_return x)"
  by (simp add: io_keeps_def io_return_def reflp_def)

lemma io_keeps_throw [io_keeps]: "reflp R \<Longrightarrow> io_keeps R (io_throw e)"
  by (simp add: io_keeps_def io_throw_def reflp_def)

lemma io_keeps_bind_result:
  assumes "transp R" "io_keeps R m" "\<And>s x s'. m s = (Inr x, s') \<Longrightarrow> io_keeps R (f x)"
  shows "io_keeps R (io_bind m f)"
  unfolding io_keeps_def
proof
  fix s
  obtain r s' where m: "m s = (r, s')" by (cases "m s")
  then have 1: "R s s'" using assms(2) by (rule io_keepsD [rotated])
  show "R s (snd (io_bind m f s))"
  proof (cases r)
    case (Inr x)
    then have "R s' (snd (f x s'))" using assms(3) m by (auto simp: io_keeps_def)
    with 1 m Inr assms(1) show ?thesis by (auto elim: transpE)
  qed (simp add: m 1 io_bind_def)
qed

lemma io_keeps_bind: "transp R \<Longrightarrow> io_keeps R m \<Longrightarrow> (\<And>x. io_keeps R (f x)) \<Longrightarrow> io_keeps R (io_bind m f)"
  by (rule io_keeps_bind_result)

lemma io_keeps_each: "reflp R \<Longrightarrow> transp R \<Longrightarrow> (\<And>x. x \<in> set xs \<Longrightarrow> io_keeps R (f x)) \<Longrightarrow> io_keeps R (io_each f xs)"
  by (induction xs) (auto intro: io_keeps_bind io_keeps_return)

lemma io_keeps_catch: "io_keeps R m \<Longrightarrow> io_keeps R (io_catch m d)"
  unfolding io_keeps_def io_catch_def by (auto split: prod.split sum.split) (metis snd_conv)+

lemma io_bind_Inr: "io_bind m f s = (Inr y, s'') \<longleftrightarrow> (\<exists>x s'. m s = (Inr x, s') \<and> f x s' = (Inr y, s''))"
  by (auto simp: io_bind_def split: prod.split sum.split)

lemma io_bind_fails: "(\<And>x s. \<exists>e. fst (f x s) = Inl e) \<Longrightarrow> \<exists>e. fst (io_bind m f s) = Inl e"
  by (auto simp: io_bind_def split: prod.split sum.split)

lemma io_return_run [simp]: "io_return x s = (Inr x, s)" "io_throw e s = (Inl e, s)"
  by (simp_all add: io_return_def io_throw_def)

section \<open>The tree\<close>

record file_tree =
  ft_files :: "(string list, string) js_map"
  ft_dirs :: "string list list"

datatype file_op = Op_mkdir | Op_write | Op_read | Op_readdir

record host =
  h_cwd :: string
  h_refuses :: "file_op \<Rightarrow> string list \<Rightarrow> string option"
  h_now :: string

type_synonym 'a fs = "('a, file_tree) io"

definition key_of :: "host \<Rightarrow> string \<Rightarrow> string list" where
  "key_of h p = segments (path_resolve (h_cwd h) [p])"

definition is_dir :: "file_tree \<Rightarrow> string list \<Rightarrow> bool" where
  "is_dir t k \<longleftrightarrow> k = [] \<or> k \<in> set (ft_dirs t)"

text \<open>A name that the host does not refuse: the operation goes on.\<close>

definition unless_refused :: "host \<Rightarrow> file_op \<Rightarrow> string list \<Rightarrow> 'a fs \<Rightarrow> 'a fs" where
  "unless_refused h op k m = (case h_refuses h op k of Some e \<Rightarrow> io_throw e | None \<Rightarrow> m)"

text \<open>\<^verbatim>\<open>mkdir(p, { recursive: true })\<close>: every directory on the way, the outermost first.\<close>

definition make_dir :: "host \<Rightarrow> string \<Rightarrow> string list \<Rightarrow> string list \<Rightarrow> unit fs" where
  "make_dir h p whole k t =
     (if is_dir t k then (Inr (), t)
      else if jm_has (ft_files t) k then
        (Inl ((if k = whole then ''EEXIST: file already exists'' else ''ENOTDIR: not a directory'') @ '', mkdir '' @ p), t)
      else unless_refused h Op_mkdir k (\<lambda>t. (Inr (), t\<lparr>ft_dirs := ft_dirs t @ [k]\<rparr>)) t)"

definition mkdir_recursive :: "host \<Rightarrow> string \<Rightarrow> unit fs" where
  "mkdir_recursive h p = io_each (make_dir h p (key_of h p)) (tl (prefixes (key_of h p)))"

text \<open>
  \<^verbatim>\<open>writeFile\<close>, which replaces the content, or appends to it with the flag
  \<^verbatim>\<open>a\<close>. A path that ends with a slash names a directory.
\<close>

definition write_file :: "host \<Rightarrow> bool \<Rightarrow> string \<Rightarrow> string \<Rightarrow> unit fs" where
  "write_file h grow p content t =
     (let k = key_of h p in
      if k = [] \<or> is_dir t k \<or> ends_with_slash p then (Inl (''EISDIR: illegal operation on a directory, open '' @ p), t)
      else if jm_has (ft_files t) (butlast k) then (Inl (''ENOTDIR: not a directory, open '' @ p), t)
      else if \<not> is_dir t (butlast k) then (Inl (''ENOENT: no such file or directory, open '' @ p), t)
      else unless_refused h Op_write k
        (\<lambda>t. (Inr (), t\<lparr>ft_files := jm_set (ft_files t) k
                (if grow then nullish (jm_get (ft_files t) k) [] @ content else content)\<rparr>)) t)"

definition read_file :: "host \<Rightarrow> string \<Rightarrow> string fs" where
  "read_file h p t =
     (let k = key_of h p in
      if is_dir t k then (Inl ''EISDIR: illegal operation on a directory, read'', t)
      else (case jm_get (ft_files t) k of
              None \<Rightarrow> (Inl (''ENOENT: no such file or directory, open '' @ p), t)
            | Some content \<Rightarrow>
                if ends_with_slash p then (Inl (''ENOTDIR: not a directory, open '' @ p), t)
                else unless_refused h Op_read k (io_return content) t))"

text \<open>\<^verbatim>\<open>readdir\<close> with file types, the directories of it; the host's order is not fixed.\<close>

definition read_subdirs :: "host \<Rightarrow> string \<Rightarrow> string list fs" where
  "read_subdirs h p t =
     (let k = key_of h p in
      if is_dir t k then
        unless_refused h Op_readdir k (io_return (map last (filter (\<lambda>d. d \<noteq> [] \<and> butlast d = k) (ft_dirs t)))) t
      else if jm_has (ft_files t) k then (Inl (''ENOTDIR: not a directory, scandir '' @ p), t)
      else (Inl (''ENOENT: no such file or directory, scandir '' @ p), t))"

text \<open>\<^verbatim>\<open>path.dirname\<close>.\<close>

definition path_dirname :: "string \<Rightarrow> string" where
  "path_dirname p =
     (case p of
        [] \<Rightarrow> ''.''
      | c # s \<Rightarrow>
          (case dropWhile (\<lambda>x. x \<noteq> CHR ''/'') (dropWhile (\<lambda>x. x = CHR ''/'') (rev s)) of
             [] \<Rightarrow> (if c = CHR ''/'' then ''/'' else ''.'')
           | _ # v \<Rightarrow> (if c = CHR ''/'' \<and> v = [] then ''//'' else c # rev v)))"

section \<open>Keys\<close>

lemma key_of_absolute: "is_absolute (h_cwd h) \<Longrightarrow> is_absolute p \<Longrightarrow> key_of h p = segments p"
  by (simp add: key_of_def resolve_one segments_plain)

lemma rev_join_last:
  assumes "list_all plain (ss @ [x])"
  shows "dropWhile (\<lambda>c. c \<noteq> CHR ''/'') (dropWhile (\<lambda>c. c = CHR ''/'') (rev (js_join ''/'' (ss @ [x]) @ replicate n (CHR ''/''))))
    = (if ss = [] then [] else CHR ''/'' # rev (js_join ''/'' ss))"
proof -
  have x: "plain x" using assms by simp
  then obtain c w where cw: "rev x = c # w" "c \<noteq> CHR ''/''" "CHR ''/'' \<notin> set w"
    by (cases "rev x") (auto simp: plain_def dest: arg_cong [of _ _ set])
  have 1: "dropWhile (\<lambda>c. c = CHR ''/'') (replicate n (CHR ''/'') @ c # w @ r) = c # w @ r" for r
    using cw(2) by (induction n) simp_all
  moreover have "dropWhile (\<lambda>c. c \<noteq> CHR ''/'') (w @ r) = dropWhile (\<lambda>c. c \<noteq> CHR ''/'') r" for r
    using cw(3) by (induction w) auto
  ultimately show ?thesis
    using cw 1 [of "[]"] by (cases "ss = []") (auto simp add: js_join_append dropWhile_eq_Nil_conv)
qed

lemma dirname_segments:
  assumes "is_absolute p" "path_normalize p = p" "segments p \<noteq> []"
  shows "is_absolute (path_dirname p) \<and> segments (path_dirname p) = butlast (segments p)"
proof -
  obtain ss x where e: "segments p = ss @ [x]" using assms(3) by (cases "segments p" rule: rev_cases) auto
  then have pl: "list_all plain (ss @ [x])" using segments_plain [OF assms(1)] by simp
  have p: "p = CHR ''/'' # js_join ''/'' (ss @ [x]) @ replicate (if ends_with_slash p then 1 else 0) (CHR ''/'')"
    using normalize_absolute [OF assms(1)] unfolding assms(2) e by (cases "ends_with_slash p") simp_all
  have "path_dirname p = (if ss = [] then ''/'' else CHR ''/'' # js_join ''/'' ss)"
    using js_join_plain_ne [of ss "''/''"] pl
    by (subst p) (simp add: path_dirname_def rev_join_last [OF pl] del: rev_append)
  moreover have "segments (CHR ''/'' # js_join ''/'' ss) = ss" using pl by simp
  ultimately show ?thesis using e by (cases "ss = []") simp_all
qed

section \<open>What an operation leaves alone\<close>

text \<open>No file outside the directory \<open>k\<close> is changed, and no directory is lost.\<close>

definition files_kept_outside :: "string list \<Rightarrow> file_tree \<Rightarrow> file_tree \<Rightarrow> bool" where
  "files_kept_outside k t t' \<longleftrightarrow>
     (\<forall>f. \<not> strict_prefix k f \<longrightarrow> jm_get (ft_files t') f = jm_get (ft_files t) f) \<and> set (ft_dirs t) \<subseteq> set (ft_dirs t')"

lemma kept_outside_order [simp, intro]: "reflp (files_kept_outside k)" "transp (files_kept_outside k)"
  by (auto simp: files_kept_outside_def reflp_def transp_def)

lemma unless_refused_keeps: "reflp R \<Longrightarrow> io_keeps R m \<Longrightarrow> io_keeps R (unless_refused h op k m)"
  by (auto simp: unless_refused_def intro: io_keeps_throw split: option.split)

lemma make_dir_keeps [io_keeps]: "io_keeps (files_kept_outside k) (make_dir h p whole d)"
  by (auto simp: io_keeps_def make_dir_def unless_refused_def io_throw_def files_kept_outside_def split: option.split)

lemma mkdir_keeps [io_keeps]: "io_keeps (files_kept_outside k) (mkdir_recursive h p)"
  by (auto simp: mkdir_recursive_def intro!: io_keeps_each make_dir_keeps)

lemma write_keeps: "strict_prefix k (key_of h p) \<or> ends_with_slash p \<Longrightarrow> io_keeps (files_kept_outside k) (write_file h a p c)"
  by (auto simp: io_keeps_def write_file_def Let_def unless_refused_def io_throw_def files_kept_outside_def split: option.split)

lemma read_keeps [io_keeps]: "io_keeps (files_kept_outside k) (read_file h p)" "io_keeps (files_kept_outside k) (read_subdirs h p)"
  by (auto simp: io_keeps_def read_file_def read_subdirs_def Let_def unless_refused_def io_throw_def io_return_def
      files_kept_outside_def split: option.split)

lemma write_file_Inr:
  "write_file h a p c t = (Inr u, t') \<Longrightarrow>
   t' = t\<lparr>ft_files := jm_set (ft_files t) (key_of h p) (if a then nullish (jm_get (ft_files t) (key_of h p)) [] @ c else c)\<rparr> \<and>
   is_dir t (butlast (key_of h p)) \<and> \<not> is_dir t (key_of h p) \<and> \<not> ends_with_slash p"
  by (auto simp: write_file_def Let_def unless_refused_def io_throw_def split: if_splits option.splits)

lemma make_dir_files: "make_dir h p whole k t = (r, t') \<Longrightarrow> ft_files t' = ft_files t"
  by (auto simp: make_dir_def unless_refused_def io_throw_def split: if_splits option.splits)

lemma make_dirs_files: "io_each (make_dir h p whole) ks t = (r, t') \<Longrightarrow> ft_files t' = ft_files t"
  by (induction ks arbitrary: t) (auto simp: io_bind_def dest: make_dir_files split: prod.splits sum.splits)

lemma mkdir_files: "mkdir_recursive h p t = (r, t') \<Longrightarrow> ft_files t' = ft_files t"
  unfolding mkdir_recursive_def by (rule make_dirs_files)

section \<open>When nothing stands in the way\<close>

lemma make_dirs_ok:
  assumes "\<And>op k. h_refuses h op k = None"
  shows "\<forall>k \<in> set ks. jm_get (ft_files t) k = None \<Longrightarrow>
    \<exists>t'. io_each (make_dir h p whole) ks t = (Inr (), t') \<and> ft_files t' = ft_files t \<and>
      (\<forall>k. is_dir t' k \<longleftrightarrow> is_dir t k \<or> k \<in> set ks)"
proof (induction ks arbitrary: t)
  case (Cons k ks)
  let ?t = "if is_dir t k then t else t\<lparr>ft_dirs := ft_dirs t @ [k]\<rparr>"
  have "make_dir h p whole k t = (Inr (), ?t)"
    using Cons.prems assms by (simp add: make_dir_def unless_refused_def jm_has_iff jm_get_None_iff)
  moreover have "ft_files ?t = ft_files t" by simp
  moreover have "is_dir ?t j \<longleftrightarrow> is_dir t j \<or> j = k" for j by (auto simp: is_dir_def)
  ultimately show ?case using Cons.IH [of ?t] Cons.prems by auto
qed simp

lemma mkdir_ok:
  assumes "\<And>op k. h_refuses h op k = None" "\<And>k. prefix k (key_of h p) \<Longrightarrow> jm_get (ft_files t) k = None"
  shows "\<exists>t'. mkdir_recursive h p t = (Inr (), t') \<and> ft_files t' = ft_files t \<and>
      (\<forall>k. is_dir t' k \<longleftrightarrow> is_dir t k \<or> prefix k (key_of h p))"
proof -
  have tl: "k \<in> set (tl (prefixes (key_of h p))) \<Longrightarrow> prefix k (key_of h p)" for k
    by (metis in_set_prefixes list.set_sel(2) prefixes.simps list.sel(2) list.set_cases)
  have set: "k \<noteq> [] \<Longrightarrow> prefix k (key_of h p) \<Longrightarrow> k \<in> set (tl (prefixes (key_of h p)))" for k
    using in_set_prefixes [of k "key_of h p"] by (cases "key_of h p") auto
  obtain t' where "mkdir_recursive h p t = (Inr (), t')" "ft_files t' = ft_files t"
      "\<forall>k. is_dir t' k \<longleftrightarrow> is_dir t k \<or> k \<in> set (tl (prefixes (key_of h p)))"
    using make_dirs_ok [OF assms(1), of "tl (prefixes (key_of h p))" t p "key_of h p"] assms(2) tl
    unfolding mkdir_recursive_def by blast
  moreover have "is_dir t []" by (simp add: is_dir_def)
  ultimately show ?thesis using tl set by metis
qed

lemma write_file_ok:
  assumes "\<And>op k. h_refuses h op k = None" "key_of h p \<noteq> []" "\<not> is_dir t (key_of h p)" "\<not> ends_with_slash p"
    "is_dir t (butlast (key_of h p))" "jm_get (ft_files t) (butlast (key_of h p)) = None"
  shows "write_file h a p c t = (Inr (), t\<lparr>ft_files := jm_set (ft_files t) (key_of h p)
    (if a then nullish (jm_get (ft_files t) (key_of h p)) [] @ c else c)\<rparr>)"
  using assms by (simp add: write_file_def Let_def unless_refused_def jm_has_iff jm_get_None_iff)

end
