(* ===== verification/JS_Json.thy ===== *)
theory JS_Json
  imports JS_Values JS_Collections
begin

text \<open>
  \<^verbatim>\<open>JSON.stringify\<close> with an indentation, and \<^verbatim>\<open>JSON.parse\<close>, on the untyped values of
  \<^verbatim>\<open>JS_Values\<close>: numbers are integers, and an escaped code unit is below 256, so a text with
  another number or code unit is not one the model parses. The parser has fuel, twice the length
  of the text and more, which every text that is written here leaves enough of. The theorem:
  what is printed is read back.
\<close>

section \<open>Printing\<close>

lemma set_object_entries [simp]: "set (object_entries m) = set m"
  using mset_object_entries by (rule mset_eq_setD)

lemma size_member [termination_simp]: "(k, v) \<in> set ps \<Longrightarrow> size (v :: jsval) < Suc (size_list (size_prod (\<lambda>_. 0) size) ps)"
  by (induction ps) auto

lemma object_entries_names: "\<forall>k \<in> set (map fst ps). array_index k = None \<Longrightarrow> object_entries ps = ps"
proof -
  assume a: "\<forall>k \<in> set (map fst ps). array_index k = None"
  then have "filter (\<lambda>(k, v). array_index k \<noteq> None) ps = []" by (auto simp: filter_empty_conv)
  moreover have "filter (\<lambda>(k, v). array_index k = None) ps = ps" using a by (intro filter_True) auto
  ultimately show ?thesis unfolding object_entries_def by (simp only: js_sort_simps append_Nil)
qed

text \<open>An undefined member is left out; an undefined element is written as null.\<close>

fun json_pretty :: "string \<Rightarrow> jsval \<Rightarrow> string" where
  "json_pretty ind JUndefined = ''null''"
| "json_pretty ind JNull = ''null''"
| "json_pretty ind (JBool b) = (if b then ''true'' else ''false'')"
| "json_pretty ind (JNum n) = int_str n"
| "json_pretty ind (JStr s) = json_string s"
| "json_pretty ind (JArr vs) =
     (if vs = [] then ''[]''
      else ''['' @ [CHR 0x0A] @
        js_join ('','' @ [CHR 0x0A]) (map (\<lambda>v. ind @ ''  '' @ json_pretty (ind @ ''  '') v) vs) @
        [CHR 0x0A] @ ind @ '']'')"
| "json_pretty ind (JObj ps) =
     (let shown = object_entries (filter (\<lambda>(k, v). v \<noteq> JUndefined) ps) in
      if shown = [] then ''{}''
      else ''{'' @ [CHR 0x0A] @
        js_join ('','' @ [CHR 0x0A])
          (map (\<lambda>(k, v). ind @ ''  '' @ json_string k @ '': '' @ json_pretty (ind @ ''  '') v) shown) @
        [CHR 0x0A] @ ind @ ''}'')"

section \<open>Parsing\<close>

definition json_space :: "char \<Rightarrow> bool" where
  "json_space c \<longleftrightarrow> c = CHR '' '' \<or> c = CHR 0x09 \<or> c = CHR 0x0A \<or> c = CHR 0x0D"

definition skip_space :: "string \<Rightarrow> string" where
  "skip_space s = dropWhile json_space s"

definition hex_val :: "char \<Rightarrow> nat option" where
  "hex_val c =
     (let n = of_char c :: nat in
      if 48 \<le> n \<and> n \<le> 57 then Some (n - 48)
      else if 97 \<le> n \<and> n \<le> 102 then Some (n - 87)
      else if 65 \<le> n \<and> n \<le> 70 then Some (n - 55)
      else None)"

text \<open>The code unit after a backslash and \<^verbatim>\<open>u\<close>; the model has those below 256.\<close>

definition unicode_char :: "char \<Rightarrow> char \<Rightarrow> char \<Rightarrow> char \<Rightarrow> char option" where
  "unicode_char a b c d =
     (case (hex_val a, hex_val b, hex_val c, hex_val d) of
        (Some 0, Some 0, Some h, Some l) \<Rightarrow> Some (char_of (16 * h + l))
      | _ \<Rightarrow> None)"

definition unescape :: "char \<Rightarrow> char option" where
  "unescape c =
     (if c = CHR 0x22 \<or> c = CHR 0x5C \<or> c = CHR ''/'' then Some c
      else if c = CHR ''b'' then Some (CHR 0x08)
      else if c = CHR ''t'' then Some (CHR 0x09)
      else if c = CHR ''n'' then Some (CHR 0x0A)
      else if c = CHR ''f'' then Some (CHR 0x0C)
      else if c = CHR ''r'' then Some (CHR 0x0D)
      else None)"

text \<open>The characters up to the closing quote, and what follows it.\<close>

definition add_char :: "char option \<Rightarrow> (string \<times> string) option \<Rightarrow> (string \<times> string) option" where
  "add_char c r = (case (c, r) of (Some c, Some (s, rest)) \<Rightarrow> Some (c # s, rest) | _ \<Rightarrow> None)"

fun json_chars :: "string \<Rightarrow> (string \<times> string) option" where
  "json_chars [] = None"
| "json_chars (c # s) =
     (if c = CHR 0x22 then Some ([], s)
      else if c = CHR 0x5C then
        (case s of
           [] \<Rightarrow> None
         | e # t \<Rightarrow>
             if e = CHR ''u'' then
               (case t of
                  h1 # h2 # h3 # h4 # u \<Rightarrow> add_char (unicode_char h1 h2 h3 h4) (json_chars u)
                | _ \<Rightarrow> None)
             else add_char (unescape e) (json_chars t))
      else if (of_char c :: nat) < 32 then None
      else add_char (Some c) (json_chars s))"

definition is_digit :: "char \<Rightarrow> bool" where
  "is_digit c \<longleftrightarrow> digit_val c \<noteq> None"

definition json_int :: "string \<Rightarrow> (jsval \<times> string) option" where
  "json_int s =
     (let neg = (case s of c # _ \<Rightarrow> c = CHR ''-'' | [] \<Rightarrow> False);
          t = (if neg then tl s else s);
          ds = takeWhile is_digit t;
          rest = dropWhile is_digit t
      in if ds = [] \<or> (hd ds = CHR ''0'' \<and> length ds > 1) \<or> (rest \<noteq> [] \<and> hd rest \<in> set ''.eE'') then None
         else (case digits_val 0 ds of
                 None \<Rightarrow> None
               | Some n \<Rightarrow> Some (JNum (if neg then - int n else int n), rest)))"

definition json_literal :: "string \<Rightarrow> (jsval \<times> string) option" where
  "json_literal s =
     (if js_starts_with s ''null'' then Some (JNull, drop 4 s)
      else if js_starts_with s ''true'' then Some (JBool True, drop 4 s)
      else if js_starts_with s ''false'' then Some (JBool False, drop 5 s)
      else json_int s)"

fun json_value :: "nat \<Rightarrow> string \<Rightarrow> (jsval \<times> string) option"
  and json_elems :: "nat \<Rightarrow> string \<Rightarrow> (jsval list \<times> string) option"
  and json_members :: "nat \<Rightarrow> (string \<times> jsval) list \<Rightarrow> string \<Rightarrow> ((string \<times> jsval) list \<times> string) option"
where
  "json_value 0 s = None"
| "json_value (Suc n) s =
     (case skip_space s of
        [] \<Rightarrow> None
      | c # t \<Rightarrow>
          if c = CHR 0x22 then map_option (\<lambda>(x, r). (JStr x, r)) (json_chars t)
          else if c = CHR ''['' then
            (case skip_space t of
               d # u \<Rightarrow> if d = CHR '']'' then Some (JArr [], u)
                         else map_option (\<lambda>(vs, r). (JArr vs, r)) (json_elems n (d # u))
             | [] \<Rightarrow> None)
          else if c = CHR ''{'' then
            (case skip_space t of
               d # u \<Rightarrow> if d = CHR ''}'' then Some (JObj [], u)
                         else map_option (\<lambda>(ps, r). (JObj ps, r)) (json_members n [] (d # u))
             | [] \<Rightarrow> None)
          else json_literal (c # t))"
| "json_elems 0 s = None"
| "json_elems (Suc n) s =
     (case json_value n s of
        None \<Rightarrow> None
      | Some (v, r) \<Rightarrow>
          (case skip_space r of
             [] \<Rightarrow> None
           | c # u \<Rightarrow>
               if c = CHR '']'' then Some ([v], u)
               else if c = CHR '','' then map_option (\<lambda>(vs, r). (v # vs, r)) (json_elems n u)
               else None))"
| "json_members 0 acc s = None"
| "json_members (Suc n) acc s =
     (case skip_space s of
        [] \<Rightarrow> None
      | q # t \<Rightarrow>
          if q \<noteq> CHR 0x22 then None
          else
            (case json_chars t of
               None \<Rightarrow> None
             | Some (k, r) \<Rightarrow>
                 (case skip_space r of
                    [] \<Rightarrow> None
                  | c # u \<Rightarrow>
                      if c \<noteq> CHR '':'' then None
                      else
                        (case json_value n u of
                           None \<Rightarrow> None
                         | Some (v, r) \<Rightarrow>
                             (case skip_space r of
                                [] \<Rightarrow> None
                              | e # w \<Rightarrow>
                                  if e = CHR ''}'' then Some (jm_set acc k v, w)
                                  else if e = CHR '','' then json_members n (jm_set acc k v) w
                                  else None)))))"

definition json_parse :: "string \<Rightarrow> jsval option" where
  "json_parse s =
     (case json_value (2 * length s + 2) s of
        None \<Rightarrow> None
      | Some (v, r) \<Rightarrow> if skip_space r = [] then Some v else None)"

section \<open>Reading back what was printed\<close>

fun json_ok :: "jsval \<Rightarrow> bool" where
  "json_ok JUndefined \<longleftrightarrow> False"
| "json_ok (JArr vs) \<longleftrightarrow> list_all json_ok vs"
| "json_ok (JObj ps) \<longleftrightarrow> object_entries ps = ps \<and> distinct (map fst ps) \<and> list_all (\<lambda>(k, v). json_ok v) ps"
| "json_ok _ \<longleftrightarrow> True"

lemma json_ok_defined: "json_ok v \<Longrightarrow> v \<noteq> JUndefined"
  by auto

lemma hex_val_char: "n < 16 \<Longrightarrow> hex_val (hex_char n) = Some n"
  by (auto simp: hex_val_def hex_char_def)

lemma add_char_simps [simp]: "add_char (Some c) (Some (s, r)) = Some (c # s, r)"
  by (simp add: add_char_def)

lemma char_eq_of: "of_char c = (n :: nat) \<Longrightarrow> c = char_of n"
  by auto

lemma special_chars: "char_of (34 :: nat) = CHR 0x22" "char_of (92 :: nat) = CHR 0x5C"
    "char_of (8 :: nat) = CHR 0x08" "char_of (9 :: nat) = CHR 0x09" "char_of (10 :: nat) = CHR 0x0A"
    "char_of (12 :: nat) = CHR 0x0C" "char_of (13 :: nat) = CHR 0x0D"
  by (rule char_eq_of [symmetric], simp)+

lemma json_chars_escape: "json_chars (json_escape c @ t) = add_char (Some c) (json_chars t)"
proof -
  let ?n = "of_char c :: nat"
  have n: "c = char_of ?n" by simp
  have hex: "hex_val CHR ''0'' = Some 0" by (simp add: hex_val_def)
  consider "?n = 34" | "?n = 92" | "?n = 8" | "?n = 9" | "?n = 10" | "?n = 12" | "?n = 13"
    | "?n \<notin> {8, 9, 10, 12, 13}" "?n < 32" | "?n \<notin> {34, 92}" "\<not> ?n < 32" by blast
  then show ?thesis
  proof cases
    case 8
    then have "json_escape c = CHR 0x5C # ''u00'' @ [hex_char (?n div 16), hex_char (?n mod 16)]"
      by (simp add: json_escape_def Let_def special_chars)
    moreover have "unicode_char (CHR ''0'') (CHR ''0'') (hex_char (?n div 16)) (hex_char (?n mod 16)) = Some c"
      using 8 by (simp add: unicode_char_def hex hex_val_char)
    ultimately show ?thesis by simp
  next
    case 9
    then have "json_escape c = [c]" "c \<noteq> CHR 0x22" "c \<noteq> CHR 0x5C" by (auto simp: json_escape_def)
    then show ?thesis using 9 by simp
  qed (auto dest!: char_eq_of simp: json_escape_def unescape_def special_chars)
qed

lemma json_chars_string: "json_chars (concat (map json_escape s) @ CHR 0x22 # rest) = Some (s, rest)"
  by (induction s) (simp_all add: json_chars_escape)

section \<open>Numerals\<close>

lemma is_digit_char: "n < 10 \<Longrightarrow> is_digit (digit_char n)"
  by (simp add: is_digit_def)

lemma nat_str_digits: "list_all is_digit (nat_str n)"
proof (induction n rule: nat_str.induct)
  case (1 n)
  then show ?case by (subst nat_str.simps) (auto simp: is_digit_char)
qed

lemma nat_str_leading: "nat_str n = CHR ''0'' # s \<Longrightarrow> n = 0 \<and> s = []"
proof (induction n arbitrary: s rule: nat_str.induct)
  case (1 n)
  show ?case
  proof (cases "n < 10")
    case True
    with 1(2) have "digit_val (digit_char n) = Some 0" "s = []" by (auto simp: nat_str.simps [of n] digit_val_def)
    with True show ?thesis by simp
  next
    case False
    then obtain c w where w: "nat_str (n div 10) = c # w" using nat_str_ne by (meson list.exhaust)
    with False 1(2) have "c = CHR ''0''" by (simp add: nat_str.simps [of n])
    with w 1(1) [OF False] False show ?thesis by auto
  qed
qed

definition ends_number :: "string \<Rightarrow> bool" where
  "ends_number rest \<longleftrightarrow> (case rest of [] \<Rightarrow> True | c # _ \<Rightarrow> \<not> is_digit c \<and> c \<notin> set ''.eE'')"

lemma takeWhile_digits:
  "list_all is_digit ds \<Longrightarrow> ends_number rest \<Longrightarrow> takeWhile is_digit (ds @ rest) = ds \<and> dropWhile is_digit (ds @ rest) = rest"
  by (cases rest) (auto simp: ends_number_def list_all_iff takeWhile_append dropWhile_append3)

lemma json_int_nat:
  assumes "ends_number rest"
  shows "json_int (nat_str n @ rest) = Some (JNum (int n), rest)" (is ?a)
    and "json_int (CHR ''-'' # nat_str n @ rest) = Some (JNum (- int n), rest)" (is ?b)
proof -
  obtain c s where c: "nat_str n = c # s" using nat_str_ne by (meson list.exhaust)
  have d: "is_digit c" using nat_str_digits [of n] c by simp
  then have m: "c \<noteq> CHR ''-''" by (auto simp: is_digit_def digit_val_def)
  have z: "\<not> (hd (nat_str n) = CHR ''0'' \<and> length (nat_str n) > 1)"
    using nat_str_leading [of n s] c by auto
  have r: "\<not> (rest \<noteq> [] \<and> hd rest \<in> set ''.eE'')" using assms by (cases rest) (auto simp: ends_number_def)
  note t = takeWhile_digits [OF nat_str_digits assms, of n]
  have neg: "(case nat_str n @ rest of c # _ \<Rightarrow> c = CHR ''-'' | [] \<Rightarrow> False) = False" using c m by simp
  show ?a ?b
    using t z r by (simp_all only: json_int_def neg Let_def list.case list.sel if_True if_False nat_str_ne
      digits_val_nat_str option.case simp_thms)
qed

section \<open>Values\<close>

definition spaces :: "string \<Rightarrow> bool" where
  "spaces w \<longleftrightarrow> list_all json_space w"

lemma spaces_simps [simp]: "spaces []" "spaces (c # w) \<longleftrightarrow> json_space c \<and> spaces w" "spaces (v @ w) \<longleftrightarrow> spaces v \<and> spaces w"
  by (simp_all add: spaces_def)

lemma skip_spaces [simp]: "spaces w \<Longrightarrow> skip_space (w @ s) = skip_space s"
  by (induction w) (auto simp: skip_space_def)

lemma skip_space_Cons [simp]: "json_space c \<Longrightarrow> skip_space (c # s) = skip_space s" "\<not> json_space c \<Longrightarrow> skip_space (c # s) = c # s"
  by (simp_all add: skip_space_def)

lemma json_space_chars [simp]: "json_space CHR '' ''" "json_space CHR 0x0A" "\<not> json_space CHR '',''" "\<not> json_space CHR '':''"
    "\<not> json_space CHR '']''" "\<not> json_space CHR ''}''" "\<not> json_space CHR 0x22" "\<not> json_space CHR ''[''" "\<not> json_space CHR ''{''"
  by (simp_all add: json_space_def)

text \<open>The text is read as the value, whatever follows that does not continue a number.\<close>

definition reads :: "string \<Rightarrow> jsval \<Rightarrow> bool" where
  "reads t v \<longleftrightarrow> (\<forall>n rest. ends_number rest \<longrightarrow> 2 * length t \<le> n \<longrightarrow> json_value n (t @ rest) = Some (v, rest))"

lemma readsD: "reads t v \<Longrightarrow> ends_number rest \<Longrightarrow> 2 * length t \<le> n \<Longrightarrow> json_value n (t @ rest) = Some (v, rest)"
  by (simp add: reads_def)

lemma reads_space: "reads t v \<Longrightarrow> spaces w \<Longrightarrow> reads (w @ t) v"
  unfolding reads_def
proof (intro allI impI)
  fix n rest
  assume "\<forall>n rest. ends_number rest \<longrightarrow> 2 * length t \<le> n \<longrightarrow> json_value n (t @ rest) = Some (v, rest)"
    and w: "spaces w" and r: "ends_number rest" "2 * length (w @ t) \<le> n"
  then have "json_value n (t @ rest) = Some (v, rest)" by simp
  with w show "json_value n ((w @ t) @ rest) = Some (v, rest)" by (cases n) simp_all
qed

lemma ends_number_simps [simp]: "ends_number (CHR '','' # s)" "ends_number (CHR 0x0A # s)" "ends_number []"
  by (simp_all add: ends_number_def is_digit_def digit_val_def)

lemma elems_read:
  assumes "\<And>v. v \<in> set vs \<Longrightarrow> reads (f v) v" "vs \<noteq> []" "spaces w"
    "2 * length (js_join ('','' @ [CHR 0x0A]) (map f vs)) + 1 \<le> n"
  shows "json_elems n (js_join ('','' @ [CHR 0x0A]) (map f vs) @ CHR 0x0A # w @ CHR '']'' # rest) = Some (vs, rest)"
  using assms
proof (induction vs arbitrary: n)
  case (Cons v vs)
  obtain m where m: "n = Suc m" using Cons.prems(4) by (cases n) auto
  have v: "reads (f v) v" using Cons.prems(1) by simp
  show ?case
  proof (cases vs)
    case Nil
    then show ?thesis using readsD [OF v, of "CHR 0x0A # w @ CHR '']'' # rest" m] Cons.prems(3,4) by (simp add: m)
  next
    case (Cons u us)
    let ?more = "js_join ('','' @ [CHR 0x0A]) (map f vs) @ CHR 0x0A # w @ CHR '']'' # rest"
    have "2 * length (js_join ('','' @ [CHR 0x0A]) (map f vs)) + 1 \<le> m"
      using Cons.prems(4) by (simp add: m Cons)
    then obtain l where l: "m = Suc l" by (cases m) auto
    have more: "json_elems m ?more = Some (vs, rest)"
      using \<open>2 * length (js_join _ _) + 1 \<le> m\<close> Cons.prems(1,3) Cons by (intro Cons.IH) auto
    have "\<And>s. json_elems m (CHR 0x0A # s) = json_elems m s"
    proof -
      fix s
      have "json_value l (CHR 0x0A # s) = json_value l s" by (cases l) simp_all
      then show "json_elems m (CHR 0x0A # s) = json_elems m s" by (simp add: l)
    qed
    moreover have "json_value m (f v @ CHR '','' # CHR 0x0A # ?more) = Some (v, CHR '','' # CHR 0x0A # ?more)"
      using Cons.prems(4) by (intro readsD [OF v]) (simp_all add: m Cons)
    ultimately show ?thesis using more by (simp add: m Cons)
  qed
qed simp

abbreviation member_text :: "string \<Rightarrow> (jsval \<Rightarrow> string) \<Rightarrow> string \<times> jsval \<Rightarrow> string" where
  "member_text w f \<equiv> \<lambda>(k, v). w @ json_string k @ '': '' @ f v"

lemma member_read:
  assumes "spaces w" "reads t v" "ends_number rest" "2 * length (w @ json_string k @ '': '' @ t) \<le> Suc n"
  shows "json_members (Suc n) acc ((w @ json_string k @ '': '' @ t) @ rest) =
     (case skip_space rest of
        [] \<Rightarrow> None
      | e # s \<Rightarrow> if e = CHR ''}'' then Some (jm_set acc k v, s)
                 else if e = CHR '','' then json_members n (jm_set acc k v) s else None)"
proof -
  have q: "json_string k = CHR 0x22 # concat (map json_escape k) @ [CHR 0x22]"
    by (simp add: json_string_def special_chars)
  have "json_value n ((CHR '' '' # t) @ rest) = Some (v, rest)"
    using assms(2-4) by (intro readsD [OF reads_space [of t v "'' ''", simplified]]) simp_all
  then show ?thesis
    using assms(1) by (simp add: q json_chars_string)
qed

lemma members_read:
  assumes "\<And>k v. (k, v) \<in> set ps \<Longrightarrow> reads (f v) v" "ps \<noteq> []" "spaces w" "spaces w'"
    "distinct (map fst ps)" "set (map fst ps) \<inter> set (jm_keys acc) = {}"
    "2 * length (js_join ('','' @ [CHR 0x0A]) (map (member_text w f) ps)) + 1 \<le> n"
  shows "json_members n acc (js_join ('','' @ [CHR 0x0A]) (map (member_text w f) ps) @ CHR 0x0A # w' @ CHR ''}'' # rest) =
    Some (acc @ ps, rest)"
  using assms
proof (induction ps arbitrary: n acc)
  case (Cons p ps)
  obtain k v where p: "p = (k, v)" by (cases p)
  obtain m where m: "n = Suc m" using Cons.prems(7) by (cases n) auto
  have v: "reads (f v) v" by (rule Cons.prems(1) [of k]) (simp add: p)
  have new: "jm_set acc k v = acc @ [(k, v)]" using Cons.prems(6) p by (simp add: jm_set_append_new)
  show ?case
  proof (cases ps)
    case Nil
    then show ?thesis
      using member_read [OF Cons.prems(3) v, of "CHR 0x0A # w' @ CHR ''}'' # rest" k m acc] Cons.prems(4,7)
      by (simp add: m p new)
  next
    case (Cons u us)
    let ?more = "js_join ('','' @ [CHR 0x0A]) (map (member_text w f) ps) @ CHR 0x0A # w' @ CHR ''}'' # rest"
    have len: "2 * length (js_join ('','' @ [CHR 0x0A]) (map (member_text w f) ps)) + 1 \<le> m"
      using Cons.prems(7) by (simp add: m Cons p)
    have more: "json_members m (acc @ [(k, v)]) ?more = Some ((acc @ [(k, v)]) @ ps, rest)"
    proof (rule Cons.IH)
      show "set (map fst ps) \<inter> set (jm_keys (acc @ [(k, v)])) = {}"
        using Cons.prems(5,6) p by (auto simp: jm_keys_def)
    qed (use Cons.prems len Cons in auto)
    moreover have "json_members m acc' (CHR 0x0A # s) = json_members m acc' s" for acc' s by (cases m) simp_all
    moreover have "json_members (Suc m) acc ((w @ json_string k @ '': '' @ f v) @ CHR '','' # CHR 0x0A # ?more) =
        json_members m (jm_set acc k v) (CHR 0x0A # ?more)"
      using Cons.prems(3,7) by (subst member_read [OF _ v]) (simp_all add: m Cons p)
    ultimately show ?thesis by (simp add: m Cons p new)
  qed
qed simp

text \<open>What follows an opening bracket or brace begins with neither white space nor its closing one.\<close>

lemma json_elems_space: "json_space c \<Longrightarrow> json_elems n (c # s) = json_elems n s"
proof (cases n)
  case (Suc m)
  moreover have "json_space c \<Longrightarrow> json_value m (c # s) = json_value m s" by (cases m) simp_all
  ultimately show "json_space c \<Longrightarrow> json_elems n (c # s) = json_elems n s" by simp
qed simp

lemma json_literal_bracket: "json_literal (CHR '']'' # t) = None"
  by (simp add: json_literal_def js_starts_with_def json_int_def is_digit_def digit_val_def)

lemma json_value_some: "json_value n s = Some x \<Longrightarrow> \<exists>c t. skip_space s = c # t \<and> c \<noteq> CHR '']''"
  using json_literal_bracket by (cases n; cases "skip_space s") (auto split: if_splits)

lemma skip_idem [simp]: "skip_space (skip_space s) = skip_space s"
  by (simp add: skip_space_def)

lemma json_value_skip: "json_value n (skip_space s) = json_value n s"
  by (cases n) simp_all

lemma json_value_array:
  assumes "json_elems n s = Some (vs, rest)"
  shows "json_value (Suc n) (CHR ''['' # s) = Some (JArr vs, rest)"
proof -
  obtain m where m: "n = Suc m" using assms by (cases n) auto
  then obtain x where "json_value m s = Some x" using assms by (auto split: option.splits)
  then obtain c t where c: "skip_space s = c # t" "c \<noteq> CHR '']''" using json_value_some by blast
  have "json_elems n (skip_space s) = json_elems n s" by (simp add: m json_value_skip)
  then have "json_elems n (c # t) = Some (vs, rest)" using assms c by simp
  then show ?thesis using c by simp
qed

lemma json_value_object:
  assumes "json_members n [] s = Some (ps, rest)"
  shows "json_value (Suc n) (CHR ''{'' # s) = Some (JObj ps, rest)"
proof -
  obtain m where m: "n = Suc m" using assms by (cases n) auto
  then obtain t where c: "skip_space s = CHR 0x22 # t" using assms by (auto split: list.splits if_splits)
  have "json_members n [] (skip_space s) = json_members n [] s" by (simp add: m)
  then have "json_members n [] (CHR 0x22 # t) = Some (ps, rest)" using assms c by simp
  then show ?thesis using c by simp
qed

lemma int_str_read:
  assumes "ends_number rest"
  shows "json_value (Suc n) (int_str i @ rest) = Some (JNum i, rest)"
proof -
  obtain c s where c: "int_str i = c # s" and d: "is_digit c \<or> c = CHR ''-''"
  proof (cases "i < 0")
    case True
    then show thesis by (intro that [of "CHR ''-''"]) (simp_all add: int_str_def)
  next
    case False
    obtain c s where "nat_str (nat i) = c # s" using nat_str_ne by (meson list.exhaust)
    with False nat_str_digits [of "nat i"] show thesis by (intro that [of c s]) (simp_all add: int_str_def)
  qed
  have l: "json_literal (int_str i @ rest) = json_int (int_str i @ rest)"
    using d c by (auto simp: json_literal_def js_starts_with_def is_digit_def digit_val_def)
  have "\<not> json_space c" "c \<noteq> CHR 0x22" "c \<noteq> CHR ''[''" "c \<noteq> CHR ''{''"
    using d by (auto simp: is_digit_def digit_val_def json_space_def)
  then have "json_value (Suc n) (int_str i @ rest) = json_literal (int_str i @ rest)" by (simp add: c)
  also have "\<dots> = Some (JNum i, rest)"
    unfolding l using json_int_nat [OF assms] by (simp add: int_str_def)
  finally show ?thesis .
qed

lemma pretty_ne [simp]: "json_pretty ind v \<noteq> []"
  by (cases v) (auto simp: int_str_def json_string_def Let_def)

lemma reads_SucI:
  "t \<noteq> [] \<Longrightarrow> (\<And>n rest. ends_number rest \<Longrightarrow> 2 * length t \<le> Suc n \<Longrightarrow> json_value (Suc n) (t @ rest) = Some (v, rest)) \<Longrightarrow> reads t v"
  unfolding reads_def by (intro allI impI) (metis le_zero_eq length_0_conv mult_eq_0_iff not0_implies_Suc zero_neq_numeral)

lemma object_entries_defined:
  "json_ok (JObj ps) \<Longrightarrow> object_entries (filter (\<lambda>(k, v). v \<noteq> JUndefined) ps) = ps"
proof -
  assume ok: "json_ok (JObj ps)"
  then have "filter (\<lambda>(k, v). v \<noteq> JUndefined) ps = ps"
    by (intro filter_True) (auto simp: list_all_iff dest: json_ok_defined)
  with ok show ?thesis by simp
qed

lemma pretty_reads: "json_ok v \<Longrightarrow> spaces ind \<Longrightarrow> reads (json_pretty ind v) v"
proof (induction ind v rule: json_pretty.induct)
  case (4 ind i)
  show ?case
    using pretty_ne [of ind "JNum i"] by (intro reads_SucI) (simp_all add: int_str_read del: json_value.simps)
next
  case (5 ind s)
  then show ?case by (intro reads_SucI) (simp_all add: json_string_def special_chars json_chars_string)
next
  case (6 ind vs)
  show ?case
  proof (cases "vs = []")
    case False
    let ?f = "\<lambda>v. ind @ ''  '' @ json_pretty (ind @ ''  '') v"
    have f: "reads (?f v) v" if "v \<in> set vs" for v
      using 6 that False reads_space [of "json_pretty (ind @ ''  '') v" v "ind @ ''  ''"]
      by (simp add: list_all_iff)
    show ?thesis
    proof (rule reads_SucI [OF pretty_ne])
      fix n rest assume n: "2 * length (json_pretty ind (JArr vs)) \<le> Suc n"
      have "json_elems n (js_join ('','' @ [CHR 0x0A]) (map ?f vs) @ CHR 0x0A # ind @ CHR '']'' # rest) = Some (vs, rest)"
        using n False 6(3) by (intro elems_read f) simp_all
      then show "json_value (Suc n) (json_pretty ind (JArr vs) @ rest) = Some (JArr vs, rest)"
        using False by (simp add: json_value_array json_elems_space del: json_value.simps)
    qed
  qed (intro reads_SucI, simp_all)
next
  case (7 ind ps)
  note shown = object_entries_defined [OF 7(2)]
  show ?case
  proof (cases "ps = []")
    case False
    let ?f = "json_pretty (ind @ ''  '')"
    have f: "reads (?f v) v" if "(k, v) \<in> set ps" for k v
      using 7 that False shown by (auto simp: list_all_iff)
    show ?thesis
    proof (rule reads_SucI [OF pretty_ne])
      fix n rest assume n: "2 * length (json_pretty ind (JObj ps)) \<le> Suc n"
      let ?s = "js_join ('','' @ [CHR 0x0A]) (map (member_text (ind @ ''  '') ?f) ps) @ CHR 0x0A # ind @ CHR ''}'' # rest"
      have "json_members n [] ?s = Some ([] @ ps, rest)"
        using n False 7(2,3) shown by (intro members_read f) (simp_all add: jm_keys_def Let_def)
      then have "json_members n [] (CHR 0x0A # ?s) = Some (ps, rest)" by (cases n) simp_all
      then show "json_value (Suc n) (json_pretty ind (JObj ps) @ rest) = Some (JObj ps, rest)"
        using False shown by (simp add: json_value_object Let_def del: json_value.simps)
    qed
  qed (intro reads_SucI, simp_all add: object_entries_def)
qed (auto intro!: reads_SucI simp: json_literal_def js_starts_with_def json_space_def)

theorem json_roundtrip: "json_ok v \<Longrightarrow> json_parse (json_pretty [] v) = Some v"
  using readsD [OF pretty_reads, of v "[]" "[]" "2 * length (json_pretty [] v) + 2"]
  by (simp add: json_parse_def skip_space_def)

text \<open>A trailing line break changes nothing.\<close>

theorem json_roundtrip_line: "json_ok v \<Longrightarrow> json_parse (json_pretty [] v @ [CHR 0x0A]) = Some v"
proof -
  assume v: "json_ok v"
  have "json_value (2 * length (json_pretty [] v @ [CHR 0x0A]) + 2) (json_pretty [] v @ [CHR 0x0A]) = Some (v, [CHR 0x0A])"
    using v by (intro readsD [OF pretty_reads]) simp_all
  then show ?thesis unfolding json_parse_def by (simp only: option.case prod.case) (simp add: skip_space_def)
qed

end
