(* ===== verification/Engineering_Workspace.thy ===== *)
theory Engineering_Workspace
  imports JS_Files JS_Json
begin

text \<open>
  The workspace of an engineering project and the tools that act in it,
  \<^verbatim>\<open>src/agents/engineering/workspace.ts\<close> and \<^verbatim>\<open>tools.ts\<close>. A command run by a tool is a
  parameter: it acts on the files as it likes. The version of a deliverable is an integer.
\<close>

section \<open>The workspace\<close>

record workspace_snapshot =
  ws_project_id :: string
  ws_active_stage :: string
  ws_context :: "(string \<times> jsval) list"
  ws_saved_at :: string

datatype audit_kind = Ak_command | Ak_test | Ak_approval | Ak_handoff | Ak_recovery | Ak_artifact

fun audit_kind_str :: "audit_kind \<Rightarrow> string" where
  "audit_kind_str Ak_command = ''command''"
| "audit_kind_str Ak_test = ''test''"
| "audit_kind_str Ak_approval = ''approval''"
| "audit_kind_str Ak_handoff = ''handoff''"
| "audit_kind_str Ak_recovery = ''recovery''"
| "audit_kind_str Ak_artifact = ''artifact''"

record workspace_audit =
  wa_timestamp :: string
  wa_kind :: audit_kind
  wa_detail :: string

definition getProjectWorkspaceRoot :: "string \<Rightarrow> string \<Rightarrow> string \<Rightarrow> string" where
  "getProjectWorkspaceRoot baseDir clientId projectId = path_join [baseDir, clientId, projectId]"

definition ensureWorkspaceStructure :: "host \<Rightarrow> string \<Rightarrow> (string \<times> string \<times> string) fs" where
  "ensureWorkspaceStructure h workspaceRoot =
     (let artifactsDir = path_join [workspaceRoot, ''artifacts''];
          auditDir = path_join [workspaceRoot, ''audit'']
      in io_bind (mkdir_recursive h artifactsDir) (\<lambda>_.
         io_bind (mkdir_recursive h auditDir) (\<lambda>_.
         io_return (workspaceRoot, artifactsDir, auditDir))))"

definition writeWorkspaceArtifact :: "host \<Rightarrow> string \<Rightarrow> string \<Rightarrow> string \<Rightarrow> string fs" where
  "writeWorkspaceArtifact h workspaceRoot relativePath content =
     (let fullPath = path_join [workspaceRoot, relativePath];
          normalized = path_normalize fullPath;
          normalizedRoot = path_normalize (workspaceRoot @ ''/'')
      in if \<not> js_starts_with normalized normalizedRoot then
           io_throw (''Artifact path escapes workspace: '' @ relativePath)
         else
           io_bind (mkdir_recursive h (path_dirname fullPath)) (\<lambda>_.
           io_bind (write_file h False fullPath content) (\<lambda>_.
           io_return fullPath)))"

definition audit_line :: "workspace_audit \<Rightarrow> string" where
  "audit_line entry =
     json_object [(''timestamp'', json_string (wa_timestamp entry)),
       (''kind'', json_string (audit_kind_str (wa_kind entry))),
       (''detail'', json_string (wa_detail entry))] @ [CHR 0x0A]"

definition appendAuditEntry :: "host \<Rightarrow> string \<Rightarrow> workspace_audit \<Rightarrow> string fs" where
  "appendAuditEntry h workspaceRoot entry =
     io_bind (ensureWorkspaceStructure h workspaceRoot) (\<lambda>(_, _, auditDir).
       let auditPath = path_join [auditDir, ''activity.log''] in
       io_bind (write_file h True auditPath (audit_line entry)) (\<lambda>_.
       io_return auditPath))"

definition snapshot_value :: "workspace_snapshot \<Rightarrow> jsval" where
  "snapshot_value snapshot =
     JObj [(''project_id'', JStr (ws_project_id snapshot)),
       (''active_stage'', JStr (ws_active_stage snapshot)),
       (''context'', JObj (ws_context snapshot)),
       (''saved_at'', JStr (ws_saved_at snapshot))]"

definition saveRecoverySnapshot :: "host \<Rightarrow> string \<Rightarrow> workspace_snapshot \<Rightarrow> string fs" where
  "saveRecoverySnapshot h workspaceRoot snapshot =
     writeWorkspaceArtifact h workspaceRoot ''audit/recovery-snapshot.json''
       (json_pretty [] (snapshot_value snapshot) @ [CHR 0x0A])"

text \<open>The parsed value is not checked; every error is \<^verbatim>\<open>null\<close>.\<close>

definition loadRecoverySnapshot :: "host \<Rightarrow> string \<Rightarrow> jsval fs" where
  "loadRecoverySnapshot h workspaceRoot =
     io_catch
       (io_bind (read_file h (path_join [workspaceRoot, ''audit'', ''recovery-snapshot.json''])) (\<lambda>content.
          case json_parse content of
            None \<Rightarrow> io_throw ''SyntaxError''
          | Some v \<Rightarrow> io_return v))
       JNull"

text \<open>The pattern \<^verbatim>\<open>^deliverable-v\d+$\<close>.\<close>

definition is_deliverable :: "string \<Rightarrow> bool" where
  "is_deliverable name \<longleftrightarrow>
     js_starts_with name ''deliverable-v'' \<and> drop 13 name \<noteq> [] \<and> list_all is_digit (drop 13 name)"

definition listDeliverableVersions :: "host \<Rightarrow> string \<Rightarrow> string list fs" where
  "listDeliverableVersions h workspaceRoot =
     io_catch
       (io_bind (read_subdirs h workspaceRoot) (\<lambda>names.
          io_return (js_sort str_le (filter is_deliverable names))))
       []"

definition assertWorkspaceContainsOnlyProjectArtifacts :: "host \<Rightarrow> string \<Rightarrow> bool fs" where
  "assertWorkspaceContainsOnlyProjectArtifacts h workspaceRoot t =
     (let k = key_of h workspaceRoot in
      if is_dir t k then (Inr True, t)
      else if jm_has (ft_files t) k then (Inr False, t)
      else (Inl (''ENOENT: no such file or directory, stat '' @ workspaceRoot), t))"

section \<open>The tools\<close>

record tool_context =
  tx_workspaceRoot :: string
  tx_activeProjectId :: string
  tx_allowedCommands :: "string list option"
  tx_now :: "string option"

text \<open>The arguments a tool is called with, once its schema holds of them.\<close>

datatype tool_input =
    In_read (in_path: string)
  | In_write (in_path: string) (in_content: string)
  | In_test (in_command: string) (in_args: "string list option")
  | In_bash (in_command: string) (in_args: "string list option")
  | In_package (in_version: int) (in_files: "(string \<times> string) list")
  | In_send jsval

datatype tool_output =
    Out_content string
  | Out_path string
  | Out_output string
  | Out_package string "string list"
  | Out_sent

definition assertPathInsideWorkspace :: "host \<Rightarrow> string \<Rightarrow> string \<Rightarrow> string outcome" where
  "assertPathInsideWorkspace h workspaceRoot targetPath =
     (let resolvedWorkspace = path_resolve (h_cwd h) [workspaceRoot];
          resolvedTarget = path_resolve (h_cwd h) [workspaceRoot, targetPath]
      in if \<not> js_starts_with resolvedTarget (resolvedWorkspace @ ''/'') \<and> resolvedTarget \<noteq> resolvedWorkspace then
           Inl (''Path escapes workspace: '' @ targetPath)
         else Inr resolvedTarget)"

text \<open>\<^verbatim>\<open>inputSchema\<close>: which untyped arguments each tool takes, and as what.\<close>

fun is_array :: "jsval \<Rightarrow> bool" where
  "is_array (JArr _) = True"
| "is_array _ = False"

fun elements :: "jsval \<Rightarrow> jsval list" where
  "elements (JArr vs) = vs"
| "elements _ = []"

definition command_schema :: "jsval \<Rightarrow> bool" where
  "command_schema input \<longleftrightarrow>
     is_object input \<and> is_string (get_prop input ''command'') \<and>
     (get_prop input ''args'' = JUndefined \<or>
      is_array (get_prop input ''args'') \<and> list_all is_string (elements (get_prop input ''args'')))"

definition args_of :: "jsval \<Rightarrow> string list option" where
  "args_of input =
     (case get_prop input ''args'' of JArr vs \<Rightarrow> Some (map str_of vs) | _ \<Rightarrow> None)"

fun int_of_value :: "jsval \<Rightarrow> int option" where
  "int_of_value (JNum n) = Some n"
| "int_of_value _ = None"

definition tool_input_of :: "string \<Rightarrow> jsval \<Rightarrow> tool_input option" where
  "tool_input_of tool input =
     (if tool = ''code_read'' then
        if is_object input \<and> is_string (get_prop input ''path'') then Some (In_read (str_of (get_prop input ''path'')))
        else None
      else if tool = ''code_write'' then
        if is_object input \<and> is_string (get_prop input ''path'') \<and> is_string (get_prop input ''content'') then
          Some (In_write (str_of (get_prop input ''path'')) (str_of (get_prop input ''content'')))
        else None
      else if tool = ''test_run'' then
        if command_schema input then Some (In_test (str_of (get_prop input ''command'')) (args_of input)) else None
      else if tool = ''bash_exec'' then
        if command_schema input then Some (In_bash (str_of (get_prop input ''command'')) (args_of input)) else None
      else if tool = ''deliverable_package'' then
        (case int_of_value (get_prop input ''version'') of
           None \<Rightarrow> None
         | Some n \<Rightarrow>
             if is_object input \<and> is_array (get_prop input ''files'') \<and>
               list_all (\<lambda>f. is_object f \<and> is_string (get_prop f ''path'') \<and> is_string (get_prop f ''content''))
                 (elements (get_prop input ''files'')) then
               Some (In_package n (map (\<lambda>f. (str_of (get_prop f ''path''), str_of (get_prop f ''content'')))
                 (elements (get_prop input ''files''))))
             else None)
      else if tool = ''message_send'' then
        if is_object input \<and> has_prop input ''message'' then Some (In_send (get_prop input ''message'')) else None
      else None)"

definition TEST_COMMANDS :: "string list" where
  "TEST_COMMANDS = [''bun'', ''npm'', ''pnpm'']"

definition SHELL_COMMANDS :: "string list" where
  "SHELL_COMMANDS = [''ls'', ''pwd'', ''echo'', ''cat'', ''bun'']"

text \<open>\<^verbatim>\<open>checkPermissions\<close>: the thrown message, if any.\<close>

fun checkPermissions :: "tool_input \<Rightarrow> tool_context \<Rightarrow> string option" where
  "checkPermissions (In_read p) ctx = (if js_trim p = [] then Some ''code_read requires a path'' else None)"
| "checkPermissions (In_write p _) ctx = (if js_trim p = [] then Some ''code_write requires a path'' else None)"
| "checkPermissions (In_test c _) ctx =
     (if c \<notin> set (nullish (tx_allowedCommands ctx) TEST_COMMANDS) then Some (''Command not allowed: '' @ c) else None)"
| "checkPermissions (In_bash c _) ctx =
     (if c \<notin> set (nullish (tx_allowedCommands ctx) SHELL_COMMANDS) then Some (''Command not allowed: '' @ c) else None)"
| "checkPermissions (In_package v _) ctx =
     (if v < 1 then Some ''Deliverable version must start from 1'' else None)"
| "checkPermissions (In_send _) ctx = None"

definition note_tool :: "host \<Rightarrow> tool_context \<Rightarrow> audit_kind \<Rightarrow> string \<Rightarrow> string fs" where
  "note_tool h ctx kind detail =
     appendAuditEntry h (tx_workspaceRoot ctx)
       \<lparr>wa_timestamp = nullish (tx_now ctx) (h_now h), wa_kind = kind, wa_detail = detail\<rparr>"

definition io_outcome :: "'a outcome \<Rightarrow> ('a, 's) io" where
  "io_outcome r = (case r of Inl e \<Rightarrow> io_throw e | Inr x \<Rightarrow> io_return x)"

definition command_detail :: "string \<Rightarrow> string \<Rightarrow> string list option \<Rightarrow> string" where
  "command_detail name command args =
     js_trim (name @ '':'' @ command @ '' '' @ js_join '' '' (nullish args []))"

text \<open>\<^verbatim>\<open>call\<close>. The child process gets the command, its arguments and its directory.\<close>

fun tool_call ::
  "(string \<Rightarrow> string list \<Rightarrow> string \<Rightarrow> string fs) \<Rightarrow> host \<Rightarrow> tool_input \<Rightarrow> tool_context \<Rightarrow> tool_output fs" where
  "tool_call execFileSync h (In_read p) ctx =
     io_bind (io_outcome (assertPathInsideWorkspace h (tx_workspaceRoot ctx) p)) (\<lambda>resolved.
     io_bind (read_file h resolved) (\<lambda>content.
     io_bind (note_tool h ctx Ak_artifact (''code_read:'' @ p)) (\<lambda>_.
     io_return (Out_content content))))"
| "tool_call execFileSync h (In_write p content) ctx =
     io_bind (io_outcome (assertPathInsideWorkspace h (tx_workspaceRoot ctx) p)) (\<lambda>inside.
       let resolved = path_relative (h_cwd h) (tx_workspaceRoot ctx) inside in
       io_bind (writeWorkspaceArtifact h (tx_workspaceRoot ctx) resolved content) (\<lambda>writtenPath.
       io_bind (note_tool h ctx Ak_artifact (''code_write:'' @ resolved)) (\<lambda>_.
       io_return (Out_path writtenPath))))"
| "tool_call execFileSync h (In_test command args) ctx =
     io_bind (execFileSync command (nullish args []) (tx_workspaceRoot ctx)) (\<lambda>out.
     io_bind (note_tool h ctx Ak_test (command_detail ''test_run'' command args)) (\<lambda>_.
     io_return (Out_output out)))"
| "tool_call execFileSync h (In_bash command args) ctx =
     io_bind (execFileSync command (nullish args []) (tx_workspaceRoot ctx)) (\<lambda>out.
     io_bind (note_tool h ctx Ak_command (command_detail ''bash_exec'' command args)) (\<lambda>_.
     io_return (Out_output out)))"
| "tool_call execFileSync h (In_package version files) ctx =
     (let folder = ''deliverable-v'' @ int_str version in
      io_bind (ensureWorkspaceStructure h (tx_workspaceRoot ctx)) (\<lambda>_.
      io_bind
        (io_each (\<lambda>(p, content).
           io_bind (writeWorkspaceArtifact h (tx_workspaceRoot ctx) (path_join [folder, p]) content)
             (\<lambda>_. io_return ())) files) (\<lambda>_.
      io_bind (note_tool h ctx Ak_artifact (''deliverable_package:'' @ folder)) (\<lambda>_.
      io_bind (listDeliverableVersions h (tx_workspaceRoot ctx)) (\<lambda>versions.
      io_return (Out_package (path_join [tx_workspaceRoot ctx, folder]) versions))))))"
| "tool_call execFileSync h (In_send message) ctx =
     io_bind (note_tool h ctx Ak_command ''message_send'') (\<lambda>_.
     io_return Out_sent)"

section \<open>Properties of the component\<close>

section \<open>Containment\<close>

lemma join_root_absolute:
  "is_absolute root \<Longrightarrow> is_absolute (path_join [root, rel]) \<and> path_normalize (path_join [root, rel]) = path_join [root, rel]"
  by (rule path_join_absolute)

lemma below_or_slash:
  assumes "is_absolute root" "is_absolute p" "path_normalize p = p"
    "js_starts_with p (path_normalize (root @ ''/''))"
  shows "strict_prefix (segments root) (segments p) \<or> ends_with_slash p"
proof -
  have pre: "prefix (segments root) (segments p)"
    using assms starts_with_segments [of p root] by simp
  moreover have "ends_with_slash p" if e: "segments p = segments root"
  proof (cases "segments root = []")
    case True
    then have "p = ''/''" using normalize_absolute [OF assms(2)] assms(3) e by simp
    then show ?thesis by (simp add: ends_with_slash_def)
  next
    case False
    have "path_normalize (root @ ''/'') = CHR ''/'' # js_join ''/'' (segments root) @ ''/''"
      using assms(1) False by (simp add: normalize_absolute segments_slash ends_with_slash_def)
    moreover have "p = CHR ''/'' # js_join ''/'' (segments root) @ (if ends_with_slash p then ''/'' else [])"
      using normalize_absolute [OF assms(2)] False unfolding e assms(3) by (cases "ends_with_slash p") simp_all
    ultimately show ?thesis using assms(4) by (auto simp: js_starts_with_def prefix_def split: if_splits)
  qed
  ultimately show ?thesis by (auto simp: strict_prefix_def)
qed

lemma artifact_keeps [io_keeps]:
  assumes "is_absolute (h_cwd h)" "is_absolute root"
  shows "io_keeps (files_kept_outside (segments root)) (writeWorkspaceArtifact h root rel content)"
proof -
  let ?p = "path_join [root, rel]"
  have p: "is_absolute ?p" "path_normalize ?p = ?p" using join_root_absolute assms(2) by auto
  show ?thesis
  proof (cases "js_starts_with ?p (path_normalize (root @ ''/''))")
    case True
    then have "strict_prefix (segments root) (key_of h ?p) \<or> ends_with_slash ?p"
      using below_or_slash [OF assms(2) p] key_of_absolute [OF assms(1) p(1)] by simp
    then show ?thesis
      using True by (auto simp: writeWorkspaceArtifact_def Let_def p intro!: io_keeps_bind write_keeps mkdir_keeps io_keeps_return)
  qed (simp add: writeWorkspaceArtifact_def Let_def p io_keeps_throw)
qed

lemma ensure_keeps [io_keeps]: "io_keeps (files_kept_outside k) (ensureWorkspaceStructure h root)"
  by (auto simp: ensureWorkspaceStructure_def Let_def intro!: io_keeps_bind mkdir_keeps io_keeps_return)

lemma ensure_Inr: "ensureWorkspaceStructure h root t = (Inr (r, a, d), t') \<Longrightarrow> d = path_join [root, ''audit'']"
  by (auto simp: ensureWorkspaceStructure_def Let_def io_bind_Inr io_return_def)

lemma plain_names [simp]: "plain ''audit''" "plain ''activity.log''" "plain ''artifacts''" "plain ''recovery-snapshot.json''"
  by (simp_all add: plain_def)

lemma audit_path_segments:
  assumes "is_absolute root"
  shows "is_absolute (path_join [path_join [root, ''audit''], ''activity.log''])"
    "segments (path_join [path_join [root, ''audit''], ''activity.log'']) = segments root @ [''audit'', ''activity.log'']"
proof -
  have 1: "is_absolute (path_join [root, ''audit''])" using join_root_absolute assms by blast
  then show "is_absolute (path_join [path_join [root, ''audit''], ''activity.log''])" using join_root_absolute by blast
  show "segments (path_join [path_join [root, ''audit''], ''activity.log'']) = segments root @ [''audit'', ''activity.log'']"
    using segments_join_below [OF 1, of "[''activity.log'']"] segments_join_below [OF assms, of "[''audit'']"] by simp
qed

lemma audit_keeps [io_keeps]:
  assumes "is_absolute (h_cwd h)" "is_absolute root"
  shows "io_keeps (files_kept_outside (segments root)) (appendAuditEntry h root e)"
  unfolding appendAuditEntry_def
proof (rule io_keeps_bind_result, simp, rule ensure_keeps)
  fix t x t'
  assume "ensureWorkspaceStructure h root t = (Inr x, t')"
  then obtain r a where x: "x = (r, a, path_join [root, ''audit''])" by (cases x) (auto dest: ensure_Inr)
  let ?p = "path_join [path_join [root, ''audit''], ''activity.log'']"
  have "key_of h ?p = segments root @ [''audit'', ''activity.log'']"
    using key_of_absolute assms(1) audit_path_segments [OF assms(2)] by simp
  then show "io_keeps (files_kept_outside (segments root)) (case x of (_, _, auditDir) \<Rightarrow>
      let auditPath = path_join [auditDir, ''activity.log''] in
      io_bind (write_file h True auditPath (audit_line e)) (\<lambda>_. io_return auditPath))"
    by (auto simp: x Let_def intro!: io_keeps_bind write_keeps io_keeps_return simp: strict_prefix_def)
qed

lemma outcome_keeps [io_keeps]: "io_keeps (files_kept_outside k) (io_outcome r)"
  by (auto simp: io_outcome_def intro: io_keeps_return io_keeps_throw split: sum.split)

fun runs_command :: "tool_input \<Rightarrow> bool" where
  "runs_command (In_test _ _) \<longleftrightarrow> True"
| "runs_command (In_bash _ _) \<longleftrightarrow> True"
| "runs_command _ \<longleftrightarrow> False"

lemma tool_keeps:
  assumes "is_absolute (h_cwd h)" "is_absolute (tx_workspaceRoot ctx)" "\<not> runs_command i"
  shows "io_keeps (files_kept_outside (segments (tx_workspaceRoot ctx))) (tool_call exec h i ctx)"
  using assms
  by (cases i)
    (auto simp: Let_def note_tool_def listDeliverableVersions_def
      intro!: io_keeps_bind io_keeps_return io_keeps_each io_keeps_catch artifact_keeps audit_keeps ensure_keeps
        outcome_keeps read_keeps)

section \<open>Workspaces of several projects\<close>

lemma workspace_root_segments:
  assumes "is_absolute base" "plain c" "plain p"
  shows "is_absolute (getProjectWorkspaceRoot base c p)"
    "segments (getProjectWorkspaceRoot base c p) = segments base @ [c, p]"
proof -
  have "getProjectWorkspaceRoot base c p = path_join [base, js_join ''/'' [c, p]]"
    using assms absolute_ne by (auto simp: getProjectWorkspaceRoot_def path_join_def plain_def)
  then show "is_absolute (getProjectWorkspaceRoot base c p)"
    "segments (getProjectWorkspaceRoot base c p) = segments base @ [c, p]"
    using join_root_absolute [OF assms(1)] segments_join_below [OF assms(1), of "[c, p]"] assms by simp_all
qed

section \<open>Writing and reading back\<close>

lemma artifact_refused:
  assumes "is_absolute root" "\<not> js_starts_with (path_join [root, rel]) (path_normalize (root @ ''/''))"
  shows "\<not> strict_prefix (segments root) (segments (path_join [root, rel])) \<and>
    writeWorkspaceArtifact h root rel c t = (Inl (''Artifact path escapes workspace: '' @ rel), t)"
proof -
  let ?p = "path_join [root, rel]"
  have p: "is_absolute ?p" "path_normalize ?p = ?p" using join_root_absolute assms(1) by auto
  have "\<not> strict_prefix (segments root) (segments ?p)"
  proof
    assume "strict_prefix (segments root) (segments ?p)"
    then obtain x xs where "segments ?p = segments root @ x # xs" by (rule strict_prefixE')
    then show False using starts_with_below [OF p(1) assms(1)] p(2) assms(2) by simp
  qed
  then show ?thesis using assms(2) by (simp add: writeWorkspaceArtifact_def Let_def p)
qed

lemma artifact_accepted:
  assumes "is_absolute (h_cwd h)" "is_absolute root" "strict_prefix (segments root) (segments (path_join [root, rel]))"
  shows "writeWorkspaceArtifact h root rel c =
      io_bind (mkdir_recursive h (path_dirname (path_join [root, rel]))) (\<lambda>_.
      io_bind (write_file h False (path_join [root, rel]) c) (\<lambda>_. io_return (path_join [root, rel])))"
    "key_of h (path_dirname (path_join [root, rel])) = butlast (segments (path_join [root, rel]))"
    "key_of h (path_join [root, rel]) = segments (path_join [root, rel])"
proof -
  let ?p = "path_join [root, rel]"
  have p: "is_absolute ?p" "path_normalize ?p = ?p" using join_root_absolute assms(2) by auto
  obtain x xs where "segments ?p = segments root @ x # xs" using assms(3) by (rule strict_prefixE')
  then have ne: "segments ?p \<noteq> []" and "js_starts_with ?p (path_normalize (root @ ''/''))"
    using starts_with_below [OF p(1) assms(2)] p(2) by simp_all
  then show "writeWorkspaceArtifact h root rel c =
      io_bind (mkdir_recursive h (path_dirname ?p)) (\<lambda>_. io_bind (write_file h False ?p c) (\<lambda>_. io_return ?p))"
    by (simp add: writeWorkspaceArtifact_def Let_def p)
  show "key_of h (path_dirname ?p) = butlast (segments ?p)" "key_of h ?p = segments ?p"
    using dirname_segments [OF p ne] key_of_absolute [OF assms(1)] p(1) by simp_all
qed

lemma prefix_butlast:
  assumes "s \<noteq> []" "prefix k (butlast s)"
  shows "strict_prefix k s"
proof -
  obtain ys where "butlast s = k @ ys" using assms(2) by (rule prefixE)
  then have "s = k @ (ys @ [last s])" using append_butlast_last_id [OF assms(1)] by simp
  then show ?thesis by (metis append_is_Nil_conv neq_Nil_conv not_Cons_self2 strict_prefixI')
qed

lemma artifact_ok:
  assumes "is_absolute (h_cwd h)" "is_absolute root" "\<And>op k. h_refuses h op k = None"
    and "strict_prefix (segments root) (segments (path_join [root, rel]))" "\<not> ends_with_slash (path_join [root, rel])"
    and "\<And>k. strict_prefix k (segments (path_join [root, rel])) \<Longrightarrow> jm_get (ft_files t) k = None"
    and "\<not> is_dir t (segments (path_join [root, rel]))"
  shows "\<exists>t'. writeWorkspaceArtifact h root rel c t = (Inr (path_join [root, rel]), t') \<and>
    ft_files t' = jm_set (ft_files t) (segments (path_join [root, rel])) c"
proof -
  let ?p = "path_join [root, rel]"
  note acc = artifact_accepted [OF assms(1,2,4)]
  have ne: "segments ?p \<noteq> []" using assms(4) by auto
  then have below: "prefix k (butlast (segments ?p)) \<Longrightarrow> strict_prefix k (segments ?p)" for k
    by (rule prefix_butlast)
  then have self: "\<not> prefix (segments ?p) (butlast (segments ?p))" by blast
  obtain t1 where m: "mkdir_recursive h (path_dirname ?p) t = (Inr (), t1)" "ft_files t1 = ft_files t"
      "\<And>k. is_dir t1 k \<longleftrightarrow> is_dir t k \<or> prefix k (butlast (segments ?p))"
    using mkdir_ok [of h "path_dirname ?p" t] assms(3,6) below acc(2) by auto
  have "write_file h False ?p c t1 = (Inr (), t1\<lparr>ft_files := jm_set (ft_files t) (segments ?p) c\<rparr>)"
    using write_file_ok [of h ?p t1 False c] assms(3,5,6,7) m ne below self acc(3)
    by auto
  then show ?thesis using m(1) acc(1) by simp
qed

text \<open>
  C6: A tool that runs no command, called in the workspace of one project, changes no file
  of the workspace of another, whatever the path it is given, fails or not, as long as
  client and project ids are single path segments.
\<close>

theorem workspace_isolation:
  assumes "is_absolute (h_cwd h)" "is_absolute base" "list_all plain [c, p, c', p']" "(c, p) \<noteq> (c', p')"
    and "\<not> runs_command i" "tx_workspaceRoot ctx = getProjectWorkspaceRoot base c p"
    and "prefix (segments (getProjectWorkspaceRoot base c' p')) f"
    and "tool_call exec h i ctx t = (r, t')"
  shows "jm_get (ft_files t') f = jm_get (ft_files t) f"
proof -
  have own: "is_absolute (tx_workspaceRoot ctx)" "segments (tx_workspaceRoot ctx) = segments base @ [c, p]"
    using assms workspace_root_segments by simp_all
  have "prefix (segments base @ [c', p']) f"
    using assms workspace_root_segments [of base c' p'] by simp
  then have "\<not> strict_prefix (segments base @ [c, p]) f"
    using assms(4) by (auto simp: strict_prefix_def prefix_def)
  then show ?thesis
    using io_keepsD [OF tool_keeps [OF assms(1) own(1) assms(5)] assms(8)] own(2) by (simp add: files_kept_outside_def)
qed

definition demo_host :: host where
  "demo_host = \<lparr>h_cwd = ''/srv'', h_refuses = \<lambda>_ _. None, h_now = ''2026-01-01T00:00:00.000Z''\<rparr>"

lemma demo_paths: "segments ''/srv'' = [''srv'']" "js_split (CHR ''/'') ''a'' = [''a'']"
  by (simp_all add: segments_def norm_segs_def norm_step.simps is_absolute_def)

theorem workspace_isolation_witness:
  "jm_get (ft_files (snd (tool_call (\<lambda>_ _ _. io_throw []) demo_host (In_write ''../../b/q/x'' ''stolen'')
      \<lparr>tx_workspaceRoot = getProjectWorkspaceRoot ''/srv'' ''a'' ''p'', tx_activeProjectId = ''p'',
        tx_allowedCommands = None, tx_now = None\<rparr>
      \<lparr>ft_files = [([''srv'', ''b'', ''q'', ''x''], ''kept'')], ft_dirs = []\<rparr>)))
     [''srv'', ''b'', ''q'', ''x''] = Some ''kept''"
proof -
  have "segments (getProjectWorkspaceRoot ''/srv'' ''b'' ''q'') = [''srv'', ''b'', ''q'']"
    using workspace_root_segments [of "''/srv''" "''b''" "''q''"] demo_paths by (simp add: is_absolute_def plain_def)
  from workspace_isolation [where h = demo_host and base = "''/srv''" and c = "''a''" and p = "''p''" and c' = "''b''"
      and p' = "''q''" and i = "In_write ''../../b/q/x'' ''stolen''" and exec = "\<lambda>_ _ _. io_throw []"
      and f = "[''srv'', ''b'', ''q'', ''x'']", OF _ _ _ _ _ _ _ surjective_pairing]
  show ?thesis
    using \<open>segments _ = _\<close> by (simp add: demo_host_def is_absolute_def plain_def jm_get_def)
qed

text \<open>
  C35: A recovery snapshot that was saved is loaded again as the same value, whatever JSON
  value its context holds, from the file that was written.
\<close>

theorem recovery_roundtrip:
  assumes "is_absolute (h_cwd h)" "is_absolute root" "json_ok (JObj (ws_context sn))"
    and "saveRecoverySnapshot h root sn t = (Inr p, t')"
    and "h_refuses h Op_read (segments root @ [''audit'', ''recovery-snapshot.json'']) = None"
  shows "loadRecoverySnapshot h root t' = (Inr (snapshot_value sn), t')"
proof -
  let ?p = "path_join [root, ''audit/recovery-snapshot.json'']"
  let ?text = "json_pretty [] (snapshot_value sn) @ [CHR 0x0A]"
  have k: "segments ?p = segments root @ [''audit'', ''recovery-snapshot.json'']"
    using segments_join_below [OF assms(2), of "[''audit'', ''recovery-snapshot.json'']"] by simp
  have same: "path_join [root, ''audit'', ''recovery-snapshot.json''] = ?p"
    using assms(2) by (auto simp: path_join_def dest: absolute_ne)
  have pre: "strict_prefix (segments root) (segments ?p)" unfolding k by (simp add: strict_prefix_def)
  note acc = artifact_accepted [OF assms(1,2) pre]
  obtain t1 u where w: "write_file h False ?p ?text t1 = (Inr u, t')"
    using assms(4) unfolding saveRecoverySnapshot_def acc(1) by (auto simp: io_bind_Inr io_return_def)
  have "json_ok (snapshot_value sn)"
    using assms(3) by (simp add: snapshot_value_def object_entries_names array_index_def digit_val_def)
  then have parsed: "json_parse ?text = Some (snapshot_value sn)" by (rule json_roundtrip_line)
  have "is_dir t' (segments ?p) = is_dir t1 (segments ?p)" using write_file_Inr [OF w] by (simp add: is_dir_def)
  then have "read_file h ?p t' = (Inr ?text, t')"
    using write_file_Inr [OF w] acc(3) assms(5) by (simp add: read_file_def Let_def k unless_refused_def)
  then show ?thesis
    by (simp add: loadRecoverySnapshot_def same io_catch_def parsed)
qed

definition demo_snapshot :: workspace_snapshot where
  "demo_snapshot = \<lparr>ws_project_id = ''p'', ws_active_stage = ''qa'',
     ws_context = [(''files'', JArr [JStr [CHR ''a'', CHR 0x22, CHR 0x0A], JNum (- 7), JNull]), (''done'', JBool False)],
     ws_saved_at = ''2026-01-01T00:00:00.000Z''\<rparr>"

theorem recovery_roundtrip_witness:
  "\<exists>p t'. saveRecoverySnapshot demo_host ''/srv'' demo_snapshot \<lparr>ft_files = [], ft_dirs = []\<rparr> = (Inr p, t') \<and>
     loadRecoverySnapshot demo_host ''/srv'' t' = (Inr (snapshot_value demo_snapshot), t')"
proof -
  have a: "is_absolute (h_cwd demo_host)" "is_absolute ''/srv''" by (simp_all add: demo_host_def is_absolute_def)
  have k: "segments (path_join [''/srv'', ''audit/recovery-snapshot.json'']) = segments ''/srv'' @ [''audit'', ''recovery-snapshot.json'']"
    using segments_join_below [OF a(2), of "[''audit'', ''recovery-snapshot.json'']"] by simp
  have "path_join [''/srv'', ''audit/recovery-snapshot.json''] = ''/srv/audit/recovery-snapshot.json''"
    by (simp add: path_join_def path_normalize_def segments_def norm_segs_def norm_step.simps is_absolute_def
        ends_with_slash_def Let_def)
  then have "\<not> ends_with_slash (path_join [''/srv'', ''audit/recovery-snapshot.json''])"
    by (simp add: ends_with_slash_def)
  then have "\<exists>t'. writeWorkspaceArtifact demo_host ''/srv'' ''audit/recovery-snapshot.json''
      (json_pretty [] (snapshot_value demo_snapshot) @ [CHR 0x0A]) \<lparr>ft_files = [], ft_dirs = []\<rparr> =
      (Inr (path_join [''/srv'', ''audit/recovery-snapshot.json'']), t')"
    using artifact_ok [of demo_host "''/srv''" "''audit/recovery-snapshot.json''" "\<lparr>ft_files = [], ft_dirs = []\<rparr>"
        "json_pretty [] (snapshot_value demo_snapshot) @ [CHR 0x0A]"] a k
    by (auto simp: demo_host_def strict_prefix_def is_dir_def)
  then obtain p t' where s: "saveRecoverySnapshot demo_host ''/srv'' demo_snapshot \<lparr>ft_files = [], ft_dirs = []\<rparr> = (Inr p, t')"
    unfolding saveRecoverySnapshot_def by blast
  moreover have "json_ok (JObj (ws_context demo_snapshot))"
    by (simp add: demo_snapshot_def object_entries_names array_index_def digit_val_def)
  ultimately show ?thesis
    using recovery_roundtrip [OF a _ s] by (auto simp: demo_host_def)
qed

text \<open>
  On a host that refuses nothing, with no file on the way and no directory at the place, an
  artifact is written exactly when its joined path lies strictly below the workspace root
  and names no directory; then that file holds the content and no other file changes.
\<close>

theorem artifact_exact:
  assumes "is_absolute (h_cwd h)" "is_absolute root" "\<And>op k. h_refuses h op k = None"
    and "p = path_join [root, rel]"
    and "\<And>k. strict_prefix k (segments p) \<Longrightarrow> jm_get (ft_files t) k = None" "segments p \<notin> set (ft_dirs t)"
  shows "(fst (writeWorkspaceArtifact h root rel c t) = Inr p \<longleftrightarrow>
      strict_prefix (segments root) (segments p) \<and> \<not> ends_with_slash p) \<and>
    (\<forall>q t'. writeWorkspaceArtifact h root rel c t = (Inr q, t') \<longrightarrow>
      q = p \<and> jm_get (ft_files t') (segments p) = Some c \<and>
      (\<forall>f. f \<noteq> segments p \<longrightarrow> jm_get (ft_files t') f = jm_get (ft_files t) f))"
proof -
  let ?w = "writeWorkspaceArtifact h root rel c t"
  have p: "is_absolute p" "path_normalize p = p" using join_root_absolute assms(2,4) by auto
  have bad: "\<exists>e. fst ?w = Inl e" if "\<not> (strict_prefix (segments root) (segments p) \<and> \<not> ends_with_slash p)"
  proof (cases "js_starts_with p (path_normalize (root @ ''/''))")
    case True
    then have "ends_with_slash p" using below_or_slash [OF assms(2) p] that by blast
    then have "\<exists>e. fst (write_file h False p c t1) = Inl e" for t1 by (simp add: write_file_def Let_def)
    then have "\<exists>e. fst (io_bind (write_file h False p c) f t1) = Inl e" for f :: "unit \<Rightarrow> string fs" and t1
      by (metis fst_conv io_bind_run(2) surj_pair)
    then show ?thesis using True p
      by (simp add: writeWorkspaceArtifact_def Let_def assms(4)[symmetric] io_bind_fails)
  next
    case False
    then show ?thesis using artifact_refused [OF assms(2)] assms(4) by simp
  qed
  show ?thesis
  proof (cases "strict_prefix (segments root) (segments p) \<and> \<not> ends_with_slash p")
    case True
    then have "\<not> is_dir t (segments p)" using assms(6) by (auto simp: is_dir_def)
    then obtain t' where t': "?w = (Inr p, t')" "ft_files t' = jm_set (ft_files t) (segments p) c"
      using artifact_ok [of h root rel t c] True assms(1-5) by auto
    then show ?thesis using True by simp
  next
    case False
    from bad [OF this] show ?thesis using False by (cases ?w) auto
  qed
qed

theorem artifact_exact_witness:
  "fst (writeWorkspaceArtifact demo_host ''/srv'' ''x'' ''y'' \<lparr>ft_files = [], ft_dirs = []\<rparr>) = Inr ''/srv/x''"
proof -
  have "path_join [''/srv'', ''x''] = ''/srv/x''" "segments ''/srv/x'' = [''srv'', ''x'']" "segments ''/srv'' = [''srv'']"
    by (simp_all add: path_join_def path_normalize_def segments_def norm_segs_def norm_step.simps is_absolute_def
        ends_with_slash_def Let_def)
  with artifact_exact [of demo_host "''/srv''" "''/srv/x''" "''x''" "\<lparr>ft_files = [], ft_dirs = []\<rparr>" "''y''"]
  show ?thesis by (simp add: demo_host_def is_absolute_def ends_with_slash_def)
qed

end
