(* ===== verification/Engineering_Flow.thy ===== *)
theory Engineering_Flow
  imports Lifecycle_Update Message_Bus Engineering_Workspace
begin

text \<open>
  The engineering agent, \<^verbatim>\<open>src/agents/engineering/models.ts\<close> and \<^verbatim>\<open>flow.ts\<close>: the
  intake of a discovery handoff, the implementation plan, the validation, and the final approval.
  The operations act on the registry and on the files of the host; what is done before an error
  stays done.
\<close>

section \<open>Data\<close>

datatype engineering_tool = Code_read | Code_write | Test_run | Bash_exec | Deliverable_package | Engineering_message_send

fun engineering_tool_str :: "engineering_tool \<Rightarrow> string" where
  "engineering_tool_str Code_read = ''code_read''"
| "engineering_tool_str Code_write = ''code_write''"
| "engineering_tool_str Test_run = ''test_run''"
| "engineering_tool_str Bash_exec = ''bash_exec''"
| "engineering_tool_str Deliverable_package = ''deliverable_package''"
| "engineering_tool_str Engineering_message_send = ''message_send''"

definition ENGINEERING_AGENT_TOOLS :: "engineering_tool list" where
  "ENGINEERING_AGENT_TOOLS =
     [Code_read, Code_write, Test_run, Bash_exec, Deliverable_package, Engineering_message_send]"

datatype stage_status = Sg_pending | Sg_in_progress | Sg_completed | Sg_blocked

fun stage_status_str :: "stage_status \<Rightarrow> string" where
  "stage_status_str Sg_pending = ''pending''"
| "stage_status_str Sg_in_progress = ''in_progress''"
| "stage_status_str Sg_completed = ''completed''"
| "stage_status_str Sg_blocked = ''blocked''"

record implementation_stage =
  sg_stage_id :: string
  sg_title :: string
  sg_summary :: string
  sg_dependencies :: "string list"
  sg_outputs :: "string list"
  sg_risks :: "string list"
  sg_testing_strategy :: "string list"
  sg_status :: stage_status

datatype implementation_status = Im_not_started | Im_in_progress | Im_blocked | Im_completed
datatype qa_status = Qa_not_started | Qa_in_progress | Qa_passed | Qa_failed
datatype owner_review = Rv_not_requested | Rv_pending | Rv_approved | Rv_rejected | Rv_revise_requested

datatype engineering_stage =
    Et_handoff_intake | Et_implementation_planning | Et_implementation_in_progress | Et_awaiting_clarification
  | Et_qa_in_progress | Et_awaiting_owner_delivery_approval | Et_delivery_revision | Et_delivery_completed

fun engineering_stage_str :: "engineering_stage \<Rightarrow> string" where
  "engineering_stage_str Et_handoff_intake = ''handoff_intake''"
| "engineering_stage_str Et_implementation_planning = ''implementation_planning''"
| "engineering_stage_str Et_implementation_in_progress = ''implementation_in_progress''"
| "engineering_stage_str Et_awaiting_clarification = ''awaiting_clarification''"
| "engineering_stage_str Et_qa_in_progress = ''qa_in_progress''"
| "engineering_stage_str Et_awaiting_owner_delivery_approval = ''awaiting_owner_delivery_approval''"
| "engineering_stage_str Et_delivery_revision = ''delivery_revision''"
| "engineering_stage_str Et_delivery_completed = ''delivery_completed''"

record engineering_state =
  es_project_id :: string
  es_client_id :: string
  es_workspace_root :: string
  es_implementation_status :: implementation_status
  es_qa_status :: qa_status
  es_delivery_version :: nat
  es_owner_review_status :: owner_review
  es_active_stage :: engineering_stage
  es_last_updated_at :: string

record capability_item =
  ca_capability_id :: string
  ca_title :: string
  ca_description :: string

record spec_final =
  sf_title :: string
  sf_summary :: string
  sf_capabilities :: "capability_item list"

record approval_note =
  an_gate :: string
  an_decision :: string
  an_decided_at :: string
  an_decided_by :: string

record integration_item =
  it_name :: string
  it_purpose :: string
  it_notes :: "string option"

record discovery_payload =
  dp_spec_final :: spec_final
  dp_acceptance_criteria :: "string list"
  dp_feature_priorities :: "string list"
  dp_tool_list :: "string list"
  dp_project_constraints :: "string list"
  dp_implementation_risks :: "string list"
  dp_approval_history :: "approval_note list"
  dp_external_integrations :: "integration_item list option"

record discovery_message =
  dm_project_id :: string
  dm_timestamp :: string
  dm_payload :: discovery_payload

record approval_context =
  ac_implementation_summary :: "string list"
  ac_qa_summary :: "string list"
  ac_residual_risks :: "string list"
  ac_deployment_instructions :: "string list"
  ac_artifact_ref :: string

text \<open>The payload as the data the validator reads.\<close>

definition spec_final_value :: "spec_final \<Rightarrow> jsval" where
  "spec_final_value s =
     JObj [(''title'', JStr (sf_title s)), (''summary'', JStr (sf_summary s)),
       (''capabilities'', JArr (map (\<lambda>c. JObj [(''capability_id'', JStr (ca_capability_id c)),
          (''title'', JStr (ca_title c)), (''description'', JStr (ca_description c))]) (sf_capabilities s)))]"

definition strings_value :: "string list \<Rightarrow> jsval" where
  "strings_value ss = JArr (map JStr ss)"

definition discovery_payload_value :: "discovery_payload \<Rightarrow> jsval" where
  "discovery_payload_value p =
     JObj ([(''spec_final'', spec_final_value (dp_spec_final p)),
       (''acceptance_criteria'', strings_value (dp_acceptance_criteria p)),
       (''feature_priorities'', strings_value (dp_feature_priorities p)),
       (''tool_list'', strings_value (dp_tool_list p)),
       (''project_constraints'', strings_value (dp_project_constraints p)),
       (''implementation_risks'', strings_value (dp_implementation_risks p)),
       (''approval_history'', JArr (map (\<lambda>a. JObj [(''gate'', JStr (an_gate a)), (''decision'', JStr (an_decision a)),
          (''decided_at'', JStr (an_decided_at a)), (''decided_by'', JStr (an_decided_by a))]) (dp_approval_history p)))] @
       (case dp_external_integrations p of
          None \<Rightarrow> []
        | Some is \<Rightarrow> [(''external_integrations'', JArr (map (\<lambda>i. JObj ([(''name'', JStr (it_name i)),
            (''purpose'', JStr (it_purpose i))] @
            (case it_notes i of None \<Rightarrow> [] | Some n \<Rightarrow> [(''notes'', JStr n)]))) is))]))"

section \<open>Validation of the handoff\<close>

definition createEngineeringProjectState :: "string \<Rightarrow> string \<Rightarrow> string \<Rightarrow> string \<Rightarrow> engineering_state" where
  "createEngineeringProjectState project_id client_id workspace_root now =
     \<lparr>es_project_id = project_id, es_client_id = client_id, es_workspace_root = workspace_root,
      es_implementation_status = Im_not_started, es_qa_status = Qa_not_started, es_delivery_version = 1,
      es_owner_review_status = Rv_not_requested, es_active_stage = Et_handoff_intake, es_last_updated_at = now\<rparr>"

definition isNonEmptyStringArray :: "jsval \<Rightarrow> bool" where
  "isNonEmptyStringArray v \<longleftrightarrow>
     (case v of JArr vs \<Rightarrow> list_all (\<lambda>x. case x of JStr s \<Rightarrow> js_trim s \<noteq> [] | _ \<Rightarrow> False) vs | _ \<Rightarrow> False)"

text \<open>
  \<^verbatim>\<open>!v?.trim()\<close>: missing text is falsy, a value without the method is a type error, whose
  message is the engine's.
\<close>

definition blank_text :: "jsval \<Rightarrow> bool outcome" where
  "blank_text v =
     (case v of
        JUndefined \<Rightarrow> Inr True
      | JNull \<Rightarrow> Inr True
      | JStr s \<Rightarrow> Inr (js_trim s = [])
      | _ \<Rightarrow> Inl ''TypeError'')"

definition empty_or_no_array :: "jsval \<Rightarrow> bool" where
  "empty_or_no_array v \<longleftrightarrow> (case v of JArr vs \<Rightarrow> vs = [] | _ \<Rightarrow> True)"

text \<open>\<open>Inr None\<close> is \<open>{ ok: true }\<close> with the candidate itself, \<open>Inr (Some errors)\<close> the errors.\<close>

definition validateDiscoveryHandoffPayload :: "jsval \<Rightarrow> string list option outcome" where
  "validateDiscoveryHandoffPayload candidate =
     (let spec = get_prop candidate ''spec_final'' in
      outcome_bind (blank_text (get_prop spec ''title'')) (\<lambda>no_title.
      outcome_bind (blank_text (get_prop spec ''summary'')) (\<lambda>no_summary.
        if candidate = JUndefined \<or> candidate = JNull then Inl ''TypeError''
        else
          let errors =
            (if no_title then [''spec_final.title is required''] else []) @
            (if no_summary then [''spec_final.summary is required''] else []) @
            (if empty_or_no_array (get_prop spec ''capabilities'')
             then [''spec_final.capabilities must contain at least one capability''] else []) @
            (if \<not> isNonEmptyStringArray (get_prop candidate ''acceptance_criteria'')
             then [''acceptance_criteria is required''] else []) @
            (if \<not> isNonEmptyStringArray (get_prop candidate ''feature_priorities'')
             then [''feature_priorities is required''] else []) @
            (if \<not> isNonEmptyStringArray (get_prop candidate ''tool_list'')
             then [''tool_list is required''] else []) @
            (if \<not> isNonEmptyStringArray (get_prop candidate ''project_constraints'')
             then [''project_constraints is required''] else []) @
            (if \<not> isNonEmptyStringArray (get_prop candidate ''implementation_risks'')
             then [''implementation_risks is required''] else []) @
            (if empty_or_no_array (get_prop candidate ''approval_history'')
             then [''approval_history is required''] else [])
          in Inr (if errors = [] then None else Some errors))))"

section \<open>The plan\<close>

definition buildImplementationStages :: "discovery_payload \<Rightarrow> implementation_stage list" where
  "buildImplementationStages payload =
     map (\<lambda>(index, capability).
        \<lparr>sg_stage_id = ca_capability_id capability, sg_title = ca_title capability,
         sg_summary = ca_description capability,
         sg_dependencies =
           (if index = 0 then [] else [ca_capability_id (sf_capabilities (dp_spec_final payload) ! (index - 1))]),
         sg_outputs = [''Implemented '' @ ca_title capability],
         sg_risks = dp_implementation_risks payload,
         sg_testing_strategy =
           map (\<lambda>criterion. ''Validate against acceptance criterion: '' @ criterion) (dp_acceptance_criteria payload),
         sg_status = (if index = 0 then Sg_in_progress else Sg_pending)\<rparr>)
       (enumerate 0 (sf_capabilities (dp_spec_final payload)))"

definition stage_lines :: "implementation_stage \<Rightarrow> string list" where
  "stage_lines stage =
     [''### '' @ sg_title stage,
      ''- Stage ID: '' @ sg_stage_id stage,
      ''- Summary: '' @ sg_summary stage,
      ''- Dependencies: '' @ str_or (js_join '', '' (sg_dependencies stage)) ''none'',
      ''- Outputs: '' @ js_join '', '' (sg_outputs stage),
      ''- Risks: '' @ str_or (js_join '', '' (sg_risks stage)) ''none'',
      ''- Testing: '' @ js_join '' | '' (sg_testing_strategy stage),
      ''- Status: '' @ stage_status_str (sg_status stage),
      []]"

definition buildImplementationPlanMarkdown :: "discovery_payload \<Rightarrow> implementation_stage list \<Rightarrow> string" where
  "buildImplementationPlanMarkdown payload stages =
     (let lines =
        [''# Implementation Plan'', [], ''## Spec'',
         ''- Title: '' @ sf_title (dp_spec_final payload),
         ''- Summary: '' @ sf_summary (dp_spec_final payload),
         [], ''## Priorities''] @
        bullets (dp_feature_priorities payload) @
        [[], ''## Constraints''] @
        bullets (dp_project_constraints payload) @
        [[], ''## Stages''] @
        concat (map stage_lines stages)
      in js_join [CHR 0x0A] lines @ [CHR 0x0A])"

definition collectClarificationQuestions :: "discovery_payload \<Rightarrow> string list" where
  "collectClarificationQuestions payload =
     (if length (sf_summary (dp_spec_final payload)) < 40
      then [''Mohon lengkapi ringkasan spec agar konteks implementasi lebih jelas.''] else []) @
     (if dp_tool_list payload = [] then [''Tool list untuk implementasi belum tersedia.''] else [])"

section \<open>Messages\<close>

definition engineering_status :: "string \<Rightarrow> string \<Rightarrow> string \<Rightarrow> string \<Rightarrow> string \<Rightarrow> string option \<Rightarrow> agent_message" where
  "engineering_status to project_id timestamp status summary artifact_ref =
     \<lparr>msg_from = ''engineering_agent'', msg_to = to, msg_type = ''status_update'', msg_project_id = project_id,
      msg_timestamp = timestamp,
      msg_payload = JObj ([(''status'', JStr status), (''summary'', JStr summary)] @
        (case artifact_ref of None \<Rightarrow> [] | Some a \<Rightarrow> [(''artifact_ref'', JStr a)]))\<rparr>"

definition buildEngineeringClarification :: "string \<Rightarrow> string \<Rightarrow> string list \<Rightarrow> agent_message" where
  "buildEngineeringClarification projectId timestamp questions =
     \<lparr>msg_from = ''engineering_agent'', msg_to = ''product_agent'', msg_type = ''clarification_request'',
      msg_project_id = projectId, msg_timestamp = timestamp,
      msg_payload = JObj [(''questions'', strings_value questions),
        (''blocking_stage'', JStr (engineering_stage_str Et_awaiting_clarification))]\<rparr>"

section \<open>Operations on the registry and the files\<close>

type_synonym 'a eng = "('a, registry \<times> file_tree) io"

definition on_files :: "'a fs \<Rightarrow> 'a eng" where
  "on_files m = (\<lambda>(r, t). case m t of (x, t) \<Rightarrow> (x, r, t))"

definition update_lifecycle :: "clock \<Rightarrow> lifecycle_update_input \<Rightarrow> unit eng" where
  "update_lifecycle clk i =
     (\<lambda>(r, t). case applyLifecycleUpdate clk i r of Inl e \<Rightarrow> (Inl e, r, t) | Inr (_, r) \<Rightarrow> (Inr (), r, t))"

record accepted_handoff =
  ah_ack :: agent_message
  ah_pmUpdate :: agent_message
  ah_nextState :: engineering_state
  ah_implementationPlanPath :: string

definition acceptDiscoveryHandoff ::
  "host \<Rightarrow> clock \<Rightarrow> discovery_message \<Rightarrow> engineering_state \<Rightarrow> string \<Rightarrow> accepted_handoff eng" where
  "acceptDiscoveryHandoff h clk message state workspaceBaseDir =
     io_bind (io_outcome (validateDiscoveryHandoffPayload (discovery_payload_value (dm_payload message)))) (\<lambda>validation.
     case validation of
       Some errors \<Rightarrow> io_throw (''Invalid discovery handoff: '' @ js_join ''; '' errors)
     | None \<Rightarrow> (\<lambda>(r, t).
         case getProject r (dm_project_id message) of
           None \<Rightarrow> io_throw (''Project not found: '' @ dm_project_id message) (r, t)
         | Some project \<Rightarrow>
             (let payload = dm_payload message;
                  workspaceRoot = getProjectWorkspaceRoot workspaceBaseDir (pe_client_id project) (dm_project_id message);
                  implementationPlan = buildImplementationPlanMarkdown payload (buildImplementationStages payload);
                  nextState = state\<lparr>es_workspace_root := workspaceRoot, es_implementation_status := Im_in_progress,
                    es_active_stage := Et_implementation_planning, es_last_updated_at := dm_timestamp message\<rparr>
              in
              io_bind (on_files (ensureWorkspaceStructure h workspaceRoot)) (\<lambda>_.
              io_bind (on_files (writeWorkspaceArtifact h workspaceRoot ''artifacts/implementation-plan.md'' implementationPlan))
                (\<lambda>implementationPlanPath.
              io_bind (update_lifecycle clk
                \<lparr>lu_project_id = dm_project_id message, lu_event = Build_started, lu_actor = Engineering_agent,
                 lu_timestamp = dm_timestamp message, lu_milestone = ''implementation_started''\<rparr>) (\<lambda>_.
              io_bind (on_files (appendAuditEntry h workspaceRoot
                \<lparr>wa_timestamp = dm_timestamp message, wa_kind = Ak_handoff,
                 wa_detail = ''discovery_handoff accepted for '' @ dm_project_id message\<rparr>)) (\<lambda>_.
              io_bind (on_files (saveRecoverySnapshot h workspaceRoot
                \<lparr>ws_project_id = dm_project_id message,
                 ws_active_stage = engineering_stage_str (es_active_stage nextState),
                 ws_context = [(''implementationPlanPath'', JStr implementationPlanPath),
                   (''specTitle'', JStr (sf_title (dp_spec_final payload)))],
                 ws_saved_at = dm_timestamp message\<rparr>)) (\<lambda>_.
              io_return
                \<lparr>ah_ack = engineering_status ''product_agent'' (dm_project_id message) (dm_timestamp message)
                   ''handoff_received'' ''Discovery handoff diterima dan implementasi dimulai.'' (Some implementationPlanPath),
                 ah_pmUpdate = engineering_status ''project_manager_agent'' (dm_project_id message) (dm_timestamp message)
                   ''implementation_started'' ''Engineering memulai implementation planning.'' (Some implementationPlanPath),
                 ah_nextState = nextState,
                 ah_implementationPlanPath = implementationPlanPath\<rparr>))))) (r, t))))"

definition startQaValidation ::
  "host \<Rightarrow> clock \<Rightarrow> engineering_state \<Rightarrow> string \<Rightarrow> (engineering_state \<times> agent_message) eng" where
  "startQaValidation h clk state timestamp =
     io_bind (update_lifecycle clk
       \<lparr>lu_project_id = es_project_id state, lu_event = Final_validation_started, lu_actor = Engineering_agent,
        lu_timestamp = timestamp, lu_milestone = ''qa_started''\<rparr>) (\<lambda>_.
     io_bind (on_files (appendAuditEntry h (es_workspace_root state)
       \<lparr>wa_timestamp = timestamp, wa_kind = Ak_test, wa_detail = ''qa_started''\<rparr>)) (\<lambda>_.
     io_return
       (state\<lparr>es_implementation_status := Im_completed, es_qa_status := Qa_in_progress,
          es_active_stage := Et_qa_in_progress, es_last_updated_at := timestamp\<rparr>,
        engineering_status ''project_manager_agent'' (es_project_id state) timestamp ''qa_started''
          ''Engineering memasuki validasi QA akhir.'' None)))"

record qa_input =
  qi_unitTests :: "string list"
  qi_integrationTests :: "string list"
  qi_staticChecks :: "string list"
  qi_knownLimitations :: "string list"
  qi_deploymentNotes :: "string list"

definition qa_report :: "qa_input \<Rightarrow> string" where
  "qa_report input =
     js_join [CHR 0x0A]
       ([''# QA Report'', [], ''## Unit Tests''] @ bullets (qi_unitTests input) @
        [[], ''## Integration Tests''] @ bullets (qi_integrationTests input) @
        [[], ''## Static Checks''] @ bullets (qi_staticChecks input) @
        [[], ''## Known Limitations''] @ bullets (qi_knownLimitations input) @
        [[], ''## Deployment Notes''] @ bullets (qi_deploymentNotes input) @ [[]])"

definition writeQaReport :: "host \<Rightarrow> engineering_state \<Rightarrow> qa_input \<Rightarrow> string fs" where
  "writeQaReport h state input =
     io_bind (writeWorkspaceArtifact h (es_workspace_root state) ''artifacts/qa-report.md'' (qa_report input @ [CHR 0x0A]))
       (\<lambda>reportPath.
     io_bind (appendAuditEntry h (es_workspace_root state)
       \<lparr>wa_timestamp = es_last_updated_at state, wa_kind = Ak_artifact, wa_detail = ''qa-report.md written''\<rparr>) (\<lambda>_.
     io_return reportPath))"

definition markReadyForOwnerReview ::
  "host \<Rightarrow> engineering_state \<Rightarrow> string \<Rightarrow> string \<Rightarrow> (engineering_state \<times> agent_message) fs" where
  "markReadyForOwnerReview h state timestamp artifactRef =
     io_bind (appendAuditEntry h (es_workspace_root state)
       \<lparr>wa_timestamp = timestamp, wa_kind = Ak_approval, wa_detail = ''ready_for_owner_review''\<rparr>) (\<lambda>_.
     io_return
       (state\<lparr>es_qa_status := Qa_passed, es_owner_review_status := Rv_pending,
          es_active_stage := Et_awaiting_owner_delivery_approval, es_last_updated_at := timestamp\<rparr>,
        engineering_status ''project_manager_agent'' (es_project_id state) timestamp ''ready_for_owner_review''
          ''Deliverable siap untuk owner review.'' (Some artifactRef)))"

section \<open>The final approval\<close>

definition buildDeliveryApprovalRequest ::
  "engineering_state \<Rightarrow> string \<Rightarrow> approval_context \<Rightarrow> approval_request" where
  "buildDeliveryApprovalRequest state timestamp context =
     \<lparr>ar_request_id = es_project_id state @ '':delivery_final:v'' @ nat_str (es_delivery_version state),
      ar_gate = Delivery_final, ar_from_agent = Engineering_agent, ar_timestamp = timestamp,
      ar_project_id = Some (es_project_id state),
      ar_summary = js_join '' '' (ac_implementation_summary context),
      ar_recommendation = ''Approve delivery if QA evidence and deployment plan are acceptable.'',
      ar_risks = ac_residual_risks context, ar_options = [Approve, Reject, Revise],
      ar_artifact_ref = ac_artifact_ref context\<rparr>"

record approval_outcome =
  ao_decision :: approval_decision
  ao_next_state :: engineering_state
  ao_messages :: "agent_message list"

text \<open>
  The messages of an approval are, in this order, \<^verbatim>\<open>manager_message\<close>,
  \<^verbatim>\<open>support_message\<close> and \<^verbatim>\<open>delivered_message\<close>; another decision has none.
\<close>

definition handleApprovalResponse ::
  "host \<Rightarrow> clock \<Rightarrow> engineering_state \<Rightarrow> approval_request \<Rightarrow> approval_response \<Rightarrow> approval_outcome eng" where
  "handleApprovalResponse h clk state request response =
     (if ar_gate request \<noteq> Delivery_final \<or> ap_gate response \<noteq> Delivery_final then
        io_throw ''Engineering approval flow only supports delivery_final gate''
      else if ar_request_id request \<noteq> ap_request_id response then
        io_throw ''Approval response request_id mismatch''
      else
        io_bind (on_files (appendAuditEntry h (es_workspace_root state)
          \<lparr>wa_timestamp = ap_timestamp response, wa_kind = Ak_approval,
           wa_detail = ''approval_response:'' @ approval_decision_str (ap_decision response)\<rparr>)) (\<lambda>_.
        if ap_decision response = Approve then
          io_bind (update_lifecycle clk
            \<lparr>lu_project_id = es_project_id state, lu_event = Delivery_approved, lu_actor = Engineering_agent,
             lu_timestamp = ap_timestamp response, lu_milestone = ''delivered''\<rparr>) (\<lambda>_.
          io_return
            \<lparr>ao_decision = Approve,
             ao_next_state = state\<lparr>es_owner_review_status := Rv_approved, es_active_stage := Et_delivery_completed,
               es_last_updated_at := ap_timestamp response\<rparr>,
             ao_messages =
               [engineering_status ''project_manager_agent'' (es_project_id state) (ap_timestamp response) ''delivered''
                  ''Owner menyetujui delivery final.'' (Some (ar_artifact_ref request)),
                engineering_status ''support_agent'' (es_project_id state) (ap_timestamp response) ''delivered''
                  ''Context package delivery final siap untuk support.'' (Some (ar_artifact_ref request)),
                engineering_status ''project_manager_agent'' (es_project_id state) (ap_timestamp response) ''delivered''
                  ''Lifecycle project berubah ke delivered.'' (Some (ar_artifact_ref request))]\<rparr>)
        else
          io_return
            \<lparr>ao_decision = ap_decision response,
             ao_next_state = state\<lparr>
               es_owner_review_status := (if ap_decision response = Revise then Rv_revise_requested else Rv_rejected),
               es_delivery_version :=
                 (if ap_decision response = Revise then es_delivery_version state + 1 else es_delivery_version state),
               es_active_stage :=
                 (if ap_decision response = Revise then Et_delivery_revision else Et_implementation_in_progress),
               es_last_updated_at := ap_timestamp response\<rparr>,
             ao_messages = []\<rparr>))"

definition buildUnrecoverableErrorAlert :: "engineering_state \<Rightarrow> string \<Rightarrow> string \<Rightarrow> agent_message list" where
  "buildUnrecoverableErrorAlert state timestamp error_message =
     (let alert = (\<lambda>to action.
        \<lparr>msg_from = ''engineering_agent'', msg_to = to, msg_type = ''risk_alert'', msg_project_id = es_project_id state,
         msg_timestamp = timestamp,
         msg_payload = JObj [(''severity'', JStr ''critical''), (''summary'', JStr error_message),
           (''recommended_action'', JStr action),
           (''recovery_artifact_ref'', JStr (es_workspace_root state @ ''/audit/recovery-snapshot.json''))]\<rparr>)
      in [alert ''project_manager_agent'' ''Escalate blocker and review recovery snapshot.'',
          alert ''ceo_agent'' ''Owner attention required for unrecoverable engineering blocker.''])"

section \<open>The validator on typed payloads\<close>

definition solid :: "string list \<Rightarrow> bool" where
  "solid ss \<longleftrightarrow> list_all (\<lambda>s. js_trim s \<noteq> []) ss"

lemma strings_solid [simp]: "isNonEmptyStringArray (strings_value ss) \<longleftrightarrow> solid ss"
  by (simp add: isNonEmptyStringArray_def strings_value_def solid_def list_all_iff)

lemma payload_fields [simp]:
  "get_prop (discovery_payload_value p) ''spec_final'' = spec_final_value (dp_spec_final p)"
  "get_prop (discovery_payload_value p) ''acceptance_criteria'' = strings_value (dp_acceptance_criteria p)"
  "get_prop (discovery_payload_value p) ''feature_priorities'' = strings_value (dp_feature_priorities p)"
  "get_prop (discovery_payload_value p) ''tool_list'' = strings_value (dp_tool_list p)"
  "get_prop (discovery_payload_value p) ''project_constraints'' = strings_value (dp_project_constraints p)"
  "get_prop (discovery_payload_value p) ''implementation_risks'' = strings_value (dp_implementation_risks p)"
  "empty_or_no_array (get_prop (discovery_payload_value p) ''approval_history'') \<longleftrightarrow> dp_approval_history p = []"
  "discovery_payload_value p \<noteq> JUndefined" "discovery_payload_value p \<noteq> JNull"
  by (simp_all add: discovery_payload_value_def empty_or_no_array_def)

lemma spec_fields [simp]:
  "get_prop (spec_final_value s) ''title'' = JStr (sf_title s)" "get_prop (spec_final_value s) ''summary'' = JStr (sf_summary s)"
  "empty_or_no_array (get_prop (spec_final_value s) ''capabilities'') \<longleftrightarrow> sf_capabilities s = []"
  by (simp_all add: spec_final_value_def empty_or_no_array_def)

section \<open>Steps on the registry\<close>

lemma update_effect:
  assumes "update_lifecycle clk i (r, t) = (Inr u, r', t')"
  shows "t' = t \<and> (\<exists>p q x. getProject r (lu_project_id i) = Some p \<and> getProject r' (lu_project_id i) = Some q \<and>
    x \<in> set LIFECYCLE_TRANSITIONS \<and> lt_event x = lu_event i \<and> lt_owner x = lu_actor i \<and>
    pe_lifecycle_state p = lt_from x \<and> pe_lifecycle_state q = lt_to x)"
proof -
  from assms obtain res where a: "applyLifecycleUpdate clk i r = Inr (res, r')" and t: "t' = t"
    by (auto simp: update_lifecycle_def split: sum.splits)
  then obtain p where p: "getProject r (lu_project_id i) = Some p"
    by (auto simp: applyLifecycleUpdate_def split: option.splits)
  obtain s to where rs: "resolveLifecycleTransition (pe_lifecycle_state p) (lu_event i) (lu_actor i) = Inr (s, to)"
    using a p by (auto simp: applyLifecycleUpdate_def outcome_bind_eq_Inr)
  then obtain x where x: "x \<in> set LIFECYCLE_TRANSITIONS" "lt_from x = pe_lifecycle_state p" "lt_to x = to"
      "lt_event x = lu_event i" "lt_owner x = lu_actor i"
    by (auto simp: resolve_ok_iff)
  have v: "validateLifecycleTransition (pe_lifecycle_state p) to (Some (lu_event i)) (Some (lu_actor i)) = None"
    using rs resolve_iff_validate by blast
  from apply_ok [OF p v, of clk] a obtain q where "getProject r' (lu_project_id i) = Some q" "pe_lifecycle_state q = to"
    by (auto simp: getProject_def transitioned_def update_as_transition_def)
  then show ?thesis using t p x by metis
qed

lemma update_fails: "update_lifecycle clk i (r, t) = (Inl e, s) \<Longrightarrow> s = (r, t)"
  by (auto simp: update_lifecycle_def split: sum.splits)

lemma on_files_registry: "on_files m (r, t) = (x, r', t') \<Longrightarrow> r' = r"
  by (auto simp: on_files_def split: prod.splits)

lemma on_files_cases:
  obtains x t' where "on_files m (r, t) = (x, r, t')"
  by (cases "m t") (auto simp: on_files_def)

lemma build_started_only: "x \<in> set LIFECYCLE_TRANSITIONS \<Longrightarrow> lt_event x = Build_started \<Longrightarrow> lt_from x = LS_discovery \<and> lt_to x = LS_implementation"
  by (auto simp: LIFECYCLE_TRANSITIONS_def)

lemma delivery_approved_only: "x \<in> set LIFECYCLE_TRANSITIONS \<Longrightarrow> lt_event x = Delivery_approved \<Longrightarrow> lt_from x = LS_qa \<and> lt_to x = LS_delivered"
  by (auto simp: LIFECYCLE_TRANSITIONS_def)

text \<open>What an operation on both does to the registry: nothing, or what its one update does.\<close>

definition same_registry :: "registry \<times> file_tree \<Rightarrow> registry \<times> file_tree \<Rightarrow> bool" where
  "same_registry x y \<longleftrightarrow> fst y = fst x"

lemma same_registry_order [simp, intro]: "reflp same_registry" "transp same_registry"
  by (auto simp: same_registry_def reflp_def transp_def)

lemma files_same_registry: "io_keeps same_registry (on_files m)"
  by (auto simp: io_keeps_def on_files_def same_registry_def split: prod.splits)

lemma same_registryD: "io_keeps same_registry m \<Longrightarrow> m (r, t) = (res, r', t') \<Longrightarrow> r' = r"
  using io_keepsD [of same_registry m "(r, t)"] by (auto simp: same_registry_def)

lemma bind_files_cases:
  assumes "io_bind (on_files m) f (r, t) = (res, r', t')"
  obtains (fails) e where "res = Inl e" "r' = r" | (goes) x t1 where "f x (r, t1) = (res, r', t')"
  using assms by (cases "m t"; cases "fst (m t)") (auto simp: io_bind_def on_files_def)

text \<open>An update between operations on files that precede and follow it.\<close>

definition moved :: "registry \<Rightarrow> string \<Rightarrow> lifecycle_state \<Rightarrow> lifecycle_state \<Rightarrow> registry \<Rightarrow> bool" where
  "moved r k from to r' \<longleftrightarrow> (\<exists>p q. getProject r k = Some p \<and> pe_lifecycle_state p = from \<and>
     getProject r' k = Some q \<and> pe_lifecycle_state q = to)"

lemma bind_update_moves:
  assumes "io_bind (update_lifecycle clk i) f (r, t) = (res, r', t')" "\<And>x. io_keeps same_registry (f x)"
    and "\<And>x. x \<in> set LIFECYCLE_TRANSITIONS \<Longrightarrow> lt_event x = lu_event i \<Longrightarrow> lt_from x = l \<and> lt_to x = l'"
  shows "r' = r \<and> (\<exists>e. res = Inl e) \<or> moved r (lu_project_id i) l l' r'"
proof (cases "update_lifecycle clk i (r, t)")
  case (fields x r1 t1)
  show ?thesis
  proof (cases x)
    case (Inl e)
    then show ?thesis using assms(1) fields update_fails [of clk i r t e] by (auto simp: io_bind_def)
  next
    case (Inr u)
    then have "f u (r1, t1) = (res, r', t')" using assms(1) fields by simp
    then have "r' = r1" by (rule same_registryD [OF assms(2)])
    then show ?thesis using update_effect [of clk i r t u r1 t1] Inr fields assms(3) unfolding moved_def by metis
  qed
qed

section \<open>Properties of the component\<close>

text \<open>
  C15: The answer to a delivery request changes the registry only when it is an approval
  that names the request, and then it moves the project from qa to delivered.
\<close>

theorem delivery_needs_approval:
  "case handleApprovalResponse h clk s request response (r, t) of (res, r', t') \<Rightarrow>
     r' = r \<or> ap_decision response = Approve \<and> ap_gate response = Delivery_final \<and>
       ap_request_id response = ar_request_id request \<and> moved r (es_project_id s) LS_qa LS_delivered r'"
proof (cases "handleApprovalResponse h clk s request response (r, t)")
  case (fields res r' t')
  then have "r' = r \<or> ap_decision response = Approve \<and> ap_gate response = Delivery_final \<and>
       ap_request_id response = ar_request_id request \<and> moved r (es_project_id s) LS_qa LS_delivered r'"
    by (auto simp: handleApprovalResponse_def split: if_splits elim!: bind_files_cases
        dest!: bind_update_moves [where l = LS_qa and l' = LS_delivered]
        simp: delivery_approved_only intro!: io_keeps_return)
  then show ?thesis using fields by simp
qed

text \<open>
  Engineering takes a typed discovery payload exactly when its title and summary are not
  blank, it has a capability and an approval, and no text of its five lists is blank; an
  empty list passes. It never throws on typed data.
\<close>

theorem handoff_validator_exact:
  "(validateDiscoveryHandoffPayload (discovery_payload_value p) = Inr None \<longleftrightarrow>
      js_trim (sf_title (dp_spec_final p)) \<noteq> [] \<and> js_trim (sf_summary (dp_spec_final p)) \<noteq> [] \<and>
      sf_capabilities (dp_spec_final p) \<noteq> [] \<and> dp_approval_history p \<noteq> [] \<and>
      (\<forall>s. s \<in> set (dp_acceptance_criteria p @ dp_feature_priorities p @ dp_tool_list p @ dp_project_constraints p @
        dp_implementation_risks p) \<longrightarrow> js_trim s \<noteq> [])) \<and>
   (\<exists>errors. validateDiscoveryHandoffPayload (discovery_payload_value p) = Inr errors)"
proof -
  have "(\<forall>s. s \<in> set (dp_acceptance_criteria p @ dp_feature_priorities p @ dp_tool_list p @ dp_project_constraints p @
        dp_implementation_risks p) \<longrightarrow> js_trim s \<noteq> []) \<longleftrightarrow>
      solid (dp_acceptance_criteria p) \<and> solid (dp_feature_priorities p) \<and> solid (dp_tool_list p) \<and>
      solid (dp_project_constraints p) \<and> solid (dp_implementation_risks p)"
    by (auto simp: solid_def list_all_iff)
  then show ?thesis
    by (auto simp: validateDiscoveryHandoffPayload_def blank_text_def Let_def)
qed

definition demo_discovery :: discovery_payload where
  "demo_discovery = \<lparr>dp_spec_final = \<lparr>sf_title = ''t'', sf_summary = ''s'',
       sf_capabilities = [\<lparr>ca_capability_id = ''c'', ca_title = ''x'', ca_description = ''y''\<rparr>]\<rparr>,
     dp_acceptance_criteria = [], dp_feature_priorities = [], dp_tool_list = [], dp_project_constraints = [],
     dp_implementation_risks = [],
     dp_approval_history = [\<lparr>an_gate = ''g'', an_decision = ''approve'', an_decided_at = [], an_decided_by = []\<rparr>],
     dp_external_integrations = None\<rparr>"

theorem handoff_validator_exact_witness:
  "validateDiscoveryHandoffPayload (discovery_payload_value demo_discovery) = Inr None"
  using handoff_validator_exact [of demo_discovery] by (simp add: demo_discovery_def js_trim_def js_space_def)

text \<open>
  Accepting a handoff moves the project from discovery to implementation; one that is
  refused leaves the registry as it was, unless the files failed after the move of a project
  that was in discovery. Nothing is moved for a payload the validator refuses.
\<close>

theorem handoff_moves_project:
  "case acceptDiscoveryHandoff h clk m s base (r, t) of (res, r', t') \<Rightarrow>
     r' = r \<and> (\<exists>e. res = Inl e) \<or>
     moved r (dm_project_id m) LS_discovery LS_implementation r' \<and>
       validateDiscoveryHandoffPayload (discovery_payload_value (dm_payload m)) = Inr None"
proof (cases "validateDiscoveryHandoffPayload (discovery_payload_value (dm_payload m))")
  case (Inl e)
  then show ?thesis by (simp add: acceptDiscoveryHandoff_def io_outcome_def)
next
  case (Inr v)
  show ?thesis
  proof (cases "v = None \<and> getProject r (dm_project_id m) \<noteq> None")
    case False
    then show ?thesis using Inr by (auto simp: acceptDiscoveryHandoff_def io_outcome_def split: option.splits)
  next
    case True
    then obtain p where p: "getProject r (dm_project_id m) = Some p" and v: "v = None" by auto
    obtain res r' t' where res: "acceptDiscoveryHandoff h clk m s base (r, t) = (res, r', t')"
      by (cases "acceptDiscoveryHandoff h clk m s base (r, t)")
    then have "r' = r \<and> (\<exists>e. res = Inl e) \<or> moved r (dm_project_id m) LS_discovery LS_implementation r'"
      using Inr v p
      by (auto simp: acceptDiscoveryHandoff_def io_outcome_def Let_def elim!: bind_files_cases
          dest!: bind_update_moves [where l = LS_discovery and l' = LS_implementation]
          simp: build_started_only intro!: io_keeps_bind files_same_registry io_keeps_return)
    then show ?thesis using res Inr v by auto
  qed
qed

text \<open>
  A revision asks for the next delivery version and every other accepted answer keeps the
  version; the answer to the request of the version before it is refused for the new one, so
  an old approval never delivers a revised version.
\<close>

theorem stale_approval_refused:
  "case handleApprovalResponse h clk s (buildDeliveryApprovalRequest s t0 context) response (r, t) of
     (Inl e, _) \<Rightarrow> True
   | (Inr out, r', t') \<Rightarrow>
       if ap_decision response = Revise then
         es_delivery_version (ao_next_state out) = es_delivery_version s + 1 \<and>
         handleApprovalResponse h clk (ao_next_state out)
           (buildDeliveryApprovalRequest (ao_next_state out) t1 context') response (r', t') =
           (Inl ''Approval response request_id mismatch'', r', t')
       else es_delivery_version (ao_next_state out) = es_delivery_version s"
proof (cases "handleApprovalResponse h clk s (buildDeliveryApprovalRequest s t0 context) response (r, t)")
  case (fields res r' t')
  show ?thesis
  proof (cases res)
    case (Inr out)
    then have run: "handleApprovalResponse h clk s (buildDeliveryApprovalRequest s t0 context) response (r, t) = (Inr out, r', t')"
      using fields by simp
    then have id: "ap_gate response = Delivery_final"
        "ap_request_id response = es_project_id s @ '':delivery_final:v'' @ nat_str (es_delivery_version s)"
      by (auto simp: handleApprovalResponse_def buildDeliveryApprovalRequest_def split: if_splits)
    from run have version: "es_project_id (ao_next_state out) = es_project_id s \<and> es_delivery_version (ao_next_state out) =
        (if ap_decision response = Revise then es_delivery_version s + 1 else es_delivery_version s)"
      by (auto simp: handleApprovalResponse_def io_bind_Inr io_return_def split: if_splits)
    then show ?thesis
      using run id by (simp add: handleApprovalResponse_def [of h clk "ao_next_state out"] buildDeliveryApprovalRequest_def)
  qed (simp add: fields)
qed

text \<open>
  Status messages of engineering are valid as built; its clarifications and risk alerts lack
  a field and are refused as built, and the bus makes the clarifications and the alerts
  valid.
\<close>

theorem engineering_messages_validity:
  "isValidAgentMessage (message_value (engineering_status to k now status summary a)) \<and>
   \<not> isValidAgentMessage (message_value (buildEngineeringClarification k now qs)) \<and>
   isValidAgentMessage (message_value (normalizeMessageForRuntime (buildEngineeringClarification k now qs))) \<and>
   list_all (\<lambda>m. \<not> isValidAgentMessage (message_value m) \<and>
     isValidAgentMessage (message_value (normalizeMessageForRuntime m))) (buildUnrecoverableErrorAlert s now e)"
proof -
  have "isValidAgentMessage (message_value (engineering_status to k now status summary a))"
    unfolding valid_message_value by (rule exI [of _ Status_update]) (simp add: engineering_status_def)
  moreover have "\<not> isValidAgentMessage (message_value (buildEngineeringClarification k now qs))"
    by (rule payload_missing [of _ Clarification_request "''request_id''"])
      (simp_all add: buildEngineeringClarification_def)
  moreover have "isValidAgentMessage (message_value (normalizeMessageForRuntime (buildEngineeringClarification k now qs)))"
    by (simp add: normalize_valid_clarification buildEngineeringClarification_def)
  moreover have alert: "\<not> isValidAgentMessage (message_value m) \<and>
      isValidAgentMessage (message_value (normalizeMessageForRuntime m))"
    if "m \<in> set (buildUnrecoverableErrorAlert s now e)" for m
  proof
    show "\<not> isValidAgentMessage (message_value m)"
      using that by (intro payload_missing [of _ Risk_alert "''risk_id''"]) (auto simp: buildUnrecoverableErrorAlert_def Let_def)
    have "msg_type m = ''risk_alert''" using that by (auto simp: buildUnrecoverableErrorAlert_def Let_def)
    moreover have "\<exists>ps. msg_payload m = JObj ps \<and> has_prop (JObj ps) ''severity''"
      using that by (auto simp: buildUnrecoverableErrorAlert_def Let_def)
    ultimately obtain ps where m: "msg_type m = ''risk_alert''" "msg_payload m = JObj ps" "has_prop (JObj ps) ''severity''"
      by blast
    show "isValidAgentMessage (message_value (normalizeMessageForRuntime m))"
      unfolding valid_message_value
      by (rule exI [of _ Risk_alert]) (use m in \<open>simp add: normalizeMessageForRuntime_def Let_def field_default del: has_prop.simps\<close>)
  qed
  ultimately show ?thesis by (auto simp: list_all_iff)
qed

end
