(* ===== verification/Product_Runtime.thy ===== *)
theory Product_Runtime
  imports Message_Bus JS_Json
begin

text \<open>
  The product agent, \<^verbatim>\<open>src/agents/product/models.ts\<close> and \<^verbatim>\<open>runtime.ts\<close>: the
  class \<^verbatim>\<open>ProductRuntime\<close> as a record of its projects and the registry it may have, one
  function per method. The payload of a lead handoff has the types its interface declares; a
  payload of other types is out of the model.
\<close>

section \<open>Data\<close>

datatype discovery_status =
    Ds_idle | Ds_awaiting_clarification | Ds_discovery_in_progress | Ds_spec_drafting
  | Ds_awaiting_owner_approval | Ds_approved | Ds_ready_for_implementation

fun discovery_status_str :: "discovery_status \<Rightarrow> string" where
  "discovery_status_str Ds_idle = ''idle''"
| "discovery_status_str Ds_awaiting_clarification = ''awaiting_clarification''"
| "discovery_status_str Ds_discovery_in_progress = ''discovery_in_progress''"
| "discovery_status_str Ds_spec_drafting = ''spec_drafting''"
| "discovery_status_str Ds_awaiting_owner_approval = ''awaiting_owner_approval''"
| "discovery_status_str Ds_approved = ''approved''"
| "discovery_status_str Ds_ready_for_implementation = ''ready_for_implementation''"

datatype handoff_status = Hs_not_sent | Hs_validation_failed | Hs_awaiting_engineering_ack | Hs_handoff_completed

datatype product_task_name =
    Pt_handoff_validation | Pt_discovery_in_progress | Pt_awaiting_clarification | Pt_spec_drafting
  | Pt_awaiting_owner_approval | Pt_awaiting_engineering_ack

datatype product_task_status = Ps_pending | Ps_in_progress | Ps_completed | Ps_blocked | Ps_overdue

record product_task =
  pk_task_name :: product_task_name
  pk_task_status :: product_task_status
  pk_task_updated_at :: string
  pk_detail :: string

record lead_payload =
  ld_business_summary :: "string option"
  ld_payload_stakeholders :: "string list option"
  ld_last_proposal_ref :: "string option"
  ld_initial_scope :: "string list option"
  ld_commercial_assumptions :: "string list option"
  ld_initial_risks :: "string list option"
  ld_notes :: "string list option"

record clarification_entry =
  ce_question :: string
  ce_answer :: "string option"
  ce_asked_at :: string
  ce_answered_at :: "string option"
  ce_from_owner :: bool

datatype product_priority = Pr_critical | Pr_high | Pr_medium | Pr_low

fun priority_str :: "product_priority \<Rightarrow> string" where
  "priority_str Pr_critical = ''critical''"
| "priority_str Pr_high = ''high''"
| "priority_str Pr_medium = ''medium''"
| "priority_str Pr_low = ''low''"

record discovery_capability =
  dc_capability :: string
  dc_recommended_agent_type :: agent_type
  dc_rationale :: string
  dc_priority :: product_priority

record product_risk =
  rk_id :: string
  rk_summary :: string
  rk_priority :: product_priority
  rk_mitigation :: string

datatype spec_source = Draft_spec | Revision_spec

record spec_version =
  sv_version :: nat
  sv_artifact_ref :: string
  sv_content :: string
  sv_created_at :: string
  sv_source :: spec_source

record approval_record =
  rc_version :: nat
  rc_response :: approval_response

record product_state =
  ps_project_id :: string
  ps_client_id :: string
  ps_lifecycle_state :: lifecycle_state
  ps_spec_version :: nat
  ps_discovery_status :: discovery_status
  ps_handoff_status :: handoff_status
  ps_namespace :: string
  ps_tasks :: "product_task list"
  ps_capability_map :: "discovery_capability list"
  ps_clarification_log :: "clarification_entry list"
  ps_assumptions :: "string list"
  ps_conflicts :: "string list"
  ps_risks :: "product_risk list"
  ps_artifacts :: "(string, string) js_map"
  ps_latest_spec :: "spec_version option"
  ps_spec_history :: "spec_version list"
  ps_approval_history :: "approval_record list"
  ps_audit_log :: "string list"
  ps_last_updated_at :: string

definition createProductProjectState :: "string \<Rightarrow> string \<Rightarrow> string \<Rightarrow> product_state" where
  "createProductProjectState project_id client_id timestamp =
     \<lparr>ps_project_id = project_id, ps_client_id = client_id, ps_lifecycle_state = LS_won, ps_spec_version = 0,
      ps_discovery_status = Ds_idle, ps_handoff_status = Hs_not_sent,
      ps_namespace = buildProjectNamespace client_id project_id, ps_tasks = [], ps_capability_map = [],
      ps_clarification_log = [], ps_assumptions = [], ps_conflicts = [], ps_risks = [], ps_artifacts = [],
      ps_latest_spec = None, ps_spec_history = [], ps_approval_history = [], ps_audit_log = [],
      ps_last_updated_at = timestamp\<rparr>"

record approval_request_input =
  ai_request_id :: string
  ai_timestamp :: string
  ai_project_id :: string
  ai_artifact_ref :: string
  ai_summary :: string
  ai_recommendation :: string
  ai_risks :: "string list"

definition createSpecApprovalRequest :: "approval_request_input \<Rightarrow> approval_request" where
  "createSpecApprovalRequest i =
     \<lparr>ar_request_id = ai_request_id i, ar_gate = Spec_final, ar_from_agent = Product_agent,
      ar_timestamp = ai_timestamp i, ar_project_id = Some (ai_project_id i), ar_summary = ai_summary i,
      ar_recommendation = ai_recommendation i, ar_risks = ai_risks i, ar_options = [Approve, Reject, Revise],
      ar_artifact_ref = ai_artifact_ref i\<rparr>"

section \<open>The lead handoff\<close>

definition HANDOFF_REQUIRED_FIELDS :: "string list" where
  "HANDOFF_REQUIRED_FIELDS =
     [''business_summary'', ''stakeholders'', ''last_proposal_ref'', ''initial_scope'', ''commercial_assumptions'',
      ''initial_risks'']"

definition opt_text :: "jsval \<Rightarrow> string \<Rightarrow> string option" where
  "opt_text v k = (case get_prop v k of JStr s \<Rightarrow> Some s | _ \<Rightarrow> None)"

definition opt_texts :: "jsval \<Rightarrow> string \<Rightarrow> string list option" where
  "opt_texts v k = (case get_prop v k of JArr vs \<Rightarrow> Some (map str_of vs) | _ \<Rightarrow> None)"

text \<open>The payload, read with the types of its interface.\<close>

definition lead_payload_of :: "jsval \<Rightarrow> lead_payload" where
  "lead_payload_of v =
     \<lparr>ld_business_summary = opt_text v ''business_summary'', ld_payload_stakeholders = opt_texts v ''stakeholders'',
      ld_last_proposal_ref = opt_text v ''last_proposal_ref'', ld_initial_scope = opt_texts v ''initial_scope'',
      ld_commercial_assumptions = opt_texts v ''commercial_assumptions'',
      ld_initial_risks = opt_texts v ''initial_risks'', ld_notes = opt_texts v ''conversation_notes''\<rparr>"

definition missing_field :: "jsval \<Rightarrow> bool" where
  "missing_field v \<longleftrightarrow> v = JUndefined \<or> v = JArr []"

text \<open>The names of the fields that are missing, and the payload; valid when no name is missing.\<close>

definition validateLeadHandoff :: "jsval \<Rightarrow> string list \<times> jsval" where
  "validateLeadHandoff message =
     (if \<not> is_object message then
        ([''from'', ''to'', ''message_type'', ''project_id'', ''timestamp'', ''payload''], JObj [])
      else
        let topLevelMissing =
          filter (\<lambda>k. \<not> is_string (get_prop message k)) [''from'', ''to'', ''message_type'', ''project_id'', ''timestamp''] @
          (if is_object (get_prop message ''payload'') then [] else [''payload''])
        in
        if topLevelMissing \<noteq> [] then (topLevelMissing, JObj [])
        else
          ((if get_prop message ''from'' \<noteq> JStr ''sales_agent'' then [''from''] else []) @
           (if get_prop message ''to'' \<noteq> JStr ''product_agent'' then [''to''] else []) @
           (if get_prop message ''message_type'' \<noteq> JStr ''lead_handoff'' then [''message_type''] else []) @
           filter (\<lambda>f. missing_field (get_prop (get_prop message ''payload'') f)) HANDOFF_REQUIRED_FIELDS,
           get_prop message ''payload''))"

section \<open>What is derived from the payload\<close>

text \<open>\<open>!list?.length\<close>.\<close>

definition none_or_empty :: "'a list option \<Rightarrow> bool" where
  "none_or_empty x \<longleftrightarrow> nullish x [] = []"

definition generateDiscoveryQuestions :: "lead_payload \<Rightarrow> string list" where
  "generateDiscoveryQuestions payload =
     [''Apa tujuan bisnis utama dan metrik keberhasilan proyek ini?'',
      ''Siapa persona utama yang akan memakai solusi ini?'',
      ''Integrasi apa saja yang wajib tersedia pada MVP?'',
      ''Batasan operasional atau compliance apa yang harus dipatuhi?'',
      ''Kriteria acceptance apa yang membuat proyek dianggap berhasil?''] @
     (if none_or_empty (ld_initial_scope payload)
      then [''Scope awal mana yang harus menjadi prioritas fase pertama?''] else []) @
     (if none_or_empty (ld_commercial_assumptions payload)
      then [''Asumsi komersial mana yang paling berpengaruh ke ruang lingkup delivery?''] else [])"

definition extractAssumptions :: "lead_payload \<Rightarrow> string list" where
  "extractAssumptions payload =
     nullish (ld_commercial_assumptions payload) [] @
     (if none_or_empty (ld_payload_stakeholders payload)
      then [''Primary stakeholder authority still needs confirmation.''] else []) @
     (if none_or_empty (ld_initial_scope payload) then [''Scope will stay limited to MVP until clarified.''] else [])"

definition detectConflicts :: "lead_payload \<Rightarrow> string list" where
  "detectConflicts payload =
     (let notes = (case ld_notes payload of None \<Rightarrow> [] | Some ns \<Rightarrow> js_lower (js_join '' '' ns));
          summary = (case ld_business_summary payload of None \<Rightarrow> [] | Some s \<Rightarrow> js_lower s)
      in if js_includes notes ''internal only'' \<and> js_includes summary ''public'' then
           [''Conversation notes mention internal-only usage while summary suggests public-facing workflow.'']
         else [])"

definition buildCapabilityMap :: "lead_payload \<Rightarrow> discovery_capability list" where
  "buildCapabilityMap payload =
     (let scopeText = (case ld_initial_scope payload of None \<Rightarrow> [] | Some ss \<Rightarrow> js_lower (js_join '' '' ss)) in
      [\<lparr>dc_capability = ''Discovery intake and backlog shaping'', dc_recommended_agent_type = Product_agent,
        dc_rationale = ''Required to convert business needs into implementable scope.'', dc_priority = Pr_critical\<rparr>] @
      (if js_includes scopeText ''lead'' \<or> js_includes scopeText ''crm'' then
         [\<lparr>dc_capability = ''Sales workflow automation'', dc_recommended_agent_type = Sales_agent,
           dc_rationale = ''Scope references lead or CRM operations that need sales-side integration.'',
           dc_priority = Pr_high\<rparr>] else []) @
      (if js_includes scopeText ''support'' then
         [\<lparr>dc_capability = ''Support issue routing'', dc_recommended_agent_type = Support_agent,
           dc_rationale = ''Support workflows require escalation and ticket handling.'',
           dc_priority = Pr_medium\<rparr>] else []))"

definition buildRisks :: "lead_payload \<Rightarrow> string list \<Rightarrow> product_risk list" where
  "buildRisks payload missingFields =
     map (\<lambda>(index, summary).
        \<lparr>rk_id = ''risk-'' @ nat_str (index + 1), rk_summary = summary, rk_priority = Pr_medium,
         rk_mitigation = ''Validate during discovery and capture explicit owner decision.''\<rparr>)
       (enumerate 0 (nullish (ld_initial_risks payload) [])) @
     (if missingFields \<noteq> [] then
        [\<lparr>rk_id = ''risk-missing-'' @ nat_str (length missingFields),
          rk_summary = ''Incomplete lead handoff: '' @ js_join '', '' missingFields, rk_priority = Pr_high,
          rk_mitigation = ''Send clarification_request before drafting the final spec.''\<rparr>] else []) @
     (if nullish (ld_last_proposal_ref payload) [] = [] then
        [\<lparr>rk_id = ''risk-proposal-ref'',
          rk_summary = ''Proposal reference is missing, which weakens auditability.'', rk_priority = Pr_critical,
          rk_mitigation = ''Block discovery approval until proposal artifact is attached.''\<rparr>] else [])"

section \<open>Documents\<close>

definition buildRiskRegister :: "product_risk list \<Rightarrow> string" where
  "buildRiskRegister risks =
     js_join [CHR 0x0A] ([''# Risk Register'', []] @
       concat (map (\<lambda>risk.
         [''- ['' @ priority_str (rk_priority risk) @ ''] '' @ rk_summary risk @ '' ('' @ rk_id risk @ '')'',
          ''  Mitigation: '' @ rk_mitigation risk]) risks))"

definition buildAssumptionsDocument :: "string list \<Rightarrow> string list \<Rightarrow> string" where
  "buildAssumptionsDocument assumptions conflicts =
     js_join [CHR 0x0A] ([''# Assumptions'', []] @
       (if assumptions \<noteq> [] then bullets assumptions else [''- No explicit assumptions recorded yet.'']) @
       [[], ''# Conflicts'', []] @
       (if conflicts \<noteq> [] then bullets conflicts else [''- No conflicts recorded.'']))"

definition buildDiscoveryNotesMarkdown ::
  "lead_payload \<Rightarrow> string list \<Rightarrow> discovery_capability list \<Rightarrow> string list \<Rightarrow> string" where
  "buildDiscoveryNotesMarkdown payload questions capabilityMap assumptions =
     js_join [CHR 0x0A]
       ([''# Discovery Notes'', [], ''## Business Summary'', nullish (ld_business_summary payload) ''TBD'', [],
         ''## Stakeholders''] @
        (case ld_payload_stakeholders payload of None \<Rightarrow> [''- TBD''] | Some ss \<Rightarrow> bullets ss) @
        [[], ''## Scope''] @
        (case ld_initial_scope payload of None \<Rightarrow> [''- TBD''] | Some ss \<Rightarrow> bullets ss) @
        [[], ''## Clarification Questions''] @ bullets questions @
        [[], ''## Capability Map''] @
        map (\<lambda>item. ''- '' @ dc_capability item @ '': '' @ dc_rationale item) capabilityMap @
        [[], ''## Assumptions''] @ bullets assumptions)"

text \<open>The four documents of a handoff, under their names.\<close>

definition buildArtifacts ::
  "product_state \<Rightarrow> lead_payload \<Rightarrow> string list \<Rightarrow> string list \<Rightarrow> string list \<Rightarrow> product_risk list \<Rightarrow>
   discovery_capability list \<Rightarrow> (string \<times> string) list" where
  "buildArtifacts state payload questions assumptions conflicts risks capabilityMap =
     [(ps_namespace state @ ''clarification-log.json'',
       json_pretty [] (JArr (map (\<lambda>q. JObj [(''question'', JStr q), (''answer'', JNull)]) questions))),
      (ps_namespace state @ ''discovery-notes.md'',
       buildDiscoveryNotesMarkdown payload questions capabilityMap assumptions),
      (ps_namespace state @ ''assumptions.md'', buildAssumptionsDocument assumptions conflicts),
      (ps_namespace state @ ''risk-register.md'', buildRiskRegister risks)]"

definition extractAcceptanceCriteria :: "product_state \<Rightarrow> string list" where
  "extractAcceptanceCriteria state =
     [''Spec must be approved by owner before engineering handoff.'',
      ''Engineering acknowledgment is required before lifecycle advances to implementation.'',
      ''All discovery artifacts stay inside the project namespace.''] @
     (if ps_capability_map state \<noteq> [] then
        [''Capability map includes '' @ nat_str (length (ps_capability_map state)) @ '' tracked capabilities.''] else [])"

section \<open>The tools\<close>

record product_tool =
  pu_name :: string
  pu_description :: string
  pu_inputSchema :: "string list"
  pu_isConcurrencySafe :: bool

definition listTools :: "product_tool list" where
  "listTools =
     [\<lparr>pu_name = ''brief_analyze'',
       pu_description = ''Analyzes a client brief and extracts product discovery gaps.'',
       pu_inputSchema = [''brief_text'', ''project_id''], pu_isConcurrencySafe = True\<rparr>,
      \<lparr>pu_name = ''document_read'',
       pu_description = ''Reads a stored discovery artifact from the project namespace.'',
       pu_inputSchema = [''project_id'', ''artifact_ref''], pu_isConcurrencySafe = True\<rparr>,
      \<lparr>pu_name = ''spec_write'',
       pu_description = ''Creates the next versioned product spec artifact.'',
       pu_inputSchema = [''project_id'', ''timestamp''], pu_isConcurrencySafe = False\<rparr>,
      \<lparr>pu_name = ''template_load'',
       pu_description = ''Loads the product spec template metadata.'',
       pu_inputSchema = [''project_id''], pu_isConcurrencySafe = True\<rparr>,
      \<lparr>pu_name = ''message_send'',
       pu_description = ''Publishes a typed cross-agent message for product coordination.'',
       pu_inputSchema = [''message''], pu_isConcurrencySafe = False\<rparr>]"

definition composeSpecContent :: "product_state \<Rightarrow> nat \<Rightarrow> string option \<Rightarrow> string" where
  "composeSpecContent state version summary =
     js_join [CHR 0x0A]
       ([''# Product Spec v'' @ nat_str version, [], ''## Solution Summary'',
         nullish summary (nullish (map_option sv_content (ps_latest_spec state))
           ''Solution summary derived from discovery artifacts.''),
         [], ''## Capability Map''] @
        map (\<lambda>item. ''- '' @ dc_capability item @ '' ('' @ priority_str (dc_priority item) @ ''): '' @ dc_rationale item)
          (ps_capability_map state) @
        [[], ''## Main Workflow'',
         ''- lead_handoff -> discovery -> approval_request -> discovery_handoff -> engineering_ack'', [],
         ''## Tools''] @
        map (\<lambda>tool. ''- '' @ pu_name tool @ '': '' @ pu_description tool) listTools @
        [[], ''## Integrations'', ''- Sales Agent handoff intake'', ''- Project Manager status updates'',
         ''- Engineering Agent discovery handoff'', [], ''## Acceptance Criteria''] @
        bullets (extractAcceptanceCriteria state) @
        [[], ''## Assumptions''] @ bullets (ps_assumptions state) @
        [[], ''## Risks''] @
        map (\<lambda>item. ''- ['' @ priority_str (rk_priority item) @ ''] '' @ rk_summary item) (ps_risks state) @
        [[], ''## MVP Recommendation'',
         ''- Deliver the validated scope from initial discovery as phase 1.'', [], ''## Testability Gaps''] @
        (if ps_conflicts state \<noteq> [] then bullets (ps_conflicts state)
         else [''- No unresolved testability gaps captured at this version.'']) @
        [[], ''## Technical Constraints'',
         ''- Must remain compatible with .kiro/specs/ai-company-agents lifecycle and message contracts.''])"

section \<open>The runtime\<close>

record product_runtime =
  pt_projects :: "(string, product_state) js_map"
  pt_registry :: "registry option"

definition empty_product_runtime :: "registry option \<Rightarrow> product_runtime" where
  "empty_product_runtime registry = \<lparr>pt_projects = [], pt_registry = registry\<rparr>"

definition getProjectState :: "product_runtime \<Rightarrow> string \<Rightarrow> product_state option" where
  "getProjectState rt projectId = jm_get (pt_projects rt) projectId"

definition requireProject :: "product_runtime \<Rightarrow> string \<Rightarrow> product_state outcome" where
  "requireProject rt projectId =
     (case jm_get (pt_projects rt) projectId of
        None \<Rightarrow> Inl (''Unknown product project: '' @ projectId)
      | Some state \<Rightarrow> Inr state)"

definition persist :: "product_state \<Rightarrow> product_runtime \<Rightarrow> product_runtime" where
  "persist state rt = rt\<lparr>pt_projects := jm_set (pt_projects rt) (ps_project_id state) state\<rparr>"

definition updateTask ::
  "product_task list \<Rightarrow> product_task_name \<Rightarrow> product_task_status \<Rightarrow> string \<Rightarrow> string \<Rightarrow> product_task list" where
  "updateTask tasks taskName status updatedAt detail =
     filter (\<lambda>task. pk_task_name task \<noteq> taskName) tasks @
     [\<lparr>pk_task_name = taskName, pk_task_status = status, pk_task_updated_at = updatedAt, pk_detail = detail\<rparr>]"

text \<open>The registry entry of the project is created or updated; without a registry nothing happens.\<close>

definition syncRegistry :: "clock \<Rightarrow> product_state \<Rightarrow> product_runtime \<Rightarrow> product_runtime outcome" where
  "syncRegistry clk state rt =
     (case pt_registry rt of
        None \<Rightarrow> Inr rt
      | Some r \<Rightarrow>
          (case getProject r (ps_project_id state) of
             Some existing \<Rightarrow>
               outcome_bind
                 (updateProject clk (ps_project_id state)
                   [Upd_client_id (ps_client_id state), Upd_lifecycle_state (ps_lifecycle_state state),
                    Upd_active_agent_ids
                      (if ''product-agent'' \<in> set (pe_active_agent_ids existing) then pe_active_agent_ids existing
                       else pe_active_agent_ids existing @ [''product-agent'']),
                    Upd_current_milestone (discovery_status_str (ps_discovery_status state)),
                    Upd_updated_at (ps_last_updated_at state)] r)
                 (\<lambda>r. Inr (rt\<lparr>pt_registry := Some r\<rparr>))
           | None \<Rightarrow>
               Inr (rt\<lparr>pt_registry := Some (registerProject clk
                 \<lparr>pe_project_id = ps_project_id state, pe_client_id = ps_client_id state,
                  pe_lifecycle_state = ps_lifecycle_state state, pe_active_agent_ids = [''product-agent''],
                  pe_current_milestone = discovery_status_str (ps_discovery_status state),
                  pe_updated_at = ps_last_updated_at state\<rparr> r)\<rparr>)))"

definition upsertProject ::
  "clock \<Rightarrow> string \<Rightarrow> string \<Rightarrow> string \<Rightarrow> product_runtime \<Rightarrow> (product_state \<times> product_runtime) outcome" where
  "upsertProject clk project_id client_id timestamp rt =
     (case jm_get (pt_projects rt) project_id of
        Some existing \<Rightarrow>
          let state = existing\<lparr>ps_client_id := client_id, ps_last_updated_at := timestamp\<rparr>
          in Inr (state, persist state rt)
      | None \<Rightarrow>
          let state = createProductProjectState project_id client_id timestamp
          in outcome_bind (syncRegistry clk state rt) (\<lambda>rt. Inr (state, persist state rt)))"

definition product_message :: "string \<Rightarrow> string \<Rightarrow> string \<Rightarrow> string \<Rightarrow> (string \<times> jsval) list \<Rightarrow> agent_message" where
  "product_message to message_type project_id timestamp payload =
     \<lparr>msg_from = ''product_agent'', msg_to = to, msg_type = message_type, msg_project_id = project_id,
      msg_timestamp = timestamp, msg_payload = JObj payload\<rparr>"

text \<open>The state after the handoff was read, before it is judged.\<close>

definition intake_state :: "product_state \<Rightarrow> lead_payload \<Rightarrow> string list \<Rightarrow> string \<Rightarrow> product_state" where
  "intake_state baseState payload missingFields timestamp =
     (let questions = generateDiscoveryQuestions payload;
          risks = buildRisks payload missingFields;
          assumptions = extractAssumptions payload;
          conflicts = detectConflicts payload;
          capabilityMap = buildCapabilityMap payload;
          artifacts = buildArtifacts baseState payload questions assumptions conflicts risks capabilityMap
      in baseState\<lparr>
           ps_clarification_log := map (\<lambda>question. \<lparr>ce_question = question, ce_answer = None, ce_asked_at = timestamp,
             ce_answered_at = None, ce_from_owner = False\<rparr>) questions,
           ps_capability_map := capabilityMap, ps_assumptions := assumptions, ps_conflicts := conflicts,
           ps_risks := risks,
           ps_artifacts := fold (\<lambda>(k, v) m. jm_set m k v) artifacts (ps_artifacts baseState),
           ps_audit_log := ps_audit_log baseState @ [''lead_handoff_received:'' @ timestamp],
           ps_last_updated_at := timestamp\<rparr>)"

record intake_result =
  in_accepted :: bool
  in_state :: product_state
  in_outgoing :: "agent_message list"

definition receiveLeadHandoff ::
  "clock \<Rightarrow> string \<Rightarrow> agent_message \<Rightarrow> product_runtime \<Rightarrow> (intake_result \<times> product_runtime) outcome" where
  "receiveLeadHandoff clk clientId message rt =
     (let (missingFields, raw) = validateLeadHandoff (message_value message);
          payload = lead_payload_of raw;
          project_id = msg_project_id message;
          timestamp = msg_timestamp message
      in outcome_bind (upsertProject clk project_id clientId timestamp rt) (\<lambda>(baseState, rt).
         let nextState = intake_state baseState payload missingFields timestamp in
         if missingFields = [] then
           let nextState = nextState\<lparr>
                 ps_lifecycle_state := LS_discovery, ps_discovery_status := Ds_discovery_in_progress,
                 ps_handoff_status := Hs_not_sent,
                 ps_tasks := updateTask
                   (updateTask (ps_tasks nextState) Pt_handoff_validation Ps_completed timestamp ''Lead handoff validated'')
                   Pt_discovery_in_progress Ps_in_progress timestamp ''Discovery started''\<rparr>
           in outcome_bind (syncRegistry clk nextState rt) (\<lambda>rt.
              Inr (\<lparr>in_accepted = True, in_state = nextState,
                     in_outgoing = [product_message ''project_manager_agent'' ''status_update'' project_id timestamp
                       [(''status'', JStr ''discovery_started''), (''milestone'', JStr ''lead_handoff received''),
                        (''namespace'', JStr (ps_namespace nextState))]]\<rparr>, persist nextState rt))
         else
           let nextState = nextState\<lparr>
                 ps_discovery_status := Ds_awaiting_clarification, ps_handoff_status := Hs_validation_failed,
                 ps_tasks := updateTask
                   (updateTask (ps_tasks nextState) Pt_handoff_validation Ps_blocked timestamp
                     (''Missing fields: '' @ js_join '', '' missingFields))
                   Pt_awaiting_clarification Ps_in_progress timestamp ''Waiting for sales clarification''\<rparr>
           in outcome_bind (syncRegistry clk nextState rt) (\<lambda>rt.
              Inr (\<lparr>in_accepted = False, in_state = nextState,
                     in_outgoing =
                       [product_message ''sales_agent'' ''clarification_request'' project_id timestamp
                          [(''missing_fields'', JArr (map JStr missingFields)),
                           (''questions'', JArr (map JStr (generateDiscoveryQuestions payload)))],
                        product_message ''project_manager_agent'' ''status_update'' project_id timestamp
                          [(''status'', JStr ''awaiting_clarification''),
                           (''blocker'', JArr (map JStr missingFields))]]\<rparr>, persist nextState rt))))"

definition writeSpec ::
  "string \<Rightarrow> string \<Rightarrow> string option \<Rightarrow> product_runtime \<Rightarrow> (spec_version \<times> product_runtime) outcome" where
  "writeSpec project_id timestamp summary rt =
     outcome_bind (requireProject rt project_id) (\<lambda>state.
     let version = ps_spec_version state + 1;
         artifactRef = ps_namespace state @ ''spec-v'' @ nat_str version @ ''.md'';
         content = composeSpecContent state version summary;
         specVersion = \<lparr>sv_version = version, sv_artifact_ref = artifactRef, sv_content = content,
           sv_created_at = timestamp, sv_source = (if version = 1 then Draft_spec else Revision_spec)\<rparr>
     in Inr (specVersion, persist
          (state\<lparr>ps_spec_version := version, ps_discovery_status := Ds_spec_drafting,
             ps_latest_spec := Some specVersion, ps_spec_history := ps_spec_history state @ [specVersion],
             ps_artifacts := jm_set (ps_artifacts state) artifactRef content,
             ps_tasks := updateTask (ps_tasks state) Pt_spec_drafting Ps_completed timestamp
               (''Spec v'' @ nat_str version @ '' drafted''),
             ps_audit_log := ps_audit_log state @ [''spec_written:v'' @ nat_str version @ '':'' @ timestamp],
             ps_last_updated_at := timestamp\<rparr>) rt))"

definition summarizeSpec :: "product_state \<Rightarrow> string" where
  "summarizeSpec state =
     ''Product discovery spec v'' @ nat_str (ps_spec_version state) @ '' for project '' @ ps_project_id state"

definition requestSpecApproval ::
  "string \<Rightarrow> string \<Rightarrow> string \<Rightarrow> string \<Rightarrow> product_runtime \<Rightarrow>
   ((approval_request \<times> agent_message list) \<times> product_runtime) outcome" where
  "requestSpecApproval project_id request_id timestamp recommendation rt =
     outcome_bind (requireProject rt project_id) (\<lambda>state.
     case ps_latest_spec state of
       None \<Rightarrow> Inl (''Cannot request approval without spec for project '' @ project_id)
     | Some spec \<Rightarrow>
         let approval = createSpecApprovalRequest
               \<lparr>ai_request_id = request_id, ai_timestamp = timestamp, ai_project_id = project_id,
                ai_artifact_ref = sv_artifact_ref spec, ai_summary = summarizeSpec state,
                ai_recommendation = recommendation,
                ai_risks = map (\<lambda>risk. priority_str (rk_priority risk) @ '': '' @ rk_summary risk) (ps_risks state)\<rparr>
         in Inr ((approval,
              [product_message ''project_manager_agent'' ''status_update'' project_id timestamp
                 [(''status'', JStr ''approval_pending''), (''gate'', JStr ''spec_final''),
                  (''version'', JNum (int (ps_spec_version state)))]]),
              persist
                (state\<lparr>ps_discovery_status := Ds_awaiting_owner_approval,
                   ps_tasks := updateTask (ps_tasks state) Pt_awaiting_owner_approval Ps_in_progress timestamp
                     (''Awaiting owner response for spec v'' @ nat_str (ps_spec_version state)),
                   ps_audit_log := ps_audit_log state @
                     [''approval_requested:v'' @ nat_str (ps_spec_version state) @ '':'' @ timestamp],
                   ps_last_updated_at := timestamp\<rparr>) rt))"

section \<open>Approval and handoff\<close>

definition recordSpecApprovalResponse ::
  "string \<Rightarrow> approval_response \<Rightarrow> product_runtime \<Rightarrow> (product_state \<times> product_runtime) outcome" where
  "recordSpecApprovalResponse project_id response rt =
     outcome_bind (requireProject rt project_id) (\<lambda>state.
     let nextHistory = ps_approval_history state @ [\<lparr>rc_version = ps_spec_version state, rc_response = response\<rparr>];
         nextState = state\<lparr>ps_approval_history := nextHistory,
           ps_audit_log := ps_audit_log state @
             [''approval_response:'' @ approval_decision_str (ap_decision response) @ '':'' @ ap_timestamp response],
           ps_last_updated_at := ap_timestamp response\<rparr>
     in case ap_decision response of
          Approve \<Rightarrow>
            let nextState = nextState\<lparr>ps_discovery_status := Ds_approved,
                  ps_tasks := updateTask (ps_tasks state) Pt_awaiting_owner_approval Ps_completed (ap_timestamp response)
                    ''Owner approved final spec''\<rparr>
            in Inr (nextState, persist nextState rt)
        | Revise \<Rightarrow>
            outcome_bind
              (writeSpec project_id (ap_timestamp response)
                 (Some (''Revision requested: '' @ nullish (ap_notes response) ''No notes provided.'')) rt)
              (\<lambda>(revision, rt).
            outcome_bind (requireProject rt project_id) (\<lambda>revisedState.
            let revisedState = revisedState\<lparr>ps_approval_history := nextHistory,
                  ps_discovery_status := Ds_spec_drafting,
                  ps_audit_log := ps_audit_log revisedState @
                    [''revision_created:v'' @ nat_str (sv_version revision) @ '':'' @ ap_timestamp response],
                  ps_last_updated_at := ap_timestamp response\<rparr>
            in Inr (revisedState, persist revisedState rt)))
        | Reject \<Rightarrow>
            let nextState = nextState\<lparr>ps_discovery_status := Ds_spec_drafting,
                  ps_tasks := updateTask (ps_tasks state) Pt_awaiting_owner_approval Ps_blocked (ap_timestamp response)
                    ''Owner rejected current spec''\<rparr>
            in Inr (nextState, persist nextState rt))"

text \<open>\<open>approval_history.at(-1)?.response?.decision === 'approve'\<close>.\<close>

definition last_approved :: "product_state \<Rightarrow> bool" where
  "last_approved state \<longleftrightarrow>
     (case rev (ps_approval_history state) of
        [] \<Rightarrow> False
      | item # _ \<Rightarrow> ap_decision (rc_response item) = Approve)"

definition response_value :: "approval_response \<Rightarrow> jsval" where
  "response_value r =
     JObj ([(''request_id'', JStr (ap_request_id r)), (''gate'', JStr (approval_gate_str (ap_gate r))),
       (''timestamp'', JStr (ap_timestamp r)), (''decision'', JStr (approval_decision_str (ap_decision r)))] @
       (case ap_notes r of None \<Rightarrow> [] | Some n \<Rightarrow> [(''notes'', JStr n)]))"

definition discovery_handoff_payload :: "product_state \<Rightarrow> spec_version \<Rightarrow> (string \<times> jsval) list" where
  "discovery_handoff_payload state spec =
     [(''spec_ref'', JStr (sv_artifact_ref spec)),
      (''spec_content'', JStr (sv_content spec)),
      (''discovery_notes_ref'', JStr (ps_namespace state @ ''discovery-notes.md'')),
      (''acceptance_criteria'', JArr (map JStr (extractAcceptanceCriteria state))),
      (''feature_priorities'', JArr (map (\<lambda>item. JObj [(''capability'', JStr (dc_capability item)),
         (''priority'', JStr (priority_str (dc_priority item)))]) (ps_capability_map state))),
      (''tools'', JArr (map (\<lambda>tool. JObj [(''name'', JStr (pu_name tool)),
         (''inputSchema'', JArr (map JStr (pu_inputSchema tool)))]) listTools)),
      (''project_constraints'', JArr (map JStr (ps_assumptions state))),
      (''implementation_risks'', JArr (map (\<lambda>risk. JObj [(''id'', JStr (rk_id risk)),
         (''summary'', JStr (rk_summary risk)), (''priority'', JStr (priority_str (rk_priority risk))),
         (''mitigation'', JStr (rk_mitigation risk))]) (ps_risks state))),
      (''approval_history'', JArr (map (\<lambda>item. JObj [(''version'', JNum (int (rc_version item))),
         (''response'', response_value (rc_response item))]) (ps_approval_history state)))]"

text \<open>The messages are the handoff itself and a note to the project manager, in this order.\<close>

definition createDiscoveryHandoff ::
  "string \<Rightarrow> string \<Rightarrow> product_runtime \<Rightarrow> (agent_message list \<times> product_runtime) outcome" where
  "createDiscoveryHandoff project_id timestamp rt =
     outcome_bind (requireProject rt project_id) (\<lambda>state.
     case ps_latest_spec state of
       None \<Rightarrow> Inl (''Cannot handoff project '' @ project_id @ '' before owner approval'')
     | Some spec \<Rightarrow>
         if \<not> last_approved state then
           Inl (''Cannot handoff project '' @ project_id @ '' before owner approval'')
         else
           Inr ([product_message ''engineering_agent'' ''discovery_handoff'' project_id timestamp
                   (discovery_handoff_payload state spec),
                 product_message ''project_manager_agent'' ''status_update'' project_id timestamp
                   [(''status'', JStr ''discovery_handoff_sent''), (''gate'', JStr ''engineering_ack'')]],
                persist (state\<lparr>ps_handoff_status := Hs_awaiting_engineering_ack,
                  ps_tasks := updateTask (ps_tasks state) Pt_awaiting_engineering_ack Ps_in_progress timestamp
                    ''Discovery handoff sent to engineering'',
                  ps_audit_log := ps_audit_log state @ [''handoff_sent:'' @ timestamp],
                  ps_last_updated_at := timestamp\<rparr>) rt))"

definition acknowledgeEngineeringHandoff ::
  "clock \<Rightarrow> string \<Rightarrow> string \<Rightarrow> product_runtime \<Rightarrow> (product_state \<times> product_runtime) outcome" where
  "acknowledgeEngineeringHandoff clk project_id timestamp rt =
     outcome_bind (requireProject rt project_id) (\<lambda>state.
     if ps_handoff_status state \<noteq> Hs_awaiting_engineering_ack \<or> \<not> last_approved state then
       Inl (''Cannot acknowledge engineering handoff for project '' @ project_id)
     else
       let nextState = state\<lparr>ps_lifecycle_state := LS_implementation,
             ps_discovery_status := Ds_ready_for_implementation, ps_handoff_status := Hs_handoff_completed,
             ps_tasks := updateTask (ps_tasks state) Pt_awaiting_engineering_ack Ps_completed timestamp
               ''Engineering acknowledged discovery handoff'',
             ps_audit_log := ps_audit_log state @ [''handoff_acknowledged:'' @ timestamp],
             ps_last_updated_at := timestamp\<rparr>
       in outcome_bind (syncRegistry clk nextState rt) (\<lambda>rt. Inr (nextState, persist nextState rt)))"

definition sla_detail :: "product_state \<Rightarrow> string" where
  "sla_detail state =
     (if ps_discovery_status state = Ds_awaiting_clarification then ''clarification''
      else if ps_handoff_status state = Hs_awaiting_engineering_ack then ''engineering_ack''
      else ''general'')"

definition evaluateSla ::
  "string \<Rightarrow> string \<Rightarrow> int option \<Rightarrow> product_runtime \<Rightarrow> (agent_message list \<times> product_runtime) outcome" where
  "evaluateSla project_id now maxHours rt =
     outcome_bind (requireProject rt project_id) (\<lambda>state.
     if within_hours (ps_last_updated_at state) now (nullish maxHours 24) then Inr ([], rt)
     else
       let detail = sla_detail state;
           nextTasks =
             (if detail = ''clarification'' then
                updateTask (ps_tasks state) Pt_awaiting_clarification Ps_overdue now ''Clarification SLA breached''
              else if detail = ''engineering_ack'' then
                updateTask (ps_tasks state) Pt_awaiting_engineering_ack Ps_overdue now
                  ''Engineering acknowledgment SLA breached''
              else ps_tasks state)
       in Inr ([product_message ''project_manager_agent'' ''risk_alert'' project_id now
                  [(''summary'', JStr (''SLA breach detected for '' @ detail)), (''severity'', JStr ''high'')]],
               persist (state\<lparr>ps_tasks := nextTasks,
                 ps_audit_log := ps_audit_log state @ [''sla_breach:'' @ detail @ '':'' @ now],
                 ps_last_updated_at := now\<rparr>) rt))"

section \<open>Calls of the tools\<close>

datatype product_tool_input =
    Pi_brief_analyze string string
  | Pi_document_read string string
  | Pi_spec_write string string "string option"
  | Pi_template_load string
  | Pi_message_send jsval

datatype product_tool_output =
    Po_brief string "string list"
  | Po_document string "string option"
  | Po_spec spec_version
  | Po_template string "string list"
  | Po_message jsval

fun callProductTool ::
  "product_tool_input \<Rightarrow> product_runtime \<Rightarrow> (product_tool_output \<times> product_runtime) outcome" where
  "callProductTool (Pi_brief_analyze brief_text project_id) rt =
     Inr (Po_brief (''Analyzed brief for '' @ project_id)
       (generateDiscoveryQuestions
          \<lparr>ld_business_summary = Some brief_text, ld_payload_stakeholders = None, ld_last_proposal_ref = None,
           ld_initial_scope = None, ld_commercial_assumptions = None, ld_initial_risks = None, ld_notes = None\<rparr>), rt)"
| "callProductTool (Pi_document_read project_id artifact_ref) rt =
     outcome_bind (requireProject rt project_id)
       (\<lambda>state. Inr (Po_document artifact_ref (jm_get (ps_artifacts state) artifact_ref), rt))"
| "callProductTool (Pi_spec_write project_id timestamp summary) rt =
     outcome_bind (writeSpec project_id timestamp summary rt) (\<lambda>(spec, rt). Inr (Po_spec spec, rt))"
| "callProductTool (Pi_template_load project_id) rt =
     Inr (Po_template project_id
       [''solution_summary'', ''capability_map'', ''workflow'', ''tools'', ''integrations'', ''acceptance_criteria'',
        ''assumptions'', ''risks'', ''mvp_recommendation'', ''testability_gaps'', ''technical_constraints''], rt)"
| "callProductTool (Pi_message_send message) rt = Inr (Po_message message, rt)"

section \<open>Reachable runtimes\<close>

inductive product_reachable :: "product_runtime \<Rightarrow> bool" where
  "product_reachable (empty_product_runtime registry)"
| "product_reachable rt \<Longrightarrow> upsertProject clk k c t rt = Inr (s, rt') \<Longrightarrow> product_reachable rt'"
| "product_reachable rt \<Longrightarrow> receiveLeadHandoff clk c m rt = Inr (res, rt') \<Longrightarrow> product_reachable rt'"
| "product_reachable rt \<Longrightarrow> writeSpec k t summary rt = Inr (spec, rt') \<Longrightarrow> product_reachable rt'"
| "product_reachable rt \<Longrightarrow> requestSpecApproval k i t rec rt = Inr (out, rt') \<Longrightarrow> product_reachable rt'"
| "product_reachable rt \<Longrightarrow> recordSpecApprovalResponse k resp rt = Inr (s, rt') \<Longrightarrow> product_reachable rt'"
| "product_reachable rt \<Longrightarrow> createDiscoveryHandoff k t rt = Inr (msgs, rt') \<Longrightarrow> product_reachable rt'"
| "product_reachable rt \<Longrightarrow> acknowledgeEngineeringHandoff clk k t rt = Inr (s, rt') \<Longrightarrow> product_reachable rt'"
| "product_reachable rt \<Longrightarrow> evaluateSla k now hours rt = Inr (msgs, rt') \<Longrightarrow> product_reachable rt'"

definition spec_ref :: "string \<Rightarrow> nat \<Rightarrow> string" where
  "spec_ref ns n = ns @ ''spec-v'' @ nat_str n @ ''.md''"

text \<open>The versions count from one, the latest is the last, and each is kept under its own name.\<close>

definition specs_ok ::
  "string \<Rightarrow> nat \<Rightarrow> spec_version option \<Rightarrow> spec_version list \<Rightarrow> (string, string) js_map \<Rightarrow> bool" where
  "specs_ok ns n latest specs artifacts \<longleftrightarrow> map sv_version specs = [1..<Suc n] \<and>
     latest = (if specs = [] then None else Some (last specs)) \<and>
     (\<forall>spec \<in> set specs. sv_artifact_ref spec = spec_ref ns (sv_version spec) \<and>
        jm_get artifacts (spec_ref ns (sv_version spec)) = Some (sv_content spec))"

definition product_ok :: "product_state \<Rightarrow> bool" where
  "product_ok s \<longleftrightarrow>
     specs_ok (ps_namespace s) (ps_spec_version s) (ps_latest_spec s) (ps_spec_history s) (ps_artifacts s) \<and> distinct (map pk_task_name (ps_tasks s)) \<and>
     list_all (\<lambda>a. rc_version a \<le> ps_spec_version s) (ps_approval_history s) \<and>
     (ps_handoff_status s \<in> {Hs_awaiting_engineering_ack, Hs_handoff_completed} \<longrightarrow>
        ps_latest_spec s \<noteq> None \<and> list_ex (\<lambda>a. ap_decision (rc_response a) = Approve) (ps_approval_history s))"

definition runtime_ok :: "product_runtime \<Rightarrow> bool" where
  "runtime_ok rt \<longleftrightarrow> (\<forall>k s. jm_get (pt_projects rt) k = Some s \<longrightarrow> ps_project_id s = k \<and> product_ok s)"

lemma distinct_updateTask [simp]:
  "distinct (map pk_task_name tasks) \<Longrightarrow> distinct (map pk_task_name (updateTask tasks n st t d))"
  by (auto simp: updateTask_def distinct_map_filter)

lemma persist_ok: "runtime_ok rt \<Longrightarrow> product_ok s \<Longrightarrow> runtime_ok (persist s rt)"
  by (auto simp: runtime_ok_def persist_def split: if_splits)

lemma require_ok: "runtime_ok rt \<Longrightarrow> requireProject rt k = Inr s \<Longrightarrow> product_ok s \<and> ps_project_id s = k"
  by (auto simp: runtime_ok_def requireProject_def split: option.splits)

lemma sync_projects: "syncRegistry clk s rt = Inr rt' \<Longrightarrow> pt_projects rt' = pt_projects rt"
  by (auto simp: syncRegistry_def outcome_bind_eq_Inr split: option.splits)

lemma sync_ok: "runtime_ok rt \<Longrightarrow> syncRegistry clk s rt = Inr rt' \<Longrightarrow> runtime_ok rt'"
  by (simp add: runtime_ok_def sync_projects)

lemma sync_total: "\<exists>rt'. syncRegistry clk s rt = Inr rt'"
  by (auto simp: syncRegistry_def updateProject_def getProject_def Let_def split: option.splits)

lemma created_ok: "product_ok (createProductProjectState k c t)"
  by (simp add: product_ok_def specs_ok_def createProductProjectState_def)

text \<open>The fields the invariant does not read.\<close>

lemma product_ok_simps [simp]:
  "product_ok (s\<lparr>ps_client_id := c\<rparr>) \<longleftrightarrow> product_ok s"
  "product_ok (s\<lparr>ps_last_updated_at := c\<rparr>) \<longleftrightarrow> product_ok s"
  "product_ok (s\<lparr>ps_audit_log := l\<rparr>) \<longleftrightarrow> product_ok s"
  "product_ok (s\<lparr>ps_discovery_status := d\<rparr>) \<longleftrightarrow> product_ok s"
  "product_ok (s\<lparr>ps_lifecycle_state := e\<rparr>) \<longleftrightarrow> product_ok s"
  "product_ok (s\<lparr>ps_capability_map := f\<rparr>) \<longleftrightarrow> product_ok s"
  "product_ok (s\<lparr>ps_clarification_log := g\<rparr>) \<longleftrightarrow> product_ok s"
  "product_ok (s\<lparr>ps_assumptions := l\<rparr>) \<longleftrightarrow> product_ok s"
  "product_ok (s\<lparr>ps_conflicts := l\<rparr>) \<longleftrightarrow> product_ok s"
  "product_ok (s\<lparr>ps_risks := h\<rparr>) \<longleftrightarrow> product_ok s"
  by (simp_all add: product_ok_def)

lemma product_ok_tasks: "product_ok s \<Longrightarrow> distinct (map pk_task_name ts) \<Longrightarrow> product_ok (s\<lparr>ps_tasks := ts\<rparr>)"
  by (simp add: product_ok_def)

lemma product_ok_distinct: "product_ok s \<Longrightarrow> distinct (map pk_task_name (ps_tasks s))"
  by (simp add: product_ok_def)

lemma product_ok_idle: "product_ok s \<Longrightarrow> h \<in> {Hs_not_sent, Hs_validation_failed} \<Longrightarrow> product_ok (s\<lparr>ps_handoff_status := h\<rparr>)"
  by (auto simp: product_ok_def)

lemma upsert_ok:
  assumes "runtime_ok rt" "upsertProject clk k c t rt = Inr (s, rt')"
  shows "runtime_ok rt' \<and> product_ok s \<and> ps_project_id s = k"
proof (cases "jm_get (pt_projects rt) k")
  case None
  then obtain rt1 where "syncRegistry clk (createProductProjectState k c t) rt = Inr rt1"
      "s = createProductProjectState k c t" "rt' = persist s rt1"
    using assms(2) by (auto simp: upsertProject_def outcome_bind_eq_Inr Let_def)
  then show ?thesis
    using assms(1) sync_ok persist_ok created_ok by (auto simp: createProductProjectState_def)
next
  case (Some old)
  then have "product_ok old" "ps_project_id old = k" using assms(1) by (auto simp: runtime_ok_def)
  then show ?thesis using Some assms by (auto simp: upsertProject_def Let_def persist_ok)
qed

text \<open>The documents of an intake do not touch the specs.\<close>

lemma intake_artifacts:
  "jm_get (ps_artifacts (intake_state s p mf t)) (spec_ref (ps_namespace s) n) =
   jm_get (ps_artifacts s) (spec_ref (ps_namespace s) n)"
  by (simp add: intake_state_def Let_def buildArtifacts_def spec_ref_def)

lemma intake_fields [simp]:
  "ps_spec_version (intake_state s p mf t) = ps_spec_version s"
  "ps_spec_history (intake_state s p mf t) = ps_spec_history s"
  "ps_latest_spec (intake_state s p mf t) = ps_latest_spec s"
  "ps_namespace (intake_state s p mf t) = ps_namespace s"
  "ps_tasks (intake_state s p mf t) = ps_tasks s"
  "ps_approval_history (intake_state s p mf t) = ps_approval_history s"
  "ps_handoff_status (intake_state s p mf t) = ps_handoff_status s"
  "ps_project_id (intake_state s p mf t) = ps_project_id s"
  by (simp_all add: intake_state_def Let_def)

lemma specs_ok_cong:
  "(\<And>i. jm_get a (spec_ref ns i) = jm_get a' (spec_ref ns i)) \<Longrightarrow> specs_ok ns n latest specs a \<longleftrightarrow> specs_ok ns n latest specs a'"
  by (simp add: specs_ok_def)

lemma intake_ok: "product_ok s \<Longrightarrow> product_ok (intake_state s p mf t)"
  using specs_ok_cong [OF intake_artifacts [of s p mf t]] by (simp add: product_ok_def)

lemma receive_ok:
  assumes "runtime_ok rt" "receiveLeadHandoff clk c m rt = Inr (res, rt')"
  shows "runtime_ok rt'"
proof -
  obtain mf raw where v: "validateLeadHandoff (message_value m) = (mf, raw)" by (cases "validateLeadHandoff (message_value m)")
  obtain base rt1 where u: "upsertProject clk (msg_project_id m) c (msg_timestamp m) rt = Inr (base, rt1)"
    using assms(2) v by (auto simp: receiveLeadHandoff_def outcome_bind_eq_Inr Let_def)
  from upsert_ok [OF assms(1) u] have rt1: "runtime_ok rt1" and base: "product_ok base" by auto
  let ?s = "intake_state base (lead_payload_of raw) mf (msg_timestamp m)"
  have s: "product_ok ?s" using base by (rule intake_ok)
  obtain s' rt2 where s': "product_ok s'" "syncRegistry clk s' rt1 = Inr rt2" "rt' = persist s' rt2"
  proof (cases "mf = []")
    case True
    have "product_ok (?s\<lparr>ps_lifecycle_state := LS_discovery, ps_discovery_status := Ds_discovery_in_progress,
        ps_handoff_status := Hs_not_sent, ps_tasks := updateTask (updateTask (ps_tasks ?s) Pt_handoff_validation Ps_completed
          (msg_timestamp m) ''Lead handoff validated'') Pt_discovery_in_progress Ps_in_progress (msg_timestamp m)
          ''Discovery started''\<rparr>)"
      using s by (auto simp: product_ok_def)
    then show thesis using assms(2) v u True that
      by (auto simp: receiveLeadHandoff_def outcome_bind_eq_Inr Let_def simp del: product_ok_simps)
  next
    case False
    have "product_ok (?s\<lparr>ps_discovery_status := Ds_awaiting_clarification,
        ps_handoff_status := Hs_validation_failed, ps_tasks := updateTask (updateTask (ps_tasks ?s) Pt_handoff_validation
          Ps_blocked (msg_timestamp m) (''Missing fields: '' @ js_join '', '' mf)) Pt_awaiting_clarification Ps_in_progress
          (msg_timestamp m) ''Waiting for sales clarification''\<rparr>)"
      using s by (auto simp: product_ok_def)
    then show thesis using assms(2) v u False that
      by (auto simp: receiveLeadHandoff_def outcome_bind_eq_Inr Let_def simp del: product_ok_simps)
  qed
  then show ?thesis using rt1 sync_ok persist_ok by simp
qed

lemma spec_ref_inj [simp]: "spec_ref ns m = spec_ref ns n \<longleftrightarrow> m = n"
  by (simp add: spec_ref_def)

lemma write_state:
  assumes "writeSpec k t summary rt = Inr (spec, rt')"
  shows "\<exists>s. requireProject rt k = Inr s \<and> sv_version spec = ps_spec_version s + 1 \<and>
    sv_artifact_ref spec = spec_ref (ps_namespace s) (sv_version spec) \<and>
    sv_content spec = composeSpecContent s (sv_version spec) summary \<and>
    rt' = persist (s\<lparr>ps_spec_version := sv_version spec, ps_discovery_status := Ds_spec_drafting,
             ps_latest_spec := Some spec, ps_spec_history := ps_spec_history s @ [spec],
             ps_artifacts := jm_set (ps_artifacts s) (sv_artifact_ref spec) (sv_content spec),
             ps_tasks := updateTask (ps_tasks s) Pt_spec_drafting Ps_completed t (''Spec v'' @ nat_str (sv_version spec) @ '' drafted''),
             ps_audit_log := ps_audit_log s @ [''spec_written:v'' @ nat_str (sv_version spec) @ '':'' @ t],
             ps_last_updated_at := t\<rparr>) rt"
  using assms by (auto simp: writeSpec_def outcome_bind_eq_Inr Let_def spec_ref_def)

lemma specs_ok_snoc:
  assumes "specs_ok ns n latest specs artifacts" "sv_version spec = Suc n" "sv_artifact_ref spec = spec_ref ns (Suc n)"
  shows "specs_ok ns (Suc n) (Some spec) (specs @ [spec]) (jm_set artifacts (spec_ref ns (Suc n)) (sv_content spec))"
proof -
  have "x \<in> set specs \<Longrightarrow> sv_version x \<in> {1..<Suc n}" for x
    using assms(1) by (metis specs_ok_def image_eqI set_map set_upt)
  then show ?thesis using assms by (fastforce simp: specs_ok_def)
qed

lemma write_ok:
  assumes "runtime_ok rt" "writeSpec k t summary rt = Inr (spec, rt')"
  shows "runtime_ok rt'"
proof -
  obtain s where s: "requireProject rt k = Inr s" "sv_version spec = Suc (ps_spec_version s)"
      "sv_artifact_ref spec = spec_ref (ps_namespace s) (Suc (ps_spec_version s))"
    and rt': "rt' = persist (s\<lparr>ps_spec_version := sv_version spec, ps_discovery_status := Ds_spec_drafting,
             ps_latest_spec := Some spec, ps_spec_history := ps_spec_history s @ [spec],
             ps_artifacts := jm_set (ps_artifacts s) (sv_artifact_ref spec) (sv_content spec),
             ps_tasks := updateTask (ps_tasks s) Pt_spec_drafting Ps_completed t (''Spec v'' @ nat_str (sv_version spec) @ '' drafted''),
             ps_audit_log := ps_audit_log s @ [''spec_written:v'' @ nat_str (sv_version spec) @ '':'' @ t],
             ps_last_updated_at := t\<rparr>) rt"
    using write_state [OF assms(2)] by auto
  have ok: "product_ok s" using require_ok [OF assms(1) s(1)] by simp
  then have "list_all (\<lambda>a. rc_version a \<le> Suc (ps_spec_version s)) (ps_approval_history s)"
    by (auto simp: product_ok_def list_all_iff)
  then show ?thesis
    unfolding rt' using ok s specs_ok_snoc assms(1) by (intro persist_ok) (auto simp: product_ok_def)
qed

lemma approval_added:
  "product_ok s \<Longrightarrow> v \<le> ps_spec_version s \<Longrightarrow>
   product_ok (s\<lparr>ps_approval_history := ps_approval_history s @ [\<lparr>rc_version = v, rc_response = r\<rparr>]\<rparr>)"
  by (auto simp: product_ok_def)

lemma requireProject_persist [simp]:
  "requireProject (persist s rt) k = (if k = ps_project_id s then Inr s else requireProject rt k)"
  by (simp add: requireProject_def persist_def)

lemma record_ok:
  assumes "runtime_ok rt" "recordSpecApprovalResponse k resp rt = Inr (s', rt')"
  shows "runtime_ok rt'"
proof -
  obtain s where s: "requireProject rt k = Inr s"
    using assms(2) by (auto simp: recordSpecApprovalResponse_def outcome_bind_eq_Inr)
  then have ok: "product_ok s" "ps_project_id s = k" using require_ok assms(1) by auto
  let ?h = "ps_approval_history s @ [\<lparr>rc_version = ps_spec_version s, rc_response = resp\<rparr>]"
  have added: "product_ok (s\<lparr>ps_approval_history := ?h\<rparr>)" using ok(1) by (rule approval_added) simp
  show ?thesis
  proof (cases "ap_decision resp")
    case Revise
    obtain spec rt1 where w: "writeSpec k (ap_timestamp resp)
          (Some (''Revision requested: '' @ nullish (ap_notes resp) ''No notes provided.'')) rt = Inr (spec, rt1)"
      using assms(2) s Revise by (auto simp: recordSpecApprovalResponse_def outcome_bind_eq_Inr Let_def)
    obtain r where r: "requireProject rt1 k = Inr r" and rt': "rt' = persist (r\<lparr>ps_approval_history := ?h,
          ps_discovery_status := Ds_spec_drafting,
          ps_audit_log := ps_audit_log r @ [''revision_created:v'' @ nat_str (sv_version spec) @ '':'' @ ap_timestamp resp],
          ps_last_updated_at := ap_timestamp resp\<rparr>) rt1"
      using assms(2) s Revise w by (auto simp: recordSpecApprovalResponse_def outcome_bind_eq_Inr Let_def)
    have rt1: "runtime_ok rt1" using assms(1) w by (rule write_ok)
    have "ps_approval_history r = ps_approval_history s \<and> ps_spec_version r = Suc (ps_spec_version s)"
      using write_state [OF w] s r ok(2) by auto
    then have "product_ok (r\<lparr>ps_approval_history := ?h\<rparr>)"
      using require_ok [OF rt1 r] approval_added [of r "ps_spec_version s" resp] by simp
    then show ?thesis unfolding rt' by (intro persist_ok rt1) simp
  next
    case Approve
    then show ?thesis
      using assms s added by (auto simp: recordSpecApprovalResponse_def Let_def product_ok_def intro!: persist_ok)
  next
    case Reject
    then show ?thesis
      using assms s added by (auto simp: recordSpecApprovalResponse_def Let_def product_ok_def intro!: persist_ok)
  qed
qed

lemma request_ok:
  assumes "runtime_ok rt" "requestSpecApproval k i t rec rt = Inr (out, rt')"
  shows "runtime_ok rt'"
proof -
  obtain s where s: "requireProject rt k = Inr s"
    using assms(2) by (auto simp: requestSpecApproval_def outcome_bind_eq_Inr)
  then have "product_ok s" using assms(1) require_ok by blast
  then show ?thesis
    using assms s by (auto simp: requestSpecApproval_def Let_def product_ok_def intro!: persist_ok split: option.split_asm)
qed

lemma last_approved_ex: "last_approved s \<Longrightarrow> list_ex (\<lambda>a. ap_decision (rc_response a) = Approve) (ps_approval_history s)"
  by (cases "ps_approval_history s" rule: rev_cases) (auto simp: last_approved_def list_ex_iff)

lemma handoff_ok:
  assumes "runtime_ok rt" "createDiscoveryHandoff k t rt = Inr (msgs, rt')"
  shows "runtime_ok rt'"
proof -
  obtain s where s: "requireProject rt k = Inr s"
    using assms(2) by (auto simp: createDiscoveryHandoff_def outcome_bind_eq_Inr)
  then have "product_ok s" using assms(1) require_ok by blast
  then show ?thesis
    using assms s last_approved_ex [of s]
    by (auto simp: createDiscoveryHandoff_def Let_def product_ok_def intro!: persist_ok split: option.split_asm if_split_asm)
qed

lemma ack_ok:
  assumes "runtime_ok rt" "acknowledgeEngineeringHandoff clk k t rt = Inr (s', rt')"
  shows "runtime_ok rt'"
proof -
  obtain s rt1 where s: "requireProject rt k = Inr s" "ps_handoff_status s = Hs_awaiting_engineering_ack" "last_approved s"
    and s': "syncRegistry clk s' rt = Inr rt1" "rt' = persist s' rt1"
      "s' = s\<lparr>ps_lifecycle_state := LS_implementation,
             ps_discovery_status := Ds_ready_for_implementation, ps_handoff_status := Hs_handoff_completed,
             ps_tasks := updateTask (ps_tasks s) Pt_awaiting_engineering_ack Ps_completed t
               ''Engineering acknowledged discovery handoff'',
             ps_audit_log := ps_audit_log s @ [''handoff_acknowledged:'' @ t],
             ps_last_updated_at := t\<rparr>"
    using assms(2) by (auto simp: acknowledgeEngineeringHandoff_def outcome_bind_eq_Inr Let_def split: if_splits)
  have ok: "product_ok s" using assms(1) s(1) require_ok by blast
  then have "ps_latest_spec s \<noteq> None" using s(2) by (simp add: product_ok_def)
  then have "product_ok s'" unfolding s'(3) using ok s last_approved_ex [of s] by (simp add: product_ok_def)
  then show ?thesis using s' assms(1) sync_ok persist_ok by simp
qed

lemma sla_ok:
  assumes "runtime_ok rt" "evaluateSla k now hours rt = Inr (msgs, rt')"
  shows "runtime_ok rt'"
proof -
  obtain s where s: "requireProject rt k = Inr s"
    using assms(2) by (auto simp: evaluateSla_def outcome_bind_eq_Inr)
  then have "product_ok s" using assms(1) require_ok by blast
  then show ?thesis
    using assms s by (auto simp: evaluateSla_def Let_def product_ok_def intro!: persist_ok split: if_split_asm)
qed

lemma product_reachable_ok: "product_reachable rt \<Longrightarrow> runtime_ok rt"
proof (induction rule: product_reachable.induct)
  case (1 registry)
  then show ?case by (simp add: runtime_ok_def empty_product_runtime_def)
qed (blast intro: upsert_ok [THEN conjunct1] receive_ok write_ok request_ok record_ok handoff_ok ack_ok sla_ok)+

section \<open>Properties of the component\<close>

text \<open>
  C14: In every reachable runtime a project is kept under its own id, its specs are numbered
  from one without gaps and the latest is the last, every version stays readable under its
  reference with the content it was written with, no task is listed twice, an answer to an
  approval is recorded for a version that was written, or for version 0, which stands for
  none, since the code takes an answer before any spec too, and a handoff that waits or is
  done had a spec and an approval.
\<close>

theorem product_invariant:
  assumes "product_reachable rt" "getProjectState rt k = Some s"
  shows "ps_project_id s = k \<and> map sv_version (ps_spec_history s) = [1..<Suc (ps_spec_version s)] \<and>
    ps_latest_spec s = (if ps_spec_history s = [] then None else Some (last (ps_spec_history s))) \<and>
    (\<forall>spec \<in> set (ps_spec_history s).
       callProductTool (Pi_document_read k (sv_artifact_ref spec)) rt =
         Inr (Po_document (sv_artifact_ref spec) (Some (sv_content spec)), rt)) \<and>
    distinct (map pk_task_name (ps_tasks s)) \<and>
    list_all (\<lambda>a. rc_version a = 0 \<or> rc_version a \<in> set (map sv_version (ps_spec_history s))) (ps_approval_history s) \<and>
    (ps_handoff_status s \<in> {Hs_awaiting_engineering_ack, Hs_handoff_completed} \<longrightarrow>
       ps_latest_spec s \<noteq> None \<and> list_ex (\<lambda>a. ap_decision (rc_response a) = Approve) (ps_approval_history s))"
proof -
  from product_reachable_ok [OF assms(1)] assms(2) have s: "ps_project_id s = k" "product_ok s"
    by (auto simp: runtime_ok_def getProjectState_def)
  from s(2) have "callProductTool (Pi_document_read k (sv_artifact_ref spec)) rt =
      Inr (Po_document (sv_artifact_ref spec) (Some (sv_content spec)), rt)" if "spec \<in> set (ps_spec_history s)" for spec
    using that assms(2) by (auto simp: product_ok_def specs_ok_def requireProject_def getProjectState_def)
  then have read: "\<forall>spec \<in> set (ps_spec_history s). callProductTool (Pi_document_read k (sv_artifact_ref spec)) rt =
      Inr (Po_document (sv_artifact_ref spec) (Some (sv_content spec)), rt)"
    by blast
  have specs: "map sv_version (ps_spec_history s) = [1..<Suc (ps_spec_version s)]"
      "ps_latest_spec s = (if ps_spec_history s = [] then None else Some (last (ps_spec_history s)))"
    using s(2) unfolding product_ok_def specs_ok_def by blast+
  have rest: "distinct (map pk_task_name (ps_tasks s))"
      "list_all (\<lambda>a. rc_version a \<le> ps_spec_version s) (ps_approval_history s)"
      "ps_handoff_status s \<in> {Hs_awaiting_engineering_ack, Hs_handoff_completed} \<longrightarrow>
       ps_latest_spec s \<noteq> None \<and> list_ex (\<lambda>a. ap_decision (rc_response a) = Approve) (ps_approval_history s)"
    using s(2) unfolding product_ok_def by blast+
  have "list_all (\<lambda>a. rc_version a = 0 \<or> rc_version a \<in> set (map sv_version (ps_spec_history s))) (ps_approval_history s)"
    using rest(2) unfolding specs(1) by (auto simp: list_all_iff)
  then show ?thesis by (intro conjI s(1) specs read rest)
qed

theorem product_invariant_witness:
  "\<exists>spec s rt. getProjectState rt ''p'' = Some s \<and> ps_latest_spec s = Some spec \<and>
     callProductTool (Pi_document_read ''p'' (sv_artifact_ref spec)) rt =
       Inr (Po_document (sv_artifact_ref spec) (Some (sv_content spec)), rt)"
proof -
  let ?rt0 = "empty_product_runtime None"
  obtain s0 rt1 where u: "upsertProject (\<lambda>_. []) ''p'' ''c'' [] ?rt0 = Inr (s0, rt1)"
      "rt1 = persist (createProductProjectState ''p'' ''c'' []) ?rt0"
    by (simp add: upsertProject_def empty_product_runtime_def syncRegistry_def Let_def)
  then obtain spec rt2 s where w: "writeSpec ''p'' [] None rt1 = Inr (spec, rt2)" "getProjectState rt2 ''p'' = Some s"
      "ps_latest_spec s = Some spec" "ps_spec_history s = [spec]"
    by (simp add: writeSpec_def Let_def getProjectState_def createProductProjectState_def)
       (simp add: persist_def)
  have "product_reachable ?rt0" by (rule product_reachable.intros(1))
  then have "product_reachable rt1" using u(1) by (rule product_reachable.intros(2))
  then have "product_reachable rt2" using w(1) by (rule product_reachable.intros(4))
  from product_invariant [OF this w(2)] w show ?thesis by (intro exI [of _ spec] exI [of _ s] exI [of _ rt2]) simp
qed

text \<open>
  Product takes a lead handoff exactly when it comes from sales to product with that type
  and an object as payload in which none of the six required fields is absent or an empty
  list.
\<close>

theorem lead_validation_exact:
  "fst (validateLeadHandoff (message_value m)) = [] \<longleftrightarrow>
     msg_from m = ''sales_agent'' \<and> msg_to m = ''product_agent'' \<and> msg_type m = ''lead_handoff'' \<and>
     is_object (msg_payload m) \<and>
     list_all (\<lambda>f. get_prop (msg_payload m) f \<noteq> JUndefined \<and> get_prop (msg_payload m) f \<noteq> JArr [])
       [''business_summary'', ''stakeholders'', ''last_proposal_ref'', ''initial_scope'', ''commercial_assumptions'',
        ''initial_risks'']"
  by (simp add: validateLeadHandoff_def message_value_def Let_def HANDOFF_REQUIRED_FIELDS_def missing_field_def filter_empty_conv
      list_all_iff del: filter.simps)

theorem lead_validation_exact_witness:
  "fst (validateLeadHandoff (message_value \<lparr>msg_from = ''sales_agent'', msg_to = ''product_agent'',
     msg_type = ''lead_handoff'', msg_project_id = [], msg_timestamp = [], msg_payload = JObj []\<rparr>)) \<noteq> []"
  using lead_validation_exact [of "\<lparr>msg_from = ''sales_agent'', msg_to = ''product_agent'',
     msg_type = ''lead_handoff'', msg_project_id = [], msg_timestamp = [], msg_payload = JObj []\<rparr>"] by simp

text \<open>
  The gate of the handoff looks at the last answer only: after the owner approved a version,
  another version can be written and is handed to engineering, although no approval names
  it.
\<close>

theorem approval_not_bound_to_version:
  assumes "product_reachable rt" "ap_decision answer = Approve" "recordSpecApprovalResponse k answer rt = Inr (s, rt1)"
    and "writeSpec k t summary rt1 = Inr (spec, rt2)"
  shows "\<exists>s2 note rt3. createDiscoveryHandoff k t' rt2 =
      Inr ([product_message ''engineering_agent'' ''discovery_handoff'' k t' (discovery_handoff_payload s2 spec), note], rt3) \<and>
    list_all (\<lambda>a. rc_version a < sv_version spec) (ps_approval_history s2)"
proof -
  have ok: "runtime_ok rt" "runtime_ok rt1"
    using product_reachable_ok assms(1,3) record_ok by blast+
  have s: "requireProject rt1 k = Inr s" "last_approved s"
    using assms(2,3) require_ok [OF ok(1)]
    by (auto simp: recordSpecApprovalResponse_def outcome_bind_eq_Inr Let_def last_approved_def)
  obtain s0 where w: "requireProject rt1 k = Inr s0" "sv_version spec = Suc (ps_spec_version s0)" and
    rt2: "rt2 = persist (s0\<lparr>ps_spec_version := sv_version spec, ps_discovery_status := Ds_spec_drafting,
             ps_latest_spec := Some spec, ps_spec_history := ps_spec_history s0 @ [spec],
             ps_artifacts := jm_set (ps_artifacts s0) (sv_artifact_ref spec) (sv_content spec),
             ps_tasks := updateTask (ps_tasks s0) Pt_spec_drafting Ps_completed t (''Spec v'' @ nat_str (sv_version spec) @ '' drafted''),
             ps_audit_log := ps_audit_log s0 @ [''spec_written:v'' @ nat_str (sv_version spec) @ '':'' @ t],
             ps_last_updated_at := t\<rparr>) rt1"
    using write_state [OF assms(4)] by auto
  then have s0: "s0 = s" using s by simp
  have "product_ok s" "ps_project_id s = k" using require_ok [OF ok(2) s(1)] by auto
  moreover from this have "list_all (\<lambda>a. rc_version a < Suc (ps_spec_version s)) (ps_approval_history s)"
    by (auto simp: product_ok_def list_all_iff)
  ultimately show ?thesis
    using s(2) w(2) unfolding rt2 s0 createDiscoveryHandoff_def
    by (auto simp: last_approved_def)
qed

definition demo_answer :: approval_response where
  "demo_answer = \<lparr>ap_request_id = ''r'', ap_gate = Spec_final, ap_timestamp = [], ap_decision = Approve, ap_notes = None\<rparr>"

theorem approval_not_bound_to_version_witness:
  "\<exists>rt s2 spec note rt3. createDiscoveryHandoff ''p'' [] rt =
      Inr ([product_message ''engineering_agent'' ''discovery_handoff'' ''p'' [] (discovery_handoff_payload s2 spec), note], rt3) \<and>
    list_all (\<lambda>a. rc_version a < sv_version spec) (ps_approval_history s2)"
proof -
  obtain s0 rt0 where u: "upsertProject (\<lambda>_. []) ''p'' ''c'' [] (empty_product_runtime None) = Inr (s0, rt0)"
      "requireProject rt0 ''p'' = Inr s0"
    by (simp add: upsertProject_def empty_product_runtime_def syncRegistry_def Let_def createProductProjectState_def)
  then obtain s rt1 where r: "recordSpecApprovalResponse ''p'' demo_answer rt0 = Inr (s, rt1)" "requireProject rt1 ''p'' = Inr s"
    using require_ok [OF product_reachable_ok [OF product_reachable.intros(2) [OF product_reachable.intros(1) u(1)]] u(2)]
    by (simp add: recordSpecApprovalResponse_def demo_answer_def Let_def)
  then obtain spec rt2 where w: "writeSpec ''p'' [] None rt1 = Inr (spec, rt2)" by (simp add: writeSpec_def Let_def)
  have "product_reachable (empty_product_runtime None)" by (rule product_reachable.intros(1))
  then have reach: "product_reachable rt0" using u(1) by (rule product_reachable.intros(2))
  have "ap_decision demo_answer = Approve" by (simp add: demo_answer_def)
  from approval_not_bound_to_version [OF reach this r(1) w, of "[]"] show ?thesis by blast
qed

end
