(* ===== verification/JS_Number.thy ===== *)
theory JS_Number
  imports JS_Double JS_Prelude
begin

text \<open>
  Numbers read from text, \<^verbatim>\<open>Number(s)\<close>: finite doubles as rationals, the infinities
  and \<^verbatim>\<open>NaN\<close>; and the integers \<^verbatim>\<open>slice\<close> and \<^verbatim>\<open>Math.floor\<close> make of them.
  The sign of zero is left out, which no source reads.
\<close>

datatype js_number = JFinite rat | JInfinity | JMinus_infinity | JNaN

section \<open>Rounding to a double\<close>

text \<open>Below the normal range the scale stops at \<open>2 ^ 1074\<close>.\<close>

definition nearest_double :: "nat \<Rightarrow> nat \<Rightarrow> nat \<times> int" where
  "nearest_double n d =
     (let (q, e) = to_double n d in
      if e > 1074 then (let (a, b) = scaled n d 1074 in (round_half_even a b, 1074)) else (q, e))"

definition double_rat :: "nat \<times> int \<Rightarrow> rat" where
  "double_rat x = (let (q, e) = x; (a, b) = scaled q 1 (- e) in of_nat a / of_nat b)"

text \<open>The fraction \<open>n / d\<close> as a number; from halfway to the next power on it is infinite.\<close>

definition number_of_fraction :: "nat \<Rightarrow> nat \<Rightarrow> js_number" where
  "number_of_fraction n d =
     (if n \<ge> (2 ^ 1024 - 2 ^ 970) * d then JInfinity else JFinite (double_rat (nearest_double n d)))"

fun negative :: "js_number \<Rightarrow> js_number" where
  "negative (JFinite q) = JFinite (- q)"
| "negative JInfinity = JMinus_infinity"
| "negative JMinus_infinity = JInfinity"
| "negative JNaN = JNaN"

section \<open>Numerals\<close>

definition digit_span :: "string \<Rightarrow> string \<times> string" where
  "digit_span s = (takeWhile (\<lambda>c. digit_val c \<noteq> None) s, dropWhile (\<lambda>c. digit_val c \<noteq> None) s)"

text \<open>An exponent, if there is one; all of the text has to be used.\<close>

definition exponent_part :: "string \<Rightarrow> int option" where
  "exponent_part s =
     (case s of
        [] \<Rightarrow> Some 0
      | c # s \<Rightarrow>
          if c \<notin> {CHR ''e'', CHR ''E''} then None
          else
            let (minus, s) = (case s of
                  [] \<Rightarrow> (False, [])
                | d # t \<Rightarrow> if d = CHR ''-'' then (True, t) else if d = CHR ''+'' then (False, t) else (False, s))
            in if s = [] then None
               else map_option (\<lambda>n. if minus then - int n else int n) (digits_val 0 s))"

definition decimal_number :: "string \<Rightarrow> js_number" where
  "decimal_number s =
     (let (whole, s) = digit_span s;
          (part, s) = (case s of [] \<Rightarrow> ([], []) | c # t \<Rightarrow> if c = CHR ''.'' then digit_span t else ([], s))
      in if whole = [] \<and> part = [] then JNaN
         else
           case (digits_val 0 (whole @ part), exponent_part s) of
             (Some n, Some x) \<Rightarrow>
               (let e = x - int (length part) in
                if e \<ge> 0 then number_of_fraction (n * 10 ^ nat e) 1
                else number_of_fraction n (10 ^ nat (- e)))
           | _ \<Rightarrow> JNaN)"

definition radix_digit :: "char \<Rightarrow> nat" where
  "radix_digit c =
     (let n = of_char c :: nat in
      if 48 \<le> n \<and> n \<le> 57 then n - 48
      else if 97 \<le> n \<and> n \<le> 102 then n - 87
      else if 65 \<le> n \<and> n \<le> 70 then n - 55 else 99)"

definition radix_number :: "nat \<Rightarrow> string \<Rightarrow> js_number" where
  "radix_number b s =
     (if s = [] \<or> list_ex (\<lambda>c. radix_digit c \<ge> b) s then JNaN
      else number_of_fraction (foldl (\<lambda>n c. n * b + radix_digit c) 0 s) 1)"

definition unsigned_number :: "string \<Rightarrow> js_number" where
  "unsigned_number s = (if s = ''Infinity'' then JInfinity else decimal_number s)"

text \<open>\<^verbatim>\<open>Number(s)\<close>.\<close>

definition number_of_text :: "string \<Rightarrow> js_number" where
  "number_of_text s =
     (case js_trim s of
        [] \<Rightarrow> JFinite 0
      | c # t \<Rightarrow>
          if c = CHR ''0'' \<and> t \<noteq> [] \<and> hd t \<in> set ''xX'' then radix_number 16 (tl t)
          else if c = CHR ''0'' \<and> t \<noteq> [] \<and> hd t \<in> set ''oO'' then radix_number 8 (tl t)
          else if c = CHR ''0'' \<and> t \<noteq> [] \<and> hd t \<in> set ''bB'' then radix_number 2 (tl t)
          else if c = CHR ''-'' then negative (unsigned_number t)
          else if c = CHR ''+'' then unsigned_number t
          else unsigned_number (c # t))"

section \<open>Integers made of numbers\<close>

definition truncate :: "rat \<Rightarrow> int" where
  "truncate q = (if q < 0 then - \<lfloor>- q\<rfloor> else \<lfloor>q\<rfloor>)"

text \<open>\<open>xs.slice(0, n)\<close>.\<close>

fun slice_to :: "js_number \<Rightarrow> 'a list \<Rightarrow> 'a list" where
  "slice_to (JFinite q) xs =
     (let k = truncate q in if k < 0 then take (nat (int (length xs) + k)) xs else take (nat k) xs)"
| "slice_to JInfinity xs = xs"
| "slice_to JMinus_infinity xs = []"
| "slice_to JNaN xs = []"

section \<open>Small numerals are read exactly\<close>

lemma digits_val_all_digits: "digits_val acc s = Some n \<Longrightarrow> \<forall>c \<in> set s. digit_val c \<noteq> None"
  by (induction s arbitrary: acc) (auto split: option.splits)

lemma digit_span_all: "\<forall>c \<in> set s. digit_val c \<noteq> None \<Longrightarrow> digit_span s = (s, [])"
  by (simp add: digit_span_def takeWhile_eq_all_conv [THEN iffD2] dropWhile_eq_Nil_conv [THEN iffD2])

lemma nat_str_all_digits: "\<forall>c \<in> set (nat_str n). digit_val c \<noteq> None"
  using digits_val_nat_str digits_val_all_digits by blast

lemma digit_not_space: "digit_val c \<noteq> None \<Longrightarrow> \<not> js_space c"
  by (auto simp: digit_val_def js_space_def Let_def split: if_splits)

lemma nearest_double_small:
  assumes "n < 2 ^ 53"
  shows "double_rat (nearest_double n 1) = of_nat n"
proof (cases "n = 0")
  case True
  then show ?thesis by (simp add: nearest_double_def to_double_def double_rat_def scaled_def)
next
  case False
  obtain q e where t: "to_double n 1 = (q, e)" by fastforce
  obtain a b where s: "scaled n 1 e = (a, b)" "q = round_half_even a b" "2 ^ 52 * b \<le> a" "a < 2 ^ 53 * b"
    using to_double_norm [OF _ _ t] False by auto
  have e0: "0 \<le> e"
  proof (rule ccontr)
    assume neg: "\<not> 0 \<le> e"
    then have b: "b = 2 ^ nat (- e)" "a = n" using s(1) by (auto simp: scaled_def)
    have "(2::nat) ^ 1 \<le> 2 ^ nat (- e)" using neg by (intro power_increasing) auto
    then have "2 ^ 53 \<le> 2 ^ 52 * b" using b by simp
    then show False using s(3) b assms by linarith
  qed
  then have ab: "a = n * 2 ^ nat e" "b = 1" using s(1) by (auto simp: scaled_def)
  then have q: "q = n * 2 ^ nat e" using s(2) round_half_even_exact [of 1 "n * 2 ^ nat e"] by simp
  have "nat e \<le> 53"
  proof (rule ccontr)
    assume "\<not> nat e \<le> 53"
    then have "(2::nat) ^ 53 \<le> 2 ^ nat e" by (intro power_increasing) auto
    also have "\<dots> \<le> n * 2 ^ nat e" using False by simp
    finally show False using s(4) ab by simp
  qed
  then show ?thesis
    using t e0 q False by (auto simp: nearest_double_def double_rat_def scaled_def)
qed

lemma number_of_text_nat_str:
  assumes "n < 2 ^ 53"
  shows "number_of_text (nat_str n) = JFinite (of_nat n)"
proof -
  have ds: "\<forall>c \<in> set (nat_str n). digit_val c \<noteq> None" by (rule nat_str_all_digits)
  have trim: "js_trim (nat_str n) = nat_str n"
    using ds digit_not_space by (intro js_trim_no_space) blast
  obtain c t where ct: "nat_str n = c # t" by (cases "nat_str n") auto
  have c: "digit_val c \<noteq> None" and t: "\<forall>d \<in> set t. digit_val d \<noteq> None" using ds ct by auto
  have hd: "t \<noteq> [] \<Longrightarrow> digit_val (hd t) \<noteq> None" using t by simp
  then have no_radix: "\<not> (t \<noteq> [] \<and> hd t \<in> set ''xX'')" "\<not> (t \<noteq> [] \<and> hd t \<in> set ''oO'')"
      "\<not> (t \<noteq> [] \<and> hd t \<in> set ''bB'')"
    by (auto simp: digit_val_def)
  have sign: "c \<noteq> CHR ''-''" "c \<noteq> CHR ''+''" "c \<noteq> CHR ''I''" using c by (auto simp: digit_val_def)
  then have "number_of_text (nat_str n) = decimal_number (nat_str n)"
    using no_radix unfolding number_of_text_def trim by (auto simp: ct unsigned_number_def)
  also have "\<dots> = number_of_fraction n 1"
    using digit_span_all [OF ds] by (simp add: decimal_number_def exponent_part_def digits_val_nat_str)
  also have "\<dots> = JFinite (of_nat n)"
  proof -
    have "n < (2 ^ 1024 - 2 ^ 970) * 1"
      by (rule less_le_trans [OF assms]) simp
    then show ?thesis using nearest_double_small [OF assms] by (simp add: number_of_fraction_def)
  qed
  finally show ?thesis .
qed

end
