(* ===== verification/JS_Regex.thy ===== *)
theory JS_Regex
  imports JS_Prelude
begin

text \<open>
  Regular expressions as the language matches them: by backtracking, the alternatives of a
  pattern in their order, a greedy repetition from its longest match down and a lazy one from
  its shortest up. A match is described by all its outcomes in order of preference, each with
  the rest of the text and the groups captured; the language takes the first. Repetition is of
  single characters only, which is all the sources use. A pattern with the flag for case is
  given the text in lower case.
\<close>

section \<open>Patterns and their outcomes\<close>

datatype regex =
    Rx_empty
  | Rx_text string
  | Rx_many "char \<Rightarrow> bool" nat
  | Rx_lazy "char \<Rightarrow> bool" nat
  | Rx_seq regex regex
  | Rx_alt regex regex
  | Rx_opt regex
  | Rx_group nat regex
  | Rx_end

type_synonym captures = "nat \<Rightarrow> string option"

text \<open>How many characters a repetition takes, in order of preference.\<close>

definition repeats :: "(char \<Rightarrow> bool) \<Rightarrow> nat \<Rightarrow> string \<Rightarrow> nat list" where
  "repeats p least s = [least..<Suc (length (takeWhile p s))]"

primrec rx_run :: "regex \<Rightarrow> string \<Rightarrow> captures \<Rightarrow> (string \<times> captures) list" where
  "rx_run Rx_empty s c = [(s, c)]"
| "rx_run (Rx_text t) s c = (if prefix t s then [(drop (length t) s, c)] else [])"
| "rx_run (Rx_many p n) s c = map (\<lambda>k. (drop k s, c)) (rev (repeats p n s))"
| "rx_run (Rx_lazy p n) s c = map (\<lambda>k. (drop k s, c)) (repeats p n s)"
| "rx_run (Rx_seq r q) s c = concat (map (\<lambda>(t, d). rx_run q t d) (rx_run r s c))"
| "rx_run (Rx_alt r q) s c = rx_run r s c @ rx_run q s c"
| "rx_run (Rx_opt r) s c = rx_run r s c @ [(s, c)]"
| "rx_run (Rx_group i r) s c =
     map (\<lambda>(t, d). (t, d(i := Some (take (length s - length t) s)))) (rx_run r s c)"
| "rx_run Rx_end s c = (if s = [] then [(s, c)] else [])"

abbreviation no_captures :: captures where
  "no_captures \<equiv> (\<lambda>_. None)"

text \<open>A match at the start of the text, and the leftmost match.\<close>

definition rx_at_start :: "regex \<Rightarrow> string \<Rightarrow> captures option" where
  "rx_at_start r s = (case rx_run r s no_captures of [] \<Rightarrow> None | (t, c) # _ \<Rightarrow> Some c)"

fun rx_search :: "regex \<Rightarrow> string \<Rightarrow> captures option" where
  "rx_search r [] = rx_at_start r []"
| "rx_search r (c # s) = (case rx_at_start r (c # s) of None \<Rightarrow> rx_search r s | Some m \<Rightarrow> Some m)"

fun rx_list :: "regex list \<Rightarrow> regex" where
  "rx_list [] = Rx_empty"
| "rx_list [r] = r"
| "rx_list (r # q # rs) = Rx_seq r (rx_list (q # rs))"

section \<open>Classes\<close>

definition rx_digit :: "char \<Rightarrow> bool" where
  "rx_digit c \<longleftrightarrow> digit_val c \<noteq> None"

text \<open>\<^verbatim>\<open>.\<close>: all but the line terminators.\<close>

definition rx_any :: "char \<Rightarrow> bool" where
  "rx_any c \<longleftrightarrow> c \<noteq> CHR 0x0A \<and> c \<noteq> CHR 0x0D"

definition rx_small :: "char \<Rightarrow> bool" where
  "rx_small c = (let n = of_char c :: nat in 97 \<le> n \<and> n \<le> 122)"

section \<open>A match leaves a rest and captures parts of the text\<close>

lemma rx_run_suffix: "(t, d) \<in> set (rx_run r s c) \<Longrightarrow> suffix t s"
proof (induction r arbitrary: s c t d)
  case (Rx_seq r q)
  then obtain u e where "(u, e) \<in> set (rx_run r s c)" "(t, d) \<in> set (rx_run q u e)" by auto
  then show ?case using Rx_seq.IH suffix_order.trans by blast
next
  case (Rx_group i r)
  then show ?case by auto
next
  case (Rx_alt r q)
  then show ?case by auto
next
  case (Rx_opt r)
  then show ?case by auto
qed (auto simp: suffix_drop split: if_splits)

lemma rx_run_captures:
  "(t, d) \<in> set (rx_run r s c) \<Longrightarrow> d i = Some w \<Longrightarrow> c i = Some w \<or> sublist w s"
proof (induction r arbitrary: s c t d)
  case (Rx_seq r q)
  then obtain u e where u: "(u, e) \<in> set (rx_run r s c)" "(t, d) \<in> set (rx_run q u e)" by auto
  have "e i = Some w \<or> sublist w u" using Rx_seq.IH(2) [OF u(2)] Rx_seq.prems(2) by blast
  moreover have "sublist u s" using rx_run_suffix [OF u(1)] by (rule suffix_imp_sublist)
  ultimately show ?case using Rx_seq.IH(1) [OF u(1)] sublist_order.order.trans by blast
next
  case (Rx_alt r q)
  then show ?case by fastforce
next
  case (Rx_group j r)
  then obtain e where e: "(t, e) \<in> set (rx_run r s c)" "d = e(j := Some (take (length s - length t) s))"
    by auto
  show ?case
  proof (cases "i = j")
    case True
    with e Rx_group.prems have "w = take (length s - length t) s" by simp
    then show ?thesis by (simp add: sublist_take)
  next
    case False
    with e Rx_group show ?thesis by simp
  qed
qed (auto split: if_splits)

lemma rx_search_captures: "rx_search r s = Some c \<Longrightarrow> c i = Some w \<Longrightarrow> sublist w s"
proof (induction s)
  case Nil
  then obtain t where "(t, c) \<in> set (rx_run r [] no_captures)" by (auto simp: rx_at_start_def split: list.splits)
  with Nil.prems(2) show ?case by (auto dest: rx_run_captures)
next
  case (Cons x s)
  show ?case
  proof (cases "rx_at_start r (x # s)")
    case None
    with Cons show ?thesis by (simp add: sublist_Cons_right)
  next
    case (Some m)
    then obtain t where "(t, m) \<in> set (rx_run r (x # s) no_captures)"
      by (auto simp: rx_at_start_def split: list.splits)
    with Some Cons.prems show ?thesis by (auto dest: rx_run_captures)
  qed
qed

end
