(* ===== verification/Ceo_Commands.thy ===== *)
theory Ceo_Commands
  imports Domain_Types JS_Number JS_Regex
begin

text \<open>
  The owner's directives to the CEO agent: the commands of
  \<^verbatim>\<open>src/agents/ceo/models.ts\<close> and the two parsers of
  \<^verbatim>\<open>src/agents/ceo/runtime.ts\<close>, one for flags and one for sentences. The parameters of a
  command, an object in the source, are a record of the keys the parsers write.
\<close>

section \<open>Commands\<close>

datatype command_type =
    Cmd_activity | Cmd_status | Cmd_history | Cmd_report | Cmd_decisions | Cmd_runbook
  | Cmd_workspace | Cmd_staffing | Cmd_project_admin | Cmd_delegate

fun command_type_str :: "command_type \<Rightarrow> string" where
  "command_type_str Cmd_activity = ''activity''"
| "command_type_str Cmd_status = ''status''"
| "command_type_str Cmd_history = ''history''"
| "command_type_str Cmd_report = ''report''"
| "command_type_str Cmd_decisions = ''decisions''"
| "command_type_str Cmd_runbook = ''runbook''"
| "command_type_str Cmd_workspace = ''workspace''"
| "command_type_str Cmd_staffing = ''staffing''"
| "command_type_str Cmd_project_admin = ''project_admin''"
| "command_type_str Cmd_delegate = ''delegate''"

datatype parse_mode = Mode_structured | Mode_natural

datatype count_value = Count_number js_number | Count_text string | Count_other

record command_params =
  cp_action :: "string option"
  cp_type :: "string option"
  cp_period :: "string option"
  cp_path :: "string option"
  cp_query :: "string option"
  cp_agent_type :: "string option"
  cp_project_id :: "string option"
  cp_last :: "js_number option"
  cp_lines :: "js_number option"
  cp_count :: count_value

definition no_params :: command_params where
  "no_params = \<lparr>cp_action = None, cp_type = None, cp_period = None, cp_path = None, cp_query = None,
     cp_agent_type = None, cp_project_id = None, cp_last = None, cp_lines = None, cp_count = Count_other\<rparr>"

record owner_command =
  oc_command_type :: command_type
  oc_parameters :: command_params
  oc_raw_input :: string
  oc_parsed_at :: string

record clarification_prompt =
  cq_reason :: string
  cq_questions :: "string list"

datatype parsed_directive =
    Directive_parsed parse_mode owner_command
  | Directive_unclear parse_mode clarification_prompt

definition buildParsedDirective ::
  "parse_mode \<Rightarrow> command_type \<Rightarrow> command_params \<Rightarrow> string \<Rightarrow> string \<Rightarrow> parsed_directive" where
  "buildParsedDirective mode command_type parameters raw_input parsed_at =
     Directive_parsed mode
       \<lparr>oc_command_type = command_type, oc_parameters = parameters, oc_raw_input = raw_input,
        oc_parsed_at = parsed_at\<rparr>"

definition buildClarification :: "parse_mode \<Rightarrow> string \<Rightarrow> string list \<Rightarrow> parsed_directive" where
  "buildClarification mode reason questions =
     Directive_unclear mode \<lparr>cq_reason = reason, cq_questions = take 3 questions\<rparr>"

section \<open>Flags\<close>

text \<open>\<open>split(/\s+/)\<close>.\<close>

function split_spaces :: "string \<Rightarrow> string list" where
  "split_spaces s =
     (case dropWhile (\<lambda>c. \<not> js_space c) s of
        [] \<Rightarrow> [s]
      | c # rest \<Rightarrow> takeWhile (\<lambda>c. \<not> js_space c) s # split_spaces (dropWhile js_space rest))"
  by pat_completeness auto
termination
proof (relation "measure length")
  fix s :: string and c rest
  assume "dropWhile (\<lambda>c. \<not> js_space c) s = c # rest"
  then have "length (c # rest) \<le> length s" by (metis length_dropWhile_le)
  then show "(dropWhile js_space rest, s) \<in> measure length"
    using length_dropWhile_le [of js_space rest] by simp
qed simp

declare split_spaces.simps [simp del]

text \<open>The token after the first occurrence of the flag.\<close>

fun readStringFlag :: "string list \<Rightarrow> string \<Rightarrow> string option" where
  "readStringFlag [] flag = None"
| "readStringFlag (t # ts) flag =
     (if t = flag then (case ts of [] \<Rightarrow> None | v # _ \<Rightarrow> Some v) else readStringFlag ts flag)"

definition readNumericFlag :: "string list \<Rightarrow> string \<Rightarrow> js_number option" where
  "readNumericFlag tokens flag =
     (case readStringFlag tokens flag of
        None \<Rightarrow> None
      | Some v \<Rightarrow> (case number_of_text v of JFinite q \<Rightarrow> Some (JFinite q) | _ \<Rightarrow> None))"

definition first_token :: "string list \<Rightarrow> string option" where
  "first_token tokens = (case tokens of [] \<Rightarrow> None | t # _ \<Rightarrow> Some t)"

definition nullish_opt :: "'a option \<Rightarrow> 'a option \<Rightarrow> 'a option" where
  "nullish_opt x y = (case x of None \<Rightarrow> y | Some v \<Rightarrow> Some v)"

text \<open>A flag whose value is missing or empty is asked for.\<close>

definition falsy :: "string option \<Rightarrow> bool" where
  "falsy x \<longleftrightarrow> nullish x [] = []"

section \<open>Structured directives\<close>

definition parseStructuredCommand :: "string \<Rightarrow> string \<Rightarrow> parsed_directive" where
  "parseStructuredCommand rawInput parsedAt =
     (let words = split_spaces rawInput;
          command = js_lower (hd words);
          tokens = tl words;
          parsed = (\<lambda>kind parameters. buildParsedDirective Mode_structured kind parameters rawInput parsedAt);
          workspace = (\<lambda>action parameters. parsed Cmd_workspace (parameters\<lparr>cp_action := Some action\<rparr>));
          runbook = (\<lambda>action. parsed Cmd_runbook (no_params\<lparr>cp_action := Some action\<rparr>))
      in
      if command = ''activity'' then parsed Cmd_activity no_params
      else if command = ''status'' then parsed Cmd_status no_params
      else if command = ''history'' then
        parsed Cmd_history
          (no_params\<lparr>cp_last := Some (nullish (readNumericFlag tokens ''--last'') (JFinite 10))\<rparr>)
      else if command = ''report'' then
        (let type = readStringFlag tokens ''--type'' in
         if falsy type then
           buildClarification Mode_structured ''Report command is missing a report type.''
             [''Do you want a daily, weekly, project, agent, or kpi report?'']
         else parsed Cmd_report (no_params\<lparr>cp_type := type, cp_period := readStringFlag tokens ''--period''\<rparr>))
      else if command = ''decisions'' then parsed Cmd_decisions no_params
      else if command = ''runbook'' then
        (let action = readStringFlag tokens ''--action'' in
         if falsy action then
           buildClarification Mode_structured ''Runbook command is missing an action.''
             [''Please use runbook --action check, runbook --action test, or runbook --action smoke.'']
         else parsed Cmd_runbook (no_params\<lparr>cp_action := action\<rparr>))
      else if command = ''workspace'' then
        (let action = readStringFlag tokens ''--action'' in
         if falsy action then
           buildClarification Mode_structured ''Workspace command is missing an action.''
             [''Please use workspace --action read_file --path FILE or workspace --action search_code --query QUERY.'']
         else
           parsed Cmd_workspace
             (no_params\<lparr>cp_action := action, cp_path := readStringFlag tokens ''--path'',
                cp_query := readStringFlag tokens ''--query'', cp_lines := readNumericFlag tokens ''--lines''\<rparr>))
      else if command = ''staffing'' then
        parsed Cmd_staffing
          (no_params\<lparr>cp_action := Some (nullish (readStringFlag tokens ''--action'') ''assess''),
             cp_agent_type := readStringFlag tokens ''--type'',
             cp_count := Count_number (nullish (readNumericFlag tokens ''--count'') (JFinite 1)),
             cp_project_id := readStringFlag tokens ''--project''\<rparr>)
      else if command = ''spawn-agent'' \<or> command = ''create-agent'' then
        parsed Cmd_staffing
          (no_params\<lparr>cp_action := Some ''provision'',
             cp_agent_type := nullish_opt (readStringFlag tokens ''--type'') (first_token tokens),
             cp_count := Count_number (nullish (readNumericFlag tokens ''--count'') (JFinite 1)),
             cp_project_id := readStringFlag tokens ''--project''\<rparr>)
      else if command = ''project-admin'' \<or> command = ''delete-projects'' then
        parsed Cmd_project_admin
          (no_params\<lparr>cp_action := Some (nullish (readStringFlag tokens ''--action'') ''close_all_projects'')\<rparr>)
      else if command = ''read-file'' then
        workspace ''read_file''
          (no_params\<lparr>cp_path := nullish_opt (readStringFlag tokens ''--path'') (first_token tokens)\<rparr>)
      else if command = ''search-code'' then
        workspace ''search_code''
          (no_params\<lparr>cp_query := nullish_opt (readStringFlag tokens ''--query'') (first_token tokens),
             cp_path := readStringFlag tokens ''--path''\<rparr>)
      else if command = ''git-status'' then workspace ''git_status'' no_params
      else if command = ''git-diff'' then
        workspace ''git_diff''
          (no_params\<lparr>cp_path := nullish_opt (readStringFlag tokens ''--path'') (first_token tokens)\<rparr>)
      else if command = ''read-log'' then
        workspace ''read_log''
          (no_params\<lparr>cp_path := nullish_opt (readStringFlag tokens ''--path'') (first_token tokens),
             cp_lines := readNumericFlag tokens ''--lines''\<rparr>)
      else if command = ''list-files'' then
        workspace ''list_files''
          (no_params\<lparr>cp_path := nullish_opt (readStringFlag tokens ''--path'') (first_token tokens)\<rparr>)
      else if command = ''check'' then runbook ''check''
      else if command = ''test'' then runbook ''tests''
      else if command = ''smoke'' then runbook ''smoke''
      else
        buildClarification Mode_structured ''Command is not recognized.''
          [''Please use status, history --last N, report --type TYPE, staffing --action ACTION, runbook --action ACTION, or workspace --action ACTION.''])"

section \<open>What a sentence is about\<close>

definition inferReportType :: "string \<Rightarrow> string option" where
  "inferReportType input =
     (if js_includes input ''daily'' \<or> js_includes input ''harian'' then Some ''daily''
      else if js_includes input ''weekly'' \<or> js_includes input ''mingguan'' then Some ''weekly''
      else if js_includes input ''kpi'' then Some ''kpi''
      else if js_includes input ''project'' \<or> js_includes input ''proyek'' then Some ''project''
      else if js_includes input ''agent'' then Some ''agent''
      else None)"

definition inferPeriod :: "string \<Rightarrow> string option" where
  "inferPeriod input =
     (if js_includes input ''today'' \<or> js_includes input ''hari ini'' then Some ''today''
      else if js_includes input ''this week'' \<or> js_includes input ''minggu ini'' then Some ''this-week''
      else None)"

definition inferAgentType :: "string \<Rightarrow> agent_type option" where
  "inferAgentType input =
     (let normalized = js_lower (js_trim input) in
      if js_includes normalized ''sales'' then Some Sales_agent
      else if js_includes normalized ''marketing'' then Some Marketing_agent
      else if js_includes normalized ''product'' then Some Product_agent
      else if js_includes normalized ''engineering'' \<or> js_includes normalized ''engineer'' \<or>
              js_includes normalized ''developer'' \<or> js_includes normalized ''dev'' then Some Engineering_agent
      else if js_includes normalized ''project manager'' \<or> normalized = ''pm'' \<or>
              js_includes normalized '' pm '' then Some Project_manager_agent
      else if js_includes normalized ''support'' then Some Support_agent
      else None)"

text \<open>
  The patterns. The classes of \<open>/(\d+)/\<close> and of the rest of a line; where the flag for case is
  set the text is matched in lower case, and the captured part is taken from the text itself.
\<close>

definition digits_rx :: regex where
  "digits_rx = Rx_group 1 (Rx_many rx_digit 1)"

definition keywords_rx :: "string list \<Rightarrow> regex" where
  "keywords_rx ws = foldr (\<lambda>w r. Rx_alt (Rx_text w) r) (butlast ws) (Rx_text (last ws))"

text \<open>\<open>^(?:a|b)\s+(.+)$\<close>, \<open>^(?:a|b)(?:\s+(.+))?$\<close> and \<open>^(?:a|b|c)\s*(.*)$\<close>.\<close>

definition argument_rx :: "string list \<Rightarrow> regex" where
  "argument_rx ws = rx_list [keywords_rx ws, Rx_many js_space 1, Rx_group 1 (Rx_many rx_any 1), Rx_end]"

definition optional_argument_rx :: "string list \<Rightarrow> regex" where
  "optional_argument_rx ws =
     rx_list [keywords_rx ws, Rx_opt (Rx_seq (Rx_many js_space 1) (Rx_group 1 (Rx_many rx_any 1))), Rx_end]"

definition rest_rx :: "string list \<Rightarrow> regex" where
  "rest_rx ws = rx_list [keywords_rx ws, Rx_many js_space 0, Rx_group 1 (Rx_many rx_any 0), Rx_end]"

definition create_agent_rx :: regex where
  "create_agent_rx =
     rx_list [keywords_rx [''buat'', ''tambah'', ''create'', ''spawn''], Rx_many js_space 1,
       Rx_opt (Rx_group 1 (Rx_many rx_digit 1)), Rx_many js_space 0, Rx_text ''agent'', Rx_many js_space 1,
       Rx_group 2 (Rx_lazy (\<lambda>c. rx_small c \<or> c = CHR ''_'' \<or> c = CHR '' '') 1),
       Rx_opt (Rx_seq (Rx_many js_space 1) (Rx_text ''baru'')),
       Rx_opt (rx_list [Rx_many js_space 1, Rx_text ''untuk'', Rx_many js_space 1,
         Rx_group 3 (Rx_many (\<lambda>c. rx_small c \<or> rx_digit c \<or> c = CHR ''-'' \<or> c = CHR ''_'') 1)]),
       Rx_end]"

text \<open>
  The part of the text that the match of its lower case captured. All captures here reach to
  the end of the text, and lower case keeps the length.
\<close>

definition captured_tail :: "string \<Rightarrow> captures \<Rightarrow> string option" where
  "captured_tail s c = map_option (\<lambda>w. drop (length s - length w) s) (c 1)"

definition match_line :: "regex \<Rightarrow> string \<Rightarrow> string option option" where
  "match_line r s = map_option (captured_tail s) (rx_at_start r (js_lower s))"

definition includes_any :: "string \<Rightarrow> string list \<Rightarrow> bool" where
  "includes_any s ws \<longleftrightarrow> list_ex (js_includes s) ws"

section \<open>Sentences\<close>

definition parseNaturalCommand :: "string \<Rightarrow> string \<Rightarrow> parsed_directive" where
  "parseNaturalCommand rawInput parsedAt =
     (let lower = js_lower rawInput;
          parsed = (\<lambda>kind parameters. buildParsedDirective Mode_natural kind parameters rawInput parsedAt);
          workspace = (\<lambda>action parameters. parsed Cmd_workspace (parameters\<lparr>cp_action := Some action\<rparr>));
          runbook = (\<lambda>action. parsed Cmd_runbook (no_params\<lparr>cp_action := Some action\<rparr>));
          readFile = match_line (argument_rx [''baca file'', ''read file'']) rawInput;
          searchCode = match_line (argument_rx [''cari kode'', ''search code'']) rawInput;
          gitDiff = match_line (optional_argument_rx [''diff git'', ''git diff'']) rawInput;
          readLog = match_line (argument_rx [''baca log'', ''read log'']) rawInput;
          listFiles = match_line (rest_rx [''list file'', ''list files'', ''daftar file'']) rawInput;
          createAgent = rx_search create_agent_rx lower;
          agentType = Option.bind createAgent (\<lambda>c. inferAgentType (nullish (c 2) []))
      in
      if lower = ''status'' \<or> includes_any lower [''status perusahaan'', ''company status''] then
        parsed Cmd_status no_params
      else if includes_any lower [''history'', ''riwayat''] then
        parsed Cmd_history
          (no_params\<lparr>cp_last := Some
             (case rx_search digits_rx lower of
                None \<Rightarrow> JFinite 10
              | Some c \<Rightarrow> number_of_text (nullish (c 1) []))\<rparr>)
      else if includes_any lower [''report'', ''laporan''] then
        (case inferReportType lower of
           None \<Rightarrow>
             buildClarification Mode_natural ''The report request is still ambiguous.''
               [''Should I generate a daily, weekly, project, agent, or kpi report?'',
                ''If this is a project report, which project_id should I use?'',
                ''If this is an agent report, which agent_id should I use?'']
         | Some type \<Rightarrow>
             parsed Cmd_report (no_params\<lparr>cp_type := Some type, cp_period := inferPeriod lower\<rparr>))
      else if includes_any lower
           [''apa yang sedang anda jalankan'', ''apa yang sedang kamu jalankan'', ''sedang menjalankan apa'',
            ''current activity'', ''aktivitas sekarang''] then
        parsed Cmd_activity no_params
      else if includes_any lower [''jalankan check'', ''run check'', ''typecheck''] then runbook ''check''
      else if includes_any lower [''jalankan test'', ''run test'', ''tes proyek'', ''test project''] then
        runbook ''tests''
      else if includes_any lower [''jalankan smoke'', ''run smoke'', ''smoke test''] then runbook ''smoke''
      else if readFile \<noteq> None \<and> \<not> falsy (Option.bind readFile id) then
        workspace ''read_file'' (no_params\<lparr>cp_path := map_option js_trim (Option.bind readFile id)\<rparr>)
      else if searchCode \<noteq> None \<and> \<not> falsy (Option.bind searchCode id) then
        workspace ''search_code'' (no_params\<lparr>cp_query := map_option js_trim (Option.bind searchCode id)\<rparr>)
      else if lower = ''status git'' \<or> js_includes lower ''git status'' then workspace ''git_status'' no_params
      else if gitDiff \<noteq> None then
        workspace ''git_diff'' (no_params\<lparr>cp_path := map_option js_trim (Option.bind gitDiff id)\<rparr>)
      else if readLog \<noteq> None \<and> \<not> falsy (Option.bind readLog id) then
        workspace ''read_log'' (no_params\<lparr>cp_path := map_option js_trim (Option.bind readLog id)\<rparr>)
      else if listFiles \<noteq> None then
        (let path = map_option js_trim (Option.bind listFiles id) in
         workspace ''list_files'' (no_params\<lparr>cp_path := (if falsy path then None else path)\<rparr>))
      else if includes_any lower
           [''kebutuhan agent'', ''kebutuhan tim'', ''analisa staffing'', ''analisa tim'', ''rancang agent''] then
        parsed Cmd_staffing (no_params\<lparr>cp_action := Some ''assess''\<rparr>)
      else if agentType \<noteq> None then
        (case createAgent of
           None \<Rightarrow> parsed Cmd_staffing no_params
         | Some c \<Rightarrow>
             parsed Cmd_staffing
               (no_params\<lparr>cp_action := Some ''provision'', cp_agent_type := map_option agent_type_str agentType,
                  cp_count := Count_number (if falsy (c 1) then JFinite 1 else number_of_text (nullish (c 1) [])),
                  cp_project_id := map_option js_trim (c 3)\<rparr>))
      else if includes_any lower
           [''hapus semua proyek'', ''hapus seluruh proyek'', ''delete all projects'', ''clear all projects''] then
        parsed Cmd_project_admin (no_params\<lparr>cp_action := Some ''close_all_projects''\<rparr>)
      else
        buildClarification Mode_natural ''Directive intent is ambiguous.''
          [''Do you need a status summary, current activity, directive history, a report, staffing help, a runbook action, or a workspace action like baca file/cari kode/status git?''])"

definition parseOwnerCommand :: "string \<Rightarrow> parse_mode \<Rightarrow> string \<Rightarrow> parsed_directive" where
  "parseOwnerCommand rawInput mode parsedAt =
     (let normalized = js_trim rawInput in
      if mode = Mode_structured then parseStructuredCommand normalized parsedAt
      else parseNaturalCommand normalized parsedAt)"

section \<open>Properties of the component\<close>

text \<open>
  The plural of the command is never read: the alternatives of the pattern are tried in their
  order, and its remaining letter goes to the path.
\<close>

lemma list_files_plural:
  "parseOwnerCommand ''list files src'' Mode_natural t =
   buildParsedDirective Mode_natural Cmd_workspace
     (no_params\<lparr>cp_action := Some ''list_files'', cp_path := Some ''s src''\<rparr>) ''list files src'' t"
  by code_simp

end
