(* ===== verification/Ceo_Model.thy ===== *)
theory Ceo_Model
  imports Ceo_Commands Agent_Registry
begin

text \<open>
  The CEO agent's data (\<^verbatim>\<open>src/agents/ceo/models.ts\<close>), its state, the fields of the
  class \<^verbatim>\<open>CeoRuntime\<close> (\<^verbatim>\<open>src/agents/ceo/runtime.ts\<close>), and the methods that only read
  it: dashboard, reports, workforce plan, health. The registry is part of the state; its clock
  is the clock of the whole program. Numbers of a configuration are integers, but for the
  alert threshold.
\<close>

section \<open>Data\<close>

datatype priority_level = Level_critical | Level_high | Level_medium | Level_low

fun priority_level_str :: "priority_level \<Rightarrow> string" where
  "priority_level_str Level_critical = ''critical''"
| "priority_level_str Level_high = ''high''"
| "priority_level_str Level_medium = ''medium''"
| "priority_level_str Level_low = ''low''"

datatype directive_status =
    Dir_received | Dir_clarification_required | Dir_executing | Dir_completed | Dir_failed | Dir_rejected

fun directive_status_str :: "directive_status \<Rightarrow> string" where
  "directive_status_str Dir_received = ''received''"
| "directive_status_str Dir_clarification_required = ''clarification_required''"
| "directive_status_str Dir_executing = ''executing''"
| "directive_status_str Dir_completed = ''completed''"
| "directive_status_str Dir_failed = ''failed''"
| "directive_status_str Dir_rejected = ''rejected''"

record stored_directive =
  sd_directive_id :: string
  sd_status :: directive_status
  sd_received_at :: string
  sd_command :: "owner_command option"
  sd_raw_input :: string
  sd_summary :: string

record workforce_recommendation =
  wr_agent_type :: agent_type
  wr_quantity :: nat
  wr_reason :: string
  wr_project_id :: "string option"
  wr_urgency :: priority_level

record workforce_plan =
  wp_generated_at :: string
  wp_objective :: string
  wp_active_projects :: nat
  wp_active_agents :: nat
  wp_blocked_projects :: "string list"
  wp_offline_agents :: "string list"
  wp_recommendations :: "workforce_recommendation list"

datatype delegation_status = Del_draft | Del_delegated | Del_completed | Del_failed | Del_escalated

fun delegation_status_str :: "delegation_status \<Rightarrow> string" where
  "delegation_status_str Del_draft = ''draft''"
| "delegation_status_str Del_delegated = ''delegated''"
| "delegation_status_str Del_completed = ''completed''"
| "delegation_status_str Del_failed = ''failed''"
| "delegation_status_str Del_escalated = ''escalated''"

datatype delegation_event =
    Ev_created | Ev_delegated | Ev_acknowledged | Ev_instruction_added | Ev_redelegated
  | Ev_completed | Ev_failed | Ev_escalated

fun delegation_event_str :: "delegation_event \<Rightarrow> string" where
  "delegation_event_str Ev_created = ''created''"
| "delegation_event_str Ev_delegated = ''delegated''"
| "delegation_event_str Ev_acknowledged = ''acknowledged''"
| "delegation_event_str Ev_instruction_added = ''instruction_added''"
| "delegation_event_str Ev_redelegated = ''redelegated''"
| "delegation_event_str Ev_completed = ''completed''"
| "delegation_event_str Ev_failed = ''failed''"
| "delegation_event_str Ev_escalated = ''escalated''"

datatype ack_state = Ack_pending | Ack_acknowledged | Ack_unresponsive

fun ack_state_str :: "ack_state \<Rightarrow> string" where
  "ack_state_str Ack_pending = ''pending''"
| "ack_state_str Ack_acknowledged = ''acknowledged''"
| "ack_state_str Ack_unresponsive = ''unresponsive''"

record delegation_entry =
  dh_status :: delegation_status
  dh_event :: delegation_event
  dh_timestamp :: string
  dh_note :: "string option"

record delegation =
  dg_task_id :: string
  dg_target_agent :: agent_type
  dg_project_id :: string
  dg_assigned_agent_id :: "string option"
  dg_instructions :: string
  dg_priority :: priority_level
  dg_deadline :: "string option"
  dg_context :: "(string \<times> jsval) list"
  dg_success_criteria :: "string list"
  dg_status :: delegation_status
  dg_created_at :: string
  dg_updated_at :: string
  dg_ack_status :: ack_state
  dg_latest_result_summary :: "string option"
  dg_failure_reason :: "string option"
  dg_status_history :: "delegation_entry list"

datatype decision_category =
    Dc_resource_allocation | Dc_project_priority | Dc_client_escalation | Dc_agent_management
  | Dc_strategic_direction

fun decision_category_str :: "decision_category \<Rightarrow> string" where
  "decision_category_str Dc_resource_allocation = ''resource_allocation''"
| "decision_category_str Dc_project_priority = ''project_priority''"
| "decision_category_str Dc_client_escalation = ''client_escalation''"
| "decision_category_str Dc_agent_management = ''agent_management''"
| "decision_category_str Dc_strategic_direction = ''strategic_direction''"

record strategic_decision =
  dn_decision_id :: string
  dn_timestamp :: string
  dn_category :: decision_category
  dn_context :: string
  dn_options_considered :: "string list"
  dn_chosen_option :: string
  dn_rationale :: string
  dn_expected_impact :: "string list"
  dn_related_project_ids :: "string list"
  dn_related_agent_ids :: "string list"
  dn_supersedes :: "string option"

record kpi_numbers =
  kn_active_projects :: nat
  kn_active_agents :: nat
  kn_offline_agents :: nat
  kn_blocked_projects :: nat
  kn_busy_agents :: nat

record company_dashboard =
  cd_generated_at :: string
  cd_agents :: "agent_entry list"
  cd_projects :: "project_entry list"
  cd_kpis :: kpi_numbers
  cd_pending_approvals :: "approval_request list"
  cd_issues :: "string list"

record report_project =
  rp_project_id :: string
  rp_client_id :: string
  rp_lifecycle_state :: lifecycle_state
  rp_active_agents :: "string list"
  rp_current_milestone :: string

record company_report =
  cr_report_id :: string
  cr_report_type :: string
  cr_generated_at :: string
  cr_period_label :: string
  cr_executive_summary :: string
  cr_key_metrics :: "(string \<times> nat) list"
  cr_active_projects :: "report_project list"
  cr_decisions_made :: "strategic_decision list"
  cr_issues_and_risks :: "string list"
  cr_next_actions :: "string list"

datatype health_state = Hl_starting | Hl_ready | Hl_degraded | Hl_recovering | Hl_stopped | Hl_locked

record ceo_health =
  hl_status :: health_state
  hl_uptime_seconds :: "int option"
  hl_active_tasks :: nat
  hl_last_activity :: string

record ceo_readiness =
  rd_health :: ceo_health
  rd_ready :: bool
  rd_registry_connected :: bool
  rd_recovery_loaded :: bool
  rd_lock_active :: bool
  rd_monitoring_cadence :: int

datatype broadcast_group = Group_all | Group_delivery_team | Group_client_facing

fun broadcast_group_str :: "broadcast_group \<Rightarrow> string" where
  "broadcast_group_str Group_all = ''all''"
| "broadcast_group_str Group_delivery_team = ''delivery_team''"
| "broadcast_group_str Group_client_facing = ''client_facing''"

datatype broadcast_status = Bc_pending_ack | Bc_completed | Bc_partial | Bc_blocked

fun broadcast_status_str :: "broadcast_status \<Rightarrow> string" where
  "broadcast_status_str Bc_pending_ack = ''pending_ack''"
| "broadcast_status_str Bc_completed = ''completed''"
| "broadcast_status_str Bc_partial = ''partial''"
| "broadcast_status_str Bc_blocked = ''blocked''"

record broadcast =
  bc_broadcast_id :: string
  bc_timestamp :: string
  bc_priority :: priority_level
  bc_content :: string
  bc_target_group :: "broadcast_group option"
  bc_target_agent_ids :: "string list"
  bc_requires_acknowledgment :: bool
  bc_ack_timeout_seconds :: int
  bc_status :: broadcast_status
  bc_acknowledgments :: "(string, ack_state) js_map"

section \<open>Configuration\<close>

record group_config =
  gc_all :: "agent_type list"
  gc_delivery_team :: "agent_type list"
  gc_client_facing :: "agent_type list"

record monitoring_config =
  mc_active_project_interval :: int
  mc_idle_interval :: int
  mc_heartbeat_seconds :: int
  mc_broadcast_ack_timeout :: int

record owner_auth_config =
  oa_owner_id :: string
  oa_allowed_token_ids :: "string list"
  oa_failed_attempt_threshold :: int
  oa_failed_attempt_window :: int
  oa_temporary_lock_minutes :: int

record ceo_config =
  cg_daily_time_utc :: string
  cg_kpi_alert_threshold :: rat
  cg_broadcast_groups :: group_config
  cg_commands_requiring_confirmation :: "command_type list"
  cg_monitoring :: monitoring_config
  cg_owner_auth :: owner_auth_config

record ceo_config_update =
  gu_daily_time_utc :: "string option"
  gu_kpi_alert_threshold :: "rat option"
  gu_broadcast_groups :: "group_config option"
  gu_commands_requiring_confirmation :: "command_type list option"
  gu_monitoring :: "monitoring_config option"
  gu_owner_auth :: "owner_auth_config option"

definition no_config_update :: ceo_config_update where
  "no_config_update = \<lparr>gu_daily_time_utc = None, gu_kpi_alert_threshold = None, gu_broadcast_groups = None,
     gu_commands_requiring_confirmation = None, gu_monitoring = None, gu_owner_auth = None\<rparr>"

definition defaultCeoRuntimeConfig :: ceo_config where
  "defaultCeoRuntimeConfig =
     \<lparr>cg_daily_time_utc = ''09:00'', cg_kpi_alert_threshold = 1 / 5,
      cg_broadcast_groups =
        \<lparr>gc_all = [Sales_agent, Marketing_agent, Product_agent, Engineering_agent, Project_manager_agent,
           Support_agent],
         gc_delivery_team = [Product_agent, Engineering_agent],
         gc_client_facing = [Sales_agent, Support_agent]\<rparr>,
      cg_commands_requiring_confirmation = [Cmd_delegate, Cmd_project_admin],
      cg_monitoring =
        \<lparr>mc_active_project_interval = 5, mc_idle_interval = 30, mc_heartbeat_seconds = 60,
         mc_broadcast_ack_timeout = 30\<rparr>,
      cg_owner_auth =
        \<lparr>oa_owner_id = ''owner'', oa_allowed_token_ids = [], oa_failed_attempt_threshold = 5,
         oa_failed_attempt_window = 60, oa_temporary_lock_minutes = 15\<rparr>\<rparr>"

definition mergeConfig :: "ceo_config \<Rightarrow> ceo_config_update \<Rightarrow> ceo_config" where
  "mergeConfig base overrides =
     \<lparr>cg_daily_time_utc = nullish (gu_daily_time_utc overrides) (cg_daily_time_utc base),
      cg_kpi_alert_threshold = nullish (gu_kpi_alert_threshold overrides) (cg_kpi_alert_threshold base),
      cg_broadcast_groups = nullish (gu_broadcast_groups overrides) (cg_broadcast_groups base),
      cg_commands_requiring_confirmation =
        nullish (gu_commands_requiring_confirmation overrides) (cg_commands_requiring_confirmation base),
      cg_monitoring = nullish (gu_monitoring overrides) (cg_monitoring base),
      cg_owner_auth = nullish (gu_owner_auth overrides) (cg_owner_auth base)\<rparr>"

text \<open>A whole configuration as an update.\<close>

definition whole_config :: "ceo_config \<Rightarrow> ceo_config_update" where
  "whole_config c =
     \<lparr>gu_daily_time_utc = Some (cg_daily_time_utc c), gu_kpi_alert_threshold = Some (cg_kpi_alert_threshold c),
      gu_broadcast_groups = Some (cg_broadcast_groups c),
      gu_commands_requiring_confirmation = Some (cg_commands_requiring_confirmation c),
      gu_monitoring = Some (cg_monitoring c), gu_owner_auth = Some (cg_owner_auth c)\<rparr>"

lemma mergeConfig_whole [simp]: "mergeConfig base (whole_config c) = c"
  by (simp add: mergeConfig_def whole_config_def)

lemma mergeConfig_none [simp]: "mergeConfig base no_config_update = base"
  by (simp add: mergeConfig_def no_config_update_def)

definition createCeoQueryEngineConfig :: "ceo_config \<Rightarrow> jsval" where
  "createCeoQueryEngineConfig config =
     JObj [(''engine'', JStr ''QueryEngine''), (''max_clarification_questions'', JNum 3),
       (''response_format'', JStr ''markdown''),
       (''heartbeat_seconds'', JNum (mc_heartbeat_seconds (cg_monitoring config)))]"

record strategic_request_input =
  si_request_id :: string
  si_timestamp :: string
  si_summary :: string
  si_recommendation :: string
  si_risks :: "string list"
  si_artifact_ref :: string
  si_project_id :: "string option"
  si_gate :: "approval_gate option"
  si_options :: "approval_decision list option"

definition createStrategicApprovalRequest :: "strategic_request_input \<Rightarrow> approval_request" where
  "createStrategicApprovalRequest i =
     \<lparr>ar_request_id = si_request_id i, ar_gate = nullish (si_gate i) Strategic_decision,
      ar_from_agent = Ceo_agent, ar_timestamp = si_timestamp i, ar_project_id = si_project_id i,
      ar_summary = si_summary i, ar_recommendation = si_recommendation i, ar_risks = si_risks i,
      ar_options = nullish (si_options i) [Approve, Reject, Revise], ar_artifact_ref = si_artifact_ref i\<rparr>"

section \<open>State\<close>

datatype audit_parameters = Params_fields "(string \<times> jsval) list" | Params_config ceo_config_update

record ceo_audit_entry =
  ca_timestamp :: string
  ca_action_type :: string
  ca_actor :: string
  ca_target :: string
  ca_parameters :: audit_parameters
  ca_result :: string

datatype ceo_lifecycle = Ceo_startup | Ceo_running | Ceo_recovering | Ceo_shutdown

record ceo_state =
  cs_registry :: registry
  cs_agent_id :: string
  cs_decisions :: "strategic_decision list"
  cs_delegations :: "delegation list"
  cs_directives :: "stored_directive list"
  cs_broadcasts :: "broadcast list"
  cs_audit_log :: "ceo_audit_entry list"
  cs_failed_auth_attempts :: "string list"
  cs_config :: ceo_config
  cs_lifecycle :: ceo_lifecycle
  cs_recovery_loaded :: bool
  cs_started_at :: string
  cs_last_activity :: string
  cs_access_lock_until :: "string option"

record ceo_snapshot =
  cx_directives :: "stored_directive list"
  cx_decisions :: "strategic_decision list"
  cx_delegations :: "delegation list"
  cx_broadcasts :: "broadcast list"
  cx_audit_log :: "ceo_audit_entry list"
  cx_config :: ceo_config
  cx_last_activity :: string

definition touch :: "string \<Rightarrow> ceo_state \<Rightarrow> ceo_state" where
  "touch now s = s\<lparr>cs_last_activity := now\<rparr>"

text \<open>The entry is stamped with a reading of the clock, not with the time of the action.\<close>

definition ceo_audit :: "clock \<Rightarrow> string \<Rightarrow> string \<Rightarrow> string \<Rightarrow> audit_parameters \<Rightarrow> string \<Rightarrow> ceo_state \<Rightarrow> ceo_state" where
  "ceo_audit clk actionType actor target parameters outcome s =
     (let (now, r) = read_clock clk (cs_registry s) in
      s\<lparr>cs_registry := r,
        cs_audit_log := \<lparr>ca_timestamp = now, ca_action_type = actionType, ca_actor = actor, ca_target = target,
          ca_parameters = parameters, ca_result = outcome\<rparr> # cs_audit_log s\<rparr>)"

text \<open>A time value as text; \<^verbatim>\<open>NaN\<close> for a date that does not parse.\<close>

definition time_str :: "int option \<Rightarrow> string" where
  "time_str t = (case t of None \<Rightarrow> ''NaN'' | Some n \<Rightarrow> int_str n)"

text \<open>\<open>a < b\<close> for time values: false when one is \<^verbatim>\<open>NaN\<close>.\<close>

definition time_less :: "int option \<Rightarrow> int option \<Rightarrow> bool" where
  "time_less a b = (case (a, b) of (Some x, Some y) \<Rightarrow> x < y | _ \<Rightarrow> False)"

end
