(* ===== verification/Ceo_Reports.thy ===== *)
theory Ceo_Reports
  imports Ceo_Model
begin

text \<open>
  What the CEO agent reads off its state and the registry: issues, dashboard, reports, the
  workforce plan and its health (\<^verbatim>\<open>src/agents/ceo/runtime.ts\<close>).
\<close>

section \<open>Issues\<close>

definition collectAgentIssues :: "ceo_config \<Rightarrow> agent_entry list \<Rightarrow> string \<Rightarrow> string list" where
  "collectAgentIssues config agents now =
     concat (map (\<lambda>agent.
       if ae_status agent = AS_offline then
         [''[ACTION REQUIRED] Agent '' @ ae_agent_id agent @ '' is offline; last activity '' @ ae_last_activity agent]
       else if ae_status agent = AS_error then
         [''[ACTION REQUIRED] Agent '' @ ae_agent_id agent @ '' is in error state'']
       else if ae_status agent = AS_stale then
         [''Agent '' @ ae_agent_id agent @ '' has stale activity heartbeat'']
       else
         let heartbeat = mc_heartbeat_seconds (cg_monitoring config) in
         case (date_parse (ae_last_activity agent), date_parse now) of
           (Some lastSeen, Some n) \<Rightarrow>
             if n - lastSeen > heartbeat * 3 * 1000 then
               [''Agent '' @ ae_agent_id agent @ '' heartbeat is older than '' @ int_str (heartbeat * 3) @ '' seconds'']
             else []
         | _ \<Rightarrow> []) agents)"

definition collectProjectIssues :: "project_entry list \<Rightarrow> string list" where
  "collectProjectIssues projects =
     concat (map (\<lambda>project.
       if pe_lifecycle_state project \<noteq> LS_closed \<and> pe_active_agent_ids project = [] then
         [''[ACTION REQUIRED] Project '' @ pe_project_id project @ '' has no active agents assigned'']
       else []) projects)"

definition collectDelegationIssues :: "delegation list \<Rightarrow> string list" where
  "collectDelegationIssues delegations =
     concat (map (\<lambda>task.
       if dg_status task = Del_failed then
         [''[ACTION REQUIRED] Delegation '' @ dg_task_id task @ '' failed: '' @
          nullish (dg_failure_reason task) ''unknown reason'']
       else if dg_status task = Del_escalated then
         [''[ACTION REQUIRED] Delegation '' @ dg_task_id task @ '' is escalated and needs owner review'']
       else []) delegations)"

section \<open>Dashboard and report\<close>

definition count_if :: "('a \<Rightarrow> bool) \<Rightarrow> 'a list \<Rightarrow> nat" where
  "count_if p xs = length (filter p xs)"

definition buildDashboardSnapshot :: "string \<Rightarrow> approval_request list \<Rightarrow> ceo_state \<Rightarrow> company_dashboard" where
  "buildDashboardSnapshot generatedAt pendingApprovals s =
     (let agents = listAgents (cs_registry s); projects = listProjects (cs_registry s) in
      \<lparr>cd_generated_at = generatedAt, cd_agents = agents, cd_projects = projects,
       cd_kpis =
         \<lparr>kn_active_projects = count_if (\<lambda>p. pe_lifecycle_state p \<noteq> LS_closed) projects,
          kn_active_agents = count_if (\<lambda>a. ae_status a = AS_busy \<or> ae_status a = AS_idle) agents,
          kn_offline_agents = count_if (\<lambda>a. ae_status a = AS_offline) agents,
          kn_blocked_projects = count_if (\<lambda>p. pe_active_agent_ids p = []) projects,
          kn_busy_agents = count_if (\<lambda>a. ae_status a = AS_busy) agents\<rparr>,
       cd_pending_approvals = pendingApprovals,
       cd_issues = collectAgentIssues (cs_config s) agents generatedAt @ collectProjectIssues projects @
         collectDelegationIssues (cs_delegations s)\<rparr>)"

definition buildExecutiveSummary :: "company_dashboard \<Rightarrow> nat \<Rightarrow> string" where
  "buildExecutiveSummary snapshot activeDelegations =
     nat_str (kn_active_projects (cd_kpis snapshot)) @ '' active project(s), '' @
     nat_str activeDelegations @ '' active delegation(s), '' @
     nat_str (kn_offline_agents (cd_kpis snapshot)) @ '' offline agent(s), and '' @
     nat_str (length (cd_pending_approvals snapshot)) @ '' pending approval(s) as of '' @
     cd_generated_at snapshot @ ''.''"

definition buildNextActions :: "company_dashboard \<Rightarrow> delegation list \<Rightarrow> string list" where
  "buildNextActions snapshot delegations =
     (let actions =
        (if cd_pending_approvals snapshot \<noteq> [] then
           [''Review pending approvals to unblock proposal or strategic decisions.''] else []) @
        (if kn_offline_agents (cd_kpis snapshot) > 0 then
           [''Reassign or recover offline agents before client-facing deadlines slip.''] else []) @
        (if kn_blocked_projects (cd_kpis snapshot) > 0 then
           [''Assign owners to projects with no active agents.''] else []) @
        (if list_ex (\<lambda>task. dg_status task = Del_failed) delegations then
           [''Inspect failed delegations and choose between redelegation or owner escalation.''] else [])
      in if actions = [] then
           [''Maintain current execution cadence and monitor the next dashboard refresh.'']
         else actions)"

definition buildCompanyReport ::
  "string \<Rightarrow> string \<Rightarrow> string \<Rightarrow> string \<Rightarrow> approval_request list \<Rightarrow> ceo_state \<Rightarrow> company_report" where
  "buildCompanyReport report_id report_type generated_at period_label pending_approvals s =
     (let snapshot = buildDashboardSnapshot generated_at pending_approvals s;
          kpis = cd_kpis snapshot;
          activeDelegations = count_if (\<lambda>task. dg_status task = Del_delegated) (cs_delegations s)
      in \<lparr>cr_report_id = report_id, cr_report_type = report_type, cr_generated_at = generated_at,
          cr_period_label = period_label,
          cr_executive_summary = buildExecutiveSummary snapshot activeDelegations,
          cr_key_metrics =
            [(''active_projects'', kn_active_projects kpis), (''active_agents'', kn_active_agents kpis),
             (''busy_agents'', kn_busy_agents kpis), (''offline_agents'', kn_offline_agents kpis),
             (''blocked_projects'', kn_blocked_projects kpis),
             (''pending_approvals'', length (cd_pending_approvals snapshot)),
             (''active_delegations'', activeDelegations)],
          cr_active_projects = map (\<lambda>project.
            \<lparr>rp_project_id = pe_project_id project, rp_client_id = pe_client_id project,
             rp_lifecycle_state = pe_lifecycle_state project, rp_active_agents = pe_active_agent_ids project,
             rp_current_milestone = pe_current_milestone project\<rparr>)
            (filter (\<lambda>project. pe_lifecycle_state project \<noteq> LS_closed) (cd_projects snapshot)),
          cr_decisions_made = take 5 (cs_decisions s),
          cr_issues_and_risks = cd_issues snapshot,
          cr_next_actions = buildNextActions snapshot (cs_delegations s)\<rparr>)"

section \<open>Text\<close>

definition join_lines :: "string list \<Rightarrow> string" where
  "join_lines ls = js_join [CHR 0x0A] ls"

text \<open>The lines, or one line that says there are none.\<close>

definition lines_or :: "string list \<Rightarrow> string \<Rightarrow> string" where
  "lines_or ls none = (if ls = [] then none else join_lines ls)"

definition serializeCompanyReport :: "company_report \<Rightarrow> string" where
  "serializeCompanyReport report =
     join_lines
       [''# Company Report'', [], ''## Executive Summary'', cr_executive_summary report, [], ''## Key Metrics'',
        join_lines (map (\<lambda>(key, v). ''- '' @ key @ '': '' @ nat_str v) (cr_key_metrics report)),
        [], ''## Active Projects'',
        lines_or (map (\<lambda>project. ''- '' @ rp_project_id project @ '' ('' @ rp_client_id project @ '') - '' @
          lifecycle_str (rp_lifecycle_state project) @ '' / '' @ rp_current_milestone project)
          (cr_active_projects report)) ''- None'',
        [], ''## Decisions Made'',
        lines_or (map (\<lambda>decision. ''- '' @ dn_decision_id decision @ '': '' @ dn_chosen_option decision)
          (cr_decisions_made report)) ''- None'',
        [], ''## Issues & Risks'', lines_or (bullets (cr_issues_and_risks report)) ''- None'',
        [], ''## Next Actions'', join_lines (bullets (cr_next_actions report))]"

definition serializeStatusResponse :: "company_dashboard \<Rightarrow> string" where
  "serializeStatusResponse snapshot =
     (let kpis = cd_kpis snapshot in
      join_lines
        [''# Company Status'', [], ''Generated: '' @ cd_generated_at snapshot, [], ''## KPI'',
         ''- active_projects: '' @ nat_str (kn_active_projects kpis),
         ''- active_agents: '' @ nat_str (kn_active_agents kpis),
         ''- busy_agents: '' @ nat_str (kn_busy_agents kpis),
         ''- offline_agents: '' @ nat_str (kn_offline_agents kpis),
         ''- blocked_projects: '' @ nat_str (kn_blocked_projects kpis),
         [], ''## Attention Needed'',
         lines_or (bullets (cd_issues snapshot)) ''- No active operational issues.''])"

definition getDirectiveLog :: "js_number \<Rightarrow> ceo_state \<Rightarrow> stored_directive list" where
  "getDirectiveLog limit s = slice_to limit (cs_directives s)"

definition listDirectiveHistory :: "js_number \<Rightarrow> ceo_state \<Rightarrow> owner_command list" where
  "listDirectiveHistory limit s = slice_to limit (List.map_filter sd_command (cs_directives s))"

definition serializeHistoryResponse :: "js_number \<Rightarrow> ceo_state \<Rightarrow> string" where
  "serializeHistoryResponse limit s =
     (let lines = map (\<lambda>directive. ''- '' @ sd_received_at directive @ '' ['' @
            directive_status_str (sd_status directive) @ ''] '' @ sd_raw_input directive) (getDirectiveLog limit s)
      in join_lines ([''# Directive History'', []] @
           (if lines \<noteq> [] then lines else [''- No directives recorded.''])))"

definition serializeClarification :: "clarification_prompt \<Rightarrow> string" where
  "serializeClarification clarification =
     join_lines ([''# Clarification Required'', [], cq_reason clarification, []] @
       map (\<lambda>(index, question). nat_str (index + 1) @ ''. '' @ question) (enumerate 0 (cq_questions clarification)))"

section \<open>Workforce\<close>

definition agent_type_of :: "string \<Rightarrow> agent_type option" where
  "agent_type_of s =
     find (\<lambda>t. agent_type_str t = s)
       [Ceo_agent, Sales_agent, Marketing_agent, Product_agent, Engineering_agent, Project_manager_agent, Support_agent]"

fun requiredAgentsForLifecycle :: "lifecycle_state \<Rightarrow> agent_type list" where
  "requiredAgentsForLifecycle LS_lead = [Sales_agent]"
| "requiredAgentsForLifecycle LS_qualified = [Sales_agent]"
| "requiredAgentsForLifecycle LS_proposal = [Sales_agent]"
| "requiredAgentsForLifecycle LS_won = [Product_agent, Project_manager_agent]"
| "requiredAgentsForLifecycle LS_discovery = [Product_agent, Project_manager_agent]"
| "requiredAgentsForLifecycle LS_implementation = [Engineering_agent, Project_manager_agent]"
| "requiredAgentsForLifecycle LS_qa = [Engineering_agent, Project_manager_agent]"
| "requiredAgentsForLifecycle LS_delivered = [Support_agent]"
| "requiredAgentsForLifecycle LS_support = [Support_agent]"
| "requiredAgentsForLifecycle LS_closed = []"

definition recommendation_key :: "workforce_recommendation \<Rightarrow> string" where
  "recommendation_key item =
     agent_type_str (wr_agent_type item) @ '':'' @ nullish (wr_project_id item) ''-'' @ '':'' @ wr_reason item"

definition merge_recommendation ::
  "(string, workforce_recommendation) js_map \<Rightarrow> workforce_recommendation \<Rightarrow> (string, workforce_recommendation) js_map" where
  "merge_recommendation merged item =
     (case jm_get merged (recommendation_key item) of
        None \<Rightarrow> jm_set merged (recommendation_key item) item
      | Some existing \<Rightarrow>
          jm_set merged (recommendation_key item) (existing\<lparr>wr_quantity := wr_quantity existing + wr_quantity item\<rparr>))"

definition dedupeRecommendations :: "workforce_recommendation list \<Rightarrow> workforce_recommendation list" where
  "dedupeRecommendations recommendations = jm_values (foldl merge_recommendation [] recommendations)"

text \<open>An agent that could work on the project: neither offline nor in error, and not elsewhere.\<close>

definition eligible :: "agent_type \<Rightarrow> string \<Rightarrow> agent_entry \<Rightarrow> bool" where
  "eligible agentType projectId agent \<longleftrightarrow>
     ae_agent_type agent = agentType \<and> ae_status agent \<noteq> AS_offline \<and> ae_status agent \<noteq> AS_error \<and>
     (ae_current_project_id agent = None \<or> ae_current_project_id agent = Some projectId)"

definition missing_role :: "agent_entry list \<Rightarrow> project_entry \<Rightarrow> agent_type \<Rightarrow> workforce_recommendation list" where
  "missing_role agents project agentType =
     (if filter (eligible agentType (pe_project_id project)) agents = [] then
        [\<lparr>wr_agent_type = agentType, wr_quantity = 1,
          wr_reason = ''Project '' @ pe_project_id project @ '' ('' @ lifecycle_str (pe_lifecycle_state project) @
            '') membutuhkan '' @ agent_type_str agentType @ '' aktif.'',
          wr_project_id = Some (pe_project_id project),
          wr_urgency = (if pe_active_agent_ids project = [] then Level_critical else Level_high)\<rparr>]
      else [])"

definition down :: "agent_entry \<Rightarrow> bool" where
  "down agent \<longleftrightarrow> ae_status agent = AS_offline \<or> ae_status agent = AS_error"

definition replacement :: "agent_entry \<Rightarrow> workforce_recommendation" where
  "replacement agent =
     \<lparr>wr_agent_type = ae_agent_type agent, wr_quantity = 1,
      wr_reason = ''Agent '' @ ae_agent_id agent @ '' sedang '' @ agent_status_str (ae_status agent) @
        ''; perlu pengganti untuk menjaga operasional.'',
      wr_project_id = ae_current_project_id agent, wr_urgency = Level_high\<rparr>"

definition busy_counts :: "agent_entry list \<Rightarrow> (agent_type, nat) js_map" where
  "busy_counts agents =
     foldl (\<lambda>m agent. jm_set m (ae_agent_type agent) (nullish (jm_get m (ae_agent_type agent)) 0 + 1)) []
       (filter (\<lambda>agent. ae_status agent = AS_busy) agents)"

definition all_busy :: "agent_entry list \<Rightarrow> agent_type \<times> nat \<Rightarrow> workforce_recommendation list" where
  "all_busy agents x =
     (let (agentType, n) = x;
          idleCount = count_if (\<lambda>agent. ae_agent_type agent = agentType \<and> ae_status agent = AS_idle) agents
      in if n \<ge> 2 \<and> idleCount = 0 then
           [\<lparr>wr_agent_type = agentType, wr_quantity = 1,
             wr_reason = ''Semua '' @ agent_type_str agentType @ '' sedang sibuk ('' @ nat_str n @
               '' busy, 0 idle). Tambahan kapasitas disarankan.'',
             wr_project_id = None, wr_urgency = Level_medium\<rparr>]
         else [])"

definition buildWorkforcePlan :: "string \<Rightarrow> string option \<Rightarrow> ceo_state \<Rightarrow> workforce_plan" where
  "buildWorkforcePlan now scopedProjectId s =
     (let agents = listAgents (cs_registry s);
          scoped = nullish scopedProjectId [];
          projects = filter (\<lambda>p. scoped = [] \<or> pe_project_id p = scoped) (listProjects (cs_registry s))
      in \<lparr>wp_generated_at = now,
          wp_objective =
            (if scoped \<noteq> [] then ''Analisis kebutuhan agent untuk '' @ scoped
             else ''Analisis kebutuhan agent lintas organisasi''),
          wp_active_projects = count_if (\<lambda>p. pe_lifecycle_state p \<noteq> LS_closed) projects,
          wp_active_agents = count_if (\<lambda>a. ae_status a = AS_busy \<or> ae_status a = AS_idle) agents,
          wp_blocked_projects = map pe_project_id
            (filter (\<lambda>p. pe_lifecycle_state p \<noteq> LS_closed \<and> pe_active_agent_ids p = []) projects),
          wp_offline_agents = map ae_agent_id (filter down agents),
          wp_recommendations = dedupeRecommendations
            (concat (map (\<lambda>p. concat (map (missing_role agents p)
               (requiredAgentsForLifecycle (pe_lifecycle_state p)))) projects) @
             map replacement (filter down agents) @
             concat (map (all_busy agents) (busy_counts agents)))\<rparr>)"

definition serializeWorkforcePlan :: "workforce_plan \<Rightarrow> string" where
  "serializeWorkforcePlan plan =
     join_lines
       [''# Workforce Plan'', [], ''Generated: '' @ wp_generated_at plan, ''Objective: '' @ wp_objective plan, [],
        ''## Overview'', ''- active_projects: '' @ nat_str (wp_active_projects plan),
        ''- active_agents: '' @ nat_str (wp_active_agents plan), [], ''## Blocked Projects'',
        lines_or (bullets (wp_blocked_projects plan)) ''- None'', [], ''## Offline Agents'',
        lines_or (bullets (wp_offline_agents plan)) ''- None'', [], ''## Recommendations'',
        lines_or (map (\<lambda>item. ''- '' @ agent_type_str (wr_agent_type item) @ '' x'' @ nat_str (wr_quantity item) @
          (if nullish (wr_project_id item) [] \<noteq> [] then '' ['' @ nullish (wr_project_id item) [] @ '']'' else []) @
          '' ('' @ priority_level_str (wr_urgency item) @ '') -> '' @ wr_reason item) (wp_recommendations plan))
          ''- Tidak ada kebutuhan agent baru yang mendesak.'']"

definition serializeProvisioningResult ::
  "agent_entry list \<Rightarrow> agent_type \<Rightarrow> string option \<Rightarrow> string \<Rightarrow> string" where
  "serializeProvisioningResult created agentType projectId now =
     (let lines = map (\<lambda>agent. ''- '' @ ae_agent_id agent @ '' ('' @ agent_status_str (ae_status agent) @ '')'' @
            (if nullish (ae_current_project_id agent) [] \<noteq> [] then '' -> '' @ nullish (ae_current_project_id agent) []
             else [])) created
      in join_lines
        ([''# Staffing Provisioned'', [], ''Generated: '' @ now, ''Agent Type: '' @ agent_type_str agentType,
          ''Count: '' @ nat_str (length created), ''Project: '' @ nullish projectId ''-'', [], ''## Created Agents''] @
         (if lines \<noteq> [] then lines else [''- None''])))"

section \<open>Health\<close>

definition isLocked :: "string \<Rightarrow> ceo_state \<Rightarrow> bool" where
  "isLocked now s \<longleftrightarrow>
     (case cs_access_lock_until s of
        None \<Rightarrow> False
      | Some until \<Rightarrow> time_less (date_parse now) (date_parse until))"

definition hasOperationalDegradation :: "ceo_state \<Rightarrow> bool" where
  "hasOperationalDegradation s \<longleftrightarrow>
     list_ex down (listAgents (cs_registry s)) \<or>
     list_ex (\<lambda>task. dg_status task = Del_failed \<or> dg_status task = Del_escalated) (cs_delegations s)"

definition getHealthStatus :: "string \<Rightarrow> ceo_state \<Rightarrow> ceo_health" where
  "getHealthStatus now s =
     \<lparr>hl_status =
        (if cs_lifecycle s = Ceo_shutdown then Hl_stopped
         else if isLocked now s then Hl_locked
         else if cs_lifecycle s = Ceo_recovering then Hl_recovering
         else if hasOperationalDegradation s then Hl_degraded
         else if cs_lifecycle s = Ceo_startup then Hl_starting
         else Hl_ready),
      hl_uptime_seconds =
        (case (date_parse now, date_parse (cs_started_at s)) of
           (Some n, Some t) \<Rightarrow> Some (max 0 ((n - t) div 1000))
         | _ \<Rightarrow> None),
      hl_active_tasks = count_if (\<lambda>task. dg_status task = Del_draft \<or> dg_status task = Del_delegated) (cs_delegations s),
      hl_last_activity = cs_last_activity s\<rparr>"

definition getMonitoringCadenceMinutes :: "ceo_state \<Rightarrow> int" where
  "getMonitoringCadenceMinutes s =
     (if count_if (\<lambda>p. pe_lifecycle_state p \<noteq> LS_closed) (listProjects (cs_registry s)) > 0
      then mc_active_project_interval (cg_monitoring (cs_config s))
      else mc_idle_interval (cg_monitoring (cs_config s)))"

definition getReadinessStatus :: "string \<Rightarrow> ceo_state \<Rightarrow> ceo_readiness" where
  "getReadinessStatus now s =
     (let health = getHealthStatus now s in
      \<lparr>rd_health = health, rd_ready = (hl_status health = Hl_ready \<or> hl_status health = Hl_degraded),
       rd_registry_connected = True, rd_recovery_loaded = cs_recovery_loaded s, rd_lock_active = isLocked now s,
       rd_monitoring_cadence = getMonitoringCadenceMinutes s\<rparr>)"

section \<open>What the helpers leave alone\<close>

lemma ceo_audit_fields [simp]:
  "cs_agent_id (ceo_audit clk a b c d e s) = cs_agent_id s"
  "cs_decisions (ceo_audit clk a b c d e s) = cs_decisions s"
  "cs_delegations (ceo_audit clk a b c d e s) = cs_delegations s"
  "cs_directives (ceo_audit clk a b c d e s) = cs_directives s"
  "cs_broadcasts (ceo_audit clk a b c d e s) = cs_broadcasts s"
  "cs_failed_auth_attempts (ceo_audit clk a b c d e s) = cs_failed_auth_attempts s"
  "cs_config (ceo_audit clk a b c d e s) = cs_config s"
  "cs_lifecycle (ceo_audit clk a b c d e s) = cs_lifecycle s"
  "cs_access_lock_until (ceo_audit clk a b c d e s) = cs_access_lock_until s"
  "reg_agents (cs_registry (ceo_audit clk a b c d e s)) = reg_agents (cs_registry s)"
  "reg_projects (cs_registry (ceo_audit clk a b c d e s)) = reg_projects (cs_registry s)"
  "isLocked t (ceo_audit clk a b c d e s) = isLocked t s"
  by (simp_all add: ceo_audit_def read_clock_def isLocked_def)

lemma touch_fields [simp]:
  "cs_agent_id (touch t s) = cs_agent_id s"
  "cs_decisions (touch t s) = cs_decisions s"
  "cs_delegations (touch t s) = cs_delegations s"
  "cs_directives (touch t s) = cs_directives s"
  "cs_broadcasts (touch t s) = cs_broadcasts s"
  "cs_failed_auth_attempts (touch t s) = cs_failed_auth_attempts s"
  "cs_config (touch t s) = cs_config s"
  "cs_lifecycle (touch t s) = cs_lifecycle s"
  "cs_access_lock_until (touch t s) = cs_access_lock_until s"
  "cs_registry (touch t s) = cs_registry s"
  "isLocked u (touch t s) = isLocked u s"
  by (simp_all add: touch_def isLocked_def)

end
