(* ===== verification/Ceo_Runtime.thy ===== *)
theory Ceo_Runtime
  imports Ceo_Reports
begin

text \<open>
  The operations of the class \<^verbatim>\<open>CeoRuntime\<close>
  (\<^verbatim>\<open>src/agents/ceo/runtime.ts\<close>) that change its state: the runtime's own life, the
  owner's access, directives, delegations, broadcasts and the provision of agents. An optional
  time of a method is given by its caller. The number at the end of an agent's id is exact, so
  ids with numbers beyond \<open>2 ^ 53\<close> are out of the model.
\<close>

section \<open>The runtime\<close>

definition exportState :: "ceo_state \<Rightarrow> ceo_snapshot" where
  "exportState s =
     \<lparr>cx_directives = cs_directives s, cx_decisions = cs_decisions s, cx_delegations = cs_delegations s,
      cx_broadcasts = cs_broadcasts s, cx_audit_log = cs_audit_log s,
      cx_config = mergeConfig defaultCeoRuntimeConfig (whole_config (cs_config s)),
      cx_last_activity = cs_last_activity s\<rparr>"

definition loadState :: "ceo_snapshot \<Rightarrow> ceo_state \<Rightarrow> ceo_state" where
  "loadState x s =
     s\<lparr>cs_directives := cs_directives s @ cx_directives x, cs_decisions := cs_decisions s @ cx_decisions x,
       cs_delegations := cs_delegations s @ cx_delegations x, cs_broadcasts := cs_broadcasts s @ cx_broadcasts x,
       cs_audit_log := cs_audit_log s @ cx_audit_log x,
       cs_config := mergeConfig defaultCeoRuntimeConfig (whole_config (cx_config x)),
       cs_last_activity := cx_last_activity x, cs_recovery_loaded := True\<rparr>"

text \<open>The constructor.\<close>

definition newCeoRuntime ::
  "clock \<Rightarrow> registry \<Rightarrow> string \<Rightarrow> ceo_config_update \<Rightarrow> ceo_snapshot option \<Rightarrow> string \<Rightarrow> ceo_state" where
  "newCeoRuntime clk registry ceoAgentId config recoveredState now =
     (let s = \<lparr>cs_registry = registry, cs_agent_id = ceoAgentId, cs_decisions = [], cs_delegations = [],
            cs_directives = [], cs_broadcasts = [], cs_audit_log = [], cs_failed_auth_attempts = [],
            cs_config = mergeConfig defaultCeoRuntimeConfig config,
            cs_lifecycle = (if recoveredState \<noteq> None then Ceo_recovering else Ceo_startup),
            cs_recovery_loaded = False, cs_started_at = now, cs_last_activity = now,
            cs_access_lock_until = None\<rparr>;
          s = (case recoveredState of None \<Rightarrow> s | Some x \<Rightarrow> loadState x s);
          s = touch now (s\<lparr>cs_lifecycle := Ceo_running\<rparr>)
      in ceo_audit clk ''startup'' ceoAgentId ''runtime''
           (Params_fields [(''recovered'', JBool (cs_recovery_loaded s))]) ''ok'' s)"

definition updateRuntimeConfig :: "clock \<Rightarrow> ceo_config_update \<Rightarrow> string \<Rightarrow> ceo_state \<Rightarrow> ceo_state" where
  "updateRuntimeConfig clk updates now s =
     ceo_audit clk ''config_updated'' (cs_agent_id s) ''runtime_config'' (Params_config updates) ''ok''
       (touch now (s\<lparr>cs_config := mergeConfig (cs_config s) updates\<rparr>))"

definition startup :: "clock \<Rightarrow> string \<Rightarrow> ceo_state \<Rightarrow> ceo_state" where
  "startup clk now s =
     ceo_audit clk ''startup'' (cs_agent_id s) ''runtime'' (Params_fields [(''mode'', JStr ''manual'')]) ''ok''
       (touch now (s\<lparr>cs_lifecycle := Ceo_running, cs_started_at := now\<rparr>))"

definition shutdown :: "clock \<Rightarrow> string \<Rightarrow> ceo_state \<Rightarrow> ceo_snapshot \<times> ceo_state" where
  "shutdown clk now s =
     (let s = ceo_audit clk ''shutdown'' (cs_agent_id s) ''runtime'' (Params_fields []) ''ok''
            (touch now (s\<lparr>cs_lifecycle := Ceo_shutdown\<rparr>))
      in (exportState s, s))"

definition ceo_heartbeat :: "clock \<Rightarrow> string \<Rightarrow> ceo_state \<Rightarrow> ceo_state" where
  "ceo_heartbeat clk now s =
     ceo_audit clk ''heartbeat'' (cs_agent_id s) ''runtime'' (Params_fields []) ''ok'' (touch now s)"

definition recordDecision :: "clock \<Rightarrow> strategic_decision \<Rightarrow> ceo_state \<Rightarrow> ceo_state" where
  "recordDecision clk decision s =
     ceo_audit clk ''decision_recorded'' (cs_agent_id s) (dn_decision_id decision)
       (Params_fields [(''category'', JStr (decision_category_str (dn_category decision)))]) ''ok''
       (touch (dn_timestamp decision) (s\<lparr>cs_decisions := decision # cs_decisions s\<rparr>))"

section \<open>The owner's access\<close>

record owner_identity =
  oi_actor_id :: string
  oi_token_id :: "string option"
  oi_authenticated :: bool

datatype auth_result = Auth_allowed | Auth_denied string "string option"

definition token_allowed :: "owner_auth_config \<Rightarrow> string option \<Rightarrow> bool" where
  "token_allowed c token \<longleftrightarrow>
     oa_allowed_token_ids c = [] \<or> (case token of None \<Rightarrow> False | Some t \<Rightarrow> t \<in> set (oa_allowed_token_ids c))"

definition genuine_owner :: "owner_auth_config \<Rightarrow> owner_identity \<Rightarrow> bool" where
  "genuine_owner c identity \<longleftrightarrow>
     oi_authenticated identity \<and> oi_actor_id identity = oa_owner_id c \<and> token_allowed c (oi_token_id identity)"

text \<open>The oldest attempts, at the end, are dropped up to the first one in the window.\<close>

definition pruneFailedAuthAttempts :: "string \<Rightarrow> int \<Rightarrow> string list \<Rightarrow> string list" where
  "pruneFailedAuthAttempts now window attempts =
     rev (dropWhile (\<lambda>oldest. \<not>
       (case (date_parse oldest, date_parse now) of
          (Some t, Some n) \<Rightarrow> t \<ge> n - window * 1000
        | _ \<Rightarrow> False)) (rev attempts))"

text \<open>The end of a lock may not be a date, which throws after the attempt was counted.\<close>

definition validateOwnerIdentity ::
  "clock \<Rightarrow> owner_identity \<Rightarrow> string \<Rightarrow> ceo_state \<Rightarrow> auth_result outcome \<times> ceo_state" where
  "validateOwnerIdentity clk identity now s =
     (let c = cg_owner_auth (cs_config s); actor = oi_actor_id identity in
      if isLocked now s then
        (Inr (Auth_denied (''CEO access is temporarily locked until '' @ nullish (cs_access_lock_until s) [])
           (cs_access_lock_until s)),
         ceo_audit clk ''owner_auth_denied'' actor ''runtime'' (Params_fields []) ''locked'' s)
      else if genuine_owner c identity then
        (Inr Auth_allowed,
         ceo_audit clk ''owner_auth_granted'' actor ''runtime'' (Params_fields []) ''ok'' (touch now s))
      else
        let s = s\<lparr>cs_failed_auth_attempts :=
              pruneFailedAuthAttempts now (oa_failed_attempt_window c) (now # cs_failed_auth_attempts s)\<rparr>;
            denied = (\<lambda>s. Inr (Auth_denied ''Sender is not an authenticated owner.'' (cs_access_lock_until s)))
        in if int (length (cs_failed_auth_attempts s)) \<ge> oa_failed_attempt_threshold c then
             (case to_iso_string (map_option (\<lambda>n. n + oa_temporary_lock_minutes c * 60 * 1000) (date_parse now)) of
                Inl e \<Rightarrow> (Inl e, s)
              | Inr until \<Rightarrow>
                  let s = ceo_audit clk ''owner_auth_locked'' actor ''runtime'' (Params_fields []) until
                        (s\<lparr>cs_access_lock_until := Some until\<rparr>)
                  in (denied s, s))
           else
             let s = ceo_audit clk ''owner_auth_denied'' actor ''runtime'' (Params_fields []) ''invalid_identity'' s
             in (denied s, s))"

section \<open>Directives\<close>

definition buildDirectiveId :: "string \<Rightarrow> ceo_state \<Rightarrow> string" where
  "buildDirectiveId timestamp s =
     ''directive-'' @ time_str (date_parse timestamp) @ ''-'' @ nat_str (length (cs_directives s) + 1)"

definition storeDirective :: "clock \<Rightarrow> stored_directive \<Rightarrow> ceo_state \<Rightarrow> stored_directive \<times> ceo_state" where
  "storeDirective clk directive s =
     (directive,
      ceo_audit clk ''directive_recorded'' (cs_agent_id s) (sd_directive_id directive)
        (Params_fields [(''status'', JStr (directive_status_str (sd_status directive)))]) (sd_summary directive)
        (touch (sd_received_at directive) (s\<lparr>cs_directives := directive # cs_directives s\<rparr>)))"

definition recordDirective ::
  "clock \<Rightarrow> owner_command \<Rightarrow> directive_status \<Rightarrow> string \<Rightarrow> ceo_state \<Rightarrow> stored_directive \<times> ceo_state" where
  "recordDirective clk command status receivedAt s =
     storeDirective clk
       \<lparr>sd_directive_id = buildDirectiveId receivedAt s, sd_status = status, sd_received_at = receivedAt,
        sd_command = Some command, sd_raw_input = oc_raw_input command,
        sd_summary = command_type_str (oc_command_type command) @ '' command accepted''\<rparr> s"

fun modify_first :: "('a \<Rightarrow> bool) \<Rightarrow> ('a \<Rightarrow> 'a) \<Rightarrow> 'a list \<Rightarrow> 'a list" where
  "modify_first p f [] = []"
| "modify_first p f (x # xs) = (if p x then f x # xs else x # modify_first p f xs)"

text \<open>The activity is stamped with a reading of the clock.\<close>

definition updateDirectiveStatus :: "clock \<Rightarrow> string \<Rightarrow> directive_status \<Rightarrow> ceo_state \<Rightarrow> ceo_state" where
  "updateDirectiveStatus clk directiveId status s =
     (if list_ex (\<lambda>d. sd_directive_id d = directiveId) (cs_directives s) then
        let s = s\<lparr>cs_directives :=
              modify_first (\<lambda>d. sd_directive_id d = directiveId) (\<lambda>d. d\<lparr>sd_status := status\<rparr>) (cs_directives s)\<rparr>;
            (now, r) = read_clock clk (cs_registry s)
        in ceo_audit clk ''directive_status_updated'' (cs_agent_id s) directiveId
             (Params_fields [(''status'', JStr (directive_status_str status))]) ''ok''
             (touch now (s\<lparr>cs_registry := r\<rparr>))
      else s)"

section \<open>Provision of agents\<close>

fun js_replace_first :: "string \<Rightarrow> string \<Rightarrow> string \<Rightarrow> string" where
  "js_replace_first pat rep [] = (if pat = [] then rep else [])"
| "js_replace_first pat rep (c # s) =
     (if prefix pat (c # s) then rep @ drop (length pat) (c # s) else c # js_replace_first pat rep s)"

text \<open>\<open>/-(\d+)$/\<close>.\<close>

definition id_number_rx :: regex where
  "id_number_rx = rx_list [Rx_text ''-'', Rx_group 1 (Rx_many rx_digit 1), Rx_end]"

definition id_number :: "string \<Rightarrow> nat" where
  "id_number agentId =
     (case rx_search id_number_rx agentId of
        None \<Rightarrow> 0
      | Some c \<Rightarrow> (case number_of_text (nullish (c 1) []) of JFinite q \<Rightarrow> nat \<lfloor>q\<rfloor> | _ \<Rightarrow> 0))"

definition buildProvisionedAgentId :: "agent_type \<Rightarrow> registry \<Rightarrow> string" where
  "buildProvisionedAgentId agentType r =
     (let next = foldl max 0 (map (id_number \<circ> ae_agent_id)
            (filter (\<lambda>agent. ae_agent_type agent = agentType) (listAgents r))) + 1
      in js_replace_first ''_agent'' [] (agent_type_str agentType) @ ''-'' @ nat_str next)"

fun provision_loop ::
  "clock \<Rightarrow> agent_type \<Rightarrow> string option \<Rightarrow> string \<Rightarrow> nat \<Rightarrow> registry \<Rightarrow> agent_entry list \<times> registry" where
  "provision_loop clk agentType projectId now 0 r = ([], r)"
| "provision_loop clk agentType projectId now (Suc n) r =
     (let entry = \<lparr>ae_agent_id = buildProvisionedAgentId agentType r, ae_agent_type = agentType,
            ae_status = AS_idle, ae_current_project_id = projectId, ae_last_activity = now\<rparr>;
          (created, r) = provision_loop clk agentType projectId now n (registerAgent clk entry r)
      in (entry # created, r))"

definition assign_created ::
  "clock \<Rightarrow> string option \<Rightarrow> string \<Rightarrow> agent_entry list \<Rightarrow> registry \<Rightarrow> registry" where
  "assign_created clk projectId now created r =
     (if nullish projectId [] = [] then r
      else
        case getProject r (nullish projectId []) of
          None \<Rightarrow> r
        | Some project \<Rightarrow>
            (case updateProject clk (nullish projectId [])
               [Upd_active_agent_ids (js_set (pe_active_agent_ids project @ map ae_agent_id created)),
                Upd_updated_at now] r of
               Inl _ \<Rightarrow> r
             | Inr r \<Rightarrow> r))"

definition provisionAgents ::
  "clock \<Rightarrow> agent_type \<Rightarrow> int \<Rightarrow> string option \<Rightarrow> string \<Rightarrow> ceo_state \<Rightarrow> agent_entry list \<times> ceo_state" where
  "provisionAgents clk agentType requested projectId now s =
     (let number = max 1 (min 10 requested);
          (created, r) = provision_loop clk agentType projectId now (nat number) (cs_registry s);
          s = touch now (s\<lparr>cs_registry := assign_created clk projectId now created r\<rparr>)
      in (created,
          ceo_audit clk ''staffing_provisioned'' (cs_agent_id s) (nullish projectId ''runtime'')
            (Params_fields [(''agent_type'', JStr (agent_type_str agentType)), (''count'', JNum number),
               (''created_agent_ids'', JArr (map (JStr \<circ> ae_agent_id) created))]) ''ok'' s))"

section \<open>Commands\<close>

fun normalizeProvisionCount :: "count_value \<Rightarrow> int" where
  "normalizeProvisionCount (Count_number n) =
     (case n of JFinite q \<Rightarrow> max 1 (min 10 \<lfloor>q\<rfloor>) | _ \<Rightarrow> 1)"
| "normalizeProvisionCount (Count_text s) =
     (if js_trim s = [] then 1
      else case number_of_text s of JFinite q \<Rightarrow> max 1 (min 10 \<lfloor>q\<rfloor>) | _ \<Rightarrow> 1)"
| "normalizeProvisionCount Count_other = 1"

definition readOptionalParameterString :: "string option \<Rightarrow> string option" where
  "readOptionalParameterString v =
     (case v of None \<Rightarrow> None | Some t \<Rightarrow> if js_trim t = [] then None else Some (js_trim t))"

definition runOwnerCommand :: "clock \<Rightarrow> owner_command \<Rightarrow> string \<Rightarrow> ceo_state \<Rightarrow> string \<times> ceo_state" where
  "runOwnerCommand clk command now s =
     (let p = oc_parameters command; action = nullish (cp_action p) ''unknown'' in
      case oc_command_type command of
        Cmd_activity \<Rightarrow>
          (''Activity command accepted. Runtime application layer should summarize current activity.'', s)
      | Cmd_status \<Rightarrow> (serializeStatusResponse (buildDashboardSnapshot now [] s), s)
      | Cmd_history \<Rightarrow> (serializeHistoryResponse (nullish (cp_last p) (JFinite 10)) s, s)
      | Cmd_report \<Rightarrow>
          (serializeCompanyReport
             (buildCompanyReport (''report-'' @ time_str (date_parse now)) (nullish (cp_type p) ''daily'') now
               (nullish (cp_period p) (take 10 now)) [] s), s)
      | Cmd_decisions \<Rightarrow>
          (str_or (join_lines (map (\<lambda>decision. ''- '' @ dn_decision_id decision @ '': '' @ dn_chosen_option decision)
             (take 5 (cs_decisions s)))) ''- No decisions recorded.'', s)
      | Cmd_runbook \<Rightarrow>
          (''Runbook command accepted for action='' @ action @ ''. Runtime application layer should execute it.'', s)
      | Cmd_workspace \<Rightarrow>
          (''Workspace command accepted for action='' @ action @ ''. Runtime application layer should execute it.'', s)
      | Cmd_staffing \<Rightarrow>
          if nullish (cp_action p) ''assess'' = ''provision'' then
            (case Option.bind (cp_agent_type p) agent_type_of of
               None \<Rightarrow> (''Staffing provision failed: agent_type is missing or invalid.'', s)
             | Some agentType \<Rightarrow>
                 let projectId = readOptionalParameterString (cp_project_id p);
                     (created, s) = provisionAgents clk agentType (normalizeProvisionCount (cp_count p)) projectId now s
                 in (serializeProvisioningResult created agentType projectId now, s))
          else
            (serializeWorkforcePlan (buildWorkforcePlan now (readOptionalParameterString (cp_project_id p)) s), s)
      | Cmd_project_admin \<Rightarrow>
          (''Project administration command accepted for action='' @ action @
           ''. Runtime application layer should execute it.'', s)
      | Cmd_delegate \<Rightarrow>
          (''Delegation command parsed successfully. Use createDelegationTask to dispatch work.'', s))"

record directive_result =
  dr_ok :: bool
  dr_directive :: "stored_directive option"
  dr_response :: string
  dr_clarification :: "clarification_prompt option"

definition executeOwnerDirective ::
  "clock \<Rightarrow> string \<Rightarrow> owner_identity \<Rightarrow> parse_mode \<Rightarrow> string \<Rightarrow> ceo_state \<Rightarrow> directive_result outcome \<times> ceo_state" where
  "executeOwnerDirective clk rawInput actor mode now s =
     (case validateOwnerIdentity clk actor now s of
        (Inl e, s) \<Rightarrow> (Inl e, s)
      | (Inr (Auth_denied reason locked_until), s) \<Rightarrow>
          let (directive, s) = storeDirective clk
                \<lparr>sd_directive_id = buildDirectiveId now s, sd_status = Dir_rejected, sd_received_at = now,
                 sd_command = None, sd_raw_input = rawInput, sd_summary = reason\<rparr> s
          in (Inr \<lparr>dr_ok = False, dr_directive = Some directive, dr_response = ''Access denied: '' @ reason,
                dr_clarification = None\<rparr>, s)
      | (Inr Auth_allowed, s) \<Rightarrow>
          (case parseOwnerCommand rawInput mode now of
             Directive_unclear m clarification \<Rightarrow>
               let (directive, s) = storeDirective clk
                     \<lparr>sd_directive_id = buildDirectiveId now s, sd_status = Dir_clarification_required,
                      sd_received_at = now, sd_command = None, sd_raw_input = rawInput,
                      sd_summary = cq_reason clarification\<rparr> s
               in (Inr \<lparr>dr_ok = False, dr_directive = Some directive,
                     dr_response = serializeClarification clarification, dr_clarification = Some clarification\<rparr>, s)
           | Directive_parsed m command \<Rightarrow>
               let (directive, s) = recordDirective clk command Dir_executing now s;
                   (response, s) = runOwnerCommand clk command now s;
                   s = updateDirectiveStatus clk (sd_directive_id directive) Dir_completed s
               in (Inr \<lparr>dr_ok = True,
                     dr_directive = find (\<lambda>d. sd_directive_id d = sd_directive_id directive)
                       (getDirectiveLog (JFinite 10) s),
                     dr_response = response, dr_clarification = None\<rparr>, s)))"

section \<open>Directives leave the rest alone\<close>

definition guarded :: "ceo_state \<Rightarrow> (string, agent_entry) js_map \<times> (string, project_entry) js_map \<times> strategic_decision list \<times>
    delegation list \<times> broadcast list \<times> ceo_config \<times> ceo_lifecycle" where
  "guarded s = (reg_agents (cs_registry s), reg_projects (cs_registry s), cs_decisions s, cs_delegations s,
     cs_broadcasts s, cs_config s, cs_lifecycle s)"

lemma guarded_audit [simp]: "guarded (ceo_audit clk a b c d e s) = guarded s"
  by (simp add: guarded_def)

lemma guarded_touch [simp]: "guarded (touch t s) = guarded s"
  by (simp add: guarded_def)

lemma guarded_validate [simp]: "guarded (snd (validateOwnerIdentity clk i now s)) = guarded s"
  by (auto simp: validateOwnerIdentity_def Let_def guarded_def split: sum.splits)

lemma directives_validate [simp]: "cs_directives (snd (validateOwnerIdentity clk i now s)) = cs_directives s"
  by (auto simp: validateOwnerIdentity_def Let_def split: sum.splits)

lemma guarded_store [simp]: "guarded (snd (storeDirective clk d s)) = guarded s"
  by (simp add: storeDirective_def) (simp add: guarded_def)

lemma guarded_status [simp]: "guarded (updateDirectiveStatus clk d st s) = guarded s"
  by (simp add: updateDirectiveStatus_def Let_def read_clock_def) (simp add: guarded_def)

lemma directives_status:
  "cs_directives (updateDirectiveStatus clk i st s) =
   modify_first (\<lambda>d. sd_directive_id d = i) (\<lambda>d. d\<lparr>sd_status := st\<rparr>) (cs_directives s)"
proof -
  have "\<not> list_ex p xs \<Longrightarrow> modify_first p f xs = xs" for p and f :: "stored_directive \<Rightarrow> stored_directive" and xs
    by (induction xs) auto
  then show ?thesis by (simp add: updateDirectiveStatus_def Let_def read_clock_def)
qed

text \<open>The one command that provides agents.\<close>

definition provides_agents :: "owner_command \<Rightarrow> bool" where
  "provides_agents command \<longleftrightarrow> oc_command_type command = Cmd_staffing \<and> cp_action (oc_parameters command) = Some ''provision''"

lemma guarded_run: "\<not> provides_agents command \<Longrightarrow> snd (runOwnerCommand clk command now s) = s"
  by (auto simp: runOwnerCommand_def provides_agents_def Let_def nullish_def
      split: command_type.splits option.splits if_splits)

lemma directives_run [simp]: "cs_directives (snd (runOwnerCommand clk command now s)) = cs_directives s"
  by (simp add: runOwnerCommand_def provisionAgents_def Let_def split: command_type.splits option.splits prod.splits)

section \<open>Properties of the component\<close>

section \<open>Attempts at access\<close>

text \<open>Attempts at access one after the other, each at its time.\<close>

fun access_attempts :: "clock \<Rightarrow> (owner_identity \<times> int) list \<Rightarrow> ceo_state \<Rightarrow> ceo_state" where
  "access_attempts clk [] s = s"
| "access_attempts clk ((identity, t) # as) s =
     access_attempts clk as (snd (validateOwnerIdentity clk identity (iso_string t) s))"

lemma access_attempts_append:
  "access_attempts clk (as @ bs) s = access_attempts clk bs (access_attempts clk as s)"
  by (induction clk as s rule: access_attempts.induct) simp_all

lemma prune_recent:
  assumes "\<forall>x \<in> set xs. \<exists>u. x = iso_string u \<and> \<bar>u\<bar> \<le> max_time \<and> t - window * 1000 \<le> u" "\<bar>t\<bar> \<le> max_time"
  shows "pruneFailedAuthAttempts (iso_string t) window xs = xs"
proof -
  let ?old = "\<lambda>oldest. \<not> (case (date_parse oldest, date_parse (iso_string t)) of
     (Some u, Some n) \<Rightarrow> u \<ge> n - window * 1000 | _ \<Rightarrow> False)"
  have "\<not> ?old x" if "x \<in> set (rev xs)" for x
    using assms that by (fastforce simp: date_parse_iso_string)
  then have "dropWhile ?old (rev xs) = rev xs" by (cases "rev xs") auto
  then show ?thesis by (simp add: pruneFailedAuthAttempts_def)
qed

lemma failing_attempts:
  assumes "cs_access_lock_until s = None" "cs_failed_auth_attempts s = []"
    and "\<forall>(identity, t) \<in> set as. \<not> genuine_owner (cg_owner_auth (cs_config s)) identity \<and> \<bar>t\<bar> \<le> max_time"
    and "int (length as) < oa_failed_attempt_threshold (cg_owner_auth (cs_config s))"
    and "\<forall>t \<in> snd ` set as. \<forall>u \<in> snd ` set as. t - u \<le> oa_failed_attempt_window (cg_owner_auth (cs_config s)) * 1000"
  shows "cs_access_lock_until (access_attempts clk as s) = None \<and>
    cs_failed_auth_attempts (access_attempts clk as s) = rev (map (iso_string \<circ> snd) as) \<and>
    cs_config (access_attempts clk as s) = cs_config s"
  using assms
proof (induction as rule: rev_induct)
  case Nil
  then show ?case by simp
next
  case (snoc a as)
  obtain identity t where a: "a = (identity, t)" by (cases a)
  let ?s = "access_attempts clk as s" and ?c = "cg_owner_auth (cs_config s)"
  have IH: "cs_access_lock_until ?s = None" "cs_failed_auth_attempts ?s = rev (map (iso_string \<circ> snd) as)"
      "cs_config ?s = cs_config s"
    using snoc by auto
  have "pruneFailedAuthAttempts (iso_string t) (oa_failed_attempt_window ?c) (iso_string t # rev (map (iso_string \<circ> snd) as)) =
      iso_string t # rev (map (iso_string \<circ> snd) as)"
  proof (rule prune_recent)
    show "\<bar>t\<bar> \<le> max_time" using snoc.prems(3) a by simp
    show "\<forall>x \<in> set (iso_string t # rev (map (iso_string \<circ> snd) as)).
        \<exists>u. x = iso_string u \<and> \<bar>u\<bar> \<le> max_time \<and> t - oa_failed_attempt_window ?c * 1000 \<le> u"
    proof
      fix x assume "x \<in> set (iso_string t # rev (map (iso_string \<circ> snd) as))"
      then obtain u where u: "x = iso_string u" "u \<in> snd ` set (as @ [a])" using a by auto
      moreover from this snoc.prems(3) have "\<bar>u\<bar> \<le> max_time" by fastforce
      moreover have "t - u \<le> oa_failed_attempt_window ?c * 1000"
        using snoc.prems(5) u(2) a by (metis image_eqI in_set_conv_decomp snd_conv)
      ultimately show "\<exists>u. x = iso_string u \<and> \<bar>u\<bar> \<le> max_time \<and> t - oa_failed_attempt_window ?c * 1000 \<le> u"
        by (auto simp: algebra_simps)
    qed
  qed
  moreover have "\<not> genuine_owner ?c identity" using snoc.prems(3) a by simp
  moreover have "\<not> oa_failed_attempt_threshold ?c \<le> int (length as) + 1" using snoc.prems(4) by simp
  ultimately show ?case
    using IH a by (simp add: access_attempts_append validateOwnerIdentity_def Let_def isLocked_def)
qed

lemma iso_lock:
  "\<bar>t + d\<bar> \<le> max_time \<Longrightarrow> \<bar>t\<bar> \<le> max_time \<Longrightarrow>
   to_iso_string (map_option (\<lambda>n. n + d) (date_parse (iso_string t))) = Inr (iso_string (t + d))"
  by (simp add: to_iso_string_def date_parse_iso_string)

text \<open>The oldest of the attempts, at the end of the list, leave when they are outside the window.\<close>

lemma prune_window:
  assumes "\<forall>u \<in> set us. \<bar>u\<bar> \<le> max_time" "\<bar>t\<bar> \<le> max_time"
  shows "pruneFailedAuthAttempts (iso_string t) window (rev (map iso_string us)) =
    rev (map iso_string (dropWhile (\<lambda>u. u < t - window * 1000) us))"
  using assms by (induction us) (auto simp: pruneFailedAuthAttempts_def date_parse_iso_string)

lemma locked_attempts:
  assumes "cs_access_lock_until s = Some (iso_string until)" "\<bar>until\<bar> \<le> max_time"
    and "\<forall>u \<in> snd ` set bs. u < until \<and> \<bar>u\<bar> \<le> max_time"
  shows "cs_access_lock_until (access_attempts clk bs s) = Some (iso_string until) \<and>
    cs_failed_auth_attempts (access_attempts clk bs s) = cs_failed_auth_attempts s \<and>
    cs_config (access_attempts clk bs s) = cs_config s"
  using assms
proof (induction clk bs s rule: access_attempts.induct)
  case (2 clk identity t bs s)
  then have "isLocked (iso_string t) s"
    by (simp add: isLocked_def time_less_def date_parse_iso_string)
  then have "cs_access_lock_until (snd (validateOwnerIdentity clk identity (iso_string t) s)) = Some (iso_string until)"
    "cs_failed_auth_attempts (snd (validateOwnerIdentity clk identity (iso_string t) s)) = cs_failed_auth_attempts s"
    "cs_config (snd (validateOwnerIdentity clk identity (iso_string t) s)) = cs_config s"
    using "2.prems"(1) by (simp_all add: validateOwnerIdentity_def)
  with 2 show ?case by simp
qed simp

lemma locking_attempts:
  assumes "cs_access_lock_until s = None" "cs_failed_auth_attempts s = []" "auth = cg_owner_auth (cs_config s)"
    and "\<forall>(identity, t) \<in> set (as @ [(i, final)]). \<not> genuine_owner auth identity \<and> \<bar>t\<bar> \<le> max_time"
    and "\<forall>t \<in> snd ` set (as @ [(i, final)]). \<forall>u \<in> snd ` set (as @ [(i, final)]). t - u \<le> oa_failed_attempt_window auth * 1000"
    and "int (length as) + 1 = oa_failed_attempt_threshold auth"
    and "until = final + oa_temporary_lock_minutes auth * 60 * 1000" "\<bar>until\<bar> \<le> max_time"
  shows "cs_access_lock_until (access_attempts clk (as @ [(i, final)]) s) = Some (iso_string until) \<and>
    cs_failed_auth_attempts (access_attempts clk (as @ [(i, final)]) s) = rev (map iso_string (map snd (as @ [(i, final)]))) \<and>
    cs_config (access_attempts clk (as @ [(i, final)]) s) = cs_config s"
proof -
  let ?s = "access_attempts clk as s"
  have len: "int (length as) < oa_failed_attempt_threshold auth" using assms(6) by linarith
  have before: "cs_access_lock_until ?s = None" "cs_failed_auth_attempts ?s = rev (map (iso_string \<circ> snd) as)"
      "cs_config ?s = cs_config s"
    using failing_attempts [OF assms(1,2), of as clk] assms(3-5) len by auto
  have last: "\<bar>final\<bar> \<le> max_time" "\<not> genuine_owner auth i" using assms(4) by auto
  have "pruneFailedAuthAttempts (iso_string final) (oa_failed_attempt_window auth)
      (iso_string final # rev (map (iso_string \<circ> snd) as)) = iso_string final # rev (map (iso_string \<circ> snd) as)"
    using assms(4,5) by (intro prune_recent last) (fastforce simp: algebra_simps)
  then show ?thesis
    using before last assms(3,6,7) iso_lock [OF _ last(1)] assms(8)
    by (simp add: access_attempts_append validateOwnerIdentity_def Let_def isLocked_def rev_map)
qed

section \<open>Numbers of agents\<close>

definition role_name :: "agent_type \<Rightarrow> string" where
  "role_name t = js_replace_first ''_agent'' [] (agent_type_str t)"

lemma role_name_no_hyphen: "CHR ''-'' \<notin> set (role_name t)"
  by (cases t) (simp_all add: role_name_def)

lemma rx_digit_nat_str: "\<forall>c \<in> set (nat_str n). rx_digit c"
  using nat_str_all_digits by (auto simp: rx_digit_def)

lemma takeWhile_rx_digits: "takeWhile rx_digit (nat_str n) = nat_str n"
  using rx_digit_nat_str by (simp add: takeWhile_eq_all_conv)

lemma id_number_run:
  "\<forall>c \<in> set s. rx_digit c \<Longrightarrow> s \<noteq> [] \<Longrightarrow>
   \<exists>rest. rx_run id_number_rx (CHR ''-'' # s) no_captures = ([], no_captures(1 := Some s)) # rest"
proof -
  assume s: "\<forall>c \<in> set s. rx_digit c" "s \<noteq> []"
  have t: "takeWhile rx_digit s = s" using s(1) by (simp add: takeWhile_eq_all_conv)
  have "rev [1..<Suc (length s)] = length s # rev [1..<length s]" using s(2) by (cases "length s") auto
  then have "rev (repeats rx_digit 1 s) = length s # rev [1..<length s]" by (simp only: repeats_def t)
  then show ?thesis by (simp add: id_number_rx_def)
qed

lemma no_hyphen_search:
  "CHR ''-'' \<notin> set p \<Longrightarrow> rx_search id_number_rx (p @ CHR ''-'' # s) = rx_search id_number_rx (CHR ''-'' # s)"
  by (induction p) (auto simp: id_number_rx_def rx_at_start_def)

lemma id_number_named:
  assumes "n < 2 ^ 53"
  shows "id_number (role_name t @ ''-'' @ nat_str n) = n"
proof -
  obtain rest where "rx_run id_number_rx (CHR ''-'' # nat_str n) no_captures =
      ([], no_captures(1 := Some (nat_str n))) # rest"
    using id_number_run [OF rx_digit_nat_str] by fastforce
  then have "rx_search id_number_rx (role_name t @ CHR ''-'' # nat_str n) = Some (no_captures(1 := Some (nat_str n)))"
    by (simp add: no_hyphen_search [OF role_name_no_hyphen] rx_at_start_def)
  then show ?thesis using number_of_text_nat_str [OF assms] by (simp add: id_number_def)
qed

lemma foldl_max: "(x::nat) \<in> set xs \<Longrightarrow> x \<le> foldl max a xs" "a \<le> foldl max a xs"
proof -
  have mono: "a \<le> foldl max a xs" for a :: nat and xs
    by (induction xs arbitrary: a) (auto intro: le_trans [OF max.cobounded1])
  show "a \<le> foldl max a xs" by (rule mono)
  show "x \<in> set xs \<Longrightarrow> x \<le> foldl max a xs"
    by (induction xs arbitrary: a) (auto intro: le_trans [OF max.cobounded2 mono])
qed

lemma foldl_max_le: "a \<le> b \<Longrightarrow> \<forall>x \<in> set xs. x \<le> (b::nat) \<Longrightarrow> foldl max a xs \<le> b"
  by (induction xs arbitrary: a) auto

text \<open>The numbers that are read exactly.\<close>

definition safe_number :: nat where
  "safe_number = 2 ^ 53"

lemmas named_number = id_number_named [folded safe_number_def]

lemma agents_registerAgent [simp]:
  "reg_agents (registerAgent clk e r) = jm_set (reg_agents r) (ae_agent_id e) e"
  by (simp add: registerAgent_def Let_def audit_def read_clock_def appendAgentSnapshot_def)

lemma new_id_fresh:
  assumes "keyed_by ae_agent_id (reg_agents r)"
    and "\<forall>agent \<in> set (listAgents r). prefix (role_name t @ ''-'') (ae_agent_id agent) \<longrightarrow> ae_agent_type agent = t"
    and "\<forall>agent \<in> set (listAgents r). id_number (ae_agent_id agent) + 1 < safe_number"
  shows "jm_get (reg_agents r) (buildProvisionedAgentId t r) = None"
proof (rule ccontr)
  assume "jm_get (reg_agents r) (buildProvisionedAgentId t r) \<noteq> None"
  then obtain e where e: "e \<in> set (listAgents r)" "ae_agent_id e = buildProvisionedAgentId t r"
    using jm_values_in keyed_by_get [OF assms(1)] by (fastforce simp: listAgents_def)
  define xs where "xs = map (id_number \<circ> ae_agent_id) (filter (\<lambda>agent. ae_agent_type agent = t) (listAgents r))"
  have name: "buildProvisionedAgentId t r = role_name t @ ''-'' @ nat_str (foldl max 0 xs + 1)"
    by (simp add: buildProvisionedAgentId_def role_name_def xs_def)
  then have "ae_agent_type e = t" using e assms(2) by fastforce
  then have mem: "id_number (ae_agent_id e) \<in> set xs" using e(1) unfolding xs_def by force
  have "foldl max 0 xs \<le> safe_number - 2" using assms(3) by (intro foldl_max_le) (fastforce simp: xs_def)+
  then have "foldl max 0 xs + 1 < safe_number" by (simp add: safe_number_def)
  then have "id_number (ae_agent_id e) = foldl max 0 xs + 1"
    using e(2) name named_number [of "foldl max 0 xs + 1" t] by simp
  moreover have "id_number (ae_agent_id e) \<le> foldl max 0 xs" using mem by (rule foldl_max)
  ultimately show False by simp
qed

lemma new_id_number:
  assumes "\<forall>agent \<in> set (listAgents r). id_number (ae_agent_id agent) + Suc n < safe_number" "Suc n < safe_number"
  shows "id_number (buildProvisionedAgentId t r) + n < safe_number"
proof -
  define xs where "xs = map (id_number \<circ> ae_agent_id) (filter (\<lambda>agent. ae_agent_type agent = t) (listAgents r))"
  have "foldl max 0 xs \<le> safe_number - Suc (Suc n)"
    using assms by (intro foldl_max_le) (fastforce simp: xs_def)+
  then have le: "foldl max 0 xs + 1 + n < safe_number" using assms(2) by linarith
  have "buildProvisionedAgentId t r = role_name t @ ''-'' @ nat_str (foldl max 0 xs + 1)"
    by (simp add: buildProvisionedAgentId_def role_name_def xs_def)
  then have "id_number (buildProvisionedAgentId t r) = foldl max 0 xs + 1"
    using le named_number [of "foldl max 0 xs + 1" t] by simp
  with le show ?thesis by simp
qed

lemma provision_loop_new:
  assumes "provision_loop clk t p now n r = (created, r')"
    and "keyed_by ae_agent_id (reg_agents r)"
    and "\<forall>agent \<in> set (listAgents r). prefix (role_name t @ ''-'') (ae_agent_id agent) \<longrightarrow> ae_agent_type agent = t"
    and "\<forall>agent \<in> set (listAgents r). id_number (ae_agent_id agent) + n < safe_number"
    and "n < safe_number"
  shows "length created = n \<and> distinct (map ae_agent_id created) \<and>
    (\<forall>agent \<in> set created. jm_get (reg_agents r) (ae_agent_id agent) = None \<and> ae_status agent = AS_idle \<and>
       ae_agent_type agent = t \<and> jm_get (reg_agents r') (ae_agent_id agent) = Some agent) \<and>
    (\<forall>k agent. jm_get (reg_agents r) k = Some agent \<longrightarrow> jm_get (reg_agents r') k = Some agent)"
  using assms
proof (induction n arbitrary: r created)
  case 0
  then show ?case by simp
next
  case (Suc n)
  define e where "e = \<lparr>ae_agent_id = buildProvisionedAgentId t r, ae_agent_type = t, ae_status = AS_idle,
     ae_current_project_id = p, ae_last_activity = now\<rparr>"
  obtain rest where rest: "provision_loop clk t p now n (registerAgent clk e r) = (rest, r')" "created = e # rest"
    using Suc.prems(1) by (auto simp: e_def [symmetric] Let_def split: prod.splits)
  let ?r = "registerAgent clk e r"
  have id: "ae_agent_id e = buildProvisionedAgentId t r" "ae_agent_type e = t" "ae_status e = AS_idle"
    by (simp_all add: e_def)
  have listed: "agent = e \<or> agent \<in> set (listAgents r)" if "agent \<in> set (listAgents ?r)" for agent
    using that jm_values_set_subset by (fastforce simp: listAgents_def)
  have "\<forall>agent \<in> set (listAgents r). id_number (ae_agent_id agent) + 1 < safe_number"
    using Suc.prems(4) by fastforce
  then have fresh: "jm_get (reg_agents r) (ae_agent_id e) = None"
    unfolding id by (rule new_id_fresh [OF Suc.prems(2,3)])
  have keyed: "keyed_by ae_agent_id (reg_agents ?r)" using Suc.prems(2) by (simp add: keyed_by_set)
  have typed: "\<forall>agent \<in> set (listAgents ?r). prefix (role_name t @ ''-'') (ae_agent_id agent) \<longrightarrow> ae_agent_type agent = t"
    using Suc.prems(3) id(2) listed by blast
  have nums: "\<forall>agent \<in> set (listAgents ?r). id_number (ae_agent_id agent) + n < safe_number"
  proof
    fix agent assume "agent \<in> set (listAgents ?r)"
    then consider "agent = e" | "agent \<in> set (listAgents r)" using listed by blast
    then show "id_number (ae_agent_id agent) + n < safe_number"
    proof cases
      case 1
      then show ?thesis using new_id_number [OF Suc.prems(4,5), of t] id(1) by simp
    next
      case 2
      then have "id_number (ae_agent_id agent) + Suc n < safe_number" using Suc.prems(4) by blast
      then show ?thesis by linarith
    qed
  qed
  note IH = Suc.IH [OF rest(1) keyed typed nums Suc_lessD [OF Suc.prems(5)]]
  have others: "ae_agent_id agent \<noteq> ae_agent_id e \<and> jm_get (reg_agents r) (ae_agent_id agent) = None"
    if "agent \<in> set rest" for agent
  proof -
    have "jm_get (reg_agents ?r) (ae_agent_id agent) = None" using IH that by blast
    then show ?thesis by (simp split: if_splits)
  qed
  have kept: "jm_get (reg_agents r') k = Some agent" if "jm_get (reg_agents ?r) k = Some agent" for k agent
    using IH that by blast
  have "jm_get (reg_agents r') (ae_agent_id e) = Some e" by (rule kept) simp
  moreover have "jm_get (reg_agents r') k = Some agent" if "jm_get (reg_agents r) k = Some agent" for k agent
    using that fresh by (intro kept) auto
  moreover have "ae_agent_id e \<notin> ae_agent_id ` set rest" using others by (metis imageE)
  ultimately show ?case unfolding rest(2) using IH others fresh id(2,3) by auto
qed

text \<open>
  C7: Take a CEO runtime with no lock and no failed attempts recorded, as one just made or
  restarted has, and as many attempts by others as the threshold, all within the window.
  They lock the access, and whoever tries while the lock lasts is turned away with its end,
  the owner too, which neither lengthens the lock nor counts as a failure. From the end of
  the lock on the owner is let in. The failures are not cleared by then: a first further
  attempt by someone else is counted together with those still in the window (the oldest of
  them dropped up to the first in it), and locks the access anew exactly when they reach the
  threshold. Times are ISO dates in the range of Date.
\<close>

theorem access_lockout:
  assumes "cs_access_lock_until s = None" "cs_failed_auth_attempts s = []" "auth = cg_owner_auth (cs_config s)"
    and "\<forall>(identity, t) \<in> set (as @ [(i, final)]). \<not> genuine_owner auth identity \<and> \<bar>t\<bar> \<le> max_time"
    and "\<forall>t \<in> snd ` set (as @ [(i, final)]). \<forall>u \<in> snd ` set (as @ [(i, final)]). t - u \<le> oa_failed_attempt_window auth * 1000"
    and "int (length as) + 1 = oa_failed_attempt_threshold auth"
    and "duration = oa_temporary_lock_minutes auth * 60 * 1000" "until = final + duration" "\<bar>until\<bar> \<le> max_time"
    and "\<forall>(_, u) \<in> set bs. u < until \<and> \<bar>u\<bar> \<le> max_time" "\<bar>t\<bar> \<le> max_time" "\<bar>t + duration\<bar> \<le> max_time"
    and "validateOwnerIdentity clk identity (iso_string t) (access_attempts clk (as @ [(i, final)] @ bs) s) = (answer, s')"
  shows "if t < until then
      answer = Inr (Auth_denied (''CEO access is temporarily locked until '' @ iso_string until) (Some (iso_string until))) \<and>
      cs_access_lock_until s' = Some (iso_string until)
    else if genuine_owner auth identity then
      answer = Inr Auth_allowed \<and> cs_access_lock_until s' = Some (iso_string until)
    else let recent = dropWhile (\<lambda>u. u < t - oa_failed_attempt_window auth * 1000) (map snd (as @ [(i, final)]) @ [t]);
             lock = (if oa_failed_attempt_threshold auth \<le> int (length recent) then t + duration else until)
      in answer = Inr (Auth_denied ''Sender is not an authenticated owner.'' (Some (iso_string lock))) \<and>
         cs_access_lock_until s' = Some (iso_string lock)"
proof -
  let ?m = "access_attempts clk (as @ [(i, final)]) s" and ?s = "access_attempts clk (as @ [(i, final)] @ bs) s"
  let ?us = "map snd (as @ [(i, final)])"
  have m: "cs_access_lock_until ?m = Some (iso_string until)" "cs_failed_auth_attempts ?m = rev (map iso_string ?us)"
      "cs_config ?m = cs_config s"
    using locking_attempts [OF assms(1-6)] assms(7-9) by blast+
  have bs: "\<forall>u \<in> snd ` set bs. u < until \<and> \<bar>u\<bar> \<le> max_time" using assms(10) by fastforce
  have "?s = access_attempts clk bs ?m" by (simp add: access_attempts_append)
  then have s: "cs_access_lock_until ?s = Some (iso_string until)" "cs_failed_auth_attempts ?s = rev (map iso_string ?us)"
      "cs_config ?s = cs_config s"
    using locked_attempts [OF m(1) assms(9) bs, of clk] m by simp_all
  have lock: "isLocked (iso_string t) ?s \<longleftrightarrow> t < until"
    using assms(9,11) s(1) by (simp add: isLocked_def time_less_def date_parse_iso_string)
  have "\<forall>u \<in> set (?us @ [t]). \<bar>u\<bar> \<le> max_time" using assms(4,11) by auto
  from prune_window [OF this assms(11)]
  have prune: "pruneFailedAuthAttempts (iso_string t) w (iso_string t # rev (map iso_string ?us)) =
      rev (map iso_string (dropWhile (\<lambda>u. u < t - w * 1000) (?us @ [t])))" for w
    by simp
  have until: "to_iso_string (map_option (\<lambda>n. n + duration) (date_parse (iso_string t))) = Inr (iso_string (t + duration))"
    by (rule iso_lock [OF assms(12,11)])
  show ?thesis
    using assms(13) lock s(1,3) prune [of "oa_failed_attempt_window auth"] until
    unfolding validateOwnerIdentity_def s(2) assms(3,7)
    by (auto simp: Let_def split: if_splits)
qed

theorem access_lockout_witness:
  "\<exists>s identity t s'. genuine_owner (cg_owner_auth (cs_config s)) identity \<and>
     fst (validateOwnerIdentity (\<lambda>_. []) identity (iso_string t) s) = Inr Auth_allowed \<and>
     s' = access_attempts (\<lambda>_. []) (replicate 5 (identity\<lparr>oi_authenticated := False\<rparr>, t)) s \<and>
     fst (validateOwnerIdentity (\<lambda>_. []) identity (iso_string t) s') \<noteq> Inr Auth_allowed"
proof -
  let ?s = "newCeoRuntime (\<lambda>_. []) empty_registry ''ceo-1'' no_config_update None []"
  let ?owner = "\<lparr>oi_actor_id = ''owner'', oi_token_id = None, oi_authenticated = True\<rparr>"
  let ?thief = "?owner\<lparr>oi_authenticated := False\<rparr>"
  have five: "replicate 5 (?thief, 0) = replicate 4 (?thief, 0) @ [(?thief, 0 :: int)]"
    by (simp add: numeral_eq_Suc)
  have init: "cs_access_lock_until ?s = None" "cs_failed_auth_attempts ?s = []" "cs_config ?s = defaultCeoRuntimeConfig"
    by (simp_all add: newCeoRuntime_def Let_def)
  have "fst (validateOwnerIdentity (\<lambda>_. []) ?owner (iso_string 0) (access_attempts (\<lambda>_. [])
      (replicate 5 (?thief, 0)) ?s)) \<noteq> Inr Auth_allowed"
    unfolding five using access_lockout [OF init(1,2) refl, of "replicate 4 (?thief, 0)" ?thief 0 "15 * 60 * 1000" "15 * 60 * 1000" "[]" 0
        "\<lambda>_. []" ?owner, OF _ _ _ _ _ _ _ _ _ prod.collapse [symmetric]]
    by (simp add: init defaultCeoRuntimeConfig_def genuine_owner_def)
  moreover have "genuine_owner (cg_owner_auth (cs_config ?s)) ?owner"
    by (simp add: init defaultCeoRuntimeConfig_def genuine_owner_def token_allowed_def)
  moreover have "fst (validateOwnerIdentity (\<lambda>_. []) ?owner (iso_string 0) ?s) = Inr Auth_allowed"
    using calculation(2) init by (simp add: validateOwnerIdentity_def Let_def isLocked_def)
  ultimately show ?thesis by blast
qed

text \<open>
  C9: A directive never touches decisions, delegations, broadcasts or the configuration, and
  touches agents or projects only when the genuine owner sends it while the access is not
  locked and it is a staffing command to provide agents; when it returns, exactly one entry
  was added to the log of directives.
\<close>

theorem directive_changes_only_by_owner:
  "case executeOwnerDirective clk rawInput actor mode now s of (outcome, s') \<Rightarrow>
     cs_decisions s' = cs_decisions s \<and> cs_delegations s' = cs_delegations s \<and> cs_broadcasts s' = cs_broadcasts s \<and>
     cs_config s' = cs_config s \<and>
     ((reg_agents (cs_registry s'), reg_projects (cs_registry s')) =
        (reg_agents (cs_registry s), reg_projects (cs_registry s)) \<or>
      (\<not> isLocked now s \<and> genuine_owner (cg_owner_auth (cs_config s)) actor \<and>
       (\<exists>m command. parseOwnerCommand rawInput mode now = Directive_parsed m command \<and> provides_agents command))) \<and>
     (case outcome of
        Inl _ \<Rightarrow> cs_directives s' = cs_directives s
      | Inr _ \<Rightarrow> \<exists>d. cs_directives s' = d # cs_directives s)"
proof -
  obtain res s1 where v: "validateOwnerIdentity clk actor now s = (res, s1)" by fastforce
  have g1: "guarded s1 = guarded s" and d1: "cs_directives s1 = cs_directives s"
    using guarded_validate [of clk actor now s] directives_validate [of clk actor now s] v by simp_all
  show ?thesis
  proof (cases res)
    case (Inl e)
    then show ?thesis using v g1 d1 by (simp add: executeOwnerDirective_def) (simp add: guarded_def)
  next
    case (Inr a)
    show ?thesis
    proof (cases a)
      case (Auth_denied reason until)
      then show ?thesis using v Inr g1 d1
        by (simp add: executeOwnerDirective_def storeDirective_def Let_def) (simp add: guarded_def)
    next
      case Auth_allowed
      then have who: "\<not> isLocked now s" "genuine_owner (cg_owner_auth (cs_config s)) actor"
        using v Inr by (auto simp: validateOwnerIdentity_def Let_def split: if_splits sum.splits)
      show ?thesis
      proof (cases "parseOwnerCommand rawInput mode now")
        case (Directive_unclear m clarification)
        then show ?thesis using v Inr Auth_allowed g1 d1
          by (simp add: executeOwnerDirective_def storeDirective_def Let_def) (simp add: guarded_def)
      next
        case (Directive_parsed m command)
        obtain d s2 where d: "recordDirective clk command Dir_executing now s1 = (d, s2)" by fastforce
        have s2: "guarded s2 = guarded s1" "cs_directives s2 = d # cs_directives s1"
          using d by (auto simp: recordDirective_def storeDirective_def guarded_def)
        obtain response s3 where r: "runOwnerCommand clk command now s2 = (response, s3)" by fastforce
        have d3: "cs_directives s3 = d # cs_directives s1"
          using directives_run [of clk command now s2] r s2 by simp
        have end_state: "snd (executeOwnerDirective clk rawInput actor mode now s) =
            updateDirectiveStatus clk (sd_directive_id d) Dir_completed s3"
            "isl (fst (executeOwnerDirective clk rawInput actor mode now s)) = False"
          using v Inr Auth_allowed Directive_parsed d r by (simp_all add: executeOwnerDirective_def Let_def)
        have g3: "cs_decisions s3 = cs_decisions s2 \<and> cs_delegations s3 = cs_delegations s2 \<and>
            cs_broadcasts s3 = cs_broadcasts s2 \<and> cs_config s3 = cs_config s2"
          using r by (auto simp: runOwnerCommand_def provisionAgents_def Let_def split: command_type.splits option.splits prod.splits if_splits)
        have same: "provides_agents command \<or> guarded s3 = guarded s2"
          using guarded_run [of command clk now s2] r by auto
        let ?s = "updateDirectiveStatus clk (sd_directive_id d) Dir_completed s3"
        have dirs: "\<exists>x. cs_directives ?s = x # cs_directives s" using d3 d1 by (simp add: directives_status)
        have keep: "guarded ?s = guarded s3" by simp
        obtain out where out: "executeOwnerDirective clk rawInput actor mode now s = (Inr out, ?s)"
          using end_state by (cases "executeOwnerDirective clk rawInput actor mode now s"; cases "fst (executeOwnerDirective clk rawInput actor mode now s)") auto
        show ?thesis
          using who same dirs keep g1 s2(1) g3 Directive_parsed unfolding out by (auto simp: guarded_def)
      qed
    qed
  qed
qed

text \<open>
  C28: A runtime started from an exported state exports the same directives, decisions,
  delegations, broadcasts and configuration and the same log after its own entry; but the
  lock and the failed attempts are not exported, so after a restart the owner, and a
  guesser, are let try at once.
\<close>

theorem restart_roundtrip:
  "let s' = newCeoRuntime clk registry k config (Some (exportState s)) now in
   (exportState s')\<lparr>cx_audit_log := tl (cx_audit_log (exportState s')), cx_last_activity := cs_last_activity s\<rparr> =
     exportState s \<and>
   ca_action_type (hd (cx_audit_log (exportState s'))) = ''startup'' \<and>
   cs_access_lock_until s' = None \<and> cs_failed_auth_attempts s' = [] \<and>
   fst (validateOwnerIdentity clk identity t s') =
     (if genuine_owner (cg_owner_auth (cs_config s)) identity then Inr Auth_allowed
      else fst (validateOwnerIdentity clk identity t (s\<lparr>cs_access_lock_until := None, cs_failed_auth_attempts := []\<rparr>)))"
  by (simp add: newCeoRuntime_def loadState_def exportState_def Let_def touch_def ceo_audit_def read_clock_def
      validateOwnerIdentity_def isLocked_def split: sum.splits)

text \<open>
  Provided agents get new ids: as many as asked for, at least one and at most ten, with
  different ids that no agent had, registered as idle; every agent there was stays as it is.
  This needs that the ids of a role carry its name only for agents of the role.
\<close>

theorem provision_keeps_agents:
  assumes "keyed_by ae_agent_id (reg_agents (cs_registry s))"
    and "\<forall>agent \<in> set (listAgents (cs_registry s)). prefix (role_name agentType @ ''-'') (ae_agent_id agent) \<longrightarrow>
           ae_agent_type agent = agentType"
    and "\<forall>agent \<in> set (listAgents (cs_registry s)). id_number (ae_agent_id agent) + 10 < 2 ^ 53"
  shows "case provisionAgents clk agentType requested projectId now s of (created, s') \<Rightarrow>
    length created = nat (max 1 (min 10 requested)) \<and> distinct (map ae_agent_id created) \<and>
    (\<forall>agent \<in> set created. getAgent (cs_registry s) (ae_agent_id agent) = None \<and> ae_status agent = AS_idle \<and>
       ae_agent_type agent = agentType \<and> getAgent (cs_registry s') (ae_agent_id agent) = Some agent) \<and>
    (\<forall>k agent. getAgent (cs_registry s) k = Some agent \<longrightarrow> getAgent (cs_registry s') k = Some agent)"
proof -
  define n where "n = nat (max 1 (min 10 requested))"
  obtain created r where loop: "provision_loop clk agentType projectId now n (cs_registry s) = (created, r)" by fastforce
  have "n \<le> 10" by (simp add: n_def)
  then have nums: "\<forall>agent \<in> set (listAgents (cs_registry s)). id_number (ae_agent_id agent) + n < 2 ^ 53"
    using assms(3) by fastforce
  have "n < 2 ^ 53" using \<open>n \<le> 10\<close> by simp
  note all = provision_loop_new [OF loop assms(1,2), unfolded safe_number_def, OF nums this]
  have agents: "reg_agents (assign_created clk projectId now created r) = reg_agents r"
    by (auto simp: assign_created_def updateProject_def getProject_def Let_def audit_def read_clock_def
        appendProjectSnapshot_def split: option.splits sum.splits)
  show ?thesis
    using all loop agents by (simp add: provisionAgents_def Let_def n_def [symmetric] getAgent_def)
qed

theorem provision_keeps_agents_witness:
  "\<exists>s created s'. provisionAgents (\<lambda>_. []) Sales_agent 3 None [] s = (created, s') \<and> length created = 3 \<and>
     distinct (map ae_agent_id created) \<and> getAgent (cs_registry s') ''sales-1'' = getAgent (cs_registry s) ''sales-1'' \<and>
     getAgent (cs_registry s) ''sales-1'' \<noteq> None"
proof -
  let ?a = "\<lparr>ae_agent_id = ''sales-1'', ae_agent_type = Sales_agent, ae_status = AS_busy, ae_current_project_id = None,
     ae_last_activity = []\<rparr>"
  let ?s = "newCeoRuntime (\<lambda>_. []) (empty_registry\<lparr>reg_agents := [(''sales-1'', ?a)]\<rparr>) ''ceo-1'' no_config_update None []"
  have agents: "reg_agents (cs_registry ?s) = [(''sales-1'', ?a)]" by (simp add: newCeoRuntime_def Let_def touch_def)
  have one: "id_number ''sales-1'' = 1"
  proof -
    have "role_name Sales_agent @ ''-'' @ nat_str 1 = ''sales-1''" by code_simp
    then show ?thesis using id_number_named [of 1 Sales_agent] by simp
  qed
  obtain created s' where p: "provisionAgents (\<lambda>_. []) Sales_agent 3 None [] ?s = (created, s')" by fastforce
  have "keyed_by ae_agent_id (reg_agents (cs_registry ?s))" by (simp add: agents keyed_by_def jm_keys_def)
  from provision_keeps_agents [OF this, where agentType = Sales_agent and clk = "\<lambda>_. []" and requested = 3 and projectId = None and now = "[]"] p
  have "length created = 3" "distinct (map ae_agent_id created)"
      "\<forall>k agent. getAgent (cs_registry ?s) k = Some agent \<longrightarrow> getAgent (cs_registry s') k = Some agent"
    using one by (simp_all add: agents listAgents_def jm_values_def)
  moreover have "getAgent (cs_registry ?s) ''sales-1'' = Some ?a" by (simp add: getAgent_def agents jm_get_def)
  ultimately show ?thesis using p by (metis option.distinct(1))
qed

end
