(* ===== verification/Ceo_Delegation.thy ===== *)
theory Ceo_Delegation
  imports Ceo_Runtime
begin

text \<open>
  Delegated tasks and broadcasts of the CEO agent (\<^verbatim>\<open>src/agents/ceo/runtime.ts\<close>). A
  task and a broadcast are changed in place, in the list that holds them; with several of the
  same id it is the first, the newest, that is meant.
\<close>

section \<open>Delegations\<close>

record delegation_input =
  di_task_id :: string
  di_target_agent :: agent_type
  di_instructions :: string
  di_priority :: priority_level
  di_success_criteria :: "string list"
  di_context :: "(string \<times> jsval) list option"
  di_deadline :: "string option"
  di_project_id :: string

definition opt_value :: "string option \<Rightarrow> jsval" where
  "opt_value v = (case v of None \<Rightarrow> JUndefined | Some s \<Rightarrow> JStr s)"

definition delegation_value :: "delegation \<Rightarrow> jsval" where
  "delegation_value t =
     JObj [(''task_id'', JStr (dg_task_id t)), (''target_agent'', JStr (agent_type_str (dg_target_agent t))),
       (''project_id'', JStr (dg_project_id t)), (''assigned_agent_id'', opt_value (dg_assigned_agent_id t)),
       (''instructions'', JStr (dg_instructions t)), (''priority'', JStr (priority_level_str (dg_priority t))),
       (''deadline'', opt_value (dg_deadline t)), (''context'', JObj (dg_context t)),
       (''success_criteria'', JArr (map JStr (dg_success_criteria t))),
       (''status'', JStr (delegation_status_str (dg_status t))), (''created_at'', JStr (dg_created_at t)),
       (''updated_at'', JStr (dg_updated_at t)), (''ack_status'', JStr (ack_state_str (dg_ack_status t))),
       (''status_history'', JArr (map (\<lambda>h. JObj
          ([(''status'', JStr (delegation_status_str (dh_status h))), (''event'', JStr (delegation_event_str (dh_event h))),
            (''timestamp'', JStr (dh_timestamp h))] @
           (case dh_note h of None \<Rightarrow> [] | Some n \<Rightarrow> [(''note'', JStr n)]))) (dg_status_history t)))]"

definition selectAgent :: "agent_type \<Rightarrow> string \<Rightarrow> registry \<Rightarrow> agent_entry option" where
  "selectAgent targetAgent projectId r = find (eligible targetAgent projectId) (listAgents r)"

definition findDelegation :: "string \<Rightarrow> ceo_state \<Rightarrow> delegation option" where
  "findDelegation taskId s = find (\<lambda>task. dg_task_id task = taskId) (cs_delegations s)"

text \<open>The task as it is stored at first. Its history is written oldest first.\<close>

definition new_delegation :: "delegation_input \<Rightarrow> agent_entry option \<Rightarrow> string \<Rightarrow> delegation" where
  "new_delegation i assignee now =
     (let status = (if assignee \<noteq> None then Del_delegated else Del_escalated) in
      \<lparr>dg_task_id = di_task_id i, dg_target_agent = di_target_agent i, dg_project_id = di_project_id i,
       dg_assigned_agent_id = map_option ae_agent_id assignee, dg_instructions = di_instructions i,
       dg_priority = di_priority i, dg_deadline = di_deadline i, dg_context = nullish (di_context i) [],
       dg_success_criteria = di_success_criteria i, dg_status = status, dg_created_at = now, dg_updated_at = now,
       dg_ack_status = (if assignee \<noteq> None then Ack_pending else Ack_unresponsive),
       dg_latest_result_summary = None, dg_failure_reason = None,
       dg_status_history =
         [\<lparr>dh_status = Del_draft, dh_event = Ev_created, dh_timestamp = now, dh_note = None\<rparr>,
          \<lparr>dh_status = status, dh_event = (if assignee \<noteq> None then Ev_delegated else Ev_escalated),
           dh_timestamp = now,
           dh_note = Some (case assignee of
             Some a \<Rightarrow> ''Assigned to '' @ ae_agent_id a | None \<Rightarrow> ''No eligible assignee found'')\<rparr>]\<rparr>)"

definition createDelegationTask ::
  "clock \<Rightarrow> delegation_input \<Rightarrow> string \<Rightarrow> ceo_state \<Rightarrow> (delegation \<times> agent_message option) \<times> ceo_state" where
  "createDelegationTask clk i now s =
     (let assignee = selectAgent (di_target_agent i) (di_project_id i) (cs_registry s);
          task = new_delegation i assignee now;
          s = ceo_audit clk ''delegation_created'' (cs_agent_id s) (dg_task_id task)
            (Params_fields [(''target_agent'', JStr (agent_type_str (dg_target_agent task))),
               (''assigned_agent_id'', opt_value (dg_assigned_agent_id task)),
               (''project_id'', JStr (dg_project_id task))]) (delegation_status_str (dg_status task))
            (touch now (s\<lparr>cs_delegations := task # cs_delegations s\<rparr>))
      in ((task,
           if assignee = None then None
           else Some \<lparr>msg_from = ''ceo_agent'', msg_to = agent_type_str (di_target_agent i),
             msg_type = ''status_update'', msg_project_id = di_project_id i, msg_timestamp = now,
             msg_payload = JObj [(''kind'', JStr ''delegation_task''), (''task'', delegation_value task)]\<rparr>), s))"

definition log_delegation ::
  "delegation_status \<Rightarrow> delegation_event \<Rightarrow> string \<Rightarrow> string option \<Rightarrow> delegation \<Rightarrow> delegation" where
  "log_delegation status event now note task =
     task\<lparr>dg_updated_at := now,
       dg_status_history := \<lparr>dh_status = status, dh_event = event, dh_timestamp = now, dh_note = note\<rparr> #
         dg_status_history task\<rparr>"

definition put_delegation :: "string \<Rightarrow> delegation \<Rightarrow> ceo_state \<Rightarrow> ceo_state" where
  "put_delegation taskId task s =
     s\<lparr>cs_delegations := modify_first (\<lambda>t. dg_task_id t = taskId) (\<lambda>_. task) (cs_delegations s)\<rparr>"

definition acknowledgeDelegationTask :: "clock \<Rightarrow> string \<Rightarrow> string \<Rightarrow> string \<Rightarrow> ceo_state \<Rightarrow> ceo_state" where
  "acknowledgeDelegationTask clk taskId agentId now s =
     (case findDelegation taskId s of
        None \<Rightarrow> s
      | Some task \<Rightarrow>
          if dg_assigned_agent_id task \<noteq> Some agentId then s
          else
            let task = log_delegation (dg_status task) Ev_acknowledged now (Some (''Acknowledged by '' @ agentId))
                  (task\<lparr>dg_ack_status := Ack_acknowledged\<rparr>)
            in ceo_audit clk ''delegation_acknowledged'' agentId taskId (Params_fields []) ''ok''
                 (touch now (put_delegation taskId task s)))"

definition addDelegationInstruction ::
  "clock \<Rightarrow> string \<Rightarrow> string \<Rightarrow> string \<Rightarrow> ceo_state \<Rightarrow> delegation option \<times> ceo_state" where
  "addDelegationInstruction clk taskId note now s =
     (case findDelegation taskId s of
        None \<Rightarrow> (None, s)
      | Some task \<Rightarrow>
          let task = log_delegation (dg_status task) Ev_instruction_added now (Some note) task
          in (Some task,
              ceo_audit clk ''delegation_instruction_added'' (cs_agent_id s) taskId
                (Params_fields [(''note'', JStr note)]) ''ok'' (touch now (put_delegation taskId task s))))"

definition redelegateTask ::
  "clock \<Rightarrow> string \<Rightarrow> agent_type \<Rightarrow> string \<Rightarrow> ceo_state \<Rightarrow> delegation option \<times> ceo_state" where
  "redelegateTask clk taskId targetAgent now s =
     (case findDelegation taskId s of
        None \<Rightarrow> (None, s)
      | Some task \<Rightarrow>
          (case selectAgent targetAgent (dg_project_id task) (cs_registry s) of
             None \<Rightarrow>
               let task = log_delegation Del_escalated Ev_escalated now
                     (Some (''No replacement available for '' @ agent_type_str targetAgent))
                     (task\<lparr>dg_status := Del_escalated, dg_ack_status := Ack_unresponsive\<rparr>)
               in (Some task,
                   ceo_audit clk ''delegation_redelegated'' (cs_agent_id s) taskId
                     (Params_fields [(''targetAgent'', JStr (agent_type_str targetAgent))]) ''escalated''
                     (touch now (put_delegation taskId task s)))
           | Some a \<Rightarrow>
               let task = log_delegation Del_delegated Ev_redelegated now
                     (Some (''Redelegated to '' @ ae_agent_id a))
                     (task\<lparr>dg_target_agent := targetAgent, dg_assigned_agent_id := Some (ae_agent_id a),
                        dg_status := Del_delegated, dg_ack_status := Ack_pending\<rparr>)
               in (Some task,
                   ceo_audit clk ''delegation_redelegated'' (cs_agent_id s) taskId
                     (Params_fields [(''targetAgent'', JStr (agent_type_str targetAgent)),
                        (''replacement'', JStr (ae_agent_id a))]) ''ok''
                     (touch now (put_delegation taskId task s)))))"

text \<open>\<open>split(/[^a-z0-9]+/)\<close>, of which only the words of four letters and more are kept.\<close>

definition criteria_char :: "char \<Rightarrow> bool" where
  "criteria_char c \<longleftrightarrow> rx_small c \<or> rx_digit c"

function split_words :: "string \<Rightarrow> string list" where
  "split_words s =
     (case dropWhile criteria_char s of
        [] \<Rightarrow> [s]
      | c # rest \<Rightarrow> takeWhile criteria_char s # split_words (dropWhile (\<lambda>c. \<not> criteria_char c) rest))"
  by pat_completeness auto
termination
proof (relation "measure length")
  fix s :: string and c rest
  assume "dropWhile criteria_char s = c # rest"
  then have "length (c # rest) \<le> length s" by (metis length_dropWhile_le)
  then show "(dropWhile (\<lambda>c. \<not> criteria_char c) rest, s) \<in> measure length"
    using length_dropWhile_le [of "\<lambda>c. \<not> criteria_char c" rest] by simp
qed simp

declare split_words.simps [simp del]

definition missing_criteria :: "delegation \<Rightarrow> string \<Rightarrow> string list" where
  "missing_criteria task resultSummary =
     (let normalized = js_lower resultSummary in
      filter (\<lambda>criteria.
        let words = filter (\<lambda>w. length w \<ge> 4) (split_words (js_lower criteria))
        in words \<noteq> [] \<and> \<not> list_all (js_includes normalized) words) (dg_success_criteria task))"

record delegation_completion =
  dk_task :: delegation
  dk_valid :: bool
  dk_missing_criteria :: "string list"

definition completeDelegationTask ::
  "clock \<Rightarrow> string \<Rightarrow> string \<Rightarrow> string \<Rightarrow> string \<Rightarrow> ceo_state \<Rightarrow> delegation_completion option \<times> ceo_state" where
  "completeDelegationTask clk taskId actorAgentId resultSummary now s =
     (case findDelegation taskId s of
        None \<Rightarrow> (None, s)
      | Some task \<Rightarrow>
          if dg_assigned_agent_id task \<noteq> Some actorAgentId then (None, s)
          else
            let missing = missing_criteria task resultSummary;
                task = task\<lparr>dg_latest_result_summary := Some resultSummary, dg_updated_at := now\<rparr>;
                reason = ''Missing success criteria: '' @ js_join '', '' missing;
                task =
                  (if missing = [] then
                     log_delegation Del_completed Ev_completed now None (task\<lparr>dg_status := Del_completed\<rparr>)
                   else
                     log_delegation Del_failed Ev_failed now (Some reason)
                       (task\<lparr>dg_status := Del_failed, dg_failure_reason := Some reason\<rparr>))
            in (Some \<lparr>dk_task = task, dk_valid = (missing = []), dk_missing_criteria = missing\<rparr>,
                ceo_audit clk ''delegation_completed'' actorAgentId taskId
                  (Params_fields [(''valid'', JBool (missing = [])), (''missing_criteria'', JArr (map JStr missing))])
                  (delegation_status_str (dg_status task)) (touch now (put_delegation taskId task s))))"

definition failDelegationTask ::
  "clock \<Rightarrow> string \<Rightarrow> string \<Rightarrow> string \<Rightarrow> string \<Rightarrow> ceo_state \<Rightarrow> delegation option \<times> ceo_state" where
  "failDelegationTask clk taskId actorAgentId reason now s =
     (case findDelegation taskId s of
        None \<Rightarrow> (None, s)
      | Some task \<Rightarrow>
          if dg_assigned_agent_id task \<noteq> Some actorAgentId then (None, s)
          else
            let task = log_delegation Del_failed Ev_failed now (Some reason)
                  (task\<lparr>dg_status := Del_failed, dg_failure_reason := Some reason\<rparr>)
            in (Some task,
                ceo_audit clk ''delegation_failed'' actorAgentId taskId (Params_fields [(''reason'', JStr reason)])
                  ''failed'' (touch now (put_delegation taskId task s))))"

definition validateAgentInstructionResponse :: "string \<Rightarrow> string \<Rightarrow> ceo_state \<Rightarrow> bool" where
  "validateAgentInstructionResponse taskId agentId s \<longleftrightarrow>
     (case findDelegation taskId s of
        None \<Rightarrow> False
      | Some task \<Rightarrow> dg_assigned_agent_id task = Some agentId \<and> dg_status task = Del_delegated)"

section \<open>Broadcasts\<close>

record permission_check =
  pk_allowed :: bool
  pk_reason :: "string option"
  pk_requires_confirmation :: bool

record broadcast_input =
  bi_broadcast_id :: string
  bi_content :: string
  bi_priority :: priority_level
  bi_target_group :: "broadcast_group option"
  bi_target_agent_ids :: "string list option"
  bi_requires_acknowledgment :: "bool option"

definition checkBroadcastPermissions :: "broadcast_input \<Rightarrow> permission_check" where
  "checkBroadcastPermissions i =
     (let explicitTargets = length (nullish (bi_target_agent_ids i) []);
          wideAudience = (bi_target_group i = Some Group_all \<or> explicitTargets \<ge> 4)
      in if wideAudience \<or> bi_priority i = Level_critical then
           \<lparr>pk_allowed = False,
            pk_reason = Some ''Broadcast requires owner confirmation because it is high-impact.'',
            pk_requires_confirmation = True\<rparr>
         else \<lparr>pk_allowed = True, pk_reason = None, pk_requires_confirmation = False\<rparr>)"

fun group_members :: "group_config \<Rightarrow> broadcast_group \<Rightarrow> agent_type list" where
  "group_members c Group_all = gc_all c"
| "group_members c Group_delivery_team = gc_delivery_team c"
| "group_members c Group_client_facing = gc_client_facing c"

definition resolveBroadcastTargets ::
  "broadcast_group option \<Rightarrow> string list option \<Rightarrow> ceo_state \<Rightarrow> string list" where
  "resolveBroadcastTargets grp explicitAgentIds s =
     (if nullish explicitAgentIds [] \<noteq> [] then js_set (nullish explicitAgentIds [])
      else
        let agentTypes = (case grp of None \<Rightarrow> []
              | Some g \<Rightarrow> group_members (cg_broadcast_groups (cs_config s)) g)
        in map ae_agent_id
             (filter (\<lambda>agent. ae_agent_id agent \<noteq> cs_agent_id s \<and> ae_agent_type agent \<in> set agentTypes)
               (listAgents (cs_registry s))))"

definition createBroadcast ::
  "clock \<Rightarrow> broadcast_input \<Rightarrow> string \<Rightarrow> ceo_state \<Rightarrow> (broadcast \<times> permission_check) \<times> ceo_state" where
  "createBroadcast clk i timestamp s =
     (let permission = checkBroadcastPermissions i;
          targetAgentIds = resolveBroadcastTargets (bi_target_group i) (bi_target_agent_ids i) s;
          message = \<lparr>bc_broadcast_id = bi_broadcast_id i, bc_timestamp = timestamp, bc_priority = bi_priority i,
            bc_content = bi_content i, bc_target_group = bi_target_group i, bc_target_agent_ids = targetAgentIds,
            bc_requires_acknowledgment = nullish (bi_requires_acknowledgment i) True,
            bc_ack_timeout_seconds = mc_broadcast_ack_timeout (cg_monitoring (cs_config s)),
            bc_status = (if pk_allowed permission then Bc_pending_ack else Bc_blocked),
            bc_acknowledgments = foldl (\<lambda>m agentId. jm_set m agentId Ack_pending) [] targetAgentIds\<rparr>
      in ((message, permission),
          ceo_audit clk ''broadcast_created'' (cs_agent_id s) (bc_broadcast_id message)
            (Params_fields [(''target_group'', opt_value (map_option broadcast_group_str (bi_target_group i))),
               (''target_agent_ids'', JArr (map JStr targetAgentIds)),
               (''priority'', JStr (priority_level_str (bi_priority i)))]) (broadcast_status_str (bc_status message))
            (touch timestamp (s\<lparr>cs_broadcasts := message # cs_broadcasts s\<rparr>))))"

definition computeBroadcastStatus :: "(string, ack_state) js_map \<Rightarrow> broadcast_status" where
  "computeBroadcastStatus acknowledgments =
     (let values = jm_values acknowledgments in
      if values = [] then Bc_completed
      else if list_all (\<lambda>status. status = Ack_acknowledged) values then Bc_completed
      else if list_ex (\<lambda>status. status = Ack_acknowledged \<or> status = Ack_unresponsive) values then Bc_partial
      else Bc_pending_ack)"

text \<open>
  The acknowledgments are a plain object, so \<^verbatim>\<open>in\<close> also finds the names every object
  inherits; a write to one of them makes it the object's own, but for the name of the
  prototype, whose write with a text is ignored.
\<close>

definition inherited_names :: "string list" where
  "inherited_names =
     [''constructor'', ''hasOwnProperty'', ''isPrototypeOf'', ''propertyIsEnumerable'', ''toLocaleString'',
      ''toString'', ''valueOf'', ''__defineGetter__'', ''__defineSetter__'', ''__lookupGetter__'',
      ''__lookupSetter__'', ''__proto__'']"

definition acknowledge :: "string \<Rightarrow> (string, ack_state) js_map \<Rightarrow> (string, ack_state) js_map" where
  "acknowledge agentId acks =
     (if agentId = ''__proto__'' \<and> \<not> jm_has acks agentId then acks else jm_set acks agentId Ack_acknowledged)"

definition acknowledgeBroadcast ::
  "clock \<Rightarrow> string \<Rightarrow> string \<Rightarrow> string \<Rightarrow> ceo_state \<Rightarrow> broadcast option \<times> ceo_state" where
  "acknowledgeBroadcast clk broadcastId agentId now s =
     (case find (\<lambda>b. bc_broadcast_id b = broadcastId) (cs_broadcasts s) of
        None \<Rightarrow> (None, s)
      | Some b \<Rightarrow>
          if \<not> (jm_has (bc_acknowledgments b) agentId \<or> agentId \<in> set inherited_names) then (None, s)
          else
            let acks = acknowledge agentId (bc_acknowledgments b);
                b = b\<lparr>bc_acknowledgments := acks, bc_status := computeBroadcastStatus acks\<rparr>
            in (Some b,
                ceo_audit clk ''broadcast_acknowledged'' agentId broadcastId (Params_fields [])
                  (broadcast_status_str (bc_status b))
                  (touch now (s\<lparr>cs_broadcasts :=
                     modify_first (\<lambda>x. bc_broadcast_id x = broadcastId) (\<lambda>_. b) (cs_broadcasts s)\<rparr>))))"

definition past_deadline :: "string \<Rightarrow> broadcast \<Rightarrow> bool" where
  "past_deadline now b \<longleftrightarrow>
     bc_requires_acknowledgment b \<and> bc_status b \<noteq> Bc_completed \<and> bc_status b \<noteq> Bc_blocked \<and>
     \<not> time_less (date_parse now)
       (map_option (\<lambda>t. t + bc_ack_timeout_seconds b * 1000) (date_parse (bc_timestamp b)))"

definition expire_broadcast :: "broadcast \<Rightarrow> broadcast" where
  "expire_broadcast b =
     (let acks = map (\<lambda>(agentId, status).
            (agentId, if status = Ack_pending then Ack_unresponsive else status)) (bc_acknowledgments b)
      in b\<lparr>bc_acknowledgments := acks, bc_status := computeBroadcastStatus acks\<rparr>)"

fun expire_loop :: "clock \<Rightarrow> string \<Rightarrow> broadcast list \<Rightarrow> ceo_state \<Rightarrow> broadcast list \<times> ceo_state" where
  "expire_loop clk now [] s = ([], s)"
| "expire_loop clk now (b # bs) s =
     (let (b, s) =
        (if past_deadline now b then
           (expire_broadcast b,
            ceo_audit clk ''broadcast_timeout_processed'' (cs_agent_id s) (bc_broadcast_id b) (Params_fields [])
              (broadcast_status_str (bc_status (expire_broadcast b))) s)
         else (b, s));
          (bs, s) = expire_loop clk now bs s
      in (b # bs, s))"

definition expireBroadcastAcknowledgments :: "clock \<Rightarrow> string \<Rightarrow> ceo_state \<Rightarrow> ceo_state" where
  "expireBroadcastAcknowledgments clk now s =
     (let (bs, s) = expire_loop clk now (cs_broadcasts s) s in touch now (s\<lparr>cs_broadcasts := bs\<rparr>))"

section \<open>Properties of the component\<close>

section \<open>Reachable runtimes\<close>

text \<open>The steps of a runtime; the registry may also be changed by others.\<close>

inductive ceo_reachable :: "ceo_state \<Rightarrow> bool" where
  start: "ceo_reachable (newCeoRuntime clk r k config None now)"
| restart: "ceo_reachable s \<Longrightarrow> ceo_reachable (newCeoRuntime clk r k config (Some (exportState s)) now)"
| configured: "ceo_reachable s \<Longrightarrow> ceo_reachable (updateRuntimeConfig clk updates now s)"
| started: "ceo_reachable s \<Longrightarrow> ceo_reachable (startup clk now s)"
| stopped: "ceo_reachable s \<Longrightarrow> ceo_reachable (snd (shutdown clk now s))"
| heartbeat: "ceo_reachable s \<Longrightarrow> ceo_reachable (ceo_heartbeat clk now s)"
| decision: "ceo_reachable s \<Longrightarrow> ceo_reachable (recordDecision clk d s)"
| validated: "ceo_reachable s \<Longrightarrow> ceo_reachable (snd (validateOwnerIdentity clk i now s))"
| directive: "ceo_reachable s \<Longrightarrow> ceo_reachable (snd (executeOwnerDirective clk raw i mode now s))"
| recorded: "ceo_reachable s \<Longrightarrow> ceo_reachable (snd (recordDirective clk command st now s))"
| directive_status: "ceo_reachable s \<Longrightarrow> ceo_reachable (updateDirectiveStatus clk i st s)"
| provided: "ceo_reachable s \<Longrightarrow> ceo_reachable (snd (provisionAgents clk t n p now s))"
| delegated: "ceo_reachable s \<Longrightarrow> ceo_reachable (snd (createDelegationTask clk di now s))"
| acknowledged: "ceo_reachable s \<Longrightarrow> ceo_reachable (acknowledgeDelegationTask clk task agent now s)"
| instructed: "ceo_reachable s \<Longrightarrow> ceo_reachable (snd (addDelegationInstruction clk task note now s))"
| redelegated: "ceo_reachable s \<Longrightarrow> ceo_reachable (snd (redelegateTask clk task t now s))"
| completed: "ceo_reachable s \<Longrightarrow> ceo_reachable (snd (completeDelegationTask clk task agent summary now s))"
| failed: "ceo_reachable s \<Longrightarrow> ceo_reachable (snd (failDelegationTask clk task agent reason now s))"
| broadcast: "ceo_reachable s \<Longrightarrow> ceo_reachable (snd (createBroadcast clk bi now s))"
| broadcast_ack: "ceo_reachable s \<Longrightarrow> ceo_reachable (snd (acknowledgeBroadcast clk bid agent now s))"
| expired: "ceo_reachable s \<Longrightarrow> ceo_reachable (expireBroadcastAcknowledgments clk now s)"
| elsewhere: "ceo_reachable s \<Longrightarrow> ceo_reachable (s\<lparr>cs_registry := r\<rparr>)"

text \<open>
  The history ends with the two entries of the creation, in the order of time; what came later
  stands before them, the newest first. The status is the one of the latest entry.
\<close>

definition history_ok :: "delegation \<Rightarrow> bool" where
  "history_ok t \<longleftrightarrow>
     (\<exists>newer first.
        dg_status_history t =
          newer @ [\<lparr>dh_status = Del_draft, dh_event = Ev_created, dh_timestamp = dg_created_at t, dh_note = None\<rparr>, first] \<and>
        dh_timestamp first = dg_created_at t \<and>
        dg_status t = dh_status (hd (newer @ [first])) \<and> dg_updated_at t = dh_timestamp (hd (newer @ [first])))"

definition delegation_ok :: "delegation \<Rightarrow> bool" where
  "delegation_ok t \<longleftrightarrow> history_ok t \<and> dg_status t \<noteq> Del_draft \<and>
     (dg_status t \<in> {Del_delegated, Del_completed, Del_failed} \<longrightarrow> dg_assigned_agent_id t \<noteq> None) \<and>
     (dg_status t = Del_failed \<longrightarrow> dg_failure_reason t \<noteq> None) \<and>
     (dg_status t = Del_completed \<longrightarrow> (\<exists>r. dg_latest_result_summary t = Some r \<and> missing_criteria t r = []))"

definition broadcast_ok :: "broadcast \<Rightarrow> bool" where
  "broadcast_ok b \<longleftrightarrow>
     distinct (jm_keys (bc_acknowledgments b)) \<and>
     set (bc_target_agent_ids b) \<subseteq> set (jm_keys (bc_acknowledgments b)) \<and>
     set (jm_keys (bc_acknowledgments b)) \<subseteq> set (bc_target_agent_ids b) \<union> set inherited_names \<and>
     (bc_status b = computeBroadcastStatus (bc_acknowledgments b) \<or>
      bc_status b \<in> {Bc_pending_ack, Bc_blocked} \<and> list_all (\<lambda>a. a = Ack_pending) (jm_values (bc_acknowledgments b)))"

definition ceo_ok :: "ceo_state \<Rightarrow> bool" where
  "ceo_ok s \<longleftrightarrow> list_all delegation_ok (cs_delegations s) \<and> list_all broadcast_ok (cs_broadcasts s)"

lemma ceo_ok_guarded: "guarded s' = guarded s \<Longrightarrow> ceo_ok s \<Longrightarrow> ceo_ok s'"
  by (simp add: guarded_def ceo_ok_def)

lemma ceo_ok_lists: "cs_delegations s' = cs_delegations s \<Longrightarrow> cs_broadcasts s' = cs_broadcasts s \<Longrightarrow> ceo_ok s \<Longrightarrow> ceo_ok s'"
  by (simp add: ceo_ok_def)

lemma list_all_modify: "list_all p xs \<Longrightarrow> (\<And>x. x \<in> set xs \<Longrightarrow> q x \<Longrightarrow> p (f x)) \<Longrightarrow> list_all p (modify_first q f xs)"
  by (induction xs) auto

lemma found_ok: "ceo_ok s \<Longrightarrow> findDelegation k s = Some t \<Longrightarrow> delegation_ok t"
  by (auto simp: ceo_ok_def findDelegation_def list_all_iff find_Some_iff)

lemma put_ok: "ceo_ok s \<Longrightarrow> delegation_ok t \<Longrightarrow> ceo_ok (put_delegation k t s)"
  by (simp add: ceo_ok_def put_delegation_def list_all_modify)

lemma ceo_ok_audit [simp]: "ceo_ok (ceo_audit clk a b c d e s) = ceo_ok s" "ceo_ok (touch t s) = ceo_ok s"
  by (simp_all add: ceo_ok_def)

lemma missing_criteria_cong: "dg_success_criteria t = dg_success_criteria u \<Longrightarrow> missing_criteria t r = missing_criteria u r"
  by (simp add: missing_criteria_def)

text \<open>A new entry on top that carries the status of the task.\<close>

lemma history_log:
  assumes "history_ok t" "dg_status_history u = dg_status_history t" "dg_created_at u = dg_created_at t" "dg_status u = st"
  shows "history_ok (log_delegation st ev now note u)"
proof -
  obtain newer first where h: "dg_status_history t =
      newer @ [\<lparr>dh_status = Del_draft, dh_event = Ev_created, dh_timestamp = dg_created_at t, dh_note = None\<rparr>, first]"
      "dh_timestamp first = dg_created_at t"
    using assms(1) by (auto simp: history_ok_def)
  let ?e = "\<lparr>dh_status = st, dh_event = ev, dh_timestamp = now, dh_note = note\<rparr>"
  show ?thesis
    unfolding history_ok_def by (rule exI [of _ "?e # newer"], rule exI [of _ first]) (simp add: log_delegation_def h assms)
qed

lemma log_fields [simp]:
  "dg_status (log_delegation st ev now note u) = dg_status u"
  "dg_assigned_agent_id (log_delegation st ev now note u) = dg_assigned_agent_id u"
  "dg_failure_reason (log_delegation st ev now note u) = dg_failure_reason u"
  "dg_latest_result_summary (log_delegation st ev now note u) = dg_latest_result_summary u"
  "dg_success_criteria (log_delegation st ev now note u) = dg_success_criteria u"
  "missing_criteria (log_delegation st ev now note u) r = missing_criteria u r"
  by (simp_all add: log_delegation_def missing_criteria_def)

lemma delegation_log:
  assumes "delegation_ok t" "dg_status_history u = dg_status_history t" "dg_created_at u = dg_created_at t" "dg_status u = st"
    and "st \<noteq> Del_draft" "st \<in> {Del_delegated, Del_completed, Del_failed} \<Longrightarrow> dg_assigned_agent_id u \<noteq> None"
    and "st = Del_failed \<Longrightarrow> dg_failure_reason u \<noteq> None"
    and "st = Del_completed \<Longrightarrow> \<exists>r. dg_latest_result_summary u = Some r \<and> missing_criteria u r = []"
  shows "delegation_ok (log_delegation st ev now note u)"
proof -
  have "history_ok (log_delegation st ev now note u)"
    using assms(1-4) by (intro history_log) (simp_all add: delegation_ok_def)
  then show ?thesis using assms(4-8) unfolding delegation_ok_def log_fields by simp
qed

lemma new_delegation_ok: "delegation_ok (new_delegation i a now)"
proof -
  have "history_ok (new_delegation i a now)"
    unfolding history_ok_def by (rule exI [of _ "[]"]) (auto simp: new_delegation_def Let_def split: option.split)
  then show ?thesis by (auto simp: delegation_ok_def new_delegation_def Let_def)
qed

section \<open>The operations on delegations keep it\<close>

lemma delegate_ok:
  assumes s: "ceo_ok s"
  shows "ceo_ok (snd (createDelegationTask clk i now s))"
proof -
  have "ceo_ok (s\<lparr>cs_delegations := new_delegation i a now # cs_delegations s\<rparr>)" for a
    using s by (simp add: ceo_ok_def new_delegation_ok)
  then show ?thesis by (simp add: createDelegationTask_def Let_def)
qed

lemma acknowledge_task_ok:
  assumes s: "ceo_ok s"
  shows "ceo_ok (acknowledgeDelegationTask clk k agent now s)"
proof -
  have "delegation_ok (log_delegation (dg_status t) ev now n (t\<lparr>dg_ack_status := a\<rparr>))"
    if "findDelegation k s = Some t" for t ev n a
  proof -
    have t: "delegation_ok t" using found_ok [OF s that] .
    have "missing_criteria (t\<lparr>dg_ack_status := a\<rparr>) r = missing_criteria t r" for r by (rule missing_criteria_cong) simp
    then show ?thesis using t by (intro delegation_log [OF t]) (auto simp: delegation_ok_def)
  qed
  then show ?thesis using s by (auto simp: acknowledgeDelegationTask_def Let_def put_ok split: option.split)
qed

lemma instruct_ok:
  assumes s: "ceo_ok s"
  shows "ceo_ok (snd (addDelegationInstruction clk k note now s))"
proof -
  have "delegation_ok (log_delegation (dg_status t) ev now n t)" if "findDelegation k s = Some t" for t ev n
    using found_ok [OF s that] by (intro delegation_log [OF found_ok [OF s that]]) (auto simp: delegation_ok_def)
  then show ?thesis using s by (auto simp: addDelegationInstruction_def Let_def put_ok split: option.split)
qed

lemma redelegate_ok:
  assumes s: "ceo_ok s"
  shows "ceo_ok (snd (redelegateTask clk k target now s))"
proof -
  have "delegation_ok (log_delegation Del_escalated ev now n (t\<lparr>dg_status := Del_escalated, dg_ack_status := a\<rparr>))"
      "delegation_ok (log_delegation Del_delegated ev now n
         (t\<lparr>dg_target_agent := ty, dg_assigned_agent_id := Some x, dg_status := Del_delegated, dg_ack_status := a\<rparr>))"
    if "findDelegation k s = Some t" for t ev n a x ty
    by (rule delegation_log [OF found_ok [OF s that]]; simp)+
  then show ?thesis using s by (auto simp: redelegateTask_def Let_def put_ok split: option.split)
qed

lemma complete_ok:
  assumes s: "ceo_ok s"
  shows "ceo_ok (snd (completeDelegationTask clk k agent summary now s))"
proof -
  have "delegation_ok (log_delegation Del_completed ev now n
         (t\<lparr>dg_latest_result_summary := Some summary, dg_updated_at := u, dg_status := Del_completed\<rparr>))"
    if "findDelegation k s = Some t" "missing_criteria t summary = []" "dg_assigned_agent_id t = Some agent" for t ev n u
  proof (rule delegation_log [OF found_ok [OF s that(1)]])
    show "\<exists>r. dg_latest_result_summary (t\<lparr>dg_latest_result_summary := Some summary, dg_updated_at := u, dg_status := Del_completed\<rparr>) =
        Some r \<and> missing_criteria (t\<lparr>dg_latest_result_summary := Some summary, dg_updated_at := u, dg_status := Del_completed\<rparr>) r = []"
      using that(2) by (simp add: missing_criteria_def)
  qed (simp_all add: that)
  moreover have "delegation_ok (log_delegation Del_failed ev now n
         (t\<lparr>dg_latest_result_summary := Some summary, dg_updated_at := u, dg_status := Del_failed, dg_failure_reason := Some why\<rparr>))"
    if "findDelegation k s = Some t" "dg_assigned_agent_id t = Some agent" for t ev n u why
    by (rule delegation_log [OF found_ok [OF s that(1)]]) (simp_all add: that)
  ultimately show ?thesis using s by (auto simp: completeDelegationTask_def Let_def put_ok split: option.split)
qed

lemma fail_ok:
  assumes s: "ceo_ok s"
  shows "ceo_ok (snd (failDelegationTask clk k agent reason now s))"
proof -
  have "delegation_ok (log_delegation Del_failed ev now n (t\<lparr>dg_status := Del_failed, dg_failure_reason := Some why\<rparr>))"
    if "findDelegation k s = Some t" "dg_assigned_agent_id t = Some agent" for t ev n why
    by (rule delegation_log [OF found_ok [OF s that(1)]]) (simp_all add: that)
  then show ?thesis using s by (auto simp: failDelegationTask_def Let_def put_ok split: option.split)
qed

section \<open>Acknowledgments\<close>

text \<open>The acknowledgments of the targets when some agents have answered.\<close>

definition acks_of :: "string list \<Rightarrow> string set \<Rightarrow> (string, ack_state) js_map" where
  "acks_of ts answered = map (\<lambda>k. (k, if k \<in> answered then Ack_acknowledged else Ack_pending)) ts"

lemma acks_of_keys [simp]: "jm_keys (acks_of ts a) = ts"
  by (simp add: acks_of_def jm_keys_def comp_def)

lemma acks_of_has [simp]: "jm_has (acks_of ts a) k \<longleftrightarrow> k \<in> set ts"
  by (simp add: jm_has_iff)

lemma acks_of_get: "k \<in> set ts \<Longrightarrow> jm_get (acks_of ts a) k = Some (if k \<in> a then Ack_acknowledged else Ack_pending)"
  by (induction ts) (auto simp: acks_of_def jm_get_def)

lemma acks_of_set: "distinct ts \<Longrightarrow> k \<in> set ts \<Longrightarrow> jm_set (acks_of ts a) k Ack_acknowledged = acks_of ts (insert k a)"
  by (induction ts) (auto simp: acks_of_def)

lemma acks_created: "distinct ts \<Longrightarrow> foldl (\<lambda>m k. jm_set m k Ack_pending) [] ts = acks_of ts {}"
proof (induction ts rule: rev_induct)
  case (snoc t ts)
  then have "jm_set (acks_of ts {}) t Ack_pending = acks_of ts {} @ [(t, Ack_pending)]"
    by (intro jm_set_fresh) (simp add: jm_get_None_iff)
  with snoc show ?case by (simp add: acks_of_def)
qed (simp add: acks_of_def)

lemma status_acks_of:
  "computeBroadcastStatus (acks_of ts a) =
     (if set ts \<subseteq> a then Bc_completed else if set ts \<inter> a = {} then Bc_pending_ack else Bc_partial)"
proof -
  let ?v = "jm_values (acks_of ts a)"
  have v: "?v = map (\<lambda>k. if k \<in> a then Ack_acknowledged else Ack_pending) ts"
    by (simp add: acks_of_def jm_values_def)
  have "?v = [] \<longleftrightarrow> ts = []" "list_all (\<lambda>x. x = Ack_acknowledged) ?v \<longleftrightarrow> set ts \<subseteq> a"
      "list_ex (\<lambda>x. x = Ack_acknowledged \<or> x = Ack_unresponsive) ?v \<longleftrightarrow> set ts \<inter> a \<noteq> {}"
    by (auto simp: v list_all_iff list_ex_iff)
  then show ?thesis by (simp add: computeBroadcastStatus_def Let_def)
qed

lemma distinct_targets: "keyed_by ae_agent_id (reg_agents (cs_registry s)) \<Longrightarrow> distinct (resolveBroadcastTargets g ids s)"
  using distinct_keyed_values [of ae_agent_id "reg_agents (cs_registry s)"]
  by (auto simp: resolveBroadcastTargets_def listAgents_def Let_def distinct_map_filter)

section \<open>The operations on broadcasts keep it\<close>


lemma create_broadcast_ok:
  assumes "ceo_ok s"
  shows "ceo_ok (snd (createBroadcast clk i t s))"
proof -
  let ?ts = "resolveBroadcastTargets (bi_target_group i) (bi_target_agent_ids i) s"
  define acks where "acks = foldl (\<lambda>m k. jm_set m k Ack_pending) [] ?ts"
  have keys: "set (jm_keys (foldl (\<lambda>m k. jm_set m k Ack_pending) m ts)) = set (jm_keys m) \<union> set ts \<and>
      (distinct (jm_keys m) \<longrightarrow> distinct (jm_keys (foldl (\<lambda>m k. jm_set m k Ack_pending) m ts))) \<and>
      (set (jm_values m) \<subseteq> {Ack_pending} \<longrightarrow> set (jm_values (foldl (\<lambda>m k. jm_set m k Ack_pending) m ts)) \<subseteq> {Ack_pending})"
    for m and ts :: "string list"
  proof (induction ts arbitrary: m)
    case (Cons t ts)
    have "set (jm_values m) \<subseteq> {Ack_pending} \<Longrightarrow> set (jm_values (jm_set m t Ack_pending)) \<subseteq> {Ack_pending}"
      using jm_values_set_subset [of m t Ack_pending] by blast
    with Cons [of "jm_set m t Ack_pending"] show ?case by auto
  qed simp
  have "set (jm_keys acks) = set ?ts" "distinct (jm_keys acks)" "set (jm_values acks) \<subseteq> {Ack_pending}"
    using keys [of "[]" ?ts] by (simp_all add: acks_def jm_keys_def jm_values_def)
  then show ?thesis
    using assms by (auto simp: createBroadcast_def Let_def ceo_ok_def broadcast_ok_def acks_def [symmetric] list_all_iff)
qed

lemma acknowledge_broadcast_ok:
  assumes "ceo_ok s"
  shows "ceo_ok (snd (acknowledgeBroadcast clk bid agent now s))"
proof (cases "find (\<lambda>b. bc_broadcast_id b = bid) (cs_broadcasts s)")
  case None
  then show ?thesis using assms by (simp add: acknowledgeBroadcast_def)
next
  case (Some b)
  then have b: "broadcast_ok b" using assms by (auto simp: ceo_ok_def list_all_iff find_Some_iff)
  let ?acks = "acknowledge agent (bc_acknowledgments b)"
  have "broadcast_ok (b\<lparr>bc_acknowledgments := ?acks, bc_status := computeBroadcastStatus ?acks\<rparr>)"
    if "jm_has (bc_acknowledgments b) agent \<or> agent \<in> set inherited_names"
    using b that by (auto simp: broadcast_ok_def acknowledge_def jm_has_iff)
  then show ?thesis
    using assms Some by (auto simp: acknowledgeBroadcast_def Let_def ceo_ok_def list_all_modify)
qed

lemma expire_ok: "broadcast_ok b \<Longrightarrow> broadcast_ok (expire_broadcast b)"
proof -
  have "jm_keys (map (\<lambda>(k, v). (k, f v)) m) = jm_keys m" for f :: "ack_state \<Rightarrow> ack_state" and m :: "(string, ack_state) js_map"
    by (simp add: jm_keys_def comp_def split_def)
  then show "broadcast_ok b \<Longrightarrow> broadcast_ok (expire_broadcast b)"
    by (simp add: broadcast_ok_def expire_broadcast_def Let_def)
qed

lemma expire_loop_ok:
  "list_all broadcast_ok bs \<Longrightarrow> list_all broadcast_ok (fst (expire_loop clk now bs s)) \<and>
   cs_delegations (snd (expire_loop clk now bs s)) = cs_delegations s"
  by (induction clk now bs s rule: expire_loop.induct) (auto simp: expire_ok Let_def split: prod.splits if_splits)

lemma expire_all_ok: "ceo_ok s \<Longrightarrow> ceo_ok (expireBroadcastAcknowledgments clk now s)"
  using expire_loop_ok [of "cs_broadcasts s" clk now s]
  by (auto simp: expireBroadcastAcknowledgments_def ceo_ok_def split: prod.splits)

section \<open>The other operations leave both lists\<close>

lemma guarded_lists: "guarded s' = guarded s \<Longrightarrow> cs_delegations s' = cs_delegations s \<and> cs_broadcasts s' = cs_broadcasts s"
  by (simp add: guarded_def)

lemma run_lists:
  "cs_delegations (snd (runOwnerCommand clk c now s)) = cs_delegations s \<and>
   cs_broadcasts (snd (runOwnerCommand clk c now s)) = cs_broadcasts s"
  by (auto simp: runOwnerCommand_def provisionAgents_def Let_def split: command_type.splits option.splits prod.splits)

lemma guarded_execute_lists:
  "cs_delegations (snd (executeOwnerDirective clk raw i mode now s)) = cs_delegations s \<and>
   cs_broadcasts (snd (executeOwnerDirective clk raw i mode now s)) = cs_broadcasts s"
proof -
  obtain res s1 where v: "validateOwnerIdentity clk i now s = (res, s1)" by fastforce
  then have s1: "guarded s1 = guarded s" using guarded_validate [of clk i now s] by simp
  have stored: "cs_delegations (snd (storeDirective clk d s1)) = cs_delegations s \<and>
      cs_broadcasts (snd (storeDirective clk d s1)) = cs_broadcasts s" for d
    using s1 by (intro guarded_lists) simp
  have finished: "cs_delegations (updateDirectiveStatus clk k st (snd (runOwnerCommand clk c now (snd (storeDirective clk d s1))))) =
      cs_delegations s \<and>
      cs_broadcasts (updateDirectiveStatus clk k st (snd (runOwnerCommand clk c now (snd (storeDirective clk d s1))))) = cs_broadcasts s"
    for k st c d
    using guarded_lists [OF guarded_status] run_lists stored by metis
  show ?thesis
  proof (cases res)
    case (Inl e)
    then show ?thesis using v guarded_lists [OF s1] by (simp add: executeOwnerDirective_def)
  next
    case (Inr a)
    then show ?thesis
      using v stored finished
      by (cases a; cases "parseOwnerCommand raw mode now") (simp_all add: executeOwnerDirective_def recordDirective_def split_def Let_def)
  qed
qed

lemma ceo_reachable_ok: "ceo_reachable s \<Longrightarrow> ceo_ok s"
proof (induction rule: ceo_reachable.induct)
  case (start clk r k config now)
  then show ?case by (simp add: ceo_ok_def newCeoRuntime_def Let_def)
next
  case (restart s clk r k config now)
  then show ?case by (simp add: ceo_ok_def newCeoRuntime_def Let_def loadState_def exportState_def)
next
  case (recorded s clk command st now)
  then show ?case by (simp add: ceo_ok_def recordDirective_def storeDirective_def)
next
  case (provided s clk t n p now)
  then show ?case by (simp add: ceo_ok_def provisionAgents_def Let_def split: prod.splits)
next
  case (directive s clk raw i mode now)
  then show ?case using guarded_execute_lists ceo_ok_lists by blast
next
  case (validated s clk i now)
  then show ?case using guarded_validate ceo_ok_guarded by blast
next
  case (directive_status s clk i st)
  then show ?case using guarded_status ceo_ok_guarded by blast
qed (simp_all add: updateRuntimeConfig_def startup_def shutdown_def ceo_heartbeat_def recordDecision_def Let_def
    delegate_ok acknowledge_task_ok instruct_ok redelegate_ok complete_ok fail_ok create_broadcast_ok
    acknowledge_broadcast_ok expire_all_ok, simp_all add: ceo_ok_def)

section \<open>A broadcast and its answers\<close>

fun acknowledge_all :: "clock \<Rightarrow> string \<Rightarrow> string list \<Rightarrow> string \<Rightarrow> ceo_state \<Rightarrow> ceo_state" where
  "acknowledge_all clk bid [] now s = s"
| "acknowledge_all clk bid (a # as) now s = acknowledge_all clk bid as now (snd (acknowledgeBroadcast clk bid a now s))"

lemma acknowledge_all_append:
  "acknowledge_all clk bid (as @ bs) now s = acknowledge_all clk bid bs now (acknowledge_all clk bid as now s)"
  by (induction clk bid as now s rule: acknowledge_all.induct) simp_all

lemma find_modify_first: "find p xs = Some x \<Longrightarrow> p y \<Longrightarrow> find p (modify_first p (\<lambda>_. y) xs) = Some y"
  by (induction xs) (auto split: if_splits)

lemma acknowledged_so_far:
  assumes "find (\<lambda>b. bc_broadcast_id b = bid) (cs_broadcasts s) = Some b" "bc_acknowledgments b = acks_of ts {}"
    and "distinct ts" "set as \<subseteq> set ts" "as \<noteq> []"
  shows "\<exists>b'. find (\<lambda>b. bc_broadcast_id b = bid) (cs_broadcasts (acknowledge_all clk bid as now s)) = Some b' \<and>
    bc_acknowledgments b' = acks_of ts (set as) \<and> bc_status b' = computeBroadcastStatus (acks_of ts (set as))"
  using assms(4,5)
proof (induction as rule: rev_induct)
  case (snoc a as)
  have "\<exists>b'. find (\<lambda>b. bc_broadcast_id b = bid) (cs_broadcasts (acknowledge_all clk bid as now s)) = Some b' \<and>
      bc_acknowledgments b' = acks_of ts (set as)"
    using snoc.IH snoc.prems(1) assms(1,2) by (cases "as = []") auto
  then obtain b' where b': "find (\<lambda>b. bc_broadcast_id b = bid) (cs_broadcasts (acknowledge_all clk bid as now s)) = Some b'"
      "bc_acknowledgments b' = acks_of ts (set as)" by blast
  have a: "a \<in> set ts" using snoc.prems(1) by simp
  have bid: "bc_broadcast_id b' = bid" using b'(1) by (auto simp: find_Some_iff)
  have "acknowledge a (acks_of ts (set as)) = acks_of ts (set (as @ [a]))"
    using a acks_of_set [OF assms(3) a] by (simp add: acknowledge_def)
  then show ?case
    using a b' bid find_modify_first [OF b'(1)]
    by (simp add: acknowledge_all_append acknowledgeBroadcast_def Let_def)
qed simp

text \<open>
  C8: In every reachable runtime, restarts included, a delegated, finished or failed task
  has an agent, a failed one a reason, a finished one a result that meets its criteria, its
  status and time are those of the latest entry of its history; and a broadcast has an
  answer slot for every agent it went to, and a status that follows from the answers unless
  none came.
\<close>

theorem ceo_invariant:
  assumes "ceo_reachable s"
  shows "list_all (\<lambda>t. history_ok t \<and> dg_status t \<noteq> Del_draft \<and>
      (dg_status t \<in> {Del_delegated, Del_completed, Del_failed} \<longrightarrow> dg_assigned_agent_id t \<noteq> None) \<and>
      (dg_status t = Del_failed \<longrightarrow> dg_failure_reason t \<noteq> None) \<and>
      (dg_status t = Del_completed \<longrightarrow> (\<exists>r. dg_latest_result_summary t = Some r \<and> missing_criteria t r = [])))
      (cs_delegations s) \<and>
    list_all (\<lambda>b. set (bc_target_agent_ids b) \<subseteq> set (jm_keys (bc_acknowledgments b)) \<and>
      (bc_status b = computeBroadcastStatus (bc_acknowledgments b) \<or>
       bc_status b \<in> {Bc_pending_ack, Bc_blocked} \<and>
       list_all (\<lambda>a. a = Ack_pending) (jm_values (bc_acknowledgments b)))) (cs_broadcasts s)"
  using ceo_reachable_ok [OF assms] unfolding ceo_ok_def delegation_ok_def broadcast_ok_def list_all_iff by blast

theorem ceo_invariant_witness:
  "\<exists>(s :: ceo_state) t. cs_delegations s = [t] \<and> dg_status t = Del_escalated \<and> history_ok t"
proof -
  let ?i = "\<lparr>di_task_id = ''t'', di_target_agent = Sales_agent, di_instructions = [], di_priority = Level_low,
     di_success_criteria = [], di_context = None, di_deadline = None, di_project_id = ''p''\<rparr>"
  let ?init = "newCeoRuntime (\<lambda>_. []) empty_registry ''ceo-1'' no_config_update None []"
  let ?s = "snd (createDelegationTask (\<lambda>_. []) ?i [] ?init)"
  have "reg_agents (cs_registry ?init) = []" by (simp add: newCeoRuntime_def Let_def empty_registry_def)
  then have "selectAgent Sales_agent ''p'' (cs_registry ?init) = None" by (simp add: selectAgent_def listAgents_def jm_values_def)
  moreover have "cs_delegations ?init = []" by (simp add: newCeoRuntime_def Let_def)
  ultimately have t: "cs_delegations ?s = [new_delegation ?i None []]" by (simp add: createDelegationTask_def Let_def)
  have "ceo_reachable ?s" by (intro ceo_reachable.delegated ceo_reachable.start)
  from ceo_invariant [OF this] t have "history_ok (new_delegation ?i None [])" by simp
  moreover have "dg_status (new_delegation ?i None []) = Del_escalated" by (simp add: new_delegation_def Let_def)
  ultimately show ?thesis using t by blast
qed

text \<open>
  A new broadcast of which some agents it went to have answered is completed exactly when
  all of them have and partial otherwise, whatever the order and the repetitions. This holds
  for a blocked broadcast too: the first answer lifts the block that waits for the
  confirmation of the owner.
\<close>

theorem broadcast_answers_exact:
  assumes "keyed_by ae_agent_id (reg_agents (cs_registry s))" "createBroadcast clk i t s = ((b, permission), s')"
    and "as \<noteq> []" "set as \<subseteq> set (bc_target_agent_ids b)"
  shows "\<exists>b'. find (\<lambda>b. bc_broadcast_id b = bi_broadcast_id i)
        (cs_broadcasts (acknowledge_all clk (bi_broadcast_id i) as now s')) = Some b' \<and>
    bc_status b' = (if set (bc_target_agent_ids b) \<subseteq> set as then Bc_completed else Bc_partial) \<and>
    (\<forall>k \<in> set (bc_target_agent_ids b). jm_get (bc_acknowledgments b') k =
       Some (if k \<in> set as then Ack_acknowledged else Ack_pending))"
proof -
  let ?ts = "bc_target_agent_ids b"
  have b: "find (\<lambda>b. bc_broadcast_id b = bi_broadcast_id i) (cs_broadcasts s') = Some b"
      "bc_acknowledgments b = acks_of ?ts {}" "distinct ?ts"
    using assms(2) distinct_targets [OF assms(1)] by (auto simp: createBroadcast_def Let_def acks_created)
  have "set ?ts \<inter> set as \<noteq> {}" using assms(3,4) by (cases as) auto
  then show ?thesis
    using acknowledged_so_far [OF b assms(4,3), of clk now]
    unfolding status_acks_of using acks_of_get [of _ ?ts "set as"] by (elim exE conjE) (intro exI conjI ballI, assumption, simp_all)
qed

theorem broadcast_answers_exact_witness:
  "\<exists>s i b b' permission s'. createBroadcast (\<lambda>_. []) i [] s = ((b, permission), s') \<and> bc_status b = Bc_blocked \<and>
     find (\<lambda>b. bc_broadcast_id b = ''b'') (cs_broadcasts (acknowledge_all (\<lambda>_. []) ''b'' [''x''] [] s')) = Some b' \<and>
     bc_status b' = Bc_completed"
proof -
  let ?s = "newCeoRuntime (\<lambda>_. []) empty_registry ''ceo-1'' no_config_update None []"
  let ?i = "\<lparr>bi_broadcast_id = ''b'', bi_content = [], bi_priority = Level_critical, bi_target_group = None,
     bi_target_agent_ids = Some [''x''], bi_requires_acknowledgment = None\<rparr>"
  obtain b permission s' where c: "createBroadcast (\<lambda>_. []) ?i [] ?s = ((b, permission), s')"
    by (metis prod.exhaust)
  then have b: "bc_target_agent_ids b = [''x'']" "bc_status b = Bc_blocked"
    by (auto simp: createBroadcast_def Let_def resolveBroadcastTargets_def js_set_def set_add_def
        checkBroadcastPermissions_def)
  have "keyed_by ae_agent_id (reg_agents (cs_registry ?s))"
    by (simp add: newCeoRuntime_def Let_def touch_def empty_registry_def)
  from broadcast_answers_exact [OF this c, of "[''x'']" "[]"] b
  obtain b' where "find (\<lambda>b. bc_broadcast_id b = ''b'') (cs_broadcasts (acknowledge_all (\<lambda>_. []) ''b'' [''x''] [] s')) = Some b'"
      "bc_status b' = Bc_completed"
    by auto
  with c b(2) show ?thesis by blast
qed

end
