(* ===== verification/Runtime_World.thy ===== *)
theory Runtime_World
  imports Marketing_Flow Sales_Flow Support_Flow Project_Manager Product_Runtime Engineering_Flow Ceo_Delegation
begin

text \<open>
  What the running application keeps, \<^verbatim>\<open>src/runtime-app/orchestration/runtimeApp.ts\<close> and
  \<^verbatim>\<open>src/runtime-app/integration/bootstrap.ts\<close>: the stores of the agents, one registry that
  the shell, the product runtime and the CEO share, and the files of the host. The shell
  (\<^verbatim>\<open>src/runtime/\<close>) is not in the repository: its operations are parameters that act on the
  registry and on a state of their own.
\<close>

section \<open>The shell\<close>

record blocker_input =
  bi_blocker_id :: string
  bi_summary :: string
  bi_severity :: string
  bi_created_at :: string
  bi_project_id :: string
  bi_owner_agent :: string

record 'x shell_port =
  sh_registerAgent :: "agent_entry \<Rightarrow> (unit, registry \<times> 'x) io"
  sh_updateAgent :: "string \<Rightarrow> agent_update list \<Rightarrow> (unit, registry \<times> 'x) io"
  sh_registerProject :: "project_entry \<Rightarrow> (unit, registry \<times> 'x) io"
  sh_updateProject :: "string \<Rightarrow> project_update list \<Rightarrow> (unit, registry \<times> 'x) io"
  sh_setSupportTicketCount :: "nat \<Rightarrow> (unit, registry \<times> 'x) io"
  sh_recordApprovalRequest :: "approval_request \<Rightarrow> (unit, registry \<times> 'x) io"
  sh_applyApprovalResponse :: "approval_response \<Rightarrow> (unit, registry \<times> 'x) io"
  sh_transitionProjectLifecycle ::
    "string \<Rightarrow> lifecycle_state \<Rightarrow> lifecycle_event \<Rightarrow> agent_type \<Rightarrow> string \<Rightarrow> string \<Rightarrow> (bool, registry \<times> 'x) io"
  sh_routeMessage :: "agent_message \<Rightarrow> registry \<times> 'x \<Rightarrow> string option \<times> registry \<times> 'x"
  sh_pending_approvals :: "string \<Rightarrow> (approval_request list, registry \<times> 'x) io"
  sh_addBlocker :: "blocker_input \<Rightarrow> (unit, registry \<times> 'x) io"

section \<open>Workers\<close>

text \<open>The fields of a descriptor the sources read or write.\<close>

record worker_descriptor =
  wk_worker_id :: string
  wk_agent_id :: string
  wk_agent_type :: agent_type
  wk_status :: string
  wk_project_id :: "string option"

definition workerToRegistryEntry :: "worker_descriptor \<Rightarrow> string \<Rightarrow> agent_entry" where
  "workerToRegistryEntry worker timestamp =
     \<lparr>ae_agent_id = wk_agent_id worker, ae_agent_type = wk_agent_type worker,
      ae_status = (if wk_status worker = ''offline'' then AS_offline else AS_idle),
      ae_current_project_id = wk_project_id worker, ae_last_activity = timestamp\<rparr>"

definition createWorker :: "string \<Rightarrow> agent_type \<Rightarrow> worker_descriptor" where
  "createWorker agentId agentType =
     \<lparr>wk_worker_id = ''worker-'' @ agentId, wk_agent_id = agentId, wk_agent_type = agentType,
      wk_status = ''ready'', wk_project_id = None\<rparr>"

definition createDefaultWorkers :: "worker_descriptor list" where
  "createDefaultWorkers =
     [createWorker ''ceo-1'' Ceo_agent, createWorker ''marketing-1'' Marketing_agent,
      createWorker ''sales-1'' Sales_agent, createWorker ''product-1'' Product_agent,
      createWorker ''engineering-1'' Engineering_agent, createWorker ''pm-1'' Project_manager_agent,
      createWorker ''support-1'' Support_agent]"

section \<open>The state of the application\<close>

text \<open>The fixed parts: shell, workers by their type, base directory; and the host with its clock.\<close>

record 'x operational_app =
  oa_shell :: "'x shell_port"
  oa_workerMap :: "(string, worker_descriptor) js_map"
  oa_workspaceBaseDir :: string
  oa_host :: host
  oa_clock :: clock

record 'x world =
  wd_registry :: registry
  wd_shell :: 'x
  wd_files :: file_tree
  wd_ceo :: ceo_state
  wd_product :: product_runtime
  wd_productProjects :: "(string, product_state) js_map"
  wd_engineeringProjects :: "(string, engineering_state) js_map"
  wd_salesLeads :: "(string, lead) js_map"
  wd_salesProposals :: "(string, proposal) js_map"
  wd_salesApprovalCycles :: "(string, approval_cycle) js_map"
  wd_projectTimelines :: "(string, project_timeline) js_map"
  wd_projectHistory :: "(string, project_event list) js_map"
  wd_supportTickets :: "(string, support_ticket) js_map"

section \<open>The parts as seen from the whole\<close>

definition io_get :: "('s \<Rightarrow> 'a) \<Rightarrow> ('a, 's) io" where
  "io_get f = (\<lambda>s. (Inr (f s), s))"

definition io_modify :: "('s \<Rightarrow> 's) \<Rightarrow> (unit, 's) io" where
  "io_modify f = (\<lambda>s. (Inr (), f s))"

definition on_shell :: "('a, registry \<times> 'x) io \<Rightarrow> ('a, 'x world) io" where
  "on_shell m = (\<lambda>w. case m (wd_registry w, wd_shell w) of
     (x, r, s) \<Rightarrow> (x, w\<lparr>wd_registry := r, wd_shell := s\<rparr>))"

definition on_engineering :: "'a eng \<Rightarrow> ('a, 'x world) io" where
  "on_engineering m = (\<lambda>w. case m (wd_registry w, wd_files w) of
     (x, r, t) \<Rightarrow> (x, w\<lparr>wd_registry := r, wd_files := t\<rparr>))"

text \<open>The product runtime and the CEO hold the shared registry.\<close>

definition on_product :: "(product_runtime \<Rightarrow> ('a \<times> product_runtime) outcome) \<Rightarrow> ('a, 'x world) io" where
  "on_product f = (\<lambda>w. case f ((wd_product w)\<lparr>pt_registry := Some (wd_registry w)\<rparr>) of
     Inl e \<Rightarrow> (Inl e, w)
   | Inr (x, rt) \<Rightarrow> (Inr x, w\<lparr>wd_product := rt, wd_registry := nullish (pt_registry rt) (wd_registry w)\<rparr>))"

definition on_ceo :: "('a, ceo_state) io \<Rightarrow> ('a, 'x world) io" where
  "on_ceo f = (\<lambda>w. case f ((wd_ceo w)\<lparr>cs_registry := wd_registry w\<rparr>) of
     (x, s) \<Rightarrow> (x, w\<lparr>wd_ceo := s, wd_registry := cs_registry s\<rparr>))"

definition registerWorkers ::
  "'x shell_port \<Rightarrow> worker_descriptor list \<Rightarrow> string \<Rightarrow> (unit, registry \<times> 'x) io" where
  "registerWorkers sh workers now = io_each (\<lambda>worker. sh_registerAgent sh (workerToRegistryEntry worker now)) workers"

definition worker_map :: "worker_descriptor list \<Rightarrow> (string, worker_descriptor) js_map" where
  "worker_map workers = fold (\<lambda>w m. jm_set m (agent_type_str (wk_agent_type w)) w) workers []"

text \<open>
  The constructor, on a booted shell and a host whose base directory exists: the workers are
  registered, the agents start with the registry that holds them.
\<close>

definition newOperationalApp ::
  "'x shell_port \<Rightarrow> worker_descriptor list \<Rightarrow> clock \<Rightarrow> string \<Rightarrow> registry \<times> 'x \<Rightarrow> file_tree \<Rightarrow> 'x world outcome" where
  "newOperationalApp sh workers clk now booted files =
     (case registerWorkers sh workers now booted of
        (Inl e, _) \<Rightarrow> Inl e
      | (Inr _, r, s) \<Rightarrow>
          let ceo = newCeoRuntime clk r ''ceo-1'' no_config_update None now in
          Inr \<lparr>wd_registry = cs_registry ceo, wd_shell = s, wd_files = files, wd_ceo = ceo,
            wd_product = empty_product_runtime (Some (cs_registry ceo)), wd_productProjects = [],
            wd_engineeringProjects = [], wd_salesLeads = [], wd_salesProposals = [], wd_salesApprovalCycles = [],
            wd_projectTimelines = [], wd_projectHistory = [], wd_supportTickets = []\<rparr>)"

section \<open>Projects and their agents\<close>

definition app_requireProject :: "string \<Rightarrow> (project_entry, 'x world) io" where
  "app_requireProject projectId = (\<lambda>w.
     case getProject (wd_registry w) projectId of
       None \<Rightarrow> (Inl (''Project not found: '' @ projectId), w)
     | Some project \<Rightarrow> (Inr project, w))"

definition ensureProject ::
  "'x operational_app \<Rightarrow> string \<Rightarrow> string \<Rightarrow> lifecycle_state option \<Rightarrow> string option \<Rightarrow> string \<Rightarrow>
   (project_entry, 'x world) io" where
  "ensureProject app project_id client_id lifecycle reached now =
     io_bind (io_get (\<lambda>w. getProject (wd_registry w) project_id)) (\<lambda>existing.
     case existing of
       Some p \<Rightarrow> io_return p
     | None \<Rightarrow>
         let project = \<lparr>pe_project_id = project_id, pe_client_id = client_id,
               pe_lifecycle_state = nullish lifecycle LS_lead, pe_active_agent_ids = [],
               pe_current_milestone = nullish reached ''runtime_boot'', pe_updated_at = now\<rparr>
         in io_bind (on_shell (sh_registerProject (oa_shell app) project)) (\<lambda>_. io_return project))"

definition active_agents ::
  "registry \<Rightarrow> string \<Rightarrow> string list \<Rightarrow> worker_descriptor list \<Rightarrow> string list" where
  "active_agents r projectId ids workers =
     foldl (\<lambda>ids worker.
       case getAgent r (wk_agent_id worker) of
         None \<Rightarrow> ids
       | Some agent \<Rightarrow> if ae_current_project_id agent = Some projectId then set_add ids (wk_agent_id worker) else ids)
       (js_set ids) workers"

definition bindAgents :: "'x operational_app \<Rightarrow> string list \<Rightarrow> string \<Rightarrow> string \<Rightarrow> (unit, 'x world) io" where
  "bindAgents app agents projectId now =
     io_bind (io_each (\<lambda>agentType.
       case jm_get (oa_workerMap app) agentType of
         None \<Rightarrow> io_return ()
       | Some worker \<Rightarrow> on_shell (sh_updateAgent (oa_shell app) (wk_agent_id worker)
           [Upd_current_project_id (Some projectId), Upd_last_activity now])) agents) (\<lambda>_.
     io_bind (app_requireProject projectId) (\<lambda>project.
     io_bind (io_get wd_registry) (\<lambda>r.
     on_shell (sh_updateProject (oa_shell app) projectId
       [Upd_active_agent_ids (active_agents r projectId (pe_active_agent_ids project) (jm_values (oa_workerMap app))),
        Upd_updated_at now]))))"

definition assignProjectAgents :: "'x operational_app \<Rightarrow> string \<Rightarrow> string \<Rightarrow> (unit, 'x world) io" where
  "assignProjectAgents app projectId now = bindAgents app (jm_keys (oa_workerMap app)) projectId now"

definition raiseRepeatedFailure ::
  "'x operational_app \<Rightarrow> agent_message \<Rightarrow> string \<Rightarrow> string \<Rightarrow> (unit, 'x world) io" where
  "raiseRepeatedFailure app message reason now =
     on_shell (sh_addBlocker (oa_shell app)
       \<lparr>bi_blocker_id = ''dispatch-failure:'' @ msg_project_id message @ '':'' @ msg_to message @ '':'' @ msg_type message,
        bi_summary = ''Dispatch to '' @ msg_to message @ '' failed repeatedly: '' @ reason,
        bi_severity = ''high'', bi_created_at = now, bi_project_id = msg_project_id message,
        bi_owner_agent = msg_to message\<rparr>)"

end
