(* ===== verification/Agent_Adapters.thy ===== *)
theory Agent_Adapters
  imports Runtime_World
begin

text \<open>
  The agents' adapters, \<^verbatim>\<open>src/runtime-app/integration/agentExecution.ts\<close>: what each agent
  does with a message or a task on the state of the application, and the messages it answers. What
  a message carries is read with the types the sources assert of it; where a payload has other
  types the reading fails with a type error.
\<close>

section \<open>Reading data\<close>

definition asRecord :: "jsval \<Rightarrow> jsval" where
  "asRecord v = (if is_object v then v else JObj [])"

definition toStringArray :: "jsval \<Rightarrow> string list \<Rightarrow> string list" where
  "toStringArray v fallback = (case v of JArr vs \<Rightarrow> map str_of (filter is_string vs) | _ \<Rightarrow> fallback)"

definition toNonEmptyString :: "jsval \<Rightarrow> string \<Rightarrow> string" where
  "toNonEmptyString v fallback = (case v of JStr s \<Rightarrow> if js_trim s \<noteq> [] then s else fallback | _ \<Rightarrow> fallback)"

text \<open>\<open>typeof v === 'string' ? v : undefined\<close>.\<close>

definition text_of :: "jsval \<Rightarrow> string option" where
  "text_of v = (case v of JStr s \<Rightarrow> Some s | _ \<Rightarrow> None)"

definition texts_of :: "jsval \<Rightarrow> string list option" where
  "texts_of v = (case v of JArr vs \<Rightarrow> those (map text_of vs) | _ \<Rightarrow> None)"

definition text_at :: "jsval \<Rightarrow> string \<Rightarrow> string option" where
  "text_at v k = text_of (get_prop v k)"

definition texts_at :: "jsval \<Rightarrow> string \<Rightarrow> string list option" where
  "texts_at v k = texts_of (get_prop v k)"

definition typed :: "'a option \<Rightarrow> ('a, 's) io" where
  "typed x = (case x of None \<Rightarrow> io_throw ''TypeError'' | Some y \<Rightarrow> io_return y)"

definition approval_gate_of :: "string \<Rightarrow> approval_gate option" where
  "approval_gate_of s =
     find (\<lambda>g. approval_gate_str g = s) [Proposal_final, Spec_final, Delivery_final, Strategic_decision]"

definition approval_decision_of :: "string \<Rightarrow> approval_decision option" where
  "approval_decision_of s = find (\<lambda>d. approval_decision_str d = s) [Approve, Reject, Revise]"

definition approval_response_of :: "jsval \<Rightarrow> approval_response option" where
  "approval_response_of v =
     Option.bind (text_at v ''request_id'') (\<lambda>i.
     Option.bind (Option.bind (text_at v ''gate'') approval_gate_of) (\<lambda>g.
     Option.bind (text_at v ''timestamp'') (\<lambda>t.
     Option.bind (Option.bind (text_at v ''decision'') approval_decision_of) (\<lambda>d.
     Some \<lparr>ap_request_id = i, ap_gate = g, ap_timestamp = t, ap_decision = d, ap_notes = text_at v ''notes''\<rparr>))))"

definition approval_request_of :: "jsval \<Rightarrow> approval_request option" where
  "approval_request_of v =
     Option.bind (text_at v ''request_id'') (\<lambda>i.
     Option.bind (Option.bind (text_at v ''gate'') approval_gate_of) (\<lambda>g.
     Option.bind (Option.bind (text_at v ''from_agent'') agent_type_of) (\<lambda>a.
     Option.bind (text_at v ''timestamp'') (\<lambda>t.
     Option.bind (text_at v ''summary'') (\<lambda>s.
     Option.bind (text_at v ''recommendation'') (\<lambda>rec.
     Option.bind (texts_at v ''risks'') (\<lambda>risks.
     Option.bind (Option.bind (texts_at v ''options'') (\<lambda>os. those (map approval_decision_of os))) (\<lambda>os.
     Option.bind (text_at v ''artifact_ref'') (\<lambda>ref.
     Some \<lparr>ar_request_id = i, ar_gate = g, ar_from_agent = a, ar_timestamp = t, ar_project_id = text_at v ''project_id'',
       ar_summary = s, ar_recommendation = rec, ar_risks = risks, ar_options = os, ar_artifact_ref = ref\<rparr>)))))))))"

definition approval_request_value :: "approval_request \<Rightarrow> jsval" where
  "approval_request_value a =
     JObj [(''request_id'', JStr (ar_request_id a)), (''gate'', JStr (approval_gate_str (ar_gate a))),
       (''from_agent'', JStr (agent_type_str (ar_from_agent a))), (''timestamp'', JStr (ar_timestamp a)),
       (''project_id'', js_opt_string (ar_project_id a)), (''summary'', JStr (ar_summary a)),
       (''recommendation'', JStr (ar_recommendation a)), (''risks'', strings_value (ar_risks a)),
       (''options'', strings_value (map approval_decision_str (ar_options a))),
       (''artifact_ref'', JStr (ar_artifact_ref a))]"

definition marketing_packet_of :: "jsval \<Rightarrow> marketing_packet option" where
  "marketing_packet_of v =
     Option.bind (text_at v ''lead_id'') (\<lambda>i.
     Option.bind (text_at v ''company_name'') (\<lambda>c.
     Option.bind (text_at v ''source_channel'') (\<lambda>s.
     Option.bind (text_at v ''campaign_id'') (\<lambda>k.
     Option.bind (text_at v ''segment_id'') (\<lambda>g.
     Option.bind (text_at v ''captured_at'') (\<lambda>t.
     Option.bind (texts_at v ''tags'') (\<lambda>tags.
     Option.bind (text_at v ''handoff_source'') (\<lambda>h.
     Some \<lparr>mp_lead_id = i, mp_company_name = c, mp_contact_name = text_at v ''contact_name'',
       mp_contact_email = text_at v ''contact_email'', mp_source_channel = s, mp_campaign_id = k, mp_segment_id = g,
       mp_initial_need_summary = text_at v ''initial_need_summary'', mp_captured_at = t, mp_tags = tags,
       mp_handoff_source = h\<rparr>))))))))"

definition capability_of :: "jsval \<Rightarrow> capability_item option" where
  "capability_of v =
     Option.bind (text_at v ''capability_id'') (\<lambda>i. Option.bind (text_at v ''title'') (\<lambda>t.
     Option.bind (text_at v ''description'') (\<lambda>d.
     Some \<lparr>ca_capability_id = i, ca_title = t, ca_description = d\<rparr>)))"

definition approval_note_of :: "jsval \<Rightarrow> approval_note option" where
  "approval_note_of v =
     Option.bind (text_at v ''gate'') (\<lambda>g. Option.bind (text_at v ''decision'') (\<lambda>d.
     Option.bind (text_at v ''decided_at'') (\<lambda>t. Option.bind (text_at v ''decided_by'') (\<lambda>b.
     Some \<lparr>an_gate = g, an_decision = d, an_decided_at = t, an_decided_by = b\<rparr>))))"

definition integration_of :: "jsval \<Rightarrow> integration_item option" where
  "integration_of v =
     Option.bind (text_at v ''name'') (\<lambda>n. Option.bind (text_at v ''purpose'') (\<lambda>p.
     Some \<lparr>it_name = n, it_purpose = p, it_notes = text_at v ''notes''\<rparr>))"

definition items_of :: "(jsval \<Rightarrow> 'a option) \<Rightarrow> jsval \<Rightarrow> 'a list option" where
  "items_of f v = (case v of JArr vs \<Rightarrow> those (map f vs) | _ \<Rightarrow> None)"

definition spec_final_of :: "jsval \<Rightarrow> spec_final option" where
  "spec_final_of v =
     Option.bind (text_at v ''title'') (\<lambda>t. Option.bind (text_at v ''summary'') (\<lambda>s.
     Option.bind (items_of capability_of (get_prop v ''capabilities'')) (\<lambda>cs.
     Some \<lparr>sf_title = t, sf_summary = s, sf_capabilities = cs\<rparr>)))"

definition discovery_payload_of :: "jsval \<Rightarrow> discovery_payload option" where
  "discovery_payload_of v =
     Option.bind (spec_final_of (get_prop v ''spec_final'')) (\<lambda>spec.
     Option.bind (texts_at v ''acceptance_criteria'') (\<lambda>criteria.
     Option.bind (texts_at v ''feature_priorities'') (\<lambda>priorities.
     Option.bind (texts_at v ''tool_list'') (\<lambda>tools.
     Option.bind (texts_at v ''project_constraints'') (\<lambda>constraints.
     Option.bind (texts_at v ''implementation_risks'') (\<lambda>risks.
     Option.bind (items_of approval_note_of (get_prop v ''approval_history'')) (\<lambda>approvals.
     Some \<lparr>dp_spec_final = spec, dp_acceptance_criteria = criteria, dp_feature_priorities = priorities,
       dp_tool_list = tools, dp_project_constraints = constraints, dp_implementation_risks = risks,
       dp_approval_history = approvals,
       dp_external_integrations = items_of integration_of (get_prop v ''external_integrations'')\<rparr>)))))))"

section \<open>Messages between the agents\<close>

record adapter_result =
  rs_outgoing :: "agent_message list"
  rs_approvals :: "approval_request list"
  rs_responses :: "approval_response list"
  rs_notes :: "string list"

definition only_note :: "string \<Rightarrow> adapter_result" where
  "only_note n = \<lparr>rs_outgoing = [], rs_approvals = [], rs_responses = [], rs_notes = [n]\<rparr>"

definition makeApprovalRequestMessage :: "agent_type \<Rightarrow> string \<Rightarrow> string \<Rightarrow> approval_request \<Rightarrow> agent_message" where
  "makeApprovalRequestMessage from' projectId timestamp approval =
     \<lparr>msg_from = agent_type_str from', msg_to = ''ceo_agent'', msg_type = ''approval_request'',
      msg_project_id = projectId, msg_timestamp = timestamp,
      msg_payload = JObj [(''approval'', approval_request_value approval)]\<rparr>"

definition makeApprovalResponseMessage :: "agent_type \<Rightarrow> string \<Rightarrow> string \<Rightarrow> approval_response \<Rightarrow> agent_message" where
  "makeApprovalResponseMessage to projectId timestamp response =
     \<lparr>msg_from = ''ceo_agent'', msg_to = agent_type_str to, msg_type = ''approval_response'',
      msg_project_id = projectId, msg_timestamp = timestamp,
      msg_payload = JObj [(''response'', response_value response)]\<rparr>"

text \<open>The product's handoff rewritten for the engineering agent.\<close>

definition bridged_payload :: "product_state \<Rightarrow> discovery_payload" where
  "bridged_payload state =
     (let capabilityTitles = map dc_capability (ps_capability_map state);
          constraints = (if ps_assumptions state \<noteq> [] then ps_assumptions state
            else [''Stay within approved delivery scope.''])
      in \<lparr>dp_spec_final =
            \<lparr>sf_title = (case ps_latest_spec state of None \<Rightarrow> ''Spec '' @ ps_project_id state | Some s \<Rightarrow> sv_artifact_ref s),
             sf_summary = (case ps_latest_spec state of
                 None \<Rightarrow> ''Approved spec for '' @ ps_project_id state
               | Some s \<Rightarrow> take 240 (sv_content s)),
             sf_capabilities = map (\<lambda>(index, capability).
                 \<lparr>ca_capability_id = ''cap-'' @ nat_str (index + 1), ca_title = dc_capability capability,
                  ca_description = dc_rationale capability\<rparr>) (enumerate 0 (ps_capability_map state))\<rparr>,
          dp_acceptance_criteria = map (\<lambda>item. ''Deliver capability '' @ item) capabilityTitles,
          dp_feature_priorities =
            map (\<lambda>item. priority_str (dc_priority item) @ '':'' @ dc_capability item) (ps_capability_map state),
          dp_tool_list = [''spec_write'', ''message_send'', ''deliverable_package''],
          dp_project_constraints = constraints,
          dp_implementation_risks =
            map (\<lambda>risk. priority_str (rk_priority risk) @ '':'' @ rk_summary risk) (ps_risks state),
          dp_approval_history =
            map (\<lambda>item. \<lparr>an_gate = approval_gate_str (ap_gate (rc_response item)),
               an_decision = approval_decision_str (ap_decision (rc_response item)),
               an_decided_at = ap_timestamp (rc_response item), an_decided_by = ''owner''\<rparr>) (ps_approval_history state),
          dp_external_integrations = Some []\<rparr>)"

definition mapProductToEngineeringHandoff :: "product_state \<Rightarrow> string \<Rightarrow> agent_message" where
  "mapProductToEngineeringHandoff state timestamp =
     (let payload = bridged_payload state in
      \<lparr>msg_from = ''product_agent'', msg_to = ''engineering_agent'', msg_type = ''discovery_handoff'',
       msg_project_id = ps_project_id state, msg_timestamp = timestamp,
       msg_payload = JObj
         ([(''handoff_id'', JStr (ps_project_id state @ '':discovery_handoff'')),
           (''spec_artifact_ref'', JStr (case ps_latest_spec state of
               None \<Rightarrow> ''projects/'' @ ps_client_id state @ ''/'' @ ps_project_id state @ ''/spec.md''
             | Some s \<Rightarrow> sv_artifact_ref s)),
           (''mvp_scope'', strings_value (map dc_capability (ps_capability_map state))),
           (''tool_stack'', strings_value (dp_tool_list payload)),
           (''technical_constraints'', strings_value (dp_project_constraints payload))] @
          spread (discovery_payload_value payload))\<rparr>)"

text \<open>\<open>{ ...ps, ...qs }\<close>.\<close>

definition override :: "(string \<times> jsval) list \<Rightarrow> (string \<times> jsval) list \<Rightarrow> (string \<times> jsval) list" where
  "override ps qs = foldl (\<lambda>ps (k, v). jm_set ps k v) ps qs"

section \<open>Projects\<close>

definition createProjectIfMissing ::
  "'x operational_app \<Rightarrow> string \<Rightarrow> string \<Rightarrow> string \<Rightarrow> lifecycle_state option \<Rightarrow> string option \<Rightarrow> (unit, 'x world) io" where
  "createProjectIfMissing app projectId clientId now lifecycle reached =
     io_bind (io_get (\<lambda>w. getProject (wd_registry w) projectId)) (\<lambda>existing.
     case existing of
       Some _ \<Rightarrow> io_return ()
     | None \<Rightarrow> on_shell (sh_registerProject (oa_shell app)
         \<lparr>pe_project_id = projectId, pe_client_id = clientId, pe_lifecycle_state = nullish lifecycle LS_lead,
          pe_active_agent_ids = [], pe_current_milestone = nullish reached ''runtime_created'',
          pe_updated_at = now\<rparr>))"

section \<open>The CEO\<close>

definition ceo_executeMessage :: "'x operational_app \<Rightarrow> agent_message \<Rightarrow> string \<Rightarrow> (adapter_result, 'x world) io" where
  "ceo_executeMessage app message now =
     (if msg_type message = ''approval_request'' then
        io_bind (typed (approval_request_of (get_prop (asRecord (msg_payload message)) ''approval''))) (\<lambda>approval.
        io_bind (on_shell (sh_recordApprovalRequest (oa_shell app) approval)) (\<lambda>_.
        io_return (only_note (''Approval request '' @ ar_request_id approval @ '' registered.''))))
      else io_return (only_note (''CEO received '' @ msg_type message @ ''.'')))"

definition ceo_executeTask ::
  "'x operational_app \<Rightarrow> string \<Rightarrow> jsval \<Rightarrow> string \<Rightarrow> (adapter_result, 'x world) io" where
  "ceo_executeTask app task input now =
     (if task \<noteq> ''owner_directive'' then io_return (only_note (''CEO task '' @ task @ '' ignored.''))
      else
        io_bind (on_ceo (executeOwnerDirective (oa_clock app) (toNonEmptyString (get_prop input ''raw_input'') ''status'')
          \<lparr>oi_actor_id = toNonEmptyString (get_prop input ''actor_id'') ''owner'',
           oi_token_id = text_at input ''token_id'',
           oi_authenticated = (get_prop input ''authenticated'' \<noteq> JBool False)\<rparr>
          Mode_natural now)) (\<lambda>result.
        io_return (only_note (dr_response result))))"

section \<open>Marketing\<close>

definition inbound_packet :: "jsval \<Rightarrow> string \<Rightarrow> lead_packet" where
  "inbound_packet input now =
     \<lparr>lp_lead_id = toNonEmptyString (get_prop input ''lead_id'') ''lead-1'',
      lp_company_name = toNonEmptyString (get_prop input ''company_name'') ''Unknown Company'',
      lp_contact_name = text_at input ''contact_name'', lp_contact_email = text_at input ''contact_email'',
      lp_contact_channel = toNonEmptyString (get_prop input ''contact_channel'') ''email'',
      lp_source_channel = toNonEmptyString (get_prop input ''source_channel'') ''website'',
      lp_campaign_id = toNonEmptyString (get_prop input ''campaign_id'') ''campaign-1'',
      lp_segment_id = toNonEmptyString (get_prop input ''segment_id'') ''general'',
      lp_project_id = text_at input ''project_id'',
      lp_initial_need_summary = text_at input ''initial_need_summary'',
      lp_captured_at = now, lp_ack_status = La_pending_sales_ack,
      lp_tags = toStringArray (get_prop input ''tags'') []\<rparr>"

definition lead_project :: "lead_packet \<Rightarrow> string" where
  "lead_project packet = nullish (lp_project_id packet) (''proj-'' @ lp_lead_id packet)"

definition lead_status_message :: "lead_packet \<Rightarrow> string \<Rightarrow> agent_message" where
  "lead_status_message packet now =
     (let message = buildSalesLeadHandoffMessage packet (Some (lead_project packet)) now in
      \<lparr>msg_from = ''marketing_agent'', msg_to = ''sales_agent'', msg_type = ''status_update'',
       msg_project_id = msg_project_id message, msg_timestamp = msg_timestamp message,
       msg_payload = JObj (override
         [(''status'', JStr ''marketing_lead_ready''),
          (''summary'', JStr (''Inbound lead captured from '' @ lp_source_channel packet @ ''.''))]
         (spread (msg_payload message)))\<rparr>)"

definition marketing_executeTask ::
  "'x operational_app \<Rightarrow> string \<Rightarrow> jsval \<Rightarrow> string \<Rightarrow> (adapter_result, 'x world) io" where
  "marketing_executeTask app task input now =
     (if task \<noteq> ''capture_inbound_lead'' then io_return (only_note (''Marketing task '' @ task @ '' ignored.''))
      else
        let packet = inbound_packet input now; projectId = lead_project packet in
        io_bind (createProjectIfMissing app projectId (hyphenate False (js_lower (lp_company_name packet))) now
          (Some LS_lead) (Some ''marketing_lead_captured'')) (\<lambda>_.
        io_bind (assignProjectAgents app projectId now) (\<lambda>_.
        io_return \<lparr>rs_outgoing = [lead_status_message packet now], rs_approvals = [], rs_responses = [], rs_notes = []\<rparr>)))"

section \<open>Sales\<close>

definition runtime_scores :: qualification_scores where
  "runtime_scores = \<lparr>qs_urgency = 4, qs_budget_fit = 4, qs_authority = 3, qs_use_case_relevance = 4\<rparr>"

definition runtime_proposal :: "lead \<Rightarrow> string \<Rightarrow> proposal" where
  "runtime_proposal lead now =
     buildProposal
       \<lparr>bp_lead = lead, bp_version = 1, bp_created_at = now,
        bp_business_outcomes = [''Reduce manual coordination'', ''Provide owner dashboard visibility''],
        bp_scope_outline = [''Lead intake automation'', ''Runtime orchestration'', ''Delivery dashboard updates''],
        bp_estimated_timeline = ''2 weeks'', bp_price_range = ''$8k-$12k'',
        bp_assumptions = [''Existing agents can be integrated without a rewrite.''], bp_needs_scoping = None,
        bp_commercial_risks = Some [''Approval turnaround impacts delivery velocity.'']\<rparr>"

definition sales_take_lead :: "agent_message \<Rightarrow> string \<Rightarrow> (adapter_result, 'x world) io" where
  "sales_take_lead message now =
     io_bind (typed (marketing_packet_of (msg_payload message))) (\<lambda>packet.
     let lead = createLeadFromMarketingHandoff (msg_timestamp message) packet;
         qualifiedLead = updatePipelineStage (scoreLead lead runtime_scores now None) PS_qualified now;
         proposal = runtime_proposal qualifiedLead now;
         leadWithProposal = attachProposalToLead qualifiedLead proposal now;
         cycle = createProposalApprovalCycle
           (Sales_Flow.approval_input.make (msg_project_id message @ '':proposal_final:v1'') now proposal
              (Some (msg_project_id message)) ''Initial proposal ready for owner review.'' None None)
     in io_bind (io_modify (\<lambda>w. w
          \<lparr>wd_salesLeads := jm_set (wd_salesLeads w) (ld_lead_id leadWithProposal) leadWithProposal,
           wd_salesProposals := jm_set (wd_salesProposals w) (ld_lead_id leadWithProposal) proposal,
           wd_salesApprovalCycles := jm_set (wd_salesApprovalCycles w) (msg_project_id message) cycle\<rparr>)) (\<lambda>_.
        io_return \<lparr>rs_outgoing = [makeApprovalRequestMessage Sales_agent (msg_project_id message) now (ac_request cycle)],
          rs_approvals = [ac_request cycle], rs_responses = [], rs_notes = []\<rparr>))"

definition sales_transitions :: "(lifecycle_state \<times> lifecycle_event \<times> string) list" where
  "sales_transitions =
     [(LS_qualified, Lead_qualified, ''lead_qualified''), (LS_proposal, Proposal_sent_event, ''proposal_sent''),
      (LS_won, Deal_won, ''deal_won'')]"

text \<open>The answers of the shell, allowed or not, are dropped.\<close>

definition advance_project :: "'x operational_app \<Rightarrow> string \<Rightarrow> string \<Rightarrow> (unit, 'x world) io" where
  "advance_project app projectId now =
     io_each (\<lambda>(to, event, reached).
       io_bind (on_shell (sh_transitionProjectLifecycle (oa_shell app) projectId to event Sales_agent now reached))
         (\<lambda>_. io_return ())) sales_transitions"

definition normalizedLeadHandoff :: "lead \<Rightarrow> proposal \<Rightarrow> string \<Rightarrow> string \<Rightarrow> agent_message" where
  "normalizedLeadHandoff wonLead sent projectId now =
     (let handoff = fst (buildLeadHandoffBundle wonLead sent projectId now) in
      handoff\<lparr>msg_payload := JObj (override (spread (msg_payload handoff))
        [(''handoff_id'', JStr (projectId @ '':lead_handoff'')),
         (''client_name'', JStr (ld_company_name wonLead)),
         (''stakeholder_contacts'', strings_value (js_set (ld_primary_contact wonLead # ld_stakeholders wonLead))),
         (''business_summary'', JStr (ld_initial_need wonLead)),
         (''stakeholders'', strings_value
            (if ld_stakeholders wonLead \<noteq> [] then ld_stakeholders wonLead else [ld_primary_contact wonLead])),
         (''last_proposal_ref'', JStr (pr_artifact_ref sent)),
         (''proposal_artifact_ref'', JStr (pr_artifact_ref sent)),
         (''initial_scope'', strings_value (pr_scope_outline sent)),
         (''commercial_assumptions'', strings_value (pr_assumptions sent)),
         (''initial_risks'', strings_value (pr_commercial_risks sent))])\<rparr>)"

definition sales_take_response ::
  "'x operational_app \<Rightarrow> agent_message \<Rightarrow> string \<Rightarrow> (adapter_result, 'x world) io" where
  "sales_take_response app message now =
     io_bind (io_get (\<lambda>w. jm_get (wd_salesApprovalCycles w) (msg_project_id message))) (\<lambda>stored.
     case stored of
       None \<Rightarrow> io_throw (''Sales approval cycle not found for '' @ msg_project_id message)
     | Some cycle \<Rightarrow>
         io_bind (typed (approval_response_of (get_prop (asRecord (msg_payload message)) ''response''))) (\<lambda>response.
         let nextCycle = applyProposalApprovalResponse cycle response in
         io_bind (io_modify (\<lambda>w. w\<lparr>wd_salesApprovalCycles :=
           jm_set (wd_salesApprovalCycles w) (msg_project_id message) nextCycle\<rparr>)) (\<lambda>_.
         io_bind (io_get (\<lambda>w.
           (find (\<lambda>item. ar_artifact_ref (ac_request cycle) \<in> set (ld_proposal_refs item)) (jm_values (wd_salesLeads w)),
            find (\<lambda>item. pr_artifact_ref item = ar_artifact_ref (ac_request cycle)) (jm_values (wd_salesProposals w)))))
           (\<lambda>found.
         case found of
           (Some lead, Some proposal) \<Rightarrow>
             let leadAfterApproval = recordApprovalCycleOnLead lead nextCycle now in
             if ap_decision response \<noteq> Approve then
               io_bind (io_modify (\<lambda>w. w\<lparr>wd_salesLeads := jm_set (wd_salesLeads w) (ld_lead_id lead) leadAfterApproval\<rparr>))
                 (\<lambda>_. io_return \<lparr>rs_outgoing = [], rs_approvals = [], rs_responses = [response], rs_notes = []\<rparr>)
             else
               let (sentLead, sent) = sendProposal leadAfterApproval proposal now;
                   wonLead = updatePipelineStage sentLead PS_won now
               in io_bind (io_modify (\<lambda>w. w
                    \<lparr>wd_salesLeads := jm_set (wd_salesLeads w) (ld_lead_id lead) wonLead,
                     wd_salesProposals := jm_set (wd_salesProposals w) (ld_lead_id lead) sent\<rparr>)) (\<lambda>_.
                  io_bind (advance_project app (msg_project_id message) now) (\<lambda>_.
                  io_return
                    \<lparr>rs_outgoing = [normalizedLeadHandoff wonLead sent (msg_project_id message) now,
                       snd (buildLeadHandoffBundle wonLead sent (msg_project_id message) now)],
                     rs_approvals = [], rs_responses = [response], rs_notes = []\<rparr>))
         | _ \<Rightarrow> io_throw (''Sales lead/proposal not found for '' @ msg_project_id message)))))"

definition sales_executeMessage ::
  "'x operational_app \<Rightarrow> agent_message \<Rightarrow> string \<Rightarrow> (adapter_result, 'x world) io" where
  "sales_executeMessage app message now =
     (if msg_type message = ''status_update'' \<and> msg_from message = ''marketing_agent'' then sales_take_lead message now
      else if msg_type message = ''approval_response'' then sales_take_response app message now
      else io_return (only_note (''Sales ignored '' @ msg_type message @ ''.'')))"

section \<open>Product\<close>

definition non_empty_or :: "string list \<Rightarrow> string list \<Rightarrow> string list" where
  "non_empty_or xs d = (if xs \<noteq> [] then xs else d)"

definition transformed_handoff :: "agent_message \<Rightarrow> agent_message" where
  "transformed_handoff message =
     (let payload = asRecord (msg_payload message) in
      message\<lparr>msg_payload := JObj
        [(''business_summary'', JStr (toNonEmptyString (get_prop payload ''business_summary'') ''Discovery brief'')),
         (''stakeholders'', strings_value
            (toStringArray (get_prop payload ''stakeholders'') [''Buying stakeholder to confirm during discovery''])),
         (''last_proposal_ref'', JStr (toNonEmptyString (get_prop payload ''last_proposal_ref'') ''proposal.md'')),
         (''initial_scope'', strings_value (non_empty_or
            (toStringArray (get_prop (asRecord (get_prop payload ''delivery_readiness'')) ''outstanding_scoping'') [])
            [''Initial MVP scope''])),
         (''commercial_assumptions'', strings_value [''Commercial assumptions inherited from proposal.'']),
         (''initial_risks'', strings_value (non_empty_or (toStringArray (get_prop payload ''commercial_risks'') [])
            [''Scope assumptions may evolve in discovery.''])),
         (''company_name'', JStr (toNonEmptyString (get_prop payload ''company_name'') ''client'')),
         (''pain_points'', strings_value (toStringArray (get_prop payload ''pain_points'') [])),
         (''conversation_notes'', strings_value (toStringArray (get_prop payload ''conversation_notes'') []))]\<rparr>)"

definition set_product_project :: "string \<Rightarrow> product_state \<Rightarrow> (unit, 'x world) io" where
  "set_product_project k state = io_modify (\<lambda>w. w\<lparr>wd_productProjects := jm_set (wd_productProjects w) k state\<rparr>)"

definition product_take_lead ::
  "'x operational_app \<Rightarrow> agent_message \<Rightarrow> string \<Rightarrow> (adapter_result, 'x world) io" where
  "product_take_lead app message now =
     (let k = msg_project_id message in
      io_bind (app_requireProject k) (\<lambda>project.
      io_bind (on_product (receiveLeadHandoff (oa_clock app) (pe_client_id project) (transformed_handoff message))) (\<lambda>received.
      io_bind (set_product_project k (in_state received)) (\<lambda>_.
      io_bind (on_product (writeSpec k now (Some ''Runtime-generated discovery spec.''))) (\<lambda>spec.
      io_bind (on_product (requestSpecApproval k (k @ '':spec_final:v'' @ nat_str (sv_version spec)) now
        ''Approve spec so engineering can start.'')) (\<lambda>(approval, outgoing).
      io_return
        \<lparr>rs_outgoing = in_outgoing received @ outgoing @ [makeApprovalRequestMessage Product_agent k now approval],
         rs_approvals = [approval], rs_responses = [], rs_notes = []\<rparr>))))))"

definition product_take_response :: "agent_message \<Rightarrow> string \<Rightarrow> (adapter_result, 'x world) io" where
  "product_take_response message now =
     (let k = msg_project_id message in
      io_bind (typed (approval_response_of (get_prop (asRecord (msg_payload message)) ''response''))) (\<lambda>response.
      io_bind (on_product (recordSpecApprovalResponse k response)) (\<lambda>nextState.
      io_bind (set_product_project k nextState) (\<lambda>_.
      if ap_decision response \<noteq> Approve then
        io_return \<lparr>rs_outgoing = [], rs_approvals = [], rs_responses = [response], rs_notes = []\<rparr>
      else
        io_bind (on_product (createDiscoveryHandoff k now)) (\<lambda>discovery.
        io_bind (io_get (\<lambda>w. nullish (getProjectState (wd_product w) k) nextState)) (\<lambda>handoffReadyState.
        io_bind (set_product_project k handoffReadyState) (\<lambda>_.
        io_return
          \<lparr>rs_outgoing = filter (\<lambda>m. msg_type m = ''status_update'') discovery @
             [mapProductToEngineeringHandoff handoffReadyState now],
           rs_approvals = [], rs_responses = [response], rs_notes = []\<rparr>)))))))"

definition product_take_status ::
  "'x operational_app \<Rightarrow> agent_message \<Rightarrow> string \<Rightarrow> (adapter_result, 'x world) io" where
  "product_take_status app message now =
     (let k = msg_project_id message in
      io_bind (app_requireProject k) (\<lambda>project.
      if pe_lifecycle_state project \<in> {LS_qa, LS_delivered, LS_support, LS_closed} then
        io_return (only_note (''Product observed engineering status while project is already '' @
          lifecycle_str (pe_lifecycle_state project) @ ''.''))
      else (\<lambda>w.
        case io_bind (on_product (acknowledgeEngineeringHandoff (oa_clock app) k now)) (set_product_project k) w of
          (Inl _, w) \<Rightarrow>
            (Inr (only_note (''Product ignored duplicate engineering acknowledgment for '' @ k @ ''.'')), w)
        | (Inr _, w) \<Rightarrow> (Inr (only_note (''Product processed '' @ msg_type message @ ''.'')), w))))"

definition product_executeMessage ::
  "'x operational_app \<Rightarrow> agent_message \<Rightarrow> string \<Rightarrow> (adapter_result, 'x world) io" where
  "product_executeMessage app message now =
     (if msg_type message = ''lead_handoff'' then product_take_lead app message now
      else if msg_type message = ''approval_response'' then product_take_response message now
      else if msg_type message = ''status_update'' \<and> msg_from message = ''engineering_agent'' then
        product_take_status app message now
      else io_return (only_note (''Product processed '' @ msg_type message @ ''.'')))"

section \<open>Engineering\<close>

text \<open>
  A payload of other types is refused by the validator, which reads the same fields.
\<close>

definition read_discovery :: "agent_message \<Rightarrow> (discovery_message, 's) io" where
  "read_discovery message =
     (case discovery_payload_of (msg_payload message) of
        Some p \<Rightarrow> io_return \<lparr>dm_project_id = msg_project_id message, dm_timestamp = msg_timestamp message, dm_payload = p\<rparr>
      | None \<Rightarrow>
          io_bind (io_outcome (validateDiscoveryHandoffPayload (msg_payload message))) (\<lambda>validation.
          case validation of
            Some errors \<Rightarrow> io_throw (''Invalid discovery handoff: '' @ js_join ''; '' errors)
          | None \<Rightarrow> io_throw ''TypeError''))"

definition runtime_qa :: qa_input where
  "runtime_qa =
     \<lparr>qi_unitTests = [''handoff validation'', ''approval workflow''],
      qi_integrationTests = [''lead intake to delivery orchestration''], qi_staticChecks = [''tsc --noEmit''],
      qi_knownLimitations = [''Execution steps are simulated by runtime adapters.''],
      qi_deploymentNotes = [''Release after owner approval.'']\<rparr>"

definition runtime_delivery_context :: "string \<Rightarrow> approval_context" where
  "runtime_delivery_context qaReportPath =
     \<lparr>ac_implementation_summary = [''Runtime integration flow executed successfully.''],
      ac_qa_summary = [''QA report generated'', ''Lifecycle advanced to qa''],
      ac_residual_risks = [''Watch first live delivery for support issues.''],
      ac_deployment_instructions = [''Promote packaged artifacts.''], ac_artifact_ref = qaReportPath\<rparr>"

definition set_engineering_project :: "string \<Rightarrow> engineering_state \<Rightarrow> (unit, 'x world) io" where
  "set_engineering_project k state =
     io_modify (\<lambda>w. w\<lparr>wd_engineeringProjects := jm_set (wd_engineeringProjects w) k state\<rparr>)"

definition engineering_build ::
  "'x operational_app \<Rightarrow> agent_message \<Rightarrow> engineering_state \<Rightarrow> string \<Rightarrow> (adapter_result, 'x world) io" where
  "engineering_build app message baseState now =
     (let h = oa_host app; clk = oa_clock app; k = msg_project_id message in
      io_bind (read_discovery message) (\<lambda>discovery.
      io_bind (on_engineering (acceptDiscoveryHandoff h clk discovery baseState (oa_workspaceBaseDir app))) (\<lambda>accepted.
      io_bind (on_engineering (startQaValidation h clk (ah_nextState accepted) now)) (\<lambda>(inQa, qaUpdate).
      io_bind (on_engineering (on_files (writeQaReport h inQa runtime_qa))) (\<lambda>qaReportPath.
      io_bind (on_engineering (on_files (markReadyForOwnerReview h inQa now qaReportPath))) (\<lambda>(ready, readyUpdate).
      io_bind (set_engineering_project k ready) (\<lambda>_.
      let approval = buildDeliveryApprovalRequest ready now (runtime_delivery_context qaReportPath) in
      io_return
        \<lparr>rs_outgoing = [ah_ack accepted, ah_pmUpdate accepted, qaUpdate, readyUpdate,
           makeApprovalRequestMessage Engineering_agent k now approval],
         rs_approvals = [approval], rs_responses = [], rs_notes = []\<rparr>)))))))"

definition engineering_take_handoff ::
  "'x operational_app \<Rightarrow> agent_message \<Rightarrow> string \<Rightarrow> (adapter_result, 'x world) io" where
  "engineering_take_handoff app message now =
     (let k = msg_project_id message in
      io_bind (app_requireProject k) (\<lambda>project.
      io_bind (io_get (\<lambda>w. jm_get (wd_engineeringProjects w) k)) (\<lambda>existingState.
      case existingState of
        Some state \<Rightarrow>
          if pe_lifecycle_state project \<in> {LS_implementation, LS_qa, LS_delivered, LS_support, LS_closed} then
            io_return (only_note (''Engineering handoff for '' @ k @ '' already processed at '' @
              es_last_updated_at state @ ''.''))
          else engineering_build app message state now
      | None \<Rightarrow>
          engineering_build app message (createEngineeringProjectState k (pe_client_id project) [] now) now)))"

text \<open>The request the answer is checked against is rebuilt from the state.\<close>

definition delivery_request :: "string \<Rightarrow> engineering_state \<Rightarrow> approval_request" where
  "delivery_request k state =
     \<lparr>ar_request_id = k @ '':delivery_final:v'' @ nat_str (es_delivery_version state), ar_gate = Delivery_final,
      ar_from_agent = Engineering_agent, ar_timestamp = es_last_updated_at state, ar_project_id = Some k,
      ar_summary = ''Delivery approval'', ar_recommendation = ''Approve'', ar_risks = [],
      ar_options = [Approve, Reject, Revise], ar_artifact_ref = es_workspace_root state @ ''/artifacts/qa-report.md''\<rparr>"

definition engineering_take_response ::
  "'x operational_app \<Rightarrow> agent_message \<Rightarrow> (adapter_result, 'x world) io" where
  "engineering_take_response app message =
     (let k = msg_project_id message in
      io_bind (io_get (\<lambda>w. jm_get (wd_engineeringProjects w) k)) (\<lambda>stored.
      case stored of
        None \<Rightarrow> io_throw (''Engineering state not found for '' @ k)
      | Some state \<Rightarrow>
          io_bind (typed (approval_response_of (get_prop (asRecord (msg_payload message)) ''response''))) (\<lambda>response.
          io_bind (on_engineering (handleApprovalResponse (oa_host app) (oa_clock app) state (delivery_request k state) response))
            (\<lambda>outcome.
          io_bind (set_engineering_project k (ao_next_state outcome)) (\<lambda>_.
          io_return
            \<lparr>rs_outgoing = (if ao_decision outcome \<noteq> Approve then [] else ao_messages outcome),
             rs_approvals = [], rs_responses = [response], rs_notes = []\<rparr>)))))"

definition engineering_executeMessage ::
  "'x operational_app \<Rightarrow> agent_message \<Rightarrow> string \<Rightarrow> (adapter_result, 'x world) io" where
  "engineering_executeMessage app message now =
     (if msg_type message = ''discovery_handoff'' then engineering_take_handoff app message now
      else if msg_type message = ''approval_response'' then engineering_take_response app message
      else io_return (only_note (''Engineering ignored '' @ msg_type message @ ''.'')))"

section \<open>Project management\<close>

definition pm_event :: "agent_message \<Rightarrow> agent_type \<Rightarrow> string \<Rightarrow> project_event" where
  "pm_event message actor now =
     createProjectHistoryEvent (msg_project_id message)
       (if msg_type message = ''risk_alert'' then Pe_risk_alert else Pe_status_update) (Act_agent actor)
       (if msg_type message = ''status_update''
        then toNonEmptyString (get_prop (asRecord (msg_payload message)) ''summary'') ''Status update recorded''
        else msg_type message @ '' recorded'')
       now (Some [(''message_type'', msg_type message)])"

definition pm_executeMessage ::
  "'x operational_app \<Rightarrow> agent_message \<Rightarrow> string \<Rightarrow> (adapter_result, 'x world) io" where
  "pm_executeMessage app message now =
     (let k = msg_project_id message in
      io_bind (io_get (\<lambda>w. jm_get (wd_projectTimelines w) k)) (\<lambda>timeline.
      io_bind
        (case timeline of
           Some _ \<Rightarrow> io_return ()
         | None \<Rightarrow>
             io_bind (io_outcome (createBaselineTimeline k now
               \<lparr>bo_delivery_target_at = None, bo_discovery_days = None, bo_implementation_days = None, bo_qa_days = None\<rparr>))
               (\<lambda>t. io_modify (\<lambda>w. w\<lparr>wd_projectTimelines := jm_set (wd_projectTimelines w) k t\<rparr>))) (\<lambda>_.
      io_bind (typed (agent_type_of (msg_from message))) (\<lambda>actor.
      io_bind (io_modify (\<lambda>w. w\<lparr>wd_projectHistory := jm_set (wd_projectHistory w) k
        (nullish (jm_get (wd_projectHistory w) k) [] @ [pm_event message actor now])\<rparr>)) (\<lambda>_.
      io_bind
        (if msg_from message = ''ceo_agent'' then
           on_shell (sh_updateProject (oa_shell app) k
             [Upd_current_milestone ''owner_directive_dispatched'', Upd_updated_at now])
         else io_return ()) (\<lambda>_.
      io_return (only_note (''PM recorded '' @ msg_type message @ ''.''))))))))"

section \<open>Support\<close>

definition support_executeMessage :: "'x operational_app \<Rightarrow> (adapter_result, 'x world) io" where
  "support_executeMessage app =
     io_bind (io_get (\<lambda>w. length (wd_supportTickets w))) (\<lambda>n.
     io_bind (on_shell (sh_setSupportTicketCount (oa_shell app) n)) (\<lambda>_.
     io_return (only_note ''Support updated runtime context.'')))"

text \<open>A text that names no priority counts as the lowest one where priorities are compared.\<close>

definition ticket_priority_of :: "string \<Rightarrow> Support_Flow.priority" where
  "ticket_priority_of s =
     (if s = ''critical'' then Critical else if s = ''high'' then High else if s = ''medium'' then Medium else Low)"

definition runtime_ticket_input :: "string \<Rightarrow> jsval \<Rightarrow> string \<Rightarrow> ticket_input" where
  "runtime_ticket_input project_id input now =
     \<lparr>ti_project_id = project_id,
      ti_client_contact = toNonEmptyString (get_prop input ''client_contact'') ''client@example.test'',
      ti_summary = toNonEmptyString (get_prop input ''summary'') ''Support request'',
      ti_urgency = ticket_priority_of (toNonEmptyString (get_prop input ''urgency'') ''medium''),
      ti_business_impact = Some (ticket_priority_of (toNonEmptyString (get_prop input ''business_impact'') ''medium'')),
      ti_occurred_at = Some now,
      ti_requested_outcome =
        Some (toNonEmptyString (get_prop input ''requested_outcome'') ''Resolve the reported issue.''),
      ti_reproduction_steps = None\<rparr>"

definition support_executeTask ::
  "'x operational_app \<Rightarrow> string \<Rightarrow> jsval \<Rightarrow> string \<Rightarrow> (adapter_result, 'x world) io" where
  "support_executeTask app task input now =
     (if task \<noteq> ''open_ticket'' then io_return (only_note (''Support task '' @ task @ '' ignored.''))
      else
        io_bind (app_requireProject (toNonEmptyString (get_prop input ''project_id'') [])) (\<lambda>project.
        io_bind (io_outcome (createSupportTicket (runtime_ticket_input (pe_project_id project) input now) project now))
          (\<lambda>created.
        io_bind (io_modify (\<lambda>w. w\<lparr>wd_supportTickets :=
          jm_set (wd_supportTickets w) (tk_ticket_id (nt_ticket created)) (nt_ticket created)\<rparr>)) (\<lambda>_.
        io_bind (io_get (\<lambda>w. length (wd_supportTickets w))) (\<lambda>n.
        io_bind (on_shell (sh_setSupportTicketCount (oa_shell app) n)) (\<lambda>_.
        io_return (only_note (''Support ticket '' @ tk_ticket_id (nt_ticket created) @ '' opened.''))))))))"

section \<open>The table of adapters\<close>

text \<open>An adapter without the function has none for messages, or for tasks.\<close>

definition message_adapter ::
  "'x operational_app \<Rightarrow> string \<Rightarrow> (agent_message \<Rightarrow> string \<Rightarrow> (adapter_result, 'x world) io) option" where
  "message_adapter app to =
     (case agent_type_of to of
        Some Ceo_agent \<Rightarrow> Some (ceo_executeMessage app)
      | Some Sales_agent \<Rightarrow> Some (sales_executeMessage app)
      | Some Product_agent \<Rightarrow> Some (product_executeMessage app)
      | Some Engineering_agent \<Rightarrow> Some (engineering_executeMessage app)
      | Some Project_manager_agent \<Rightarrow> Some (pm_executeMessage app)
      | Some Support_agent \<Rightarrow> Some (\<lambda>_ _. support_executeMessage app)
      | _ \<Rightarrow> None)"

definition task_adapter ::
  "'x operational_app \<Rightarrow> agent_type \<Rightarrow> (string \<Rightarrow> jsval \<Rightarrow> string \<Rightarrow> (adapter_result, 'x world) io) option" where
  "task_adapter app agent =
     (case agent of
        Ceo_agent \<Rightarrow> Some (ceo_executeTask app)
      | Marketing_agent \<Rightarrow> Some (marketing_executeTask app)
      | Support_agent \<Rightarrow> Some (support_executeTask app)
      | _ \<Rightarrow> None)"

section \<open>What the adapters send\<close>

text \<open>
  The order in which messages cause each other: an answer of the owner comes first, the handoffs
  and the leads of marketing next, and what the receivers only record last.
\<close>

definition bus_rank :: "agent_message \<Rightarrow> nat" where
  "bus_rank m =
     (if msg_type m = ''approval_response'' then 2
      else if msg_type m = ''lead_handoff'' \<or> msg_type m = ''discovery_handoff'' \<or>
        msg_type m = ''status_update'' \<and> msg_from m = ''marketing_agent'' then 1
      else 0)"

text \<open>What the registry says of the form of a message when the bus has completed it.\<close>

definition sendable :: "agent_message \<Rightarrow> bool" where
  "sendable m \<longleftrightarrow> isValidAgentMessage (message_value (normalizeMessageForRuntime m))"

definition final_message :: "agent_message \<Rightarrow> bool" where
  "final_message m \<longleftrightarrow> bus_rank m = 0 \<and> sendable m"

lemma sendable_status: "msg_type m = ''status_update'' \<Longrightarrow> sendable m"
  unfolding sendable_def by (rule normalize_valid_status) simp

lemma sendable_clarification: "msg_type m = ''clarification_request'' \<Longrightarrow> sendable m"
  unfolding sendable_def by (rule normalize_valid_clarification) simp

lemma sendable_plain:
  "msg_type m = message_type_str t \<Longrightarrow> msg_payload m = JObj ps \<Longrightarrow>
   msg_type m \<notin> {''status_update'', ''clarification_request'', ''risk_alert''} \<Longrightarrow>
   (\<forall>f \<in> set (required_payload_fields t). has_prop (JObj ps) f) \<Longrightarrow> sendable m"
  unfolding sendable_def valid_message_value
  by (rule exI [of _ t]) (simp add: normalizeMessageForRuntime_def Let_def del: has_prop.simps)

lemma final_approval_request [simp]: "final_message (makeApprovalRequestMessage a k t x)"
  unfolding final_message_def
proof
  show "sendable (makeApprovalRequestMessage a k t x)"
    by (rule sendable_plain [where t = Approval_request_msg and ps = "[(''approval'', approval_request_value x)]"])
      (simp_all add: makeApprovalRequestMessage_def)
qed (simp add: makeApprovalRequestMessage_def bus_rank_def)

lemma final_engineering_status [simp]: "final_message (engineering_status to k t s u a)"
  by (simp add: final_message_def bus_rank_def engineering_status_def sendable_status)

lemma final_product_status [simp]: "final_message (product_message to ''status_update'' k t ps)"
  by (simp add: final_message_def bus_rank_def product_message_def sendable_status)

lemma final_product_clarification [simp]: "final_message (product_message to ''clarification_request'' k t ps)"
  by (simp add: final_message_def bus_rank_def product_message_def sendable_clarification)

lemma final_sales_update [simp]: "final_message (snd (buildLeadHandoffBundle l p k t))"
  by (simp add: final_message_def bus_rank_def buildLeadHandoffBundle_def sendable_status)

lemma has_prop_override:
  "has_prop (JObj (override ps qs)) f \<longleftrightarrow> f \<in> fst ` set qs \<or> has_prop (JObj ps) f"
  unfolding override_def
  by (induction qs arbitrary: ps) (auto simp del: has_prop.simps)

lemma field_override:
  "field (override ps qs) f = (case map_of (rev qs) f of None \<Rightarrow> field ps f | Some v \<Rightarrow> v)"
  unfolding override_def
  by (induction qs arbitrary: ps) (auto simp: map_add_def split: option.splits)

lemma lead_handoff_sendable: "sendable (normalizedLeadHandoff l p k t)"
proof (rule sendable_plain [of _ Lead_handoff])
  show "msg_payload (normalizedLeadHandoff l p k t) = JObj (spread (msg_payload (normalizedLeadHandoff l p k t)))"
    by (simp add: normalizedLeadHandoff_def Let_def)
qed (auto simp: normalizedLeadHandoff_def buildLeadHandoffBundle_def Let_def has_prop_override simp del: has_prop.simps, auto)

lemma discovery_handoff_sendable: "sendable (mapProductToEngineeringHandoff s t)"
proof (rule sendable_plain [of _ Discovery_handoff])
  show "msg_payload (mapProductToEngineeringHandoff s t) = JObj (spread (msg_payload (mapProductToEngineeringHandoff s t)))"
    by (simp add: mapProductToEngineeringHandoff_def Let_def)
qed (auto simp: mapProductToEngineeringHandoff_def Let_def discovery_payload_value_def)

lemma bus_rank_types [simp]:
  "bus_rank (normalizedLeadHandoff l p k t) = 1" "bus_rank (mapProductToEngineeringHandoff s t) = 1"
  "bus_rank (lead_status_message packet t) = 1"
  by (simp_all add: bus_rank_def normalizedLeadHandoff_def buildLeadHandoffBundle_def mapProductToEngineeringHandoff_def
      lead_status_message_def Let_def)

lemma lead_status_sendable [simp]: "sendable (lead_status_message packet t)"
  by (rule sendable_status) (simp add: lead_status_message_def Let_def)

lemma bus_rank_normalize [simp]: "bus_rank (normalizeMessageForRuntime m) = bus_rank m"
  by (simp add: bus_rank_def)

text \<open>What an adapter may answer to a message: at most five messages, each further down the order.\<close>

definition proper_answer :: "agent_message \<Rightarrow> adapter_result \<Rightarrow> bool" where
  "proper_answer m res \<longleftrightarrow>
     length (rs_outgoing res) \<le> 5 \<and> list_all (\<lambda>o'. bus_rank o' < bus_rank m \<and> sendable o') (rs_outgoing res)"

lemma final_answer:
  "length (rs_outgoing res) \<le> 5 \<Longrightarrow> list_all final_message (rs_outgoing res) \<Longrightarrow> 0 < bus_rank m \<Longrightarrow> proper_answer m res"
  by (auto simp: proper_answer_def final_message_def list_all_iff)

lemma silent_answer [simp]: "rs_outgoing res = [] \<Longrightarrow> proper_answer m res"
  by (simp add: proper_answer_def)

lemma only_note_outgoing [simp]: "rs_outgoing (only_note n) = []"
  by (simp add: only_note_def)

lemma typed_Inr [simp]: "typed x s = (Inr y, s') \<longleftrightarrow> x = Some y \<and> s' = s"
  by (auto simp: typed_def split: option.splits)

lemma io_steps [simp]:
  "io_get f s = (Inr (f s), s)" "io_modify g s = (Inr (), g s)"
  by (simp_all add: io_get_def io_modify_def)

lemma on_product_Inr:
  "on_product f w = (Inr x, w') \<longleftrightarrow>
   (\<exists>rt. f ((wd_product w)\<lparr>pt_registry := Some (wd_registry w)\<rparr>) = Inr (x, rt) \<and>
      w' = w\<lparr>wd_product := rt, wd_registry := nullish (pt_registry rt) (wd_registry w)\<rparr>)"
  by (auto simp: on_product_def split: sum.splits)

lemma on_engineering_Inr:
  "on_engineering m w = (Inr x, w') \<longleftrightarrow>
   (\<exists>r t. m (wd_registry w, wd_files w) = (Inr x, r, t) \<and> w' = w\<lparr>wd_registry := r, wd_files := t\<rparr>)"
  by (auto simp: on_engineering_def split: prod.splits)

lemma requireProject_Inr [simp]:
  "app_requireProject k w = (Inr p, w') \<longleftrightarrow> getProject (wd_registry w) k = Some p \<and> w' = w"
  by (auto simp: app_requireProject_def split: option.splits)

lemma receive_answers:
  "receiveLeadHandoff clk c m rt = Inr (x, rt') \<Longrightarrow> length (in_outgoing x) \<le> 2 \<and> list_all final_message (in_outgoing x)"
  by (auto simp: receiveLeadHandoff_def outcome_bind_eq_Inr Let_def split: prod.splits if_splits)

lemma request_answers:
  "requestSpecApproval k i t rec rt = Inr ((a, out), rt') \<Longrightarrow> length out = 1 \<and> list_all final_message out"
  by (auto simp: requestSpecApproval_def outcome_bind_eq_Inr Let_def split: option.splits)

lemma product_lead_answers:
  "product_take_lead app m now w = (Inr res, w') \<Longrightarrow>
   length (rs_outgoing res) \<le> 5 \<and> list_all final_message (rs_outgoing res)"
  unfolding product_take_lead_def Let_def
  by (auto simp: io_bind_Inr on_product_Inr dest!: receive_answers request_answers)

lemma product_message_type [simp]: "msg_type (product_message to ty k t ps) = ty"
  by (simp add: product_message_def)

lemma discovery_answers:
  "createDiscoveryHandoff k t rt = Inr (out, rt') \<Longrightarrow>
   length (filter (\<lambda>m. msg_type m = ''status_update'') out) = 1 \<and>
   list_all final_message (filter (\<lambda>m. msg_type m = ''status_update'') out)"
  by (auto simp: createDiscoveryHandoff_def outcome_bind_eq_Inr split: option.split_asm if_splits)

lemma accept_answers:
  "acceptDiscoveryHandoff h clk m s base x = (Inr acc, y) \<Longrightarrow> final_message (ah_ack acc) \<and> final_message (ah_pmUpdate acc)"
  by (auto simp: acceptDiscoveryHandoff_def io_bind_Inr Let_def split: option.splits prod.splits)

lemma qa_answers: "startQaValidation h clk s t x = (Inr (s', m), y) \<Longrightarrow> final_message m"
  by (auto simp: startQaValidation_def io_bind_Inr)

lemma ready_answers: "markReadyForOwnerReview h s t a x = (Inr (s', m), y) \<Longrightarrow> final_message m"
  by (auto simp: markReadyForOwnerReview_def io_bind_Inr)

lemma on_files_Inr: "on_files m (r, t) = (Inr x, r', t') \<longleftrightarrow> m t = (Inr x, t') \<and> r' = r"
  by (auto simp: on_files_def split: prod.splits)

lemma build_answers:
  "engineering_build app m s now w = (Inr res, w') \<Longrightarrow>
   length (rs_outgoing res) \<le> 5 \<and> list_all final_message (rs_outgoing res)"
  unfolding engineering_build_def Let_def
  by (auto simp: io_bind_Inr on_engineering_Inr on_files_Inr dest!: accept_answers qa_answers ready_answers)

lemma delivery_answers:
  "handleApprovalResponse h clk s q a x = (Inr out, y) \<Longrightarrow>
   length (ao_messages out) \<le> 3 \<and> list_all final_message (ao_messages out)"
  by (auto simp: handleApprovalResponse_def io_bind_Inr split: if_splits)

lemma response_answers:
  "engineering_take_response app m w = (Inr res, w') \<Longrightarrow>
   length (rs_outgoing res) \<le> 5 \<and> list_all final_message (rs_outgoing res)"
  unfolding engineering_take_response_def Let_def
  by (auto simp: io_bind_Inr on_engineering_Inr split: option.splits if_splits dest!: delivery_answers)

text \<open>Each adapter, on every message and in every state.\<close>

lemma ceo_answer: "ceo_executeMessage app m now w = (Inr res, w') \<Longrightarrow> proper_answer m res"
  by (auto simp: ceo_executeMessage_def io_bind_Inr split: if_splits)

lemma sales_response_run:
  assumes "sales_take_response app m now w = (Inr res, w')"
  obtains cycle response lead proposal where
    "jm_get (wd_salesApprovalCycles w) (msg_project_id m) = Some cycle"
    "approval_response_of (get_prop (asRecord (msg_payload m)) ''response'') = Some response"
    "find (\<lambda>item. ar_artifact_ref (ac_request cycle) \<in> set (ld_proposal_refs item)) (jm_values (wd_salesLeads w)) = Some lead"
    "find (\<lambda>item. pr_artifact_ref item = ar_artifact_ref (ac_request cycle)) (jm_values (wd_salesProposals w)) = Some proposal"
    "ap_decision response \<noteq> Approve \<Longrightarrow> rs_outgoing res = []"
    "ap_decision response = Approve \<Longrightarrow>
       rs_outgoing res =
         (let (sentLead, sent) = sendProposal
                (recordApprovalCycleOnLead lead (applyProposalApprovalResponse cycle response) now) proposal now;
              wonLead = updatePipelineStage sentLead PS_won now
          in [normalizedLeadHandoff wonLead sent (msg_project_id m) now,
              snd (buildLeadHandoffBundle wonLead sent (msg_project_id m) now)])"
proof -
  from assms obtain cycle where c: "jm_get (wd_salesApprovalCycles w) (msg_project_id m) = Some cycle"
    by (cases "jm_get (wd_salesApprovalCycles w) (msg_project_id m)") (simp_all add: sales_take_response_def)
  with assms obtain response where r: "approval_response_of (get_prop (asRecord (msg_payload m)) ''response'') = Some response"
    by (auto simp: sales_take_response_def io_bind_Inr)
  note run = assms [unfolded sales_take_response_def Let_def]
  show thesis
  proof (cases "find (\<lambda>item. ar_artifact_ref (ac_request cycle) \<in> set (ld_proposal_refs item)) (jm_values (wd_salesLeads w))")
    case None
    then show thesis using run c r by (simp add: io_bind_Inr)
  next
    case (Some lead)
    note l = this
    show thesis
    proof (cases "find (\<lambda>item. pr_artifact_ref item = ar_artifact_ref (ac_request cycle)) (jm_values (wd_salesProposals w))")
      case None
      then show thesis using run c r l by (simp add: io_bind_Inr)
    next
      case (Some proposal)
      then show thesis
        using run c r l by (intro that) (auto simp: io_bind_Inr Let_def split_def split: if_splits)
    qed
  qed
qed

lemma sales_answer:
  assumes "sales_executeMessage app m now w = (Inr res, w')"
  shows "proper_answer m res"
proof -
  consider (lead) "msg_type m = ''status_update''" "msg_from m = ''marketing_agent''" "sales_take_lead m now w = (Inr res, w')"
    | (answer) "msg_type m = ''approval_response''" "sales_take_response app m now w = (Inr res, w')"
    | (other) "res = only_note (''Sales ignored '' @ msg_type m @ ''.'')"
    using assms by (auto simp: sales_executeMessage_def split: if_splits)
  then show ?thesis
  proof cases
    case lead
    then have "bus_rank m = 1" by (simp add: bus_rank_def)
    with lead(3) show ?thesis
      by (auto simp: sales_take_lead_def io_bind_Inr Let_def intro!: final_answer)
  next
    case answer
    then have "bus_rank m = 2" by (simp add: bus_rank_def)
    moreover obtain decision l p where "decision \<noteq> Approve \<Longrightarrow> rs_outgoing res = []"
        "decision = Approve \<Longrightarrow> rs_outgoing res =
           [normalizedLeadHandoff l p (msg_project_id m) now, snd (buildLeadHandoffBundle l p (msg_project_id m) now)]"
      by (rule sales_response_run [OF answer(2)]) (auto simp: Let_def split_def)
    ultimately show ?thesis
      using final_sales_update [of l p "msg_project_id m" now]
      by (cases "decision = Approve") (simp_all add: proper_answer_def lead_handoff_sendable final_message_def)
  qed simp
qed

lemma product_answer:
  assumes "product_executeMessage app m now w = (Inr res, w')"
  shows "proper_answer m res"
proof -
  consider (lead) "msg_type m = ''lead_handoff''" "product_take_lead app m now w = (Inr res, w')"
    | (answer) "msg_type m = ''approval_response''" "product_take_response m now w = (Inr res, w')"
    | (status) "product_take_status app m now w = (Inr res, w')"
    | (other) "res = only_note (''Product processed '' @ msg_type m @ ''.'')"
    using assms by (auto simp: product_executeMessage_def split: if_splits)
  then show ?thesis
  proof cases
    case lead
    then show ?thesis using product_lead_answers [OF lead(2)] by (auto simp: bus_rank_def intro!: final_answer)
  next
    case answer
    then have r: "bus_rank m = 2" by (simp add: bus_rank_def)
    then have low: "list_all (\<lambda>o'. bus_rank o' < bus_rank m \<and> sendable o') out" if "list_all final_message out" for out
      using that by (auto simp: list_all_iff final_message_def)
    from answer(2) r show ?thesis
      unfolding product_take_response_def Let_def
      by (auto simp: io_bind_Inr on_product_Inr proper_answer_def discovery_handoff_sendable
          split: if_splits dest!: discovery_answers low)
  next
    case status
    then show ?thesis
      by (auto simp: product_take_status_def io_bind_Inr Let_def split: if_splits prod.splits sum.splits)
  qed simp
qed

lemma engineering_answer:
  assumes "engineering_executeMessage app m now w = (Inr res, w')"
  shows "proper_answer m res"
proof -
  consider (handoff) "msg_type m = ''discovery_handoff''" "engineering_take_handoff app m now w = (Inr res, w')"
    | (answer) "msg_type m = ''approval_response''" "engineering_take_response app m w = (Inr res, w')"
    | (other) "res = only_note (''Engineering ignored '' @ msg_type m @ ''.'')"
    using assms by (auto simp: engineering_executeMessage_def split: if_splits)
  then show ?thesis
  proof cases
    case handoff
    then have "rs_outgoing res = [] \<or> (\<exists>s w0. engineering_build app m s now w0 = (Inr res, w'))"
      unfolding engineering_take_handoff_def Let_def
      by (auto simp: io_bind_Inr split: option.splits if_splits)
    with handoff(1) show ?thesis
      by (auto simp: bus_rank_def dest!: build_answers intro!: final_answer)
  next
    case answer
    then show ?thesis using response_answers [OF answer(2)] by (auto simp: bus_rank_def intro!: final_answer)
  qed simp
qed

lemma pm_answer: "pm_executeMessage app m now w = (Inr res, w') \<Longrightarrow> proper_answer m res"
  by (auto simp: pm_executeMessage_def io_bind_Inr Let_def)

lemma support_answer: "support_executeMessage app w = (Inr res, w') \<Longrightarrow> proper_answer m res"
  by (auto simp: support_executeMessage_def io_bind_Inr)

lemma adapter_answer:
  assumes "message_adapter app to = Some execute" "execute m now w = (Inr res, w')"
  shows "proper_answer m res"
proof -
  obtain a where a: "agent_type_of to = Some a" using assms(1) by (auto simp: message_adapter_def split: option.splits)
  show ?thesis
    using assms a
    by (cases a) (auto simp: message_adapter_def intro: ceo_answer sales_answer product_answer engineering_answer
        pm_answer support_answer)
qed

lemma task_answer:
  assumes "task_adapter app agent = Some execute" "execute task input now w = (Inr res, w')"
  shows "length (rs_outgoing res) \<le> 1 \<and> list_all (\<lambda>m. bus_rank m = 1 \<and> sendable m) (rs_outgoing res)"
  using assms
  by (cases agent) (auto simp: task_adapter_def ceo_executeTask_def marketing_executeTask_def support_executeTask_def
      io_bind_Inr Let_def split: if_splits)

section \<open>The bridge from product to engineering\<close>

lemma those_map_Some [simp]: "those (map (\<lambda>x. Some (f x)) xs) = Some (map f xs)"
  by (induction xs) simp_all

lemma texts_of_value [simp]: "texts_of (strings_value ss) = Some ss"
  by (simp add: texts_of_def strings_value_def text_of_def comp_def)

lemma text_of_JStr [simp]: "text_of (JStr s) = Some s"
  by (simp add: text_of_def)

text \<open>A typed payload is read back from its data.\<close>

lemma discovery_payload_roundtrip: "discovery_payload_of (discovery_payload_value p) = Some p"
proof -
  have c: "capability_of (JObj [(''capability_id'', JStr (ca_capability_id c)),
          (''title'', JStr (ca_title c)), (''description'', JStr (ca_description c))]) = Some c" for c
    by (simp add: capability_of_def text_at_def)
  have a: "approval_note_of (JObj [(''gate'', JStr (an_gate a)), (''decision'', JStr (an_decision a)),
          (''decided_at'', JStr (an_decided_at a)), (''decided_by'', JStr (an_decided_by a))]) = Some a" for a
    by (simp add: approval_note_of_def text_at_def)
  have i: "integration_of (JObj ([(''name'', JStr (it_name i)), (''purpose'', JStr (it_purpose i))] @
            (case it_notes i of None \<Rightarrow> [] | Some n \<Rightarrow> [(''notes'', JStr n)]))) = Some i" for i
    by (cases "it_notes i") (simp_all add: integration_of_def text_at_def text_of_def)
  have spec: "spec_final_of (spec_final_value s) = Some s" for s
    by (simp add: spec_final_of_def spec_final_value_def text_at_def items_of_def comp_def c)
  have "items_of approval_note_of (get_prop (discovery_payload_value p) ''approval_history'') = Some (dp_approval_history p)"
    by (simp add: discovery_payload_value_def items_of_def comp_def a)
  moreover have "items_of integration_of (get_prop (discovery_payload_value p) ''external_integrations'') =
      dp_external_integrations p"
    using i by (cases "dp_external_integrations p") (simp_all add: discovery_payload_value_def items_of_def comp_def)
  ultimately show ?thesis
    by (simp add: discovery_payload_of_def texts_at_def spec)
qed

lemma bridged_field:
  "f \<notin> {''handoff_id'', ''spec_artifact_ref'', ''mvp_scope'', ''tool_stack'', ''technical_constraints''} \<Longrightarrow>
   get_prop (msg_payload (mapProductToEngineeringHandoff s t)) f = get_prop (discovery_payload_value (bridged_payload s)) f"
  by (simp add: mapProductToEngineeringHandoff_def Let_def discovery_payload_value_def)

lemma bridged_object [simp]:
  "msg_payload (mapProductToEngineeringHandoff s t) \<noteq> JUndefined" "msg_payload (mapProductToEngineeringHandoff s t) \<noteq> JNull"
  by (simp_all add: mapProductToEngineeringHandoff_def Let_def)

lemma bridged_reads: "discovery_payload_of (msg_payload (mapProductToEngineeringHandoff s t)) = Some (bridged_payload s)"
  unfolding discovery_payload_roundtrip [of "bridged_payload s", symmetric]
  by (simp add: discovery_payload_of_def texts_at_def bridged_field)

lemma bridged_validates:
  "validateDiscoveryHandoffPayload (msg_payload (mapProductToEngineeringHandoff s t)) =
   validateDiscoveryHandoffPayload (discovery_payload_value (bridged_payload s))"
  unfolding validateDiscoveryHandoffPayload_def by (simp add: bridged_field Let_def)

text \<open>What a project has when its lead was taken over the bridge.\<close>

definition bridge_ready :: "product_state \<Rightarrow> bool" where
  "bridge_ready s \<longleftrightarrow> ps_capability_map s \<noteq> [] \<and> solid (ps_assumptions s) \<and>
     (case ps_latest_spec s of None \<Rightarrow> True
      | Some spec \<Rightarrow> prefix ''#'' (sv_content spec) \<and> prefix ''projects/'' (sv_artifact_ref spec))"

lemma solid_Nil [simp]: "solid []"
  by (simp add: solid_def)

lemma solid_Cons [simp]: "solid (s # ss) \<longleftrightarrow> js_trim s \<noteq> [] \<and> solid ss"
  by (simp add: solid_def)

lemma solid_map: "(\<And>x. \<exists>c \<in> set (f x). \<not> js_space c) \<Longrightarrow> solid (map f xs)"
  by (induction xs) (auto dest: js_trim_solid)

lemma not_space_more: "\<not> js_space CHR ''D''" "\<not> js_space CHR ''#''" "\<not> js_space CHR ''p''" "\<not> js_space CHR ''S''" "\<not> js_space CHR ''m''"
  by (simp_all add: js_space_def)

lemma bridge_accepted:
  assumes "bridge_ready s" "ps_latest_spec s = Some spec" "ps_approval_history s \<noteq> []"
  shows "validateDiscoveryHandoffPayload (msg_payload (mapProductToEngineeringHandoff s t)) = Inr None"
proof -
  let ?p = "bridged_payload s"
  from assms(1,2) have pre: "prefix ''#'' (sv_content spec)" "prefix ''projects/'' (sv_artifact_ref spec)"
    by (simp_all add: bridge_ready_def)
  have title: "js_trim (sf_title (dp_spec_final ?p)) \<noteq> []"
    using pre(2) assms(2) not_space_more(3) by (auto simp: bridged_payload_def Let_def prefix_def js_trim_empty_iff)
  have "CHR ''#'' \<in> set (take 240 (sv_content spec))"
    using pre(1) by (auto simp: prefix_def take_Cons')
  then have summary: "js_trim (sf_summary (dp_spec_final ?p)) \<noteq> []"
    using assms(2) not_space_more(2) by (auto simp: bridged_payload_def Let_def js_trim_empty_iff)
  have "solid (dp_acceptance_criteria ?p)" "solid (dp_feature_priorities ?p)" "solid (dp_implementation_risks ?p)"
    using not_space_more not_space by (auto simp: bridged_payload_def Let_def comp_def intro!: solid_map)
  moreover have "solid (dp_tool_list ?p)"
    by (simp add: bridged_payload_def Let_def js_trim_empty_iff not_space_more)
  moreover have "solid (dp_project_constraints ?p)"
    using assms(1) by (simp add: bridged_payload_def Let_def bridge_ready_def js_trim_empty_iff not_space_more)
  moreover have "sf_capabilities (dp_spec_final ?p) \<noteq> []" "dp_approval_history ?p \<noteq> []"
    using assms by (auto simp: bridged_payload_def Let_def bridge_ready_def enumerate_eq_zip)
  ultimately show ?thesis
    using title summary unfolding bridged_validates
    by (simp add: validateDiscoveryHandoffPayload_def blank_text_def Let_def)
qed

text \<open>The product runtime keeps its projects ready for the bridge when leads come through the adapter.\<close>

definition project_ready :: "product_state \<Rightarrow> bool" where
  "project_ready s \<longleftrightarrow> bridge_ready s \<and> prefix ''projects/'' (ps_namespace s)"

definition bridge_ok :: "product_runtime \<Rightarrow> bool" where
  "bridge_ok rt \<longleftrightarrow> (\<forall>k s. jm_get (pt_projects rt) k = Some s \<longrightarrow> ps_project_id s = k \<and> project_ready s)"

lemma project_ready_simps [simp]:
  "project_ready (s\<lparr>ps_client_id := c\<rparr>) \<longleftrightarrow> project_ready s"
  "project_ready (s\<lparr>ps_last_updated_at := c\<rparr>) \<longleftrightarrow> project_ready s"
  "project_ready (s\<lparr>ps_audit_log := l\<rparr>) \<longleftrightarrow> project_ready s"
  "project_ready (s\<lparr>ps_discovery_status := d\<rparr>) \<longleftrightarrow> project_ready s"
  "project_ready (s\<lparr>ps_handoff_status := h\<rparr>) \<longleftrightarrow> project_ready s"
  "project_ready (s\<lparr>ps_lifecycle_state := e\<rparr>) \<longleftrightarrow> project_ready s"
  "project_ready (s\<lparr>ps_approval_history := a\<rparr>) \<longleftrightarrow> project_ready s"
  "project_ready (s\<lparr>ps_spec_version := n\<rparr>) \<longleftrightarrow> project_ready s"
  "project_ready (s\<lparr>ps_spec_history := p\<rparr>) \<longleftrightarrow> project_ready s"
  "project_ready (s\<lparr>ps_artifacts := f\<rparr>) \<longleftrightarrow> project_ready s"
  "project_ready (s\<lparr>ps_tasks := t\<rparr>) \<longleftrightarrow> project_ready s"
  by (simp_all add: project_ready_def bridge_ready_def)

lemma bridge_persist: "bridge_ok rt \<Longrightarrow> project_ready s \<Longrightarrow> bridge_ok (persist s rt)"
  by (auto simp: bridge_ok_def persist_def split: if_splits)

lemma bridge_require: "bridge_ok rt \<Longrightarrow> Product_Runtime.requireProject rt k = Inr s \<Longrightarrow> project_ready s \<and> ps_project_id s = k"
  by (auto simp: bridge_ok_def Product_Runtime.requireProject_def split: option.splits)

lemma bridge_projects: "bridge_ok rt \<Longrightarrow> pt_projects rt' = pt_projects rt \<Longrightarrow> bridge_ok rt'"
  by (simp add: bridge_ok_def)

lemma spec_starts: "prefix ''#'' (composeSpecContent s n d)"
proof -
  have j: "js_join sep (x # y # ys) = x @ sep @ js_join sep (y # ys)" for sep x y ys by simp
  show ?thesis
    unfolding composeSpecContent_def append_Cons append_Nil j by (simp add: prefix_def)
qed

lemma bridge_write:
  assumes "bridge_ok rt" "writeSpec k t summary rt = Inr (spec, rt')"
  shows "bridge_ok rt'"
proof -
  obtain s where s: "Product_Runtime.requireProject rt k = Inr s"
      "sv_artifact_ref spec = spec_ref (ps_namespace s) (sv_version spec)"
      "sv_content spec = composeSpecContent s (sv_version spec) summary"
    and rt': "\<exists>n d h f ts l u. rt' = persist (s\<lparr>ps_spec_version := n, ps_discovery_status := d,
       ps_latest_spec := Some spec, ps_spec_history := h, ps_artifacts := f, ps_tasks := ts, ps_audit_log := l,
       ps_last_updated_at := u\<rparr>) rt"
    using write_state [OF assms(2)] by blast
  have "project_ready s" using bridge_require [OF assms(1) s(1)] by simp
  moreover have "prefix ''projects/'' (spec_ref (ps_namespace s) n)" if "prefix ''projects/'' (ps_namespace s)" for n
    using that by (auto simp: spec_ref_def prefix_def)
  ultimately have "project_ready (s\<lparr>ps_latest_spec := Some spec\<rparr>)"
    using spec_starts [of s] s(2,3) by (simp add: project_ready_def bridge_ready_def)
  moreover have "project_ready (s\<lparr>ps_spec_version := n, ps_discovery_status := d, ps_latest_spec := Some spec,
      ps_spec_history := h, ps_artifacts := f, ps_tasks := ts, ps_audit_log := l, ps_last_updated_at := u\<rparr>) =
      project_ready (s\<lparr>ps_latest_spec := Some spec\<rparr>)" for n d h f ts l u
    by (simp add: project_ready_def bridge_ready_def)
  ultimately show ?thesis using rt' bridge_persist [OF assms(1)] by metis
qed

lemma bridge_request:
  "bridge_ok rt \<Longrightarrow> requestSpecApproval k i t rec rt = Inr (out, rt') \<Longrightarrow> bridge_ok rt'"
  using bridge_require [of rt k]
  by (auto simp: requestSpecApproval_def outcome_bind_eq_Inr Let_def split: option.split_asm intro!: bridge_persist)

lemma bridge_discovery: "bridge_ok rt \<Longrightarrow> createDiscoveryHandoff k t rt = Inr (out, rt') \<Longrightarrow> bridge_ok rt'"
  using bridge_require [of rt k]
  by (auto simp: createDiscoveryHandoff_def outcome_bind_eq_Inr Let_def split: option.split_asm if_split_asm intro!: bridge_persist)

lemma bridge_ack: "bridge_ok rt \<Longrightarrow> acknowledgeEngineeringHandoff clk k t rt = Inr (s, rt') \<Longrightarrow> bridge_ok rt'"
  using bridge_require [of rt k]
  by (auto simp: acknowledgeEngineeringHandoff_def outcome_bind_eq_Inr Let_def split: if_split_asm
      intro!: bridge_persist dest!: sync_projects intro: bridge_projects)

lemma bridge_record:
  assumes "bridge_ok rt" "recordSpecApprovalResponse k resp rt = Inr (s', rt')"
  shows "bridge_ok rt'"
proof -
  obtain s where s: "Product_Runtime.requireProject rt k = Inr s"
    using assms(2) by (auto simp: recordSpecApprovalResponse_def outcome_bind_eq_Inr)
  then have ready: "project_ready s" using bridge_require assms(1) by blast
  show ?thesis
  proof (cases "ap_decision resp")
    case Revise
    obtain spec rt1 where w: "writeSpec k (ap_timestamp resp)
          (Some (''Revision requested: '' @ nullish (ap_notes resp) ''No notes provided.'')) rt = Inr (spec, rt1)"
      using assms(2) s Revise by (auto simp: recordSpecApprovalResponse_def outcome_bind_eq_Inr Let_def)
    obtain r where r: "Product_Runtime.requireProject rt1 k = Inr r" and rt': "rt' = persist (r
          \<lparr>ps_approval_history := ps_approval_history s @ [\<lparr>rc_version = ps_spec_version s, rc_response = resp\<rparr>],
          ps_discovery_status := Ds_spec_drafting,
          ps_audit_log := ps_audit_log r @ [''revision_created:v'' @ nat_str (sv_version spec) @ '':'' @ ap_timestamp resp],
          ps_last_updated_at := ap_timestamp resp\<rparr>) rt1"
      using assms(2) s Revise w by (auto simp: recordSpecApprovalResponse_def outcome_bind_eq_Inr Let_def)
    have rt1: "bridge_ok rt1" using assms(1) w by (rule bridge_write)
    then have "project_ready r" using bridge_require r by blast
    then show ?thesis unfolding rt' using rt1 by (intro bridge_persist) simp_all
  qed (use assms s ready in \<open>auto simp: recordSpecApprovalResponse_def Let_def intro!: bridge_persist\<close>)
qed

text \<open>The intake of a transformed lead makes the project ready.\<close>

lemma transformed_payload:
  "validateLeadHandoff (message_value (transformed_handoff m)) = (missing, raw) \<Longrightarrow>
   raw = JObj [] \<or> raw = msg_payload (transformed_handoff m)"
  by (auto simp: validateLeadHandoff_def message_value_def Let_def split: if_splits)

lemma transformed_assumptions:
  "solid (extractAssumptions (lead_payload_of (msg_payload (transformed_handoff m))))"
  "solid (extractAssumptions (lead_payload_of (JObj [])))"
  by (simp_all add: extractAssumptions_def lead_payload_of_def opt_texts_def transformed_handoff_def Let_def
      strings_value_def none_or_empty_def solid_def js_trim_empty_iff not_space_more js_space_def)

lemma capability_map_nonempty: "buildCapabilityMap p \<noteq> []"
  by (simp add: buildCapabilityMap_def Let_def)

lemma intake_ready:
  "project_ready base \<or> ps_latest_spec base = None \<and> prefix ''projects/'' (ps_namespace base) \<Longrightarrow>
   solid (extractAssumptions p) \<Longrightarrow> project_ready (intake_state base p mf t)"
  by (auto simp: intake_state_def Let_def project_ready_def bridge_ready_def capability_map_nonempty)

lemma bridge_receive:
  assumes "bridge_ok rt" "receiveLeadHandoff clk c (transformed_handoff m) rt = Inr (x, rt')"
  shows "bridge_ok rt'"
proof -
  let ?m = "transformed_handoff m"
  obtain mf raw where v: "validateLeadHandoff (message_value ?m) = (mf, raw)" by (cases "validateLeadHandoff (message_value ?m)")
  then have p: "solid (extractAssumptions (lead_payload_of raw))"
    using transformed_payload [OF v] transformed_assumptions by auto
  obtain base rt1 where u: "upsertProject clk (msg_project_id ?m) c (msg_timestamp ?m) rt = Inr (base, rt1)"
    using assms(2) v by (auto simp: receiveLeadHandoff_def outcome_bind_eq_Inr Let_def)
  have base: "ps_project_id base = msg_project_id ?m \<and>
      (project_ready base \<or> ps_latest_spec base = None \<and> prefix ''projects/'' (ps_namespace base)) \<and>
      pt_projects rt1 = jm_set (pt_projects rt) (msg_project_id ?m) base"
  proof (cases "jm_get (pt_projects rt) (msg_project_id ?m)")
    case None
    then show ?thesis
      using u by (auto simp: upsertProject_def outcome_bind_eq_Inr Let_def createProductProjectState_def
          buildProjectNamespace_def persist_def dest: sync_projects)
  next
    case (Some old)
    then have "ps_project_id old = msg_project_id ?m" "project_ready old" using assms(1) by (auto simp: bridge_ok_def)
    then show ?thesis using Some u by (auto simp: upsertProject_def Let_def persist_def)
  qed
  let ?s = "intake_state base (lead_payload_of raw) mf (msg_timestamp ?m)"
  have s: "project_ready ?s" using base p by (intro intake_ready) auto
  obtain s' rt2 where s': "project_ready s'" "ps_project_id s' = msg_project_id ?m"
      "syncRegistry clk s' rt1 = Inr rt2" "rt' = persist s' rt2"
  proof (cases "mf = []")
    case True
    let ?n = "?s\<lparr>ps_lifecycle_state := LS_discovery, ps_discovery_status := Ds_discovery_in_progress,
        ps_handoff_status := Hs_not_sent, ps_tasks := updateTask (updateTask (ps_tasks ?s) Pt_handoff_validation Ps_completed
          (msg_timestamp ?m) ''Lead handoff validated'') Pt_discovery_in_progress Ps_in_progress (msg_timestamp ?m)
          ''Discovery started''\<rparr>"
    obtain rt2 where "syncRegistry clk ?n rt1 = Inr rt2" "rt' = persist ?n rt2"
      using assms(2) v u True by (auto simp: receiveLeadHandoff_def outcome_bind_eq_Inr Let_def)
    then show thesis using that [of ?n rt2] s base by simp
  next
    case False
    let ?n = "?s\<lparr>ps_discovery_status := Ds_awaiting_clarification,
        ps_handoff_status := Hs_validation_failed, ps_tasks := updateTask (updateTask (ps_tasks ?s) Pt_handoff_validation
          Ps_blocked (msg_timestamp ?m) (''Missing fields: '' @ js_join '', '' mf)) Pt_awaiting_clarification Ps_in_progress
          (msg_timestamp ?m) ''Waiting for sales clarification''\<rparr>"
    obtain rt2 where "syncRegistry clk ?n rt1 = Inr rt2" "rt' = persist ?n rt2"
      using assms(2) v u False by (auto simp: receiveLeadHandoff_def outcome_bind_eq_Inr Let_def)
    then show thesis using that [of ?n rt2] s base by simp
  qed
  have "pt_projects rt' = jm_set (jm_set (pt_projects rt) (msg_project_id ?m) base) (msg_project_id ?m) s'"
    using s' base sync_projects [OF s'(3)] by (simp add: persist_def)
  then show ?thesis using assms(1) s'(1,2) by (auto simp: bridge_ok_def split: if_splits)
qed

section \<open>What the adapters leave alone\<close>

definition product_kept :: "'x world \<Rightarrow> 'x world \<Rightarrow> bool" where
  "product_kept w w' \<longleftrightarrow> wd_product w' = wd_product w"

definition bridge_kept :: "'x world \<Rightarrow> 'x world \<Rightarrow> bool" where
  "bridge_kept w w' \<longleftrightarrow> (bridge_ok (wd_product w) \<longrightarrow> bridge_ok (wd_product w'))"

lemma kept_order [simp, intro]:
  "reflp product_kept" "transp product_kept" "reflp bridge_kept" "transp bridge_kept"
  by (auto simp: product_kept_def bridge_kept_def reflp_def transp_def)

lemma product_kept_parts [io_keeps]:
  "io_keeps product_kept (on_shell m)" "io_keeps product_kept (on_engineering e)" "io_keeps product_kept (on_ceo c)"
  "io_keeps product_kept (io_get g)" "io_keeps product_kept (app_requireProject k)"
  by (auto simp: io_keeps_def product_kept_def on_shell_def on_engineering_def on_ceo_def io_get_def app_requireProject_def
      split: prod.split option.split)

lemma product_kept_typed [io_keeps]: "io_keeps product_kept (typed x)" "io_keeps product_kept (io_outcome y)"
  by (auto simp: io_keeps_def product_kept_def typed_def io_outcome_def io_return_def io_throw_def split: option.split sum.split)

lemma product_kept_modify: "(\<And>w. wd_product (f w) = wd_product w) \<Longrightarrow> io_keeps product_kept (io_modify f)"
  by (simp add: io_keeps_def product_kept_def io_modify_def)

lemma product_kept_bridge: "io_keeps product_kept m \<Longrightarrow> io_keeps bridge_kept m"
  by (auto simp: io_keeps_def product_kept_def bridge_kept_def)

lemma bridge_kept_product:
  assumes "\<And>rt x rt'. bridge_ok rt \<Longrightarrow> f rt = Inr (x, rt') \<Longrightarrow> bridge_ok rt'"
  shows "io_keeps bridge_kept (on_product f)"
proof -
  have "bridge_ok (wd_product w) \<Longrightarrow> bridge_ok ((wd_product w)\<lparr>pt_registry := r\<rparr>)" for w :: "'x world" and r
    by (simp add: bridge_ok_def)
  then show ?thesis
    unfolding io_keeps_def bridge_kept_def on_product_def using assms
    by (auto split: sum.split) blast
qed

lemma bind_agents_kept [io_keeps]:
  "io_keeps product_kept (bindAgents app agents k now)" "io_keeps product_kept (assignProjectAgents app k now)"
proof -
  show b: "io_keeps product_kept (bindAgents app agents k now)" for agents
    unfolding bindAgents_def
    by (intro io_keeps_bind io_keeps_each kept_order) (auto intro: io_keeps split: option.split)
  then show "io_keeps product_kept (assignProjectAgents app k now)" by (simp add: assignProjectAgents_def)
qed

lemma ceo_kept: "io_keeps product_kept (ceo_executeMessage app m now)" "io_keeps product_kept (ceo_executeTask app task input now)"
  unfolding ceo_executeMessage_def ceo_executeTask_def
  by (auto intro!: io_keeps_bind io_keeps)

lemma create_missing_kept [io_keeps]: "io_keeps product_kept (createProjectIfMissing app k c now l t)"
  unfolding createProjectIfMissing_def by (auto intro!: io_keeps_bind io_keeps split: option.split)

lemma marketing_kept: "io_keeps product_kept (marketing_executeTask app task input now)"
  unfolding marketing_executeTask_def Let_def by (auto intro!: io_keeps_bind io_keeps)

lemma advance_kept [io_keeps]: "io_keeps product_kept (advance_project app k now)"
  unfolding advance_project_def by (auto intro!: io_keeps_each io_keeps_bind io_keeps)

lemma sales_kept: "io_keeps product_kept (sales_executeMessage app m now)"
proof -
  have "io_keeps product_kept (sales_take_lead m now)"
    unfolding sales_take_lead_def Let_def by (intro io_keeps_bind io_keeps kept_order product_kept_modify) simp
  moreover have "io_keeps product_kept (sales_take_response app m now)"
    unfolding sales_take_response_def Let_def
    by (auto intro!: io_keeps_bind io_keeps product_kept_modify split: option.split prod.split)
  ultimately show ?thesis by (auto simp: sales_executeMessage_def intro!: io_keeps)
qed

lemma engineering_kept: "io_keeps product_kept (engineering_executeMessage app m now)"
proof -
  have r: "io_keeps product_kept (read_discovery m)"
    unfolding read_discovery_def by (auto intro!: io_keeps_bind io_keeps split: option.split)
  have "io_keeps product_kept (engineering_build app m s now)" for s
    unfolding engineering_build_def Let_def set_engineering_project_def
    by (auto intro!: io_keeps_bind io_keeps r product_kept_modify split: prod.split)
  then have "io_keeps product_kept (engineering_take_handoff app m now)"
    unfolding engineering_take_handoff_def Let_def by (auto intro!: io_keeps_bind io_keeps split: option.split)
  moreover have "io_keeps product_kept (engineering_take_response app m)"
    unfolding engineering_take_response_def Let_def set_engineering_project_def
    by (auto intro!: io_keeps_bind io_keeps product_kept_modify split: option.split)
  ultimately show ?thesis by (auto simp: engineering_executeMessage_def intro!: io_keeps)
qed

lemma pm_kept: "io_keeps product_kept (pm_executeMessage app m now)"
  unfolding pm_executeMessage_def Let_def
  by (auto intro!: io_keeps_bind io_keeps product_kept_modify split: option.split)

lemma support_kept: "io_keeps product_kept (support_executeMessage app)" "io_keeps product_kept (support_executeTask app task input now)"
  unfolding support_executeMessage_def support_executeTask_def
  by (auto intro!: io_keeps_bind io_keeps product_kept_modify)

lemma product_bridge: "io_keeps bridge_kept (product_executeMessage app m now)"
proof -
  note other = product_kept_bridge [OF product_kept_parts(4)] product_kept_bridge [OF product_kept_parts(5)]
    product_kept_bridge [OF product_kept_typed(1)]
  have set: "io_keeps bridge_kept (set_product_project k s)" for k s
    unfolding set_product_project_def by (intro product_kept_bridge product_kept_modify) simp
  have lead: "io_keeps bridge_kept (product_take_lead app m now)"
    unfolding product_take_lead_def Let_def
    by (auto intro!: io_keeps_bind io_keeps_return other set bridge_kept_product split: prod.split
        intro: bridge_receive bridge_write bridge_request)
  have response: "io_keeps bridge_kept (product_take_response m now)"
    unfolding product_take_response_def Let_def
    by (auto intro!: io_keeps_bind io_keeps_return other set bridge_kept_product intro: bridge_record bridge_discovery)
  have ack: "io_keeps bridge_kept (io_bind (on_product (acknowledgeEngineeringHandoff (oa_clock app) k now)) (set_product_project k))" for k
    by (auto intro!: io_keeps_bind set bridge_kept_product intro: bridge_ack)
  have status: "io_keeps bridge_kept (product_take_status app m now)"
    unfolding product_take_status_def Let_def
  proof (intro io_keeps_bind other kept_order)
    fix p
    show "io_keeps bridge_kept (if pe_lifecycle_state p \<in> {LS_qa, LS_delivered, LS_support, LS_closed} then
        io_return (only_note (''Product observed engineering status while project is already '' @
          lifecycle_str (pe_lifecycle_state p) @ ''.''))
      else (\<lambda>w.
        case io_bind (on_product (acknowledgeEngineeringHandoff (oa_clock app) (msg_project_id m) now))
            (set_product_project (msg_project_id m)) w of
          (Inl _, w) \<Rightarrow>
            (Inr (only_note (''Product ignored duplicate engineering acknowledgment for '' @ msg_project_id m @ ''.'')), w)
        | (Inr _, w) \<Rightarrow> (Inr (only_note (''Product processed '' @ msg_type m @ ''.'')), w)))"
      using ack [of "msg_project_id m"]
      by (auto simp: io_keeps_def io_return_def bridge_kept_def split: prod.split sum.split)
  qed
  show ?thesis
    unfolding product_executeMessage_def using lead response status by (auto intro: io_keeps_return)
qed

lemma adapter_bridge:
  assumes "message_adapter app to = Some execute"
  shows "io_keeps bridge_kept (execute m now)"
proof -
  obtain a where a: "agent_type_of to = Some a" using assms by (auto simp: message_adapter_def split: option.splits)
  show ?thesis
    using assms a
    by (cases a) (auto simp: message_adapter_def intro: product_bridge product_kept_bridge ceo_kept sales_kept
        engineering_kept pm_kept support_kept)
qed

lemma task_bridge: "task_adapter app agent = Some execute \<Longrightarrow> io_keeps bridge_kept (execute task input now)"
  by (cases agent) (auto simp: task_adapter_def intro: product_kept_bridge ceo_kept marketing_kept support_kept)

end
