(* ===== verification/Operational_App.thy ===== *)
theory Operational_App
  imports Agent_Adapters
begin

text \<open>
  The running application, \<^verbatim>\<open>src/runtime-app/orchestration/runtimeApp.ts\<close>: the message bus
  over the agents' adapters, tasks, owner directives, approvals, and the approval requests of the
  departments' runs. The runs themselves call language models and are not modelled.
\<close>

section \<open>The bus over the adapters\<close>

definition thrown :: "'a outcome \<Rightarrow> string option" where
  "thrown r = (case r of Inl e \<Rightarrow> Some e | Inr _ \<Rightarrow> None)"

definition operational_port :: "'x operational_app \<Rightarrow> 'x world app_port" where
  "operational_port app =
     \<lparr>bindAgentsToProject = (\<lambda>agents projectId now w. apfst thrown (bindAgents app agents projectId now w)),
      shell_routeMessage = (\<lambda>m w. case sh_routeMessage (oa_shell app) m (wd_registry w, wd_shell w) of
        (x, r, s) \<Rightarrow> (x, w\<lparr>wd_registry := r, wd_shell := s\<rparr>)),
      executeMessage = (\<lambda>to. map_option (\<lambda>execute m now w. apfst (map_sum id rs_outgoing) (execute m now w))
        (message_adapter app to)),
      raiseRepeatedFailureEscalation = (\<lambda>m reason now w. apfst thrown (raiseRepeatedFailure app m reason now w))\<rparr>"

definition MAX_ATTEMPTS :: nat where
  "MAX_ATTEMPTS = 3"

text \<open>The calls the application makes of the bus, which reads the time from the message.\<close>

definition app_dispatch ::
  "nat \<Rightarrow> 'x operational_app \<Rightarrow> agent_message \<Rightarrow> 'x world bus \<Rightarrow> (string option \<times> 'x world bus) option" where
  "app_dispatch fuel app message b =
     dispatch fuel (operational_port app) MAX_ATTEMPTS message (msg_timestamp message) 1 b"

text \<open>The outgoing messages of a task are sent one after the other.\<close>

definition executeAgentTask ::
  "nat \<Rightarrow> 'x operational_app \<Rightarrow> agent_type \<Rightarrow> string \<Rightarrow> jsval \<Rightarrow> string \<Rightarrow> 'x world bus \<Rightarrow>
   (string option \<times> 'x world bus) option" where
  "executeAgentTask fuel app agentType task input now b =
     (case task_adapter app agentType of
        None \<Rightarrow> Some (Some (''Task adapter not available for '' @ agent_type_str agentType), b)
      | Some execute \<Rightarrow>
          (case execute task input now (snd b) of
             (Inl e, w) \<Rightarrow> Some (Some e, fst b, w)
           | (Inr result, w) \<Rightarrow>
               dispatch_all fuel (operational_port app) MAX_ATTEMPTS (rs_outgoing result) (fst b, w)))"

definition ownerDirective :: "'x operational_app \<Rightarrow> string \<Rightarrow> string \<Rightarrow> (string, 'x world) io" where
  "ownerDirective app rawInput now =
     io_bind (on_ceo (executeOwnerDirective (oa_clock app) rawInput
       \<lparr>oi_actor_id = ''owner'', oi_token_id = Some ''owner-token'', oi_authenticated = True\<rparr> Mode_natural now))
       (\<lambda>result. io_return (dr_response result))"

definition respondToPendingApproval ::
  "nat \<Rightarrow> 'x operational_app \<Rightarrow> string \<Rightarrow> approval_gate \<Rightarrow> approval_decision \<Rightarrow> string \<Rightarrow> string option \<Rightarrow>
   'x world bus \<Rightarrow> (string option \<times> 'x world bus) option" where
  "respondToPendingApproval fuel app projectId gate decision now notes b =
     (case on_shell (sh_pending_approvals (oa_shell app) now) (snd b) of
        (Inl e, w) \<Rightarrow> Some (Some e, fst b, w)
      | (Inr pending, w) \<Rightarrow>
          (case find (\<lambda>item. ar_project_id item = Some projectId \<and> ar_gate item = gate) pending of
             None \<Rightarrow> Some (Some (''Pending approval '' @ approval_gate_str gate @ '' not found for '' @ projectId), fst b, w)
           | Some approval \<Rightarrow>
               let response = \<lparr>ap_request_id = ar_request_id approval, ap_gate = ar_gate approval, ap_timestamp = now,
                     ap_decision = decision, ap_notes = notes\<rparr>
               in (case on_shell (sh_applyApprovalResponse (oa_shell app) response) w of
                     (Inl e, w) \<Rightarrow> Some (Some e, fst b, w)
                   | (Inr _, w) \<Rightarrow>
                       app_dispatch fuel app
                         (makeApprovalResponseMessage (ar_from_agent approval) projectId now response) (fst b, w))))"

section \<open>Runs of the departments\<close>

datatype head_agent =
    Ceo_head | Marketing_head | Sales_head | Product_head | Engineering_head | Pm_head | Support_head

fun head_agent_str :: "head_agent \<Rightarrow> string" where
  "head_agent_str Ceo_head = ''ceo-agent''"
| "head_agent_str Marketing_head = ''marketing-head''"
| "head_agent_str Sales_head = ''sales-head''"
| "head_agent_str Product_head = ''product-head''"
| "head_agent_str Engineering_head = ''engineering-head''"
| "head_agent_str Pm_head = ''pm-head''"
| "head_agent_str Support_head = ''support-head''"

record department_run =
  dn_runId :: string
  dn_headAgentId :: head_agent
  dn_workflow :: string
  dn_startedAt :: string
  dn_completedAt :: string
  dn_failed :: bool
  dn_requiresApproval :: bool
  dn_summary :: string
  dn_output :: jsval
  dn_approvalRequestId :: "string option"

definition withWorkflowPayload :: "jsval \<Rightarrow> string option \<Rightarrow> jsval" where
  "withWorkflowPayload payload workflow =
     (case workflow of
        None \<Rightarrow> payload
      | Some name \<Rightarrow>
          if name = [] then payload
          else JObj (jm_set (if is_object payload then spread payload else [(''payload'', payload)])
                 ''workflow'' (JStr name)))"

fun mapHeadToApprovalGate :: "head_agent \<Rightarrow> approval_gate" where
  "mapHeadToApprovalGate Sales_head = Proposal_final"
| "mapHeadToApprovalGate Product_head = Spec_final"
| "mapHeadToApprovalGate Engineering_head = Delivery_final"
| "mapHeadToApprovalGate _ = Strategic_decision"

fun mapHeadToAgentType :: "head_agent \<Rightarrow> agent_type" where
  "mapHeadToAgentType Ceo_head = Ceo_agent"
| "mapHeadToAgentType Marketing_head = Marketing_agent"
| "mapHeadToAgentType Sales_head = Sales_agent"
| "mapHeadToAgentType Product_head = Product_agent"
| "mapHeadToAgentType Engineering_head = Engineering_agent"
| "mapHeadToAgentType Pm_head = Project_manager_agent"
| "mapHeadToAgentType Support_head = Support_agent"

definition collectApprovalRisks :: "department_run \<Rightarrow> string list" where
  "collectApprovalRisks run =
     (case get_prop (dn_output run) ''risks'' of
        JArr vs \<Rightarrow> map str_of (filter is_string vs)
      | _ \<Rightarrow>
          if dn_failed run then
            [nullish (text_at (dn_output run) ''reason'') ''Department workflow failed.'']
          else [''Validate '' @ dn_workflow run @ '' output before downstream execution.''])"

definition buildDepartmentApprovalRequest :: "department_run \<Rightarrow> string option \<Rightarrow> approval_request" where
  "buildDepartmentApprovalRequest run projectId =
     \<lparr>ar_request_id = dn_runId run @ '':approval'', ar_gate = mapHeadToApprovalGate (dn_headAgentId run),
      ar_from_agent = mapHeadToAgentType (dn_headAgentId run), ar_timestamp = dn_completedAt run,
      ar_project_id = projectId, ar_summary = dn_summary run,
      ar_recommendation = ''Review '' @ dn_workflow run @ '' output from '' @ head_agent_str (dn_headAgentId run) @ ''.'',
      ar_risks = collectApprovalRisks run, ar_options = [Approve, Reject, Revise],
      ar_artifact_ref = ''runtime://'' @ dn_runId run\<rparr>"

text \<open>
  What a run records, from the output and summary its executor returned: the record, and whether
  an approval is asked for. The runs are kept newest first.
\<close>

definition recordDepartmentRun ::
  "'x operational_app \<Rightarrow> head_agent \<Rightarrow> string option \<Rightarrow> bool \<Rightarrow> string option \<Rightarrow> string \<Rightarrow> jsval \<Rightarrow> string \<Rightarrow>
   department_run list \<Rightarrow> 'x world bus \<Rightarrow> (department_run \<times> department_run list) outcome \<times> 'x world bus" where
  "recordDepartmentRun app head workflow requireApproval projectId now output summary runs b =
     (let failed = (get_prop output ''status'' = JStr ''failed'');
          run = \<lparr>dn_runId = ''dept-run:'' @ head_agent_str head @ '':'' @ now, dn_headAgentId = head,
            dn_workflow = nullish (text_at output ''workflow'') (nullish workflow ''default''),
            dn_startedAt = now, dn_completedAt = now, dn_failed = failed, dn_requiresApproval = requireApproval,
            dn_summary = summary, dn_output = output, dn_approvalRequestId = None\<rparr>;
          approval = buildDepartmentApprovalRequest run projectId
      in case (if requireApproval \<and> \<not> failed
               then on_shell (sh_recordApprovalRequest (oa_shell app) approval) (snd b) else (Inr (), snd b)) of
           (Inl e, w) \<Rightarrow> (Inl e, fst b, w)
         | (Inr _, w) \<Rightarrow>
             let run = (if requireApproval \<and> \<not> failed
                   then run\<lparr>dn_approvalRequestId := Some (ar_request_id approval)\<rparr> else run)
             in (Inr (run, run # runs),
                 fst b @ [Ev_department_run now (head_agent_str head) (dn_workflow run) failed requireApproval], w))"

section \<open>States the application reaches\<close>

text \<open>
  From a start, by what the adapters do with any message or task; the registry, the shell and the
  files may change in any other way in between.
\<close>

inductive app_reachable :: "'x operational_app \<Rightarrow> 'x world \<Rightarrow> bool" for app where
  start: "newOperationalApp sh workers clk now booted files = Inr w \<Longrightarrow> app_reachable app w"
| message: "app_reachable app w \<Longrightarrow> message_adapter app to = Some execute \<Longrightarrow> execute m now w = (res, w') \<Longrightarrow>
    app_reachable app w'"
| task: "app_reachable app w \<Longrightarrow> task_adapter app agent = Some perform \<Longrightarrow> perform t input now w = (res, w') \<Longrightarrow>
    app_reachable app w'"
| outside: "app_reachable app w \<Longrightarrow> app_reachable app (w\<lparr>wd_registry := r, wd_shell := x, wd_files := f\<rparr>)"

lemma reachable_bridge: "app_reachable app w \<Longrightarrow> bridge_ok (wd_product w)"
proof (induction rule: app_reachable.induct)
  case (start sh workers clk now booted files w)
  then show ?case
    by (auto simp: newOperationalApp_def Let_def bridge_ok_def empty_product_runtime_def split: prod.splits sum.splits)
next
  case (message w to execute m now res w')
  then show ?case using io_keepsD [OF adapter_bridge, of app to execute m now w res w'] by (simp add: bridge_kept_def)
next
  case (task w agent perform t input now res w')
  then show ?case using io_keepsD [OF task_bridge, of app agent perform t input now w res w'] by (simp add: bridge_kept_def)
next
  case (outside w r x f)
  then show ?case by simp
qed

text \<open>A handoff is written from a project with an approved spec.\<close>

lemma handoff_state:
  assumes "bridge_ok (wd_product w)" "product_take_response m now w = (Inr res, w')"
    "o' \<in> set (rs_outgoing res)" "msg_type o' = ''discovery_handoff''"
  shows "\<exists>s spec. o' = mapProductToEngineeringHandoff s now \<and> bridge_ready s \<and> ps_latest_spec s = Some spec \<and>
    ps_approval_history s \<noteq> []"
proof -
  let ?k = "msg_project_id m"
  from assms(2,3) obtain response st w1 w2 out w3 where
    1: "on_product (recordSpecApprovalResponse ?k response) w = (Inr st, w1)"
    and 2: "w2 = w1\<lparr>wd_productProjects := jm_set (wd_productProjects w1) ?k st\<rparr>"
    and 3: "on_product (createDiscoveryHandoff ?k now) w2 = (Inr out, w3)"
    and o': "o' \<in> set (filter (\<lambda>m. msg_type m = ''status_update'') out @
      [mapProductToEngineeringHandoff (nullish (getProjectState (wd_product w3) ?k) st) now])"
    unfolding product_take_response_def Let_def set_product_project_def
    by (auto simp: io_bind_Inr split: if_splits)
  have "bridge_ok (wd_product w1)"
    using io_keepsD [OF bridge_kept_product 1] bridge_record assms(1) by (auto simp: bridge_kept_def)
  then have ok: "bridge_ok ((wd_product w2)\<lparr>pt_registry := r\<rparr>)" for r using 2 by (simp add: bridge_ok_def)
  obtain rt where h: "createDiscoveryHandoff ?k now ((wd_product w2)\<lparr>pt_registry := Some (wd_registry w2)\<rparr>) = Inr (out, rt)"
      "wd_product w3 = rt"
    using 3 by (auto simp: on_product_Inr)
  obtain s spec where s: "Product_Runtime.requireProject ((wd_product w2)\<lparr>pt_registry := Some (wd_registry w2)\<rparr>) ?k = Inr s"
      "ps_latest_spec s = Some spec" "last_approved s"
    using h(1) by (auto simp: createDiscoveryHandoff_def outcome_bind_eq_Inr split: option.split_asm if_split_asm)
  have ready: "project_ready s \<and> ps_project_id s = ?k" using bridge_require [OF ok s(1)] .
  then have "\<exists>s'. getProjectState rt ?k = Some s' \<and> project_ready s' \<and> ps_latest_spec s' = Some spec \<and>
      ps_approval_history s' = ps_approval_history s"
    using h(1) s by (auto simp: createDiscoveryHandoff_def Let_def getProjectState_def persist_def)
  moreover have "ps_approval_history s \<noteq> []" using s(3) by (auto simp: last_approved_def)
  moreover have "o' = mapProductToEngineeringHandoff (nullish (getProjectState (wd_product w3) ?k) st) now"
    using o' assms(4) by auto
  ultimately show ?thesis using h(2) by (auto simp: project_ready_def)
qed

text \<open>Only the answer of the owner makes product write a handoff.\<close>

lemma handoff_from_response:
  "product_executeMessage app m now w = (Inr res, w') \<Longrightarrow> o' \<in> set (rs_outgoing res) \<Longrightarrow>
   msg_type o' = ''discovery_handoff'' \<Longrightarrow> product_take_response m now w = (Inr res, w')"
proof -
  assume a: "product_executeMessage app m now w = (Inr res, w')" "o' \<in> set (rs_outgoing res)"
    "msg_type o' = ''discovery_handoff''"
  have "\<not> final_message o'" using a(3) by (simp add: final_message_def bus_rank_def)
  moreover have "product_take_lead app m now w = (Inr res, w') \<Longrightarrow> final_message o'"
    using product_lead_answers [of app m now w res w'] a(2) by (auto simp: list_all_iff)
  moreover have "product_take_status app m now w = (Inr res, w') \<Longrightarrow> rs_outgoing res = []"
    by (auto simp: product_take_status_def io_bind_Inr Let_def split: if_splits prod.splits sum.splits)
  ultimately show ?thesis using a by (auto simp: product_executeMessage_def split: if_splits)
qed

text \<open>The bus leaves the payload of a handoff as it is.\<close>

lemma normalize_handoff: "normalizeMessageForRuntime (mapProductToEngineeringHandoff s t) = mapProductToEngineeringHandoff s t"
  by (simp add: normalizeMessageForRuntime_def mapProductToEngineeringHandoff_def Let_def)

section \<open>The bus comes to rest\<close>

lemma port_answers: "answers_below (operational_port app) bus_rank 5"
  unfolding answers_below_def
proof (intro allI impI)
  fix to ex m now and w :: "'a world" and out w'
  assume "executeMessage (operational_port app) to = Some ex" "ex m now w = (Inr out, w')"
  then obtain execute res where "message_adapter app to = Some execute" "execute m now w = (Inr res, w')" "out = rs_outgoing res"
    by (auto simp: operational_port_def apfst_def map_prod_def map_sum_def split: prod.splits sum.splits)
  then have "proper_answer m res" "out = rs_outgoing res" using adapter_answer by auto
  then show "length out \<le> 5 \<and> (\<forall>o' \<in> set out. bus_rank (normalizeMessageForRuntime o') < bus_rank m)"
    by (auto simp: proper_answer_def list_all_iff)
qed

lemma bus_rank_le: "bus_rank m \<le> 2"
  by (simp add: bus_rank_def)

text \<open>Fuel for a message and the messages it causes: two steps of the order below an answer.\<close>

definition bus_fuel :: nat where
  "bus_fuel = dispatch_fuel MAX_ATTEMPTS 5 2 1"

lemma fuel_enough: "dispatch_fuel MAX_ATTEMPTS 5 (bus_rank m) 1 \<le> bus_fuel"
proof -
  have "bus_rank m * (7 + MAX_ATTEMPTS) \<le> 2 * (7 + MAX_ATTEMPTS)" using bus_rank_le by (rule mult_le_mono1)
  then show ?thesis by (simp add: bus_fuel_def dispatch_fuel_def)
qed

lemma dispatch_rests: "dispatch bus_fuel (operational_port app) MAX_ATTEMPTS m t 1 b \<noteq> None"
proof -
  have "dispatch_fuel MAX_ATTEMPTS 5 (bus_rank (normalizeMessageForRuntime m)) 1 \<le> bus_fuel" by (rule fuel_enough)
  then show ?thesis using dispatch_ends [OF port_answers [of app], of MAX_ATTEMPTS bus_fuel] by blast
qed

lemma dispatch_all_rests:
  assumes "length msgs \<le> 1" "list_all (\<lambda>m. bus_rank m = 1) msgs"
  shows "dispatch_all bus_fuel (operational_port app) MAX_ATTEMPTS msgs b \<noteq> None"
proof -
  have "dispatch_fuel MAX_ATTEMPTS 5 (bus_rank (normalizeMessageForRuntime m)) 1 + length msgs \<le> bus_fuel" if "m \<in> set msgs" for m
    using assms that by (simp add: list_all_iff bus_fuel_def dispatch_fuel_def MAX_ATTEMPTS_def)
  moreover have "0 < bus_fuel" by (simp add: bus_fuel_def dispatch_fuel_def)
  ultimately show ?thesis using dispatch_ends [OF port_answers [of app], of MAX_ATTEMPTS bus_fuel] by blast
qed

section \<open>Properties of the component\<close>

section \<open>A lead on its way to product\<close>

lemma normalized_lead_payload:
  "asRecord (msg_payload (normalizeMessageForRuntime (normalizedLeadHandoff l p k t))) = msg_payload (normalizedLeadHandoff l p k t)"
  by (simp add: normalizeMessageForRuntime_def normalizedLeadHandoff_def buildLeadHandoffBundle_def Let_def asRecord_def)

lemma lead_stakeholders:
  "toStringArray (get_prop (msg_payload (normalizedLeadHandoff l p k t)) ''stakeholders'') d =
   (if ld_stakeholders l \<noteq> [] then ld_stakeholders l else [ld_primary_contact l])"
proof -
  have "get_prop (msg_payload (normalizedLeadHandoff l p k t)) ''stakeholders'' =
      strings_value (if ld_stakeholders l \<noteq> [] then ld_stakeholders l else [ld_primary_contact l])"
    by (simp add: normalizedLeadHandoff_def Let_def field_override [unfolded field_def] del: get_prop.simps)
  then show ?thesis by (simp add: toStringArray_def strings_value_def filter_map comp_def)
qed

lemma lead_accepted:
  "fst (validateLeadHandoff (message_value (transformed_handoff (normalizeMessageForRuntime (normalizedLeadHandoff l p k t))))) = []"
proof -
  let ?m = "normalizeMessageForRuntime (normalizedLeadHandoff l p k t)"
  have ty: "msg_from ?m = ''sales_agent''" "msg_to ?m = ''product_agent''" "msg_type ?m = ''lead_handoff''"
    by (simp_all add: normalizedLeadHandoff_def buildLeadHandoffBundle_def Let_def)
  then show ?thesis
    unfolding transformed_handoff_def Let_def normalized_lead_payload lead_stakeholders
    by (auto simp: validateLeadHandoff_def message_value_def Let_def HANDOFF_REQUIRED_FIELDS_def missing_field_def
        strings_value_def non_empty_or_def)
qed

lemma sync_some:
  assumes "pt_registry rt = Some r"
  shows "\<exists>rt' r' q. syncRegistry clk s rt = Inr rt' \<and> pt_projects rt' = pt_projects rt \<and> pt_registry rt' = Some r' \<and>
    getProject r' (ps_project_id s) = Some q \<and> pe_lifecycle_state q = ps_lifecycle_state s"
proof (cases "getProject r (ps_project_id s)")
  case None
  then show ?thesis
    using assms by (auto simp: syncRegistry_def registerProject_def getProject_def appendProjectSnapshot_def audit_def
        read_clock_def Let_def split: prod.split)
next
  case (Some existing)
  then show ?thesis
    using assms by (auto simp: syncRegistry_def updateProject_def getProject_def appendProjectSnapshot_def audit_def
        read_clock_def Let_def split: prod.split)
qed

text \<open>An accepted lead: the project exists in the runtime and is in discovery in the registry.\<close>

lemma accepted_intake:
  assumes "fst (validateLeadHandoff (message_value m)) = []" "pt_registry rt = Some r"
    and keyed: "\<And>s. jm_get (pt_projects rt) (msg_project_id m) = Some s \<Longrightarrow> ps_project_id s = msg_project_id m"
  shows "\<exists>x rt' r' q s. receiveLeadHandoff clk c m rt = Inr (x, rt') \<and> in_accepted x \<and> pt_registry rt' = Some r' \<and>
    getProject r' (msg_project_id m) = Some q \<and> pe_lifecycle_state q = LS_discovery \<and>
    Product_Runtime.requireProject rt' (msg_project_id m) = Inr s \<and> ps_project_id s = msg_project_id m \<and>
    ps_lifecycle_state s = LS_discovery \<and> ps_spec_version s = (case jm_get (pt_projects rt) (msg_project_id m) of
      None \<Rightarrow> 0 | Some old \<Rightarrow> ps_spec_version old)"
proof -
  obtain raw where v: "validateLeadHandoff (message_value m) = ([], raw)" using assms(1) by (metis prod.collapse)
  obtain base rt1 r1 where u: "upsertProject clk (msg_project_id m) c (msg_timestamp m) rt = Inr (base, rt1)"
      "ps_project_id base = msg_project_id m" "pt_registry rt1 = Some r1"
      "ps_spec_version base = (case jm_get (pt_projects rt) (msg_project_id m) of None \<Rightarrow> 0 | Some old \<Rightarrow> ps_spec_version old)"
  proof (cases "jm_get (pt_projects rt) (msg_project_id m)")
    case None
    let ?s = "createProductProjectState (msg_project_id m) c (msg_timestamp m)"
    obtain rt' r' where "syncRegistry clk ?s rt = Inr rt'" "pt_registry rt' = Some r'"
      using sync_some [OF assms(2)] by blast
    then show thesis
      using None that [of ?s "persist ?s rt'" r'] by (simp add: upsertProject_def Let_def createProductProjectState_def persist_def)
  next
    case (Some old)
    then show thesis
      using that [of "old\<lparr>ps_client_id := c, ps_last_updated_at := msg_timestamp m\<rparr>"] keyed [OF Some] assms(2)
      by (simp add: upsertProject_def Let_def persist_def)
  qed
  let ?s = "intake_state base (lead_payload_of raw) [] (msg_timestamp m)"
  let ?n = "?s\<lparr>ps_lifecycle_state := LS_discovery, ps_discovery_status := Ds_discovery_in_progress,
        ps_handoff_status := Hs_not_sent, ps_tasks := updateTask (updateTask (ps_tasks ?s) Pt_handoff_validation Ps_completed
          (msg_timestamp m) ''Lead handoff validated'') Pt_discovery_in_progress Ps_in_progress (msg_timestamp m)
          ''Discovery started''\<rparr>"
  have n: "ps_project_id ?n = msg_project_id m" "ps_lifecycle_state ?n = LS_discovery"
    "ps_spec_version ?n = ps_spec_version base"
    using u(2) by (simp_all add: intake_state_def Let_def)
  obtain rt2 r2 q where y: "syncRegistry clk ?n rt1 = Inr rt2" "pt_registry rt2 = Some r2"
      "getProject r2 (msg_project_id m) = Some q" "pe_lifecycle_state q = LS_discovery"
    using sync_some [OF u(3), of clk ?n] n by auto
  have "\<exists>x. receiveLeadHandoff clk c m rt = Inr (x, persist ?n rt2) \<and> in_accepted x"
    using v u(1) y(1) by (simp add: receiveLeadHandoff_def Let_def)
  moreover have "pt_registry (persist ?n rt2) = Some r2"
      "Product_Runtime.requireProject (persist ?n rt2) (msg_project_id m) = Inr ?n"
    using y(2) n(1) by (simp add: persist_def, simp)
  ultimately show ?thesis using y n u(4) by metis
qed

section \<open>A project after its build\<close>

lemma final_validation_only:
  "x \<in> set LIFECYCLE_TRANSITIONS \<Longrightarrow> lt_event x = Final_validation_started \<Longrightarrow> lt_from x = LS_implementation \<and> lt_to x = LS_qa"
  by (auto simp: LIFECYCLE_TRANSITIONS_def)

lemma accept_state:
  "acceptDiscoveryHandoff h clk m s base x = (Inr acc, y) \<Longrightarrow> es_project_id (ah_nextState acc) = es_project_id s"
  by (auto simp: acceptDiscoveryHandoff_def io_bind_Inr Let_def split: option.splits prod.splits)

lemma qa_moves:
  assumes "startQaValidation h clk s t (r, f) = (Inr (s', m), r', f')"
  shows "\<exists>p. getProject r' (es_project_id s) = Some p \<and> pe_lifecycle_state p = LS_qa"
proof -
  obtain u r1 f1 where 1: "update_lifecycle clk \<lparr>lu_project_id = es_project_id s, lu_event = Final_validation_started,
        lu_actor = Engineering_agent, lu_timestamp = t, lu_milestone = ''qa_started''\<rparr> (r, f) = (Inr u, r1, f1)"
    and 2: "r' = r1"
    using assms by (auto simp: startQaValidation_def io_bind_Inr on_files_Inr)
  then show ?thesis using update_effect [OF 1] final_validation_only by fastforce
qed

lemma build_moves:
  assumes "engineering_build app m s now w = (Inr res, w')" "es_project_id s = msg_project_id m"
  shows "\<exists>p. getProject (wd_registry w') (msg_project_id m) = Some p \<and> pe_lifecycle_state p = LS_qa"
  using assms unfolding engineering_build_def Let_def set_engineering_project_def
  by (auto simp: io_bind_Inr on_engineering_Inr on_files_Inr dest!: accept_state qa_moves)

lemma build_or_note:
  assumes "engineering_executeMessage app m now w = (Inr res, w')" "rs_approvals res \<noteq> []"
  shows "\<exists>s w0. engineering_build app m s now w0 = (Inr res, w') \<and>
    (jm_get (wd_engineeringProjects w) (msg_project_id m) = Some s \<or> es_project_id s = msg_project_id m)"
proof -
  have "engineering_take_handoff app m now w = (Inr res, w')"
    using assms by (auto simp: engineering_executeMessage_def engineering_take_response_def io_bind_Inr only_note_def Let_def
        split: if_splits option.split_asm)
  then show ?thesis
    using assms(2) unfolding engineering_take_handoff_def Let_def
    by (cases "jm_get (wd_engineeringProjects w) (msg_project_id m)")
      (auto simp: io_bind_Inr only_note_def createEngineeringProjectState_def split: if_splits)
qed

section \<open>The engineering projects of the application\<close>

definition same_engineering :: "'x world \<Rightarrow> 'x world \<Rightarrow> bool" where
  "same_engineering w w' \<longleftrightarrow> wd_engineeringProjects w' = wd_engineeringProjects w"

definition engineering_keyed :: "'x world \<Rightarrow> bool" where
  "engineering_keyed w \<longleftrightarrow> (\<forall>k s. jm_get (wd_engineeringProjects w) k = Some s \<longrightarrow> es_project_id s = k)"

text \<open>No project is dropped, and each stays under its own id.\<close>

definition engineering_stays :: "'x world \<Rightarrow> 'x world \<Rightarrow> bool" where
  "engineering_stays w w' \<longleftrightarrow>
     (\<forall>k. jm_get (wd_engineeringProjects w) k \<noteq> None \<longrightarrow> jm_get (wd_engineeringProjects w') k \<noteq> None) \<and>
     (engineering_keyed w \<longrightarrow> engineering_keyed w')"

lemma engineering_order [simp, intro]:
  "reflp same_engineering" "transp same_engineering" "reflp engineering_stays" "transp engineering_stays"
  by (auto simp: same_engineering_def engineering_stays_def reflp_def transp_def)

lemma same_engineering_stays: "io_keeps same_engineering m \<Longrightarrow> io_keeps engineering_stays m"
  by (auto simp: io_keeps_def same_engineering_def engineering_stays_def engineering_keyed_def)

lemma same_engineering_parts [io_keeps]:
  "io_keeps same_engineering (on_shell m)" "io_keeps same_engineering (on_engineering e)" "io_keeps same_engineering (on_ceo c)"
  "io_keeps same_engineering (on_product p)" "io_keeps same_engineering (io_get g)"
  "io_keeps same_engineering (app_requireProject k)" "io_keeps same_engineering (typed x)"
  "io_keeps same_engineering (io_outcome y)"
  by (auto simp: io_keeps_def same_engineering_def on_shell_def on_engineering_def on_ceo_def on_product_def io_get_def
      app_requireProject_def typed_def io_outcome_def io_return_def io_throw_def
      split: prod.split option.split sum.split)

lemma same_engineering_modify:
  "(\<And>w. wd_engineeringProjects (f w) = wd_engineeringProjects w) \<Longrightarrow> io_keeps same_engineering (io_modify f)"
  by (simp add: io_keeps_def same_engineering_def io_modify_def)

lemma bind_agents_same [io_keeps]:
  "io_keeps same_engineering (bindAgents app agents k now)" "io_keeps same_engineering (assignProjectAgents app k now)"
proof -
  show b: "io_keeps same_engineering (bindAgents app agents k now)" for agents
    unfolding bindAgents_def
    by (intro io_keeps_bind io_keeps_each engineering_order) (auto intro: io_keeps split: option.split)
  then show "io_keeps same_engineering (assignProjectAgents app k now)" by (simp add: assignProjectAgents_def)
qed

lemma tasks_same:
  assumes "task_adapter app agent = Some perform"
  shows "io_keeps same_engineering (perform task input now)"
proof -
  have "io_keeps same_engineering (createProjectIfMissing app k c now l t)" for k c l t
    unfolding createProjectIfMissing_def by (auto intro!: io_keeps_bind io_keeps split: option.split)
  then have "io_keeps same_engineering (marketing_executeTask app task input now)"
    unfolding marketing_executeTask_def Let_def by (auto intro!: io_keeps_bind io_keeps)
  moreover have "io_keeps same_engineering (ceo_executeTask app task input now)"
    unfolding ceo_executeTask_def by (auto intro!: io_keeps_bind io_keeps)
  moreover have "io_keeps same_engineering (support_executeTask app task input now)"
    unfolding support_executeTask_def by (auto intro!: io_keeps_bind io_keeps same_engineering_modify)
  ultimately show ?thesis using assms by (cases agent) (auto simp: task_adapter_def)
qed

lemma sales_same: "io_keeps same_engineering (sales_executeMessage app m now)"
proof -
  have "io_keeps same_engineering (advance_project app k now)" for k
    unfolding advance_project_def by (auto intro!: io_keeps_each io_keeps_bind io_keeps)
  then have "io_keeps same_engineering (sales_take_response app m now)"
    unfolding sales_take_response_def Let_def
    by (auto intro!: io_keeps_bind io_keeps same_engineering_modify split: option.split prod.split)
  moreover have "io_keeps same_engineering (sales_take_lead m now)"
    unfolding sales_take_lead_def Let_def
    by (intro io_keeps_bind io_keeps engineering_order same_engineering_modify) simp
  ultimately show ?thesis by (auto simp: sales_executeMessage_def intro!: io_keeps)
qed

lemma product_same: "io_keeps same_engineering (product_executeMessage app m now)"
proof -
  have set: "io_keeps same_engineering (set_product_project k s)" for k s
    unfolding set_product_project_def by (intro same_engineering_modify) simp
  have lead: "io_keeps same_engineering (product_take_lead app m now)"
    unfolding product_take_lead_def Let_def by (auto intro!: io_keeps_bind io_keeps set split: prod.split)
  have response: "io_keeps same_engineering (product_take_response m now)"
    unfolding product_take_response_def Let_def by (auto intro!: io_keeps_bind io_keeps set)
  have ack: "io_keeps same_engineering (io_bind (on_product (acknowledgeEngineeringHandoff (oa_clock app) k now)) (set_product_project k))" for k
    by (auto intro!: io_keeps_bind io_keeps set)
  have status: "io_keeps same_engineering (product_take_status app m now)"
    unfolding product_take_status_def Let_def
  proof (intro io_keeps_bind same_engineering_parts engineering_order)
    fix p
    show "io_keeps same_engineering (if pe_lifecycle_state p \<in> {LS_qa, LS_delivered, LS_support, LS_closed} then
        io_return (only_note (''Product observed engineering status while project is already '' @
          lifecycle_str (pe_lifecycle_state p) @ ''.''))
      else (\<lambda>w.
        case io_bind (on_product (acknowledgeEngineeringHandoff (oa_clock app) (msg_project_id m) now))
            (set_product_project (msg_project_id m)) w of
          (Inl _, w) \<Rightarrow>
            (Inr (only_note (''Product ignored duplicate engineering acknowledgment for '' @ msg_project_id m @ ''.'')), w)
        | (Inr _, w) \<Rightarrow> (Inr (only_note (''Product processed '' @ msg_type m @ ''.'')), w)))"
      by (auto simp: io_keeps_def io_return_def same_engineering_def dest!: io_keepsD [OF ack] split: prod.split sum.split)
  qed
  show ?thesis
    unfolding product_executeMessage_def using lead response status by (auto intro: io_keeps)
qed

lemma pm_same: "io_keeps same_engineering (pm_executeMessage app m now)"
  unfolding pm_executeMessage_def Let_def
  by (auto intro!: io_keeps_bind io_keeps same_engineering_modify split: option.split)

lemma ceo_same: "io_keeps same_engineering (ceo_executeMessage app m now)"
  unfolding ceo_executeMessage_def by (auto intro!: io_keeps_bind io_keeps)

lemma support_same: "io_keeps same_engineering (support_executeMessage app)"
  unfolding support_executeMessage_def by (auto intro!: io_keeps_bind io_keeps)

text \<open>Engineering writes a project under its id.\<close>

lemma response_state:
  "handleApprovalResponse h clk s q a x = (Inr out, y) \<Longrightarrow> es_project_id (ao_next_state out) = es_project_id s"
  by (auto simp: handleApprovalResponse_def io_bind_Inr split: if_splits)

lemma qa_state: "startQaValidation h clk s t x = (Inr (s', m), y) \<Longrightarrow> es_project_id s' = es_project_id s"
  by (auto simp: startQaValidation_def io_bind_Inr)

lemma ready_state: "markReadyForOwnerReview h s t a x = (Inr (s', m), y) \<Longrightarrow> es_project_id s' = es_project_id s"
  by (auto simp: markReadyForOwnerReview_def io_bind_Inr)

text \<open>What engineering may write: one project, under its id where it had read it so.\<close>

definition engineering_at :: "bool \<Rightarrow> string \<Rightarrow> 'x world \<Rightarrow> 'x world \<Rightarrow> bool" where
  "engineering_at b k w w' \<longleftrightarrow>
     (\<forall>j. jm_get (wd_engineeringProjects w') j = jm_get (wd_engineeringProjects w) j \<or>
        j = k \<and> (\<exists>s. jm_get (wd_engineeringProjects w') j = Some s \<and> (b \<longrightarrow> es_project_id s = k)))"

lemma engineering_at_order [simp, intro]: "reflp (engineering_at b k)" "transp (engineering_at b k)"
  by (auto simp: engineering_at_def reflp_def transp_def) metis+

lemma same_engineering_at: "io_keeps same_engineering m \<Longrightarrow> io_keeps (engineering_at b k) m"
  by (simp add: io_keeps_def same_engineering_def engineering_at_def)

lemmas engineering_at_parts = same_engineering_parts [THEN same_engineering_at]

lemma engineering_at_stays: "engineering_at (engineering_keyed w) k w w' \<Longrightarrow> engineering_stays w w'"
  unfolding engineering_stays_def
proof (intro conjI allI impI)
  fix j assume a: "engineering_at (engineering_keyed w) k w w'" "jm_get (wd_engineeringProjects w) j \<noteq> None"
  then show "jm_get (wd_engineeringProjects w') j \<noteq> None" unfolding engineering_at_def by (metis option.distinct(1))
next
  assume a: "engineering_at (engineering_keyed w) k w w'" "engineering_keyed w"
  show "engineering_keyed w'"
    unfolding engineering_keyed_def
  proof (intro allI impI)
    fix j s assume "jm_get (wd_engineeringProjects w') j = Some s"
    then show "es_project_id s = j"
      using a(1) [unfolded engineering_at_def, rule_format, of j] a(2) by (auto simp: engineering_keyed_def)
  qed
qed

lemma engineering_at_set:
  "(b \<longrightarrow> es_project_id s = k) \<Longrightarrow> io_keeps (engineering_at b k) (set_engineering_project k s)"
  by (simp add: io_keeps_def set_engineering_project_def io_modify_def engineering_at_def)

lemma io_keeps_bind_pair:
  "transp R \<Longrightarrow> io_keeps R m \<Longrightarrow> (\<And>s x y s'. m s = (Inr (x, y), s') \<Longrightarrow> io_keeps R (f x y)) \<Longrightarrow>
   io_keeps R (io_bind m (\<lambda>(x, y). f x y))"
  by (rule io_keeps_bind_result) auto

lemma build_at:
  assumes "b \<longrightarrow> es_project_id s = msg_project_id m"
  shows "io_keeps (engineering_at b (msg_project_id m)) (engineering_build app m s now)"
proof -
  have "io_keeps same_engineering (read_discovery m)"
    unfolding read_discovery_def by (auto intro!: io_keeps_bind io_keeps split: option.split)
  then have d: "io_keeps (engineering_at b (msg_project_id m)) (read_discovery m)" by (rule same_engineering_at)
  show ?thesis
    unfolding engineering_build_def Let_def
  proof (rule io_keeps_bind_result [OF engineering_at_order(2) d],
      rule io_keeps_bind_result [OF engineering_at_order(2) engineering_at_parts(2)],
      rule io_keeps_bind_pair [OF engineering_at_order(2) engineering_at_parts(2)],
      rule io_keeps_bind_result [OF engineering_at_order(2) engineering_at_parts(2)],
      rule io_keeps_bind_pair [OF engineering_at_order(2) engineering_at_parts(2)],
      rule io_keeps_bind [OF engineering_at_order(2) _ io_keeps_return [OF engineering_at_order(1)]])
    fix w1 discovery w1' w2 accepted w2' w3 inQa qaUpdate w3' w4 path w4' w5 ready readyUpdate w5'
    assume "on_engineering (acceptDiscoveryHandoff (oa_host app) (oa_clock app) discovery s (oa_workspaceBaseDir app)) w2 = (Inr accepted, w2')"
      "on_engineering (startQaValidation (oa_host app) (oa_clock app) (ah_nextState accepted) now) w3 = (Inr (inQa, qaUpdate), w3')"
      "on_engineering (on_files (markReadyForOwnerReview (oa_host app) inQa now path)) w5 = (Inr (ready, readyUpdate), w5')"
    then have "es_project_id ready = es_project_id s"
      by (auto simp: on_engineering_Inr on_files_Inr dest!: accept_state qa_state ready_state)
    then show "io_keeps (engineering_at b (msg_project_id m)) (set_engineering_project (msg_project_id m) ready)"
      using assms by (intro engineering_at_set) simp
  qed
qed

lemma engineering_message_stays:
  fixes app :: "'a operational_app"
  shows "io_keeps engineering_stays (engineering_executeMessage app m now)"
  unfolding io_keeps_def
proof
  fix w :: "'a world"
  let ?b = "engineering_keyed w" and ?k = "msg_project_id m"
  have build: "engineering_at ?b ?k w (snd (engineering_build app m s now w))" if "?b \<longrightarrow> es_project_id s = ?k" for s
    using build_at [OF that, where app = app and now = now] by (simp add: io_keeps_def)
  have none: "engineering_at ?b ?k w w" by (simp add: engineering_at_def)
  have "engineering_at ?b ?k w (snd (engineering_take_handoff app m now w))"
  proof (cases "getProject (wd_registry w) ?k")
    case (Some p)
    then show ?thesis
      using build [of "createEngineeringProjectState ?k (pe_client_id p) [] now"] build none
      by (cases "jm_get (wd_engineeringProjects w) ?k")
        (auto simp: engineering_take_handoff_def io_bind_def app_requireProject_def Let_def createEngineeringProjectState_def
          engineering_keyed_def)
  qed (simp add: engineering_take_handoff_def io_bind_def app_requireProject_def Let_def none)
  moreover have "engineering_at ?b ?k w (snd (engineering_take_response app m w))"
  proof (cases "jm_get (wd_engineeringProjects w) ?k")
    case (Some s)
    then have s: "?b \<longrightarrow> es_project_id s = ?k" by (simp add: engineering_keyed_def)
    have "io_keeps (engineering_at ?b ?k)
       (io_bind (typed (approval_response_of (get_prop (asRecord (msg_payload m)) ''response''))) (\<lambda>response.
          io_bind (on_engineering (handleApprovalResponse (oa_host app) (oa_clock app) s (delivery_request ?k s) response))
            (\<lambda>outcome.
          io_bind (set_engineering_project ?k (ao_next_state outcome)) (\<lambda>_.
          io_return
            \<lparr>rs_outgoing = (if ao_decision outcome \<noteq> Approve then [] else ao_messages outcome),
             rs_approvals = [], rs_responses = [response], rs_notes = []\<rparr>))) :: (adapter_result, 'a world) io)"
      using s by (intro io_keeps_bind_result engineering_at_order engineering_at_parts io_keeps_return)
        (auto simp: on_engineering_Inr intro!: engineering_at_set dest!: response_state)
    then show ?thesis
      unfolding engineering_take_response_def Let_def io_keeps_def
      by (subst io_bind_run(1) [OF io_steps(1)]) (simp add: Some)
  qed (simp add: engineering_take_response_def Let_def io_bind_def none)
  ultimately have "engineering_at ?b ?k w (snd (engineering_executeMessage app m now w))"
    using none by (auto simp: engineering_executeMessage_def)
  then show "engineering_stays w (snd (engineering_executeMessage app m now w))" by (rule engineering_at_stays)
qed

text \<open>Later states: what the adapters do from here on, the registry, the shell and the files free.\<close>

inductive app_later :: "'x operational_app \<Rightarrow> 'x world \<Rightarrow> 'x world \<Rightarrow> bool" for app w0 where
  now: "app_later app w0 w0"
| message: "app_later app w0 w \<Longrightarrow> message_adapter app to = Some execute \<Longrightarrow> execute m now w = (res, w') \<Longrightarrow>
    app_later app w0 w'"
| task: "app_later app w0 w \<Longrightarrow> task_adapter app agent = Some perform \<Longrightarrow> perform t input now w = (res, w') \<Longrightarrow>
    app_later app w0 w'"
| outside: "app_later app w0 w \<Longrightarrow> app_later app w0 (w\<lparr>wd_registry := r, wd_shell := x, wd_files := f\<rparr>)"

lemma adapter_stays: "message_adapter app to = Some execute \<Longrightarrow> io_keeps engineering_stays (execute m now)"
  by (cases "agent_type_of to"; cases "the (agent_type_of to)")
    (auto simp: message_adapter_def intro: engineering_message_stays same_engineering_stays ceo_same sales_same
      product_same pm_same support_same)

lemma outside_stays [simp]: "engineering_stays w (w'\<lparr>wd_registry := r, wd_shell := x, wd_files := f\<rparr>) \<longleftrightarrow> engineering_stays w w'"
  by (simp add: engineering_stays_def engineering_keyed_def)

lemma later_stays: "app_later app w0 w \<Longrightarrow> engineering_stays w0 w"
proof (induction rule: app_later.induct)
  case (message w to execute m now res w')
  then show ?case using io_keepsD [OF adapter_stays] engineering_order(4) by (metis transpE)
next
  case (task w agent perform t input now res w')
  then show ?case using io_keepsD [OF same_engineering_stays [OF tasks_same]] engineering_order(4) by (metis transpE)
next
  case (outside w r x f)
  then show ?case by simp
qed (simp add: engineering_stays_def)

lemma reachable_keyed: "app_reachable app w \<Longrightarrow> engineering_keyed w"
proof (induction rule: app_reachable.induct)
  case (start sh workers clk now booted files w)
  then show ?case
    by (auto simp: newOperationalApp_def Let_def engineering_keyed_def split: prod.splits sum.splits)
next
  case (message w to execute m now res w')
  then show ?case using io_keepsD [OF adapter_stays [OF message.hyps(2)] message.hyps(3)] by (simp add: engineering_stays_def)
next
  case (task w agent perform t input now res w')
  then show ?case
    using io_keepsD [OF same_engineering_stays [OF tasks_same [OF task.hyps(2)]] task.hyps(3)] by (simp add: engineering_stays_def)
qed (simp add: engineering_keyed_def)

section \<open>Who asks for the delivery\<close>

text \<open>The approvals an agent records, and those the CEO reads from what it sends.\<close>

definition asks_for_delivery :: "string \<Rightarrow> adapter_result \<Rightarrow> bool" where
  "asks_for_delivery k res \<longleftrightarrow>
     list_ex (\<lambda>a. ar_gate a = Delivery_final \<and> ar_project_id a = Some k) (rs_approvals res) \<or>
     list_ex (\<lambda>o'. msg_type o' = ''approval_request'' \<and>
       (case approval_request_of (get_prop (asRecord (msg_payload o')) ''approval'') of
          None \<Rightarrow> False
        | Some a \<Rightarrow> ar_gate a = Delivery_final \<and> ar_project_id a = Some k)) (rs_outgoing res)"

lemma approval_gate_of_str [simp]: "approval_gate_of (approval_gate_str g) = Some g"
  by (cases g) (simp_all add: approval_gate_of_def)

lemma request_read:
  "approval_request_of (get_prop (asRecord (msg_payload (makeApprovalRequestMessage ag k t a))) ''approval'') = Some b \<Longrightarrow>
   ar_gate b = ar_gate a \<and> ar_project_id b = ar_project_id a"
  by (cases "ar_project_id a")
    (auto simp: makeApprovalRequestMessage_def asRecord_def approval_request_of_def approval_request_value_def text_at_def
      text_of_def js_opt_string_def bind_eq_Some_conv)

lemma request_message_type [simp]: "msg_type (makeApprovalRequestMessage ag k t a) = ''approval_request''"
  by (simp add: makeApprovalRequestMessage_def)

text \<open>Answers that ask for the delivery of no project, or only of one.\<close>

definition asks_only :: "(approval_request \<Rightarrow> bool) \<Rightarrow> adapter_result \<Rightarrow> bool" where
  "asks_only P res \<longleftrightarrow>
     list_all P (rs_approvals res) \<and>
     (\<forall>o' \<in> set (rs_outgoing res). msg_type o' \<noteq> ''approval_request'' \<or>
        (\<exists>ag k t a. o' = makeApprovalRequestMessage ag k t a \<and> P a))"

lemma asks_only_not:
  assumes "asks_only (\<lambda>a. ar_gate a \<noteq> Delivery_final \<or> ar_project_id a \<noteq> Some k) res"
  shows "\<not> asks_for_delivery k res"
  using assms request_read
  by (fastforce simp: asks_only_def asks_for_delivery_def list_all_iff list_ex_iff split: option.splits)

lemma asks_only_note [simp]: "asks_only P (only_note n)"
  by (simp add: asks_only_def only_note_def)

lemma asks_only_mono: "asks_only P res \<Longrightarrow> (\<And>a. P a \<Longrightarrow> Q a) \<Longrightarrow> asks_only Q res"
  unfolding asks_only_def list_all_iff by blast

lemma asks_only_one:
  assumes "length (rs_approvals res) = 1" "P (hd (rs_approvals res))"
    and "\<forall>o' \<in> set (rs_outgoing res). msg_type o' = ''approval_request'' \<longrightarrow>
      o' = makeApprovalRequestMessage ag k t (hd (rs_approvals res))"
  shows "asks_only P res"
proof -
  obtain a where "rs_approvals res = [a]" using assms(1) by (auto simp: length_Suc_conv)
  then show ?thesis using assms(2,3) unfolding asks_only_def by auto blast
qed

lemma only_note_approvals [simp]: "rs_approvals (only_note n) = []"
  by (simp add: only_note_def)

lemma asks_only_silent:
  "\<forall>o' \<in> set (rs_outgoing res). msg_type o' \<noteq> ''approval_request'' \<Longrightarrow> rs_approvals res = [] \<Longrightarrow> asks_only P res"
  by (simp add: asks_only_def)

abbreviation no_delivery :: "approval_request \<Rightarrow> bool" where
  "no_delivery a \<equiv> ar_gate a \<noteq> Delivery_final"

lemma ceo_asks: "ceo_executeMessage app m now w = (Inr res, w') \<Longrightarrow> asks_only no_delivery res"
  by (auto simp: ceo_executeMessage_def io_bind_Inr split: if_splits)

lemma pm_asks: "pm_executeMessage app m now w = (Inr res, w') \<Longrightarrow> asks_only no_delivery res"
  by (auto simp: pm_executeMessage_def io_bind_Inr Let_def)

lemma support_asks: "support_executeMessage app w = (Inr res, w') \<Longrightarrow> asks_only no_delivery res"
  by (auto simp: support_executeMessage_def io_bind_Inr)

lemma task_asks:
  assumes "task_adapter app agent = Some perform" "perform task input now w = (Inr res, w')"
  shows "asks_only no_delivery res"
proof -
  have "asks_only no_delivery res" if "marketing_executeTask app task input now w = (Inr res, w')"
    using that by (auto simp: marketing_executeTask_def io_bind_Inr Let_def lead_status_message_def split: if_splits
        intro!: asks_only_silent)
  moreover have "asks_only no_delivery res" if "ceo_executeTask app task input now w = (Inr res, w')"
    using that by (auto simp: ceo_executeTask_def io_bind_Inr split: if_splits)
  moreover have "asks_only no_delivery res" if "support_executeTask app task input now w = (Inr res, w')"
    using that by (auto simp: support_executeTask_def io_bind_Inr split: if_splits)
  ultimately show ?thesis using assms by (cases agent) (auto simp: task_adapter_def)
qed

lemma handoff_types [simp]:
  "msg_type (normalizedLeadHandoff l p k t) = ''lead_handoff''"
  "msg_type (snd (buildLeadHandoffBundle l p k t)) = ''status_update''"
  "msg_type (mapProductToEngineeringHandoff s t) = ''discovery_handoff''"
  "msg_type (engineering_status to k t st su a) = ''status_update''"
  by (simp_all add: normalizedLeadHandoff_def buildLeadHandoffBundle_def mapProductToEngineeringHandoff_def Let_def
      engineering_status_def)

lemma sales_response_approvals:
  assumes "sales_take_response app m now w = (Inr res, w')"
  shows "rs_approvals res = []"
proof -
  obtain cycle response lead proposal where
    "jm_get (wd_salesApprovalCycles w) (msg_project_id m) = Some cycle"
    "approval_response_of (get_prop (asRecord (msg_payload m)) ''response'') = Some response"
    "find (\<lambda>item. ar_artifact_ref (ac_request cycle) \<in> set (ld_proposal_refs item)) (jm_values (wd_salesLeads w)) = Some lead"
    "find (\<lambda>item. pr_artifact_ref item = ar_artifact_ref (ac_request cycle)) (jm_values (wd_salesProposals w)) = Some proposal"
    by (rule sales_response_run [OF assms])
  then show ?thesis
    using assms by (auto simp: sales_take_response_def io_bind_Inr Let_def split: if_splits prod.splits)
qed

lemma sales_asks:
  assumes "sales_executeMessage app m now w = (Inr res, w')"
  shows "asks_only no_delivery res"
proof -
  have "asks_only no_delivery res" if r: "sales_take_response app m now w = (Inr res, w')"
  proof -
    have "\<forall>o' \<in> set (rs_outgoing res). msg_type o' \<noteq> ''approval_request''"
      by (rule sales_response_run [OF r], rename_tac c response l p, case_tac "ap_decision response = Approve")
        (auto simp: Let_def split: prod.split)
    with sales_response_approvals [OF r] show ?thesis by (simp add: asks_only_silent)
  qed
  moreover have "asks_only no_delivery res" if "sales_take_lead m now w = (Inr res, w')"
    using that by (auto simp: sales_take_lead_def io_bind_Inr Let_def createProposalApprovalCycle_def
        buildProposalApprovalRequest_def createProposalApprovalRequest_def
        intro!: asks_only_one [where ag = Sales_agent and k = "msg_project_id m" and t = now])
  ultimately show ?thesis using assms by (auto simp: sales_executeMessage_def split: if_splits)
qed

lemma receive_types:
  "receiveLeadHandoff clk c m rt = Inr (x, rt') \<Longrightarrow> \<forall>o' \<in> set (in_outgoing x). msg_type o' \<noteq> ''approval_request''"
  by (auto simp: receiveLeadHandoff_def outcome_bind_eq_Inr Let_def split: prod.splits if_splits)

lemma request_types:
  "requestSpecApproval k i t rec rt = Inr ((a, out), rt') \<Longrightarrow>
   ar_gate a = Spec_final \<and> (\<forall>o' \<in> set out. msg_type o' \<noteq> ''approval_request'')"
  by (auto simp: requestSpecApproval_def outcome_bind_eq_Inr Let_def createSpecApprovalRequest_def split: option.splits)

lemma product_asks:
  assumes "product_executeMessage app m now w = (Inr res, w')"
  shows "asks_only no_delivery res"
proof -
  have "asks_only no_delivery res" if "product_take_lead app m now w = (Inr res, w')"
    using that unfolding product_take_lead_def Let_def
    by (auto simp: io_bind_Inr on_product_Inr dest!: receive_types request_types intro!: asks_only_one [where ag = Product_agent and k = "msg_project_id m" and t = now])
  moreover have "asks_only no_delivery res" if "product_take_response m now w = (Inr res, w')"
    using that unfolding product_take_response_def Let_def
    by (auto simp: io_bind_Inr split: if_splits intro!: asks_only_silent)
  moreover have "asks_only no_delivery res" if "product_take_status app m now w = (Inr res, w')"
    using that by (auto simp: product_take_status_def io_bind_Inr Let_def split: if_splits prod.splits sum.splits)
  ultimately show ?thesis using assms by (auto simp: product_executeMessage_def split: if_splits)
qed

lemma accept_types:
  "acceptDiscoveryHandoff h clk m s base x = (Inr acc, y) \<Longrightarrow>
   msg_type (ah_ack acc) = ''status_update'' \<and> msg_type (ah_pmUpdate acc) = ''status_update'' \<and>
   es_project_id (ah_nextState acc) = es_project_id s"
  by (auto simp: acceptDiscoveryHandoff_def io_bind_Inr Let_def split: option.splits prod.splits)

lemma qa_types:
  "startQaValidation h clk s t x = (Inr (s', m), y) \<Longrightarrow> msg_type m = ''status_update'' \<and> es_project_id s' = es_project_id s"
  by (auto simp: startQaValidation_def io_bind_Inr)

lemma ready_types:
  "markReadyForOwnerReview h s t a x = (Inr (s', m), y) \<Longrightarrow> msg_type m = ''status_update'' \<and> es_project_id s' = es_project_id s"
  by (auto simp: markReadyForOwnerReview_def io_bind_Inr)

lemma build_asks:
  "engineering_build app m s now w = (Inr res, w') \<Longrightarrow> asks_only (\<lambda>a. ar_project_id a = Some (es_project_id s)) res"
  unfolding engineering_build_def Let_def
  by (auto simp: io_bind_Inr on_engineering_Inr on_files_Inr buildDeliveryApprovalRequest_def
      dest!: accept_types qa_types ready_types intro!: asks_only_one [where ag = Engineering_agent and k = "msg_project_id m" and t = now])

lemma response_asks: "engineering_take_response app m w = (Inr res, w') \<Longrightarrow> asks_only no_delivery res"
  unfolding engineering_take_response_def Let_def
  by (auto simp: io_bind_Inr on_engineering_Inr handleApprovalResponse_def split: option.splits if_splits
      intro!: asks_only_silent)

text \<open>While a built project is in validation, engineering does not ask for it.\<close>

lemma engineering_asks:
  assumes "engineering_executeMessage app m now w = (Inr res, w')" "engineering_keyed w"
    and "jm_get (wd_engineeringProjects w) k \<noteq> None" "getProject (wd_registry w) k = Some p" "pe_lifecycle_state p = LS_qa"
  shows "\<not> asks_for_delivery k res"
proof -
  have "asks_only (\<lambda>a. ar_gate a \<noteq> Delivery_final \<or> ar_project_id a \<noteq> Some k) res"
    if h: "engineering_take_handoff app m now w = (Inr res, w')"
  proof (cases "msg_project_id m = k")
    case True
    then show ?thesis
      using h assms(3-5) by (auto simp: engineering_take_handoff_def io_bind_Inr Let_def)
  next
    case False
    from h have "(\<exists>n. res = only_note n) \<or> (\<exists>s. engineering_build app m s now w = (Inr res, w') \<and> es_project_id s = msg_project_id m)"
      using assms(2) unfolding engineering_take_handoff_def Let_def engineering_keyed_def
      by (cases "jm_get (wd_engineeringProjects w) (msg_project_id m)")
        (auto simp: io_bind_Inr createEngineeringProjectState_def split: if_splits)
    then show ?thesis
    proof (elim disjE exE conjE)
      fix s assume "engineering_build app m s now w = (Inr res, w')" "es_project_id s = msg_project_id m"
      then show ?thesis using False build_asks [of app m s now w res w'] by (auto elim!: asks_only_mono)
    qed simp
  qed
  moreover have "asks_only (\<lambda>a. ar_gate a \<noteq> Delivery_final \<or> ar_project_id a \<noteq> Some k) res"
    if "engineering_take_response app m w = (Inr res, w')"
    using response_asks [OF that] by (rule asks_only_mono) simp
  ultimately have "asks_only (\<lambda>a. ar_gate a \<noteq> Delivery_final \<or> ar_project_id a \<noteq> Some k) res"
    using assms(1) by (auto simp: engineering_executeMessage_def split: if_splits)
  then show ?thesis by (rule asks_only_not)
qed

lemma adapter_asks:
  assumes "message_adapter app to = Some execute" "execute m now w = (Inr res, w')" "engineering_keyed w"
    and "jm_get (wd_engineeringProjects w) k \<noteq> None" "getProject (wd_registry w) k = Some p" "pe_lifecycle_state p = LS_qa"
  shows "\<not> asks_for_delivery k res"
proof -
  have other: "\<not> asks_for_delivery k res" if "asks_only no_delivery res"
    by (rule asks_only_not [OF asks_only_mono [OF that]]) simp
  obtain a where "agent_type_of to = Some a" using assms(1) by (auto simp: message_adapter_def split: option.splits)
  then have "execute = ceo_executeMessage app \<or> execute = sales_executeMessage app \<or> execute = product_executeMessage app \<or>
      execute = engineering_executeMessage app \<or> execute = pm_executeMessage app \<or>
      execute = (\<lambda>_ _. support_executeMessage app)"
    using assms(1) by (cases a) (simp_all add: message_adapter_def)
  then consider "execute = engineering_executeMessage app" | "asks_only no_delivery res"
    using assms(2) by (elim disjE) (simp_all add: ceo_asks sales_asks product_asks pm_asks support_asks)
  then show ?thesis
  proof cases
    case 1
    then show ?thesis using assms engineering_asks by blast
  qed (rule other)
qed

text \<open>What an answer that asks for a revision does.\<close>

lemma revised_delivery:
  assumes "engineering_executeMessage app (answer\<lparr>msg_type := ''approval_response''\<rparr>) now w = (Inr res, w')"
    and "map ap_decision (rs_responses res) = [Revise]"
  shows "rs_outgoing res = [] \<and> rs_approvals res = [] \<and>
    (\<exists>s s'. jm_get (wd_engineeringProjects w) (msg_project_id answer) = Some s \<and>
       jm_get (wd_engineeringProjects w') (msg_project_id answer) = Some s' \<and>
       es_delivery_version s' = es_delivery_version s + 1)"
proof -
  let ?k = "msg_project_id answer"
  from assms(1) obtain s response out w1 where
    s: "jm_get (wd_engineeringProjects w) ?k = Some s"
    and run: "on_engineering (handleApprovalResponse (oa_host app) (oa_clock app) s (delivery_request ?k s) response) w = (Inr out, w1)"
    and w': "w' = w1\<lparr>wd_engineeringProjects := jm_set (wd_engineeringProjects w1) ?k (ao_next_state out)\<rparr>"
    and res: "res = \<lparr>rs_outgoing = (if ao_decision out \<noteq> Approve then [] else ao_messages out), rs_approvals = [],
        rs_responses = [response], rs_notes = []\<rparr>"
    by (auto simp: engineering_executeMessage_def engineering_take_response_def set_engineering_project_def io_bind_Inr Let_def
        split: option.split_asm)
  then have "ap_decision response = Revise" using assms(2) by simp
  then have "ao_decision out = Revise" "es_delivery_version (ao_next_state out) = es_delivery_version s + 1"
    using run by (auto simp: on_engineering_Inr handleApprovalResponse_def io_bind_Inr split: if_splits)
  then show ?thesis using s res by (simp add: w')
qed


section \<open>A small application\<close>

definition demo_shell :: "unit shell_port" where
  "demo_shell =
     \<lparr>sh_registerAgent = (\<lambda>_. io_return ()), sh_updateAgent = (\<lambda>_ _. io_return ()), sh_registerProject = (\<lambda>_. io_return ()),
      sh_updateProject = (\<lambda>_ _. io_return ()), sh_setSupportTicketCount = (\<lambda>_. io_return ()),
      sh_recordApprovalRequest = (\<lambda>_. io_return ()), sh_applyApprovalResponse = (\<lambda>_. io_return ()),
      sh_transitionProjectLifecycle = (\<lambda>_ _ _ _ _ _. io_return True), sh_routeMessage = (\<lambda>_ s. (None, s)),
      sh_pending_approvals = (\<lambda>_. io_return []), sh_addBlocker = (\<lambda>_. io_return ())\<rparr>"

definition demo_app :: "unit operational_app" where
  "demo_app = \<lparr>oa_shell = demo_shell, oa_workerMap = worker_map createDefaultWorkers, oa_workspaceBaseDir = ''/base'',
     oa_host = \<lparr>h_cwd = ''/'', h_refuses = (\<lambda>_ _. None), h_now = ''t''\<rparr>, oa_clock = (\<lambda>_. ''t'')\<rparr>"

lemma demo_app_starts:
  "\<exists>w. newOperationalApp demo_shell createDefaultWorkers (oa_clock demo_app) ''t'' (empty_registry, ())
     \<lparr>ft_files = [], ft_dirs = []\<rparr> = Inr w"
proof -
  have "registerWorkers demo_shell workers ''t'' (empty_registry, ()) = (Inr (), empty_registry, ())" for workers
    unfolding registerWorkers_def by (induction workers) (simp_all add: demo_shell_def)
  then show ?thesis by (simp add: newOperationalApp_def Let_def)
qed

definition demo_registry_with :: "string \<Rightarrow> lifecycle_state \<Rightarrow> registry" where
  "demo_registry_with k st = empty_registry\<lparr>reg_projects := [(k, \<lparr>pe_project_id = k, pe_client_id = ''c'',
     pe_lifecycle_state = st, pe_active_agent_ids = [], pe_current_milestone = ''m'', pe_updated_at = ''t''\<rparr>)]\<rparr>"

lemma demo_registry_project: "\<exists>p. getProject (demo_registry_with k st) k = Some p \<and> pe_lifecycle_state p = st"
  by (simp add: demo_registry_with_def getProject_def jm_get_def)

definition demo_delivery_world :: "unit world" where
  "demo_delivery_world =
     \<lparr>wd_registry = demo_registry_with ''p'' LS_qa, wd_shell = (), wd_files = \<lparr>ft_files = [], ft_dirs = []\<rparr>,
      wd_ceo = newCeoRuntime (\<lambda>_. []) empty_registry ''ceo-1'' no_config_update None [],
      wd_product = empty_product_runtime None, wd_productProjects = [],
      wd_engineeringProjects = [(''p'', createEngineeringProjectState ''p'' ''c'' ''/base/c'' ''t'')],
      wd_salesLeads = [], wd_salesProposals = [], wd_salesApprovalCycles = [], wd_projectTimelines = [],
      wd_projectHistory = [], wd_supportTickets = []\<rparr>"

definition demo_revision :: agent_message where
  "demo_revision = makeApprovalResponseMessage Engineering_agent ''p'' ''t''
     \<lparr>ap_request_id = ''p:delivery_final:v1'', ap_gate = Delivery_final, ap_timestamp = ''t'', ap_decision = Revise,
      ap_notes = None\<rparr>"

lemma demo_audit:
  "\<exists>x t'. appendAuditEntry (oa_host demo_app) ''/base/c''
     \<lparr>wa_timestamp = ''t'', wa_kind = Ak_approval, wa_detail = ''approval_response:revise''\<rparr>
     \<lparr>ft_files = [], ft_dirs = []\<rparr> = (Inr x, t')"
proof -
  have "case appendAuditEntry \<lparr>h_cwd = ''/'', h_refuses = (\<lambda>_ _. None), h_now = ''t''\<rparr> ''/base/c''
     \<lparr>wa_timestamp = ''t'', wa_kind = Ak_approval, wa_detail = ''approval_response:revise''\<rparr>
     \<lparr>ft_files = [], ft_dirs = []\<rparr> of (Inl _, _) \<Rightarrow> False | (Inr _, _) \<Rightarrow> True"
    by code_simp
  then show ?thesis by (auto simp: demo_app_def split: prod.splits sum.splits)
qed

lemma demo_revised:
  "\<exists>res w'. engineering_executeMessage demo_app demo_revision ''t'' demo_delivery_world = (Inr res, w') \<and>
     map ap_decision (rs_responses res) = [Revise] \<and> wd_registry w' = demo_registry_with ''p'' LS_qa"
proof -
  obtain x t' where audit: "appendAuditEntry (oa_host demo_app) ''/base/c''
      \<lparr>wa_timestamp = ''t'', wa_kind = Ak_approval, wa_detail = ''approval_response:revise''\<rparr>
      \<lparr>ft_files = [], ft_dirs = []\<rparr> = (Inr x, t')"
    using demo_audit by blast
  have read: "approval_response_of (get_prop (asRecord (msg_payload demo_revision)) ''response'') =
      Some \<lparr>ap_request_id = ''p:delivery_final:v1'', ap_gate = Delivery_final, ap_timestamp = ''t'', ap_decision = Revise,
        ap_notes = None\<rparr>"
    by code_simp
  have one: "nat_str (Suc 0) = ''1''" by code_simp
  have m: "msg_type demo_revision = ''approval_response''" "msg_project_id demo_revision = ''p''"
    by (simp_all add: demo_revision_def makeApprovalResponseMessage_def)
  have s: "jm_get (wd_engineeringProjects demo_delivery_world) ''p'' = Some (createEngineeringProjectState ''p'' ''c'' ''/base/c'' ''t'')"
    by (simp add: demo_delivery_world_def jm_get_def)
  have w: "wd_registry demo_delivery_world = demo_registry_with ''p'' LS_qa"
      "wd_files demo_delivery_world = \<lparr>ft_files = [], ft_dirs = []\<rparr>"
    by (simp_all add: demo_delivery_world_def)
  show ?thesis
    by (simp add: engineering_executeMessage_def m engineering_take_response_def Let_def io_bind_def s read typed_def
        on_engineering_def w handleApprovalResponse_def delivery_request_def createEngineeringProjectState_def on_files_def
        audit set_engineering_project_def one)
qed

text \<open>
  C10: With the adapters of the seven agents the bus always comes to rest: for every
  message, task and answer of the owner, in every state and with every shell, the fixed fuel
  is enough.
\<close>

theorem dispatch_always_ends:
  "app_dispatch bus_fuel app m b \<noteq> None \<and>
   executeAgentTask bus_fuel app agent task input now b \<noteq> None \<and>
   respondToPendingApproval bus_fuel app k gate decision now notes b \<noteq> None"
proof -
  have one: "app_dispatch bus_fuel app m b \<noteq> None" for m b
    unfolding app_dispatch_def by (rule dispatch_rests)
  have many: "dispatch_all bus_fuel (operational_port app) MAX_ATTEMPTS (rs_outgoing res) b \<noteq> None"
    if "task_adapter app agent = Some perform" "perform task input now w = (Inr res, w')" for perform res w w' b
    using task_answer [OF that] by (intro dispatch_all_rests) (simp_all add: list_all_iff)
  have "executeAgentTask bus_fuel app agent task input now b \<noteq> None"
    using many by (auto simp: executeAgentTask_def simp del: not_None_eq split: option.split prod.split sum.split)
  moreover have "respondToPendingApproval bus_fuel app k gate decision now notes b \<noteq> None"
    using one by (auto simp: respondToPendingApproval_def Let_def simp del: not_None_eq split: option.split prod.split sum.split)
  ultimately show ?thesis using one by simp
qed

text \<open>
  C11: Whatever message an agent gets, in whatever state, each message it sends on has, once
  the bus has completed it, the fields the registry demands of its type; so has what a task
  sends. The bus never loses a message to its form.
\<close>

theorem adapters_well_typed:
  "(case message_adapter app to of None \<Rightarrow> True
    | Some execute \<Rightarrow>
        (case execute m now w of (Inl _, _) \<Rightarrow> True
         | (Inr res, _) \<Rightarrow>
             list_all (\<lambda>o'. isValidAgentMessage (message_value (normalizeMessageForRuntime o'))) (rs_outgoing res))) \<and>
   (case task_adapter app agent of None \<Rightarrow> True
    | Some perform \<Rightarrow>
        (case perform task input now w of (Inl _, _) \<Rightarrow> True
         | (Inr res, _) \<Rightarrow>
             list_all (\<lambda>o'. isValidAgentMessage (message_value (normalizeMessageForRuntime o'))) (rs_outgoing res)))"
  using adapter_answer [of app to _ m now w] task_answer [of app agent _ task input now w]
  by (fastforce simp: proper_answer_def sendable_def list_all_iff split: option.split prod.split sum.split)

text \<open>
  C12: In every state the application reaches, each discovery handoff product sends is one
  engineering takes: its validator finds no error, whatever the lead and the answers of the
  owner were.
\<close>

theorem discovery_handoffs_accepted:
  assumes "app_reachable app w"
  shows "case product_executeMessage app m now w of (Inl _, _) \<Rightarrow> True
   | (Inr res, _) \<Rightarrow>
       list_all (\<lambda>o'. if msg_type o' = ''discovery_handoff''
         then validateDiscoveryHandoffPayload (msg_payload (normalizeMessageForRuntime o')) = Inr None \<and>
              discovery_payload_of (msg_payload (normalizeMessageForRuntime o')) \<noteq> None
         else True) (rs_outgoing res)"
proof (cases "product_executeMessage app m now w")
  case (Pair r w')
  show ?thesis
  proof (cases r)
    case (Inr res)
    have "validateDiscoveryHandoffPayload (msg_payload (normalizeMessageForRuntime o')) = Inr None \<and>
        discovery_payload_of (msg_payload (normalizeMessageForRuntime o')) \<noteq> None"
      if o: "o' \<in> set (rs_outgoing res)" "msg_type o' = ''discovery_handoff''" for o'
    proof -
      have r: "product_take_response m now w = (Inr res, w')"
        using handoff_from_response o Pair Inr by blast
      then obtain s spec where "o' = mapProductToEngineeringHandoff s now" "bridge_ready s" "ps_latest_spec s = Some spec"
          "ps_approval_history s \<noteq> []"
        using handoff_state [OF reachable_bridge [OF assms] r o] by blast
      then show ?thesis using bridge_accepted by (simp add: normalize_handoff bridged_reads)
    qed
    then show ?thesis using Pair Inr by (simp add: list_all_iff)
  qed (simp add: Pair)
qed

theorem discovery_handoffs_accepted_witness:
  "\<exists>w. newOperationalApp demo_shell createDefaultWorkers (oa_clock demo_app) ''t'' (empty_registry, ()) \<lparr>ft_files = [], ft_dirs = []\<rparr> = Inr w \<and>
     (\<forall>m now. case product_executeMessage demo_app m now w of (Inl _, _) \<Rightarrow> True
      | (Inr res, _) \<Rightarrow>
          list_all (\<lambda>o'. if msg_type o' = ''discovery_handoff''
            then validateDiscoveryHandoffPayload (msg_payload (normalizeMessageForRuntime o')) = Inr None \<and>
                 discovery_payload_of (msg_payload (normalizeMessageForRuntime o')) \<noteq> None
            else True) (rs_outgoing res))"
proof -
  obtain w where w: "newOperationalApp demo_shell createDefaultWorkers (oa_clock demo_app) ''t'' (empty_registry, ())
      \<lparr>ft_files = [], ft_dirs = []\<rparr> = Inr w"
    using demo_app_starts by blast
  show ?thesis
    by (intro exI [of _ w] conjI allI w discovery_handoffs_accepted app_reachable.start [OF w])
qed

text \<open>
  C13: In every state the application reaches, product takes each lead that sales hands over
  for a project the registry knows. It writes the next version of the spec, the first one
  for a project new to it, and asks the owner for the approval of just that version: the
  request is recorded, names the project and the artifact of the spec, and is the last of
  the messages product sends on. Product then waits for the owner, and the project is in
  discovery, from whatever state it was in. For an unknown project it throws and changes
  nothing.
\<close>

theorem sales_lead_taken:
  assumes "app_reachable app w"
  shows "case getProject (wd_registry w) k of
     None \<Rightarrow>
       product_executeMessage app (normalizeMessageForRuntime (normalizedLeadHandoff l p k t)) now w =
         (Inl (''Project not found: '' @ k), w)
   | Some _ \<Rightarrow>
       (\<exists>res w' q a s spec.
          product_executeMessage app (normalizeMessageForRuntime (normalizedLeadHandoff l p k t)) now w = (Inr res, w') \<and>
          rs_approvals res = [a] \<and> rs_outgoing res \<noteq> [] \<and>
          last (rs_outgoing res) = makeApprovalRequestMessage Product_agent k now a \<and>
          ar_gate a = Spec_final \<and> ar_project_id a = Some k \<and> ar_artifact_ref a = sv_artifact_ref spec \<and>
          ar_request_id a = k @ '':spec_final:v'' @ nat_str (sv_version spec) \<and>
          getProjectState (wd_product w') k = Some s \<and> ps_latest_spec s = Some spec \<and>
          ps_discovery_status s = Ds_awaiting_owner_approval \<and>
          sv_version spec =
            (case getProjectState (wd_product w) k of None \<Rightarrow> 1 | Some old \<Rightarrow> ps_spec_version old + 1) \<and>
          getProject (wd_registry w') k = Some q \<and> pe_lifecycle_state q = LS_discovery)"
proof (cases "getProject (wd_registry w) k")
  case None
  then show ?thesis
    by (simp add: product_executeMessage_def product_take_lead_def io_bind_def app_requireProject_def Let_def
        normalizedLeadHandoff_def buildLeadHandoffBundle_def)
next
  case (Some project)
  let ?m = "normalizeMessageForRuntime (normalizedLeadHandoff l p k t)"
  have m: "msg_type ?m = ''lead_handoff''" "msg_project_id ?m = k" "msg_project_id (transformed_handoff ?m) = k"
    by (simp_all add: normalizedLeadHandoff_def buildLeadHandoffBundle_def transformed_handoff_def Let_def)
  let ?rt = "(wd_product w)\<lparr>pt_registry := Some (wd_registry w)\<rparr>"
  let ?v = "case getProjectState (wd_product w) k of None \<Rightarrow> 0 | Some old \<Rightarrow> ps_spec_version old"
  have keyed: "jm_get (pt_projects ?rt) k = Some s \<Longrightarrow> ps_project_id s = k" for s
    using reachable_bridge [OF assms] by (simp add: bridge_ok_def)
  obtain x rt1 r1 q s where i: "receiveLeadHandoff (oa_clock app) (pe_client_id project) (transformed_handoff ?m) ?rt = Inr (x, rt1)"
      "pt_registry rt1 = Some r1" "getProject r1 k = Some q" "pe_lifecycle_state q = LS_discovery"
      "Product_Runtime.requireProject rt1 k = Inr s" "ps_project_id s = k" "ps_spec_version s = ?v"
    using accepted_intake [OF lead_accepted, of ?rt "wd_registry w" l p k t "oa_clock app" "pe_client_id project"] keyed
    by (auto simp: m(3) getProjectState_def)
  have r1: "rt1\<lparr>pt_registry := Some r1\<rparr> = rt1" using i(2) by simp
  obtain spec rt2 s2 where y: "writeSpec k now (Some ''Runtime-generated discovery spec.'') rt1 = Inr (spec, rt2)"
      "pt_registry rt2 = Some r1" "Product_Runtime.requireProject rt2 k = Inr s2" "ps_latest_spec s2 = Some spec" "ps_project_id s2 = k"
      "sv_version spec = ?v + 1"
    using i by (auto simp: writeSpec_def Let_def persist_def Product_Runtime.requireProject_def)
  have r2: "rt2\<lparr>pt_registry := Some r1\<rparr> = rt2" using y(2) by simp
  obtain a out rt3 s3 where z: "requestSpecApproval k (k @ '':spec_final:v'' @ nat_str (sv_version spec)) now
        ''Approve spec so engineering can start.'' rt2 = Inr ((a, out), rt3)" "pt_registry rt3 = Some r1"
      "ar_gate a = Spec_final" "ar_project_id a = Some k" "ar_artifact_ref a = sv_artifact_ref spec"
      "ar_request_id a = k @ '':spec_final:v'' @ nat_str (sv_version spec)"
      "getProjectState rt3 k = Some s3" "ps_latest_spec s3 = Some spec" "ps_discovery_status s3 = Ds_awaiting_owner_approval"
    using y by (auto simp: requestSpecApproval_def Let_def persist_def createSpecApprovalRequest_def getProjectState_def)
  have step1: "on_product (receiveLeadHandoff (oa_clock app) (pe_client_id project) (transformed_handoff ?m)) w =
      (Inr x, w\<lparr>wd_product := rt1, wd_registry := r1\<rparr>)"
    using i by (simp add: on_product_def)
  have step2: "on_product (writeSpec k now (Some ''Runtime-generated discovery spec.'')) w2 =
      (Inr spec, w2\<lparr>wd_product := rt2, wd_registry := r1\<rparr>)" if "wd_product w2 = rt1" "wd_registry w2 = r1" for w2 :: "'a world"
    using y r1 that by (simp add: on_product_def)
  have step3: "on_product (requestSpecApproval k (k @ '':spec_final:v'' @ nat_str (sv_version spec)) now
        ''Approve spec so engineering can start.'') w3 = (Inr (a, out), w3\<lparr>wd_product := rt3, wd_registry := r1\<rparr>)"
    if "wd_product w3 = rt2" "wd_registry w3 = r1" for w3 :: "'a world"
    using z r2 that by (simp add: on_product_def)
  have run: "\<exists>res w'. product_take_lead app ?m now w = (Inr res, w') \<and> rs_approvals res = [a] \<and>
      rs_outgoing res = in_outgoing x @ out @ [makeApprovalRequestMessage Product_agent k now a] \<and>
      wd_registry w' = r1 \<and> wd_product w' = rt3"
    unfolding product_take_lead_def Let_def m(2) set_product_project_def
    using Some step1 by (simp add: io_bind_def app_requireProject_def step2 step3 [unfolded append_Cons append_Nil])
  have v: "sv_version spec = (case getProjectState (wd_product w) k of None \<Rightarrow> 1 | Some old \<Rightarrow> ps_spec_version old + 1)"
    using y(6) by (simp split: option.split)
  obtain res w' where "product_executeMessage app ?m now w = (Inr res, w')" "rs_approvals res = [a]"
      "rs_outgoing res \<noteq> []" "last (rs_outgoing res) = makeApprovalRequestMessage Product_agent k now a"
      "wd_registry w' = r1" "wd_product w' = rt3"
    using run m(1) by (auto simp: product_executeMessage_def)
  then have "\<exists>res w' q a s spec. product_executeMessage app ?m now w = (Inr res, w') \<and>
      rs_approvals res = [a] \<and> rs_outgoing res \<noteq> [] \<and>
      last (rs_outgoing res) = makeApprovalRequestMessage Product_agent k now a \<and>
      ar_gate a = Spec_final \<and> ar_project_id a = Some k \<and> ar_artifact_ref a = sv_artifact_ref spec \<and>
      ar_request_id a = k @ '':spec_final:v'' @ nat_str (sv_version spec) \<and>
      getProjectState (wd_product w') k = Some s \<and> ps_latest_spec s = Some spec \<and>
      ps_discovery_status s = Ds_awaiting_owner_approval \<and>
      sv_version spec = (case getProjectState (wd_product w) k of None \<Rightarrow> 1 | Some old \<Rightarrow> ps_spec_version old + 1) \<and>
      getProject (wd_registry w') k = Some q \<and> pe_lifecycle_state q = LS_discovery"
    using z(3-9) i(3,4) v by blast
  then show ?thesis unfolding Some option.case .
qed

theorem sales_lead_taken_witness:
  "\<exists>w. app_reachable demo_app w \<and> wd_registry w = demo_registry_with ''p'' LS_closed \<and>
     (\<forall>l p t now. \<exists>res w' q a. product_executeMessage demo_app
          (normalizeMessageForRuntime (normalizedLeadHandoff l p ''p'' t)) now w = (Inr res, w') \<and>
        rs_approvals res = [a] \<and> last (rs_outgoing res) = makeApprovalRequestMessage Product_agent ''p'' now a \<and>
        getProject (wd_registry w') ''p'' = Some q \<and> pe_lifecycle_state q = LS_discovery)"
proof -
  obtain w where "newOperationalApp demo_shell createDefaultWorkers (oa_clock demo_app) ''t'' (empty_registry, ())
      \<lparr>ft_files = [], ft_dirs = []\<rparr> = Inr w"
    using demo_app_starts by blast
  then have r: "app_reachable demo_app
      (w\<lparr>wd_registry := demo_registry_with ''p'' LS_closed, wd_shell := (), wd_files := \<lparr>ft_files = [], ft_dirs = []\<rparr>\<rparr>)"
    using app_reachable.start [of demo_shell createDefaultWorkers "oa_clock demo_app"] by (intro app_reachable.outside)
  let ?w = "w\<lparr>wd_registry := demo_registry_with ''p'' LS_closed, wd_shell := (), wd_files := \<lparr>ft_files = [], ft_dirs = []\<rparr>\<rparr>"
  have "getProject (wd_registry ?w) ''p'' \<noteq> None"
    using demo_registry_project [of "''p''" LS_closed] by auto
  then have "\<exists>res w' q a. product_executeMessage demo_app
          (normalizeMessageForRuntime (normalizedLeadHandoff l p ''p'' t)) now ?w = (Inr res, w') \<and>
        rs_approvals res = [a] \<and> last (rs_outgoing res) = makeApprovalRequestMessage Product_agent ''p'' now a \<and>
        getProject (wd_registry w') ''p'' = Some q \<and> pe_lifecycle_state q = LS_discovery" for l p t now
    using sales_lead_taken [OF r, where k = "''p''" and l = l and p = p and t = t and now = now] by (fastforce split: option.splits)
  with r show ?thesis by (intro exI [of _ ?w]) simp
qed

text \<open>
  C16: When the owner asks for a revision of the delivery, engineering counts up the version
  but sends nothing. From then on, whatever messages and tasks the seven agents take and
  however registry, shell and files change, in every later state in which the project is
  still in validation a handoff for it is only noted, and no agent asks for the delivery of
  the project: no message or task makes one record or send such a request. This is for
  states that keep each engineering project under its own id, as all the states the
  application reaches do (reachable_keyed).
\<close>

theorem revision_dead_end:
  assumes "engineering_keyed w" "k = msg_project_id answer"
    and "engineering_executeMessage app (answer\<lparr>msg_type := ''approval_response''\<rparr>) now w = (Inr res, w')"
    and "map ap_decision (rs_responses res) = [Revise]"
    and "app_later app w' w2" "getProject (wd_registry w2) k = Some p" "pe_lifecycle_state p = LS_qa"
  shows "rs_outgoing res = [] \<and> rs_approvals res = [] \<and>
    (\<exists>s s'. jm_get (wd_engineeringProjects w) k = Some s \<and> jm_get (wd_engineeringProjects w') k = Some s' \<and>
       es_delivery_version s' = es_delivery_version s + 1) \<and>
    (\<exists>s. jm_get (wd_engineeringProjects w2) k = Some s \<and>
       engineering_executeMessage app (handoff\<lparr>msg_type := ''discovery_handoff'', msg_project_id := k\<rparr>) t w2 =
         (Inr (only_note (''Engineering handoff for '' @ k @ '' already processed at '' @ es_last_updated_at s @ ''.'')), w2)) \<and>
    (case message_adapter app to of None \<Rightarrow> True
     | Some execute \<Rightarrow> (case execute m t w2 of (Inl _, _) \<Rightarrow> True | (Inr res2, _) \<Rightarrow> \<not> asks_for_delivery k res2)) \<and>
    (case task_adapter app agent of None \<Rightarrow> True
     | Some perform \<Rightarrow> (case perform task input t w2 of (Inl _, _) \<Rightarrow> True | (Inr res2, _) \<Rightarrow> \<not> asks_for_delivery k res2))"
proof -
  note run = revised_delivery [OF assms(3,4), folded assms(2)]
  have "engineering_stays w w2"
    using io_keepsD [OF engineering_message_stays assms(3)] later_stays [OF assms(5)] engineering_order(4)
    by (metis transpE)
  then have keyed: "engineering_keyed w2" and stored: "jm_get (wd_engineeringProjects w2) k \<noteq> None"
    using assms(1) run unfolding engineering_stays_def by auto
  then obtain s where s: "jm_get (wd_engineeringProjects w2) k = Some s" by blast
  have note_only: "engineering_executeMessage app (handoff\<lparr>msg_type := ''discovery_handoff'', msg_project_id := k\<rparr>) t w2 =
      (Inr (only_note (''Engineering handoff for '' @ k @ '' already processed at '' @ es_last_updated_at s @ ''.'')), w2)"
    using s assms(6,7)
    by (simp add: engineering_executeMessage_def engineering_take_handoff_def io_bind_def app_requireProject_def Let_def)
  have "\<not> asks_for_delivery k res2" if "message_adapter app to = Some execute" "execute m t w2 = (Inr res2, w3)"
    for execute res2 w3
    using adapter_asks [OF that keyed stored assms(6,7)] .
  moreover have "\<not> asks_for_delivery k res2" if "task_adapter app agent = Some perform" "perform task input t w2 = (Inr res2, w3)"
    for perform res2 w3
    using task_asks [OF that] by (intro asks_only_not) (auto elim: asks_only_mono)
  ultimately show ?thesis
    using run s note_only by (auto split: option.split prod.split sum.split)
qed

theorem revision_dead_end_witness:
  "\<exists>w' res. engineering_executeMessage demo_app demo_revision ''t'' demo_delivery_world = (Inr res, w') \<and>
     rs_outgoing res = [] \<and>
     (\<forall>m t. case message_adapter demo_app ''engineering_agent'' of None \<Rightarrow> True
      | Some execute \<Rightarrow> (case execute m t w' of (Inl _, _) \<Rightarrow> True | (Inr res2, _) \<Rightarrow> \<not> asks_for_delivery ''p'' res2))"
proof -
  obtain res w' where r: "engineering_executeMessage demo_app demo_revision ''t'' demo_delivery_world = (Inr res, w')"
      "map ap_decision (rs_responses res) = [Revise]" "wd_registry w' = demo_registry_with ''p'' LS_qa"
    using demo_revised by (elim exE conjE)
  obtain p where p: "getProject (wd_registry w') ''p'' = Some p" "pe_lifecycle_state p = LS_qa"
    using demo_registry_project [of "''p''" LS_qa] r(3) by auto
  have k: "''p'' = msg_project_id demo_revision" "engineering_keyed demo_delivery_world"
    and m: "demo_revision\<lparr>msg_type := ''approval_response''\<rparr> = demo_revision"
    by (simp_all add: demo_revision_def makeApprovalResponseMessage_def demo_delivery_world_def engineering_keyed_def
        jm_get_def createEngineeringProjectState_def)
  have "engineering_executeMessage demo_app (demo_revision\<lparr>msg_type := ''approval_response''\<rparr>) ''t'' demo_delivery_world = (Inr res, w')"
    unfolding m by (rule r(1))
  note dead_end = revision_dead_end [OF k(2,1) this r(2) app_later.now p, where to = "''engineering_agent''"]
  have "rs_outgoing res = []" by (rule dead_end [THEN conjunct1])
  moreover have "\<forall>m t. case message_adapter demo_app ''engineering_agent'' of None \<Rightarrow> True
      | Some execute \<Rightarrow> (case execute m t w' of (Inl _, _) \<Rightarrow> True | (Inr res2, _) \<Rightarrow> \<not> asks_for_delivery ''p'' res2)"
    by (intro allI) (rule dead_end [THEN conjunct2, THEN conjunct2, THEN conjunct2, THEN conjunct2, THEN conjunct1])
  ultimately show ?thesis using r(1) by (intro exI conjI)
qed

text \<open>
  When engineering has taken a handoff and asked for the delivery's approval, the project is
  in validation, so product only notes the acknowledgment and every later status of
  engineering: nothing changes, and product waits for the acknowledgment for ever.
\<close>

theorem acknowledgment_never_recorded:
  "case engineering_executeMessage app m now w of (Inl _, _) \<Rightarrow> True
   | (Inr res, w') \<Rightarrow>
       if rs_approvals res = [] then True
       else if (case jm_get (wd_engineeringProjects w) (msg_project_id m) of
                  None \<Rightarrow> False | Some s \<Rightarrow> es_project_id s \<noteq> msg_project_id m) then True
       else product_executeMessage app
              (status\<lparr>msg_type := ''status_update'', msg_from := ''engineering_agent'', msg_project_id := msg_project_id m\<rparr>) later w' =
            (Inr (only_note ''Product observed engineering status while project is already qa.''), w')"
proof (cases "engineering_executeMessage app m now w")
  case (Pair r w')
  show ?thesis
  proof (cases r)
    case (Inr res)
    have "product_executeMessage app
        (status\<lparr>msg_type := ''status_update'', msg_from := ''engineering_agent'', msg_project_id := msg_project_id m\<rparr>) later w' =
        (Inr (only_note ''Product observed engineering status while project is already qa.''), w')"
      if asked: "rs_approvals res \<noteq> []" and own: "\<not> (case jm_get (wd_engineeringProjects w) (msg_project_id m) of
          None \<Rightarrow> False | Some s \<Rightarrow> es_project_id s \<noteq> msg_project_id m)"
    proof -
      obtain s w0 where "engineering_build app m s now w0 = (Inr res, w')"
          "jm_get (wd_engineeringProjects w) (msg_project_id m) = Some s \<or> es_project_id s = msg_project_id m"
        using build_or_note asked Pair Inr by blast
      then obtain p where "getProject (wd_registry w') (msg_project_id m) = Some p" "pe_lifecycle_state p = LS_qa"
        using build_moves own by fastforce
      then show ?thesis
        by (simp add: product_executeMessage_def product_take_status_def io_bind_def app_requireProject_def Let_def)
    qed
    then show ?thesis using Pair Inr by simp
  qed (simp add: Pair)
qed

end
