(* ===== verification/Conversation.thy ===== *)
theory Conversation
  imports JS_Values JS_Number JS_Collections JS_Date
begin

text \<open>
  The conversations the compaction code works on, \<^verbatim>\<open>src/src/memory/compact/\<close>: messages with the
  fields that code reads, the estimate of their tokens (\<^verbatim>\<open>microCompact.ts\<close>), their groups by
  round trip (\<^verbatim>\<open>grouping.ts\<close>), and the index at which the kept part of a conversation may begin
  (\<^verbatim>\<open>sessionMemoryCompact.ts\<close>). The message type itself is not in the repository. Neither are the
  estimate of a text, the JSON text of a value and the test for a compaction boundary: they are
  parameters, the first two in the record \<open>token_host\<close>.
\<close>

section \<open>Messages\<close>

datatype media = Media_image | Media_document

datatype result_item =
    Item_text string
  | Item_media media jsval
  | Item_other jsval

datatype result_content =
    Result_absent
  | Result_text string
  | Result_items "result_item list"

text \<open>
  A tool use has an id, a name and an input; a tool result the id of its use, its content and
  its other fields. Any other block is kept as the value it is.
\<close>

datatype conv_block =
    Block_text string
  | Block_media media jsval
  | Block_tool_use string string jsval
  | Block_tool_result string result_content jsval
  | Block_thinking string
  | Block_redacted string
  | Block_other jsval

datatype conv_content = Content_text string | Content_blocks "conv_block list"

text \<open>
  A user message has its content and the marks \<^verbatim>\<open>isMeta\<close> and \<^verbatim>\<open>isCompactSummary\<close>, an assistant
  message the id of the response it belongs to and its blocks, an attachment its type.
\<close>

datatype conv_body =
    Body_user conv_content bool bool
  | Body_assistant string "conv_block list"
  | Body_attachment string jsval
  | Body_progress
  | Body_system jsval

record conv_message =
  cm_uuid :: string
  cm_timestamp :: string
  cm_body :: conv_body

text \<open>The blocks of a user or assistant message whose content is an array.\<close>

fun user_blocks :: "conv_body \<Rightarrow> conv_block list" where
  "user_blocks (Body_user (Content_blocks bs) _ _) = bs"
| "user_blocks _ = []"

fun assistant_blocks :: "conv_body \<Rightarrow> conv_block list" where
  "assistant_blocks (Body_assistant _ bs) = bs"
| "assistant_blocks _ = []"

fun response_id :: "conv_body \<Rightarrow> string option" where
  "response_id (Body_assistant i _) = Some i"
| "response_id _ = None"

fun block_use_id :: "conv_block \<Rightarrow> string option" where
  "block_use_id (Block_tool_use i _ _) = Some i"
| "block_use_id _ = None"

fun block_result_id :: "conv_block \<Rightarrow> string option" where
  "block_result_id (Block_tool_result i _ _) = Some i"
| "block_result_id _ = None"

text \<open>The ids of the tool uses, and of the tool results, of a message.\<close>

definition toolUseIds :: "conv_message \<Rightarrow> string list" where
  "toolUseIds m = List.map_filter block_use_id (assistant_blocks (cm_body m))"

definition getToolResultIds :: "conv_message \<Rightarrow> string list" where
  "getToolResultIds m = List.map_filter block_result_id (user_blocks (cm_body m))"

definition hasToolUseWithIds :: "conv_message \<Rightarrow> string list \<Rightarrow> bool" where
  "hasToolUseWithIds m ids = list_ex (\<lambda>i. i \<in> set ids) (toolUseIds m)"

fun is_text_block :: "conv_block \<Rightarrow> bool" where
  "is_text_block (Block_text _) = True"
| "is_text_block _ = False"

fun hasTextBlocks :: "conv_body \<Rightarrow> bool" where
  "hasTextBlocks (Body_assistant _ bs) = list_ex is_text_block bs"
| "hasTextBlocks (Body_user (Content_text t) _ _) = (t \<noteq> [])"
| "hasTextBlocks (Body_user (Content_blocks bs) _ _) = list_ex is_text_block bs"
| "hasTextBlocks _ = False"

section \<open>Estimates\<close>

text \<open>\<^verbatim>\<open>roughTokenCountEstimation\<close> of a text, and \<^verbatim>\<open>jsonStringify\<close>.\<close>

record token_host =
  th_rough :: "string \<Rightarrow> nat"
  th_json :: "jsval \<Rightarrow> string"

definition IMAGE_MAX_TOKEN_SIZE :: nat where
  "IMAGE_MAX_TOKEN_SIZE = 2000"

fun item_tokens :: "token_host \<Rightarrow> result_item \<Rightarrow> nat" where
  "item_tokens h (Item_text t) = th_rough h t"
| "item_tokens h (Item_media _ _) = IMAGE_MAX_TOKEN_SIZE"
| "item_tokens h (Item_other _) = 0"

fun calculateToolResultTokens :: "token_host \<Rightarrow> result_content \<Rightarrow> nat" where
  "calculateToolResultTokens h Result_absent = 0"
| "calculateToolResultTokens h (Result_text t) = (if t = [] then 0 else th_rough h t)"
| "calculateToolResultTokens h (Result_items is) = sum_list (map (item_tokens h) is)"

text \<open>\<^verbatim>\<open>block.input ?? {}\<close>.\<close>

definition input_value :: "jsval \<Rightarrow> jsval" where
  "input_value v = (if v \<in> {JUndefined, JNull} then JObj [] else v)"

fun block_tokens :: "token_host \<Rightarrow> conv_block \<Rightarrow> nat" where
  "block_tokens h (Block_text t) = th_rough h t"
| "block_tokens h (Block_tool_result _ c _) = calculateToolResultTokens h c"
| "block_tokens h (Block_media _ _) = IMAGE_MAX_TOKEN_SIZE"
| "block_tokens h (Block_thinking t) = th_rough h t"
| "block_tokens h (Block_redacted t) = th_rough h t"
| "block_tokens h (Block_tool_use _ n v) = th_rough h (n @ th_json h (input_value v))"
| "block_tokens h (Block_other v) = th_rough h (th_json h v)"

definition message_tokens :: "token_host \<Rightarrow> conv_message \<Rightarrow> nat" where
  "message_tokens h m =
     sum_list (map (block_tokens h) (user_blocks (cm_body m) @ assistant_blocks (cm_body m)))"

text \<open>\<^verbatim>\<open>Math.ceil\<close> of a double, and \<^verbatim>\<open>Math.ceil(n * (4 / 3))\<close>.\<close>

definition math_ceil :: "nat \<times> int \<Rightarrow> nat" where
  "math_ceil x = (let (q, e) = x; (a, b) = scaled q 1 (- e) in (a + b - 1) div b)"

definition pad_estimate :: "nat \<Rightarrow> nat" where
  "pad_estimate n = math_ceil (double_times (to_double 4 3) n)"

definition estimateMessageTokens :: "token_host \<Rightarrow> conv_message list \<Rightarrow> nat" where
  "estimateMessageTokens h ms = pad_estimate (sum_list (map (message_tokens h) ms))"

section \<open>Groups by round trip\<close>

text \<open>
  A round begins with an assistant message whose response id is not that of the assistant
  message before it. \<open>group_loop\<close> has the messages to come, the current group and the id.
\<close>

fun group_loop :: "conv_message list \<Rightarrow> conv_message list \<Rightarrow> string option \<Rightarrow> conv_message list list" where
  "group_loop [] current prev = (if current = [] then [] else [current])"
| "group_loop (m # ms) current prev =
     (case response_id (cm_body m) of
        None \<Rightarrow> group_loop ms (current @ [m]) prev
      | Some i \<Rightarrow>
          if prev \<noteq> Some i \<and> current \<noteq> [] then current # group_loop ms [m] (Some i)
          else group_loop ms (current @ [m]) (Some i))"

definition groupMessagesByApiRound :: "conv_message list \<Rightarrow> conv_message list list" where
  "groupMessagesByApiRound ms = group_loop ms [] None"

text \<open>The id the loop carries, read off the messages so far; where a round starts.\<close>

definition last_response :: "conv_message list \<Rightarrow> string option \<Rightarrow> string option" where
  "last_response ms prev = foldl (\<lambda>p m. case response_id (cm_body m) of None \<Rightarrow> p | Some i \<Rightarrow> Some i) prev ms"

definition starts_round :: "conv_message list \<Rightarrow> nat \<Rightarrow> bool" where
  "starts_round ms k \<longleftrightarrow>
     0 < k \<and> k < length ms \<and> response_id (cm_body (ms ! k)) \<noteq> None \<and>
     response_id (cm_body (ms ! k)) \<noteq> last_response (take k ms) None"

section \<open>Where the kept messages begin\<close>

text \<open>
  The backward searches of \<^verbatim>\<open>adjustIndexToPreserveAPIInvariants\<close>: for the uses of the results
  that are kept, and for the other messages of the responses that are kept.
\<close>

fun find_uses :: "conv_message list \<Rightarrow> nat \<Rightarrow> string list \<Rightarrow> nat \<Rightarrow> nat" where
  "find_uses ms 0 needed adj = adj"
| "find_uses ms (Suc i) needed adj =
     (if needed = [] then adj
      else if hasToolUseWithIds (ms ! i) needed
        then find_uses ms i (filter (\<lambda>x. x \<notin> set (toolUseIds (ms ! i))) needed) i
      else find_uses ms i needed adj)"

definition truthy_response :: "conv_message \<Rightarrow> string option" where
  "truthy_response m = (case response_id (cm_body m) of Some i \<Rightarrow> if i = [] then None else Some i | None \<Rightarrow> None)"

fun find_chunks :: "conv_message list \<Rightarrow> nat \<Rightarrow> string list \<Rightarrow> nat \<Rightarrow> nat" where
  "find_chunks ms 0 ids adj = adj"
| "find_chunks ms (Suc i) ids adj =
     find_chunks ms i ids
       (case truthy_response (ms ! i) of Some r \<Rightarrow> if r \<in> set ids then i else adj | None \<Rightarrow> adj)"

definition keep_uses :: "conv_message list \<Rightarrow> nat \<Rightarrow> nat" where
  "keep_uses ms start =
     (let kept = drop start ms; results = concat (map getToolResultIds kept) in
      if results = [] then start
      else
        let uses = concat (map toolUseIds kept)
        in find_uses ms start (js_set (filter (\<lambda>x. x \<notin> set uses) results)) start)"

definition keep_chunks :: "conv_message list \<Rightarrow> nat \<Rightarrow> nat" where
  "keep_chunks ms start = find_chunks ms start (List.map_filter truthy_response (drop start ms)) start"

definition adjustIndexToPreserveAPIInvariants :: "conv_message list \<Rightarrow> nat \<Rightarrow> nat" where
  "adjustIndexToPreserveAPIInvariants ms start =
     (if start = 0 \<or> start \<ge> length ms then start else keep_chunks ms (keep_uses ms start))"

section \<open>The groups are a partition\<close>

text \<open>Where each group starts, counting from \<open>n\<close>.\<close>

fun group_starts :: "nat \<Rightarrow> 'a list list \<Rightarrow> nat list" where
  "group_starts n [] = []"
| "group_starts n (g # gs) = n # group_starts (n + length g) gs"

lemma concat_group_loop: "concat (group_loop ms current prev) = current @ ms"
  by (induction ms current prev rule: group_loop.induct) (auto split: option.split)

lemma group_loop_ne: "[] \<notin> set (group_loop ms current prev)"
  by (induction ms current prev rule: group_loop.induct) (auto split: option.split)

lemma concat_groups [simp]: "concat (groupMessagesByApiRound ms) = ms"
  by (simp add: groupMessagesByApiRound_def concat_group_loop)

lemma groups_ne: "[] \<notin> set (groupMessagesByApiRound ms)"
  by (simp add: groupMessagesByApiRound_def group_loop_ne)

lemma last_response_simps [simp]:
  "last_response [] p = p"
  "last_response (m # ms) p = last_response ms (case response_id (cm_body m) of None \<Rightarrow> p | Some i \<Rightarrow> Some i)"
  "last_response (ms @ [m]) p = (case response_id (cm_body m) of None \<Rightarrow> last_response ms p | Some i \<Rightarrow> Some i)"
  by (simp_all add: last_response_def split: option.split)

definition loop_starts :: "conv_message list \<Rightarrow> string option \<Rightarrow> nat set" where
  "loop_starts ms prev =
     {i. i < length ms \<and> response_id (cm_body (ms ! i)) \<noteq> None \<and>
       response_id (cm_body (ms ! i)) \<noteq> last_response (take i ms) prev}"

lemma loop_starts_Cons:
  "loop_starts (m # ms) prev =
     (if response_id (cm_body m) \<noteq> None \<and> response_id (cm_body m) \<noteq> prev then {0} else {}) \<union>
     Suc ` loop_starts ms (case response_id (cm_body m) of None \<Rightarrow> prev | Some i \<Rightarrow> Some i)"
  (is "?l = ?r")
proof (rule set_eqI)
  fix i
  show "i \<in> ?l \<longleftrightarrow> i \<in> ?r"
    by (cases i) (auto simp: loop_starts_def)
qed

lemma group_starts_loop:
  "current \<noteq> [] \<Longrightarrow>
   set (group_starts n (group_loop ms current prev)) = insert n ((\<lambda>i. n + length current + i) ` loop_starts ms prev)"
proof (induction ms arbitrary: n current prev)
  case Nil
  then show ?case by (simp add: loop_starts_def)
next
  case (Cons m ms)
  show ?case
  proof (cases "response_id (cm_body m)")
    case None
    then show ?thesis
      by (simp add: Cons.IH loop_starts_Cons image_image)
  next
    case (Some i)
    then show ?thesis
      using Cons.prems by (auto simp: Cons.IH loop_starts_Cons image_image)
  qed
qed

lemma starts_round_Cons: "starts_round (m # ms) (Suc i) \<longleftrightarrow> i \<in> loop_starts ms (response_id (cm_body m))"
  by (auto simp: starts_round_def loop_starts_def split: option.splits)

lemma group_starts_exact:
  "set (group_starts 0 (groupMessagesByApiRound ms)) = {k. k < length ms \<and> (k = 0 \<or> starts_round ms k)}"
proof (cases ms)
  case Nil
  then show ?thesis by (simp add: groupMessagesByApiRound_def)
next
  case (Cons m ms')
  have "set (group_starts 0 (groupMessagesByApiRound ms)) = insert 0 (Suc ` loop_starts ms' (response_id (cm_body m)))"
    using Cons by (auto simp: groupMessagesByApiRound_def group_starts_loop image_iff split: option.splits)
  also have "\<dots> = {k. k < length ms \<and> (k = 0 \<or> starts_round ms k)}" (is "?l = ?r")
  proof (rule set_eqI)
    fix k
    show "k \<in> ?l \<longleftrightarrow> k \<in> ?r"
      using Cons by (cases k) (auto simp: starts_round_Cons loop_starts_def)
  qed
  finally show ?thesis .
qed

text \<open>Later groups start with an assistant message; a tail of the groups groups the same way.\<close>

lemma loop_first:
  assumes "current \<noteq> []"
  obtains g gs where "group_loop ms current prev = g # gs" "g \<noteq> []" "hd g = hd current"
proof (cases "group_loop ms current prev")
  case Nil
  then show thesis using concat_group_loop [of ms current prev] assms by simp
next
  case (Cons g gs)
  have "g \<noteq> []" using group_loop_ne [of ms current prev] Cons by auto
  moreover have "hd (concat (g # gs)) = hd (current @ ms)" using concat_group_loop [of ms current prev] Cons by simp
  ultimately show thesis using that [OF Cons] assms by simp
qed

lemma loop_tail_assistant:
  "current \<noteq> [] \<Longrightarrow> g \<in> set (tl (group_loop ms current prev)) \<Longrightarrow> response_id (cm_body (hd g)) \<noteq> None"
proof (induction ms arbitrary: current prev)
  case (Cons m ms)
  show ?case
  proof (cases "response_id (cm_body m)")
    case None
    then show ?thesis using Cons.prems Cons.IH [of "current @ [m]" prev] by simp
  next
    case (Some i)
    obtain g1 gs where g1: "group_loop ms [m] (Some i) = g1 # gs" "hd g1 = m"
      by (rule loop_first [of "[m]" ms "Some i"]) simp_all
    show ?thesis
    proof (cases "prev = Some i")
      case False
      then have "g = g1 \<or> g \<in> set (tl (group_loop ms [m] (Some i)))" using Cons.prems Some g1 by simp
      then show ?thesis using g1 Cons.IH [of "[m]" "Some i"] Some by blast
    next
      case True
      then show ?thesis using Cons.prems Some Cons.IH [of "current @ [m]" "Some i"] by simp
    qed
  qed
qed simp

lemma regroup_loop:
  "current \<noteq> [] \<Longrightarrow> 0 < n \<Longrightarrow>
   group_loop (concat (drop n (group_loop ms current prev))) [] p = drop n (group_loop ms current prev)"
proof (induction ms arbitrary: current prev n)
  case Nil
  then show ?case by (cases n) simp_all
next
  case (Cons m ms)
  show ?case
  proof (cases "response_id (cm_body m)")
    case None
    then show ?thesis using Cons by simp
  next
    case (Some i)
    show ?thesis
    proof (cases "prev = Some i")
      case True
      then show ?thesis using Cons Some by simp
    next
      case False
      obtain k where k: "n = Suc k" using Cons.prems(2) by (cases n) auto
      show ?thesis
      proof (cases k)
        case 0
        then show ?thesis using Some False Cons.prems k by (simp add: concat_group_loop)
      next
        case (Suc l)
        then show ?thesis using Some False Cons k by simp
      qed
    qed
  qed
qed

lemma groups_step:
  "groupMessagesByApiRound (m # ms) = group_loop ms [m] (response_id (cm_body m))"
  by (simp add: groupMessagesByApiRound_def split: option.split)

lemma regroup:
  "0 < n \<Longrightarrow> groupMessagesByApiRound (concat (drop n (groupMessagesByApiRound ms))) = drop n (groupMessagesByApiRound ms)"
  by (cases ms) (simp_all add: groups_step regroup_loop groupMessagesByApiRound_def [of "concat _"],
      simp add: groupMessagesByApiRound_def)

lemma later_groups_assistant:
  "g \<in> set (tl (groupMessagesByApiRound ms)) \<Longrightarrow> response_id (cm_body (hd g)) \<noteq> None"
proof (cases ms)
  case (Cons m ms')
  assume "g \<in> set (tl (groupMessagesByApiRound ms))"
  then show ?thesis using Cons loop_tail_assistant [of "[m]" g] by (simp add: groups_step)
qed (simp add: groupMessagesByApiRound_def)

section \<open>The kept messages are complete\<close>

lemma find_uses_le: "i \<le> adj \<Longrightarrow> find_uses ms i needed adj \<le> adj"
  by (induction ms i needed adj rule: find_uses.induct) auto

lemma find_uses_found:
  "i \<le> adj \<Longrightarrow> x \<in> set needed \<Longrightarrow> k < i \<Longrightarrow> x \<in> set (toolUseIds (ms ! k)) \<Longrightarrow>
   \<exists>k \<ge> find_uses ms i needed adj. k < i \<and> x \<in> set (toolUseIds (ms ! k))"
proof (induction ms i needed adj arbitrary: k rule: find_uses.induct)
  case (2 ms i needed adj)
  have ne: "needed \<noteq> []" using "2.prems"(2) by auto
  show ?case
  proof (cases "x \<in> set (toolUseIds (ms ! i))")
    case True
    then have "hasToolUseWithIds (ms ! i) needed"
      using "2.prems"(2) by (auto simp: hasToolUseWithIds_def list_ex_iff)
    then have "find_uses ms (Suc i) needed adj \<le> i" using ne by (simp add: find_uses_le)
    then show ?thesis using True by blast
  next
    case False
    then have k: "k < i" using "2.prems"(3, 4) by (auto simp: less_Suc_eq)
    show ?thesis
    proof (cases "hasToolUseWithIds (ms ! i) needed")
      case True
      then have "\<exists>k \<ge> find_uses ms i (filter (\<lambda>x. x \<notin> set (toolUseIds (ms ! i))) needed) i. k < i \<and> x \<in> set (toolUseIds (ms ! k))"
        using "2.IH"(1) [OF ne True, of k] "2.prems"(2, 4) False k by simp
      then show ?thesis using ne True less_Suc_eq by auto
    next
      case no: False
      then have "\<exists>k \<ge> find_uses ms i needed adj. k < i \<and> x \<in> set (toolUseIds (ms ! k))"
        using "2.IH"(2) [OF ne no, of k] "2.prems" k by simp
      then show ?thesis using ne no less_Suc_eq by auto
    qed
  qed
qed simp

lemma find_uses_assistant:
  "find_uses ms i needed adj = adj \<or> toolUseIds (ms ! find_uses ms i needed adj) \<noteq> []"
proof (induction ms i needed adj rule: find_uses.induct)
  case (2 ms i needed adj)
  have "hasToolUseWithIds (ms ! i) needed \<Longrightarrow> toolUseIds (ms ! i) \<noteq> []"
    by (auto simp: hasToolUseWithIds_def)
  then show ?case using "2.IH" by auto
qed simp

lemma find_chunks_le: "i \<le> adj \<Longrightarrow> find_chunks ms i ids adj \<le> adj"
  by (induction ms i ids adj rule: find_chunks.induct) (auto split: option.split if_splits intro: le_trans)

lemma find_chunks_found:
  "k < i \<Longrightarrow> i \<le> adj \<Longrightarrow> truthy_response (ms ! k) = Some r \<Longrightarrow> r \<in> set ids \<Longrightarrow> find_chunks ms i ids adj \<le> k"
proof (induction ms i ids adj rule: find_chunks.induct)
  case (2 ms i ids adj)
  show ?case
  proof (cases "k = i")
    case True
    then show ?thesis using "2.prems" by (simp add: find_chunks_le)
  next
    case False
    then show ?thesis using "2.prems" "2.IH" by (auto split: option.split)
  qed
qed simp

lemma find_chunks_response:
  "find_chunks ms i ids adj = adj \<or>
   (\<exists>r \<in> set ids. truthy_response (ms ! find_chunks ms i ids adj) = Some r)"
proof (induction ms i ids adj rule: find_chunks.induct)
  case (2 ms i ids adj)
  then show ?case by (auto split: option.splits if_splits)
qed simp

lemma keep_uses_le: "keep_uses ms start \<le> start"
  by (simp add: keep_uses_def Let_def find_uses_le)

lemma keep_chunks_le: "keep_chunks ms start \<le> start"
  by (simp add: keep_chunks_def find_chunks_le)

lemma adjust_le: "adjustIndexToPreserveAPIInvariants ms start \<le> start"
  using order_trans [OF keep_chunks_le keep_uses_le] by (simp add: adjustIndexToPreserveAPIInvariants_def)

lemma in_dropI: "start \<le> j \<Longrightarrow> j < length ms \<Longrightarrow> ms ! j \<in> set (drop start ms)"
  by (metis Cons_nth_drop_Suc drop_drop le_add_diff_inverse2 list.set_intros(1) set_drop_subset subsetD)

text \<open>Every result from the first index on has its use, if there is one anywhere, among the kept.\<close>

lemma keep_uses_found:
  assumes "start \<le> j" "j < length ms" "x \<in> set (getToolResultIds (ms ! j))"
    and "k < length ms" "x \<in> set (toolUseIds (ms ! k))"
  shows "\<exists>k \<ge> keep_uses ms start. k < length ms \<and> x \<in> set (toolUseIds (ms ! k))"
proof -
  let ?kept = "drop start ms"
  let ?uses = "concat (map toolUseIds ?kept)"
  have r: "x \<in> set (concat (map getToolResultIds ?kept))"
    using in_dropI [OF assms(1, 2)] assms(3) by auto
  show ?thesis
  proof (cases "x \<in> set ?uses")
    case True
    then obtain m where "m \<in> set ?kept" "x \<in> set (toolUseIds m)" by auto
    then obtain i where "i < length ?kept" "x \<in> set (toolUseIds (?kept ! i))"
      by (metis in_set_conv_nth)
    then have "start \<le> start + i" "start + i < length ms" "x \<in> set (toolUseIds (ms ! (start + i)))" by auto
    then show ?thesis using keep_uses_le order_trans by blast
  next
    case False
    have k: "k < start"
    proof (rule ccontr)
      assume "\<not> k < start"
      then have "ms ! k \<in> set ?kept" using assms(4) by (intro in_dropI) simp_all
      then show False using False assms(5) by auto
    qed
    let ?needed = "js_set (filter (\<lambda>x. x \<notin> set ?uses) (concat (map getToolResultIds ?kept)))"
    have "concat (map getToolResultIds ?kept) \<noteq> []" using r by (metis empty_iff empty_set)
    then have "keep_uses ms start = find_uses ms start ?needed start"
      by (simp only: keep_uses_def Let_def if_False)
    moreover have "x \<in> set ?needed" using r False by (simp only: set_js_set set_filter mem_Collect_eq) simp
    then obtain k' where "find_uses ms start ?needed start \<le> k'" "k' < start" "x \<in> set (toolUseIds (ms ! k'))"
      using find_uses_found [OF order_refl _ k assms(5)] by blast
    moreover have "start < length ms" using assms(1, 2) by simp
    ultimately show ?thesis by (metis order.strict_trans)
  qed
qed

lemma kept_result_found:
  assumes "start \<le> j" "j < length ms" "x \<in> set (getToolResultIds (ms ! j))"
    and "k < length ms" "x \<in> set (toolUseIds (ms ! k))"
  shows "\<exists>k \<ge> adjustIndexToPreserveAPIInvariants ms start. k < length ms \<and> x \<in> set (toolUseIds (ms ! k))"
proof -
  obtain k where "keep_uses ms start \<le> k" "k < length ms" "x \<in> set (toolUseIds (ms ! k))"
    using keep_uses_found [OF assms] by blast
  then have "keep_chunks ms (keep_uses ms start) \<le> k" using keep_chunks_le order_trans by blast
  with \<open>k < length ms\<close> \<open>x \<in> set (toolUseIds (ms ! k))\<close> show ?thesis
    using assms(1, 2, 4, 5) by (auto simp: adjustIndexToPreserveAPIInvariants_def)
qed

text \<open>Two messages in the same round; assistant messages of a round share their response id.\<close>

definition same_round :: "conv_message list \<Rightarrow> nat \<Rightarrow> nat \<Rightarrow> bool" where
  "same_round ms k j \<longleftrightarrow> k \<le> j \<and> (\<forall>i \<in> {k<..j}. \<not> starts_round ms i)"

lemma same_round_part: "same_round ms k j \<Longrightarrow> k \<le> i \<Longrightarrow> i \<le> j \<Longrightarrow> same_round ms k i"
  by (auto simp: same_round_def)

lemma same_round_last:
  assumes "same_round ms k j" "j < length ms" "response_id (cm_body (ms ! k)) = Some x"
  shows "last_response (take (Suc j) ms) None = Some x"
proof -
  have "k \<le> i \<Longrightarrow> i \<le> j \<Longrightarrow> last_response (take (Suc i) ms) None = Some x" for i
  proof (induction i rule: dec_induct)
    case base
    then show ?case using assms by (simp add: take_Suc_conv_app_nth)
  next
    case (step i)
    then have "\<not> starts_round ms (Suc i)" using assms(1) by (auto simp: same_round_def)
    then show ?case
      using step assms(2) by (auto simp: starts_round_def take_Suc_conv_app_nth [of "Suc i"] split: option.split)
  qed
  then show ?thesis using assms(1) by (simp add: same_round_def)
qed

lemma same_round_response:
  assumes "same_round ms k j" "j < length ms"
    and "response_id (cm_body (ms ! k)) = Some x" "response_id (cm_body (ms ! j)) = Some y"
  shows "x = y"
  using same_round_last [OF assms(1-3)] assms(2, 4) by (simp add: take_Suc_conv_app_nth)

text \<open>
  The conversations the code calls well-formed: a tool result follows its use within the round.
\<close>

definition results_in_round :: "conv_message list \<Rightarrow> bool" where
  "results_in_round ms \<longleftrightarrow>
     (\<forall>j \<in> {..<length ms}. \<forall>x \<in> set (getToolResultIds (ms ! j)).
        \<exists>k \<in> {..<j}. x \<in> set (toolUseIds (ms ! k)) \<and> same_round ms k j)"

definition named_responses :: "conv_message list \<Rightarrow> bool" where
  "named_responses ms = list_all (\<lambda>m. response_id (cm_body m) \<noteq> Some []) ms"

lemma use_truthy:
  assumes "named_responses ms" "k < length ms" "toolUseIds (ms ! k) \<noteq> []"
  obtains r where "truthy_response (ms ! k) = Some r" "response_id (cm_body (ms ! k)) = Some r"
proof -
  obtain r bs where "cm_body (ms ! k) = Body_assistant r bs"
    using assms(3) by (cases "cm_body (ms ! k)") (auto simp: toolUseIds_def)
  then show thesis
    using that [of r] assms(1, 2) by (auto simp: truthy_response_def named_responses_def list_all_length)
qed

lemma truthy_response_id: "truthy_response m = Some r \<Longrightarrow> response_id (cm_body m) = Some r"
  by (auto simp: truthy_response_def split: option.splits if_splits)

text \<open>Then no message that is kept has a result without its use.\<close>

lemma kept_results_complete:
  assumes wr: "results_in_round ms" "named_responses ms"
    and j: "adjustIndexToPreserveAPIInvariants ms start \<le> j" "j < length ms" "x \<in> set (getToolResultIds (ms ! j))"
  shows "\<exists>k \<ge> adjustIndexToPreserveAPIInvariants ms start. k < length ms \<and> x \<in> set (toolUseIds (ms ! k))"
proof -
  let ?a = "adjustIndexToPreserveAPIInvariants ms start"
  let ?b = "keep_uses ms start"
  obtain k where k: "k < j" "x \<in> set (toolUseIds (ms ! k))" "same_round ms k j"
    using wr(1) j(2, 3) unfolding results_in_round_def by (meson lessThan_iff)
  then have kl: "k < length ms" using j(2) by simp
  show ?thesis
  proof (cases "start \<le> j \<or> ?a \<le> k")
    case True
    then show ?thesis using kept_result_found [OF _ j(2, 3) kl k(2)] k(2) kl by blast
  next
    case False
    then have js: "j < start" and ka: "k < ?a" by simp_all
    have start: "start \<noteq> 0" "start < length ms"
      using j js by (auto simp: adjustIndexToPreserveAPIInvariants_def split: if_splits)
    then have a: "?a = find_chunks ms ?b (List.map_filter truthy_response (drop ?b ms)) ?b"
      by (simp add: adjustIndexToPreserveAPIInvariants_def keep_chunks_def)
    have bl: "?b \<le> start" by (rule keep_uses_le)
    have ab: "?a \<le> ?b" unfolding a by (rule find_chunks_le) simp
    have "toolUseIds (ms ! k) \<noteq> []" using k(2) by auto
    then obtain r where r: "truthy_response (ms ! k) = Some r" "response_id (cm_body (ms ! k)) = Some r"
      using use_truthy [OF wr(2) kl] by blast
    have bs: "?b < length ms" using bl start(2) by simp
    have "r \<in> set (List.map_filter truthy_response (drop ?b ms))"
    proof (cases "?b \<le> j")
      case True
      then have "?b \<noteq> start" using js by simp
      then have "toolUseIds (ms ! ?b) \<noteq> []"
        using find_uses_assistant by (auto simp: keep_uses_def Let_def split: if_splits)
      then obtain y where y: "truthy_response (ms ! ?b) = Some y" "response_id (cm_body (ms ! ?b)) = Some y"
        using use_truthy [OF wr(2) bs] by blast
      have "same_round ms k ?b" using same_round_part [OF k(3)] True ka ab by simp
      then have "r = y" using same_round_response [OF _ bs r(2) y(2)] by blast
      moreover have "ms ! ?b \<in> set (drop ?b ms)" using bs by (intro in_dropI) simp_all
      ultimately show ?thesis using y(1) by (force simp: List.map_filter_def)
    next
      case False
      then have "?a \<noteq> ?b" using j by simp
      then obtain y where y: "y \<in> set (List.map_filter truthy_response (drop ?b ms))" "truthy_response (ms ! ?a) = Some y"
        using find_chunks_response [of ms ?b "List.map_filter truthy_response (drop ?b ms)" ?b] a by metis
      have al: "?a < length ms" using j(1, 2) by simp
      have "same_round ms k ?a" using same_round_part [OF k(3)] ka j(1) by simp
      then have "r = y" using same_round_response [OF _ al r(2) truthy_response_id [OF y(2)]] by blast
      then show ?thesis using y(1) by simp
    qed
    moreover have "k < ?b" using ka ab by simp
    ultimately have "?a \<le> k" unfolding a using find_chunks_found [OF _ order_refl r(1)] by blast
    then show ?thesis using ka by simp
  qed
qed

section \<open>Sample conversations\<close>

definition demo_user :: "string \<Rightarrow> conv_block list \<Rightarrow> conv_message" where
  "demo_user u bs = \<lparr>cm_uuid = u, cm_timestamp = ''1970-01-01T00:00:00.000Z'', cm_body = Body_user (Content_blocks bs) False False\<rparr>"

definition demo_assistant :: "string \<Rightarrow> string \<Rightarrow> conv_block list \<Rightarrow> conv_message" where
  "demo_assistant u r bs = \<lparr>cm_uuid = u, cm_timestamp = ''1970-01-01T00:00:00.000Z'', cm_body = Body_assistant r bs\<rparr>"

text \<open>A question, two tool uses of one response with their results, an answer.\<close>

definition demo_conversation :: "conv_message list" where
  "demo_conversation =
     [demo_user ''u1'' [Block_text ''question''],
      demo_assistant ''u2'' ''r1'' [Block_tool_use ''t1'' ''Read'' JNull],
      demo_user ''u3'' [Block_tool_result ''t1'' (Result_text ''long text'') JNull],
      demo_assistant ''u4'' ''r1'' [Block_tool_use ''t2'' ''Read'' JNull],
      demo_user ''u5'' [Block_tool_result ''t2'' (Result_text ''more text'') JNull],
      demo_assistant ''u6'' ''r2'' [Block_text ''answer'']]"

lemmas demo_conv_simps = demo_conversation_def demo_user_def demo_assistant_def

text \<open>Two responses whose results come after both: the search for the uses stops too early.\<close>

definition demo_crossed :: "conv_message list" where
  "demo_crossed =
     [demo_assistant ''u1'' ''r1'' [Block_tool_use ''t1'' ''Read'' JNull],
      demo_assistant ''u2'' ''r2'' [Block_tool_use ''t2'' ''Read'' JNull],
      demo_user ''u3'' [Block_tool_result ''t1'' Result_absent JNull],
      demo_user ''u4'' [Block_tool_result ''t2'' Result_absent JNull]]"

lemma crossed_results_split:
  "adjustIndexToPreserveAPIInvariants demo_crossed 3 = 1 \<and>
   getToolResultIds (demo_crossed ! 2) = [''t1''] \<and>
   list_all (\<lambda>m. ''t1'' \<notin> set (toolUseIds m)) (drop 1 demo_crossed)"
  by code_simp

lemma demo_conversation_ok: "results_in_round demo_conversation" "named_responses demo_conversation"
  by code_simp+

section \<open>Properties of the component\<close>

text \<open>
  The groups of a conversation are the conversation cut exactly at the places where a
  response with a new id begins: nothing is lost or reordered, no group is empty, and the
  tail of the groups from any place on is grouped the same way.
\<close>

theorem rounds_exact:
  "concat (groupMessagesByApiRound ms) = ms \<and>
   [] \<notin> set (groupMessagesByApiRound ms) \<and>
   set (group_starts 0 (groupMessagesByApiRound ms)) = {k. k < length ms \<and> (k = 0 \<or> starts_round ms k)} \<and>
   (0 < n \<longrightarrow> groupMessagesByApiRound (concat (drop n (groupMessagesByApiRound ms))) = drop n (groupMessagesByApiRound ms))"
  by (simp add: groups_ne group_starts_exact regroup)

theorem rounds_exact_witness:
  "groupMessagesByApiRound (concat (drop 1 (groupMessagesByApiRound demo_conversation))) =
     drop 1 (groupMessagesByApiRound demo_conversation)"
  using rounds_exact [of demo_conversation 1] by simp

end
