(* ===== verification/Micro_Compact.thy ===== *)
theory Micro_Compact
  imports Conversation JS_Date
begin

text \<open>
  The smaller reductions of a conversation: old tool results cleared when the cache has gone cold,
  and the deletions queued for the cache (\<^verbatim>\<open>src/src/memory/compact/microCompact.ts\<close>), with
  images and re-injected attachments taken out (\<^verbatim>\<open>compact.ts\<close>). The names of the tools and the
  module that manages the cache are not in the repository: parameters. So are the remote
  configuration and the build's features.

  A threshold is a whole number of minutes; then the comparison of the quotient is that of the
  milliseconds.
\<close>

section \<open>Blocks of user messages\<close>

text \<open>A user message with its array of blocks mapped; any other message as it is.\<close>

fun map_user_blocks :: "(conv_block \<Rightarrow> conv_block) \<Rightarrow> conv_body \<Rightarrow> conv_body" where
  "map_user_blocks f (Body_user (Content_blocks bs) a b) = Body_user (Content_blocks (map f bs)) a b"
| "map_user_blocks f body = body"

definition map_message_blocks :: "(conv_block \<Rightarrow> conv_block) \<Rightarrow> conv_message \<Rightarrow> conv_message" where
  "map_message_blocks f m = m\<lparr>cm_body := map_user_blocks f (cm_body m)\<rparr>"

fun media_text :: "media \<Rightarrow> string" where
  "media_text Media_image = ''[image]''"
| "media_text Media_document = ''[document]''"

fun strip_item :: "result_item \<Rightarrow> result_item" where
  "strip_item (Item_media k _) = Item_text (media_text k)"
| "strip_item i = i"

fun strip_block :: "conv_block \<Rightarrow> conv_block" where
  "strip_block (Block_media k _) = Block_text (media_text k)"
| "strip_block (Block_tool_result i (Result_items is) r) = Block_tool_result i (Result_items (map strip_item is)) r"
| "strip_block b = b"

definition stripImagesFromMessages :: "conv_message list \<Rightarrow> conv_message list" where
  "stripImagesFromMessages ms = map (map_message_blocks strip_block) ms"

fun reinjected :: "conv_body \<Rightarrow> bool" where
  "reinjected (Body_attachment t _) = (t = ''skill_discovery'' \<or> t = ''skill_listing'')"
| "reinjected _ = False"

definition stripReinjectedAttachments :: "bool \<Rightarrow> conv_message list \<Rightarrow> conv_message list" where
  "stripReinjectedAttachments skill_search ms =
     (if skill_search then filter (\<lambda>m. \<not> reinjected (cm_body m)) ms else ms)"

section \<open>Clearing old tool results\<close>

record micro_config =
  mi_enabled :: bool
  mi_gap_minutes :: int
  mi_keep_recent :: int

definition TIME_BASED_MC_CONFIG_DEFAULTS :: micro_config where
  "TIME_BASED_MC_CONFIG_DEFAULTS = \<lparr>mi_enabled = False, mi_gap_minutes = 60, mi_keep_recent = 5\<rparr>"

definition CLEARED_MESSAGE :: string where
  "CLEARED_MESSAGE = ''[Old tool result content cleared]''"

fun block_compactable :: "string list \<Rightarrow> conv_block \<Rightarrow> string option" where
  "block_compactable tools (Block_tool_use i n _) = (if n \<in> set tools then Some i else None)"
| "block_compactable tools _ = None"

definition collectCompactableToolIds :: "string list \<Rightarrow> conv_message list \<Rightarrow> string list" where
  "collectCompactableToolIds tools ms =
     concat (map (\<lambda>m. List.map_filter (block_compactable tools) (assistant_blocks (cm_body m))) ms)"

definition isMainThreadSource :: "string option \<Rightarrow> bool" where
  "isMainThreadSource source =
     (case source of None \<Rightarrow> True | Some s \<Rightarrow> s = [] \<or> js_starts_with s ''repl_main_thread'')"

definition last_assistant :: "conv_message list \<Rightarrow> conv_message option" where
  "last_assistant ms = find (\<lambda>m. response_id (cm_body m) \<noteq> None) (rev ms)"

text \<open>The gap in milliseconds, when the trigger fires.\<close>

definition evaluateTimeBasedTrigger ::
    "micro_config \<Rightarrow> int \<Rightarrow> conv_message list \<Rightarrow> string option \<Rightarrow> int option" where
  "evaluateTimeBasedTrigger c now ms source =
     (if \<not> mi_enabled c \<or> source = None \<or> source = Some [] \<or> \<not> isMainThreadSource source then None
      else
        case last_assistant ms of
          None \<Rightarrow> None
        | Some m \<Rightarrow>
            (case date_parse (cm_timestamp m) of
               None \<Rightarrow> None
             | Some t \<Rightarrow> if now - t < mi_gap_minutes c * 60000 then None else Some (now - t)))"

text \<open>The ids kept, and those cleared.\<close>

definition keep_ids :: "micro_config \<Rightarrow> string list \<Rightarrow> string list" where
  "keep_ids c ids = drop (length ids - nat (max 1 (mi_keep_recent c))) ids"

definition clear_ids :: "micro_config \<Rightarrow> string list \<Rightarrow> string list" where
  "clear_ids c ids = js_set (filter (\<lambda>i. i \<notin> set (keep_ids c ids)) ids)"

fun clears :: "string list \<Rightarrow> conv_block \<Rightarrow> bool" where
  "clears ids (Block_tool_result i c _) = (i \<in> set ids \<and> c \<noteq> Result_text CLEARED_MESSAGE)"
| "clears ids _ = False"

fun clear_block :: "string list \<Rightarrow> conv_block \<Rightarrow> conv_block" where
  "clear_block ids (Block_tool_result i c r) =
     (if clears ids (Block_tool_result i c r) then Block_tool_result i (Result_text CLEARED_MESSAGE) r
      else Block_tool_result i c r)"
| "clear_block ids b = b"

definition tokens_saved :: "token_host \<Rightarrow> string list \<Rightarrow> conv_message list \<Rightarrow> nat" where
  "tokens_saved h ids ms =
     sum_list (map (block_tokens h) (filter (clears ids) (concat (map (\<lambda>m. user_blocks (cm_body m)) ms))))"

definition maybeTimeBasedMicrocompact ::
    "token_host \<Rightarrow> string list \<Rightarrow> micro_config \<Rightarrow> int \<Rightarrow> conv_message list \<Rightarrow> string option \<Rightarrow> conv_message list option" where
  "maybeTimeBasedMicrocompact h tools c now ms source =
     (case evaluateTimeBasedTrigger c now ms source of
        None \<Rightarrow> None
      | Some _ \<Rightarrow>
          (let ids = clear_ids c (collectCompactableToolIds tools ms) in
           if ids = [] then None
           else
             let result = map (map_message_blocks (clear_block ids)) ms
             in if tokens_saved h ids ms = 0 then None else Some result))"

section \<open>Deletions queued for the cache\<close>

text \<open>
  The module that keeps the state \<open>'c\<close> of the cached results; \<open>'e\<close> are its blocks of edits.
\<close>

record ('c, 'e) cache_module =
  km_create :: 'c
  km_registered :: "'c \<Rightarrow> string \<Rightarrow> bool"
  km_register :: "string \<Rightarrow> 'c \<Rightarrow> 'c"
  km_register_message :: "string list \<Rightarrow> 'c \<Rightarrow> 'c"
  km_to_delete :: "'c \<Rightarrow> string list \<times> 'c"
  km_edits :: "string list \<Rightarrow> 'c \<Rightarrow> 'e option \<times> 'c"
  km_reset :: "'c \<Rightarrow> 'c"
  km_mark_sent :: "'c \<Rightarrow> 'c"
  km_pinned :: "'c \<Rightarrow> (nat \<times> 'e) list"
  km_pin :: "nat \<Rightarrow> 'e \<Rightarrow> 'c \<Rightarrow> 'c"
  km_enabled :: bool
  km_supported :: "string \<Rightarrow> bool"

text \<open>
  The variables of the module: is the cache module loaded, its state, the edits to be sent, and
  whether the warning about the context is suppressed (\<^verbatim>\<open>compactWarningState.ts\<close>).
\<close>

record ('c, 'e) micro_state =
  mt_loaded :: bool
  mt_cached :: "'c option"
  mt_pending :: "'e option"
  mt_suppressed :: bool

definition consumePendingCacheEdits :: "('c, 'e) micro_state \<Rightarrow> 'e option \<times> ('c, 'e) micro_state" where
  "consumePendingCacheEdits s = (mt_pending s, s\<lparr>mt_pending := None\<rparr>)"

definition getPinnedCacheEdits :: "('c, 'e) cache_module \<Rightarrow> ('c, 'e) micro_state \<Rightarrow> (nat \<times> 'e) list" where
  "getPinnedCacheEdits k s = (case mt_cached s of None \<Rightarrow> [] | Some c \<Rightarrow> km_pinned k c)"

definition pinCacheEdits ::
    "('c, 'e) cache_module \<Rightarrow> nat \<Rightarrow> 'e \<Rightarrow> ('c, 'e) micro_state \<Rightarrow> ('c, 'e) micro_state" where
  "pinCacheEdits k i e s = s\<lparr>mt_cached := map_option (km_pin k i e) (mt_cached s)\<rparr>"

definition markToolsSentToAPIState ::
    "('c, 'e) cache_module \<Rightarrow> ('c, 'e) micro_state \<Rightarrow> ('c, 'e) micro_state" where
  "markToolsSentToAPIState k s =
     (if mt_loaded s then s\<lparr>mt_cached := map_option (km_mark_sent k) (mt_cached s)\<rparr> else s)"

definition resetMicrocompactState ::
    "('c, 'e) cache_module \<Rightarrow> ('c, 'e) micro_state \<Rightarrow> ('c, 'e) micro_state" where
  "resetMicrocompactState k s =
     (if mt_loaded s then s\<lparr>mt_cached := map_option (km_reset k) (mt_cached s)\<rparr> else s)\<lparr>mt_pending := None\<rparr>"

definition suppressCompactWarning :: "('c, 'e) micro_state \<Rightarrow> ('c, 'e) micro_state" where
  "suppressCompactWarning s = s\<lparr>mt_suppressed := True\<rparr>"

definition clearCompactWarningSuppression :: "('c, 'e) micro_state \<Rightarrow> ('c, 'e) micro_state" where
  "clearCompactWarningSuppression s = s\<lparr>mt_suppressed := False\<rparr>"

text \<open>The results of a user message that are new to the module, registered one by one.\<close>

fun register_results ::
    "('c, 'e) cache_module \<Rightarrow> string list \<Rightarrow> conv_block list \<Rightarrow> string list \<Rightarrow> 'c \<Rightarrow> string list \<times> 'c" where
  "register_results k ids [] grp c = (grp, c)"
| "register_results k ids (b # bs) grp c =
     (case block_result_id b of
        Some i \<Rightarrow>
          if i \<in> set ids \<and> \<not> km_registered k c i
          then register_results k ids bs (grp @ [i]) (km_register k i c)
          else register_results k ids bs grp c
      | None \<Rightarrow> register_results k ids bs grp c)"

fun register_messages :: "('c, 'e) cache_module \<Rightarrow> string list \<Rightarrow> conv_message list \<Rightarrow> 'c \<Rightarrow> 'c" where
  "register_messages k ids [] c = c"
| "register_messages k ids (m # ms) c =
     (case cm_body m of
        Body_user (Content_blocks bs) _ _ \<Rightarrow>
          (let (grp, c) = register_results k ids bs [] c
           in register_messages k ids ms (km_register_message k grp c))
      | _ \<Rightarrow> register_messages k ids ms c)"

record pending_edits =
  pe_deleted_ids :: "string list"
  pe_baseline :: nat

text \<open>
  The state of the cache module is created when there is none. The baseline is the count of
  deleted tokens in the usage of the last assistant message, a parameter.
\<close>

definition cachedMicrocompactPath ::
    "('c, 'e) cache_module \<Rightarrow> (conv_message \<Rightarrow> nat) \<Rightarrow> string list \<Rightarrow> conv_message list \<Rightarrow> ('c, 'e) micro_state \<Rightarrow>
     (conv_message list \<times> pending_edits option) \<times> ('c, 'e) micro_state" where
  "cachedMicrocompactPath k deleted tools ms s =
     (let c = (case mt_cached s of None \<Rightarrow> km_create k | Some c \<Rightarrow> c);
          ids = js_set (collectCompactableToolIds tools ms);
          c = register_messages k ids ms c;
          (del, c) = km_to_delete k c
      in if del = [] then ((ms, None), s\<lparr>mt_loaded := True, mt_cached := Some c\<rparr>)
         else
           let (edits, c) = km_edits k del c;
               s = s\<lparr>mt_loaded := True, mt_cached := Some c,
                     mt_pending := (case edits of None \<Rightarrow> mt_pending s | Some e \<Rightarrow> Some e)\<rparr>;
               baseline = (case last_assistant ms of None \<Rightarrow> 0 | Some m \<Rightarrow> deleted m)
           in ((ms, Some \<lparr>pe_deleted_ids = del, pe_baseline = baseline\<rparr>), suppressCompactWarning s))"

text \<open>
  The feature of the build, the model in use, and the source of the query. Telemetry and the
  notice to the detector of cache breaks are left out.
\<close>

definition microcompactMessages ::
    "token_host \<Rightarrow> string list \<Rightarrow> micro_config \<Rightarrow> ('c, 'e) cache_module \<Rightarrow> (conv_message \<Rightarrow> nat) \<Rightarrow> bool \<Rightarrow> string \<Rightarrow> int \<Rightarrow>
     conv_message list \<Rightarrow> string option \<Rightarrow> ('c, 'e) micro_state \<Rightarrow>
     (conv_message list \<times> pending_edits option) \<times> ('c, 'e) micro_state" where
  "microcompactMessages h tools c k deleted cached_feature model now ms source s =
     (let s = clearCompactWarningSuppression s in
      case maybeTimeBasedMicrocompact h tools c now ms source of
        Some ms' \<Rightarrow> ((ms', None), resetMicrocompactState k (suppressCompactWarning s))
      | None \<Rightarrow>
          if cached_feature then
            let s = s\<lparr>mt_loaded := True\<rparr> in
            if km_enabled k \<and> km_supported k model \<and> isMainThreadSource source
            then cachedMicrocompactPath k deleted tools ms s
            else ((ms, None), s)
          else ((ms, None), s))"

section \<open>What clearing leaves\<close>

lemma map_message_blocks_fields [simp]:
  "cm_uuid (map_message_blocks f m) = cm_uuid m"
  "cm_timestamp (map_message_blocks f m) = cm_timestamp m"
  "user_blocks (cm_body (map_message_blocks f m)) = map f (user_blocks (cm_body m))"
  "assistant_blocks (cm_body (map_message_blocks f m)) = assistant_blocks (cm_body m)"
  "response_id (cm_body (map_message_blocks f m)) = response_id (cm_body m)"
  by (simp_all add: map_message_blocks_def, (cases "(f, cm_body m)" rule: map_user_blocks.cases; simp)+)

lemma map_message_uses [simp]: "toolUseIds (map_message_blocks f m) = toolUseIds m"
  by (simp add: toolUseIds_def)

lemma clear_block_result_id [simp]: "block_result_id (clear_block ids b) = block_result_id b"
  by (cases b) simp_all

lemma strip_block_result_id [simp]: "block_result_id (strip_block b) = block_result_id b"
  by (cases b rule: strip_block.cases) simp_all

lemma map_message_results:
  "(\<And>b. block_result_id (f b) = block_result_id b) \<Longrightarrow> getToolResultIds (map_message_blocks f m) = getToolResultIds m"
  by (simp add: getToolResultIds_def List.map_filter_def comp_def filter_map)

lemma clears_clear_block [simp]: "\<not> clears ids (clear_block ids b)"
  by (cases b) auto

lemma compactable_same [simp]:
  "collectCompactableToolIds tools (map (map_message_blocks f) ms) = collectCompactableToolIds tools ms"
  by (simp add: collectCompactableToolIds_def comp_def)

lemma tokens_saved_cleared [simp]: "tokens_saved h ids (map (map_message_blocks (clear_block ids)) ms) = 0"
proof -
  have "filter (clears ids) (concat (map (\<lambda>m. user_blocks (cm_body m)) (map (map_message_blocks (clear_block ids)) ms))) = []"
    by (auto simp: filter_empty_conv)
  then show ?thesis by (simp only: tokens_saved_def) simp
qed

text \<open>A result that was kept, or whose use is not compactable, is as it was.\<close>

lemma keep_ids_recent: "ids \<noteq> [] \<Longrightarrow> last ids \<in> set (keep_ids c ids)"
proof -
  assume "ids \<noteq> []"
  then have "length ids - nat (max 1 (mi_keep_recent c)) < length ids" by simp
  then have "keep_ids c ids \<noteq> []" "last (keep_ids c ids) = last ids" by (simp_all add: keep_ids_def last_drop)
  then show ?thesis by (metis last_in_set)
qed

lemma clear_ids_iff: "i \<in> set (clear_ids c ids) \<longleftrightarrow> i \<in> set ids \<and> i \<notin> set (keep_ids c ids)"
  by (auto simp: clear_ids_def)

lemma keep_ids_length: "length (keep_ids c ids) = min (length ids) (nat (max 1 (mi_keep_recent c)))"
  by (simp add: keep_ids_def)

lemma cleared_messages:
  assumes "maybeTimeBasedMicrocompact h tools c now ms source = Some ms'"
  shows "ms' = map (map_message_blocks (clear_block (clear_ids c (collectCompactableToolIds tools ms)))) ms"
  using assms by (auto simp: maybeTimeBasedMicrocompact_def Let_def split: option.splits if_splits)

lemma cleared_twice:
  assumes "maybeTimeBasedMicrocompact h tools c now ms source = Some ms'"
  shows "maybeTimeBasedMicrocompact h tools c now' ms' source' = None"
  by (simp add: cleared_messages [OF assms] maybeTimeBasedMicrocompact_def Let_def split: option.split)

section \<open>Properties of the component\<close>

section \<open>A sample run\<close>

definition demo_host :: token_host where
  "demo_host = \<lparr>th_rough = length, th_json = (\<lambda>_. [])\<rparr>"

definition demo_micro :: micro_config where
  "demo_micro = \<lparr>mi_enabled = True, mi_gap_minutes = 60, mi_keep_recent = 0\<rparr>"

lemma demo_date: "date_parse ''1970-01-01T00:00:00.000Z'' = Some 0"
  by code_simp

lemma demo_cleared:
  "maybeTimeBasedMicrocompact demo_host [''Read''] demo_micro 3600000 demo_conversation (Some ''repl_main_thread'') =
     Some (map (map_message_blocks (clear_block [''t1''])) demo_conversation)"
proof -
  have "evaluateTimeBasedTrigger demo_micro 3600000 demo_conversation (Some ''repl_main_thread'') = Some 3600000"
    by (simp add: evaluateTimeBasedTrigger_def demo_micro_def isMainThreadSource_def js_starts_with_def last_assistant_def
        demo_conv_simps demo_date)
  moreover have "clear_ids demo_micro (collectCompactableToolIds [''Read''] demo_conversation) = [''t1'']"
    by (simp add: clear_ids_def keep_ids_def demo_micro_def collectCompactableToolIds_def demo_conv_simps
        List.map_filter_simps js_set_def set_add_def)
  moreover have "tokens_saved demo_host [''t1''] demo_conversation \<noteq> 0"
    by (simp add: tokens_saved_def demo_conv_simps demo_host_def CLEARED_MESSAGE_def)
  ultimately show ?thesis by (simp add: maybeTimeBasedMicrocompact_def Let_def)
qed

text \<open>
  C18: When the cache has gone cold, exactly the results of compactable tools other than the
  most recent ones are replaced by a marker; every message keeps its id, its tool uses and
  the ids of its results, at least one result stays, and a second run changes nothing.
\<close>

theorem old_results_cleared:
  assumes "maybeTimeBasedMicrocompact h tools c now ms source = Some ms'"
  shows "map cm_uuid ms' = map cm_uuid ms \<and> map toolUseIds ms' = map toolUseIds ms \<and>
    map getToolResultIds ms' = map getToolResultIds ms \<and>
    (let ids = collectCompactableToolIds tools ms;
         recent = drop (length ids - nat (max 1 (mi_keep_recent c))) ids
     in recent \<noteq> [] \<and>
        map (\<lambda>m. user_blocks (cm_body m)) ms' =
        map (\<lambda>m. map (\<lambda>b. case b of
              Block_tool_result i c r \<Rightarrow>
                Block_tool_result i (if i \<in> set ids \<and> i \<notin> set recent then Result_text CLEARED_MESSAGE else c) r
            | _ \<Rightarrow> b) (user_blocks (cm_body m))) ms) \<and>
    maybeTimeBasedMicrocompact h tools c now' ms' source' = None"
proof -
  let ?ids = "collectCompactableToolIds tools ms"
  let ?clear = "clear_ids c ?ids"
  note ms' = cleared_messages [OF assms]
  let ?new = "\<lambda>b. case b of
        Block_tool_result i c' r \<Rightarrow>
          Block_tool_result i (if i \<in> set ?ids \<and> i \<notin> set (keep_ids c ?ids) then Result_text CLEARED_MESSAGE else c') r
      | _ \<Rightarrow> b"
  have blocks: "clear_block ?clear = ?new"
    by (rule ext) (auto simp: clear_ids_iff split: conv_block.split)
  have "?clear \<noteq> []"
    using assms by (auto simp: maybeTimeBasedMicrocompact_def Let_def split: option.splits if_splits)
  then have "?ids \<noteq> []" by (auto simp: clear_ids_def js_set_def)
  then have "keep_ids c ?ids \<noteq> []" using keep_ids_recent by (metis empty_iff empty_set)
  moreover have "map getToolResultIds ms' = map getToolResultIds ms"
    by (simp add: ms' map_message_results)
  moreover have "map (\<lambda>m. user_blocks (cm_body m)) ms' = map (\<lambda>m. map ?new (user_blocks (cm_body m))) ms"
    by (simp only: ms' blocks [symmetric]) simp
  moreover have "map cm_uuid ms' = map cm_uuid ms" "map toolUseIds ms' = map toolUseIds ms" by (simp_all add: ms')
  ultimately show ?thesis
    using cleared_twice [OF assms] unfolding Let_def keep_ids_def [symmetric] by blast
qed

theorem old_results_cleared_witness:
  "maybeTimeBasedMicrocompact demo_host [''Read''] demo_micro 0
     (map (map_message_blocks (clear_block [''t1''])) demo_conversation) (Some ''repl_main_thread'') = None"
  using old_results_cleared [OF demo_cleared] by blast

end
