(* ===== verification/Session_Memory.thy ===== *)
theory Session_Memory
  imports Conversation
begin

text \<open>
  The notes kept about a session, \<^verbatim>\<open>src/src/memory/session/\<close>: when they are brought up to date
  (\<^verbatim>\<open>sessionMemory.ts\<close>), the variables this is decided by and the wait for an update in progress
  (\<^verbatim>\<open>sessionMemoryUtils.ts\<close>), and the sections of the notes, their sizes and their truncation
  (\<^verbatim>\<open>prompts.ts\<close>). The agent that writes the notes, the count of tokens and the test of the last
  turn for tool calls are not in the repository: parameters.
\<close>

section \<open>Thresholds\<close>

record memory_config =
  mc_init_tokens :: int
  mc_update_tokens :: int
  mc_update_calls :: int

definition DEFAULT_SESSION_MEMORY_CONFIG :: memory_config where
  "DEFAULT_SESSION_MEMORY_CONFIG =
     \<lparr>mc_init_tokens = 10000, mc_update_tokens = 5000, mc_update_calls = 3\<rparr>"

text \<open>
  The variables of the two modules; the last is the message up to which tool calls have been
  counted, and whether the configuration has been read.
\<close>

record memory_vars =
  mv_config :: memory_config
  mv_last_summarized :: "string option"
  mv_started_at :: "int option"
  mv_tokens :: int
  mv_initialized :: bool
  mv_last_uuid :: "string option"
  mv_config_read :: bool

definition initial_memory :: memory_vars where
  "initial_memory =
     \<lparr>mv_config = DEFAULT_SESSION_MEMORY_CONFIG, mv_last_summarized = None, mv_started_at = None,
       mv_tokens = 0, mv_initialized = False, mv_last_uuid = None, mv_config_read = False\<rparr>"

definition setLastSummarizedMessageId :: "string option \<Rightarrow> memory_vars \<Rightarrow> memory_vars" where
  "setLastSummarizedMessageId i v = v\<lparr>mv_last_summarized := i\<rparr>"

definition markExtractionStarted :: "int \<Rightarrow> memory_vars \<Rightarrow> memory_vars" where
  "markExtractionStarted now v = v\<lparr>mv_started_at := Some now\<rparr>"

definition markExtractionCompleted :: "memory_vars \<Rightarrow> memory_vars" where
  "markExtractionCompleted v = v\<lparr>mv_started_at := None\<rparr>"

text \<open>A part of a configuration: a field that is absent leaves the old value.\<close>

record memory_config_part =
  mp_init_tokens :: "int option"
  mp_update_tokens :: "int option"
  mp_update_calls :: "int option"

definition setSessionMemoryConfig :: "memory_config_part \<Rightarrow> memory_vars \<Rightarrow> memory_vars" where
  "setSessionMemoryConfig p v =
     v\<lparr>mv_config := \<lparr>mc_init_tokens = nullish (mp_init_tokens p) (mc_init_tokens (mv_config v)),
         mc_update_tokens = nullish (mp_update_tokens p) (mc_update_tokens (mv_config v)),
         mc_update_calls = nullish (mp_update_calls p) (mc_update_calls (mv_config v))\<rparr>\<rparr>"

definition recordExtractionTokenCount :: "int \<Rightarrow> memory_vars \<Rightarrow> memory_vars" where
  "recordExtractionTokenCount n v = v\<lparr>mv_tokens := n\<rparr>"

definition markSessionMemoryInitialized :: "memory_vars \<Rightarrow> memory_vars" where
  "markSessionMemoryInitialized v = v\<lparr>mv_initialized := True\<rparr>"

definition hasMetInitializationThreshold :: "int \<Rightarrow> memory_vars \<Rightarrow> bool" where
  "hasMetInitializationThreshold n v = (n \<ge> mc_init_tokens (mv_config v))"

definition hasMetUpdateThreshold :: "int \<Rightarrow> memory_vars \<Rightarrow> bool" where
  "hasMetUpdateThreshold n v = (n - mv_tokens v \<ge> mc_update_tokens (mv_config v))"

definition resetSessionMemoryState :: "memory_vars \<Rightarrow> memory_vars" where
  "resetSessionMemoryState v =
     v\<lparr>mv_config := DEFAULT_SESSION_MEMORY_CONFIG, mv_tokens := 0, mv_initialized := False,
       mv_last_summarized := None, mv_started_at := None\<rparr>"

definition resetLastMemoryMessageUuid :: "memory_vars \<Rightarrow> memory_vars" where
  "resetLastMemoryMessageUuid v = v\<lparr>mv_last_uuid := None\<rparr>"

text \<open>The remote configuration counts where it is positive; it is read once.\<close>

definition positive_or :: "int option \<Rightarrow> int \<Rightarrow> int" where
  "positive_or v d = (case v of Some n \<Rightarrow> if n > 0 then n else d | None \<Rightarrow> d)"

definition initSessionMemoryConfigIfNeeded :: "memory_config_part \<Rightarrow> memory_vars \<Rightarrow> memory_vars" where
  "initSessionMemoryConfigIfNeeded remote v =
     (if mv_config_read v then v
      else
        setSessionMemoryConfig
          \<lparr>mp_init_tokens = Some (positive_or (mp_init_tokens remote) (mc_init_tokens DEFAULT_SESSION_MEMORY_CONFIG)),
            mp_update_tokens = Some (positive_or (mp_update_tokens remote) (mc_update_tokens DEFAULT_SESSION_MEMORY_CONFIG)),
            mp_update_calls = Some (positive_or (mp_update_calls remote) (mc_update_calls DEFAULT_SESSION_MEMORY_CONFIG))\<rparr>
          (v\<lparr>mv_config_read := True\<rparr>))"

section \<open>When the notes are brought up to date\<close>

fun countToolCallsSince :: "conv_message list \<Rightarrow> string option \<Rightarrow> nat" where
  "countToolCallsSince [] since = 0"
| "countToolCallsSince (m # ms) None = length (toolUseIds m) + countToolCallsSince ms None"
| "countToolCallsSince (m # ms) (Some u) =
     (if cm_uuid m = u then countToolCallsSince ms None else countToolCallsSince ms (Some u))"

text \<open>\<open>tokens\<close> counts a conversation, \<open>open_turn\<close> tells whether the last turn has tool calls.\<close>

definition shouldExtractMemory ::
    "(conv_message list \<Rightarrow> int) \<Rightarrow> (conv_message list \<Rightarrow> bool) \<Rightarrow> conv_message list \<Rightarrow> memory_vars \<Rightarrow> bool \<times> memory_vars" where
  "shouldExtractMemory tokens open_turn ms v =
     (let n = tokens ms in
      if \<not> mv_initialized v \<and> \<not> hasMetInitializationThreshold n v then (False, v)
      else
        let v = (if mv_initialized v then v else markSessionMemoryInitialized v);
            enough = hasMetUpdateThreshold n v;
            calls = int (countToolCallsSince ms (mv_last_uuid v)) \<ge> mc_update_calls (mv_config v)
        in if enough \<and> calls \<or> enough \<and> \<not> open_turn ms
           then (True, if ms \<noteq> [] \<and> cm_uuid (last ms) \<noteq> [] then v\<lparr>mv_last_uuid := Some (cm_uuid (last ms))\<rparr> else v)
           else (False, v))"

definition updateLastSummarizedMessageIdIfSafe ::
    "(conv_message list \<Rightarrow> bool) \<Rightarrow> conv_message list \<Rightarrow> memory_vars \<Rightarrow> memory_vars" where
  "updateLastSummarizedMessageIdIfSafe open_turn ms v =
     (if \<not> open_turn ms \<and> ms \<noteq> [] \<and> cm_uuid (last ms) \<noteq> []
      then setLastSummarizedMessageId (Some (cm_uuid (last ms))) v else v)"

text \<open>
  The update itself, in the background and on request. \<open>run\<close> stands for what may throw in
  between: setting up the file, the prompt, and the agent that edits it. The one in the
  background marks its end only when nothing was thrown.
\<close>

definition extractSessionMemory ::
    "(conv_message list \<Rightarrow> int) \<Rightarrow> (conv_message list \<Rightarrow> bool) \<Rightarrow> bool \<Rightarrow> memory_config_part \<Rightarrow> string option \<Rightarrow>
     int \<Rightarrow> string option \<Rightarrow> conv_message list \<Rightarrow> memory_vars \<Rightarrow> string option \<times> memory_vars" where
  "extractSessionMemory tokens open_turn gate remote run now source ms v =
     (if source \<noteq> Some ''repl_main_thread'' \<or> \<not> gate then (None, v)
      else
        let v = initSessionMemoryConfigIfNeeded remote v;
            (go, v) = shouldExtractMemory tokens open_turn ms v
        in if \<not> go then (None, v)
           else
             let v = markExtractionStarted now v in
             case run of
               Some e \<Rightarrow> (Some e, v)
             | None \<Rightarrow>
                 (None, markExtractionCompleted
                    (updateLastSummarizedMessageIdIfSafe open_turn ms (recordExtractionTokenCount (tokens ms) v))))"

definition manuallyExtractSessionMemory ::
    "(conv_message list \<Rightarrow> int) \<Rightarrow> (conv_message list \<Rightarrow> bool) \<Rightarrow> string option \<Rightarrow> int \<Rightarrow> conv_message list \<Rightarrow> memory_vars \<Rightarrow>
     string option \<times> memory_vars" where
  "manuallyExtractSessionMemory tokens open_turn run now ms v =
     (if ms = [] then (Some ''No messages to summarize'', v)
      else
        let v = markExtractionStarted now v in
        case run of
          Some e \<Rightarrow> (Some e, markExtractionCompleted v)
        | None \<Rightarrow>
            (None, markExtractionCompleted
               (updateLastSummarizedMessageIdIfSafe open_turn ms (recordExtractionTokenCount (tokens ms) v))))"

text \<open>
  The tools that agent may use: the edit of the one file.
\<close>

definition memory_file_tool :: "string \<Rightarrow> string \<Rightarrow> string \<Rightarrow> jsval \<Rightarrow> bool" where
  "memory_file_tool edit_tool path tool input =
     (tool = edit_tool \<and> is_object input \<and> get_prop input ''file_path'' = JStr path)"

section \<open>The wait for an update in progress\<close>

definition EXTRACTION_WAIT_TIMEOUT_MS :: int where "EXTRACTION_WAIT_TIMEOUT_MS = 15000"
definition EXTRACTION_STALE_THRESHOLD_MS :: int where "EXTRACTION_STALE_THRESHOLD_MS = 60000"

text \<open>
  In its round \<open>i\<close> the loop finds the mark \<open>started i\<close>, which others change while it sleeps, and
  reads the clock, \<open>now i\<close>. The loop may run for ever; the result is the number of sleeps.
\<close>

definition still_waiting :: "(nat \<Rightarrow> int option) \<Rightarrow> (nat \<Rightarrow> int) \<Rightarrow> int \<Rightarrow> nat \<Rightarrow> bool" where
  "still_waiting started now start i =
     (case started i of
        None \<Rightarrow> False
      | Some t \<Rightarrow>
          t \<noteq> 0 \<and> now i - t \<le> EXTRACTION_STALE_THRESHOLD_MS \<and> now i - start \<le> EXTRACTION_WAIT_TIMEOUT_MS)"

partial_function (option) wait_loop :: "(nat \<Rightarrow> int option) \<Rightarrow> (nat \<Rightarrow> int) \<Rightarrow> int \<Rightarrow> nat \<Rightarrow> nat option" where
  "wait_loop started now start i =
     (if still_waiting started now start i then wait_loop started now start (Suc i) else Some i)"

definition waitForSessionMemoryExtraction :: "(nat \<Rightarrow> int option) \<Rightarrow> (nat \<Rightarrow> int) \<Rightarrow> int \<Rightarrow> nat option" where
  "waitForSessionMemoryExtraction started now start = wait_loop started now start 0"

section \<open>The sections of the notes\<close>

definition MAX_SECTION_LENGTH :: nat where "MAX_SECTION_LENGTH = 2000"
definition MAX_TOTAL_SESSION_MEMORY_TOKENS :: nat where "MAX_TOTAL_SESSION_MEMORY_TOKENS = 12000"

definition is_header :: "string \<Rightarrow> bool" where
  "is_header line = js_starts_with line ''# ''"

definition add_size :: "(string \<Rightarrow> nat) \<Rightarrow> string \<Rightarrow> string list \<Rightarrow> (string, nat) js_map \<Rightarrow> (string, nat) js_map" where
  "add_size rough header content sizes =
     (if header \<noteq> [] \<and> content \<noteq> [] then jm_set sizes header (rough (js_trim (js_join [CHR 0x0A] content))) else sizes)"

fun size_loop ::
    "(string \<Rightarrow> nat) \<Rightarrow> string list \<Rightarrow> string \<Rightarrow> string list \<Rightarrow> (string, nat) js_map \<Rightarrow> (string, nat) js_map" where
  "size_loop rough [] header content sizes = add_size rough header content sizes"
| "size_loop rough (line # lines) header content sizes =
     (if is_header line then size_loop rough lines line [] (add_size rough header content sizes)
      else size_loop rough lines header (content @ [line]) sizes)"

definition analyzeSectionSizes :: "(string \<Rightarrow> nat) \<Rightarrow> string \<Rightarrow> (string, nat) js_map" where
  "analyzeSectionSizes rough content = size_loop rough (js_split (CHR 0x0A) content) [] [] []"

definition generateSectionReminders :: "(string, nat) js_map \<Rightarrow> nat \<Rightarrow> string" where
  "generateSectionReminders sizes amount =
     (let over = amount > MAX_TOTAL_SESSION_MEMORY_TOKENS;
          large = map (\<lambda>(s, n). ''- \"'' @ s @ ''\" is ~'' @ nat_str n @ '' tokens (limit: '' @ nat_str MAX_SECTION_LENGTH @ '')'')
            (js_sort (\<lambda>a b. snd a \<ge> snd b) (filter (\<lambda>(s, n). n > MAX_SECTION_LENGTH) (object_entries sizes)))
      in if large = [] \<and> \<not> over then []
         else
           (if over then [CHR 0x0A, CHR 0x0A] @ ''CRITICAL: The session memory file is currently ~'' @ nat_str amount @
              '' tokens, which exceeds the maximum of '' @ nat_str MAX_TOTAL_SESSION_MEMORY_TOKENS @
              '' tokens. You MUST condense the file to fit within this budget. Aggressively shorten oversized sections by removing less important details, merging related items, and summarizing older entries. Prioritize keeping \"Current State\" and \"Errors & Corrections\" accurate and detailed.''
            else []) @
           (if large \<noteq> [] then [CHR 0x0A, CHR 0x0A] @
              (if over then ''Oversized sections to condense''
               else ''IMPORTANT: The following sections exceed the per-section limit and MUST be condensed'') @
              '':'' @ [CHR 0x0A] @ js_join [CHR 0x0A] large
            else []))"

text \<open>
  \<^verbatim>\<open>/\{\{(\w+)\}\}/g\<close>: at each place two braces, a longest run of word characters, two braces.
\<close>

definition word_character :: "char \<Rightarrow> bool" where
  "word_character c =
     (let n = of_char c :: nat
      in 48 \<le> n \<and> n \<le> 57 \<or> 65 \<le> n \<and> n \<le> 90 \<or> 97 \<le> n \<and> n \<le> 122 \<or> c = CHR ''_'')"

definition variable_at :: "string \<Rightarrow> (string \<times> string) option" where
  "variable_at s =
     (if js_starts_with s ''{{'' then
        let key = takeWhile word_character (drop 2 s); rest = drop (2 + length key) s
        in if key \<noteq> [] \<and> js_starts_with rest ''}}'' then Some (key, drop 2 rest) else None
      else None)"

lemma variable_at_shorter: "variable_at s = Some (key, rest) \<Longrightarrow> length rest < length s"
proof -
  assume "variable_at s = Some (key, rest)"
  then have "rest = drop (Suc (Suc (Suc (Suc (length key))))) s" "js_starts_with s ''{{''"
    by (auto simp: variable_at_def Let_def split: if_splits)
  then show ?thesis by (auto simp: js_starts_with_def prefix_def)
qed

function (sequential) substituteVariables :: "(string, string) js_map \<Rightarrow> string \<Rightarrow> string" where
  "substituteVariables vars [] = []"
| "substituteVariables vars (c # s) =
     (case variable_at (c # s) of
        None \<Rightarrow> c # substituteVariables vars s
      | Some (key, rest) \<Rightarrow>
          (case jm_get vars key of
             Some v \<Rightarrow> v
           | None \<Rightarrow> ''{{'' @ key @ ''}}'') @ substituteVariables vars rest)"
  by pat_completeness auto
termination
  by (relation "measure (length \<circ> snd)") (auto dest: variable_at_shorter)

definition isSessionMemoryEmpty :: "string \<Rightarrow> string \<Rightarrow> bool" where
  "isSessionMemoryEmpty tmpl content = (js_trim content = js_trim tmpl)"

text \<open>The template of the prompt is read from a file or a constant text; here an argument.\<close>

definition buildSessionMemoryUpdatePrompt :: "(string \<Rightarrow> nat) \<Rightarrow> string \<Rightarrow> string \<Rightarrow> string \<Rightarrow> string" where
  "buildSessionMemoryUpdatePrompt rough prompt notes path =
     (let reminders = generateSectionReminders (analyzeSectionSizes rough notes) (rough notes)
      in substituteVariables [(''currentNotes'', notes), (''notesPath'', path)] prompt @ reminders)"

section \<open>Truncation\<close>

definition TRUNCATION_LINE :: string where
  "TRUNCATION_LINE = [CHR 0x0A] @ ''[... section truncated for length ...]''"

fun kept_lines :: "nat \<Rightarrow> string list \<Rightarrow> nat \<Rightarrow> string list" where
  "kept_lines limit [] used = []"
| "kept_lines limit (line # lines) used =
     (if used + length line + 1 > limit then [] else line # kept_lines limit lines (used + length line + 1))"

definition flushSessionSection :: "string \<Rightarrow> string list \<Rightarrow> nat \<Rightarrow> string list \<times> bool" where
  "flushSessionSection header lines limit =
     (if header = [] then (lines, False)
      else if length (js_join [CHR 0x0A] lines) \<le> limit then (header # lines, False)
      else (header # kept_lines limit lines 0 @ [TRUNCATION_LINE], True))"

fun truncate_loop :: "nat \<Rightarrow> string list \<Rightarrow> string \<Rightarrow> string list \<Rightarrow> string list \<Rightarrow> bool \<Rightarrow> string list \<times> bool" where
  "truncate_loop limit [] header content out truncated =
     (let (ls, t) = flushSessionSection header content limit in (out @ ls, truncated \<or> t))"
| "truncate_loop limit (line # lines) header content out truncated =
     (if is_header line then
        let (ls, t) = flushSessionSection header content limit
        in truncate_loop limit lines line [] (out @ ls) (truncated \<or> t)
      else truncate_loop limit lines header (content @ [line]) out truncated)"

definition truncateSessionMemoryForCompact :: "string \<Rightarrow> string \<times> bool" where
  "truncateSessionMemoryForCompact content =
     (let (lines, t) = truncate_loop (MAX_SECTION_LENGTH * 4) (js_split (CHR 0x0A) content) [] [] [] False
      in (js_join [CHR 0x0A] lines, t))"

section \<open>The wait ends\<close>

lemma wait_loop_ends:
  "\<not> still_waiting started now start (i + k) \<Longrightarrow>
   \<exists>n. wait_loop started now start i = Some n \<and> i \<le> n \<and> n \<le> i + k \<and> \<not> still_waiting started now start n"
proof (induction k arbitrary: i)
  case 0
  then show ?case by (simp add: wait_loop.simps [of _ _ _ i])
next
  case (Suc k)
  show ?case
  proof (cases "still_waiting started now start i")
    case True
    then show ?thesis using Suc.IH [of "Suc i"] Suc.prems by (fastforce simp: wait_loop.simps [of _ _ _ i])
  next
    case False
    then show ?thesis by (auto simp: wait_loop.simps [of _ _ _ i])
  qed
qed

lemma clock_grows:
  assumes "start \<le> now 0" "\<And>i. now i + 1000 \<le> now (Suc i)"
  shows "start + 1000 * int i \<le> now i"
proof (induction i)
  case (Suc i)
  then show ?case using assms(2) [of i] by simp
qed (simp add: assms(1))

lemma wait_bounded:
  assumes "start \<le> now 0" "\<And>i. now i + 1000 \<le> now (Suc i)"
  shows "\<exists>n \<le> 16. waitForSessionMemoryExtraction started now start = Some n \<and> \<not> still_waiting started now start n"
proof -
  have "start + 16000 \<le> now 16" using clock_grows [OF assms, of 16] by simp
  then have "\<not> still_waiting started now start (0 + 16)"
    by (auto simp: still_waiting_def EXTRACTION_WAIT_TIMEOUT_MS_def split: option.split)
  then show ?thesis unfolding waitForSessionMemoryExtraction_def using wait_loop_ends by fastforce
qed

section \<open>Truncation keeps the sections\<close>

text \<open>The sections of a list of lines; the first has no header.\<close>

fun split_sections :: "string list \<Rightarrow> string \<Rightarrow> string list \<Rightarrow> (string \<times> string list) list" where
  "split_sections [] header content = [(header, content)]"
| "split_sections (line # lines) header content =
     (if is_header line then (header, content) # split_sections lines line []
      else split_sections lines header (content @ [line]))"

definition section_lines :: "string \<times> string list \<Rightarrow> string list" where
  "section_lines s = (if fst s = [] then snd s else fst s # snd s)"

lemma is_header_ne: "is_header line \<Longrightarrow> line \<noteq> []"
  by (auto simp: is_header_def js_starts_with_def)

lemma split_sections_lines: "concat (map section_lines (split_sections lines header content)) = section_lines (header, content) @ lines"
  by (induction lines header content rule: split_sections.induct) (auto simp: section_lines_def dest: is_header_ne)

lemma truncate_loop_sections:
  "truncate_loop limit lines header content out t =
   (out @ concat (map (\<lambda>(h, ls). fst (flushSessionSection h ls limit)) (split_sections lines header content)),
    t \<or> (\<exists>(h, ls) \<in> set (split_sections lines header content). snd (flushSessionSection h ls limit)))"
  by (induction limit lines header content out t rule: truncate_loop.induct) (auto simp: Let_def split: prod.splits)

text \<open>The length of lines, each with its line break.\<close>

definition line_cost :: "string list \<Rightarrow> nat" where
  "line_cost ls = sum_list (map (\<lambda>l. length l + 1) ls)"

lemma line_cost_simps [simp]: "line_cost [] = 0" "line_cost (l # ls) = length l + 1 + line_cost ls"
  by (simp_all add: line_cost_def)

lemma length_js_join_le: "length (js_join [c] ls) \<le> line_cost ls"
  by (induction "[c]" ls rule: js_join.induct) auto

lemma kept_lines_most:
  "used \<le> limit \<Longrightarrow> limit < used + line_cost ls \<Longrightarrow>
   \<exists>k < length ls. kept_lines limit ls used = take k ls \<and> used + line_cost (take k ls) \<le> limit \<and>
     limit < used + line_cost (take (Suc k) ls)"
proof (induction limit ls used rule: kept_lines.induct)
  case (2 limit line lines used)
  show ?case
  proof (cases "used + length line + 1 > limit")
    case True
    then show ?thesis using 2(2) by (intro exI [of _ 0]) simp
  next
    case False
    then obtain k where "k < length lines" "kept_lines limit lines (used + length line + 1) = take k lines"
        "used + length line + 1 + line_cost (take k lines) \<le> limit"
        "limit < used + length line + 1 + line_cost (take (Suc k) lines)"
      using 2(1) 2(3) by auto
    then show ?thesis using False by (intro exI [of _ "Suc k"]) simp
  qed
qed simp

lemma flush_cases:
  "fst (flushSessionSection h ls limit) = section_lines (h, ls) \<and> \<not> snd (flushSessionSection h ls limit) \<or>
   h \<noteq> [] \<and> limit < length (js_join [CHR 0x0A] ls) \<and> snd (flushSessionSection h ls limit) \<and>
   (\<exists>k < length ls. fst (flushSessionSection h ls limit) = h # take k ls @ [TRUNCATION_LINE] \<and>
      line_cost (take k ls) \<le> limit \<and> limit < line_cost (take (Suc k) ls))"
proof (cases "h = [] \<or> length (js_join [CHR 0x0A] ls) \<le> limit")
  case True
  then show ?thesis by (auto simp: flushSessionSection_def section_lines_def)
next
  case False
  then have "limit < 0 + line_cost ls" using length_js_join_le [of "CHR 0x0A" ls] by linarith
  then obtain k where "k < length ls" "kept_lines limit ls 0 = take k ls" "line_cost (take k ls) \<le> limit"
      "limit < line_cost (take (Suc k) ls)"
    using kept_lines_most [of 0 limit ls] by auto
  then show ?thesis using False by (auto simp: flushSessionSection_def)
qed

lemma truncate_sections:
  "truncateSessionMemoryForCompact content =
   (let ss = split_sections (js_split (CHR 0x0A) content) [] [] in
    (js_join [CHR 0x0A] (concat (map (\<lambda>(h, ls). fst (flushSessionSection h ls 8000)) ss)),
     \<exists>(h, ls) \<in> set ss. snd (flushSessionSection h ls 8000)))"
  by (simp add: truncateSessionMemoryForCompact_def truncate_loop_sections MAX_SECTION_LENGTH_def Let_def)

lemma not_truncated_same:
  assumes "\<not> snd (truncateSessionMemoryForCompact content)"
  shows "fst (truncateSessionMemoryForCompact content) = content"
proof -
  let ?ss = "split_sections (js_split (CHR 0x0A) content) [] []"
  have "map (\<lambda>(h, ls). fst (flushSessionSection h ls 8000)) ?ss = map section_lines ?ss"
  proof (rule map_cong [OF refl], clarify)
    fix h ls
    assume "(h, ls) \<in> set ?ss"
    then have "\<not> snd (flushSessionSection h ls 8000)"
      using assms by (auto simp: truncate_sections Let_def)
    then show "fst (flushSessionSection h ls 8000) = section_lines (h, ls)"
      using flush_cases [of h ls 8000] by blast
  qed
  then have "fst (truncateSessionMemoryForCompact content) = js_join [CHR 0x0A] (concat (map section_lines ?ss))"
    by (simp only: truncate_sections Let_def fst_conv)
  then show ?thesis by (simp add: split_sections_lines section_lines_def js_join_split)
qed

section \<open>One pass over the variables\<close>

lemma variable_at_brace: "c \<noteq> CHR ''{'' \<Longrightarrow> variable_at (c # s) = None"
  by (simp add: variable_at_def js_starts_with_def)

lemma variable_at_key:
  assumes "key \<noteq> []" "\<forall>c \<in> set key. word_character c"
  shows "variable_at (''{{'' @ key @ ''}}'' @ s) = Some (key, s)"
proof -
  have tw: "takeWhile word_character (key @ ''}}'' @ s) = key"
    using assms(2) by (simp add: takeWhile_append2 word_character_def)
  have t: "drop 2 (''{{'' @ key @ ''}}'' @ s) = key @ ''}}'' @ s" by simp
  have d: "drop (2 + length key) (''{{'' @ key @ ''}}'' @ s) = ''}}'' @ s" by simp
  show ?thesis
    unfolding variable_at_def Let_def t tw d using assms(1) by (simp add: js_starts_with_def)
qed

lemma substitute_step:
  assumes "key \<noteq> []" "\<forall>c \<in> set key. word_character c"
  shows "substituteVariables vars (''{{'' @ key @ ''}}'' @ s) =
    (case jm_get vars key of Some v \<Rightarrow> v | None \<Rightarrow> ''{{'' @ key @ ''}}'') @ substituteVariables vars s"
  using substituteVariables.simps(2) [of vars "CHR ''{''" "''{'' @ key @ ''}}'' @ s"] variable_at_key [OF assms, of s]
  by (simp only: append_Cons append_Nil option.case prod.case)

lemma substitute_plain:
  "CHR ''{'' \<notin> set t \<Longrightarrow> substituteVariables vars (t @ s) = t @ substituteVariables vars s"
proof (induction t)
  case (Cons a t)
  then have "variable_at (a # t @ s) = None" by (intro variable_at_brace) auto
  then show ?case using Cons by simp
qed simp

section \<open>Properties of the component\<close>

section \<open>Sample notes\<close>

definition demo_notes :: string where
  "demo_notes = ''# Title'' @ [CHR 0x0A] @ ''text''"

text \<open>
  C20: An update of the notes that fails in the background leaves the mark that one is in
  progress, where an update on request takes it off. A compaction then waits for the mark,
  but, if each sleep takes its second, never for more than sixteen rounds.
\<close>

theorem failed_update_blocks_compaction:
  assumes "start \<le> now 0" "\<And>i. now i + 1000 \<le> now (Suc i)"
  shows "(fst (shouldExtractMemory tokens open_turn ms (initSessionMemoryConfigIfNeeded remote v)) \<longrightarrow>
      (case extractSessionMemory tokens open_turn True remote (Some err) t (Some ''repl_main_thread'') ms v of
         (e, v') \<Rightarrow> e = Some err \<and> mv_started_at v' = Some t)) \<and>
    (ms \<noteq> [] \<longrightarrow>
      (case manuallyExtractSessionMemory tokens open_turn (Some err) t ms v of
         (e, v') \<Rightarrow> e = Some err \<and> mv_started_at v' = None)) \<and>
    (\<exists>n \<le> 16. waitForSessionMemoryExtraction started now start = Some n \<and> \<not> still_waiting started now start n)"
  using wait_bounded [OF assms, of started]
  by (auto simp: extractSessionMemory_def manuallyExtractSessionMemory_def markExtractionStarted_def
      markExtractionCompleted_def Let_def split: prod.split)

theorem failed_update_blocks_compaction_witness:
  "\<exists>n \<le> 16. waitForSessionMemoryExtraction (\<lambda>_. Some 1) (\<lambda>i. 1000 * int i) 0 = Some n"
  using failed_update_blocks_compaction [of 0 "\<lambda>i. 1000 * int i"] by fastforce

text \<open>
  C23: Truncated notes have all their sections in order. A section of at most 8000
  characters is kept whole; of a longer one the header stays and as many whole lines from
  its start as 8000 characters hold, each counted with its line break, so that one line more
  would not fit, followed by a note; text before the first header is never cut. Notes that
  are not reported as truncated are unchanged.
\<close>

theorem notes_truncation_exact:
  "(let sections = split_sections (js_split (CHR 0x0A) content) [] [];
       (out, truncated) = truncateSessionMemoryForCompact content
    in concat (map section_lines sections) = js_split (CHR 0x0A) content \<and>
       (\<not> truncated \<longrightarrow> out = content) \<and>
       (\<exists>kept. out = js_join [CHR 0x0A] (concat (map kept sections)) \<and>
          (\<forall>(h, ls) \<in> set sections.
             if h = [] \<or> length (js_join [CHR 0x0A] ls) \<le> 8000 then kept (h, ls) = section_lines (h, ls)
             else truncated \<and> (\<exists>k < length ls. kept (h, ls) = h # take k ls @ [TRUNCATION_LINE] \<and>
               line_cost (take k ls) \<le> 8000 \<and> 8000 < line_cost (take (Suc k) ls)))))"
proof -
  let ?ss = "split_sections (js_split (CHR 0x0A) content) [] []"
  let ?kept = "\<lambda>(h, ls). fst (flushSessionSection h ls 8000)"
  have "if h = [] \<or> length (js_join [CHR 0x0A] ls) \<le> 8000 then ?kept (h, ls) = section_lines (h, ls)
      else snd (truncateSessionMemoryForCompact content) \<and> (\<exists>k < length ls. ?kept (h, ls) = h # take k ls @ [TRUNCATION_LINE] \<and>
        line_cost (take k ls) \<le> 8000 \<and> 8000 < line_cost (take (Suc k) ls))" if "(h, ls) \<in> set ?ss" for h ls
  proof (cases "h = [] \<or> length (js_join [CHR 0x0A] ls) \<le> 8000")
    case True
    then show ?thesis using flush_cases [of h ls 8000] by fastforce
  next
    case False
    then have "snd (flushSessionSection h ls 8000)" by (simp add: flushSessionSection_def)
    then have "snd (truncateSessionMemoryForCompact content)" using that by (auto simp: truncate_sections Let_def)
    then show ?thesis using False flush_cases [of h ls 8000] by (auto simp: flushSessionSection_def)
  qed
  moreover have "fst (truncateSessionMemoryForCompact content) = js_join [CHR 0x0A] (concat (map ?kept ?ss))"
    by (simp only: truncate_sections Let_def fst_conv)
  ultimately have "\<exists>kept. fst (truncateSessionMemoryForCompact content) = js_join [CHR 0x0A] (concat (map kept ?ss)) \<and>
      (\<forall>(h, ls) \<in> set ?ss.
         if h = [] \<or> length (js_join [CHR 0x0A] ls) \<le> 8000 then kept (h, ls) = section_lines (h, ls)
         else snd (truncateSessionMemoryForCompact content) \<and> (\<exists>k < length ls. kept (h, ls) = h # take k ls @ [TRUNCATION_LINE] \<and>
           line_cost (take k ls) \<le> 8000 \<and> 8000 < line_cost (take (Suc k) ls)))"
    by blast
  then show ?thesis
    using not_truncated_same [of content]
    by (simp add: Let_def case_prod_beta split_sections_lines section_lines_def)
qed

theorem notes_truncation_exact_witness:
  "fst (truncateSessionMemoryForCompact demo_notes) = demo_notes"
proof -
  have "\<not> snd (truncateSessionMemoryForCompact demo_notes)" by code_simp
  then show ?thesis using notes_truncation_exact [of demo_notes] by (simp add: Let_def case_prod_beta)
qed

end
