(* ===== verification/Compact_Summary.thy ===== *)
theory Compact_Summary
  imports JS_Prelude
begin

text \<open>
  The text that replaces a compacted conversation, \<^verbatim>\<open>src/src/memory/compact/prompt.ts\<close>: what is
  made of the answer of the model, and the message around it. The long constant prompts are left
  out; what follows them is a function of the prompt.
\<close>

section \<open>Searching and replacing\<close>

text \<open>The text before and after the first occurrence.\<close>

fun split_first :: "string \<Rightarrow> string \<Rightarrow> (string \<times> string) option" where
  "split_first pat [] = (if pat = [] then Some ([], []) else None)"
| "split_first pat (c # s) =
     (if js_starts_with (c # s) pat then Some ([], drop (length pat) (c # s))
      else map_option (\<lambda>(a, b). (c # a, b)) (split_first pat s))"

text \<open>
  The first match of \<open><tag>[\s\S]*?</tag>\<close>: the text before it, inside it and after it. If the
  first opening tag has no closing tag after it, no later one has.
\<close>

definition find_tagged :: "string \<Rightarrow> string \<Rightarrow> (string \<times> string \<times> string) option" where
  "find_tagged tag s =
     (case split_first (''<'' @ tag @ ''>'') s of
        None \<Rightarrow> None
      | Some (a, t) \<Rightarrow> map_option (\<lambda>(b, c). (a, b, c)) (split_first (''</'' @ tag @ ''>'') t))"

text \<open>
  What a replacement text means where the pattern has no groups: a dollar and a dollar, an
  ampersand, a backquote or a quote stand for a dollar, the match, and the text before and after.
\<close>

fun expand_replacement :: "string \<Rightarrow> string \<Rightarrow> string \<Rightarrow> string \<Rightarrow> string" where
  "expand_replacement found before after (c # d # s) =
     (if c = CHR ''$'' then
        if d = CHR ''$'' then CHR ''$'' # expand_replacement found before after s
        else if d = CHR ''&'' then found @ expand_replacement found before after s
        else if d = CHR 0x60 then before @ expand_replacement found before after s
        else if d = CHR 0x27 then after @ expand_replacement found before after s
        else c # expand_replacement found before after (d # s)
      else c # expand_replacement found before after (d # s))"
| "expand_replacement found before after s = s"

text \<open>\<^verbatim>\<open>replace(/\n\n+/g, '\n\n')\<close>.\<close>

function (sequential) collapse_newlines :: "string \<Rightarrow> string" where
  "collapse_newlines (c # d # s) =
     (if c = CHR 0x0A \<and> d = CHR 0x0A
      then CHR 0x0A # CHR 0x0A # collapse_newlines (dropWhile (\<lambda>x. x = CHR 0x0A) s)
      else c # collapse_newlines (d # s))"
| "collapse_newlines s = s"
  by pat_completeness auto
termination
  by (relation "measure length") (auto simp: le_imp_less_Suc length_dropWhile_le le_SucI)

section \<open>The summary\<close>

definition formatCompactSummary :: "string \<Rightarrow> string" where
  "formatCompactSummary summary =
     (let s = (case find_tagged ''analysis'' summary of None \<Rightarrow> summary | Some (a, _, c) \<Rightarrow> a @ c);
          s = (case find_tagged ''summary'' s of
                 None \<Rightarrow> s
               | Some (a, b, c) \<Rightarrow>
                   a @ expand_replacement (''<summary>'' @ b @ ''</summary>'') a c
                     (''Summary:'' @ [CHR 0x0A] @ js_trim b) @ c)
      in js_trim (collapse_newlines s))"

text \<open>
  The arguments are those of the source; the last tells whether the proactive mode is active.
\<close>

definition getCompactUserSummaryMessage :: "string \<Rightarrow> bool \<Rightarrow> string \<Rightarrow> bool \<Rightarrow> bool \<Rightarrow> string" where
  "getCompactUserSummaryMessage summary no_questions transcript preserved proactive =
     (let base = ''This session is being continued from a previous conversation that ran out of context. The summary below covers the earlier portion of the conversation.'' @
            [CHR 0x0A, CHR 0x0A] @ formatCompactSummary summary;
          base = (if transcript \<noteq> [] then base @ [CHR 0x0A, CHR 0x0A] @
            ''If you need specific details from before compaction (like exact code snippets, error messages, or content you generated), read the full transcript at: '' @ transcript else base);
          base = (if preserved then base @ [CHR 0x0A, CHR 0x0A] @ ''Recent messages are preserved verbatim.'' else base)
      in if no_questions then
           base @ [CHR 0x0A] @
           ''Continue the conversation from where it left off without asking the user any further questions. Resume directly '' @
           [CHR 0xE2, CHR 0x80, CHR 0x94] @
           '' do not acknowledge the summary, do not recap what was happening, do not preface with \"I'' @ [CHR 0x27] @
           ''ll continue\" or similar. Pick up the last task as if the break never happened.'' @
           (if proactive then [CHR 0x0A, CHR 0x0A] @
              ''You are running in autonomous/proactive mode. This is NOT a first wake-up '' @ [CHR 0xE2, CHR 0x80, CHR 0x94] @
              '' you were already working autonomously before compaction. Continue your work loop: pick up where you left off based on the summary above. Do not greet the user or ask what to work on.''
            else [])
         else base)"

text \<open>The prompt: a preamble, one of the templates, instructions that are not blank, a trailer.\<close>

definition compact_prompt :: "string \<Rightarrow> string \<Rightarrow> string \<Rightarrow> string option \<Rightarrow> string" where
  "compact_prompt preamble tmpl trailer instructions =
     preamble @ tmpl @
     (case instructions of
        None \<Rightarrow> []
      | Some i \<Rightarrow> if js_trim i \<noteq> [] then [CHR 0x0A, CHR 0x0A] @ ''Additional Instructions:'' @ [CHR 0x0A] @ i else []) @
     trailer"

section \<open>Where the tags are found\<close>

lemma starts_with_self [simp]: "js_starts_with (p @ s) p"
  by (simp add: js_starts_with_def)

lemma split_first_hit: "split_first p (p @ s) = Some ([], s)"
proof (cases "p @ s")
  case Nil
  then show ?thesis by simp
next
  case (Cons c t)
  then show ?thesis by (metis append_eq_conv_conj split_first.simps(2) starts_with_self)
qed

lemma split_first_skip: "c \<notin> set a \<Longrightarrow> split_first (c # p) (a @ c # p @ s) = Some (a, s)"
proof (induction a)
  case Nil
  then show ?case using split_first_hit [of "c # p" s] by simp
next
  case (Cons d a)
  then show ?case by (simp add: js_starts_with_def)
qed

lemma split_first_none: "c \<notin> set s \<Longrightarrow> split_first (c # p) s = None"
  by (induction s) (auto simp: js_starts_with_def)

lemma split_first_exact: "split_first p s = Some (a, b) \<Longrightarrow> s = a @ p @ b"
proof (induction s arbitrary: a)
  case (Cons c s)
  show ?case
  proof (cases "js_starts_with (c # s) p")
    case True
    then show ?thesis using Cons.prems by (auto simp: js_starts_with_def prefix_def)
  next
    case False
    then show ?thesis using Cons by auto
  qed
qed (simp split: if_splits)

lemma find_tagged_hit:
  assumes "CHR ''<'' \<notin> set a" "CHR ''<'' \<notin> set b"
  shows "find_tagged tag (a @ ''<'' @ tag @ ''>'' @ b @ ''</'' @ tag @ ''>'' @ c) = Some (a, b, c)"
proof -
  have "split_first (''<'' @ tag @ ''>'') (a @ ''<'' @ tag @ ''>'' @ b @ ''</'' @ tag @ ''>'' @ c) =
      Some (a, b @ ''</'' @ tag @ ''>'' @ c)"
    using split_first_skip [OF assms(1), of "tag @ ''>''" "b @ ''</'' @ tag @ ''>'' @ c"] by simp
  moreover have "split_first (''</'' @ tag @ ''>'') (b @ ''</'' @ tag @ ''>'' @ c) = Some (b, c)"
    using split_first_skip [OF assms(2), of "''/'' @ tag @ ''>''" c] by simp
  ultimately show ?thesis by (simp add: find_tagged_def)
qed

lemma find_tagged_none: "CHR ''<'' \<notin> set s \<Longrightarrow> find_tagged tag s = None"
  by (simp add: find_tagged_def split_first_none)

lemma expand_plain: "CHR ''$'' \<notin> set t \<Longrightarrow> expand_replacement found before after t = t"
  by (induction found before after t rule: expand_replacement.induct) auto

lemma set_js_trim: "x \<in> set (js_trim s) \<Longrightarrow> x \<in> set s"
  by (auto simp: js_trim_def dest!: set_dropWhileD)

text \<open>A well-formed answer: the analysis goes, the summary stays, unless it has dollars.\<close>

lemma format_summary:
  assumes "CHR ''<'' \<notin> set (a @ b @ c @ d @ e)" "CHR ''$'' \<notin> set d"
  shows "formatCompactSummary
      (a @ ''<analysis>'' @ b @ ''</analysis>'' @ c @ ''<summary>'' @ d @ ''</summary>'' @ e) =
    js_trim (collapse_newlines (a @ c @ ''Summary:'' @ [CHR 0x0A] @ js_trim d @ e))"
proof -
  let ?rest = "c @ ''<summary>'' @ d @ ''</summary>'' @ e"
  have 1: "find_tagged ''analysis'' (a @ ''<analysis>'' @ b @ ''</analysis>'' @ ?rest) = Some (a, b, ?rest)"
    using find_tagged_hit [of a b "''analysis''" ?rest] assms(1) by simp
  have 2: "find_tagged ''summary'' (a @ ?rest) = Some (a @ c, d, e)"
    using find_tagged_hit [of "a @ c" d "''summary''" e] assms(1) by simp
  have "CHR ''$'' \<notin> set (''Summary:'' @ [CHR 0x0A] @ js_trim d)"
    using assms(2) set_js_trim [of "CHR ''$''" d] by auto
  note 3 = expand_plain [OF this]
  show ?thesis
    unfolding formatCompactSummary_def Let_def 1 option.case prod.case 2 3 by simp
qed

text \<open>A doubled dollar loses one, and other pairs repeat parts of the answer.\<close>

lemma format_dollars:
  "formatCompactSummary ''<summary>kill $$ now</summary>'' = ''Summary:'' @ [CHR 0x0A] @ ''kill $ now''"
  "formatCompactSummary ''<summary>sed s/x/$&/</summary>'' =
     ''Summary:'' @ [CHR 0x0A] @ ''sed s/x/<summary>sed s/x/$&/</summary>/''"
  by code_simp+

end
