(* ===== verification/Compaction.thy ===== *)
theory Compaction
  imports Micro_Compact Session_Memory Compact_Summary "HOL-Library.Sublist"
begin

text \<open>
  The compaction of a conversation: by the notes of the session
  (\<^verbatim>\<open>src/src/memory/compact/sessionMemoryCompact.ts\<close>) or by a summary the model writes
  (\<^verbatim>\<open>compact.ts\<close>, whole or from a chosen message on), and what is put back after it. The model,
  the hooks, the messages they make and the attachments of other modules are parameters, the
  fields of \<open>compact_port\<close>. Progress and telemetry are left out.
\<close>

section \<open>Which messages are kept beside the notes\<close>

record keep_config =
  kc_min_tokens :: int
  kc_min_texts :: int
  kc_max_tokens :: int

definition DEFAULT_SM_COMPACT_CONFIG :: keep_config where
  "DEFAULT_SM_COMPACT_CONFIG = \<lparr>kc_min_tokens = 10000, kc_min_texts = 5, kc_max_tokens = 40000\<rparr>"

record keep_vars =
  kv_config :: keep_config
  kv_initialized :: bool

record keep_config_part =
  kp_min_tokens :: "int option"
  kp_min_texts :: "int option"
  kp_max_tokens :: "int option"

definition setSessionMemoryCompactConfig :: "keep_config_part \<Rightarrow> keep_vars \<Rightarrow> keep_vars" where
  "setSessionMemoryCompactConfig p v =
     v\<lparr>kv_config := \<lparr>kc_min_tokens = nullish (kp_min_tokens p) (kc_min_tokens (kv_config v)),
         kc_min_texts = nullish (kp_min_texts p) (kc_min_texts (kv_config v)),
         kc_max_tokens = nullish (kp_max_tokens p) (kc_max_tokens (kv_config v))\<rparr>\<rparr>"

definition resetSessionMemoryCompactConfig :: "keep_vars \<Rightarrow> keep_vars" where
  "resetSessionMemoryCompactConfig v = \<lparr>kv_config = DEFAULT_SM_COMPACT_CONFIG, kv_initialized = False\<rparr>"

definition initSessionMemoryCompactConfig :: "keep_config_part \<Rightarrow> keep_vars \<Rightarrow> keep_vars" where
  "initSessionMemoryCompactConfig remote v =
     (if kv_initialized v then v
      else
        setSessionMemoryCompactConfig
          \<lparr>kp_min_tokens = Some (positive_or (kp_min_tokens remote) (kc_min_tokens DEFAULT_SM_COMPACT_CONFIG)),
            kp_min_texts = Some (positive_or (kp_min_texts remote) (kc_min_texts DEFAULT_SM_COMPACT_CONFIG)),
            kp_max_tokens = Some (positive_or (kp_max_tokens remote) (kc_max_tokens DEFAULT_SM_COMPACT_CONFIG))\<rparr>
          (v\<lparr>kv_initialized := True\<rparr>))"

text \<open>
  The expansion backwards; \<open>None\<close> where the source reads past the end and throws. Tokens and
  messages with text are counted from the index on.
\<close>

fun expand_back ::
    "token_host \<Rightarrow> keep_config \<Rightarrow> conv_message list \<Rightarrow> nat \<Rightarrow> nat \<Rightarrow> nat \<Rightarrow> nat \<Rightarrow> nat option" where
  "expand_back h c ms bottom 0 tokens texts = Some 0"
| "expand_back h c ms bottom (Suc i) tokens texts =
     (if i < bottom then Some (Suc i)
      else if i \<ge> length ms then None
      else
        let tokens = tokens + estimateMessageTokens h [ms ! i];
            texts = (if hasTextBlocks (cm_body (ms ! i)) then texts + 1 else texts)
        in if int tokens \<ge> kc_max_tokens c then Some i
           else if int tokens \<ge> kc_min_tokens c \<and> int texts \<ge> kc_min_texts c then Some i
           else expand_back h c ms bottom i tokens texts)"

definition findLastIndex :: "('a \<Rightarrow> bool) \<Rightarrow> 'a list \<Rightarrow> nat option" where
  "findLastIndex p xs = find (\<lambda>i. p (xs ! i)) (rev [0..<length xs])"

definition calculateMessagesToKeepIndex ::
    "token_host \<Rightarrow> (conv_message \<Rightarrow> bool) \<Rightarrow> keep_config \<Rightarrow> conv_message list \<Rightarrow> int \<Rightarrow> nat option" where
  "calculateMessagesToKeepIndex h boundary c ms summarized =
     (if ms = [] then Some 0
      else
        let start = (if summarized \<ge> 0 then nat summarized + 1 else length ms);
            kept = drop start ms;
            tokens = sum_list (map (\<lambda>m. estimateMessageTokens h [m]) kept);
            texts = length (filter (\<lambda>m. hasTextBlocks (cm_body m)) kept)
        in if int tokens \<ge> kc_max_tokens c then Some (adjustIndexToPreserveAPIInvariants ms start)
           else if int tokens \<ge> kc_min_tokens c \<and> int texts \<ge> kc_min_texts c
             then Some (adjustIndexToPreserveAPIInvariants ms start)
           else
             let bottom = (case findLastIndex boundary ms of None \<Rightarrow> 0 | Some i \<Rightarrow> i + 1)
             in map_option (adjustIndexToPreserveAPIInvariants ms) (expand_back h c ms bottom start tokens texts))"

section \<open>The port\<close>

text \<open>
  In the order of the fields: the test for a boundary, three counts of tokens, the hooks before, at
  the start of a session and after (automatic or not, with instructions or the summary), the
  answer of the model to the n-th request, its text, the text of a request that is too long, the
  gap it names, the test for an error of the service, the messages made for a user and for a
  boundary, the names of the tools found, the path of the transcript, and the attachments of other
  modules for the messages that are kept. Hooks and the model may throw.
\<close>

record compact_port =
  cp_is_boundary :: "conv_message \<Rightarrow> bool"
  cp_tokens :: "conv_message list \<Rightarrow> nat"
  cp_api_tokens :: "conv_message list \<Rightarrow> nat option"
  cp_rough :: "conv_message list \<Rightarrow> nat"
  cp_pre_hooks :: "bool \<Rightarrow> string option \<Rightarrow> (string option \<times> string option) outcome"
  cp_start_hooks :: "conv_message list outcome"
  cp_post_hooks :: "bool \<Rightarrow> string \<Rightarrow> string option outcome"
  cp_ask :: "nat \<Rightarrow> string \<Rightarrow> conv_message list \<Rightarrow> conv_message outcome"
  cp_text :: "conv_message \<Rightarrow> string option"
  cp_too_long :: string
  cp_gap :: "conv_message \<Rightarrow> nat option"
  cp_api_error :: "string \<Rightarrow> bool"
  cp_user_message :: "string \<Rightarrow> bool \<Rightarrow> bool \<Rightarrow> conv_message"
  cp_boundary_message :: "bool \<Rightarrow> nat \<Rightarrow> string option \<Rightarrow> conv_message"
  cp_discovered :: "conv_message list \<Rightarrow> string list"
  cp_transcript :: string
  cp_attachments :: "conv_message list \<Rightarrow> conv_message list"

text \<open>A boundary with the tools found and the segment it relinks, and a result.\<close>

record boundary_marker =
  bm_message :: conv_message
  bm_tools :: "string list option"
  bm_segment :: "(string \<times> string \<times> string) option"

record compaction_result =
  cr_boundary :: boundary_marker
  cr_summary :: "conv_message list"
  cr_attachments :: "conv_message list"
  cr_hooks :: "conv_message list"
  cr_keep :: "conv_message list option"
  cr_display :: "string option"
  cr_pre_tokens :: "nat option"
  cr_post_tokens :: "nat option"
  cr_true_post_tokens :: "nat option"

definition buildPostCompactMessages :: "compaction_result \<Rightarrow> conv_message list" where
  "buildPostCompactMessages r =
     bm_message (cr_boundary r) # cr_summary r @ nullish (cr_keep r) [] @ cr_attachments r @ cr_hooks r"

definition annotateBoundaryWithPreservedSegment ::
    "boundary_marker \<Rightarrow> string \<Rightarrow> conv_message list option \<Rightarrow> boundary_marker" where
  "annotateBoundaryWithPreservedSegment b anchor keep =
     (let keep = nullish keep [] in
      if keep = [] then b
      else b\<lparr>bm_segment := Some (cm_uuid (hd keep), anchor, cm_uuid (last keep))\<rparr>)"

definition mergeHookInstructions :: "string option \<Rightarrow> string option \<Rightarrow> string option" where
  "mergeHookInstructions user hook =
     (if hook \<in> {None, Some []} then (if user = Some [] then None else user)
      else if user \<in> {None, Some []} then hook
      else Some (nullish user [] @ [CHR 0x0A, CHR 0x0A] @ nullish hook []))"

text \<open>A new boundary with the tools found so far.\<close>

definition boundary_of :: "compact_port \<Rightarrow> bool \<Rightarrow> nat \<Rightarrow> string option \<Rightarrow> conv_message list \<Rightarrow> boundary_marker" where
  "boundary_of p auto tokens before ms =
     (let found = cp_discovered p ms in
      \<lparr>bm_message = cp_boundary_message p auto tokens before,
        bm_tools = (if found \<noteq> [] then Some (js_sort str_le found) else None), bm_segment = None\<rparr>)"

definition last_uuid :: "conv_message list \<Rightarrow> string option" where
  "last_uuid ms = (if ms = [] then None else Some (cm_uuid (last ms)))"

definition findIndex :: "conv_message list \<Rightarrow> string \<Rightarrow> nat option" where
  "findIndex ms u = find (\<lambda>i. cm_uuid (ms ! i) = u) [0..<length ms]"

section \<open>Compaction by the notes\<close>

text \<open>
  The flags: the override that enables, the one that disables, and the two gates.
\<close>

definition shouldUseSessionMemoryCompaction :: "bool \<Rightarrow> bool \<Rightarrow> bool \<Rightarrow> bool \<Rightarrow> bool" where
  "shouldUseSessionMemoryCompaction enable disable memory_gate compact_gate =
     (if enable then True else if disable then False else memory_gate \<and> compact_gate)"

definition createCompactionResultFromSessionMemory ::
    "token_host \<Rightarrow> compact_port \<Rightarrow> bool \<Rightarrow> string \<Rightarrow> conv_message list \<Rightarrow> conv_message list \<Rightarrow> string \<Rightarrow> conv_message list \<Rightarrow>
     conv_message list \<Rightarrow> compaction_result" where
  "createCompactionResultFromSessionMemory h p proactive memory_path plan ms memory keep hooks =
     (let pre = cp_api_tokens p ms;
          boundary = boundary_of p True (nullish pre 0) (last_uuid ms) ms;
          (content, truncated) = truncateSessionMemoryForCompact memory;
          summary = getCompactUserSummaryMessage content True (cp_transcript p) True proactive;
          summary = (if truncated then summary @ [CHR 0x0A, CHR 0x0A] @
            ''Some session memory sections were truncated for length. The full session memory can be viewed at: '' @ memory_path
            else summary);
          messages = [cp_user_message p summary False True];
          post = estimateMessageTokens h messages
      in \<lparr>cr_boundary = annotateBoundaryWithPreservedSegment boundary (cm_uuid (last messages)) (Some keep),
           cr_summary = messages, cr_attachments = plan, cr_hooks = hooks, cr_keep = Some keep,
           cr_display = None, cr_pre_tokens = pre, cr_post_tokens = Some post, cr_true_post_tokens = Some post\<rparr>)"

text \<open>
  \<open>enabled\<close> is the decision above, the notes are the content of their file, if there is one, \<open>tmpl\<close> the template they start from;
  \<open>plan\<close> is the attachment of the plan, if any. What is thrown on the way gives no result. The two
  calls before, which fetch the configuration and wait for a running update of the notes
  (\<open>waitForSessionMemoryExtraction\<close> in Session_Memory), are not part of this definition: configuration and
  notes are arguments, as they are after them.
\<close>

definition trySessionMemoryCompaction ::
    "token_host \<Rightarrow> compact_port \<Rightarrow> bool \<Rightarrow> bool \<Rightarrow> string \<Rightarrow> conv_message list \<Rightarrow> string \<Rightarrow> string option \<Rightarrow> string option \<Rightarrow>
     keep_config \<Rightarrow> conv_message list \<Rightarrow> int option \<Rightarrow> compaction_result option" where
  "trySessionMemoryCompaction h p enabled proactive memory_path plan tmpl memory summarized c ms threshold =
     (case memory of
        None \<Rightarrow> None
      | Some notes \<Rightarrow>
          if \<not> enabled \<or> notes = [] \<or> isSessionMemoryEmpty tmpl notes then None
          else
            let index = (if summarized \<notin> {None, Some []}
                  then map_option int (findIndex ms (nullish summarized []))
                  else Some (int (length ms) - 1))
            in case index of
                 None \<Rightarrow> None
               | Some i \<Rightarrow>
                   (case (calculateMessagesToKeepIndex h (cp_is_boundary p) c ms i, cp_start_hooks p) of
                      (Some start, Inr hooks) \<Rightarrow>
                        (let keep = filter (\<lambda>m. \<not> cp_is_boundary p m) (drop start ms);
                             r = createCompactionResultFromSessionMemory h p proactive memory_path plan ms notes keep hooks;
                             post = estimateMessageTokens h (buildPostCompactMessages r)
                         in case threshold of
                              Some t \<Rightarrow>
                                if int post \<ge> t then None
                                else Some (r\<lparr>cr_post_tokens := Some post, cr_true_post_tokens := Some post\<rparr>)
                            | None \<Rightarrow> Some (r\<lparr>cr_post_tokens := Some post, cr_true_post_tokens := Some post\<rparr>))
                    | _ \<Rightarrow> None))"

section \<open>Compaction by a summary\<close>

definition MAX_PTL_RETRIES :: nat where "MAX_PTL_RETRIES = 3"

definition PTL_RETRY_MARKER :: string where
  "PTL_RETRY_MARKER = ''[earlier conversation truncated for compaction retry]''"

definition ERROR_MESSAGE_NOT_ENOUGH_MESSAGES :: string where
  "ERROR_MESSAGE_NOT_ENOUGH_MESSAGES = ''Not enough messages to compact.''"

definition ERROR_MESSAGE_PROMPT_TOO_LONG :: string where
  "ERROR_MESSAGE_PROMPT_TOO_LONG = ''Conversation too long. Press esc twice to go up a few messages and try again.''"

definition ERROR_MESSAGE_USER_ABORT :: string where
  "ERROR_MESSAGE_USER_ABORT = ''API Error: Request was aborted.''"

text \<open>
  How many groups cover the gap; \<^verbatim>\<open>Math.floor(n * 0.2)\<close>; a marker left by an earlier retry.
\<close>

fun cover_gap :: "(conv_message list \<Rightarrow> nat) \<Rightarrow> nat \<Rightarrow> conv_message list list \<Rightarrow> nat \<Rightarrow> nat" where
  "cover_gap rough gap [] acc = 0"
| "cover_gap rough gap (g # gs) acc =
     (if acc + rough g \<ge> gap then 1 else 1 + cover_gap rough gap gs (acc + rough g))"

definition math_floor :: "nat \<times> int \<Rightarrow> nat" where
  "math_floor x = (let (q, e) = x; (a, b) = scaled q 1 (- e) in a div b)"

definition fifth_of :: "nat \<Rightarrow> nat" where
  "fifth_of n = math_floor (double_times (to_double 1 5) n)"

definition is_retry_marker :: "conv_message \<Rightarrow> bool" where
  "is_retry_marker m =
     (case cm_body m of Body_user (Content_text t) meta _ \<Rightarrow> meta \<and> t = PTL_RETRY_MARKER | _ \<Rightarrow> False)"

definition without_marker :: "conv_message list \<Rightarrow> conv_message list" where
  "without_marker ms = (if ms \<noteq> [] \<and> is_retry_marker (hd ms) then tl ms else ms)"

definition drop_count :: "(conv_message list \<Rightarrow> nat) \<Rightarrow> nat option \<Rightarrow> conv_message list list \<Rightarrow> nat" where
  "drop_count rough gap gs =
     min (case gap of Some g \<Rightarrow> cover_gap rough g gs 0 | None \<Rightarrow> max 1 (fifth_of (length gs))) (length gs - 1)"

definition truncateHeadForPTLRetry :: "compact_port \<Rightarrow> conv_message list \<Rightarrow> conv_message \<Rightarrow> conv_message list option" where
  "truncateHeadForPTLRetry p ms response =
     (let gs = groupMessagesByApiRound (without_marker ms) in
      if length gs < 2 then None
      else
        let n = drop_count (cp_rough p) (cp_gap p response) gs in
        if n < 1 then None
        else
          let sliced = concat (drop n gs) in
          if sliced \<noteq> [] \<and> response_id (cm_body (hd sliced)) \<noteq> None
          then Some (cp_user_message p PTL_RETRY_MARKER True False # sliced)
          else Some sliced)"

text \<open>
  The rounds of requests for a summary: when the answer says that the request is too long, the
  next round asks about the conversation with its head cut off, three times at most. The result
  is the conversations asked about, one for each round in order, and the last answer or what was
  thrown. Within a round the service may be asked again over another path, which is part of
  \<^verbatim>\<open>streamCompactSummary\<close>, a parameter.
\<close>

definition too_long :: "compact_port \<Rightarrow> conv_message \<Rightarrow> bool" where
  "too_long p response = (case cp_text p response of None \<Rightarrow> False | Some s \<Rightarrow> js_starts_with s (cp_too_long p))"

function summary_loop ::
    "compact_port \<Rightarrow> string \<Rightarrow> nat \<Rightarrow> conv_message list \<Rightarrow> conv_message list list \<times> conv_message outcome" where
  "summary_loop p prompt attempts ms =
     (case cp_ask p attempts prompt ms of
        Inl e \<Rightarrow> ([ms], Inl e)
      | Inr response \<Rightarrow>
          if \<not> too_long p response then ([ms], Inr response)
          else
            case (if attempts + 1 \<le> MAX_PTL_RETRIES then truncateHeadForPTLRetry p ms response else None) of
              None \<Rightarrow> ([ms], Inl ERROR_MESSAGE_PROMPT_TOO_LONG)
            | Some ms' \<Rightarrow>
                (case summary_loop p prompt (attempts + 1) ms' of
                   (asked, result) \<Rightarrow> (ms # asked, result)))"
  by pat_completeness auto
termination
  by (relation "measure (\<lambda>(p, prompt, attempts, ms). MAX_PTL_RETRIES - attempts)") (auto split: if_splits)

declare summary_loop.simps [simp del]

definition checked_summary :: "compact_port \<Rightarrow> conv_message \<Rightarrow> string outcome" where
  "checked_summary p response =
     (case cp_text p response of
        None \<Rightarrow> Inl ''Failed to generate conversation summary - response did not contain valid text content''
      | Some s \<Rightarrow>
          if s = [] then Inl ''Failed to generate conversation summary - response did not contain valid text content''
          else if cp_api_error p s then Inl s else Inr s)"

section \<open>Files and skills put back\<close>

text \<open>The items that fit a budget, each where it is reached.\<close>

fun within_budget :: "('a \<Rightarrow> nat) \<Rightarrow> nat \<Rightarrow> 'a list \<Rightarrow> nat \<Rightarrow> 'a list" where
  "within_budget cost limit [] used = []"
| "within_budget cost limit (x # xs) used =
     (if used + cost x \<le> limit then x # within_budget cost limit xs (used + cost x)
      else within_budget cost limit xs used)"

definition POST_COMPACT_MAX_FILES_TO_RESTORE :: nat where "POST_COMPACT_MAX_FILES_TO_RESTORE = 5"
definition POST_COMPACT_TOKEN_BUDGET :: nat where "POST_COMPACT_TOKEN_BUDGET = 50000"
definition POST_COMPACT_MAX_TOKENS_PER_SKILL :: nat where "POST_COMPACT_MAX_TOKENS_PER_SKILL = 5000"
definition POST_COMPACT_SKILLS_TOKEN_BUDGET :: nat where "POST_COMPACT_SKILLS_TOKEN_BUDGET = 25000"

record read_state =
  rs_content :: string
  rs_timestamp :: int

text \<open>
  \<open>expand\<close> is the host's expansion of a path; the path of the plan and those of the memory files
  may not be known. The name of the tool that reads files, and the text that stands for an
  unchanged file, are those of its module.
\<close>

record restore_port =
  rp_expand :: "string \<Rightarrow> string"
  rp_plan :: "string option"
  rp_memory :: "string list option"
  rp_read_tool :: string
  rp_stub :: string
  rp_attachment :: "string \<Rightarrow> conv_message option"
  rp_size :: "conv_message \<Rightarrow> nat"

definition shouldExcludeFromPostCompactRestore :: "restore_port \<Rightarrow> string \<Rightarrow> bool" where
  "shouldExcludeFromPostCompactRestore p file =
     ((case rp_plan p of None \<Rightarrow> False | Some q \<Rightarrow> rp_expand p file = rp_expand p q) \<or>
      (case rp_memory p of None \<Rightarrow> False | Some qs \<Rightarrow> rp_expand p file \<in> set (map (rp_expand p) qs)))"

fun stub_id :: "string \<Rightarrow> conv_block \<Rightarrow> string option" where
  "stub_id stub (Block_tool_result i (Result_text t) _) = (if js_starts_with t stub then Some i else None)"
| "stub_id stub _ = None"

fun read_path :: "restore_port \<Rightarrow> string list \<Rightarrow> conv_block \<Rightarrow> string option" where
  "read_path p stubs (Block_tool_use i n v) =
     (if n \<noteq> rp_read_tool p \<or> i \<in> set stubs then None
      else if is_object v then
        (case get_prop v ''file_path'' of JStr path \<Rightarrow> Some (rp_expand p path) | _ \<Rightarrow> None)
      else None)"
| "read_path p stubs _ = None"

definition collectReadToolFilePaths :: "restore_port \<Rightarrow> conv_message list \<Rightarrow> string list" where
  "collectReadToolFilePaths p ms =
     (let stubs = concat (map (\<lambda>m. List.map_filter (stub_id (rp_stub p)) (user_blocks (cm_body m))) ms)
      in js_set (concat (map (\<lambda>m. List.map_filter (read_path p stubs) (assistant_blocks (cm_body m))) ms)))"

definition recent_files :: "restore_port \<Rightarrow> (string, read_state) js_map \<Rightarrow> nat \<Rightarrow> conv_message list \<Rightarrow> (string \<times> read_state) list" where
  "recent_files p files limit keep =
     (let preserved = collectReadToolFilePaths p keep in
      take limit (js_sort (\<lambda>a b. rs_timestamp (snd b) \<le> rs_timestamp (snd a))
        (filter (\<lambda>(f, _). \<not> shouldExcludeFromPostCompactRestore p f \<and> rp_expand p f \<notin> set preserved)
          (object_entries files))))"

definition createPostCompactFileAttachments ::
    "restore_port \<Rightarrow> (string, read_state) js_map \<Rightarrow> nat \<Rightarrow> conv_message list \<Rightarrow> conv_message list" where
  "createPostCompactFileAttachments p files limit keep =
     within_budget (rp_size p) POST_COMPACT_TOKEN_BUDGET
       (List.map_filter (\<lambda>(f, _). rp_attachment p f) (recent_files p files limit keep)) 0"

definition SKILL_TRUNCATION_MARKER :: string where
  "SKILL_TRUNCATION_MARKER = [CHR 0x0A, CHR 0x0A] @
     ''[... skill content truncated for compaction; use Read on the skill path if you need the full text]''"

text \<open>\<^verbatim>\<open>slice(0, n)\<close>, from the end for a negative number.\<close>

definition slice_head :: "int \<Rightarrow> string \<Rightarrow> string" where
  "slice_head n s = (if n < 0 then take (nat (int (length s) + n)) s else take (nat n) s)"

definition truncateToTokens :: "(string \<Rightarrow> nat) \<Rightarrow> string \<Rightarrow> nat \<Rightarrow> string" where
  "truncateToTokens rough content limit =
     (if rough content \<le> limit then content
      else slice_head (int limit * 4 - int (length SKILL_TRUNCATION_MARKER)) content @ SKILL_TRUNCATION_MARKER)"

record invoked_skill =
  sk_name :: string
  sk_path :: string
  sk_content :: string
  sk_invoked_at :: int

definition skills_to_restore :: "(string \<Rightarrow> nat) \<Rightarrow> invoked_skill list \<Rightarrow> (string \<times> string \<times> string) list" where
  "skills_to_restore rough skills =
     within_budget (\<lambda>(_, _, c). rough c) POST_COMPACT_SKILLS_TOKEN_BUDGET
       (map (\<lambda>s. (sk_name s, sk_path s, truncateToTokens rough (sk_content s) POST_COMPACT_MAX_TOKENS_PER_SKILL))
         (js_sort (\<lambda>a b. sk_invoked_at b \<le> sk_invoked_at a) skills)) 0"

text \<open>The attachment with the skills, if any are left; \<open>attach\<close> makes the message.\<close>

definition createSkillAttachmentIfNeeded ::
    "(string \<Rightarrow> nat) \<Rightarrow> ((string \<times> string \<times> string) list \<Rightarrow> conv_message) \<Rightarrow> invoked_skill list \<Rightarrow> conv_message option" where
  "createSkillAttachmentIfNeeded rough attach skills =
     (if skills = [] then None
      else let kept = skills_to_restore rough skills in if kept = [] then None else Some (attach kept))"

section \<open>The whole conversation, and a part of it\<close>

text \<open>
  The result, the files known to be read afterwards, and whether an error is shown. \<open>prompt\<close>
  makes the request of the instructions.
\<close>

type_synonym compaction_outcome = "compaction_result outcome \<times> (string, read_state) js_map \<times> bool"

definition shows_error :: "string \<Rightarrow> bool" where
  "shows_error e = (e \<noteq> ERROR_MESSAGE_USER_ABORT \<and> e \<noteq> ERROR_MESSAGE_NOT_ENOUGH_MESSAGES)"

definition joined_display :: "string option \<Rightarrow> string option \<Rightarrow> string option" where
  "joined_display a b =
     (let t = js_join [CHR 0x0A] (filter (\<lambda>s. s \<noteq> []) [nullish a [], nullish b []]) in if t = [] then None else Some t)"

definition compactConversation ::
    "compact_port \<Rightarrow> restore_port \<Rightarrow> bool \<Rightarrow> (string option \<Rightarrow> string) \<Rightarrow> bool \<Rightarrow> string option \<Rightarrow> bool \<Rightarrow>
     (string, read_state) js_map \<Rightarrow> conv_message list \<Rightarrow> compaction_outcome" where
  "compactConversation p rp proactive prompt no_questions instructions auto files ms =
     (let fail = (\<lambda>e files. (Inl e, files, \<not> auto \<and> shows_error e)) in
      if ms = [] then fail ERROR_MESSAGE_NOT_ENOUGH_MESSAGES files
      else
        let pre = cp_tokens p ms in
        case cp_pre_hooks p auto instructions of
          Inl e \<Rightarrow> fail e files
        | Inr (hook, display) \<Rightarrow>
            (case snd (summary_loop p (prompt (mergeHookInstructions instructions hook)) 0 ms) of
               Inl e \<Rightarrow> fail e files
             | Inr response \<Rightarrow>
                 (case checked_summary p response of
                    Inl e \<Rightarrow> fail e files
                  | Inr summary \<Rightarrow>
                      let attachments = createPostCompactFileAttachments rp files POST_COMPACT_MAX_FILES_TO_RESTORE [] @ cp_attachments p [] in
                      case cp_start_hooks p of
                        Inl e \<Rightarrow> fail e []
                      | Inr hooks \<Rightarrow>
                          let boundary = boundary_of p auto pre (last_uuid ms) ms;
                              messages = [cp_user_message p (getCompactUserSummaryMessage summary no_questions (cp_transcript p) False proactive) False True];
                              true_post = cp_rough p (bm_message boundary # messages @ attachments @ hooks)
                          in case cp_post_hooks p auto summary of
                               Inl e \<Rightarrow> fail e []
                             | Inr display2 \<Rightarrow>
                                 (Inr \<lparr>cr_boundary = boundary, cr_summary = messages, cr_attachments = attachments,
                                    cr_hooks = hooks, cr_keep = None, cr_display = joined_display display display2,
                                    cr_pre_tokens = Some pre, cr_post_tokens = cp_api_tokens p [response],
                                    cr_true_post_tokens = Some true_post\<rparr>, [], False))))"

fun is_progress :: "conv_body \<Rightarrow> bool" where
  "is_progress Body_progress = True"
| "is_progress _ = False"

fun is_summary :: "conv_body \<Rightarrow> bool" where
  "is_summary (Body_user _ _ s) = s"
| "is_summary _ = False"

definition partial_summarized :: "bool \<Rightarrow> nat \<Rightarrow> conv_message list \<Rightarrow> conv_message list" where
  "partial_summarized up_to pivot ms = (if up_to then take pivot ms else drop pivot ms)"

definition partial_kept :: "(conv_message \<Rightarrow> bool) \<Rightarrow> bool \<Rightarrow> nat \<Rightarrow> conv_message list \<Rightarrow> conv_message list" where
  "partial_kept boundary up_to pivot ms =
     (if up_to
      then filter (\<lambda>m. \<not> is_progress (cm_body m) \<and> \<not> boundary m \<and> \<not> is_summary (cm_body m)) (drop pivot ms)
      else filter (\<lambda>m. \<not> is_progress (cm_body m)) (take pivot ms))"

definition partial_instructions :: "string option \<Rightarrow> string option \<Rightarrow> string option" where
  "partial_instructions hook feedback =
     (if hook \<notin> {None, Some []} \<and> feedback \<notin> {None, Some []}
        then Some (nullish hook [] @ [CHR 0x0A, CHR 0x0A] @ ''User context: '' @ nullish feedback [])
      else if hook \<notin> {None, Some []} then hook
      else if feedback \<notin> {None, Some []} then Some (''User context: '' @ nullish feedback [])
      else None)"

definition partialCompactConversation ::
    "compact_port \<Rightarrow> restore_port \<Rightarrow> (bool \<Rightarrow> string option \<Rightarrow> string) \<Rightarrow> nat \<Rightarrow> bool \<Rightarrow> string option \<Rightarrow>
     (string, read_state) js_map \<Rightarrow> conv_message list \<Rightarrow> compaction_outcome" where
  "partialCompactConversation p rp prompt pivot up_to feedback files ms =
     (let fail = (\<lambda>e files. (Inl e, files, shows_error e));
          part = partial_summarized up_to pivot ms;
          keep = partial_kept (cp_is_boundary p) up_to pivot ms
      in if part = [] then
           fail (if up_to then ''Nothing to summarize before the selected message.''
             else ''Nothing to summarize after the selected message.'') files
         else
           let pre = cp_tokens p ms in
           case cp_pre_hooks p False None of
             Inl e \<Rightarrow> fail e files
           | Inr (hook, _) \<Rightarrow>
               (case snd (summary_loop p (prompt up_to (partial_instructions hook feedback)) 0 (if up_to then part else ms)) of
                  Inl e \<Rightarrow> fail e files
                | Inr response \<Rightarrow>
                    (case checked_summary p response of
                       Inl e \<Rightarrow> fail e files
                     | Inr summary \<Rightarrow>
                         let attachments = createPostCompactFileAttachments rp files POST_COMPACT_MAX_FILES_TO_RESTORE keep @ cp_attachments p keep in
                         case cp_start_hooks p of
                           Inl e \<Rightarrow> fail e []
                         | Inr hooks \<Rightarrow>
                             let before = (if up_to then last_uuid (filter (\<lambda>m. \<not> is_progress (cm_body m)) (take pivot ms)) else last_uuid keep);
                                 boundary = boundary_of p False pre before ms;
                                 messages = [cp_user_message p (getCompactUserSummaryMessage summary False (cp_transcript p) False False) False True]
                             in case cp_post_hooks p False summary of
                                  Inl e \<Rightarrow> fail e []
                                | Inr display \<Rightarrow>
                                    let anchor = (if up_to then cm_uuid (last messages) else cm_uuid (bm_message boundary))
                                    in (Inr \<lparr>cr_boundary = annotateBoundaryWithPreservedSegment boundary anchor (Some keep),
                                         cr_summary = messages, cr_attachments = attachments, cr_hooks = hooks,
                                         cr_keep = Some keep, cr_display = display, cr_pre_tokens = Some pre,
                                         cr_post_tokens = cp_api_tokens p [response], cr_true_post_tokens = None\<rparr>, [], False))))"

section \<open>What is kept beside the notes is complete\<close>

lemma keep_index_adjusted:
  assumes "calculateMessagesToKeepIndex h boundary c ms i = Some a"
  shows "ms = [] \<or> (\<exists>start. a = adjustIndexToPreserveAPIInvariants ms start)"
  using assms by (auto simp: calculateMessagesToKeepIndex_def Let_def split: if_splits)

lemma keep_index_complete:
  assumes "calculateMessagesToKeepIndex h boundary c ms i = Some a"
    and wr: "results_in_round ms" "named_responses ms"
    and j: "a \<le> j" "j < length ms" "x \<in> set (getToolResultIds (ms ! j))"
  shows "\<exists>k \<ge> a. k < length ms \<and> x \<in> set (toolUseIds (ms ! k))"
proof -
  obtain start where "a = adjustIndexToPreserveAPIInvariants ms start"
    using keep_index_adjusted [OF assms(1)] j by auto
  then show ?thesis using kept_results_complete [OF wr, of start j x] j by simp
qed

lemma session_result_keep:
  "cr_keep (createCompactionResultFromSessionMemory h p pro path plan ms memory keep hooks) = Some keep"
  by (simp add: createCompactionResultFromSessionMemory_def Let_def split: prod.split)

lemma try_session_kept:
  assumes "trySessionMemoryCompaction h p enabled pro path plan tmpl memory summarized c ms threshold = Some r"
  obtains i a where "calculateMessagesToKeepIndex h (cp_is_boundary p) c ms i = Some a"
    "cr_keep r = Some (filter (\<lambda>m. \<not> cp_is_boundary p m) (drop a ms))"
proof -
  obtain nt where nts: "memory = Some nt"
    using assms by (cases memory) (simp_all add: trySessionMemoryCompaction_def)
  let ?index = "if summarized \<notin> {None, Some []} then map_option int (findIndex ms (nullish summarized []))
      else Some (int (length ms) - 1)"
  obtain i where i: "?index = Some i" "enabled \<and> nt \<noteq> [] \<and> \<not> isSessionMemoryEmpty tmpl nt"
    using assms nts by (cases ?index) (simp_all add: trySessionMemoryCompaction_def split: if_split_asm)
  obtain a where a: "calculateMessagesToKeepIndex h (cp_is_boundary p) c ms i = Some a"
    using assms nts i by (cases "calculateMessagesToKeepIndex h (cp_is_boundary p) c ms i")
      (simp_all only: trySessionMemoryCompaction_def Let_def option.case prod.case if_False if_True simp_thms de_Morgan_disj, simp_all)
  obtain hooks where hooks: "cp_start_hooks p = Inr hooks"
    using assms nts i a by (cases "cp_start_hooks p") (simp_all add: trySessionMemoryCompaction_def Let_def)
  have "cr_keep r = Some (filter (\<lambda>m. \<not> cp_is_boundary p m) (drop a ms))"
    using assms nts i a hooks
    by (auto simp: trySessionMemoryCompaction_def Let_def session_result_keep split: option.split_asm if_split_asm)
  then show thesis using that a by blast
qed

lemma kept_pairs:
  assumes "trySessionMemoryCompaction h p enabled pro path plan tmpl memory summarized c ms threshold = Some r"
    and wr: "results_in_round ms" "named_responses ms"
    and boundary: "\<And>m. cp_is_boundary p m \<Longrightarrow> toolUseIds m = []"
    and m: "m \<in> set (nullish (cr_keep r) [])" "x \<in> set (getToolResultIds m)"
  shows "\<exists>m' \<in> set (nullish (cr_keep r) []). x \<in> set (toolUseIds m')"
proof -
  obtain i a where a: "calculateMessagesToKeepIndex h (cp_is_boundary p) c ms i = Some a"
      "cr_keep r = Some (filter (\<lambda>m. \<not> cp_is_boundary p m) (drop a ms))"
    using try_session_kept [OF assms(1)] .
  then have "m \<in> set (drop a ms)" using m(1) by auto
  then obtain j where "a + j < length ms" "ms ! (a + j) = m"
    by (metis add.commute in_set_conv_nth length_drop less_diff_conv nth_drop less_or_eq_imp_le
        linorder_not_less drop_all length_0_conv list.size(3) not_less_zero)
  then obtain k where k: "a \<le> k" "k < length ms" "x \<in> set (toolUseIds (ms ! k))"
    using keep_index_complete [OF a(1) wr le_add1] m(2) by metis
  then have "ms ! k \<in> set (drop a ms)" by (intro in_dropI)
  moreover have "\<not> cp_is_boundary p (ms ! k)" using boundary k(3) by fastforce
  ultimately show ?thesis using a(2) k(3) by auto
qed

section \<open>A request that is too long shrinks\<close>

lemma cover_gap_le: "cover_gap rough gap gs acc \<le> length gs"
  by (induction rough gap gs acc rule: cover_gap.induct) auto

text \<open>The message made for the retry is the one the next retry takes off again.\<close>

definition marker_law :: "compact_port \<Rightarrow> bool" where
  "marker_law p = is_retry_marker (cp_user_message p PTL_RETRY_MARKER True False)"

lemma truncate_head_shrinks:
  assumes "truncateHeadForPTLRetry p ms response = Some ms'" "marker_law p"
  shows "\<exists>n > 0. n < length (groupMessagesByApiRound (without_marker ms)) \<and>
    groupMessagesByApiRound (without_marker ms') = drop n (groupMessagesByApiRound (without_marker ms)) \<and>
    is_retry_marker (hd ms') \<and> without_marker ms' = concat (drop n (groupMessagesByApiRound (without_marker ms)))"
proof -
  let ?gs = "groupMessagesByApiRound (without_marker ms)"
  define n where "n = drop_count (cp_rough p) (cp_gap p response) ?gs"
  have n: "0 < n" "n < length ?gs"
    using assms(1) by (auto simp: truncateHeadForPTLRetry_def n_def [symmetric] Let_def drop_count_def split: if_splits)
      (auto simp: n_def drop_count_def min_def split: if_splits)
  obtain g gs where gs: "drop n ?gs = g # gs" using n(2) by (cases "drop n ?gs") auto
  then have mem: "g \<in> set (drop n ?gs)" by simp
  then have "g \<in> set (tl ?gs)" using n(1) by (metis One_nat_def Suc_leI drop_Suc in_mono set_drop_subset_set_drop drop_0)
  then have hd: "response_id (cm_body (hd g)) \<noteq> None" by (rule later_groups_assistant)
  have "g \<noteq> []" using mem groups_ne in_set_dropD by metis
  then have hd2: "concat (drop n ?gs) \<noteq> []" "response_id (cm_body (hd (concat (drop n ?gs)))) \<noteq> None"
    using gs hd by simp_all
  then have ms': "ms' = cp_user_message p PTL_RETRY_MARKER True False # concat (drop n ?gs)"
    using assms(1) n by (auto simp: truncateHeadForPTLRetry_def n_def [symmetric] Let_def split: if_splits)
  then have w: "without_marker ms' = concat (drop n ?gs)" "is_retry_marker (hd ms')"
    using assms(2) by (simp_all add: without_marker_def marker_law_def)
  then show ?thesis using n regroup [OF n(1), of "without_marker ms"] by auto
qed

definition rounds_of :: "conv_message list \<Rightarrow> conv_message list list" where
  "rounds_of ms = groupMessagesByApiRound (without_marker ms)"

lemma summary_loop_step:
  obtains "fst (summary_loop p prompt attempts ms) = [ms]"
      "\<forall>r. snd (summary_loop p prompt attempts ms) = Inr r \<longrightarrow> \<not> too_long p r"
  | response ms' where "attempts < MAX_PTL_RETRIES" "truncateHeadForPTLRetry p ms response = Some ms'"
      "fst (summary_loop p prompt attempts ms) = ms # fst (summary_loop p prompt (attempts + 1) ms')"
      "snd (summary_loop p prompt attempts ms) = snd (summary_loop p prompt (attempts + 1) ms')"
proof (cases "cp_ask p attempts prompt ms")
  case (Inl e)
  then have "summary_loop p prompt attempts ms = ([ms], Inl e)" by (subst summary_loop.simps) simp
  then show thesis using that(1) by simp
next
  case (Inr response)
  show thesis
  proof (cases "too_long p response")
    case False
    with Inr have "summary_loop p prompt attempts ms = ([ms], Inr response)" by (subst summary_loop.simps) simp
    with False show thesis using that(1) by simp
  next
    case True
    show thesis
    proof (cases "if attempts + 1 \<le> MAX_PTL_RETRIES then truncateHeadForPTLRetry p ms response else None")
      case None
      with Inr True have "summary_loop p prompt attempts ms = ([ms], Inl ERROR_MESSAGE_PROMPT_TOO_LONG)"
        by (subst summary_loop.simps) simp
      then show thesis using that(1) by simp
    next
      case (Some ms')
      then have t: "attempts < MAX_PTL_RETRIES" "truncateHeadForPTLRetry p ms response = Some ms'"
        by (simp_all split: if_splits)
      obtain asked result where n: "summary_loop p prompt (attempts + 1) ms' = (asked, result)" by fastforce
      with Inr True Some have "summary_loop p prompt attempts ms = (ms # asked, result)"
        by (subst summary_loop.simps) (simp only: sum.case not_True_eq_False if_False option.case prod.case)
      with n show thesis using that(2) t by simp
    qed
  qed
qed

lemma shrunk_rounds:
  assumes "truncateHeadForPTLRetry p ms response = Some ms'" "marker_law p"
  obtains n where "0 < n" "n < length (rounds_of ms)" "rounds_of ms' = drop n (rounds_of ms)" "is_retry_marker (hd ms')"
  using truncate_head_shrinks [OF assms] that by (auto simp: rounds_of_def)

definition cut_request :: "conv_message list \<Rightarrow> conv_message list \<Rightarrow> bool" where
  "cut_request ms r \<longleftrightarrow>
     is_retry_marker (hd r) \<and> (\<exists>n > 0. n < length (rounds_of ms) \<and> rounds_of r = drop n (rounds_of ms))"

lemma cut_request_trans: "cut_request ms r \<Longrightarrow> cut_request r r' \<Longrightarrow> cut_request ms r'"
  unfolding cut_request_def by (metis add_gr_0 drop_drop length_drop less_diff_conv)

lemma cut_request_fewer: "cut_request ms r \<Longrightarrow> length (rounds_of r) < length (rounds_of ms)"
  by (auto simp: cut_request_def)

lemma request_rounds:
  assumes "marker_law p"
  shows "attempts + k = MAX_PTL_RETRIES \<Longrightarrow>
    length (fst (summary_loop p prompt attempts ms)) \<le> k + 1 \<and>
    (\<exists>rs. fst (summary_loop p prompt attempts ms) = ms # rs) \<and>
    sorted_wrt cut_request (fst (summary_loop p prompt attempts ms)) \<and>
    (\<forall>r. snd (summary_loop p prompt attempts ms) = Inr r \<longrightarrow> \<not> too_long p r)"
proof (induction k arbitrary: attempts ms)
  case 0
  then show ?case by (cases rule: summary_loop_step [of p prompt attempts ms]) simp_all
next
  case (Suc k)
  show ?case
  proof (cases rule: summary_loop_step [of p prompt attempts ms])
    case 1
    then show ?thesis by simp
  next
    case (2 response ms')
    let ?next = "summary_loop p prompt (attempts + 1) ms'"
    have ih: "length (fst ?next) \<le> k + 1" "\<exists>rs. fst ?next = ms' # rs" "sorted_wrt cut_request (fst ?next)"
        "\<forall>r. snd ?next = Inr r \<longrightarrow> \<not> too_long p r"
      using Suc.IH [of "attempts + 1" ms'] Suc.prems by simp_all
    have "cut_request ms ms'"
      using shrunk_rounds [OF 2(2) assms] unfolding cut_request_def by metis
    then have "\<forall>r \<in> set (fst ?next). cut_request ms r"
      using ih(2,3) cut_request_trans by auto
    then show ?thesis using 2(3,4) ih by simp
  qed
qed

text \<open>Nothing that was said is lost by a compaction of a part.\<close>

lemma partial_covers:
  assumes "m \<in> set ms"
  shows "m \<in> set (partial_summarized up_to pivot ms) \<or> m \<in> set (partial_kept boundary up_to pivot ms) \<or>
    is_progress (cm_body m) \<or> up_to \<and> (boundary m \<or> is_summary (cm_body m))"
proof -
  have "m \<in> set (take pivot ms) \<or> m \<in> set (drop pivot ms)"
    using assms by (metis Un_iff append_take_drop_id set_append)
  then show ?thesis by (auto simp: partial_summarized_def partial_kept_def)
qed

section \<open>What is put back fits its budget\<close>

lemma within_budget_sum: "used \<le> limit \<Longrightarrow> used + sum_list (map cost (within_budget cost limit xs used)) \<le> limit"
  by (induction cost limit xs used rule: within_budget.induct) auto

lemma within_budget_subseq: "subseq (within_budget cost limit xs used) xs"
  by (induction cost limit xs used rule: within_budget.induct) auto

lemma length_map_filter_le: "length (List.map_filter f xs) \<le> length xs"
  by (simp add: List.map_filter_def)

lemma restored_bounds:
  "sum_list (map (rp_size p) (createPostCompactFileAttachments p files limit keep)) \<le> POST_COMPACT_TOKEN_BUDGET"
  "length (createPostCompactFileAttachments p files limit keep) \<le> limit"
proof -
  let ?as = "List.map_filter (\<lambda>(f, _). rp_attachment p f) (recent_files p files limit keep)"
  show "sum_list (map (rp_size p) (createPostCompactFileAttachments p files limit keep)) \<le> POST_COMPACT_TOKEN_BUDGET"
    using within_budget_sum [of 0] by (fastforce simp: createPostCompactFileAttachments_def)
  have "length (createPostCompactFileAttachments p files limit keep) \<le> length ?as"
    unfolding createPostCompactFileAttachments_def by (rule list_emb_length [OF within_budget_subseq])
  also have "\<dots> \<le> length (recent_files p files limit keep)" by (rule length_map_filter_le)
  also have "\<dots> \<le> limit" by (simp add: recent_files_def Let_def)
  finally show "length (createPostCompactFileAttachments p files limit keep) \<le> limit" .
qed

lemma skills_bounds:
  "sum_list (map (\<lambda>(_, _, c). rough c) (skills_to_restore rough skills)) \<le> POST_COMPACT_SKILLS_TOKEN_BUDGET"
  using within_budget_sum [of 0] by (fastforce simp: skills_to_restore_def)

section \<open>Properties of the component\<close>

section \<open>A sample session\<close>

definition demo_port :: compact_port where
  "demo_port = \<lparr>cp_is_boundary = (\<lambda>m. case cm_body m of Body_system _ \<Rightarrow> True | _ \<Rightarrow> False),
     cp_tokens = (\<lambda>_. 0), cp_api_tokens = (\<lambda>_. None), cp_rough = length,
     cp_pre_hooks = (\<lambda>_ _. Inr (None, None)), cp_start_hooks = Inr [], cp_post_hooks = (\<lambda>_ _. Inr None),
     cp_ask = (\<lambda>_ _ _. Inr (demo_assistant ''a'' ''r'' [])), cp_text = (\<lambda>_. Some ''Prompt is too long''),
     cp_too_long = ''Prompt is too long'', cp_gap = (\<lambda>_. None), cp_api_error = (\<lambda>_. False),
     cp_user_message = (\<lambda>t meta summary. \<lparr>cm_uuid = ''s'', cm_timestamp = [], cm_body = Body_user (Content_text t) meta summary\<rparr>),
     cp_boundary_message = (\<lambda>_ _ _. \<lparr>cm_uuid = ''b'', cm_timestamp = [], cm_body = Body_system JNull\<rparr>),
     cp_discovered = (\<lambda>_. []), cp_transcript = ''t'', cp_attachments = (\<lambda>_. [])\<rparr>"

lemma demo_marker: "marker_law demo_port"
  by (simp add: marker_law_def demo_port_def is_retry_marker_def)

lemma demo_boundary: "cp_is_boundary demo_port m \<Longrightarrow> toolUseIds m = []"
  by (simp add: demo_port_def toolUseIds_def split: conv_body.splits)

abbreviation demo_try :: "compaction_result option" where
  "demo_try \<equiv> trySessionMemoryCompaction \<lparr>th_rough = length, th_json = (\<lambda>_. [])\<rparr> demo_port True False ''m'' [] ''template'' (Some ''notes'')
     (Some ''u4'') \<lparr>kc_min_tokens = 1, kc_min_texts = 1, kc_max_tokens = 0\<rparr> demo_conversation None"

lemma demo_try_keeps: "\<exists>r. demo_try = Some r"
proof -
  have "calculateMessagesToKeepIndex \<lparr>th_rough = length, th_json = (\<lambda>_. [])\<rparr> (cp_is_boundary demo_port)
      \<lparr>kc_min_tokens = 1, kc_min_texts = 1, kc_max_tokens = 0\<rparr> demo_conversation 3 = Some 1"
  proof -
    have "adjustIndexToPreserveAPIInvariants demo_conversation 4 = 1" by code_simp
    then show ?thesis by (simp add: calculateMessagesToKeepIndex_def) (simp add: demo_conversation_def)
  qed
  moreover have "findIndex demo_conversation ''u4'' = Some 3" by code_simp
  moreover have "\<not> isSessionMemoryEmpty ''template'' ''notes''" by code_simp
  ultimately show ?thesis by (simp add: trySessionMemoryCompaction_def Let_def demo_port_def)
qed

text \<open>
  C17: In a conversation where each tool result follows its use within the round trip, a
  compaction by the notes keeps with every tool result its tool use, so the service never
  sees a result without its use. The kept messages are the conversation from some place on,
  without old boundaries.
\<close>

theorem compaction_keeps_pairs:
  assumes "trySessionMemoryCompaction h p enabled proactive path plan tmpl memory summarized c ms threshold = Some r"
    and "results_in_round ms" "named_responses ms"
    and "\<And>m. cp_is_boundary p m \<Longrightarrow> toolUseIds m = []"
  shows "(\<exists>a. cr_keep r = Some (filter (\<lambda>m. \<not> cp_is_boundary p m) (drop a ms))) \<and>
    (\<forall>m \<in> set (nullish (cr_keep r) []). \<forall>x \<in> set (getToolResultIds m).
       \<exists>m' \<in> set (nullish (cr_keep r) []). x \<in> set (toolUseIds m'))"
  using kept_pairs [OF assms] try_session_kept [OF assms(1)] by metis

theorem compaction_keeps_pairs_witness:
  "\<exists>r. demo_try = Some r \<and> (\<forall>m \<in> set (nullish (cr_keep r) []). \<forall>x \<in> set (getToolResultIds m).
     \<exists>m' \<in> set (nullish (cr_keep r) []). x \<in> set (toolUseIds m'))"
  using demo_try_keeps compaction_keeps_pairs [OF _ demo_conversation_ok demo_boundary] by metis

text \<open>
  C19: A compaction goes through at most four rounds of requests for a summary, the first
  about the whole conversation. Each later round asks about fewer round trips than every
  earlier one: the marker of a retry followed by a tail of the round trips, at least one, so
  it begins with a user message. An answer that the request was too long is never taken for
  the summary. How often the service is asked within one round, on which path, is not
  modelled; the law on the port is that a marker message is a user message with the marker's
  text.
\<close>

theorem summary_requests_shrink:
  assumes "marker_law p"
  shows "let (asked, result) = summary_loop p prompt 0 ms in
    length asked \<le> 4 \<and> hd asked = ms \<and>
    sorted_wrt (\<lambda>r r'. length (rounds_of r') < length (rounds_of r) \<and> rounds_of r' \<noteq> [] \<and> is_retry_marker (hd r') \<and>
      (\<exists>n. rounds_of r' = drop n (rounds_of r))) asked \<and>
    (\<forall>r. result = Inr r \<longrightarrow> \<not> too_long p r)"
proof -
  obtain asked result where l: "summary_loop p prompt 0 ms = (asked, result)" by fastforce
  have r: "length asked \<le> 4" "\<exists>rs. asked = ms # rs" "sorted_wrt cut_request asked"
      "\<forall>r. result = Inr r \<longrightarrow> \<not> too_long p r"
    using request_rounds [OF assms, of 0 3 prompt ms] l by (simp_all add: MAX_PTL_RETRIES_def)
  have "sorted_wrt (\<lambda>r r'. length (rounds_of r') < length (rounds_of r) \<and> rounds_of r' \<noteq> [] \<and> is_retry_marker (hd r') \<and>
      (\<exists>n. rounds_of r' = drop n (rounds_of r))) asked"
    by (rule sorted_wrt_mono_rel [OF _ r(3)]) (auto simp: cut_request_def)
  with l r show ?thesis by auto
qed

theorem summary_requests_shrink_witness: "length (fst (summary_loop demo_port ''p'' 0 demo_conversation)) \<le> 4"
  using summary_requests_shrink [OF demo_marker, of "''p''" demo_conversation] by (simp add: Let_def case_prod_beta)

text \<open>
  The files put back after a compaction are at most the number asked for and together within
  the budget of tokens, and so are the skills within theirs.
\<close>

theorem restored_within_budget:
  "length (createPostCompactFileAttachments p files limit keep) \<le> limit \<and>
   sum_list (map (rp_size p) (createPostCompactFileAttachments p files limit keep)) \<le> POST_COMPACT_TOKEN_BUDGET \<and>
   sum_list (map (\<lambda>(_, _, c). rough c) (skills_to_restore rough skills)) \<le> POST_COMPACT_SKILLS_TOKEN_BUDGET"
  using restored_bounds skills_bounds by blast

end
