(* ===== verification/Auto_Compact.thy ===== *)
theory Auto_Compact
  imports Compaction
begin

text \<open>
  When a conversation is compacted without being asked to, \<^verbatim>\<open>src/src/memory/compact/autoCompact.ts\<close>:
  the thresholds, the warnings, the decision, and the stop after three failures in a row. The
  window of a model and its limit of output, the settings and the environment are the record
  \<open>auto_env\<close>; a variable that is not set and an empty one read the same.
\<close>

section \<open>Numbers at the start of a text\<close>

text \<open>\<^verbatim>\<open>parseInt(s, 10)\<close>: a sign and digits after blanks.\<close>

definition signed :: "string \<Rightarrow> bool \<times> string" where
  "signed s =
     (case s of
        [] \<Rightarrow> (False, [])
      | c # t \<Rightarrow> if c = CHR ''-'' then (True, t) else if c = CHR ''+'' then (False, t) else (False, s))"

definition parse_int :: "string \<Rightarrow> int option" where
  "parse_int s =
     (let (minus, t) = signed (js_trim s); (ds, _) = digit_span t in
      if ds = [] then None
      else map_option (\<lambda>n. if minus then - int n else int n) (digits_val 0 ds))"

text \<open>\<^verbatim>\<open>parseFloat(s)\<close>: the longest numeral at the start.\<close>

definition numeral_prefix :: "string \<Rightarrow> string" where
  "numeral_prefix s =
     (let (whole, t) = digit_span s;
          (part, t) = (case t of
              [] \<Rightarrow> ([], [])
            | c # u \<Rightarrow>
                if c = CHR ''.'' then
                  let (ds, v) = digit_span u
                  in if whole = [] \<and> ds = [] then ([], t) else (c # ds, v)
                else ([], t));
          mantissa = whole @ part;
          expo = (case t of
              [] \<Rightarrow> []
            | c # u \<Rightarrow>
                if c \<in> {CHR ''e'', CHR ''E''} then
                  let (sign, v) = (case u of
                        [] \<Rightarrow> ([], [])
                      | d # w \<Rightarrow> if d \<in> {CHR ''-'', CHR ''+''} then ([d], w) else ([], u));
                      (ds, _) = digit_span v
                  in if ds = [] then [] else c # sign @ ds
                else [])
      in mantissa @ expo)"

definition parse_float :: "string \<Rightarrow> js_number" where
  "parse_float s =
     (let (minus, t) = signed (js_trim s);
          n = (if js_starts_with t ''Infinity'' then JInfinity else decimal_number (numeral_prefix t))
      in if minus then negative n else n)"

text \<open>A rational rounded to a double.\<close>

definition round_rat :: "rat \<Rightarrow> rat" where
  "round_rat q =
     (let (a, b) = quotient_of \<bar>q\<bar> in
      case number_of_fraction (nat a) (nat b) of
        JFinite r \<Rightarrow> if q < 0 then - r else r
      | _ \<Rightarrow> q)"

section \<open>Thresholds\<close>

record auto_env =
  av_window :: int
  av_max_output :: int
  av_auto_window :: string
  av_percent :: string
  av_blocking :: string
  av_disable_compact :: bool
  av_disable_auto :: bool
  av_setting :: bool

definition MAX_OUTPUT_TOKENS_FOR_SUMMARY :: int where "MAX_OUTPUT_TOKENS_FOR_SUMMARY = 20000"
definition AUTOCOMPACT_BUFFER_TOKENS :: int where "AUTOCOMPACT_BUFFER_TOKENS = 13000"
definition WARNING_THRESHOLD_BUFFER_TOKENS :: int where "WARNING_THRESHOLD_BUFFER_TOKENS = 20000"
definition ERROR_THRESHOLD_BUFFER_TOKENS :: int where "ERROR_THRESHOLD_BUFFER_TOKENS = 20000"
definition MANUAL_COMPACT_BUFFER_TOKENS :: int where "MANUAL_COMPACT_BUFFER_TOKENS = 3000"
definition MAX_CONSECUTIVE_AUTOCOMPACT_FAILURES :: nat where "MAX_CONSECUTIVE_AUTOCOMPACT_FAILURES = 3"

definition getEffectiveContextWindowSize :: "auto_env \<Rightarrow> int" where
  "getEffectiveContextWindowSize e =
     (let reserved = min (av_max_output e) MAX_OUTPUT_TOKENS_FOR_SUMMARY;
          window = (case parse_int (av_auto_window e) of
              Some n \<Rightarrow> if n > 0 then min (av_window e) n else av_window e
            | None \<Rightarrow> av_window e)
      in window - reserved)"

definition getAutoCompactThreshold :: "auto_env \<Rightarrow> int" where
  "getAutoCompactThreshold e =
     (let window = getEffectiveContextWindowSize e; threshold = window - AUTOCOMPACT_BUFFER_TOKENS in
      case (if av_percent e = [] then JNaN else parse_float (av_percent e)) of
        JFinite q \<Rightarrow>
          if q > 0 \<and> q \<le> 100 then min \<lfloor>round_rat (of_int window * round_rat (q / 100))\<rfloor> threshold else threshold
      | _ \<Rightarrow> threshold)"

definition isAutoCompactEnabled :: "auto_env \<Rightarrow> bool" where
  "isAutoCompactEnabled e = (\<not> av_disable_compact e \<and> \<not> av_disable_auto e \<and> av_setting e)"

record warning_state =
  ws_percent_left :: js_number
  ws_warning :: bool
  ws_error :: bool
  ws_auto :: bool
  ws_blocking :: bool

text \<open>\<^verbatim>\<open>Math.max(0, Math.round(((threshold - usage) / threshold) * 100))\<close>.\<close>

definition percent_left :: "int \<Rightarrow> int \<Rightarrow> js_number" where
  "percent_left threshold usage =
     (if threshold = 0
      then (if usage = 0 then JNaN else if usage < 0 then JInfinity else JFinite 0)
      else JFinite (of_int (max 0 \<lfloor>round_rat (round_rat (of_int (threshold - usage) / of_int threshold) * 100) + 1 / 2\<rfloor>)))"

definition calculateTokenWarningState :: "auto_env \<Rightarrow> int \<Rightarrow> warning_state" where
  "calculateTokenWarningState e usage =
     (let auto = getAutoCompactThreshold e;
          threshold = (if isAutoCompactEnabled e then auto else getEffectiveContextWindowSize e);
          blocking = (case parse_int (av_blocking e) of
              Some n \<Rightarrow> if n > 0 then n else getEffectiveContextWindowSize e - MANUAL_COMPACT_BUFFER_TOKENS
            | None \<Rightarrow> getEffectiveContextWindowSize e - MANUAL_COMPACT_BUFFER_TOKENS)
      in \<lparr>ws_percent_left = percent_left threshold usage,
           ws_warning = (usage \<ge> threshold - WARNING_THRESHOLD_BUFFER_TOKENS),
           ws_error = (usage \<ge> threshold - ERROR_THRESHOLD_BUFFER_TOKENS),
           ws_auto = (isAutoCompactEnabled e \<and> usage \<ge> auto),
           ws_blocking = (usage \<ge> blocking)\<rparr>)"

section \<open>The decision\<close>

text \<open>
  The features of the build that suppress it: whether the context is collapsed by another module
  (built in, and enabled), and the mode that only reacts.
\<close>

record auto_features =
  af_collapse :: bool
  af_collapse_enabled :: bool
  af_reactive_only :: bool

definition shouldAutoCompact ::
    "auto_env \<Rightarrow> auto_features \<Rightarrow> (conv_message list \<Rightarrow> int) \<Rightarrow> conv_message list \<Rightarrow> string option \<Rightarrow> int \<Rightarrow> bool" where
  "shouldAutoCompact e f tokens ms source freed =
     (if source \<in> {Some ''session_memory'', Some ''compact''} then False
      else if af_collapse f \<and> source = Some ''marble_origami'' then False
      else if \<not> isAutoCompactEnabled e then False
      else if af_reactive_only f then False
      else if af_collapse f \<and> af_collapse_enabled f then False
      else ws_auto (calculateTokenWarningState e (tokens ms - freed)))"

record tracking =
  tk_compacted :: bool
  tk_turn_counter :: int
  tk_turn_id :: string
  tk_failures :: "nat option"

record auto_result =
  ar_compacted :: bool
  ar_result :: "compaction_result option"
  ar_failures :: "nat option"

text \<open>
  The two ways to compact are arguments, the first with the threshold. On success the index of
  the notes is reset, and the state of the smaller reductions; other caches cleared on that
  occasion are not in the repository.
\<close>

definition autoCompactIfNeeded ::
    "('c, 'e) cache_module \<Rightarrow> auto_env \<Rightarrow> auto_features \<Rightarrow> (conv_message list \<Rightarrow> int) \<Rightarrow>
     (int \<Rightarrow> compaction_result option) \<Rightarrow> compaction_result outcome \<Rightarrow>
     conv_message list \<Rightarrow> string option \<Rightarrow> tracking option \<Rightarrow> int \<Rightarrow> memory_vars \<times> ('c, 'e) micro_state \<Rightarrow>
     auto_result \<times> memory_vars \<times> ('c, 'e) micro_state" where
  "autoCompactIfNeeded k e f tokens session full ms source tracking freed s =
     (let no = (\<lambda>n. (\<lparr>ar_compacted = False, ar_result = None, ar_failures = n\<rparr>, s));
          failures = (case tracking of None \<Rightarrow> None | Some t \<Rightarrow> tk_failures t);
          fin = (setLastSummarizedMessageId None (fst s), resetMicrocompactState k (snd s))
      in if av_disable_compact e then no None
         else if failures \<noteq> None \<and> nullish failures 0 \<ge> MAX_CONSECUTIVE_AUTOCOMPACT_FAILURES then no None
         else if \<not> shouldAutoCompact e f tokens ms source freed then no None
         else
           case session (getAutoCompactThreshold e) of
             Some r \<Rightarrow> (\<lparr>ar_compacted = True, ar_result = Some r, ar_failures = None\<rparr>, fin)
           | None \<Rightarrow>
               (case full of
                  Inr r \<Rightarrow> (\<lparr>ar_compacted = True, ar_result = Some r, ar_failures = Some 0\<rparr>, fin)
                | Inl _ \<Rightarrow> no (Some (nullish failures 0 + 1))))"

section \<open>What the thresholds promise\<close>

lemma threshold_below_window:
  "getAutoCompactThreshold e \<le> getEffectiveContextWindowSize e - AUTOCOMPACT_BUFFER_TOKENS"
  by (simp add: getAutoCompactThreshold_def Let_def split: js_number.split)

lemma auto_implies_warning:
  "ws_auto (calculateTokenWarningState e usage) \<Longrightarrow>
   ws_warning (calculateTokenWarningState e usage) \<and> ws_error (calculateTokenWarningState e usage)"
  by (simp add: calculateTokenWarningState_def Let_def WARNING_THRESHOLD_BUFFER_TOKENS_def ERROR_THRESHOLD_BUFFER_TOKENS_def)

lemma warning_is_error: "ws_warning (calculateTokenWarningState e usage) = ws_error (calculateTokenWarningState e usage)"
  by (simp add: calculateTokenWarningState_def Let_def WARNING_THRESHOLD_BUFFER_TOKENS_def ERROR_THRESHOLD_BUFFER_TOKENS_def)

lemma blocking_implies_auto:
  assumes "isAutoCompactEnabled e" "\<And>n. parse_int (av_blocking e) = Some n \<Longrightarrow> n \<le> 0"
    and "ws_blocking (calculateTokenWarningState e usage)"
  shows "ws_auto (calculateTokenWarningState e usage)"
proof -
  have "getEffectiveContextWindowSize e - MANUAL_COMPACT_BUFFER_TOKENS \<le> usage"
    using assms(2, 3) by (fastforce simp: calculateTokenWarningState_def Let_def split: option.splits if_splits)
  then have "getAutoCompactThreshold e \<le> usage"
    using threshold_below_window [of e] by (simp add: AUTOCOMPACT_BUFFER_TOKENS_def MANUAL_COMPACT_BUFFER_TOKENS_def)
  then show ?thesis using assms(1) by (simp add: calculateTokenWarningState_def Let_def)
qed

section \<open>The stop after three failures\<close>

definition failures_of :: "tracking option \<Rightarrow> nat option" where
  "failures_of t = (case t of None \<Rightarrow> None | Some t \<Rightarrow> tk_failures t)"

lemma auto_stopped:
  "MAX_CONSECUTIVE_AUTOCOMPACT_FAILURES \<le> nullish (failures_of t) 0 \<Longrightarrow>
   autoCompactIfNeeded k e f tokens session full ms source t freed s =
     (\<lparr>ar_compacted = False, ar_result = None, ar_failures = None\<rparr>, s)"
  by (cases "failures_of t")
    (auto simp: autoCompactIfNeeded_def failures_of_def MAX_CONSECUTIVE_AUTOCOMPACT_FAILURES_def Let_def split: option.splits)

lemma auto_failure:
  assumes "ar_failures (fst (autoCompactIfNeeded k e f tokens session full ms source t freed s)) = Some (Suc n)"
  shows "n = nullish (failures_of t) 0 \<and> Suc n \<le> MAX_CONSECUTIVE_AUTOCOMPACT_FAILURES"
  using assms
  by (cases "failures_of t")
    (auto simp: autoCompactIfNeeded_def failures_of_def MAX_CONSECUTIVE_AUTOCOMPACT_FAILURES_def Let_def
      split: option.splits sum.splits if_splits)

text \<open>
  The turns of a session: what each finds, and how many of them try to compact and fail.
  \<open>thread\<close> is the caller, who keeps the tracking between turns.
\<close>

record auto_turn =
  au_session :: "int \<Rightarrow> compaction_result option"
  au_full :: "compaction_result outcome"
  au_messages :: "conv_message list"
  au_source :: "string option"
  au_freed :: int

fun failed_turns ::
    "('c, 'e) cache_module \<Rightarrow> auto_env \<Rightarrow> auto_features \<Rightarrow> (conv_message list \<Rightarrow> int) \<Rightarrow>
     (tracking option \<Rightarrow> auto_result \<Rightarrow> tracking option) \<Rightarrow> auto_turn list \<Rightarrow> tracking option \<Rightarrow>
     memory_vars \<times> ('c, 'e) micro_state \<Rightarrow> nat" where
  "failed_turns k e f tokens thread [] t s = 0"
| "failed_turns k e f tokens thread (u # us) t s =
     (let (r, s) = autoCompactIfNeeded k e f tokens (au_session u) (au_full u) (au_messages u) (au_source u) t (au_freed u) s
      in (if ar_failures r \<in> {None, Some 0} then 0 else 1) + failed_turns k e f tokens thread us (thread t r) s)"

definition threads :: "(tracking option \<Rightarrow> auto_result \<Rightarrow> tracking option) \<Rightarrow> bool" where
  "threads thread \<longleftrightarrow>
     (\<forall>t r. failures_of (thread t r) = (case ar_failures r of None \<Rightarrow> failures_of t | Some n \<Rightarrow> Some n))"

lemma full_failure_counts:
  assumes "\<And>r. full \<noteq> Inr r"
  shows "ar_failures (fst (autoCompactIfNeeded k e f tokens session full ms source t freed s)) \<noteq> Some 0"
  using assms by (cases full) (auto simp: autoCompactIfNeeded_def Let_def split: option.splits if_splits)

lemma failed_turns_bound:
  assumes "threads thread" "\<forall>u \<in> set us. \<exists>err. au_full u = Inl err"
  shows "nullish (failures_of t) 0 \<le> MAX_CONSECUTIVE_AUTOCOMPACT_FAILURES \<Longrightarrow>
    failed_turns k e f tokens thread us t s + nullish (failures_of t) 0 \<le> MAX_CONSECUTIVE_AUTOCOMPACT_FAILURES"
  using assms(2)
proof (induction us arbitrary: t s)
  case (Cons u us)
  obtain r s' where r: "autoCompactIfNeeded k e f tokens (au_session u) (au_full u) (au_messages u) (au_source u) t (au_freed u) s = (r, s')"
    using prod.exhaust .
  have f: "failures_of (thread t r) = (case ar_failures r of None \<Rightarrow> failures_of t | Some n \<Rightarrow> Some n)"
    using assms(1) by (simp add: threads_def)
  show ?case
  proof (cases "ar_failures r")
    case None
    then show ?thesis using Cons.IH [of "thread t r" s'] Cons.prems f r by simp
  next
    case (Some n)
    moreover have "ar_failures r \<noteq> Some 0"
      using full_failure_counts [of "au_full u" k e f tokens "au_session u" "au_messages u" "au_source u" t "au_freed u" s] Cons.prems(2) r
      by fastforce
    ultimately obtain m where m: "n = Suc m" by (cases n) auto
    then have "m = nullish (failures_of t) 0" "Suc m \<le> MAX_CONSECUTIVE_AUTOCOMPACT_FAILURES"
      using auto_failure [of k e f tokens "au_session u" "au_full u" "au_messages u" "au_source u" t "au_freed u" s m] r Some by simp_all
    then show ?thesis using Cons.IH [of "thread t r" s'] Cons.prems(2) f r Some m by simp
  qed
qed simp

lemma stopped_turns:
  assumes "threads thread"
  shows "MAX_CONSECUTIVE_AUTOCOMPACT_FAILURES \<le> nullish (failures_of t) 0 \<Longrightarrow> failed_turns k e f tokens thread us t s = 0"
proof (induction us arbitrary: t s)
  case (Cons u us)
  have "failures_of (thread t \<lparr>ar_compacted = False, ar_result = None, ar_failures = None\<rparr>) = failures_of t"
    using assms by (simp add: threads_def)
  then show ?case using Cons by (simp add: auto_stopped)
qed simp

lemma counted_failure:
  assumes "\<not> av_disable_compact e" "nullish (failures_of t) 0 < MAX_CONSECUTIVE_AUTOCOMPACT_FAILURES"
    "shouldAutoCompact e f tokens ms source freed" "session (getAutoCompactThreshold e) = None" "full = Inl err"
  shows "autoCompactIfNeeded k e f tokens session full ms source t freed s =
    (\<lparr>ar_compacted = False, ar_result = None, ar_failures = Some (nullish (failures_of t) 0 + 1)\<rparr>, s)"
  using assms by (simp add: autoCompactIfNeeded_def failures_of_def [symmetric] Let_def)

section \<open>Properties of the component\<close>

text \<open>
  C21: When compaction keeps failing, only so many turns of a session try it that the
  failures the tracking had at the start and these are three together, however many turns
  there are; a turn that tries and fails counts one up, and from three failures on a turn
  changes nothing. The caller, which is not in the repository, is assumed to keep the count
  a turn returns for the next one, and its own count when a turn returns none.
\<close>

theorem autocompact_gives_up:
  assumes "threads thread" "\<forall>u \<in> set us. \<exists>err. au_full u = Inl err"
  shows "failed_turns k e f tokens thread us t s + min 3 (nullish (failures_of t) 0) \<le> 3 \<and>
    (if 3 \<le> nullish (failures_of t) 0 then
       autoCompactIfNeeded k e f tokens session full ms source t freed s =
         (\<lparr>ar_compacted = False, ar_result = None, ar_failures = None\<rparr>, s)
     else
       \<not> av_disable_compact e \<and> shouldAutoCompact e f tokens ms source freed \<and>
       session (getAutoCompactThreshold e) = None \<and> full = Inl err \<longrightarrow>
       autoCompactIfNeeded k e f tokens session full ms source t freed s =
         (\<lparr>ar_compacted = False, ar_result = None, ar_failures = Some (nullish (failures_of t) 0 + 1)\<rparr>, s))"
proof (cases "3 \<le> nullish (failures_of t) 0")
  case True
  then show ?thesis
    using stopped_turns [OF assms(1), of t k e f tokens us s] auto_stopped [of t k e f tokens session full ms source freed s]
    by (simp add: MAX_CONSECUTIVE_AUTOCOMPACT_FAILURES_def)
next
  case False
  then show ?thesis
    using failed_turns_bound [OF assms, of t k e f tokens s]
      counted_failure [of e t f tokens ms source freed session full err k s]
    by (simp add: MAX_CONSECUTIVE_AUTOCOMPACT_FAILURES_def min_def)
qed

theorem autocompact_gives_up_witness:
  "\<forall>k s. failed_turns k \<lparr>av_window = 200000, av_max_output = 8000, av_auto_window = [], av_percent = [], av_blocking = [],
       av_disable_compact = False, av_disable_auto = False, av_setting = True\<rparr>
     \<lparr>af_collapse = False, af_collapse_enabled = False, af_reactive_only = False\<rparr> (\<lambda>_. 190000)
     (\<lambda>t r. Some \<lparr>tk_compacted = False, tk_turn_counter = 0, tk_turn_id = [],
        tk_failures = (case ar_failures r of None \<Rightarrow> failures_of t | Some n \<Rightarrow> Some n)\<rparr>)
     (replicate 9 \<lparr>au_session = (\<lambda>_. None), au_full = Inl ''too long'', au_messages = [], au_source = None, au_freed = 0\<rparr>)
     (Some \<lparr>tk_compacted = False, tk_turn_counter = 0, tk_turn_id = [], tk_failures = Some 2\<rparr>) s \<le> 1"
    (is "\<forall>k s. failed_turns k ?e ?f ?n ?thread ?us ?t s \<le> 1")
proof (intro allI)
  fix k s
  have "threads ?thread" "\<forall>u \<in> set ?us. \<exists>err. au_full u = Inl err" by (auto simp: threads_def failures_of_def)
  from autocompact_gives_up [OF this, THEN conjunct1]
  have "failed_turns k ?e ?f ?n ?thread ?us ?t s + min 3 (nullish (failures_of ?t) 0) \<le> 3" .
  moreover have "nullish (failures_of ?t) 0 = 2" by (simp add: failures_of_def)
  ultimately show "failed_turns k ?e ?f ?n ?thread ?us ?t s \<le> 1" by linarith
qed

text \<open>
  C22: Where compaction is enabled and the limit that blocks is not overridden, a
  conversation at that limit is also above the threshold of compaction, and above both
  warnings, whatever the overrides of window and percentage say. The warning and the error
  are always the same.
\<close>

theorem compaction_before_blocking:
  assumes "isAutoCompactEnabled e" "\<And>n. parse_int (av_blocking e) = Some n \<Longrightarrow> n \<le> 0"
  shows "(ws_blocking (calculateTokenWarningState e usage) \<longrightarrow> ws_auto (calculateTokenWarningState e usage)) \<and>
    (ws_auto (calculateTokenWarningState e usage) \<longrightarrow> ws_warning (calculateTokenWarningState e usage)) \<and>
    ws_warning (calculateTokenWarningState e usage) = ws_error (calculateTokenWarningState e usage)"
  using blocking_implies_auto [OF assms] auto_implies_warning warning_is_error by blast

theorem compaction_before_blocking_witness:
  "ws_auto (calculateTokenWarningState \<lparr>av_window = 200000, av_max_output = 8000, av_auto_window = [], av_percent = ''50'',
     av_blocking = [], av_disable_compact = False, av_disable_auto = False, av_setting = True\<rparr> 190000)"
proof -
  let ?e = "\<lparr>av_window = 200000, av_max_output = 8000, av_auto_window = [], av_percent = ''50'',
     av_blocking = [], av_disable_compact = False, av_disable_auto = False, av_setting = True\<rparr>"
  have "isAutoCompactEnabled ?e" by (simp add: isAutoCompactEnabled_def)
  moreover have none: "parse_int [] = None" by code_simp
  moreover have "ws_blocking (calculateTokenWarningState ?e 190000)"
    by (simp add: calculateTokenWarningState_def none Let_def getEffectiveContextWindowSize_def MANUAL_COMPACT_BUFFER_TOKENS_def
        MAX_OUTPUT_TOKENS_FOR_SUMMARY_def)
  ultimately show ?thesis using compaction_before_blocking [of ?e 190000] by simp
qed

end
