(* ===== verification/Company_Snapshot.thy ===== *)
theory Company_Snapshot
  imports Agent_Registry JS_Number
begin

text \<open>
  The snapshot of the company and the model the dashboard reads, \<^verbatim>\<open>src/app/companySnapshot.ts\<close> and
  \<^verbatim>\<open>src/app/dashboardReadModel.ts\<close>: the builder keeps the registry, the open approvals with their
  history, blockers and a number of tickets; the read model counts and sorts what a snapshot holds.
  The lemmas show how the open approvals follow from the history, and what the counts count.
\<close>

section \<open>State\<close>

datatype blocker_severity = Sev_low | Sev_medium | Sev_high | Sev_critical

record company_blocker =
  kb_blocker_id :: string
  kb_summary :: string
  kb_severity :: blocker_severity
  kb_created_at :: string
  kb_project_id :: "string option"
  kb_owner_agent :: "agent_type option"

text \<open>An entry of the history of approvals is a response when it has a decision.\<close>

datatype timeline_entry = Tl_request approval_request | Tl_response approval_response

record company_seed =
  se_agents :: "agent_entry list"
  se_projects :: "project_entry list"
  se_pending_approvals :: "approval_request list"
  se_open_blockers :: "company_blocker list"
  se_support_ticket_count :: nat

record company_builder =
  cb_registry :: registry
  cb_pending :: "approval_request list"
  cb_history :: "timeline_entry list"
  cb_blockers :: "company_blocker list"
  cb_tickets :: nat

record company_state =
  co_pending_approvals :: "approval_request list"
  co_approval_history :: "timeline_entry list"
  co_open_blockers :: "company_blocker list"
  co_support_ticket_count :: nat

record company_snapshot =
  sn_generated_at :: string
  sn_agents :: "agent_entry list"
  sn_projects :: "project_entry list"
  sn_pending_approvals :: "approval_request list"
  sn_approval_history :: "timeline_entry list"
  sn_open_blockers :: "company_blocker list"
  sn_support_ticket_count :: nat
  sn_audit_log :: "audit_entry list"
  sn_communication_log :: "comm_entry list"

section \<open>The builder\<close>

definition newCompanyBuilder :: "registry \<Rightarrow> company_builder" where
  "newCompanyBuilder r = \<lparr>cb_registry = r, cb_pending = [], cb_history = [], cb_blockers = [], cb_tickets = 0\<rparr>"

definition hydrate :: "clock \<Rightarrow> company_seed \<Rightarrow> company_builder \<Rightarrow> company_builder" where
  "hydrate clk seed b =
     (let r = fold (registerAgent clk) (se_agents seed) (cb_registry b);
          r = fold (registerProject clk) (se_projects seed) r
      in \<lparr>cb_registry = r, cb_pending = se_pending_approvals seed,
          cb_history = map Tl_request (se_pending_approvals seed), cb_blockers = se_open_blockers seed,
          cb_tickets = se_support_ticket_count seed\<rparr>)"

definition builder_state :: "company_builder \<Rightarrow> company_state" where
  "builder_state b =
     \<lparr>co_pending_approvals = cb_pending b, co_approval_history = cb_history b,
      co_open_blockers = cb_blockers b, co_support_ticket_count = cb_tickets b\<rparr>"

definition builder_registerAgent :: "clock \<Rightarrow> agent_entry \<Rightarrow> company_builder \<Rightarrow> company_builder" where
  "builder_registerAgent clk entry b = b\<lparr>cb_registry := registerAgent clk entry (cb_registry b)\<rparr>"

definition builder_updateAgent ::
    "clock \<Rightarrow> string \<Rightarrow> agent_update list \<Rightarrow> company_builder \<Rightarrow> company_builder outcome" where
  "builder_updateAgent clk agentId updates b =
     outcome_bind (updateAgent clk agentId updates (cb_registry b)) (\<lambda>r. Inr (b\<lparr>cb_registry := r\<rparr>))"

definition builder_registerProject :: "clock \<Rightarrow> project_entry \<Rightarrow> company_builder \<Rightarrow> company_builder" where
  "builder_registerProject clk entry b = b\<lparr>cb_registry := registerProject clk entry (cb_registry b)\<rparr>"

definition builder_updateProject ::
    "clock \<Rightarrow> string \<Rightarrow> project_update list \<Rightarrow> company_builder \<Rightarrow> company_builder outcome" where
  "builder_updateProject clk projectId updates b =
     outcome_bind (updateProject clk projectId updates (cb_registry b)) (\<lambda>r. Inr (b\<lparr>cb_registry := r\<rparr>))"

definition setPendingApprovals :: "approval_request list \<Rightarrow> company_builder \<Rightarrow> company_builder" where
  "setPendingApprovals approvals b = b\<lparr>cb_pending := approvals\<rparr>"

definition addPendingApproval :: "approval_request \<Rightarrow> company_builder \<Rightarrow> company_builder" where
  "addPendingApproval approval b =
     b\<lparr>cb_pending := cb_pending b @ [approval], cb_history := cb_history b @ [Tl_request approval]\<rparr>"

definition resolvePendingApproval :: "string \<Rightarrow> company_builder \<Rightarrow> company_builder" where
  "resolvePendingApproval requestId b =
     b\<lparr>cb_pending := filter (\<lambda>a. ar_request_id a \<noteq> requestId) (cb_pending b)\<rparr>"

definition builder_applyApprovalResponse ::
    "clock \<Rightarrow> approval_response \<Rightarrow> company_builder \<Rightarrow> company_builder" where
  "builder_applyApprovalResponse clk response b =
     (let b = resolvePendingApproval (ap_request_id response) b
      in b\<lparr>cb_history := cb_history b @ [Tl_response response],
           cb_registry := recordApprovalResponse clk response (cb_registry b)\<rparr>)"

definition setOpenBlockers :: "company_blocker list \<Rightarrow> company_builder \<Rightarrow> company_builder" where
  "setOpenBlockers blockers b = b\<lparr>cb_blockers := blockers\<rparr>"

definition builder_addBlocker :: "company_blocker \<Rightarrow> company_builder \<Rightarrow> company_builder" where
  "builder_addBlocker blocker b =
     (if \<exists>x \<in> set (cb_blockers b). kb_blocker_id x = kb_blocker_id blocker then b
      else b\<lparr>cb_blockers := cb_blockers b @ [blocker]\<rparr>)"

definition clearBlocker :: "string \<Rightarrow> company_builder \<Rightarrow> company_builder" where
  "clearBlocker blockerId b = b\<lparr>cb_blockers := filter (\<lambda>x. kb_blocker_id x \<noteq> blockerId) (cb_blockers b)\<rparr>"

definition setSupportTicketCount :: "nat \<Rightarrow> company_builder \<Rightarrow> company_builder" where
  "setSupportTicketCount n b = b\<lparr>cb_tickets := n\<rparr>"

text \<open>Agents and projects are read off the state of the registry, a pair of plain objects.\<close>

definition buildSnapshot :: "string \<Rightarrow> company_builder \<Rightarrow> company_snapshot" where
  "buildSnapshot generatedAt b =
     (let (agents, projects) = getState (cb_registry b)
      in \<lparr>sn_generated_at = generatedAt, sn_agents = map snd (object_entries agents),
          sn_projects = map snd (object_entries projects), sn_pending_approvals = cb_pending b,
          sn_approval_history = cb_history b, sn_open_blockers = cb_blockers b,
          sn_support_ticket_count = cb_tickets b, sn_audit_log = getAuditLog (cb_registry b),
          sn_communication_log = getCommunicationLog (cb_registry b)\<rparr>)"

definition createCompanySnapshotBuilder :: "clock \<Rightarrow> company_seed \<Rightarrow> registry \<Rightarrow> company_builder" where
  "createCompanySnapshotBuilder clk seed r = hydrate clk seed (newCompanyBuilder r)"

section \<open>Summaries\<close>

definition count_up :: "'k \<Rightarrow> ('k, nat) js_map \<Rightarrow> ('k, nat) js_map" where
  "count_up k m = jm_set m k (nullish (jm_get m k) 0 + 1)"

definition summarizeAgentStatuses :: "agent_entry list \<Rightarrow> (agent_status, nat) js_map" where
  "summarizeAgentStatuses agents =
     fold (\<lambda>a. count_up (ae_status a)) agents
       (map (\<lambda>s. (s, 0)) [AS_idle, AS_busy, AS_offline, AS_error, AS_stale])"

definition summarizeLifecycleStates :: "project_entry list \<Rightarrow> (lifecycle_state, nat) js_map" where
  "summarizeLifecycleStates projects =
     fold (\<lambda>p. count_up (pe_lifecycle_state p)) projects (map (\<lambda>s. (s, 0)) LIFECYCLE_STATES)"

section \<open>The read model\<close>

datatype operational_issue =
    Issue_agent blocker_severity string string "string option"
  | Issue_blocker company_blocker

fun issue_severity :: "operational_issue \<Rightarrow> blocker_severity" where
  "issue_severity (Issue_agent s _ _ _) = s"
| "issue_severity (Issue_blocker b) = kb_severity b"

fun agent_issue :: "agent_entry \<Rightarrow> operational_issue list" where
  "agent_issue a =
     (if ae_status a = AS_offline then
        [Issue_agent Sev_high (ae_agent_id a @ '' is offline'') (ae_agent_id a) (ae_current_project_id a)]
      else if ae_status a = AS_error \<or> ae_status a = AS_stale then
        [Issue_agent Sev_medium (ae_agent_id a @ '' is '' @ agent_status_str (ae_status a)) (ae_agent_id a)
           (ae_current_project_id a)]
      else [])"

definition collectAgentStatusIssues :: "agent_entry list \<Rightarrow> operational_issue list" where
  "collectAgentStatusIssues agents = concat (map agent_issue agents)"

definition collectBlockerIssues :: "company_blocker list \<Rightarrow> operational_issue list" where
  "collectBlockerIssues blockers = map Issue_blocker blockers"

fun severityRank :: "blocker_severity \<Rightarrow> nat" where
  "severityRank Sev_critical = 4"
| "severityRank Sev_high = 3"
| "severityRank Sev_medium = 2"
| "severityRank Sev_low = 1"

text \<open>The comparison gives at most nought, which keeps the order, when the left one ranks higher.\<close>

definition compareIssueSeverity :: "operational_issue \<Rightarrow> operational_issue \<Rightarrow> bool" where
  "compareIssueSeverity left right = (severityRank (issue_severity right) \<le> severityRank (issue_severity left))"

record approval_card =
  ad_request_id :: string
  ad_gate :: approval_gate
  ad_from_agent :: agent_type
  ad_project_id :: "string option"
  ad_summary :: string
  ad_artifact_ref :: string
  ad_timestamp :: string

record company_dashboard_model =
  dm_generated_at :: string
  dm_agent_summary :: "(agent_status, nat) js_map"
  dm_total_projects :: nat
  dm_active_projects :: nat
  dm_by_lifecycle_state :: "(lifecycle_state, nat) js_map"
  dm_pending_count :: nat
  dm_items :: "approval_card list"
  dm_awaiting_ack :: nat
  dm_overdue_ack :: nat
  dm_blocker_count :: nat
  dm_ticket_count :: nat
  dm_utilization :: js_number
  dm_audit_events :: nat
  dm_communication_events :: nat
  dm_issues :: "operational_issue list"
  dm_projects :: "project_entry list"

definition approval_card_of :: "approval_request \<Rightarrow> approval_card" where
  "approval_card_of a =
     \<lparr>ad_request_id = ar_request_id a, ad_gate = ar_gate a, ad_from_agent = ar_from_agent a,
      ad_project_id = ar_project_id a, ad_summary = ar_summary a, ad_artifact_ref = ar_artifact_ref a,
      ad_timestamp = ar_timestamp a\<rparr>"

text \<open>Handoffs that wait, and handoffs that are overdue.\<close>

definition summarizeHandoffs :: "company_snapshot \<Rightarrow> nat \<times> nat" where
  "summarizeHandoffs s =
     (let handoffs = filter cl_requires_ack (sn_communication_log s)
      in (length (filter (\<lambda>e. nullish (cl_acknowledged_at e) [] = []) handoffs),
          length (filter (\<lambda>e. cl_requires_ack e \<and> cl_acknowledged_at e \<noteq> None \<and> cl_within_sla e = Some False) handoffs)))"

text \<open>The share of busy agents with two decimals, rounded as \<^verbatim>\<open>toFixed\<close> rounds the double.\<close>

definition utilization_hundredths :: "nat \<Rightarrow> nat \<Rightarrow> nat" where
  "utilization_hundredths busy agents =
     (let (q, e) = to_double busy agents; (a, b) = scaled (q * 100) 1 (- e) in (2 * a + b) div (2 * b))"

definition calculateUtilizationRate :: "agent_entry list \<Rightarrow> js_number" where
  "calculateUtilizationRate agents =
     (if agents = [] then JFinite 0
      else number_of_fraction
        (utilization_hundredths (length (filter (\<lambda>a. ae_status a = AS_busy) agents)) (length agents)) 100)"

definition active_projects :: "project_entry list \<Rightarrow> project_entry list" where
  "active_projects projects = filter (\<lambda>p. pe_lifecycle_state p \<noteq> LS_closed) projects"

definition createCompanyDashboardReadModel ::
    "(string \<Rightarrow> string \<Rightarrow> bool) \<Rightarrow> company_snapshot \<Rightarrow> company_dashboard_model" where
  "createCompanyDashboardReadModel lc s =
     \<lparr>dm_generated_at = sn_generated_at s,
      dm_agent_summary = summarizeAgentStatuses (sn_agents s),
      dm_total_projects = length (sn_projects s),
      dm_active_projects = length (active_projects (sn_projects s)),
      dm_by_lifecycle_state = summarizeLifecycleStates (sn_projects s),
      dm_pending_count = length (sn_pending_approvals s),
      dm_items = map approval_card_of (sn_pending_approvals s),
      dm_awaiting_ack = fst (summarizeHandoffs s),
      dm_overdue_ack = snd (summarizeHandoffs s),
      dm_blocker_count = length (sn_open_blockers s),
      dm_ticket_count = sn_support_ticket_count s,
      dm_utilization = calculateUtilizationRate (sn_agents s),
      dm_audit_events = length (sn_audit_log s),
      dm_communication_events = length (sn_communication_log s),
      dm_issues = js_sort compareIssueSeverity
        (collectAgentStatusIssues (sn_agents s) @ collectBlockerIssues (sn_open_blockers s)),
      dm_projects = js_sort (\<lambda>left right. lc (pe_updated_at right) (pe_updated_at left)) (sn_projects s)\<rparr>"

section \<open>Open approvals are a function of their history\<close>

text \<open>What is still open after a history: the requests that no later response names.\<close>

fun open_step :: "timeline_entry \<Rightarrow> approval_request list \<Rightarrow> approval_request list" where
  "open_step (Tl_request a) rs = rs @ [a]"
| "open_step (Tl_response a) rs = filter (\<lambda>r. ar_request_id r \<noteq> ap_request_id a) rs"

definition open_requests :: "timeline_entry list \<Rightarrow> approval_request list" where
  "open_requests h = fold open_step h []"

text \<open>
  The public operations of a builder as commands; an update of an unknown agent or project throws
  and changes nothing. Two of them write the open approvals without an entry in the history.
\<close>

datatype builder_op =
    Op_hydrate company_seed
  | Op_register_agent agent_entry
  | Op_update_agent string "agent_update list"
  | Op_register_project project_entry
  | Op_update_project string "project_update list"
  | Op_set_pending "approval_request list"
  | Op_add_pending approval_request
  | Op_resolve_pending string
  | Op_apply_response approval_response
  | Op_set_blockers "company_blocker list"
  | Op_add_blocker company_blocker
  | Op_clear_blocker string
  | Op_set_tickets nat

definition unless_thrown :: "company_builder \<Rightarrow> company_builder outcome \<Rightarrow> company_builder" where
  "unless_thrown b x = (case x of Inl _ \<Rightarrow> b | Inr b' \<Rightarrow> b')"

fun builder_step :: "clock \<Rightarrow> builder_op \<Rightarrow> company_builder \<Rightarrow> company_builder" where
  "builder_step clk (Op_hydrate seed) b = hydrate clk seed b"
| "builder_step clk (Op_register_agent e) b = builder_registerAgent clk e b"
| "builder_step clk (Op_update_agent i us) b = unless_thrown b (builder_updateAgent clk i us b)"
| "builder_step clk (Op_register_project e) b = builder_registerProject clk e b"
| "builder_step clk (Op_update_project i us) b = unless_thrown b (builder_updateProject clk i us b)"
| "builder_step clk (Op_set_pending as) b = setPendingApprovals as b"
| "builder_step clk (Op_add_pending a) b = addPendingApproval a b"
| "builder_step clk (Op_resolve_pending i) b = resolvePendingApproval i b"
| "builder_step clk (Op_apply_response p) b = builder_applyApprovalResponse clk p b"
| "builder_step clk (Op_set_blockers ks) b = setOpenBlockers ks b"
| "builder_step clk (Op_add_blocker k) b = builder_addBlocker k b"
| "builder_step clk (Op_clear_blocker i) b = clearBlocker i b"
| "builder_step clk (Op_set_tickets n) b = setSupportTicketCount n b"

definition builder_run :: "clock \<Rightarrow> builder_op list \<Rightarrow> company_builder \<Rightarrow> company_builder" where
  "builder_run clk ops = fold (builder_step clk) ops"

text \<open>The commands that leave a trace in the history, and those that keep the list of blockers distinct.\<close>

fun recorded :: "builder_op \<Rightarrow> bool" where
  "recorded (Op_hydrate _) = False"
| "recorded (Op_set_pending _) = False"
| "recorded (Op_resolve_pending _) = False"
| "recorded _ = True"

fun replaces_blockers :: "builder_op \<Rightarrow> bool" where
  "replaces_blockers (Op_hydrate _) = True"
| "replaces_blockers (Op_set_blockers _) = True"
| "replaces_blockers _ = False"

text \<open>What a command adds to the history.\<close>

fun history_entry :: "builder_op \<Rightarrow> timeline_entry list" where
  "history_entry (Op_add_pending a) = [Tl_request a]"
| "history_entry (Op_apply_response p) = [Tl_response p]"
| "history_entry _ = []"

lemmas builder_operation_defs =
  builder_registerAgent_def builder_registerProject_def builder_updateAgent_def builder_updateProject_def
  setPendingApprovals_def addPendingApproval_def resolvePendingApproval_def builder_applyApprovalResponse_def
  setOpenBlockers_def builder_addBlocker_def clearBlocker_def setSupportTicketCount_def unless_thrown_def

lemma open_requests_map [simp]: "open_requests (map Tl_request rs) = rs"
  by (induction rs rule: rev_induct) (simp_all add: open_requests_def)

lemma recorded_step:
  "recorded op \<Longrightarrow> cb_history (builder_step clk op b) = cb_history b @ history_entry op \<and>
   cb_pending (builder_step clk op b) = fold open_step (history_entry op) (cb_pending b)"
  by (cases op) (auto simp: builder_operation_defs outcome_bind_def Let_def split: sum.split)

lemma blockers_step:
  "\<not> replaces_blockers op \<Longrightarrow> distinct (map kb_blocker_id (cb_blockers b)) \<Longrightarrow>
   distinct (map kb_blocker_id (cb_blockers (builder_step clk op b)))"
  by (cases op) (auto simp: builder_operation_defs outcome_bind_def Let_def distinct_map_filter split: sum.split)

lemma recorded_run:
  "list_all recorded ops \<Longrightarrow>
   cb_history (builder_run clk ops b) = cb_history b @ concat (map history_entry ops) \<and>
   cb_pending (builder_run clk ops b) = fold open_step (concat (map history_entry ops)) (cb_pending b)"
  by (induction ops arbitrary: b) (simp_all add: builder_run_def recorded_step)

lemma blockers_run:
  "list_all (\<lambda>op. \<not> replaces_blockers op) ops \<Longrightarrow> distinct (map kb_blocker_id (cb_blockers b)) \<Longrightarrow>
   distinct (map kb_blocker_id (cb_blockers (builder_run clk ops b)))"
  by (induction ops arbitrary: b) (simp_all add: builder_run_def blockers_step)

lemma builder_run_append: "builder_run clk (xs @ ys) b = builder_run clk ys (builder_run clk xs b)"
  by (simp add: builder_run_def)

lemma hydrated:
  "cb_pending (builder_run clk [Op_hydrate seed] b) = open_requests (cb_history (builder_run clk [Op_hydrate seed] b))"
  by (simp add: builder_run_def hydrate_def Let_def)

section \<open>Counting\<close>

lemma count_up_get [simp]:
  "jm_get (count_up k m) k' = (if k' = k then Some (nullish (jm_get m k) 0 + 1) else jm_get m k')"
  by (simp add: count_up_def)

lemma count_up_keys [simp]: "k \<in> set (jm_keys m) \<Longrightarrow> jm_keys (count_up k m) = jm_keys m"
  by (simp add: count_up_def)

lemma counted:
  "k \<in> set (jm_keys m) \<Longrightarrow> f ` set xs \<subseteq> set (jm_keys m) \<Longrightarrow>
   jm_get (fold (\<lambda>x. count_up (f x)) xs m) k = Some (nullish (jm_get m k) 0 + length (filter (\<lambda>x. f x = k) xs))"
proof (induction xs arbitrary: m)
  case Nil
  then show ?case by (cases "jm_get m k") (auto simp: jm_get_None_iff)
next
  case (Cons x xs)
  then show ?case by (subst fold.simps) (simp add: Cons.IH)
qed

lemma counted_keys: "f ` set xs \<subseteq> set (jm_keys m) \<Longrightarrow> jm_keys (fold (\<lambda>x. count_up (f x)) xs m) = jm_keys m"
  by (induction xs arbitrary: m) simp_all

lemma all_statuses: "s \<in> {AS_idle, AS_busy, AS_offline, AS_error, AS_stale}"
  by (cases s) simp_all

lemma all_lifecycle_states: "s \<in> set LIFECYCLE_STATES"
  by (cases s) (simp_all add: LIFECYCLE_STATES_def)

lemma agent_summary_exact:
  "jm_get (summarizeAgentStatuses agents) s = Some (length (filter (\<lambda>a. ae_status a = s) agents))"
proof -
  let ?m = "map (\<lambda>s. (s, 0)) [AS_idle, AS_busy, AS_offline, AS_error, AS_stale] :: (agent_status, nat) js_map"
  have k: "set (jm_keys ?m) = UNIV" using all_statuses by (auto simp: jm_keys_def)
  have "nullish (jm_get ?m s) 0 = 0" by (simp add: jm_get_def)
  with counted [of s ?m ae_status agents] k show ?thesis by (simp add: summarizeAgentStatuses_def)
qed

lemma lifecycle_summary_exact:
  "jm_get (summarizeLifecycleStates projects) s = Some (length (filter (\<lambda>p. pe_lifecycle_state p = s) projects))"
proof -
  let ?m = "map (\<lambda>s. (s, 0)) LIFECYCLE_STATES :: (lifecycle_state, nat) js_map"
  have k: "set (jm_keys ?m) = UNIV" using all_lifecycle_states by (auto simp: jm_keys_def o_def)
  have "nullish (jm_get ?m s) 0 = 0" by (simp add: jm_get_def LIFECYCLE_STATES_def)
  with counted [of s ?m pe_lifecycle_state projects] k show ?thesis by (simp add: summarizeLifecycleStates_def)
qed

section \<open>A sort keeps the order of equals\<close>

lemma filter_ins_by:
  "\<forall>y. P x \<longrightarrow> P y \<longrightarrow> le x y \<Longrightarrow> filter P (ins_by le x xs) = (if P x then x # filter P xs else filter P xs)"
  by (induction xs) auto

lemma filter_js_sort: "\<forall>x y. P x \<longrightarrow> P y \<longrightarrow> le x y \<Longrightarrow> filter P (js_sort le xs) = filter P xs"
  by (induction xs) (simp_all add: filter_ins_by)

interpretation issue_order: collation compareIssueSeverity
  by unfold_locales (auto simp: compareIssueSeverity_def)

lemma issues_sorted: "sorted_wrt compareIssueSeverity (js_sort compareIssueSeverity xs)"
  using issue_order.sort_sorted [of "\<lambda>x. x"] by simp

lemma newest_first:
  assumes "collation lc"
  shows "sorted_wrt (\<lambda>a b. lc (f b) (f a)) (js_sort (\<lambda>a b. lc (f b) (f a)) xs)"
proof -
  have "collation (\<lambda>a b. lc b a)" using assms unfolding collation_def by blast
  then show ?thesis using collation.sort_sorted by blast
qed

section \<open>Properties of the component\<close>

text \<open>
  C25: Take a builder in any state and any run of its public operations but hydrate,
  setPendingApprovals and resolvePendingApproval, the three that write the open approvals
  without an entry for it in the history. The history grows by an entry for each request
  added and each response applied, and the open approvals afterwards are those before and
  those the new entries request, without those a later new entry answers. From a hydrated
  builder on they are therefore the requests of the whole history that no later response
  names. After setPendingApprovals or resolvePendingApproval the same holds of what is added
  from then on, starting from what they left. Unless the blockers are replaced as a whole,
  none is listed twice if none was.
\<close>

theorem open_approvals_from_history:
  assumes "list_all recorded ops"
  shows "let new = concat (map history_entry ops) in
    cb_history (builder_run clk ops b) = cb_history b @ new \<and>
    cb_pending (builder_run clk ops b) = fold open_step new (cb_pending b) \<and>
    (let b' = builder_run clk (Op_hydrate seed # ops) b in cb_pending b' = open_requests (cb_history b')) \<and>
    cb_pending (builder_run clk (Op_set_pending as # ops) b) = fold open_step new as \<and>
    cb_pending (builder_run clk (Op_resolve_pending i # ops) b) =
      fold open_step new (filter (\<lambda>a. ar_request_id a \<noteq> i) (cb_pending b)) \<and>
    (list_all (\<lambda>op. \<not> replaces_blockers op) ops \<and> distinct (map kb_blocker_id (cb_blockers b)) \<longrightarrow>
       distinct (map kb_blocker_id (cb_blockers (builder_run clk ops b))))"
proof -
  note run = recorded_run [OF assms, of clk]
  have split: "builder_run clk (op # ops) b = builder_run clk ops (builder_run clk [op] b)" for op
    by (simp add: builder_run_def)
  have "let b' = builder_run clk (Op_hydrate seed # ops) b in cb_pending b' = open_requests (cb_history b')"
    unfolding Let_def split using run [of "builder_run clk [Op_hydrate seed] b"] hydrated
    by (simp add: open_requests_def)
  moreover have "cb_pending (builder_run clk (Op_set_pending as # ops) b) = fold open_step (concat (map history_entry ops)) as"
    unfolding split using run by (simp add: builder_run_def setPendingApprovals_def)
  moreover have "cb_pending (builder_run clk (Op_resolve_pending i # ops) b) =
      fold open_step (concat (map history_entry ops)) (filter (\<lambda>a. ar_request_id a \<noteq> i) (cb_pending b))"
    unfolding split using run by (simp add: builder_run_def resolvePendingApproval_def)
  ultimately show ?thesis using run [of b] blockers_run [of ops b clk] unfolding Let_def by blast
qed

theorem open_approvals_from_history_witness:
  "\<forall>a p seed. let b = builder_run (\<lambda>_. []) [Op_hydrate seed, Op_add_pending a, Op_apply_response p]
       (newCompanyBuilder empty_registry) in cb_pending b = open_requests (cb_history b)"
proof (intro allI)
  fix a p seed
  have "list_all recorded [Op_add_pending a, Op_apply_response p]" by simp
  from open_approvals_from_history [OF this] show "let b = builder_run (\<lambda>_. [])
      [Op_hydrate seed, Op_add_pending a, Op_apply_response p] (newCompanyBuilder empty_registry)
    in cb_pending b = open_requests (cb_history b)" unfolding Let_def by blast
qed

text \<open>
  The dashboard counts each agent and each project in exactly one place; its issues are
  those of the agents that are down and the blockers, the severest first and equals in their
  order; its projects are all projects, the newest first. A handoff is overdue only once it
  has been acknowledged, so one that nobody acknowledges never is.
\<close>

theorem dashboard_exact:
  assumes "collation lc"
  shows "let d = createCompanyDashboardReadModel lc s in
    (\<forall>st. jm_get (dm_agent_summary d) st = Some (length (filter (\<lambda>a. ae_status a = st) (sn_agents s)))) \<and>
    (\<forall>st. jm_get (dm_by_lifecycle_state d) st = Some (length (filter (\<lambda>p. pe_lifecycle_state p = st) (sn_projects s)))) \<and>
    nullish (jm_get (dm_by_lifecycle_state d) LS_closed) 0 + dm_active_projects d = dm_total_projects d \<and>
    sorted_wrt (\<lambda>x y. severityRank (issue_severity y) \<le> severityRank (issue_severity x)) (dm_issues d) \<and>
    (\<forall>k. filter (\<lambda>i. issue_severity i = k) (dm_issues d) =
       filter (\<lambda>i. issue_severity i = k) (concat (map agent_issue (sn_agents s)) @ map Issue_blocker (sn_open_blockers s))) \<and>
    mset (dm_projects d) = mset (sn_projects s) \<and>
    sorted_wrt (\<lambda>p q. lc (pe_updated_at q) (pe_updated_at p)) (dm_projects d) \<and>
    dm_overdue_ack d = length (filter (\<lambda>e. cl_requires_ack e \<and> cl_acknowledged_at e \<noteq> None \<and> cl_within_sla e = Some False)
      (sn_communication_log s))"
proof -
  let ?d = "createCompanyDashboardReadModel lc s"
  have "length (filter (\<lambda>p. pe_lifecycle_state p = LS_closed) ps) + length (active_projects ps) = length ps" for ps
    unfolding active_projects_def by (rule sum_length_filter_compl)
  moreover have "sorted_wrt (\<lambda>x y. severityRank (issue_severity y) \<le> severityRank (issue_severity x)) (dm_issues ?d)"
    using issues_sorted by (simp add: createCompanyDashboardReadModel_def compareIssueSeverity_def [abs_def])
  moreover have "\<forall>k. filter (\<lambda>i. issue_severity i = k) (dm_issues ?d) = filter (\<lambda>i. issue_severity i = k)
      (concat (map agent_issue (sn_agents s)) @ map Issue_blocker (sn_open_blockers s))"
    by (auto simp: createCompanyDashboardReadModel_def collectAgentStatusIssues_def collectBlockerIssues_def
        simp del: filter_append intro!: filter_js_sort simp: compareIssueSeverity_def)
  moreover have "filter P (filter cl_requires_ack xs) = filter (\<lambda>e. cl_requires_ack e \<and> P e) xs" for P xs
    by simp
  ultimately show ?thesis
    using newest_first [OF assms]
    by (simp add: Let_def createCompanyDashboardReadModel_def agent_summary_exact lifecycle_summary_exact
        summarizeHandoffs_def conj_comms)
qed

theorem dashboard_exact_witness:
  "sorted_wrt (\<lambda>p q. str_le (pe_updated_at q) (pe_updated_at p))
     (dm_projects (createCompanyDashboardReadModel str_le (buildSnapshot [] (newCompanyBuilder empty_registry))))"
  using dashboard_exact [OF code_units.collation_axioms] by (simp add: Let_def)

end
