(* ===== verification/Workspace_Capability.thy ===== *)
theory Workspace_Capability
  imports Ceo_Commands JS_Files
begin

text \<open>
  What the owner may ask of the workspace, \<^verbatim>\<open>src/runtime-app/capabilities.ts\<close>: read a file or
  the end of a log, search, list, and ask git. Every answer is kept as an artifact. The programs that
  are run are a parameter, which may change the files; so is the stack of an error. The lemmas show
  which paths are let through and that no other file than the artifacts is written.
\<close>

section \<open>The host's programs\<close>

text \<open>What a program that has been run leaves: its status, unless it was killed, and its two outputs.\<close>

record spawn_result =
  sr_status :: "int option"
  sr_stdout :: "string option"
  sr_stderr :: "string option"

record capability_host =
  ca_host :: host
  ca_spawn :: "string list \<Rightarrow> file_tree \<Rightarrow> spawn_result \<times> file_tree"
  ca_stack :: "string \<Rightarrow> string"
  ca_json :: "command_params \<Rightarrow> string"

datatype capability_action = Cap_read_file | Cap_search_code | Cap_git_status | Cap_git_diff | Cap_read_log | Cap_list_files

record capability_execution =
  ce_action :: capability_action
  ce_ok :: bool
  ce_title :: string
  ce_summary :: string
  ce_output :: string
  ce_artifact_path :: string

definition io_recover :: "('a, 's) io \<Rightarrow> (string \<Rightarrow> ('a, 's) io) \<Rightarrow> ('a, 's) io" where
  "io_recover m f = (\<lambda>s. case m s of (Inl e, s) \<Rightarrow> f e s | (Inr x, s) \<Rightarrow> (Inr x, s))"

definition io_run :: "('s \<Rightarrow> 'a \<times> 's) \<Rightarrow> ('a, 's) io" where
  "io_run f = (\<lambda>s. case f s of (x, s) \<Rightarrow> (Inr x, s))"

definition io_outcome :: "'a outcome \<Rightarrow> ('a, 's) io" where
  "io_outcome x = (\<lambda>s. (x, s))"

section \<open>Reading the parameters\<close>

definition replace_all_char :: "char \<Rightarrow> char \<Rightarrow> string \<Rightarrow> string" where
  "replace_all_char a b s = map (\<lambda>c. if c = a then b else c) s"

definition readOptionalString :: "string option \<Rightarrow> string option" where
  "readOptionalString value =
     (case value of None \<Rightarrow> None | Some v \<Rightarrow> if js_trim v = [] then None else Some (js_trim v))"

definition readRequiredString :: "string option \<Rightarrow> string \<Rightarrow> string outcome" where
  "readRequiredString value message =
     (case readOptionalString value of None \<Rightarrow> Inl message | Some v \<Rightarrow> Inr v)"

definition readOptionalNumber :: "js_number option \<Rightarrow> int option" where
  "readOptionalNumber value = (case value of Some (JFinite q) \<Rightarrow> Some (max 1 \<lfloor>q\<rfloor>) | _ \<Rightarrow> None)"

definition normalizeCapabilityAction :: "string option \<Rightarrow> capability_action option" where
  "normalizeCapabilityAction value =
     (let normalized = js_lower (js_trim (nullish value [])) in
      if normalized \<in> {''read-file'', ''read_file''} then Some Cap_read_file
      else if normalized \<in> {''search-code'', ''search_code''} then Some Cap_search_code
      else if normalized \<in> {''git-status'', ''git_status''} then Some Cap_git_status
      else if normalized \<in> {''git-diff'', ''git_diff''} then Some Cap_git_diff
      else if normalized \<in> {''read-log'', ''read_log''} then Some Cap_read_log
      else if normalized \<in> {''list-files'', ''list_files''} then Some Cap_list_files
      else None)"

fun capability_action_str :: "capability_action \<Rightarrow> string" where
  "capability_action_str Cap_read_file = ''read_file''"
| "capability_action_str Cap_search_code = ''search_code''"
| "capability_action_str Cap_git_status = ''git_status''"
| "capability_action_str Cap_git_diff = ''git_diff''"
| "capability_action_str Cap_read_log = ''read_log''"
| "capability_action_str Cap_list_files = ''list_files''"

definition suffixToAction :: "string \<Rightarrow> capability_action" where
  "suffixToAction value = nullish (normalizeCapabilityAction (Some (replace_all_char (CHR ''-'') (CHR ''_'') value))) Cap_read_file"

definition resolveWorkspacePath :: "string \<Rightarrow> string \<Rightarrow> string \<Rightarrow> string outcome" where
  "resolveWorkspacePath process_cwd cwd requestedPath =
     (let resolved = path_resolve process_cwd [cwd, requestedPath];
          rel = path_relative process_cwd cwd resolved
      in if js_starts_with rel ''..'' \<or> is_absolute rel
         then Inl (''Path di luar workspace tidak diizinkan: '' @ requestedPath)
         else Inr resolved)"

section \<open>Cutting texts\<close>

definition limitTextByLines :: "string \<Rightarrow> nat \<Rightarrow> string" where
  "limitTextByLines txt maxLines = js_join [CHR 0x0A] (take maxLines (js_split (CHR 0x0A) txt))"

definition tailLines :: "string \<Rightarrow> int \<Rightarrow> string" where
  "tailLines txt maxLines =
     (let ls = js_split (CHR 0x0A) txt
      in js_join [CHR 0x0A] (drop (nat (max 0 (int (length ls) - maxLines))) ls))"

definition limitText :: "string \<Rightarrow> nat \<Rightarrow> string" where
  "limitText txt maxChars =
     (if length txt \<le> maxChars then txt else js_trim (take maxChars txt) @ ''...'')"

section \<open>Artifacts\<close>

definition artifact_dir :: "string \<Rightarrow> string \<Rightarrow> string" where
  "artifact_dir cwd env = path_join [cwd, ''runtime'', env, ''artifacts'', ''capabilities'']"

definition artifact_text :: "string \<Rightarrow> string \<Rightarrow> bool \<Rightarrow> string \<Rightarrow> string \<Rightarrow> string" where
  "artifact_text title now ok summary out =
     js_join [CHR 0x0A]
       [''# '' @ title, [], ''- Status: '' @ (if ok then ''PASS'' else ''FAIL''), ''- Generated At: '' @ now,
        ''- Summary: '' @ summary, [], ''## Output'', ''```text'', str_or out ''(no output)'', ''```'', []]"

definition writeCapabilityArtifact ::
    "host \<Rightarrow> string \<Rightarrow> string \<Rightarrow> string \<Rightarrow> string \<Rightarrow> string \<Rightarrow> string \<Rightarrow> string \<Rightarrow> bool \<Rightarrow> string fs" where
  "writeCapabilityArtifact h env now cwd title summary out sfx ok =
     (let dir = artifact_dir cwd env;
          filePath = path_join [dir, replace_all_char (CHR '':'') (CHR ''-'') now @ ''-'' @ sfx @ ''.md'']
      in io_bind (mkdir_recursive h dir) (\<lambda>_.
         io_bind (write_file h False filePath (artifact_text title now ok summary out)) (\<lambda>_.
         io_return filePath)))"

definition buildCapability ::
    "host \<Rightarrow> string \<Rightarrow> string \<Rightarrow> string \<Rightarrow> bool \<Rightarrow> string \<Rightarrow> string \<Rightarrow> string \<Rightarrow> string \<Rightarrow> capability_execution fs" where
  "buildCapability h env now cwd ok title summary out sfx =
     io_bind (writeCapabilityArtifact h env now cwd title summary out sfx ok) (\<lambda>artifactPath.
     io_return \<lparr>ce_action = suffixToAction sfx, ce_ok = ok, ce_title = title, ce_summary = summary,
       ce_output = out, ce_artifact_path = artifactPath\<rparr>)"

section \<open>The actions\<close>

definition spawn_output :: "spawn_result \<Rightarrow> string" where
  "spawn_output r = js_trim (nullish (sr_stdout r) [] @ [CHR 0x0A] @ nullish (sr_stderr r) [])"

definition status_text :: "int option \<Rightarrow> string" where
  "status_text s = (case s of None \<Rightarrow> ''unknown'' | Some n \<Rightarrow> int_str n)"

definition executeReadFile :: "capability_host \<Rightarrow> owner_command \<Rightarrow> string \<Rightarrow> string \<Rightarrow> string \<Rightarrow> capability_execution fs" where
  "executeReadFile c command env now cwd =
     (let h = ca_host c in
      io_bind (io_outcome (readRequiredString (cp_path (oc_parameters command)) ''Path file wajib diisi.'')) (\<lambda>requestedPath.
      io_bind (io_outcome (resolveWorkspacePath (h_cwd h) cwd requestedPath)) (\<lambda>filePath.
      io_bind (read_file h filePath) (\<lambda>content.
      buildCapability h env now cwd True ''Workspace Read File'' (''Berhasil membaca '' @ requestedPath)
        (limitTextByLines content 220) ''read-file''))))"

definition search_args :: "string \<Rightarrow> string \<Rightarrow> string list" where
  "search_args query place = [''rg'', ''-n'', ''--hidden'', ''--glob'', ''!.git'', ''--glob'', ''!node_modules'', query, place]"

definition executeSearchCode :: "capability_host \<Rightarrow> owner_command \<Rightarrow> string \<Rightarrow> string \<Rightarrow> string \<Rightarrow> capability_execution fs" where
  "executeSearchCode c command env now cwd =
     (let h = ca_host c; requestedPath = readOptionalString (cp_path (oc_parameters command)) in
      io_bind (io_outcome (readRequiredString (cp_query (oc_parameters command)) ''Query pencarian wajib diisi.'')) (\<lambda>query.
      io_bind (io_outcome (case requestedPath of None \<Rightarrow> Inr cwd | Some p \<Rightarrow> resolveWorkspacePath (h_cwd h) cwd p)) (\<lambda>place.
      io_bind (io_run (ca_spawn c (search_args query place))) (\<lambda>r.
      if sr_status r \<noteq> Some 0 \<and> sr_status r \<noteq> Some 1
      then io_throw (str_or (spawn_output r) (''rg exited with status '' @ status_text (sr_status r)))
      else buildCapability h env now cwd True ''Workspace Search Code''
        (''Pencarian kode untuk \"'' @ query @ ''\" selesai'' @
         (case requestedPath of None \<Rightarrow> [] | Some p \<Rightarrow> '' di '' @ p) @ ''.'')
        (limitTextByLines (str_or (spawn_output r) ''(no matches)'') 240) ''search-code''))))"

definition executeGitStatus :: "capability_host \<Rightarrow> owner_command \<Rightarrow> string \<Rightarrow> string \<Rightarrow> string \<Rightarrow> capability_execution fs" where
  "executeGitStatus c command env now cwd =
     io_bind (io_run (ca_spawn c [''git'', ''status'', ''--short'', ''--branch''])) (\<lambda>r.
     if sr_status r \<noteq> Some 0 then io_throw (str_or (spawn_output r) ''git status gagal dijalankan.'')
     else buildCapability (ca_host c) env now cwd True ''Workspace Git Status''
       ''Status git workspace berhasil dibaca.'' (str_or (spawn_output r) ''(clean working tree)'') ''git-status'')"

definition executeGitDiff :: "capability_host \<Rightarrow> owner_command \<Rightarrow> string \<Rightarrow> string \<Rightarrow> string \<Rightarrow> capability_execution fs" where
  "executeGitDiff c command env now cwd =
     (let requestedPath = readOptionalString (cp_path (oc_parameters command)) in
      io_bind (io_run (ca_spawn c ([''git'', ''diff'', ''--no-ext-diff'', ''--''] @
         (case requestedPath of None \<Rightarrow> [] | Some p \<Rightarrow> [p])))) (\<lambda>r.
      if sr_status r \<noteq> Some 0 then io_throw (str_or (spawn_output r) ''git diff gagal dijalankan.'')
      else buildCapability (ca_host c) env now cwd True ''Workspace Git Diff''
        (case requestedPath of
           None \<Rightarrow> ''Diff git workspace berhasil dibaca.''
         | Some p \<Rightarrow> ''Diff git untuk '' @ p @ '' berhasil dibaca.'')
        (limitText (str_or (spawn_output r) ''(no diff)'') 12000) ''git-diff''))"

definition executeReadLog :: "capability_host \<Rightarrow> owner_command \<Rightarrow> string \<Rightarrow> string \<Rightarrow> string \<Rightarrow> capability_execution fs" where
  "executeReadLog c command env now cwd =
     (let h = ca_host c in
      io_bind (io_outcome (readRequiredString (cp_path (oc_parameters command)) ''Path log wajib diisi.'')) (\<lambda>requestedPath.
      let n = nullish (readOptionalNumber (cp_lines (oc_parameters command))) 200 in
      io_bind (io_outcome (resolveWorkspacePath (h_cwd h) cwd requestedPath)) (\<lambda>filePath.
      io_bind (read_file h filePath) (\<lambda>content.
      buildCapability h env now cwd True ''Workspace Read Log''
        (''Berhasil membaca '' @ int_str (max 1 n) @ '' baris terakhir dari '' @ requestedPath)
        (tailLines content n) ''read-log''))))"

definition executeListFiles :: "capability_host \<Rightarrow> owner_command \<Rightarrow> string \<Rightarrow> string \<Rightarrow> string \<Rightarrow> capability_execution fs" where
  "executeListFiles c command env now cwd =
     (let h = ca_host c; requestedPath = readOptionalString (cp_path (oc_parameters command)) in
      io_bind (io_outcome (case requestedPath of None \<Rightarrow> Inr cwd | Some p \<Rightarrow> resolveWorkspacePath (h_cwd h) cwd p)) (\<lambda>place.
      io_bind (io_run (ca_spawn c [''rg'', ''--files'', place])) (\<lambda>r.
      if sr_status r \<noteq> Some 0
      then io_throw (str_or (spawn_output r) (''rg --files exited with status '' @ status_text (sr_status r)))
      else buildCapability h env now cwd True ''Workspace List Files''
        (case requestedPath of
           None \<Rightarrow> ''Daftar file workspace berhasil dibaca.''
         | Some p \<Rightarrow> ''Daftar file di '' @ p @ '' berhasil dibaca.'')
        (limitTextByLines (str_or (spawn_output r) ''(no files)'') 300) ''list-files'')))"

fun capability_step ::
    "capability_host \<Rightarrow> capability_action \<Rightarrow> owner_command \<Rightarrow> string \<Rightarrow> string \<Rightarrow> string \<Rightarrow> capability_execution fs" where
  "capability_step c Cap_read_file = executeReadFile c"
| "capability_step c Cap_search_code = executeSearchCode c"
| "capability_step c Cap_git_status = executeGitStatus c"
| "capability_step c Cap_git_diff = executeGitDiff c"
| "capability_step c Cap_read_log = executeReadLog c"
| "capability_step c Cap_list_files = executeListFiles c"

definition executeWorkspaceCapability ::
    "capability_host \<Rightarrow> owner_command \<Rightarrow> string \<Rightarrow> string \<Rightarrow> string \<Rightarrow> capability_execution fs" where
  "executeWorkspaceCapability c command env now cwd =
     (case normalizeCapabilityAction (cp_action (oc_parameters command)) of
        None \<Rightarrow>
          buildCapability (ca_host c) env now cwd False ''Workspace Capability Failed''
            ''Action tidak dikenali. Gunakan read_file, search_code, git_status, git_diff, read_log, atau list_files.''
            (ca_json c (oc_parameters command)) ''unknown-action''
      | Some action \<Rightarrow>
          io_recover (capability_step c action command env now cwd) (\<lambda>e.
            buildCapability (ca_host c) env now cwd False (''Workspace '' @ capability_action_str action)
              e (str_or (ca_stack c e) (''Error: '' @ e)) (capability_action_str action)))"

section \<open>Which paths are let through\<close>

lemma strip_common_split: "strip_common xs ys = (u, d) \<Longrightarrow> \<exists>c. xs = c @ u \<and> ys = c @ d"
  by (induction xs ys rule: strip_common.induct) (auto split: if_splits)

lemma strip_common_whole: "strip_common xs ys = ([], d) \<longleftrightarrow> ys = xs @ d"
  by (induction xs ys rule: strip_common.induct) auto

lemma join_starts_dots:
  assumes "list_all plain (x # xs)"
  shows "js_starts_with (js_join ''/'' (x # xs)) ''..'' \<longleftrightarrow> js_starts_with x ''..''"
proof -
  obtain c cs where x: "x = c # cs" "c = CHR ''.'' \<Longrightarrow> cs \<noteq> []"
    using assms by (cases x) (auto simp: plain_def)
  obtain r where r: "js_join ''/'' (x # xs) = x @ r" "r = [] \<or> (\<exists>t. r = CHR ''/'' # t)"
    by (cases xs) auto
  show ?thesis using x r(2) unfolding r(1) by (cases cs) (auto simp: js_starts_with_def)
qed

lemma join_not_absolute: "list_all plain xs \<Longrightarrow> \<not> is_absolute (js_join ''/'' xs)"
proof (cases xs)
  case (Cons x ys)
  assume "list_all plain xs"
  with Cons have "x \<noteq> [] \<and> hd x \<noteq> CHR ''/''" by (cases x) (auto simp: plain_def)
  with Cons show ?thesis by (cases ys; cases x) (auto simp: is_absolute_def)
qed (simp add: is_absolute_def)

text \<open>The path the owner's text stands for.\<close>

definition wanted :: "string \<Rightarrow> string \<Rightarrow> string" where
  "wanted cwd p = (if is_absolute p then p else cwd @ CHR ''/'' # p)"

lemma wanted_absolute: "is_absolute cwd \<Longrightarrow> is_absolute (wanted cwd p)"
  by (simp add: wanted_def)

lemma resolve_wanted:
  assumes "is_absolute pcwd" "is_absolute cwd"
  shows "path_resolve pcwd [cwd, p] = CHR ''/'' # js_join ''/'' (segments (wanted cwd p))"
  using resolve_two [OF assms, of p] by (simp add: wanted_def)

lemma relative_up:
  "strip_common (segments cwd) (segments (wanted cwd p)) = (a # u, d) \<Longrightarrow>
   is_absolute pcwd \<Longrightarrow> is_absolute cwd \<Longrightarrow>
   js_starts_with (path_relative pcwd cwd (path_resolve pcwd [cwd, p])) ''..''"
  using segments_plain [of "wanted cwd p"] segments_plain [of cwd] wanted_absolute [of cwd p]
  by (cases "replicate (length u) ''..'' @ d")
    (simp_all add: path_relative_def resolve_wanted resolve_one js_starts_with_def)

lemma resolve_exact:
  assumes "is_absolute pcwd" "is_absolute cwd"
  shows "resolveWorkspacePath pcwd cwd p = Inr q \<longleftrightarrow>
    q = path_resolve pcwd [cwd, p] \<and>
    (\<exists>ss. segments q = segments cwd @ ss \<and> (ss = [] \<or> \<not> js_starts_with (hd ss) ''..''))"
proof -
  let ?q = "path_resolve pcwd [cwd, p]" and ?w = "segments (wanted cwd p)"
  have pl: "list_all plain ?w" using segments_plain wanted_absolute assms(2) by blast
  then have q: "segments ?q = ?w" by (simp add: resolve_wanted [OF assms])
  obtain u d where sc: "strip_common (segments cwd) ?w = (u, d)" by fastforce
  show ?thesis
  proof (cases u)
    case Nil
    then have w: "?w = segments cwd @ d" using sc strip_common_whole by blast
    have "is_absolute ?q" by (simp add: resolve_wanted [OF assms])
    then have rel: "path_relative pcwd cwd ?q = js_join ''/'' d"
      using relative_below [OF assms] q w by simp
    have d: "list_all plain d" using pl w by simp
    have "js_starts_with (js_join ''/'' d) ''..'' \<longleftrightarrow> d \<noteq> [] \<and> js_starts_with (hd d) ''..''"
      using join_starts_dots d by (cases d) (simp_all add: js_starts_with_def)
    then show ?thesis
      using join_not_absolute [OF d] rel w q by (auto simp: resolveWorkspacePath_def Let_def)
  next
    case (Cons a u')
    then have "js_starts_with (path_relative pcwd cwd ?q) ''..''" using relative_up sc assms by blast
    moreover have "?w \<noteq> segments cwd @ ss" for ss
      using sc Cons strip_common_whole [of "segments cwd" ?w ss] by auto
    ultimately show ?thesis using q by (auto simp: resolveWorkspacePath_def Let_def)
  qed
qed

section \<open>Where artifacts go\<close>

lemma path_join_plain:
  "is_absolute d \<Longrightarrow> list_all plain ss \<Longrightarrow> is_absolute (path_join (d # ss)) \<and> segments (path_join (d # ss)) = segments d @ ss"
proof -
  assume d: "is_absolute d" and ss: "list_all plain ss"
  have f: "filter (\<lambda>p. p \<noteq> []) (d # ss) = d # ss"
    using d ss by (auto simp: absolute_ne list_all_iff plain_def intro!: filter_True)
  have "path_join (d # ss) = path_join [d, js_join ''/'' ss]"
  proof (cases ss)
    case (Cons x xs)
    then have "js_join ''/'' ss \<noteq> []" using js_join_plain_ne ss by blast
    with Cons d f show ?thesis by (simp add: path_join_def absolute_ne)
  qed (simp add: path_join_def)
  then show ?thesis using segments_join_below [OF d ss] path_join_absolute [OF d] by simp
qed

lemma artifact_dir_segments:
  "is_absolute cwd \<Longrightarrow> plain env \<Longrightarrow>
   is_absolute (artifact_dir cwd env) \<and> segments (artifact_dir cwd env) = segments cwd @ [''runtime'', env, ''artifacts'', ''capabilities'']"
  unfolding artifact_dir_def by (rule path_join_plain) (simp_all add: plain_def)

lemma stamp_no_slash: "CHR ''/'' \<notin> set now \<Longrightarrow> CHR ''/'' \<notin> set (replace_all_char (CHR '':'') (CHR ''-'') now)"
  by (auto simp: replace_all_char_def)

text \<open>Nothing but files below the directory of artifacts changes.\<close>

definition capability_setting :: "capability_host \<Rightarrow> string \<Rightarrow> string \<Rightarrow> string \<Rightarrow> bool" where
  "capability_setting c env now cwd \<longleftrightarrow> is_absolute (h_cwd (ca_host c)) \<and> is_absolute cwd \<and> plain env \<and>
     CHR ''/'' \<notin> set now \<and> (\<forall>args t. snd (ca_spawn c args t) = t)"

definition artifact_place :: "string \<Rightarrow> string \<Rightarrow> string list" where
  "artifact_place cwd env = segments cwd @ [''runtime'', env, ''artifacts'', ''capabilities'']"

lemma artifact_kept:
  assumes "capability_setting c env now cwd" "CHR ''/'' \<notin> set sfx"
  shows "io_keeps (files_kept_outside (artifact_place cwd env)) (writeCapabilityArtifact (ca_host c) env now cwd title summary out sfx ok)"
proof -
  let ?name = "replace_all_char (CHR '':'') (CHR ''-'') now @ ''-'' @ sfx @ ''.md''"
  let ?dir = "artifact_dir cwd env"
  have cwd: "is_absolute (h_cwd (ca_host c))" "is_absolute cwd" and names: "plain env" "CHR ''/'' \<notin> set now"
    using assms(1) by (simp_all add: capability_setting_def)
  have dir: "is_absolute ?dir" "segments ?dir = artifact_place cwd env"
    using artifact_dir_segments [OF cwd(2) names(1)] by (auto simp: artifact_place_def)
  have "length ?name \<ge> 4" by simp
  then have "?name \<noteq> []" "?name \<noteq> ''.''" "?name \<noteq> ''..''" by auto
  then have "plain ?name" using stamp_no_slash [OF names(2)] assms(2) by (simp add: plain_def)
  then have "is_absolute (path_join [?dir, ?name]) \<and> segments (path_join [?dir, ?name]) = artifact_place cwd env @ [?name]"
    using path_join_plain [OF dir(1), of "[?name]"] dir(2) by simp
  then have "strict_prefix (artifact_place cwd env) (key_of (ca_host c) (path_join [?dir, ?name]))"
    using key_of_absolute [OF cwd(1)] by (simp add: strict_prefix_def)
  then show ?thesis
    unfolding writeCapabilityArtifact_def Let_def
    by (intro io_keeps_bind mkdir_keeps write_keeps io_keeps_return kept_outside_order disjI1)
qed

lemma build_kept:
  "capability_setting c env now cwd \<Longrightarrow> CHR ''/'' \<notin> set sfx \<Longrightarrow> io_keeps (files_kept_outside (artifact_place cwd env)) (buildCapability (ca_host c) env now cwd ok title summary out sfx)"
  unfolding buildCapability_def by (intro io_keeps_bind io_keeps_return artifact_kept kept_outside_order)

lemma outcome_kept: "io_keeps (files_kept_outside (artifact_place cwd env)) (io_outcome x)"
  by (simp add: io_keeps_def io_outcome_def files_kept_outside_def)

lemma spawn_kept:
  "capability_setting c env now cwd \<Longrightarrow> io_keeps (files_kept_outside (artifact_place cwd env)) (io_run (ca_spawn c args))"
  by (auto simp: capability_setting_def io_keeps_def io_run_def files_kept_outside_def split: prod.split) (metis snd_conv)+

lemmas kept = io_keeps_bind io_keeps_return io_keeps_throw build_kept outcome_kept spawn_kept read_keeps kept_outside_order

lemma step_kept:
  "capability_setting c env now cwd \<Longrightarrow> io_keeps (files_kept_outside (artifact_place cwd env)) (capability_step c action command env now cwd)"
  by (cases action)
    (auto simp: executeReadFile_def executeSearchCode_def executeGitStatus_def executeGitDiff_def executeReadLog_def
      executeListFiles_def Let_def intro!: kept)

lemma recover_kept:
  "io_keeps R m \<Longrightarrow> (\<And>e. io_keeps R (f e)) \<Longrightarrow> transp R \<Longrightarrow> io_keeps R (io_recover m f)"
  unfolding io_keeps_def io_recover_def transp_def by (auto split: prod.split sum.split) (metis snd_conv)+

lemma capability_kept:
  assumes "capability_setting c env now cwd"
  shows "io_keeps (files_kept_outside (artifact_place cwd env)) (executeWorkspaceCapability c command env now cwd)"
proof -
  have "CHR ''/'' \<notin> set (capability_action_str a)" for a by (cases a) simp_all
  then show ?thesis
    by (auto simp: executeWorkspaceCapability_def split: option.split intro!: recover_kept step_kept build_kept assms)
qed

text \<open>Every reading answer comes from a path that is let through.\<close>

lemma outcome_bind_run:
  "io_bind (io_outcome x) f t = (Inr r, t') \<longleftrightarrow> (\<exists>y. x = Inr y \<and> f y t = (Inr r, t'))"
  by (auto simp: io_bind_def io_outcome_def split: sum.split)

lemma build_output:
  "fst (buildCapability h env now cwd ok title summary out sfx t) = Inr r \<Longrightarrow> ce_output r = out \<and> ce_ok r = ok"
  by (auto simp: buildCapability_def io_bind_def split: prod.splits sum.splits)

lemma read_file_content:
  "io_bind (read_file h p) f t = (Inr r, t') \<Longrightarrow>
   \<exists>content. jm_get (ft_files t) (key_of h p) = Some content \<and> f content t = (Inr r, t')"
  by (auto simp: io_bind_def read_file_def Let_def unless_refused_def split: if_splits option.splits)

lemma read_file_reads:
  assumes "executeReadFile c command env now cwd t = (Inr r, t')"
  shows "\<exists>p q content. resolveWorkspacePath (h_cwd (ca_host c)) cwd p = Inr q \<and>
    jm_get (ft_files t) (key_of (ca_host c) q) = Some content \<and> ce_output r = limitTextByLines content 220"
proof -
  obtain p q where q: "resolveWorkspacePath (h_cwd (ca_host c)) cwd p = Inr q"
      "io_bind (read_file (ca_host c) q) (\<lambda>content. buildCapability (ca_host c) env now cwd True ''Workspace Read File''
        (''Berhasil membaca '' @ p) (limitTextByLines content 220) ''read-file'') t = (Inr r, t')"
    using assms unfolding executeReadFile_def Let_def
    by (auto simp: outcome_bind_run)
  then show ?thesis using read_file_content [OF q(2)] build_output by (metis fst_conv)
qed

lemma read_log_reads:
  assumes "executeReadLog c command env now cwd t = (Inr r, t')"
  shows "\<exists>p q content n. resolveWorkspacePath (h_cwd (ca_host c)) cwd p = Inr q \<and>
    jm_get (ft_files t) (key_of (ca_host c) q) = Some content \<and> ce_output r = tailLines content n"
proof -
  let ?n = "nullish (readOptionalNumber (cp_lines (oc_parameters command))) 200"
  obtain p q where q: "resolveWorkspacePath (h_cwd (ca_host c)) cwd p = Inr q"
      "io_bind (read_file (ca_host c) q) (\<lambda>content. buildCapability (ca_host c) env now cwd True ''Workspace Read Log''
        (''Berhasil membaca '' @ int_str (max 1 ?n) @ '' baris terakhir dari '' @ p) (tailLines content ?n) ''read-log'') t
       = (Inr r, t')"
    using assms unfolding executeReadLog_def Let_def
    by (auto simp: outcome_bind_run)
  then show ?thesis using read_file_content [OF q(2)] build_output by (metis fst_conv)
qed

section \<open>Properties of the component\<close>

section \<open>A sample host\<close>

definition demo_cap_host :: capability_host where
  "demo_cap_host = \<lparr>ca_host = \<lparr>h_cwd = ''/w'', h_refuses = (\<lambda>_ _. None), h_now = []\<rparr>,
     ca_spawn = (\<lambda>_ t. (\<lparr>sr_status = Some 0, sr_stdout = None, sr_stderr = None\<rparr>, t)),
     ca_stack = (\<lambda>e. e), ca_json = (\<lambda>_. [])\<rparr>"

definition demo_read :: owner_command where
  "demo_read = \<lparr>oc_command_type = Cmd_workspace,
     oc_parameters = no_params\<lparr>cp_action := Some ''read_file'', cp_path := Some ''a''\<rparr>,
     oc_raw_input = [], oc_parsed_at = []\<rparr>"

lemma demo_cap_setting: "capability_setting demo_cap_host ''test'' ''now'' ''/w''"
  by (simp add: capability_setting_def demo_cap_host_def is_absolute_def plain_def)

text \<open>
  C24: If the programs that are run leave the files alone, a workspace request changes no
  file but artifacts below its own directory; and what reading a file or a log answers is a
  run of lines of a file inside the workspace.
\<close>

theorem capability_confined:
  assumes "capability_setting c env now cwd" "executeWorkspaceCapability c command env now cwd t = (x, t')"
  shows "files_kept_outside (artifact_place cwd env) t t' \<and>
    (\<forall>r. x = Inr r \<and> ce_ok r \<and>
       normalizeCapabilityAction (cp_action (oc_parameters command)) \<in> {Some Cap_read_file, Some Cap_read_log} \<longrightarrow>
       (\<exists>k content m n. prefix (segments cwd) k \<and> jm_get (ft_files t) k = Some content \<and>
          ce_output r = js_join [CHR 0x0A] (take n (drop m (js_split (CHR 0x0A) content)))))"
proof (intro conjI allI impI)
  show "files_kept_outside (artifact_place cwd env) t t'"
    using io_keepsD [OF capability_kept [OF assms(1)] assms(2)] .
next
  fix r assume r: "x = Inr r \<and> ce_ok r \<and>
    normalizeCapabilityAction (cp_action (oc_parameters command)) \<in> {Some Cap_read_file, Some Cap_read_log}"
  then obtain a where a: "normalizeCapabilityAction (cp_action (oc_parameters command)) = Some a"
      "a = Cap_read_file \<or> a = Cap_read_log" by blast
  have "capability_step c a command env now cwd t = (Inr r, t')"
    using assms(2) r a(1) build_output
    by (auto simp: executeWorkspaceCapability_def io_recover_def split: prod.splits sum.splits) (metis fst_conv)+
  then obtain p q content where q: "resolveWorkspacePath (h_cwd (ca_host c)) cwd p = Inr q"
      "jm_get (ft_files t) (key_of (ca_host c) q) = Some content"
      "ce_output r = limitTextByLines content 220 \<or> (\<exists>n. ce_output r = tailLines content n)"
    using a(2) read_file_reads read_log_reads by (metis capability_step.simps(1,5))
  have cwd: "is_absolute (h_cwd (ca_host c))" "is_absolute cwd"
    using assms(1) by (simp_all add: capability_setting_def)
  then have "q = path_resolve (h_cwd (ca_host c)) [cwd, p]" "prefix (segments cwd) (segments q)"
    using resolve_exact [OF cwd] q(1) by (auto simp: prefix_def)
  then have "prefix (segments cwd) (key_of (ca_host c) q)"
    using key_of_absolute [OF cwd(1)] resolve_two_absolute [OF cwd] by simp
  moreover have "\<exists>m n. ce_output r = js_join [CHR 0x0A] (take n (drop m (js_split (CHR 0x0A) content)))"
    using q(3) by (metis drop0 limitTextByLines_def tailLines_def take_all_iff le_refl)
  ultimately show "\<exists>k content m n. prefix (segments cwd) k \<and> jm_get (ft_files t) k = Some content \<and>
      ce_output r = js_join [CHR 0x0A] (take n (drop m (js_split (CHR 0x0A) content)))"
    using q(2) by blast
qed

theorem capability_confined_witness:
  "files_kept_outside (artifact_place ''/w'' ''test'') \<lparr>ft_files = [([''w'', ''a''], ''text'')], ft_dirs = [[''w'']]\<rparr>
     (snd (executeWorkspaceCapability demo_cap_host demo_read ''test'' ''now'' ''/w''
       \<lparr>ft_files = [([''w'', ''a''], ''text'')], ft_dirs = [[''w'']]\<rparr>))"
  using capability_confined [OF demo_cap_setting surjective_pairing] by blast

end
