(* ===== verification/Spec2Isabelle.thy ===== *)
theory Spec2Isabelle
  imports Lifecycle_Update Company_Hierarchy Worker_Pool Sales_Flow Support_Flow
    Task_Registry Flow_Engine Provider_Runtime Message_Routing Context_Batch Commitments
    Project_Manager Marketing_Flow Engineering_Flow Product_Runtime
    Ceo_Delegation Operational_App Auto_Compact
    Company_Snapshot Workspace_Capability
begin

text \<open>
  A verification library for the company of agents in this repository.

  \<^bold>\<open>The program.\<close> Agents of eight types (\<^verbatim>\<open>src/src/domain/types.ts\<close>) move projects along a
  lifecycle and send each other typed messages. The agent registry
  (\<^verbatim>\<open>src/src/registry/AgentRegistry.ts\<close>) holds the live agents and projects, decides which message
  may pass and which lifecycle move is legal, and keeps histories, an audit log and a
  communication log. The message bus (\<^verbatim>\<open>src/src/runtime-app/orchestration/messageBus.ts\<close>)
  normalises a message, has the registry route it, runs the receiver and retries it when it
  throws. Work that cannot be done at once goes through the job queue
  (\<^verbatim>\<open>src/src/runtime-app/queue/\<close>) to the worker pool (\<^verbatim>\<open>src/src/runtime-app/workers/pool.ts\<close>).
  The CEO, sales, support, marketing, project manager, product and engineering agents (\<^verbatim>\<open>src/src/agents/\<close>) are
  flows of functions on leads, tickets, campaigns, timelines and workspaces whose messages go over
  the bus; engineering also acts on the files of the host. Beside this, a hierarchy of
  specialist agents (\<^verbatim>\<open>src/src/domain/hierarchy.ts\<close>, \<^verbatim>\<open>src/src/domain/mcpToolsMapping.ts\<close>,
  \<^verbatim>\<open>src/src/registry/subAgentRegistry.ts\<close>, \<^verbatim>\<open>src/src/agents/subagents/\<close>) says which agent may use
  which tools. Under these lie services of their own: tasks with dependencies
  (\<^verbatim>\<open>src/src/tasks/\<close>), resumable flows (\<^verbatim>\<open>src/src/flows/\<close>), the runtime of provider calls with
  its circuit breaker (\<^verbatim>\<open>src/src/provider-runtime/\<close>), message routes (\<^verbatim>\<open>src/src/routing/\<close>), context
  batches (\<^verbatim>\<open>src/src/context-engine/\<close>), commitments (\<^verbatim>\<open>src/src/commitments/\<close>) and the compaction
  of conversations (\<^verbatim>\<open>src/src/memory/compact/\<close>).

  \<^bold>\<open>Theories, in the order of their imports.\<close>
  \<^item> \<open>JS_Prelude\<close>, \<open>JS_Values\<close>, \<open>JS_Collections\<close>, \<open>JS_Date\<close>: the parts of the language and its
    standard library the sources use. Strings, numbers as text, untyped values with JSON
    output; insertion-ordered maps (locale \<open>keyed_store\<close>) and stable sorting (locale
    \<open>collation\<close>); dates in milliseconds with their ISO form and its parser.
  \<^item> \<open>Domain_Types\<close>: the types, tables and checks of \<^verbatim>\<open>types.ts\<close>.
  \<^item> \<open>Agent_Registry\<close>, \<open>Registry_Correct\<close>: the class \<^verbatim>\<open>AgentRegistry\<close> as a record \<open>registry\<close>, one
    definition per method; then the methods as the steps of a machine, the invariant of its
    reachable states, and what it never changes.
  \<^item> \<open>Lifecycle_Update\<close>: the second, throwing way to move a project (\<^verbatim>\<open>lifecycle.ts\<close>), compared
    with the registry's.
  \<^item> \<open>Hierarchy\<close>, \<open>Sub_Agent_Registry\<close>, \<open>Company_Hierarchy\<close>: configurations and tool tables, the
    registry of specialists, and the company as configured, checked by evaluation.
  \<^item> \<open>Queue_Model\<close>, \<open>Queue_Backend\<close>, \<open>Worker_Pool\<close>: jobs and the repository interface (locales
    \<open>job_store\<close> and \<open>ordered_job_store\<close>, interpreted on the in-memory repository), the queue's
    methods on any such repository, and the pool of workers on the queue.
  \<^item> \<open>Message_Bus\<close>: normalisation, and dispatch as a function of the application, the adapters
    and a fuel.
  \<^item> \<open>Sales_Flow\<close>, \<open>Support_Flow\<close>: leads, proposals, tickets, escalations and knowledge.
  \<^item> \<open>Project_Manager\<close>, \<open>Marketing_Flow\<close>: timelines and their health; campaigns, assets, lead
    retries and the store; \<open>Product_Runtime\<close>: specs, approvals and the handoff to engineering.
    Percentages are computed in double precision (\<open>JS_Double\<close>).
  \<^item> \<open>Ceo_Commands\<close>, \<open>Ceo_Model\<close>, \<open>Ceo_Reports\<close>, \<open>Ceo_Runtime\<close>, \<open>Ceo_Delegation\<close>: the directives of the
    owner and their parsers, over \<open>JS_Regex\<close> (patterns by backtracking) and \<open>JS_Number\<close> (numbers read
    from text); the state of the CEO agent, what it reads off it, and its operations.
  \<^item> \<open>Engineering_Workspace\<close>, \<open>Engineering_Flow\<close>: the files of a project and the tools on them, over
    \<open>JS_Path\<close> (path arithmetic), \<open>JS_Files\<close> (a tree of files with operations that may fail) and
    \<open>JS_Json\<close> (JSON text and its parser); then the agent, on the registry and the files.
  \<^item> \<open>Runtime_World\<close>, \<open>Agent_Adapters\<close>, \<open>Operational_App\<close>: the running application
    (\<^verbatim>\<open>src/src/runtime-app/integration/\<close>, \<^verbatim>\<open>src/src/runtime-app/orchestration/runtimeApp.ts\<close>): the state the
    agents share, one adapter per agent that turns a message into calls of its flow and answers,
    and the bus, the tasks, the approvals and the department runs over them. The shell of
    \<^verbatim>\<open>src/src/runtime/\<close> is not in the repository; its operations are parameters.
  \<^item> \<open>Company_Snapshot\<close>, \<open>Workspace_Capability\<close>: the snapshot of the company and the read model of the
    dashboard (\<^verbatim>\<open>src/src/app/\<close>), and what the owner may ask of the files and of git
    (\<^verbatim>\<open>src/src/runtime-app/capabilities.ts\<close>); the programs it runs are parameters.
  \<^item> \<open>Conversation\<close>, \<open>Micro_Compact\<close>, \<open>Session_Memory\<close>, \<open>Compact_Summary\<close>, \<open>Compaction\<close>,
    \<open>Auto_Compact\<close>: how a conversation with a model is kept short (\<^verbatim>\<open>src/src/memory/compact/\<close>,
    \<^verbatim>\<open>src/src/memory/session/\<close>): its round trips, old results of tools cleared, the notes on a
    session, the summary, what is put back after it, and when all this starts.
  \<^item> \<open>Task_Graph\<close>, \<open>Task_Registry\<close>: the cycle check and the topological sort as recursive functions
    that always end, and the registry as a machine whose order of registration is topological.
  \<^item> \<open>Flow_Engine\<close>: the engine on any store with the law of the locale \<open>flow_storage\<close>, interpreted
    on the in-memory store.
  \<^item> \<open>Provider_Runtime\<close>, \<open>Message_Routing\<close>, \<open>Context_Batch\<close>, \<open>Commitments\<close>.

  \<^bold>\<open>Conventions.\<close> A class is a record of its private fields and its methods are functions to the
  record, returned changed; an exception is the \<open>Inl\<close> side of a sum, or an optional error next to
  the state when the state has changed before the exception. An awaited call is a plain call:
  the classes are used by one caller at a time, and where several callers matter (the queue) the
  properties speak of arbitrary sequences of operations. Reads of the clock are a function from
  the number of the reading to a text, counted in the state. An absent or undefined property is
  \<open>None\<close>. Copies made against aliasing are identities, since values here are not shared. Numbers
  that the sources only count or compare are integers. A text is a list of characters up to 255,
  so code units above are out of the model; literals in the configured company with such
  characters are written by their UTF-8 bytes. The host's collation (\<^verbatim>\<open>localeCompare\<close>) is a
  parameter with the laws of a total preorder (locale \<open>collation\<close>); the schema library is a
  parameter that tells how an untyped value reads as a configuration.

  \<^bold>\<open>What the lemmas show.\<close> Registry: the invariant of reachable registries, exact conditions for
  routing, for transitions and for acknowledgments, their effects, and that logs and histories
  only grow. Domain: exactness of the message validator, that lifecycle moves never lead back,
  round trip and isolation of namespaces. Hierarchy: exactness of the tool check, atomicity of
  batches, order of the children, validity of the configured company. Queue: the order of claims,
  exclusiveness of a claim, the bound on attempts and where it fails, delays of retries, recovery,
  metrics. Pool: what a worker's turn does, and that a cycle ends with every worker at rest. Bus:
  termination under a measure on messages, the exact trace of a failing receiver, validity of
  normalised messages. Flows: the invariants of leads and ticket histories, creation of tickets,
  the knowledge search, redaction of client texts, and which of their messages the registry can
  accept. Tasks: the cycle check against reachability, the sort against its specification, a
  refresh as one simultaneous update, and that dependencies never deadlock. Flow engine: a step
  that succeeded is not repeated while the definition keeps its steps, and where a failed run stands. Provider runtime: what the
  breaker remembers, the exact trace of attempts and pauses, and that a time limit makes every
  call return. Project manager: the milestones keep their order and their times, which one each
  handoff and each answer moves, and when the timeline is at risk. Marketing: the counters of a lead retry, and that a store is restored from
  its snapshot. Engineering: no tool but those that run commands changes a file outside the
  workspace, when an artifact is written, and that a recovery snapshot is read back as written,
  which rests on the round trip of the JSON printer and parser; which handoffs it accepts, and
  that nothing is delivered without an approval. Product: the invariant of its projects, which lead
  handoffs it takes, and that an approval is not bound to the version it was given for. CEO: the
  lock of the owner's access, how long it holds and when it comes again, that a directive changes agents and projects only when the owner
  sends it, new ids for provided agents, the invariant of delegations and broadcasts, and what a
  restart keeps and forgets. Running application: every message an adapter sends is well formed and
  of smaller rank, so a dispatch of any message returns; which handoffs cross the bridges between
  the agents, and two places where the chain of messages stops, for all later states. Compaction: no kept result of a
  tool is without its use, which results are cleared, what truncation keeps of the notes, the
  bounds on requests and on attempts, and that compaction starts before the limit that blocks.
  Snapshot: the open approvals as a function of their history, and what the dashboard counts.
  Capabilities: which paths are let through, and that only artifacts are written.

  \<^bold>\<open>Bounds and fuel.\<close> \<open>dispatch\<close> has a fuel: a dispatch may call itself for the answers of a
  receiver and for retries, and two agents that answer each other for ever never return.
  \<open>dispatch_fuel\<close> is linear in the rank of the message, the attempts left and the number of
  answers, and \<open>Message_Bus.dispatch_terminates\<close> proves it enough for adapters whose answers have
  smaller rank; \<open>bus_fuel\<close> is enough for the adapters of the application
  (\<open>Operational_App.dispatch_always_ends\<close>). The JSON parser of \<open>JS_Json\<close> has a fuel of twice the length of its text and two,
  and \<open>json_roundtrip\<close> proves that enough for every text the printer makes. The wait of a compaction
  for an update of the notes is a \<open>partial_function (option)\<close>, and \<open>wait_bounded\<close> proves that it ends
  when the clock goes on. Every other function is total in HOL.

  \<^bold>\<open>Not modelled.\<close> Input and output (server, terminal, channels, providers, tool protocol), what
  calls language models (of compaction: the prompts, the stream with its own attempts within one
  request, the attachments of plans and agents), and the operator's view of the runtime (\<^verbatim>\<open>src/src/runtime-app/state.ts\<close>), which
  stands on that shell and a data base. Child processes and what the
  host refuses on files are parameters; links between files are left out.
\<close>

end
